(* ===== verification/Akmon_Prelude.thy ===== *)
theory Akmon_Prelude
  imports Main "HOL-Library.Word"
begin

text \<open>
  Shared vocabulary of the development: machine integer and byte types, the result type of
  the fallible Rust functions (\<open>Result<T, E>\<close> is \<open>'e + 'a\<close>, \<open>Inl\<close> the error), the chaining
  operator that models the question-mark operator, the decimal formatting of the standard
  library, and the generic list and option facts the components share.
\<close>

section \<open>Types\<close>

type_synonym byte = "8 word"
type_synonym u32 = "32 word"
type_synonym u64 = "64 word"

text \<open>\<open>time::OffsetDateTime\<close> values are instants; equality and order of the type compare the
  instant, which an integer number of nanoseconds since the Unix epoch represents. The
  conversions of the crate stay parameters of the model.\<close>

type_synonym datetime = int

named_theorems akmon_simps "defining equations the component proofs unfold"
named_theorems akmon_inv "preservation facts of the component invariants"

section \<open>Results\<close>

text \<open>\<open>res_bind r f\<close> is \<open>f(r?)\<close>: an error is returned unchanged.\<close>

fun res_bind :: "'e + 'a \<Rightarrow> ('a \<Rightarrow> 'e + 'b) \<Rightarrow> 'e + 'b" where
  "res_bind (Inl e) f = Inl e"
| "res_bind (Inr x) f = f x"

text \<open>\<open>map_err\<close> of \<open>Result\<close>.\<close>

fun map_err :: "('e \<Rightarrow> 'f) \<Rightarrow> 'e + 'a \<Rightarrow> 'f + 'a" where
  "map_err g (Inl e) = Inl (g e)"
| "map_err g (Inr x) = Inr x"

text \<open>\<open>ok_or\<close> of \<open>Option\<close>.\<close>

fun ok_or :: "'e \<Rightarrow> 'a option \<Rightarrow> 'e + 'a" where
  "ok_or e None = Inl e"
| "ok_or e (Some x) = Inr x"

fun is_ok :: "'e + 'a \<Rightarrow> bool" where
  "is_ok (Inl e) = False"
| "is_ok (Inr x) = True"

text \<open>Collecting an iterator of results: the first error wins.\<close>

fun res_map :: "('a \<Rightarrow> 'e + 'b) \<Rightarrow> 'a list \<Rightarrow> 'e + 'b list" where
  "res_map f [] = Inr []"
| "res_map f (x # xs) = res_bind (f x) (\<lambda>y. res_bind (res_map f xs) (\<lambda>ys. Inr (y # ys)))"

lemma res_bind_Inr_iff [simp]:
  "res_bind r f = Inr y \<longleftrightarrow> (\<exists>x. r = Inr x \<and> f x = Inr y)"
  by (cases r) auto

lemma res_bind_Inl_iff:
  "res_bind r f = Inl e \<longleftrightarrow> r = Inl e \<or> (\<exists>x. r = Inr x \<and> f x = Inl e)"
  by (cases r) auto

lemma map_err_Inr_iff [simp]: "map_err g r = Inr y \<longleftrightarrow> r = Inr y"
  by (cases r) auto

lemma ok_or_Inr_iff [simp]: "ok_or e m = Inr y \<longleftrightarrow> m = Some y"
  by (cases m) auto

lemma is_ok_iff: "is_ok r \<longleftrightarrow> (\<exists>x. r = Inr x)"
  by (cases r) auto

lemma res_map_Inr_iff:
  "res_map f xs = Inr ys \<longleftrightarrow> list_all2 (\<lambda>x y. f x = Inr y) xs ys"
  by (induction xs arbitrary: ys) (auto simp: list_all2_Cons1)

lemma res_map_Inr_pointwise:
  "(\<And>x. x \<in> set xs \<Longrightarrow> f x = Inr (g x)) \<Longrightarrow> res_map f xs = Inr (map g xs)"
  by (induction xs) auto

section \<open>Decimal formatting\<close>

definition digit_char :: "nat \<Rightarrow> char" where
  "digit_char d = char_of (48 + d)"

fun show_nat :: "nat \<Rightarrow> string" where
  "show_nat n = (if n < 10 then [digit_char n] else show_nat (n div 10) @ [digit_char (n mod 10)])"

declare show_nat.simps [simp del]

definition show_int :: "int \<Rightarrow> string" where
  "show_int i = (if i < 0 then ''-'' @ show_nat (nat (- i)) else show_nat (nat i))"

section \<open>Lists and options\<close>

lemma last_Some_conv: "xs \<noteq> [] \<Longrightarrow> last xs = xs ! (length xs - 1)"
  by (rule last_conv_nth)

text \<open>\<open>first\<close> and \<open>last\<close> of a slice.\<close>

fun head_opt :: "'a list \<Rightarrow> 'a option" where
  "head_opt [] = None"
| "head_opt (x # xs) = Some x"

definition last_opt :: "'a list \<Rightarrow> 'a option" where
  "last_opt xs = (if xs = [] then None else Some (last xs))"

lemma head_opt_singleton_iff:
  "\<not> (length xs \<noteq> 1 \<or> head_opt xs \<noteq> Some x) \<longleftrightarrow> xs = [x]"
  by (cases xs) auto

lemma last_opt_simps [simp]:
  "last_opt [] = None"
  "last_opt (xs @ [x]) = Some x"
  "last_opt (x # xs) = Some (last (x # xs))"
  by (simp_all add: last_opt_def)

section \<open>Hash maps\<close>

text \<open>
  A \<open>HashMap\<close> is an association list in its (unspecified) iteration order with distinct keys;
  theorems about it hold for every order. \<open>hm_insert\<close> replaces or adds, \<open>hm_insert_vacant\<close> is
  \<open>entry(k).or_insert(v)\<close>.
\<close>

type_synonym ('k, 'v) hash_map = "('k \<times> 'v) list"

definition hm_wf :: "('k, 'v) hash_map \<Rightarrow> bool" where
  "hm_wf m \<longleftrightarrow> distinct (map fst m)"

definition hm_get :: "('k, 'v) hash_map \<Rightarrow> 'k \<Rightarrow> 'v option" where
  "hm_get m k = map_of m k"

definition hm_contains :: "('k, 'v) hash_map \<Rightarrow> 'k \<Rightarrow> bool" where
  "hm_contains m k \<longleftrightarrow> map_of m k \<noteq> None"

fun hm_insert :: "'k \<Rightarrow> 'v \<Rightarrow> ('k, 'v) hash_map \<Rightarrow> ('k, 'v) hash_map" where
  "hm_insert k v [] = [(k, v)]"
| "hm_insert k v (p # m) = (if fst p = k then (k, v) # m else p # hm_insert k v m)"

definition hm_insert_vacant :: "'k \<Rightarrow> 'v \<Rightarrow> ('k, 'v) hash_map \<Rightarrow> ('k, 'v) hash_map" where
  "hm_insert_vacant k v m = (if map_of m k = None then hm_insert k v m else m)"

definition hm_remove :: "'k \<Rightarrow> ('k, 'v) hash_map \<Rightarrow> ('k, 'v) hash_map" where
  "hm_remove k m = filter (\<lambda>p. fst p \<noteq> k) m"

lemma hm_get_insert [simp]: "hm_get (hm_insert k v m) = (hm_get m)(k \<mapsto> v)"
  unfolding hm_get_def by (induction m) (auto simp: fun_eq_iff)

lemma hm_keys_insert: "fst ` set (hm_insert k v m) = insert k (fst ` set m)"
  by (induction m) auto

lemma hm_wf_insert [simp, intro]: "hm_wf m \<Longrightarrow> hm_wf (hm_insert k v m)"
  unfolding hm_wf_def using hm_keys_insert [of k v]
  by (induction m) (auto simp: image_iff)

lemma hm_get_insert_vacant [simp]:
  "hm_get (hm_insert_vacant k v m) =
     (case hm_get m k of None \<Rightarrow> (hm_get m)(k \<mapsto> v) | Some _ \<Rightarrow> hm_get m)"
  by (auto simp: hm_insert_vacant_def hm_get_def [of m k] split: option.splits)

lemma hm_wf_insert_vacant [simp, intro]: "hm_wf m \<Longrightarrow> hm_wf (hm_insert_vacant k v m)"
  by (simp add: hm_insert_vacant_def)

lemma hm_get_remove [simp]: "hm_get (hm_remove k m) = (hm_get m)(k := None)"
  unfolding hm_get_def hm_remove_def by (induction m) (auto simp: fun_eq_iff)

lemma hm_contains_iff [simp]: "hm_contains m k \<longleftrightarrow> hm_get m k \<noteq> None"
  by (simp add: hm_contains_def hm_get_def)

lemma hm_get_iff: "hm_wf m \<Longrightarrow> hm_get m k = Some v \<longleftrightarrow> (k, v) \<in> set m"
  by (simp add: hm_get_def hm_wf_def)

section \<open>Words\<close>

text \<open>Positions as 64-bit sequence numbers.\<close>

lemma word64_of_nat_inj:
  assumes "i < 2 ^ 64" "j < 2 ^ 64" "(of_nat i :: u64) = of_nat j"
  shows "i = j"
proof -
  have "unat (of_nat i :: u64) = unat (of_nat j :: u64)"
    using assms(3) by (rule arg_cong)
  with assms(1,2) show ?thesis by (simp only: unat_of_nat) simp
qed

section \<open>Big-endian byte strings\<close>

text \<open>\<open>to_be_bytes\<close> and \<open>from_be_bytes\<close>: \<open>be_bytes k n\<close> are the \<open>k\<close> low bytes of \<open>n\<close>, most
  significant first.\<close>

fun be_bytes :: "nat \<Rightarrow> nat \<Rightarrow> byte list" where
  "be_bytes 0 n = []"
| "be_bytes (Suc k) n = be_bytes k (n div 256) @ [of_nat (n mod 256)]"

definition be_value :: "byte list \<Rightarrow> nat" where
  "be_value bs = foldl (\<lambda>a b. a * 256 + unat b) 0 bs"

definition u64_to_be :: "u64 \<Rightarrow> byte list" where
  "u64_to_be w = be_bytes 8 (unat w)"

definition u64_from_be :: "byte list \<Rightarrow> u64" where
  "u64_from_be bs = of_nat (be_value bs)"

definition u32_to_be :: "u32 \<Rightarrow> byte list" where
  "u32_to_be w = be_bytes 4 (unat w)"

definition u32_from_be :: "byte list \<Rightarrow> u32" where
  "u32_from_be bs = of_nat (be_value bs)"

lemma length_be_bytes [simp]: "length (be_bytes k n) = k"
  by (induction k arbitrary: n) auto

lemma be_value_snoc [simp]: "be_value (bs @ [b]) = be_value bs * 256 + unat b"
  by (simp add: be_value_def)

lemma be_value_be_bytes: "be_value (be_bytes k n) = n mod 256 ^ k"
proof (induction k arbitrary: n)
  case 0
  show ?case by (simp add: be_value_def)
next
  case (Suc k)
  have "unat (of_nat (n mod 256) :: byte) = n mod 256"
    by (simp add: unat_of_nat)
  then have "be_value (be_bytes (Suc k) n) = (n div 256 mod 256 ^ k) * 256 + n mod 256"
    using Suc.IH [of "n div 256"] by simp
  also have "\<dots> = n mod (256 * 256 ^ k)"
    by (simp add: mod_mult2_eq)
  finally show ?case by simp
qed

lemma u64_be_roundtrip [simp]: "u64_from_be (u64_to_be w) = w"
proof -
  have "unat w < 2 ^ 64" by (rule order_less_le_trans [OF unsigned_less]) simp
  then have "unat w mod 256 ^ 8 = unat w" by simp
  then show ?thesis by (simp add: u64_from_be_def u64_to_be_def be_value_be_bytes)
qed

lemma u32_be_roundtrip [simp]: "u32_from_be (u32_to_be w) = w"
proof -
  have "unat w < 2 ^ 32" by (rule order_less_le_trans [OF unsigned_less]) simp
  then have "unat w mod 256 ^ 4 = unat w" by simp
  then show ?thesis by (simp add: u32_from_be_def u32_to_be_def be_value_be_bytes)
qed

lemma length_u64_to_be [simp]: "length (u64_to_be w) = 8"
  by (simp add: u64_to_be_def)

lemma length_u32_to_be [simp]: "length (u32_to_be w) = 4"
  by (simp add: u32_to_be_def)

lemma u64_to_be_inj [simp]: "u64_to_be v = u64_to_be w \<longleftrightarrow> v = w"
  by (metis u64_be_roundtrip)

lemma be_value_less: "be_value bs < 256 ^ length bs"
proof (induction bs rule: rev_induct)
  case (snoc b bs)
  have "unat b < 256" using unsigned_less [of b, where ?'a = nat] by simp
  with snoc show ?case by simp
qed (simp add: be_value_def)

lemma be_bytes_be_value: "be_bytes (length bs) (be_value bs) = bs"
proof (induction bs rule: rev_induct)
  case (snoc b bs)
  have "unat b < 256" using unsigned_less [of b, where ?'a = nat] by simp
  with snoc show ?case by simp
qed simp

lemma u32_to_from_be: "length bs = 4 \<Longrightarrow> u32_to_be (u32_from_be bs) = bs"
  using be_value_less [of bs] be_bytes_be_value [of bs]
  by (simp add: u32_to_be_def u32_from_be_def unat_of_nat)

lemma unat_u32_less: "unat (w :: u32) < 2 ^ 32"
  by (rule order_less_le_trans [OF unsigned_less]) simp

section \<open>String search\<close>

text \<open>\<open>str::contains\<close>, \<open>starts_with\<close> and \<open>trim_start_matches\<close> for a non-empty pattern.\<close>

fun starts_with :: "string \<Rightarrow> string \<Rightarrow> bool" where
  "starts_with [] s = True"
| "starts_with (c # p) [] = False"
| "starts_with (c # p) (d # s) = (c = d \<and> starts_with p s)"

fun str_contains :: "string \<Rightarrow> string \<Rightarrow> bool" where
  "str_contains p [] = (p = [])"
| "str_contains p (c # s) = (starts_with p (c # s) \<or> str_contains p s)"

lemma starts_with_iff: "starts_with p s \<longleftrightarrow> (\<exists>t. s = p @ t)"
  by (induction p s rule: starts_with.induct) auto

lemma str_contains_iff: "str_contains p s \<longleftrightarrow> (\<exists>a b. s = a @ p @ b)"
proof (induction s)
  case (Cons c s)
  have "(\<exists>a b. c # s = a @ p @ b) \<longleftrightarrow> (\<exists>b. c # s = p @ b) \<or> (\<exists>a b. s = a @ p @ b)"
    by (auto simp: Cons_eq_append_conv)
  with Cons show ?case by (simp add: starts_with_iff)
qed simp

section \<open>Text\<close>

definition LF :: char where
  "LF = CHR 0x0A"

text \<open>Strings are UTF-8 byte strings, one \<open>char\<close> per byte. \<open>str::as_bytes\<close>, and \<open>str::trim\<close>, which
  strips the code points with the Unicode property White_Space, listed in their encodings.\<close>

definition as_bytes :: "string \<Rightarrow> byte list" where
  "as_bytes s = map (\<lambda>c. of_nat (of_char c)) s"

definition ws_single :: "char list" where
  "ws_single = [CHR 0x09, CHR 0x0A, CHR 0x0B, CHR 0x0C, CHR 0x0D, CHR 0x20]"

definition ws_multi :: "string list" where
  "ws_multi =
     [[CHR 0xC2, CHR 0x85], [CHR 0xC2, CHR 0xA0], [CHR 0xE1, CHR 0x9A, CHR 0x80],
      [CHR 0xE2, CHR 0x81, CHR 0x9F], [CHR 0xE3, CHR 0x80, CHR 0x80]]
     @ map (\<lambda>c. [CHR 0xE2, CHR 0x80, c])
         [CHR 0x80, CHR 0x81, CHR 0x82, CHR 0x83, CHR 0x84, CHR 0x85, CHR 0x86, CHR 0x87, CHR 0x88,
          CHR 0x89, CHR 0x8A, CHR 0xA8, CHR 0xA9, CHR 0xAF]"

definition ws_codes :: "string list" where
  "ws_codes = map (\<lambda>c. [c]) ws_single @ ws_multi"

text \<open>Strip any of the given patterns from the front, as often as one matches.\<close>

function strip_codes :: "string list \<Rightarrow> string \<Rightarrow> string" where
  "strip_codes codes s =
     (case find (\<lambda>w. w \<noteq> [] \<and> starts_with w s) codes of
        Some w \<Rightarrow> strip_codes codes (drop (length w) s)
      | None \<Rightarrow> s)"
  by pat_completeness auto
termination
  by (relation "measure (\<lambda>(codes, s). length s)") (auto simp: find_Some_iff starts_with_iff)

declare strip_codes.simps [simp del]

definition trim_start_ws :: "string \<Rightarrow> string" where
  "trim_start_ws s = strip_codes ws_codes s"

definition trim_end_ws :: "string \<Rightarrow> string" where
  "trim_end_ws s = rev (strip_codes (map rev ws_codes) (rev s))"

definition trim_ws :: "string \<Rightarrow> string" where
  "trim_ws s = trim_end_ws (trim_start_ws s)"

lemma as_bytes_inj [simp]: "as_bytes s = as_bytes t \<longleftrightarrow> s = t"
proof -
  have "c = d" if "(of_nat (of_char c) :: byte) = of_nat (of_char d)" for c d
  proof -
    from that have "unat (of_nat (of_char c) :: byte) = unat (of_nat (of_char d) :: byte)"
      by (rule arg_cong)
    then have "(of_char c :: nat) mod 256 = of_char d mod 256"
      by (simp only: unat_of_nat) simp
    then have "(of_char c :: nat) = of_char d" by (simp only: of_char_mod_256)
    then show ?thesis by simp
  qed
  then have "inj (\<lambda>c. of_nat (of_char c) :: byte)" by (rule injI)
  then show ?thesis by (simp add: as_bytes_def inj_map_eq_map)
qed

text \<open>\<open>to_lowercase\<close> on ASCII text and \<open>str::to_ascii_lowercase\<close>.\<close>

definition ascii_lower :: "char \<Rightarrow> char" where
  "ascii_lower c =
     (if 65 \<le> (of_char c :: nat) \<and> (of_char c :: nat) \<le> 90 then char_of ((of_char c :: nat) + 32) else c)"

definition to_ascii_lowercase :: "string \<Rightarrow> string" where
  "to_ascii_lowercase s = map ascii_lower s"

text \<open>\<open>str::split\<close> at a character.\<close>

fun split_on :: "char \<Rightarrow> string \<Rightarrow> string list" where
  "split_on c [] = [[]]"
| "split_on c (x # xs) =
     (if x = c then [] # split_on c xs
      else case split_on c xs of [] \<Rightarrow> [[x]] | y # ys \<Rightarrow> (x # y) # ys)"

lemma split_on_set: "set s \<subseteq> insert c (\<Union> (set ` set (split_on c s)))"
proof (induction s)
  case (Cons x s)
  then show ?case by (cases "split_on c s") (auto dest!: subsetD)
qed simp

text \<open>\<open>[String]::join\<close>.\<close>

fun join :: "string \<Rightarrow> string list \<Rightarrow> string" where
  "join sep [] = []"
| "join sep [s] = s"
| "join sep (s # t # ss) = s @ sep @ join sep (t # ss)"

end
