(* ===== verification/Hashing.thy ===== *)
theory Hashing
  imports Akmon_Prelude
begin

text \<open>
  \<open>akmon-journal/src/hash.rs\<close> and \<open>akmon-journal/src/error.rs\<close>: hash algorithms, digests, their
  hexadecimal and wire forms, and the journal's error type. The digest functions (crates
  \<open>sha2\<close> and \<open>blake3\<close>) and the hexadecimal codec (crate \<open>hex\<close>) are parameters, fields of the
  record \<open>hash_ext\<close>; \<open>hash_ext_ok\<close> states what their documentation promises.
\<close>

datatype hash_algorithm = Sha256 | Blake3

definition hash_algorithm_to_string :: "hash_algorithm \<Rightarrow> string" where
  "hash_algorithm_to_string a = (case a of Sha256 \<Rightarrow> ''sha256'' | Blake3 \<Rightarrow> ''blake3'')"

text \<open>The AGEF version of \<open>akmon-journal/src/lib.rs\<close>.\<close>

definition AGEF_SPEC_VERSION :: string where
  "AGEF_SPEC_VERSION = ''0.1.3''"

definition SHA256_LEN :: nat where
  "SHA256_LEN = 32"

text \<open>Digest bytes \<open>[u8; 32]\<close> are byte lists; the invariant \<open>hash_wf\<close> records the length.\<close>

record hash =
  h_algorithm :: hash_algorithm
  h_bytes :: "byte list"

text \<open>\<open>WireHash\<close>: the bytes only.\<close>

datatype wire_hash = WireHash (wire_bytes: "byte list")

text \<open>The error type of the journal. Payloads that come from other crates are messages.\<close>

datatype journal_error =
    JIo string
  | JStorage string
  | JStorageTx string
  | JPostcard string
  | JCbor string
  | JHashAlgorithmMismatch hash_algorithm hash_algorithm
  | JUnknownHashAlgorithm string
  | JHashParse string
  | JSessionNotFound "byte list"
  | JMissingParent hash
  | JVerification string
  | JBusy

section \<open>External functions\<close>

record hash_ext =
  x_sha256 :: "byte list \<Rightarrow> byte list"
  x_blake3 :: "byte list \<Rightarrow> byte list"
  x_hex_encode :: "byte list \<Rightarrow> string"
  x_hex_decode :: "string \<Rightarrow> string + byte list"

text \<open>Lowercase hexadecimal digits.\<close>

definition is_lower_hex :: "char \<Rightarrow> bool" where
  "is_lower_hex c \<longleftrightarrow> c \<in> set ''0123456789abcdef''"

definition hash_ext_ok :: "'x hash_ext_scheme \<Rightarrow> bool" where
  "hash_ext_ok X \<longleftrightarrow>
     (\<forall>b. length (x_sha256 X b) = 32) \<and> (\<forall>b. length (x_blake3 X b) = 32) \<and>
     (\<forall>b. length (x_hex_encode X b) = 2 * length b \<and> list_all is_lower_hex (x_hex_encode X b)) \<and>
     (\<forall>b. x_hex_decode X (x_hex_encode X b) = Inr b) \<and>
     (\<forall>s b. x_hex_decode X s = Inr b \<longrightarrow> length s = 2 * length b)"

section \<open>Operations\<close>

definition hash_from_bytes :: "hash_algorithm \<Rightarrow> byte list \<Rightarrow> hash" where
  "hash_from_bytes a b = \<lparr>h_algorithm = a, h_bytes = b\<rparr>"

definition parse_hex :: "'x hash_ext_scheme \<Rightarrow> hash_algorithm \<Rightarrow> string \<Rightarrow> journal_error + hash" where
  "parse_hex X a hex_text =
     (case x_hex_decode X hex_text of
        Inl err \<Rightarrow> Inl (JHashParse (''invalid hex string: '' @ err))
      | Inr decoded \<Rightarrow>
          if length decoded \<noteq> SHA256_LEN
          then Inl (JHashParse (''expected '' @ show_nat SHA256_LEN @ '' bytes, got ''
                                @ show_nat (length decoded)))
          else Inr \<lparr>h_algorithm = a, h_bytes = decoded\<rparr>)"

definition to_hex :: "'x hash_ext_scheme \<Rightarrow> hash \<Rightarrow> string" where
  "to_hex X h = x_hex_encode X (h_bytes h)"

definition to_wire :: "hash \<Rightarrow> wire_hash" where
  "to_wire h = WireHash (h_bytes h)"

definition from_wire :: "hash_algorithm \<Rightarrow> wire_hash \<Rightarrow> hash" where
  "from_wire a w = \<lparr>h_algorithm = a, h_bytes = wire_bytes w\<rparr>"

text \<open>\<open>Deserialize\<close> for \<open>WireHash\<close>, from the byte vector serde delivers.\<close>

definition wire_hash_deserialize :: "byte list \<Rightarrow> string + wire_hash" where
  "wire_hash_deserialize raw =
     (if length raw \<noteq> SHA256_LEN
      then Inl (''expected 32-byte hash, got '' @ show_nat (length raw) @ '' bytes'')
      else Inr (WireHash raw))"

definition digest_bytes :: "'x hash_ext_scheme \<Rightarrow> hash_algorithm \<Rightarrow> byte list \<Rightarrow> hash" where
  "digest_bytes X a input =
     \<lparr>h_algorithm = a,
      h_bytes = (case a of Sha256 \<Rightarrow> x_sha256 X input | Blake3 \<Rightarrow> x_blake3 X input)\<rparr>"

section \<open>Facts\<close>

definition hash_wf :: "hash \<Rightarrow> bool" where
  "hash_wf h \<longleftrightarrow> length (h_bytes h) = SHA256_LEN"

lemma digest_bytes_algorithm [simp]: "h_algorithm (digest_bytes X a b) = a"
  by (simp add: digest_bytes_def)

lemma digest_bytes_wf: "hash_ext_ok X \<Longrightarrow> hash_wf (digest_bytes X a b)"
  by (cases a) (auto simp: digest_bytes_def hash_wf_def hash_ext_ok_def SHA256_LEN_def)

lemma hash_eq_iff: "h = h' \<longleftrightarrow> h_algorithm h = h_algorithm h' \<and> h_bytes h = h_bytes h'"
  for h h' :: hash
  by (cases h, cases h') simp

lemma to_wire_eq_iff:
  "h_algorithm h = h_algorithm h' \<Longrightarrow> to_wire h = to_wire h' \<longleftrightarrow> h = h'"
  by (simp add: to_wire_def hash_eq_iff)

lemma from_wire_to_wire [simp]: "from_wire (h_algorithm h) (to_wire h) = h"
  by (simp add: from_wire_def to_wire_def)

lemma hex_decode_encode [simp]:
  "hash_ext_ok X \<Longrightarrow> x_hex_decode X (x_hex_encode X b) = Inr b"
  by (simp add: hash_ext_ok_def)

lemma hex_encode_inj: "hash_ext_ok X \<Longrightarrow> x_hex_encode X b = x_hex_encode X b' \<longleftrightarrow> b = b'"
  by (metis hex_decode_encode sum.inject(2))

lemma parse_hex_to_hex:
  "hash_ext_ok X \<Longrightarrow> hash_wf h \<Longrightarrow> parse_hex X (h_algorithm h) (to_hex X h) = Inr h"
  by (simp add: parse_hex_def to_hex_def hash_wf_def)

lemma parse_hex_InrD:
  "parse_hex X a s = Inr h \<Longrightarrow> h_algorithm h = a \<and> hash_wf h \<and> x_hex_decode X s = Inr (h_bytes h)"
  by (auto simp: parse_hex_def hash_wf_def split: sum.splits if_splits)

lemma wire_hash_deserialize_to_wire:
  "hash_wf h \<Longrightarrow> wire_hash_deserialize (wire_bytes (to_wire h)) = Inr (to_wire h)"
  by (simp add: wire_hash_deserialize_def to_wire_def hash_wf_def)

end
