(* ===== verification/Events.thy ===== *)
theory Events
  imports Hashing
begin

text \<open>
  \<open>akmon-journal/src/event.rs\<close>: session events, the object hashes an event refers to, the wire
  form that is hashed, and the content hash. The CBOR encoder (crate \<open>ciborium\<close>) and the
  conversion of a timestamp to Unix seconds (crate \<open>time\<close>) are parameters of the model.
\<close>

section \<open>Event types\<close>

datatype attempt_status =
    Success | RateLimited | NetworkError | ServerError | ClientError | Cancelled | Other string

record attempt_record =
  at_attempt_number :: u32
  at_started_at :: datetime
  at_ended_at :: datetime
  at_status :: attempt_status
  at_request_hash :: hash
  at_response_hash :: "hash option"
  at_stream_hash :: "hash option"
  at_error_message :: "string option"

datatype event_kind =
    SessionStart (cwd_hash: hash) (config_hash: hash)
  | UserTurn (prompt_hash: hash)
  | ProviderCall (provider_id: string) (attempts: "attempt_record list") (stream_hash: "hash option")
  | ToolCall (tool_id: string) (input_hash: hash) (output_hash: hash)
      (side_effects_hash: "hash option")
  | RetrievalCall (index_id: string) (query_hash: hash) (results_hash: hash)
  | PermissionGate (policy_id: string) (decision: string) (context_hash: hash)
  | AssistantTurn (message_hash: hash) (tool_calls_hash: "hash option")
  | SessionEnd (summary_hash: "hash option")

record event =
  ev_parents :: "hash list"
  ev_kind :: event_kind
  ev_emitted_at :: datetime
  ev_sequence :: u64

definition is_session_start :: "event_kind \<Rightarrow> bool" where
  "is_session_start k = (case k of SessionStart _ _ \<Rightarrow> True | _ \<Rightarrow> False)"

definition is_session_end :: "event_kind \<Rightarrow> bool" where
  "is_session_end k = (case k of SessionEnd _ \<Rightarrow> True | _ \<Rightarrow> False)"

section \<open>Referenced objects\<close>

definition opt_list :: "'a option \<Rightarrow> 'a list" where
  "opt_list m = (case m of None \<Rightarrow> [] | Some x \<Rightarrow> [x])"

definition attempt_object_hashes :: "attempt_record \<Rightarrow> hash list" where
  "attempt_object_hashes a =
     at_request_hash a # opt_list (at_response_hash a) @ opt_list (at_stream_hash a)"

fun referenced_object_hashes_for_kind :: "event_kind \<Rightarrow> hash list" where
  "referenced_object_hashes_for_kind (SessionStart cwd config) = [cwd, config]"
| "referenced_object_hashes_for_kind (UserTurn prompt) = [prompt]"
| "referenced_object_hashes_for_kind (ProviderCall _ atts stream) =
     concat (map attempt_object_hashes atts) @ opt_list stream"
| "referenced_object_hashes_for_kind (ToolCall _ inp out eff) = inp # out # opt_list eff"
| "referenced_object_hashes_for_kind (RetrievalCall _ q r) = [q, r]"
| "referenced_object_hashes_for_kind (PermissionGate _ _ ctx) = [ctx]"
| "referenced_object_hashes_for_kind (AssistantTurn msg calls) = msg # opt_list calls"
| "referenced_object_hashes_for_kind (SessionEnd summary) = opt_list summary"

section \<open>Wire form\<close>

record wire_attempt_record =
  wat_attempt_number :: u32
  wat_started_at :: int
  wat_ended_at :: int
  wat_status :: attempt_status
  wat_request_hash :: wire_hash
  wat_response_hash :: "wire_hash option"
  wat_stream_hash :: "wire_hash option"
  wat_error_message :: "string option"

datatype wire_event_kind =
    WSessionStart wire_hash wire_hash
  | WUserTurn wire_hash
  | WProviderCall string "wire_attempt_record list" "wire_hash option"
  | WToolCall string wire_hash wire_hash "wire_hash option"
  | WRetrievalCall string wire_hash wire_hash
  | WPermissionGate string string wire_hash
  | WAssistantTurn wire_hash "wire_hash option"
  | WSessionEnd "wire_hash option"

record wire_event =
  we_parents :: "wire_hash list"
  we_kind :: wire_event_kind
  we_emitted_at :: int
  we_sequence :: u64

record event_ext = hash_ext +
  x_unix_timestamp :: "datetime \<Rightarrow> int"
  x_cbor_event :: "wire_event \<Rightarrow> string + byte list"

definition wire_of_attempt :: "'x event_ext_scheme \<Rightarrow> attempt_record \<Rightarrow> wire_attempt_record" where
  "wire_of_attempt X v =
     \<lparr>wat_attempt_number = at_attempt_number v,
      wat_started_at = x_unix_timestamp X (at_started_at v),
      wat_ended_at = x_unix_timestamp X (at_ended_at v),
      wat_status = at_status v,
      wat_request_hash = to_wire (at_request_hash v),
      wat_response_hash = map_option to_wire (at_response_hash v),
      wat_stream_hash = map_option to_wire (at_stream_hash v),
      wat_error_message = at_error_message v\<rparr>"

fun wire_of_kind :: "'x event_ext_scheme \<Rightarrow> event_kind \<Rightarrow> wire_event_kind" where
  "wire_of_kind X (SessionStart cwd config) = WSessionStart (to_wire cwd) (to_wire config)"
| "wire_of_kind X (UserTurn prompt) = WUserTurn (to_wire prompt)"
| "wire_of_kind X (ProviderCall pid atts stream) =
     WProviderCall pid (map (wire_of_attempt X) atts) (map_option to_wire stream)"
| "wire_of_kind X (ToolCall tid inp out eff) =
     WToolCall tid (to_wire inp) (to_wire out) (map_option to_wire eff)"
| "wire_of_kind X (RetrievalCall iid q r) = WRetrievalCall iid (to_wire q) (to_wire r)"
| "wire_of_kind X (PermissionGate pid d ctx) = WPermissionGate pid d (to_wire ctx)"
| "wire_of_kind X (AssistantTurn msg calls) =
     WAssistantTurn (to_wire msg) (map_option to_wire calls)"
| "wire_of_kind X (SessionEnd summary) = WSessionEnd (map_option to_wire summary)"

definition wire_of_event :: "'x event_ext_scheme \<Rightarrow> event \<Rightarrow> wire_event" where
  "wire_of_event X v =
     \<lparr>we_parents = map to_wire (ev_parents v),
      we_kind = wire_of_kind X (ev_kind v),
      we_emitted_at = x_unix_timestamp X (ev_emitted_at v),
      we_sequence = ev_sequence v\<rparr>"

section \<open>Content hash\<close>

definition content_hash ::
    "'x event_ext_scheme \<Rightarrow> hash_algorithm \<Rightarrow> event \<Rightarrow> journal_error + hash" where
  "content_hash X a e =
     (case x_cbor_event X (wire_of_event X e) of
        Inl err \<Rightarrow> Inl (JCbor err)
      | Inr encoded \<Rightarrow> Inr (digest_bytes X a encoded))"

section \<open>Facts\<close>

text \<open>The encoder is injective: its output decodes to the value that was encoded.\<close>

definition cbor_inj :: "'x event_ext_scheme \<Rightarrow> bool" where
  "cbor_inj X \<longleftrightarrow>
     (\<forall>w w' b. x_cbor_event X w = Inr b \<and> x_cbor_event X w' = Inr b \<longrightarrow> w = w')"

text \<open>Two events with different encodings and one digest: a collision of the hash function,
  exhibited on these two events.\<close>

definition event_collides :: "'x event_ext_scheme \<Rightarrow> hash_algorithm \<Rightarrow> event \<Rightarrow> event \<Rightarrow> bool" where
  "event_collides X a e e' \<longleftrightarrow>
     (case (x_cbor_event X (wire_of_event X e), x_cbor_event X (wire_of_event X e')) of
        (Inr b, Inr b') \<Rightarrow> b \<noteq> b' \<and> digest_bytes X a b = digest_bytes X a b'
      | _ \<Rightarrow> False)"

lemma content_hash_algorithm: "content_hash X a e = Inr h \<Longrightarrow> h_algorithm h = a"
  by (auto simp: content_hash_def split: sum.splits)

lemma content_hash_wf: "hash_ext_ok X \<Longrightarrow> content_hash X a e = Inr h \<Longrightarrow> hash_wf h"
  by (auto simp: content_hash_def digest_bytes_wf split: sum.splits)

lemma content_hash_binding:
  assumes "cbor_inj X" "content_hash X a e = Inr h" "content_hash X a e' = Inr h"
  shows "wire_of_event X e = wire_of_event X e' \<or> event_collides X a e e'"
  using assms unfolding content_hash_def cbor_inj_def event_collides_def
  by (auto split: sum.splits)

lemma content_hash_cong:
  "wire_of_event X e = wire_of_event X e' \<Longrightarrow> content_hash X a e = content_hash X a e'"
  by (simp add: content_hash_def)

lemma is_session_start_wire:
  "is_session_start k \<longleftrightarrow> (case wire_of_kind X k of WSessionStart _ _ \<Rightarrow> True | _ \<Rightarrow> False)"
  by (cases k) (auto simp: is_session_start_def)

lemma is_session_end_wire:
  "is_session_end k \<longleftrightarrow> (case wire_of_kind X k of WSessionEnd _ \<Rightarrow> True | _ \<Rightarrow> False)"
  by (cases k) (auto simp: is_session_end_def)

text \<open>The object bytes an event commits to are determined by its wire form.\<close>

lemma opt_list_map: "opt_list (map_option f m) = map f (opt_list m)"
  by (cases m) (auto simp: opt_list_def)

lemma attempt_object_hashes_wire:
  "wire_of_attempt X v = wire_of_attempt X v' \<Longrightarrow>
   map to_wire (attempt_object_hashes v) = map to_wire (attempt_object_hashes v')"
  by (auto simp: wire_of_attempt_def attempt_object_hashes_def simp flip: opt_list_map)

lemma concat_attempt_hashes_wire:
  "map (wire_of_attempt X) vs = map (wire_of_attempt X) vs' \<Longrightarrow>
   map to_wire (concat (map attempt_object_hashes vs)) =
   map to_wire (concat (map attempt_object_hashes vs'))"
proof (induction vs arbitrary: vs')
  case Nil
  then show ?case by simp
next
  case (Cons v vs)
  then obtain u us where "vs' = u # us" "wire_of_attempt X v = wire_of_attempt X u"
    "map (wire_of_attempt X) vs = map (wire_of_attempt X) us"
    by (cases vs') auto
  with Cons.IH [of us] attempt_object_hashes_wire [of X v u] show ?case by simp
qed

lemma referenced_hashes_wire:
  assumes "wire_of_kind X k = wire_of_kind X k'"
  shows "map to_wire (referenced_object_hashes_for_kind k) =
         map to_wire (referenced_object_hashes_for_kind k')"
proof (cases k)
  case (ProviderCall pid atts stream)
  with assms obtain atts' stream' where k': "k' = ProviderCall pid atts' stream'"
    and a: "map (wire_of_attempt X) atts = map (wire_of_attempt X) atts'"
    and s: "map_option to_wire stream = map_option to_wire stream'"
    by (cases k') auto
  show ?thesis
    using concat_attempt_hashes_wire [OF a] arg_cong [OF s, of opt_list]
    by (simp add: ProviderCall k' opt_list_map)
qed (use assms in \<open>cases k'; auto simp flip: opt_list_map\<close>)+

end
