(* ===== verification/Bundle_Manifest.thy ===== *)
theory Bundle_Manifest
  imports Events "HOL-Library.List_Lexorder" "HOL-Library.Char_ord"
begin

text \<open>
  \<open>akmon-bundle/src/error.rs\<close>, \<open>manifest.rs\<close> and the types of \<open>archive.rs\<close>: bundle errors, the
  manifest with its validation and its canonical JSON form, and the parsed bundle. UUID and RFC 3339
  parsing (crates \<open>uuid\<close>, \<open>time\<close>) and the serde conversions of the manifest are parameters.
\<close>

section \<open>Errors\<close>

datatype bundle_error =
    BIo string
  | BInvalidArchive string
  | BInvalidCompression string
  | BInvalidManifest string
  | BUnsupportedAgefVersion string
  | BUnsupportedHashAlgorithm string
  | BMalformedFraming string
  | BFrameTooLarge u32
  | BNonCanonicalCbor
  | BUnknownEventKind string
  | BUnknownAttemptStatus string
  | BMissingObject string
  | BObjectHashMismatch string
  | BHeadMismatch string string
  | BUnknownBundleFile string
  | BBundleTooLarge u64

section \<open>JSON values\<close>

text \<open>Numbers are kept as their text; an object is its list of entries in map order.\<close>

datatype json =
    JNull
  | JBool bool
  | JNumber string
  | JString string
  | JArray "json list"
  | JObject "(string \<times> json) list"

section \<open>Manifest\<close>

record producer =
  pr_name :: string
  pr_version :: string

record session_metadata =
  sm_id :: string
  sm_head :: string
  sm_created_at :: string
  sm_ended_at :: string

record manifest_signature =
  msig_scheme :: string
  msig_key_id :: string
  msig_statement_version :: string
  msig_signature :: string
  msig_created_at :: string

record operator_attestation =
  oa_scheme :: string
  oa_key_id :: string
  oa_statement_version :: string
  oa_operator_id :: string
  oa_display_name :: string
  oa_role :: string
  oa_org :: string
  oa_signature :: string
  oa_created_at :: string

record manifest =
  mf_agef_version :: string
  mf_producer :: producer
  mf_session :: session_metadata
  mf_hash_algorithm :: string
  mf_object_count :: u64
  mf_event_count :: u64
  mf_signatures :: "manifest_signature list option"
  mf_operator_attestations :: "operator_attestation list option"
  mf_extra :: "(string \<times> json) list"

record bundle_contents =
  bc_manifest :: manifest
  bc_events :: "event list"
  bc_objects :: "(hash, byte list) hash_map"

record manifest_ext = event_ext +
  x_uuid_canonical :: "string \<Rightarrow> string + string"
  x_rfc3339_parse :: "string \<Rightarrow> string + datetime"
  x_manifest_to_value :: "manifest \<Rightarrow> string + json"
  x_json_to_vec :: "json \<Rightarrow> string + byte list"
  x_manifest_from_slice :: "byte list \<Rightarrow> string + manifest"

record bundle_ext = manifest_ext +
  x_uuid_text :: "byte list \<Rightarrow> string"

section \<open>Supported algorithms\<close>

definition parse_algorithm :: "string \<Rightarrow> bundle_error + hash_algorithm" where
  "parse_algorithm v =
     (if v = ''sha256'' then Inr Sha256
      else if v = ''blake3'' then Inr Blake3
      else Inl (BUnsupportedHashAlgorithm v))"

lemma parse_algorithm_Inr_iff [simp]:
  "parse_algorithm v = Inr a \<longleftrightarrow> v = hash_algorithm_to_string a"
  by (cases a) (auto simp: parse_algorithm_def hash_algorithm_to_string_def)

lemma parse_algorithm_to_string [simp]: "parse_algorithm (hash_algorithm_to_string a) = Inr a"
  by simp

lemma parse_algorithm_Inl_iff:
  "parse_algorithm v = Inl e \<longleftrightarrow> v \<noteq> ''sha256'' \<and> v \<noteq> ''blake3'' \<and> e = BUnsupportedHashAlgorithm v"
  by (auto simp: parse_algorithm_def)

section \<open>Validation\<close>

definition validate_session_id_format ::
    "'x manifest_ext_scheme \<Rightarrow> manifest \<Rightarrow> bundle_error + unit" where
  "validate_session_id_format X m =
     (let id = sm_id (mf_session m) in
      case x_uuid_canonical X id of
        Inl err \<Rightarrow> Inl (BInvalidManifest (''session.id is not a UUID: '' @ err))
      | Inr canonical \<Rightarrow>
          (if canonical \<noteq> id
           then Inl (BInvalidManifest ''session.id must be hyphenated lowercase UUID'')
           else Inr ()))"

definition is_ascii_hexdigit :: "char \<Rightarrow> bool" where
  "is_ascii_hexdigit c \<longleftrightarrow> c \<in> set ''0123456789abcdefABCDEF''"

definition validate_head_format :: "manifest \<Rightarrow> bundle_error + unit" where
  "validate_head_format m =
     (let head = sm_head (mf_session m); alg = mf_hash_algorithm m in
      if alg \<noteq> ''sha256'' \<and> alg \<noteq> ''blake3'' then Inl (BUnsupportedHashAlgorithm alg)
      else if length head \<noteq> 64
      then Inl (BInvalidManifest (''session.head must be 64 hex characters for '' @ alg))
      else if \<not> list_all is_ascii_hexdigit head
      then Inl (BInvalidManifest ''session.head must be lowercase hex'')
      else if head \<noteq> map ascii_lower head
      then Inl (BInvalidManifest ''session.head must be lowercase hex'')
      else Inr ())"

definition validate_hash_algorithm :: "manifest \<Rightarrow> bundle_error + unit" where
  "validate_hash_algorithm m =
     (if mf_hash_algorithm m = ''sha256'' \<or> mf_hash_algorithm m = ''blake3'' then Inr ()
      else Inl (BUnsupportedHashAlgorithm (mf_hash_algorithm m)))"

definition validate_timestamps :: "'x manifest_ext_scheme \<Rightarrow> manifest \<Rightarrow> bundle_error + unit" where
  "validate_timestamps X m =
     res_bind (map_err (\<lambda>err. BInvalidManifest (''session.created_at is not RFC3339: '' @ err))
                 (x_rfc3339_parse X (sm_created_at (mf_session m)))) (\<lambda>_.
     res_bind (map_err (\<lambda>err. BInvalidManifest (''session.ended_at is not RFC3339: '' @ err))
                 (x_rfc3339_parse X (sm_ended_at (mf_session m)))) (\<lambda>_. Inr ()))"

definition validate_all :: "'x manifest_ext_scheme \<Rightarrow> manifest \<Rightarrow> bundle_error + unit" where
  "validate_all X m =
     res_bind (validate_session_id_format X m) (\<lambda>_.
     res_bind (validate_hash_algorithm m) (\<lambda>_.
     res_bind (validate_head_format m) (\<lambda>_.
     res_bind (validate_timestamps X m) (\<lambda>_. Inr ()))))"

subsection \<open>Versions\<close>

definition is_ascii_digit :: "char \<Rightarrow> bool" where
  "is_ascii_digit c \<longleftrightarrow> c \<in> set ''0123456789''"

definition digits_value :: "string \<Rightarrow> nat" where
  "digits_value s = foldl (\<lambda>a c. a * 10 + (of_char c - 48)) 0 s"

text \<open>\<open>str::parse::<u64>\<close>: an optional plus sign, digits, no overflow.\<close>

definition parse_u64 :: "string \<Rightarrow> u64 option" where
  "parse_u64 s =
     (let d = (case s of [] \<Rightarrow> [] | c # cs \<Rightarrow> if c = CHR ''+'' \<and> cs \<noteq> [] then cs else s) in
      if d = [] \<or> \<not> list_all is_ascii_digit d \<or> digits_value d \<ge> 2 ^ 64 then None
      else Some (of_nat (digits_value d)))"

definition parse_semver :: "string \<Rightarrow> (u64 \<times> u64 \<times> u64) option" where
  "parse_semver input =
     (case split_on CHR ''.'' input of
        [a, b, c] \<Rightarrow>
          (case (parse_u64 a, parse_u64 b, parse_u64 c) of
             (Some major, Some minor, Some patch) \<Rightarrow> Some (major, minor, patch)
           | _ \<Rightarrow> None)
      | _ \<Rightarrow> None)"

definition validate_agef_version :: "manifest \<Rightarrow> string \<Rightarrow> bundle_error + unit" where
  "validate_agef_version m expected =
     (case parse_semver expected of
        None \<Rightarrow> Inl (BUnsupportedAgefVersion (''invalid expected AGEF version: '' @ expected))
      | Some (exp_major, exp_minor, _) \<Rightarrow>
          (case parse_semver (mf_agef_version m) of
             None \<Rightarrow> Inl (BUnsupportedAgefVersion (mf_agef_version m))
           | Some (got_major, got_minor, _) \<Rightarrow>
               (if exp_major = got_major \<and> exp_minor = got_minor then Inr ()
                else Inl (BUnsupportedAgefVersion (mf_agef_version m)))))"

section \<open>Canonical JSON\<close>

text \<open>Rebuilding an object inserts the keys in sorted order; duplicate keys cannot occur in a map.\<close>

fun sort_json_value :: "json \<Rightarrow> json" where
  "sort_json_value (JObject m) =
     JObject (map (\<lambda>(k, v). (k, sort_json_value v)) (sort_key fst m))"
| "sort_json_value (JArray xs) = JArray (map sort_json_value xs)"
| "sort_json_value v = v"

definition to_canonical_json_bytes ::
    "'x manifest_ext_scheme \<Rightarrow> manifest \<Rightarrow> bundle_error + byte list" where
  "to_canonical_json_bytes X m =
     res_bind (map_err (\<lambda>err. BInvalidManifest (''manifest serialize failed: '' @ err))
                 (x_manifest_to_value X m)) (\<lambda>v.
     map_err (\<lambda>err. BInvalidManifest (''manifest JSON encode failed: '' @ err))
       (x_json_to_vec X (sort_json_value v)))"

definition manifest_from_json_bytes ::
    "'x manifest_ext_scheme \<Rightarrow> byte list \<Rightarrow> bundle_error + manifest" where
  "manifest_from_json_bytes X bytes =
     res_bind (map_err (\<lambda>err. BInvalidManifest (''manifest parse failed: '' @ err))
                 (x_manifest_from_slice X bytes)) (\<lambda>m.
     res_bind (validate_all X m) (\<lambda>_. Inr m))"

section \<open>Facts\<close>

lemma ex_hash_algorithm: "(\<exists>a. P a) \<longleftrightarrow> P Sha256 \<or> P Blake3"
  by (metis (full_types) hash_algorithm.exhaust)

lemma validate_hash_algorithm_iff:
  "validate_hash_algorithm m = Inr () \<longleftrightarrow> (\<exists>a. parse_algorithm (mf_hash_algorithm m) = Inr a)"
  by (simp add: ex_hash_algorithm hash_algorithm_to_string_def validate_hash_algorithm_def)

text \<open>The head validation accepts exactly 64 lowercase hexadecimal characters.\<close>

lemma ascii_lower_fixed:
  "ascii_lower c = c \<longleftrightarrow> \<not> (65 \<le> (of_char c :: nat) \<and> (of_char c :: nat) \<le> 90)"
proof (cases "65 \<le> (of_char c :: nat) \<and> (of_char c :: nat) \<le> 90")
  case True
  then have "(of_char (ascii_lower c) :: nat) = of_char c + 32"
    by (simp add: ascii_lower_def)
  then have "ascii_lower c \<noteq> c" by (metis add_cancel_left_right zero_neq_numeral)
  with True show ?thesis by simp
next
  case False
  then show ?thesis by (auto simp: ascii_lower_def)
qed

lemma hexdigit_tables:
  "list_all (\<lambda>c. 65 \<le> (of_char c :: nat) \<and> (of_char c :: nat) \<le> 90 \<or> is_lower_hex c)
     ''0123456789abcdefABCDEF''"
  "list_all (\<lambda>c. is_ascii_hexdigit c \<and> \<not> (65 \<le> (of_char c :: nat) \<and> (of_char c :: nat) \<le> 90))
     ''0123456789abcdef''"
  by code_simp+

lemma lower_hex_iff: "is_ascii_hexdigit c \<and> ascii_lower c = c \<longleftrightarrow> is_lower_hex c"
  using hexdigit_tables unfolding ascii_lower_fixed list_all_iff
  by (metis is_ascii_hexdigit_def is_lower_hex_def)

lemma map_fixed_iff: "xs = map f xs \<longleftrightarrow> list_all (\<lambda>x. f x = x) xs"
  by (induction xs) auto

lemma validate_head_format_iff:
  "validate_head_format m = Inr () \<longleftrightarrow>
     (\<exists>a. parse_algorithm (mf_hash_algorithm m) = Inr a) \<and>
     length (sm_head (mf_session m)) = 64 \<and> list_all is_lower_hex (sm_head (mf_session m))"
proof -
  let ?h = "sm_head (mf_session m)"
  have lower: "list_all is_lower_hex ?h \<longleftrightarrow> list_all is_ascii_hexdigit ?h \<and> ?h = map ascii_lower ?h"
    unfolding map_fixed_iff list_all_iff using lower_hex_iff by blast
  show ?thesis
    unfolding lower validate_head_format_def Let_def
    by (simp add: ex_hash_algorithm hash_algorithm_to_string_def)
qed

text \<open>Canonical JSON does not depend on the order of the map entries.\<close>

fun json_wf :: "json \<Rightarrow> bool" where
  "json_wf (JObject m) \<longleftrightarrow> distinct (map fst m) \<and> list_all (\<lambda>(k, v). json_wf v) m"
| "json_wf (JArray xs) \<longleftrightarrow> list_all json_wf xs"
| "json_wf _ \<longleftrightarrow> True"

end
