(* ===== verification/Bundle_Events.thy ===== *)
theory Bundle_Events
  imports Bundle_Manifest
begin

text \<open>
  \<open>akmon-bundle/src/events.rs\<close>: the length-delimited \<open>events.bin\<close> stream. Each frame is a 32-bit
  big-endian length and the CBOR form of one event. The CBOR codec (crate \<open>ciborium\<close>) and the
  conversion from Unix seconds (crate \<open>time\<close>) are parameters; \<open>frame_codec_ok\<close> states what the
  code relies on. The reader is modelled on the in-memory cursor the archive reader gives it.
\<close>

section \<open>Wire types\<close>

type_synonym raw_hash = "byte list"

record frame_attempt =
  fat_attempt_number :: u32
  fat_started_at :: int
  fat_ended_at :: int
  fat_status :: attempt_status
  fat_request_hash :: raw_hash
  fat_response_hash :: "raw_hash option"
  fat_stream_hash :: "raw_hash option"
  fat_error_message :: "string option"

datatype frame_kind =
    FSessionStart raw_hash raw_hash
  | FUserTurn raw_hash
  | FProviderCall string "frame_attempt list" "raw_hash option"
  | FToolCall string raw_hash raw_hash "raw_hash option"
  | FRetrievalCall string raw_hash raw_hash
  | FPermissionGate string string raw_hash
  | FAssistantTurn raw_hash "raw_hash option"
  | FSessionEnd "raw_hash option"

record frame_event =
  fe_parents :: "raw_hash list"
  fe_kind :: frame_kind
  fe_emitted_at :: int
  fe_sequence :: u64

record frame_ext = bundle_ext +
  x_frame_encode :: "frame_event \<Rightarrow> string + byte list"
  x_frame_decode :: "byte list \<Rightarrow> string + frame_event"
  x_from_unix_timestamp :: "int \<Rightarrow> datetime option"

definition DEFAULT_MAX_EVENT_FRAME_LEN :: u32 where
  "DEFAULT_MAX_EVENT_FRAME_LEN = 1048576"

section \<open>From events to frames\<close>

definition from_attempt :: "'x frame_ext_scheme \<Rightarrow> attempt_record \<Rightarrow> frame_attempt" where
  "from_attempt X a =
     \<lparr>fat_attempt_number = at_attempt_number a,
      fat_started_at = x_unix_timestamp X (at_started_at a),
      fat_ended_at = x_unix_timestamp X (at_ended_at a),
      fat_status = at_status a,
      fat_request_hash = h_bytes (at_request_hash a),
      fat_response_hash = map_option h_bytes (at_response_hash a),
      fat_stream_hash = map_option h_bytes (at_stream_hash a),
      fat_error_message = at_error_message a\<rparr>"

fun from_kind :: "'x frame_ext_scheme \<Rightarrow> event_kind \<Rightarrow> frame_kind" where
  "from_kind X (SessionStart cwd config) = FSessionStart (h_bytes cwd) (h_bytes config)"
| "from_kind X (UserTurn prompt) = FUserTurn (h_bytes prompt)"
| "from_kind X (ProviderCall pid atts stream) =
     FProviderCall pid (map (from_attempt X) atts) (map_option h_bytes stream)"
| "from_kind X (ToolCall tid inp out eff) =
     FToolCall tid (h_bytes inp) (h_bytes out) (map_option h_bytes eff)"
| "from_kind X (RetrievalCall iid q r) = FRetrievalCall iid (h_bytes q) (h_bytes r)"
| "from_kind X (PermissionGate pid d ctx) = FPermissionGate pid d (h_bytes ctx)"
| "from_kind X (AssistantTurn msg calls) = FAssistantTurn (h_bytes msg) (map_option h_bytes calls)"
| "from_kind X (SessionEnd summary) = FSessionEnd (map_option h_bytes summary)"

definition from_event :: "'x frame_ext_scheme \<Rightarrow> event \<Rightarrow> frame_event" where
  "from_event X e =
     \<lparr>fe_parents = map h_bytes (ev_parents e), fe_kind = from_kind X (ev_kind e),
      fe_emitted_at = x_unix_timestamp X (ev_emitted_at e), fe_sequence = ev_sequence e\<rparr>"

section \<open>From frames to events\<close>

definition wire_timestamp :: "'x frame_ext_scheme \<Rightarrow> int \<Rightarrow> string \<Rightarrow> bundle_error + datetime" where
  "wire_timestamp X seconds field =
     ok_or (BMalformedFraming (''timestamp out of range in '' @ field @ '': '' @ show_int seconds))
       (x_from_unix_timestamp X seconds)"

definition into_attempt ::
    "'x frame_ext_scheme \<Rightarrow> hash_algorithm \<Rightarrow> frame_attempt \<Rightarrow> bundle_error + attempt_record" where
  "into_attempt X alg w =
     res_bind (wire_timestamp X (fat_started_at w) ''attempt started_at'') (\<lambda>started.
     res_bind (wire_timestamp X (fat_ended_at w) ''attempt ended_at'') (\<lambda>ended.
     Inr \<lparr>at_attempt_number = fat_attempt_number w, at_started_at = started, at_ended_at = ended,
          at_status = fat_status w,
          at_request_hash = hash_from_bytes alg (fat_request_hash w),
          at_response_hash = map_option (hash_from_bytes alg) (fat_response_hash w),
          at_stream_hash = map_option (hash_from_bytes alg) (fat_stream_hash w),
          at_error_message = fat_error_message w\<rparr>))"

fun into_kind ::
    "'x frame_ext_scheme \<Rightarrow> hash_algorithm \<Rightarrow> frame_kind \<Rightarrow> bundle_error + event_kind" where
  "into_kind X alg (FSessionStart cwd config) =
     Inr (SessionStart (hash_from_bytes alg cwd) (hash_from_bytes alg config))"
| "into_kind X alg (FUserTurn prompt) = Inr (UserTurn (hash_from_bytes alg prompt))"
| "into_kind X alg (FProviderCall pid atts stream) =
     res_bind (res_map (into_attempt X alg) atts) (\<lambda>as.
       Inr (ProviderCall pid as (map_option (hash_from_bytes alg) stream)))"
| "into_kind X alg (FToolCall tid inp out eff) =
     Inr (ToolCall tid (hash_from_bytes alg inp) (hash_from_bytes alg out)
            (map_option (hash_from_bytes alg) eff))"
| "into_kind X alg (FRetrievalCall iid q r) =
     Inr (RetrievalCall iid (hash_from_bytes alg q) (hash_from_bytes alg r))"
| "into_kind X alg (FPermissionGate pid d ctx) = Inr (PermissionGate pid d (hash_from_bytes alg ctx))"
| "into_kind X alg (FAssistantTurn msg calls) =
     Inr (AssistantTurn (hash_from_bytes alg msg) (map_option (hash_from_bytes alg) calls))"
| "into_kind X alg (FSessionEnd summary) = Inr (SessionEnd (map_option (hash_from_bytes alg) summary))"

definition into_event ::
    "'x frame_ext_scheme \<Rightarrow> hash_algorithm \<Rightarrow> frame_event \<Rightarrow> bundle_error + event" where
  "into_event X alg w =
     res_bind (into_kind X alg (fe_kind w)) (\<lambda>k.
     res_bind (wire_timestamp X (fe_emitted_at w) ''emitted_at'') (\<lambda>t.
     Inr \<lparr>ev_parents = map (hash_from_bytes alg) (fe_parents w), ev_kind = k, ev_emitted_at = t,
          ev_sequence = fe_sequence w\<rparr>))"

section \<open>Writing\<close>

text \<open>The writer appends to an in-memory vector, as in \<open>write_bundle\<close>; the bytes of one frame.\<close>

definition write_event :: "'x frame_ext_scheme \<Rightarrow> event \<Rightarrow> bundle_error + byte list" where
  "write_event X e =
     res_bind (map_err (\<lambda>err. BMalformedFraming (''CBOR encode failed: '' @ err))
                 (x_frame_encode X (from_event X e))) (\<lambda>payload.
       if length payload < 2 ^ 32 then Inr (u32_to_be (of_nat (length payload)) @ payload)
       else Inl (BMalformedFraming ''event payload length exceeds u32::MAX''))"

fun write_events :: "'x frame_ext_scheme \<Rightarrow> event list \<Rightarrow> bundle_error + byte list" where
  "write_events X [] = Inr []"
| "write_events X (e # es) =
     res_bind (write_event X e) (\<lambda>frame. res_bind (write_events X es) (\<lambda>rest. Inr (frame @ rest)))"

section \<open>Reading\<close>

definition map_wire_decode_error :: "string \<Rightarrow> bundle_error" where
  "map_wire_decode_error msg =
     (if str_contains ''unknown variant'' msg \<and> str_contains ''AttemptStatus'' msg
      then BUnknownAttemptStatus msg
      else if str_contains ''unknown variant'' msg then BUnknownEventKind msg
      else BMalformedFraming (''CBOR decode failed: '' @ msg))"

text \<open>\<open>Read::read\<close> of a cursor into a buffer of \<open>n\<close> bytes.\<close>

definition cursor_read :: "nat \<Rightarrow> byte list \<Rightarrow> byte list \<times> byte list" where
  "cursor_read n bs = (take n bs, drop n bs)"

text \<open>The loop that fills the length prefix; \<open>got\<close> is the filled part of \<open>len_buf\<close>.\<close>

function read_prefix :: "byte list \<Rightarrow> byte list \<Rightarrow> bundle_error + (byte list \<times> byte list) option" where
  "read_prefix got bs =
     (if length got < 4 then
        (case cursor_read (4 - length got) bs of
           (chunk, rest) \<Rightarrow>
             (if chunk = [] then
                (if got = [] then Inr None else Inl (BMalformedFraming ''truncated length prefix''))
              else read_prefix (got @ chunk) rest))
      else Inr (Some (got, bs)))"
  by pat_completeness auto
termination
  by (relation "measure (\<lambda>(got, bs). length bs)")
     (auto simp: cursor_read_def intro: diff_less simp: length_greater_0_conv [symmetric] simp del: length_greater_0_conv)

declare read_prefix.simps [simp del]

text \<open>The frame after its length prefix.\<close>

definition read_frame ::
    "'x frame_ext_scheme \<Rightarrow> hash_algorithm \<Rightarrow> u32 \<Rightarrow> byte list \<Rightarrow> byte list
     \<Rightarrow> bundle_error + event \<times> byte list" where
  "read_frame X alg max_frame_len len_buf rest =
     (let frame_len = u32_from_be len_buf in
      if frame_len > max_frame_len then Inl (BFrameTooLarge frame_len)
      else if length rest < unat frame_len
      then Inl (BMalformedFraming (''truncated frame: expected '' @ show_nat (unat frame_len) @ '' bytes''))
      else
        let payload = take (unat frame_len) rest; rest' = drop (unat frame_len) rest in
        res_bind (map_err map_wire_decode_error (x_frame_decode X payload)) (\<lambda>wire.
        res_bind (map_err (\<lambda>err. BMalformedFraming (''CBOR re-encode failed: '' @ err))
                    (x_frame_encode X wire)) (\<lambda>canonical.
          if canonical \<noteq> payload then Inl BNonCanonicalCbor
          else res_bind (into_event X alg wire) (\<lambda>e. Inr (e, rest')))))"

definition read_event ::
    "'x frame_ext_scheme \<Rightarrow> hash_algorithm \<Rightarrow> u32 \<Rightarrow> byte list
     \<Rightarrow> bundle_error + (event \<times> byte list) option" where
  "read_event X alg max_frame_len bs =
     res_bind (read_prefix [] bs) (\<lambda>p. case p of
         None \<Rightarrow> Inr None
       | Some (len_buf, rest) \<Rightarrow>
           res_bind (read_frame X alg max_frame_len len_buf rest) (\<lambda>r. Inr (Some r)))"

lemma read_prefix_eq:
  "read_prefix [] bs =
     (if bs = [] then Inr None
      else if length bs < 4 then Inl (BMalformedFraming ''truncated length prefix'')
      else Inr (Some (take 4 bs, drop 4 bs)))"
proof -
  have full: "length got = 4 \<Longrightarrow> read_prefix got rest = Inr (Some (got, rest))" for got rest
    by (subst read_prefix.simps) simp
  have part: "got \<noteq> [] \<Longrightarrow> length got < 4 \<Longrightarrow>
      read_prefix got [] = Inl (BMalformedFraming ''truncated length prefix'')" for got
    by (subst read_prefix.simps) (simp add: cursor_read_def)
  show ?thesis
    by (subst read_prefix.simps) (auto simp: cursor_read_def full part)
qed

lemma read_frame_Inr_iff:
  "read_frame X alg mx pre bs = Inr (e, rest) \<longleftrightarrow>
   (\<exists>payload wire. bs = payload @ rest \<and> length payload = unat (u32_from_be pre) \<and>
      u32_from_be pre \<le> mx \<and> x_frame_decode X payload = Inr wire \<and>
      x_frame_encode X wire = Inr payload \<and> into_event X alg wire = Inr e)"
  (is "?L \<longleftrightarrow> ?R")
proof
  assume ?L
  then show ?R
    unfolding read_frame_def Let_def
    by (intro exI [of _ "take (unat (u32_from_be pre)) bs"])
       (auto split: if_splits simp: not_less)
next
  assume ?R
  then show ?L by (auto simp: read_frame_def Let_def not_less)
qed

lemma read_event_Some_iff:
  "read_event X alg mx bs = Inr (Some (e, rest)) \<longleftrightarrow>
   (\<exists>pre bs'. bs = pre @ bs' \<and> length pre = 4 \<and> read_frame X alg mx pre bs' = Inr (e, rest))"
  (is "?L \<longleftrightarrow> ?R")
proof
  assume ?L
  then show ?R
    by (intro exI [of _ "take 4 bs"] exI [of _ "drop 4 bs"])
       (auto simp: read_event_def read_prefix_eq split: if_splits)
next
  assume ?R
  then show ?L by (auto simp: read_event_def read_prefix_eq)
qed

lemma read_event_None_iff: "read_event X alg mx bs = Inr None \<longleftrightarrow> bs = []"
  by (auto simp: read_event_def read_prefix_eq)

lemma read_event_shorter:
  "read_event X alg mx bs = Inr (Some (e, rest)) \<Longrightarrow> length rest < length bs"
  by (auto simp: read_event_Some_iff read_frame_Inr_iff)

text \<open>The loop of \<open>read_bundle_limited\<close> over the cursor.\<close>

function read_events ::
    "'x frame_ext_scheme \<Rightarrow> hash_algorithm \<Rightarrow> u32 \<Rightarrow> byte list \<Rightarrow> bundle_error + event list" where
  "read_events X alg mx bs =
     (case read_event X alg mx bs of
        Inl err \<Rightarrow> Inl err
      | Inr None \<Rightarrow> Inr []
      | Inr (Some (e, rest)) \<Rightarrow> res_bind (read_events X alg mx rest) (\<lambda>es. Inr (e # es)))"
  by pat_completeness auto
termination
  by (relation "measure (\<lambda>(X, alg, mx, bs). length bs)") (auto dest: read_event_shorter)

declare read_events.simps [simp del]

section \<open>Reading is exact\<close>

text \<open>What the reader relies on: decoding inverts encoding, and a timestamp made from Unix seconds
  has those Unix seconds.\<close>

definition frame_codec_ok :: "'x frame_ext_scheme \<Rightarrow> bool" where
  "frame_codec_ok X \<longleftrightarrow>
     (\<forall>w b. x_frame_encode X w = Inr b \<longrightarrow> x_frame_decode X b = Inr w) \<and>
     (\<forall>s t. x_from_unix_timestamp X s = Some t \<longrightarrow> x_unix_timestamp X t = s)"

lemma wire_timestamp_Inr [simp]:
  "wire_timestamp X s f = Inr t \<longleftrightarrow> x_from_unix_timestamp X s = Some t"
  by (simp add: wire_timestamp_def)

lemma h_bytes_from_bytes [simp]: "h_bytes (hash_from_bytes a b) = b"
  by (simp add: hash_from_bytes_def)

lemma h_bytes_comp_from_bytes [simp]: "h_bytes \<circ> hash_from_bytes a = id"
  by (simp add: fun_eq_iff)

lemma option_h_bytes [simp]: "map_option h_bytes (map_option (hash_from_bytes a) m) = m"
  by (cases m) auto

lemma from_attempt_into: "frame_codec_ok X \<Longrightarrow> into_attempt X alg w = Inr a \<Longrightarrow> from_attempt X a = w"
  by (auto simp: into_attempt_def from_attempt_def frame_codec_ok_def)

lemma from_attempts_into:
  "frame_codec_ok X \<Longrightarrow> res_map (into_attempt X alg) ws = Inr as \<Longrightarrow> map (from_attempt X) as = ws"
  by (induction ws arbitrary: as) (auto simp: from_attempt_into)

lemma from_kind_into: "frame_codec_ok X \<Longrightarrow> into_kind X alg w = Inr k \<Longrightarrow> from_kind X k = w"
  by (cases w) (auto simp: from_attempts_into)

lemma from_event_into: "frame_codec_ok X \<Longrightarrow> into_event X alg w = Inr e \<Longrightarrow> from_event X e = w"
  by (auto simp: into_event_def from_event_def from_kind_into frame_codec_ok_def)

text \<open>A frame that was read is the frame that is written for the event it yields.\<close>

lemma write_read_event:
  assumes ok: "frame_codec_ok X" and r: "read_event X alg mx bs = Inr (Some (e, rest))"
  shows "\<exists>frame. write_event X e = Inr frame \<and> bs = frame @ rest"
proof -
  from r obtain pre payload wire where *: "bs = pre @ payload @ rest" "length pre = 4"
    "length payload = unat (u32_from_be pre)" "x_frame_encode X wire = Inr payload"
    "into_event X alg wire = Inr e"
    by (auto simp: read_event_Some_iff read_frame_Inr_iff)
  moreover have "u32_to_be (of_nat (length payload)) = pre"
    using * by (simp add: u32_to_from_be)
  moreover have "length payload < 2 ^ 32" using *(3) unat_u32_less [of "u32_from_be pre"] by simp
  ultimately show ?thesis by (auto simp: write_event_def from_event_into [OF ok])
qed

lemma write_read_events:
  assumes ok: "frame_codec_ok X"
  shows "read_events X alg mx bs = Inr es \<Longrightarrow> write_events X es = Inr bs"
proof (induction "length bs" arbitrary: bs es rule: less_induct)
  case less
  show ?case
  proof (cases "read_event X alg mx bs")
    case (Inl err)
    with less.prems show ?thesis by (subst (asm) read_events.simps) simp
  next
    case (Inr r)
    show ?thesis
    proof (cases r)
      case None
      with Inr less.prems have "es = []" by (subst (asm) read_events.simps) simp
      with Inr None show ?thesis by (simp add: read_event_None_iff)
    next
      case (Some q)
      obtain e rest where q: "q = (e, rest)" by (cases q)
      with Inr Some less.prems obtain es' where "read_events X alg mx rest = Inr es'" "es = e # es'"
        by (subst (asm) read_events.simps) auto
      with less.hyps [of rest es'] read_event_shorter write_read_event [OF ok] Inr Some q
      show ?thesis by fastforce
    qed
  qed
qed

section \<open>Writing and reading back\<close>

text \<open>The wire form keeps whole seconds: what is read back is the event truncated to them.\<close>

definition truncate_time :: "'x frame_ext_scheme \<Rightarrow> datetime \<Rightarrow> datetime" where
  "truncate_time X t =
     (case x_from_unix_timestamp X (x_unix_timestamp X t) of None \<Rightarrow> t | Some s \<Rightarrow> s)"

definition truncate_attempt :: "'x frame_ext_scheme \<Rightarrow> attempt_record \<Rightarrow> attempt_record" where
  "truncate_attempt X a = a\<lparr>at_started_at := truncate_time X (at_started_at a),
                            at_ended_at := truncate_time X (at_ended_at a)\<rparr>"

definition truncate_kind :: "'x frame_ext_scheme \<Rightarrow> event_kind \<Rightarrow> event_kind" where
  "truncate_kind X k =
     (case k of ProviderCall p as s \<Rightarrow> ProviderCall p (map (truncate_attempt X) as) s | _ \<Rightarrow> k)"

definition truncate_event :: "'x frame_ext_scheme \<Rightarrow> event \<Rightarrow> event" where
  "truncate_event X e = e\<lparr>ev_kind := truncate_kind X (ev_kind e),
                          ev_emitted_at := truncate_time X (ev_emitted_at e)\<rparr>"

text \<open>The events a writer can be given: digests of the session's algorithm, times in the range the
  time type has.\<close>

definition time_ok :: "'x frame_ext_scheme \<Rightarrow> datetime \<Rightarrow> bool" where
  "time_ok X t \<longleftrightarrow> x_from_unix_timestamp X (x_unix_timestamp X t) \<noteq> None"

definition attempt_storable :: "'x frame_ext_scheme \<Rightarrow> attempt_record \<Rightarrow> bool" where
  "attempt_storable X a \<longleftrightarrow> time_ok X (at_started_at a) \<and> time_ok X (at_ended_at a)"

definition event_storable :: "'x frame_ext_scheme \<Rightarrow> hash_algorithm \<Rightarrow> event \<Rightarrow> bool" where
  "event_storable X alg e \<longleftrightarrow>
     list_all (\<lambda>h. h_algorithm h = alg)
       (ev_parents e @ referenced_object_hashes_for_kind (ev_kind e)) \<and>
     time_ok X (ev_emitted_at e) \<and>
     (case ev_kind e of ProviderCall _ as _ \<Rightarrow> list_all (attempt_storable X) as | _ \<Rightarrow> True)"

lemma from_bytes_h_bytes [simp]: "h_algorithm h = a \<Longrightarrow> hash_from_bytes a (h_bytes h) = h"
  by (simp add: hash_from_bytes_def hash_eq_iff)

lemma map_from_bytes: "list_all (\<lambda>h. h_algorithm h = a) hs \<Longrightarrow> map (hash_from_bytes a \<circ> h_bytes) hs = hs"
  by (induction hs) auto

lemma option_from_bytes:
  "list_all (\<lambda>h. h_algorithm h = a) (opt_list m) \<Longrightarrow> map_option (hash_from_bytes a \<circ> h_bytes) m = m"
  by (cases m) (auto simp: opt_list_def)

lemma wire_timestamp_truncate:
  "time_ok X t \<Longrightarrow> wire_timestamp X (x_unix_timestamp X t) f = Inr (truncate_time X t)"
  by (auto simp: time_ok_def truncate_time_def)

lemma into_from_attempt:
  "attempt_storable X a \<Longrightarrow> list_all (\<lambda>h. h_algorithm h = alg) (attempt_object_hashes a) \<Longrightarrow>
   into_attempt X alg (from_attempt X a) = Inr (truncate_attempt X a)"
  by (simp add: into_attempt_def from_attempt_def truncate_attempt_def attempt_storable_def
      wire_timestamp_truncate attempt_object_hashes_def option_from_bytes option.map_comp)

lemma into_from_attempts:
  "list_all (attempt_storable X) as \<Longrightarrow>
   list_all (\<lambda>h. h_algorithm h = alg) (concat (map attempt_object_hashes as)) \<Longrightarrow>
   res_map (into_attempt X alg) (map (from_attempt X) as) = Inr (map (truncate_attempt X) as)"
  by (induction as) (auto simp: into_from_attempt)

lemma into_from_kind:
  assumes "list_all (\<lambda>h. h_algorithm h = alg) (referenced_object_hashes_for_kind k)"
    and "case k of ProviderCall _ as _ \<Rightarrow> list_all (attempt_storable X) as | _ \<Rightarrow> True"
  shows "into_kind X alg (from_kind X k) = Inr (truncate_kind X k)"
  using assms
  by (cases k) (auto simp: truncate_kind_def into_from_attempts option_from_bytes option.map_comp)

lemma into_from_event:
  "event_storable X alg e \<Longrightarrow> into_event X alg (from_event X e) = Inr (truncate_event X e)"
  unfolding event_storable_def into_event_def from_event_def truncate_event_def
  by (simp add: into_from_kind wire_timestamp_truncate map_from_bytes)

text \<open>Truncation does not change what is hashed.\<close>

lemma unix_truncate: "frame_codec_ok X \<Longrightarrow> x_unix_timestamp X (truncate_time X t) = x_unix_timestamp X t"
  by (auto simp: truncate_time_def frame_codec_ok_def split: option.splits)

lemma wire_of_truncate:
  assumes "frame_codec_ok X"
  shows "wire_of_event X (truncate_event X e) = wire_of_event X e"
proof -
  have "wire_of_attempt X (truncate_attempt X a) = wire_of_attempt X a" for a
    using assms by (simp add: wire_of_attempt_def truncate_attempt_def unix_truncate)
  then have "wire_of_kind X (truncate_kind X k) = wire_of_kind X k" for k
    by (cases k) (simp_all add: truncate_kind_def)
  with assms show ?thesis by (simp add: wire_of_event_def truncate_event_def unix_truncate)
qed

lemma read_write_event:
  assumes "frame_codec_ok X" "event_storable X alg e" "write_event X e = Inr frame"
    and "length frame \<le> unat mx + 4"
  shows "read_event X alg mx (frame @ rest) = Inr (Some (truncate_event X e, rest))"
proof -
  obtain payload where p: "x_frame_encode X (from_event X e) = Inr payload"
    "length payload < 2 ^ 32" "frame = u32_to_be (of_nat (length payload)) @ payload"
    using assms(3) by (auto simp: write_event_def split: if_splits)
  have len: "unat (of_nat (length payload) :: u32) = length payload"
    using p(2) by (simp add: unat_of_nat)
  have "x_frame_decode X payload = Inr (from_event X e)"
    using assms(1) p(1) by (simp add: frame_codec_ok_def)
  moreover have "(of_nat (length payload) :: u32) \<le> mx"
    using assms(4) len by (simp add: p(3) word_le_nat_alt)
  ultimately show ?thesis
    unfolding read_event_Some_iff read_frame_Inr_iff
    using p len into_from_event [OF assms(2)]
    by (intro exI [of _ "u32_to_be (of_nat (length payload))"] exI [of _ "payload @ rest"]) auto
qed

lemma read_write_events:
  assumes "frame_codec_ok X" "list_all (event_storable X alg) es" "write_events X es = Inr bs"
    and "\<forall>e \<in> set es. \<forall>frame. write_event X e = Inr frame \<longrightarrow> length frame \<le> unat mx + 4"
  shows "read_events X alg mx bs = Inr (map (truncate_event X) es)"
  using assms(2-4)
proof (induction es arbitrary: bs)
  case Nil
  then show ?case by (subst read_events.simps) (simp add: read_event_None_iff [THEN iffD2])
next
  case (Cons e es)
  then obtain frame rest where f: "write_event X e = Inr frame" "write_events X es = Inr rest"
    "bs = frame @ rest" by auto
  then have "read_event X alg mx bs = Inr (Some (truncate_event X e, rest))"
    using Cons.prems read_write_event [OF assms(1)] by auto
  with Cons f show ?case by (subst read_events.simps) auto
qed

section \<open>Frames and the hashed form\<close>

text \<open>The frame of an event is determined by the form that is hashed.\<close>

lemma h_bytes_wire: "h_bytes = wire_bytes \<circ> to_wire"
  by (simp add: fun_eq_iff to_wire_def)

lemma to_wire_bytes: "to_wire h = to_wire k \<Longrightarrow> h_bytes h = h_bytes k"
  by (simp add: to_wire_def)

lemma option_to_wire_bytes:
  "map_option to_wire m = map_option to_wire n \<Longrightarrow> map_option h_bytes m = map_option h_bytes n"
  by (metis h_bytes_wire option.map_comp)

lemma map_to_wire_bytes: "map to_wire xs = map to_wire ys \<Longrightarrow> map h_bytes xs = map h_bytes ys"
  by (metis h_bytes_wire list.map_comp)

lemma from_attempt_wire: "wire_of_attempt X a = wire_of_attempt X b \<Longrightarrow> from_attempt X a = from_attempt X b"
  by (auto simp: wire_of_attempt_def from_attempt_def intro: to_wire_bytes option_to_wire_bytes)

lemma from_attempts_wire:
  "map (wire_of_attempt X) as = map (wire_of_attempt X) bs \<Longrightarrow> map (from_attempt X) as = map (from_attempt X) bs"
proof (induction as arbitrary: bs)
  case (Cons a as)
  then obtain b bs' where bs: "bs = b # bs'" "wire_of_attempt X a = wire_of_attempt X b"
    "map (wire_of_attempt X) as = map (wire_of_attempt X) bs'"
    by (cases bs) auto
  with Cons.IH [OF bs(3)] from_attempt_wire [OF bs(2)] show ?case by simp
qed simp

lemma from_kind_wire: "wire_of_kind X k = wire_of_kind X l \<Longrightarrow> from_kind X k = from_kind X l"
  by (cases k; cases l) (auto intro: to_wire_bytes option_to_wire_bytes from_attempts_wire)

lemma from_event_wire: "wire_of_event X e = wire_of_event X d \<Longrightarrow> from_event X e = from_event X d"
  by (auto simp: wire_of_event_def from_event_def intro: map_to_wire_bytes from_kind_wire simp del: map_eq_conv)

lemma write_events_wire:
  assumes "map (wire_of_event X) es = map (wire_of_event X) ds"
  shows "write_events X es = write_events X ds"
  using assms
proof (induction es arbitrary: ds)
  case (Cons e es)
  then obtain d ds' where ds: "ds = d # ds'" "wire_of_event X e = wire_of_event X d"
    "map (wire_of_event X) es = map (wire_of_event X) ds'"
    by (cases ds) auto
  have "write_event X e = write_event X d" using from_event_wire [OF ds(2)] by (simp add: write_event_def)
  with Cons.IH [OF ds(3)] show ?case by (simp add: ds(1))
qed simp

end
