(* ===== verification/Object_Store.thy ===== *)
theory Object_Store
  imports Events
begin

text \<open>
  \<open>akmon-journal/src/object_store.rs\<close>: the content-addressed object store. The trait
  \<open>ObjectStore\<close> is the locale \<open>object_store\<close>: its operations and the laws its clients rely on,
  with the consequences proved once inside it. \<open>MemoryObjectStore\<close> is modelled here in full and
  interprets the locale; the redb store is in \<open>Redb_Store\<close>.
\<close>

section \<open>The trait\<close>

locale object_store =
  fixes algorithm :: "'s \<Rightarrow> hash_algorithm"
    and put :: "'s \<Rightarrow> byte list \<Rightarrow> 's \<times> (journal_error + hash)"
    and get :: "'s \<Rightarrow> hash \<Rightarrow> journal_error + byte list option"
    and contains :: "'s \<Rightarrow> hash \<Rightarrow> journal_error + bool"
    and digest :: "hash_algorithm \<Rightarrow> byte list \<Rightarrow> hash"
    and inv :: "'s \<Rightarrow> bool"
  assumes put_algorithm: "put s b = (s', r) \<Longrightarrow> algorithm s' = algorithm s"
    and put_inv: "inv s \<Longrightarrow> put s b = (s', r) \<Longrightarrow> inv s'"
    and put_addr: "put s b = (s', Inr h) \<Longrightarrow> h = digest (algorithm s) b"
    and put_failed: "put s b = (s', Inl e) \<Longrightarrow> s' = s"
    and put_stored: "inv s \<Longrightarrow> put s b = (s', Inr h) \<Longrightarrow> get s' h = Inr v \<Longrightarrow> v \<noteq> None"
    and put_fresh: "inv s \<Longrightarrow> put s b = (s', Inr h) \<Longrightarrow> get s h = Inr None \<Longrightarrow>
          get s' h = Inr v \<Longrightarrow> v = Some b"
    and put_keeps: "inv s \<Longrightarrow> put s b = (s', r) \<Longrightarrow> get s h = Inr (Some c) \<Longrightarrow>
          get s' h = Inr v \<Longrightarrow> v = Some c"
    and get_addr: "inv s \<Longrightarrow> get s h = Inr (Some b) \<Longrightarrow> digest (algorithm s) b = h"
    and get_mismatch: "h_algorithm h \<noteq> algorithm s \<Longrightarrow>
          get s h = Inl (JHashAlgorithmMismatch (algorithm s) (h_algorithm h))"
    and contains_get: "contains s h = Inr p \<Longrightarrow> get s h = Inr v \<Longrightarrow> p = (v \<noteq> None)"
begin

text \<open>What is read back after a put: the bytes just put at a fresh address, the first stored bytes
  at an occupied one; either way they hash to the address the put returned.\<close>

lemma get_after_put:
  assumes "inv s" "put s b = (s', Inr h)" "get s h = Inr old" "get s' h = Inr v"
  shows "v = Some (case old of None \<Rightarrow> b | Some c \<Rightarrow> c)"
  using assms put_fresh put_keeps by (cases old) fastforce+

lemma get_after_put_addr:
  assumes "inv s" "put s b = (s', Inr h)" "get s' h = Inr v"
  shows "\<exists>c. v = Some c \<and> digest (algorithm s) c = digest (algorithm s) b"
proof -
  obtain c where v: "v = Some c" using put_stored [OF assms] by blast
  have "digest (algorithm s) c = h"
    using get_addr [OF put_inv [OF assms(1,2)]] put_algorithm [OF assms(2)] assms(3) v by simp
  with v put_addr [OF assms(2)] show ?thesis by simp
qed

text \<open>Two stores that agree on the algorithm agree on the digest of the content of an address.\<close>

lemma get_same_digest:
  assumes "inv s" "inv t" "algorithm s = algorithm t"
    and "get s h = Inr (Some b)" "get t h = Inr (Some c)"
  shows "digest (algorithm s) b = digest (algorithm s) c"
  using get_addr [OF assms(1,4)] get_addr [OF assms(2,5)] assms(3) by simp

text \<open>Puts in sequence, as the journaling clients issue them.\<close>

primrec put_all :: "'s \<Rightarrow> byte list list \<Rightarrow> 's \<times> (journal_error + hash) list" where
  "put_all s [] = (s, [])"
| "put_all s (b # bs) =
     (let (s', r) = put s b; (s'', rs) = put_all s' bs in (s'', r # rs))"

lemma put_all_inv: "inv s \<Longrightarrow> put_all s bs = (s', rs) \<Longrightarrow> inv s'"
  by (induction bs arbitrary: s rs)
     (auto simp: Let_def split: prod.splits dest: put_inv)

lemma put_all_algorithm: "put_all s bs = (s', rs) \<Longrightarrow> algorithm s' = algorithm s"
  by (induction bs arbitrary: s rs)
     (auto simp: Let_def split: prod.splits dest!: put_algorithm)

end

section \<open>MemoryObjectStore\<close>

text \<open>The \<open>RwLock\<close> is poisoned when a thread panicked while it held the lock.\<close>

record mem_store =
  ms_algorithm :: hash_algorithm
  ms_objects :: "(byte list, byte list) hash_map"
  ms_poisoned :: bool

definition lock_poisoned :: journal_error where
  "lock_poisoned = JVerification ''memory object store lock poisoned''"

definition mem_new :: "hash_algorithm \<Rightarrow> mem_store" where
  "mem_new a = \<lparr>ms_algorithm = a, ms_objects = [], ms_poisoned = False\<rparr>"

definition mem_put ::
    "'x hash_ext_scheme \<Rightarrow> mem_store \<Rightarrow> byte list \<Rightarrow> mem_store \<times> (journal_error + hash)" where
  "mem_put X m bytes =
     (let h = digest_bytes X (ms_algorithm m) bytes in
      if ms_poisoned m then (m, Inl lock_poisoned)
      else (m\<lparr>ms_objects := hm_insert_vacant (h_bytes h) bytes (ms_objects m)\<rparr>, Inr h))"

definition mem_get :: "mem_store \<Rightarrow> hash \<Rightarrow> journal_error + byte list option" where
  "mem_get m h =
     (if h_algorithm h \<noteq> ms_algorithm m
      then Inl (JHashAlgorithmMismatch (ms_algorithm m) (h_algorithm h))
      else if ms_poisoned m then Inl lock_poisoned
      else Inr (hm_get (ms_objects m) (h_bytes h)))"

definition mem_contains :: "mem_store \<Rightarrow> hash \<Rightarrow> journal_error + bool" where
  "mem_contains m h =
     (if h_algorithm h \<noteq> ms_algorithm m
      then Inl (JHashAlgorithmMismatch (ms_algorithm m) (h_algorithm h))
      else if ms_poisoned m then Inl lock_poisoned
      else Inr (hm_contains (ms_objects m) (h_bytes h)))"

definition mem_iter_hashes :: "mem_store \<Rightarrow> journal_error + hash list" where
  "mem_iter_hashes m =
     (if ms_poisoned m then Inl lock_poisoned
      else Inr (map (\<lambda>b. hash_from_bytes (ms_algorithm m) b) (map fst (ms_objects m))))"

text \<open>The corruption helpers of the feature \<open>test-utils\<close>.\<close>

definition mem_overwrite ::
    "mem_store \<Rightarrow> hash \<Rightarrow> byte list \<Rightarrow> mem_store \<times> (journal_error + unit)" where
  "mem_overwrite m h corrupt =
     (if h_algorithm h \<noteq> ms_algorithm m
      then (m, Inl (JHashAlgorithmMismatch (ms_algorithm m) (h_algorithm h)))
      else if ms_poisoned m then (m, Inl lock_poisoned)
      else (m\<lparr>ms_objects := hm_insert (h_bytes h) corrupt (ms_objects m)\<rparr>, Inr ()))"

definition mem_remove :: "mem_store \<Rightarrow> hash \<Rightarrow> mem_store \<times> (journal_error + unit)" where
  "mem_remove m h =
     (if h_algorithm h \<noteq> ms_algorithm m
      then (m, Inl (JHashAlgorithmMismatch (ms_algorithm m) (h_algorithm h)))
      else if ms_poisoned m then (m, Inl lock_poisoned)
      else (m\<lparr>ms_objects := hm_remove (h_bytes h) (ms_objects m)\<rparr>, Inr ()))"

text \<open>Every stored blob hashes to its key, and keys are distinct.\<close>

definition mem_inv :: "'x hash_ext_scheme \<Rightarrow> mem_store \<Rightarrow> bool" where
  "mem_inv X m \<longleftrightarrow> hm_wf (ms_objects m) \<and>
     (\<forall>k b. hm_get (ms_objects m) k = Some b \<longrightarrow> h_bytes (digest_bytes X (ms_algorithm m) b) = k)"

lemma mem_inv_new: "mem_inv X (mem_new a)"
  by (simp add: mem_inv_def mem_new_def hm_get_def hm_wf_def)

lemma mem_put_inv: "mem_inv X m \<Longrightarrow> mem_put X m b = (m', r) \<Longrightarrow> mem_inv X m'"
  by (auto simp: mem_put_def mem_inv_def Let_def split: if_splits option.splits)

lemma mem_put_get:
  assumes "mem_put X m b = (m', Inr h)"
  shows "mem_get m' h = Inr (Some (case hm_get (ms_objects m) (h_bytes h) of None \<Rightarrow> b | Some c \<Rightarrow> c))"
  using assms by (auto simp: mem_put_def mem_get_def Let_def split: if_splits option.splits)

lemma mem_put_poisoned: "mem_put X m b = (m', r) \<Longrightarrow> ms_poisoned m' = ms_poisoned m"
  by (auto simp: mem_put_def Let_def split: if_splits)

interpretation mem: object_store ms_algorithm "mem_put X" mem_get mem_contains "digest_bytes X" "mem_inv X"
  for X :: "'x hash_ext_scheme"
proof
  fix s b s' r
  assume "mem_put X s b = (s', r)"
  then show "ms_algorithm s' = ms_algorithm s"
    by (auto simp: mem_put_def Let_def split: if_splits)
next
  fix s b s' r
  assume "mem_inv X s" "mem_put X s b = (s', r)"
  then show "mem_inv X s'" by (rule mem_put_inv)
next
  fix s b s' h
  assume "mem_put X s b = (s', Inr h)"
  then show "h = digest_bytes X (ms_algorithm s) b"
    by (auto simp: mem_put_def Let_def split: if_splits)
next
  fix s b s' e
  assume "mem_put X s b = (s', Inl e)"
  then show "s' = s" by (auto simp: mem_put_def Let_def split: if_splits)
next
  fix s b s' h v
  assume "mem_put X s b = (s', Inr h)" "mem_get s' h = Inr v"
  then show "v \<noteq> None" by (auto simp: mem_put_get)
next
  fix s s' :: mem_store and b h v
  assume p: "mem_put X s b = (s', Inr h)" and g: "mem_get s h = Inr None" "mem_get s' h = Inr v"
  from g(1) have "hm_get (ms_objects s) (h_bytes h) = None"
    by (auto simp: mem_get_def split: if_splits)
  with g(2) mem_put_get [OF p] show "v = Some b" by simp
next
  fix s s' :: mem_store and b r h c v
  assume p: "mem_put X s b = (s', r)" and g: "mem_get s h = Inr (Some c)" "mem_get s' h = Inr v"
  from p have "s' = (if ms_poisoned s then s
      else s\<lparr>ms_objects := hm_insert_vacant (h_bytes (digest_bytes X (ms_algorithm s) b)) b (ms_objects s)\<rparr>)"
    by (auto simp: mem_put_def Let_def)
  with g show "v = Some c"
    by (auto simp: mem_get_def split: if_splits option.splits)
next
  fix s h b
  assume "mem_inv X s" "mem_get s h = Inr (Some b)"
  then show "digest_bytes X (ms_algorithm s) b = h"
    by (auto simp: mem_inv_def mem_get_def hash_eq_iff split: if_splits)
next
  fix h :: hash and s :: mem_store
  assume "h_algorithm h \<noteq> ms_algorithm s"
  then show "mem_get s h = Inl (JHashAlgorithmMismatch (ms_algorithm s) (h_algorithm h))"
    by (simp add: mem_get_def)
next
  fix s h p v
  assume "mem_contains s h = Inr p" "mem_get s h = Inr v"
  then show "p = (v \<noteq> None)"
    by (auto simp: mem_contains_def mem_get_def split: if_splits)
qed

section \<open>The trait object\<close>

text \<open>What a \<open>&dyn ObjectStore\<close> argument offers the verifier.\<close>

record store_view =
  sv_algorithm :: hash_algorithm
  sv_contains :: "hash \<Rightarrow> journal_error + bool"
  sv_get :: "hash \<Rightarrow> journal_error + byte list option"

definition mem_view :: "mem_store \<Rightarrow> store_view" where
  "mem_view m = \<lparr>sv_algorithm = ms_algorithm m, sv_contains = mem_contains m, sv_get = mem_get m\<rparr>"

text \<open>A store whose reads succeed for its own algorithm and refuse the other one.\<close>

definition view_total :: "store_view \<Rightarrow> (byte list \<Rightarrow> byte list option) \<Rightarrow> bool" where
  "view_total V objs \<longleftrightarrow>
     (\<forall>h. h_algorithm h = sv_algorithm V \<longrightarrow>
        sv_get V h = Inr (objs (h_bytes h)) \<and> sv_contains V h = Inr (objs (h_bytes h) \<noteq> None)) \<and>
     (\<forall>h. h_algorithm h \<noteq> sv_algorithm V \<longrightarrow>
        sv_get V h = Inl (JHashAlgorithmMismatch (sv_algorithm V) (h_algorithm h)) \<and>
        sv_contains V h = Inl (JHashAlgorithmMismatch (sv_algorithm V) (h_algorithm h)))"

lemma mem_view_total:
  "\<not> ms_poisoned m \<Longrightarrow> view_total (mem_view m) (hm_get (ms_objects m))"
  by (simp add: view_total_def mem_view_def mem_get_def mem_contains_def)

lemma mem_view_algorithm [simp]: "sv_algorithm (mem_view m) = ms_algorithm m"
  by (simp add: mem_view_def)

end
