(* ===== verification/Session_Verify.thy ===== *)
theory Session_Verify
  imports Object_Store
begin

text \<open>
  The journal-side verifier of \<open>akmon-journal/src/session_graph.rs\<close>:
  \<open>VerificationReport\<close>, \<open>verify_history_against_store\<close> and the import preconditions. The
  declarative specification \<open>linear_session\<close> says what a verified session is;
  \<open>verify_history_clean_iff\<close> shows that the fail-soft verifier reports a clean result for
  exactly the histories that meet it.
\<close>

section \<open>Reports\<close>

record missing_object =
  mo_object_hash :: hash
  mo_referenced_by :: "hash option"

datatype verify_check =
    ParentChain | Sequence | EventHashRecompute | ObjectPresence | ObjectByteRehash
  | HeadConsistency | SessionEndInvariants

record verification_report =
  vr_events_checked :: u64
  vr_objects_checked :: u64
  vr_missing_objects :: "missing_object list"
  vr_object_hash_mismatches :: "hash list"
  vr_hash_mismatches :: "hash list"
  vr_broken_parent_links :: "(hash \<times> hash) list"
  vr_sequence_violations :: "u64 list"
  vr_head_mismatch :: "(hash \<times> hash) option"
  vr_session_end_count :: nat
  vr_session_end_is_terminal :: bool
  vr_checks_performed :: "verify_check list"

definition report_is_clean :: "verification_report \<Rightarrow> bool" where
  "report_is_clean r \<longleftrightarrow>
     vr_missing_objects r = [] \<and> vr_object_hash_mismatches r = [] \<and> vr_hash_mismatches r = [] \<and>
     vr_broken_parent_links r = [] \<and> vr_sequence_violations r = [] \<and>
     vr_head_mismatch r = None \<and> vr_session_end_count r = 1 \<and> vr_session_end_is_terminal r"

definition initial_report :: verification_report where
  "initial_report =
     \<lparr>vr_events_checked = 0, vr_objects_checked = 0, vr_missing_objects = [],
      vr_object_hash_mismatches = [], vr_hash_mismatches = [], vr_broken_parent_links = [],
      vr_sequence_violations = [], vr_head_mismatch = None, vr_session_end_count = 0,
      vr_session_end_is_terminal = False,
      vr_checks_performed = [ParentChain, Sequence, EventHashRecompute, ObjectPresence,
        ObjectByteRehash, HeadConsistency, SessionEndInvariants]\<rparr>"

section \<open>The verifier\<close>

text \<open>The mutable variables of the loop over the history.\<close>

record verify_state =
  vs_report :: verification_report
  vs_expected_prev :: "hash option"
  vs_end_count :: nat
  vs_last_end :: "nat option"

definition initial_state :: verify_state where
  "initial_state =
     \<lparr>vs_report = initial_report, vs_expected_prev = None, vs_end_count = 0, vs_last_end = None\<rparr>"

definition zero_hash :: "hash_algorithm \<Rightarrow> hash" where
  "zero_hash a = hash_from_bytes a (replicate 32 0)"

definition note_missing :: "hash \<Rightarrow> hash \<Rightarrow> verification_report \<Rightarrow> verification_report" where
  "note_missing ev_hash obj r =
     r\<lparr>vr_missing_objects := vr_missing_objects r @
         [\<lparr>mo_object_hash = obj, mo_referenced_by = Some ev_hash\<rparr>]\<rparr>"

text \<open>The inner loop body: one referenced object.\<close>

definition check_object ::
    "'x hash_ext_scheme \<Rightarrow> store_view \<Rightarrow> hash \<Rightarrow> verification_report \<Rightarrow> hash
     \<Rightarrow> journal_error + verification_report" where
  "check_object X V ev_hash r0 obj =
     (let r = r0\<lparr>vr_objects_checked := vr_objects_checked r0 + 1\<rparr> in
      case sv_contains V obj of
        Inl e \<Rightarrow> Inl e
      | Inr False \<Rightarrow> Inr (note_missing ev_hash obj r)
      | Inr True \<Rightarrow>
          (case sv_get V obj of
             Inl e \<Rightarrow> Inl e
           | Inr None \<Rightarrow> Inr (note_missing ev_hash obj r)
           | Inr (Some bytes) \<Rightarrow>
               (if digest_bytes X (sv_algorithm V) bytes \<noteq> obj
                then Inr (r\<lparr>vr_object_hash_mismatches := vr_object_hash_mismatches r @ [obj]\<rparr>)
                else Inr r)))"

fun check_objects ::
    "'x hash_ext_scheme \<Rightarrow> store_view \<Rightarrow> hash \<Rightarrow> verification_report \<Rightarrow> hash list
     \<Rightarrow> journal_error + verification_report" where
  "check_objects X V ev_hash r [] = Inr r"
| "check_objects X V ev_hash r (obj # objs) =
     res_bind (check_object X V ev_hash r obj) (\<lambda>r'. check_objects X V ev_hash r' objs)"

text \<open>Sequence number and parent linkage of the event at position \<open>idx\<close>.\<close>

definition check_sequence :: "nat \<Rightarrow> event \<Rightarrow> verification_report \<Rightarrow> verification_report" where
  "check_sequence idx e r0 =
     (let r = r0\<lparr>vr_events_checked := vr_events_checked r0 + 1\<rparr> in
      if ev_sequence e \<noteq> of_nat idx
      then r\<lparr>vr_sequence_violations := vr_sequence_violations r @ [ev_sequence e]\<rparr>
      else r)"

definition check_parents ::
    "store_view \<Rightarrow> nat \<Rightarrow> hash option \<Rightarrow> hash \<Rightarrow> event \<Rightarrow> verification_report
     \<Rightarrow> verification_report" where
  "check_parents V idx expected_prev stored_hash e r =
     (if idx = 0 then
        (if \<not> is_session_start (ev_kind e) \<or> ev_parents e \<noteq> []
         then r\<lparr>vr_broken_parent_links := vr_broken_parent_links r @
                  [(stored_hash, zero_hash (sv_algorithm V))]\<rparr>
         else r)
      else case expected_prev of
        None \<Rightarrow> r
      | Some prev \<Rightarrow>
          (if length (ev_parents e) \<noteq> 1 \<or> head_opt (ev_parents e) \<noteq> Some prev
           then r\<lparr>vr_broken_parent_links := vr_broken_parent_links r @ [(stored_hash, prev)]\<rparr>
           else r))"

definition note_session_end :: "nat \<Rightarrow> event \<Rightarrow> verify_state \<Rightarrow> verify_state" where
  "note_session_end idx e st =
     (if is_session_end (ev_kind e)
      then st\<lparr>vs_end_count := vs_end_count st + 1, vs_last_end := Some idx\<rparr> else st)"

definition check_hash :: "hash \<Rightarrow> hash \<Rightarrow> verification_report \<Rightarrow> verification_report" where
  "check_hash stored_hash recomputed r =
     (if recomputed \<noteq> stored_hash
      then r\<lparr>vr_hash_mismatches := vr_hash_mismatches r @ [stored_hash]\<rparr> else r)"

definition check_event ::
    "'x event_ext_scheme \<Rightarrow> store_view \<Rightarrow> nat \<Rightarrow> verify_state \<Rightarrow> hash \<times> event
     \<Rightarrow> journal_error + verify_state" where
  "check_event X V idx st p =
     (let stored_hash = fst p; e = snd p;
          st1 = note_session_end idx e st;
          r1 = check_parents V idx (vs_expected_prev st1) stored_hash e
                 (check_sequence idx e (vs_report st1)) in
      res_bind (content_hash X (sv_algorithm V) e) (\<lambda>recomputed.
      res_bind
        (check_objects X V stored_hash (check_hash stored_hash recomputed r1)
           (referenced_object_hashes_for_kind (ev_kind e)))
        (\<lambda>r3. Inr (st1\<lparr>vs_report := r3, vs_expected_prev := Some stored_hash\<rparr>))))"

fun check_events ::
    "'x event_ext_scheme \<Rightarrow> store_view \<Rightarrow> nat \<Rightarrow> verify_state \<Rightarrow> (hash \<times> event) list
     \<Rightarrow> journal_error + verify_state" where
  "check_events X V idx st [] = Inr st"
| "check_events X V idx st (p # ps) =
     res_bind (check_event X V idx st p) (\<lambda>st'. check_events X V (Suc idx) st' ps)"

text \<open>The checks after the loop: the \<open>SessionEnd\<close> invariants and the head.\<close>

definition finish_report ::
    "(hash \<times> event) list \<Rightarrow> hash option \<Rightarrow> verify_state \<Rightarrow> verification_report" where
  "finish_report history stored_head st =
     (let n = vs_end_count st;
          r = (vs_report st)\<lparr>vr_session_end_count := n,
                vr_session_end_is_terminal :=
                  (n = 1 \<and> vs_last_end st = Some (length history - 1))\<rparr> in
      case (stored_head, map_option fst (last_opt history)) of
        (Some stored, Some computed) \<Rightarrow>
          (if stored \<noteq> computed then r\<lparr>vr_head_mismatch := Some (stored, computed)\<rparr> else r)
      | _ \<Rightarrow> r)"

definition verify_history_against_store ::
    "'x event_ext_scheme \<Rightarrow> (hash \<times> event) list \<Rightarrow> hash option \<Rightarrow> store_view
     \<Rightarrow> journal_error + verification_report" where
  "verify_history_against_store X history stored_head V =
     res_bind (check_events X V 0 initial_state history)
       (\<lambda>st. Inr (finish_report history stored_head st))"

definition verify_linear_history_against_store ::
    "'x event_ext_scheme \<Rightarrow> (hash \<times> event) list \<Rightarrow> hash option \<Rightarrow> store_view
     \<Rightarrow> journal_error + verification_report" where
  "verify_linear_history_against_store X history declared_head V =
     verify_history_against_store X history declared_head V"

section \<open>Import preconditions\<close>

definition ensure_empty_import_target :: "hash option \<Rightarrow> nat \<Rightarrow> journal_error + unit" where
  "ensure_empty_import_target head history_len =
     (if head \<noteq> None \<or> history_len > 0
      then Inl (JVerification ''import target session is not empty'') else Inr ())"

definition verify_import_precondition ::
    "'x event_ext_scheme \<Rightarrow> (hash \<times> event) list \<Rightarrow> store_view \<Rightarrow> journal_error + unit" where
  "verify_import_precondition X events V =
     (if events = [] then Inl (JVerification ''cannot import empty event history'')
      else res_bind (verify_linear_history_against_store X events None V) (\<lambda>report.
        if \<not> report_is_clean report
        then Inl (JVerification ''import precondition: linear history verification not clean'')
        else Inr ()))"

section \<open>Specification\<close>

definition object_ok :: "'x hash_ext_scheme \<Rightarrow> store_view \<Rightarrow> hash \<Rightarrow> bool" where
  "object_ok X V obj \<longleftrightarrow> sv_contains V obj = Inr True \<and>
     (\<exists>b. sv_get V obj = Inr (Some b) \<and> digest_bytes X (sv_algorithm V) b = obj)"

definition link_ok :: "nat \<Rightarrow> hash option \<Rightarrow> event \<Rightarrow> bool" where
  "link_ok idx prev e \<longleftrightarrow>
     (if idx = 0 then is_session_start (ev_kind e) \<and> ev_parents e = []
      else case prev of None \<Rightarrow> True | Some p \<Rightarrow> ev_parents e = [p])"

text \<open>The hash chain alone, for any event hash function \<open>H\<close>.\<close>

definition entry_ok ::
    "(event \<Rightarrow> journal_error + hash) \<Rightarrow> nat \<Rightarrow> hash option \<Rightarrow> hash \<times> event \<Rightarrow> bool" where
  "entry_ok H idx prev p \<longleftrightarrow>
     ev_sequence (snd p) = of_nat idx \<and> link_ok idx prev (snd p) \<and> H (snd p) = Inr (fst p)"

fun hash_chain ::
    "(event \<Rightarrow> journal_error + hash) \<Rightarrow> nat \<Rightarrow> hash option \<Rightarrow> (hash \<times> event) list \<Rightarrow> bool" where
  "hash_chain H idx prev [] = True"
| "hash_chain H idx prev (p # ps) =
     (entry_ok H idx prev p \<and> hash_chain H (Suc idx) (Some (fst p)) ps)"

definition objects_ok :: "'x hash_ext_scheme \<Rightarrow> store_view \<Rightarrow> event \<Rightarrow> bool" where
  "objects_ok X V e \<longleftrightarrow>
     list_all (object_ok X V) (referenced_object_hashes_for_kind (ev_kind e))"

definition ends_once :: "event list \<Rightarrow> bool" where
  "ends_once es \<longleftrightarrow> es \<noteq> [] \<and> is_session_end (ev_kind (last es)) \<and>
     list_all (\<lambda>e. \<not> is_session_end (ev_kind e)) (butlast es)"

definition linear_session ::
    "'x event_ext_scheme \<Rightarrow> store_view \<Rightarrow> (hash \<times> event) list \<Rightarrow> hash option \<Rightarrow> bool" where
  "linear_session X V history head \<longleftrightarrow>
     hash_chain (content_hash X (sv_algorithm V)) 0 None history \<and>
     list_all (objects_ok X V) (map snd history) \<and> ends_once (map snd history) \<and>
     (\<forall>d. head = Some d \<longrightarrow> d = fst (last history))"

section \<open>The verifier meets the specification\<close>

definition core_clean :: "verification_report \<Rightarrow> bool" where
  "core_clean r \<longleftrightarrow>
     vr_missing_objects r = [] \<and> vr_object_hash_mismatches r = [] \<and> vr_hash_mismatches r = [] \<and>
     vr_broken_parent_links r = [] \<and> vr_sequence_violations r = []"

lemmas report_simps = core_clean_def note_missing_def Let_def

lemma check_object_clean:
  "(\<exists>r'. check_object X V h r obj = Inr r' \<and> core_clean r' \<and> P r') \<longleftrightarrow>
   core_clean r \<and> object_ok X V obj \<and> P (r\<lparr>vr_objects_checked := vr_objects_checked r + 1\<rparr>)"
  by (auto simp: check_object_def object_ok_def report_simps
           split: sum.splits option.splits bool.splits)

lemma check_objects_clean:
  "(\<exists>r'. check_objects X V h r objs = Inr r' \<and> core_clean r') \<longleftrightarrow>
   core_clean r \<and> list_all (object_ok X V) objs"
proof (induction objs arbitrary: r)
  case Nil
  then show ?case by simp
next
  case (Cons obj objs)
  have "(\<exists>r'. check_objects X V h r (obj # objs) = Inr r' \<and> core_clean r') \<longleftrightarrow>
        (\<exists>r1. check_object X V h r obj = Inr r1 \<and>
           (\<exists>r'. check_objects X V h r1 objs = Inr r' \<and> core_clean r'))"
    by auto
  also have "\<dots> \<longleftrightarrow> (\<exists>r1. check_object X V h r obj = Inr r1 \<and> core_clean r1 \<and>
        list_all (object_ok X V) objs)"
    by (simp add: Cons.IH)
  also have "\<dots> \<longleftrightarrow> core_clean r \<and> object_ok X V obj \<and> list_all (object_ok X V) objs"
    using check_object_clean [where P = "\<lambda>_. list_all (object_ok X V) objs"] by metis
  finally show ?case by simp
qed

lemma check_sequence_clean [simp]:
  "core_clean (check_sequence idx e r) \<longleftrightarrow> core_clean r \<and> ev_sequence e = of_nat idx"
  by (auto simp: check_sequence_def report_simps)

lemma check_parents_clean [simp]:
  "core_clean (check_parents V idx prev h e r) \<longleftrightarrow> core_clean r \<and> link_ok idx prev e"
  using head_opt_singleton_iff [of "ev_parents e"]
  by (auto simp: check_parents_def link_ok_def report_simps split: option.splits)

lemma check_hash_clean [simp]:
  "core_clean (check_hash h k r) \<longleftrightarrow> core_clean r \<and> k = h"
  by (auto simp: check_hash_def core_clean_def)

lemma note_session_end_simps [simp]:
  "vs_report (note_session_end idx e st) = vs_report st"
  "vs_expected_prev (note_session_end idx e st) = vs_expected_prev st"
  by (simp_all add: note_session_end_def)

lemma check_event_Inr_iff:
  "check_event X V idx st p = Inr st' \<longleftrightarrow>
   (\<exists>k r3. content_hash X (sv_algorithm V) (snd p) = Inr k \<and>
      check_objects X V (fst p)
        (check_hash (fst p) k (check_parents V idx (vs_expected_prev st) (fst p) (snd p)
           (check_sequence idx (snd p) (vs_report st))))
        (referenced_object_hashes_for_kind (ev_kind (snd p))) = Inr r3 \<and>
      st' = (note_session_end idx (snd p) st)\<lparr>vs_report := r3, vs_expected_prev := Some (fst p)\<rparr>)"
  by (auto simp: check_event_def Let_def)

lemma check_event_clean:
  "(\<exists>st'. check_event X V idx st p = Inr st' \<and> core_clean (vs_report st')) \<longleftrightarrow>
   core_clean (vs_report st) \<and> objects_ok X V (snd p) \<and>
   entry_ok (content_hash X (sv_algorithm V)) idx (vs_expected_prev st) p"
proof -
  let ?r1 = "check_parents V idx (vs_expected_prev st) (fst p) (snd p)
           (check_sequence idx (snd p) (vs_report st))"
  let ?objs = "referenced_object_hashes_for_kind (ev_kind (snd p))"
  have "(\<exists>st'. check_event X V idx st p = Inr st' \<and> core_clean (vs_report st')) \<longleftrightarrow>
        (\<exists>k. content_hash X (sv_algorithm V) (snd p) = Inr k \<and>
           (\<exists>r3. check_objects X V (fst p) (check_hash (fst p) k ?r1) ?objs = Inr r3 \<and> core_clean r3))"
    unfolding check_event_Inr_iff by force
  then show ?thesis
    by (auto simp: check_objects_clean entry_ok_def objects_ok_def)
qed

lemma check_event_state:
  assumes "check_event X V idx st p = Inr st'"
  shows "vs_expected_prev st' = Some (fst p)"
    and "vs_end_count st' = vs_end_count st + (if is_session_end (ev_kind (snd p)) then 1 else 0)"
    and "vs_last_end st' = (if is_session_end (ev_kind (snd p)) then Some idx else vs_last_end st)"
  using assms by (auto simp: check_event_Inr_iff note_session_end_def)

lemma check_events_clean:
  "(\<exists>st'. check_events X V idx st ps = Inr st' \<and> core_clean (vs_report st')) \<longleftrightarrow>
   core_clean (vs_report st) \<and> list_all (objects_ok X V) (map snd ps) \<and>
   hash_chain (content_hash X (sv_algorithm V)) idx (vs_expected_prev st) ps"
proof (induction ps arbitrary: idx st)
  case Nil
  then show ?case by simp
next
  case (Cons p ps)
  have "(\<exists>st'. check_events X V idx st (p # ps) = Inr st' \<and> core_clean (vs_report st')) \<longleftrightarrow>
        (\<exists>s. check_event X V idx st p = Inr s \<and>
           (\<exists>st'. check_events X V (Suc idx) s ps = Inr st' \<and> core_clean (vs_report st')))"
    by auto
  also have "\<dots> \<longleftrightarrow> (\<exists>s. check_event X V idx st p = Inr s \<and>
        core_clean (vs_report s) \<and> list_all (objects_ok X V) (map snd ps) \<and>
        hash_chain (content_hash X (sv_algorithm V)) (Suc idx) (vs_expected_prev s) ps)"
    by (simp only: Cons.IH)
  also have "\<dots> \<longleftrightarrow> (\<exists>s. check_event X V idx st p = Inr s \<and> core_clean (vs_report s)) \<and>
        list_all (objects_ok X V) (map snd ps) \<and>
        hash_chain (content_hash X (sv_algorithm V)) (Suc idx) (Some (fst p)) ps"
    by (auto simp: check_event_state(1) cong: conj_cong)
  finally show ?case by (auto simp: check_event_clean)
qed

text \<open>The counters of the loop.\<close>

definition end_positions :: "(hash \<times> event) list \<Rightarrow> nat list" where
  "end_positions ps = filter (\<lambda>i. is_session_end (ev_kind (snd (ps ! i)))) [0..<length ps]"

lemma check_events_snoc:
  "check_events X V idx st (ps @ [p]) =
     res_bind (check_events X V idx st ps) (\<lambda>s. check_event X V (idx + length ps) s p)"
proof (induction ps arbitrary: idx st)
  case Nil
  show ?case by (cases "check_event X V idx st p") auto
next
  case (Cons q qs)
  then show ?case by (cases "check_event X V idx st q") auto
qed

lemma end_positions_snoc:
  "end_positions (ps @ [p]) =
     end_positions ps @ (if is_session_end (ev_kind (snd p)) then [length ps] else [])"
  unfolding end_positions_def
  by (auto simp: nth_append intro!: filter_cong)

lemma check_events_counters:
  assumes "check_events X V 0 initial_state ps = Inr st"
  shows "vs_end_count st = length (end_positions ps) \<and> vs_last_end st = last_opt (end_positions ps)"
  using assms
proof (induction ps arbitrary: st rule: rev_induct)
  case Nil
  then show ?case by (auto simp: initial_state_def end_positions_def)
next
  case (snoc p ps)
  then obtain s where s: "check_events X V 0 initial_state ps = Inr s"
    and e: "check_event X V (length ps) s p = Inr st"
    by (auto simp: check_events_snoc)
  show ?case
    using snoc.IH [OF s] check_event_state(2,3) [OF e]
    by (auto simp: end_positions_snoc)
qed

lemma last_opt_eq_Some: "last_opt xs = Some x \<longleftrightarrow> xs \<noteq> [] \<and> last xs = x"
  by (simp add: last_opt_def)

lemma ends_once_positions:
  "length (end_positions ps) = 1 \<and> last_opt (end_positions ps) = Some (length ps - 1) \<longleftrightarrow>
   ends_once (map snd ps)"
proof (cases ps rule: rev_cases)
  case Nil
  then show ?thesis by (simp add: end_positions_def ends_once_def)
next
  case (snoc qs q)
  have none: "end_positions qs = [] \<longleftrightarrow> list_all (\<lambda>e. \<not> is_session_end (ev_kind e)) (map snd qs)"
    by (auto simp: end_positions_def filter_empty_conv list_all_length)
  have "length qs \<notin> set (end_positions qs)"
    by (simp add: end_positions_def)
  then have "last_opt (end_positions qs) \<noteq> Some (length qs)"
    by (metis last_in_set last_opt_eq_Some)
  then show ?thesis
    using none by (auto simp: snoc end_positions_snoc ends_once_def)
qed

theorem verify_history_clean_iff:
  "(\<exists>r. verify_history_against_store X history head V = Inr r \<and> report_is_clean r) \<longleftrightarrow>
   linear_session X V history head"
proof -
  have fin: "report_is_clean (finish_report history head st) \<longleftrightarrow>
      core_clean (vs_report st) \<and> ends_once (map snd history) \<and>
      (\<forall>d. head = Some d \<longrightarrow> d = fst (last history))"
    if "check_events X V 0 initial_state history = Inr st" "vr_head_mismatch (vs_report st) = None"
    for st
    using check_events_counters [OF that(1)] ends_once_positions [of history] that(2)
    by (auto simp: finish_report_def report_is_clean_def core_clean_def Let_def last_opt_def
        ends_once_def split: option.splits)
  have hm: "vr_head_mismatch (vs_report st) = None"
    if "check_events X V 0 initial_state history = Inr st" for st
  proof -
    have objs: "vr_head_mismatch r' = vr_head_mismatch r" if "check_objects X V h r objs = Inr r'"
      for h r objs r'
      using that
    proof (induction objs arbitrary: r)
      case (Cons a objs)
      then obtain s where "check_object X V h r a = Inr s" "check_objects X V h s objs = Inr r'"
        by auto
      with Cons.IH [of s] show ?case
        by (auto simp: check_object_def note_missing_def Let_def
            split: sum.splits bool.splits option.splits if_splits)
    qed simp
    have ev: "vr_head_mismatch (vs_report s') = vr_head_mismatch (vs_report s)"
      if "check_event X V idx s p = Inr s'" for idx s p s'
      using that
      by (auto simp: check_event_Inr_iff check_sequence_def check_parents_def check_hash_def Let_def
          split: option.splits if_splits dest!: objs)
    have evs: "vr_head_mismatch (vs_report s') = vr_head_mismatch (vs_report s)"
      if "check_events X V idx s ps = Inr s'" for idx s ps s'
      using that by (induction ps arbitrary: idx s) (auto dest: ev)
    show ?thesis using evs [OF that] by (simp add: initial_state_def initial_report_def)
  qed
  have "core_clean (vs_report initial_state)" "vs_expected_prev initial_state = None"
    by (simp_all add: initial_state_def initial_report_def core_clean_def)
  then have "list_all (objects_ok X V) (map snd history) \<and>
      hash_chain (content_hash X (sv_algorithm V)) 0 None history \<longleftrightarrow>
      (\<exists>st. check_events X V 0 initial_state history = Inr st \<and> core_clean (vs_report st))"
    by (simp add: check_events_clean)
  then show ?thesis
    unfolding verify_history_against_store_def linear_session_def
    using fin hm by auto
qed

section \<open>The head binds the whole session\<close>

lemma hash_chain_snoc:
  "hash_chain H idx prev (ps @ [p]) \<longleftrightarrow> hash_chain H idx prev ps \<and>
     entry_ok H (idx + length ps) (if ps = [] then prev else Some (fst (last ps))) p"
  by (induction ps arbitrary: idx prev) auto

lemma hash_chain_nth:
  assumes "hash_chain H idx prev ps" "i < length ps"
  shows "H (snd (ps ! i)) = Inr (fst (ps ! i))"
  using assms
proof (induction ps arbitrary: idx prev i)
  case (Cons p ps)
  then show ?case by (cases i) (auto simp: entry_ok_def)
qed simp

text \<open>Some event of \<open>ps\<close> and some event of \<open>qs\<close> collide.\<close>

definition histories_collide ::
    "'x event_ext_scheme \<Rightarrow> hash_algorithm \<Rightarrow> event list \<Rightarrow> event list \<Rightarrow> bool" where
  "histories_collide X a es es' \<longleftrightarrow> (\<exists>e \<in> set es. \<exists>e' \<in> set es'. event_collides X a e e')"

lemma hash_chain_binding:
  assumes inj: "cbor_inj X"
    and "hash_chain (content_hash X a) 0 None (ps @ [p])"
    and "hash_chain (content_hash X a) 0 None (qs @ [q])"
    and "fst p = fst q"
  shows "map (wire_of_event X \<circ> snd) (ps @ [p]) = map (wire_of_event X \<circ> snd) (qs @ [q])
         \<or> histories_collide X a (map snd (ps @ [p])) (map snd (qs @ [q]))"
  using assms(2-)
proof (induction ps arbitrary: p q qs rule: rev_induct)
  case Nil
  then have p: "ev_parents (snd p) = []" "content_hash X a (snd p) = Inr (fst p)"
    and q: "content_hash X a (snd q) = Inr (fst p)"
    by (auto simp: entry_ok_def link_ok_def hash_chain_snoc)
  consider "wire_of_event X (snd p) = wire_of_event X (snd q)" | "event_collides X a (snd p) (snd q)"
    using content_hash_binding [OF inj p(2) q] by blast
  then show ?case
  proof cases
    case 1
    with p have "ev_parents (snd q) = []" by (simp add: wire_of_event_def)
    with Nil.prems(2) have "qs = []"
      by (auto simp: hash_chain_snoc entry_ok_def link_ok_def split: if_splits)
    with 1 show ?thesis by simp
  next
    case 2
    then show ?thesis by (auto simp: histories_collide_def)
  qed
next
  case (snoc p' ps)
  have chain: "hash_chain (content_hash X a) 0 None (ps @ [p'])"
    and p: "ev_parents (snd p) = [fst p']" "content_hash X a (snd p) = Inr (fst p)"
    and q: "content_hash X a (snd q) = Inr (fst p)"
    using snoc.prems(1) [unfolded hash_chain_snoc [of _ _ _ "ps @ [p']"]]
      snoc.prems(2) [unfolded hash_chain_snoc] snoc.prems(3)
    by (simp_all add: entry_ok_def link_ok_def)
  consider "wire_of_event X (snd p) = wire_of_event X (snd q)" | "event_collides X a (snd p) (snd q)"
    using content_hash_binding [OF inj p(2) q] by blast
  then show ?case
  proof cases
    case 1
    with p have par: "map to_wire (ev_parents (snd q)) = [to_wire (fst p')]"
      by (simp add: wire_of_event_def)
    have "qs \<noteq> []"
      using par snoc.prems(2) by (auto simp: entry_ok_def link_ok_def)
    then obtain qs' q' where qs: "qs = qs' @ [q']" by (metis rev_exhaust)
    then have chain': "hash_chain (content_hash X a) 0 None (qs' @ [q'])"
      and q': "ev_parents (snd q) = [fst q']"
      using snoc.prems(2) [unfolded qs hash_chain_snoc [of _ _ _ "qs' @ [q']"]]
      by (simp_all add: entry_ok_def link_ok_def)
    have "h_algorithm (fst p') = a" "h_algorithm (fst q') = a"
      using chain chain' by (auto simp: hash_chain_snoc entry_ok_def dest: content_hash_algorithm)
    with par q' have "fst p' = fst q'" by (simp add: to_wire_eq_iff)
    with snoc.IH [OF chain chain'] 1 show ?thesis
      by (auto simp: qs histories_collide_def)
  next
    case 2
    then show ?thesis by (auto simp: histories_collide_def)
  qed
qed

text \<open>The objects a session refers to, in order.\<close>

definition session_objects :: "event list \<Rightarrow> hash list" where
  "session_objects es = concat (map (referenced_object_hashes_for_kind \<circ> ev_kind) es)"

lemma session_objects_wire:
  assumes "map (wire_of_event X) es = map (wire_of_event X) es'"
  shows "map to_wire (session_objects es) = map to_wire (session_objects es')"
  using assms
proof (induction es arbitrary: es')
  case (Cons e es)
  then obtain d ds where es': "es' = d # ds" "wire_of_event X e = wire_of_event X d"
    "map (wire_of_event X) es = map (wire_of_event X) ds"
    by (cases es') auto
  have "wire_of_kind X (ev_kind e) = wire_of_kind X (ev_kind d)"
    using es'(2) by (simp add: wire_of_event_def)
  with Cons.IH [OF es'(3)] referenced_hashes_wire es'(1) show ?case
    by (auto simp: session_objects_def)
qed (simp add: session_objects_def)

lemma objects_ok_session:
  "list_all (objects_ok X V) es \<longleftrightarrow> list_all (object_ok X V) (session_objects es)"
  by (induction es) (auto simp: objects_ok_def session_objects_def)

lemma object_ok_algorithm: "object_ok X V obj \<Longrightarrow> h_algorithm obj = sv_algorithm V"
  by (auto simp: object_ok_def)

lemma objects_ok_algorithms:
  "list_all (objects_ok X V) es \<Longrightarrow>
   list_all (\<lambda>x. h_algorithm x = sv_algorithm V) (session_objects es)"
  unfolding objects_ok_session by (auto simp: list_all_iff dest: object_ok_algorithm)

lemma map_to_wire_inj:
  assumes "list_all (\<lambda>h. h_algorithm h = a) hs" "list_all (\<lambda>h. h_algorithm h = a) hs'"
    and "map to_wire hs = map to_wire hs'"
  shows "hs = hs'"
  using assms
proof (induction hs arbitrary: hs')
  case (Cons h hs)
  then obtain k ks where "hs' = k # ks" by (cases hs') auto
  with Cons.IH [of ks] Cons.prems show ?case by (simp add: to_wire_eq_iff)
qed simp

lemma linear_session_binding:
  assumes "cbor_inj X" "sv_algorithm V = sv_algorithm V'"
    and "linear_session X V h d" "linear_session X V' h' d'"
    and "fst (last h) = fst (last h')"
    and no: "\<not> histories_collide X (sv_algorithm V) (map snd h) (map snd h')"
  shows "map (wire_of_event X \<circ> snd) h = map (wire_of_event X \<circ> snd) h'"
    and "session_objects (map snd h) = session_objects (map snd h')"
proof -
  have "h \<noteq> []" "h' \<noteq> []" using assms(3,4) by (auto simp: linear_session_def ends_once_def)
  then obtain ps p qs q where h: "h = ps @ [p]" "h' = qs @ [q]" by (metis rev_exhaust)
  with hash_chain_binding [OF assms(1), of "sv_algorithm V" ps p qs q] assms
  show wire: "map (wire_of_event X \<circ> snd) h = map (wire_of_event X \<circ> snd) h'"
    by (auto simp: linear_session_def)
  then have "map (wire_of_event X) (map snd h) = map (wire_of_event X) (map snd h')" by simp
  moreover have "list_all (\<lambda>x. h_algorithm x = sv_algorithm V) (session_objects (map snd h))"
    "list_all (\<lambda>x. h_algorithm x = sv_algorithm V) (session_objects (map snd h'))"
    using assms(2-4) objects_ok_algorithms unfolding linear_session_def by metis+
  ultimately show "session_objects (map snd h) = session_objects (map snd h')"
    using map_to_wire_inj session_objects_wire by blast
qed

end
