(* ===== verification/Session_Graph.thy ===== *)
theory Session_Graph
  imports Session_Verify
begin

text \<open>
  The trait \<open>SessionGraph\<close> of \<open>akmon-journal/src/session_graph.rs\<close> as the locale
  \<open>session_graph\<close>, the write-time invariants of an event kind, and \<open>MemorySessionGraph\<close>
  in full: \<open>append\<close>, \<open>head\<close>, \<open>history\<close>, \<open>verify\<close> and \<open>import_verified_linear_history\<close>.
  The clock reading of \<open>append\<close> is an argument. The reachable states of a session are an
  inductive predicate over the operations a client can issue.
\<close>

section \<open>Write-time invariants\<close>

text \<open>\<open>expected = (idx as u32) + 1\<close> on 32-bit words, wrapping as in a release build.\<close>

definition attempt_number_at :: "nat \<Rightarrow> u32" where
  "attempt_number_at idx = of_nat idx + 1"

fun validate_attempts ::
    "nat \<Rightarrow> datetime option \<Rightarrow> attempt_record list \<Rightarrow> journal_error + unit" where
  "validate_attempts idx prev [] = Inr ()"
| "validate_attempts idx prev (a # as) =
     (let expected = attempt_number_at idx in
      if at_attempt_number a \<noteq> expected
      then Inl (JVerification (''ProviderCall attempts must be 1-indexed and contiguous: expected ''
             @ show_nat (unat expected) @ '', found '' @ show_nat (unat (at_attempt_number a))))
      else if (case prev of None \<Rightarrow> False | Some p \<Rightarrow> at_started_at a < p)
      then Inl (JVerification ''ProviderCall attempt started_at must be non-decreasing'')
      else validate_attempts (Suc idx) (Some (at_started_at a)) as)"

definition validate_event_kind_invariants :: "event_kind \<Rightarrow> journal_error + unit" where
  "validate_event_kind_invariants k =
     (case k of
        ProviderCall _ atts _ \<Rightarrow>
          (if atts = []
           then Inl (JVerification ''ProviderCall attempts must contain at least one attempt'')
           else validate_attempts 0 None atts)
      | _ \<Rightarrow> Inr ())"

text \<open>What the loop establishes.\<close>

definition attempts_ok :: "attempt_record list \<Rightarrow> bool" where
  "attempts_ok atts \<longleftrightarrow>
     (\<forall>i < length atts. at_attempt_number (atts ! i) = of_nat (Suc i)) \<and>
     sorted (map at_started_at atts)"

definition kind_ok :: "event_kind \<Rightarrow> bool" where
  "kind_ok k \<longleftrightarrow> (case k of ProviderCall _ atts _ \<Rightarrow> atts \<noteq> [] \<and> attempts_ok atts | _ \<Rightarrow> True)"

lemma validate_attempts_iff:
  "validate_attempts idx prev atts = Inr () \<longleftrightarrow>
     (\<forall>i < length atts. at_attempt_number (atts ! i) = of_nat (Suc (idx + i))) \<and>
     sorted (opt_list prev @ map at_started_at atts)"
proof (induction atts arbitrary: idx prev)
  case Nil
  show ?case by (cases prev) (auto simp: opt_list_def)
next
  case (Cons a as)
  have split: "(\<forall>i < length (a # as). at_attempt_number ((a # as) ! i) = of_nat (Suc (idx + i))) \<longleftrightarrow>
      at_attempt_number a = of_nat (Suc idx) \<and>
      (\<forall>i < length as. at_attempt_number (as ! i) = of_nat (Suc (Suc idx + i)))"
    by (auto simp: less_Suc_eq_0_disj)
  show ?case
    unfolding split
    by (auto simp: Let_def Cons.IH attempt_number_at_def opt_list_def add.commute
        split: option.splits)
qed

lemma validate_event_kind_iff: "validate_event_kind_invariants k = Inr () \<longleftrightarrow> kind_ok k"
  by (auto simp: validate_event_kind_invariants_def kind_ok_def attempts_ok_def
      validate_attempts_iff opt_list_def split: event_kind.splits)

section \<open>The trait\<close>

locale session_graph =
  fixes head :: "'g \<Rightarrow> journal_error + hash option"
    and history :: "'g \<Rightarrow> journal_error + (hash \<times> event) list"
    and append :: "datetime \<Rightarrow> 'g \<Rightarrow> event_kind \<Rightarrow> 'g \<times> (journal_error + hash)"
    and hash_of :: "'g \<Rightarrow> event \<Rightarrow> journal_error + hash"
    and inv :: "'g \<Rightarrow> bool"
  assumes append_inv: "inv g \<Longrightarrow> append t g k = (g', r) \<Longrightarrow> history g = Inr hs \<Longrightarrow>
          length hs < 2 ^ 64 \<Longrightarrow> inv g'"
    and append_failed: "append t g k = (g', Inl e) \<Longrightarrow> g' = g"
    and append_hash_of: "append t g k = (g', r) \<Longrightarrow> hash_of g' = hash_of g"
    and append_history: "inv g \<Longrightarrow> append t g k = (g', Inr h) \<Longrightarrow> history g = Inr hs \<Longrightarrow>
          history g' = Inr hs' \<Longrightarrow> length hs < 2 ^ 64 \<Longrightarrow>
          \<exists>e. hs' = hs @ [(h, e)] \<and> ev_kind e = k \<and> ev_emitted_at e = t \<and>
            ev_sequence e = of_nat (length hs) \<and> ev_parents e = opt_list (map_option fst (last_opt hs)) \<and>
            hash_of g e = Inr h"
    and append_start: "inv g \<Longrightarrow> append t g k = (g', Inr h) \<Longrightarrow> history g = Inr hs \<Longrightarrow>
          is_session_start k \<longleftrightarrow> hs = []"
    and append_kind: "append t g k = (g', Inr h) \<Longrightarrow> kind_ok k"
    and head_history: "inv g \<Longrightarrow> history g = Inr hs \<Longrightarrow> head g = Inr d \<Longrightarrow>
          d = map_option fst (last_opt hs)"
begin

lemma append_entry_ok:
  assumes "inv g" "append t g k = (g', Inr h)" "history g = Inr hs" "history g' = Inr hs'"
    and "length hs < 2 ^ 64"
  obtains e where "hs' = hs @ [(h, e)]" "ev_kind e = k"
    "entry_ok (hash_of g) (length hs) (if hs = [] then None else Some (fst (last hs))) (h, e)"
proof -
  from append_history [OF assms] obtain e where e: "hs' = hs @ [(h, e)]" "ev_kind e = k"
    "ev_sequence e = of_nat (length hs)" "ev_parents e = opt_list (map_option fst (last_opt hs))"
    "hash_of g e = Inr h" by blast
  with append_start [OF assms(1-3)] that show ?thesis
    by (auto simp: entry_ok_def link_ok_def opt_list_def last_opt_def)
qed

text \<open>An append extends a hash chain to a hash chain.\<close>

lemma append_chain:
  assumes "inv g" "append t g k = (g', Inr h)" "history g = Inr hs" "history g' = Inr hs'"
    and "length hs < 2 ^ 64" "hash_chain (hash_of g) 0 None hs"
  shows "hash_chain (hash_of g') 0 None hs'"
proof -
  obtain e where "hs' = hs @ [(h, e)]"
    "entry_ok (hash_of g) (length hs) (if hs = [] then None else Some (fst (last hs))) (h, e)"
    using append_entry_ok [OF assms(1-5)] by metis
  with assms(6) append_hash_of [OF assms(2)] show ?thesis by (simp add: hash_chain_snoc)
qed

text \<open>The hash an append returns is the new head.\<close>

lemma append_returns_head:
  assumes "inv g" "append t g k = (g', Inr h)" "history g = Inr hs" "history g' = Inr hs'"
    and "length hs < 2 ^ 64" "head g' = Inr d"
  shows "d = Some h"
  using head_history [OF append_inv [OF assms(1-3,5)] assms(4,6)] append_entry_ok [OF assms(1-5)]
  by (metis fst_conv last_opt_simps(2) option.simps(9))

end

section \<open>MemorySessionGraph\<close>

record mem_graph =
  mg_store :: mem_store
  mg_session_id :: "byte list"
  mg_events :: "(hash \<times> event) list"

definition mem_open_new :: "mem_store \<Rightarrow> byte list \<Rightarrow> mem_graph" where
  "mem_open_new m sid = \<lparr>mg_store = m, mg_session_id = sid, mg_events = []\<rparr>"

definition parents_for_append ::
    "hash option \<Rightarrow> event_kind \<Rightarrow> journal_error + hash list" where
  "parents_for_append current_head k =
     (case current_head of
        Some h \<Rightarrow>
          (if is_session_start k
           then Inl (JVerification ''SessionStart cannot be appended to non-empty session'')
           else Inr [h])
      | None \<Rightarrow>
          (if \<not> is_session_start k
           then Inl (JVerification ''first event must be SessionStart'')
           else Inr []))"

definition mem_append ::
    "'x event_ext_scheme \<Rightarrow> datetime \<Rightarrow> mem_graph \<Rightarrow> event_kind
     \<Rightarrow> mem_graph \<times> (journal_error + hash)" where
  "mem_append X now g k =
     (case res_bind (validate_event_kind_invariants k) (\<lambda>_.
           res_bind (parents_for_append (map_option fst (last_opt (mg_events g))) k) (\<lambda>parents.
           let e = \<lparr>ev_parents = parents, ev_kind = k, ev_emitted_at = now,
                    ev_sequence = of_nat (length (mg_events g))\<rparr> in
           res_bind (content_hash X (ms_algorithm (mg_store g)) e) (\<lambda>h. Inr (h, e)))) of
        Inl err \<Rightarrow> (g, Inl err)
      | Inr (h, e) \<Rightarrow> (g\<lparr>mg_events := mg_events g @ [(h, e)]\<rparr>, Inr h))"

definition mem_head :: "mem_graph \<Rightarrow> journal_error + hash option" where
  "mem_head g = Inr (map_option fst (last_opt (mg_events g)))"

definition mem_history :: "mem_graph \<Rightarrow> journal_error + (hash \<times> event) list" where
  "mem_history g = Inr (mg_events g)"

definition mem_verify :: "'x event_ext_scheme \<Rightarrow> mem_graph \<Rightarrow> journal_error + verification_report" where
  "mem_verify X g =
     res_bind (mem_head g) (\<lambda>stored_head.
       verify_history_against_store X (mg_events g) stored_head (mem_view (mg_store g)))"

definition mem_import ::
    "'x event_ext_scheme \<Rightarrow> mem_graph \<Rightarrow> (hash \<times> event) list \<Rightarrow> mem_graph \<times> (journal_error + unit)" where
  "mem_import X g events =
     (case res_bind (mem_head g) (\<lambda>head.
           res_bind (ensure_empty_import_target head (length (mg_events g))) (\<lambda>_.
           verify_import_precondition X events (mem_view (mg_store g)))) of
        Inl err \<Rightarrow> (g, Inl err)
      | Inr _ \<Rightarrow> (g\<lparr>mg_events := mg_events g @ events\<rparr>, Inr ()))"

text \<open>The corruption helpers of the feature \<open>test-utils\<close>.\<close>

definition mem_overwrite_event ::
    "mem_graph \<Rightarrow> nat \<Rightarrow> event \<Rightarrow> mem_graph \<times> (journal_error + unit)" where
  "mem_overwrite_event g idx e =
     (if idx < length (mg_events g)
      then (g\<lparr>mg_events := (mg_events g)[idx := (fst (mg_events g ! idx), e)]\<rparr>, Inr ())
      else (g, Inl (JVerification (''session event not found at sequence '' @ show_nat idx))))"

definition mem_overwrite_head ::
    "mem_graph \<Rightarrow> hash \<Rightarrow> mem_graph \<times> (journal_error + unit)" where
  "mem_overwrite_head g h =
     (case last_opt (mg_events g) of
        Some (_, e) \<Rightarrow> (g\<lparr>mg_events := butlast (mg_events g) @ [(h, e)]\<rparr>, Inr ())
      | None \<Rightarrow> (g, Inl (JVerification ''cannot overwrite head for empty session'')))"

subsection \<open>Appending\<close>

lemma parents_for_append_Inr:
  "parents_for_append d k = Inr ps \<longleftrightarrow> ps = opt_list d \<and> (is_session_start k \<longleftrightarrow> d = None)"
  by (auto simp: parents_for_append_def opt_list_def split: option.splits)

lemma mem_append_Inr_iff:
  "mem_append X t g k = (g', Inr h) \<longleftrightarrow>
   (\<exists>e. kind_ok k \<and> (is_session_start k \<longleftrightarrow> mg_events g = []) \<and>
      e = \<lparr>ev_parents = opt_list (map_option fst (last_opt (mg_events g))), ev_kind = k,
           ev_emitted_at = t, ev_sequence = of_nat (length (mg_events g))\<rparr> \<and>
      content_hash X (ms_algorithm (mg_store g)) e = Inr h \<and>
      g' = g\<lparr>mg_events := mg_events g @ [(h, e)]\<rparr>)"
proof -
  have "mem_append X t g k = (g', Inr h) \<longleftrightarrow>
     (\<exists>ps e. validate_event_kind_invariants k = Inr () \<and>
        parents_for_append (map_option fst (last_opt (mg_events g))) k = Inr ps \<and>
        e = \<lparr>ev_parents = ps, ev_kind = k, ev_emitted_at = t,
             ev_sequence = of_nat (length (mg_events g))\<rparr> \<and>
        content_hash X (ms_algorithm (mg_store g)) e = Inr h \<and>
        g' = g\<lparr>mg_events := mg_events g @ [(h, e)]\<rparr>)"
    by (auto simp: mem_append_def Let_def split: sum.splits)
  then show ?thesis
    by (auto simp: validate_event_kind_iff parents_for_append_Inr last_opt_def)
qed

lemma mem_append_Inl: "mem_append X t g k = (g', Inl e) \<Longrightarrow> g' = g"
  by (auto simp: mem_append_def split: sum.splits prod.splits)

lemma mem_append_store: "mem_append X t g k = (g', r) \<Longrightarrow> mg_store g' = mg_store g"
  by (auto simp: mem_append_def split: sum.splits prod.splits)

interpretation mg: session_graph mem_head mem_history "mem_append X"
    "\<lambda>g. content_hash X (ms_algorithm (mg_store g))" "\<lambda>_. True"
  for X :: "'x event_ext_scheme"
proof
  show "mem_append X t g k = (g', Inl e) \<Longrightarrow> g' = g" for t g k g' e
    by (rule mem_append_Inl)
  show "content_hash X (ms_algorithm (mg_store g')) = content_hash X (ms_algorithm (mg_store g))"
    if "mem_append X t g k = (g', r)" for t g k g' r
    using mem_append_store [OF that] by simp
qed (auto simp: mem_append_Inr_iff mem_history_def mem_head_def)

subsection \<open>Reachable sessions\<close>

text \<open>
  The store is shared (an \<open>Arc\<close>): a client puts objects and appends events in any order, and
  may import a verified history into the session.
\<close>

inductive graph_step :: "'x event_ext_scheme \<Rightarrow> mem_graph \<Rightarrow> mem_graph \<Rightarrow> bool"
  for X :: "'x event_ext_scheme" where
  step_put: "mem_put X (mg_store g) b = (m', r) \<Longrightarrow> graph_step X g (g\<lparr>mg_store := m'\<rparr>)"
| step_append: "mem_append X t g k = (g', r) \<Longrightarrow> graph_step X g g'"
| step_import: "mem_import X g es = (g', r) \<Longrightarrow> graph_step X g g'"

inductive_cases graph_stepE: "graph_step X g g'"

inductive graph_reachable :: "'x event_ext_scheme \<Rightarrow> mem_graph \<Rightarrow> bool"
  for X :: "'x event_ext_scheme" where
  reach_new: "graph_reachable X (mem_open_new (mem_new a) sid)"
| reach_step: "graph_reachable X g \<Longrightarrow> graph_step X g g' \<Longrightarrow> graph_reachable X g'"

definition graph_inv :: "'x event_ext_scheme \<Rightarrow> mem_graph \<Rightarrow> bool" where
  "graph_inv X g \<longleftrightarrow> mem_inv X (mg_store g) \<and> \<not> ms_poisoned (mg_store g) \<and>
     hash_chain (content_hash X (ms_algorithm (mg_store g))) 0 None (mg_events g)"

lemma mem_import_Inr:
  assumes "mem_import X g es = (g', Inr u)"
  shows "mg_events g = []" "g' = g\<lparr>mg_events := es\<rparr>"
    and "linear_session X (mem_view (mg_store g)) es None"
proof -
  from assms show e: "mg_events g = []" and "g' = g\<lparr>mg_events := es\<rparr>"
    by (auto simp: mem_import_def mem_head_def ensure_empty_import_target_def
        split: sum.splits if_splits)
  from assms have "verify_import_precondition X es (mem_view (mg_store g)) = Inr ()"
    by (auto simp: mem_import_def split: sum.splits)
  then have "\<exists>r. verify_history_against_store X es None (mem_view (mg_store g)) = Inr r \<and> report_is_clean r"
    by (auto simp: verify_import_precondition_def verify_linear_history_against_store_def
        split: if_splits)
  then show "linear_session X (mem_view (mg_store g)) es None"
    by (simp add: verify_history_clean_iff)
qed

lemma mem_import_Inl: "mem_import X g es = (g', Inl e) \<Longrightarrow> g' = g"
  by (auto simp: mem_import_def split: sum.splits)

lemma graph_inv_append [akmon_inv]:
  assumes "graph_inv X g" "mem_append X t g k = (g', r)"
  shows "graph_inv X g'"
proof (cases r)
  case (Inl e)
  with assms mem_append_Inl show ?thesis by blast
next
  case (Inr h)
  from assms(2) [unfolded Inr] have "hash_chain (content_hash X (ms_algorithm (mg_store g))) 0 None (mg_events g')"
    using assms(1)
    by (auto simp: mem_append_Inr_iff graph_inv_def hash_chain_snoc entry_ok_def link_ok_def
        last_opt_def opt_list_def)
  with assms mem_append_store [OF assms(2)] show ?thesis by (simp add: graph_inv_def)
qed

lemma graph_inv_put [akmon_inv]:
  assumes "graph_inv X g" "mem_put X (mg_store g) b = (m', r)"
  shows "graph_inv X (g\<lparr>mg_store := m'\<rparr>)"
  using assms mem_put_inv [OF _ assms(2)] mem_put_poisoned [OF assms(2)]
    mem.put_algorithm [OF assms(2)]
  by (auto simp: graph_inv_def)

lemma graph_inv_import [akmon_inv]:
  assumes "graph_inv X g" "mem_import X g es = (g', r)"
  shows "graph_inv X g'"
proof (cases r)
  case (Inl e)
  with assms mem_import_Inl show ?thesis by blast
next
  case (Inr u)
  from mem_import_Inr [OF assms(2) [unfolded Inr]] assms(1) show ?thesis
    by (auto simp: graph_inv_def linear_session_def)
qed

lemma graph_reachable_inv: "graph_reachable X g \<Longrightarrow> graph_inv X g"
proof (induction rule: graph_reachable.induct)
  case (reach_new a sid)
  then show ?case by (simp add: graph_inv_def mem_open_new_def mem_inv_new) (simp add: mem_new_def)
next
  case (reach_step g g')
  from reach_step.hyps(2) reach_step.IH show ?case
    by (rule_tac graph_stepE) (auto intro: akmon_inv)
qed

subsection \<open>Verification of a reachable session\<close>

lemma mem_verify_clean_iff:
  "(\<exists>r. mem_verify X g = Inr r \<and> report_is_clean r) \<longleftrightarrow>
   linear_session X (mem_view (mg_store g)) (mg_events g) None"
proof -
  have "(\<exists>r. mem_verify X g = Inr r \<and> report_is_clean r) \<longleftrightarrow>
     linear_session X (mem_view (mg_store g)) (mg_events g) (map_option fst (last_opt (mg_events g)))"
    by (simp add: mem_verify_def mem_head_def verify_history_clean_iff)
  then show ?thesis by (auto simp: linear_session_def ends_once_def last_opt_def)
qed

text \<open>In the store of a reachable session, being present is enough: content is never wrong.\<close>

lemma graph_inv_object_ok:
  assumes "graph_inv X g" "h_algorithm obj = ms_algorithm (mg_store g)"
  shows "object_ok X (mem_view (mg_store g)) obj \<longleftrightarrow>
         hm_get (ms_objects (mg_store g)) (h_bytes obj) \<noteq> None"
  using assms
  by (auto simp: object_ok_def graph_inv_def mem_inv_def mem_view_def mem_get_def mem_contains_def
      hash_eq_iff)

end
