(* ===== verification/Bundle_Verify.thy ===== *)
theory Bundle_Verify
  imports Bundle_Manifest Session_Graph
begin

text \<open>
  \<open>akmon-bundle/src/verify.rs\<close>: the store-independent, fail-soft integrity verification of a
  parsed bundle, its violations and their mapping to errors. \<open>bundle_session\<close> is the declarative
  specification; \<open>verify_bundle_clean_iff\<close> shows that the report is clean for exactly the bundles
  that meet it, and \<open>bundle_session_linear\<close> relates it to the specification of the journal's own
  verifier in \<open>Session_Verify\<close>.
\<close>

section \<open>Violations\<close>

datatype bundle_violation =
    UnsupportedHashAlgorithm string
  | ObjectCountMismatch u64 u64
  | EventCountMismatch u64 u64
  | ObjectKeyHashMismatch hash
  | NoEvents
  | SequenceMismatch nat u64
  | EventContentHash nat string
  | BrokenParentChain nat string
  | MissingObject hash hash
  | SessionEndMissing
  | SessionEndDuplicate nat
  | SessionEndNotTerminal
  | InvalidManifestHead string
  | HeadMismatch hash hash
  | UnreferencedObject hash
  | EventInvariant nat string

fun category :: "bundle_violation \<Rightarrow> string" where
  "category (UnsupportedHashAlgorithm _) = ''unsupported_hash_algorithm''"
| "category (ObjectCountMismatch _ _) = ''manifest_object_count_mismatch''"
| "category (EventCountMismatch _ _) = ''manifest_event_count_mismatch''"
| "category (ObjectKeyHashMismatch _) = ''object_key_hash_mismatch''"
| "category NoEvents = ''no_events''"
| "category (SequenceMismatch _ _) = ''sequence''"
| "category (EventContentHash _ _) = ''event_content_hash''"
| "category (BrokenParentChain _ _) = ''broken_parent_chain''"
| "category (MissingObject _ _) = ''missing_object''"
| "category SessionEndMissing = ''session_end_missing''"
| "category (SessionEndDuplicate _) = ''session_end_duplicate''"
| "category SessionEndNotTerminal = ''session_end_not_terminal''"
| "category (InvalidManifestHead _) = ''invalid_manifest_head''"
| "category (HeadMismatch _ _) = ''head_mismatch''"
| "category (UnreferencedObject _) = ''unreferenced_object''"
| "category (EventInvariant _ _) = ''event_invariant''"

definition event_hash_hex :: "'x hash_ext_scheme \<Rightarrow> bundle_violation \<Rightarrow> string option" where
  "event_hash_hex X v =
     (case v of MissingObject _ referenced_by \<Rightarrow> Some (to_hex X referenced_by) | _ \<Rightarrow> None)"

definition object_hash_hex :: "'x hash_ext_scheme \<Rightarrow> bundle_violation \<Rightarrow> string option" where
  "object_hash_hex X v =
     (case v of
        ObjectKeyHashMismatch h \<Rightarrow> Some (to_hex X h)
      | MissingObject h _ \<Rightarrow> Some (to_hex X h)
      | UnreferencedObject h \<Rightarrow> Some (to_hex X h)
      | _ \<Rightarrow> None)"

fun message :: "'x hash_ext_scheme \<Rightarrow> bundle_violation \<Rightarrow> string" where
  "message X (UnsupportedHashAlgorithm name) = ''manifest hash_algorithm is not supported: '' @ name"
| "message X (ObjectCountMismatch declared actual) =
     ''manifest object_count '' @ show_nat (unat declared) @ '' does not match objects/ entry count ''
     @ show_nat (unat actual)"
| "message X (EventCountMismatch declared actual) =
     ''manifest event_count '' @ show_nat (unat declared) @ '' does not match events.bin event count ''
     @ show_nat (unat actual)"
| "message X (ObjectKeyHashMismatch h) = ''object bytes do not match object path digest '' @ to_hex X h"
| "message X NoEvents = ''bundle contains no events''"
| "message X (SequenceMismatch position declared) =
     ''event at position '' @ show_nat position @ '' declares sequence '' @ show_nat (unat declared)"
| "message X (EventContentHash position err) =
     ''event at position '' @ show_nat position @ '' failed content hashing: '' @ err"
| "message X (BrokenParentChain position detail) =
     ''event at position '' @ show_nat position @ '': '' @ detail"
| "message X (MissingObject h referenced_by) =
     ''object '' @ to_hex X h @ '' referenced by event '' @ to_hex X referenced_by
     @ '' is not present in bundle''"
| "message X SessionEndMissing = ''SessionEnd event is missing''"
| "message X (SessionEndDuplicate n) = ''SessionEnd appears multiple times (count='' @ show_nat n @ '')''"
| "message X SessionEndNotTerminal = ''SessionEnd is not the terminal event''"
| "message X (InvalidManifestHead detail) = ''manifest session.head is not a valid digest: '' @ detail"
| "message X (HeadMismatch declared terminal) =
     ''declared head does not match terminal event hash (declared '' @ to_hex X declared
     @ '', terminal '' @ to_hex X terminal @ '')''"
| "message X (UnreferencedObject h) =
     ''object '' @ to_hex X h
     @ '' is present in objects/ but no event references it (not committed to by the head)''"
| "message X (EventInvariant position detail) =
     ''event at position '' @ show_nat position @ '': '' @ detail"

text \<open>\<open>Display\<close> of the journal errors that reach a violation.\<close>

definition journal_error_to_string :: "'x hash_ext_scheme \<Rightarrow> (byte list \<Rightarrow> string) \<Rightarrow> journal_error \<Rightarrow> string" where
  "journal_error_to_string X uuid_text e =
     (let dbg = (\<lambda>a. case a of Sha256 \<Rightarrow> ''Sha256'' | Blake3 \<Rightarrow> ''Blake3'') in
      case e of
        JIo m \<Rightarrow> ''i/o error: '' @ m
      | JStorage m \<Rightarrow> ''storage error: '' @ m
      | JStorageTx m \<Rightarrow> ''storage transaction error: '' @ m
      | JPostcard m \<Rightarrow> ''postcard serialization error: '' @ m
      | JCbor m \<Rightarrow> ''cbor serialization error: '' @ m
      | JHashAlgorithmMismatch a b \<Rightarrow>
          ''hash algorithm mismatch: expected '' @ dbg a @ '', found '' @ dbg b
      | JUnknownHashAlgorithm m \<Rightarrow> ''unknown hash algorithm: '' @ m
      | JHashParse m \<Rightarrow> ''hash parse error: '' @ m
      | JSessionNotFound sid \<Rightarrow> ''session not found: '' @ uuid_text sid
      | JMissingParent h \<Rightarrow> ''event parent missing: '' @ to_hex X h
      | JVerification m \<Rightarrow> ''verification failed: '' @ m
      | JBusy \<Rightarrow> ''concurrent writer busy'')"

section \<open>The verifier\<close>

record bundle_report =
  br_events_checked :: u64
  br_object_references_checked :: u64
  br_violations :: "bundle_violation list"

definition bundle_report_is_clean :: "bundle_report \<Rightarrow> bool" where
  "bundle_report_is_clean r \<longleftrightarrow> br_violations r = []"

record bundle_state =
  bs_report :: bundle_report
  bs_referenced :: "hash list"
  bs_end_count :: nat
  bs_last_end :: "nat option"
  bs_prev_hash :: "hash option"

definition add_violations :: "bundle_violation list \<Rightarrow> bundle_report \<Rightarrow> bundle_report" where
  "add_violations vs r = r\<lparr>br_violations := br_violations r @ vs\<rparr>"

text \<open>\<open>u32::try_from(idx).ok().and_then(|i| i.checked_add(1))\<close>.\<close>

definition expected_attempt_number :: "nat \<Rightarrow> u32 option" where
  "expected_attempt_number idx = (if idx + 1 < 2 ^ 32 then Some (of_nat idx + 1) else None)"

fun attempts_violation :: "nat \<Rightarrow> datetime option \<Rightarrow> attempt_record list \<Rightarrow> string option" where
  "attempts_violation idx prev [] = None"
| "attempts_violation idx prev (a # as) =
     (if Some (at_attempt_number a) \<noteq> expected_attempt_number idx
      then Some (''ProviderCall attempts must be 1-indexed and contiguous: expected ''
             @ show_nat (idx + 1) @ '', found '' @ show_nat (unat (at_attempt_number a)))
      else if (case prev of None \<Rightarrow> False | Some p \<Rightarrow> at_started_at a < p)
      then Some ''ProviderCall attempt started_at must be non-decreasing''
      else attempts_violation (Suc idx) (Some (at_started_at a)) as)"

definition event_invariant_violation :: "event_kind \<Rightarrow> string option" where
  "event_invariant_violation k =
     (case k of
        ProviderCall _ atts _ \<Rightarrow>
          (if atts = [] then Some ''ProviderCall attempts must contain at least one attempt''
           else attempts_violation 0 None atts)
      | _ \<Rightarrow> None)"

definition count_violations :: "bundle_contents \<Rightarrow> bundle_violation list" where
  "count_violations c =
     (let m = bc_manifest c; n_obj = of_nat (length (bc_objects c)); n_ev = of_nat (length (bc_events c)) in
      (if mf_object_count m \<noteq> n_obj then [ObjectCountMismatch (mf_object_count m) n_obj] else [])
      @ (if mf_event_count m \<noteq> n_ev then [EventCountMismatch (mf_event_count m) n_ev] else []))"

definition object_key_violations ::
    "'x hash_ext_scheme \<Rightarrow> hash_algorithm \<Rightarrow> (hash \<times> byte list) list \<Rightarrow> bundle_violation list" where
  "object_key_violations X a objs =
     map (\<lambda>(h, b). ObjectKeyHashMismatch h) (filter (\<lambda>(h, b). digest_bytes X a b \<noteq> h) objs)"

definition parent_violations ::
    "'x hash_ext_scheme \<Rightarrow> nat \<Rightarrow> hash option \<Rightarrow> event \<Rightarrow> bundle_violation list" where
  "parent_violations X idx prev_hash e =
     (if idx = 0 then
        (if \<not> is_session_start (ev_kind e) \<or> ev_parents e \<noteq> []
         then [BrokenParentChain idx ''first event must be SessionStart with no parents''] else [])
      else case prev_hash of
        None \<Rightarrow> []
      | Some prev \<Rightarrow>
          (if length (ev_parents e) \<noteq> 1 \<or> head_opt (ev_parents e) \<noteq> Some prev
           then [BrokenParentChain idx (''parent does not match prior event hash (expected ''
                   @ to_hex X prev @ '')'')]
           else []))"

definition missing_objects :: "bundle_contents \<Rightarrow> hash \<Rightarrow> hash list \<Rightarrow> bundle_violation list" where
  "missing_objects c ev_hash objs =
     map (\<lambda>h. MissingObject h ev_hash) (filter (\<lambda>h. \<not> hm_contains (bc_objects c) h) objs)"

definition verify_bundle_event ::
    "'x bundle_ext_scheme \<Rightarrow> hash_algorithm \<Rightarrow> bundle_contents \<Rightarrow> nat \<Rightarrow> bundle_state \<Rightarrow> event
     \<Rightarrow> bundle_state" where
  "verify_bundle_event X a c idx st0 e =
     (let r0 = bs_report st0;
          st = (if is_session_end (ev_kind e)
                then st0\<lparr>bs_end_count := bs_end_count st0 + 1, bs_last_end := Some idx\<rparr> else st0);
          r1 = add_violations
                 (if ev_sequence e \<noteq> of_nat idx then [SequenceMismatch idx (ev_sequence e)] else [])
                 (r0\<lparr>br_events_checked := br_events_checked r0 + 1\<rparr>) in
      case content_hash X a e of
        Inl err \<Rightarrow>
          st\<lparr>bs_report := add_violations
                [EventContentHash idx (journal_error_to_string X (x_uuid_text X) err)] r1,
             bs_prev_hash := None\<rparr>
      | Inr h \<Rightarrow>
          let refs = referenced_object_hashes_for_kind (ev_kind e);
              r2 = add_violations (parent_violations X idx (bs_prev_hash st) e) r1;
              r3 = add_violations
                     (map (EventInvariant idx) (opt_list (event_invariant_violation (ev_kind e)))) r2;
              r4 = add_violations (missing_objects c h refs)
                     (r3\<lparr>br_object_references_checked :=
                          br_object_references_checked r3 + of_nat (length refs)\<rparr>) in
          st\<lparr>bs_report := r4, bs_referenced := bs_referenced st @ refs, bs_prev_hash := Some h\<rparr>)"

fun verify_bundle_events ::
    "'x bundle_ext_scheme \<Rightarrow> hash_algorithm \<Rightarrow> bundle_contents \<Rightarrow> nat \<Rightarrow> bundle_state \<Rightarrow> event list
     \<Rightarrow> bundle_state" where
  "verify_bundle_events X a c idx st [] = st"
| "verify_bundle_events X a c idx st (e # es) =
     verify_bundle_events X a c (Suc idx) (verify_bundle_event X a c idx st e) es"

definition unreferenced_objects ::
    "'x hash_ext_scheme \<Rightarrow> bundle_contents \<Rightarrow> hash list \<Rightarrow> bundle_violation list" where
  "unreferenced_objects X c referenced =
     map UnreferencedObject
       (sort_key (to_hex X) (filter (\<lambda>h. h \<notin> set referenced) (map fst (bc_objects c))))"

definition session_end_violations :: "nat \<Rightarrow> nat option \<Rightarrow> nat \<Rightarrow> bundle_violation list" where
  "session_end_violations session_end_count last_position n_events =
     (if session_end_count = 0 then [SessionEndMissing]
      else if session_end_count = 1
      then (if last_position \<noteq> Some (n_events - 1) then [SessionEndNotTerminal] else [])
      else [SessionEndDuplicate session_end_count])"

definition head_violations ::
    "'x bundle_ext_scheme \<Rightarrow> hash_algorithm \<Rightarrow> manifest \<Rightarrow> hash option \<Rightarrow> bundle_violation list" where
  "head_violations X a m prev_hash =
     (case prev_hash of
        None \<Rightarrow> []
      | Some terminal \<Rightarrow>
          (case parse_hex X a (sm_head (mf_session m)) of
             Inr declared \<Rightarrow> (if declared \<noteq> terminal then [HeadMismatch declared terminal] else [])
           | Inl err \<Rightarrow> [InvalidManifestHead (journal_error_to_string X (x_uuid_text X) err)]))"

definition empty_report :: bundle_report where
  "empty_report = \<lparr>br_events_checked = 0, br_object_references_checked = 0, br_violations = []\<rparr>"

definition verify_bundle :: "'x bundle_ext_scheme \<Rightarrow> bundle_contents \<Rightarrow> bundle_report" where
  "verify_bundle X c =
     (case parse_algorithm (mf_hash_algorithm (bc_manifest c)) of
        Inl _ \<Rightarrow> add_violations [UnsupportedHashAlgorithm (mf_hash_algorithm (bc_manifest c))] empty_report
      | Inr a \<Rightarrow>
          let r = add_violations (count_violations c @ object_key_violations X a (bc_objects c)) empty_report in
          if bc_events c = [] then add_violations [NoEvents] r
          else
            let st = verify_bundle_events X a c 0
                       \<lparr>bs_report = r, bs_referenced = [], bs_end_count = 0, bs_last_end = None,
                        bs_prev_hash = None\<rparr> (bc_events c) in
            add_violations
              (unreferenced_objects X c (bs_referenced st)
               @ session_end_violations (bs_end_count st) (bs_last_end st) (length (bc_events c))
               @ head_violations X a (bc_manifest c) (bs_prev_hash st))
              (bs_report st))"

definition violation_to_error :: "'x hash_ext_scheme \<Rightarrow> bundle_violation \<Rightarrow> bundle_error" where
  "violation_to_error X v =
     (case v of
        ObjectKeyHashMismatch h \<Rightarrow> BObjectHashMismatch (to_hex X h)
      | MissingObject h _ \<Rightarrow> BMissingObject (to_hex X h)
      | UnreferencedObject h \<Rightarrow> BInvalidArchive (''unreferenced_object: '' @ to_hex X h)
      | HeadMismatch declared terminal \<Rightarrow> BHeadMismatch (to_hex X declared) (to_hex X terminal)
      | UnsupportedHashAlgorithm name \<Rightarrow> BUnsupportedHashAlgorithm name
      | ObjectCountMismatch _ _ \<Rightarrow> BInvalidManifest (category v @ '': '' @ message X v)
      | EventCountMismatch _ _ \<Rightarrow> BInvalidManifest (category v @ '': '' @ message X v)
      | InvalidManifestHead _ \<Rightarrow> BInvalidManifest (category v @ '': '' @ message X v)
      | _ \<Rightarrow> BInvalidArchive (category v @ '': '' @ message X v))"

definition verify_bundle_strict :: "'x bundle_ext_scheme \<Rightarrow> bundle_contents \<Rightarrow> bundle_error + unit" where
  "verify_bundle_strict X c =
     (case br_violations (verify_bundle X c) of
        [] \<Rightarrow> Inr ()
      | v # _ \<Rightarrow> Inl (violation_to_error X v))"

section \<open>Specification\<close>

definition kind_ok32 :: "event_kind \<Rightarrow> bool" where
  "kind_ok32 k \<longleftrightarrow> kind_ok k \<and> (case k of ProviderCall _ atts _ \<Rightarrow> length atts < 2 ^ 32 | _ \<Rightarrow> True)"

definition bundle_session ::
    "'x bundle_ext_scheme \<Rightarrow> hash_algorithm \<Rightarrow> bundle_contents \<Rightarrow> hash list \<Rightarrow> bool" where
  "bundle_session X a c hs \<longleftrightarrow>
     mf_object_count (bc_manifest c) = of_nat (length (bc_objects c)) \<and>
     mf_event_count (bc_manifest c) = of_nat (length (bc_events c)) \<and>
     list_all (\<lambda>(h, b). digest_bytes X a b = h) (bc_objects c) \<and>
     length hs = length (bc_events c) \<and>
     hash_chain (content_hash X a) 0 None (zip hs (bc_events c)) \<and>
     ends_once (bc_events c) \<and>
     list_all (\<lambda>e. kind_ok32 (ev_kind e)) (bc_events c) \<and>
     set (session_objects (bc_events c)) = fst ` set (bc_objects c) \<and>
     parse_hex X a (sm_head (mf_session (bc_manifest c))) = Inr (last hs)"

section \<open>The verifier meets the specification\<close>

lemma br_violations_add [simp]: "br_violations (add_violations vs r) = br_violations r @ vs"
  by (simp add: add_violations_def)

lemma attempts_violation_iff:
  "attempts_violation idx prev atts = None \<longleftrightarrow>
     validate_attempts idx prev atts = Inr () \<and> (atts = [] \<or> idx + length atts < 2 ^ 32)"
proof (induction atts arbitrary: idx prev)
  case Nil
  show ?case by simp
next
  case (Cons a as)
  show ?case
    by (cases "as = []")
       (auto simp: Cons.IH Let_def attempt_number_at_def expected_attempt_number_def
         split: if_splits option.splits)
qed

lemma event_invariant_violation_iff: "event_invariant_violation k = None \<longleftrightarrow> kind_ok32 k"
proof (cases k)
  case (ProviderCall pid atts stream)
  then show ?thesis
    using validate_event_kind_iff [of k]
    by (auto simp: event_invariant_violation_def kind_ok32_def attempts_violation_iff
        validate_event_kind_invariants_def split: if_splits)
qed (simp_all add: event_invariant_violation_def kind_ok32_def kind_ok_def)

lemma parent_violations_iff: "parent_violations X idx prev e = [] \<longleftrightarrow> link_ok idx prev e"
  using head_opt_singleton_iff [of "ev_parents e"]
  by (auto simp: parent_violations_def link_ok_def split: option.splits)

lemma missing_objects_iff:
  "missing_objects c h objs = [] \<longleftrightarrow> set objs \<subseteq> fst ` set (bc_objects c)"
  by (auto simp: missing_objects_def filter_empty_conv hm_get_def map_of_eq_None_iff image_iff)

lemma map_empty_iff: "map f xs = [] \<longleftrightarrow> xs = []"
  by simp

lemma opt_list_empty_iff [simp]: "opt_list m = [] \<longleftrightarrow> m = None"
  by (simp add: opt_list_def split: option.splits)

text \<open>One event: the violations it adds, and what a violation-free step leaves behind.\<close>

lemma verify_bundle_event_clean:
  "br_violations (bs_report (verify_bundle_event X a c idx st e)) = [] \<longleftrightarrow>
     br_violations (bs_report st) = [] \<and>
     (\<exists>h. entry_ok (content_hash X a) idx (bs_prev_hash st) (h, e)) \<and>
     kind_ok32 (ev_kind e) \<and>
     set (referenced_object_hashes_for_kind (ev_kind e)) \<subseteq> fst ` set (bc_objects c)"
  by (cases "content_hash X a e")
     (auto simp: verify_bundle_event_def Let_def entry_ok_def parent_violations_iff
       missing_objects_iff event_invariant_violation_iff)

lemma verify_bundle_event_state:
  "bs_end_count (verify_bundle_event X a c idx st e) =
     bs_end_count st + (if is_session_end (ev_kind e) then 1 else 0)"
  "bs_last_end (verify_bundle_event X a c idx st e) =
     (if is_session_end (ev_kind e) then Some idx else bs_last_end st)"
  "content_hash X a e = Inr h \<Longrightarrow> bs_prev_hash (verify_bundle_event X a c idx st e) = Some h"
  "content_hash X a e = Inr h \<Longrightarrow> bs_referenced (verify_bundle_event X a c idx st e) =
     bs_referenced st @ referenced_object_hashes_for_kind (ev_kind e)"
  by (auto simp: verify_bundle_event_def Let_def split: sum.splits)

lemma verify_bundle_events_snoc:
  "verify_bundle_events X a c idx st (es @ [e]) =
     verify_bundle_event X a c (idx + length es) (verify_bundle_events X a c idx st es) e"
  by (induction es arbitrary: idx st) auto

lemma verify_bundle_events_counters:
  assumes "bs_end_count st = 0" "bs_last_end st = None"
  shows "bs_end_count (verify_bundle_events X a c 0 st es) = length (end_positions (map (Pair h) es)) \<and>
         bs_last_end (verify_bundle_events X a c 0 st es) = last_opt (end_positions (map (Pair h) es))"
proof (induction es rule: rev_induct)
  case Nil
  with assms show ?case by (simp add: end_positions_def)
next
  case (snoc e es)
  then show ?case
    by (auto simp: verify_bundle_events_snoc verify_bundle_event_state end_positions_snoc)
qed

lemma session_end_violations_iff:
  "session_end_violations n last_pos len = [] \<longleftrightarrow> n = 1 \<and> last_pos = Some (len - 1)"
  by (auto simp: session_end_violations_def split: if_splits)

lemma hash_chain_hashes:
  "length hs = length es \<Longrightarrow> hash_chain H idx prev (zip hs es) \<Longrightarrow> map Inr hs = map H es"
  by (induction hs es arbitrary: idx prev rule: list_induct2) (auto simp: entry_ok_def)

text \<open>The events loop.\<close>

lemma verify_bundle_events_clean:
  "br_violations (bs_report (verify_bundle_events X a c idx st es)) = [] \<longleftrightarrow>
     br_violations (bs_report st) = [] \<and>
     (\<exists>hs. length hs = length es \<and> hash_chain (content_hash X a) idx (bs_prev_hash st) (zip hs es)) \<and>
     list_all (\<lambda>e. kind_ok32 (ev_kind e)) es \<and>
     set (session_objects es) \<subseteq> fst ` set (bc_objects c)"
proof (induction es arbitrary: idx st)
  case Nil
  show ?case by (simp add: session_objects_def)
next
  case (Cons e es)
  let ?st = "verify_bundle_event X a c idx st e"
  have ex: "(\<exists>hs. length hs = length (e # es) \<and>
        hash_chain (content_hash X a) idx (bs_prev_hash st) (zip hs (e # es))) \<longleftrightarrow>
      (\<exists>h. entry_ok (content_hash X a) idx (bs_prev_hash st) (h, e) \<and>
        (\<exists>hs. length hs = length es \<and> hash_chain (content_hash X a) (Suc idx) (Some h) (zip hs es)))"
    (is "?L \<longleftrightarrow> ?R")
  proof
    assume ?L then show ?R by (auto simp: length_Suc_conv) blast
  next
    assume ?R
    then obtain h hs where "entry_ok (content_hash X a) idx (bs_prev_hash st) (h, e)"
      "length hs = length es" "hash_chain (content_hash X a) (Suc idx) (Some h) (zip hs es)" by blast
    then show ?L by (intro exI [of _ "h # hs"]) simp
  qed
  have prev: "bs_prev_hash ?st = Some h" if "entry_ok (content_hash X a) idx (bs_prev_hash st) (h, e)" for h
    using that verify_bundle_event_state(3) by (auto simp: entry_ok_def)
  have uniq: "h = h'" if "entry_ok (content_hash X a) idx p (h, e)"
    "entry_ok (content_hash X a) idx p (h', e)" for h h' p
    using that by (auto simp: entry_ok_def)
  have "br_violations (bs_report (verify_bundle_events X a c idx st (e # es))) = [] \<longleftrightarrow>
      br_violations (bs_report st) = [] \<and>
      (\<exists>h. entry_ok (content_hash X a) idx (bs_prev_hash st) (h, e) \<and>
        (\<exists>hs. length hs = length es \<and> hash_chain (content_hash X a) (Suc idx) (Some h) (zip hs es))) \<and>
      kind_ok32 (ev_kind e) \<and> list_all (\<lambda>e. kind_ok32 (ev_kind e)) es \<and>
      set (referenced_object_hashes_for_kind (ev_kind e)) \<subseteq> fst ` set (bc_objects c) \<and>
      set (session_objects es) \<subseteq> fst ` set (bc_objects c)"
    unfolding verify_bundle_events.simps Cons.IH verify_bundle_event_clean
    using prev by (metis (no_types, lifting))
  then show ?case
    unfolding ex by (auto simp: session_objects_def)
qed

lemma verify_bundle_events_final:
  assumes "length hs = length es" "hash_chain (content_hash X a) idx prev (zip hs es)"
  shows "bs_prev_hash (verify_bundle_events X a c idx st es) =
           (if es = [] then bs_prev_hash st else Some (last hs))"
    and "bs_referenced (verify_bundle_events X a c idx st es) = bs_referenced st @ session_objects es"
  using assms
proof (induction hs es arbitrary: idx prev st rule: list_induct2)
  case Nil
  { case 1 show ?case by simp next case 2 show ?case by (simp add: session_objects_def) }
next
  case (Cons h hs e es)
  have h: "content_hash X a e = Inr h" if "hash_chain (content_hash X a) idx prev (zip (h # hs) (e # es))"
    for idx prev using that by (auto simp: entry_ok_def)
  {
    case 1
    with Cons.IH(1) [of "Suc idx" "Some h"] h [OF 1] Cons.hyps show ?case
      by (auto simp: verify_bundle_event_state)
  next
    case 2
    with Cons.IH(2) [of "Suc idx" "Some h"] h [OF 2] show ?case
      by (simp add: verify_bundle_event_state session_objects_def)
  }
qed

lemma unreferenced_objects_iff:
  "unreferenced_objects X c referenced = [] \<longleftrightarrow> fst ` set (bc_objects c) \<subseteq> set referenced"
proof -
  have "sort_key f ys = [] \<longleftrightarrow> ys = []" for f :: "hash \<Rightarrow> string" and ys
    by (metis length_0_conv length_sort)
  then show ?thesis by (auto simp: unreferenced_objects_def filter_empty_conv)
qed

lemma count_violations_iff:
  "count_violations c = [] \<longleftrightarrow>
     mf_object_count (bc_manifest c) = of_nat (length (bc_objects c)) \<and>
     mf_event_count (bc_manifest c) = of_nat (length (bc_events c))"
  by (simp add: count_violations_def Let_def)

lemma object_key_violations_iff:
  "object_key_violations X a objs = [] \<longleftrightarrow> list_all (\<lambda>(h, b). digest_bytes X a b = h) objs"
  by (auto simp: object_key_violations_def filter_empty_conv list_all_iff)

lemma head_violations_iff:
  "head_violations X a m (Some t) = [] \<longleftrightarrow> parse_hex X a (sm_head (mf_session m)) = Inr t"
  by (auto simp: head_violations_def split: sum.splits)

theorem verify_bundle_clean_alg:
  assumes alg: "mf_hash_algorithm (bc_manifest c) = hash_algorithm_to_string a"
  shows "bundle_report_is_clean (verify_bundle X c) \<longleftrightarrow> (\<exists>hs. bundle_session X a c hs)"
proof (cases "bc_events c = []")
  case True
  then show ?thesis using alg
    by (auto simp: verify_bundle_def bundle_report_is_clean_def bundle_session_def ends_once_def)
next
  case False
  have pa: "parse_algorithm (mf_hash_algorithm (bc_manifest c)) = Inr a" using alg by simp
  define r where "r = add_violations (count_violations c @ object_key_violations X a (bc_objects c)) empty_report"
  define st0 where "st0 = \<lparr>bs_report = r, bs_referenced = [], bs_end_count = 0, bs_last_end = None,
                        bs_prev_hash = None\<rparr>"
  define st where "st = verify_bundle_events X a c 0 st0 (bc_events c)"
  have r: "br_violations r = count_violations c @ object_key_violations X a (bc_objects c)"
    by (simp add: r_def empty_report_def)
  have vb: "bundle_report_is_clean (verify_bundle X c) \<longleftrightarrow>
      br_violations (bs_report st) = [] \<and> unreferenced_objects X c (bs_referenced st) = [] \<and>
      session_end_violations (bs_end_count st) (bs_last_end st) (length (bc_events c)) = [] \<and>
      head_violations X a (bc_manifest c) (bs_prev_hash st) = []"
    using False pa by (simp add: verify_bundle_def bundle_report_is_clean_def st_def st0_def r_def Let_def)
  have cnt: "bs_end_count st = length (end_positions (map (Pair undefined) (bc_events c)))"
      "bs_last_end st = last_opt (end_positions (map (Pair undefined) (bc_events c)))"
    using verify_bundle_events_counters [of st0 X a c "bc_events c" undefined]
    by (simp_all add: st_def st0_def)
  have ends: "session_end_violations (bs_end_count st) (bs_last_end st) (length (bc_events c)) = []
      \<longleftrightarrow> ends_once (bc_events c)"
    unfolding session_end_violations_iff cnt
    using ends_once_positions [of "map (Pair undefined) (bc_events c)"] False
    by (simp add: comp_def)
  have fin: "bs_prev_hash st = Some (last hs) \<and> bs_referenced st = session_objects (bc_events c)"
    if "length hs = length (bc_events c)" "hash_chain (content_hash X a) 0 None (zip hs (bc_events c))" for hs
    using verify_bundle_events_final [OF that, of c st0] False by (simp add: st_def st0_def)
  have ev: "br_violations (bs_report st) = [] \<longleftrightarrow>
      br_violations r = [] \<and>
      (\<exists>hs. length hs = length (bc_events c) \<and>
         hash_chain (content_hash X a) 0 None (zip hs (bc_events c))) \<and>
      list_all (\<lambda>e. kind_ok32 (ev_kind e)) (bc_events c) \<and>
      set (session_objects (bc_events c)) \<subseteq> fst ` set (bc_objects c)"
    unfolding st_def verify_bundle_events_clean by (simp add: st0_def)
  show ?thesis
  proof
    assume clean: "bundle_report_is_clean (verify_bundle X c)"
    then obtain hs where hs: "length hs = length (bc_events c)"
      "hash_chain (content_hash X a) 0 None (zip hs (bc_events c))"
      using vb ev by blast
    with clean fin [OF hs] have "bundle_session X a c hs"
      unfolding vb ev ends bundle_session_def r
      by (simp add: unreferenced_objects_iff head_violations_iff count_violations_iff
          object_key_violations_iff subset_antisym)
    then show "\<exists>hs. bundle_session X a c hs" ..
  next
    assume "\<exists>hs. bundle_session X a c hs"
    then obtain hs where bs: "bundle_session X a c hs" ..
    then have "length hs = length (bc_events c)"
      "hash_chain (content_hash X a) 0 None (zip hs (bc_events c))"
      by (simp_all add: bundle_session_def)
    from bs fin [OF this] show "bundle_report_is_clean (verify_bundle X c)"
      unfolding vb ev ends bundle_session_def r
      by (auto simp add: unreferenced_objects_iff head_violations_iff count_violations_iff
          object_key_violations_iff)
  qed
qed

lemma verify_bundle_accepted:
  assumes "bundle_report_is_clean (verify_bundle X c)"
  obtains a where "mf_hash_algorithm (bc_manifest c) = hash_algorithm_to_string a"
proof (cases "parse_algorithm (mf_hash_algorithm (bc_manifest c))")
  case (Inl e)
  with assms show ?thesis by (simp add: verify_bundle_def bundle_report_is_clean_def)
next
  case (Inr a)
  with that show ?thesis by simp
qed

theorem verify_bundle_clean_iff:
  "bundle_report_is_clean (verify_bundle X c) \<longleftrightarrow>
     (\<exists>a hs. mf_hash_algorithm (bc_manifest c) = hash_algorithm_to_string a \<and> bundle_session X a c hs)"
  using verify_bundle_clean_alg verify_bundle_accepted by metis

section \<open>The two verifiers agree\<close>

text \<open>A journal whose store holds the bundle's objects: the events of a bundle that verifies form a
  session the journal verifier accepts, with the declared head.\<close>

lemma bundle_session_linear:
  assumes "bundle_session X a c hs" "sv_algorithm V = a"
    and "\<And>h. h \<in> fst ` set (bc_objects c) \<Longrightarrow> object_ok X V h"
  shows "linear_session X V (zip hs (bc_events c)) (Some (last hs))"
proof -
  have len: "length hs = length (bc_events c)" and e: "ends_once (bc_events c)"
    using assms(1) by (simp_all add: bundle_session_def)
  then have "fst (last (zip hs (bc_events c))) = last hs"
    using last_zip [of hs "bc_events c"] by (cases "hs = []") (auto simp: ends_once_def)
  moreover have "list_all (objects_ok X V) (bc_events c)"
    unfolding objects_ok_session using assms(1,3) by (auto simp: bundle_session_def list_all_iff)
  ultimately show ?thesis using assms(1,2) len e by (simp add: linear_session_def bundle_session_def)
qed

text \<open>Staging the blobs of a bundle in an empty memory store.\<close>

definition staged_store :: "'x hash_ext_scheme \<Rightarrow> hash_algorithm \<Rightarrow> bundle_contents \<Rightarrow> mem_store" where
  "staged_store X a c = fst (object_store.put_all (mem_put X) (mem_new a) (map snd (bc_objects c)))"

lemma mem_put_all_keys:
  assumes "object_store.put_all (mem_put X) m bs = (m', rs)" "\<not> ms_poisoned m"
  shows "ms_algorithm m' = ms_algorithm m \<and> \<not> ms_poisoned m' \<and>
         (hm_get (ms_objects m') k \<noteq> None \<longleftrightarrow> hm_get (ms_objects m) k \<noteq> None \<or>
            (\<exists>b \<in> set bs. k = h_bytes (digest_bytes X (ms_algorithm m) b)))"
  using assms
proof (induction bs arbitrary: m rs)
  case (Cons b bs)
  obtain m1 r1 where p: "mem_put X m b = (m1, r1)" by (cases "mem_put X m b")
  with Cons.prems obtain rs' where q: "object_store.put_all (mem_put X) m1 bs = (m', rs')"
    by (auto split: prod.splits)
  from p Cons.prems(2) have m1: "ms_algorithm m1 = ms_algorithm m" "\<not> ms_poisoned m1"
    "hm_get (ms_objects m1) k \<noteq> None \<longleftrightarrow> hm_get (ms_objects m) k \<noteq> None \<or>
       k = h_bytes (digest_bytes X (ms_algorithm m) b)"
    by (auto simp: mem_put_def Let_def split: if_splits option.splits)
  from Cons.IH [OF q m1(2)] m1 show ?case by auto
qed simp

lemma staged_store_object_ok:
  assumes "list_all (\<lambda>(h, b). digest_bytes X a b = h) (bc_objects c)"
  shows "object_ok X (mem_view (staged_store X a c)) h \<longleftrightarrow> h \<in> fst ` set (bc_objects c)"
proof -
  obtain m rs where m: "object_store.put_all (mem_put X) (mem_new a) (map snd (bc_objects c)) = (m, rs)"
    by (cases "object_store.put_all (mem_put X) (mem_new a) (map snd (bc_objects c))")
  have k: "ms_algorithm m = a" "\<not> ms_poisoned m"
    "hm_get (ms_objects m) (h_bytes h) \<noteq> None \<longleftrightarrow>
       (\<exists>b \<in> snd ` set (bc_objects c). h_bytes h = h_bytes (digest_bytes X a b))"
    using mem_put_all_keys [OF m, of "h_bytes h"] by (simp_all add: mem_new_def hm_get_def)
  have inv: "mem_inv X m" by (rule mem.put_all_inv [OF mem_inv_new m])
  have alg: "h_algorithm h = a" if "h \<in> fst ` set (bc_objects c)"
    using assms that by (auto simp: list_all_iff)
  have "h_algorithm h = a \<and> (\<exists>b \<in> snd ` set (bc_objects c). h_bytes h = h_bytes (digest_bytes X a b)) \<longleftrightarrow>
      h \<in> fst ` set (bc_objects c)"
    using assms by (force simp: list_all_iff hash_eq_iff image_iff)
  moreover have "object_ok X (mem_view m) h \<longleftrightarrow>
      h_algorithm h = a \<and> hm_get (ms_objects m) (h_bytes h) \<noteq> None"
    using inv k(1,2)
    by (auto simp: object_ok_def mem_inv_def mem_view_def mem_get_def mem_contains_def hash_eq_iff)
  ultimately show ?thesis using k(3) by (simp add: staged_store_def m)
qed

lemma bundle_session_iff_linear:
  "bundle_session X a c hs \<longleftrightarrow>
     count_violations c = [] \<and> object_key_violations X a (bc_objects c) = [] \<and>
     length hs = length (bc_events c) \<and>
     linear_session X (mem_view (staged_store X a c)) (zip hs (bc_events c)) None \<and>
     list_all (\<lambda>e. event_invariant_violation (ev_kind e) = None) (bc_events c) \<and>
     unreferenced_objects X c (session_objects (bc_events c)) = [] \<and>
     head_violations X a (bc_manifest c) (Some (last hs)) = []"
proof -
  have alg: "ms_algorithm (staged_store X a c) = a"
    using mem_put_all_keys [of X "mem_new a" "map snd (bc_objects c)"]
    by (auto simp: staged_store_def mem_new_def split: prod.splits) (metis mem_store.select_convs(1,3) surjective_pairing)
  show ?thesis
    unfolding bundle_session_def linear_session_def count_violations_iff object_key_violations_iff
      event_invariant_violation_iff unreferenced_objects_iff head_violations_iff objects_ok_session
    using staged_store_object_ok [of X a c]
    by (auto simp: alg list_all_iff)
qed

end
