(* ===== verification/Bundle_Archive.thy ===== *)
theory Bundle_Archive
  imports Bundle_Events Bundle_Verify
begin

text \<open>
  \<open>akmon-bundle/src/archive.rs\<close> and \<open>objects.rs\<close>: writing a bundle as an ordered list of archive
  entries, reading one back with the decompression limit, duplicate and file-name checks, and
  \<open>read_verified_bundle\<close>. The zstd and tar layers are parameters: the writer yields the entries it
  appends, the reader is given what the tar iterator yields.
\<close>

section \<open>Options\<close>

definition DEFAULT_MAX_BUNDLE_DECODED_BYTES :: u64 where
  "DEFAULT_MAX_BUNDLE_DECODED_BYTES = 1073741824"

record read_bundle_options =
  ro_allow_extra_files :: bool
  ro_max_event_frame_len :: u32

definition default_read_options :: read_bundle_options where
  "default_read_options =
     \<lparr>ro_allow_extra_files = False, ro_max_event_frame_len = DEFAULT_MAX_EVENT_FRAME_LEN\<rparr>"

record write_bundle_options =
  wo_zstd_level :: int

definition default_write_options :: write_bundle_options where
  "default_write_options = \<lparr>wo_zstd_level = 19\<rparr>"

section \<open>The limited reader\<close>

text \<open>An I/O error either carries the size sentinel or is any other error, with its text.\<close>

datatype io_error = DecodedSizeLimitExceeded | IoOther string

definition io_error_to_string :: "io_error \<Rightarrow> string" where
  "io_error_to_string e =
     (case e of DecodedSizeLimitExceeded \<Rightarrow> ''decompressed size limit exceeded'' | IoOther m \<Rightarrow> m)"

text \<open>\<open>LimitedReader\<close> over any inner reader: \<open>rd r n\<close> reads into a buffer of \<open>n\<close> bytes.\<close>

type_synonym 'r reader = "'r \<Rightarrow> nat \<Rightarrow> 'r \<times> (io_error + byte list)"

record 'r limited_reader =
  lr_inner :: 'r
  lr_remaining :: u64

definition limited_new :: "'r \<Rightarrow> u64 \<Rightarrow> 'r limited_reader" where
  "limited_new r limit = \<lparr>lr_inner = r, lr_remaining = limit\<rparr>"

definition limited_read :: "'r reader \<Rightarrow> 'r limited_reader reader" where
  "limited_read rd lr n =
     (if n = 0 then (lr, Inr [])
      else if lr_remaining lr = 0 then
        (case rd (lr_inner lr) 1 of
           (r', Inl e) \<Rightarrow> (lr\<lparr>lr_inner := r'\<rparr>, Inl e)
         | (r', Inr got) \<Rightarrow>
             (lr\<lparr>lr_inner := r'\<rparr>, if got = [] then Inr [] else Inl DecodedSizeLimitExceeded))
      else
        (case rd (lr_inner lr) (min n (unat (lr_remaining lr))) of
           (r', Inl e) \<Rightarrow> (lr\<lparr>lr_inner := r'\<rparr>, Inl e)
         | (r', Inr got) \<Rightarrow>
             (lr\<lparr>lr_inner := r', lr_remaining := lr_remaining lr - of_nat (length got)\<rparr>, Inr got)))"

text \<open>A client that reads buffer after buffer, with the sizes of its buffers.\<close>

fun drain :: "'r reader \<Rightarrow> 'r \<Rightarrow> nat list \<Rightarrow> byte list" where
  "drain rd r [] = []"
| "drain rd r (n # ns) =
     (case rd r n of (r', Inl e) \<Rightarrow> drain rd r' ns | (r', Inr got) \<Rightarrow> got @ drain rd r' ns)"

definition archive_read_error :: "io_error \<Rightarrow> u64 \<Rightarrow> string \<Rightarrow> bundle_error" where
  "archive_read_error err limit ctx =
     (case err of
        DecodedSizeLimitExceeded \<Rightarrow> BBundleTooLarge limit
      | IoOther m \<Rightarrow> BInvalidArchive (ctx @ '': '' @ m))"

section \<open>Writing\<close>

record archive_ext = frame_ext +
  x_encoder_new :: "int \<Rightarrow> string option"
  x_tar_append :: "string \<Rightarrow> byte list \<Rightarrow> string option"
  x_tar_finish :: "string option"

definition object_filename :: "'x hash_ext_scheme \<Rightarrow> hash \<Rightarrow> string" where
  "object_filename X h = to_hex X h"

type_synonym entries = "(string \<times> byte list) list"

definition append_bytes ::
    "'x archive_ext_scheme \<Rightarrow> entries \<Rightarrow> string \<Rightarrow> byte list \<Rightarrow> bundle_error + entries" where
  "append_bytes X es path bytes =
     (case x_tar_append X path bytes of
        Some err \<Rightarrow> Inl (BInvalidArchive (''append '' @ path @ '' failed: '' @ err))
      | None \<Rightarrow> Inr (es @ [(path, bytes)]))"

text \<open>\<open>BTreeMap::insert\<close> on the sorted list of entries.\<close>

fun btree_insert :: "'k::linorder \<Rightarrow> 'v \<Rightarrow> ('k \<times> 'v) list \<Rightarrow> ('k \<times> 'v) list" where
  "btree_insert k v [] = [(k, v)]"
| "btree_insert k v (p # ps) =
     (if k < fst p then (k, v) # p # ps
      else if k = fst p then (k, v) # ps
      else p # btree_insert k v ps)"

definition sorted_objects ::
    "'x hash_ext_scheme \<Rightarrow> (hash \<times> byte list) list \<Rightarrow> (string \<times> hash \<times> byte list) list" where
  "sorted_objects X objs = fold (\<lambda>(h, b). btree_insert (to_hex X h) (h, b)) objs []"

fun append_objects ::
    "'x archive_ext_scheme \<Rightarrow> entries \<Rightarrow> (string \<times> hash \<times> byte list) list \<Rightarrow> bundle_error + entries" where
  "append_objects X es [] = Inr es"
| "append_objects X es ((_, h, b) # objs) =
     res_bind (append_bytes X es (''objects/'' @ object_filename X h) b)
       (\<lambda>es'. append_objects X es' objs)"

definition write_bundle ::
    "'x archive_ext_scheme \<Rightarrow> manifest \<Rightarrow> event list \<Rightarrow> (hash, byte list) hash_map
     \<Rightarrow> write_bundle_options \<Rightarrow> bundle_error + entries" where
  "write_bundle X m events objects opts =
     res_bind (to_canonical_json_bytes X m) (\<lambda>manifest_bytes.
     res_bind (parse_algorithm (mf_hash_algorithm m)) (\<lambda>_.
     res_bind (write_events X events) (\<lambda>events_bytes.
     case x_encoder_new X (wo_zstd_level opts) of
       Some err \<Rightarrow> Inl (BInvalidCompression (''zstd encoder init failed: '' @ err))
     | None \<Rightarrow>
         res_bind (append_bytes X [] ''manifest.json'' manifest_bytes) (\<lambda>es1.
         res_bind (append_bytes X es1 ''events.bin'' events_bytes) (\<lambda>es2.
         res_bind (append_objects X es2 (sorted_objects X objects)) (\<lambda>es3.
         case x_tar_finish X of
           Some err \<Rightarrow> Inl (BInvalidArchive (''tar finalize failed: '' @ err))
         | None \<Rightarrow> Inr es3))))))"

section \<open>Reading\<close>

text \<open>What the tar iterator yields for one entry: whether the header says regular file or
  directory, the debug text of the type, the (lossy) path and the payload, where reading may fail.\<close>

record tar_entry =
  te_is_file :: bool
  te_is_dir :: bool
  te_type_text :: string
  te_path :: "string + string"
  te_payload :: "io_error + byte list"

definition path_to_unix :: "string \<Rightarrow> string" where
  "path_to_unix p = map (\<lambda>c. if c = CHR 0x5C then CHR ''/'' else c) p"

text \<open>\<open>str::trim_start_matches\<close> strips the pattern as often as it occurs.\<close>

function trim_start_matches :: "string \<Rightarrow> string \<Rightarrow> string" where
  "trim_start_matches p s =
     (if p \<noteq> [] \<and> starts_with p s then trim_start_matches p (drop (length p) s) else s)"
  by pat_completeness auto
termination
  by (relation "measure (\<lambda>(p, s). length s)") (auto simp: starts_with_iff)

declare trim_start_matches.simps [simp del]

record scan_state =
  sc_manifest :: "byte list option"
  sc_events :: "byte list option"
  sc_objects :: "(string \<times> byte list) list"
  sc_seen :: "string list"

definition scan_empty :: scan_state where
  "scan_empty = \<lparr>sc_manifest = None, sc_events = None, sc_objects = [], sc_seen = []\<rparr>"

text \<open>The \<open>match\<close> on the path of a regular entry.\<close>

definition scan_file ::
    "read_bundle_options \<Rightarrow> scan_state \<Rightarrow> string \<Rightarrow> byte list \<Rightarrow> bundle_error + scan_state" where
  "scan_file opts st path bytes =
     (if path = ''manifest.json'' then
        (if sc_manifest st \<noteq> None then Inl (BInvalidArchive ''duplicate manifest.json entry'')
         else Inr (st\<lparr>sc_manifest := Some bytes\<rparr>))
      else if path = ''events.bin'' then
        (if sc_events st \<noteq> None then Inl (BInvalidArchive ''duplicate events.bin entry'')
         else Inr (st\<lparr>sc_events := Some bytes\<rparr>))
      else if starts_with ''objects/'' path then
        (let name = trim_start_matches ''objects/'' path in
         if CHR ''/'' \<in> set name \<or> name = []
         then Inl (BInvalidArchive (''invalid object entry path: '' @ path))
         else if name \<in> set (sc_seen st)
         then Inl (BInvalidArchive (''duplicate object entry: '' @ path))
         else Inr (st\<lparr>sc_seen := name # sc_seen st, sc_objects := sc_objects st @ [(name, bytes)]\<rparr>))
      else if \<not> ro_allow_extra_files opts then Inl (BUnknownBundleFile path)
      else Inr st)"

definition scan_entry ::
    "read_bundle_options \<Rightarrow> u64 \<Rightarrow> scan_state \<Rightarrow> io_error + tar_entry \<Rightarrow> bundle_error + scan_state" where
  "scan_entry opts limit st item =
     res_bind (map_err (\<lambda>err. archive_read_error err limit ''tar entry read failed'') item) (\<lambda>entry.
     res_bind (map_err (\<lambda>err. BInvalidArchive (''invalid tar path: '' @ err)) (te_path entry)) (\<lambda>p.
     let path = path_to_unix p in
     if \<not> te_is_file entry then
       (if ro_allow_extra_files opts \<or> (te_is_dir entry \<and> path = ''objects/'') then Inr st
        else Inl (BUnknownBundleFile (path @ '' (non-regular tar entry type '' @ te_type_text entry @ '')'')))
     else
       res_bind (map_err (\<lambda>err. archive_read_error err limit ''tar entry payload'') (te_payload entry))
         (\<lambda>bytes. scan_file opts st path bytes)))"

fun scan_entries ::
    "read_bundle_options \<Rightarrow> u64 \<Rightarrow> scan_state \<Rightarrow> (io_error + tar_entry) list \<Rightarrow> bundle_error + scan_state" where
  "scan_entries opts limit st [] = Inr st"
| "scan_entries opts limit st (item # items) =
     res_bind (scan_entry opts limit st item) (\<lambda>st'. scan_entries opts limit st' items)"

definition decode_object ::
    "'x hash_ext_scheme \<Rightarrow> hash_algorithm \<Rightarrow> string \<Rightarrow> bundle_error + hash" where
  "decode_object X alg name =
     (if length name \<noteq> 64 \<or> \<not> list_all is_lower_hex name
      then Inl (BInvalidArchive
             (''invalid object filename (must be 64 lowercase hex characters): '' @ name))
      else res_bind (map_err (\<lambda>err. BInvalidArchive (''invalid object hex: '' @ err)) (x_hex_decode X name))
        (\<lambda>digest. Inr (hash_from_bytes alg digest)))"

fun decode_objects ::
    "'x hash_ext_scheme \<Rightarrow> hash_algorithm \<Rightarrow> (hash, byte list) hash_map \<Rightarrow> (string \<times> byte list) list
     \<Rightarrow> bundle_error + (hash, byte list) hash_map" where
  "decode_objects X alg objs [] = Inr objs"
| "decode_objects X alg objs ((name, bytes) # raw) =
     res_bind (decode_object X alg name) (\<lambda>h. decode_objects X alg (hm_insert h bytes objs) raw)"

definition assemble_bundle ::
    "'x archive_ext_scheme \<Rightarrow> read_bundle_options \<Rightarrow> scan_state \<Rightarrow> bundle_error + bundle_contents" where
  "assemble_bundle X opts st =
     res_bind (ok_or (BInvalidArchive ''missing required manifest.json'') (sc_manifest st)) (\<lambda>mb.
     res_bind (ok_or (BInvalidArchive ''missing required events.bin'') (sc_events st)) (\<lambda>eb.
     res_bind (manifest_from_json_bytes X mb) (\<lambda>m.
     res_bind (validate_agef_version m AGEF_SPEC_VERSION) (\<lambda>_.
     res_bind (parse_algorithm (mf_hash_algorithm m)) (\<lambda>alg.
     res_bind (read_events X alg (ro_max_event_frame_len opts) eb) (\<lambda>events.
     res_bind (decode_objects X alg [] (sc_objects st)) (\<lambda>objects.
     Inr \<lparr>bc_manifest = m, bc_events = events, bc_objects = objects\<rparr>)))))))"

text \<open>The stream as the decoder and tar layers present it: the decoder may refuse the stream, the
  archive may have no readable entries.\<close>

definition read_bundle_limited ::
    "'x archive_ext_scheme \<Rightarrow> read_bundle_options \<Rightarrow> u64
     \<Rightarrow> string + (io_error + (io_error + tar_entry) list) \<Rightarrow> bundle_error + bundle_contents" where
  "read_bundle_limited X opts limit stream =
     res_bind (map_err (\<lambda>err. BInvalidCompression (''zstd decoder init failed: '' @ err)) stream) (\<lambda>archive.
     res_bind (map_err (\<lambda>err. archive_read_error err limit ''tar entries failed'') archive) (\<lambda>items.
     res_bind (scan_entries opts limit scan_empty items) (\<lambda>st. assemble_bundle X opts st)))"

text \<open>\<open>decode limit\<close> is the stream the decoder yields when its output is capped at \<open>limit\<close>.\<close>

definition read_bundle ::
    "'x archive_ext_scheme \<Rightarrow> read_bundle_options
     \<Rightarrow> (u64 \<Rightarrow> string + (io_error + (io_error + tar_entry) list)) \<Rightarrow> bundle_error + bundle_contents" where
  "read_bundle X opts decode =
     read_bundle_limited X opts DEFAULT_MAX_BUNDLE_DECODED_BYTES (decode DEFAULT_MAX_BUNDLE_DECODED_BYTES)"

definition read_verified_bundle ::
    "'x archive_ext_scheme \<Rightarrow> read_bundle_options
     \<Rightarrow> (u64 \<Rightarrow> string + (io_error + (io_error + tar_entry) list)) \<Rightarrow> bundle_error + bundle_contents" where
  "read_verified_bundle X opts decode =
     res_bind (read_bundle X opts decode) (\<lambda>contents.
     res_bind (verify_bundle_strict X contents) (\<lambda>_. Inr contents))"

section \<open>The decompression cap\<close>

text \<open>The contract of \<open>Read::read\<close>: never more bytes than the buffer holds.\<close>

definition reader_ok :: "'r reader \<Rightarrow> bool" where
  "reader_ok rd \<longleftrightarrow> (\<forall>r n r' got. rd r n = (r', Inr got) \<longrightarrow> length got \<le> n)"

lemma limited_read_remaining:
  assumes "reader_ok rd"
    and "limited_read rd lr n = (lr', res)"
  shows "length (case res of Inl _ \<Rightarrow> [] | Inr got \<Rightarrow> got) + unat (lr_remaining lr') = unat (lr_remaining lr)"
proof (cases "n = 0 \<or> lr_remaining lr = 0")
  case True
  with assms(2) show ?thesis
    by (auto simp: limited_read_def split: prod.splits sum.splits if_splits)
next
  case False
  let ?m = "min n (unat (lr_remaining lr))"
  obtain r' q where rd: "rd (lr_inner lr) ?m = (r', q)" by (cases "rd (lr_inner lr) ?m")
  show ?thesis
  proof (cases q)
    case (Inl e)
    with False rd assms(2) show ?thesis by (auto simp: limited_read_def)
  next
    case (Inr got)
    with assms(1) rd have le: "length got \<le> unat (lr_remaining lr)"
      by (fastforce simp: reader_ok_def)
    then have "length got < 2 ^ 64"
      by (rule order_le_less_trans) (rule order_less_le_trans [OF unsigned_less], simp)
    then have len: "unat (of_nat (length got) :: u64) = length got" by (simp add: unat_of_nat)
    then have "unat (lr_remaining lr - of_nat (length got)) = unat (lr_remaining lr) - length got"
      using le by (simp add: unat_sub word_le_nat_alt)
    with False rd Inr assms(2) le show ?thesis by (auto simp: limited_read_def)
  qed
qed

lemma drain_limited:
  assumes "reader_ok rd"
  shows "length (drain (limited_read rd) lr ns) \<le> unat (lr_remaining lr)"
proof (induction ns arbitrary: lr)
  case Nil
  show ?case by simp
next
  case (Cons n ns)
  obtain lr' q where q: "limited_read rd lr n = (lr', q)" by (cases "limited_read rd lr n")
  with limited_read_remaining [OF assms q] Cons.IH [of lr'] show ?case
    by (auto split: sum.splits)
qed

section \<open>Scanning\<close>

text \<open>The regular entries among the items of a stream that reads without errors.\<close>

definition item_files :: "(io_error + tar_entry) list \<Rightarrow> entries" where
  "item_files items =
     concat (map (\<lambda>item. case item of
       Inl _ \<Rightarrow> []
     | Inr t \<Rightarrow>
         (case (te_path t, te_payload t) of
            (Inr p, Inr b) \<Rightarrow> if te_is_file t then [(path_to_unix p, b)] else []
          | _ \<Rightarrow> [])) items)"

definition is_object_path :: "string \<Rightarrow> bool" where
  "is_object_path p \<longleftrightarrow> p \<noteq> ''manifest.json'' \<and> p \<noteq> ''events.bin'' \<and> starts_with ''objects/'' p"

definition object_files :: "entries \<Rightarrow> entries" where
  "object_files fs = map (\<lambda>(p, b). (trim_start_matches ''objects/'' p, b))
     (filter (\<lambda>(p, b). is_object_path p) fs)"

definition scan_ok :: "scan_state \<Rightarrow> bool" where
  "scan_ok st \<longleftrightarrow> set (sc_seen st) = set (map fst (sc_objects st)) \<and> distinct (map fst (sc_objects st))"

definition files_at :: "string \<Rightarrow> entries \<Rightarrow> byte list list" where
  "files_at p fs = map snd (filter (\<lambda>q. fst q = p) fs)"

lemma scan_file_Inr:
  assumes "scan_file opts st path bytes = Inr st'"
  shows "opt_list (sc_manifest st') = opt_list (sc_manifest st) @ files_at ''manifest.json'' [(path, bytes)]"
    and "opt_list (sc_events st') = opt_list (sc_events st) @ files_at ''events.bin'' [(path, bytes)]"
    and "sc_objects st' = sc_objects st @ object_files [(path, bytes)]"
    and "scan_ok st \<Longrightarrow> scan_ok st'"
    and "\<not> ro_allow_extra_files opts \<Longrightarrow>
           path = ''manifest.json'' \<or> path = ''events.bin'' \<or> is_object_path path"
  using assms
  by (auto simp: scan_file_def files_at_def object_files_def is_object_path_def opt_list_def Let_def
      scan_ok_def rev_image_eqI split: if_splits)

lemma scan_entry_cases:
  assumes "scan_entry opts limit st item = Inr st'"
  shows "(item_files [item] = [] \<and> st' = st) \<or>
         (\<exists>path bytes. item_files [item] = [(path, bytes)] \<and> scan_file opts st path bytes = Inr st')"
proof -
  from assms obtain t p where t: "item = Inr t" "te_path t = Inr p"
    by (auto simp: scan_entry_def)
  show ?thesis
  proof (cases "te_is_file t")
    case True
    with assms t show ?thesis by (auto simp: scan_entry_def item_files_def Let_def)
  next
    case False
    with assms t show ?thesis
      by (auto simp: scan_entry_def item_files_def Let_def split: sum.splits if_splits)
  qed
qed

lemma item_files_Cons: "item_files (i # is) = item_files [i] @ item_files is"
  by (simp add: item_files_def)

lemma files_at_append [simp]: "files_at p (fs @ gs) = files_at p fs @ files_at p gs"
  by (simp add: files_at_def)

lemma object_files_append [simp]: "object_files (fs @ gs) = object_files fs @ object_files gs"
  by (simp add: object_files_def)

lemma scan_entries_Inr:
  assumes "scan_entries opts limit st items = Inr st'"
  shows "opt_list (sc_manifest st') = opt_list (sc_manifest st) @ files_at ''manifest.json'' (item_files items) \<and>
    opt_list (sc_events st') = opt_list (sc_events st) @ files_at ''events.bin'' (item_files items) \<and>
    sc_objects st' = sc_objects st @ object_files (item_files items) \<and>
    (scan_ok st \<longrightarrow> scan_ok st') \<and>
    (\<not> ro_allow_extra_files opts \<longrightarrow>
       list_all (\<lambda>(p, b). p = ''manifest.json'' \<or> p = ''events.bin'' \<or> is_object_path p) (item_files items))"
  using assms
proof (induction items arbitrary: st)
  case Nil
  then show ?case by (simp add: item_files_def files_at_def object_files_def)
next
  case (Cons item items)
  then obtain st1 where s: "scan_entry opts limit st item = Inr st1"
    "scan_entries opts limit st1 items = Inr st'" by auto
  note IH = Cons.IH [OF s(2)]
  from scan_entry_cases [OF s(1)] show ?case
  proof
    assume "item_files [item] = [] \<and> st1 = st"
    with IH show ?thesis by (subst (1 2 3 4) item_files_Cons) simp
  next
    assume "\<exists>path bytes. item_files [item] = [(path, bytes)] \<and> scan_file opts st path bytes = Inr st1"
    then obtain path bytes where f: "item_files [item] = [(path, bytes)]"
      "scan_file opts st path bytes = Inr st1" by blast
    show ?thesis
      unfolding item_files_Cons [of item items] f(1) files_at_append object_files_append list_all_append
      using IH scan_file_Inr [OF f(2)] by auto
  qed
qed

section \<open>What a parsed bundle is\<close>

lemma opt_list_eq_singleton [simp]: "opt_list m = [x] \<longleftrightarrow> m = Some x"
  by (cases m) (auto simp: opt_list_def)

text \<open>A bundle parsed in strict mode comes from exactly one manifest, exactly one event stream and
  object files with distinct names, and nothing else.\<close>

lemma read_bundle_limited_InrD:
  assumes "read_bundle_limited X opts limit stream = Inr c"
  obtains items mb eb a where "stream = Inr (Inr items)"
    "files_at ''manifest.json'' (item_files items) = [mb]"
    "files_at ''events.bin'' (item_files items) = [eb]"
    "distinct (map fst (object_files (item_files items)))"
    "\<not> ro_allow_extra_files opts \<Longrightarrow>
       list_all (\<lambda>(p, b). p = ''manifest.json'' \<or> p = ''events.bin'' \<or> is_object_path p) (item_files items)"
    "manifest_from_json_bytes X mb = Inr (bc_manifest c)"
    "mf_hash_algorithm (bc_manifest c) = hash_algorithm_to_string a"
    "read_events X a (ro_max_event_frame_len opts) eb = Inr (bc_events c)"
    "decode_objects X a [] (object_files (item_files items)) = Inr (bc_objects c)"
proof -
  from assms obtain items st where s: "stream = Inr (Inr items)"
    "scan_entries opts limit scan_empty items = Inr st" "assemble_bundle X opts st = Inr c"
    by (auto simp: read_bundle_limited_def)
  have e: "opt_list (sc_manifest scan_empty) = []" "opt_list (sc_events scan_empty) = []"
    "sc_objects scan_empty = []" "scan_ok scan_empty"
    by (simp_all add: scan_empty_def opt_list_def scan_ok_def)
  note sc = scan_entries_Inr [OF s(2), unfolded e append_Nil]
  from s(3) obtain mb eb m a events objects where m: "sc_manifest st = Some mb" "sc_events st = Some eb"
    "manifest_from_json_bytes X mb = Inr m" "mf_hash_algorithm m = hash_algorithm_to_string a"
    "read_events X a (ro_max_event_frame_len opts) eb = Inr events"
    "decode_objects X a [] (sc_objects st) = Inr objects"
    "c = \<lparr>bc_manifest = m, bc_events = events, bc_objects = objects\<rparr>"
    by (auto simp: assemble_bundle_def)
  have "distinct (map fst (object_files (item_files items)))"
    using sc e(4) scan_ok_def by metis
  with sc m that [of items mb eb a] s(1) show ?thesis
    by (simp add: opt_list_def)
qed

lemma decode_object_InrD:
  "decode_object X a name = Inr h \<Longrightarrow> h_algorithm h = a \<and> length name = 64 \<and> list_all is_lower_hex name"
  by (auto simp: decode_object_def hash_from_bytes_def split: if_splits)

lemma decode_objects_inv:
  assumes "decode_objects X a objs raw = Inr objs'" "hm_wf objs"
    and "list_all (\<lambda>(h, b). h_algorithm h = a) objs"
  shows "hm_wf objs' \<and> list_all (\<lambda>(h, b). h_algorithm h = a) objs'"
  using assms
proof (induction raw arbitrary: objs)
  case (Cons q raw)
  obtain name bytes where q: "q = (name, bytes)" by (cases q)
  with Cons.prems(1) obtain h where h: "decode_object X a name = Inr h"
    "decode_objects X a (hm_insert h bytes objs) raw = Inr objs'" by auto
  have "list_all (\<lambda>(h, b). h_algorithm h = a) (hm_insert h bytes objs)"
    using Cons.prems(3) decode_object_InrD [OF h(1)] by (induction objs) auto
  with Cons.IH [OF h(2)] Cons.prems(2) show ?case by simp
qed simp

section \<open>Writing and reading back\<close>

definition as_item :: "string \<times> byte list \<Rightarrow> io_error + tar_entry" where
  "as_item q = Inr \<lparr>te_is_file = True, te_is_dir = False, te_type_text = ''Regular'',
                    te_path = Inr (fst q), te_payload = Inr (snd q)\<rparr>"

lemma btree_insert_set:
  "k \<notin> fst ` set ps \<Longrightarrow> set (btree_insert k v ps) = insert (k, v) (set ps)"
  by (induction ps) auto

lemma btree_insert_distinct:
  assumes "k \<notin> fst ` set ps" "distinct (map fst ps)"
  shows "distinct (map fst (btree_insert k v ps))"
  using assms
proof (induction ps)
  case (Cons p ps)
  then show ?case using btree_insert_set [of k ps v] by auto
qed simp

lemma fold_btree_insert:
  assumes "distinct (map f objs)" "distinct (map fst ps)" "fst ` set ps \<inter> f ` set objs = {}"
  shows "set (fold (\<lambda>p. btree_insert (f p) p) objs ps) = set ps \<union> (\<lambda>p. (f p, p)) ` set objs \<and>
         distinct (map fst (fold (\<lambda>p. btree_insert (f p) p) objs ps))"
  using assms
proof (induction objs arbitrary: ps)
  case (Cons p objs)
  have k: "f p \<notin> fst ` set ps" using Cons.prems(3) by auto
  have "fst ` set (btree_insert (f p) p ps) \<inter> f ` set objs = {}"
    using Cons.prems(1,3) by (auto simp: btree_insert_set [OF k])
  with Cons.IH [OF _ btree_insert_distinct [OF k Cons.prems(2)]] Cons.prems(1) show ?case
    by (auto simp: btree_insert_set [OF k])
qed simp

lemma sorted_objects_set:
  assumes "hash_ext_ok X" "hm_wf objs" "list_all (\<lambda>(h, b). h_algorithm h = a) objs"
  shows "set (sorted_objects X objs) = (\<lambda>(h, b). (to_hex X h, h, b)) ` set objs"
    and "distinct (map fst (sorted_objects X objs))"
proof -
  let ?f = "\<lambda>p. to_hex X (fst p)"
  have "sorted_objects X objs = fold (\<lambda>p. btree_insert (?f p) p) objs []"
    by (simp add: sorted_objects_def case_prod_unfold)
  moreover have "distinct (map ?f objs)"
  proof -
    have "inj_on (to_hex X) (fst ` set objs)"
    proof (rule inj_onI)
      fix h h' assume "h \<in> fst ` set objs" "h' \<in> fst ` set objs" "to_hex X h = to_hex X h'"
      moreover have alg: "h_algorithm k = a" if "k \<in> fst ` set objs" for k
        using assms(3) that by (auto simp: list_all_iff)
      ultimately have "h_bytes h = h_bytes h'" "h_algorithm h = h_algorithm h'"
        by (simp_all add: to_hex_def hex_encode_inj [OF assms(1)])
      then show "h = h'" by (simp only: hash_eq_iff)
    qed
    then have "distinct (map (to_hex X) (map fst objs))"
      using assms(2) unfolding hm_wf_def by (subst distinct_map) simp
    then show ?thesis by (simp add: comp_def)
  qed
  ultimately show "set (sorted_objects X objs) = (\<lambda>(h, b). (to_hex X h, h, b)) ` set objs"
    "distinct (map fst (sorted_objects X objs))"
    using fold_btree_insert [of ?f objs "[]"] by (auto simp: case_prod_unfold)
qed

lemma fold_hm_insert:
  assumes "distinct (map fst ps)" "hm_wf m" "fst ` set m \<inter> fst ` set ps = {}"
  shows "hm_get (fold (\<lambda>(h, b). hm_insert h b) ps m) k =
           (case hm_get m k of None \<Rightarrow> map_of ps k | Some v \<Rightarrow> Some v)"
  using assms
proof (induction ps arbitrary: m)
  case Nil
  then show ?case by (auto split: option.splits)
next
  case (Cons q ps)
  obtain h b where q: "q = (h, b)" by (cases q)
  have "fst ` set (hm_insert h b m) \<inter> fst ` set ps = {}"
    using Cons.prems(1,3) hm_keys_insert [of h b m] by (auto simp: q)
  moreover have "hm_get m h = None"
    using Cons.prems(3) by (auto simp: q hm_get_def map_of_eq_None_iff)
  ultimately show ?case
    using Cons.IH [of "hm_insert h b m"] Cons.prems by (auto simp: q split: option.splits)
qed

lemma decode_objects_fold:
  assumes "\<And>x h b. (x, h, b) \<in> set l \<Longrightarrow> decode_object X a x = Inr h"
  shows "decode_objects X a m (map (\<lambda>(x, h, b). (x, b)) l) =
         Inr (fold (\<lambda>(h, b). hm_insert h b) (map snd l) m)"
  using assms by (induction l arbitrary: m) (auto, blast)

lemma lower_hex_not_sep:
  "list_all (\<lambda>c. c \<noteq> CHR ''/'' \<and> c \<noteq> CHR 0x5C \<and> c \<noteq> CHR ''o'') ''0123456789abcdef''"
  by code_simp

lemma lower_hex_path:
  assumes "list_all is_lower_hex s" "s \<noteq> []"
  shows "CHR ''/'' \<notin> set s" "path_to_unix (''objects/'' @ s) = ''objects/'' @ s"
    "trim_start_matches ''objects/'' (''objects/'' @ s) = s"
proof -
  have c: "c \<noteq> CHR ''/'' \<and> c \<noteq> CHR 0x5C \<and> c \<noteq> CHR ''o''" if "c \<in> set s" for c
    using assms(1) lower_hex_not_sep that unfolding list_all_iff is_lower_hex_def by blast
  then show "CHR ''/'' \<notin> set s" by blast
  have "map (\<lambda>c. if c = CHR 0x5C then CHR ''/'' else c) s = s"
    using c by (intro map_idI) auto
  then show "path_to_unix (''objects/'' @ s) = ''objects/'' @ s" by (simp add: path_to_unix_def)
  have "\<not> starts_with ''objects/'' s"
    using assms(2) c by (cases s) auto
  then show "trim_start_matches ''objects/'' (''objects/'' @ s) = s"
    by (subst trim_start_matches.simps, subst trim_start_matches.simps) simp
qed

definition object_entry :: "string \<times> byte list \<Rightarrow> string \<times> byte list" where
  "object_entry q = (''objects/'' @ fst q, snd q)"

lemma append_object_Inr:
  "append_bytes X es (''objects/'' @ object_filename X h) b = Inr es' \<Longrightarrow>
   es' = es @ [object_entry (to_hex X h, b)]"
  by (simp add: append_bytes_def object_filename_def object_entry_def split: option.splits)

lemma append_objects_Inr:
  "append_objects X es objs = Inr es' \<Longrightarrow>
   es' = es @ map (\<lambda>(x, h, b). object_entry (to_hex X h, b)) objs"
proof (induction objs arbitrary: es)
  case (Cons q objs)
  obtain x h b where q: "q = (x, h, b)" by (cases q)
  with Cons.prems obtain es1 where
    "append_bytes X es (''objects/'' @ object_filename X h) b = Inr es1"
    "append_objects X es1 objs = Inr es'"
    unfolding append_objects.simps q res_bind_Inr_iff by blast
  with Cons.IH [OF this(2)] append_object_Inr [OF this(1)] show ?case by (simp add: q)
qed simp

lemma write_bundle_InrD:
  assumes "write_bundle X m events objects opts = Inr es"
  obtains mb eb where "to_canonical_json_bytes X m = Inr mb" "write_events X events = Inr eb"
    "es = (''manifest.json'', mb) # (''events.bin'', eb) #
       map (\<lambda>(x, h, b). object_entry (to_hex X h, b)) (sorted_objects X objects)"
  using assms that
  by (auto simp: write_bundle_def append_bytes_def split: option.splits dest!: append_objects_Inr)

text \<open>Scanning object files under distinct hexadecimal names.\<close>

lemma scan_object_items:
  assumes "list_all (\<lambda>(x, b). list_all is_lower_hex x \<and> x \<noteq> []) l"
    and "distinct (map fst l)" "set (map fst l) \<inter> set (sc_seen st) = {}"
  shows "\<exists>st'. scan_entries opts limit st (map as_item (map object_entry l)) = Inr st' \<and>
      sc_manifest st' = sc_manifest st \<and> sc_events st' = sc_events st \<and>
      sc_objects st' = sc_objects st @ l"
  using assms
proof (induction l arbitrary: st)
  case (Cons q l)
  obtain x b where q: "q = (x, b)" by (cases q)
  let ?st = "st\<lparr>sc_seen := x # sc_seen st, sc_objects := sc_objects st @ [(x, b)]\<rparr>"
  have x: "list_all is_lower_hex x" "x \<noteq> []" using Cons.prems(1) q by auto
  have "scan_entry opts limit st (as_item (object_entry (x, b))) = Inr ?st"
    using Cons.prems(3) lower_hex_path [OF x] x
    by (simp add: scan_entry_def as_item_def scan_file_def object_entry_def q)
  moreover have "\<exists>st'. scan_entries opts limit ?st (map as_item (map object_entry l)) =
      Inr st' \<and> sc_manifest st' = sc_manifest ?st \<and> sc_events st' = sc_events ?st \<and>
      sc_objects st' = sc_objects ?st @ l"
    using Cons.prems q by (intro Cons.IH) auto
  ultimately show ?case by (auto simp: q)
qed simp

lemma decode_object_to_hex:
  assumes "hash_ext_ok X" "hash_wf h" "h_algorithm h = a"
  shows "decode_object X a (to_hex X h) = Inr h" "list_all is_lower_hex (to_hex X h)" "to_hex X h \<noteq> []"
proof -
  have "length (to_hex X h) = 64" "list_all is_lower_hex (to_hex X h)"
    using assms(1,2) by (simp_all add: hash_ext_ok_def to_hex_def hash_wf_def SHA256_LEN_def)
  then show "decode_object X a (to_hex X h) = Inr h" "list_all is_lower_hex (to_hex X h)"
    "to_hex X h \<noteq> []"
    using assms by (auto simp: decode_object_def to_hex_def hash_from_bytes_def hash_eq_iff)
qed

lemma sorted_objects_keys:
  assumes "hash_ext_ok X" "hm_wf objs" "list_all (\<lambda>(h, b). h_algorithm h = a) objs"
  shows "distinct (map fst (map snd (sorted_objects X objs)))"
    and "map_of (map snd (sorted_objects X objs)) = map_of objs"
proof -
  note so = sorted_objects_set [OF assms]
  have "x = to_hex X h" if "(x, h, b) \<in> set (sorted_objects X objs)" for x h b
    using that by (auto simp: so(1))
  then have "map (to_hex X) (map fst (map snd (sorted_objects X objs))) = map fst (sorted_objects X objs)"
    by (auto simp: case_prod_unfold)
  with so(2) have "distinct (map (to_hex X) (map fst (map snd (sorted_objects X objs))))"
    by (simp only:)
  then show dist: "distinct (map fst (map snd (sorted_objects X objs)))"
    by (simp only: distinct_map [of "to_hex X"])
  have "set (map snd (sorted_objects X objs)) = set objs"
    by (simp add: so(1) image_image case_prod_unfold)
  then show "map_of (map snd (sorted_objects X objs)) = map_of objs"
    using map_of_inject_set [OF dist assms(2) [unfolded hm_wf_def]] by blast
qed

lemma scan_entries_append:
  "scan_entries opts limit st (as @ bs) =
     res_bind (scan_entries opts limit st as) (\<lambda>st'. scan_entries opts limit st' bs)"
proof (induction as arbitrary: st)
  case (Cons i "is")
  then show ?case by (cases "scan_entry opts limit st i") simp_all
qed simp

theorem read_write_bundle:
  assumes X: "hash_ext_ok X" "frame_codec_ok X"
    and m: "\<And>mb. to_canonical_json_bytes X m = Inr mb \<Longrightarrow> manifest_from_json_bytes X mb = Inr m"
      "validate_agef_version m AGEF_SPEC_VERSION = Inr ()" "mf_hash_algorithm m = hash_algorithm_to_string a"
    and ev: "list_all (event_storable X a) events"
      "\<forall>e \<in> set events. \<forall>frame. write_event X e = Inr frame \<longrightarrow>
         length frame \<le> unat (ro_max_event_frame_len ropts) + 4"
    and ob: "hm_wf objects" "list_all (\<lambda>(h, b). h_algorithm h = a \<and> hash_wf h) objects"
    and w: "write_bundle X m events objects wopts = Inr es"
  shows "\<exists>c. read_bundle_limited X ropts limit (Inr (Inr (map as_item es))) = Inr c \<and>
           bc_manifest c = m \<and> bc_events c = map (truncate_event X) events \<and>
           hm_get (bc_objects c) = hm_get objects \<and> hm_wf (bc_objects c)"
proof -
  let ?so = "sorted_objects X objects"
  let ?l = "map (\<lambda>(x, h, b). (x, b)) ?so"
  from write_bundle_InrD [OF w] obtain mb eb where mb: "to_canonical_json_bytes X m = Inr mb"
    and eb: "write_events X events = Inr eb"
    and es: "es = (''manifest.json'', mb) # (''events.bin'', eb) #
      map (\<lambda>(x, h, b). object_entry (to_hex X h, b)) ?so" by blast
  have alg: "list_all (\<lambda>(h, b). h_algorithm h = a) objects" using ob(2) by (auto simp: list_all_iff)
  note so = sorted_objects_set [OF X(1) ob(1) alg]
  have hs: "x = to_hex X h \<and> hash_wf h \<and> h_algorithm h = a \<and> (h, b) \<in> set objects"
    if "(x, h, b) \<in> set ?so" for x h b
    using that ob(2) by (auto simp: so list_all_iff)
  then have es': "es = [(''manifest.json'', mb), (''events.bin'', eb)] @ map object_entry ?l"
    unfolding es by (auto simp: case_prod_unfold)
  let ?st = "\<lparr>sc_manifest = Some mb, sc_events = Some eb, sc_objects = [], sc_seen = []\<rparr>"
  have first: "scan_entries opts limit scan_empty (map as_item [(''manifest.json'', mb), (''events.bin'', eb)])
      = Inr ?st" for opts
    by (simp add: scan_entry_def as_item_def scan_file_def scan_empty_def path_to_unix_def)
  have names: "list_all (\<lambda>(x, b). list_all is_lower_hex x \<and> x \<noteq> []) ?l"
    using hs decode_object_to_hex [OF X(1)] by (fastforce simp: list_all_iff)
  have "distinct (map fst ?l)" using so(2) by (simp add: case_prod_unfold comp_def)
  with names obtain st where st: "scan_entries ropts limit ?st (map as_item (map object_entry ?l)) = Inr st"
    "sc_manifest st = Some mb" "sc_events st = Some eb" "sc_objects st = ?l"
    using scan_object_items [of ?l ?st ropts limit] by auto
  have scan: "scan_entries ropts limit scan_empty (map as_item es) = Inr st"
    unfolding es' map_append scan_entries_append first res_bind.simps by (rule st(1))
  let ?objs = "fold (\<lambda>(h, b). hm_insert h b) (map snd ?so) []"
  have dec: "decode_objects X a [] ?l = Inr ?objs"
    using hs decode_object_to_hex [OF X(1)] by (intro decode_objects_fold) blast
  have evs: "read_events X a (ro_max_event_frame_len ropts) eb = Inr (map (truncate_event X) events)"
    by (rule read_write_events [OF X(2) ev(1) eb ev(2)])
  let ?c = "\<lparr>bc_manifest = m, bc_events = map (truncate_event X) events, bc_objects = ?objs\<rparr>"
  have rd: "read_bundle_limited X ropts limit (Inr (Inr (map as_item es))) = Inr ?c"
    by (simp add: read_bundle_limited_def scan assemble_bundle_def st m mb dec evs)
  note keys = sorted_objects_keys [OF X(1) ob(1) alg]
  have get: "hm_get ?objs = hm_get objects"
    using fold_hm_insert [OF keys(1), of "[]"] keys(2) by (auto simp: hm_wf_def hm_get_def fun_eq_iff)
  have "hm_wf ?objs" using decode_objects_inv [OF dec] by (simp add: hm_wf_def)
  with rd get show ?thesis by auto
qed

end
