(* ===== verification/Signing.thy ===== *)
theory Signing
  imports Bundle_Archive
begin

text \<open>
  \<open>akmon-bundle/src/signing.rs\<close> and \<open>spki.rs\<close>: the canonical statements a head signature and an
  operator attestation cover, the checks of the manifest's entries against trusted keys, and the
  SPKI encoding of a public key. Ed25519 and its key format (crate \<open>ring\<close>) are parameters.
\<close>

unbundle bit_operations_syntax

section \<open>Errors and parameters\<close>

datatype signing_error =
    InvalidPrivateKey
  | InvalidPublicKey nat
  | MalformedPublicKeyHex
  | KeyGeneration
  | VerificationFailed
  | IllegalOperatorField

text \<open>\<open>x_ed_generate\<close> is given the state of the random source.\<close>

record ed_ext = archive_ext +
  x_ed_generate :: "nat \<Rightarrow> byte list option"
  x_ed_public :: "byte list \<Rightarrow> byte list option"
  x_ed_sign :: "byte list \<Rightarrow> byte list \<Rightarrow> byte list"
  x_ed_verify :: "byte list \<Rightarrow> byte list \<Rightarrow> byte list \<Rightarrow> bool"

definition SIG_STATEMENT_VERSION :: string where
  "SIG_STATEMENT_VERSION = ''AGEF-SIG-v1''"

definition OPERATOR_STATEMENT_VERSION :: string where
  "OPERATOR_STATEMENT_VERSION = ''AGEF-OPERATOR-v1''"

definition SCHEME_ED25519 :: string where
  "SCHEME_ED25519 = ''ed25519''"

definition ED25519_PUBLIC_KEY_LEN :: nat where
  "ED25519_PUBLIC_KEY_LEN = 32"

section \<open>Statements\<close>

definition signing_statement :: "string \<Rightarrow> string \<Rightarrow> string \<Rightarrow> string \<Rightarrow> string" where
  "signing_statement agef_version hash_algorithm session_id head_hex =
     SIG_STATEMENT_VERSION @ [LF]
     @ ''agef_version:'' @ agef_version @ [LF]
     @ ''hash_algorithm:'' @ hash_algorithm @ [LF]
     @ ''session_id:'' @ session_id @ [LF]
     @ ''head:'' @ head_hex @ [LF]"

record operator_identity =
  oi_operator_id :: string
  oi_display_name :: string
  oi_role :: string
  oi_org :: string

definition operator_statement ::
    "string \<Rightarrow> string \<Rightarrow> string \<Rightarrow> string \<Rightarrow> string \<Rightarrow> string \<Rightarrow> string \<Rightarrow> string \<Rightarrow> string" where
  "operator_statement agef_version hash_algorithm session_id head_hex operator_id display_name role org =
     OPERATOR_STATEMENT_VERSION @ [LF]
     @ ''agef_version:'' @ agef_version @ [LF]
     @ ''hash_algorithm:'' @ hash_algorithm @ [LF]
     @ ''session_id:'' @ session_id @ [LF]
     @ ''head:'' @ head_hex @ [LF]
     @ ''operator_id:'' @ operator_id @ [LF]
     @ ''display_name:'' @ display_name @ [LF]
     @ ''role:'' @ role @ [LF]
     @ ''org:'' @ org @ [LF]"

definition manifest_statement :: "manifest \<Rightarrow> string" where
  "manifest_statement m =
     signing_statement (mf_agef_version m) (mf_hash_algorithm m) (sm_id (mf_session m)) (sm_head (mf_session m))"

section \<open>Keys\<close>

definition generate_pkcs8 :: "'x ed_ext_scheme \<Rightarrow> nat \<Rightarrow> signing_error + byte list" where
  "generate_pkcs8 X rng = ok_or KeyGeneration (x_ed_generate X rng)"

definition public_key_from_pkcs8 :: "'x ed_ext_scheme \<Rightarrow> byte list \<Rightarrow> signing_error + byte list" where
  "public_key_from_pkcs8 X pkcs8 = ok_or InvalidPrivateKey (x_ed_public X pkcs8)"

definition sign_statement ::
    "'x ed_ext_scheme \<Rightarrow> byte list \<Rightarrow> byte list \<Rightarrow> signing_error + byte list" where
  "sign_statement X statement pkcs8 =
     res_bind (public_key_from_pkcs8 X pkcs8) (\<lambda>_. Inr (x_ed_sign X pkcs8 statement))"

definition verify_statement ::
    "'x ed_ext_scheme \<Rightarrow> byte list \<Rightarrow> byte list \<Rightarrow> byte list \<Rightarrow> signing_error + unit" where
  "verify_statement X statement signature public_key =
     (if length public_key \<noteq> ED25519_PUBLIC_KEY_LEN then Inl (InvalidPublicKey (length public_key))
      else if x_ed_verify X public_key statement signature then Inr ()
      else Inl VerificationFailed)"

definition key_id :: "'x ed_ext_scheme \<Rightarrow> byte list \<Rightarrow> string" where
  "key_id X public_key = x_hex_encode X (x_sha256 X public_key)"

definition parse_public_key_hex :: "'x ed_ext_scheme \<Rightarrow> string \<Rightarrow> signing_error + byte list" where
  "parse_public_key_hex X s =
     (case x_hex_decode X (trim_ws s) of
        Inl _ \<Rightarrow> Inl MalformedPublicKeyHex
      | Inr bytes \<Rightarrow>
          (if length bytes \<noteq> ED25519_PUBLIC_KEY_LEN then Inl (InvalidPublicKey (length bytes)) else Inr bytes))"

section \<open>Head signatures\<close>

datatype signature_outcome = SigVerified | SigInvalid | SigUnverifiedNoKey | SigUnsupportedScheme | SigMalformed

record signature_check =
  sgc_key_id :: string
  sgc_scheme :: string
  sgc_outcome :: signature_outcome

type_synonym signature_checks = "signature_check list"

definition is_unsigned :: "signature_checks \<Rightarrow> bool" where
  "is_unsigned r \<longleftrightarrow> r = []"

definition sig_any_verified :: "signature_checks \<Rightarrow> bool" where
  "sig_any_verified r \<longleftrightarrow> list_ex (\<lambda>c. sgc_outcome c = SigVerified) r"

definition sig_any_invalid :: "signature_checks \<Rightarrow> bool" where
  "sig_any_invalid r \<longleftrightarrow> list_ex (\<lambda>c. sgc_outcome c = SigInvalid) r"

definition check_signature_entry ::
    "'x ed_ext_scheme \<Rightarrow> manifest_signature \<Rightarrow> byte list \<Rightarrow> byte list list \<Rightarrow> signature_check" where
  "check_signature_entry X sig statement trusted_keys =
     (let with_outcome = (\<lambda>q. \<lparr>sgc_key_id = msig_key_id sig, sgc_scheme = msig_scheme sig, sgc_outcome = q\<rparr>) in
      if msig_scheme sig \<noteq> SCHEME_ED25519 then with_outcome SigUnsupportedScheme
      else if msig_statement_version sig \<noteq> SIG_STATEMENT_VERSION then with_outcome SigMalformed
      else case x_hex_decode X (msig_signature sig) of
        Inl _ \<Rightarrow> with_outcome SigMalformed
      | Inr sig_bytes \<Rightarrow>
          (if list_ex (\<lambda>k. is_ok (verify_statement X statement sig_bytes k)) trusted_keys
           then with_outcome SigVerified
           else if list_ex (\<lambda>k. key_id X k = msig_key_id sig) trusted_keys then with_outcome SigInvalid
           else with_outcome SigUnverifiedNoKey))"

definition verify_manifest_signatures ::
    "'x ed_ext_scheme \<Rightarrow> manifest \<Rightarrow> byte list list \<Rightarrow> signature_checks" where
  "verify_manifest_signatures X m trusted_keys =
     (case mf_signatures m of
        None \<Rightarrow> []
      | Some sigs \<Rightarrow>
          map (\<lambda>sig. check_signature_entry X sig (as_bytes (manifest_statement m)) trusted_keys) sigs)"

section \<open>Operator attestations\<close>

definition validate_operator_field :: "string \<Rightarrow> signing_error + unit" where
  "validate_operator_field v =
     (if LF \<in> set v \<or> CHR 0x0D \<in> set v then Inl IllegalOperatorField else Inr ())"

definition identity_statement :: "manifest \<Rightarrow> operator_identity \<Rightarrow> string" where
  "identity_statement m i =
     operator_statement (mf_agef_version m) (mf_hash_algorithm m) (sm_id (mf_session m))
       (sm_head (mf_session m)) (oi_operator_id i) (oi_display_name i) (oi_role i) (oi_org i)"

definition build_operator_attestation ::
    "'x ed_ext_scheme \<Rightarrow> manifest \<Rightarrow> operator_identity \<Rightarrow> byte list \<Rightarrow> string
     \<Rightarrow> signing_error + operator_attestation" where
  "build_operator_attestation X m i pkcs8 created_at =
     (if oi_operator_id i = [] then Inl IllegalOperatorField
      else
        res_bind (validate_operator_field (oi_operator_id i)) (\<lambda>_.
        res_bind (validate_operator_field (oi_display_name i)) (\<lambda>_.
        res_bind (validate_operator_field (oi_role i)) (\<lambda>_.
        res_bind (validate_operator_field (oi_org i)) (\<lambda>_.
        res_bind (public_key_from_pkcs8 X pkcs8) (\<lambda>public_key.
        res_bind (sign_statement X (as_bytes (identity_statement m i)) pkcs8) (\<lambda>signature.
        Inr \<lparr>oa_scheme = SCHEME_ED25519, oa_key_id = key_id X public_key,
             oa_statement_version = OPERATOR_STATEMENT_VERSION,
             oa_operator_id = oi_operator_id i, oa_display_name = oi_display_name i,
             oa_role = oi_role i, oa_org = oi_org i,
             oa_signature = x_hex_encode X signature, oa_created_at = created_at\<rparr>)))))))"

datatype operator_outcome = OpVerified | OpInvalid | OpUnverifiedNoKey | OpUnsupportedScheme | OpMalformed

record operator_check =
  opc_key_id :: string
  opc_scheme :: string
  opc_operator_id :: string
  opc_display_name :: string
  opc_role :: string
  opc_org :: string
  opc_created_at :: string
  opc_outcome :: operator_outcome

type_synonym operator_checks = "operator_check list"

definition is_unattributed :: "operator_checks \<Rightarrow> bool" where
  "is_unattributed r \<longleftrightarrow> r = []"

definition op_any_verified :: "operator_checks \<Rightarrow> bool" where
  "op_any_verified r \<longleftrightarrow> list_ex (\<lambda>c. opc_outcome c = OpVerified) r"

definition op_any_invalid :: "operator_checks \<Rightarrow> bool" where
  "op_any_invalid r \<longleftrightarrow> list_ex (\<lambda>c. opc_outcome c = OpInvalid) r"

definition entry_identity :: "operator_attestation \<Rightarrow> operator_identity" where
  "entry_identity att =
     \<lparr>oi_operator_id = oa_operator_id att, oi_display_name = oa_display_name att,
      oi_role = oa_role att, oi_org = oa_org att\<rparr>"

definition check_operator_entry ::
    "'x ed_ext_scheme \<Rightarrow> operator_attestation \<Rightarrow> manifest \<Rightarrow> byte list list \<Rightarrow> operator_check" where
  "check_operator_entry X att m trusted_keys =
     (let with_outcome = (\<lambda>q. \<lparr>opc_key_id = oa_key_id att, opc_scheme = oa_scheme att,
            opc_operator_id = oa_operator_id att, opc_display_name = oa_display_name att,
            opc_role = oa_role att, opc_org = oa_org att, opc_created_at = oa_created_at att,
            opc_outcome = q\<rparr>) in
      if oa_scheme att \<noteq> SCHEME_ED25519 then with_outcome OpUnsupportedScheme
      else if oa_statement_version att \<noteq> OPERATOR_STATEMENT_VERSION then with_outcome OpMalformed
      else if \<not> is_ok (validate_operator_field (oa_operator_id att))
           \<or> \<not> is_ok (validate_operator_field (oa_display_name att))
           \<or> \<not> is_ok (validate_operator_field (oa_role att))
           \<or> \<not> is_ok (validate_operator_field (oa_org att))
      then with_outcome OpMalformed
      else case x_hex_decode X (oa_signature att) of
        Inl _ \<Rightarrow> with_outcome OpMalformed
      | Inr sig_bytes \<Rightarrow>
          (let statement = as_bytes (identity_statement m (entry_identity att)) in
           if list_ex (\<lambda>k. is_ok (verify_statement X statement sig_bytes k)) trusted_keys
           then with_outcome OpVerified
           else if list_ex (\<lambda>k. key_id X k = oa_key_id att) trusted_keys then with_outcome OpInvalid
           else with_outcome OpUnverifiedNoKey))"

definition verify_operator_attestations ::
    "'x ed_ext_scheme \<Rightarrow> manifest \<Rightarrow> byte list list \<Rightarrow> operator_checks" where
  "verify_operator_attestations X m trusted_keys =
     (case mf_operator_attestations m of
        None \<Rightarrow> []
      | Some atts \<Rightarrow> map (\<lambda>att. check_operator_entry X att m trusted_keys) atts)"

section \<open>SubjectPublicKeyInfo\<close>

definition ED25519_SPKI_DER_LEN :: nat where
  "ED25519_SPKI_DER_LEN = 44"

definition ED25519_SPKI_PREFIX :: "byte list" where
  "ED25519_SPKI_PREFIX = [0x30, 0x2a, 0x30, 0x05, 0x06, 0x03, 0x2b, 0x65, 0x70, 0x03, 0x21, 0x00]"

definition ed25519_spki_der :: "byte list \<Rightarrow> signing_error + byte list" where
  "ed25519_spki_der public_key =
     (if length public_key \<noteq> ED25519_PUBLIC_KEY_LEN then Inl (InvalidPublicKey (length public_key))
      else Inr (ED25519_SPKI_PREFIX @ public_key))"

definition ALPHABET :: string where
  "ALPHABET = ''ABCDEFGHIJKLMNOPQRSTUVWXYZabcdefghijklmnopqrstuvwxyz0123456789+/''"

definition b64_char :: "u32 \<Rightarrow> char" where
  "b64_char w = ALPHABET ! unat (w AND 0x3f)"

definition b64_word :: "byte \<Rightarrow> byte \<Rightarrow> byte \<Rightarrow> u32" where
  "b64_word b0 b1 b2 = push_bit 16 (ucast b0) OR push_bit 8 (ucast b1) OR ucast b2"

text \<open>One group of \<open>chunks(3)\<close>; absent bytes are 0 and their characters the padding.\<close>

definition b64_chunk :: "byte list \<Rightarrow> string" where
  "b64_chunk ch =
     (let b0 = ch ! 0;
          b1 = (if 1 < length ch then ch ! 1 else 0);
          b2 = (if 2 < length ch then ch ! 2 else 0);
          n = b64_word b0 b1 b2 in
      [b64_char (drop_bit 18 n), b64_char (drop_bit 12 n),
       if length ch > 1 then b64_char (drop_bit 6 n) else CHR ''='',
       if length ch > 2 then b64_char n else CHR ''=''])"

function base64_encode :: "byte list \<Rightarrow> string" where
  "base64_encode input =
     (if input = [] then [] else b64_chunk (take 3 input) @ base64_encode (drop 3 input))"
  by pat_completeness auto
termination
  by (relation "measure length") auto

declare base64_encode.simps [simp del]

definition ed25519_spki_pem :: "byte list \<Rightarrow> signing_error + string" where
  "ed25519_spki_pem public_key =
     res_bind (ed25519_spki_der public_key) (\<lambda>der.
       Inr (''-----BEGIN PUBLIC KEY-----'' @ [LF] @ base64_encode der @ [LF]
            @ ''-----END PUBLIC KEY-----'' @ [LF]))"

section \<open>Statements determine what they say\<close>

text \<open>A field followed by a line feed can be read off the front, when it has no line feed itself.\<close>

lemma lf_field:
  assumes "LF \<notin> set s" "LF \<notin> set s'"
  shows "s @ LF # r = s' @ LF # r' \<longleftrightarrow> s = s' \<and> r = r'"
  using assms
proof (induction s arbitrary: s')
  case Nil
  then show ?case by (cases s') auto
next
  case (Cons c s)
  then show ?case by (cases s') auto
qed

definition one_line :: "string \<Rightarrow> bool" where
  "one_line s \<longleftrightarrow> LF \<notin> set s"

lemma signing_statement_inj:
  assumes "list_all one_line [v, a, i, h]" "list_all one_line [v', a', i', h']"
  shows "signing_statement v a i h = signing_statement v' a' i' h' \<longleftrightarrow>
         v = v' \<and> a = a' \<and> i = i' \<and> h = h'"
  using assms by (simp add: signing_statement_def one_line_def lf_field)

lemma operator_statement_inj:
  assumes "list_all one_line [v, a, i, h, p, d, r, g]" "list_all one_line [v', a', i', h', p', d', r', g']"
  shows "operator_statement v a i h p d r g = operator_statement v' a' i' h' p' d' r' g' \<longleftrightarrow>
         v = v' \<and> a = a' \<and> i = i' \<and> h = h' \<and> p = p' \<and> d = d' \<and> r = r' \<and> g = g'"
  using assms by (simp add: operator_statement_def one_line_def lf_field)

text \<open>Domain separation: no statement of one kind is a statement of the other, whatever the fields.\<close>

lemma statements_disjoint:
  "signing_statement v a i h \<noteq> operator_statement v' a' i' h' p d r g"
  by (simp add: signing_statement_def operator_statement_def SIG_STATEMENT_VERSION_def
      OPERATOR_STATEMENT_VERSION_def)

lemma validate_operator_field_one_line:
  "validate_operator_field v = Inr () \<Longrightarrow> one_line v"
  by (simp add: validate_operator_field_def one_line_def split: if_splits)

section \<open>What a verified entry means\<close>

definition key_verifies :: "'x ed_ext_scheme \<Rightarrow> string \<Rightarrow> byte list \<Rightarrow> byte list \<Rightarrow> bool" where
  "key_verifies X statement sig k \<longleftrightarrow>
     length k = ED25519_PUBLIC_KEY_LEN \<and> x_ed_verify X k (as_bytes statement) sig"

lemma verify_statement_ok:
  "is_ok (verify_statement X (as_bytes t) sig k) \<longleftrightarrow> key_verifies X t sig k"
  by (simp add: verify_statement_def key_verifies_def)

lemma check_signature_verified_iff:
  "sgc_outcome (check_signature_entry X sig (as_bytes t) keys) = SigVerified \<longleftrightarrow>
     msig_scheme sig = SCHEME_ED25519 \<and> msig_statement_version sig = SIG_STATEMENT_VERSION \<and>
     (\<exists>b k. x_hex_decode X (msig_signature sig) = Inr b \<and> k \<in> set keys \<and> key_verifies X t b k)"
  by (auto simp: check_signature_entry_def Let_def list_ex_iff verify_statement_ok split: sum.splits)

lemma check_operator_verified_iff:
  "opc_outcome (check_operator_entry X att m keys) = OpVerified \<longleftrightarrow>
     oa_scheme att = SCHEME_ED25519 \<and> oa_statement_version att = OPERATOR_STATEMENT_VERSION \<and>
     list_all (\<lambda>f. is_ok (validate_operator_field f))
       [oa_operator_id att, oa_display_name att, oa_role att, oa_org att] \<and>
     (\<exists>b k. x_hex_decode X (oa_signature att) = Inr b \<and> k \<in> set keys \<and>
        key_verifies X (identity_statement m (entry_identity att)) b k)"
  by (auto simp: check_operator_entry_def Let_def list_ex_iff verify_statement_ok split: sum.splits)

text \<open>Signing: a key pair verifies what it signed.\<close>

definition ed_ok :: "'x ed_ext_scheme \<Rightarrow> bool" where
  "ed_ok X \<longleftrightarrow>
     (\<forall>sk pk. x_ed_public X sk = Some pk \<longrightarrow>
        length pk = ED25519_PUBLIC_KEY_LEN \<and> (\<forall>msg. x_ed_verify X pk msg (x_ed_sign X sk msg)))"

lemma build_attestation_InrD:
  assumes "build_operator_attestation X m i sk t = Inr att"
  shows "entry_identity att = i" "oa_scheme att = SCHEME_ED25519"
    "oa_statement_version att = OPERATOR_STATEMENT_VERSION"
    "oa_signature att = x_hex_encode X (x_ed_sign X sk (as_bytes (identity_statement m i)))"
    "list_all (\<lambda>f. is_ok (validate_operator_field f))
       [oa_operator_id att, oa_display_name att, oa_role att, oa_org att]"
    "\<exists>pk. x_ed_public X sk = Some pk \<and> oa_key_id att = key_id X pk"
  using assms
  by (auto simp: build_operator_attestation_def sign_statement_def public_key_from_pkcs8_def
      entry_identity_def is_ok_iff split: if_splits)

lemma built_attestation_verifies:
  assumes "hash_ext_ok X" "ed_ok X"
    and "build_operator_attestation X m i sk t = Inr att" "x_ed_public X sk = Some pk" "pk \<in> set keys"
  shows "opc_outcome (check_operator_entry X att m keys) = OpVerified"
  unfolding check_operator_verified_iff build_attestation_InrD(1) [OF assms(3)]
  using build_attestation_InrD [OF assms(3)] assms
  by (auto simp: key_verifies_def ed_ok_def)

section \<open>Accepted manifests have one-line fields\<close>

definition uuid_text_ok :: "'x manifest_ext_scheme \<Rightarrow> bool" where
  "uuid_text_ok X \<longleftrightarrow> (\<forall>s c. x_uuid_canonical X s = Inr c \<longrightarrow> one_line c)"

lemma digit_not_lf: "is_ascii_digit c \<Longrightarrow> c \<noteq> LF"
  by (auto simp: is_ascii_digit_def LF_def)

lemma parse_u64_one_line: "parse_u64 s = Some w \<Longrightarrow> one_line s"
  by (auto simp: parse_u64_def Let_def one_line_def list_all_iff LF_def is_ascii_digit_def
      split: if_splits list.splits)

lemma parse_semver_one_line:
  assumes "parse_semver s = Some v"
  shows "one_line s"
proof -
  from assms obtain a b c where abc: "split_on CHR ''.'' s = [a, b, c]"
    "parse_u64 a \<noteq> None" "parse_u64 b \<noteq> None" "parse_u64 c \<noteq> None"
    by (auto simp: parse_semver_def split: list.splits option.splits)
  then have "one_line a" "one_line b" "one_line c" by (auto dest: parse_u64_one_line)
  with split_on_set [of s "CHR ''.''"] show ?thesis
    unfolding abc one_line_def by (auto simp: LF_def)
qed

lemma lower_hex_not_lf: "list_all (\<lambda>c. c \<noteq> LF) ''0123456789abcdef''"
  by code_simp

lemma lower_hex_one_line: "list_all is_lower_hex s \<Longrightarrow> one_line s"
  using lower_hex_not_lf unfolding one_line_def list_all_iff is_lower_hex_def by blast

lemma accepted_manifest_one_line:
  assumes "uuid_text_ok X" "manifest_from_json_bytes X b = Inr m" "validate_agef_version m v = Inr ()"
  shows "list_all one_line
    [mf_agef_version m, mf_hash_algorithm m, sm_id (mf_session m), sm_head (mf_session m)]"
proof -
  from assms(2) have va: "validate_session_id_format X m = Inr ()" "validate_head_format m = Inr ()"
    by (auto simp: manifest_from_json_bytes_def validate_all_def)
  then have "one_line (sm_id (mf_session m))"
    using assms(1) by (auto simp: validate_session_id_format_def uuid_text_ok_def Let_def
        split: sum.splits if_splits)
  moreover have "one_line (mf_agef_version m)"
  proof (cases "parse_semver (mf_agef_version m)")
    case None
    with assms(3) show ?thesis by (auto simp: validate_agef_version_def split: option.splits)
  next
    case (Some v)
    then show ?thesis by (rule parse_semver_one_line)
  qed
  moreover have "one_line (hash_algorithm_to_string a)" for a
    by (cases a) (auto simp: hash_algorithm_to_string_def one_line_def LF_def)
  ultimately show ?thesis
    using va(2) by (auto simp: validate_head_format_iff lower_hex_one_line)
qed

section \<open>Base64\<close>

lemma length_b64_chunk [simp]: "length (b64_chunk ch) = 4"
  by (simp add: b64_chunk_def Let_def)

lemma length_base64_encode: "length (base64_encode bs) = 4 * ((length bs + 2) div 3)"
proof (induction bs rule: base64_encode.induct)
  case (1 bs)
  show ?case
  proof (cases "bs = []")
    case True
    then show ?thesis by (simp add: base64_encode.simps)
  next
    case False
    then have "base64_encode bs = b64_chunk (take 3 bs) @ base64_encode (drop 3 bs)"
      by (simp add: base64_encode.simps [of bs])
    with 1 False show ?thesis by (cases "length bs \<le> 3") (auto simp: not_le div_if)
  qed
qed

lemma alphabet_distinct: "distinct ALPHABET" "length ALPHABET = 64"
  by code_simp+

lemma b64_char_inj: "b64_char v = b64_char w \<longleftrightarrow> v AND 0x3f = w AND 0x3f"
proof -
  have "unat (u AND 0x3f) < 64" for u :: u32
  proof -
    have "u AND 0x3f = take_bit 6 u" by (simp add: take_bit_eq_mask mask_eq_exp_minus_1)
    then have "unat (u AND 0x3f) = take_bit 6 (unat u)" by (simp only: unsigned_take_bit_eq)
    then show ?thesis using take_bit_nat_less_exp [of 6 "unat u"] by simp
  qed
  then have "b64_char v = b64_char w \<longleftrightarrow> unat (v AND 0x3f) = unat (w AND 0x3f)"
    using alphabet_distinct by (simp add: b64_char_def nth_eq_iff_index_eq)
  then show ?thesis by (metis unsigned_word_eqI)
qed

lemma sextet_bits:
  "drop_bit k v AND 0x3f = drop_bit k w AND 0x3f \<longleftrightarrow> (\<forall>i < 6. bit v (k + i) \<longleftrightarrow> bit w (k + i))"
  for v w :: u32
proof -
  have "(drop_bit k u AND 0x3f) = take_bit 6 (drop_bit k u)" for u :: u32
    by (simp add: take_bit_eq_mask mask_eq_exp_minus_1)
  moreover have "take_bit 6 (drop_bit k v) = take_bit 6 (drop_bit k w) \<longleftrightarrow>
      (\<forall>i < 6. bit v (k + i) \<longleftrightarrow> bit w (k + i))" (is "?l = ?r \<longleftrightarrow> ?P")
  proof
    assume eq: "?l = ?r"
    show ?P
    proof (intro allI impI)
      fix i :: nat assume "i < 6"
      moreover have "bit ?l i = bit ?r i" by (simp only: eq)
      ultimately show "bit v (k + i) \<longleftrightarrow> bit w (k + i)"
        by (simp add: bit_take_bit_iff bit_drop_bit_eq)
    qed
  next
    assume ?P
    then show "?l = ?r" by (intro bit_eqI) (auto simp: bit_take_bit_iff bit_drop_bit_eq)
  qed
  ultimately show ?thesis by metis
qed

text \<open>The bits of a group: each byte occupies its eight positions.\<close>

lemma bit_b64_word:
  assumes "i < 8"
  shows "bit (b64_word b0 b1 b2) i \<longleftrightarrow> bit b2 i"
    and "bit (b64_word b0 b1 b2) (i + 8) \<longleftrightarrow> bit b1 i"
    and "bit (b64_word b0 b1 b2) (i + 16) \<longleftrightarrow> bit b0 i"
  using assms bit_imp_le_length [of b0] bit_imp_le_length [of b1] bit_imp_le_length [of b2]
  by (fastforce simp: b64_word_def bit_or_iff bit_push_bit_iff bit_ucast_iff)+

lemma b64_word_inj:
  assumes "\<forall>i < 24. bit (b64_word b0 b1 b2) i \<longleftrightarrow> bit (b64_word c0 c1 c2) i"
  shows "b0 = c0 \<and> b1 = c1 \<and> b2 = c2"
proof (intro conjI)
  show "b0 = c0"
  proof (rule bit_word_eqI)
    fix n assume "n < LENGTH(8)"
    then have "n < 8" "n + 16 < 24" by simp_all
    with assms bit_b64_word(3) show "bit b0 n = bit c0 n" by blast
  qed
  show "b1 = c1"
  proof (rule bit_word_eqI)
    fix n assume "n < LENGTH(8)"
    then have "n < 8" "n + 8 < 24" by simp_all
    with assms bit_b64_word(2) show "bit b1 n = bit c1 n" by blast
  qed
  show "b2 = c2"
  proof (rule bit_word_eqI)
    fix n assume "n < LENGTH(8)"
    then have "n < 8" "n < 24" by simp_all
    with assms bit_b64_word(1) show "bit b2 n = bit c2 n" by blast
  qed
qed

lemma pad_not_in_alphabet: "CHR ''='' \<notin> set ALPHABET"
  by code_simp

lemma b64_char_not_pad: "b64_char w \<noteq> CHR ''=''"
proof -
  have "unat (w AND 0x3f) < length ALPHABET"
  proof -
    have "w AND 0x3f = take_bit 6 w" by (simp add: take_bit_eq_mask mask_eq_exp_minus_1)
    then have "unat (w AND 0x3f) = take_bit 6 (unat w)" by (simp only: unsigned_take_bit_eq)
    then show ?thesis using take_bit_nat_less_exp [of 6 "unat w"] by (simp add: alphabet_distinct)
  qed
  then show ?thesis unfolding b64_char_def using pad_not_in_alphabet nth_mem by metis
qed

lemma b64_char_bits:
  "b64_char (drop_bit k v) = b64_char (drop_bit k w) \<Longrightarrow> k \<le> i \<Longrightarrow> i < k + 6 \<Longrightarrow> bit v i = bit w i"
  unfolding b64_char_inj sextet_bits by (metis add_less_cancel_left le_iff_add)

lemma b64_word_zero_bits:
  "i < 8 \<Longrightarrow> \<not> bit (b64_word b0 b1 0) i"
  "i < 16 \<Longrightarrow> \<not> bit (b64_word b0 0 0) i"
  using bit_b64_word(1) [of i b0 b1 0] bit_b64_word(1) [of i b0 0 0] bit_b64_word(2) [of "i - 8" b0 0 0]
  by (cases "i < 8"; auto)+

lemma b64_chunk_cases:
  assumes "ch \<noteq> []" "length ch \<le> 3"
  obtains (one) b0 where "ch = [b0]" | (two) b0 b1 where "ch = [b0, b1]"
    | (three) b0 b1 b2 where "ch = [b0, b1, b2]"
  using assms by (auto simp: le_Suc_eq length_Suc_conv numeral_3_eq_3)

lemma b64_chunk_length:
  assumes "ch \<noteq> []" "length ch \<le> 3" "ch' \<noteq> []" "length ch' \<le> 3" "b64_chunk ch = b64_chunk ch'"
  shows "length ch = length ch'"
proof -
  have len: "(b64_chunk c ! 2 = CHR ''='' \<longleftrightarrow> length c = 1) \<and> (b64_chunk c ! 3 = CHR ''='' \<longleftrightarrow> length c \<le> 2)"
    if "c \<noteq> []" "length c \<le> 3" for c
    using that by (cases rule: b64_chunk_cases) (simp_all add: b64_chunk_def Let_def b64_char_not_pad)
  from len [of ch] len [of ch'] assms show ?thesis
    by (metis One_nat_def Suc_leI le_antisym length_greater_0_conv not_less_eq_eq numeral_2_eq_2 numeral_3_eq_3)
qed

lemma b64_chunk_inj:
  assumes "ch \<noteq> []" "length ch \<le> 3" "ch' \<noteq> []" "length ch' \<le> 3" "b64_chunk ch = b64_chunk ch'"
  shows "ch = ch'"
proof -
  have eq24: "b0 = c0 \<and> b1 = c1 \<and> b2 = c2"
    if "b64_char (drop_bit 18 (b64_word b0 b1 b2)) = b64_char (drop_bit 18 (b64_word c0 c1 c2))"
      "b64_char (drop_bit 12 (b64_word b0 b1 b2)) = b64_char (drop_bit 12 (b64_word c0 c1 c2))"
      "\<forall>i < 12. bit (b64_word b0 b1 b2) i = bit (b64_word c0 c1 c2) i" for b0 b1 b2 c0 c1 c2
  proof (rule b64_word_inj, intro allI impI)
    fix i :: nat assume "i < 24"
    then consider "i < 12" | "12 \<le> i" "i < 12 + 6" | "18 \<le> i" "i < 18 + 6" by linarith
    then show "bit (b64_word b0 b1 b2) i \<longleftrightarrow> bit (b64_word c0 c1 c2) i"
      using that b64_char_bits by cases blast+
  qed
  have low: "\<forall>i < 12. bit v i = bit w i"
    if "b64_char (drop_bit 6 v) = b64_char (drop_bit 6 w)" "\<forall>i < 6. bit v i = bit w i" for v w :: u32
  proof (intro allI impI)
    fix i :: nat assume "i < 12"
    then consider "i < 6" | "6 \<le> i" "i < 6 + 6" by linarith
    then show "bit v i = bit w i" using that b64_char_bits by cases blast+
  qed
  have low6: "\<forall>i < 6. bit v i = bit w i" if "b64_char v = b64_char w" for v w :: u32
    using b64_char_bits [of 0 v w] that by simp
  have len: "length ch' = length ch" by (rule b64_chunk_length [OF assms, symmetric])
  show ?thesis
    using assms(1,2)
  proof (cases rule: b64_chunk_cases)
    case (one b0)
    with len obtain c0 where c: "ch' = [c0]" by (auto simp: length_Suc_conv)
    have "\<forall>i < 12. bit (b64_word b0 0 0) i = bit (b64_word c0 0 0) i"
      using b64_word_zero_bits(2) by fastforce
    with assms(5) show ?thesis
      unfolding one c by (intro arg_cong [where f = "\<lambda>x. [x]"] eq24 [THEN conjunct1])
        (simp_all add: b64_chunk_def Let_def)
  next
    case (two b0 b1)
    with len obtain c0 c1 where c: "ch' = [c0, c1]" by (auto simp: length_Suc_conv)
    have e: "b64_char (drop_bit k (b64_word b0 b1 0)) = b64_char (drop_bit k (b64_word c0 c1 0))"
      if "k \<in> {18, 12, 6}" for k
      using assms(5) that unfolding two c by (auto simp: b64_chunk_def Let_def)
    have "\<forall>i < 6. bit (b64_word b0 b1 0) i = bit (b64_word c0 c1 0) i"
      using b64_word_zero_bits(1) by fastforce
    then have "\<forall>i < 12. bit (b64_word b0 b1 0) i = bit (b64_word c0 c1 0) i"
      using low e by blast
    with eq24 [of b0 b1 0 c0 c1 0] e [of 18] e [of 12] have "b0 = c0 \<and> b1 = c1" by blast
    then show ?thesis unfolding two c by blast
  next
    case (three b0 b1 b2)
    with len obtain c0 c1 c2 where c: "ch' = [c0, c1, c2]" by (auto simp: length_Suc_conv)
    have e: "b64_char (drop_bit k (b64_word b0 b1 b2)) = b64_char (drop_bit k (b64_word c0 c1 c2))"
      if "k \<in> {18, 12, 6, 0}" for k
      using assms(5) that unfolding three c by (auto simp: b64_chunk_def Let_def)
    have "\<forall>i < 6. bit (b64_word b0 b1 b2) i = bit (b64_word c0 c1 c2) i"
      by (rule low6) (use e [of 0] in simp)
    then have "\<forall>i < 12. bit (b64_word b0 b1 b2) i = bit (b64_word c0 c1 c2) i"
      using low e by blast
    with eq24 [of b0 b1 b2 c0 c1 c2] e [of 18] e [of 12] have "b0 = c0 \<and> b1 = c1 \<and> b2 = c2" by blast
    then show ?thesis unfolding three c by blast
  qed
qed

lemma base64_encode_inj: "base64_encode bs = base64_encode cs \<Longrightarrow> bs = cs"
proof (induction bs arbitrary: cs rule: base64_encode.induct)
  case (1 bs)
  show ?case
  proof (cases "bs = [] \<or> cs = []")
    case True
    moreover have "base64_encode ds = [] \<longleftrightarrow> ds = []" for ds
      by (subst base64_encode.simps) (auto simp: b64_chunk_def Let_def)
    ultimately show ?thesis using "1.prems" by metis
  next
    case False
    with "1.prems" have "b64_chunk (take 3 bs) = b64_chunk (take 3 cs)"
      "base64_encode (drop 3 bs) = base64_encode (drop 3 cs)"
      by (simp_all add: base64_encode.simps [of bs] base64_encode.simps [of cs])
    with 1 False b64_chunk_inj [of "take 3 bs" "take 3 cs"] have "take 3 bs = take 3 cs" "drop 3 bs = drop 3 cs"
      by auto
    then show ?thesis by (metis append_take_drop_id)
  qed
qed

lemma spki_pem_inj:
  "ed25519_spki_pem k = Inr p \<Longrightarrow> ed25519_spki_pem k' = Inr p \<Longrightarrow> k = k'"
  by (auto simp: ed25519_spki_pem_def ed25519_spki_der_def split: if_splits dest!: base64_encode_inj)

end
