(* ===== verification/Sentinel.thy ===== *)
theory Sentinel
  imports Signing
begin

text \<open>
  \<open>akmon-bundle/src/sentinel.rs\<close> and \<open>capture.rs\<close>: redaction sentinels stored in place of an
  object, and the capture level an imported session recorded in its configuration object. The CBOR
  and JSON codecs and the timestamp format are parameters.
\<close>

section \<open>Redaction sentinels\<close>

record sentinel_marker =
  sn_akmon_redacted :: bool
  sn_original_hash :: string
  sn_original_size :: u64
  sn_reason :: string
  sn_redacted_at :: string

datatype sentinel_parse_error =
    SpInvalidCbor string
  | SpInvalidShape string
  | SpInvalidOriginalHash string
  | SpInvalidTimestamp string

definition sentinel_error_to_string :: "sentinel_parse_error \<Rightarrow> string" where
  "sentinel_error_to_string e =
     (case e of
        SpInvalidCbor msg \<Rightarrow> ''invalid cbor: '' @ msg
      | SpInvalidShape msg \<Rightarrow> ''invalid sentinel shape: '' @ msg
      | SpInvalidOriginalHash msg \<Rightarrow> ''invalid original_hash: '' @ msg
      | SpInvalidTimestamp msg \<Rightarrow> ''invalid redacted_at: '' @ msg)"

text \<open>The constructors of \<open>ciborium::Value\<close> the parser distinguishes.\<close>

datatype cbor_value =
    CvMap "(cbor_value \<times> cbor_value) list"
  | CvText string
  | CvBool bool
  | CvOther "byte list"

record sentinel_ext = ed_ext +
  x_rfc3339_format :: "datetime \<Rightarrow> string option"
  x_sentinel_encode :: "sentinel_marker \<Rightarrow> string + byte list"
  x_sentinel_decode :: "byte list \<Rightarrow> string + sentinel_marker"
  x_value_encode :: "cbor_value \<Rightarrow> string + byte list"
  x_value_decode :: "byte list \<Rightarrow> string + cbor_value"
  x_json_decode :: "byte list \<Rightarrow> string + json"

definition sentinel_from_original ::
    "'x sentinel_ext_scheme \<Rightarrow> hash \<Rightarrow> u64 \<Rightarrow> string \<Rightarrow> datetime \<Rightarrow> sentinel_marker" where
  "sentinel_from_original X original_hash original_size reason redacted_at =
     (let ts = (case x_rfc3339_format X redacted_at of Some t \<Rightarrow> t | None \<Rightarrow> ''1970-01-01T00:00:00Z'') in
      \<lparr>sn_akmon_redacted = True, sn_original_hash = to_hex X original_hash,
       sn_original_size = original_size, sn_reason = reason, sn_redacted_at = ts\<rparr>)"

definition sentinel_to_canonical_cbor ::
    "'x sentinel_ext_scheme \<Rightarrow> sentinel_marker \<Rightarrow> sentinel_parse_error + byte list" where
  "sentinel_to_canonical_cbor X m = map_err SpInvalidCbor (x_sentinel_encode X m)"

definition validate_sentinel_marker ::
    "'x sentinel_ext_scheme \<Rightarrow> sentinel_marker \<Rightarrow> sentinel_parse_error + unit" where
  "validate_sentinel_marker X m =
     (if \<not> sn_akmon_redacted m then Inl (SpInvalidShape ''akmon_redacted must be true'')
      else
        res_bind (map_err SpInvalidOriginalHash (x_hex_decode X (trim_ws (sn_original_hash m)))) (\<lambda>digest.
        if length digest \<noteq> 32
        then Inl (SpInvalidOriginalHash (''expected 32 bytes, found '' @ show_nat (length digest)))
        else res_bind (map_err SpInvalidTimestamp (x_rfc3339_parse X (sn_redacted_at m))) (\<lambda>_. Inr ())))"

definition is_marker_key :: "cbor_value \<Rightarrow> bool" where
  "is_marker_key k \<longleftrightarrow> k = CvText ''akmon_redacted''"

definition try_parse_sentinel ::
    "'x sentinel_ext_scheme \<Rightarrow> byte list \<Rightarrow> sentinel_parse_error + sentinel_marker option" where
  "try_parse_sentinel X bytes =
     (case x_value_decode X bytes of
        Inr (CvMap m) \<Rightarrow>
          (if \<not> list_ex (\<lambda>(k, v). is_marker_key k) m then Inr None
           else
             res_bind (ok_or (SpInvalidShape ''missing akmon_redacted field'')
                        (map_option snd (find (\<lambda>(k, v). is_marker_key k) m))) (\<lambda>marker_value.
             res_bind
               (case marker_value of
                  CvBool b \<Rightarrow>
                    (if b then Inr () else Inl (SpInvalidShape ''akmon_redacted must be true''))
                | _ \<Rightarrow> Inl (SpInvalidShape ''akmon_redacted must be boolean'')) (\<lambda>_.
             res_bind (map_err SpInvalidCbor (x_value_encode X (CvMap m))) (\<lambda>canonical.
             if canonical \<noteq> bytes then Inl (SpInvalidCbor ''non-canonical cbor encoding'')
             else
               res_bind (map_err SpInvalidShape (x_sentinel_decode X bytes)) (\<lambda>marker.
               res_bind (validate_sentinel_marker X marker) (\<lambda>_. Inr (Some marker)))))))
      | _ \<Rightarrow> Inr None)"

definition is_sentinel :: "'x sentinel_ext_scheme \<Rightarrow> byte list \<Rightarrow> bool" where
  "is_sentinel X bytes \<longleftrightarrow> (case try_parse_sentinel X bytes of Inr (Some _) \<Rightarrow> True | _ \<Rightarrow> False)"

text \<open>What the codecs promise for a marker: its encoding decodes to it, both as a marker and as a
  map that carries the marker field and encodes to the same bytes.\<close>

definition sentinel_codec_ok :: "'x sentinel_ext_scheme \<Rightarrow> bool" where
  "sentinel_codec_ok X \<longleftrightarrow>
     (\<forall>m b. x_sentinel_encode X m = Inr b \<longrightarrow>
        x_sentinel_decode X b = Inr m \<and>
        (\<exists>kvs. x_value_decode X b = Inr (CvMap ((CvText ''akmon_redacted'', CvBool (sn_akmon_redacted m)) # kvs)) \<and>
           x_value_encode X (CvMap ((CvText ''akmon_redacted'', CvBool (sn_akmon_redacted m)) # kvs)) = Inr b)) \<and>
     (\<forall>t s. x_rfc3339_format X t = Some s \<longrightarrow> is_ok (x_rfc3339_parse X s))"

text \<open>Hexadecimal text has no white space to trim.\<close>

lemma ws_codes_not_hex:
  "list_all (\<lambda>w. list_all (\<lambda>c. hd w \<noteq> c \<and> hd (rev w) \<noteq> c) ''0123456789abcdef'') ws_codes"
  by code_simp

lemma ws_codes_nonempty: "list_all (\<lambda>w. w \<noteq> []) ws_codes"
  by code_simp

lemma strip_codes_id:
  assumes "\<And>w. w \<in> set codes \<Longrightarrow> \<not> starts_with w s"
  shows "strip_codes codes s = s"
proof -
  have "find (\<lambda>w. w \<noteq> [] \<and> starts_with w s) codes = None"
    using assms by (auto simp: find_None_iff)
  then show ?thesis by (subst strip_codes.simps) simp
qed

lemma trim_hex:
  assumes "list_all is_lower_hex s"
  shows "trim_ws s = s"
proof -
  have no: "\<not> starts_with w t" if "w \<noteq> []" "list_all (\<lambda>c. hd w \<noteq> c) ''0123456789abcdef''"
    "list_all is_lower_hex t" for w t
  proof (cases t)
    case (Cons d t')
    then have "d \<in> set ''0123456789abcdef''" using that(3) by (simp only: list.pred_inject is_lower_hex_def)
    with that(2) have "hd w \<noteq> d" unfolding list_all_iff by blast
    with that(1) Cons show ?thesis by (cases w) simp_all
  qed (use that(1) in \<open>cases w, simp_all\<close>)
  have w: "w \<noteq> [] \<and> list_all (\<lambda>c. hd w \<noteq> c) ''0123456789abcdef'' \<and>
      list_all (\<lambda>c. hd (rev w) \<noteq> c) ''0123456789abcdef''" if "w \<in> set ws_codes" for w
    using ws_codes_not_hex ws_codes_nonempty that unfolding list_all_iff by blast
  have "strip_codes ws_codes s = s"
    using w no assms by (intro strip_codes_id) blast
  moreover have "strip_codes (map rev ws_codes) (rev s) = rev s"
  proof (rule strip_codes_id)
    fix v assume "v \<in> set (map rev ws_codes)"
    then obtain u where u: "u \<in> set ws_codes" "v = rev u" by auto
    have "list_all is_lower_hex (rev s)" using assms by (simp only: list_all_rev)
    with w [OF u(1)] show "\<not> starts_with v (rev s)"
      unfolding u(2) by (intro no) (blast, blast, blast)
  qed
  ultimately show ?thesis by (simp add: trim_ws_def trim_start_ws_def trim_end_ws_def)
qed

lemma sentinel_roundtrip:
  assumes "hash_ext_ok X" "sentinel_codec_ok X" "hash_wf h"
    and "x_rfc3339_format X t \<noteq> None"
    and "sentinel_to_canonical_cbor X (sentinel_from_original X h n reason t) = Inr b"
  shows "try_parse_sentinel X b = Inr (Some (sentinel_from_original X h n reason t))"
proof -
  let ?m = "sentinel_from_original X h n reason t"
  from assms(4) obtain s where s: "x_rfc3339_format X t = Some s" by blast
  have enc: "x_sentinel_encode X ?m = Inr b"
    using assms(5) by (simp add: sentinel_to_canonical_cbor_def)
  have red: "sn_akmon_redacted ?m" by (simp add: sentinel_from_original_def Let_def)
  have "x_sentinel_decode X b = Inr ?m \<and>
      (\<exists>kvs. x_value_decode X b = Inr (CvMap ((CvText ''akmon_redacted'', CvBool (sn_akmon_redacted ?m)) # kvs)) \<and>
         x_value_encode X (CvMap ((CvText ''akmon_redacted'', CvBool (sn_akmon_redacted ?m)) # kvs)) = Inr b)"
    using assms(2) enc unfolding sentinel_codec_ok_def by blast
  then obtain kvs where
    v: "x_value_decode X b = Inr (CvMap ((CvText ''akmon_redacted'', CvBool True) # kvs))"
      "x_value_encode X (CvMap ((CvText ''akmon_redacted'', CvBool True) # kvs)) = Inr b"
      "x_sentinel_decode X b = Inr ?m"
    using red by auto
  obtain u where u: "x_rfc3339_parse X s = Inr u"
    using assms(2) s unfolding sentinel_codec_ok_def is_ok_iff by blast
  have "list_all is_lower_hex (to_hex X h)" using assms(1) by (simp add: hash_ext_ok_def to_hex_def)
  then have "validate_sentinel_marker X ?m = Inr ()"
    using assms(1,3) s u
    by (simp add: validate_sentinel_marker_def sentinel_from_original_def Let_def trim_hex)
       (rule exI [of _ "h_bytes h"], simp add: to_hex_def hash_wf_def SHA256_LEN_def)
  then show ?thesis
    unfolding try_parse_sentinel_def v(1) by (simp add: is_marker_key_def v)
qed

section \<open>Capture level\<close>

record capture_info =
  oc_capture_level :: string
  oc_source_semconv :: string

text \<open>\<open>Value::get\<close>, \<open>as_bool\<close> and \<open>as_str\<close>.\<close>

fun json_get :: "json \<Rightarrow> string \<Rightarrow> json option" where
  "json_get (JObject m) k = map_of m k"
| "json_get _ k = None"

fun json_as_bool :: "json \<Rightarrow> bool option" where
  "json_as_bool (JBool b) = Some b"
| "json_as_bool _ = None"

fun json_as_str :: "json \<Rightarrow> string option" where
  "json_as_str (JString s) = Some s"
| "json_as_str _ = None"

definition json_str_or :: "json \<Rightarrow> string \<Rightarrow> string \<Rightarrow> string" where
  "json_str_or v k d =
     (case Option.bind (json_get v k) json_as_str of Some s \<Rightarrow> s | None \<Rightarrow> d)"

definition session_config_hash :: "event list \<Rightarrow> hash option" where
  "session_config_hash es =
     Option.bind (find (\<lambda>e. is_session_start (ev_kind e)) es) (\<lambda>e.
       case ev_kind e of SessionStart _ config \<Rightarrow> Some config | _ \<Rightarrow> None)"

definition otel_capture_info :: "'x sentinel_ext_scheme \<Rightarrow> bundle_contents \<Rightarrow> capture_info option" where
  "otel_capture_info X c =
     Option.bind (session_config_hash (bc_events c)) (\<lambda>config_hash.
     Option.bind (hm_get (bc_objects c) config_hash) (\<lambda>bytes.
     case x_json_decode X bytes of
       Inl _ \<Rightarrow> None
     | Inr v \<Rightarrow>
         (if Option.bind (json_get v ''akmon_otel_config'') json_as_bool \<noteq> Some True then None
          else Some \<lparr>oc_capture_level = json_str_or v ''capture_level'' ''unknown'',
                     oc_source_semconv = json_str_or v ''source_semconv'' ''''\<rparr>)))"

end
