(* ===== verification/Sanitize.thy ===== *)
theory Sanitize
  imports Akmon_Prelude
begin

text \<open>
  \<open>akmon-bundle/src/sanitize.rs\<close>: the escaper every attacker-controlled manifest string goes
  through before it is displayed. Strings are UTF-8 byte strings; \<open>chars\<close> is the iterator of
  the standard library, each character with its code point and its bytes.
\<close>

section \<open>Characters\<close>

definition code :: "char \<Rightarrow> nat" where
  "code c = of_char c"

text \<open>The length of an encoding, from its first byte, and the code point of an encoding.\<close>

definition utf8_len :: "char \<Rightarrow> nat" where
  "utf8_len c = (if code c < 0x80 then 1 else if code c < 0xE0 then 2 else if code c < 0xF0 then 3 else 4)"

fun code_point :: "string \<Rightarrow> nat" where
  "code_point [a] = code a"
| "code_point [a, b] = (code a - 0xC0) * 64 + (code b - 0x80)"
| "code_point [a, b, c] = (code a - 0xE0) * 4096 + (code b - 0x80) * 64 + (code c - 0x80)"
| "code_point [a, b, c, d] =
     (code a - 0xF0) * 262144 + (code b - 0x80) * 4096 + (code c - 0x80) * 64 + (code d - 0x80)"
| "code_point _ = 0"

function chars :: "string \<Rightarrow> string list" where
  "chars [] = []"
| "chars (b # bs) = (b # take (utf8_len b - 1) bs) # chars (drop (utf8_len b - 1) bs)"
  by pat_completeness auto
termination
  by (relation "measure length") auto

text \<open>No encoding is cut off at the end; every Rust string satisfies this.\<close>

definition complete :: "string \<Rightarrow> bool" where
  "complete p \<longleftrightarrow> p \<noteq> [] \<and> length p = utf8_len (hd p)"

definition utf8_ok :: "string \<Rightarrow> bool" where
  "utf8_ok s \<longleftrightarrow> list_all complete (chars s)"

section \<open>Escaping\<close>

definition hex_digit :: "nat \<Rightarrow> char" where
  "hex_digit d = ''0123456789abcdef'' ! d"

fun show_hex :: "nat \<Rightarrow> string" where
  "show_hex n = (if n < 16 then [hex_digit n] else show_hex (n div 16) @ [hex_digit (n mod 16)])"

declare show_hex.simps [simp del]

text \<open>\<open>{:0wx}\<close>: at least \<open>w\<close> digits, padded with zeros.\<close>

definition pad_hex :: "nat \<Rightarrow> nat \<Rightarrow> string" where
  "pad_hex w n = replicate (w - length (show_hex n)) (CHR ''0'') @ show_hex n"

definition format_ranges :: "(nat \<times> nat) list" where
  "format_ranges =
     [(0x00AD, 0x00AD), (0x0600, 0x0605), (0x061C, 0x061C), (0x06DD, 0x06DD), (0x070F, 0x070F),
      (0x0890, 0x0891), (0x08E2, 0x08E2), (0x180E, 0x180E), (0x200B, 0x200F), (0x2028, 0x202E),
      (0x2060, 0x206F), (0xFEFF, 0xFEFF), (0xFFF9, 0xFFFB), (0x110BD, 0x110BD), (0x110CD, 0x110CD),
      (0x13430, 0x1343F), (0x1BCA0, 0x1BCA3), (0x1D173, 0x1D17A), (0xE0001, 0xE0001),
      (0xE0020, 0xE007F)]"

definition is_format_or_bidi :: "nat \<Rightarrow> bool" where
  "is_format_or_bidi cp \<longleftrightarrow> list_ex (\<lambda>(lo, hi). lo \<le> cp \<and> cp \<le> hi) format_ranges"

definition BSL :: char where
  "BSL = CHR 0x5C"

definition sanitize_char :: "string \<Rightarrow> string" where
  "sanitize_char p =
     (let cp = code_point p in
      if p = [BSL] then [BSL, BSL]
      else if cp < 0x20 \<or> cp = 0x7f then [BSL, CHR ''x''] @ pad_hex 2 cp
      else if (0x80 \<le> cp \<and> cp \<le> 0x9f) \<or> is_format_or_bidi cp
      then [BSL, CHR ''u'', CHR ''{''] @ pad_hex 4 cp @ [CHR ''}'']
      else p)"

definition sanitize_display :: "string \<Rightarrow> string" where
  "sanitize_display v = concat (map sanitize_char (chars v))"

section \<open>Re-reading the output\<close>

lemma chars_complete_append:
  "complete p \<Longrightarrow> chars (p @ s) = p # chars s"
  by (cases p) (auto simp: complete_def)

lemma chars_concat:
  "list_all complete ps \<Longrightarrow> chars (concat ps) = ps"
  by (induction ps) (auto simp: chars_complete_append)

lemma concat_chars: "concat (chars s) = s"
  by (induction s rule: chars.induct) simp_all

lemma ascii_complete: "code c < 0x80 \<Longrightarrow> complete [c]"
  by (simp add: complete_def utf8_len_def)

lemma chars_ascii:
  "list_all (\<lambda>c. code c < 0x80) s \<Longrightarrow> chars (s @ t) = map (\<lambda>c. [c]) s @ chars t"
proof (induction s)
  case (Cons c s)
  then have "chars ([c] @ s @ t) = [c] # chars (s @ t)" by (intro chars_complete_append ascii_complete) simp
  with Cons show ?case by simp
qed simp

section \<open>The output is safe\<close>

definition display_unsafe :: "nat \<Rightarrow> bool" where
  "display_unsafe cp \<longleftrightarrow> cp < 0x20 \<or> (0x7f \<le> cp \<and> cp \<le> 0x9f) \<or> is_format_or_bidi cp"

lemma hex_table: "list_all (\<lambda>c. 0x20 \<le> code c \<and> code c < 0x7f \<and> c \<noteq> CHR ''}'' \<and> c \<noteq> BSL) ''0123456789abcdef''"
  by code_simp

lemma hex_digit_table:
  "d < 16 \<Longrightarrow> 0x20 \<le> code (hex_digit d) \<and> code (hex_digit d) < 0x7f \<and> hex_digit d \<noteq> CHR ''}''"
  using hex_table unfolding hex_digit_def list_all_length by simp

lemma show_hex_chars: "list_all (\<lambda>c. 0x20 \<le> code c \<and> code c < 0x7f \<and> c \<noteq> CHR ''}'') (show_hex n)"
proof (induction n rule: show_hex.induct)
  case (1 n)
  then show ?case by (subst show_hex.simps) (auto simp: hex_digit_table)
qed

lemma pad_hex_chars: "list_all (\<lambda>c. 0x20 \<le> code c \<and> code c < 0x7f \<and> c \<noteq> CHR ''}'') (pad_hex w n)"
proof -
  have "0x20 \<le> code CHR ''0'' \<and> code CHR ''0'' < 0x7f" by (simp add: code_def)
  then have "list_all (\<lambda>c. 0x20 \<le> code c \<and> code c < 0x7f \<and> c \<noteq> CHR ''}'') (replicate k (CHR ''0''))" for k
    by (induction k) simp_all
  then show ?thesis using show_hex_chars [of n] by (simp only: pad_hex_def list_all_append simp_thms)
qed

lemma format_table: "list_all (\<lambda>r. 0xad \<le> fst r) format_ranges"
  unfolding format_ranges_def by simp

lemma is_format_ge:
  assumes "is_format_or_bidi cp"
  shows "0xad \<le> cp"
proof -
  obtain lo hi where "(lo, hi) \<in> set format_ranges" "lo \<le> cp"
    using assms by (auto simp: is_format_or_bidi_def list_ex_iff)
  with format_table have "0xad \<le> lo" unfolding list_all_iff by fastforce
  with \<open>lo \<le> cp\<close> show ?thesis by simp
qed

definition printable :: "char \<Rightarrow> bool" where
  "printable c \<longleftrightarrow> 0x20 \<le> code c \<and> code c < 0x7f"

lemma printable_safe: "printable c \<Longrightarrow> complete [c] \<and> \<not> display_unsafe (code_point [c])"
  by (auto simp: printable_def display_unsafe_def ascii_complete dest: is_format_ge)

text \<open>One escaped character is either itself and safe, or a run of printable ASCII.\<close>

lemma sanitize_char_cases:
  "(sanitize_char p = p \<and> \<not> display_unsafe (code_point p)) \<or> list_all printable (sanitize_char p)"
  using pad_hex_chars [of 2 "code_point p"] pad_hex_chars [of 4 "code_point p"]
  by (auto simp: sanitize_char_def Let_def display_unsafe_def printable_def list_all_iff code_def BSL_def)

lemma printable_pieces:
  "list_all printable s \<Longrightarrow>
   \<exists>ps. s = concat ps \<and> list_all (\<lambda>p. complete p \<and> \<not> display_unsafe (code_point p)) ps"
  by (rule exI [of _ "map (\<lambda>c. [c]) s"])
     (induction s, auto dest: printable_safe)

lemma sanitize_pieces:
  assumes "list_all complete cs"
  shows "\<exists>ps. concat (map sanitize_char cs) = concat ps \<and>
    list_all (\<lambda>p. complete p \<and> \<not> display_unsafe (code_point p)) ps"
  using assms
proof (induction cs)
  case (Cons c cs)
  then obtain ps where ps: "concat (map sanitize_char cs) = concat ps"
    "list_all (\<lambda>p. complete p \<and> \<not> display_unsafe (code_point p)) ps" by auto
  have "\<exists>qs. sanitize_char c = concat qs \<and> list_all (\<lambda>p. complete p \<and> \<not> display_unsafe (code_point p)) qs"
    using sanitize_char_cases [of c] Cons.prems printable_pieces [of "sanitize_char c"]
    by (auto intro: exI [of _ "[c]"])
  then obtain qs where "sanitize_char c = concat qs"
    "list_all (\<lambda>p. complete p \<and> \<not> display_unsafe (code_point p)) qs" by blast
  with ps show ?case by (intro exI [of _ "qs @ ps"]) simp
qed (auto intro: exI [of _ "[]"])

lemma sanitize_display_safe:
  assumes "utf8_ok v"
  shows "utf8_ok (sanitize_display v)"
    and "list_all (\<lambda>p. \<not> display_unsafe (code_point p)) (chars (sanitize_display v))"
proof -
  obtain ps where ps: "sanitize_display v = concat ps"
    "list_all (\<lambda>p. complete p \<and> \<not> display_unsafe (code_point p)) ps"
    using sanitize_pieces assms unfolding sanitize_display_def utf8_ok_def by blast
  then have "chars (sanitize_display v) = ps"
    by (simp add: chars_concat list_all_iff)
  with ps(2) show "utf8_ok (sanitize_display v)"
    "list_all (\<lambda>p. \<not> display_unsafe (code_point p)) (chars (sanitize_display v))"
    by (auto simp: utf8_ok_def list_all_iff)
qed

end
