(* ===== verification/Verify_Report.thy ===== *)
theory Verify_Report
  imports Sentinel Sanitize
begin

text \<open>
  \<open>akmon-bundle/src/report.rs\<close> and the human-readable part of \<open>render.rs\<close>: the verification policy
  both verifier binaries share, the pass/fail decision, the report, and the text an auditor reads.
  The file system and the RFC 3339 formatter are parameters.
\<close>

section \<open>Report\<close>

record report_violation =
  rv_category :: string
  rv_event_hash :: "string option"
  rv_object_hash :: "string option"
  rv_message :: string

record signature_report =
  sr_key_id :: string
  sr_scheme :: string
  sr_outcome :: string

record operator_report =
  or_key_id :: string
  or_scheme :: string
  or_operator_id :: string
  or_display_name :: string
  or_role :: string
  or_org :: string
  or_created_at :: string
  or_outcome :: string
  or_operator_key_verified :: bool

record capture_field =
  cf_level :: string
  cf_source_semconv :: string

record session_window =
  sw_first_event_at :: string
  sw_last_event_at :: string

record unsigned_metadata =
  um_created_at :: string
  um_ended_at :: string
  um_producer_name :: string
  um_producer_version :: string

record verify_report_v1 =
  vp_akmon_version :: string
  vp_agef_version :: string
  vp_bundle_path :: string
  vp_session_id :: string
  vp_events_in_bundle :: u64
  vp_objects_in_bundle :: u64
  vp_passed :: bool
  vp_violations :: "report_violation list"
  vp_signatures :: "signature_report list"
  vp_operators :: "operator_report list"
  vp_capture :: "capture_field option"
  vp_integrity_ok :: bool
  vp_signature_verified :: bool
  vp_operator_key_verified :: bool
  vp_hash_algorithm :: string
  vp_head :: string
  vp_session_window :: "session_window option"
  vp_unsigned_metadata :: unsigned_metadata
  vp_warnings :: "report_violation list"

record report_ext = sentinel_ext +
  x_read_file :: "string \<Rightarrow> string + string"
  x_to_uppercase :: "string \<Rightarrow> string"

definition CARGO_PKG_VERSION :: string where
  "CARGO_PKG_VERSION = ''3.0.0''"

definition signature_outcome_str :: "signature_outcome \<Rightarrow> string" where
  "signature_outcome_str q =
     (case q of
        SigVerified \<Rightarrow> ''verified''
      | SigInvalid \<Rightarrow> ''invalid''
      | SigUnverifiedNoKey \<Rightarrow> ''unverified_no_key''
      | SigUnsupportedScheme \<Rightarrow> ''unsupported_scheme''
      | SigMalformed \<Rightarrow> ''malformed'')"

definition signature_reports :: "signature_check list \<Rightarrow> signature_report list" where
  "signature_reports r =
     map (\<lambda>c. \<lparr>sr_key_id = sgc_key_id c, sr_scheme = sgc_scheme c,
                sr_outcome = signature_outcome_str (sgc_outcome c)\<rparr>) r"

definition operator_outcome_str :: "operator_outcome \<Rightarrow> string" where
  "operator_outcome_str q =
     (case q of
        OpVerified \<Rightarrow> ''verified''
      | OpInvalid \<Rightarrow> ''invalid''
      | OpUnverifiedNoKey \<Rightarrow> ''unverified_no_key''
      | OpUnsupportedScheme \<Rightarrow> ''unsupported_scheme''
      | OpMalformed \<Rightarrow> ''malformed'')"

definition operator_reports :: "operator_check list \<Rightarrow> operator_report list" where
  "operator_reports r =
     map (\<lambda>c. \<lparr>or_key_id = opc_key_id c, or_scheme = opc_scheme c, or_operator_id = opc_operator_id c,
                or_display_name = opc_display_name c, or_role = opc_role c, or_org = opc_org c,
                or_created_at = opc_created_at c, or_outcome = operator_outcome_str (opc_outcome c),
                or_operator_key_verified = (opc_outcome c = OpVerified)\<rparr>) r"

definition sanitize_operator_field :: "string \<Rightarrow> string" where
  "sanitize_operator_field v = sanitize_display v"

section \<open>Keys and errors\<close>

definition signing_error_to_string :: "signing_error \<Rightarrow> string" where
  "signing_error_to_string e =
     (case e of
        InvalidPrivateKey \<Rightarrow> ''invalid PKCS#8 Ed25519 private key''
      | InvalidPublicKey n \<Rightarrow> ''invalid Ed25519 public key: expected 32 bytes, got '' @ show_nat n
      | MalformedPublicKeyHex \<Rightarrow> ''public key is not valid hex''
      | KeyGeneration \<Rightarrow> ''Ed25519 key generation failed''
      | VerificationFailed \<Rightarrow> ''Ed25519 signature verification failed''
      | IllegalOperatorField \<Rightarrow> ''operator identity field contains an illegal newline or is empty'')"

definition load_public_key_file ::
    "'x report_ext_scheme \<Rightarrow> string \<Rightarrow> string \<Rightarrow> string + byte list" where
  "load_public_key_file X path flag =
     res_bind (map_err (\<lambda>err. ''cannot read '' @ flag @ '' '' @ path @ '': '' @ err) (x_read_file X path))
       (\<lambda>hex_str. map_err (\<lambda>err. flag @ '' '' @ path @ '': '' @ signing_error_to_string err)
          (parse_public_key_hex X hex_str))"

definition load_verify_key :: "'x report_ext_scheme \<Rightarrow> string \<Rightarrow> string + byte list" where
  "load_verify_key X path = load_public_key_file X path ''--verify-key''"

definition load_operator_key :: "'x report_ext_scheme \<Rightarrow> string \<Rightarrow> string + byte list" where
  "load_operator_key X path = load_public_key_file X path ''--operator-key''"

definition bundle_read_error_category :: "bundle_error \<Rightarrow> string" where
  "bundle_read_error_category e =
     (case e of
        BIo _ \<Rightarrow> ''io_error''
      | BInvalidArchive _ \<Rightarrow> ''invalid_archive''
      | BInvalidCompression _ \<Rightarrow> ''invalid_compression''
      | BInvalidManifest _ \<Rightarrow> ''invalid_manifest''
      | BUnsupportedAgefVersion _ \<Rightarrow> ''unsupported_agef_version''
      | BUnsupportedHashAlgorithm _ \<Rightarrow> ''unsupported_hash_algorithm''
      | BMalformedFraming _ \<Rightarrow> ''malformed_framing''
      | BFrameTooLarge _ \<Rightarrow> ''frame_too_large''
      | BNonCanonicalCbor \<Rightarrow> ''non_canonical_cbor''
      | BUnknownEventKind _ \<Rightarrow> ''unknown_event_kind''
      | BUnknownAttemptStatus _ \<Rightarrow> ''unknown_attempt_status''
      | BMissingObject _ \<Rightarrow> ''missing_object''
      | BObjectHashMismatch _ \<Rightarrow> ''object_hash_mismatch''
      | BHeadMismatch _ _ \<Rightarrow> ''head_mismatch''
      | BUnknownBundleFile _ \<Rightarrow> ''unknown_bundle_file''
      | BBundleTooLarge _ \<Rightarrow> ''bundle_too_large'')"

definition bundle_read_exit_code :: "bundle_error \<Rightarrow> nat" where
  "bundle_read_exit_code e = (case e of BIo _ \<Rightarrow> 3 | _ \<Rightarrow> 1)"

record tool_error_v1 =
  tl_tool :: string
  tl_akmon_version :: string
  tl_passed :: bool
  tl_error :: string
  tl_category :: string
  tl_colliding_session_id :: "string option"

definition tool_error_new :: "string \<Rightarrow> string \<Rightarrow> string \<Rightarrow> tool_error_v1" where
  "tool_error_new tool cat err =
     \<lparr>tl_tool = tool, tl_akmon_version = CARGO_PKG_VERSION, tl_passed = False, tl_error = err,
      tl_category = cat, tl_colliding_session_id = None\<rparr>"

section \<open>The decision\<close>

definition operator_requirements_ok :: "operator_check list \<Rightarrow> bool \<Rightarrow> string list \<Rightarrow> bool" where
  "operator_requirements_ok r require_operator required_key_ids =
     (if op_any_invalid r then False
      else if require_operator \<and> \<not> op_any_verified r then False
      else list_all (\<lambda>kid. list_ex (\<lambda>c. opc_outcome c = OpVerified \<and> opc_key_id c = kid) r) required_key_ids)"

definition report_violations ::
    "'x report_ext_scheme \<Rightarrow> bundle_report \<Rightarrow> report_violation list" where
  "report_violations X r =
     map (\<lambda>v. \<lparr>rv_category = category v, rv_event_hash = event_hash_hex X v,
                rv_object_hash = object_hash_hex X v, rv_message = message X v\<rparr>) (br_violations r)"

definition CAPTURE_REQUIREMENT_CATEGORY :: string where
  "CAPTURE_REQUIREMENT_CATEGORY = ''capture_requirement_unmet''"

definition capture_requirement_unmet :: "bool \<Rightarrow> capture_info option \<Rightarrow> string option" where
  "capture_requirement_unmet require_capture_full capture =
     (if \<not> require_capture_full then None
      else case capture of
        None \<Rightarrow> None
      | Some info \<Rightarrow>
          (if oc_capture_level info = ''full'' then None
           else
             let why =
               (if oc_capture_level info = ''structural''
                then ''metadata-only OTEL import; source telemetry did not capture message content''
                else if oc_capture_level info = ''partial''
                then ''partial OTEL import; the source telemetry captured message content for only some provider calls''
                else ''unrecognized OTEL capture level; message content capture is not established'') in
             Some (''--require-capture full: session capture level is '' @ [CHR 0x27]
                   @ sanitize_display (oc_capture_level info) @ [CHR 0x27] @ '', not '' @ [CHR 0x27]
                   @ ''full'' @ [CHR 0x27] @ '' ('' @ why @ '')'')))"

definition compute_passed_and_violations ::
    "'x report_ext_scheme \<Rightarrow> bundle_report \<Rightarrow> signature_check list \<Rightarrow> bool \<Rightarrow> bool
     \<Rightarrow> capture_info option \<Rightarrow> bool \<Rightarrow> bool \<times> report_violation list" where
  "compute_passed_and_violations X verification sig_report require_signature operator_ok capture
     require_capture_full =
     (let integrity_ok = bundle_report_is_clean verification;
          signatures_ok = (\<not> sig_any_invalid sig_report \<and> (\<not> require_signature \<or> sig_any_verified sig_report));
          capture_unmet = capture_requirement_unmet require_capture_full capture;
          violations = report_violations X verification
            @ (case capture_unmet of
                 None \<Rightarrow> []
               | Some reason \<Rightarrow> [\<lparr>rv_category = CAPTURE_REQUIREMENT_CATEGORY, rv_event_hash = None,
                                  rv_object_hash = None, rv_message = reason\<rparr>]) in
      (integrity_ok \<and> signatures_ok \<and> operator_ok \<and> capture_unmet = None, violations))"

definition rfc3339 :: "'x report_ext_scheme \<Rightarrow> datetime \<Rightarrow> string" where
  "rfc3339 X ts =
     (case x_rfc3339_format X ts of Some s \<Rightarrow> s | None \<Rightarrow> show_int (x_unix_timestamp X ts))"

definition CREATED_AT_MISMATCH_CATEGORY :: string where
  "CREATED_AT_MISMATCH_CATEGORY = ''manifest_created_at_mismatch''"

definition ENDED_AT_MISMATCH_CATEGORY :: string where
  "ENDED_AT_MISMATCH_CATEGORY = ''manifest_ended_at_mismatch''"

definition time_warning ::
    "'x report_ext_scheme \<Rightarrow> string \<Rightarrow> string \<Rightarrow> string \<Rightarrow> string \<Rightarrow> datetime \<Rightarrow> report_violation list" where
  "time_warning X cat field declared which event_ts =
     (let agrees = (case x_rfc3339_parse X declared of
                      Inl _ \<Rightarrow> False
                    | Inr ts \<Rightarrow> x_unix_timestamp X ts = x_unix_timestamp X event_ts) in
      if agrees then []
      else [\<lparr>rv_category = cat, rv_event_hash = None, rv_object_hash = None,
             rv_message = ''unsigned manifest session.'' @ field @ '' ('' @ sanitize_display declared
               @ '') disagrees with the '' @ which @ '' event timestamp ('' @ rfc3339 X event_ts
               @ ''); the event timestamp is the one covered by integrity''\<rparr>])"

definition metadata_warnings ::
    "'x report_ext_scheme \<Rightarrow> bundle_contents \<Rightarrow> report_violation list" where
  "metadata_warnings X c =
     (case (head_opt (bc_events c), last_opt (bc_events c)) of
        (Some first, Some final) \<Rightarrow>
          time_warning X CREATED_AT_MISMATCH_CATEGORY ''created_at''
            (sm_created_at (mf_session (bc_manifest c))) ''first'' (ev_emitted_at first)
          @ time_warning X ENDED_AT_MISMATCH_CATEGORY ''ended_at''
            (sm_ended_at (mf_session (bc_manifest c))) ''last'' (ev_emitted_at final)
      | _ \<Rightarrow> [])"

definition build_verify_report ::
    "'x report_ext_scheme \<Rightarrow> string \<Rightarrow> bundle_contents \<Rightarrow> bool \<Rightarrow> report_violation list
     \<Rightarrow> signature_report list \<Rightarrow> operator_report list \<Rightarrow> capture_info option \<Rightarrow> verify_report_v1" where
  "build_verify_report X path c passed violations signatures operators capture =
     (let m = bc_manifest c;
          integrity_ok = list_all (\<lambda>v. rv_category v = CAPTURE_REQUIREMENT_CATEGORY) violations in
      \<lparr>vp_akmon_version = CARGO_PKG_VERSION,
       vp_agef_version = mf_agef_version m,
       vp_bundle_path = path,
       vp_session_id = sm_id (mf_session m),
       vp_events_in_bundle = of_nat (length (bc_events c)),
       vp_objects_in_bundle = of_nat (length (bc_objects c)),
       vp_passed = passed,
       vp_violations = violations,
       vp_signatures = signatures,
       vp_operators = operators,
       vp_capture = map_option (\<lambda>i. \<lparr>cf_level = oc_capture_level i, cf_source_semconv = oc_source_semconv i\<rparr>) capture,
       vp_integrity_ok = integrity_ok,
       vp_signature_verified = (integrity_ok \<and> list_ex (\<lambda>s. sr_outcome s = ''verified'') signatures),
       vp_operator_key_verified = (integrity_ok \<and> list_ex or_operator_key_verified operators),
       vp_hash_algorithm = mf_hash_algorithm m,
       vp_head = sm_head (mf_session m),
       vp_session_window =
         (case (head_opt (bc_events c), last_opt (bc_events c)) of
            (Some first, Some final) \<Rightarrow>
              Some \<lparr>sw_first_event_at = rfc3339 X (ev_emitted_at first),
                    sw_last_event_at = rfc3339 X (ev_emitted_at final)\<rparr>
          | _ \<Rightarrow> None),
       vp_unsigned_metadata =
         \<lparr>um_created_at = sm_created_at (mf_session m), um_ended_at = sm_ended_at (mf_session m),
          um_producer_name = pr_name (mf_producer m), um_producer_version = pr_version (mf_producer m)\<rparr>,
       vp_warnings = metadata_warnings X c\<rparr>)"

section \<open>Policy\<close>

record verify_policy =
  vpo_trusted_keys :: "byte list list"
  vpo_require_signature :: bool
  vpo_operator_trusted_keys :: "byte list list"
  vpo_require_operator :: bool
  vpo_required_operator_key_ids :: "string list"
  vpo_require_capture_full :: bool

record policy_key_error =
  pke_category :: string
  pke_message :: string

definition verify_policy_load ::
    "'x report_ext_scheme \<Rightarrow> string list \<Rightarrow> bool \<Rightarrow> string list \<Rightarrow> bool \<Rightarrow> string list \<Rightarrow> bool
     \<Rightarrow> policy_key_error + verify_policy" where
  "verify_policy_load X verify_keys require_signature operator_keys require_operator
     require_operator_keys require_capture_full =
     (let verify_err = (\<lambda>m. \<lparr>pke_category = ''verify_key_error'', pke_message = m\<rparr>);
          operator_err = (\<lambda>m. \<lparr>pke_category = ''operator_key_error'', pke_message = m\<rparr>) in
      res_bind (res_map (\<lambda>p. map_err verify_err (load_verify_key X p)) verify_keys) (\<lambda>trusted.
      res_bind (res_map (\<lambda>p. map_err operator_err (load_operator_key X p)) operator_keys) (\<lambda>ops.
      res_bind (res_map (\<lambda>p. map_err operator_err (load_operator_key X p)) require_operator_keys) (\<lambda>reqs.
      Inr \<lparr>vpo_trusted_keys = trusted, vpo_require_signature = require_signature,
           vpo_operator_trusted_keys = ops @ reqs, vpo_require_operator = require_operator,
           vpo_required_operator_key_ids = map (key_id X) reqs,
           vpo_require_capture_full = require_capture_full\<rparr>))))"

definition evaluate_bundle ::
    "'x report_ext_scheme \<Rightarrow> string \<Rightarrow> bundle_contents \<Rightarrow> verify_policy \<Rightarrow> verify_report_v1" where
  "evaluate_bundle X path c p =
     (let verification = verify_bundle X c;
          sig_report = verify_manifest_signatures X (bc_manifest c) (vpo_trusted_keys p);
          op_report = verify_operator_attestations X (bc_manifest c) (vpo_operator_trusted_keys p);
          operator_ok = operator_requirements_ok op_report (vpo_require_operator p)
            (vpo_required_operator_key_ids p);
          capture = otel_capture_info X c;
          (passed, violations) = compute_passed_and_violations X verification sig_report
            (vpo_require_signature p) operator_ok capture (vpo_require_capture_full p) in
      build_verify_report X path c passed violations (signature_reports sig_report)
        (operator_reports op_report) capture)"

end
