(* ===== verification/Render.thy ===== *)
theory Render
  imports Verify_Report
begin

text \<open>
  \<open>akmon-bundle/src/render.rs\<close>: the headline and the human-readable lines of a verification
  report, and the inline Markdown escaper. \<open>display_safe\<close> says that a line has no character that a
  terminal interprets; every line of the report satisfies it, whatever the manifest contains.
\<close>

definition EM_DASH :: string where
  "EM_DASH = [CHR 0xE2, CHR 0x80, CHR 0x94]"

definition QUOTE :: string where
  "QUOTE = [CHR 0x22]"

definition verified_signer_key_ids :: "verify_report_v1 \<Rightarrow> string list" where
  "verified_signer_key_ids r =
     map (\<lambda>s. sanitize_display (sr_key_id s)) (filter (\<lambda>s. sr_outcome s = ''verified'') (vp_signatures r))"

definition capture_human_suffix :: "'x report_ext_scheme \<Rightarrow> capture_field option \<Rightarrow> string" where
  "capture_human_suffix X capture =
     (case capture of
        None \<Rightarrow> ''''
      | Some c \<Rightarrow>
          (if cf_level c = ''full'' then ''''
           else if cf_level c = ''structural''
           then '' '' @ EM_DASH @ '' capture: STRUCTURAL (metadata only)''
           else if cf_level c = ''partial''
           then '' '' @ EM_DASH @ '' capture: PARTIAL (message content for some provider calls only)''
           else '' '' @ EM_DASH @ '' capture: '' @ sanitize_display (x_to_uppercase X (cf_level c))
                @ '' (unrecognized capture level)''))"

definition headline :: "'x report_ext_scheme \<Rightarrow> verify_report_v1 \<Rightarrow> string" where
  "headline X r =
     (let suffix = capture_human_suffix X (vp_capture r) in
      if \<not> vp_passed r then ''bundle verification FAILED'' @ suffix
      else
        let signature_part =
          (if vp_signature_verified r
           then ''signature verified by key_id='' @ join '', key_id='' (verified_signer_key_ids r)
           else if vp_signatures r = [] then ''UNSIGNED (integrity only)''
           else ''signature present but NOT verified (no trusted --verify-key matched; integrity only)'') in
        ''verified bundle: integrity OK; '' @ signature_part @ suffix)"

definition capture_human_line :: "'x report_ext_scheme \<Rightarrow> capture_field option \<Rightarrow> string option" where
  "capture_human_line X capture =
     map_option (\<lambda>c.
       let semconv = sanitize_display (cf_source_semconv c) in
       if cf_level c = ''structural''
       then ''capture: STRUCTURAL (metadata only '' @ EM_DASH
            @ '' message content was NOT captured by the source telemetry; source semconv '' @ semconv @ '')''
       else if cf_level c = ''partial''
       then ''capture: PARTIAL (OTEL import; message content was captured for only some provider calls ''
            @ EM_DASH @ '' this is NOT full capture and not a full replay; source semconv '' @ semconv @ '')''
       else if cf_level c = ''full'' then ''capture: FULL (OTEL import; message content captured)''
       else ''capture: '' @ sanitize_display (x_to_uppercase X (cf_level c))
            @ '' (OTEL import; source semconv '' @ semconv @ '')'') capture"

definition operator_human_line :: "operator_report \<Rightarrow> string" where
  "operator_human_line op =
     (let oid = sanitize_display (or_operator_id op); rol = sanitize_display (or_role op);
          org = sanitize_display (or_org op); kid = sanitize_display (or_key_id op);
          scheme = sanitize_display (or_scheme op) in
      if or_outcome op = ''verified''
      then ''  - verified by operator key key_id='' @ kid @ '' -- self-asserted operator_id='' @ QUOTE @ oid
           @ QUOTE @ '' role='' @ QUOTE @ rol @ QUOTE @ '' org='' @ QUOTE @ org @ QUOTE
      else if or_outcome op = ''unverified_no_key''
      then ''  - present but UNVERIFIED (no trusted operator key) -- self-asserted operator_id='' @ QUOTE
           @ oid @ QUOTE @ '' (do not trust this name)''
      else if or_outcome op = ''invalid''
      then ''  - INVALID signature for trusted operator key key_id='' @ kid
           @ '' (tampered identity/head or corrupt signature; HARD FAIL)''
      else ''  - '' @ or_outcome op @ '' ['' @ scheme @ ''] key_id='' @ kid
           @ '' -- self-asserted operator_id='' @ QUOTE @ oid @ QUOTE @ '' (do not trust this name)'')"

text \<open>The lines \<open>print_operator_human_block\<close> emits.\<close>

definition operator_human_block :: "operator_report list \<Rightarrow> string list" where
  "operator_human_block ops =
     (if ops = [] then [''operator: none (unattributed)'']
      else ''operators:'' # map operator_human_line ops)"

definition violation_line :: "report_violation \<Rightarrow> string" where
  "violation_line v = ''  - ['' @ rv_category v @ ''] '' @ sanitize_display (rv_message v)"

definition signature_line :: "signature_report \<Rightarrow> string" where
  "signature_line s = ''  - '' @ sr_outcome s @ '' ['' @ sanitize_display (sr_scheme s) @ ''] key_id=''
     @ sanitize_display (sr_key_id s)"

definition detail_lines :: "'x report_ext_scheme \<Rightarrow> verify_report_v1 \<Rightarrow> string list" where
  "detail_lines X r =
     [''session_id: '' @ sanitize_display (vp_session_id r),
      ''head ('' @ sanitize_display (vp_hash_algorithm r) @ ''): '' @ sanitize_display (vp_head r),
      ''events: '' @ show_nat (unat (vp_events_in_bundle r))]
     @ (case vp_session_window r of
          None \<Rightarrow> []
        | Some w \<Rightarrow> [''session window (event timestamps, producer clock): '' @ sw_first_event_at w @ '' .. ''
                     @ sw_last_event_at w])
     @ [''objects: '' @ show_nat (unat (vp_objects_in_bundle r))]
     @ opt_list (capture_human_line X (vp_capture r))
     @ [''integrity: '' @ (if vp_integrity_ok r then ''OK'' else ''FAILED'')]
     @ (if vp_violations r = [] then []
        else ''integrity violations:'' # map violation_line (vp_violations r))
     @ (if vp_signatures r = [] then [''signatures: none'']
        else ''signatures:'' # map signature_line (vp_signatures r))
     @ operator_human_block (vp_operators r)
     @ [''unsigned metadata (not covered by any signature): producer=''
        @ sanitize_display (um_producer_name (vp_unsigned_metadata r)) @ '' ''
        @ sanitize_display (um_producer_version (vp_unsigned_metadata r)) @ '' created_at=''
        @ sanitize_display (um_created_at (vp_unsigned_metadata r)) @ '' ended_at=''
        @ sanitize_display (um_ended_at (vp_unsigned_metadata r))]
     @ (if vp_warnings r = [] then [] else ''warnings:'' # map violation_line (vp_warnings r))"

definition human_lines :: "'x report_ext_scheme \<Rightarrow> verify_report_v1 \<Rightarrow> string list" where
  "human_lines X r =
     (headline X r @ '': '' @ sanitize_display (vp_bundle_path r))
     # map (\<lambda>line. ''  '' @ line) (detail_lines X r)"

section \<open>Markdown\<close>

definition md_special :: "char list" where
  "md_special = [BSL, CHR 0x60, CHR ''*'', CHR ''_'', CHR ''['', CHR '']'', CHR ''<'', CHR ''>'',
     CHR ''|'', CHR 0x7E, CHR ''&'']"

definition md_escape_piece :: "string \<Rightarrow> string" where
  "md_escape_piece p = (if length p = 1 \<and> hd p \<in> set md_special then BSL # p else p)"

definition markdown_escape :: "string \<Rightarrow> string" where
  "markdown_escape v =
     concat (map (\<lambda>ch.
       if ch = [BSL] then [BSL, BSL]
       else concat (map md_escape_piece (chars (sanitize_display ch)))) (chars v))"

section \<open>Display safety\<close>

definition safe_piece :: "string \<Rightarrow> bool" where
  "safe_piece p \<longleftrightarrow> complete p \<and> \<not> display_unsafe (code_point p)"

definition display_safe :: "string \<Rightarrow> bool" where
  "display_safe s \<longleftrightarrow> list_all safe_piece (chars s)"

named_theorems safe_intros "introduction rules for display-safe text"

lemma display_safe_concat: "list_all safe_piece ps \<Longrightarrow> display_safe (concat ps)"
  by (simp add: display_safe_def safe_piece_def chars_concat list_all_iff)

lemma display_safe_append [safe_intros]:
  assumes "display_safe s" "display_safe t"
  shows "display_safe (s @ t)"
proof -
  have "s @ t = concat (chars s @ chars t)" by (simp add: concat_chars)
  with assms show ?thesis
    by (simp only: display_safe_concat display_safe_def [of s] display_safe_def [of t] list_all_append simp_thms)
qed

lemma display_safe_printable: "list_all printable s \<Longrightarrow> display_safe s"
proof -
  assume "list_all printable s"
  then obtain ps where "s = concat ps" "list_all safe_piece ps"
    using printable_pieces unfolding safe_piece_def by blast
  then show ?thesis by (simp add: display_safe_concat)
qed

lemma display_safe_sanitize [safe_intros]: "utf8_ok v \<Longrightarrow> display_safe (sanitize_display v)"
  using sanitize_display_safe [of v] by (auto simp: display_safe_def safe_piece_def utf8_ok_def list_all_iff)

lemma digit_printable: "d < 10 \<Longrightarrow> printable (digit_char d)"
  by (simp add: printable_def code_def digit_char_def)

lemma show_nat_safe [safe_intros]: "display_safe (show_nat n)"
proof -
  have "list_all printable (show_nat n)"
  proof (induction n rule: show_nat.induct)
    case (1 n)
    then show ?case by (subst show_nat.simps) (simp add: digit_printable)
  qed
  then show ?thesis by (rule display_safe_printable)
qed

lemma em_dash_safe [safe_intros]: "display_safe EM_DASH"
proof -
  have "safe_piece EM_DASH"
    by (simp add: safe_piece_def EM_DASH_def complete_def utf8_len_def code_def display_unsafe_def
        is_format_or_bidi_def format_ranges_def)
  then show ?thesis using display_safe_concat [of "[EM_DASH]"] by simp
qed

lemma join_safe [safe_intros]:
  "display_safe sep \<Longrightarrow> list_all display_safe ss \<Longrightarrow> display_safe (join sep ss)"
  by (induction sep ss rule: join.induct)
     (auto intro: display_safe_append display_safe_printable)

lemma display_safe_Nil [simp]: "display_safe []"
  by (simp add: display_safe_def)

lemma display_safe_Cons [simp]:
  assumes "printable c"
  shows "display_safe (c # s) \<longleftrightarrow> display_safe s"
proof -
  have "utf8_len c = 1" using printable_safe [OF assms] by (simp add: complete_def)
  then have e: "chars (c # s) = [c] # chars s" by simp
  have "safe_piece [c]" unfolding safe_piece_def by (rule printable_safe [OF assms])
  then show ?thesis by (simp only: display_safe_def e list.pred_inject simp_thms)
qed

lemma list_all_printable_safe: "list_all printable s \<Longrightarrow> display_safe (s @ t) \<longleftrightarrow> display_safe t"
  by (induction s) auto

lemma printable_char [simp]: "printable c \<longleftrightarrow> 0x20 \<le> (of_char c :: nat) \<and> (of_char c :: nat) < 0x7f"
  by (simp add: printable_def code_def)

text \<open>The strings of a report: \<open>String\<close> values are UTF-8, the fixed vocabulary is printable.\<close>

definition violation_text_ok :: "report_violation \<Rightarrow> bool" where
  "violation_text_ok v \<longleftrightarrow> list_all printable (rv_category v) \<and> utf8_ok (rv_message v)"

definition operator_text_ok :: "operator_report \<Rightarrow> bool" where
  "operator_text_ok op \<longleftrightarrow> list_all printable (or_outcome op) \<and>
     list_all utf8_ok [or_operator_id op, or_role op, or_org op, or_key_id op, or_scheme op]"

definition signature_text_ok :: "signature_report \<Rightarrow> bool" where
  "signature_text_ok s \<longleftrightarrow> list_all printable (sr_outcome s) \<and> utf8_ok (sr_scheme s) \<and> utf8_ok (sr_key_id s)"

definition window_text_ok :: "session_window \<Rightarrow> bool" where
  "window_text_ok w \<longleftrightarrow> list_all printable (sw_first_event_at w) \<and> list_all printable (sw_last_event_at w)"

definition capture_text_ok :: "'x report_ext_scheme \<Rightarrow> capture_field \<Rightarrow> bool" where
  "capture_text_ok X c \<longleftrightarrow> utf8_ok (cf_source_semconv c) \<and> utf8_ok (x_to_uppercase X (cf_level c))"

definition report_text_ok :: "'x report_ext_scheme \<Rightarrow> verify_report_v1 \<Rightarrow> bool" where
  "report_text_ok X r \<longleftrightarrow>
     list_all utf8_ok [vp_bundle_path r, vp_session_id r, vp_hash_algorithm r, vp_head r,
       um_producer_name (vp_unsigned_metadata r), um_producer_version (vp_unsigned_metadata r),
       um_created_at (vp_unsigned_metadata r), um_ended_at (vp_unsigned_metadata r)] \<and>
     list_all violation_text_ok (vp_violations r) \<and> list_all violation_text_ok (vp_warnings r) \<and>
     list_all signature_text_ok (vp_signatures r) \<and> list_all operator_text_ok (vp_operators r) \<and>
     list_all (capture_text_ok X) (opt_list (vp_capture r)) \<and>
     list_all window_text_ok (opt_list (vp_session_window r))"

lemma chars_concat_append: "list_all complete ps \<Longrightarrow> chars (concat ps @ t) = ps @ chars t"
  by (induction ps) (simp_all add: chars_complete_append)

lemma display_safe_append_iff: "display_safe s \<Longrightarrow> display_safe (s @ t) \<longleftrightarrow> display_safe t"
proof -
  assume s: "display_safe s"
  have "chars (concat (chars s) @ t) = chars s @ chars t"
  proof -
    have "list_all complete (chars s)" using s by (auto simp: display_safe_def safe_piece_def list_all_iff)
    then show ?thesis by (rule chars_concat_append)
  qed
  with s show ?thesis by (simp add: concat_chars display_safe_def)
qed

lemmas line_simps = display_safe_append_iff display_safe_sanitize show_nat_safe em_dash_safe
  list_all_printable_safe display_safe_printable

lemma capture_suffix_safe:
  "list_all (capture_text_ok X) (opt_list cf) \<Longrightarrow> display_safe (capture_human_suffix X cf)"
  by (cases cf) (auto simp: capture_human_suffix_def opt_list_def capture_text_ok_def line_simps)

lemma capture_line_safe:
  "list_all (capture_text_ok X) (opt_list cf) \<Longrightarrow> list_all display_safe (opt_list (capture_human_line X cf))"
  by (cases cf) (auto simp: capture_human_line_def opt_list_def capture_text_ok_def Let_def line_simps)

lemma operator_line_safe: "operator_text_ok op \<Longrightarrow> display_safe (operator_human_line op)"
  by (simp add: operator_human_line_def operator_text_ok_def Let_def QUOTE_def line_simps)

lemma violation_line_safe: "violation_text_ok v \<Longrightarrow> display_safe (violation_line v)"
  by (simp add: violation_line_def violation_text_ok_def line_simps)

lemma signature_line_safe: "signature_text_ok s \<Longrightarrow> display_safe (signature_line s)"
  by (simp add: signature_line_def signature_text_ok_def line_simps)

lemma headline_safe:
  assumes "report_text_ok X r"
  shows "display_safe (headline X r)"
proof -
  have "list_all display_safe (verified_signer_key_ids r)"
    using assms by (auto simp: verified_signer_key_ids_def report_text_ok_def signature_text_ok_def
        list_all_iff intro!: display_safe_sanitize)
  then have "display_safe (join '', key_id='' (verified_signer_key_ids r))"
    by (intro join_safe) simp_all
  moreover have "display_safe (capture_human_suffix X (vp_capture r))"
    using assms by (intro capture_suffix_safe) (simp add: report_text_ok_def)
  ultimately show ?thesis by (simp add: headline_def Let_def line_simps)
qed

lemma list_all_map_safe:
  "list_all P xs \<Longrightarrow> (\<And>x. P x \<Longrightarrow> display_safe (f x)) \<Longrightarrow> list_all display_safe (map f xs)"
  by (auto simp: list_all_iff)

lemma detail_lines_safe:
  assumes "report_text_ok X r"
  shows "list_all display_safe (detail_lines X r)"
proof -
  note ok = assms [unfolded report_text_ok_def]
  have ops: "list_all display_safe (operator_human_block (vp_operators r))"
    using ok list_all_map_safe [of operator_text_ok _ operator_human_line, OF _ operator_line_safe]
    by (simp add: operator_human_block_def)
  have vs: "list_all display_safe (map violation_line (vp_violations r))"
    "list_all display_safe (map violation_line (vp_warnings r))"
    "list_all display_safe (map signature_line (vp_signatures r))"
    using ok list_all_map_safe violation_line_safe signature_line_safe by metis+
  have win: "list_all display_safe (case vp_session_window r of None \<Rightarrow> []
      | Some w \<Rightarrow> [''session window (event timestamps, producer clock): '' @ sw_first_event_at w @ '' .. ''
                     @ sw_last_event_at w])"
    using ok by (cases "vp_session_window r") (simp_all add: opt_list_def window_text_ok_def line_simps)
  have cap: "list_all display_safe (opt_list (capture_human_line X (vp_capture r)))"
    using ok by (intro capture_line_safe) simp
  show ?thesis
    unfolding detail_lines_def list_all_append
    using ok ops vs win cap by (simp add: line_simps)
qed

lemma human_lines_safe: "report_text_ok X r \<Longrightarrow> list_all display_safe (human_lines X r)"
proof -
  assume ok: "report_text_ok X r"
  have "list_all display_safe (map (\<lambda>line. ''  '' @ line) (detail_lines X r))"
    by (rule list_all_map_safe [OF detail_lines_safe [OF ok]]) simp
  with ok headline_safe [OF ok] show ?thesis
    by (simp add: human_lines_def report_text_ok_def line_simps)
qed

end
