(* ===== verification/Policy.thy ===== *)
theory Policy
  imports Events
begin

text \<open>
  \<open>akmon-core/src/permission.rs\<close>, \<open>policy.rs\<close> and \<open>policy_profiles.rs\<close>: permission requests, rule
  sets, the lexical normalisation of paths, rule evaluation, the policy engine and its audit records,
  and the built-in profiles with their merge. Glob matching (crate \<open>glob\<close>) is a parameter: whether a
  pattern parses, and whether it matches a subject, case-sensitively or not.
\<close>

section \<open>Data\<close>

datatype permission =
    ReadFile string
  | ListDirectory string
  | WriteFile string
  | ExecuteCommand string string
  | NetworkFetch string

datatype policy_verdict = Allow | Deny

record pattern_rules =
  pr_allow :: "string list"
  pr_deny :: "string list"

record policy_config =
  pc_read :: pattern_rules
  pc_write :: pattern_rules
  pc_shell :: pattern_rules
  pc_network :: pattern_rules
  pc_tools :: pattern_rules
  pc_mcp_servers :: pattern_rules
  pc_mcp_tools :: pattern_rules

text \<open>The crate \<open>glob\<close>: \<open>Pattern::new(p).is_ok()\<close> and \<open>matches_with\<close>, the flag is \<open>case_sensitive\<close>.\<close>

record glob_ext =
  gl_parses :: "string \<Rightarrow> bool"
  gl_matches :: "bool \<Rightarrow> string \<Rightarrow> string \<Rightarrow> bool"

record rule_match =
  rm_pattern :: string
  rm_specificity :: nat
  rm_index :: nat

definition tick :: string where
  "tick = [CHR 0x60]"

section \<open>Paths as policy subjects\<close>

definition slash :: char where
  "slash = CHR 0x2F"

definition backslash_to_slash :: "string \<Rightarrow> string" where
  "backslash_to_slash s = map (\<lambda>c. if c = CHR 0x5C then slash else c) s"

definition is_ascii_alphabetic :: "char \<Rightarrow> bool" where
  "is_ascii_alphabetic c \<longleftrightarrow>
     (let n = of_char c :: nat in 65 \<le> n \<and> n \<le> 90 \<or> 97 \<le> n \<and> n \<le> 122)"

text \<open>The text before the first separator, and what follows it: \<open>splitn\<close> step by step.\<close>

fun split_first :: "char \<Rightarrow> string \<Rightarrow> string \<times> string option" where
  "split_first c [] = ([], None)"
| "split_first c (x # xs) =
     (if x = c then ([], Some xs) else (let (a, b) = split_first c xs in (x # a, b)))"

definition split_absolute_prefix :: "string \<Rightarrow> (string \<times> string) option" where
  "split_absolute_prefix raw =
     (if starts_with [slash, slash] raw then
        (let (server, r1) = split_first slash (drop 2 raw);
             (share, r2) = split_first slash (concat (opt_list r1)) in
         Some ([slash, slash] @ server @ [slash] @ share @ [slash], concat (opt_list r2)))
      else if starts_with [slash] raw then Some ([slash], drop 1 raw)
      else case raw of
        drive # colon # rest \<Rightarrow>
          (if colon = CHR '':'' \<and> is_ascii_alphabetic drive
           then Some ([drive, CHR '':'', slash], dropWhile (\<lambda>c. c = slash) rest)
           else None)
      | _ \<Rightarrow> None)"

text \<open>The loop over the segments; \<open>parts\<close> is the vector of segments kept so far, \<open>rooted\<close> tells whether
  there is a root prefix. \<open>None\<close> is \<open>PathNormalizeError::EscapesRoot\<close>.\<close>

fun normalize_segments :: "bool \<Rightarrow> string list \<Rightarrow> string list \<Rightarrow> string list option" where
  "normalize_segments rooted parts [] = Some parts"
| "normalize_segments rooted parts (seg # segs) =
     (if seg = [] \<or> seg = ''.'' then normalize_segments rooted parts segs
      else if seg = ''..'' then
        (if parts = [] \<and> \<not> rooted then None
         else normalize_segments rooted (butlast parts) segs)
      else normalize_segments rooted (parts @ [seg]) segs)"

definition normalize_path_for_policy :: "string \<Rightarrow> string option" where
  "normalize_path_for_policy path =
     (let raw = backslash_to_slash path in
      case split_absolute_prefix raw of
        Some (prefix, rest) \<Rightarrow>
          map_option (\<lambda>parts. prefix @ join [slash] parts)
            (normalize_segments True [] (split_on slash rest))
      | None \<Rightarrow>
          map_option (\<lambda>parts. if parts = [] then ''.'' else join [slash] parts)
            (normalize_segments False [] (split_on slash raw)))"

text \<open>\<open>canon\<close> is \<open>std::fs::canonicalize(workspace_root).ok()\<close>, \<open>joined\<close> the path joined to the root.\<close>

definition strip_prefix :: "string \<Rightarrow> string \<Rightarrow> string option" where
  "strip_prefix p s = (if starts_with p s then Some (drop (length p) s) else None)"

definition ends_with_slash :: "string \<Rightarrow> bool" where
  "ends_with_slash s \<longleftrightarrow> s \<noteq> [] \<and> last s = slash"

fun relativize :: "string list \<Rightarrow> string \<Rightarrow> string" where
  "relativize [] subject = subject"
| "relativize (root # roots) subject =
     (if split_absolute_prefix root = None then relativize roots subject
      else if subject = root then ''.''
      else
        (case strip_prefix (if ends_with_slash root then root else root @ [slash]) subject of
           Some rel \<Rightarrow> if rel = [] then ''.'' else rel
         | None \<Rightarrow> relativize roots subject))"

definition path_is_absolute :: "string \<Rightarrow> bool" where
  "path_is_absolute p \<longleftrightarrow> starts_with [slash] p"

text \<open>\<open>Path::join\<close> on Unix.\<close>

definition path_join :: "string \<Rightarrow> string \<Rightarrow> string" where
  "path_join base p =
     (if path_is_absolute p then p
      else if base = [] \<or> ends_with_slash base then base @ p
      else base @ [slash] @ p)"

definition policy_subject_path :: "string option \<Rightarrow> string \<Rightarrow> string \<Rightarrow> string" where
  "policy_subject_path canon path workspace_root =
     (let finish = (\<lambda>subject.
            let roots = opt_list (normalize_path_for_policy workspace_root);
                roots' = (case canon of
                    None \<Rightarrow> roots
                  | Some c \<Rightarrow>
                      (case normalize_path_for_policy c of
                         Some r \<Rightarrow> if r \<in> set roots then roots else roots @ [r]
                       | None \<Rightarrow> roots)) in
            relativize roots' subject) in
      case normalize_path_for_policy path of
        Some s \<Rightarrow> if split_absolute_prefix s = None then path else finish s
      | None \<Rightarrow>
          (case normalize_path_for_policy (path_join workspace_root path) of
             Some s \<Rightarrow> finish s
           | None \<Rightarrow> path))"

text \<open>\<open>Path::components\<close> on Unix, the equality and the prefix order of \<open>Path\<close> values.\<close>

datatype path_component = RootDir | CurDir | ParentDir | Normal string

definition component_of :: "string \<Rightarrow> path_component option" where
  "component_of seg =
     (if seg = [] \<or> seg = ''.'' then None
      else Some (if seg = ''..'' then ParentDir else Normal seg))"

definition path_components :: "string \<Rightarrow> path_component list" where
  "path_components p =
     (if path_is_absolute p
      then RootDir # List.map_filter component_of (split_on slash p)
      else (if hd (split_on slash p) = ''.'' then [CurDir] else [])
        @ List.map_filter component_of (split_on slash p))"

definition path_eq :: "string \<Rightarrow> string \<Rightarrow> bool" where
  "path_eq a b \<longleftrightarrow> path_components a = path_components b"

fun list_prefix :: "'a list \<Rightarrow> 'a list \<Rightarrow> bool" where
  "list_prefix [] ys = True"
| "list_prefix (x # xs) [] = False"
| "list_prefix (x # xs) (y # ys) = (x = y \<and> list_prefix xs ys)"

definition path_starts_with :: "string \<Rightarrow> string \<Rightarrow> bool" where
  "path_starts_with p base \<longleftrightarrow> list_prefix (path_components base) (path_components p)"

definition policy_subjects_equivalent :: "string \<Rightarrow> string \<Rightarrow> bool" where
  "policy_subjects_equivalent a b \<longleftrightarrow>
     (case (normalize_path_for_policy a, normalize_path_for_policy b) of
        (Some x, Some y) \<Rightarrow> x = y
      | _ \<Rightarrow> path_eq a b)"

section \<open>Rules\<close>

text \<open>Characters of a UTF-8 string are counted by their first bytes; the specificity leaves out the
  glob operators.\<close>

definition is_char_start :: "char \<Rightarrow> bool" where
  "is_char_start c \<longleftrightarrow> \<not> (128 \<le> (of_char c :: nat) \<and> (of_char c :: nat) < 192)"

definition pattern_specificity :: "string \<Rightarrow> nat" where
  "pattern_specificity pattern =
     length (filter (\<lambda>c. is_char_start c \<and> c \<notin> set ''*?[]{}!'') pattern)"

text \<open>\<open>max_by\<close> with the order of specificity, then of the earlier declaration; the last of equal
  maxima is returned.\<close>

definition rule_le :: "rule_match \<Rightarrow> rule_match \<Rightarrow> bool" where
  "rule_le a b \<longleftrightarrow>
     rm_specificity a < rm_specificity b \<or>
     rm_specificity a = rm_specificity b \<and> rm_index b \<le> rm_index a"

fun max_rule :: "rule_match list \<Rightarrow> rule_match option" where
  "max_rule [] = None"
| "max_rule (m # ms) = Some (fold (\<lambda>b a. if rule_le a b then b else a) ms m)"

definition best_pattern_match_with ::
    "'x glob_ext_scheme \<Rightarrow> bool \<Rightarrow> string list \<Rightarrow> string \<Rightarrow> rule_match option" where
  "best_pattern_match_with G case_sensitive patterns subject =
     max_rule (List.map_filter (\<lambda>(idx, pattern).
         if \<not> gl_parses G pattern then None
         else if \<not> gl_matches G case_sensitive pattern subject then None
         else Some \<lparr>rm_pattern = pattern, rm_specificity = pattern_specificity pattern, rm_index = idx\<rparr>)
       (enumerate 0 patterns))"

definition best_pattern_match ::
    "'x glob_ext_scheme \<Rightarrow> string list \<Rightarrow> string \<Rightarrow> rule_match option" where
  "best_pattern_match G patterns subject = best_pattern_match_with G True patterns subject"

definition best_prefix_match :: "string list \<Rightarrow> string \<Rightarrow> rule_match option" where
  "best_prefix_match prefixes subject =
     max_rule (List.map_filter (\<lambda>(idx, prefix).
         let normalized = trim_ws prefix in
         if normalized = [] \<or> \<not> starts_with normalized subject then None
         else Some \<lparr>rm_pattern = normalized, rm_specificity = length normalized, rm_index = idx\<rparr>)
       (enumerate 0 prefixes))"

definition rule_text :: "string \<Rightarrow> string \<Rightarrow> string \<Rightarrow> string \<Rightarrow> rule_match \<Rightarrow> string" where
  "rule_text intro scope subject_kind subject m =
     intro @ '': '' @ scope @ '' matched '' @ (if intro = ''denied'' then ''deny'' else ''allow'')
       @ '' rule '' @ tick @ rm_pattern m @ tick @ '' for '' @ subject_kind @ '' '' @ tick @ subject @ tick
       @ '' (specificity='' @ show_nat (rm_specificity m) @ '', rule_index='' @ show_nat (rm_index m) @ '')''"

definition evaluate_matches ::
    "string \<Rightarrow> string \<Rightarrow> string \<Rightarrow> rule_match option \<Rightarrow> rule_match option \<Rightarrow> policy_verdict \<times> string" where
  "evaluate_matches scope subject_kind subject allow_match deny_match =
     (case deny_match of
        Some m \<Rightarrow> (Deny, rule_text ''denied'' scope subject_kind subject m)
      | None \<Rightarrow>
          (case allow_match of
             Some m \<Rightarrow> (Allow, rule_text ''allowed'' scope subject_kind subject m)
           | None \<Rightarrow>
               (Deny, ''denied: no '' @ scope @ '' allow rule matched '' @ subject_kind @ '' '' @ tick @ subject @ tick)))"

definition evaluate_pattern_rules ::
    "'x glob_ext_scheme \<Rightarrow> string \<Rightarrow> string \<Rightarrow> string \<Rightarrow> pattern_rules \<Rightarrow> policy_verdict \<times> string" where
  "evaluate_pattern_rules G scope subject_kind subject rules =
     evaluate_matches scope subject_kind subject (best_pattern_match G (pr_allow rules) subject)
       (best_pattern_match G (pr_deny rules) subject)"

definition evaluate_path_rules ::
    "'x glob_ext_scheme \<Rightarrow> string \<Rightarrow> string \<Rightarrow> string \<Rightarrow> pattern_rules \<Rightarrow> policy_verdict \<times> string" where
  "evaluate_path_rules G scope subject_kind subject rules =
     evaluate_matches scope subject_kind subject (best_pattern_match G (pr_allow rules) subject)
       (best_pattern_match_with G False (pr_deny rules) subject)"

definition evaluate_prefix_rules ::
    "string \<Rightarrow> string \<Rightarrow> string \<Rightarrow> pattern_rules \<Rightarrow> policy_verdict \<times> string" where
  "evaluate_prefix_rules scope subject_kind subject rules =
     evaluate_matches scope subject_kind subject (best_prefix_match (pr_allow rules) subject)
       (best_prefix_match (pr_deny rules) subject)"

text \<open>The host of a URL.\<close>

fun split_once_scheme :: "string \<Rightarrow> string option" where
  "split_once_scheme [] = None"
| "split_once_scheme (c # s) =
     (if starts_with ''://'' (c # s) then Some (drop 3 (c # s)) else split_once_scheme s)"

definition extract_domain :: "string \<Rightarrow> string option" where
  "extract_domain url =
     (let without_scheme = (case split_once_scheme url of Some rest \<Rightarrow> rest | None \<Rightarrow> url);
          authority = takeWhile (\<lambda>c. c \<notin> {slash, CHR 0x3F, CHR 0x23}) without_scheme in
      if authority = [] then None
      else
        let host = (if starts_with ''['' authority \<and> drop 1 authority \<noteq> [] \<and> last authority = CHR '']''
                    then butlast (drop 1 authority)
                    else takeWhile (\<lambda>c. c \<noteq> CHR '':'') authority);
            normalized = to_ascii_lowercase (rev (dropWhile (\<lambda>c. c = CHR ''.'') (rev (trim_ws host)))) in
        if normalized = [] then None else Some normalized)"

definition deny_unnormalizable_path :: "string \<Rightarrow> string \<Rightarrow> policy_verdict \<times> string" where
  "deny_unnormalizable_path scope path =
     (Deny, ''denied: '' @ scope @ '' path '' @ tick @ path @ tick @ '': '' @
        ''path climbs above the project root via '' @ tick @ ''..'' @ tick
        @ '' and no workspace root is known to resolve it'')"

definition evaluate_path_permission ::
    "'x glob_ext_scheme \<Rightarrow> string \<Rightarrow> string \<Rightarrow> pattern_rules \<Rightarrow> policy_verdict \<times> string" where
  "evaluate_path_permission G scope path rules =
     (case normalize_path_for_policy path of
        Some subject \<Rightarrow> evaluate_path_rules G scope ''path'' subject rules
      | None \<Rightarrow> deny_unnormalizable_path scope path)"

fun evaluate_permission ::
    "'x glob_ext_scheme \<Rightarrow> policy_config \<Rightarrow> permission \<Rightarrow> policy_verdict \<times> string" where
  "evaluate_permission G cfg (ReadFile path) = evaluate_path_permission G ''filesystem.read'' path (pc_read cfg)"
| "evaluate_permission G cfg (ListDirectory path) = evaluate_path_permission G ''filesystem.read'' path (pc_read cfg)"
| "evaluate_permission G cfg (WriteFile path) = evaluate_path_permission G ''filesystem.write'' path (pc_write cfg)"
| "evaluate_permission G cfg (ExecuteCommand command cwd) =
     evaluate_prefix_rules ''shell'' ''command'' command (pc_shell cfg)"
| "evaluate_permission G cfg (NetworkFetch url) =
     (case extract_domain url of
        None \<Rightarrow> (Deny, ''denied: network URL has no valid domain: '' @ tick @ url @ tick)
      | Some domain \<Rightarrow> evaluate_pattern_rules G ''network'' ''domain'' domain (pc_network cfg))"

definition evaluate_tool_name ::
    "'x glob_ext_scheme \<Rightarrow> policy_config \<Rightarrow> string \<Rightarrow> policy_verdict \<times> string" where
  "evaluate_tool_name G cfg tool_name = evaluate_pattern_rules G ''tool'' ''name'' tool_name (pc_tools cfg)"

definition malformed_mcp :: string where
  "malformed_mcp = ''denied: malformed MCP context (missing server or tool)''"

definition trimmed_name :: "string option \<Rightarrow> string" where
  "trimmed_name n = (case n of None \<Rightarrow> [] | Some s \<Rightarrow> trim_ws s)"

definition evaluate_mcp_action ::
    "'x glob_ext_scheme \<Rightarrow> policy_config \<Rightarrow> string option \<Rightarrow> string option \<Rightarrow> policy_verdict \<times> string" where
  "evaluate_mcp_action G cfg server_name tool_name =
     (let server = trimmed_name server_name; tool = trimmed_name tool_name in
      if server = [] \<or> tool = [] then (Deny, malformed_mcp)
      else
        let (sv, sr) = evaluate_pattern_rules G ''mcp.server'' ''server'' server (pc_mcp_servers cfg) in
        if sv = Deny
        then (Deny, ''denied: MCP server policy blocked '' @ tick @ server @ tick @ '' ('' @ sr @ '')'')
        else
          let (tv, tr) = evaluate_pattern_rules G ''mcp.tool'' ''tool'' tool (pc_mcp_tools cfg) in
          if tv = Deny
          then (Deny, ''denied: MCP tool policy blocked '' @ tick @ tool @ tick @ '' ('' @ tr @ '')'')
          else (Allow, ''allowed: MCP context '' @ tick @ server @ tick @ '' / '' @ tick @ tool @ tick
                  @ '' passed server+tool rules ('' @ sr @ ''; '' @ tr @ '')''))"

definition has_tool_rules :: "policy_config \<Rightarrow> bool" where
  "has_tool_rules cfg \<longleftrightarrow> pr_allow (pc_tools cfg) \<noteq> [] \<or> pr_deny (pc_tools cfg) \<noteq> []"

definition has_mcp_rules :: "policy_config \<Rightarrow> bool" where
  "has_mcp_rules cfg \<longleftrightarrow>
     pr_allow (pc_mcp_servers cfg) \<noteq> [] \<or> pr_deny (pc_mcp_servers cfg) \<noteq> [] \<or>
     pr_allow (pc_mcp_tools cfg) \<noteq> [] \<or> pr_deny (pc_mcp_tools cfg) \<noteq> []"

section \<open>The engine\<close>

datatype policy_mode =
    DenyAll
  | Interactive
  | AutoApproveReads bool
  | AutoApproveReadsAndFetch bool
  | Configured policy_config

datatype policy_engine_error = InteractiveRequiresCaller | NotInteractive

definition policy_engine_error_to_string :: "policy_engine_error \<Rightarrow> string" where
  "policy_engine_error_to_string e =
     (case e of
        InteractiveRequiresCaller \<Rightarrow>
          ''interactive confirmation required; use resolve_interactive after the user supplies a verdict''
      | NotInteractive \<Rightarrow>
          ''resolve_interactive is only valid in Interactive, AutoApproveReads, or AutoApproveReadsAndFetch mode'')"

datatype tool_outcome_kind = ToolSuccess | ToolFailure

datatype audit_event =
    AuditPolicyEvaluation string datetime permission policy_verdict string "string option" "string option"
      "string option"
  | AuditAgentStep string datetime string
  | AuditToolDispatch string datetime string string "string option" "string option" "string option"
  | AuditToolOutcome string datetime string tool_outcome_kind string "string option" "string option"
      "string option"

record policy_decision =
  pd_allowed :: bool
  pd_reason :: string
  pd_audit :: audit_event

definition decision_from_parts ::
    "string \<Rightarrow> datetime \<Rightarrow> permission \<Rightarrow> policy_verdict \<Rightarrow> bool \<Rightarrow> string \<Rightarrow> policy_decision" where
  "decision_from_parts sid t perm verdict allowed reason =
     \<lparr>pd_allowed = allowed, pd_reason = reason,
      pd_audit = AuditPolicyEvaluation sid t perm verdict reason None None None\<rparr>"

text \<open>The parts of an automatic decision: allowed, reason, verdict.\<close>

definition auto_read :: "bool \<times> string \<times> policy_verdict" where
  "auto_read = (True, ''auto-approved read (--yes)'', Allow)"

definition write_confirmation :: "bool \<Rightarrow> policy_engine_error + bool \<times> string \<times> policy_verdict" where
  "write_confirmation confirm_writes =
     (if confirm_writes then Inl InteractiveRequiresCaller
      else Inr (False, ''requires confirmation'', Deny))"

definition configured_parts ::
    "'x glob_ext_scheme \<Rightarrow> policy_config \<Rightarrow> permission \<Rightarrow> string option \<Rightarrow> bool \<times> string \<times> policy_verdict" where
  "configured_parts G cfg perm tool_name =
     (let (verdict, r) = evaluate_permission G cfg perm in
      case tool_name of
        None \<Rightarrow> (verdict = Allow, r, verdict)
      | Some name \<Rightarrow>
          if has_tool_rules cfg
          then
            (let (tv, tr) = evaluate_tool_name G cfg name in
             if tv = Deny
             then (False, ''denied: tool '' @ tick @ name @ tick @ '' blocked before permission check ('' @ tr @ '')'', Deny)
             else (verdict = Allow, ''tool '' @ tick @ name @ tick @ '' passed tool policy ('' @ tr @ ''); '' @ r, verdict))
          else (verdict = Allow, r, verdict))"

definition evaluate_automatic_for_tool ::
    "'x glob_ext_scheme \<Rightarrow> policy_mode \<Rightarrow> datetime \<Rightarrow> string \<Rightarrow> permission \<Rightarrow> string option
     \<Rightarrow> policy_engine_error + policy_decision" where
  "evaluate_automatic_for_tool G mode t sid perm tool_name =
     res_bind (case mode of
         DenyAll \<Rightarrow> Inr (False, ''denied: PolicyEngineMode::DenyAll'', Deny)
       | Interactive \<Rightarrow> Inl InteractiveRequiresCaller
       | AutoApproveReads confirm_writes \<Rightarrow>
           (case perm of
              ReadFile _ \<Rightarrow> Inr auto_read
            | ListDirectory _ \<Rightarrow> Inr auto_read
            | NetworkFetch _ \<Rightarrow> Inr (False, ''denied: web fetch is never auto-approved (--yes)'', Deny)
            | WriteFile _ \<Rightarrow> write_confirmation confirm_writes
            | ExecuteCommand _ _ \<Rightarrow> Inl InteractiveRequiresCaller)
       | AutoApproveReadsAndFetch confirm_writes \<Rightarrow>
           (case perm of
              ReadFile _ \<Rightarrow> Inr auto_read
            | ListDirectory _ \<Rightarrow> Inr auto_read
            | NetworkFetch _ \<Rightarrow> Inr (True, ''auto-approved web fetch (--yes-web)'', Allow)
            | WriteFile _ \<Rightarrow> write_confirmation confirm_writes
            | ExecuteCommand _ _ \<Rightarrow> Inl InteractiveRequiresCaller)
       | Configured cfg \<Rightarrow> Inr (configured_parts G cfg perm tool_name))
     (\<lambda>(allowed, reason, verdict). Inr (decision_from_parts sid t perm verdict allowed reason))"

definition evaluate_automatic ::
    "'x glob_ext_scheme \<Rightarrow> policy_mode \<Rightarrow> datetime \<Rightarrow> string \<Rightarrow> permission
     \<Rightarrow> policy_engine_error + policy_decision" where
  "evaluate_automatic G mode t sid perm = evaluate_automatic_for_tool G mode t sid perm None"

definition mcp_parts ::
    "'x glob_ext_scheme \<Rightarrow> policy_config \<Rightarrow> string option \<Rightarrow> string option \<Rightarrow> string option
     \<Rightarrow> bool \<times> string \<times> policy_verdict" where
  "mcp_parts G cfg dispatch_tool_name mcp_server mcp_tool =
     (let server = trimmed_name mcp_server; tool = trimmed_name mcp_tool in
      if server = [] \<or> tool = [] then (False, malformed_mcp, Deny)
      else if \<not> has_mcp_rules cfg
      then (False, ''denied: MCP policy missing (configured mode requires explicit [mcp] allow rules)'', Deny)
      else
        let (mv, mr) = evaluate_mcp_action G cfg (Some server) (Some tool) in
        case (if has_tool_rules cfg then dispatch_tool_name else None) of
          Some name \<Rightarrow>
            (let (tv, tr) = evaluate_tool_name G cfg name in
             if tv = Deny
             then (False, ''denied: parent tool policy blocked dispatch tool '' @ tick @ name @ tick @ '' ('' @ tr @ '')'', Deny)
             else (mv = Allow, ''dispatch tool '' @ tick @ name @ tick @ '' passed parent tool policy ('' @ tr @ ''); '' @ mr, mv))
        | None \<Rightarrow> (mv = Allow, mr, mv))"

definition evaluate_mcp_automatic ::
    "'x glob_ext_scheme \<Rightarrow> policy_mode \<Rightarrow> datetime \<Rightarrow> string \<Rightarrow> string option \<Rightarrow> string option \<Rightarrow> string option
     \<Rightarrow> policy_decision" where
  "evaluate_mcp_automatic G mode t sid dispatch_tool_name mcp_server mcp_tool =
     (let (allowed, reason, verdict) =
        (case mode of
           Configured cfg \<Rightarrow> mcp_parts G cfg dispatch_tool_name mcp_server mcp_tool
         | DenyAll \<Rightarrow> (False, ''denied: parent policy mode is deny-all'', Deny)
         | Interactive \<Rightarrow>
             (False, ''denied: parent policy mode is interactive; MCP requires configured fail-closed rules'', Deny)
         | AutoApproveReads _ \<Rightarrow>
             (False, ''denied: parent policy mode is auto-approve-reads; MCP requires configured fail-closed rules'', Deny)
         | AutoApproveReadsAndFetch _ \<Rightarrow>
             (False, ''denied: parent policy mode is auto-approve-reads-and-fetch; MCP requires configured fail-closed rules'', Deny)) in
      \<lparr>pd_allowed = allowed, pd_reason = reason,
       pd_audit = AuditPolicyEvaluation sid t (NetworkFetch ''mcp://tool-call'') verdict reason
         mcp_server mcp_tool (Some reason)\<rparr>)"

definition resolve_interactive ::
    "policy_mode \<Rightarrow> datetime \<Rightarrow> string \<Rightarrow> permission \<Rightarrow> policy_verdict \<Rightarrow> string
     \<Rightarrow> policy_engine_error + policy_decision" where
  "resolve_interactive mode t sid perm verdict reason =
     (case mode of
        DenyAll \<Rightarrow> Inl NotInteractive
      | Configured _ \<Rightarrow> Inl NotInteractive
      | _ \<Rightarrow> Inr (decision_from_parts sid t perm verdict (verdict = Allow) reason))"

section \<open>Profiles\<close>

datatype policy_profile = Dev | Staging | Prod

definition no_rules :: pattern_rules where
  "no_rules = \<lparr>pr_allow = [], pr_deny = []\<rparr>"

definition built_in_policy_profile :: "policy_profile \<Rightarrow> policy_config" where
  "built_in_policy_profile profile =
     (case profile of
        Dev \<Rightarrow>
          \<lparr>pc_read = \<lparr>pr_allow = [''**''], pr_deny = [''.git/**'', ''**/.env*'']\<rparr>,
           pc_write = \<lparr>pr_allow = [''src/**'', ''tests/**'', ''docs/**'', ''README.md'', ''Cargo.toml'', ''Cargo.lock'',
                                   ''.akmon/specs/**'', ''.akmon/plans/**''],
                       pr_deny = [''.git/**'', ''**/*.pem'', ''**/*.key'', ''**/.env*'']\<rparr>,
           pc_shell = \<lparr>pr_allow = [''cargo '', ''rustfmt '', ''git status'', ''git diff'', ''git log'', ''npm test'',
                                   ''pnpm test'', ''pytest ''],
                       pr_deny = [''rm -rf '', ''git push --force'', ''git push -f'', ''sudo '']\<rparr>,
           pc_network = \<lparr>pr_allow = [''api.github.com'', ''raw.githubusercontent.com'', ''docs.rs'', ''crates.io''],
                         pr_deny = [''169.254.169.254'', ''*.internal'', ''localhost'', ''127.0.0.1'']\<rparr>,
           pc_tools = \<lparr>pr_allow = [''read_*'', ''list_directory'', ''search'', ''write_file'', ''edit'', ''patch'',
                                   ''apply_patch'', ''shell'', ''web_fetch'', ''git'', ''ask_followup'', ''todo_write''],
                       pr_deny = []\<rparr>,
           pc_mcp_servers = no_rules, pc_mcp_tools = no_rules\<rparr>
      | Staging \<Rightarrow>
          \<lparr>pc_read = \<lparr>pr_allow = [''src/**'', ''tests/**'', ''docs/**'', ''Cargo.toml'', ''Cargo.lock'', ''README.md'',
                                  ''.akmon/specs/**''],
                      pr_deny = [''.git/**'', ''**/.env*'']\<rparr>,
           pc_write = \<lparr>pr_allow = [''src/**'', ''tests/**'', ''docs/**'', ''.akmon/specs/**'', ''.akmon/plans/**''],
                       pr_deny = [''.git/**'', ''**/*.pem'', ''**/*.key'', ''**/.env*'']\<rparr>,
           pc_shell = \<lparr>pr_allow = [''cargo test'', ''cargo fmt'', ''cargo clippy'', ''git status'', ''git diff''],
                       pr_deny = [''rm -rf '', ''git commit'', ''git push'', ''sudo '']\<rparr>,
           pc_network = \<lparr>pr_allow = [''api.github.com'', ''docs.rs''],
                         pr_deny = [''169.254.169.254'', ''*.internal'', ''localhost'', ''127.0.0.1'']\<rparr>,
           pc_tools = \<lparr>pr_allow = [''read_*'', ''list_directory'', ''search'', ''write_file'', ''edit'', ''patch'',
                                   ''apply_patch'', ''ask_followup'', ''todo_write''],
                       pr_deny = [''web_fetch'', ''git'', ''spawn_subagent'']\<rparr>,
           pc_mcp_servers = no_rules, pc_mcp_tools = no_rules\<rparr>
      | Prod \<Rightarrow>
          \<lparr>pc_read = \<lparr>pr_allow = [''src/**'', ''docs/**'', ''Cargo.toml'', ''Cargo.lock'', ''README.md'', ''.akmon/specs/**''],
                      pr_deny = [''.git/**'', ''**/.env*'']\<rparr>,
           pc_write = \<lparr>pr_allow = [], pr_deny = [''**'']\<rparr>,
           pc_shell = no_rules,
           pc_network = \<lparr>pr_allow = [], pr_deny = [''**'']\<rparr>,
           pc_tools = \<lparr>pr_allow = [''read_*'', ''list_directory'', ''search'', ''ask_followup'', ''todo_write''],
                       pr_deny = [''write_*'', ''edit'', ''patch'', ''apply_patch'', ''shell'', ''web_fetch'', ''git'',
                                  ''spawn_subagent'', ''memory_write'']\<rparr>,
           pc_mcp_servers = no_rules, pc_mcp_tools = no_rules\<rparr>)"

text \<open>The loop runs over the reversed vector and keeps a value the first time it is seen.\<close>

fun keep_unseen :: "string list \<Rightarrow> string list \<Rightarrow> string list" where
  "keep_unseen seen [] = []"
| "keep_unseen seen (v # vs) = (if v \<in> set seen then keep_unseen seen vs else v # keep_unseen (v # seen) vs)"

definition dedup_keep_last :: "string list \<Rightarrow> string list" where
  "dedup_keep_last values = rev (keep_unseen [] (rev values))"

definition merge_rule_list :: "string list \<Rightarrow> string list \<Rightarrow> string list" where
  "merge_rule_list base overlay = dedup_keep_last (base @ overlay)"

definition merge_rules :: "pattern_rules \<Rightarrow> pattern_rules \<Rightarrow> pattern_rules" where
  "merge_rules base overlay =
     \<lparr>pr_allow = merge_rule_list (pr_allow base) (pr_allow overlay),
      pr_deny = merge_rule_list (pr_deny base) (pr_deny overlay)\<rparr>"

definition merge_policy_config :: "policy_config \<Rightarrow> policy_config \<Rightarrow> policy_config" where
  "merge_policy_config base overlay =
     \<lparr>pc_read = merge_rules (pc_read base) (pc_read overlay),
      pc_write = merge_rules (pc_write base) (pc_write overlay),
      pc_shell = merge_rules (pc_shell base) (pc_shell overlay),
      pc_network = merge_rules (pc_network base) (pc_network overlay),
      pc_tools = merge_rules (pc_tools base) (pc_tools overlay),
      pc_mcp_servers = merge_rules (pc_mcp_servers base) (pc_mcp_servers overlay),
      pc_mcp_tools = merge_rules (pc_mcp_tools base) (pc_mcp_tools overlay)\<rparr>"

end
