(* ===== verification/Agent_Fsm.thy ===== *)
theory Agent_Fsm
  imports Bundle_Manifest Policy
begin

text \<open>
  The agent state machine: \<open>akmon-core/src/fsm\<close> (states, events, errors, the transition table
  \<open>validate_transition\<close>, the iteration ceiling) and the part of \<open>akmon-query/src/session.rs\<close> that
  executes it (\<open>next_state_after\<close>, \<open>apply_event\<close>, \<open>prepare_for_new_user_turn\<close>). The cost estimate,
  which computes with floating-point numbers, and the derived debug text of a state are parameters.
\<close>

section \<open>Errors, states, events\<close>

datatype agent_error =
    IterationLimitReached u32
  | ModelError string
  | ToolError string string
  | PolicyDenied string string
  | ResponseTruncated
  | SessionFailed string
  | InvalidTransition string string

definition agent_error_to_string :: "agent_error \<Rightarrow> string" where
  "agent_error_to_string e =
     (case e of
        IterationLimitReached limit \<Rightarrow> ''iteration limit reached (limit='' @ show_nat (unat limit) @ '')''
      | ModelError m \<Rightarrow> ''model error: '' @ m
      | ToolError t m \<Rightarrow> ''tool '' @ [CHR 0x27] @ t @ [CHR 0x27] @ '' failed: '' @ m
      | PolicyDenied p r \<Rightarrow> ''policy denied ('' @ p @ ''): '' @ r
      | ResponseTruncated \<Rightarrow> ''model response truncated''
      | SessionFailed m \<Rightarrow> ''session failed: '' @ m
      | InvalidTransition a b \<Rightarrow> ''invalid transition from '' @ a @ '' to '' @ b)"

datatype agent_state =
    Idle
  | Planning string u32
  | Thinking u32
  | ToolExecution u32
  | AwaitingConfirmation u32
  | Summarizing u32
  | Complete
  | Failed agent_error bool

definition agent_state_to_string :: "agent_state \<Rightarrow> string" where
  "agent_state_to_string s =
     (case s of
        Idle \<Rightarrow> ''Idle''
      | Planning task n \<Rightarrow> ''Planning(task='' @ task @ '', iteration='' @ show_nat (unat n) @ '')''
      | Thinking n \<Rightarrow> ''Thinking(iteration='' @ show_nat (unat n) @ '')''
      | ToolExecution n \<Rightarrow> ''ToolExecution(iteration='' @ show_nat (unat n) @ '')''
      | AwaitingConfirmation n \<Rightarrow> ''AwaitingConfirmation(iteration='' @ show_nat (unat n) @ '')''
      | Summarizing n \<Rightarrow> ''Summarizing(iteration='' @ show_nat (unat n) @ '')''
      | Complete \<Rightarrow> ''Complete''
      | Failed _ _ \<Rightarrow> ''Failed'')"

datatype agent_event =
    TextDelta string
  | ToolCallDispatched string string json
  | ToolCallCompleted string string bool string
  | QuestionRequired string string "string list"
  | ConfirmationRequired string "string option"
  | SummarizationStarted
  | ContextSummarized nat nat
  | StatusInfo string
  | MicrocompactEstimate u32
  | IterationStarted u32 u32
  | Done
  | UsageReport u32 u32 u32 u32
  | ProviderConfirmed string string
  | ErrorEvent agent_error bool

definition show_bool :: "bool \<Rightarrow> string" where
  "show_bool b = (if b then ''true'' else ''false'')"

definition agent_event_to_string :: "agent_event \<Rightarrow> string" where
  "agent_event_to_string e =
     (case e of
        TextDelta _ \<Rightarrow> ''TextDelta''
      | ToolCallDispatched _ name _ \<Rightarrow> ''ToolCallDispatched('' @ name @ '')''
      | ToolCallCompleted _ name success message \<Rightarrow>
          ''ToolCallCompleted('' @ name @ '', success='' @ show_bool success @ '', message='' @ message @ '')''
      | QuestionRequired _ _ _ \<Rightarrow> ''QuestionRequired''
      | ConfirmationRequired _ _ \<Rightarrow> ''ConfirmationRequired''
      | StatusInfo message \<Rightarrow> ''StatusInfo('' @ message @ '')''
      | MicrocompactEstimate n \<Rightarrow> ''MicrocompactEstimate('' @ show_nat (unat n) @ '')''
      | SummarizationStarted \<Rightarrow> ''SummarizationStarted''
      | ContextSummarized _ _ \<Rightarrow> ''ContextSummarized''
      | IterationStarted n mx \<Rightarrow> ''IterationStarted(n='' @ show_nat (unat n) @ '', max='' @ show_nat (unat mx) @ '')''
      | Done \<Rightarrow> ''Done''
      | UsageReport inp _ cc cr \<Rightarrow>
          ''UsageReport(input='' @ show_nat (unat inp) @ '', cache_read='' @ show_nat (unat cr)
          @ '', cache_write='' @ show_nat (unat cc) @ '')''
      | ErrorEvent err _ \<Rightarrow> ''Error('' @ agent_error_to_string err @ '')''
      | ProviderConfirmed provider _ \<Rightarrow> ''ProviderConfirmed('' @ provider @ '')'')"

section \<open>The transition table\<close>

definition invalid_transition :: "agent_state \<Rightarrow> agent_event \<Rightarrow> agent_error" where
  "invalid_transition from ev = InvalidTransition (agent_state_to_string from) (agent_event_to_string ev)"

definition validate_transition :: "agent_state \<Rightarrow> agent_event \<Rightarrow> agent_error + unit" where
  "validate_transition from ev =
     (case (from, ev) of
        (Idle, TextDelta _) \<Rightarrow> Inr ()
      | (Idle, IterationStarted n _) \<Rightarrow> (if n = 1 then Inr () else Inl (invalid_transition from ev))
      | (Planning _ _, TextDelta _) \<Rightarrow> Inr ()
      | (Planning _ _, UsageReport _ _ _ _) \<Rightarrow> Inr ()
      | (Thinking _, UsageReport _ _ _ _) \<Rightarrow> Inr ()
      | (ToolExecution _, UsageReport _ _ _ _) \<Rightarrow> Inr ()
      | (Planning _ _, ProviderConfirmed _ _) \<Rightarrow> Inr ()
      | (Thinking _, ProviderConfirmed _ _) \<Rightarrow> Inr ()
      | (Planning _ _, StatusInfo _) \<Rightarrow> Inr ()
      | (Thinking _, StatusInfo _) \<Rightarrow> Inr ()
      | (ToolExecution _, StatusInfo _) \<Rightarrow> Inr ()
      | (Summarizing _, StatusInfo _) \<Rightarrow> Inr ()
      | (Idle, MicrocompactEstimate _) \<Rightarrow> Inr ()
      | (Planning _ _, MicrocompactEstimate _) \<Rightarrow> Inr ()
      | (Thinking _, MicrocompactEstimate _) \<Rightarrow> Inr ()
      | (ToolExecution _, MicrocompactEstimate _) \<Rightarrow> Inr ()
      | (Summarizing _, MicrocompactEstimate _) \<Rightarrow> Inr ()
      | (AwaitingConfirmation _, MicrocompactEstimate _) \<Rightarrow> Inr ()
      | (Planning _ _, SummarizationStarted) \<Rightarrow> Inr ()
      | (Thinking _, SummarizationStarted) \<Rightarrow> Inr ()
      | (Thinking _, TextDelta _) \<Rightarrow> Inr ()
      | (Planning _ _, ErrorEvent err _) \<Rightarrow>
          (case err of
             ModelError _ \<Rightarrow> Inr ()
           | PolicyDenied _ _ \<Rightarrow> Inr ()
           | IterationLimitReached _ \<Rightarrow> Inr ()
           | _ \<Rightarrow> Inl (invalid_transition from ev))
      | (Thinking _, ToolCallDispatched _ _ _) \<Rightarrow> Inr ()
      | (Thinking _, ToolCallCompleted _ _ success _) \<Rightarrow>
          (if success then Inl (invalid_transition from ev) else Inr ())
      | (Thinking _, ConfirmationRequired _ _) \<Rightarrow> Inr ()
      | (Thinking _, Done) \<Rightarrow> Inr ()
      | (Thinking _, ErrorEvent err _) \<Rightarrow>
          (case err of InvalidTransition _ _ \<Rightarrow> Inl (invalid_transition from ev) | _ \<Rightarrow> Inr ())
      | (ToolExecution _, ToolCallCompleted _ _ _ _) \<Rightarrow> Inr ()
      | (ToolExecution _, QuestionRequired _ _ _) \<Rightarrow> Inr ()
      | (ToolExecution _, ToolCallDispatched _ _ _) \<Rightarrow> Inr ()
      | (ToolExecution _, ErrorEvent err _) \<Rightarrow>
          (case err of
             ToolError _ _ \<Rightarrow> Inr ()
           | SessionFailed _ \<Rightarrow> Inr ()
           | ModelError _ \<Rightarrow> Inr ()
           | _ \<Rightarrow> Inl (invalid_transition from ev))
      | (AwaitingConfirmation _, TextDelta _) \<Rightarrow> Inr ()
      | (AwaitingConfirmation _, ErrorEvent err _) \<Rightarrow>
          (case err of SessionFailed _ \<Rightarrow> Inr () | _ \<Rightarrow> Inl (invalid_transition from ev))
      | (Summarizing _, UsageReport _ _ _ _) \<Rightarrow> Inr ()
      | (Summarizing _, ContextSummarized _ _) \<Rightarrow> Inr ()
      | (Summarizing _, ErrorEvent err _) \<Rightarrow>
          (case err of
             SessionFailed _ \<Rightarrow> Inr ()
           | ModelError _ \<Rightarrow> Inr ()
           | _ \<Rightarrow> Inl (invalid_transition from ev))
      | _ \<Rightarrow> Inl (invalid_transition from ev))"

record agent_config =
  ac_max_iterations :: u32
  ac_session_id :: string

definition check_iteration_limit :: "u32 \<Rightarrow> agent_config \<Rightarrow> agent_error + unit" where
  "check_iteration_limit iteration config =
     (if iteration \<ge> ac_max_iterations config
      then Inl (IterationLimitReached (ac_max_iterations config)) else Inr ())"

section \<open>The executor\<close>

record tool_call_summary =
  ts_name :: string
  ts_success :: bool
  ts_message :: string

record usage_report =
  ur_input_tokens :: u32
  ur_output_tokens :: u32
  ur_cache_creation_tokens :: u32
  ur_cache_read_tokens :: u32

record mcp_context =
  mc_server :: string
  mc_tool :: string

text \<open>The fields of \<open>AgentSession\<close> the executor reads and writes; \<open>as_cost\<close> is the floating-point
  cost state, \<open>as_receiver_open\<close> tells whether the event receiver is still there and \<open>as_sent\<close> is
  what it was sent.\<close>

record 'c agent_session =
  as_config :: agent_config
  as_state :: agent_state
  as_batch_remaining :: u32
  as_post_summary_resume :: "agent_state option"
  as_last_usage :: "usage_report option"
  as_total_input_tokens :: u32
  as_total_cache_read_tokens :: u32
  as_total_output_tokens :: u32
  as_cost :: 'c
  as_audit_log :: "audit_event list"
  as_tool_call_summaries :: "tool_call_summary list"
  as_mcp_call_context :: "(string, mcp_context) hash_map"
  as_receiver_open :: bool
  as_sent :: "agent_event list"

definition saturating_add32 :: "u32 \<Rightarrow> u32 \<Rightarrow> u32" where
  "saturating_add32 a b = (if unat a + unat b < 2 ^ 32 then a + b else - 1)"

text \<open>\<open>next_state_after\<close> returns the next state or the error, and updates the batch counter and the
  state to resume.\<close>

definition next_state_after ::
    "'c agent_session \<Rightarrow> agent_event \<Rightarrow> string \<Rightarrow> 'c agent_session \<times> (agent_error + agent_state)" where
  "next_state_after g ev task0 =
     (let stay = (g, Inr (as_state g)) in
      case (as_state g, ev) of
        (Idle, IterationStarted _ _) \<Rightarrow> (g, Inr (Planning task0 0))
      | (Planning _ n, TextDelta _) \<Rightarrow> (g, Inr (Thinking n))
      | (Thinking n, TextDelta _) \<Rightarrow> (g, Inr (Thinking n))
      | (Planning _ _, UsageReport _ _ _ _) \<Rightarrow> stay
      | (Thinking _, UsageReport _ _ _ _) \<Rightarrow> stay
      | (ToolExecution _, UsageReport _ _ _ _) \<Rightarrow> stay
      | (Summarizing _, UsageReport _ _ _ _) \<Rightarrow> stay
      | (Planning _ _, ProviderConfirmed _ _) \<Rightarrow> stay
      | (Thinking _, ProviderConfirmed _ _) \<Rightarrow> stay
      | (Planning _ _, StatusInfo _) \<Rightarrow> stay
      | (Thinking _, StatusInfo _) \<Rightarrow> stay
      | (ToolExecution _, StatusInfo _) \<Rightarrow> stay
      | (ToolExecution _, QuestionRequired _ _ _) \<Rightarrow> stay
      | (Summarizing _, StatusInfo _) \<Rightarrow> stay
      | (Idle, MicrocompactEstimate _) \<Rightarrow> stay
      | (Planning _ _, MicrocompactEstimate _) \<Rightarrow> stay
      | (Thinking _, MicrocompactEstimate _) \<Rightarrow> stay
      | (ToolExecution _, MicrocompactEstimate _) \<Rightarrow> stay
      | (Summarizing _, MicrocompactEstimate _) \<Rightarrow> stay
      | (AwaitingConfirmation _, MicrocompactEstimate _) \<Rightarrow> stay
      | (Thinking _, Done) \<Rightarrow> (g, Inr Complete)
      | (Thinking n, ToolCallDispatched _ _ _) \<Rightarrow> (g, Inr (ToolExecution n))
      | (ToolExecution n, ToolCallDispatched _ _ _) \<Rightarrow> (g, Inr (ToolExecution n))
      | (ToolExecution n, ToolCallCompleted _ _ _ _) \<Rightarrow>
          (if as_batch_remaining g \<le> 1 then (g\<lparr>as_batch_remaining := 0\<rparr>, Inr (Thinking n))
           else (g\<lparr>as_batch_remaining := as_batch_remaining g - 1\<rparr>, Inr (ToolExecution n)))
      | (Thinking n, ToolCallCompleted _ _ success _) \<Rightarrow>
          (if success then (g, Inl (invalid_transition (as_state g) ev)) else (g, Inr (Thinking n)))
      | (Thinking n, ConfirmationRequired _ _) \<Rightarrow> (g, Inr (AwaitingConfirmation n))
      | (AwaitingConfirmation n, TextDelta _) \<Rightarrow> (g, Inr (Thinking n))
      | (AwaitingConfirmation _, ErrorEvent err recoverable) \<Rightarrow>
          (case err of
             SessionFailed _ \<Rightarrow> (g, Inr (Failed err recoverable))
           | _ \<Rightarrow> (g, Inl (invalid_transition (as_state g) ev)))
      | (Thinking _, ErrorEvent err recoverable) \<Rightarrow> (g, Inr (Failed err recoverable))
      | (Planning _ _, ErrorEvent err recoverable) \<Rightarrow> (g, Inr (Failed err recoverable))
      | (ToolExecution _, ErrorEvent err recoverable) \<Rightarrow> (g, Inr (Failed err recoverable))
      | (Planning _ n, SummarizationStarted) \<Rightarrow> (g, Inr (Summarizing n))
      | (Thinking n, SummarizationStarted) \<Rightarrow> (g, Inr (Summarizing n))
      | (Summarizing _, ContextSummarized _ _) \<Rightarrow>
          (case as_post_summary_resume g of
             Some s \<Rightarrow> (g\<lparr>as_post_summary_resume := None\<rparr>, Inr s)
           | None \<Rightarrow> (g, Inl (SessionFailed ''missing post_summary_resume for ContextSummarized'')))
      | (Summarizing _, ErrorEvent err recoverable) \<Rightarrow>
          (case err of
             SessionFailed _ \<Rightarrow> (g, Inr (Failed err recoverable))
           | ModelError _ \<Rightarrow> (g, Inr (Failed err recoverable))
           | _ \<Rightarrow> (g, Inl (invalid_transition (as_state g) ev)))
      | _ \<Rightarrow> (g, Inl (invalid_transition (as_state g) ev)))"

text \<open>The usage bookkeeping of \<open>apply_event\<close>; \<open>cost\<close> is \<open>accumulate_usage_cost\<close>.\<close>

definition record_usage ::
    "(u32 \<Rightarrow> u32 \<Rightarrow> u32 \<Rightarrow> 'c \<Rightarrow> 'c) \<Rightarrow> 'c agent_session \<Rightarrow> agent_event \<Rightarrow> 'c agent_session" where
  "record_usage cost g ev =
     (case ev of
        UsageReport inp out cc cr \<Rightarrow>
          g\<lparr>as_last_usage := Some \<lparr>ur_input_tokens = inp, ur_output_tokens = out,
              ur_cache_creation_tokens = cc, ur_cache_read_tokens = cr\<rparr>,
            as_total_input_tokens := saturating_add32 (as_total_input_tokens g) inp,
            as_total_cache_read_tokens := saturating_add32 (as_total_cache_read_tokens g) cr,
            as_total_output_tokens := saturating_add32 (as_total_output_tokens g) out,
            as_cost := cost inp out cr (as_cost g)\<rparr>
      | _ \<Rightarrow> g)"

text \<open>The audit rows of \<open>apply_event\<close>; the clock is read for each row.\<close>

definition audit_step ::
    "datetime \<Rightarrow> datetime \<Rightarrow> 'c agent_session \<Rightarrow> agent_event \<Rightarrow> 'c agent_session" where
  "audit_step t1 t2 g0 ev =
     (let sid = ac_session_id (as_config g0);
          g = g0\<lparr>as_audit_log := as_audit_log g0 @ [AuditAgentStep sid t1 (agent_event_to_string ev)]\<rparr> in
      case ev of
        ToolCallDispatched tid _ _ \<Rightarrow>
          (case hm_get (as_mcp_call_context g) tid of
             Some mcp \<Rightarrow>
               g\<lparr>as_audit_log := as_audit_log g @
                   [AuditToolDispatch sid t2 ''mcp_tool'' ''MCP call arguments redacted''
                      (Some (mc_server mcp)) (Some (mc_tool mcp))
                      (Some ''mcp dispatch allowed after policy evaluation'')]\<rparr>
           | None \<Rightarrow> g)
      | ToolCallCompleted tid _ success message \<Rightarrow>
          (case hm_get (as_mcp_call_context g) tid of
             Some mcp \<Rightarrow>
               g\<lparr>as_mcp_call_context := hm_remove tid (as_mcp_call_context g),
                 as_audit_log := as_audit_log g @
                   [AuditToolOutcome sid t2 ''mcp_tool'' (if success then ToolSuccess else ToolFailure) message
                      (Some (mc_server mcp)) (Some (mc_tool mcp)) None]\<rparr>
           | None \<Rightarrow> g)
      | _ \<Rightarrow> g)"

definition note_tool_summary :: "'c agent_session \<Rightarrow> agent_event \<Rightarrow> 'c agent_session" where
  "note_tool_summary g ev =
     (case ev of
        ToolCallCompleted _ name success message \<Rightarrow>
          g\<lparr>as_tool_call_summaries := as_tool_call_summaries g @
              [\<lparr>ts_name = name, ts_success = success, ts_message = message\<rparr>]\<rparr>
      | _ \<Rightarrow> g)"

definition apply_event ::
    "(u32 \<Rightarrow> u32 \<Rightarrow> u32 \<Rightarrow> 'c \<Rightarrow> 'c) \<Rightarrow> datetime \<Rightarrow> datetime \<Rightarrow> string \<Rightarrow> 'c agent_session \<Rightarrow> agent_event
     \<Rightarrow> 'c agent_session \<times> (agent_error + unit)" where
  "apply_event cost t1 t2 task0 g ev =
     (case validate_transition (as_state g) ev of
        Inl err \<Rightarrow> (g, Inl err)
      | Inr _ \<Rightarrow>
          (case next_state_after (record_usage cost g ev) ev task0 of
             (g2, Inl err) \<Rightarrow> (g2, Inl err)
           | (g2, Inr s) \<Rightarrow>
               let g3 = note_tool_summary (audit_step t1 t2 (g2\<lparr>as_state := s\<rparr>) ev) ev in
               if as_receiver_open g3 then (g3\<lparr>as_sent := as_sent g3 @ [ev]\<rparr>, Inr ())
               else (g3, Inl (SessionFailed ''agent event receiver dropped''))))"

text \<open>\<open>fail_tool_batch\<close> and the state part of \<open>prepare_for_new_user_turn\<close>.\<close>

definition fail_tool_batch ::
    "(u32 \<Rightarrow> u32 \<Rightarrow> u32 \<Rightarrow> 'c \<Rightarrow> 'c) \<Rightarrow> datetime \<Rightarrow> datetime \<Rightarrow> string \<Rightarrow> 'c agent_session \<Rightarrow> string
     \<Rightarrow> 'c agent_session \<times> (agent_error + unit)" where
  "fail_tool_batch cost t1 t2 task0 g0 message =
     (let err = SessionFailed message; g = g0\<lparr>as_batch_remaining := 0\<rparr> in
      case as_state g of
        Thinking _ \<Rightarrow> (case apply_event cost t1 t2 task0 g (ErrorEvent err False) of
            (g', Inl e) \<Rightarrow> (g', Inl e) | (g', Inr _) \<Rightarrow> (g', Inl err))
      | ToolExecution _ \<Rightarrow> (case apply_event cost t1 t2 task0 g (ErrorEvent err False) of
            (g', Inl e) \<Rightarrow> (g', Inl e) | (g', Inr _) \<Rightarrow> (g', Inl err))
      | AwaitingConfirmation _ \<Rightarrow> (case apply_event cost t1 t2 task0 g (ErrorEvent err False) of
            (g', Inl e) \<Rightarrow> (g', Inl e) | (g', Inr _) \<Rightarrow> (g', Inl err))
      | _ \<Rightarrow> (g\<lparr>as_state := Failed err False\<rparr>, Inl err))"

definition restore_state_after_summarization_abort :: "'c agent_session \<Rightarrow> 'c agent_session" where
  "restore_state_after_summarization_abort g =
     (case as_post_summary_resume g of
        Some s \<Rightarrow> g\<lparr>as_post_summary_resume := None, as_state := s\<rparr>
      | None \<Rightarrow> g)"

text \<open>The entry of \<open>run_context_summarization_pass\<close>: the state to resume is recorded and
  \<open>SummarizationStarted\<close> is applied.\<close>

definition begin_summarization ::
    "(u32 \<Rightarrow> u32 \<Rightarrow> u32 \<Rightarrow> 'c \<Rightarrow> 'c) \<Rightarrow> datetime \<Rightarrow> datetime \<Rightarrow> string \<Rightarrow> 'c agent_session
     \<Rightarrow> 'c agent_session \<times> (agent_error + unit)" where
  "begin_summarization cost t1 t2 task0 g =
     (case as_state g of
        Planning _ _ \<Rightarrow>
          apply_event cost t1 t2 task0 (g\<lparr>as_post_summary_resume := Some (as_state g)\<rparr>) SummarizationStarted
      | Thinking _ \<Rightarrow>
          apply_event cost t1 t2 task0 (g\<lparr>as_post_summary_resume := Some (as_state g)\<rparr>) SummarizationStarted
      | _ \<Rightarrow> (g, Inl (SessionFailed ''context summarization requires Planning or Thinking state'')))"

section \<open>The table and the executor\<close>

text \<open>The states between which a session moves, as the table documents it.\<close>

fun iteration_of :: "agent_state \<Rightarrow> u32 option" where
  "iteration_of (Planning _ n) = Some n"
| "iteration_of (Thinking n) = Some n"
| "iteration_of (ToolExecution n) = Some n"
| "iteration_of (AwaitingConfirmation n) = Some n"
| "iteration_of (Summarizing n) = Some n"
| "iteration_of _ = None"

lemma next_state_executes:
  assumes "validate_transition (as_state g) ev = Inr ()"
  shows "(\<exists>g' s. next_state_after g ev t = (g', Inr s)) \<or>
         (as_state g = Idle \<and> (\<exists>x. ev = TextDelta x)) \<or>
         (as_post_summary_resume g = None \<and> (\<exists>n a b. as_state g = Summarizing n \<and> ev = ContextSummarized a b))"
  using assms
  by (cases "as_state g"; cases ev)
     (auto simp: validate_transition_def next_state_after_def Let_def
       split: if_splits agent_error.splits option.splits)

text \<open>\<open>prepare_for_new_user_turn\<close> on these fields; \<open>debug\<close> is the derived debug text of a state and
  \<open>zero\<close> the cost of a new turn.\<close>

definition clear_turn :: "'c \<Rightarrow> 'c agent_session \<Rightarrow> 'c agent_session" where
  "clear_turn zero g = g\<lparr>as_tool_call_summaries := [], as_cost := zero\<rparr>"

definition prepare_for_new_user_turn ::
    "'c \<Rightarrow> (agent_state \<Rightarrow> string) \<Rightarrow> 'c agent_session \<Rightarrow> 'c agent_session \<times> (agent_error + unit)" where
  "prepare_for_new_user_turn zero debug g =
     (case as_state g of
        Complete \<Rightarrow> (clear_turn zero (g\<lparr>as_state := Idle, as_batch_remaining := 0\<rparr>), Inr ())
      | Failed _ _ \<Rightarrow> (clear_turn zero (g\<lparr>as_state := Idle, as_batch_remaining := 0\<rparr>), Inr ())
      | Idle \<Rightarrow> (clear_turn zero g, Inr ())
      | _ \<Rightarrow> (g, Inl (SessionFailed (''cannot start a new turn from state '' @ debug (as_state g)))))"

section \<open>Reachable sessions\<close>

inductive fsm_step ::
    "(u32 \<Rightarrow> u32 \<Rightarrow> u32 \<Rightarrow> 'c \<Rightarrow> 'c) \<Rightarrow> 'c \<Rightarrow> (agent_state \<Rightarrow> string) \<Rightarrow> 'c agent_session \<Rightarrow> 'c agent_session \<Rightarrow> bool"
  for cost zero debug where
  step_event: "ev \<noteq> SummarizationStarted \<Longrightarrow> apply_event cost t1 t2 task0 g ev = (g', r) \<Longrightarrow>
     fsm_step cost zero debug g g'"
| step_summarize: "begin_summarization cost t1 t2 task0 g = (g', r) \<Longrightarrow> fsm_step cost zero debug g g'"
| step_abort: "as_state g = Summarizing n \<Longrightarrow>
     fsm_step cost zero debug g (restore_state_after_summarization_abort g)"
| step_batch: "fsm_step cost zero debug g (g\<lparr>as_batch_remaining := n\<rparr>)"
| step_fail: "fail_tool_batch cost t1 t2 task0 g m = (g', r) \<Longrightarrow> fsm_step cost zero debug g g'"
| step_prepare: "prepare_for_new_user_turn zero debug g = (g', r) \<Longrightarrow> fsm_step cost zero debug g g'"

inductive_cases fsm_stepE: "fsm_step cost zero debug g g'"

inductive fsm_reachable ::
    "(u32 \<Rightarrow> u32 \<Rightarrow> u32 \<Rightarrow> 'c \<Rightarrow> 'c) \<Rightarrow> 'c \<Rightarrow> (agent_state \<Rightarrow> string) \<Rightarrow> 'c agent_session \<Rightarrow> bool"
  for cost zero debug where
  fsm_init: "as_state g = Idle \<Longrightarrow> as_post_summary_resume g = None \<Longrightarrow> fsm_reachable cost zero debug g"
| fsm_next: "fsm_reachable cost zero debug g \<Longrightarrow> fsm_step cost zero debug g g' \<Longrightarrow> fsm_reachable cost zero debug g'"

text \<open>While the session summarizes, the state to resume is known, and it is the planning or thinking
  state of the same iteration.\<close>

definition resume_ok :: "agent_state \<Rightarrow> u32 \<Rightarrow> bool" where
  "resume_ok s n \<longleftrightarrow> s = Thinking n \<or> (\<exists>t. s = Planning t n)"

definition fsm_inv :: "'c agent_session \<Rightarrow> bool" where
  "fsm_inv g \<longleftrightarrow>
     (\<forall>n. as_state g = Summarizing n \<longrightarrow> (\<exists>s. as_post_summary_resume g = Some s \<and> resume_ok s n))"

lemma record_usage_fields [simp]:
  "as_state (record_usage cost g ev) = as_state g"
  "as_post_summary_resume (record_usage cost g ev) = as_post_summary_resume g"
  "as_batch_remaining (record_usage cost g ev) = as_batch_remaining g"
  "as_receiver_open (record_usage cost g ev) = as_receiver_open g"
  by (simp_all add: record_usage_def split: agent_event.splits)

lemma audit_fields [simp]:
  "as_state (note_tool_summary (audit_step t1 t2 g ev) ev) = as_state g"
  "as_post_summary_resume (note_tool_summary (audit_step t1 t2 g ev) ev) = as_post_summary_resume g"
  "as_batch_remaining (note_tool_summary (audit_step t1 t2 g ev) ev) = as_batch_remaining g"
  "as_receiver_open (note_tool_summary (audit_step t1 t2 g ev) ev) = as_receiver_open g"
  by (simp_all add: note_tool_summary_def audit_step_def Let_def split: agent_event.splits option.splits)

text \<open>The executor keeps the iteration, apart from a resumed state.\<close>

lemma next_state_Inr:
  assumes "next_state_after g ev t = (g', Inr s)"
  shows "(\<exists>n. s = Summarizing n) \<longrightarrow> as_state g = s \<or> ev = SummarizationStarted \<or>
           as_post_summary_resume g = Some s"
    and "as_post_summary_resume g' =
           (if \<exists>n a b. as_state g = Summarizing n \<and> ev = ContextSummarized a b then None
            else as_post_summary_resume g)"
    and "as_receiver_open g' = as_receiver_open g"
    and "as_state g' = as_state g"
  using assms
  by (cases "as_state g"; cases ev;
      auto simp: next_state_after_def Let_def split: if_splits agent_error.splits option.splits)+

lemma next_state_Inl:
  assumes "next_state_after g ev t = (g', Inl e)"
  shows "g' = g"
  using assms
  by (cases "as_state g"; cases ev;
      auto simp: next_state_after_def Let_def split: if_splits agent_error.splits option.splits)

lemma apply_event_cases:
  assumes "apply_event cost t1 t2 task0 g ev = (g', r)"
  shows "(as_state g' = as_state g \<and> as_post_summary_resume g' = as_post_summary_resume g \<and> r \<noteq> Inr ()) \<or>
    (validate_transition (as_state g) ev = Inr () \<and>
     (\<exists>g2. next_state_after (record_usage cost g ev) ev task0 = (g2, Inr (as_state g')) \<and>
        as_post_summary_resume g' = as_post_summary_resume g2))"
  using assms
  by (auto simp: apply_event_def Let_def split: sum.splits prod.splits if_splits
      dest!: next_state_Inl)

lemma next_state_summarizing_stays:
  assumes "next_state_after g ev t = (g', Inr (Summarizing n))" "ev \<noteq> SummarizationStarted"
    and "fsm_inv g"
  shows "as_state g = Summarizing n \<and> as_post_summary_resume g' = as_post_summary_resume g"
  using assms
  by (cases "as_state g"; cases ev;
      fastforce simp: next_state_after_def Let_def fsm_inv_def resume_ok_def
        split: if_splits agent_error.splits option.splits)

lemma fsm_inv_event [akmon_inv]:
  assumes "fsm_inv g" "ev \<noteq> SummarizationStarted" "apply_event cost t1 t2 task0 g ev = (g', r)"
  shows "fsm_inv g'"
proof -
  have inv': "fsm_inv (record_usage cost g ev)" using assms(1) by (simp add: fsm_inv_def)
  from apply_event_cases [OF assms(3)] show ?thesis
  proof
    assume "as_state g' = as_state g \<and> as_post_summary_resume g' = as_post_summary_resume g \<and> r \<noteq> Inr ()"
    with assms(1) show ?thesis by (simp add: fsm_inv_def)
  next
    assume "validate_transition (as_state g) ev = Inr () \<and>
     (\<exists>g2. next_state_after (record_usage cost g ev) ev task0 = (g2, Inr (as_state g')) \<and>
        as_post_summary_resume g' = as_post_summary_resume g2)"
    then obtain g2 where g2: "next_state_after (record_usage cost g ev) ev task0 = (g2, Inr (as_state g'))"
      "as_post_summary_resume g' = as_post_summary_resume g2" by blast
    show ?thesis unfolding fsm_inv_def
    proof (intro allI impI)
      fix n assume "as_state g' = Summarizing n"
      with g2 next_state_summarizing_stays [OF _ assms(2) inv', of task0 g2 n] assms(1)
      show "\<exists>s. as_post_summary_resume g' = Some s \<and> resume_ok s n" by (simp add: fsm_inv_def)
    qed
  qed
qed

lemma fsm_inv_summarize [akmon_inv]:
  assumes "fsm_inv g" "begin_summarization cost t1 t2 task0 g = (g', r)"
  shows "fsm_inv g'"
  using assms
  by (auto simp: begin_summarization_def fsm_inv_def resume_ok_def apply_event_def next_state_after_def
      validate_transition_def Let_def split: agent_state.splits if_splits)

lemma fsm_inv_fail [akmon_inv]:
  assumes "fsm_inv g" "fail_tool_batch cost t1 t2 task0 g m = (g', r)"
  shows "fsm_inv g'"
proof -
  let ?g = "g\<lparr>as_batch_remaining := 0\<rparr>"
  let ?ev = "ErrorEvent (SessionFailed m) False"
  have inv: "fsm_inv ?g" using assms(1) by (simp add: fsm_inv_def)
  have "g' = ?g\<lparr>as_state := Failed (SessionFailed m) False\<rparr> \<or>
      (\<exists>q. apply_event cost t1 t2 task0 ?g ?ev = (g', q))"
    using assms(2) by (auto simp: fail_tool_batch_def Let_def split: agent_state.splits prod.splits sum.splits)
  then show ?thesis
  proof
    assume "g' = ?g\<lparr>as_state := Failed (SessionFailed m) False\<rparr>"
    then show ?thesis by (simp add: fsm_inv_def)
  next
    assume "\<exists>q. apply_event cost t1 t2 task0 ?g ?ev = (g', q)"
    then show ?thesis using fsm_inv_event [OF inv] by blast
  qed
qed

lemma fsm_inv_prepare [akmon_inv]:
  "fsm_inv g \<Longrightarrow> prepare_for_new_user_turn zero debug g = (g', r) \<Longrightarrow> fsm_inv g'"
  by (auto simp: prepare_for_new_user_turn_def clear_turn_def fsm_inv_def split: agent_state.splits)

lemma fsm_inv_abort: "fsm_inv g \<Longrightarrow> as_state g = Summarizing n \<Longrightarrow> fsm_inv (restore_state_after_summarization_abort g)"
  by (auto simp: restore_state_after_summarization_abort_def fsm_inv_def resume_ok_def)

lemma fsm_reachable_inv: "fsm_reachable cost zero debug g \<Longrightarrow> fsm_inv g"
proof (induction rule: fsm_reachable.induct)
  case (fsm_init g)
  then show ?case by (simp add: fsm_inv_def)
next
  case (fsm_next g g')
  have batch: "fsm_inv (g\<lparr>as_batch_remaining := n\<rparr>)" for n
    using fsm_next.IH by (simp add: fsm_inv_def)
  from fsm_next.hyps(2) show ?case
    by (cases rule: fsm_step.cases)
       (use fsm_next.IH batch in \<open>blast intro: fsm_inv_event fsm_inv_summarize fsm_inv_fail
          fsm_inv_prepare fsm_inv_abort\<close>)+
qed

section \<open>Tool batches\<close>

text \<open>Completions reported one after the other, by the events' data.\<close>

fun complete_calls ::
    "(u32 \<Rightarrow> u32 \<Rightarrow> u32 \<Rightarrow> 'c \<Rightarrow> 'c) \<Rightarrow> string \<Rightarrow> 'c agent_session \<Rightarrow> (datetime \<times> agent_event) list
     \<Rightarrow> 'c agent_session \<times> (agent_error + unit)" where
  "complete_calls cost task0 g [] = (g, Inr ())"
| "complete_calls cost task0 g ((t, ev) # evs) =
     (case apply_event cost t t task0 g ev of
        (g', Inl e) \<Rightarrow> (g', Inl e)
      | (g', Inr _) \<Rightarrow> complete_calls cost task0 g' evs)"

definition is_completion :: "agent_event \<Rightarrow> bool" where
  "is_completion ev \<longleftrightarrow> (case ev of ToolCallCompleted _ _ _ _ \<Rightarrow> True | _ \<Rightarrow> False)"

lemma apply_completion:
  assumes "as_state g = ToolExecution n" "is_completion ev" "as_receiver_open g"
    and "apply_event cost t t' task0 g ev = (g', r)"
  shows "r = Inr ()" "as_receiver_open g'"
    and "as_batch_remaining g' = (if as_batch_remaining g \<le> 1 then 0 else as_batch_remaining g - 1)"
    and "as_state g' = (if as_batch_remaining g \<le> 1 then Thinking n else ToolExecution n)"
  using assms
  by (auto simp: is_completion_def apply_event_def validate_transition_def next_state_after_def
      record_usage_def Let_def split: agent_event.splits if_splits)

lemma complete_calls_batch:
  assumes "as_state g = ToolExecution n" "as_receiver_open g"
    and "list_all (\<lambda>(t, ev). is_completion ev) evs" "evs \<noteq> []"
    and "as_batch_remaining g = of_nat (length evs)" "length evs < 2 ^ 32"
    and "complete_calls cost task0 g evs = (g', r)"
  shows "r = Inr () \<and> as_state g' = Thinking n \<and> as_batch_remaining g' = 0"
  using assms
proof (induction evs arbitrary: g)
  case (Cons q evs)
  obtain t ev where q: "q = (t, ev)" by (cases q)
  obtain g1 r1 where a: "apply_event cost t t task0 g ev = (g1, r1)" by (cases "apply_event cost t t task0 g ev")
  have c: "is_completion ev" using Cons.prems(3) q by simp
  note s = apply_completion [OF Cons.prems(1) c Cons.prems(2) a]
  have b: "unat (as_batch_remaining g) = Suc (length evs)"
    using Cons.prems(5,6) by (simp only: unat_of_nat length_Cons) simp
  show ?case
  proof (cases "evs = []")
    case True
    with b have "as_batch_remaining g \<le> 1" by (simp add: word_le_nat_alt)
    with s Cons.prems(7) True q a show ?thesis by simp
  next
    case False
    with b have gt: "\<not> as_batch_remaining g \<le> 1" by (simp add: word_le_nat_alt)
    have "as_batch_remaining g1 = of_nat (length evs)"
      using s(3) gt Cons.prems(5) by simp
    moreover have "as_state g1 = ToolExecution n" using s(4) gt by simp
    ultimately show ?thesis
      using Cons.IH [of g1] Cons.prems False q a s(1,2) by simp
  qed
qed simp

end
