(* ===== verification/Redb_Store.thy ===== *)
theory Redb_Store
  imports Object_Store
begin

text \<open>
  \<open>RedbObjectStore\<close> of \<open>akmon-journal/src/object_store.rs\<close> and \<open>akmon-journal/src/journal_meta.rs\<close>.
  The embedded database (crate \<open>redb\<close>) and the metadata codec (crate \<open>postcard\<close>) are parameters:
  \<open>redb_api\<close> lists the calls the code makes, each of which may fail, and \<open>redb_ok\<close> states their
  documented behaviour through a content function: reads return the committed content, a write
  changes one key of the transaction, and a transaction that is dropped before it commits leaves
  the database as it was. The store refines the \<open>object_store\<close> contract.
\<close>

section \<open>The database interface\<close>

datatype rb_key = KBytes "byte list" | KU32 u32

record 'db redb_api =
  rb_begin_write :: "'db \<Rightarrow> string + 'db"
  rb_begin_read :: "'db \<Rightarrow> string + 'db"
  rb_open_table :: "'db \<Rightarrow> string \<Rightarrow> string + 'db"
  rb_get :: "'db \<Rightarrow> string \<Rightarrow> rb_key \<Rightarrow> string + byte list option"
  rb_insert :: "'db \<Rightarrow> string \<Rightarrow> rb_key \<Rightarrow> byte list \<Rightarrow> string + 'db"
  rb_remove :: "'db \<Rightarrow> string \<Rightarrow> rb_key \<Rightarrow> string + 'db"
  rb_iter :: "'db \<Rightarrow> string \<Rightarrow> string + (rb_key \<times> byte list) list"
  rb_commit :: "'db \<Rightarrow> string + 'db"

type_synonym 'db db_content = "'db \<Rightarrow> string \<Rightarrow> rb_key \<Rightarrow> byte list option"

definition redb_ok :: "('db, 'r) redb_api_scheme \<Rightarrow> 'db db_content \<Rightarrow> bool" where
  "redb_ok R C \<longleftrightarrow>
     (\<forall>db tx. rb_begin_write R db = Inr tx \<longrightarrow> C tx = C db) \<and>
     (\<forall>db tx. rb_begin_read R db = Inr tx \<longrightarrow> C tx = C db) \<and>
     (\<forall>tx t tx'. rb_open_table R tx t = Inr tx' \<longrightarrow> C tx' = C tx) \<and>
     (\<forall>tx t k v. rb_get R tx t k = Inr v \<longrightarrow> v = C tx t k) \<and>
     (\<forall>tx t k v tx'. rb_insert R tx t k v = Inr tx' \<longrightarrow> C tx' = (C tx)(t := (C tx t)(k \<mapsto> v))) \<and>
     (\<forall>tx t k tx'. rb_remove R tx t k = Inr tx' \<longrightarrow> C tx' = (C tx)(t := (C tx t)(k := None))) \<and>
     (\<forall>tx t kvs. rb_iter R tx t = Inr kvs \<longrightarrow> distinct (map fst kvs) \<and> map_of kvs = C tx t) \<and>
     (\<forall>tx db. rb_commit R tx = Inr db \<longrightarrow> C db = C tx)"

text \<open>The laws as destruction rules, for automation.\<close>

lemma redb_begin_writeD: "rb_begin_write R db = Inr tx \<Longrightarrow> redb_ok R C \<Longrightarrow> C tx = C db"
  and redb_begin_readD: "rb_begin_read R db = Inr tx \<Longrightarrow> redb_ok R C \<Longrightarrow> C tx = C db"
  and redb_open_tableD: "rb_open_table R tx t = Inr tx' \<Longrightarrow> redb_ok R C \<Longrightarrow> C tx' = C tx"
  and redb_getD: "rb_get R tx t k = Inr v \<Longrightarrow> redb_ok R C \<Longrightarrow> v = C tx t k"
  and redb_insertD: "rb_insert R tx t k b = Inr tx' \<Longrightarrow> redb_ok R C \<Longrightarrow>
        C tx' = (C tx)(t := (C tx t)(k \<mapsto> b))"
  and redb_removeD: "rb_remove R tx t k = Inr tx' \<Longrightarrow> redb_ok R C \<Longrightarrow>
        C tx' = (C tx)(t := (C tx t)(k := None))"
  and redb_iterD: "rb_iter R tx t = Inr kvs \<Longrightarrow> redb_ok R C \<Longrightarrow>
        distinct (map fst kvs) \<and> map_of kvs = C tx t"
  and redb_commitD: "rb_commit R tx = Inr db \<Longrightarrow> redb_ok R C \<Longrightarrow> C db = C tx"
  by (simp_all add: redb_ok_def)

lemmas redb_dests = redb_begin_writeD redb_begin_readD redb_open_tableD redb_getD redb_insertD
  redb_removeD redb_commitD

definition verr :: "string \<Rightarrow> string + 'a \<Rightarrow> journal_error + 'a" where
  "verr msg r = map_err (\<lambda>e. JVerification (msg @ e)) r"

definition txerr :: "string + 'a \<Rightarrow> journal_error + 'a" where
  "txerr r = map_err JStorageTx r"

lemma verr_Inr_iff [simp]: "verr msg r = Inr x \<longleftrightarrow> r = Inr x"
  by (simp add: verr_def)

lemma txerr_Inr_iff [simp]: "txerr r = Inr x \<longleftrightarrow> r = Inr x"
  by (simp add: txerr_def)

definition OBJECTS_TABLE :: string where "OBJECTS_TABLE = ''objects''"
definition JOURNAL_META_TABLE :: string where "JOURNAL_META_TABLE = ''journal_meta''"
definition JOURNAL_META_KEY :: rb_key where "JOURNAL_META_KEY = KU32 0"

section \<open>Journal metadata\<close>

record journal_meta =
  jm_agef_version :: string
  jm_hash_algorithm :: hash_algorithm
  jm_created_at :: int
  jm_schema_version :: u32

definition SCHEMA_VERSION :: u32 where "SCHEMA_VERSION = 1"

definition journal_meta_new :: "hash_algorithm \<Rightarrow> int \<Rightarrow> journal_meta" where
  "journal_meta_new a now_epoch_seconds =
     \<lparr>jm_agef_version = AGEF_SPEC_VERSION, jm_hash_algorithm = a,
      jm_created_at = now_epoch_seconds, jm_schema_version = SCHEMA_VERSION\<rparr>"

record 'db store_api = "'db redb_api" +
  pc_meta_encode :: "journal_meta \<Rightarrow> string + byte list"
  pc_meta_decode :: "byte list \<Rightarrow> string + journal_meta"

definition meta_codec_ok :: "('db, 'r) store_api_scheme \<Rightarrow> bool" where
  "meta_codec_ok R \<longleftrightarrow> (\<forall>m b. pc_meta_encode R m = Inr b \<longrightarrow> pc_meta_decode R b = Inr m)"

definition write_meta ::
    "('db, 'r) store_api_scheme \<Rightarrow> 'db \<Rightarrow> journal_meta \<Rightarrow> journal_error + 'db" where
  "write_meta R db meta =
     res_bind (map_err JPostcard (pc_meta_encode R meta)) (\<lambda>bytes.
     res_bind (txerr (rb_begin_write R db)) (\<lambda>tx.
     res_bind (verr ''open journal_meta table failed: '' (rb_open_table R tx JOURNAL_META_TABLE)) (\<lambda>tx.
     res_bind (verr ''journal_meta insert failed: ''
                 (rb_insert R tx JOURNAL_META_TABLE JOURNAL_META_KEY bytes)) (\<lambda>tx.
     verr ''journal_meta commit failed: '' (rb_commit R tx)))))"

definition read_meta ::
    "('db, 'r) store_api_scheme \<Rightarrow> 'db \<Rightarrow> journal_error + journal_meta option" where
  "read_meta R db =
     res_bind (txerr (rb_begin_read R db)) (\<lambda>tx.
     case rb_open_table R tx JOURNAL_META_TABLE of
       Inl _ \<Rightarrow> Inr None
     | Inr tx \<Rightarrow>
         res_bind (verr ''journal_meta read failed: '' (rb_get R tx JOURNAL_META_TABLE JOURNAL_META_KEY))
           (\<lambda>value. case value of
              Some v \<Rightarrow> res_bind (map_err JPostcard (pc_meta_decode R v)) (\<lambda>m. Inr (Some m))
            | None \<Rightarrow> Inr None))"

section \<open>RedbObjectStore\<close>

record 'db redb_store =
  rs_db :: 'db
  rs_algorithm :: hash_algorithm

definition ensure_objects_table :: "('db, 'r) redb_api_scheme \<Rightarrow> 'db \<Rightarrow> journal_error + 'db" where
  "ensure_objects_table R db =
     res_bind (txerr (rb_begin_write R db)) (\<lambda>tx.
     res_bind (verr ''open objects table failed: '' (rb_open_table R tx OBJECTS_TABLE)) (\<lambda>tx.
     verr ''commit objects table open failed: '' (rb_commit R tx)))"

text \<open>\<open>created\<close> is the result of \<open>Database::create(path)\<close>, \<open>now\<close> the clock in Unix seconds.\<close>

definition redb_create ::
    "('db, 'r) store_api_scheme \<Rightarrow> string + 'db \<Rightarrow> int \<Rightarrow> hash_algorithm
     \<Rightarrow> journal_error + 'db redb_store" where
  "redb_create R created now a =
     res_bind (verr ''redb create failed: '' created) (\<lambda>db.
     res_bind (read_meta R db) (\<lambda>meta.
     if meta \<noteq> None
     then Inl (JVerification
       ''journal metadata already exists; refusing create on initialized journal'')
     else res_bind (write_meta R db (journal_meta_new a now)) (\<lambda>db.
          res_bind (ensure_objects_table R db) (\<lambda>db.
          Inr \<lparr>rs_db = db, rs_algorithm = a\<rparr>))))"

definition redb_open ::
    "('db, 'r) store_api_scheme \<Rightarrow> string + 'db \<Rightarrow> journal_error + 'db redb_store" where
  "redb_open R opened =
     res_bind (verr ''redb open failed: '' opened) (\<lambda>db.
     res_bind (read_meta R db) (\<lambda>m.
     res_bind (ok_or (JVerification ''journal metadata missing; expected initialized journal'') m) (\<lambda>meta.
     if jm_schema_version meta \<noteq> SCHEMA_VERSION
     then Inl (JVerification (''unsupported journal metadata schema: expected ''
            @ show_nat (unat SCHEMA_VERSION) @ '', found '' @ show_nat (unat (jm_schema_version meta))))
     else res_bind (ensure_objects_table R db) (\<lambda>db.
          Inr \<lparr>rs_db = db, rs_algorithm = jm_hash_algorithm meta\<rparr>))))"

text \<open>A result of a state-changing call: the new store, or the old one with the error.\<close>

definition store_result ::
    "'db redb_store \<Rightarrow> journal_error + 'db \<Rightarrow> 'a \<Rightarrow> 'db redb_store \<times> (journal_error + 'a)" where
  "store_result s r x = (case r of Inl e \<Rightarrow> (s, Inl e) | Inr db \<Rightarrow> (s\<lparr>rs_db := db\<rparr>, Inr x))"

definition redb_put ::
    "'x hash_ext_scheme \<Rightarrow> ('db, 'r) redb_api_scheme \<Rightarrow> 'db redb_store \<Rightarrow> byte list
     \<Rightarrow> 'db redb_store \<times> (journal_error + hash)" where
  "redb_put X R s bytes =
     (let h = digest_bytes X (rs_algorithm s) bytes; k = KBytes (h_bytes h) in
      store_result s
        (res_bind (txerr (rb_begin_write R (rs_db s))) (\<lambda>tx.
         res_bind (verr ''open objects table failed: '' (rb_open_table R tx OBJECTS_TABLE)) (\<lambda>tx.
         res_bind (verr ''object lookup failed: '' (rb_get R tx OBJECTS_TABLE k)) (\<lambda>found.
         res_bind (if found = None
                   then verr ''object insert failed: '' (rb_insert R tx OBJECTS_TABLE k bytes)
                   else Inr tx) (\<lambda>tx.
         verr ''object commit failed: '' (rb_commit R tx)))))) h)"

definition redb_get ::
    "('db, 'r) redb_api_scheme \<Rightarrow> 'db redb_store \<Rightarrow> hash \<Rightarrow> journal_error + byte list option" where
  "redb_get R s h =
     (if h_algorithm h \<noteq> rs_algorithm s
      then Inl (JHashAlgorithmMismatch (rs_algorithm s) (h_algorithm h))
      else res_bind (txerr (rb_begin_read R (rs_db s))) (\<lambda>tx.
           res_bind (verr ''open objects table failed: '' (rb_open_table R tx OBJECTS_TABLE)) (\<lambda>tx.
           verr ''object lookup failed: '' (rb_get R tx OBJECTS_TABLE (KBytes (h_bytes h))))))"

definition redb_contains ::
    "('db, 'r) redb_api_scheme \<Rightarrow> 'db redb_store \<Rightarrow> hash \<Rightarrow> journal_error + bool" where
  "redb_contains R s h =
     (if h_algorithm h \<noteq> rs_algorithm s
      then Inl (JHashAlgorithmMismatch (rs_algorithm s) (h_algorithm h))
      else res_bind (txerr (rb_begin_read R (rs_db s))) (\<lambda>tx.
           res_bind (verr ''open objects table failed: '' (rb_open_table R tx OBJECTS_TABLE)) (\<lambda>tx.
           res_bind (verr ''object lookup failed: ''
                       (rb_get R tx OBJECTS_TABLE (KBytes (h_bytes h)))) (\<lambda>v. Inr (v \<noteq> None)))))"

definition object_key_hash :: "hash_algorithm \<Rightarrow> rb_key \<Rightarrow> journal_error + hash" where
  "object_key_hash a key =
     (let key_bytes = (case key of KBytes b \<Rightarrow> b | KU32 w \<Rightarrow> u32_to_be w) in
      if length key_bytes \<noteq> SHA256_LEN
      then Inl (JVerification (''objects table key length mismatch: expected ''
             @ show_nat SHA256_LEN @ '', found '' @ show_nat (length key_bytes)))
      else Inr (hash_from_bytes a key_bytes))"

definition redb_iter_hashes ::
    "('db, 'r) redb_api_scheme \<Rightarrow> 'db redb_store \<Rightarrow> journal_error + hash list" where
  "redb_iter_hashes R s =
     res_bind (txerr (rb_begin_read R (rs_db s))) (\<lambda>tx.
     res_bind (verr ''open objects table failed: '' (rb_open_table R tx OBJECTS_TABLE)) (\<lambda>tx.
     res_bind (verr ''object iteration failed: '' (rb_iter R tx OBJECTS_TABLE)) (\<lambda>items.
     res_map (\<lambda>(key, _). object_key_hash (rs_algorithm s) key) items)))"

text \<open>The corruption helpers of the feature \<open>test-utils\<close>.\<close>

definition redb_overwrite ::
    "('db, 'r) redb_api_scheme \<Rightarrow> 'db redb_store \<Rightarrow> hash \<Rightarrow> byte list
     \<Rightarrow> 'db redb_store \<times> (journal_error + unit)" where
  "redb_overwrite R s h corrupt =
     (if h_algorithm h \<noteq> rs_algorithm s
      then (s, Inl (JHashAlgorithmMismatch (rs_algorithm s) (h_algorithm h)))
      else store_result s
        (res_bind (txerr (rb_begin_write R (rs_db s))) (\<lambda>tx.
         res_bind (verr ''open objects table failed: '' (rb_open_table R tx OBJECTS_TABLE)) (\<lambda>tx.
         res_bind (verr ''object overwrite failed: ''
                     (rb_insert R tx OBJECTS_TABLE (KBytes (h_bytes h)) corrupt)) (\<lambda>tx.
         verr ''object overwrite commit failed: '' (rb_commit R tx))))) ())"

definition redb_remove ::
    "('db, 'r) redb_api_scheme \<Rightarrow> 'db redb_store \<Rightarrow> hash \<Rightarrow> 'db redb_store \<times> (journal_error + unit)" where
  "redb_remove R s h =
     (if h_algorithm h \<noteq> rs_algorithm s
      then (s, Inl (JHashAlgorithmMismatch (rs_algorithm s) (h_algorithm h)))
      else store_result s
        (res_bind (txerr (rb_begin_write R (rs_db s))) (\<lambda>tx.
         res_bind (verr ''open objects table failed: '' (rb_open_table R tx OBJECTS_TABLE)) (\<lambda>tx.
         res_bind (verr ''object remove failed: ''
                     (rb_remove R tx OBJECTS_TABLE (KBytes (h_bytes h)))) (\<lambda>tx.
         verr ''object remove commit failed: '' (rb_commit R tx))))) ())"

section \<open>The store keeps the object store contract\<close>

definition redb_inv :: "'x hash_ext_scheme \<Rightarrow> 'db db_content \<Rightarrow> 'db redb_store \<Rightarrow> bool" where
  "redb_inv X C s \<longleftrightarrow>
     (\<forall>k b. C (rs_db s) OBJECTS_TABLE (KBytes k) = Some b \<longrightarrow>
        h_bytes (digest_bytes X (rs_algorithm s) b) = k)"

lemma redb_put_algorithm: "redb_put X R s b = (s', r) \<Longrightarrow> rs_algorithm s' = rs_algorithm s"
  by (auto simp: redb_put_def store_result_def Let_def split: sum.splits)

lemma redb_put_Inl: "redb_put X R s b = (s', Inl e) \<Longrightarrow> s' = s"
  by (auto simp: redb_put_def store_result_def Let_def split: sum.splits)

lemma redb_put_Inr:
  assumes "redb_ok R C" "redb_put X R s b = (s', Inr h)"
  shows "h = digest_bytes X (rs_algorithm s) b"
    and "C (rs_db s') = (if C (rs_db s) OBJECTS_TABLE (KBytes (h_bytes h)) = None
           then (C (rs_db s))(OBJECTS_TABLE :=
                  (C (rs_db s) OBJECTS_TABLE)(KBytes (h_bytes h) \<mapsto> b))
           else C (rs_db s))"
  using assms
  by (auto simp: redb_put_def store_result_def Let_def split: sum.splits if_splits
      dest!: redb_dests [where C = C])

lemma redb_get_content:
  assumes "redb_ok R C" "redb_get R s h = Inr v"
  shows "h_algorithm h = rs_algorithm s" "v = C (rs_db s) OBJECTS_TABLE (KBytes (h_bytes h))"
  using assms by (auto simp: redb_get_def split: if_splits dest!: redb_dests [where C = C])

lemma redb_contains_content:
  assumes "redb_ok R C" "redb_contains R s h = Inr p"
  shows "p = (C (rs_db s) OBJECTS_TABLE (KBytes (h_bytes h)) \<noteq> None)"
  using assms by (auto simp: redb_contains_def split: if_splits dest!: redb_dests [where C = C])

lemma redb_put_inv:
  assumes "redb_ok R C" "redb_inv X C s" "redb_put X R s b = (s', r)"
  shows "redb_inv X C s'"
proof (cases r)
  case (Inl e)
  with assms redb_put_Inl show ?thesis by blast
next
  case (Inr h)
  from redb_put_Inr [OF assms(1) assms(3) [unfolded Inr]] redb_put_algorithm [OF assms(3)] assms(2)
  show ?thesis
    by (auto simp: redb_inv_def split: if_splits)
qed

theorem redb_object_store:
  assumes ok: "redb_ok R C"
  shows "object_store rs_algorithm (redb_put X R) (redb_get R) (redb_contains R)
           (digest_bytes X) (redb_inv X C)"
proof
  show "rs_algorithm s' = rs_algorithm s" if "redb_put X R s b = (s', r)" for s b s' r
    using that by (rule redb_put_algorithm)
  show "redb_inv X C s'" if "redb_inv X C s" "redb_put X R s b = (s', r)" for s b s' r
    using redb_put_inv [OF ok that] .
  show "h = digest_bytes X (rs_algorithm s) b" if "redb_put X R s b = (s', Inr h)" for s b s' h
    using redb_put_Inr(1) [OF ok that] .
  show "s' = s" if "redb_put X R s b = (s', Inl e)" for s b s' e
    using that by (rule redb_put_Inl)
  show "v \<noteq> None" if "redb_put X R s b = (s', Inr h)" "redb_get R s' h = Inr v" for s b s' h v
    using redb_put_Inr(2) [OF ok that(1)] redb_get_content [OF ok that(2)]
    by (auto split: if_splits)
  show "v = Some b"
    if "redb_put X R s b = (s', Inr h)" "redb_get R s h = Inr None" "redb_get R s' h = Inr v" for s b s' h v
    using redb_put_Inr(2) [OF ok that(1)] redb_get_content [OF ok that(2)] redb_get_content [OF ok that(3)]
    by (auto split: if_splits)
  show "v = Some c"
    if "redb_put X R s b = (s', r)" "redb_get R s h = Inr (Some c)" "redb_get R s' h = Inr v"
    for s b s' r h c v
  proof (cases r)
    case (Inl e)
    with that redb_put_Inl have "s' = s" by blast
    with that show ?thesis by simp
  next
    case (Inr k)
    show ?thesis
      using redb_put_Inr(2) [OF ok that(1) [unfolded Inr]] redb_get_content [OF ok that(2)]
        redb_get_content [OF ok that(3)]
      by (auto split: if_splits)
  qed
  show "digest_bytes X (rs_algorithm s) b = h"
    if "redb_inv X C s" "redb_get R s h = Inr (Some b)" for s h b
    using redb_get_content [OF ok that(2)] that(1) by (simp add: redb_inv_def hash_eq_iff)
  show "redb_get R s h = Inl (JHashAlgorithmMismatch (rs_algorithm s) (h_algorithm h))"
    if "h_algorithm h \<noteq> rs_algorithm s" for h :: hash and s
    using that by (simp add: redb_get_def)
  show "p = (v \<noteq> None)" if "redb_contains R s h = Inr p" "redb_get R s h = Inr v" for s h p v
    using redb_contains_content [OF ok that(1)] redb_get_content [OF ok that(2)] by simp
qed

definition redb_view :: "('db, 'r) redb_api_scheme \<Rightarrow> 'db redb_store \<Rightarrow> store_view" where
  "redb_view R s =
     \<lparr>sv_algorithm = rs_algorithm s, sv_contains = redb_contains R s, sv_get = redb_get R s\<rparr>"

lemma redb_view_simps [simp]:
  "sv_algorithm (redb_view R s) = rs_algorithm s"
  "sv_contains (redb_view R s) = redb_contains R s"
  "sv_get (redb_view R s) = redb_get R s"
  by (simp_all add: redb_view_def)

end
