(* ===== verification/Redb_Graph.thy ===== *)
theory Redb_Graph
  imports Session_Graph Redb_Store
begin

text \<open>
  \<open>RedbSessionGraph\<close> of \<open>akmon-journal/src/session_graph.rs\<close> and \<open>akmon-journal/src/open.rs\<close>:
  sessions persisted as rows of two database tables, one head row per session and one event row
  per sequence number, under keys of 24 bytes. The relation \<open>session_rep\<close> says which history the
  rows of a session hold; reading returns that history, and \<open>append\<close> refines the append of
  \<open>MemorySessionGraph\<close> on it. Other sessions of the same database are untouched.
\<close>

section \<open>Tables and keys\<close>

definition SESSION_HEADS_TABLE :: string where "SESSION_HEADS_TABLE = ''session_heads''"
definition SESSION_EVENTS_TABLE :: string where "SESSION_EVENTS_TABLE = ''session_events''"

record 'db graph_api = "'db store_api" +
  pc_stored_encode :: "hash \<times> event \<Rightarrow> string + byte list"
  pc_stored_decode :: "byte list \<Rightarrow> string + hash \<times> event"
  pc_head_encode :: "hash option \<Rightarrow> string + byte list"
  pc_head_decode :: "byte list \<Rightarrow> string + hash option"

definition graph_codec_ok :: "('db, 'r) graph_api_scheme \<Rightarrow> bool" where
  "graph_codec_ok R \<longleftrightarrow>
     (\<forall>p b. pc_stored_encode R p = Inr b \<longrightarrow> pc_stored_decode R b = Inr p) \<and>
     (\<forall>d b. pc_head_encode R d = Inr b \<longrightarrow> pc_head_decode R b = Inr d)"

definition event_key :: "byte list \<Rightarrow> u64 \<Rightarrow> byte list" where
  "event_key sid sequence = sid @ u64_to_be sequence"

definition parse_event_key :: "byte list \<Rightarrow> journal_error + byte list \<times> u64" where
  "parse_event_key bytes =
     (if length bytes \<noteq> 24
      then Inl (JVerification (''invalid session event key length: '' @ show_nat (length bytes)))
      else Inr (take 16 bytes, u64_from_be (drop 16 bytes)))"

definition key_bytes :: "rb_key \<Rightarrow> byte list" where
  "key_bytes k = (case k of KBytes b \<Rightarrow> b | KU32 w \<Rightarrow> u32_to_be w)"

lemma parse_event_key_roundtrip [simp]:
  "length sid = 16 \<Longrightarrow> parse_event_key (event_key sid q) = Inr (sid, q)"
  by (simp add: parse_event_key_def event_key_def)

lemma event_key_inj:
  "length sid = 16 \<Longrightarrow> length sid' = 16 \<Longrightarrow> event_key sid q = event_key sid' q' \<longleftrightarrow> sid = sid' \<and> q = q'"
  by (auto simp: event_key_def)

section \<open>RedbSessionGraph\<close>

record 'db redb_graph =
  rg_store :: "'db redb_store"
  rg_session_id :: "byte list"

abbreviation rg_db :: "'db redb_graph \<Rightarrow> 'db" where
  "rg_db g \<equiv> rs_db (rg_store g)"

definition ensure_graph_tables :: "('db, 'r) redb_api_scheme \<Rightarrow> 'db \<Rightarrow> journal_error + 'db" where
  "ensure_graph_tables R db =
     res_bind (txerr (rb_begin_write R db)) (\<lambda>tx.
     res_bind (verr ''open session_heads failed: '' (rb_open_table R tx SESSION_HEADS_TABLE)) (\<lambda>tx.
     res_bind (verr ''open session_events failed: '' (rb_open_table R tx SESSION_EVENTS_TABLE)) (\<lambda>tx.
     verr ''commit graph table creation failed: '' (rb_commit R tx))))"

text \<open>\<open>uuid_text\<close> is the display form of an identifier (crate \<open>uuid\<close>). The table creation
  commits on its own, so the store changes even when the session turns out to exist.\<close>

definition redb_open_new ::
    "('db, 'r) graph_api_scheme \<Rightarrow> (byte list \<Rightarrow> string) \<Rightarrow> 'db redb_store \<Rightarrow> byte list
     \<Rightarrow> 'db redb_store \<times> (journal_error + 'db redb_graph)" where
  "redb_open_new R uuid_text s sid =
     (case ensure_graph_tables R (rs_db s) of
        Inl e \<Rightarrow> (s, Inl e)
      | Inr db \<Rightarrow>
          let s1 = s\<lparr>rs_db := db\<rparr> in
          (case res_bind (txerr (rb_begin_write R db)) (\<lambda>tx.
             res_bind (verr ''open session_heads failed: '' (rb_open_table R tx SESSION_HEADS_TABLE)) (\<lambda>tx.
             res_bind (verr ''read session_heads failed: '' (rb_get R tx SESSION_HEADS_TABLE (KBytes sid))) (\<lambda>row.
             if row \<noteq> None then Inl (JVerification (''session already exists: '' @ uuid_text sid))
             else
             res_bind (map_err JPostcard (pc_head_encode R None)) (\<lambda>none_head.
             res_bind (verr ''write session_heads failed: ''
                         (rb_insert R tx SESSION_HEADS_TABLE (KBytes sid) none_head)) (\<lambda>tx.
             verr ''commit session create failed: '' (rb_commit R tx)))))) of
             Inl e \<Rightarrow> (s1, Inl e)
           | Inr db' \<Rightarrow> (s1\<lparr>rs_db := db'\<rparr>, Inr \<lparr>rg_store = s1\<lparr>rs_db := db'\<rparr>, rg_session_id = sid\<rparr>)))"

definition redb_reopen ::
    "('db, 'r) graph_api_scheme \<Rightarrow> 'db redb_store \<Rightarrow> byte list
     \<Rightarrow> 'db redb_store \<times> (journal_error + 'db redb_graph)" where
  "redb_reopen R s sid =
     (case ensure_graph_tables R (rs_db s) of
        Inl e \<Rightarrow> (s, Inl e)
      | Inr db \<Rightarrow>
          let s1 = s\<lparr>rs_db := db\<rparr> in
          (s1,
           res_bind (txerr (rb_begin_read R db)) (\<lambda>tx.
           res_bind (verr ''open session_heads failed: '' (rb_open_table R tx SESSION_HEADS_TABLE)) (\<lambda>tx.
           res_bind (verr ''read session_heads failed: '' (rb_get R tx SESSION_HEADS_TABLE (KBytes sid))) (\<lambda>head.
           if head = None then Inl (JSessionNotFound sid)
           else Inr \<lparr>rg_store = s1, rg_session_id = sid\<rparr>)))))"

definition redb_head :: "('db, 'r) graph_api_scheme \<Rightarrow> 'db redb_graph \<Rightarrow> journal_error + hash option" where
  "redb_head R g =
     res_bind (txerr (rb_begin_read R (rg_db g))) (\<lambda>tx.
     res_bind (verr ''open session_heads failed: '' (rb_open_table R tx SESSION_HEADS_TABLE)) (\<lambda>tx.
     res_bind (verr ''read session_heads failed: ''
                 (rb_get R tx SESSION_HEADS_TABLE (KBytes (rg_session_id g)))) (\<lambda>value.
     res_bind (ok_or (JSessionNotFound (rg_session_id g)) value) (\<lambda>bytes.
     map_err JPostcard (pc_head_decode R bytes)))))"

text \<open>The loop of \<open>history\<close> over the rows of the table: rows of other sessions are skipped.\<close>

fun collect_session ::
    "('db, 'r) graph_api_scheme \<Rightarrow> byte list \<Rightarrow> (rb_key \<times> byte list) list
     \<Rightarrow> journal_error + (u64 \<times> hash \<times> event) list" where
  "collect_session R sid [] = Inr []"
| "collect_session R sid ((k, v) # rows) =
     res_bind (parse_event_key (key_bytes k)) (\<lambda>(row_sid, seq).
     if row_sid \<noteq> sid then collect_session R sid rows
     else res_bind (map_err JPostcard (pc_stored_decode R v)) (\<lambda>stored.
          res_bind (collect_session R sid rows) (\<lambda>rest. Inr ((seq, stored) # rest))))"

definition redb_history ::
    "('db, 'r) graph_api_scheme \<Rightarrow> 'db redb_graph \<Rightarrow> journal_error + (hash \<times> event) list" where
  "redb_history R g =
     res_bind (txerr (rb_begin_read R (rg_db g))) (\<lambda>tx.
     res_bind (verr ''open session_events failed: '' (rb_open_table R tx SESSION_EVENTS_TABLE)) (\<lambda>tx.
     res_bind (verr ''iterate session_events failed: '' (rb_iter R tx SESSION_EVENTS_TABLE)) (\<lambda>rows.
     res_bind (collect_session R (rg_session_id g) rows) (\<lambda>out.
     Inr (map snd (sort_key fst out))))))"

definition graph_result ::
    "'db redb_graph \<Rightarrow> journal_error + 'db \<times> 'a \<Rightarrow> 'db redb_graph \<times> (journal_error + 'a)" where
  "graph_result g r =
     (case r of Inl e \<Rightarrow> (g, Inl e)
      | Inr (db, x) \<Rightarrow> (g\<lparr>rg_store := (rg_store g)\<lparr>rs_db := db\<rparr>\<rparr>, Inr x))"

text \<open>The write transaction of \<open>append\<close>: event row and head row, committed together.\<close>

definition write_event_rows ::
    "('db, 'r) graph_api_scheme \<Rightarrow> 'db \<Rightarrow> byte list \<Rightarrow> u64 \<Rightarrow> byte list \<Rightarrow> byte list
     \<Rightarrow> journal_error + 'db" where
  "write_event_rows R db sid seq value head_bytes =
     res_bind (txerr (rb_begin_write R db)) (\<lambda>tx.
     res_bind (verr ''open session_events failed: '' (rb_open_table R tx SESSION_EVENTS_TABLE)) (\<lambda>tx.
     res_bind (verr ''insert session event failed: ''
                 (rb_insert R tx SESSION_EVENTS_TABLE (KBytes (event_key sid seq)) value)) (\<lambda>tx.
     res_bind (verr ''open session_heads failed: '' (rb_open_table R tx SESSION_HEADS_TABLE)) (\<lambda>tx.
     res_bind (verr ''update session head failed: ''
                 (rb_insert R tx SESSION_HEADS_TABLE (KBytes sid) head_bytes)) (\<lambda>tx.
     verr ''commit session append failed: '' (rb_commit R tx))))))"

definition redb_append ::
    "'x event_ext_scheme \<Rightarrow> ('db, 'r) graph_api_scheme \<Rightarrow> datetime \<Rightarrow> 'db redb_graph \<Rightarrow> event_kind
     \<Rightarrow> 'db redb_graph \<times> (journal_error + hash)" where
  "redb_append X R now g k =
     graph_result g
       (res_bind (validate_event_kind_invariants k) (\<lambda>_.
        res_bind (redb_head R g) (\<lambda>current_head.
        res_bind (redb_history R g) (\<lambda>hs.
        let sequence = of_nat (length hs) in
        res_bind (parents_for_append current_head k) (\<lambda>parents.
        let e = \<lparr>ev_parents = parents, ev_kind = k, ev_emitted_at = now, ev_sequence = sequence\<rparr> in
        res_bind (content_hash X (rs_algorithm (rg_store g)) e) (\<lambda>h.
        res_bind (map_err JPostcard (pc_stored_encode R (h, e))) (\<lambda>value.
        res_bind (map_err JPostcard (pc_head_encode R (Some h))) (\<lambda>head_bytes.
        res_bind (write_event_rows R (rg_db g) (rg_session_id g) sequence value head_bytes) (\<lambda>db.
        Inr (db, h))))))))))"

definition redb_verify ::
    "'x event_ext_scheme \<Rightarrow> ('db, 'r) graph_api_scheme \<Rightarrow> 'db redb_graph
     \<Rightarrow> journal_error + verification_report" where
  "redb_verify X R g =
     res_bind (redb_history R g) (\<lambda>history.
     res_bind (redb_head R g) (\<lambda>stored_head.
     verify_history_against_store X history stored_head (redb_view R (rg_store g))))"

text \<open>The emptiness re-check of \<open>import\<close> inside its transaction.\<close>

fun no_session_rows :: "byte list \<Rightarrow> (rb_key \<times> byte list) list \<Rightarrow> journal_error + unit" where
  "no_session_rows sid [] = Inr ()"
| "no_session_rows sid ((k, v) # rows) =
     res_bind (parse_event_key (key_bytes k)) (\<lambda>(row_sid, _).
     if row_sid = sid then Inl (JVerification ''import target session is not empty'')
     else no_session_rows sid rows)"

fun insert_events ::
    "('db, 'r) graph_api_scheme \<Rightarrow> byte list \<Rightarrow> nat \<Rightarrow> 'db \<Rightarrow> (hash \<times> event) list
     \<Rightarrow> journal_error + 'db" where
  "insert_events R sid seq tx [] = Inr tx"
| "insert_events R sid seq tx (p # ps) =
     res_bind (map_err JPostcard (pc_stored_encode R p)) (\<lambda>value.
     res_bind (verr ''insert session event failed: ''
                 (rb_insert R tx SESSION_EVENTS_TABLE (KBytes (event_key sid (of_nat seq))) value)) (\<lambda>tx.
     insert_events R sid (Suc seq) tx ps))"

definition import_rows ::
    "('db, 'r) graph_api_scheme \<Rightarrow> 'db \<Rightarrow> byte list \<Rightarrow> (hash \<times> event) list \<Rightarrow> journal_error + 'db" where
  "import_rows R db sid events =
     res_bind (txerr (rb_begin_write R db)) (\<lambda>tx.
     res_bind (verr ''open session_heads failed: '' (rb_open_table R tx SESSION_HEADS_TABLE)) (\<lambda>tx.
     res_bind (verr ''read session_heads failed: '' (rb_get R tx SESSION_HEADS_TABLE (KBytes sid))) (\<lambda>row.
     res_bind (ok_or (JSessionNotFound sid) row) (\<lambda>head_row.
     res_bind (map_err JPostcard (pc_head_decode R head_row)) (\<lambda>stored_head.
     if stored_head \<noteq> None then Inl (JVerification ''import target session is not empty'')
     else
     res_bind (verr ''open session_events failed: '' (rb_open_table R tx SESSION_EVENTS_TABLE)) (\<lambda>tx.
     res_bind (verr ''iterate session_events failed: '' (rb_iter R tx SESSION_EVENTS_TABLE)) (\<lambda>rows.
     res_bind (no_session_rows sid rows) (\<lambda>_.
     res_bind (insert_events R sid 0 tx events) (\<lambda>tx.
     res_bind (ok_or (JVerification ''internal: empty events after precondition'')
                 (map_option fst (last_opt events))) (\<lambda>terminal.
     res_bind (map_err JPostcard (pc_head_encode R (Some terminal))) (\<lambda>head_bytes.
     res_bind (verr ''update session head failed: ''
                 (rb_insert R tx SESSION_HEADS_TABLE (KBytes sid) head_bytes)) (\<lambda>tx.
     verr ''commit session import failed: '' (rb_commit R tx)))))))))))))"

definition redb_import ::
    "'x event_ext_scheme \<Rightarrow> ('db, 'r) graph_api_scheme \<Rightarrow> 'db redb_graph \<Rightarrow> (hash \<times> event) list
     \<Rightarrow> 'db redb_graph \<times> (journal_error + unit)" where
  "redb_import X R g events =
     graph_result g
       (res_bind (redb_head R g) (\<lambda>head.
        res_bind (redb_history R g) (\<lambda>hs.
        res_bind (ensure_empty_import_target head (length hs)) (\<lambda>_.
        res_bind (verify_import_precondition X events (redb_view R (rg_store g))) (\<lambda>_.
        res_bind (import_rows R (rg_db g) (rg_session_id g) events) (\<lambda>db. Inr (db, ())))))))"

definition session_head_row_exists ::
    "('db, 'r) graph_api_scheme \<Rightarrow> 'db redb_store \<Rightarrow> byte list \<Rightarrow> journal_error + bool" where
  "session_head_row_exists R s sid =
     res_bind (txerr (rb_begin_read R (rs_db s))) (\<lambda>tx.
     res_bind (verr ''open session_heads failed: '' (rb_open_table R tx SESSION_HEADS_TABLE)) (\<lambda>tx.
     res_bind (verr ''read session_heads failed: '' (rb_get R tx SESSION_HEADS_TABLE (KBytes sid))) (\<lambda>row.
     Inr (row \<noteq> None))))"

text \<open>\<open>journal_contains_session\<close> and \<open>open_journal_read_only\<close>: \<open>is_file\<close> and \<open>opened\<close> are what the
  file system and \<open>Database::open\<close> answer for the journal path.\<close>

definition journal_contains_session ::
    "('db, 'r) graph_api_scheme \<Rightarrow> bool \<Rightarrow> string + 'db \<Rightarrow> byte list \<Rightarrow> journal_error + bool" where
  "journal_contains_session R is_file opened sid =
     (if \<not> is_file then Inr False
      else res_bind (redb_open R opened) (\<lambda>s. session_head_row_exists R s sid))"

definition open_journal_read_only ::
    "('db, 'r) graph_api_scheme \<Rightarrow> string + 'db \<Rightarrow> byte list \<Rightarrow> journal_error + 'db redb_graph" where
  "open_journal_read_only R opened sid =
     res_bind (redb_open R opened) (\<lambda>s. snd (redb_reopen R s sid))"

section \<open>The history a session's rows represent\<close>

definition event_keys_wf :: "'db db_content \<Rightarrow> 'db \<Rightarrow> bool" where
  "event_keys_wf C db \<longleftrightarrow>
     (\<forall>k v. C db SESSION_EVENTS_TABLE k = Some v \<longrightarrow>
        (\<exists>s q. k = KBytes (event_key s q) \<and> length s = 16))"

definition session_rep ::
    "('db, 'r) graph_api_scheme \<Rightarrow> 'db db_content \<Rightarrow> 'db \<Rightarrow> byte list \<Rightarrow> (hash \<times> event) list \<Rightarrow> bool" where
  "session_rep R C db sid hs \<longleftrightarrow>
     length sid = 16 \<and> length hs \<le> 2 ^ 64 \<and> event_keys_wf C db \<and>
     (\<exists>b. C db SESSION_HEADS_TABLE (KBytes sid) = Some b \<and>
          pc_head_decode R b = Inr (map_option fst (last_opt hs))) \<and>
     (\<forall>q. if unat q < length hs
          then \<exists>b. C db SESSION_EVENTS_TABLE (KBytes (event_key sid q)) = Some b \<and>
                   pc_stored_decode R b = Inr (hs ! unat q)
          else C db SESSION_EVENTS_TABLE (KBytes (event_key sid q)) = None)"

lemma collect_session_spec:
  assumes "collect_session R sid rows = Inr out" "length sid = 16"
    and "\<forall>(k, v) \<in> set rows. \<exists>s q. k = KBytes (event_key s q) \<and> length s = 16"
    and "distinct (map fst rows)"
  shows "(\<forall>q p. (q, p) \<in> set out \<longleftrightarrow>
            (\<exists>v. (KBytes (event_key sid q), v) \<in> set rows \<and> pc_stored_decode R v = Inr p))
         \<and> distinct (map fst out)"
  using assms
proof (induction rows arbitrary: out)
  case Nil
  then show ?case by simp
next
  case (Cons row rows)
  obtain k v where row: "row = (k, v)" by (cases row)
  with Cons.prems obtain s q where k: "k = KBytes (event_key s q)" and s: "length s = 16" by auto
  have wf: "\<forall>(k, v) \<in> set rows. \<exists>s q. k = KBytes (event_key s q) \<and> length s = 16"
    and dist: "distinct (map fst rows)" and new: "k \<notin> fst ` set rows"
    using Cons.prems(3,4) by (auto simp: row)
  have parse: "parse_event_key (key_bytes k) = Inr (s, q)"
    using s by (simp add: k key_bytes_def)
  show ?case
  proof (cases "s = sid")
    case False
    then have "collect_session R sid rows = Inr out"
      using Cons.prems(1) by (simp add: row parse)
    from Cons.IH [OF this Cons.prems(2) wf dist] False show ?thesis
      by (auto simp: row k event_key_inj [OF s Cons.prems(2)]
          event_key_inj [OF Cons.prems(2) s])
  next
    case True
    then obtain p rest where p: "pc_stored_decode R v = Inr p"
      and rest: "collect_session R sid rows = Inr rest" and out: "out = (q, p) # rest"
      using Cons.prems(1) by (auto simp: row parse)
    note IH = Cons.IH [OF rest Cons.prems(2) wf dist]
    have "q \<notin> fst ` set rest"
      using IH new by (force simp: k True)
    with IH p show ?thesis
      by (auto simp: out row k True event_key_inj [OF Cons.prems(2) Cons.prems(2)])
  qed
qed

lemma sorted_u64_interval:
  assumes "n \<le> 2 ^ 64"
  shows "sorted (map of_nat [0..<n] :: u64 list) \<and> distinct (map of_nat [0..<n] :: u64 list)
         \<and> set (map of_nat [0..<n] :: u64 list) = {q. unat q < n}"
proof (intro conjI)
  have le: "(of_nat i :: u64) \<le> of_nat j" if "i \<le> j" "j < n" for i j
    using that assms by (simp add: word_le_nat_alt unat_of_nat)
  show "sorted (map of_nat [0..<n] :: u64 list)"
    by (auto simp: sorted_iff_nth_mono intro: le)
  show "distinct (map of_nat [0..<n] :: u64 list)"
    using assms by (auto simp: distinct_map inj_on_def intro: word64_of_nat_inj)
  show "set (map of_nat [0..<n] :: u64 list) = {q. unat q < n}"
  proof (auto)
    fix i assume "i < n"
    with assms show "unat (of_nat i :: u64) < n" by (simp add: unat_of_nat)
  next
    fix q :: u64 assume "unat q < n"
    then show "q \<in> of_nat ` {0..<n}" by (intro image_eqI [of _ _ "unat q"]) auto
  qed
qed

lemma redb_history_rep:
  assumes ok: "redb_ok R C" and rep: "session_rep R C (rg_db g) (rg_session_id g) hs"
    and "redb_history R g = Inr hs'"
  shows "hs' = hs"
proof -
  let ?sid = "rg_session_id g" and ?E = "C (rg_db g) SESSION_EVENTS_TABLE"
  from assms obtain rows out where
    rows: "distinct (map fst rows)" "map_of rows = ?E"
    and out: "collect_session R ?sid rows = Inr out"
    and hs': "hs' = map snd (sort_key fst out)"
    by (auto simp: redb_history_def dest!: redb_dests [where C = C] redb_iterD)
  have row: "(k, v) \<in> set rows \<longleftrightarrow> ?E k = Some v" for k v
    using map_of_eq_Some_iff [OF rows(1)] by (auto simp: rows(2))
  have sid: "length ?sid = 16" and n: "length hs \<le> 2 ^ 64" and wf: "event_keys_wf C (rg_db g)"
    using rep by (auto simp: session_rep_def)
  have "\<forall>(k, v) \<in> set rows. \<exists>s q. k = KBytes (event_key s q) \<and> length s = 16"
    using wf by (auto simp: event_keys_wf_def row)
  note spec = collect_session_spec [OF out sid this rows(1)]
  have mem: "(q, p) \<in> set out \<longleftrightarrow> unat q < length hs \<and> p = hs ! unat q" for q p
    using spec rep unfolding session_rep_def row
    by (smt (verit, best) Inr_inject option.distinct(1) option.inject)
  let ?xs = "sort_key fst out"
  have "q \<in> fst ` set out \<longleftrightarrow> (\<exists>p. (q, p) \<in> set out)" for q by force
  then have "set (map fst ?xs) = {q. unat q < length hs}"
    by (auto simp: mem)
  moreover have "sorted (map fst ?xs)" "distinct (map fst ?xs)"
    using spec by (simp_all add: distinct_map)
  ultimately have fsts: "map fst ?xs = map of_nat [0..<length hs]"
    using sorted_u64_interval [OF n] by (intro sorted_distinct_set_unique) auto
  then have len: "length out = length hs"
    by (metis length_map length_sort length_upt minus_nat.diff_0)
  have "snd (?xs ! i) = hs ! i" if i: "i < length hs" for i
  proof -
    have "?xs ! i \<in> set out" using i len by (metis length_sort nth_mem set_sort)
    moreover have "fst (?xs ! i) = of_nat i"
      using fsts i len by (metis (no_types, lifting) add_0 diff_zero length_map length_sort length_upt nth_map nth_upt)
    ultimately have "snd (?xs ! i) = hs ! unat (of_nat i :: u64)"
      using mem by (metis prod.collapse)
    with i n show ?thesis by (simp add: unat_of_nat)
  qed
  with len show ?thesis by (auto simp: hs' intro: nth_equalityI)
qed

lemma redb_head_rep:
  assumes "redb_ok R C" "session_rep R C (rg_db g) (rg_session_id g) hs" "redb_head R g = Inr d"
  shows "d = map_option fst (last_opt hs)"
  using assms by (auto simp: redb_head_def session_rep_def dest!: redb_dests [where C = C])

section \<open>Append refines the in-memory append\<close>

text \<open>The in-memory graph with the same history and the same algorithm.\<close>

definition shadow :: "'db redb_graph \<Rightarrow> (hash \<times> event) list \<Rightarrow> mem_graph" where
  "shadow g hs = \<lparr>mg_store = mem_new (rs_algorithm (rg_store g)),
                  mg_session_id = rg_session_id g, mg_events = hs\<rparr>"

lemma table_names [simp]:
  "SESSION_HEADS_TABLE \<noteq> SESSION_EVENTS_TABLE" "SESSION_EVENTS_TABLE \<noteq> SESSION_HEADS_TABLE"
  "OBJECTS_TABLE \<noteq> SESSION_HEADS_TABLE" "OBJECTS_TABLE \<noteq> SESSION_EVENTS_TABLE"
  "SESSION_HEADS_TABLE \<noteq> OBJECTS_TABLE" "SESSION_EVENTS_TABLE \<noteq> OBJECTS_TABLE"
  by (simp_all add: SESSION_HEADS_TABLE_def SESSION_EVENTS_TABLE_def OBJECTS_TABLE_def)

lemma write_event_rows_content:
  assumes "redb_ok R C" "write_event_rows R db sid seq val hb = Inr db'"
  shows "C db' = (C db)(SESSION_EVENTS_TABLE := (C db SESSION_EVENTS_TABLE)(KBytes (event_key sid seq) \<mapsto> val),
                        SESSION_HEADS_TABLE := (C db SESSION_HEADS_TABLE)(KBytes sid \<mapsto> hb))"
  using assms
  by (auto simp: write_event_rows_def fun_upd_twist dest!: redb_dests [where C = C])

lemma session_rep_write:
  assumes rep: "session_rep R C db sid hs" and len: "length hs < 2 ^ 64"
    and C: "C db' = (C db)(SESSION_EVENTS_TABLE := (C db SESSION_EVENTS_TABLE)(KBytes (event_key sid (of_nat (length hs))) \<mapsto> val),
                        SESSION_HEADS_TABLE := (C db SESSION_HEADS_TABLE)(KBytes sid \<mapsto> hb))"
    and dec: "pc_stored_decode R val = Inr p" "pc_head_decode R hb = Inr (Some (fst p))"
  shows "session_rep R C db' sid (hs @ [p])"
proof -
  have sid: "length sid = 16" using rep by (simp add: session_rep_def)
  have wf: "event_keys_wf C db'"
    using rep sid by (auto simp: session_rep_def event_keys_wf_def C)
  have row: "if unat q < length (hs @ [p])
      then \<exists>b. C db' SESSION_EVENTS_TABLE (KBytes (event_key sid q)) = Some b \<and>
               pc_stored_decode R b = Inr ((hs @ [p]) ! unat q)
      else C db' SESSION_EVENTS_TABLE (KBytes (event_key sid q)) = None" for q
  proof (cases "unat q = length hs")
    case True
    then have "q = of_nat (length hs)" by (metis of_nat_unat ucast_id)
    with True dec show ?thesis by (simp add: C)
  next
    case False
    then have "q \<noteq> of_nat (length hs)" using len by (auto simp: unat_of_nat)
    with rep False show ?thesis
      unfolding session_rep_def
      by (auto simp: C event_key_inj [OF sid sid] nth_append less_Suc_eq split: if_splits)
  qed
  have head: "C db' SESSION_HEADS_TABLE (KBytes sid) = Some hb" by (simp add: C)
  show ?thesis
    unfolding session_rep_def
    by (intro conjI allI row sid wf) (use len head dec(2) in auto)
qed

lemma redb_append_Inl: "redb_append X R t g k = (g', Inl e) \<Longrightarrow> g' = g"
  by (auto simp: redb_append_def graph_result_def split: sum.splits prod.splits)

lemma redb_append_ids:
  "redb_append X R t g k = (g', r) \<Longrightarrow>
   rg_session_id g' = rg_session_id g \<and> rs_algorithm (rg_store g') = rs_algorithm (rg_store g)"
  by (auto simp: redb_append_def graph_result_def split: sum.splits prod.splits)

lemma redb_append_refines:
  assumes ok: "redb_ok R C" and codec: "graph_codec_ok R"
    and rep: "session_rep R C (rg_db g) (rg_session_id g) hs" and len: "length hs < 2 ^ 64"
    and app: "redb_append X R t g k = (g', Inr h)"
  obtains hs' where "session_rep R C (rg_db g') (rg_session_id g') hs'"
    "mem_append X t (shadow g hs) k = (shadow g' hs', Inr h)"
proof -
  from app obtain d hist parents val hb db where
    k: "validate_event_kind_invariants k = Inr ()" and d: "redb_head R g = Inr d"
    and hist: "redb_history R g = Inr hist" and parents: "parents_for_append d k = Inr parents"
    and h: "content_hash X (rs_algorithm (rg_store g))
        \<lparr>ev_parents = parents, ev_kind = k, ev_emitted_at = t, ev_sequence = of_nat (length hist)\<rparr> = Inr h"
    and val: "pc_stored_encode R (h, \<lparr>ev_parents = parents, ev_kind = k, ev_emitted_at = t,
        ev_sequence = of_nat (length hist)\<rparr>) = Inr val"
    and hb: "pc_head_encode R (Some h) = Inr hb"
    and db: "write_event_rows R (rg_db g) (rg_session_id g) (of_nat (length hist)) val hb = Inr db"
    and g': "g' = g\<lparr>rg_store := (rg_store g)\<lparr>rs_db := db\<rparr>\<rparr>"
    by (auto simp: redb_append_def graph_result_def Let_def split: sum.splits prod.splits)
  have hist': "hist = hs" using redb_history_rep [OF ok rep hist] .
  have d': "d = map_option fst (last_opt hs)" using redb_head_rep [OF ok rep d] .
  let ?e = "\<lparr>ev_parents = parents, ev_kind = k, ev_emitted_at = t, ev_sequence = of_nat (length hs)\<rparr>"
  have dec: "pc_stored_decode R val = Inr (h, ?e)" "pc_head_decode R hb = Inr (Some (fst (h, ?e)))"
    using codec val hb by (simp_all add: graph_codec_ok_def hist')
  have "session_rep R C db (rg_session_id g) (hs @ [(h, ?e)])"
    using session_rep_write [OF rep len _ dec] write_event_rows_content [OF ok db]
    by (simp add: hist')
  moreover have "mem_append X t (shadow g hs) k = (shadow g' (hs @ [(h, ?e)]), Inr h)"
    using parents h k
    by (auto simp: mem_append_Inr_iff shadow_def d' hist' parents_for_append_Inr mem_new_def g'
        validate_event_kind_iff last_opt_def)
  ultimately show ?thesis using that by (simp add: g')
qed

text \<open>Rows of other sessions are not touched.\<close>

lemma redb_append_isolated:
  assumes ok: "redb_ok R C" and "redb_append X R t g k = (g', r)"
    and "length (rg_session_id g) = 16" "sid \<noteq> rg_session_id g"
    and rep: "session_rep R C (rg_db g) sid hs"
  shows "session_rep R C (rg_db g') sid hs"
proof (cases r)
  case (Inl e)
  with assms redb_append_Inl show ?thesis by blast
next
  case (Inr h)
  with assms(2) obtain seq val hb db where
    db: "write_event_rows R (rg_db g) (rg_session_id g) seq val hb = Inr db"
    and g': "rg_db g' = db"
    by (auto simp: redb_append_def graph_result_def Let_def split: sum.splits prod.splits)
  have sid: "length sid = 16" using rep by (simp add: session_rep_def)
  note keys = event_key_inj [OF sid assms(3)]
  from rep assms(3,4) show ?thesis
    by (auto simp: session_rep_def event_keys_wf_def g' write_event_rows_content [OF ok db] keys)
qed

text \<open>Storing an object does not disturb any session.\<close>

lemma redb_put_keeps_sessions:
  assumes "redb_ok R C" "redb_put X R s b = (s', r)" "session_rep R C (rs_db s) sid hs"
  shows "session_rep R C (rs_db s') sid hs"
proof (cases r)
  case (Inl e)
  with assms redb_put_Inl show ?thesis by blast
next
  case (Inr h)
  from redb_put_Inr(2) [OF assms(1) assms(2) [unfolded Inr]] assms(3) show ?thesis
    by (auto simp: session_rep_def event_keys_wf_def split: if_splits)
qed

theorem redb_session_graph:
  assumes ok: "redb_ok R C" and codec: "graph_codec_ok R"
  shows "session_graph (redb_head R) (redb_history R) (redb_append X R)
     (\<lambda>g. content_hash X (rs_algorithm (rg_store g)))
     (\<lambda>g. \<exists>hs. session_rep R C (rg_db g) (rg_session_id g) hs)"
proof
  fix g t k g' r hs
  assume inv: "\<exists>hs. session_rep R C (rg_db g) (rg_session_id g) hs"
    and app: "redb_append X R t g k = (g', r)"
    and hist: "redb_history R g = Inr hs" and len: "length hs < 2 ^ 64"
  have rep: "session_rep R C (rg_db g) (rg_session_id g) hs"
    using inv redb_history_rep [OF ok _ hist] by metis
  show "\<exists>hs. session_rep R C (rg_db g') (rg_session_id g') hs"
  proof (cases r)
    case (Inl e)
    with app have "g' = g" using redb_append_Inl by blast
    with rep show ?thesis by blast
  next
    case (Inr h)
    from redb_append_refines [OF ok codec rep len app [unfolded Inr]] show ?thesis by blast
  qed
next
  fix t g k g' e
  assume "redb_append X R t g k = (g', Inl e)"
  then show "g' = g" by (rule redb_append_Inl)
next
  fix t g k g' r
  assume "redb_append X R t g k = (g', r)"
  then show "content_hash X (rs_algorithm (rg_store g')) = content_hash X (rs_algorithm (rg_store g))"
    using redb_append_ids by metis
next
  fix g t k g' h hs hs'
  assume inv: "\<exists>hs. session_rep R C (rg_db g) (rg_session_id g) hs"
    and app: "redb_append X R t g k = (g', Inr h)"
    and hist: "redb_history R g = Inr hs" "redb_history R g' = Inr hs'" and len: "length hs < 2 ^ 64"
  have rep: "session_rep R C (rg_db g) (rg_session_id g) hs"
    using inv redb_history_rep [OF ok _ hist(1)] by metis
  obtain hs'' where rep': "session_rep R C (rg_db g') (rg_session_id g') hs''"
    and mem: "mem_append X t (shadow g hs) k = (shadow g' hs'', Inr h)"
    using redb_append_refines [OF ok codec rep len app] .
  have "hs' = hs''" using redb_history_rep [OF ok rep' hist(2)] .
  with mem show "\<exists>e. hs' = hs @ [(h, e)] \<and> ev_kind e = k \<and> ev_emitted_at e = t \<and>
      ev_sequence e = of_nat (length hs) \<and> ev_parents e = opt_list (map_option fst (last_opt hs)) \<and>
      content_hash X (rs_algorithm (rg_store g)) e = Inr h"
    by (auto simp: mem_append_Inr_iff shadow_def mem_new_def)
next
  fix g t k g' h hs
  assume inv: "\<exists>hs. session_rep R C (rg_db g) (rg_session_id g) hs"
    and app: "redb_append X R t g k = (g', Inr h)" and hist: "redb_history R g = Inr hs"
  have rep: "session_rep R C (rg_db g) (rg_session_id g) hs"
    using inv redb_history_rep [OF ok _ hist] by metis
  from app obtain d parents where "redb_head R g = Inr d" "parents_for_append d k = Inr parents"
    by (auto simp: redb_append_def graph_result_def Let_def split: sum.splits)
  with redb_head_rep [OF ok rep] show "is_session_start k \<longleftrightarrow> hs = []"
    by (auto simp: parents_for_append_Inr last_opt_def)
next
  fix t g k g' h
  assume "redb_append X R t g k = (g', Inr h)"
  then show "kind_ok k"
    by (auto simp: redb_append_def graph_result_def Let_def validate_event_kind_iff split: sum.splits)
next
  fix g hs d
  assume inv: "\<exists>hs. session_rep R C (rg_db g) (rg_session_id g) hs"
    and hist: "redb_history R g = Inr hs" and d: "redb_head R g = Inr d"
  have rep: "session_rep R C (rg_db g) (rg_session_id g) hs"
    using inv redb_history_rep [OF ok _ hist] by metis
  from redb_head_rep [OF ok rep d] show "d = map_option fst (last_opt hs)" .
qed

end
