(* ===== verification/Cli_Journal.thy ===== *)
theory Cli_Journal
  imports Verify_Report Agent_Fsm Redb_Graph
begin

text \<open>
  How the command line opens a journal: \<open>akmon-cli/src/journal_errors.rs\<close> (the stable error
  categories) and the opening functions of \<open>akmon-query/src/journal.rs\<close>, with the errors as the
  texts the commands report. Time formatting (crate \<open>chrono\<close>) and the parser of identifiers
  (crate \<open>uuid\<close>) are parameters.
\<close>

record command_ext = report_ext +
  x_uuid_parse :: "string \<Rightarrow> string + byte list"
  x_subsec_nanos :: "datetime \<Rightarrow> nat"
  x_chrono_iso :: "int \<Rightarrow> nat \<Rightarrow> string option"

section \<open>Error categories\<close>

definition JOURNAL_LOCKED :: string where "JOURNAL_LOCKED = ''journal_locked''"
definition JOURNAL_NOT_FOUND :: string where "JOURNAL_NOT_FOUND = ''journal_not_found''"

definition is_journal_locked :: "string \<Rightarrow> bool" where
  "is_journal_locked msg \<longleftrightarrow>
     (let lower = to_ascii_lowercase msg in
      str_contains ''database already open'' lower \<or> str_contains ''cannot acquire lock'' lower)"

definition journal_open_category :: "string \<Rightarrow> string option" where
  "journal_open_category msg =
     (if is_journal_locked msg then Some JOURNAL_LOCKED
      else
        let lower = to_ascii_lowercase msg in
        if str_contains ''redb open failed'' lower \<or> str_contains ''no such file or directory'' lower
        then Some JOURNAL_NOT_FOUND else None)"

definition journal_access_category :: "string \<Rightarrow> string" where
  "journal_access_category msg = (if is_journal_locked msg then JOURNAL_LOCKED else ''journal_access'')"

definition with_journal_lock_hint :: "string \<Rightarrow> string" where
  "with_journal_lock_hint err =
     (if is_journal_locked err
      then err @ [LF] @ ''The journal is single-writer and another Akmon process (the TUI or a running agent) has it open; wait for it to finish, then retry.''
      else err)"

section \<open>Opening a journal\<close>

text \<open>The text of a journal error, and \<open>journal_err\<close>.\<close>

definition jerr_text :: "'x command_ext_scheme \<Rightarrow> journal_error \<Rightarrow> string" where
  "jerr_text X e = journal_error_to_string X (x_uuid_text X) e"

definition journal_err :: "'x command_ext_scheme \<Rightarrow> journal_error \<Rightarrow> agent_error" where
  "journal_err X e = SessionFailed (jerr_text X e)"

text \<open>\<open>open_or_resume_default_journal_handle\<close> after the journal directory was resolved: \<open>mkdir\<close> is the
  error of creating it, if any, \<open>journal\<close> the result of opening the existing database file, or none,
  \<open>created\<close> that of creating it. The flag tells whether the session was resumed.\<close>

definition open_or_resume_journal ::
    "'x command_ext_scheme \<Rightarrow> ('db, 'r) graph_api_scheme \<Rightarrow> string \<Rightarrow> string option
     \<Rightarrow> (string + 'db) option \<Rightarrow> string + 'db \<Rightarrow> int \<Rightarrow> byte list \<Rightarrow> bool
     \<Rightarrow> agent_error + ('db redb_graph \<times> bool)" where
  "open_or_resume_journal X R dir mkdir journal created now sid resume =
     (case mkdir of
        Some e \<Rightarrow> Inl (SessionFailed (''journal mkdir '' @ dir @ '': '' @ e))
      | None \<Rightarrow>
          res_bind (map_err (journal_err X)
                      (case journal of Some opened \<Rightarrow> redb_open R opened
                       | None \<Rightarrow> redb_create R created now Sha256)) (\<lambda>s.
          res_bind (map_err (journal_err X) (session_head_row_exists R s sid)) (\<lambda>present.
          if resume \<and> present
          then res_bind (map_err (journal_err X) (snd (redb_reopen R s sid))) (\<lambda>g. Inr (g, True))
          else res_bind (map_err (journal_err X) (snd (redb_open_new R (x_uuid_text X) s sid))) (\<lambda>g.
               Inr (g, False)))))"

definition query_open_read_only ::
    "'x command_ext_scheme \<Rightarrow> ('db, 'r) graph_api_scheme \<Rightarrow> string + 'db \<Rightarrow> byte list
     \<Rightarrow> agent_error + 'db redb_graph" where
  "query_open_read_only X R opened sid = map_err (journal_err X) (open_journal_read_only R opened sid)"

definition query_contains_session ::
    "'x command_ext_scheme \<Rightarrow> ('db, 'r) graph_api_scheme \<Rightarrow> bool \<Rightarrow> string + 'db \<Rightarrow> byte list
     \<Rightarrow> agent_error + bool" where
  "query_contains_session X R is_file opened sid =
     map_err (journal_err X) (journal_contains_session R is_file opened sid)"

section \<open>Opening leaves sessions alone\<close>

lemma ensure_graph_tables_content:
  assumes "redb_ok R C" "ensure_graph_tables R db = Inr db'"
  shows "C db' = C db"
  using assms by (auto simp: ensure_graph_tables_def dest!: redb_dests [where C = C])

lemma ensure_objects_table_content:
  assumes "redb_ok R C" "ensure_objects_table R db = Inr db'"
  shows "C db' = C db"
  using assms by (auto simp: ensure_objects_table_def dest!: redb_dests [where C = C])

lemma redb_open_content:
  assumes "redb_ok R C" "redb_open R opened = Inr s"
  obtains db where "opened = Inr db" "C (rs_db s) = C db"
  using assms by (auto simp: redb_open_def split: if_splits dest: ensure_objects_table_content)

lemma session_rep_cong:
  assumes "C db' SESSION_EVENTS_TABLE = C db SESSION_EVENTS_TABLE"
    and "C db' SESSION_HEADS_TABLE (KBytes sid) = C db SESSION_HEADS_TABLE (KBytes sid)"
    and "session_rep R C db sid hs"
  shows "session_rep R C db' sid hs"
  using assms by (simp add: session_rep_def event_keys_wf_def)

text \<open>\<open>open_new\<close> creates the head row of a session that had none and changes nothing else.\<close>

lemma redb_open_new_content:
  assumes ok: "redb_ok R C" and op: "redb_open_new R uuid_text s sid = (s', r)"
  shows "C (rs_db s') SESSION_EVENTS_TABLE = C (rs_db s) SESSION_EVENTS_TABLE"
    and "C (rs_db s') OBJECTS_TABLE = C (rs_db s) OBJECTS_TABLE"
    and "rs_algorithm s' = rs_algorithm s"
    and "C (rs_db s') SESSION_HEADS_TABLE = C (rs_db s) SESSION_HEADS_TABLE \<or>
         (C (rs_db s) SESSION_HEADS_TABLE (KBytes sid) = None \<and>
          (\<exists>b. pc_head_encode R None = Inr b \<and>
             C (rs_db s') SESSION_HEADS_TABLE = (C (rs_db s) SESSION_HEADS_TABLE)(KBytes sid \<mapsto> b)))"
    and "r = Inr g \<Longrightarrow> rg_store g = s' \<and> rg_session_id g = sid \<and>
           C (rs_db s) SESSION_HEADS_TABLE (KBytes sid) = None \<and>
           (\<exists>b. pc_head_encode R None = Inr b \<and>
             C (rs_db s') SESSION_HEADS_TABLE = (C (rs_db s) SESSION_HEADS_TABLE)(KBytes sid \<mapsto> b))"
  using op
  by (auto simp: redb_open_new_def Let_def split: sum.splits if_splits
      dest!: ensure_graph_tables_content [OF ok] redb_begin_writeD [OF _ ok] redb_open_tableD [OF _ ok]
        redb_getD [OF _ ok] redb_insertD [OF _ ok] redb_commitD [OF _ ok])

end
