(* ===== verification/Example_Env.thy ===== *)
theory Example_Env
  imports Render Cli_Journal
begin

text \<open>
  A concrete instance of every parameter of the model, for the witnesses: a hash that pads to 32
  bytes, the real hexadecimal codec, codecs that know the two events of one small session, a
  signature scheme whose signature carries the key, and an association list as database. Each
  hypothesis the theorems make about external code is shown to hold of it.
\<close>

section \<open>Digests and hexadecimal\<close>

definition ex_digest :: "byte list \<Rightarrow> byte list" where
  "ex_digest b = take 32 (b @ replicate 32 0)"

definition hex_encode :: "byte list \<Rightarrow> string" where
  "hex_encode bs = concat (map (\<lambda>b. [hex_digit (unat b div 16), hex_digit (unat b mod 16)]) bs)"

definition hex_value :: "char \<Rightarrow> nat option" where
  "hex_value c = map_of (zip ''0123456789abcdef'' [0..<16]) c"

fun hex_decode :: "string \<Rightarrow> string + byte list" where
  "hex_decode [] = Inr []"
| "hex_decode [c] = Inl ''Odd number of digits''"
| "hex_decode (c # d # s) =
     (case (hex_value c, hex_value d) of
        (Some x, Some y) \<Rightarrow> res_bind (hex_decode s) (\<lambda>bs. Inr (of_nat (16 * x + y) # bs))
      | _ \<Rightarrow> Inl ''Invalid character'')"

lemma hex_tables:
  "list_all (\<lambda>d. hex_value (hex_digit d) = Some d \<and> is_lower_hex (hex_digit d)) [0..<16]"
  by code_simp

lemma hex_digit_facts: "d < 16 \<Longrightarrow> hex_value (hex_digit d) = Some d \<and> is_lower_hex (hex_digit d)"
  using hex_tables unfolding list_all_iff by simp

lemma byte_nibbles: "unat (b :: byte) div 16 < 16" "unat (b :: byte) mod 16 < 16"
proof -
  have "unat b < 2 ^ 8" by (rule order_less_le_trans [OF unsigned_less]) simp
  then show "unat b div 16 < 16" by simp
qed simp

lemma hex_encode_Cons:
  "hex_encode (b # bs) = hex_digit (unat b div 16) # hex_digit (unat b mod 16) # hex_encode bs"
  by (simp add: hex_encode_def)

lemma hex_decode_of_encode: "hex_decode (hex_encode bs) = Inr bs"
proof (induction bs)
  case Nil
  show ?case by (simp add: hex_encode_def)
next
  case (Cons b bs)
  have "16 * (unat b div 16) + unat b mod 16 = unat b" by simp
  with Cons hex_digit_facts [OF byte_nibbles(1) [of b]] hex_digit_facts [OF byte_nibbles(2) [of b]]
  show ?case by (simp add: hex_encode_Cons del: of_nat_add of_nat_mult)
qed

lemma hex_encode_shape: "length (hex_encode bs) = 2 * length bs \<and> list_all is_lower_hex (hex_encode bs)"
  using byte_nibbles hex_digit_facts
  by (induction bs) (simp_all add: hex_encode_Cons, simp add: hex_encode_def)

lemma hex_decode_length: "hex_decode s = Inr bs \<Longrightarrow> length s = 2 * length bs"
  by (induction s arbitrary: bs rule: hex_decode.induct) (auto split: option.splits)

section \<open>One session\<close>

definition ex_hash :: "byte \<Rightarrow> hash" where
  "ex_hash b = \<lparr>h_algorithm = Sha256, h_bytes = ex_digest [b]\<rparr>"

text \<open>A session start at one second and a session end at three and a half; the start refers to the
  objects with contents 65 and 66.\<close>

definition ex_start :: event where
  "ex_start = \<lparr>ev_parents = [], ev_kind = SessionStart (ex_hash 65) (ex_hash 66),
               ev_emitted_at = 1000000000, ev_sequence = 0\<rparr>"

definition ex_end :: event where
  "ex_end = \<lparr>ev_parents = [ex_hash 1], ev_kind = SessionEnd None,
             ev_emitted_at = 3500000000, ev_sequence = 1\<rparr>"

text \<open>The same end, written at another time within the same second.\<close>

definition ex_end_later :: event where
  "ex_end_later = ex_end\<lparr>ev_emitted_at := 3600000000\<rparr>"

definition ex_wire_start :: wire_event where
  "ex_wire_start = \<lparr>we_parents = [],
     we_kind = WSessionStart (WireHash (ex_digest [65])) (WireHash (ex_digest [66])),
     we_emitted_at = 1, we_sequence = 0\<rparr>"

definition ex_wire_end :: wire_event where
  "ex_wire_end = \<lparr>we_parents = [WireHash (ex_digest [1])], we_kind = WSessionEnd None,
                  we_emitted_at = 3, we_sequence = 1\<rparr>"

definition ex_cbor_event :: "wire_event \<Rightarrow> string + byte list" where
  "ex_cbor_event w = (if w = ex_wire_start then Inr [1] else if w = ex_wire_end then Inr [2]
                      else Inl ''unsupported event'')"

definition ex_frame_start :: frame_event where
  "ex_frame_start = \<lparr>fe_parents = [], fe_kind = FSessionStart (ex_digest [65]) (ex_digest [66]),
                     fe_emitted_at = 1, fe_sequence = 0\<rparr>"

definition ex_frame_end :: frame_event where
  "ex_frame_end = \<lparr>fe_parents = [ex_digest [1]], fe_kind = FSessionEnd None,
                   fe_emitted_at = 3, fe_sequence = 1\<rparr>"

definition ex_frame_encode :: "frame_event \<Rightarrow> string + byte list" where
  "ex_frame_encode w = (if w = ex_frame_start then Inr [1] else if w = ex_frame_end then Inr [2]
                        else Inl ''unsupported event'')"

definition ex_frame_decode :: "byte list \<Rightarrow> string + frame_event" where
  "ex_frame_decode b = (if b = [1] then Inr ex_frame_start else if b = [2] then Inr ex_frame_end
                        else Inl ''unsupported bytes'')"

section \<open>One manifest\<close>

definition ex_uuid :: string where
  "ex_uuid = ''00000000-0000-0000-0000-000000000001''"

definition ex_timestamp :: string where
  "ex_timestamp = ''1970-01-01T00:00:00Z''"

definition ex_manifest :: manifest where
  "ex_manifest =
     \<lparr>mf_agef_version = AGEF_SPEC_VERSION,
      mf_producer = \<lparr>pr_name = ''akmon'', pr_version = ''3.0.0''\<rparr>,
      mf_session = \<lparr>sm_id = ex_uuid, sm_head = hex_encode (ex_digest [2]),
                    sm_created_at = ex_timestamp, sm_ended_at = ex_timestamp\<rparr>,
      mf_hash_algorithm = ''sha256'', mf_object_count = 2, mf_event_count = 2,
      mf_signatures = None, mf_operator_attestations = None, mf_extra = []\<rparr>"

definition ex_manifest_to_value :: "manifest \<Rightarrow> string + json" where
  "ex_manifest_to_value m = (if m = ex_manifest then Inr (JString ''manifest'') else Inl ''unsupported manifest'')"

definition ex_json_to_vec :: "json \<Rightarrow> string + byte list" where
  "ex_json_to_vec v = (if v = JString ''manifest'' then Inr [9] else Inl ''unsupported value'')"

definition ex_manifest_from_slice :: "byte list \<Rightarrow> string + manifest" where
  "ex_manifest_from_slice b = (if b = [9] then Inr ex_manifest else Inl ''unsupported manifest'')"

definition ex_rfc3339_parse :: "string \<Rightarrow> string + datetime" where
  "ex_rfc3339_parse s = (if s = ex_timestamp then Inr 0 else Inl ''unsupported timestamp'')"

definition ex_marker :: sentinel_marker where
  "ex_marker = \<lparr>sn_akmon_redacted = True, sn_original_hash = hex_encode (ex_digest [65]),
                sn_original_size = 1, sn_reason = ''gdpr'', sn_redacted_at = ex_timestamp\<rparr>"

definition ex_value :: cbor_value where
  "ex_value = CvMap [(CvText ''akmon_redacted'', CvBool True)]"

section \<open>The environment\<close>

definition ex :: command_ext where
  "ex = \<lparr>x_sha256 = ex_digest, x_blake3 = ex_digest, x_hex_encode = hex_encode, x_hex_decode = hex_decode,
         x_unix_timestamp = (\<lambda>t. t div 1000000000), x_cbor_event = ex_cbor_event,
         x_uuid_canonical = (\<lambda>s. if s = ex_uuid then Inr s else Inl ''unsupported uuid''),
         x_rfc3339_parse = ex_rfc3339_parse,
         x_manifest_to_value = ex_manifest_to_value, x_json_to_vec = ex_json_to_vec,
         x_manifest_from_slice = ex_manifest_from_slice,
         x_uuid_text = (\<lambda>b. ex_uuid),
         x_frame_encode = ex_frame_encode, x_frame_decode = ex_frame_decode,
         x_from_unix_timestamp = (\<lambda>s. Some (s * 1000000000)),
         x_encoder_new = (\<lambda>level. None), x_tar_append = (\<lambda>p b. None), x_tar_finish = None,
         x_ed_generate = (\<lambda>rng. Some [of_nat rng]), x_ed_public = (\<lambda>sk. Some (ex_digest sk)),
         x_ed_sign = (\<lambda>sk msg. ex_digest sk @ msg), x_ed_verify = (\<lambda>pk msg sig. sig = pk @ msg),
         x_rfc3339_format = (\<lambda>t. if t = 0 then Some ex_timestamp else None),
         x_sentinel_encode = (\<lambda>m. if m = ex_marker then Inr [7] else Inl ''unsupported marker''),
         x_sentinel_decode = (\<lambda>b. if b = [7] then Inr ex_marker else Inl ''unsupported marker''),
         x_value_encode = (\<lambda>v. if v = ex_value then Inr [7] else Inl ''unsupported value''),
         x_value_decode = (\<lambda>b. if b = [7] then Inr ex_value else Inl ''unsupported value''),
         x_json_decode = (\<lambda>b. Inl ''not json''),
         x_read_file = (\<lambda>p. if p = ''operator.pub'' then Inr (hex_encode (ex_digest [1])) else Inl ''no such file''), x_to_uppercase = (\<lambda>s. s),
         x_uuid_parse = (\<lambda>s. if s = ex_uuid then Inr (replicate 16 0) else Inl ''unsupported uuid''),
         x_subsec_nanos = (\<lambda>t. nat (t mod 1000000000)), x_chrono_iso = (\<lambda>s n. Some ex_timestamp)\<rparr>"

lemma ex_simps [simp]:
  "x_sha256 ex = ex_digest" "x_blake3 ex = ex_digest" "x_hex_encode ex = hex_encode"
  "x_hex_decode ex = hex_decode" "x_unix_timestamp ex t = t div 1000000000"
  "x_cbor_event ex = ex_cbor_event" "x_frame_encode ex = ex_frame_encode"
  "x_frame_decode ex = ex_frame_decode" "x_from_unix_timestamp ex s = Some (s * 1000000000)"
  by (simp_all add: ex_def)

lemma length_ex_digest [simp]: "length (ex_digest b) = 32"
  by (simp add: ex_digest_def)

lemma ex_hash_ok: "hash_ext_ok ex"
  using hex_encode_shape hex_decode_of_encode hex_decode_length by (simp add: hash_ext_ok_def)

lemma ex_wire_distinct: "ex_wire_start \<noteq> ex_wire_end" "ex_frame_start \<noteq> ex_frame_end"
  by (simp_all add: ex_wire_start_def ex_wire_end_def ex_frame_start_def ex_frame_end_def)

lemma ex_cbor_inj: "cbor_inj ex"
  by (auto simp: cbor_inj_def ex_cbor_event_def split: if_splits)

lemma ex_frame_codec_ok: "frame_codec_ok ex"
  using ex_wire_distinct by (auto simp: frame_codec_ok_def ex_frame_encode_def ex_frame_decode_def)

lemma ex_ed_ok: "ed_ok ex"
  by (simp add: ed_ok_def ex_def ED25519_PUBLIC_KEY_LEN_def)

lemma ex_uuid_text_ok: "uuid_text_ok ex"
proof -
  have "one_line ex_uuid" by code_simp
  then show ?thesis by (auto simp: uuid_text_ok_def ex_def split: if_splits)
qed

lemma ex_sentinel_codec_ok: "sentinel_codec_ok ex"
  by (auto simp: sentinel_codec_ok_def ex_def ex_marker_def ex_value_def ex_rfc3339_parse_def
      split: if_splits)

section \<open>The session is accepted\<close>

definition ex_store :: mem_store where
  "ex_store = \<lparr>ms_algorithm = Sha256,
     ms_objects = [(ex_digest [65], [65]), (ex_digest [66], [66])], ms_poisoned = False\<rparr>"

definition ex_graph :: mem_graph where
  "ex_graph = \<lparr>mg_store = ex_store, mg_session_id = replicate 16 0,
     mg_events = [(ex_hash 1, ex_start), (ex_hash 2, ex_end)]\<rparr>"

definition ex_bundle :: bundle_contents where
  "ex_bundle = \<lparr>bc_manifest = ex_manifest, bc_events = [ex_start, ex_end],
     bc_objects = [(ex_hash 65, [65]), (ex_hash 66, [66])]\<rparr>"

lemma ex_wire_events:
  "wire_of_event ex ex_start = ex_wire_start" "wire_of_event ex ex_end = ex_wire_end"
  "wire_of_event ex ex_end_later = ex_wire_end"
  by (simp_all add: wire_of_event_def ex_start_def ex_end_def ex_end_later_def ex_wire_start_def
      ex_wire_end_def to_wire_def ex_hash_def)

lemma ex_content_hash:
  "content_hash ex Sha256 ex_start = Inr (ex_hash 1)"
  "content_hash ex Sha256 ex_end = Inr (ex_hash 2)"
  "content_hash ex Sha256 ex_end_later = Inr (ex_hash 2)"
  using ex_wire_distinct
  by (simp_all add: content_hash_def ex_wire_events ex_cbor_event_def digest_bytes_def ex_hash_def)

lemma ex_digest_single [simp]: "ex_digest [a] = ex_digest [b] \<longleftrightarrow> a = b"
  by (simp add: ex_digest_def)

lemma ex_store_get:
  "hm_get (ms_objects ex_store) k =
     (if k = ex_digest [65] then Some [65] else if k = ex_digest [66] then Some [66] else None)"
  by (simp add: hm_get_def ex_store_def)

lemma ex_object_ok: "object_ok ex (mem_view ex_store) (ex_hash 65)" "object_ok ex (mem_view ex_store) (ex_hash 66)"
  using mem_view_total [of ex_store] ex_store_get
  by (simp_all add: object_ok_def view_total_def ex_store_def ex_hash_def digest_bytes_def)

lemma ex_linear:
  assumes "e = ex_end \<or> e = ex_end_later"
  shows "linear_session ex (mem_view ex_store) [(ex_hash 1, ex_start), (ex_hash 2, e)] None"
proof -
  have "hash_chain (content_hash ex Sha256) 0 None [(ex_hash 1, ex_start), (ex_hash 2, e)]"
    using assms ex_content_hash
    by (auto simp: entry_ok_def link_ok_def is_session_start_def ex_start_def ex_end_def ex_end_later_def)
  moreover have "objects_ok ex (mem_view ex_store) ex_start" "objects_ok ex (mem_view ex_store) e"
    using assms ex_object_ok by (auto simp: objects_ok_def ex_start_def ex_end_def ex_end_later_def opt_list_def)
  moreover have "ends_once [ex_start, e]"
    using assms by (auto simp: ends_once_def is_session_end_def ex_start_def ex_end_def ex_end_later_def)
  ultimately show ?thesis by (simp add: linear_session_def ex_store_def mem_view_def)
qed

lemma ex_bundle_session: "bundle_session ex Sha256 ex_bundle [ex_hash 1, ex_hash 2]"
proof -
  have chain: "hash_chain (content_hash ex Sha256) 0 None [(ex_hash 1, ex_start), (ex_hash 2, ex_end)]"
    "ends_once [ex_start, ex_end]"
    using ex_linear [of ex_end] by (simp_all add: linear_session_def ex_store_def mem_view_def)
  have head: "parse_hex ex Sha256 (hex_encode (ex_digest [2])) = Inr (ex_hash 2)"
    by (simp add: parse_hex_def hex_decode_of_encode SHA256_LEN_def ex_hash_def)
  show ?thesis
    using chain head
    by (auto simp: bundle_session_def ex_bundle_def ex_manifest_def kind_ok32_def kind_ok_def
        session_objects_def ex_start_def ex_end_def opt_list_def digest_bytes_def ex_hash_def)
qed

text \<open>The events as the bundle reader returns them: times cut to whole seconds.\<close>

definition ex_start_read :: event where
  "ex_start_read = ex_start"

definition ex_end_read :: event where
  "ex_end_read = ex_end\<lparr>ev_emitted_at := 3000000000\<rparr>"

definition ex_event_bytes :: "byte list" where
  "ex_event_bytes = [0, 0, 0, 1, 1, 0, 0, 0, 1, 2]"

lemma ex_bundle_algorithm: "mf_hash_algorithm (bc_manifest ex_bundle) = hash_algorithm_to_string Sha256"
  by (simp add: ex_bundle_def ex_manifest_def hash_algorithm_to_string_def)

text \<open>Only the wire form of the events matters to the verifier.\<close>

lemma ex_bundle_other_end:
  assumes "e = ex_end\<lparr>ev_emitted_at := t\<rparr>" "t div 1000000000 = 3"
  shows "bundle_session ex Sha256 (ex_bundle\<lparr>bc_events := [ex_start, e]\<rparr>) [ex_hash 1, ex_hash 2]"
proof -
  have e: "ev_kind e = ev_kind ex_end" "ev_parents e = ev_parents ex_end" "ev_sequence e = ev_sequence ex_end"
    using assms(1) by simp_all
  have "wire_of_event ex e = wire_of_event ex ex_end"
    using assms(2) by (simp add: assms(1) wire_of_event_def ex_end_def)
  then have "content_hash ex Sha256 e = content_hash ex Sha256 ex_end" by (rule content_hash_cong)
  with ex_bundle_session e show ?thesis
    by (simp add: bundle_session_def ex_bundle_def entry_ok_def link_ok_def ends_once_def session_objects_def)
qed

lemma ex_bundle_later_session:
  "bundle_session ex Sha256 (ex_bundle\<lparr>bc_events := [ex_start, ex_end_later]\<rparr>) [ex_hash 1, ex_hash 2]"
  by (rule ex_bundle_other_end [of _ 3600000000]) (simp_all add: ex_end_later_def)

lemma ex_bundle_read_session:
  "bundle_session ex Sha256 (ex_bundle\<lparr>bc_events := [ex_start_read, ex_end_read]\<rparr>) [ex_hash 1, ex_hash 2]"
  unfolding ex_start_read_def
  by (rule ex_bundle_other_end [of _ 3000000000]) (simp_all add: ex_end_read_def)

lemma ex_frames:
  "from_event ex ex_start = ex_frame_start" "from_event ex ex_end = ex_frame_end"
  by (simp_all add: from_event_def ex_start_def ex_end_def ex_frame_start_def ex_frame_end_def ex_hash_def)

lemma ex_prefix: "u32_to_be 1 = [0, 0, 0, 1]"
  by code_simp

lemma ex_write_event:
  "write_event ex ex_start = Inr [0, 0, 0, 1, 1]" "write_event ex ex_end = Inr [0, 0, 0, 1, 2]"
  using ex_wire_distinct
  by (simp_all add: write_event_def ex_frames ex_frame_encode_def ex_prefix)

lemma ex_events_written: "write_events ex [ex_start, ex_end] = Inr ex_event_bytes"
  by (simp add: ex_write_event ex_event_bytes_def)

lemma ex_events_storable: "list_all (event_storable ex Sha256) [ex_start, ex_end]"
  by (simp add: event_storable_def time_ok_def ex_start_def ex_end_def ex_hash_def opt_list_def)

lemma ex_truncate: "map (truncate_event ex) [ex_start, ex_end] = [ex_start_read, ex_end_read]"
proof -
  have "(1000000000::int) div 1000000000 * 1000000000 = 1000000000" by simp
  moreover have "(3500000000::int) div 1000000000 * 1000000000 = 3000000000" by simp
  ultimately show ?thesis
    by (simp add: truncate_event_def truncate_kind_def truncate_time_def ex_start_read_def ex_end_read_def
      ex_start_def ex_end_def)
qed

lemma ex_frame_limit:
  "\<forall>e \<in> set [ex_start, ex_end]. \<forall>frame. write_event ex e = Inr frame \<longrightarrow>
     length frame \<le> unat DEFAULT_MAX_EVENT_FRAME_LEN + 4"
  by (simp add: ex_write_event DEFAULT_MAX_EVENT_FRAME_LEN_def)

lemma ex_events_read:
  "read_events ex Sha256 DEFAULT_MAX_EVENT_FRAME_LEN ex_event_bytes = Inr [ex_start_read, ex_end_read]"
  using read_write_events [OF ex_frame_codec_ok ex_events_storable ex_events_written ex_frame_limit]
  by (simp only: ex_truncate)

section \<open>The manifest and the archive are accepted\<close>

lemma ex_encoder: "x_encoder_new ex level = None" "x_tar_finish ex = None"
  by (simp_all add: ex_def)

lemma ex_manifest_bytes: "to_canonical_json_bytes ex ex_manifest = Inr [9]"
  by (simp add: to_canonical_json_bytes_def ex_def ex_manifest_to_value_def ex_json_to_vec_def)

lemma ex_manifest_version: "validate_agef_version ex_manifest AGEF_SPEC_VERSION = Inr ()"
proof -
  have "parse_semver AGEF_SPEC_VERSION \<noteq> None"
    by (simp add: parse_semver_def AGEF_SPEC_VERSION_def parse_u64_def is_ascii_digit_def digits_value_def)
  then show ?thesis by (auto simp: validate_agef_version_def ex_manifest_def)
qed

lemma ex_manifest_accepted: "manifest_from_json_bytes ex [9] = Inr ex_manifest"
proof -
  have "validate_head_format ex_manifest = Inr ()"
    using hex_encode_shape [of "ex_digest [2]"]
    by (auto simp: validate_head_format_iff ex_manifest_def hash_algorithm_to_string_def intro: exI [of _ Sha256])
  moreover have "validate_hash_algorithm ex_manifest = Inr ()"
    by (simp add: validate_hash_algorithm_def ex_manifest_def)
  moreover have "validate_session_id_format ex ex_manifest = Inr ()" "validate_timestamps ex ex_manifest = Inr ()"
    by (simp_all add: validate_session_id_format_def validate_timestamps_def ex_manifest_def ex_def
        ex_rfc3339_parse_def)
  ultimately have "validate_all ex ex_manifest = Inr ()" by (simp add: validate_all_def)
  then show ?thesis by (simp add: manifest_from_json_bytes_def ex_manifest_from_slice_def ex_def)
qed

definition ex_entries :: entries where
  "ex_entries = [(''manifest.json'', [9]), (''events.bin'', ex_event_bytes),
     object_entry (hex_encode (ex_digest [65]), [65]), object_entry (hex_encode (ex_digest [66]), [66])]"

lemma ex_bundle_read_archive:
  "read_bundle_limited ex default_read_options limit (Inr (Inr (map as_item ex_entries))) =
   Inr (ex_bundle\<lparr>bc_events := [ex_start_read, ex_end_read]\<rparr>)"
proof -
  let ?l = "[(hex_encode (ex_digest [65]), [65]), (hex_encode (ex_digest [66]), [66 :: byte])]"
  let ?st = "\<lparr>sc_manifest = Some [9], sc_events = Some ex_event_bytes, sc_objects = [], sc_seen = []\<rparr>"
  have hex: "decode_object ex Sha256 (hex_encode (ex_digest [b])) = Inr (ex_hash b)"
    "list_all is_lower_hex (hex_encode (ex_digest [b]))" "hex_encode (ex_digest [b]) \<noteq> []" for b
    using decode_object_to_hex [OF ex_hash_ok, of "ex_hash b" Sha256]
    by (simp_all add: to_hex_def ex_hash_def hash_wf_def SHA256_LEN_def)
  have "ex_digest [65] \<noteq> ex_digest [66]" by simp
  then have inj: "hex_encode (ex_digest [65]) \<noteq> hex_encode (ex_digest [66])"
    by (metis hex_decode_of_encode sum.inject(2))
  have "list_all (\<lambda>(x, b). list_all is_lower_hex x \<and> x \<noteq> []) ?l" using hex(2,3) by simp
  then obtain st where st: "scan_entries default_read_options limit ?st (map as_item (map object_entry ?l)) = Inr st"
    "sc_manifest st = Some [9]" "sc_events st = Some ex_event_bytes" "sc_objects st = ?l"
    using scan_object_items [of ?l ?st default_read_options limit] inj by auto
  have first: "scan_entries default_read_options limit scan_empty
      (map as_item [(''manifest.json'', [9]), (''events.bin'', ex_event_bytes)]) = Inr ?st"
    by (simp add: scan_entry_def as_item_def scan_file_def scan_empty_def path_to_unix_def)
  have entries: "ex_entries = [(''manifest.json'', [9]), (''events.bin'', ex_event_bytes)] @ map object_entry ?l"
    by (simp add: ex_entries_def)
  have "scan_entries default_read_options limit scan_empty (map as_item ex_entries) = Inr st"
    unfolding entries map_append scan_entries_append first res_bind.simps by (rule st(1))
  then show ?thesis
    using st(2-4) hex(1) ex_manifest_accepted ex_manifest_version ex_events_read ex_bundle_algorithm
    by (simp add: read_bundle_limited_def assemble_bundle_def default_read_options_def ex_bundle_def ex_hash_def)
qed

definition ex_identity :: operator_identity where
  "ex_identity = \<lparr>oi_operator_id = ''alice'', oi_display_name = ''Alice'', oi_role = ''auditor'', oi_org = ''acme''\<rparr>"

text \<open>An attestation signed by the key pair 2 that carries the key id of key pair 1.\<close>

definition ex_mislabelled :: operator_attestation where
  "ex_mislabelled =
     \<lparr>oa_scheme = ''ed25519'', oa_key_id = key_id ex (ex_digest [1]),
      oa_statement_version = ''AGEF-OPERATOR-v1'', oa_operator_id = ''alice'', oa_display_name = ''Alice'',
      oa_role = ''auditor'', oa_org = ''acme'',
      oa_signature = hex_encode (ex_digest [2] @ as_bytes (identity_statement ex_manifest ex_identity)),
      oa_created_at = ex_timestamp\<rparr>"

definition ex_attested :: "operator_attestation \<Rightarrow> bundle_contents" where
  "ex_attested att = ex_bundle\<lparr>bc_manifest := ex_manifest\<lparr>mf_operator_attestations := Some [att]\<rparr>\<rparr>"

lemma ex_attested_session: "bundle_session ex Sha256 (ex_attested att) [ex_hash 1, ex_hash 2]"
  using ex_bundle_session by (simp add: bundle_session_def ex_attested_def ex_bundle_def)

lemma ex_attested_clean: "bundle_report_is_clean (verify_bundle ex (ex_attested att))"
  using ex_attested_session ex_bundle_algorithm
  by (auto simp: verify_bundle_clean_iff ex_attested_def ex_bundle_def)

lemma ex_attested_capture: "otel_capture_info ex (ex_attested att) = None"
  by (simp add: otel_capture_info_def ex_def split: bind_splits option.splits)

lemma ex_attestation_built:
  "\<exists>att. build_operator_attestation ex m ex_identity sk t = Inr att"
  by (simp add: build_operator_attestation_def validate_operator_field_def ex_identity_def LF_def
      public_key_from_pkcs8_def sign_statement_def ex_def)

lemma ex_graph_verifies: "\<exists>r. mem_verify ex ex_graph = Inr r \<and> report_is_clean r"
  using ex_linear [of ex_end] unfolding mem_verify_clean_iff by (simp add: ex_graph_def)

text \<open>The session is reached by two puts and two appends.\<close>

lemma ex_graph_reachable: "graph_reachable ex ex_graph"
proof -
  define g0 where "g0 = mem_open_new (mem_new Sha256) (replicate 16 0)"
  define g1 where "g1 = g0\<lparr>mg_store := fst (mem_put ex (mg_store g0) [65])\<rparr>"
  define g2 where "g2 = g1\<lparr>mg_store := fst (mem_put ex (mg_store g1) [66])\<rparr>"
  have store: "mg_store g2 = ex_store" "mg_events g2 = []" "mg_session_id g2 = replicate 16 0"
    by (simp_all add: g0_def g1_def g2_def mem_open_new_def mem_new_def mem_put_def digest_bytes_def
        hm_insert_vacant_def ex_store_def)
  have r2: "graph_reachable ex g2"
  proof -
    have put: "graph_step ex g (g\<lparr>mg_store := fst (mem_put ex (mg_store g) b)\<rparr>)" for g b
      by (rule step_put) (rule prod.collapse [symmetric])
    have "graph_reachable ex g0" unfolding g0_def by (rule reach_new)
    then have "graph_reachable ex g1" unfolding g1_def using put by (rule reach_step)
    then show ?thesis unfolding g2_def using put by (rule reach_step)
  qed
  let ?g3 = "g2\<lparr>mg_events := [(ex_hash 1, ex_start)]\<rparr>"
  have a3: "mem_append ex 1000000000 g2 (ev_kind ex_start) = (?g3, Inr (ex_hash 1))"
    unfolding mem_append_Inr_iff
    using store ex_content_hash(1)
    by (simp add: ex_start_def kind_ok_def is_session_start_def opt_list_def last_opt_def ex_store_def)
  have a4: "mem_append ex 3500000000 ?g3 (ev_kind ex_end) = (ex_graph, Inr (ex_hash 2))"
    unfolding mem_append_Inr_iff
    using store ex_content_hash(2)
    by (simp add: ex_end_def kind_ok_def is_session_start_def opt_list_def ex_store_def ex_graph_def)
  show ?thesis
    using reach_step [OF reach_step [OF r2 step_append [OF a3]] step_append [OF a4]] .
qed

section \<open>A database\<close>

text \<open>The rows of all tables in one list; every call succeeds on it.\<close>

type_synonym ex_db = "((string \<times> rb_key) \<times> byte list) list"

definition ex_rows :: "ex_db \<Rightarrow> string \<Rightarrow> (rb_key \<times> byte list) list" where
  "ex_rows db t = map (\<lambda>((t', k), v). (k, v)) (filter (\<lambda>((t', k), v). t' = t) db)"

definition ex_stored_encode :: "hash \<times> event \<Rightarrow> string + byte list" where
  "ex_stored_encode p =
     (if p = (ex_hash 1, ex_start) then Inr [1] else if p = (ex_hash 2, ex_end) then Inr [2]
      else Inl ''unsupported row'')"

definition ex_stored_decode :: "byte list \<Rightarrow> string + hash \<times> event" where
  "ex_stored_decode b =
     (if b = [1] then Inr (ex_hash 1, ex_start) else if b = [2] then Inr (ex_hash 2, ex_end)
      else Inl ''unsupported row'')"

definition ex_head_encode :: "hash option \<Rightarrow> string + byte list" where
  "ex_head_encode d =
     (if d = None then Inr [0] else if d = Some (ex_hash 1) then Inr [1]
      else if d = Some (ex_hash 2) then Inr [2] else Inl ''unsupported head'')"

definition ex_head_decode :: "byte list \<Rightarrow> string + hash option" where
  "ex_head_decode b =
     (if b = [0] then Inr None else if b = [1] then Inr (Some (ex_hash 1))
      else if b = [2] then Inr (Some (ex_hash 2)) else Inl ''unsupported head'')"

definition exr :: "ex_db graph_api" where
  "exr = \<lparr>rb_begin_write = Inr, rb_begin_read = Inr, rb_open_table = (\<lambda>db t. Inr db),
          rb_get = (\<lambda>db t k. Inr (map_of db (t, k))),
          rb_insert = (\<lambda>db t k v. Inr (((t, k), v) # filter (\<lambda>r. fst r \<noteq> (t, k)) db)),
          rb_remove = (\<lambda>db t k. Inr (filter (\<lambda>r. fst r \<noteq> (t, k)) db)),
          rb_iter = (\<lambda>db t. let rows = ex_rows db t in
                       if distinct (map fst rows) then Inr rows else Inl ''corrupt''),
          rb_commit = Inr,
          pc_meta_encode = (\<lambda>m. Inl ''unsupported''), pc_meta_decode = (\<lambda>b. Inl ''unsupported''),
          pc_stored_encode = ex_stored_encode, pc_stored_decode = ex_stored_decode,
          pc_head_encode = ex_head_encode, pc_head_decode = ex_head_decode\<rparr>"

definition exc :: "ex_db db_content" where
  "exc db t k = map_of db (t, k)"

lemma map_of_ex_rows: "map_of (ex_rows db t) k = map_of db (t, k)"
  unfolding ex_rows_def by (induction db) auto

lemma map_of_filter_key: "map_of (filter (\<lambda>r. fst r \<noteq> x) m) y = (if x = y then None else map_of m y)"
  by (induction m) auto

lemma ex_redb_ok: "redb_ok exr exc"
  by (auto simp: redb_ok_def exr_def exc_def fun_eq_iff map_of_filter_key map_of_ex_rows Let_def
      split: if_splits)

lemma ex_graph_codec_ok: "graph_codec_ok exr"
proof -
  have "ex_start \<noteq> ex_end" by (simp add: ex_start_def ex_end_def)
  then show ?thesis
    by (auto simp: graph_codec_ok_def exr_def ex_stored_encode_def ex_stored_decode_def ex_head_encode_def
        ex_head_decode_def ex_hash_def)
qed

text \<open>An open session without events, and the same session after its start event.\<close>

definition ex_sid :: "byte list" where
  "ex_sid = replicate 16 0"

definition ex_redb :: "ex_db \<Rightarrow> ex_db redb_graph" where
  "ex_redb db = \<lparr>rg_store = \<lparr>rs_db = db, rs_algorithm = Sha256\<rparr>, rg_session_id = ex_sid\<rparr>"

definition ex_db_empty :: ex_db where
  "ex_db_empty = [((SESSION_HEADS_TABLE, KBytes ex_sid), [0])]"

lemma ex_session_rep_empty: "session_rep exr exc ex_db_empty ex_sid []"
  by (simp add: session_rep_def event_keys_wf_def ex_db_empty_def exc_def exr_def ex_head_decode_def ex_sid_def)

end
