(* ===== verification/Journal_Properties.thy ===== *)
theory Journal_Properties
  imports Example_Env
begin

text \<open>
  What the journal crate promises: its verifier accepts exactly the linear sessions, the head
  commits to the whole session, honest sessions verify, tampering is reported, and the database
  implementation refines the in-memory one. Each property is followed by its witness on the
  environment of \<open>Example_Env\<close> where it has hypotheses.
\<close>

section \<open>Helper facts\<close>

lemma clean_history_linear:
  "verify_history_against_store X hs d V = Inr r \<Longrightarrow> report_is_clean r \<Longrightarrow> linear_session X V hs d"
  using verify_history_clean_iff by blast

lemma mem_verify_clean_hash:
  assumes "mem_verify X g = Inr r" "report_is_clean r" "i < length (mg_events g)"
  shows "content_hash X (ms_algorithm (mg_store g)) (snd (mg_events g ! i)) = Inr (fst (mg_events g ! i))"
proof -
  have "linear_session X (mem_view (mg_store g)) (mg_events g) None"
    using assms(1,2) mem_verify_clean_iff by blast
  then show ?thesis using hash_chain_nth assms(3) by (fastforce simp: linear_session_def)
qed

lemma mem_verify_clean_objects:
  assumes "mem_verify X g = Inr r" "report_is_clean r"
    and "obj \<in> set (session_objects (map snd (mg_events g)))"
  shows "object_ok X (mem_view (mg_store g)) obj"
proof -
  have "linear_session X (mem_view (mg_store g)) (mg_events g) None"
    using assms(1,2) mem_verify_clean_iff by blast
  then have "list_all (object_ok X (mem_view (mg_store g))) (session_objects (map snd (mg_events g)))"
    by (simp add: linear_session_def objects_ok_session)
  with assms(3) show ?thesis by (simp add: list_all_iff)
qed

lemma object_ok_get:
  "object_ok X V obj \<Longrightarrow> \<exists>b. sv_get V obj = Inr (Some b) \<and> digest_bytes X (sv_algorithm V) b = obj"
  by (auto simp: object_ok_def)

section \<open>The verifier\<close>

text \<open>C1: The fail-soft verifier returns a clean report for exactly the linear sessions: sequence
  numbers count from zero, the first event is a parentless \<open>SessionStart\<close> and every later one names
  its predecessor's hash as its only parent, every stored hash is the content hash of its event,
  every referenced object is in the store and hashes to its address, exactly one \<open>SessionEnd\<close> closes
  the session, and the stored head, if any, is the last hash.\<close>

theorem verifier_accepts_linear_sessions:
  "(\<exists>r. verify_history_against_store X history head V = Inr r \<and> report_is_clean r) \<longleftrightarrow>
   linear_session X V history head"
  by (rule verify_history_clean_iff)

text \<open>C2: The head commits to the whole session: two histories that verify clean (against any two
  stores) and end in the same hash have the same events in wire form and refer to the same
  objects, whose stored bytes hash to the same addresses, unless two of their events exhibit a
  collision of the digest function.\<close>

theorem head_commits_to_session:
  assumes "cbor_inj X" "sv_algorithm V = sv_algorithm V'"
    and "verify_history_against_store X hs d V = Inr r" "report_is_clean r"
    and "verify_history_against_store X hs' d' V' = Inr r'" "report_is_clean r'"
    and "fst (last hs) = fst (last hs')"
  shows "histories_collide X (sv_algorithm V) (map snd hs) (map snd hs') \<or>
    (map (wire_of_event X \<circ> snd) hs = map (wire_of_event X \<circ> snd) hs' \<and>
     session_objects (map snd hs) = session_objects (map snd hs') \<and>
     list_all (\<lambda>obj. \<exists>b b'. sv_get V obj = Inr (Some b) \<and> sv_get V' obj = Inr (Some b') \<and>
         digest_bytes X (sv_algorithm V) b = obj \<and> digest_bytes X (sv_algorithm V) b' = obj)
       (session_objects (map snd hs)))"
proof (cases "histories_collide X (sv_algorithm V) (map snd hs) (map snd hs')")
  case False
  note lin = clean_history_linear [OF assms(3,4)] clean_history_linear [OF assms(5,6)]
  note same = linear_session_binding [OF assms(1,2) lin assms(7) False]
  have "list_all (object_ok X V) (session_objects (map snd hs))"
    "list_all (object_ok X V') (session_objects (map snd hs))"
    using lin same(2) by (auto simp: linear_session_def objects_ok_session)
  then have "list_all (\<lambda>obj. \<exists>b b'. sv_get V obj = Inr (Some b) \<and> sv_get V' obj = Inr (Some b') \<and>
         digest_bytes X (sv_algorithm V) b = obj \<and> digest_bytes X (sv_algorithm V) b' = obj)
       (session_objects (map snd hs))"
    using assms(2) object_ok_get unfolding list_all_iff by metis
  with same show ?thesis by blast
qed simp

theorem head_commits_to_session_witness:
  "(ex_start, ex_end) \<noteq> (ex_start, ex_end_later) \<and>
   map (wire_of_event ex) [ex_start, ex_end] = map (wire_of_event ex) [ex_start, ex_end_later]"
proof -
  let ?hs = "[(ex_hash 1, ex_start), (ex_hash 2, ex_end)]"
  let ?hs' = "[(ex_hash 1, ex_start), (ex_hash 2, ex_end_later)]"
  let ?V = "mem_view ex_store"
  obtain r where r: "verify_history_against_store ex ?hs None ?V = Inr r" "report_is_clean r"
    using ex_linear [of ex_end] verify_history_clean_iff by blast
  obtain r' where r': "verify_history_against_store ex ?hs' None ?V = Inr r'" "report_is_clean r'"
    using ex_linear [of ex_end_later] verify_history_clean_iff by blast
  have "\<not> histories_collide ex (sv_algorithm ?V) (map snd ?hs) (map snd ?hs')"
    using ex_wire_distinct
    by (auto simp: histories_collide_def event_collides_def ex_wire_events ex_cbor_event_def
        digest_bytes_def ex_store_def mem_view_def)
  with head_commits_to_session [OF ex_cbor_inj refl r r']
  have "map (wire_of_event ex \<circ> snd) ?hs = map (wire_of_event ex \<circ> snd) ?hs'" by simp
  then show ?thesis by (simp add: ex_end_later_def ex_end_def)
qed

section \<open>Honest sessions\<close>

text \<open>C3: A session written only through the journal's operations verifies clean as soon as its
  last event is its only \<open>SessionEnd\<close> and the objects it refers to are readable: the writer can
  never produce a broken chain, a wrong sequence number or a wrong hash.\<close>

theorem reachable_session_verifies:
  assumes "graph_reachable X g"
  shows "(\<exists>r. mem_verify X g = Inr r \<and> report_is_clean r) \<longleftrightarrow>
    ends_once (map snd (mg_events g)) \<and>
    list_all (\<lambda>obj. \<exists>b. mem_get (mg_store g) obj = Inr (Some b)) (session_objects (map snd (mg_events g)))"
proof -
  have inv: "graph_inv X g" using graph_reachable_inv [OF assms] .
  have obj: "object_ok X (mem_view (mg_store g)) obj \<longleftrightarrow> (\<exists>b. mem_get (mg_store g) obj = Inr (Some b))" for obj
  proof (cases "h_algorithm obj = ms_algorithm (mg_store g)")
    case True
    with graph_inv_object_ok [OF inv True] inv show ?thesis by (simp add: mem_get_def graph_inv_def)
  next
    case False
    then show ?thesis by (auto simp: mem_get_def dest: object_ok_algorithm)
  qed
  show ?thesis
    using inv unfolding mem_verify_clean_iff linear_session_def objects_ok_session
    by (simp add: graph_inv_def list_all_iff obj conj_commute)
qed

theorem reachable_session_verifies_witness:
  "ends_once (map snd (mg_events ex_graph)) \<and>
   mem_get (mg_store ex_graph) (ex_hash 65) = Inr (Some [65])"
  using reachable_session_verifies [OF ex_graph_reachable] ex_graph_verifies
  by (simp add: ex_graph_def ex_store_def mem_get_def hm_get_def ex_hash_def)

text \<open>Content addressing: whatever a reachable session's store returns for an address hashes to
  that address, so no sequence of puts, appends and imports can file bytes under a digest they do
  not have.\<close>

theorem reachable_store_addresses:
  assumes "graph_reachable X g" "mem_get (mg_store g) h = Inr (Some b)"
  shows "digest_bytes X (ms_algorithm (mg_store g)) b = h"
proof -
  have "mem_inv X (mg_store g)" using graph_reachable_inv [OF assms(1)] by (simp add: graph_inv_def)
  then show ?thesis using assms(2) by (rule mem.get_addr)
qed

theorem reachable_store_addresses_witness: "digest_bytes ex Sha256 [65] = ex_hash 65"
proof -
  have "mem_get (mg_store ex_graph) (ex_hash 65) = Inr (Some [65])"
    by (simp add: ex_graph_def ex_store_def mem_get_def hm_get_def ex_hash_def)
  from reachable_store_addresses [OF ex_graph_reachable this] show ?thesis
    by (simp add: ex_graph_def ex_store_def)
qed

text \<open>C4: What a put promises the reader of the in-memory store: the address returned is the digest,
  it reads back the bytes just put when it was free, and the bytes first stored when it was taken
  (a put never overwrites), and every other address reads as before.\<close>

theorem put_then_get:
  assumes "mem_inv X m" "mem_put X m b = (m', Inr h)"
  shows "h = digest_bytes X (ms_algorithm m) b \<and>
    mem_get m' h = (case mem_get m h of Inr (Some c) \<Rightarrow> Inr (Some c) | _ \<Rightarrow> Inr (Some b)) \<and>
    (h' \<noteq> h \<longrightarrow> mem_get m' h' = mem_get m h')"
proof -
  have put: "h = digest_bytes X (ms_algorithm m) b" "\<not> ms_poisoned m"
    "m' = m\<lparr>ms_objects := hm_insert_vacant (h_bytes h) b (ms_objects m)\<rparr>"
    using assms(2) by (auto simp: mem_put_def Let_def split: if_splits)
  have "mem_get m h = Inr (hm_get (ms_objects m) (h_bytes h))"
    using put(1,2) by (simp add: mem_get_def)
  then have same: "mem_get m' h = (case mem_get m h of Inr (Some c) \<Rightarrow> Inr (Some c) | _ \<Rightarrow> Inr (Some b))"
    using mem_put_get [OF assms(2)] by (simp split: option.splits)
  have "h_bytes h' \<noteq> h_bytes h" if "h' \<noteq> h" "h_algorithm h' = ms_algorithm m"
    using that put(1) by (auto simp: hash_eq_iff)
  then have "h' \<noteq> h \<longrightarrow> mem_get m' h' = mem_get m h'"
    using put(2,3) by (auto simp: mem_get_def split: option.splits)
  with put(1) same show ?thesis by blast
qed

theorem put_then_get_witness:
  "mem_put ex (mem_new Sha256) [65] =
     (\<lparr>ms_algorithm = Sha256, ms_objects = [(ex_digest [65], [65])], ms_poisoned = False\<rparr>, Inr (ex_hash 65)) \<and>
   mem_get (fst (mem_put ex (mem_new Sha256) [65])) (ex_hash 65) = Inr (Some [65])"
proof -
  have put: "mem_put ex (mem_new Sha256) [65] =
     (\<lparr>ms_algorithm = Sha256, ms_objects = [(ex_digest [65], [65])], ms_poisoned = False\<rparr>, Inr (ex_hash 65))"
    by (simp add: mem_put_def mem_new_def digest_bytes_def ex_hash_def hm_insert_vacant_def)
  have "mem_get (mem_new Sha256) (ex_hash 65) = Inr None"
    by (simp add: mem_get_def mem_new_def hm_get_def ex_hash_def)
  with put_then_get [OF mem_inv_new put, THEN conjunct2, THEN conjunct1] put show ?thesis
    by (simp only: fst_conv option.case sum.case)
qed

text \<open>What an append does: it succeeds exactly when the event kind meets its write-time
  invariants, a \<open>SessionStart\<close> is appended to an empty session and only there, and the event can be
  encoded; then it adds one event that names the previous head, the next sequence number and the
  clock reading, and returns its content hash.\<close>

theorem append_succeeds_iff:
  "mem_append X t g k = (g', Inr h) \<longleftrightarrow>
   (\<exists>e. kind_ok k \<and> (is_session_start k \<longleftrightarrow> mg_events g = []) \<and>
      e = \<lparr>ev_parents = opt_list (map_option fst (last_opt (mg_events g))), ev_kind = k,
           ev_emitted_at = t, ev_sequence = of_nat (length (mg_events g))\<rparr> \<and>
      content_hash X (ms_algorithm (mg_store g)) e = Inr h \<and>
      g' = g\<lparr>mg_events := mg_events g @ [(h, e)]\<rparr>)"
  by (rule mem_append_Inr_iff)

section \<open>Tampering\<close>

text \<open>Replacing any event of a session that verified clean makes verification report or fail,
  unless the new event has the same wire form or collides with the old one.\<close>

theorem event_tampering_detected:
  assumes "cbor_inj X" "mem_verify X g = Inr r" "report_is_clean r"
    and "mem_overwrite_event g idx e = (g', Inr ())"
    and "wire_of_event X (snd (mg_events g ! idx)) \<noteq> wire_of_event X e"
    and "\<not> event_collides X (ms_algorithm (mg_store g)) (snd (mg_events g ! idx)) e"
  shows "\<not> (\<exists>r'. mem_verify X g' = Inr r' \<and> report_is_clean r')"
proof
  assume "\<exists>r'. mem_verify X g' = Inr r' \<and> report_is_clean r'"
  then obtain r' where r': "mem_verify X g' = Inr r'" "report_is_clean r'" by blast
  from assms(4) have idx: "idx < length (mg_events g)"
    and g': "g' = g\<lparr>mg_events := (mg_events g)[idx := (fst (mg_events g ! idx), e)]\<rparr>"
    by (auto simp: mem_overwrite_event_def split: if_splits)
  have "content_hash X (ms_algorithm (mg_store g)) e = Inr (fst (mg_events g ! idx))"
    using mem_verify_clean_hash [OF r', of idx] idx by (simp add: g')
  with content_hash_binding [OF assms(1) mem_verify_clean_hash [OF assms(2,3) idx]] assms(5,6)
  show False by blast
qed

theorem event_tampering_detected_witness:
  "\<not> (\<exists>r. mem_verify ex (fst (mem_overwrite_event ex_graph 0 ex_end)) = Inr r \<and> report_is_clean r)"
proof -
  obtain r where r: "mem_verify ex ex_graph = Inr r" "report_is_clean r" using ex_graph_verifies by blast
  obtain g' where g': "mem_overwrite_event ex_graph 0 ex_end = (g', Inr ())"
    by (simp add: mem_overwrite_event_def ex_graph_def)
  have "snd (mg_events ex_graph ! 0) = ex_start" by (simp add: ex_graph_def)
  then show ?thesis
    using event_tampering_detected [OF ex_cbor_inj r g'] ex_wire_distinct g'
    by (simp add: ex_wire_events event_collides_def ex_cbor_event_def digest_bytes_def
        split: hash_algorithm.splits)
qed

text \<open>Replacing the head of a clean session by any other hash is always reported, without any
  assumption on the digest function.\<close>

theorem head_tampering_detected:
  assumes "mem_verify X g = Inr r" "report_is_clean r"
    and "mem_overwrite_head g h = (g', Inr ())" "h \<noteq> fst (last (mg_events g))"
  shows "\<not> (\<exists>r'. mem_verify X g' = Inr r' \<and> report_is_clean r')"
proof
  assume "\<exists>r'. mem_verify X g' = Inr r' \<and> report_is_clean r'"
  then obtain r' where r': "mem_verify X g' = Inr r'" "report_is_clean r'" by blast
  from assms(3) obtain ps k e where ev: "mg_events g = ps @ [(k, e)]"
    and g': "g' = g\<lparr>mg_events := ps @ [(h, e)]\<rparr>"
    by (cases "mg_events g" rule: rev_cases) (auto simp: mem_overwrite_head_def split: prod.splits)
  have "content_hash X (ms_algorithm (mg_store g)) e = Inr k"
    using mem_verify_clean_hash [OF assms(1,2), of "length ps"] ev by simp
  moreover have "content_hash X (ms_algorithm (mg_store g)) e = Inr h"
    using mem_verify_clean_hash [OF r', of "length ps"] g' by simp
  ultimately show False using assms(4) ev by simp
qed

theorem head_tampering_detected_witness:
  "\<not> (\<exists>r. mem_verify ex (fst (mem_overwrite_head ex_graph (ex_hash 7))) = Inr r \<and> report_is_clean r)"
proof -
  obtain r where r: "mem_verify ex ex_graph = Inr r" "report_is_clean r" using ex_graph_verifies by blast
  obtain g' where g': "mem_overwrite_head ex_graph (ex_hash 7) = (g', Inr ())"
    by (simp add: mem_overwrite_head_def ex_graph_def)
  have "ex_hash 7 \<noteq> fst (last (mg_events ex_graph))" by (simp add: ex_graph_def ex_hash_def)
  from head_tampering_detected [OF r g' this] g' show ?thesis by simp
qed

text \<open>C5: Overwriting a referenced object with bytes that do not hash to its address, or removing it,
  makes verification of a clean session report.\<close>

theorem object_tampering_detected:
  assumes "mem_verify X g = Inr r" "report_is_clean r"
    and "obj \<in> set (session_objects (map snd (mg_events g)))"
    and "digest_bytes X (ms_algorithm (mg_store g)) bytes \<noteq> obj"
  shows "\<not> (\<exists>r'. mem_verify X (g\<lparr>mg_store := fst (mem_overwrite (mg_store g) obj bytes)\<rparr>) = Inr r' \<and>
            report_is_clean r') \<and>
         \<not> (\<exists>r'. mem_verify X (g\<lparr>mg_store := fst (mem_remove (mg_store g) obj)\<rparr>) = Inr r' \<and>
            report_is_clean r')"
proof -
  have ok: "object_ok X (mem_view (mg_store g)) obj"
    using mem_verify_clean_objects [OF assms(1-3)] .
  then have alg: "h_algorithm obj = ms_algorithm (mg_store g)" "\<not> ms_poisoned (mg_store g)"
    by (auto simp: object_ok_def mem_view_def mem_get_def split: if_splits)
  have "\<not> object_ok X (mem_view (fst (mem_overwrite (mg_store g) obj bytes))) obj"
    using alg assms(4) by (auto simp: mem_overwrite_def object_ok_def mem_view_def mem_get_def)
  moreover have "\<not> object_ok X (mem_view (fst (mem_remove (mg_store g) obj))) obj"
    using alg by (auto simp: mem_remove_def object_ok_def mem_view_def mem_get_def)
  ultimately show ?thesis
    using mem_verify_clean_objects [where obj = obj] assms(3) by fastforce
qed

theorem object_tampering_detected_witness:
  "\<not> (\<exists>r. mem_verify ex (ex_graph\<lparr>mg_store := fst (mem_remove (mg_store ex_graph) (ex_hash 65))\<rparr>) = Inr r \<and>
         report_is_clean r)"
proof -
  obtain r where r: "mem_verify ex ex_graph = Inr r" "report_is_clean r" using ex_graph_verifies by blast
  have "ex_hash 65 \<in> set (session_objects (map snd (mg_events ex_graph)))"
    by (simp add: ex_graph_def session_objects_def ex_start_def)
  moreover have "digest_bytes ex (ms_algorithm (mg_store ex_graph)) [0] \<noteq> ex_hash 65"
    by (simp add: digest_bytes_def ex_graph_def ex_store_def ex_hash_def)
  ultimately show ?thesis using object_tampering_detected [OF r] by blast
qed

end
