(* ===== verification/Bundle_Properties.thy ===== *)
theory Bundle_Properties
  imports Journal_Properties
begin

text \<open>
  What the bundle crate promises: its verifier accepts exactly the complete, committed sessions and
  agrees with the journal's verifier, the head fixes the bytes of the event stream, archives read
  back what was written and are read unambiguously within the decompression cap.
\<close>

section \<open>Helper facts\<close>

lemma clean_bundle_session:
  assumes "bundle_report_is_clean (verify_bundle X c)"
    and "mf_hash_algorithm (bc_manifest c) = hash_algorithm_to_string a"
  obtains hs where "bundle_session X a c hs"
  using assms verify_bundle_clean_alg by blast

lemma bundle_session_last: "bundle_session X a c hs \<Longrightarrow> hs \<noteq> [] \<and> fst (last (zip hs (bc_events c))) = last hs"
  by (cases hs rule: rev_cases; cases "bc_events c" rule: rev_cases)
     (auto simp: bundle_session_def ends_once_def)

lemma staged_store_algorithm: "ms_algorithm (staged_store X a c) = a"
proof -
  obtain m rs where m: "object_store.put_all (mem_put X) (mem_new a) (map snd (bc_objects c)) = (m, rs)"
    by fastforce
  from mem.put_all_algorithm [OF this] m show ?thesis by (simp add: staged_store_def mem_new_def)
qed

lemma bundle_session_binding:
  assumes "cbor_inj X" "bundle_session X a c hs" "bundle_session X a c' hs'" "last hs = last hs'"
    and "\<not> histories_collide X a (bc_events c) (bc_events c')"
  shows "map (wire_of_event X) (bc_events c) = map (wire_of_event X) (bc_events c')"
    and "session_objects (bc_events c) = session_objects (bc_events c')"
proof -
  let ?V = "mem_view (staged_store X a c)" and ?V' = "mem_view (staged_store X a c')"
  have len: "length hs = length (bc_events c)" "length hs' = length (bc_events c')"
    using assms(2,3) by (simp_all add: bundle_session_def)
  have lin: "linear_session X ?V (zip hs (bc_events c)) None" "linear_session X ?V' (zip hs' (bc_events c')) None"
    using assms(2,3) by (simp_all add: bundle_session_iff_linear)
  have alg: "sv_algorithm ?V = a" "sv_algorithm ?V' = a" by (simp_all add: staged_store_algorithm)
  have same: "fst (last (zip hs (bc_events c))) = fst (last (zip hs' (bc_events c')))"
    using bundle_session_last assms(2-4) by metis
  have no: "\<not> histories_collide X (sv_algorithm ?V) (map snd (zip hs (bc_events c))) (map snd (zip hs' (bc_events c')))"
    using assms(5) alg len by simp
  from linear_session_binding [OF assms(1) _ lin same no] alg len
  show "map (wire_of_event X) (bc_events c) = map (wire_of_event X) (bc_events c')"
    and "session_objects (bc_events c) = session_objects (bc_events c')"
    by (simp_all add: map_map [symmetric])
qed

lemma ends_once_nonempty: "ends_once es \<Longrightarrow> es \<noteq> []"
  by (simp add: ends_once_def)

section \<open>The verifier\<close>

text \<open>C6: The store-independent verifier reports no violation for exactly the bundles whose manifest
  names a supported algorithm and the right counts, whose objects all hash to their names, whose
  events form a hash chain that starts and ends as a session must and meets the write-time
  invariants, whose objects are precisely the referenced ones, and whose manifest head is the last
  hash.\<close>

theorem bundle_verifier_accepts:
  "bundle_report_is_clean (verify_bundle X c) \<longleftrightarrow>
     (\<exists>a hs. mf_hash_algorithm (bc_manifest c) = hash_algorithm_to_string a \<and> bundle_session X a c hs)"
  by (rule verify_bundle_clean_iff)

text \<open>The two independent verifiers agree: a bundle passes the bundle verifier exactly when the
  journal's verifier reports a clean history for the same events against a store filled with the
  bundle's objects, and the checks only a bundle can fail (counts, object names, write-time
  invariants, unreferenced objects, declared head) find nothing.\<close>

theorem verifiers_agree:
  "bundle_report_is_clean (verify_bundle X c) \<longleftrightarrow>
   (\<exists>a hs r. mf_hash_algorithm (bc_manifest c) = hash_algorithm_to_string a \<and>
      length hs = length (bc_events c) \<and>
      verify_history_against_store X (zip hs (bc_events c)) None (mem_view (staged_store X a c)) = Inr r \<and>
      report_is_clean r \<and>
      count_violations c = [] \<and> object_key_violations X a (bc_objects c) = [] \<and>
      list_all (\<lambda>e. event_invariant_violation (ev_kind e) = None) (bc_events c) \<and>
      unreferenced_objects X c (session_objects (bc_events c)) = [] \<and>
      head_violations X a (bc_manifest c) (Some (last hs)) = [])"
  (is "?L \<longleftrightarrow> ?R")
proof
  assume ?L
  then obtain a hs where "mf_hash_algorithm (bc_manifest c) = hash_algorithm_to_string a"
    "bundle_session X a c hs"
    unfolding verify_bundle_clean_iff by blast
  then show ?R unfolding bundle_session_iff_linear verify_history_clean_iff [symmetric] by blast
next
  assume ?R
  then show ?L unfolding verify_bundle_clean_iff bundle_session_iff_linear verify_history_clean_iff [symmetric]
    by blast
qed

text \<open>The manifest head commits to the bundle: two bundles that verify and declare the same
  algorithm and head carry the same events on the wire and the same object addresses, unless two
  events exhibit a digest collision.\<close>

theorem accepted_head_commits:
  assumes "cbor_inj X"
    and "bundle_report_is_clean (verify_bundle X c)" "bundle_report_is_clean (verify_bundle X c')"
    and "mf_hash_algorithm (bc_manifest c) = hash_algorithm_to_string a"
    and "mf_hash_algorithm (bc_manifest c') = hash_algorithm_to_string a"
    and "sm_head (mf_session (bc_manifest c)) = sm_head (mf_session (bc_manifest c'))"
  shows "histories_collide X a (bc_events c) (bc_events c') \<or>
    (map (wire_of_event X) (bc_events c) = map (wire_of_event X) (bc_events c') \<and>
     fst ` set (bc_objects c) = fst ` set (bc_objects c'))"
proof -
  obtain hs where hs: "bundle_session X a c hs" using clean_bundle_session [OF assms(2,4)] .
  obtain hs' where hs': "bundle_session X a c' hs'" using clean_bundle_session [OF assms(3,5)] .
  have "last hs = last hs'" using hs hs' assms(6) by (simp add: bundle_session_def)
  moreover have "set (session_objects (bc_events c)) = fst ` set (bc_objects c)"
    "set (session_objects (bc_events c')) = fst ` set (bc_objects c')"
    using hs hs' by (simp_all add: bundle_session_def)
  ultimately show ?thesis using bundle_session_binding [OF assms(1) hs hs'] by metis
qed

theorem accepted_head_commits_witness:
  "map (wire_of_event ex) (bc_events ex_bundle) =
   map (wire_of_event ex) (bc_events (ex_bundle\<lparr>bc_events := [ex_start, ex_end_later]\<rparr>))"
proof -
  let ?c' = "ex_bundle\<lparr>bc_events := [ex_start, ex_end_later]\<rparr>"
  have clean: "bundle_report_is_clean (verify_bundle ex ex_bundle)" "bundle_report_is_clean (verify_bundle ex ?c')"
    using ex_bundle_session ex_bundle_later_session ex_bundle_algorithm
    by (auto simp: verify_bundle_clean_iff)
  have "\<not> histories_collide ex Sha256 (bc_events ex_bundle) (bc_events ?c')"
    using ex_wire_distinct
    by (auto simp: histories_collide_def event_collides_def ex_wire_events ex_cbor_event_def
        digest_bytes_def ex_bundle_def)
  with accepted_head_commits [OF ex_cbor_inj clean, of Sha256] ex_bundle_algorithm show ?thesis by simp
qed

text \<open>The head fixes the bytes of \<open>events.bin\<close>: two event streams that were read into bundles
  which verify under one algorithm and head are byte for byte the same, unless two events collide.
  No second encoding of the session is accepted.\<close>

theorem head_fixes_event_bytes:
  assumes "cbor_inj X" "frame_codec_ok X"
    and "read_events X a mx bs = Inr (bc_events c)" "read_events X a mx' bs' = Inr (bc_events c')"
    and "bundle_report_is_clean (verify_bundle X c)" "bundle_report_is_clean (verify_bundle X c')"
    and "mf_hash_algorithm (bc_manifest c) = hash_algorithm_to_string a"
    and "mf_hash_algorithm (bc_manifest c') = hash_algorithm_to_string a"
    and "sm_head (mf_session (bc_manifest c)) = sm_head (mf_session (bc_manifest c'))"
  shows "bs = bs' \<or> histories_collide X a (bc_events c) (bc_events c')"
proof -
  obtain hs where hs: "bundle_session X a c hs" using clean_bundle_session [OF assms(5,7)] .
  obtain hs' where hs': "bundle_session X a c' hs'" using clean_bundle_session [OF assms(6,8)] .
  have "last hs = last hs'" using hs hs' assms(9) by (simp add: bundle_session_def)
  then have "map (wire_of_event X) (bc_events c) = map (wire_of_event X) (bc_events c') \<or>
      histories_collide X a (bc_events c) (bc_events c')"
    using bundle_session_binding(1) [OF assms(1) hs hs'] by blast
  then show ?thesis
    using write_events_wire write_read_events [OF assms(2,3)] write_read_events [OF assms(2,4)]
    by (metis sum.inject(2))
qed

theorem head_fixes_event_bytes_witness:
  "{bs. read_events ex Sha256 DEFAULT_MAX_EVENT_FRAME_LEN bs = Inr [ex_start_read, ex_end_read]} = {ex_event_bytes}"
proof -
  let ?c = "ex_bundle\<lparr>bc_events := [ex_start_read, ex_end_read]\<rparr>"
  have clean: "bundle_report_is_clean (verify_bundle ex ?c)"
    using ex_bundle_read_session ex_bundle_algorithm by (auto simp: verify_bundle_clean_iff)
  have no: "\<not> histories_collide ex Sha256 (bc_events ?c) (bc_events ?c)"
    using ex_wire_distinct
    by (auto simp: histories_collide_def event_collides_def ex_wire_events ex_cbor_event_def digest_bytes_def)
  have "bs = ex_event_bytes"
    if "read_events ex Sha256 DEFAULT_MAX_EVENT_FRAME_LEN bs = Inr [ex_start_read, ex_end_read]" for bs
    using head_fixes_event_bytes [OF ex_cbor_inj ex_frame_codec_ok, of Sha256 _ bs ?c _ ex_event_bytes ?c]
      that ex_events_read clean no ex_bundle_algorithm by simp
  with ex_events_read show ?thesis by blast
qed

end
