(* ===== verification/Archive_Properties.thy ===== *)
theory Archive_Properties
  imports Bundle_Properties
begin

text \<open>
  Archives, signatures and what an auditor reads: the archive and the event stream round trip, the
  reader refuses ambiguous archives and stays within its byte budget, signed statements determine
  what they attest, and no text from a bundle reaches the terminal unescaped.
\<close>

section \<open>The event stream\<close>

text \<open>C7: The event stream is canonical: whatever \<open>events.bin\<close> the reader accepts is exactly the
  bytes the writer produces for the events it returned, so one event sequence has one accepted
  encoding.\<close>

theorem accepted_stream_is_canonical:
  assumes "frame_codec_ok X" "read_events X alg mx bs = Inr es"
  shows "write_events X es = Inr bs"
  using assms by (rule write_read_events)

theorem accepted_stream_is_canonical_witness: "write_events ex [ex_start_read, ex_end_read] = Inr ex_event_bytes"
  using accepted_stream_is_canonical [OF ex_frame_codec_ok ex_events_read] .

text \<open>What the writer stores reads back: the events come back with their times cut to whole
  seconds and with the same hashed form, for every frame within the reader's limit.\<close>

theorem stream_roundtrip:
  assumes "frame_codec_ok X" "list_all (event_storable X alg) es" "write_events X es = Inr bs"
    and "\<forall>e \<in> set es. \<forall>frame. write_event X e = Inr frame \<longrightarrow> length frame \<le> unat mx + 4"
  shows "read_events X alg mx bs = Inr (map (truncate_event X) es) \<and>
         map (wire_of_event X) (map (truncate_event X) es) = map (wire_of_event X) es"
  using read_write_events [OF assms] wire_of_truncate [OF assms(1)] by simp

theorem stream_roundtrip_witness:
  "read_events ex Sha256 DEFAULT_MAX_EVENT_FRAME_LEN ex_event_bytes = Inr [ex_start_read, ex_end_read]"
  using stream_roundtrip [OF ex_frame_codec_ok ex_events_storable ex_events_written ex_frame_limit, THEN conjunct1]
  by (simp only: ex_truncate)

section \<open>The archive\<close>

text \<open>C8: An archive that \<open>write_bundle\<close> produced reads back as the same manifest, the same events up
  to whole seconds, and the same objects, whatever order the object map iterates in.\<close>

theorem archive_roundtrip:
  assumes "hash_ext_ok X" "frame_codec_ok X"
    and "\<And>mb. to_canonical_json_bytes X m = Inr mb \<Longrightarrow> manifest_from_json_bytes X mb = Inr m"
    and "validate_agef_version m AGEF_SPEC_VERSION = Inr ()" "mf_hash_algorithm m = hash_algorithm_to_string a"
    and "list_all (event_storable X a) events"
    and "\<forall>e \<in> set events. \<forall>frame. write_event X e = Inr frame \<longrightarrow>
         length frame \<le> unat (ro_max_event_frame_len ropts) + 4"
    and "hm_wf objects" "list_all (\<lambda>(h, b). h_algorithm h = a \<and> hash_wf h) objects"
    and "write_bundle X m events objects wopts = Inr es"
  shows "\<exists>c. read_bundle_limited X ropts limit (Inr (Inr (map as_item es))) = Inr c \<and>
           bc_manifest c = m \<and> bc_events c = map (truncate_event X) events \<and>
           hm_get (bc_objects c) = hm_get objects \<and> hm_wf (bc_objects c)"
  using assms by (rule read_write_bundle)

lemma ex_append_objects: "\<exists>es'. append_objects ex es objs = Inr es'"
  by (induction ex es objs rule: append_objects.induct) (simp_all add: append_bytes_def ex_def)

lemma ex_archive_written:
  "\<exists>es. write_bundle ex ex_manifest [ex_start, ex_end] (bc_objects ex_bundle) default_write_options = Inr es"
proof -
  have app: "append_bytes ex es p b = Inr (es @ [(p, b)])" for es p b
    by (simp add: append_bytes_def ex_def)
  have alg: "mf_hash_algorithm ex_manifest = hash_algorithm_to_string Sha256"
    using ex_bundle_algorithm by (simp add: ex_bundle_def)
  have "Q" if "\<And>es'. append_objects ex es objs = Inr es' \<Longrightarrow> Q" for Q es objs
    using ex_append_objects that by blast
  obtain es' where "append_objects ex [(''manifest.json'', [9]), (''events.bin'', ex_event_bytes)]
      (sorted_objects ex (bc_objects ex_bundle)) = Inr es'"
    using ex_append_objects by blast
  then show ?thesis
    using alg ex_manifest_bytes ex_events_written
    by (simp add: write_bundle_def app ex_encoder del: write_events.simps)
qed

theorem archive_roundtrip_witness:
  "\<exists>es c. write_bundle ex ex_manifest [ex_start, ex_end] (bc_objects ex_bundle) default_write_options = Inr es \<and>
     read_bundle_limited ex default_read_options 1000 (Inr (Inr (map as_item es))) = Inr c \<and>
     bc_events c = [ex_start_read, ex_end_read]"
proof -
  obtain es where es: "write_bundle ex ex_manifest [ex_start, ex_end] (bc_objects ex_bundle) default_write_options = Inr es"
    using ex_archive_written by blast
  have m: "manifest_from_json_bytes ex mb = Inr ex_manifest" if "to_canonical_json_bytes ex ex_manifest = Inr mb" for mb
    using that ex_manifest_bytes ex_manifest_accepted by simp
  have lim: "\<forall>e \<in> set [ex_start, ex_end]. \<forall>frame. write_event ex e = Inr frame \<longrightarrow>
         length frame \<le> unat (ro_max_event_frame_len default_read_options) + 4"
    using ex_frame_limit by (simp add: default_read_options_def)
  have ob: "hm_wf (bc_objects ex_bundle)" "list_all (\<lambda>(h, b). h_algorithm h = Sha256 \<and> hash_wf h) (bc_objects ex_bundle)"
    by (simp_all add: hm_wf_def ex_bundle_def ex_hash_def hash_wf_def SHA256_LEN_def)
  have alg: "mf_hash_algorithm ex_manifest = hash_algorithm_to_string Sha256"
    using ex_bundle_algorithm by (simp add: ex_bundle_def)
  from archive_roundtrip [OF ex_hash_ok ex_frame_codec_ok m ex_manifest_version alg ex_events_storable lim ob es, of 1000]
  obtain c where "read_bundle_limited ex default_read_options 1000 (Inr (Inr (map as_item es))) = Inr c"
    "bc_events c = map (truncate_event ex) [ex_start, ex_end]" by blast
  with es show ?thesis unfolding ex_truncate by blast
qed

text \<open>An entry that strict mode lets pass: a readable regular file, or the directory of the objects.\<close>

definition strict_entry :: "io_error + tar_entry \<Rightarrow> bool" where
  "strict_entry item \<longleftrightarrow>
     (\<exists>t p. item = Inr t \<and> te_path t = Inr p \<and>
        (if te_is_file t then \<exists>b. te_payload t = Inr b else te_is_dir t \<and> path_to_unix p = ''objects/''))"

lemma scan_entry_strict:
  "scan_entry opts limit st item = Inr st' \<Longrightarrow> \<not> ro_allow_extra_files opts \<Longrightarrow> strict_entry item"
  by (auto simp: scan_entry_def strict_entry_def Let_def split: if_splits)

lemma scan_entries_strict:
  "scan_entries opts limit st items = Inr st' \<Longrightarrow> \<not> ro_allow_extra_files opts \<Longrightarrow> list_all strict_entry items"
  by (induction items arbitrary: st) (auto dest: scan_entry_strict)

lemma read_strict:
  "read_bundle_limited X opts limit (Inr (Inr items)) = Inr c \<Longrightarrow> \<not> ro_allow_extra_files opts \<Longrightarrow>
   list_all strict_entry items"
  by (auto simp: read_bundle_limited_def dest: scan_entries_strict)

text \<open>C9: An archive accepted in strict mode is unambiguous and holds nothing else: every entry is readable; it is
  a regular file or the directory \<open>objects/\<close>, so no link, device or other directory; every regular file is the
  manifest, the event stream or an object; there is exactly one manifest and one event stream, no object name twice,
  and the bundle is decoded from precisely those entries.\<close>

theorem accepted_archive_unambiguous:
  assumes "read_bundle_limited X opts limit stream = Inr c" "\<not> ro_allow_extra_files opts"
  shows "\<exists>items mb eb a. stream = Inr (Inr items) \<and>
    list_all (\<lambda>item. \<exists>t p. item = Inr t \<and> te_path t = Inr p \<and>
      (if te_is_file t then \<exists>b. te_payload t = Inr b else te_is_dir t \<and> path_to_unix p = ''objects/'')) items \<and>
    files_at ''manifest.json'' (item_files items) = [mb] \<and>
    files_at ''events.bin'' (item_files items) = [eb] \<and>
    distinct (map fst (object_files (item_files items))) \<and>
    list_all (\<lambda>(p, b). p = ''manifest.json'' \<or> p = ''events.bin'' \<or> is_object_path p) (item_files items) \<and>
    manifest_from_json_bytes X mb = Inr (bc_manifest c) \<and>
    mf_hash_algorithm (bc_manifest c) = hash_algorithm_to_string a \<and>
    read_events X a (ro_max_event_frame_len opts) eb = Inr (bc_events c) \<and>
    decode_objects X a [] (object_files (item_files items)) = Inr (bc_objects c)"
proof (rule read_bundle_limited_InrD [OF assms(1)], goal_cases)
  case (1 items mb eb a)
  have "list_all strict_entry items" using read_strict assms 1(1) by blast
  then have strict: "list_all (\<lambda>item. \<exists>t p. item = Inr t \<and> te_path t = Inr p \<and>
      (if te_is_file t then \<exists>b. te_payload t = Inr b else te_is_dir t \<and> path_to_unix p = ''objects/'')) items"
    unfolding strict_entry_def .
  show ?case
    by (rule exI [of _ items], rule exI [of _ mb], rule exI [of _ eb], rule exI [of _ a])
       (intro conjI 1 assms(2) strict)
qed

theorem accepted_archive_unambiguous_witness:
  "\<exists>eb. files_at ''events.bin'' (item_files (map as_item ex_entries)) = [eb] \<and>
     read_events ex Sha256 (ro_max_event_frame_len default_read_options) eb = Inr [ex_start_read, ex_end_read]"
proof -
  have strict: "\<not> ro_allow_extra_files default_read_options" by (simp add: default_read_options_def)
  obtain items eb a where eb: "Inr (Inr (map as_item ex_entries)) = (Inr (Inr items) :: string + (io_error + (io_error + tar_entry) list))"
    "files_at ''events.bin'' (item_files items) = [eb]"
    "mf_hash_algorithm (bc_manifest (ex_bundle\<lparr>bc_events := [ex_start_read, ex_end_read]\<rparr>)) = hash_algorithm_to_string a"
    "read_events ex a (ro_max_event_frame_len default_read_options) eb =
       Inr (bc_events (ex_bundle\<lparr>bc_events := [ex_start_read, ex_end_read]\<rparr>))"
    using accepted_archive_unambiguous [OF ex_bundle_read_archive [of 1000] strict]
    by (elim exE conjE) (rule that)
  from eb(3) have a: "a = Sha256"
    by (cases a) (simp_all add: ex_bundle_def ex_manifest_def hash_algorithm_to_string_def)
  from eb(1) have items: "items = map as_item ex_entries" by blast
  have "bc_events (ex_bundle\<lparr>bc_events := [ex_start_read, ex_end_read]\<rparr>) = [ex_start_read, ex_end_read]"
    by simp
  note eb(2,4) [unfolded a items this]
  then show ?thesis by (intro exI conjI)
qed

text \<open>The decompression cap holds for every client: however the bytes are pulled through
  \<open>LimitedReader\<close>, buffer after buffer, no more than the limit is ever delivered.\<close>

theorem decoded_size_capped:
  assumes "reader_ok rd"
  shows "length (drain (limited_read rd) (limited_new r limit) ns) \<le> unat limit"
  using drain_limited [OF assms, of "limited_new r limit"] by (simp add: limited_new_def)

theorem decoded_size_capped_witness:
  "length (drain (limited_read (\<lambda>r n. (r, Inr (replicate n 0)))) (limited_new () 3) [2, 2, 2]) \<le> 3"
  using decoded_size_capped [of "\<lambda>r n. (r, Inr (replicate n 0))" "()" 3 "[2, 2, 2]"]
  by (simp add: reader_ok_def)

text \<open>The safe entry point returns only verified bundles: what \<open>read_verified_bundle\<close> returns is a
  complete session of the declared algorithm, read from an archive capped at one gibibyte.\<close>

theorem read_verified_bundle_sound:
  assumes "read_verified_bundle X opts decode = Inr c"
  shows "(\<exists>a hs. mf_hash_algorithm (bc_manifest c) = hash_algorithm_to_string a \<and> bundle_session X a c hs) \<and>
    read_bundle_limited X opts 1073741824 (decode 1073741824) = Inr c"
proof -
  from assms have rd: "read_bundle X opts decode = Inr c" and "verify_bundle_strict X c = Inr ()"
    by (auto simp: read_verified_bundle_def)
  then have "bundle_report_is_clean (verify_bundle X c)"
    by (auto simp: verify_bundle_strict_def bundle_report_is_clean_def split: list.splits)
  with rd show ?thesis
    unfolding verify_bundle_clean_iff by (simp add: read_bundle_def DEFAULT_MAX_BUNDLE_DECODED_BYTES_def)
qed

theorem read_verified_bundle_sound_witness:
  "\<exists>c a hs. bc_events c = [ex_start_read, ex_end_read] \<and> bundle_session ex a c hs"
proof -
  let ?c = "ex_bundle\<lparr>bc_events := [ex_start_read, ex_end_read]\<rparr>"
  have "bundle_report_is_clean (verify_bundle ex ?c)"
    using ex_bundle_read_session ex_bundle_algorithm by (auto simp: verify_bundle_clean_iff)
  then have "verify_bundle_strict ex ?c = Inr ()"
    by (simp add: verify_bundle_strict_def bundle_report_is_clean_def)
  with ex_bundle_read_archive
  have "read_verified_bundle ex default_read_options (\<lambda>_. Inr (Inr (map as_item ex_entries))) = Inr ?c"
    by (simp add: read_verified_bundle_def read_bundle_def)
  from read_verified_bundle_sound [OF this] obtain a hs where "bundle_session ex a ?c hs" by blast
  moreover have "bc_events ?c = [ex_start_read, ex_end_read]" by simp
  ultimately show ?thesis by blast
qed

section \<open>Signatures\<close>

text \<open>A head signature is reported as verified exactly when its scheme and statement version are
  the supported ones and some trusted 32-byte key verifies its bytes over the statement of this
  manifest; the key id of the entry plays no part.\<close>

theorem signature_verified_iff:
  "sgc_outcome (check_signature_entry X sig (as_bytes (manifest_statement m)) keys) = SigVerified \<longleftrightarrow>
     msig_scheme sig = ''ed25519'' \<and> msig_statement_version sig = ''AGEF-SIG-v1'' \<and>
     (\<exists>b k. x_hex_decode X (msig_signature sig) = Inr b \<and> k \<in> set keys \<and> length k = 32 \<and>
        x_ed_verify X k (as_bytes (manifest_statement m)) b)"
  unfolding check_signature_verified_iff
  by (auto simp: SCHEME_ED25519_def SIG_STATEMENT_VERSION_def key_verifies_def ED25519_PUBLIC_KEY_LEN_def)

text \<open>The signed statement determines what it attests: two accepted manifests with the same
  statement agree on version, algorithm, session and head, so a signature cannot be moved to
  another session.\<close>

theorem statement_determines_session:
  assumes "uuid_text_ok X"
    and "manifest_from_json_bytes X b = Inr m" "validate_agef_version m v = Inr ()"
    and "manifest_from_json_bytes X b' = Inr m'" "validate_agef_version m' v' = Inr ()"
    and "manifest_statement m = manifest_statement m'"
  shows "mf_agef_version m = mf_agef_version m' \<and> mf_hash_algorithm m = mf_hash_algorithm m' \<and>
         sm_id (mf_session m) = sm_id (mf_session m') \<and> sm_head (mf_session m) = sm_head (mf_session m')"
  using assms(6) accepted_manifest_one_line [OF assms(1-3)] accepted_manifest_one_line [OF assms(1,4,5)]
  by (simp add: manifest_statement_def signing_statement_inj)

theorem statement_determines_session_witness: "sm_head (mf_session ex_manifest) = sm_head (mf_session ex_manifest)"
  using statement_determines_session [OF ex_uuid_text_ok ex_manifest_accepted ex_manifest_version
      ex_manifest_accepted ex_manifest_version refl] by blast

text \<open>Domain separation: no head statement is an operator statement, of any manifest and any
  identity, so neither kind of signature can stand in for the other.\<close>

theorem statements_of_different_kinds_differ:
  "as_bytes (manifest_statement m) \<noteq> as_bytes (identity_statement m' i)"
  by (simp add: manifest_statement_def identity_statement_def statements_disjoint)

text \<open>An attestation that \<open>build_operator_attestation\<close> produced verifies for any verifier that
  trusts the signing key, with the identity it was built for.\<close>

theorem built_attestation_is_verified:
  assumes "hash_ext_ok X" "ed_ok X"
    and "build_operator_attestation X m i sk t = Inr att" "x_ed_public X sk = Some pk" "pk \<in> set keys"
  shows "opc_outcome (check_operator_entry X att m keys) = OpVerified \<and> entry_identity att = i"
  using built_attestation_verifies [OF assms] build_attestation_InrD(1) [OF assms(3)] by blast

theorem built_attestation_is_verified_witness:
  "\<exists>att. build_operator_attestation ex ex_manifest ex_identity [1] ex_timestamp = Inr att \<and>
     opc_outcome (check_operator_entry ex att ex_manifest [ex_digest [1]]) = OpVerified"
proof -
  obtain att where att: "build_operator_attestation ex ex_manifest ex_identity [1] ex_timestamp = Inr att"
    using ex_attestation_built by blast
  have "x_ed_public ex [1] = Some (ex_digest [1])" by (simp add: ex_def)
  from built_attestation_is_verified [OF ex_hash_ok ex_ed_ok att this, of "[ex_digest [1]]"] att
  show ?thesis by auto
qed

text \<open>The PEM text of a public key is 113 characters long and determines the key.\<close>

theorem spki_pem_determines_key:
  assumes "ed25519_spki_pem k = Inr pem" "ed25519_spki_pem k' = Inr pem"
  shows "k = k' \<and> length pem = 113"
proof -
  from assms(1) have pem: "length k = 32"
    "pem = ''-----BEGIN PUBLIC KEY-----'' @ [LF] @ base64_encode (ED25519_SPKI_PREFIX @ k) @ [LF]
           @ ''-----END PUBLIC KEY-----'' @ [LF]"
    by (auto simp: ed25519_spki_pem_def ed25519_spki_der_def ED25519_PUBLIC_KEY_LEN_def split: if_splits)
  have "length (ED25519_SPKI_PREFIX @ k) = 44" using pem(1) by (simp add: ED25519_SPKI_PREFIX_def)
  then have "length (base64_encode (ED25519_SPKI_PREFIX @ k)) = 60" by (simp only: length_base64_encode) simp
  with pem(2) have "length pem = 113" by simp
  with spki_pem_inj [OF assms] show ?thesis by blast
qed

theorem spki_pem_determines_key_witness:
  "\<exists>pem. ed25519_spki_pem (ex_digest [1]) = Inr pem \<and> length pem = 113"
proof -
  obtain pem where "ed25519_spki_pem (ex_digest [1]) = Inr pem"
    by (simp add: ed25519_spki_pem_def ed25519_spki_der_def ED25519_PUBLIC_KEY_LEN_def)
  with spki_pem_determines_key [OF this this] show ?thesis by blast
qed

section \<open>Redaction\<close>

text \<open>A redaction marker round trips: the canonical bytes of a marker built for an object parse
  back as that marker.\<close>

theorem redaction_marker_roundtrip:
  assumes "hash_ext_ok X" "sentinel_codec_ok X" "hash_wf h" "x_rfc3339_format X t \<noteq> None"
    and "sentinel_to_canonical_cbor X (sentinel_from_original X h n reason t) = Inr b"
  shows "try_parse_sentinel X b = Inr (Some (sentinel_from_original X h n reason t)) \<and> is_sentinel X b"
  using sentinel_roundtrip [OF assms] by (simp add: is_sentinel_def)

theorem redaction_marker_roundtrip_witness: "is_sentinel ex [7]"
proof -
  have m: "sentinel_from_original ex (ex_hash 65) 1 ''gdpr'' 0 = ex_marker"
    by (simp add: sentinel_from_original_def to_hex_def ex_hash_def ex_marker_def ex_def)
  have b: "sentinel_to_canonical_cbor ex (sentinel_from_original ex (ex_hash 65) 1 ''gdpr'' 0) = Inr [7]"
    unfolding m by (simp add: sentinel_to_canonical_cbor_def ex_def)
  have "hash_wf (ex_hash 65)" by (simp add: hash_wf_def ex_hash_def SHA256_LEN_def)
  moreover have "x_rfc3339_format ex 0 \<noteq> None" by (simp add: ex_def)
  ultimately show ?thesis
    using redaction_marker_roundtrip [OF ex_hash_ok ex_sentinel_codec_ok _ _ b] by blast
qed

end
