(* ===== verification/Report_Properties.thy ===== *)
theory Report_Properties
  imports Example_Env
begin

text \<open>
  The verdict and the text an auditor reads: when a bundle passes a policy, what the three trust
  flags of the report mean, what requiring an operator key establishes, and that no bundle text
  reaches the terminal unescaped.
\<close>

section \<open>Helpers\<close>

definition manifest_signatures :: "manifest \<Rightarrow> manifest_signature list" where
  "manifest_signatures m = concat (opt_list (mf_signatures m))"

definition manifest_attestations :: "manifest \<Rightarrow> operator_attestation list" where
  "manifest_attestations m = concat (opt_list (mf_operator_attestations m))"

lemma verify_manifest_signatures_map:
  "verify_manifest_signatures X m keys =
     map (\<lambda>sig. check_signature_entry X sig (as_bytes (manifest_statement m)) keys) (manifest_signatures m)"
  by (simp add: verify_manifest_signatures_def manifest_signatures_def opt_list_def split: option.splits)

lemma verify_operator_attestations_map:
  "verify_operator_attestations X m keys =
     map (\<lambda>att. check_operator_entry X att m keys) (manifest_attestations m)"
  by (simp add: verify_operator_attestations_def manifest_attestations_def opt_list_def split: option.splits)

lemma check_operator_key_id [simp]: "opc_key_id (check_operator_entry X att m keys) = oa_key_id att"
  by (simp add: check_operator_entry_def Let_def split: sum.splits)

lemma operator_requirements_iff:
  "operator_requirements_ok (verify_operator_attestations X m keys) required ids \<longleftrightarrow>
     (\<forall>att \<in> set (manifest_attestations m). opc_outcome (check_operator_entry X att m keys) \<noteq> OpInvalid) \<and>
     (required \<longrightarrow> (\<exists>att \<in> set (manifest_attestations m). opc_outcome (check_operator_entry X att m keys) = OpVerified)) \<and>
     (\<forall>kid \<in> set ids. \<exists>att \<in> set (manifest_attestations m).
        opc_outcome (check_operator_entry X att m keys) = OpVerified \<and> oa_key_id att = kid)"
  by (auto simp: operator_requirements_ok_def verify_operator_attestations_map op_any_invalid_def
      op_any_verified_def list_ex_iff list_all_iff)

lemma capture_met_iff:
  "capture_requirement_unmet full capture = None \<longleftrightarrow>
     (full \<longrightarrow> (\<forall>i. capture = Some i \<longrightarrow> oc_capture_level i = ''full''))"
  by (auto simp: capture_requirement_unmet_def split: option.splits)

lemma evaluate_passed:
  "vp_passed (evaluate_bundle X path c p) \<longleftrightarrow>
     bundle_report_is_clean (verify_bundle X c) \<and>
     \<not> sig_any_invalid (verify_manifest_signatures X (bc_manifest c) (vpo_trusted_keys p)) \<and>
     (vpo_require_signature p \<longrightarrow> sig_any_verified (verify_manifest_signatures X (bc_manifest c) (vpo_trusted_keys p))) \<and>
     operator_requirements_ok (verify_operator_attestations X (bc_manifest c) (vpo_operator_trusted_keys p))
       (vpo_require_operator p) (vpo_required_operator_key_ids p) \<and>
     capture_requirement_unmet (vpo_require_capture_full p) (otel_capture_info X c) = None"
  by (auto simp: evaluate_bundle_def compute_passed_and_violations_def build_verify_report_def Let_def)

lemma category_not_capture: "category v \<noteq> CAPTURE_REQUIREMENT_CATEGORY"
  by (cases v) (simp_all add: CAPTURE_REQUIREMENT_CATEGORY_def)

lemma signature_verified_text: "signature_outcome_str q = ''verified'' \<longleftrightarrow> q = SigVerified"
  by (cases q) (simp_all add: signature_outcome_str_def)

lemma evaluate_integrity:
  "vp_integrity_ok (evaluate_bundle X path c p) \<longleftrightarrow> bundle_report_is_clean (verify_bundle X c)"
proof -
  have "list_all (\<lambda>v. rv_category v = CAPTURE_REQUIREMENT_CATEGORY) (report_violations X r) \<longleftrightarrow>
      bundle_report_is_clean r" for r
    using category_not_capture by (cases "br_violations r") (simp_all add: report_violations_def bundle_report_is_clean_def)
  then show ?thesis
    by (simp add: evaluate_bundle_def compute_passed_and_violations_def build_verify_report_def Let_def
        split: option.splits)
qed

lemma evaluate_flags:
  "vp_signature_verified (evaluate_bundle X path c p) \<longleftrightarrow>
     vp_integrity_ok (evaluate_bundle X path c p) \<and>
     sig_any_verified (verify_manifest_signatures X (bc_manifest c) (vpo_trusted_keys p))"
  "vp_operator_key_verified (evaluate_bundle X path c p) \<longleftrightarrow>
     vp_integrity_ok (evaluate_bundle X path c p) \<and>
     op_any_verified (verify_operator_attestations X (bc_manifest c) (vpo_operator_trusted_keys p))"
  by (simp_all add: evaluate_bundle_def compute_passed_and_violations_def build_verify_report_def Let_def
      signature_reports_def operator_reports_def sig_any_verified_def op_any_verified_def list_ex_iff
      signature_verified_text)

section \<open>The verdict\<close>

text \<open>C10: A bundle passes a policy exactly when it is a complete session under the declared algorithm,
  no signature and no attestation names a trusted key without verifying, every requirement for a
  verified signature or attestation is met, each required operator key id labels a verified
  attestation, and a required full capture is not contradicted by the session.\<close>

theorem evaluate_passed_iff:
  "vp_passed (evaluate_bundle X path c p) \<longleftrightarrow>
   (\<exists>a hs. mf_hash_algorithm (bc_manifest c) = hash_algorithm_to_string a \<and> bundle_session X a c hs) \<and>
   (let outcome = (\<lambda>sig. sgc_outcome (check_signature_entry X sig (as_bytes (manifest_statement (bc_manifest c)))
          (vpo_trusted_keys p)));
        sigs = set (manifest_signatures (bc_manifest c)) in
      (\<forall>sig \<in> sigs. outcome sig \<noteq> SigInvalid) \<and>
      (vpo_require_signature p \<longrightarrow> (\<exists>sig \<in> sigs. outcome sig = SigVerified))) \<and>
   (let outcome = (\<lambda>att. opc_outcome (check_operator_entry X att (bc_manifest c) (vpo_operator_trusted_keys p)));
        atts = set (manifest_attestations (bc_manifest c)) in
      (\<forall>att \<in> atts. outcome att \<noteq> OpInvalid) \<and>
      (vpo_require_operator p \<longrightarrow> (\<exists>att \<in> atts. outcome att = OpVerified)) \<and>
      (\<forall>kid \<in> set (vpo_required_operator_key_ids p). \<exists>att \<in> atts. outcome att = OpVerified \<and> oa_key_id att = kid)) \<and>
   (vpo_require_capture_full p \<longrightarrow> (\<forall>i. otel_capture_info X c = Some i \<longrightarrow> oc_capture_level i = ''full''))"
  unfolding evaluate_passed verify_bundle_clean_iff operator_requirements_iff capture_met_iff Let_def
    sig_any_invalid_def sig_any_verified_def verify_manifest_signatures_map list_ex_iff
  by auto

lemma ex_mislabelled_check:
  "opc_outcome (check_operator_entry ex ex_mislabelled (ex_manifest\<lparr>mf_operator_attestations := as\<rparr>) keys) =
     (if ex_digest [2] \<in> set keys then OpVerified
      else if list_ex (\<lambda>k. key_id ex k = key_id ex (ex_digest [1])) keys then OpInvalid else OpUnverifiedNoKey)"
proof -
  let ?t = "identity_statement ex_manifest ex_identity"
  have i: "entry_identity ex_mislabelled = ex_identity"
    by (simp add: entry_identity_def ex_mislabelled_def ex_identity_def)
  have s: "identity_statement (ex_manifest\<lparr>mf_operator_attestations := as\<rparr>) ex_identity = ?t"
    by (simp add: identity_statement_def)
  have fields: "is_ok (validate_operator_field (oa_operator_id ex_mislabelled))"
    "is_ok (validate_operator_field (oa_display_name ex_mislabelled))"
    "is_ok (validate_operator_field (oa_role ex_mislabelled))"
    "is_ok (validate_operator_field (oa_org ex_mislabelled))"
    by (simp_all add: validate_operator_field_def ex_mislabelled_def LF_def)
  have sig: "hex_decode (oa_signature ex_mislabelled) = Inr (ex_digest [2] @ as_bytes ?t)"
    by (simp add: ex_mislabelled_def hex_decode_of_encode)
  have v: "is_ok (verify_statement ex (as_bytes ?t) (ex_digest [2] @ as_bytes ?t) k) \<longleftrightarrow> k = ex_digest [2]" for k
    unfolding verify_statement_ok key_verifies_def by (auto simp: ex_def ED25519_PUBLIC_KEY_LEN_def)
  have f: "oa_scheme ex_mislabelled = SCHEME_ED25519" "oa_statement_version ex_mislabelled = OPERATOR_STATEMENT_VERSION"
    "oa_key_id ex_mislabelled = key_id ex (ex_digest [1])"
    by (simp_all add: ex_mislabelled_def SCHEME_ED25519_def OPERATOR_STATEMENT_VERSION_def)
  show ?thesis
    by (simp add: check_operator_entry_def Let_def f fields sig i s v list_ex_iff)
qed

definition ex_policy :: "byte list list \<Rightarrow> string list \<Rightarrow> verify_policy" where
  "ex_policy keys ids = \<lparr>vpo_trusted_keys = [], vpo_require_signature = False, vpo_operator_trusted_keys = keys,
     vpo_require_operator = False, vpo_required_operator_key_ids = ids, vpo_require_capture_full = True\<rparr>"

lemma ex_attested_signatures: "manifest_signatures (bc_manifest (ex_attested att)) = []"
  by (simp add: manifest_signatures_def ex_attested_def ex_bundle_def ex_manifest_def opt_list_def)

lemma ex_attested_attestations: "manifest_attestations (bc_manifest (ex_attested att)) = [att]"
  by (simp add: manifest_attestations_def ex_attested_def opt_list_def)

lemma ex_attested_passed:
  assumes "opc_outcome (check_operator_entry ex att (bc_manifest (ex_attested att)) keys) = OpVerified"
    and "set ids \<subseteq> {oa_key_id att}"
  shows "vp_passed (evaluate_bundle ex path (ex_attested att) (ex_policy keys ids))"
  using assms ex_attested_clean [of att] ex_attested_capture [of att]
  by (auto simp: evaluate_passed operator_requirements_iff ex_attested_attestations ex_policy_def
      verify_manifest_signatures_map ex_attested_signatures sig_any_invalid_def capture_met_iff)

theorem evaluate_passed_iff_witness:
  "\<exists>p. vp_passed (evaluate_bundle ex ''b.akmon'' (ex_attested ex_mislabelled) p) \<and>
      (\<exists>a hs. bundle_session ex a (ex_attested ex_mislabelled) hs)"
proof -
  let ?p = "ex_policy [ex_digest [2]] []"
  have "opc_outcome (check_operator_entry ex ex_mislabelled (bc_manifest (ex_attested ex_mislabelled))
      [ex_digest [2]]) = OpVerified"
    by (simp add: ex_attested_def ex_mislabelled_check)
  then have "vp_passed (evaluate_bundle ex ''b.akmon'' (ex_attested ex_mislabelled) ?p)"
    by (rule ex_attested_passed) simp
  with evaluate_passed_iff [of ex "''b.akmon''" "ex_attested ex_mislabelled" ?p]
  show ?thesis by blast
qed

text \<open>The three trust flags of the report say exactly what they claim, whatever the policy required:
  integrity holds for complete sessions only, and the two key flags hold only on top of integrity
  and only when some trusted key verified a signature, or an attestation, over this manifest.\<close>

theorem report_flags:
  "(vp_integrity_ok (evaluate_bundle X path c p) \<longleftrightarrow>
      (\<exists>a hs. mf_hash_algorithm (bc_manifest c) = hash_algorithm_to_string a \<and> bundle_session X a c hs)) \<and>
   (vp_signature_verified (evaluate_bundle X path c p) \<longleftrightarrow>
      vp_integrity_ok (evaluate_bundle X path c p) \<and>
      (\<exists>sig \<in> set (manifest_signatures (bc_manifest c)).
         sgc_outcome (check_signature_entry X sig (as_bytes (manifest_statement (bc_manifest c)))
           (vpo_trusted_keys p)) = SigVerified)) \<and>
   (vp_operator_key_verified (evaluate_bundle X path c p) \<longleftrightarrow>
      vp_integrity_ok (evaluate_bundle X path c p) \<and>
      (\<exists>att \<in> set (manifest_attestations (bc_manifest c)).
         opc_outcome (check_operator_entry X att (bc_manifest c) (vpo_operator_trusted_keys p)) = OpVerified))"
  unfolding evaluate_flags evaluate_integrity verify_bundle_clean_iff sig_any_verified_def op_any_verified_def
    verify_manifest_signatures_map verify_operator_attestations_map
  by (simp add: list_ex_iff)

section \<open>Required operator keys\<close>

text \<open>C11: With \<open>--require-operator-key\<close> as the only source of trusted operator keys, a passing verdict
  means that this very key signed the operator statement over the bundle's version, algorithm,
  session and head for the identity shown.\<close>

theorem sole_operator_key_sound:
  assumes "verify_policy_load X vks rs [] ro [key_path] rc = Inr p"
    and "vp_passed (evaluate_bundle X path c p)"
  shows "\<exists>k att b. load_operator_key X key_path = Inr k \<and> att \<in> set (manifest_attestations (bc_manifest c)) \<and>
    oa_key_id att = key_id X k \<and> x_hex_decode X (oa_signature att) = Inr b \<and>
    x_ed_verify X k (as_bytes (identity_statement (bc_manifest c) (entry_identity att))) b"
proof -
  from assms(1) obtain k where k: "load_operator_key X key_path = Inr k" "vpo_operator_trusted_keys p = [k]"
    "vpo_required_operator_key_ids p = [key_id X k]"
    by (auto simp: verify_policy_load_def Let_def)
  from assms(2) k obtain att where "att \<in> set (manifest_attestations (bc_manifest c))"
    "opc_outcome (check_operator_entry X att (bc_manifest c) [k]) = OpVerified" "oa_key_id att = key_id X k"
    by (auto simp: evaluate_passed operator_requirements_iff)
  with k(1) show ?thesis by (auto simp: check_operator_verified_iff key_verifies_def)
qed

theorem sole_operator_key_sound_witness:
  "\<exists>att b. x_hex_decode ex (oa_signature att) = Inr b \<and>
     x_ed_verify ex (ex_digest [1]) (as_bytes (identity_statement ex_manifest (entry_identity att))) b"
proof -
  obtain att where att: "build_operator_attestation ex ex_manifest ex_identity [1] ex_timestamp = Inr att"
    using ex_attestation_built by blast
  let ?p = "\<lparr>vpo_trusted_keys = [], vpo_require_signature = False, vpo_operator_trusted_keys = [ex_digest [1]],
     vpo_require_operator = False, vpo_required_operator_key_ids = [key_id ex (ex_digest [1])],
     vpo_require_capture_full = True\<rparr>"
  have key: "load_operator_key ex ''operator.pub'' = Inr (ex_digest [1])"
    using hex_encode_shape [of "ex_digest [1]"] trim_hex [of "hex_encode (ex_digest [1])"]
    by (simp add: load_operator_key_def load_public_key_file_def parse_public_key_hex_def hex_decode_of_encode
        ED25519_PUBLIC_KEY_LEN_def ex_def)
  have load: "verify_policy_load ex [] False [] False [''operator.pub''] True = Inr ?p"
    by (simp add: verify_policy_load_def Let_def key)
  have pub: "x_ed_public ex [1] = Some (ex_digest [1])" by (simp add: ex_def)
  have idst: "identity_statement (bc_manifest (ex_attested att)) i = identity_statement ex_manifest i" for i
    by (simp add: identity_statement_def ex_attested_def)
  have "opc_outcome (check_operator_entry ex att ex_manifest [ex_digest [1]]) = OpVerified"
    using built_attestation_verifies [OF ex_hash_ok ex_ed_ok att pub] by simp
  then have "opc_outcome (check_operator_entry ex att (bc_manifest (ex_attested att)) [ex_digest [1]]) = OpVerified"
    by (simp add: check_operator_verified_iff idst)
  moreover have kid: "oa_key_id att = key_id ex (ex_digest [1])"
    using build_attestation_InrD [OF att] pub by (simp add: public_key_from_pkcs8_def)
  ultimately have "vp_passed (evaluate_bundle ex ''b.akmon'' (ex_attested att) ?p)"
    using ex_attested_passed [of att "[ex_digest [1]]" "[key_id ex (ex_digest [1])]"] by (simp add: ex_policy_def)
  from sole_operator_key_sound [OF load this] key show ?thesis
    unfolding ex_attested_attestations idst by (simp del: ex_simps) blast
qed

text \<open>C12: A required key id is matched against the label the attestation carries, not against the key
  that verified it: when a second operator key is trusted, its holder satisfies the requirement for
  the other key with an attestation the required key did not sign.\<close>

theorem required_operator_key_is_a_label:
  "\<exists>c required other att.
     required \<noteq> other \<and> manifest_attestations (bc_manifest c) = [att] \<and>
     vp_passed (evaluate_bundle ex ''b.akmon'' c (ex_policy [other, required] [key_id ex required])) \<and>
     opc_outcome (check_operator_entry ex att (bc_manifest c) [required]) = OpInvalid"
proof -
  let ?c = "ex_attested ex_mislabelled"
  have ok: "opc_outcome (check_operator_entry ex ex_mislabelled (bc_manifest ?c) [ex_digest [2], ex_digest [1]]) = OpVerified"
    and no: "opc_outcome (check_operator_entry ex ex_mislabelled (bc_manifest ?c) [ex_digest [1]]) = OpInvalid"
    by (simp_all add: ex_attested_def ex_mislabelled_check)
  have "vp_passed (evaluate_bundle ex ''b.akmon'' ?c (ex_policy [ex_digest [2], ex_digest [1]] [key_id ex (ex_digest [1])]))"
    by (rule ex_attested_passed [OF ok]) (simp add: ex_mislabelled_def)
  with no show ?thesis
    by (intro exI [of _ ?c] exI [of _ "ex_digest [1]"] exI [of _ "ex_digest [2]"] exI [of _ ex_mislabelled])
       (simp add: ex_attested_attestations)
qed

section \<open>Text on the terminal\<close>

text \<open>The escaper removes every code point that could drive a terminal or hide text, whatever
  string the bundle supplies, and its result is well-formed UTF-8.\<close>

theorem sanitized_text_is_safe:
  assumes "utf8_ok v"
  shows "utf8_ok (sanitize_display v) \<and>
         list_all (\<lambda>p. \<not> display_unsafe (code_point p)) (chars (sanitize_display v))"
  using sanitize_display_safe [OF assms] by blast

theorem sanitized_text_is_safe_witness:
  "list_all (\<lambda>p. \<not> display_unsafe (code_point p)) (chars (sanitize_display [CHR 0x1B, CHR ''['', CHR ''2'', CHR ''J'']))"
proof -
  have "utf8_ok [CHR 0x1B, CHR ''['', CHR ''2'', CHR ''J'']" by code_simp
  from sanitized_text_is_safe [OF this] show ?thesis by blast
qed

text \<open>Every line of the human-readable report, its headline, operator block, violations and
  warnings included, is free of unsafe code points, for any report whose strings are UTF-8.\<close>

theorem human_report_is_safe:
  assumes "report_text_ok X r"
  shows "list_all display_safe (human_lines X r)"
  using assms by (rule human_lines_safe)

text \<open>A report whose session id clears the screen and whose operator name is written right to left.\<close>

definition ex_hostile :: verify_report_v1 where
  "ex_hostile =
     \<lparr>vp_akmon_version = CARGO_PKG_VERSION, vp_agef_version = ''0.1.3'', vp_bundle_path = ''b.akmon'',
      vp_session_id = [CHR 0x1B, CHR ''['', CHR ''2'', CHR ''J''], vp_events_in_bundle = 0, vp_objects_in_bundle = 0,
      vp_passed = True, vp_violations = [],
      vp_signatures = [\<lparr>sr_key_id = [CHR 0x0D], sr_scheme = ''ed25519'', sr_outcome = ''verified''\<rparr>],
      vp_operators = [\<lparr>or_key_id = ''k'', or_scheme = ''ed25519'', or_operator_id = [CHR 0xE2, CHR 0x80, CHR 0xAE],
        or_display_name = ''n'', or_role = ''r'', or_org = ''o'', or_created_at = [], or_outcome = ''verified'',
        or_operator_key_verified = True\<rparr>],
      vp_capture = None, vp_integrity_ok = True, vp_signature_verified = True, vp_operator_key_verified = True,
      vp_hash_algorithm = ''sha256'', vp_head = ''00'', vp_session_window = None,
      vp_unsigned_metadata = \<lparr>um_created_at = [], um_ended_at = [], um_producer_name = ''p'', um_producer_version = ''1''\<rparr>,
      vp_warnings = [\<lparr>rv_category = ''c'', rv_event_hash = None, rv_object_hash = None, rv_message = [CHR 0x9, LF]\<rparr>]\<rparr>"

theorem human_report_is_safe_witness: "list_all display_safe (human_lines ex ex_hostile)"
proof -
  have "list_all utf8_ok [vp_bundle_path ex_hostile, vp_session_id ex_hostile, vp_hash_algorithm ex_hostile,
      vp_head ex_hostile, um_producer_name (vp_unsigned_metadata ex_hostile),
      um_producer_version (vp_unsigned_metadata ex_hostile), um_created_at (vp_unsigned_metadata ex_hostile),
      um_ended_at (vp_unsigned_metadata ex_hostile)]"
    and "list_all violation_text_ok (vp_violations ex_hostile) \<and> list_all violation_text_ok (vp_warnings ex_hostile)"
    and "list_all signature_text_ok (vp_signatures ex_hostile) \<and> list_all operator_text_ok (vp_operators ex_hostile)"
    and "list_all window_text_ok (opt_list (vp_session_window ex_hostile))"
    by code_simp+
  moreover have "vp_capture ex_hostile = None" by (simp add: ex_hostile_def)
  ultimately have "report_text_ok ex ex_hostile" by (simp add: report_text_ok_def opt_list_def)
  then show ?thesis by (rule human_report_is_safe)
qed

end
