(* ===== verification/Redb_Import.thy ===== *)
theory Redb_Import
  imports Redb_Graph
begin

text \<open>
  What \<open>RedbSessionGraph\<close> leaves in the database: creating a session leaves an empty history,
  \<open>import_verified_linear_history\<close> leaves exactly the imported history, other sessions keep theirs,
  and \<open>verify\<close> on the rows is clean for exactly the linear sessions.
\<close>

section \<open>Importing rows\<close>

lemma insert_events_content:
  assumes "redb_ok R C" "length sid = 16"
    and "insert_events R sid seq tx ps = Inr tx'" "seq + length ps \<le> 2 ^ 64"
  shows "(\<forall>t. t \<noteq> SESSION_EVENTS_TABLE \<longrightarrow> C tx' t = C tx t) \<and>
    (\<forall>k. (\<forall>i < length ps. k \<noteq> KBytes (event_key sid (of_nat (seq + i)))) \<longrightarrow>
       C tx' SESSION_EVENTS_TABLE k = C tx SESSION_EVENTS_TABLE k) \<and>
    (\<forall>i < length ps. \<exists>b. C tx' SESSION_EVENTS_TABLE (KBytes (event_key sid (of_nat (seq + i)))) = Some b \<and>
       pc_stored_encode R (ps ! i) = Inr b)"
  using assms(3,4)
proof (induction ps arbitrary: seq tx)
  case Nil
  then show ?case by simp
next
  case (Cons p ps)
  from Cons.prems(1) obtain val tx1 where val: "pc_stored_encode R p = Inr val"
    and tx1: "rb_insert R tx SESSION_EVENTS_TABLE (KBytes (event_key sid (of_nat seq))) val = Inr tx1"
    and rest: "insert_events R sid (Suc seq) tx1 ps = Inr tx'" by auto
  have C1: "C tx1 = (C tx)(SESSION_EVENTS_TABLE :=
      (C tx SESSION_EVENTS_TABLE)(KBytes (event_key sid (of_nat seq)) \<mapsto> val))"
    by (rule redb_insertD [OF tx1 assms(1)])
  have IH: "(\<forall>t. t \<noteq> SESSION_EVENTS_TABLE \<longrightarrow> C tx' t = C tx1 t) \<and>
    (\<forall>k. (\<forall>i < length ps. k \<noteq> KBytes (event_key sid (of_nat (Suc seq + i)))) \<longrightarrow>
       C tx' SESSION_EVENTS_TABLE k = C tx1 SESSION_EVENTS_TABLE k) \<and>
    (\<forall>i < length ps. \<exists>b. C tx' SESSION_EVENTS_TABLE (KBytes (event_key sid (of_nat (Suc seq + i)))) = Some b \<and>
       pc_stored_encode R (ps ! i) = Inr b)"
    using Cons.IH [OF rest] Cons.prems(2) by simp
  have fresh: "KBytes (event_key sid (of_nat seq)) \<noteq> KBytes (event_key sid (of_nat (Suc seq + i)))"
    if "i < length ps" for i
  proof
    assume "KBytes (event_key sid (of_nat seq)) = KBytes (event_key sid (of_nat (Suc seq + i)))"
    then have "(of_nat seq :: u64) = of_nat (Suc seq + i)" by (simp add: event_key_inj [OF assms(2,2)])
    with word64_of_nat_inj [OF _ _ this] that Cons.prems(2) show False by simp
  qed
  have tables: "C tx' t = C tx t" if "t \<noteq> SESSION_EVENTS_TABLE" for t
    using IH that by (simp add: C1)
  have other: "C tx' SESSION_EVENTS_TABLE k = C tx SESSION_EVENTS_TABLE k"
    if k: "\<forall>i < Suc (length ps). k \<noteq> KBytes (event_key sid (of_nat (seq + i)))" for k
  proof -
    have "k \<noteq> KBytes (event_key sid (of_nat (Suc seq + i)))" if "i < length ps" for i
      using k [rule_format, of "Suc i"] that by simp
    moreover have "k \<noteq> KBytes (event_key sid (of_nat seq))" using k [rule_format, of 0] by simp
    ultimately show ?thesis using IH by (simp add: C1)
  qed
  have rows: "\<exists>b. C tx' SESSION_EVENTS_TABLE (KBytes (event_key sid (of_nat (seq + i)))) = Some b \<and>
       pc_stored_encode R ((p # ps) ! i) = Inr b" if i: "i < Suc (length ps)" for i
  proof (cases i)
    case 0
    have "C tx' SESSION_EVENTS_TABLE (KBytes (event_key sid (of_nat seq))) =
        C tx1 SESSION_EVENTS_TABLE (KBytes (event_key sid (of_nat seq)))"
      using IH fresh by blast
    with 0 val show ?thesis by (simp add: C1)
  next
    case (Suc j)
    with IH i show ?thesis by simp
  qed
  show ?case using tables other rows by (simp only: length_Cons) blast
qed

lemma no_session_rows_spec:
  assumes "no_session_rows sid rows = Inr ()" "length sid = 16"
    and "\<forall>(k, v) \<in> set rows. \<exists>s q. k = KBytes (event_key s q) \<and> length s = 16"
  shows "(KBytes (event_key sid q), v) \<notin> set rows"
  using assms(1,3)
proof (induction rows)
  case (Cons row rows)
  obtain k w where row: "row = (k, w)" by (cases row)
  with Cons.prems(2) obtain s q' where k: "k = KBytes (event_key s q')" "length s = 16" by auto
  with Cons.prems(1) row have "s \<noteq> sid" "no_session_rows sid rows = Inr ()"
    by (auto simp: key_bytes_def split: if_splits)
  with Cons.IH Cons.prems(2) k row assms(2) show ?case
    by (auto simp: event_key_inj)
qed simp

lemma import_rows_InrD:
  assumes ok: "redb_ok R C" and "import_rows R db sid events = Inr db'"
  obtains rows tx tx' hb b where
    "distinct (map fst rows)" "map_of rows = C db SESSION_EVENTS_TABLE" "no_session_rows sid rows = Inr ()"
    "C tx = C db" "insert_events R sid 0 tx events = Inr tx'" "events \<noteq> []"
    "C db SESSION_HEADS_TABLE (KBytes sid) = Some b" "pc_head_decode R b = Inr None"
    "pc_head_encode R (Some (fst (last events))) = Inr hb"
    "C db' = (C tx')(SESSION_HEADS_TABLE := (C tx' SESSION_HEADS_TABLE)(KBytes sid \<mapsto> hb))"
proof -
  from assms(2) obtain tx0 tx1 b tx2 rows tx3 d hb tx4 where
    t: "rb_begin_write R db = Inr tx0" "rb_open_table R tx0 SESSION_HEADS_TABLE = Inr tx1"
      "rb_get R tx1 SESSION_HEADS_TABLE (KBytes sid) = Inr (Some b)" "pc_head_decode R b = Inr None"
      "rb_open_table R tx1 SESSION_EVENTS_TABLE = Inr tx2" "rb_iter R tx2 SESSION_EVENTS_TABLE = Inr rows"
      "no_session_rows sid rows = Inr ()" "insert_events R sid 0 tx2 events = Inr tx3"
      "map_option fst (last_opt events) = Some d" "pc_head_encode R (Some d) = Inr hb"
      "rb_insert R tx3 SESSION_HEADS_TABLE (KBytes sid) hb = Inr tx4" "rb_commit R tx4 = Inr db'"
    by (auto simp: import_rows_def split: if_splits)
  have C: "C tx1 = C db" "C tx2 = C db" "distinct (map fst rows)" "map_of rows = C db SESSION_EVENTS_TABLE"
    "C db SESSION_HEADS_TABLE (KBytes sid) = Some b"
    using t redb_begin_writeD [OF t(1) ok] redb_open_tableD [OF t(2) ok] redb_getD [OF t(3) ok]
      redb_open_tableD [OF t(5) ok] redb_iterD [OF t(6) ok] by simp_all
  have C': "C db' = (C tx3)(SESSION_HEADS_TABLE := (C tx3 SESSION_HEADS_TABLE)(KBytes sid \<mapsto> hb))"
    using redb_insertD [OF t(11) ok] redb_commitD [OF t(12) ok] by simp
  have ev: "events \<noteq> []" "d = fst (last events)" using t(9) by (auto simp: last_opt_def split: if_splits)
  show ?thesis
    by (rule that [OF C(3,4) t(7) C(2) t(8) ev(1) C(5) t(4) _ C']) (use t(10) ev(2) in simp)
qed

lemma import_rows_content:
  assumes ok: "redb_ok R C" and sid: "length sid = 16" and len: "length events \<le> 2 ^ 64"
    and wf: "event_keys_wf C db" and imp: "import_rows R db sid events = Inr db'"
  shows "event_keys_wf C db'"
    and "(\<And>i. i < length events \<Longrightarrow> k \<noteq> KBytes (event_key sid (of_nat i))) \<Longrightarrow>
      C db' SESSION_EVENTS_TABLE k = C db SESSION_EVENTS_TABLE k"
    and "i < length events \<Longrightarrow> \<exists>b. C db' SESSION_EVENTS_TABLE (KBytes (event_key sid (of_nat i))) = Some b \<and>
      pc_stored_encode R (events ! i) = Inr b"
    and "\<exists>hb. pc_head_encode R (Some (fst (last events))) = Inr hb \<and>
      C db' SESSION_HEADS_TABLE = (C db SESSION_HEADS_TABLE)(KBytes sid \<mapsto> hb)"
proof -
  obtain tx tx' hb where tx: "C tx = C db" "insert_events R sid 0 tx events = Inr tx'"
    and hb: "pc_head_encode R (Some (fst (last events))) = Inr hb"
    and C': "C db' = (C tx')(SESSION_HEADS_TABLE := (C tx' SESSION_HEADS_TABLE)(KBytes sid \<mapsto> hb))"
    by (rule import_rows_InrD [OF ok imp])
  note ins = insert_events_content [OF ok sid tx(2), unfolded add_0, OF len, unfolded tx(1)]
  show other: "C db' SESSION_EVENTS_TABLE k = C db SESSION_EVENTS_TABLE k"
    if "\<And>i. i < length events \<Longrightarrow> k \<noteq> KBytes (event_key sid (of_nat i))" for k
    using ins that by (simp add: C')
  show "\<exists>b. C db' SESSION_EVENTS_TABLE (KBytes (event_key sid (of_nat i))) = Some b \<and>
      pc_stored_encode R (events ! i) = Inr b" if "i < length events" for i
    using ins that by (simp add: C')
  show "\<exists>hb. pc_head_encode R (Some (fst (last events))) = Inr hb \<and>
      C db' SESSION_HEADS_TABLE = (C db SESSION_HEADS_TABLE)(KBytes sid \<mapsto> hb)"
    using ins hb by (simp add: C')
  show "event_keys_wf C db'"
    unfolding event_keys_wf_def
  proof (intro allI impI)
    fix k v assume v: "C db' SESSION_EVENTS_TABLE k = Some v"
    show "\<exists>s q. k = KBytes (event_key s q) \<and> length s = 16"
    proof (cases "\<exists>i < length events. k = KBytes (event_key sid (of_nat i))")
      case True
      with sid show ?thesis by blast
    next
      case False
      with other [of k] v have "C db SESSION_EVENTS_TABLE k = Some v" by auto
      with wf show ?thesis unfolding event_keys_wf_def by blast
    qed
  qed
qed

text \<open>A successful import needs an empty target and leaves the imported history in it.\<close>

lemma import_rows_rep:
  assumes ok: "redb_ok R C" and codec: "graph_codec_ok R"
    and wf: "event_keys_wf C db" and sid: "length sid = 16" and len: "length events \<le> 2 ^ 64"
    and imp: "import_rows R db sid events = Inr db'"
  shows "session_rep R C db sid [] \<and> session_rep R C db' sid events"
proof -
  obtain rows b where rows: "distinct (map fst rows)" "map_of rows = C db SESSION_EVENTS_TABLE"
      "no_session_rows sid rows = Inr ()"
    and ev: "events \<noteq> []" and head: "C db SESSION_HEADS_TABLE (KBytes sid) = Some b" "pc_head_decode R b = Inr None"
    by (rule import_rows_InrD [OF ok imp])
  have row: "(k, v) \<in> set rows \<longleftrightarrow> C db SESSION_EVENTS_TABLE k = Some v" for k v
    using map_of_eq_Some_iff [OF rows(1)] by (auto simp: rows(2))
  have "\<forall>(k, v) \<in> set rows. \<exists>s q. k = KBytes (event_key s q) \<and> length s = 16"
    using wf by (auto simp: event_keys_wf_def row)
  from no_session_rows_spec [OF rows(3) sid this]
  have none: "C db SESSION_EVENTS_TABLE (KBytes (event_key sid q)) = None" for q
    unfolding row by (cases "C db SESSION_EVENTS_TABLE (KBytes (event_key sid q))") auto
  have empty: "session_rep R C db sid []"
    using sid wf head none by (simp add: session_rep_def)
  note content = import_rows_content [OF ok sid len wf imp]
  have dec: "pc_stored_encode R p = Inr b \<Longrightarrow> pc_stored_decode R b = Inr p"
    "pc_head_encode R d = Inr b \<Longrightarrow> pc_head_decode R b = Inr d" for p b d
    using codec unfolding graph_codec_ok_def by blast+
  have row': "if unat q < length events
      then \<exists>b. C db' SESSION_EVENTS_TABLE (KBytes (event_key sid q)) = Some b \<and>
               pc_stored_decode R b = Inr (events ! unat q)
      else C db' SESSION_EVENTS_TABLE (KBytes (event_key sid q)) = None" for q
  proof (cases "unat q < length events")
    case True
    then obtain b where "C db' SESSION_EVENTS_TABLE (KBytes (event_key sid (of_nat (unat q)))) = Some b"
      "pc_stored_encode R (events ! unat q) = Inr b" using content(3) by blast
    with dec(1) [of "events ! unat q" b] True show ?thesis by simp
  next
    case False
    have "KBytes (event_key sid q) \<noteq> KBytes (event_key sid (of_nat i))" if "i < length events" for i
      using False that len by (auto simp: event_key_inj [OF sid sid] unat_of_nat)
    from content(2) [OF this] False none show ?thesis by simp
  qed
  have head': "\<exists>b. C db' SESSION_HEADS_TABLE (KBytes sid) = Some b \<and>
      pc_head_decode R b = Inr (map_option fst (last_opt events))"
    using content(4) ev dec(2) by (auto simp: last_opt_def)
  have "session_rep R C db' sid events"
    unfolding session_rep_def by (intro conjI allI row' sid content(1) len head')
  with empty show ?thesis by blast
qed

lemma import_rows_isolated:
  assumes ok: "redb_ok R C" and sid: "length sid = 16" and len: "length events \<le> 2 ^ 64"
    and imp: "import_rows R db sid events = Inr db'"
    and rep: "session_rep R C db sid' hs" and other: "sid' \<noteq> sid"
  shows "session_rep R C db' sid' hs"
proof -
  have sid': "length sid' = 16" and wf: "event_keys_wf C db" using rep by (simp_all add: session_rep_def)
  note content = import_rows_content [OF ok sid len wf imp]
  have "C db' SESSION_EVENTS_TABLE (KBytes (event_key sid' q)) = C db SESSION_EVENTS_TABLE (KBytes (event_key sid' q))" for q
    by (rule content(2)) (use other in \<open>simp add: event_key_inj [OF sid' sid]\<close>)
  moreover have "C db' SESSION_HEADS_TABLE (KBytes sid') = C db SESSION_HEADS_TABLE (KBytes sid')"
    using content(4) other by auto
  ultimately show ?thesis using rep content(1) by (simp add: session_rep_def)
qed

section \<open>Sessions of a journal\<close>

lemma redb_import_Inl: "redb_import X R g events = (g', Inl e) \<Longrightarrow> g' = g"
  by (auto simp: redb_import_def graph_result_def split: sum.splits)

lemma redb_import_InrD:
  assumes "redb_import X R g events = (g', Inr ())"
  obtains db where "import_rows R (rg_db g) (rg_session_id g) events = Inr db"
    "g' = g\<lparr>rg_store := (rg_store g)\<lparr>rs_db := db\<rparr>\<rparr>"
    "linear_session X (redb_view R (rg_store g)) events None"
proof -
  from assms obtain db where db: "import_rows R (rg_db g) (rg_session_id g) events = Inr db"
    and g': "g' = g\<lparr>rg_store := (rg_store g)\<lparr>rs_db := db\<rparr>\<rparr>"
    and pre: "verify_import_precondition X events (redb_view R (rg_store g)) = Inr ()"
    by (auto simp: redb_import_def graph_result_def split: sum.splits)
  from pre have "\<exists>r. verify_history_against_store X events None (redb_view R (rg_store g)) = Inr r \<and> report_is_clean r"
    by (auto simp: verify_import_precondition_def verify_linear_history_against_store_def split: if_splits)
  then have "linear_session X (redb_view R (rg_store g)) events None"
    by (simp add: verify_history_clean_iff)
  with that db g' show ?thesis by blast
qed

lemma redb_import_rep:
  assumes ok: "redb_ok R C" and codec: "graph_codec_ok R"
    and wf: "event_keys_wf C (rg_db g)" and sid: "length (rg_session_id g) = 16" and len: "length events \<le> 2 ^ 64"
    and imp: "redb_import X R g events = (g', Inr ())"
  shows "session_rep R C (rg_db g) (rg_session_id g) []"
    and "session_rep R C (rg_db g') (rg_session_id g) events"
    and "linear_session X (redb_view R (rg_store g)) events None"
proof -
  obtain db where db: "import_rows R (rg_db g) (rg_session_id g) events = Inr db"
    "g' = g\<lparr>rg_store := (rg_store g)\<lparr>rs_db := db\<rparr>\<rparr>"
    and lin: "linear_session X (redb_view R (rg_store g)) events None"
    by (rule redb_import_InrD [OF imp])
  show "linear_session X (redb_view R (rg_store g)) events None" by (rule lin)
  show "session_rep R C (rg_db g) (rg_session_id g) []" "session_rep R C (rg_db g') (rg_session_id g) events"
    using import_rows_rep [OF ok codec wf sid len db(1)] by (simp_all add: db(2))
qed

text \<open>What \<open>verify\<close> decides on a session with a known history.\<close>

lemma redb_verify_clean:
  assumes ok: "redb_ok R C" and rep: "session_rep R C (rg_db g) (rg_session_id g) hs"
    and v: "redb_verify X R g = Inr r"
  shows "report_is_clean r \<longleftrightarrow> linear_session X (redb_view R (rg_store g)) hs (map_option fst (last_opt hs))"
proof -
  from v obtain hs' d where "redb_history R g = Inr hs'" "redb_head R g = Inr d"
    and r: "verify_history_against_store X hs' d (redb_view R (rg_store g)) = Inr r"
    by (auto simp: redb_verify_def)
  with redb_history_rep [OF ok rep] redb_head_rep [OF ok rep]
  have r: "verify_history_against_store X hs (map_option fst (last_opt hs)) (redb_view R (rg_store g)) = Inr r" by metis
  with verify_history_clean_iff [of X hs "map_option fst (last_opt hs)" "redb_view R (rg_store g)"] show ?thesis by auto
qed

lemma linear_session_own_head:
  "linear_session X V hs (map_option fst (last_opt hs)) \<longleftrightarrow> linear_session X V hs None"
  by (auto simp: linear_session_def last_opt_def ends_once_def)

end
