(* ===== verification/Redb_Properties.thy ===== *)
theory Redb_Properties
  imports Example_Env Redb_Import
begin

text \<open>
  The persistent journal: its append refines the in-memory one, sessions of one database do not
  disturb each other, an import leaves exactly the verified history, and \<open>verify\<close> on the stored rows
  decides the same specification as the in-memory journal.
\<close>

section \<open>Append\<close>

text \<open>C13: The database append refines the in-memory append: whenever it succeeds, the in-memory append
  on the same history succeeds with the same hash, and the rows then hold the extended history, so a
  later read returns exactly it.\<close>

theorem redb_append_refines_memory:
  assumes "redb_ok R C" "graph_codec_ok R"
    and "session_rep R C (rg_db g) (rg_session_id g) hs" "length hs < 2 ^ 64"
    and "redb_append X R t g k = (g', Inr h)"
  shows "\<exists>hs'. mem_append X t (shadow g hs) k = (shadow g' hs', Inr h) \<and>
    session_rep R C (rg_db g') (rg_session_id g') hs' \<and>
    (\<forall>hs''. redb_history R g' = Inr hs'' \<longrightarrow> hs'' = hs')"
proof (rule redb_append_refines [OF assms])
  fix hs' assume "session_rep R C (rg_db g') (rg_session_id g') hs'"
    "mem_append X t (shadow g hs) k = (shadow g' hs', Inr h)"
  with redb_history_rep [OF assms(1)] show ?thesis by blast
qed

lemma ex_redb_append:
  "\<exists>g'. redb_append ex exr 1000000000 (ex_redb ex_db_empty) (ev_kind ex_start) = (g', Inr (ex_hash 1))"
proof -
  have k: "validate_event_kind_invariants (ev_kind ex_start) = Inr ()"
    by (simp add: validate_event_kind_iff ex_start_def kind_ok_def)
  have head: "redb_head exr (ex_redb ex_db_empty) = Inr None"
    by (simp add: redb_head_def ex_redb_def exr_def ex_db_empty_def ex_head_decode_def)
  have hist: "redb_history exr (ex_redb ex_db_empty) = Inr []"
    by (simp add: redb_history_def ex_redb_def exr_def ex_db_empty_def ex_rows_def)
  have parents: "parents_for_append None (ev_kind ex_start) = Inr []"
    by (simp add: parents_for_append_Inr opt_list_def ex_start_def is_session_start_def)
  have e: "\<lparr>ev_parents = [], ev_kind = ev_kind ex_start, ev_emitted_at = 1000000000, ev_sequence = of_nat (length [])\<rparr> = ex_start"
    by (simp add: ex_start_def)
  have enc: "pc_stored_encode exr (ex_hash 1, ex_start) = Inr [1]" "pc_head_encode exr (Some (ex_hash 1)) = Inr [1]"
    by (simp_all add: exr_def ex_stored_encode_def ex_head_encode_def ex_hash_def)
  have alg: "rs_algorithm (rg_store (ex_redb ex_db_empty)) = Sha256" by (simp add: ex_redb_def)
  obtain db' where "write_event_rows exr (rg_db (ex_redb ex_db_empty)) (rg_session_id (ex_redb ex_db_empty))
      (of_nat (length [])) [1] [1] = Inr db'"
    by (simp add: write_event_rows_def exr_def)
  then show ?thesis
    unfolding redb_append_def k head hist res_bind.simps Let_def parents e alg ex_content_hash(1) enc map_err.simps
    by (simp add: graph_result_def)
qed

theorem redb_append_refines_memory_witness:
  "\<exists>g' hs'. redb_append ex exr 1000000000 (ex_redb ex_db_empty) (ev_kind ex_start) = (g', Inr (ex_hash 1)) \<and>
     mem_append ex 1000000000 (shadow (ex_redb ex_db_empty) []) (ev_kind ex_start) = (shadow g' hs', Inr (ex_hash 1))"
proof -
  obtain g' where app: "redb_append ex exr 1000000000 (ex_redb ex_db_empty) (ev_kind ex_start) = (g', Inr (ex_hash 1))"
    using ex_redb_append by blast
  have rep: "session_rep exr exc (rg_db (ex_redb ex_db_empty)) (rg_session_id (ex_redb ex_db_empty)) []"
    using ex_session_rep_empty by (simp add: ex_redb_def)
  from redb_append_refines_memory [OF ex_redb_ok ex_graph_codec_ok rep _ app] app show ?thesis by auto
qed

section \<open>Isolation\<close>

text \<open>Sessions of one database are isolated: an append, successful or not, an import and a stored
  object leave the history and head of every other session as they were.\<close>

theorem sessions_isolated:
  assumes "redb_ok R C" "length (rg_session_id g) = 16" "sid \<noteq> rg_session_id g"
    and "session_rep R C (rg_db g) sid hs" "length events \<le> 2 ^ 64"
  shows "session_rep R C (rg_db (fst (redb_append X R t g k))) sid hs \<and>
    session_rep R C (rg_db (fst (redb_import X R g events))) sid hs \<and>
    session_rep R C (rs_db (fst (redb_put X R (rg_store g) b))) sid hs"
proof (intro conjI)
  show "session_rep R C (rg_db (fst (redb_append X R t g k))) sid hs"
    using redb_append_isolated [OF assms(1) _ assms(2,3,4)] by (metis prod.collapse)
  show "session_rep R C (rs_db (fst (redb_put X R (rg_store g) b))) sid hs"
    using redb_put_keeps_sessions [OF assms(1) _ assms(4)] by (metis prod.collapse)
  obtain g' r where imp: "redb_import X R g events = (g', r)" by (cases "redb_import X R g events")
  show "session_rep R C (rg_db (fst (redb_import X R g events))) sid hs"
  proof (cases r)
    case (Inl e)
    with imp redb_import_Inl have "g' = g" by blast
    with imp assms(4) show ?thesis by simp
  next
    case (Inr u)
    with imp obtain db where "import_rows R (rg_db g) (rg_session_id g) events = Inr db"
      "g' = g\<lparr>rg_store := (rg_store g)\<lparr>rs_db := db\<rparr>\<rparr>" using redb_import_InrD by (metis old.unit.exhaust)
    with import_rows_isolated [OF assms(1,2,5) _ assms(4,3)] imp show ?thesis by simp
  qed
qed

theorem sessions_isolated_witness:
  "\<exists>sid. sid \<noteq> rg_session_id (ex_redb ex_db_empty) \<and>
     session_rep exr exc (rg_db (fst (redb_append ex exr 0
       ((ex_redb ex_db_empty)\<lparr>rg_session_id := sid\<rparr>) (SessionEnd None)))) ex_sid []"
proof -
  let ?g = "(ex_redb ex_db_empty)\<lparr>rg_session_id := replicate 16 1\<rparr>"
  have ne: "replicate 16 (1 :: byte) \<noteq> ex_sid" by (simp add: ex_sid_def numeral_eq_Suc)
  have "session_rep exr exc (rg_db ?g) ex_sid []" using ex_session_rep_empty by (simp add: ex_redb_def)
  from sessions_isolated [OF ex_redb_ok _ _ this, of "[]" ex 0 "SessionEnd None" "[]"] ne
  show ?thesis by (intro exI [of _ "replicate 16 1"]) (simp add: ex_redb_def)
qed

section \<open>Import\<close>

text \<open>A successful import found the target session empty and leaves exactly the imported history in
  it, readable back as such, and that history is a complete session whose objects the store holds.\<close>

theorem import_leaves_history:
  assumes "redb_ok R C" "graph_codec_ok R" "event_keys_wf C (rg_db g)"
    and "length (rg_session_id g) = 16" "length events \<le> 2 ^ 64"
    and "redb_import X R g events = (g', Inr ())"
  shows "session_rep R C (rg_db g) (rg_session_id g) [] \<and>
    session_rep R C (rg_db g') (rg_session_id g) events \<and>
    linear_session X (redb_view R (rg_store g)) events None"
  using redb_import_rep [OF assms] by blast

definition ex_db_objects :: ex_db where
  "ex_db_objects = [((OBJECTS_TABLE, KBytes (ex_digest [65])), [65]), ((OBJECTS_TABLE, KBytes (ex_digest [66])), [66]),
     ((SESSION_HEADS_TABLE, KBytes ex_sid), [0])]"

lemma ex_redb_view_object:
  "object_ok ex (redb_view exr (rg_store (ex_redb ex_db_objects))) (ex_hash 65)"
  "object_ok ex (redb_view exr (rg_store (ex_redb ex_db_objects))) (ex_hash 66)"
  by (simp_all add: object_ok_def redb_contains_def redb_get_def ex_redb_def ex_db_objects_def exr_def
      ex_hash_def digest_bytes_def)

lemma ex_redb_linear: "linear_session ex (redb_view exr (rg_store (ex_redb ex_db_objects)))
    [(ex_hash 1, ex_start), (ex_hash 2, ex_end)] None"
proof -
  have alg: "rs_algorithm (rg_store (ex_redb ex_db_objects)) = Sha256"
    by (simp add: ex_redb_def)
  have "objects_ok ex (redb_view exr (rg_store (ex_redb ex_db_objects))) ex_start"
    "objects_ok ex (redb_view exr (rg_store (ex_redb ex_db_objects))) ex_end"
    using ex_redb_view_object by (simp_all add: objects_ok_def ex_start_def ex_end_def opt_list_def)
  moreover have "hash_chain (content_hash ex Sha256) 0 None [(ex_hash 1, ex_start), (ex_hash 2, ex_end)]"
    "ends_once [ex_start, ex_end]"
    using ex_linear [of ex_end] by (simp_all add: linear_session_def ex_store_def mem_view_def)
  ultimately show ?thesis by (simp add: linear_session_def alg)
qed

lemma ex_redb_import:
  "\<exists>g'. redb_import ex exr (ex_redb ex_db_objects) [(ex_hash 1, ex_start), (ex_hash 2, ex_end)] = (g', Inr ())"
proof -
  let ?g = "ex_redb ex_db_objects" and ?es = "[(ex_hash 1, ex_start), (ex_hash 2, ex_end)]"
  have head: "redb_head exr ?g = Inr None"
    by (simp add: redb_head_def ex_redb_def exr_def ex_db_objects_def ex_head_decode_def)
  have hist: "redb_history exr ?g = Inr []"
    by (simp add: redb_history_def ex_redb_def exr_def ex_db_objects_def ex_rows_def)
  obtain r where "verify_history_against_store ex ?es None (redb_view exr (rg_store ?g)) = Inr r" "report_is_clean r"
    using ex_redb_linear verify_history_clean_iff [of ex ?es None "redb_view exr (rg_store ?g)"] by blast
  then have pre: "verify_import_precondition ex ?es (redb_view exr (rg_store ?g)) = Inr ()"
    by (simp add: verify_import_precondition_def verify_linear_history_against_store_def del: redb_view_simps)
  have ne: "(ex_hash 2, ex_end) \<noteq> (ex_hash 1, ex_start)" by (simp add: ex_hash_def)
  have "\<exists>db. import_rows exr (rg_db ?g) (rg_session_id ?g) ?es = Inr db"
    using ne
    by (simp add: import_rows_def exr_def ex_redb_def ex_db_objects_def ex_rows_def ex_head_decode_def
        ex_stored_encode_def ex_head_encode_def last_opt_def)
  with head hist pre show ?thesis
    by (auto simp: redb_import_def graph_result_def ensure_empty_import_target_def)
qed

theorem import_leaves_history_witness:
  "\<exists>g'. session_rep exr exc (rg_db g') ex_sid [(ex_hash 1, ex_start), (ex_hash 2, ex_end)]"
proof -
  obtain g' where imp: "redb_import ex exr (ex_redb ex_db_objects) [(ex_hash 1, ex_start), (ex_hash 2, ex_end)] = (g', Inr ())"
    using ex_redb_import by blast
  have wf: "event_keys_wf exc (rg_db (ex_redb ex_db_objects))"
    by (simp add: event_keys_wf_def exc_def ex_redb_def ex_db_objects_def)
  have sid: "rg_session_id (ex_redb ex_db_objects) = ex_sid" "length ex_sid = 16"
    by (simp_all add: ex_redb_def ex_sid_def)
  from import_leaves_history [OF ex_redb_ok ex_graph_codec_ok wf _ _ imp] sid show ?thesis by auto
qed

section \<open>Verification\<close>

text \<open>\<open>verify\<close> on stored rows is clean for exactly the linear sessions: the persistent and the
  in-memory journal decide one specification.\<close>

theorem stored_session_verifies_iff_linear:
  assumes "redb_ok R C" "session_rep R C (rg_db g) (rg_session_id g) hs" "redb_verify X R g = Inr r"
  shows "report_is_clean r \<longleftrightarrow> linear_session X (redb_view R (rg_store g)) hs None"
  using redb_verify_clean [OF assms] by (simp only: linear_session_own_head)

theorem stored_session_verifies_iff_linear_witness:
  "\<exists>r. redb_verify ex exr (ex_redb ex_db_empty) = Inr r \<and> \<not> report_is_clean r"
proof -
  have head: "redb_head exr (ex_redb ex_db_empty) = Inr None"
    by (simp add: redb_head_def ex_redb_def exr_def ex_db_empty_def ex_head_decode_def)
  have hist: "redb_history exr (ex_redb ex_db_empty) = Inr []"
    by (simp add: redb_history_def ex_redb_def exr_def ex_db_empty_def ex_rows_def)
  have "\<exists>r. verify_history_against_store ex [] None V = Inr r" for V
    by (simp add: verify_history_against_store_def)
  then obtain r where r: "redb_verify ex exr (ex_redb ex_db_empty) = Inr r"
    unfolding redb_verify_def head hist by auto
  have "session_rep exr exc (rg_db (ex_redb ex_db_empty)) (rg_session_id (ex_redb ex_db_empty)) []"
    using ex_session_rep_empty by (simp add: ex_redb_def)
  from stored_session_verifies_iff_linear [OF ex_redb_ok this r] r show ?thesis
    by (auto simp: linear_session_def ends_once_def)
qed

end
