(* ===== verification/Agent_Properties.thy ===== *)
theory Agent_Properties
  imports Agent_Fsm
begin

text \<open>
  What holds of every run of the agent state machine: the executor follows the transition table,
  terminal states are final, a tool batch ends exactly when its last call completed, and the token
  totals count without wrapping.
\<close>

section \<open>A concrete session\<close>

definition ag_idle :: "unit agent_session" where
  "ag_idle = \<lparr>as_config = \<lparr>ac_max_iterations = 10, ac_session_id = ''s''\<rparr>, as_state = Idle,
     as_batch_remaining = 0, as_post_summary_resume = None, as_last_usage = None,
     as_total_input_tokens = 0, as_total_cache_read_tokens = 0, as_total_output_tokens = 0,
     as_cost = (), as_audit_log = [], as_tool_call_summaries = [], as_mcp_call_context = [],
     as_receiver_open = True, as_sent = []\<rparr>"

abbreviation no_cost :: "u32 \<Rightarrow> u32 \<Rightarrow> u32 \<Rightarrow> unit \<Rightarrow> unit" where
  "no_cost \<equiv> \<lambda>a b c u. ()"

section \<open>Table and executor\<close>

text \<open>C14: In every reachable session the executor carries out every event the transition table
  allows, with one exception: a text delta in the idle state, which the table allows and the
  executor rejects. In particular the summary that ends a summarization always finds the state to
  resume.\<close>

theorem executor_follows_table:
  assumes "fsm_reachable cost zero debug g" "validate_transition (as_state g) ev = Inr ()"
    and "\<not> (as_state g = Idle \<and> (\<exists>x. ev = TextDelta x))"
  shows "\<exists>g' s. next_state_after g ev task = (g', Inr s)"
  using next_state_executes [OF assms(2), of task] fsm_reachable_inv [OF assms(1)] assms(3)
  unfolding fsm_inv_def by auto

theorem executor_follows_table_witness:
  "\<exists>g' s. next_state_after ag_idle (IterationStarted 1 10) ''task'' = (g', Inr s)"
proof -
  have "fsm_reachable no_cost () (\<lambda>s. []) ag_idle" by (rule fsm_init) (simp_all add: ag_idle_def)
  then show ?thesis
    by (rule executor_follows_table) (simp_all add: ag_idle_def validate_transition_def)
qed

text \<open>The exception is real: the table accepts a text delta in the idle state and applying it
  fails as an invalid transition, leaving the session unchanged.\<close>

theorem idle_text_delta_rejected:
  assumes "as_state g = Idle"
  shows "validate_transition (as_state g) (TextDelta x) = Inr () \<and>
    apply_event cost t1 t2 task g (TextDelta x) = (g, Inl (InvalidTransition ''Idle'' ''TextDelta''))"
  using assms
  by (simp add: validate_transition_def apply_event_def next_state_after_def record_usage_def Let_def
      invalid_transition_def agent_state_to_string_def agent_event_to_string_def)

theorem idle_text_delta_rejected_witness:
  "apply_event no_cost 0 0 ''task'' ag_idle (TextDelta ''hi'') =
     (ag_idle, Inl (InvalidTransition ''Idle'' ''TextDelta''))"
  using idle_text_delta_rejected [of ag_idle "''hi''" no_cost 0 0 "''task''"] by (simp add: ag_idle_def)

text \<open>Complete and failed sessions are final: no event changes anything, and only a new user turn
  leaves these states, for the idle state.\<close>

theorem terminal_states_are_final:
  assumes "as_state g = Complete \<or> (\<exists>e r. as_state g = Failed e r)"
  shows "(\<exists>e. apply_event cost t1 t2 task g ev = (g, Inl e)) \<and>
    (\<exists>g'. prepare_for_new_user_turn zero debug g = (g', Inr ()) \<and> as_state g' = Idle \<and> as_batch_remaining g' = 0)"
proof -
  have "\<exists>e. validate_transition (as_state g) ev = Inl e"
    using assms by (cases ev) (auto simp: validate_transition_def)
  then show ?thesis
    using assms by (auto simp: apply_event_def prepare_for_new_user_turn_def clear_turn_def)
qed

theorem terminal_states_are_final_witness:
  "\<exists>e. apply_event no_cost 0 0 ''task'' (ag_idle\<lparr>as_state := Complete\<rparr>) Done = (ag_idle\<lparr>as_state := Complete\<rparr>, Inl e)"
  using terminal_states_are_final [of "ag_idle\<lparr>as_state := Complete\<rparr>" no_cost 0 0 "''task''" Done] by simp

section \<open>Tool batches\<close>

text \<open>A batch of tool calls, any number below \<open>2^32\<close>, is over exactly when its last call completes:
  after all completions the session is back in its thinking state of the same iteration.\<close>

theorem batch_completes:
  assumes "as_state g = ToolExecution n" "as_receiver_open g"
    and "list_all (\<lambda>(t, ev). is_completion ev) evs" "evs \<noteq> []"
    and "as_batch_remaining g = of_nat (length evs)" "length evs < 2 ^ 32"
    and "complete_calls cost task g evs = (g', r)"
  shows "r = Inr () \<and> as_state g' = Thinking n \<and> as_batch_remaining g' = 0"
  using assms by (rule complete_calls_batch)

theorem batch_completes_witness:
  "as_state (fst (complete_calls no_cost ''task''
     (ag_idle\<lparr>as_state := ToolExecution 3, as_batch_remaining := 2\<rparr>)
     [(0, ToolCallCompleted ''a'' ''read'' True ''ok''), (1, ToolCallCompleted ''b'' ''edit'' False ''no'')])) = Thinking 3"
proof -
  let ?g = "ag_idle\<lparr>as_state := ToolExecution 3, as_batch_remaining := 2\<rparr>"
  let ?evs = "[(0, ToolCallCompleted ''a'' ''read'' True ''ok''), (1 :: int, ToolCallCompleted ''b'' ''edit'' False ''no'')]"
  obtain g' r where c: "complete_calls no_cost ''task'' ?g ?evs = (g', r)" by fastforce
  have "as_state ?g = ToolExecution 3" "as_receiver_open ?g" "as_batch_remaining ?g = of_nat (length ?evs)"
    "list_all (\<lambda>(t, ev). is_completion ev) ?evs" "?evs \<noteq> []" "length ?evs < 2 ^ 32"
    by (simp_all add: ag_idle_def is_completion_def)
  from batch_completes [OF this(1,2,4,5,3,6) c] c show ?thesis by simp
qed

section \<open>Token totals\<close>

text \<open>The usage reports of a run, applied one after the other.\<close>

definition input_tokens :: "agent_event \<Rightarrow> nat" where
  "input_tokens ev = (case ev of UsageReport inp _ _ _ \<Rightarrow> unat inp | _ \<Rightarrow> 0)"

lemma u32_max: "unat (x :: u32) \<le> 2 ^ 32 - 1"
  using unsigned_less [of x, where 'a = nat] by simp

lemma saturating_add32_unat: "unat (saturating_add32 a b) = min (unat a + unat b) (2 ^ 32 - 1)"
proof (cases "unat a + unat b < 2 ^ 32")
  case True
  then have "unat (a + b) = unat a + unat b" by (subst unat_add_lem [symmetric]) simp
  with True show ?thesis by (simp add: saturating_add32_def)
next
  case False
  moreover have "unat (- 1 :: u32) = 2 ^ 32 - 1" by (simp add: unsigned_minus_1_eq_mask mask_eq_exp_minus_1)
  ultimately show ?thesis by (simp add: saturating_add32_def)
qed

lemma record_usage_total:
  "unat (as_total_input_tokens (record_usage cost g ev)) =
     min (unat (as_total_input_tokens g) + input_tokens ev) (2 ^ 32 - 1)"
proof -
  have "unat (as_total_input_tokens g) \<le> 2 ^ 32 - 1"
    by (rule u32_max)
  then show ?thesis
    by (simp add: record_usage_def input_tokens_def saturating_add32_unat split: agent_event.splits)
qed

text \<open>The input token total is the exact sum of the reported inputs, capped at \<open>2^32 - 1\<close>; it never
  wraps around.\<close>

theorem input_tokens_saturate:
  "unat (as_total_input_tokens (foldl (record_usage cost) g evs)) =
     min (unat (as_total_input_tokens g) + sum_list (map input_tokens evs)) (2 ^ 32 - 1)"
proof (induction evs arbitrary: g)
  case Nil
  have "unat (as_total_input_tokens g) \<le> 2 ^ 32 - 1"
    by (rule u32_max)
  then show ?case by simp
next
  case (Cons ev evs)
  then show ?case by (simp add: record_usage_total)
qed

end
