(* ===== verification/Bundle_Export.thy ===== *)
theory Bundle_Export
  imports Cli_Journal
begin

text \<open>
  The commands that produce and sign bundles, \<open>akmon-cli/src/bundle_cmd.rs\<close> and
  \<open>bundle_attest.rs\<close>: assembling a session from the journal, exporting it, adding a head signature
  or an operator attestation. A refusal is a stable category, a message and an exit code; file
  creation, the size of the written file and the clock are parameters.
\<close>

type_synonym step_error = "string \<times> string \<times> nat"

section \<open>Errors\<close>

definition bundle_error_to_string :: "bundle_error \<Rightarrow> string" where
  "bundle_error_to_string e =
     (case e of
        BIo m \<Rightarrow> ''I/O error: '' @ m
      | BInvalidArchive m \<Rightarrow> ''invalid archive: '' @ m
      | BInvalidCompression m \<Rightarrow> ''invalid compression stream: '' @ m
      | BInvalidManifest m \<Rightarrow> ''invalid manifest: '' @ m
      | BUnsupportedAgefVersion m \<Rightarrow> ''unsupported AGEF version: '' @ m
      | BUnsupportedHashAlgorithm m \<Rightarrow> ''unsupported hash algorithm: '' @ m
      | BMalformedFraming m \<Rightarrow> ''malformed framing: '' @ m
      | BFrameTooLarge n \<Rightarrow> ''event frame exceeds max length: '' @ show_nat (unat n)
      | BNonCanonicalCbor \<Rightarrow> ''non-canonical CBOR event frame''
      | BUnknownEventKind m \<Rightarrow> ''unknown EventKind: '' @ m
      | BUnknownAttemptStatus m \<Rightarrow> ''unknown AttemptStatus: '' @ m
      | BMissingObject m \<Rightarrow> ''missing object: '' @ m
      | BObjectHashMismatch m \<Rightarrow> ''object hash mismatch: '' @ m
      | BHeadMismatch a b \<Rightarrow> ''head mismatch: expected '' @ a @ '', found '' @ b
      | BUnknownBundleFile m \<Rightarrow> ''unknown file in bundle: '' @ m
      | BBundleTooLarge n \<Rightarrow> ''bundle decompressed size exceeds the '' @ show_nat (unat n)
          @ ''-byte safety limit (possible decompression bomb); for a legitimately large bundle raise it with --max-decoded-bytes'')"

definition bundle_export_error_category :: "string \<Rightarrow> string" where
  "bundle_export_error_category msg =
     (let lower = to_ascii_lowercase msg in
      if str_contains ''output path already exists'' lower then ''output_exists''
      else if str_contains ''referenced object'' lower \<and> str_contains ''missing'' lower then ''missing_object''
      else if str_contains ''malformed session'' lower then ''malformed_journal''
      else if str_contains ''session not found'' lower then ''session_not_found''
      else case journal_open_category msg of
        Some c \<Rightarrow> c
      | None \<Rightarrow>
          (if str_contains ''bundle'' lower \<or> str_contains ''invalid manifest'' lower then ''bundle_error''
           else ''io_error''))"

section \<open>Assembling a session\<close>

record session_bundle =
  sb_manifest :: manifest
  sb_events :: "event list"
  sb_objects :: "(hash, byte list) hash_map"

definition format_iso_utc :: "'x command_ext_scheme \<Rightarrow> int \<Rightarrow> nat \<Rightarrow> string" where
  "format_iso_utc X epoch_seconds nanos =
     (case x_chrono_iso X epoch_seconds nanos of Some s \<Rightarrow> s | None \<Rightarrow> ''invalid-timestamp'')"

definition iso_time :: "'x command_ext_scheme \<Rightarrow> datetime \<Rightarrow> string" where
  "iso_time X t = format_iso_utc X (x_unix_timestamp X t) (x_subsec_nanos X t)"

text \<open>The loop that collects the referenced objects, each of them once, in the order of reference.\<close>

fun collect_objects ::
    "(hash \<Rightarrow> step_error + byte list) \<Rightarrow> (hash, byte list) hash_map \<Rightarrow> hash list
     \<Rightarrow> step_error + (hash, byte list) hash_map" where
  "collect_objects lookup objs [] = Inr objs"
| "collect_objects lookup objs (h # hs) =
     (if hm_contains objs h then collect_objects lookup objs hs
      else res_bind (lookup h) (\<lambda>b. collect_objects lookup (hm_insert h b objs) hs))"

definition export_lookup ::
    "'x command_ext_scheme \<Rightarrow> ('db, 'r) redb_api_scheme \<Rightarrow> 'db redb_store \<Rightarrow> hash \<Rightarrow> step_error + byte list" where
  "export_lookup X R s h =
     (case redb_get R s h of
        Inr (Some bytes) \<Rightarrow> Inr bytes
      | Inr None \<Rightarrow>
          Inl (''missing_object'', ''referenced object '' @ to_hex X h
                 @ '' is missing from the object store; journal is incomplete'', 3)
      | Inl e \<Rightarrow> Inl (''io_error'', ''object store read failed for '' @ to_hex X h @ '': '' @ jerr_text X e, 3))"

text \<open>The unsigned manifest of a session: \<open>start\<close> and \<open>finish\<close> are the times of its first
  \<open>SessionStart\<close> and its last \<open>SessionEnd\<close>.\<close>

definition session_manifest ::
    "'x command_ext_scheme \<Rightarrow> byte list \<Rightarrow> hash \<Rightarrow> datetime \<Rightarrow> datetime \<Rightarrow> hash_algorithm \<Rightarrow> nat \<Rightarrow> nat \<Rightarrow> manifest" where
  "session_manifest X sid head start finish a n_objects n_events =
     \<lparr>mf_agef_version = AGEF_SPEC_VERSION,
      mf_producer = \<lparr>pr_name = ''akmon'', pr_version = CARGO_PKG_VERSION\<rparr>,
      mf_session = \<lparr>sm_id = x_uuid_text X sid, sm_head = to_hex X head,
                    sm_created_at = iso_time X start, sm_ended_at = iso_time X finish\<rparr>,
      mf_hash_algorithm = hash_algorithm_to_string a,
      mf_object_count = of_nat n_objects, mf_event_count = of_nat n_events,
      mf_signatures = None, mf_operator_attestations = None, mf_extra = []\<rparr>"

definition malformed_session :: "string \<Rightarrow> step_error" where
  "malformed_session detail = (''malformed_journal'', ''malformed session: '' @ detail, 3)"

definition assemble_session_bundle ::
    "'x command_ext_scheme \<Rightarrow> ('db, 'r) graph_api_scheme \<Rightarrow> string \<Rightarrow> string + 'db \<Rightarrow> byte list
     \<Rightarrow> step_error + session_bundle" where
  "assemble_session_bundle X R journal_dir opened sid =
     res_bind (map_err (\<lambda>e.
         let msg = ''cannot open journal '' @ journal_dir @ '' for session '' @ x_uuid_text X sid
               @ '': '' @ agent_error_to_string e in
         (bundle_export_error_category msg, msg, 3)) (query_open_read_only X R opened sid)) (\<lambda>g.
     res_bind (map_err (\<lambda>e. (''io_error'', ''cannot read session history: '' @ jerr_text X e, 3))
                 (redb_history R g)) (\<lambda>history.
     res_bind (map_err (\<lambda>e. (''io_error'', ''cannot read session head: '' @ jerr_text X e, 3))
                 (redb_head R g)) (\<lambda>head.
     res_bind (ok_or (malformed_session ''empty event graph (no head)'') head) (\<lambda>head_hash.
     res_bind (ok_or (malformed_session ''journal has no SessionStart event (cannot build bundle)'')
                 (find (\<lambda>(h, e). is_session_start (ev_kind e)) history)) (\<lambda>(_, start_event).
     res_bind (ok_or (malformed_session ''journal has no SessionEnd event (cannot build bundle)'')
                 (find (\<lambda>(h, e). is_session_end (ev_kind e)) (rev history))) (\<lambda>(_, end_event).
     let events = map snd history in
     res_bind (collect_objects (export_lookup X R (rg_store g)) [] (session_objects events)) (\<lambda>objects.
     Inr \<lparr>sb_manifest = session_manifest X sid head_hash (ev_emitted_at start_event)
            (ev_emitted_at end_event) (rs_algorithm (rg_store g)) (length objects) (length events),
          sb_events = events, sb_objects = objects\<rparr>)))))))"

section \<open>Export\<close>

record bundle_export_report =
  be_akmon_version :: string
  be_agef_version :: string
  be_session_id :: string
  be_output_path :: string
  be_events_exported :: u64
  be_objects_exported :: u64
  be_bundle_size_bytes :: u64

text \<open>\<open>path\<close> is the output path as given, \<open>shown\<close> the path as displayed, \<open>created\<close> the error of
  creating the file, if any, and \<open>file_size\<close> the size the file system reports.\<close>

definition run_bundle_export ::
    "'x command_ext_scheme \<Rightarrow> ('db, 'r) graph_api_scheme \<Rightarrow> string \<Rightarrow> string + 'db \<Rightarrow> byte list
     \<Rightarrow> string \<Rightarrow> string \<Rightarrow> bool \<Rightarrow> string option \<Rightarrow> string + u64
     \<Rightarrow> step_error + entries \<times> bundle_export_report" where
  "run_bundle_export X R journal_dir opened sid path shown present created file_size =
     (if present then Inl (''output_exists'', ''output path already exists: '' @ path, 2)
      else
        res_bind (assemble_session_bundle X R journal_dir opened sid) (\<lambda>sb.
        case created of
          Some e \<Rightarrow> Inl (''io_error'', ''cannot create bundle file '' @ path @ '': '' @ e, 3)
        | None \<Rightarrow>
            res_bind (map_err (\<lambda>e. (''bundle_error'',
                (case e of BIo m \<Rightarrow> ''bundle write I/O error: '' @ m
                 | _ \<Rightarrow> ''bundle write failed: '' @ bundle_error_to_string e), 3))
              (write_bundle X (sb_manifest sb) (sb_events sb) (sb_objects sb) default_write_options)) (\<lambda>entries.
            res_bind (map_err (\<lambda>e. (''io_error'', ''cannot stat bundle file '' @ path @ '': '' @ e, 3)) file_size)
              (\<lambda>size_bytes.
            Inr (entries,
              \<lparr>be_akmon_version = CARGO_PKG_VERSION, be_agef_version = AGEF_SPEC_VERSION,
               be_session_id = x_uuid_text X sid, be_output_path = shown,
               be_events_exported = of_nat (length (sb_events sb)),
               be_objects_exported = of_nat (length (sb_objects sb)),
               be_bundle_size_bytes = size_bytes\<rparr>)))))"

section \<open>Signing and attesting\<close>

definition manifest_unsigned_and_unattested :: "manifest \<Rightarrow> bool" where
  "manifest_unsigned_and_unattested m \<longleftrightarrow>
     concat (opt_list (mf_signatures m)) = [] \<and> concat (opt_list (mf_operator_attestations m)) = []"

definition now_rfc3339 :: "'x command_ext_scheme \<Rightarrow> datetime \<Rightarrow> string" where
  "now_rfc3339 X now = (case x_rfc3339_format X now of Some s \<Rightarrow> s | None \<Rightarrow> [])"

definition stamp_version :: "manifest \<Rightarrow> manifest" where
  "stamp_version m =
     (if manifest_unsigned_and_unattested m then m\<lparr>mf_agef_version := AGEF_SPEC_VERSION\<rparr> else m)"

definition add_head_signature ::
    "'x command_ext_scheme \<Rightarrow> datetime \<Rightarrow> manifest \<Rightarrow> byte list \<Rightarrow> step_error + manifest" where
  "add_head_signature X now m0 pkcs8 =
     (let invalid = (\<lambda>e. (''invalid_key'', ''signing failed: '' @ signing_error_to_string e, 2)) in
      res_bind (map_err invalid (public_key_from_pkcs8 X pkcs8)) (\<lambda>public_key.
      let m = stamp_version m0 in
      res_bind (map_err invalid (sign_statement X (as_bytes (manifest_statement m)) pkcs8)) (\<lambda>signature.
      Inr (m\<lparr>mf_signatures := Some (concat (opt_list (mf_signatures m)) @
            [\<lparr>msig_scheme = SCHEME_ED25519, msig_key_id = key_id X public_key,
              msig_statement_version = SIG_STATEMENT_VERSION, msig_signature = x_hex_encode X signature,
              msig_created_at = now_rfc3339 X now\<rparr>])\<rparr>))))"

definition add_operator_attestation ::
    "'x command_ext_scheme \<Rightarrow> datetime \<Rightarrow> manifest \<Rightarrow> operator_identity \<Rightarrow> byte list \<Rightarrow> string
     \<Rightarrow> step_error + manifest" where
  "add_operator_attestation X now m0 i pkcs8 key_label =
     (let m = stamp_version m0 in
      res_bind (map_err (\<lambda>e. case e of
            IllegalOperatorField \<Rightarrow>
              (''invalid_operator_field'', ''operator identity field is empty (operator-id) or contains a newline/carriage return; such values are rejected to prevent statement injection'', 2)
          | _ \<Rightarrow> (''invalid_key'', key_label @ '': '' @ signing_error_to_string e, 2))
        (build_operator_attestation X m i pkcs8 (now_rfc3339 X now))) (\<lambda>att.
      Inr (m\<lparr>mf_operator_attestations := Some (concat (opt_list (mf_operator_attestations m)) @ [att])\<rparr>)))"

text \<open>\<open>opened\<close> is what opening the bundle file yields: an error or the decoder for its bytes.\<close>

type_synonym bundle_file = "string + (u64 \<Rightarrow> string + (io_error + (io_error + tar_entry) list))"

definition open_bundle_file :: "string \<Rightarrow> string + 'a \<Rightarrow> step_error + 'a" where
  "open_bundle_file path opened = map_err (\<lambda>e. (''io_error'', ''cannot open bundle '' @ path @ '': '' @ e, 3)) opened"

definition read_step :: "bundle_error + bundle_contents \<Rightarrow> step_error + bundle_contents" where
  "read_step r = map_err (\<lambda>e. (bundle_read_error_category e, bundle_error_to_string e, bundle_read_exit_code e)) r"

definition read_bundle_verified_for_signing ::
    "'x command_ext_scheme \<Rightarrow> string \<Rightarrow> bundle_file \<Rightarrow> step_error + bundle_contents" where
  "read_bundle_verified_for_signing X path opened =
     res_bind (open_bundle_file path opened) (\<lambda>decode.
     res_bind (read_step (read_bundle X default_read_options decode)) (\<lambda>contents.
     case br_violations (verify_bundle X contents) of
       [] \<Rightarrow> Inr contents
     | first # rest \<Rightarrow>
         Inl (''integrity_failed'',
           ''refusing: bundle '' @ path @ '' fails integrity verification (''
           @ show_nat (Suc (length rest)) @ '' violation(s); first: ['' @ category first @ ''] ''
           @ message X first @ ''); run '' @ [CHR 0x60] @ ''akmon bundle verify'' @ [CHR 0x60] @ '' for the full report'', 1)))"

definition read_and_evaluate_bundle ::
    "'x command_ext_scheme \<Rightarrow> string \<Rightarrow> string \<Rightarrow> bundle_file \<Rightarrow> bool \<Rightarrow> u64 \<Rightarrow> verify_policy
     \<Rightarrow> step_error + verify_report_v1" where
  "read_and_evaluate_bundle X path shown opened allow_extra_files max_decoded_bytes policy =
     res_bind (open_bundle_file path opened) (\<lambda>decode.
     res_bind (read_step (read_bundle_limited X
         \<lparr>ro_allow_extra_files = allow_extra_files, ro_max_event_frame_len = DEFAULT_MAX_EVENT_FRAME_LEN\<rparr>
         max_decoded_bytes (decode max_decoded_bytes))) (\<lambda>contents.
     Inr (evaluate_bundle X shown contents policy)))"

text \<open>\<open>akmon bundle verify\<close>: the report and the exit code.\<close>

definition run_bundle_verify ::
    "'x command_ext_scheme \<Rightarrow> string \<Rightarrow> string \<Rightarrow> bundle_file \<Rightarrow> bool \<Rightarrow> u64
     \<Rightarrow> policy_key_error + verify_policy \<Rightarrow> step_error + verify_report_v1 \<times> nat" where
  "run_bundle_verify X path shown opened allow_extra_files max_decoded_bytes policy =
     res_bind (map_err (\<lambda>e. (pke_category e, pke_message e, 3)) policy) (\<lambda>p.
     res_bind (read_and_evaluate_bundle X path shown opened allow_extra_files max_decoded_bytes p) (\<lambda>report.
     Inr (report, if vp_passed report then 0 else 1)))"

text \<open>\<open>akmon bundle sign\<close> and \<open>attest\<close> up to the rename of the temporary file: what is written.
  \<open>key\<close> is what reading the key file yields, \<open>created\<close> the error of creating the temporary file,
  \<open>renamed\<close> that of the rename.\<close>

definition write_back ::
    "'x command_ext_scheme \<Rightarrow> string \<Rightarrow> string \<Rightarrow> string \<Rightarrow> string option \<Rightarrow> string option \<Rightarrow> bundle_contents
     \<Rightarrow> step_error + entries" where
  "write_back X what out tmp created renamed c =
     (case created of
        Some e \<Rightarrow> Inl (''io_error'', ''cannot create temp file '' @ tmp @ '': '' @ e, 3)
      | None \<Rightarrow>
          res_bind (map_err (\<lambda>e. (''bundle_error'', ''bundle write failed: '' @ bundle_error_to_string e, 3))
            (write_bundle X (bc_manifest c) (bc_events c) (bc_objects c) default_write_options)) (\<lambda>entries.
          case renamed of
            Some e \<Rightarrow> Inl (''io_error'', ''cannot finalize '' @ what @ '' bundle '' @ out @ '': '' @ e, 3)
          | None \<Rightarrow> Inr entries))"

definition read_signing_key ::
    "'x command_ext_scheme \<Rightarrow> string \<Rightarrow> string + byte list \<Rightarrow> step_error + byte list \<times> byte list" where
  "read_signing_key X key_path key =
     res_bind (map_err (\<lambda>e. (''io_error'', ''cannot read --key '' @ key_path @ '': '' @ e, 3)) key) (\<lambda>pkcs8.
     res_bind (map_err (\<lambda>e. (''invalid_key'', ''--key '' @ key_path @ '': '' @ signing_error_to_string e, 2))
       (public_key_from_pkcs8 X pkcs8)) (\<lambda>pk. Inr (pkcs8, pk)))"

definition run_bundle_sign ::
    "'x command_ext_scheme \<Rightarrow> datetime \<Rightarrow> string \<Rightarrow> bundle_file \<Rightarrow> string \<Rightarrow> string + byte list
     \<Rightarrow> string \<Rightarrow> string \<Rightarrow> string option \<Rightarrow> string option \<Rightarrow> step_error + entries \<times> manifest" where
  "run_bundle_sign X now path opened key_path key out tmp created renamed =
     res_bind (read_bundle_verified_for_signing X path opened) (\<lambda>contents.
     res_bind (read_signing_key X key_path key) (\<lambda>(pkcs8, _).
     res_bind (add_head_signature X now (bc_manifest contents) pkcs8) (\<lambda>m.
     res_bind (write_back X ''signed'' out tmp created renamed (contents\<lparr>bc_manifest := m\<rparr>)) (\<lambda>entries.
     Inr (entries, m)))))"

definition run_bundle_attest ::
    "'x command_ext_scheme \<Rightarrow> datetime \<Rightarrow> string \<Rightarrow> bundle_file \<Rightarrow> string \<Rightarrow> string + byte list
     \<Rightarrow> operator_identity \<Rightarrow> string \<Rightarrow> string \<Rightarrow> string option \<Rightarrow> string option
     \<Rightarrow> step_error + entries \<times> manifest" where
  "run_bundle_attest X now path opened key_path key i out tmp created renamed =
     res_bind (read_bundle_verified_for_signing X path opened) (\<lambda>contents.
     res_bind (read_signing_key X key_path key) (\<lambda>(pkcs8, _).
     res_bind (add_operator_attestation X now (bc_manifest contents) i pkcs8 (''--key '' @ key_path)) (\<lambda>m.
     res_bind (write_back X ''attested'' out tmp created renamed (contents\<lparr>bc_manifest := m\<rparr>)) (\<lambda>entries.
     Inr (entries, m)))))"

section \<open>Collected objects\<close>

lemma collect_objects_keys:
  "collect_objects lookup objs hs = Inr objs' \<Longrightarrow> hm_wf objs \<Longrightarrow>
   hm_wf objs' \<and> fst ` set objs' = fst ` set objs \<union> set hs"
proof (induction lookup objs hs rule: collect_objects.induct)
  case (2 lookup objs h hs)
  show ?case
  proof (cases "hm_contains objs h")
    case True
    then have "h \<in> fst ` set objs" using map_of_eq_None_iff [of objs h] unfolding hm_contains_def by simp
    with True 2 show ?thesis by auto
  next
    case False
    with 2(3) obtain b where b: "lookup h = Inr b" "collect_objects lookup (hm_insert h b objs) hs = Inr objs'"
      by auto
    from 2(2) [OF False b(2)] 2(4) show ?thesis by (auto simp: hm_keys_insert)
  qed
qed simp

lemma collect_objects_values:
  assumes "collect_objects lookup objs hs = Inr objs'" "hm_wf objs"
    and "\<forall>(h, b) \<in> set objs. P h b" "\<And>h b. h \<in> set hs \<Longrightarrow> lookup h = Inr b \<Longrightarrow> P h b"
  shows "\<forall>(h, b) \<in> set objs'. P h b"
  using assms
proof (induction lookup objs hs rule: collect_objects.induct)
  case (2 lookup objs h hs)
  show ?case
  proof (cases "hm_contains objs h")
    case True
    with 2 show ?thesis by simp
  next
    case False
    with 2(3) obtain b where b: "lookup h = Inr b" "collect_objects lookup (hm_insert h b objs) hs = Inr objs'"
      by auto
    have wf: "hm_wf (hm_insert h b objs)" using 2(4) by blast
    have "\<forall>(h, b) \<in> set (hm_insert h b objs). P h b"
    proof (clarify)
      fix k v assume "(k, v) \<in> set (hm_insert h b objs)"
      then have "hm_get (hm_insert h b objs) k = Some v" by (rule hm_get_iff [OF wf, THEN iffD2])
      then have "(k = h \<and> v = b) \<or> hm_get objs k = Some v" by (auto split: if_splits)
      with 2(4,5,6) b(1) show "P k v" by (auto simp: hm_get_iff)
    qed
    with 2(2) [OF False b(2) wf] 2(6) show ?thesis by simp
  qed
qed simp

lemma collect_objects_total:
  assumes "\<And>h. h \<in> set hs \<Longrightarrow> \<exists>b. lookup h = Inr b"
  shows "\<exists>objs'. collect_objects lookup objs hs = Inr objs'"
  using assms
proof (induction lookup objs hs rule: collect_objects.induct)
  case (2 lookup objs h hs)
  then show ?case by (cases "hm_contains objs h") force+
qed simp

section \<open>Assembled bundles are complete sessions\<close>

lemma content_hash_wf_fields:
  assumes "hash_ext_ok X" "content_hash X a e = Inr h"
  shows "hash_wf h" "h_algorithm h = a"
proof -
  obtain b where "h = digest_bytes X a b" using assms(2) by (auto simp: content_hash_def split: sum.splits)
  then show "hash_wf h" "h_algorithm h = a" using digest_bytes_wf [OF assms(1)] by simp_all
qed

lemma hash_chain_last:
  "hash_chain H idx prev ps \<Longrightarrow> ps \<noteq> [] \<Longrightarrow> H (snd (last ps)) = Inr (fst (last ps))"
  by (induction H idx prev ps rule: hash_chain.induct) (auto simp: entry_ok_def)

text \<open>A chain with its objects, under the manifest the commands write for it.\<close>

lemma assembled_bundle_session:
  assumes X: "hash_ext_ok X"
    and chain: "hash_chain (content_hash X a) 0 None hist" and ends: "ends_once (map snd hist)"
    and kinds: "list_all (\<lambda>e. kind_ok32 (ev_kind e)) (map snd hist)"
    and objs: "fst ` set objs = set (session_objects (map snd hist))"
      "\<forall>(h, b) \<in> set objs. digest_bytes X a b = h"
    and m: "m = session_manifest X sid (fst (last hist)) t t' a (length objs) (length hist)"
  shows "bundle_session X a \<lparr>bc_manifest = m, bc_events = map snd hist, bc_objects = objs\<rparr> (map fst hist)"
proof -
  have ne: "hist \<noteq> []" using ends by (auto simp: ends_once_def)
  have "content_hash X a (snd (last hist)) = Inr (fst (last hist))"
    by (rule hash_chain_last [OF chain ne])
  note wf = content_hash_wf_fields [OF X this]
  have "parse_hex X a (to_hex X (fst (last hist))) = Inr (last (map fst hist))"
    using parse_hex_to_hex [OF X wf(1)] ne wf(2) by (simp add: last_map)
  moreover have "zip (map fst hist) (map snd hist) = hist" by (rule zip_map_fst_snd)
  ultimately show ?thesis
    using chain ends kinds objs by (auto simp: bundle_session_def m session_manifest_def list_all_iff)
qed

lemma find_SomeI: "\<exists>x \<in> set xs. P x \<Longrightarrow> \<exists>y. find P xs = Some y"
  by (induction xs) auto

text \<open>Exporting a session whose history verifies: the assembled bundle is a complete session.\<close>

lemma export_lookup_Inr: "export_lookup X R s h = Inr b \<longleftrightarrow> redb_get R s h = Inr (Some b)"
  by (simp add: export_lookup_def split: sum.splits option.splits)

lemma assemble_InrD:
  assumes "assemble_session_bundle X R dir opened sid = Inr sb"
  obtains g hist head start finish objs where
    "open_journal_read_only R opened sid = Inr g" "redb_history R g = Inr hist" "redb_head R g = Inr (Some head)"
    "collect_objects (export_lookup X R (rg_store g)) [] (session_objects (map snd hist)) = Inr objs"
    "sb = \<lparr>sb_manifest = session_manifest X sid head start finish (rs_algorithm (rg_store g)) (length objs) (length hist),
           sb_events = map snd hist, sb_objects = objs\<rparr>"
  using assms
  by (auto simp: assemble_session_bundle_def query_open_read_only_def Let_def)

lemma redb_reopen_InrD:
  assumes "redb_reopen R s sid = (s', Inr g)"
  obtains db where "ensure_graph_tables R (rs_db s) = Inr db" "s' = s\<lparr>rs_db := db\<rparr>"
    "g = \<lparr>rg_store = s', rg_session_id = sid\<rparr>"
  using assms by (cases "ensure_graph_tables R (rs_db s)") (auto simp: redb_reopen_def Let_def split: if_splits)

lemma open_read_only_InrD:
  assumes "redb_ok R C" "open_journal_read_only R (Inr db) sid = Inr g"
  shows "rg_session_id g = sid \<and> C (rg_db g) = C db"
proof -
  from assms(2) obtain s where s: "redb_open R (Inr db) = Inr s" "snd (redb_reopen R s sid) = Inr g"
    by (auto simp: open_journal_read_only_def)
  then obtain s' where "redb_reopen R s sid = (s', Inr g)" by (metis prod.collapse)
  then obtain db' where g: "ensure_graph_tables R (rs_db s) = Inr db'" "g = \<lparr>rg_store = s\<lparr>rs_db := db'\<rparr>, rg_session_id = sid\<rparr>"
    by (rule redb_reopen_InrD) simp
  obtain db0 where "(Inr db :: string + 'a) = Inr db0" "C (rs_db s) = C db0" by (rule redb_open_content [OF assms(1) s(1)])
  with ensure_graph_tables_content [OF assms(1) g(1)] g(2) show ?thesis by simp
qed

lemma assembled_session:
  assumes X: "hash_ext_ok X" and ok: "redb_ok R C"
    and asm: "assemble_session_bundle X R dir (Inr db) sid = Inr sb"
    and rep: "session_rep R C db sid hist"
    and lin: "\<And>g. open_journal_read_only R (Inr db) sid = Inr g \<Longrightarrow> linear_session X (redb_view R (rg_store g)) hist None"
    and kinds: "list_all (\<lambda>e. kind_ok32 (ev_kind e)) (map snd hist)"
  shows "\<exists>a. mf_hash_algorithm (sb_manifest sb) = hash_algorithm_to_string a \<and>
    bundle_session X a \<lparr>bc_manifest = sb_manifest sb, bc_events = sb_events sb, bc_objects = sb_objects sb\<rparr> (map fst hist)
    \<and> sb_events sb = map snd hist"
proof -
  obtain g hist' head start finish objs where g: "open_journal_read_only R (Inr db) sid = Inr g"
    and h: "redb_history R g = Inr hist'" "redb_head R g = Inr (Some head)"
    and objs: "collect_objects (export_lookup X R (rg_store g)) [] (session_objects (map snd hist')) = Inr objs"
    and sb: "sb = \<lparr>sb_manifest = session_manifest X sid head start finish (rs_algorithm (rg_store g)) (length objs) (length hist'),
           sb_events = map snd hist', sb_objects = objs\<rparr>"
    by (rule assemble_InrD [OF asm])
  have C: "C (rg_db g) = C db" and sid: "rg_session_id g = sid"
    using open_read_only_InrD [OF ok g] by simp_all
  have rep': "session_rep R C (rg_db g) (rg_session_id g) hist"
    using rep session_rep_cong [of C "rg_db g" db sid R hist] by (simp add: C sid)
  have hist': "hist' = hist" by (rule redb_history_rep [OF ok rep' h(1)])
  let ?a = "rs_algorithm (rg_store g)" and ?V = "redb_view R (rg_store g)"
  note lin' = lin [OF g]
  have chain: "hash_chain (content_hash X ?a) 0 None hist" and ends: "ends_once (map snd hist)"
    and obj: "list_all (object_ok X ?V) (session_objects (map snd hist))"
    using lin' unfolding linear_session_def objects_ok_session by simp_all
  have ne: "hist \<noteq> []" using ends by (auto simp: ends_once_def)
  have head: "head = fst (last hist)"
    using redb_head_rep [OF ok rep' h(2)] ne by (simp add: last_opt_def)
  have keys: "fst ` set objs = set (session_objects (map snd hist))"
    using collect_objects_keys [OF objs] by (simp add: hm_wf_def hist')
  have vals: "\<forall>(h, b) \<in> set objs. digest_bytes X ?a b = h"
  proof (rule collect_objects_values [OF objs])
    fix h b assume "h \<in> set (session_objects (map snd hist'))" "export_lookup X R (rg_store g) h = Inr b"
    with obj show "digest_bytes X ?a b = h"
      by (auto simp: hist' list_all_iff object_ok_def export_lookup_Inr)
  qed (simp_all add: hm_wf_def)
  have "bundle_session X ?a \<lparr>bc_manifest = sb_manifest sb, bc_events = map snd hist, bc_objects = objs\<rparr> (map fst hist)"
    by (rule assembled_bundle_session [OF X chain ends kinds keys vals]) (simp add: sb head hist')
  then show ?thesis by (auto simp: sb hist' session_manifest_def)
qed

section \<open>Signing keeps what was signed\<close>

lemma stamp_version_fields [simp]:
  "mf_session (stamp_version m) = mf_session m" "mf_hash_algorithm (stamp_version m) = mf_hash_algorithm m"
  "mf_object_count (stamp_version m) = mf_object_count m" "mf_event_count (stamp_version m) = mf_event_count m"
  "mf_signatures (stamp_version m) = mf_signatures m"
  "mf_operator_attestations (stamp_version m) = mf_operator_attestations m"
  by (simp_all add: stamp_version_def)

lemma stamp_version_signed: "\<not> manifest_unsigned_and_unattested m \<Longrightarrow> stamp_version m = m"
  by (simp add: stamp_version_def)

text \<open>The verifier reads only these fields of the manifest.\<close>

lemma bundle_session_manifest_cong:
  assumes "mf_session m' = mf_session m" "mf_object_count m' = mf_object_count m"
    "mf_event_count m' = mf_event_count m"
  shows "bundle_session X a (c\<lparr>bc_manifest := m'\<rparr>) hs = bundle_session X a (c\<lparr>bc_manifest := m\<rparr>) hs"
  using assms by (simp add: bundle_session_def)

end
