(* ===== verification/Redact.thy ===== *)
theory Redact
  imports Bundle_Export
begin

text \<open>
  \<open>akmon redact\<close>, \<open>akmon-cli/src/redact_cmd.rs\<close>: chosen objects of a session are replaced by
  redaction markers, every event that refers to them is rewritten, the chain is rebuilt, and the
  result is written as a new bundle. The clock, file creation and file sizes are parameters.
\<close>

section \<open>Rewriting\<close>

type_synonym replacements = "(hash, hash) hash_map"

definition rewrite_hash :: "replacements \<Rightarrow> hash \<Rightarrow> hash \<times> bool" where
  "rewrite_hash repl h = (case hm_get repl h of Some r \<Rightarrow> (r, True) | None \<Rightarrow> (h, False))"

definition rewrite_opt :: "replacements \<Rightarrow> hash option \<Rightarrow> hash option \<times> bool" where
  "rewrite_opt repl d =
     (case d of None \<Rightarrow> (None, False)
      | Some h \<Rightarrow> (let (r, c) = rewrite_hash repl h in (Some r, c)))"

definition rewrite_attempt :: "replacements \<Rightarrow> attempt_record \<Rightarrow> attempt_record \<times> bool" where
  "rewrite_attempt repl a =
     (let (req, c1) = rewrite_hash repl (at_request_hash a);
          (resp, c2) = rewrite_opt repl (at_response_hash a);
          (stream, c3) = rewrite_opt repl (at_stream_hash a) in
      (a\<lparr>at_request_hash := req, at_response_hash := resp, at_stream_hash := stream\<rparr>, c1 \<or> c2 \<or> c3))"

fun rewrite_event_kind_hashes :: "replacements \<Rightarrow> event_kind \<Rightarrow> event_kind \<times> bool" where
  "rewrite_event_kind_hashes repl (SessionStart cwd config) =
     (let (cwd', c1) = rewrite_hash repl cwd; (config', c2) = rewrite_hash repl config in
      (SessionStart cwd' config', c1 \<or> c2))"
| "rewrite_event_kind_hashes repl (UserTurn prompt) =
     (let (prompt', c1) = rewrite_hash repl prompt in (UserTurn prompt', c1))"
| "rewrite_event_kind_hashes repl (ProviderCall pid atts stream) =
     (let atts' = map (rewrite_attempt repl) atts; (stream', c4) = rewrite_opt repl stream in
      (ProviderCall pid (map fst atts') stream', list_ex snd atts' \<or> c4))"
| "rewrite_event_kind_hashes repl (ToolCall tid inp out eff) =
     (let (inp', c1) = rewrite_hash repl inp; (out', c2) = rewrite_hash repl out;
          (eff', c3) = rewrite_opt repl eff in
      (ToolCall tid inp' out' eff', c1 \<or> c2 \<or> c3))"
| "rewrite_event_kind_hashes repl (RetrievalCall iid q r) =
     (let (q', c1) = rewrite_hash repl q; (r', c2) = rewrite_hash repl r in
      (RetrievalCall iid q' r', c1 \<or> c2))"
| "rewrite_event_kind_hashes repl (PermissionGate pid d ctx) =
     (let (ctx', c1) = rewrite_hash repl ctx in (PermissionGate pid d ctx', c1))"
| "rewrite_event_kind_hashes repl (AssistantTurn msg calls) =
     (let (msg', c1) = rewrite_hash repl msg; (calls', c2) = rewrite_opt repl calls in
      (AssistantTurn msg' calls', c1 \<or> c2))"
| "rewrite_event_kind_hashes repl (SessionEnd summary) =
     (let (summary', c1) = rewrite_opt repl summary in (SessionEnd summary', c1))"

text \<open>The parents of a rewritten event: the first one becomes the previous rewritten hash.\<close>

definition relink_parents :: "hash option \<Rightarrow> hash list \<Rightarrow> hash list" where
  "relink_parents prev parents =
     (case prev of None \<Rightarrow> parents
      | Some p \<Rightarrow> (case parents of [] \<Rightarrow> [p] | _ # rest \<Rightarrow> p # rest))"

definition rewrite_event :: "replacements \<Rightarrow> hash option \<Rightarrow> event \<Rightarrow> event" where
  "rewrite_event repl prev e =
     \<lparr>ev_parents = relink_parents prev (ev_parents e),
      ev_kind = fst (rewrite_event_kind_hashes repl (ev_kind e)),
      ev_emitted_at = ev_emitted_at e, ev_sequence = ev_sequence e\<rparr>"

text \<open>The loop over the history; \<open>prev\<close> is the previous rewritten hash, the number counts events
  whose hash changed.\<close>

fun rewrite_history ::
    "'x command_ext_scheme \<Rightarrow> hash_algorithm \<Rightarrow> replacements \<Rightarrow> hash option \<Rightarrow> (hash \<times> event) list
     \<Rightarrow> step_error + (hash \<times> event) list \<times> u64" where
  "rewrite_history X a repl prev [] = Inr ([], 0)"
| "rewrite_history X a repl prev ((old_hash, old_event) # rest) =
     (let e = rewrite_event repl prev old_event in
      res_bind (map_err (\<lambda>err. (''bundle_error'', ''cannot recompute event hash at sequence ''
          @ show_nat (unat (ev_sequence old_event)) @ '': '' @ jerr_text X err, 3)) (content_hash X a e)) (\<lambda>h.
      res_bind (rewrite_history X a repl (Some h) rest) (\<lambda>(out, n).
      Inr ((h, e) # out, if h \<noteq> old_hash then n + 1 else n))))"

section \<open>The command\<close>

record redacted_object =
  ro_original_hash :: string
  ro_sentinel_hash :: string
  ro_original_size :: u64

record redact_report =
  rr_akmon_version :: string
  rr_agef_version :: string
  rr_source_session_id :: string
  rr_source_head :: string
  rr_derivative_head :: string
  rr_events_in_session :: u64
  rr_events_rewritten_count :: u64
  rr_objects_redacted_count :: u64
  rr_redacted_objects :: "redacted_object list"
  rr_output_path :: string
  rr_bundle_size_bytes :: u64

text \<open>The exit code and the error object of \<open>emit_redact_error\<close>.\<close>

record redact_error =
  re_code :: nat
  re_category :: string
  re_error :: string
  re_invalid_object_hash :: "string option"
  re_missing_object_hash :: "string option"

definition emit_redact_error :: "step_error \<Rightarrow> redact_error" where
  "emit_redact_error e =
     (let (cat, msg, code) = e in
      \<lparr>re_code = code, re_category = cat, re_error = msg, re_invalid_object_hash = None,
       re_missing_object_hash = None\<rparr>)"

text \<open>Each requested hash once, in the order of the arguments; the error is the offending text.\<close>

fun parse_requested :: "'x hash_ext_scheme \<Rightarrow> hash_algorithm \<Rightarrow> hash list \<Rightarrow> string list \<Rightarrow> string + hash list" where
  "parse_requested X a seen [] = Inr []"
| "parse_requested X a seen (v # vs) =
     (case parse_hex X a v of
        Inl _ \<Rightarrow> Inl v
      | Inr h \<Rightarrow>
          (if h \<in> set seen then parse_requested X a seen vs
           else res_bind (parse_requested X a (h # seen) vs) (\<lambda>out. Inr (h # out))))"

definition parse_requested_redact_hashes ::
    "'x hash_ext_scheme \<Rightarrow> hash_algorithm \<Rightarrow> string list \<Rightarrow> string + hash list" where
  "parse_requested_redact_hashes X a values = parse_requested X a [] values"

text \<open>The markers of the requested objects: replacements, marker bytes by hash, report rows.\<close>

fun make_sentinels ::
    "'x command_ext_scheme \<Rightarrow> ('db, 'r) redb_api_scheme \<Rightarrow> 'db redb_store \<Rightarrow> string \<Rightarrow> datetime \<Rightarrow> hash list
     \<Rightarrow> replacements \<Rightarrow> (hash, byte list) hash_map \<Rightarrow> redacted_object list
     \<Rightarrow> step_error + replacements \<times> (hash, byte list) hash_map \<times> redacted_object list" where
  "make_sentinels X R s reason now [] repl sents rows = Inr (repl, sents, rows)"
| "make_sentinels X R s reason now (h # hs) repl sents rows =
     (case redb_get R s h of
        Inr None \<Rightarrow> Inl (''missing_object'', ''requested object '' @ to_hex X h @ '' is referenced but missing from store'', 3)
      | Inl e \<Rightarrow> Inl (''io_error'', ''cannot read object '' @ to_hex X h @ '': '' @ jerr_text X e, 3)
      | Inr (Some bytes) \<Rightarrow>
          res_bind (map_err (\<lambda>e. (''bundle_error'', ''cannot serialize sentinel for '' @ to_hex X h @ '': ''
                @ sentinel_error_to_string e, 3))
              (sentinel_to_canonical_cbor X (sentinel_from_original X h (of_nat (length bytes)) reason now))) (\<lambda>sb.
          let sh = digest_bytes X (rs_algorithm s) sb in
          make_sentinels X R s reason now hs (hm_insert h sh repl) (hm_insert sh sb sents)
            (rows @ [\<lparr>ro_original_hash = to_hex X h, ro_sentinel_hash = to_hex X sh,
                      ro_original_size = of_nat (length bytes)\<rparr>])))"

definition redact_lookup ::
    "'x command_ext_scheme \<Rightarrow> ('db, 'r) redb_api_scheme \<Rightarrow> 'db redb_store \<Rightarrow> (hash, byte list) hash_map
     \<Rightarrow> hash \<Rightarrow> step_error + byte list" where
  "redact_lookup X R s sents h =
     (case hm_get sents h of
        Some b \<Rightarrow> Inr b
      | None \<Rightarrow>
          (case redb_get R s h of
             Inr (Some bytes) \<Rightarrow> Inr bytes
           | Inr None \<Rightarrow> Inl (''missing_object'', ''referenced object '' @ to_hex X h @ '' is missing from source store'', 3)
           | Inl e \<Rightarrow> Inl (''io_error'', ''cannot read object '' @ to_hex X h @ '': '' @ jerr_text X e, 3)))"

record derivative =
  dv_bundle :: session_bundle
  dv_source_head :: hash
  dv_head :: hash
  dv_rewritten :: u64
  dv_rows :: "redacted_object list"

text \<open>From the history and the requested hashes to the derivative bundle.\<close>

definition build_derivative ::
    "'x command_ext_scheme \<Rightarrow> ('db, 'r) redb_api_scheme \<Rightarrow> 'db redb_store \<Rightarrow> byte list \<Rightarrow> string \<Rightarrow> datetime
     \<Rightarrow> (hash \<times> event) list \<Rightarrow> hash \<Rightarrow> hash list \<Rightarrow> step_error + derivative" where
  "build_derivative X R s sid reason now history source_head requested =
     res_bind (make_sentinels X R s reason now requested [] [] []) (\<lambda>(repl, sents, rows).
     res_bind (rewrite_history X (rs_algorithm s) repl None history) (\<lambda>(rewritten, n).
     res_bind (ok_or (malformed_session ''empty event graph (no events)'') (last_opt rewritten)) (\<lambda>(head', _).
     let events = map snd rewritten in
     res_bind (ok_or (malformed_session ''journal has no SessionStart event'')
         (find (\<lambda>e. is_session_start (ev_kind e)) events)) (\<lambda>start_event.
     res_bind (ok_or (malformed_session ''journal has no SessionEnd event'')
         (find (\<lambda>e. is_session_end (ev_kind e)) (rev events))) (\<lambda>end_event.
     res_bind (collect_objects (redact_lookup X R s sents) [] (session_objects events)) (\<lambda>objects.
     Inr \<lparr>dv_bundle = \<lparr>sb_manifest = session_manifest X sid head' (ev_emitted_at start_event)
              (ev_emitted_at end_event) (rs_algorithm s) (length objects) (length events),
            sb_events = events, sb_objects = objects\<rparr>,
          dv_source_head = source_head, dv_head = head', dv_rewritten = n, dv_rows = rows\<rparr>))))))"

text \<open>After the journal was opened.\<close>

definition redact_session ::
    "'x command_ext_scheme \<Rightarrow> ('db, 'r) graph_api_scheme \<Rightarrow> 'db redb_graph \<Rightarrow> byte list \<Rightarrow> string \<Rightarrow> datetime
     \<Rightarrow> hash list \<Rightarrow> redact_error + derivative" where
  "redact_session X R g sid reason now requested =
     res_bind (map_err (\<lambda>e. emit_redact_error (''io_error'', ''cannot read session history: '' @ jerr_text X e, 3))
                 (redb_history R g)) (\<lambda>history.
     res_bind (map_err (\<lambda>e. emit_redact_error (''io_error'', ''cannot read session head: '' @ jerr_text X e, 3))
                 (redb_head R g)) (\<lambda>head.
     res_bind (ok_or (emit_redact_error (malformed_session ''empty event graph (no head)'')) head) (\<lambda>source_head.
     case find (\<lambda>h. h \<notin> set (session_objects (map snd history))) requested of
       Some h \<Rightarrow>
         Inl ((emit_redact_error (''object_not_in_session'',
               ''requested --object hash is not referenced by source session: '' @ to_hex X h, 2))
               \<lparr>re_missing_object_hash := Some (to_hex X h)\<rparr>)
     | None \<Rightarrow>
         map_err emit_redact_error (build_derivative X R (rg_store g) sid reason now history source_head requested))))"

definition run_redact ::
    "'x command_ext_scheme \<Rightarrow> ('db, 'r) graph_api_scheme \<Rightarrow> string \<Rightarrow> string + 'db \<Rightarrow> byte list \<Rightarrow> string
     \<Rightarrow> string \<Rightarrow> bool \<Rightarrow> string list \<Rightarrow> string \<Rightarrow> datetime \<Rightarrow> string option \<Rightarrow> string + u64
     \<Rightarrow> redact_error + entries \<times> redact_report" where
  "run_redact X R journal_dir opened sid path shown present objects reason now created file_size =
     (if present then Inl (emit_redact_error (''output_exists'', ''output path already exists: '' @ path, 2))
      else
        res_bind (map_err (\<lambda>e.
            let msg = ''cannot open journal '' @ journal_dir @ '' for session '' @ x_uuid_text X sid
                  @ '': '' @ agent_error_to_string e in
            emit_redact_error
              (if str_contains ''session not found'' msg then ''session_not_found''
               else case journal_open_category msg of Some c \<Rightarrow> c | None \<Rightarrow> ''io_error'', msg, 3))
          (query_open_read_only X R opened sid)) (\<lambda>g.
        res_bind (map_err (\<lambda>bad. (emit_redact_error (''invalid_object_hash'',
              ''invalid --object hash '' @ [CHR 0x27] @ bad @ [CHR 0x27], 2))\<lparr>re_invalid_object_hash := Some bad\<rparr>)
            (parse_requested_redact_hashes X (rs_algorithm (rg_store g)) objects)) (\<lambda>requested.
        res_bind (redact_session X R g sid reason now requested) (\<lambda>d.
        case created of
          Some e \<Rightarrow> Inl (emit_redact_error (''io_error'', ''cannot create bundle file '' @ path @ '': '' @ e, 3))
        | None \<Rightarrow>
            res_bind (map_err (\<lambda>e. emit_redact_error (''bundle_error'', ''bundle write failed: '' @ bundle_error_to_string e, 3))
              (write_bundle X (sb_manifest (dv_bundle d)) (sb_events (dv_bundle d)) (sb_objects (dv_bundle d))
                 default_write_options)) (\<lambda>entries.
            res_bind (map_err (\<lambda>e. emit_redact_error (''io_error'', ''cannot stat bundle file '' @ path @ '': '' @ e, 3))
                        file_size) (\<lambda>size_bytes.
            Inr (entries,
              \<lparr>rr_akmon_version = CARGO_PKG_VERSION, rr_agef_version = AGEF_SPEC_VERSION,
               rr_source_session_id = x_uuid_text X sid, rr_source_head = to_hex X (dv_source_head d),
               rr_derivative_head = to_hex X (dv_head d),
               rr_events_in_session = of_nat (length (sb_events (dv_bundle d))),
               rr_events_rewritten_count = dv_rewritten d,
               rr_objects_redacted_count = of_nat (length (dv_rows d)), rr_redacted_objects = dv_rows d,
               rr_output_path = shown, rr_bundle_size_bytes = size_bytes\<rparr>)))))))"

section \<open>Rewritten kinds\<close>

abbreviation rw :: "replacements \<Rightarrow> hash \<Rightarrow> hash" where
  "rw repl h \<equiv> fst (rewrite_hash repl h)"

lemma rewrite_opt_fst [simp]: "fst (rewrite_opt repl d) = map_option (rw repl) d"
  by (cases d) (simp_all add: rewrite_opt_def split_beta)

lemma rewrite_attempt_objects:
  "attempt_object_hashes (fst (rewrite_attempt repl a)) = map (rw repl) (attempt_object_hashes a)"
  by (cases "at_response_hash a"; cases "at_stream_hash a")
     (simp_all add: rewrite_attempt_def split_beta Let_def attempt_object_hashes_def opt_list_def)

text \<open>Rewriting replaces every reference, of whatever kind of event, and nothing else.\<close>

lemma rewrite_kind_objects:
  "referenced_object_hashes_for_kind (fst (rewrite_event_kind_hashes repl k)) =
     map (rw repl) (referenced_object_hashes_for_kind k)"
proof (cases k)
  case (ProviderCall pid atts stream)
  have "concat (map (attempt_object_hashes \<circ> (fst \<circ> rewrite_attempt repl)) atts) =
      map (rw repl) (concat (map attempt_object_hashes atts))"
    by (simp add: map_concat comp_def rewrite_attempt_objects)
  with ProviderCall show ?thesis by (cases stream) (simp_all add: split_beta Let_def opt_list_def)
next
  case (ToolCall tid inp out eff)
  then show ?thesis by (cases eff) (simp_all add: split_beta Let_def opt_list_def)
next
  case (AssistantTurn msg calls)
  then show ?thesis by (cases calls) (simp_all add: split_beta Let_def opt_list_def)
next
  case (SessionEnd summary)
  then show ?thesis by (cases summary) (simp_all add: split_beta Let_def opt_list_def)
qed (simp_all add: split_beta Let_def)

lemma rewrite_kind_class [simp]:
  "is_session_start (fst (rewrite_event_kind_hashes repl k)) = is_session_start k"
  "is_session_end (fst (rewrite_event_kind_hashes repl k)) = is_session_end k"
  by (cases k; simp add: is_session_start_def is_session_end_def split_beta Let_def)+

lemma rewrite_attempt_numbers [simp]:
  "at_attempt_number (fst (rewrite_attempt repl a)) = at_attempt_number a"
  "at_started_at (fst (rewrite_attempt repl a)) = at_started_at a"
  by (simp_all add: rewrite_attempt_def split_beta Let_def)

lemma attempts_ok_rewrite: "attempts_ok (map (fst \<circ> rewrite_attempt repl) atts) = attempts_ok atts"
  by (simp add: attempts_ok_def comp_def)

lemma rewrite_kind_ok: "kind_ok32 (fst (rewrite_event_kind_hashes repl k)) = kind_ok32 k"
  by (cases k) (simp_all add: kind_ok32_def kind_ok_def split_beta Let_def attempts_ok_rewrite)

section \<open>The rewritten history\<close>

definition rewritten_as :: "replacements \<Rightarrow> hash \<times> event \<Rightarrow> hash \<times> event \<Rightarrow> bool" where
  "rewritten_as repl p q \<longleftrightarrow>
     ev_kind (snd q) = fst (rewrite_event_kind_hashes repl (ev_kind (snd p))) \<and>
     ev_emitted_at (snd q) = ev_emitted_at (snd p) \<and> ev_sequence (snd q) = ev_sequence (snd p)"

lemma rewrite_history_events:
  "rewrite_history X a repl prev hist = Inr (out, n) \<Longrightarrow> list_all2 (rewritten_as repl) hist out"
  by (induction X a repl prev hist arbitrary: out n rule: rewrite_history.induct)
     (auto simp: rewritten_as_def rewrite_event_def Let_def)

lemma rewrite_history_chain:
  assumes "rewrite_history X a repl pn hist = Inr (out, n)" "hash_chain H i po hist"
    and "i = 0 \<Longrightarrow> pn = None" "i > 0 \<Longrightarrow> pn \<noteq> None \<and> po \<noteq> None"
  shows "hash_chain (content_hash X a) i pn out"
  using assms
proof (induction X a repl pn hist arbitrary: out n i po rule: rewrite_history.induct)
  case (2 X a repl prev old_hash old_event rest)
  let ?e = "rewrite_event repl prev old_event"
  from 2(2) obtain h out' n' where h: "content_hash X a ?e = Inr h"
    and rest: "rewrite_history X a repl (Some h) rest = Inr (out', n')" and out: "out = (h, ?e) # out'"
    by (auto simp: Let_def)
  have old: "ev_sequence old_event = of_nat i" "link_ok i po old_event" "hash_chain H (Suc i) (Some old_hash) rest"
    using 2(3) by (simp_all add: entry_ok_def)
  have "link_ok i prev ?e"
    using old(2) 2(4,5) by (cases "i = 0") (auto simp: link_ok_def rewrite_event_def relink_parents_def)
  moreover have "hash_chain (content_hash X a) (Suc i) (Some h) out'"
    by (rule 2(1) [OF refl rest old(3)]) simp_all
  ultimately show ?case using h old(1) by (simp add: out entry_ok_def rewrite_event_def)
qed simp

lemma ends_once_cong:
  assumes "map (\<lambda>e. is_session_end (ev_kind e)) es = map (\<lambda>e. is_session_end (ev_kind e)) es'"
  shows "ends_once es = ends_once es'"
proof (cases "es = []")
  case False
  moreover from False assms have "es' \<noteq> []" by auto
  moreover have "map (\<lambda>e. is_session_end (ev_kind e)) (butlast es) = map (\<lambda>e. is_session_end (ev_kind e)) (butlast es')"
    using assms by (metis map_butlast)
  moreover have "is_session_end (ev_kind (last es)) = is_session_end (ev_kind (last es'))"
    using assms False \<open>es' \<noteq> []\<close> by (metis last_map)
  ultimately show ?thesis
    by (simp add: ends_once_def list_all_iff) (metis (no_types, lifting) imageE image_eqI set_map)
qed (use assms in \<open>simp add: ends_once_def\<close>)

lemma rewritten_facts:
  assumes "list_all2 (rewritten_as repl) hist out"
  shows "ends_once (map snd out) = ends_once (map snd hist)"
    and "session_objects (map snd out) = map (rw repl) (session_objects (map snd hist))"
    and "list_all (\<lambda>e. kind_ok32 (ev_kind e)) (map snd out) = list_all (\<lambda>e. kind_ok32 (ev_kind e)) (map snd hist)"
proof -
  have "map (\<lambda>e. is_session_end (ev_kind e)) (map snd out) = map (\<lambda>e. is_session_end (ev_kind e)) (map snd hist)"
    using assms by induction (simp_all add: rewritten_as_def)
  then show "ends_once (map snd out) = ends_once (map snd hist)" by (rule ends_once_cong)
  show "session_objects (map snd out) = map (rw repl) (session_objects (map snd hist))"
    using assms by induction (simp_all add: rewritten_as_def session_objects_def rewrite_kind_objects)
  show "list_all (\<lambda>e. kind_ok32 (ev_kind e)) (map snd out) = list_all (\<lambda>e. kind_ok32 (ev_kind e)) (map snd hist)"
    using assms by induction (simp_all add: rewritten_as_def rewrite_kind_ok)
qed

section \<open>The markers\<close>

text \<open>The bytes of the marker the command writes for an object.\<close>

definition marker_of ::
    "'x command_ext_scheme \<Rightarrow> ('db, 'r) redb_api_scheme \<Rightarrow> 'db redb_store \<Rightarrow> string \<Rightarrow> datetime \<Rightarrow> hash \<Rightarrow> byte list \<Rightarrow> bool" where
  "marker_of X R s reason now h sb \<longleftrightarrow>
     (\<exists>b. redb_get R s h = Inr (Some b) \<and>
        sentinel_to_canonical_cbor X (sentinel_from_original X h (of_nat (length b)) reason now) = Inr sb)"

text \<open>Every replacement is the digest of a marker that is kept, and nothing else is kept.\<close>

definition markers_ok ::
    "'x command_ext_scheme \<Rightarrow> ('db, 'r) redb_api_scheme \<Rightarrow> 'db redb_store \<Rightarrow> string \<Rightarrow> datetime
     \<Rightarrow> replacements \<Rightarrow> (hash, byte list) hash_map \<Rightarrow> bool" where
  "markers_ok X R s reason now repl sents \<longleftrightarrow>
     (\<forall>h r. hm_get repl h = Some r \<longrightarrow>
        (\<exists>sb. marker_of X R s reason now h sb \<and> r = digest_bytes X (rs_algorithm s) sb \<and> hm_get sents r \<noteq> None)) \<and>
     (\<forall>k b. hm_get sents k = Some b \<longrightarrow> k = digest_bytes X (rs_algorithm s) b)"

lemma markers_ok_Nil: "markers_ok X R s reason now [] []"
  by (simp add: markers_ok_def hm_get_def)

lemma markers_okD:
  assumes "markers_ok X R s reason now repl sents"
  shows "hm_get repl h = Some r \<Longrightarrow>
      \<exists>sb. marker_of X R s reason now h sb \<and> r = digest_bytes X (rs_algorithm s) sb"
    and "hm_get repl h = Some r \<Longrightarrow> \<exists>b. hm_get sents r = Some b"
    and "hm_get sents k = Some b \<Longrightarrow> digest_bytes X (rs_algorithm s) b = k"
  proof -
  note ok = assms [unfolded markers_ok_def]
  show "\<exists>sb. marker_of X R s reason now h sb \<and> r = digest_bytes X (rs_algorithm s) sb" if "hm_get repl h = Some r"
    using ok [THEN conjunct1, THEN spec, THEN spec, THEN mp, OF that] by (elim exE conjE) (intro exI conjI)
  show "\<exists>b. hm_get sents r = Some b" if "hm_get repl h = Some r"
    using ok [THEN conjunct1, THEN spec, THEN spec, THEN mp, OF that] by (elim exE conjE) (simp only: not_None_eq)
  show "digest_bytes X (rs_algorithm s) b = k" if "hm_get sents k = Some b"
    using ok [THEN conjunct2, THEN spec, THEN spec, THEN mp, OF that] by (rule sym)
qed

lemma markers_ok_insert:
  assumes ok: "markers_ok X R s reason now repl sents" and m: "marker_of X R s reason now h sb"
    and d: "d = digest_bytes X (rs_algorithm s) sb"
  shows "markers_ok X R s reason now (hm_insert h d repl) (hm_insert d sb sents)"
  unfolding markers_ok_def
proof (intro conjI allI impI)
  fix k r assume kr: "hm_get (hm_insert h d repl) k = Some r"
  have "(\<exists>sb'. marker_of X R s reason now k sb' \<and> r = digest_bytes X (rs_algorithm s) sb')
      \<and> (r = d \<or> (\<exists>b. hm_get sents r = Some b))"
  proof (cases "k = h")
    case True
    with kr have "r = d" by simp
    with True m d show ?thesis by blast
  next
    case False
    with kr have "hm_get repl k = Some r" by simp
    with markers_okD(1,2) [OF ok this] show ?thesis by blast
  qed
  then show "\<exists>sb'. marker_of X R s reason now k sb' \<and> r = digest_bytes X (rs_algorithm s) sb'
      \<and> hm_get (hm_insert d sb sents) r \<noteq> None"
    by (simp add: d) blast
next
  fix k b assume kb: "hm_get (hm_insert d sb sents) k = Some b"
  show "k = digest_bytes X (rs_algorithm s) b"
  proof (cases "k = d")
    case False
    with kb have "hm_get sents k = Some b" by simp
    then show ?thesis by (rule markers_okD(3) [OF ok, symmetric])
  qed (use kb d in simp)
qed

lemma make_sentinels_spec:
  "make_sentinels X R s reason now hs repl sents rows = Inr (repl', sents', rows') \<Longrightarrow>
   markers_ok X R s reason now repl sents \<Longrightarrow>
   markers_ok X R s reason now repl' sents' \<and>
   dom (hm_get repl') = set hs \<union> dom (hm_get repl)"
proof (induction X R s reason now hs repl sents rows rule: make_sentinels.induct)
  case (2 X R s reason now h hs repl sents rows)
  from 2(2) obtain b sb where b: "redb_get R s h = Inr (Some b)"
    and sb: "sentinel_to_canonical_cbor X (sentinel_from_original X h (of_nat (length b)) reason now) = Inr sb"
    and rest: "make_sentinels X R s reason now hs (hm_insert h (digest_bytes X (rs_algorithm s) sb) repl)
        (hm_insert (digest_bytes X (rs_algorithm s) sb) sb sents)
        (rows @ [\<lparr>ro_original_hash = to_hex X h, ro_sentinel_hash = to_hex X (digest_bytes X (rs_algorithm s) sb),
                  ro_original_size = of_nat (length b)\<rparr>]) = Inr (repl', sents', rows')"
    by (auto simp: Let_def split: sum.splits option.splits)
  have m: "marker_of X R s reason now h sb" using b sb by (auto simp: marker_of_def)
  from 2(1) [OF b refl refl rest markers_ok_insert [OF 2(3) m refl]] show ?case by (auto simp: dom_def)
qed simp

section \<open>The derivative bundle\<close>

lemma build_derivative_InrD:
  assumes "build_derivative X R s sid reason now hist source_head requested = Inr d"
  obtains repl sents rows out n objs start finish where
    "make_sentinels X R s reason now requested [] [] [] = Inr (repl, sents, rows)"
    "rewrite_history X (rs_algorithm s) repl None hist = Inr (out, n)" "out \<noteq> []"
    "collect_objects (redact_lookup X R s sents) [] (session_objects (map snd out)) = Inr objs"
    "dv_bundle d = \<lparr>sb_manifest = session_manifest X sid (fst (last out)) start finish (rs_algorithm s)
        (length objs) (length out), sb_events = map snd out, sb_objects = objs\<rparr>"
  using assms by (auto simp: build_derivative_def Let_def last_opt_def split: if_splits)

lemma redact_lookup_Inr:
  "redact_lookup X R s sents h = Inr b \<longleftrightarrow>
     hm_get sents h = Some b \<or> (hm_get sents h = None \<and> redb_get R s h = Inr (Some b))"
  by (simp add: redact_lookup_def split: option.splits sum.splits)

lemma derivative_session:
  assumes X: "hash_ext_ok X"
    and lin: "linear_session X (redb_view R s) hist None"
    and kinds: "list_all (\<lambda>e. kind_ok32 (ev_kind e)) (map snd hist)"
    and red: "build_derivative X R s sid reason now hist source_head requested = Inr d"
  shows "\<exists>hs. bundle_session X (rs_algorithm s) \<lparr>bc_manifest = sb_manifest (dv_bundle d),
      bc_events = sb_events (dv_bundle d), bc_objects = sb_objects (dv_bundle d)\<rparr> hs"
    and "\<And>h. h \<in> set requested \<Longrightarrow> h \<in> fst ` set (sb_objects (dv_bundle d)) \<Longrightarrow>
      \<exists>h' sb. h' \<in> set requested \<and> marker_of X R s reason now h' sb \<and> h = digest_bytes X (rs_algorithm s) sb"
proof -
  obtain repl sents rows out n objs start finish where
    m: "make_sentinels X R s reason now requested [] [] [] = Inr (repl, sents, rows)"
    and rw: "rewrite_history X (rs_algorithm s) repl None hist = Inr (out, n)"
    and objs: "collect_objects (redact_lookup X R s sents) [] (session_objects (map snd out)) = Inr objs"
    and d: "dv_bundle d = \<lparr>sb_manifest = session_manifest X sid (fst (last out)) start finish (rs_algorithm s)
        (length objs) (length out), sb_events = map snd out, sb_objects = objs\<rparr>"
    by (rule build_derivative_InrD [OF red])
  let ?a = "rs_algorithm s" and ?V = "redb_view R s"
  have ok: "markers_ok X R s reason now repl sents" and dom: "dom (hm_get repl) = set requested"
    using make_sentinels_spec [OF m markers_ok_Nil] by (simp_all add: hm_get_def dom_def)
  note facts = rewritten_facts [OF rewrite_history_events [OF rw]]
  have chain0: "hash_chain (content_hash X ?a) 0 None hist" and ends0: "ends_once (map snd hist)"
    and obj: "list_all (object_ok X ?V) (session_objects (map snd hist))"
    using lin unfolding linear_session_def objects_ok_session by simp_all
  have chain: "hash_chain (content_hash X ?a) 0 None out"
    by (rule rewrite_history_chain [OF rw chain0]) simp_all
  have keys: "fst ` set objs = set (session_objects (map snd out))"
    using collect_objects_keys [OF objs] by (simp add: hm_wf_def)
  have vals: "\<forall>(h, b) \<in> set objs. digest_bytes X ?a b = h"
  proof (rule collect_objects_values [OF objs])
    fix h b assume h: "h \<in> set (session_objects (map snd out))" and b: "redact_lookup X R s sents h = Inr b"
    show "digest_bytes X ?a b = h"
    proof (cases "hm_get sents h")
      case (Some c)
      with b show ?thesis by (simp add: redact_lookup_Inr markers_okD(3) [OF ok])
    next
      case None
      from h obtain h0 where h0: "h0 \<in> set (session_objects (map snd hist))" "h = rw repl h0"
        using facts(2) by auto
      have "hm_get repl h0 = None"
      proof (rule ccontr)
        assume "hm_get repl h0 \<noteq> None"
        then have "hm_get repl h0 = Some h" using h0(2) by (auto simp: rewrite_hash_def)
        from markers_okD(2) [OF ok this] None show False by simp
      qed
      then have "h = h0" using h0(2) by (simp add: rewrite_hash_def)
      with None b obj h0(1) show ?thesis
        by (auto simp: redact_lookup_Inr list_all_iff object_ok_def)
    qed
  qed (simp_all add: hm_wf_def)
  have "bundle_session X ?a \<lparr>bc_manifest = sb_manifest (dv_bundle d), bc_events = map snd out, bc_objects = objs\<rparr> (map fst out)"
    by (rule assembled_bundle_session [OF X chain _ _ keys vals]) (use facts ends0 kinds in \<open>simp_all add: d\<close>)
  then show "\<exists>hs. bundle_session X ?a \<lparr>bc_manifest = sb_manifest (dv_bundle d),
      bc_events = sb_events (dv_bundle d), bc_objects = sb_objects (dv_bundle d)\<rparr> hs" by (auto simp: d)
  fix h assume h: "h \<in> set requested" "h \<in> fst ` set (sb_objects (dv_bundle d))"
  then obtain h0 where h0: "h = rw repl h0" using keys facts(2) by (auto simp: d)
  have "hm_get repl h \<noteq> None" using dom h(1) by blast
  then have r: "hm_get repl h0 = Some h"
    using h0 by (auto simp: rewrite_hash_def split: option.splits)
  then have "h0 \<in> set requested" using dom by blast
  with markers_okD(1) [OF ok r] show "\<exists>h' sb. h' \<in> set requested \<and> marker_of X R s reason now h' sb \<and> h = digest_bytes X ?a sb"
    by blast
qed

end
