(* ===== verification/Bundle_Import.thy ===== *)
theory Bundle_Import
  imports Bundle_Export Redb_Import
begin

text \<open>
  \<open>akmon bundle import\<close>, \<open>run_bundle_import\<close> of \<open>akmon-cli/src/bundle_cmd.rs\<close>: a bundle is read,
  verified, its objects staged in the journal's store, and its history imported as a new session. The
  state is the opened store; what opening and creating the database file yields is a parameter.
\<close>

section \<open>Outcomes\<close>

record import_report =
  ir_akmon_version :: string
  ir_agef_version :: string
  ir_bundle_path :: string
  ir_original_session_id :: string
  ir_imported_session_id :: string
  ir_events_imported :: u64
  ir_objects_total :: u64
  ir_objects_new :: u64
  ir_objects_existing :: u64
  ir_journal_path :: string

text \<open>Category, message, exit code, and the colliding session for the categories that name one.\<close>

record import_error =
  ie_category :: string
  ie_message :: string
  ie_code :: nat
  ie_colliding_session_id :: "string option"

datatype import_result =
    ImportFailed import_error
  | ImportRejected verify_report_v1
  | ImportOnlyVerified verify_report_v1 nat
  | Imported import_report

definition import_err :: "string \<Rightarrow> string \<Rightarrow> nat \<Rightarrow> import_error" where
  "import_err cat msg status =
     \<lparr>ie_category = cat, ie_message = msg, ie_code = status, ie_colliding_session_id = None\<rparr>"

text \<open>An error of the journal database: its category and the hint about the lock come from the text.\<close>

definition journal_import_error :: "string \<Rightarrow> import_error" where
  "journal_import_error msg = import_err (journal_access_category msg) (with_journal_lock_hint msg) 3"

definition import_exit_code :: "import_result \<Rightarrow> nat" where
  "import_exit_code r =
     (case r of ImportFailed e \<Rightarrow> ie_code e | ImportRejected _ \<Rightarrow> 1 | ImportOnlyVerified _ status \<Rightarrow> status
      | Imported _ \<Rightarrow> 0)"

section \<open>Steps\<close>

fun hash_events ::
    "'x command_ext_scheme \<Rightarrow> hash_algorithm \<Rightarrow> event list \<Rightarrow> string + (hash \<times> event) list" where
  "hash_events X a [] = Inr []"
| "hash_events X a (e # es) =
     res_bind (map_err (\<lambda>err. ''event content hash failed: '' @ jerr_text X err) (content_hash X a e)) (\<lambda>h.
     res_bind (hash_events X a es) (\<lambda>rest. Inr ((h, e) # rest)))"

definition bundle_import_history ::
    "'x command_ext_scheme \<Rightarrow> bundle_contents \<Rightarrow> hash_algorithm \<Rightarrow> string + (hash \<times> event) list" where
  "bundle_import_history X c a = hash_events X a (bc_events c)"

text \<open>One object: already stored with the same bytes, or written.\<close>

definition stage_object ::
    "'x command_ext_scheme \<Rightarrow> ('db, 'r) redb_api_scheme \<Rightarrow> 'db redb_store \<Rightarrow> hash \<times> byte list
     \<Rightarrow> 'db redb_store \<times> (import_error + bool)" where
  "stage_object X R s entry =
     (let (h, bytes) = entry in
      case redb_contains R s h of
        Inl e \<Rightarrow> (s, Inl (journal_import_error (''cannot probe existing object '' @ to_hex X h @ '': '' @ jerr_text X e)))
      | Inr True \<Rightarrow>
          (case redb_get R s h of
             Inl e \<Rightarrow> (s, Inl (journal_import_error (''cannot read existing object '' @ to_hex X h @ '': '' @ jerr_text X e)))
           | Inr None \<Rightarrow>
               (s, Inl (import_err ''local_store_corrupt''
                  (''local store returned contains=true but missing object '' @ to_hex X h) 3))
           | Inr (Some existing) \<Rightarrow>
               if existing \<noteq> bytes
               then (s, Inl (import_err ''local_store_corrupt''
                  (''local object bytes mismatch for hash '' @ to_hex X h @ ''; refusing import (local_store_corrupt)'') 3))
               else (s, Inr False))
      | Inr False \<Rightarrow>
          (case redb_put X R s bytes of
             (s', Inl e) \<Rightarrow> (s', Inl (journal_import_error (''cannot write object '' @ to_hex X h @ '': '' @ jerr_text X e)))
           | (s', Inr _) \<Rightarrow> (s', Inr True)))"

fun stage_objects ::
    "'x command_ext_scheme \<Rightarrow> ('db, 'r) redb_api_scheme \<Rightarrow> 'db redb_store \<Rightarrow> (hash \<times> byte list) list
     \<Rightarrow> u64 \<Rightarrow> u64 \<Rightarrow> 'db redb_store \<times> (import_error + u64 \<times> u64)" where
  "stage_objects X R s [] new existing = (s, Inr (new, existing))"
| "stage_objects X R s (entry # rest) new existing =
     (case stage_object X R s entry of
        (s', Inl e) \<Rightarrow> (s', Inl e)
      | (s', Inr True) \<Rightarrow> stage_objects X R s' rest (new + 1) existing
      | (s', Inr False) \<Rightarrow> stage_objects X R s' rest new (existing + 1))"

text \<open>The store of the journal: opened when its file exists, else created.\<close>

definition open_target_store ::
    "'x command_ext_scheme \<Rightarrow> ('db, 'r) graph_api_scheme \<Rightarrow> string \<Rightarrow> (string + 'db) option
     \<Rightarrow> string + 'db \<Rightarrow> int \<Rightarrow> hash_algorithm \<Rightarrow> import_error + 'db redb_store" where
  "open_target_store X R journal_db journal created now a =
     (case journal of
        Some opened \<Rightarrow>
          res_bind (map_err (\<lambda>e. journal_import_error (''cannot open journal store '' @ journal_db @ '': '' @ jerr_text X e))
                      (redb_open R opened)) (\<lambda>s.
          if rs_algorithm s \<noteq> a
          then Inl (import_err ''hash_algorithm_mismatch''
                 (''target journal uses hash algorithm '' @ hash_algorithm_to_string (rs_algorithm s)
                  @ '' but the bundle uses '' @ hash_algorithm_to_string a
                  @ ''; import into a journal with a matching algorithm'') 2)
          else Inr s)
      | None \<Rightarrow>
          map_err (\<lambda>e. journal_import_error (''cannot create journal store '' @ journal_db @ '': '' @ jerr_text X e))
            (redb_create R created now a))"

text \<open>From the opened store on: staging, a new session, the import and the check of the result.\<close>

definition import_into_store ::
    "'x command_ext_scheme \<Rightarrow> ('db, 'r) graph_api_scheme \<Rightarrow> 'db redb_store \<Rightarrow> byte list
     \<Rightarrow> (hash \<times> byte list) list \<Rightarrow> (hash \<times> event) list
     \<Rightarrow> 'db redb_store \<times> (import_error + u64 \<times> u64)" where
  "import_into_store X R s sid objects history =
     (let target = x_uuid_text X sid in
      case stage_objects X R s objects 0 0 of
        (s1, Inl e) \<Rightarrow> (s1, Inl e)
      | (s1, Inr (new, existing)) \<Rightarrow>
          (case redb_open_new R (x_uuid_text X) s1 sid of
             (s2, Inl e) \<Rightarrow>
               (s2, Inl (import_err ''session_open_failed''
                      (''cannot open target session '' @ target @ '': '' @ jerr_text X e) 3))
           | (s2, Inr g) \<Rightarrow>
               (case redb_import X R g history of
                  (g', Inl e) \<Rightarrow>
                    (rg_store g', Inl (import_err ''import_failed''
                       (''cannot import event history for session '' @ target @ '': '' @ jerr_text X e) 3))
                | (g', Inr _) \<Rightarrow>
                    (rg_store g',
                     case redb_verify X R g' of
                       Inl e \<Rightarrow>
                         Inl ((import_err ''post_import_verify_failed''
                           (''post-import verification errored for session '' @ target @ '': '' @ jerr_text X e
                            @ ''; manual cleanup may be required'') 3)\<lparr>ie_colliding_session_id := Some target\<rparr>)
                     | Inr post \<Rightarrow>
                         if report_is_clean post then Inr (new, existing)
                         else Inl ((import_err ''post_import_verify_failed''
                           (''post-import verification failed for session '' @ target
                            @ ''; journal may contain a broken imported session and may require manual cleanup'') 3)
                              \<lparr>ie_colliding_session_id := Some target\<rparr>)))))"

section \<open>The command\<close>

text \<open>The files a run meets: the bundle, the journal's database file when there is one (with what
  opening it yields), the error of creating the journal's directory, what creating the database yields.\<close>

record 'db import_files =
  if_bundle :: bundle_file
  if_journal :: "(string + 'db) option"
  if_mkdir :: "string option"
  if_created :: "string + 'db"

record import_args =
  ia_bundle_path :: string
  ia_bundle_shown :: string
  ia_journal_dir :: string
  ia_journal_shown :: string
  ia_journal_db :: string
  ia_allow_extra_files :: bool
  ia_rename_to :: "byte list option"

text \<open>What is refused before any store is opened for writing, else what is to be imported.\<close>

record import_plan =
  ip_contents :: bundle_contents
  ip_target :: "byte list"
  ip_algorithm :: hash_algorithm
  ip_history :: "(hash \<times> event) list"

definition plan_import ::
    "'x command_ext_scheme \<Rightarrow> ('db, 'r) graph_api_scheme \<Rightarrow> import_args \<Rightarrow> 'db import_files
     \<Rightarrow> import_result + import_plan" where
  "plan_import X R A F =
     res_bind (map_err (\<lambda>e. ImportFailed (import_err ''io_error''
           (''cannot open bundle '' @ ia_bundle_path A @ '': '' @ e) 3)) (if_bundle F)) (\<lambda>decode.
     res_bind (map_err (\<lambda>e. ImportFailed (import_err (bundle_read_error_category e)
           (bundle_error_to_string e) (bundle_read_exit_code e)))
         (read_bundle X \<lparr>ro_allow_extra_files = ia_allow_extra_files A,
              ro_max_event_frame_len = DEFAULT_MAX_EVENT_FRAME_LEN\<rparr> decode)) (\<lambda>c.
     res_bind (map_err (\<lambda>e. ImportFailed (import_err ''invalid_manifest_session_id''
           (''bundle manifest session id is not a valid UUID: '' @ e) 1))
         (x_uuid_parse X (trim_ws (sm_id (mf_session (bc_manifest c)))))) (\<lambda>bundle_sid.
     let target = (case ia_rename_to A of Some t \<Rightarrow> t | None \<Rightarrow> bundle_sid) in
     res_bind (map_err (\<lambda>e. ImportFailed (journal_import_error (agent_error_to_string e)))
         (query_contains_session X R (if_journal F \<noteq> None)
            (case if_journal F of Some opened \<Rightarrow> opened | None \<Rightarrow> if_created F) target)) (\<lambda>present.
     if present
     then Inl (ImportFailed ((import_err ''session_id_collision''
            (''target journal already contains session '' @ x_uuid_text X target) 2)
              \<lparr>ie_colliding_session_id := Some (x_uuid_text X target)\<rparr>))
     else
       let verification = verify_bundle X c in
       if \<not> bundle_report_is_clean verification
       then Inl (ImportRejected (build_verify_report X (ia_bundle_shown A) c False
                   (report_violations X verification) [] [] None))
       else
         res_bind (map_err (\<lambda>_. ImportFailed (import_err ''unsupported_hash_algorithm''
               (''unsupported hash algorithm in manifest: '' @ sanitize_display (mf_hash_algorithm (bc_manifest c))) 1))
             (parse_algorithm (mf_hash_algorithm (bc_manifest c)))) (\<lambda>a.
         res_bind (map_err (\<lambda>msg. ImportFailed (import_err ''verification_error'' msg 1))
             (bundle_import_history X c a)) (\<lambda>history.
         Inr \<lparr>ip_contents = c, ip_target = target, ip_algorithm = a, ip_history = history\<rparr>))))))"

text \<open>The first component is the store as the run leaves it, when it opened one.\<close>

definition run_bundle_import ::
    "'x command_ext_scheme \<Rightarrow> ('db, 'r) graph_api_scheme \<Rightarrow> int \<Rightarrow> bool \<Rightarrow> import_args \<Rightarrow> 'db import_files
     \<Rightarrow> 'db redb_store option \<times> import_result" where
  "run_bundle_import X R now verify_only A F =
     (if verify_only
      then (None,
        case run_bundle_verify X (ia_bundle_path A) (ia_bundle_shown A) (if_bundle F) (ia_allow_extra_files A)
               DEFAULT_MAX_BUNDLE_DECODED_BYTES (verify_policy_load X [] False [] False [] False) of
          Inl (cat, msg, status) \<Rightarrow> ImportFailed (import_err cat msg status)
        | Inr (report, status) \<Rightarrow> ImportOnlyVerified report status)
      else
        case plan_import X R A F of
          Inl r \<Rightarrow> (None, r)
        | Inr p \<Rightarrow>
            (case if_mkdir F of
               Some e \<Rightarrow>
                 (None, ImportFailed (journal_import_error
                    (''cannot create journal directory '' @ ia_journal_dir A @ '': '' @ e)))
             | None \<Rightarrow>
                 (case open_target_store X R (ia_journal_db A) (if_journal F) (if_created F) now (ip_algorithm p) of
                    Inl e \<Rightarrow> (None, ImportFailed e)
                  | Inr s \<Rightarrow>
                      (case import_into_store X R s (ip_target p) (bc_objects (ip_contents p)) (ip_history p) of
                         (s', Inl e) \<Rightarrow> (Some s', ImportFailed e)
                       | (s', Inr (new, existing)) \<Rightarrow>
                           (Some s', Imported
                              \<lparr>ir_akmon_version = CARGO_PKG_VERSION,
                               ir_agef_version = mf_agef_version (bc_manifest (ip_contents p)),
                               ir_bundle_path = ia_bundle_shown A,
                               ir_original_session_id = sm_id (mf_session (bc_manifest (ip_contents p))),
                               ir_imported_session_id = x_uuid_text X (ip_target p),
                               ir_events_imported = of_nat (length (bc_events (ip_contents p))),
                               ir_objects_total = of_nat (length (bc_objects (ip_contents p))),
                               ir_objects_new = new, ir_objects_existing = existing,
                               ir_journal_path = ia_journal_shown A\<rparr>)))))"

section \<open>Staging\<close>

text \<open>What staging may do to a store: rows of other tables stay, and the object store contract holds.\<close>

definition staged :: "'x hash_ext_scheme \<Rightarrow> 'db db_content \<Rightarrow> 'db redb_store \<Rightarrow> 'db redb_store \<Rightarrow> bool" where
  "staged X C s s' \<longleftrightarrow>
     (\<forall>t. t \<noteq> OBJECTS_TABLE \<longrightarrow> C (rs_db s') t = C (rs_db s) t) \<and>
     rs_algorithm s' = rs_algorithm s \<and> (redb_inv X C s \<longrightarrow> redb_inv X C s')"

lemma staged_refl [simp]: "staged X C s s"
  by (simp add: staged_def)

lemma staged_trans: "staged X C s s' \<Longrightarrow> staged X C s' s'' \<Longrightarrow> staged X C s s''"
  by (simp add: staged_def)

lemma staged_put:
  assumes ok: "redb_ok R C" and put: "redb_put X R s b = (s', r)"
  shows "staged X C s s'"
proof -
  have "C (rs_db s') t = C (rs_db s) t" if "t \<noteq> OBJECTS_TABLE" for t
  proof (cases r)
    case (Inl e)
    with put redb_put_Inl show ?thesis by blast
  next
    case (Inr h)
    from redb_put_Inr(2) [OF ok put [unfolded Inr]] that show ?thesis by (simp split: if_splits)
  qed
  with redb_put_algorithm [OF put] redb_put_inv [OF ok _ put] show ?thesis by (simp add: staged_def)
qed

lemma stage_object_staged:
  assumes "redb_ok R C" "stage_object X R s entry = (s', r)"
  shows "staged X C s s'"
  using assms(2) staged_put [OF assms(1)]
  by (auto simp: stage_object_def split: sum.splits bool.splits option.splits prod.splits if_splits)

lemma stage_objects_staged:
  assumes ok: "redb_ok R C"
  shows "stage_objects X R s objs n x = (s', r) \<Longrightarrow> staged X C s s'"
proof (induction objs arbitrary: s n x)
  case (Cons entry rest)
  obtain s1 r1 where s1: "stage_object X R s entry = (s1, r1)" by (cases "stage_object X R s entry")
  have "staged X C s s1" by (rule stage_object_staged [OF ok s1])
  moreover from s1 Cons.prems have "s' = s1 \<or> (\<exists>n' x'. stage_objects X R s1 rest n' x' = (s', r))"
    by (auto split: sum.splits bool.splits)
  ultimately show ?case using Cons.IH staged_trans by blast
qed simp

lemma stage_objects_count:
  "stage_objects X R s objs n x = (s', Inr (n', x')) \<Longrightarrow> n' + x' = n + x + of_nat (length objs)"
proof (induction objs arbitrary: s n x)
  case (Cons entry rest)
  obtain s1 r1 where s1: "stage_object X R s entry = (s1, r1)" by (cases "stage_object X R s entry")
  with Cons.prems consider "stage_objects X R s1 rest (n + 1) x = (s', Inr (n', x'))"
    | "stage_objects X R s1 rest n (x + 1) = (s', Inr (n', x'))"
    by (auto split: sum.splits bool.splits)
  then show ?case by cases (simp_all add: Cons.IH)
qed simp

section \<open>What an import leaves\<close>

lemma journal_import_error_category [simp]:
  "ie_category (journal_import_error msg) \<noteq> ''post_import_verify_failed''"
  by (simp add: journal_import_error_def import_err_def journal_access_category_def JOURNAL_LOCKED_def)

lemma import_err_category [simp]: "ie_category (import_err cat msg status) = cat"
  by (simp add: import_err_def)

lemma stage_object_category:
  assumes "stage_object X R s entry = (s', Inl e)"
  shows "ie_category e \<noteq> ''post_import_verify_failed''"
proof -
  obtain h b where entry: "entry = (h, b)" by (cases entry)
  from assms have "e \<in> range journal_import_error \<or> ie_category e = ''local_store_corrupt''"
    by (auto simp: stage_object_def entry split: sum.splits bool.splits option.splits prod.splits if_splits)
  then show ?thesis by auto
qed

lemma stage_objects_category:
  "stage_objects X R s objs n x = (s', Inl e) \<Longrightarrow> ie_category e \<noteq> ''post_import_verify_failed''"
proof (induction objs arbitrary: s n x)
  case (Cons entry rest)
  obtain s1 r1 where s1: "stage_object X R s entry = (s1, r1)" by (cases "stage_object X R s entry")
  show ?case
  proof (cases r1)
    case (Inl err)
    with s1 Cons.prems stage_object_category show ?thesis by simp
  next
    case (Inr fresh)
    with s1 Cons.prems Cons.IH show ?thesis by (cases fresh) simp_all
  qed
qed simp

lemma import_store_cases:
  assumes ok: "redb_ok R C" and imp: "import_into_store X R s sid objs hist = (s', r)"
  obtains
    (nothing) e where "r = Inl e" "C (rs_db s') SESSION_EVENTS_TABLE = C (rs_db s) SESSION_EVENTS_TABLE"
      "C (rs_db s') SESSION_HEADS_TABLE = C (rs_db s) SESSION_HEADS_TABLE \<or>
        (C (rs_db s) SESSION_HEADS_TABLE (KBytes sid) = None \<and>
         (\<exists>b. pc_head_encode R None = Inr b \<and>
            C (rs_db s') SESSION_HEADS_TABLE = (C (rs_db s) SESSION_HEADS_TABLE)(KBytes sid \<mapsto> b)))"
      "ie_category e \<noteq> ''post_import_verify_failed''"
  | (written) g g' n x b where "stage_objects X R s objs 0 0 = (fst (stage_objects X R s objs 0 0), Inr (n, x))"
      "rg_session_id g = sid" "redb_import X R g hist = (g', Inr ())" "s' = rg_store g'"
      "C (rg_db g) SESSION_EVENTS_TABLE = C (rs_db s) SESSION_EVENTS_TABLE"
      "C (rs_db s) SESSION_HEADS_TABLE (KBytes sid) = None"
      "C (rg_db g) SESSION_HEADS_TABLE = (C (rs_db s) SESSION_HEADS_TABLE)(KBytes sid \<mapsto> b)"
      "rs_algorithm (rg_store g) = rs_algorithm s"
      "r = Inr (n, x) \<and> (\<exists>post. redb_verify X R g' = Inr post \<and> report_is_clean post) \<or>
       (\<exists>e. r = Inl e \<and> ie_category e = ''post_import_verify_failed'' \<and>
         (\<forall>post. redb_verify X R g' = Inr post \<longrightarrow> \<not> report_is_clean post))"
proof -
  obtain s1 r1 where s1: "stage_objects X R s objs 0 0 = (s1, r1)" by (cases "stage_objects X R s objs 0 0")
  have st: "C (rs_db s1) SESSION_EVENTS_TABLE = C (rs_db s) SESSION_EVENTS_TABLE"
    "C (rs_db s1) SESSION_HEADS_TABLE = C (rs_db s) SESSION_HEADS_TABLE" "rs_algorithm s1 = rs_algorithm s"
    using stage_objects_staged [OF ok s1] by (simp_all add: staged_def)
  show thesis
  proof (cases r1)
    case (Inl e)
    have "ie_category e \<noteq> ''post_import_verify_failed''" using stage_objects_category [OF s1 [unfolded Inl]] .
    moreover from Inl imp s1 have "r = Inl e" "s' = s1" by (simp_all add: import_into_store_def)
    ultimately show ?thesis by - (rule nothing, simp_all add: st)
  next
    case (Inr p)
    obtain n x where p: "p = (n, x)" by (cases p)
    obtain s2 r2 where s2: "redb_open_new R (x_uuid_text X) s1 sid = (s2, r2)"
      by (cases "redb_open_new R (x_uuid_text X) s1 sid")
    note new = redb_open_new_content [OF ok s2]
    show ?thesis
    proof (cases r2)
      case (Inl e)
      with imp s1 Inr p s2 have "r = Inl (import_err ''session_open_failed''
          (''cannot open target session '' @ x_uuid_text X sid @ '': '' @ jerr_text X e) 3)" "s' = s2"
        by (simp_all add: import_into_store_def)
      then show ?thesis by - (rule nothing, use new(1,4) st in auto)
    next
      case (Inr g)
      obtain b where g: "rg_store g = s2" "rg_session_id g = sid"
        "C (rs_db s1) SESSION_HEADS_TABLE (KBytes sid) = None"
        "pc_head_encode R None = Inr b"
        "C (rs_db s2) SESSION_HEADS_TABLE = (C (rs_db s1) SESSION_HEADS_TABLE)(KBytes sid \<mapsto> b)"
        using new(5) [OF Inr] by blast
      obtain g' r3 where g': "redb_import X R g hist = (g', r3)" by (cases "redb_import X R g hist")
      show ?thesis
      proof (cases r3)
        case (Inl e)
        then have "g' = g" using g' redb_import_Inl by blast
        moreover from imp s1 \<open>r1 = Inr p\<close> p s2 Inr g' Inl have "r = Inl (import_err ''import_failed''
          (''cannot import event history for session '' @ x_uuid_text X sid @ '': '' @ jerr_text X e) 3)" "s' = rg_store g'"
          by (simp_all add: import_into_store_def)
        ultimately show ?thesis by - (rule nothing, use new(1) st g in auto)
      next
        case (Inr u)
        have r: "s' = rg_store g'" "r = (case redb_verify X R g' of
            Inl e \<Rightarrow> Inl ((import_err ''post_import_verify_failed''
                 (''post-import verification errored for session '' @ x_uuid_text X sid @ '': '' @ jerr_text X e
                  @ ''; manual cleanup may be required'') 3)\<lparr>ie_colliding_session_id := Some (x_uuid_text X sid)\<rparr>)
          | Inr post \<Rightarrow> if report_is_clean post then Inr (n, x)
             else Inl ((import_err ''post_import_verify_failed''
                 (''post-import verification failed for session '' @ x_uuid_text X sid
                  @ ''; journal may contain a broken imported session and may require manual cleanup'') 3)
                    \<lparr>ie_colliding_session_id := Some (x_uuid_text X sid)\<rparr>))"
          using imp s1 \<open>r1 = Inr p\<close> p s2 \<open>r2 = Inr g\<close> g' Inr by (simp_all add: import_into_store_def Let_def)
        show ?thesis
        proof (rule written [of n x g g' b])
          show "r = Inr (n, x) \<and> (\<exists>post. redb_verify X R g' = Inr post \<and> report_is_clean post) \<or>
             (\<exists>e. r = Inl e \<and> ie_category e = ''post_import_verify_failed'' \<and>
               (\<forall>post. redb_verify X R g' = Inr post \<longrightarrow> \<not> report_is_clean post))"
            by (cases "redb_verify X R g'") (simp_all add: r(2))
        qed (use s1 \<open>r1 = Inr p\<close> p g g' Inr r(1) new(1,3) st in simp_all)
      qed
    qed
  qed
qed

text \<open>Every other session of the journal is as it was, whatever happened.\<close>

lemma import_other_sessions:
  assumes ok: "redb_ok R C" and imp: "import_into_store X R s sid objs hist = (s', r)"
    and len: "length sid = 16" "length hist \<le> 2 ^ 64" and other: "sid' \<noteq> sid"
    and rep: "session_rep R C (rs_db s) sid' hs"
  shows "session_rep R C (rs_db s') sid' hs"
proof (cases rule: import_store_cases [OF ok imp])
  case (1 e)
  then show ?thesis using other by (intro session_rep_cong [OF _ _ rep]) auto
next
  case (2 g g' n x b)
  have "session_rep R C (rg_db g) sid' hs"
    using 2(5,7) other by (intro session_rep_cong [OF _ _ rep]) simp_all
  moreover obtain db where "import_rows R (rg_db g) (rg_session_id g) hist = Inr db"
    "g' = g\<lparr>rg_store := (rg_store g)\<lparr>rs_db := db\<rparr>\<rparr>" by (rule redb_import_InrD [OF 2(3)])
  ultimately show ?thesis
    using import_rows_isolated [OF ok, of "rg_session_id g" hist "rg_db g" db sid' hs] len other
    by (simp add: 2(2,4))
qed

text \<open>A successful import: the target did not exist, and now holds exactly the history, verified.\<close>

lemma import_target_session:
  assumes ok: "redb_ok R C" and codec: "graph_codec_ok R" and wf: "event_keys_wf C (rs_db s)"
    and len: "length sid = 16" "length hist \<le> 2 ^ 64"
    and imp: "import_into_store X R s sid objs hist = (s', Inr (n, x))"
  shows "C (rs_db s) SESSION_HEADS_TABLE (KBytes sid) = None"
    and "session_rep R C (rs_db s') sid hist"
    and "linear_session X (redb_view R s') hist None"
    and "n + x = of_nat (length objs)"
proof -
  obtain g g' n' x' b where st: "stage_objects X R s objs 0 0 = (fst (stage_objects X R s objs 0 0), Inr (n', x'))"
    and g: "rg_session_id g = sid" "redb_import X R g hist = (g', Inr ())" "s' = rg_store g'"
      "C (rg_db g) SESSION_EVENTS_TABLE = C (rs_db s) SESSION_EVENTS_TABLE"
    and none: "C (rs_db s) SESSION_HEADS_TABLE (KBytes sid) = None"
    and res: "(n, x) = (n', x')" "\<exists>post. redb_verify X R g' = Inr post \<and> report_is_clean post"
    using import_store_cases [OF ok imp] by cases auto
  show "C (rs_db s) SESSION_HEADS_TABLE (KBytes sid) = None" by (rule none)
  show "n + x = of_nat (length objs)" using stage_objects_count [OF st] res(1) by simp
  have wf': "event_keys_wf C (rg_db g)" using wf g(4) by (simp add: event_keys_wf_def)
  have sid: "length (rg_session_id g) = 16" using len g(1) by simp
  have ids: "rg_session_id g' = rg_session_id g"
  proof (rule redb_import_InrD [OF g(2)])
    fix db assume "g' = g\<lparr>rg_store := (rg_store g)\<lparr>rs_db := db\<rparr>\<rparr>"
    then show ?thesis by simp
  qed
  have rep: "session_rep R C (rg_db g') (rg_session_id g) hist"
    by (rule redb_import_rep(2) [OF ok codec wf' sid len(2) g(2)])
  then show "session_rep R C (rs_db s') sid hist" by (simp add: g)
  from res(2) obtain post where post: "redb_verify X R g' = Inr post" "report_is_clean post" by blast
  have "linear_session X (redb_view R (rg_store g')) hist (map_option fst (last_opt hist))"
    using redb_verify_clean [OF ok _ post(1)] rep ids post(2) by simp
  then show "linear_session X (redb_view R s') hist None" by (simp add: linear_session_own_head g(3))
qed

text \<open>A refusal, other than the one of the final check, writes no event.\<close>

lemma import_failure_writes_no_event:
  assumes "redb_ok R C" "import_into_store X R s sid objs hist = (s', Inl e)"
    and "ie_category e \<noteq> ''post_import_verify_failed''"
  shows "C (rs_db s') SESSION_EVENTS_TABLE = C (rs_db s) SESSION_EVENTS_TABLE"
  using import_store_cases [OF assms(1,2)] assms(3) by cases auto

section \<open>The imported history is the bundle's\<close>

lemma hash_events_InrD:
  "hash_events X a es = Inr hist \<Longrightarrow>
   map snd hist = es \<and> list_all (\<lambda>(h, e). content_hash X a e = Inr h) hist"
  by (induction X a es arbitrary: hist rule: hash_events.induct) auto

lemma hash_chain_content_hashes:
  "hash_chain H idx prev ps \<Longrightarrow> list_all (\<lambda>(h, e). H e = Inr h) ps"
  by (induction H idx prev ps rule: hash_chain.induct) (simp_all add: entry_ok_def split_beta)

lemma hashed_unique:
  assumes "list_all (\<lambda>(h, e). H e = Inr h) ps" "list_all (\<lambda>(h, e). H e = Inr h) qs"
    and "map snd ps = map snd qs"
  shows "ps = qs"
  using assms(3,1,2)
proof (induction ps qs rule: list_induct2')
  case (4 p ps q qs)
  then have "snd p = snd q" "H (snd p) = Inr (fst p)" "H (snd q) = Inr (fst q)"
    by (simp_all add: split_beta)
  then have "fst p = fst q" by simp
  with 4 show ?case by (simp add: prod_eq_iff)
qed simp_all

lemma bundle_import_history_spec:
  assumes hist: "bundle_import_history X c a = Inr hist" and ses: "bundle_session X a c hs"
  shows "hist = zip hs (bc_events c)"
proof -
  have len: "length hs = length (bc_events c)"
    and "hash_chain (content_hash X a) 0 None (zip hs (bc_events c))"
    using ses by (simp_all add: bundle_session_def)
  with hash_chain_content_hashes have "list_all (\<lambda>(h, e). content_hash X a e = Inr h) (zip hs (bc_events c))" by blast
  moreover note hash_events_InrD [OF hist [unfolded bundle_import_history_def]]
  moreover have "map snd (zip hs (bc_events c)) = bc_events c" using len by simp
  ultimately show ?thesis using hashed_unique [of "content_hash X a" hist "zip hs (bc_events c)"] by simp
qed

lemma hash_events_total:
  "list_all (\<lambda>(h, e). content_hash X a e = Inr h) (zip hs es) \<Longrightarrow> length hs = length es \<Longrightarrow>
   hash_events X a es = Inr (zip hs es)"
proof (induction es arbitrary: hs)
  case (Cons e es)
  then obtain h hs' where "hs = h # hs'" by (cases hs) auto
  with Cons show ?case by simp
qed simp

lemma parse_algorithm_InrD: "parse_algorithm (hash_algorithm_to_string a) = Inr a"
  by (cases a) (simp_all add: parse_algorithm_def hash_algorithm_to_string_def)

lemma plan_import_InrD:
  assumes "plan_import X R A F = Inr p"
  obtains decode hs where "if_bundle F = Inr decode"
    "read_bundle X \<lparr>ro_allow_extra_files = ia_allow_extra_files A,
        ro_max_event_frame_len = DEFAULT_MAX_EVENT_FRAME_LEN\<rparr> decode = Inr (ip_contents p)"
    "bundle_session X (ip_algorithm p) (ip_contents p) hs"
    "mf_hash_algorithm (bc_manifest (ip_contents p)) = hash_algorithm_to_string (ip_algorithm p)"
    "ip_history p = zip hs (bc_events (ip_contents p))"
    "ip_target p = (case ia_rename_to A of Some t \<Rightarrow> t
       | None \<Rightarrow> projr (x_uuid_parse X (trim_ws (sm_id (mf_session (bc_manifest (ip_contents p)))))))"
proof -
  from assms obtain decode c a u where d: "if_bundle F = Inr decode"
    and c: "read_bundle X \<lparr>ro_allow_extra_files = ia_allow_extra_files A,
        ro_max_event_frame_len = DEFAULT_MAX_EVENT_FRAME_LEN\<rparr> decode = Inr c"
    and clean: "bundle_report_is_clean (verify_bundle X c)"
    and a: "parse_algorithm (mf_hash_algorithm (bc_manifest c)) = Inr a"
    and u: "x_uuid_parse X (trim_ws (sm_id (mf_session (bc_manifest c)))) = Inr u"
    and p: "ip_contents p = c" "ip_algorithm p = a" "bundle_import_history X c a = Inr (ip_history p)"
      "ip_target p = (case ia_rename_to A of Some t \<Rightarrow> t | None \<Rightarrow> u)"
    by (auto simp: plan_import_def Let_def split: if_splits)
  from clean obtain a' hs where "mf_hash_algorithm (bc_manifest c) = hash_algorithm_to_string a'"
    "bundle_session X a' c hs" by (auto simp: verify_bundle_clean_iff)
  moreover from this a have "a' = a" by (simp add: parse_algorithm_InrD)
  moreover note bundle_import_history_spec [OF p(3)]
  ultimately show ?thesis using d c p u by (intro that [of decode hs]) (simp_all split: option.split)
qed

end
