(* ===== verification/Workspace.thy ===== *)
theory Workspace
  imports Bundle_Manifest Policy
begin

text \<open>
  The workspace the tools act in: paths of the standard library beyond their text, the sandbox of
  \<open>akmon-core/src/sandbox.rs\<close>, \<open>text.rs\<close>, and the permissions a tool call asks for
  (\<open>concrete_permissions\<close> and its helpers in \<open>akmon-query/src/session.rs\<close>, the header functions of
  \<open>akmon-tools/src/patch.rs\<close>). Resolving a path in the file system is a parameter, as is the parser of
  unified diffs (crate \<open>diffy\<close>).
\<close>

section \<open>Paths\<close>

datatype fs_error = FsNotFound string | FsError string

definition fs_error_to_string :: "fs_error \<Rightarrow> string" where
  "fs_error_to_string e = (case e of FsNotFound m \<Rightarrow> m | FsError m \<Rightarrow> m)"

definition fs_is_not_found :: "fs_error \<Rightarrow> bool" where
  "fs_is_not_found e = (case e of FsNotFound _ \<Rightarrow> True | FsError _ \<Rightarrow> False)"

text \<open>The text of a list of components: equal, as a \<open>Path\<close>, to any path with these components.\<close>

fun component_text :: "path_component \<Rightarrow> string" where
  "component_text RootDir = []"
| "component_text CurDir = ''.''"
| "component_text ParentDir = ''..''"
| "component_text (Normal s) = s"

definition components_path :: "path_component list \<Rightarrow> string" where
  "components_path cs =
     (if cs = [RootDir] then [slash] else join [slash] (map component_text cs))"

definition path_file_name :: "string \<Rightarrow> string option" where
  "path_file_name p =
     (case rev (path_components p) of Normal s # _ \<Rightarrow> Some s | _ \<Rightarrow> None)"

definition path_parent :: "string \<Rightarrow> string option" where
  "path_parent p =
     (case rev (path_components p) of
        [] \<Rightarrow> None
      | RootDir # _ \<Rightarrow> None
      | _ # rest \<Rightarrow> Some (components_path (rev rest)))"

text \<open>The order of \<open>Path\<close> values compares components, these by kind and then by name.\<close>

fun component_key :: "path_component \<Rightarrow> string" where
  "component_key RootDir = [CHR 0x00]"
| "component_key CurDir = [CHR 0x01]"
| "component_key ParentDir = [CHR 0x02]"
| "component_key (Normal s) = CHR 0x03 # s"

lemma component_key_inj: "component_key a = component_key b \<longleftrightarrow> a = b"
  by (cases a; cases b) auto

instantiation path_component :: linorder
begin

definition less_eq_path_component :: "path_component \<Rightarrow> path_component \<Rightarrow> bool" where
  "less_eq_path_component a b \<longleftrightarrow> component_key a \<le> component_key b"

definition less_path_component :: "path_component \<Rightarrow> path_component \<Rightarrow> bool" where
  "less_path_component a b \<longleftrightarrow> component_key a < component_key b"

instance
proof
  fix a b :: path_component
  show "a \<le> b \<or> b \<le> a" unfolding less_eq_path_component_def by (rule linear)
  show "a < b \<longleftrightarrow> a \<le> b \<and> \<not> b \<le> a"
    unfolding less_eq_path_component_def less_path_component_def by (rule less_le_not_le)
  show "a = b" if "a \<le> b" "b \<le> a"
    using that unfolding less_eq_path_component_def component_key_inj [symmetric] by (rule antisym)
qed (auto simp: less_eq_path_component_def)

end

section \<open>The sandbox\<close>

record sandbox =
  sx_primary_root :: string
  sx_additional_roots :: "string list"
  sx_has_git_root :: bool

datatype sandbox_error = SxCanonicalize fs_error | SxPathEscape string string

type_synonym canonicalizer = "string \<Rightarrow> fs_error + string"

definition canonical_roots :: "canonicalizer \<Rightarrow> sandbox \<Rightarrow> sandbox_error + string list" where
  "canonical_roots canon S =
     res_map (\<lambda>r. map_err SxCanonicalize (canon r)) (sx_primary_root S # sx_additional_roots S)"

definition path_is_within_root :: "string \<Rightarrow> string \<Rightarrow> bool" where
  "path_is_within_root root candidate = path_starts_with candidate root"

definition sandbox_resolve :: "canonicalizer \<Rightarrow> sandbox \<Rightarrow> string \<Rightarrow> sandbox_error + string" where
  "sandbox_resolve canon S user_path =
     (let joined = (if path_is_absolute user_path then user_path else path_join (sx_primary_root S) user_path) in
      res_bind (map_err SxCanonicalize (canon joined)) (\<lambda>resolved.
      res_bind (canonical_roots canon S) (\<lambda>roots.
      if list_ex (\<lambda>root. path_is_within_root root resolved) roots then Inr resolved
      else Inl (SxPathEscape resolved (case roots of r # _ \<Rightarrow> r | [] \<Rightarrow> sx_primary_root S)))))"

text \<open>\<open>truncate_at_char_boundary\<close>: the loop walks back to the start of a character.\<close>

fun walk_back :: "string \<Rightarrow> nat \<Rightarrow> nat" where
  "walk_back s 0 = 0"
| "walk_back s (Suc n) =
     (if Suc n < length s \<and> \<not> is_char_start (s ! Suc n) then walk_back s n else Suc n)"

definition truncate_at_char_boundary :: "string \<Rightarrow> nat \<Rightarrow> string" where
  "truncate_at_char_boundary s mx = (if length s \<le> mx then s else take (walk_back s mx) s)"

section \<open>Arguments\<close>

text \<open>\<open>args.get(k)\<close> followed by \<open>as_str\<close>, \<open>as_bool\<close>, \<open>as_array\<close>.\<close>

fun json_get :: "string \<Rightarrow> json \<Rightarrow> json option" where
  "json_get k (JObject m) = map_of m k"
| "json_get k _ = None"

fun json_as_str :: "json \<Rightarrow> string option" where
  "json_as_str (JString s) = Some s"
| "json_as_str _ = None"

definition json_str :: "string \<Rightarrow> json \<Rightarrow> string option" where
  "json_str k args = Option.bind (json_get k args) json_as_str"

fun json_as_bool :: "json \<Rightarrow> bool option" where
  "json_as_bool (JBool b) = Some b"
| "json_as_bool _ = None"

definition json_bool :: "string \<Rightarrow> json \<Rightarrow> bool option" where
  "json_bool k args = Option.bind (json_get k args) json_as_bool"

fun json_as_array :: "json \<Rightarrow> json list option" where
  "json_as_array (JArray xs) = Some xs"
| "json_as_array _ = None"

section \<open>Patch headers\<close>

text \<open>What the diff parser returns is the two header paths; applying a patch is in \<open>File_Tools\<close>.\<close>

record patch_headers =
  ph_original :: "string option"
  ph_modified :: "string option"

record 'p patch_api =
  px_parse :: "string \<Rightarrow> string + 'p"
  px_headers :: "'p \<Rightarrow> patch_headers"
  px_apply :: "string \<Rightarrow> 'p \<Rightarrow> string + string"

definition strip_ab_prefix :: "string \<Rightarrow> string" where
  "strip_ab_prefix s =
     (let t = trim_ws s in
      case strip_prefix ''a/'' t of
        Some r \<Rightarrow> r
      | None \<Rightarrow> (case strip_prefix ''b/'' t of Some r \<Rightarrow> r | None \<Rightarrow> t))"

definition is_dev_null :: "string \<Rightarrow> bool" where
  "is_dev_null s \<longleftrightarrow> s = ''/dev/null''"

definition remove_cr :: "string \<Rightarrow> string" where
  "remove_cr s = filter (\<lambda>c. c \<noteq> CHR 0x0D) s"

definition is_header_line :: "string \<Rightarrow> bool" where
  "is_header_line line \<longleftrightarrow> starts_with ''--- '' line"

text \<open>The segments start at the header lines; what precedes the first one is dropped.\<close>

fun segments :: "string list \<Rightarrow> string list list" where
  "segments [] = []"
| "segments (line # lines) =
     (if is_header_line line
      then (line # takeWhile (\<lambda>l. \<not> is_header_line l) lines) # segments lines
      else segments lines)"

definition split_unified_patches :: "string \<Rightarrow> string list" where
  "split_unified_patches raw = map (join [LF]) (segments (split_on LF (remove_cr raw)))"

definition header_relative_paths :: "('p, 'x) patch_api_scheme \<Rightarrow> string \<Rightarrow> string list option" where
  "header_relative_paths P chunk =
     (case px_parse P chunk of
        Inl _ \<Rightarrow> None
      | Inr patch \<Rightarrow>
          Some (map backslash_to_slash (filter (\<lambda>p. p \<noteq> [] \<and> \<not> is_dev_null p) (map strip_ab_prefix
            (opt_list (ph_original (px_headers P patch)) @ opt_list (ph_modified (px_headers P patch)))))))"

definition target_relative_path :: "('p, 'x) patch_api_scheme \<Rightarrow> 'p \<Rightarrow> string option" where
  "target_relative_path P patch =
     Option.bind (case ph_modified (px_headers P patch) of
         Some m \<Rightarrow> Some m | None \<Rightarrow> ph_original (px_headers P patch))
       (\<lambda>raw. let stripped = strip_ab_prefix raw in
         if stripped = [] then None else Some (backslash_to_slash stripped))"

text \<open>The set of targets: the first of equal paths is kept, and the vector is sorted.\<close>

definition path_set_insert :: "string \<Rightarrow> string list \<Rightarrow> string list" where
  "path_set_insert p ps = (if list_ex (path_eq p) ps then ps else ps @ [p])"

fun collect_targets :: "('p, 'x) patch_api_scheme \<Rightarrow> string list \<Rightarrow> string list \<Rightarrow> string list option" where
  "collect_targets P acc [] = Some acc"
| "collect_targets P acc (chunk # chunks) =
     (case px_parse P chunk of
        Inl _ \<Rightarrow> None
      | Inr patch \<Rightarrow>
          (case target_relative_path P patch of
             None \<Rightarrow> None
           | Some rel \<Rightarrow> collect_targets P (path_set_insert rel acc) chunks))"

definition patch_write_relative_paths :: "('p, 'x) patch_api_scheme \<Rightarrow> string \<Rightarrow> string list option" where
  "patch_write_relative_paths P patch_text =
     (let chunks = split_unified_patches patch_text in
      if chunks = [] then None
      else map_option (sort_key path_components) (collect_targets P [] chunks))"

section \<open>Concrete permissions\<close>

text \<open>A registered tool: its static permissions, its MCP context, the check of its argument schema
  (crate \<open>jsonschema\<close>).\<close>

record tool_info =
  ti_name :: string
  ti_required_permissions :: "permission list"
  ti_mcp_context :: "(string \<times> string) option"
  ti_validate_arguments :: "json \<Rightarrow> string + unit"

fun json_strings :: "json list \<Rightarrow> string list" where
  "json_strings [] = []"
| "json_strings (v # vs) = opt_list (json_as_str v) @ json_strings vs"

definition git_concrete_permissions :: "json \<Rightarrow> permission list" where
  "git_concrete_permissions args =
     (let sub = concat (opt_list (json_str ''subcommand'' args));
          argv = json_strings (concat (opt_list (Option.bind (json_get ''args'' args) json_as_array))) in
      if sub = ''status'' \<or> sub = ''diff'' \<or> sub = ''log'' \<or> sub = ''show'' then [ReadFile ''.'']
      else if sub = ''stash'' then
        (if head_opt argv = Some ''list'' then [ReadFile ''.''] else [WriteFile ''.''])
      else if sub = ''branch'' then (if argv = [] then [ReadFile ''.''] else [WriteFile ''.''])
      else if sub = ''add'' \<or> sub = ''commit'' \<or> sub = ''restore'' then [WriteFile ''.'']
      else [ReadFile ''.''])"

definition str_permission ::
    "tool_info \<Rightarrow> json \<Rightarrow> string \<Rightarrow> (string \<Rightarrow> permission list) \<Rightarrow> permission list" where
  "str_permission tool args k f =
     (case json_str k args of Some p \<Rightarrow> f p | None \<Rightarrow> ti_required_permissions tool)"

definition raw_concrete_permissions ::
    "('p, 'x) patch_api_scheme \<Rightarrow> tool_info \<Rightarrow> string \<Rightarrow> json \<Rightarrow> string \<Rightarrow> permission list" where
  "raw_concrete_permissions P tool name args sandbox_root =
     (if name = ''read_file'' then str_permission tool args ''path'' (\<lambda>p. [ReadFile p])
      else if name = ''write_file'' then str_permission tool args ''path'' (\<lambda>p. [WriteFile p])
      else if name = ''edit'' then str_permission tool args ''path'' (\<lambda>p. [WriteFile p])
      else if name = ''patch'' then
        str_permission tool args ''patch'' (\<lambda>p.
          case patch_write_relative_paths P p of
            Some paths \<Rightarrow> map WriteFile paths
          | None \<Rightarrow> ti_required_permissions tool)
      else if name = ''apply_patch'' then str_permission tool args ''file_path'' (\<lambda>p. [WriteFile p])
      else if name = ''list_directory'' then str_permission tool args ''path'' (\<lambda>p. [ListDirectory p])
      else if name = ''shell'' then
        str_permission tool args ''command'' (\<lambda>cmd. [ExecuteCommand (trim_ws cmd) sandbox_root])
      else if name = ''search'' then
        [ReadFile (case json_str ''path'' args of Some s \<Rightarrow> if s = [] then ''.'' else s | None \<Rightarrow> ''.'')]
      else if name = ''web_fetch'' then str_permission tool args ''url'' (\<lambda>u. [NetworkFetch u])
      else if name = ''git'' then git_concrete_permissions args
      else ti_required_permissions tool)"

text \<open>The longest existing prefix of a path is resolved; \<open>remainder\<close> holds the components after it. The
  components are given in reverse, \<open>p\<close> is the text of the path they make up.\<close>

fun resolve_existing ::
    "canonicalizer \<Rightarrow> string \<Rightarrow> path_component list \<Rightarrow> string list \<Rightarrow> (string \<times> string list) option" where
  "resolve_existing canon p [] remainder =
     (case canon p of Inr r \<Rightarrow> Some (r, remainder) | Inl _ \<Rightarrow> None)"
| "resolve_existing canon p (c # cs) remainder =
     (case canon p of
        Inr r \<Rightarrow> Some (r, remainder)
      | Inl _ \<Rightarrow>
          (case c of
             Normal s \<Rightarrow> resolve_existing canon (components_path (rev cs)) cs (s # remainder)
           | _ \<Rightarrow> None))"

definition ok_of :: "'e + 'a \<Rightarrow> 'a option" where
  "ok_of r = (case r of Inr x \<Rightarrow> Some x | Inl _ \<Rightarrow> None)"

definition canonical_policy_subject :: "canonicalizer \<Rightarrow> string \<Rightarrow> string \<Rightarrow> string option" where
  "canonical_policy_subject canon raw canonical_root =
     (let joined = (if path_is_absolute raw then raw else path_join canonical_root raw) in
      map_option (\<lambda>(resolved, remainder).
          policy_subject_path (ok_of (canon canonical_root)) (fold (\<lambda>c full. path_join full c) remainder resolved)
            canonical_root)
        (resolve_existing canon joined (rev (path_components joined)) []))"

text \<open>A filesystem permission with the constructor that rebuilds it.\<close>

fun fs_permission :: "permission \<Rightarrow> (string \<times> (string \<Rightarrow> permission)) option" where
  "fs_permission (ReadFile p) = Some (p, ReadFile)"
| "fs_permission (ListDirectory p) = Some (p, ListDirectory)"
| "fs_permission (WriteFile p) = Some (p, WriteFile)"
| "fs_permission _ = None"

definition both_subjects :: "canonicalizer \<Rightarrow> string \<Rightarrow> permission \<Rightarrow> permission list" where
  "both_subjects canon sandbox_root permission =
     (case fs_permission permission of
        None \<Rightarrow> [permission]
      | Some (raw, rebuild) \<Rightarrow>
          let canonical_root = ok_of (canon sandbox_root);
              lexical = policy_subject_path canonical_root raw sandbox_root;
              canonical = Option.bind canonical_root (canonical_policy_subject canon raw);
              in_workspace = (\<not> path_is_absolute lexical \<or>
                (case canonical of Some c \<Rightarrow> \<not> path_is_absolute c | None \<Rightarrow> False)) in
          rebuild lexical #
          (case canonical of
             Some c \<Rightarrow>
               (if in_workspace \<and> \<not> policy_subjects_equivalent c lexical then [rebuild c] else [])
           | None \<Rightarrow> []))"

definition concrete_permissions ::
    "('p, 'x) patch_api_scheme \<Rightarrow> canonicalizer \<Rightarrow> tool_info \<Rightarrow> string \<Rightarrow> json \<Rightarrow> string \<Rightarrow> permission list" where
  "concrete_permissions P canon tool name args sandbox_root =
     concat (map (both_subjects canon sandbox_root) (raw_concrete_permissions P tool name args sandbox_root))"

section \<open>Containment\<close>

lemma list_prefix_iff: "list_prefix xs ys \<longleftrightarrow> (\<exists>zs. ys = xs @ zs)"
  by (induction xs ys rule: list_prefix.induct) auto

lemma list_all2_set_right: "list_all2 P xs ys \<Longrightarrow> y \<in> set ys \<Longrightarrow> \<exists>x \<in> set xs. P x y"
  by (induction rule: list_all2_induct) auto

lemma sandbox_resolve_InrD:
  assumes "sandbox_resolve canon S p = Inr q"
  obtains root r where "root \<in> set (sx_primary_root S # sx_additional_roots S)" "canon root = Inr r" "path_starts_with q r"
proof -
  from assms obtain roots where roots: "canonical_roots canon S = Inr roots"
    and "list_ex (\<lambda>root. path_is_within_root root q) roots"
    by (auto simp: sandbox_resolve_def Let_def split: if_splits)
  then obtain r where r: "r \<in> set roots" "path_starts_with q r"
    by (auto simp: list_ex_iff path_is_within_root_def)
  from roots have "list_all2 (\<lambda>x y. canon x = Inr y) (sx_primary_root S # sx_additional_roots S) roots"
    by (auto simp: canonical_roots_def res_map_Inr_iff)
  from list_all2_set_right [OF this r(1)] r(2) that show ?thesis by blast
qed

end
