(* ===== verification/Dispatch.thy ===== *)
theory Dispatch
  imports Agent_Fsm Workspace
begin

text \<open>
  How the agent decides which tool calls of an assistant message run: \<open>dispatch_tool_calls_batch\<close> of
  \<open>akmon-query/src/session.rs\<close>. Each call passes a fixed sequence of gates (known tool, unambiguous
  MCP context, argument schema, limits, MCP policy, every concrete permission); the approved ones run
  in parallel and their results are recorded in call order. What a tool returns, the order in which
  the calls finish, the clock and the display texts are parameters.
\<close>

section \<open>State\<close>

datatype tool_error_code =
    PathEscape | NotFound | NotAFile | BinaryContent | TooLarge | PermissionDenied | InvalidArgs
  | AmbiguousMatch | PatchFailed | SubprocessFailed | SymlinkRefused

datatype tool_output =
    OutSuccess string
  | OutError tool_error_code string
  | OutQuestion string "string list"

record tool_call_result =
  tr_call_id :: string
  tr_tool_name :: string
  tr_output :: tool_output
  tr_success :: bool
  tr_arguments :: json
  tr_latency_ms :: u64

record interactive_reply =
  ir_verdict :: policy_verdict
  ir_remember :: bool
  ir_allow_all_writes :: bool
  ir_shell_prefix :: "string option"

record reliability =
  rel_tool_calls_total :: u64
  rel_tool_calls_success :: u64
  rel_tool_calls_failure :: u64
  rel_latency_total :: u64
  rel_latency_avg :: u64
  rel_latency_p95 :: "u64 option"
  rel_timeouts :: u64
  rel_policy_denials :: u64

text \<open>\<open>ds_replies\<close> and \<open>ds_answers\<close> are the channels of verdicts and answers (\<open>None\<close> when the run has
  none, the empty list when it is closed), \<open>ds_gates\<close> the permission gates offered to the journal,
  \<open>ds_context\<close> the tool messages appended to the conversation.\<close>

record 'c dispatch_state =
  ds_agent :: "'c agent_session"
  ds_allow_all_writes :: bool
  ds_shell_prefixes :: "string list"
  ds_allowlist :: "permission list"
  ds_replies :: "interactive_reply list option"
  ds_answers :: "string list option"
  ds_gates :: "(string \<times> bool \<times> string) list"
  ds_tool_counts :: "(string, u32) hash_map"
  ds_modified_paths :: "string list"
  ds_reliability :: reliability
  ds_latency_samples :: "u64 list"
  ds_context :: "(string \<times> string \<times> tool_output) list"

text \<open>The environment: \<open>de_clock n\<close> is the time read when the audit log has \<open>n\<close> rows.\<close>

record ('c, 'p) dispatch_env =
  de_cost :: "u32 \<Rightarrow> u32 \<Rightarrow> u32 \<Rightarrow> 'c \<Rightarrow> 'c"
  de_clock :: "nat \<Rightarrow> datetime"
  de_task :: string
  de_glob :: glob_ext
  de_mode :: policy_mode
  de_patch :: "'p patch_api"
  de_canon :: canonicalizer
  de_root :: string
  de_permission_text :: "permission \<Rightarrow> string"
  de_diff_preview :: "string \<Rightarrow> json \<Rightarrow> string option"
  de_tools :: "tool_info list"
  de_auto_commit :: bool
  de_has_git_root :: bool
  de_commit_event :: "tool_call_result \<Rightarrow> audit_event option"

text \<open>Sequencing of steps that may fail.\<close>

fun st_bind :: "'s \<times> ('e + 'a) \<Rightarrow> ('s \<Rightarrow> 'a \<Rightarrow> 's \<times> ('e + 'b)) \<Rightarrow> 's \<times> ('e + 'b)" where
  "st_bind (s, Inl e) f = (s, Inl e)"
| "st_bind (s, Inr x) f = f s x"

lemma st_bind_Inr_iff: "st_bind r f = (s', Inr y) \<longleftrightarrow> (\<exists>s x. r = (s, Inr x) \<and> f s x = (s', Inr y))"
  by (cases r; cases "snd r") auto

section \<open>Effects\<close>

definition now_of :: "('c, 'p) dispatch_env \<Rightarrow> 'c dispatch_state \<Rightarrow> nat \<Rightarrow> datetime" where
  "now_of E s k = de_clock E (length (as_audit_log (ds_agent s)) + k)"

definition session_of :: "'c dispatch_state \<Rightarrow> string" where
  "session_of s = ac_session_id (as_config (ds_agent s))"

definition apply_ev ::
    "('c, 'p) dispatch_env \<Rightarrow> 'c dispatch_state \<Rightarrow> agent_event \<Rightarrow> 'c dispatch_state \<times> (agent_error + unit)" where
  "apply_ev E s ev =
     (let (g, r) = apply_event (de_cost E) (now_of E s 0) (now_of E s 1) (de_task E) (ds_agent s) ev in
      (s\<lparr>ds_agent := g\<rparr>, r))"

definition fail_batch ::
    "('c, 'p) dispatch_env \<Rightarrow> 'c dispatch_state \<Rightarrow> string \<Rightarrow> 'c dispatch_state \<times> (agent_error + 'a)" where
  "fail_batch E s message =
     (case fail_tool_batch (de_cost E) (now_of E s 0) (now_of E s 1) (de_task E) (ds_agent s) message of
        (g, Inl e) \<Rightarrow> (s\<lparr>ds_agent := g\<rparr>, Inl e)
      | (g, Inr _) \<Rightarrow> (s\<lparr>ds_agent := g\<rparr>, Inl (SessionFailed message)))"

definition push_audit :: "'c dispatch_state \<Rightarrow> audit_event \<Rightarrow> 'c dispatch_state" where
  "push_audit s a = s\<lparr>ds_agent := (ds_agent s)\<lparr>as_audit_log := as_audit_log (ds_agent s) @ [a]\<rparr>\<rparr>"

definition emit_gate :: "'c dispatch_state \<Rightarrow> string \<Rightarrow> policy_decision \<Rightarrow> string \<Rightarrow> 'c dispatch_state" where
  "emit_gate s gate_id d tool_name =
     s\<lparr>ds_gates := ds_gates s @ [(gate_id, pd_allowed d, tool_name)]\<rparr>"

definition record_decision :: "'c dispatch_state \<Rightarrow> string \<Rightarrow> policy_decision \<Rightarrow> string \<Rightarrow> 'c dispatch_state" where
  "record_decision s gate_id d tool_name = emit_gate (push_audit s (pd_audit d)) gate_id d tool_name"

definition saturating_add64 :: "u64 \<Rightarrow> u64 \<Rightarrow> u64" where
  "saturating_add64 a b = (if unat a + unat b < 2 ^ 64 then a + b else - 1)"

definition record_policy_denial :: "'c dispatch_state \<Rightarrow> 'c dispatch_state" where
  "record_policy_denial s =
     s\<lparr>ds_reliability := (ds_reliability s)\<lparr>rel_policy_denials :=
        saturating_add64 (rel_policy_denials (ds_reliability s)) 1\<rparr>\<rparr>"

section \<open>One permission\<close>

text \<open>\<open>Permission\<close> values are compared with the equality of \<open>PathBuf\<close>.\<close>

fun permission_eq :: "permission \<Rightarrow> permission \<Rightarrow> bool" where
  "permission_eq (ReadFile a) (ReadFile b) = path_eq a b"
| "permission_eq (ListDirectory a) (ListDirectory b) = path_eq a b"
| "permission_eq (WriteFile a) (WriteFile b) = path_eq a b"
| "permission_eq (ExecuteCommand c a) (ExecuteCommand d b) = (c = d \<and> path_eq a b)"
| "permission_eq (NetworkFetch u) (NetworkFetch v) = (u = v)"
| "permission_eq _ _ = False"

definition gate_remembered ::
    "('c, 'p) dispatch_env \<Rightarrow> 'c dispatch_state \<Rightarrow> string \<Rightarrow> permission \<Rightarrow> string \<Rightarrow> string
     \<Rightarrow> 'c dispatch_state \<times> (agent_error + policy_decision)" where
  "gate_remembered E s name perm gate_id reason =
     (case resolve_interactive (de_mode E) (now_of E s 0) (session_of s) perm Allow reason of
        Inl e \<Rightarrow> fail_batch E s (policy_engine_error_to_string e)
      | Inr d \<Rightarrow> (record_decision s gate_id d name, Inr d))"

definition confirmation_text :: "('c, 'p) dispatch_env \<Rightarrow> permission \<Rightarrow> string" where
  "confirmation_text E perm =
     (case perm of
        ExecuteCommand command cwd \<Rightarrow>
          ''Shell command requires confirmation.'' @ [LF] @ ''  Proposed command:'' @ [LF] @ ''    '' @ command
          @ [LF] @ ''  Working directory: '' @ cwd
      | NetworkFetch url \<Rightarrow> ''Network fetch requires confirmation.'' @ [LF] @ ''  URL: '' @ url
      | WriteFile path \<Rightarrow> ''File change requires confirmation.'' @ [LF] @ ''  Path: '' @ path
      | _ \<Rightarrow> ''Permission required: '' @ de_permission_text E perm)"

definition reply_reason :: "interactive_reply \<Rightarrow> string" where
  "reply_reason reply =
     (case ir_verdict reply of
        Allow \<Rightarrow> (if ir_remember reply then ''user approved; remembered for this session''
                   else ''user approved (interactive)'')
      | Deny \<Rightarrow> ''user denied (interactive)'')"

text \<open>What a reply leaves behind for later requests.\<close>

definition remember_reply ::
    "'c dispatch_state \<Rightarrow> permission \<Rightarrow> interactive_reply \<Rightarrow> policy_decision \<Rightarrow> 'c dispatch_state" where
  "remember_reply s perm reply d =
     (if \<not> pd_allowed d then s
      else
        s\<lparr>ds_allowlist := (if ir_remember reply \<and> \<not> list_ex (permission_eq perm) (ds_allowlist s)
                          then ds_allowlist s @ [perm] else ds_allowlist s),
          ds_allow_all_writes := (ir_allow_all_writes reply \<or> ds_allow_all_writes s),
          ds_shell_prefixes := (case ir_shell_prefix reply of
              Some prefix \<Rightarrow> if trim_ws prefix \<noteq> [] then ds_shell_prefixes s @ [prefix] else ds_shell_prefixes s
            | None \<Rightarrow> ds_shell_prefixes s)\<rparr>)"

definition gate_confirm ::
    "('c, 'p) dispatch_env \<Rightarrow> 'c dispatch_state \<Rightarrow> string \<Rightarrow> string option \<Rightarrow> permission
     \<Rightarrow> 'c dispatch_state \<times> (agent_error + policy_decision)" where
  "gate_confirm E s0 name diff_preview perm =
     st_bind (apply_ev E s0 (ConfirmationRequired (confirmation_text E perm) diff_preview)) (\<lambda>s _.
     case ds_replies s of
       None \<Rightarrow> fail_batch E s ''interactive policy requires a verdict channel''
     | Some [] \<Rightarrow> fail_batch E s ''policy verdict channel closed''
     | Some (reply # rest) \<Rightarrow>
         let s1 = s\<lparr>ds_replies := Some rest\<rparr> in
         (case resolve_interactive (de_mode E) (now_of E s1 0) (session_of s1) perm (ir_verdict reply) (reply_reason reply) of
            Inl e \<Rightarrow> fail_batch E s1 (policy_engine_error_to_string e)
          | Inr d \<Rightarrow>
              st_bind (apply_ev E (remember_reply (record_decision s1 ''interactive'' d name) perm reply d) (TextDelta []))
                (\<lambda>s2 _. (s2, Inr d))))"

definition gate_automatic ::
    "('c, 'p) dispatch_env \<Rightarrow> 'c dispatch_state \<Rightarrow> string \<Rightarrow> string option \<Rightarrow> permission
     \<Rightarrow> 'c dispatch_state \<times> (agent_error + policy_decision)" where
  "gate_automatic E s name diff_preview perm =
     (case evaluate_automatic_for_tool (de_glob E) (de_mode E) (now_of E s 0) (session_of s) perm (Some name) of
        Inr d \<Rightarrow> (record_decision s ''tool:auto'' d name, Inr d)
      | Inl e \<Rightarrow>
          (case (de_mode E, e) of
             (DenyAll, _) \<Rightarrow> fail_batch E s (policy_engine_error_to_string e)
           | (Configured _, _) \<Rightarrow> fail_batch E s (policy_engine_error_to_string e)
           | (_, InteractiveRequiresCaller) \<Rightarrow> gate_confirm E s name diff_preview perm
           | (_, NotInteractive) \<Rightarrow> fail_batch E s (policy_engine_error_to_string e)))"

definition is_write :: "permission \<Rightarrow> bool" where
  "is_write perm = (case perm of WriteFile _ \<Rightarrow> True | _ \<Rightarrow> False)"

definition shell_prefix_hit :: "'c dispatch_state \<Rightarrow> permission \<Rightarrow> bool" where
  "shell_prefix_hit s perm =
     (case perm of ExecuteCommand command _ \<Rightarrow> list_ex (\<lambda>pfx. starts_with pfx command) (ds_shell_prefixes s)
      | _ \<Rightarrow> False)"

definition gate_permission ::
    "('c, 'p) dispatch_env \<Rightarrow> 'c dispatch_state \<Rightarrow> string \<Rightarrow> string option \<Rightarrow> permission
     \<Rightarrow> 'c dispatch_state \<times> (agent_error + policy_decision)" where
  "gate_permission E s name diff_preview perm =
     (if ds_allow_all_writes s \<and> is_write perm
      then gate_remembered E s name perm ''remembered:write'' ''allow all writes for session''
      else if shell_prefix_hit s perm
      then gate_remembered E s name perm ''remembered:shell-prefix'' ''shell command prefix allowed for session''
      else if list_ex (permission_eq perm) (ds_allowlist s)
      then gate_remembered E s name perm ''remembered:session'' ''session remembered approval for identical permission''
      else gate_automatic E s name diff_preview perm)"

text \<open>The loop over the permissions of a call: the message of the first denial, if any.\<close>

fun gate_permissions ::
    "('c, 'p) dispatch_env \<Rightarrow> 'c dispatch_state \<Rightarrow> string \<Rightarrow> string option \<Rightarrow> permission list
     \<Rightarrow> 'c dispatch_state \<times> (agent_error + string option)" where
  "gate_permissions E s name diff_preview [] = (s, Inr None)"
| "gate_permissions E s name diff_preview (perm # perms) =
     st_bind (gate_permission E s name diff_preview perm) (\<lambda>s1 d.
     if \<not> pd_allowed d
     then (s1, Inr (Some (''policy denied for tool '' @ tick @ name @ tick @ '' permission '' @ tick
             @ de_permission_text E perm @ tick @ '': '' @ pd_reason d)))
     else gate_permissions E s1 name diff_preview perms)"

definition gate_mcp ::
    "('c, 'p) dispatch_env \<Rightarrow> 'c dispatch_state \<Rightarrow> string \<Rightarrow> (string \<times> string) option
     \<Rightarrow> 'c dispatch_state \<times> string option" where
  "gate_mcp E s name ctx =
     (case ctx of
        Some (server, tool) \<Rightarrow>
          (let d = evaluate_mcp_automatic (de_glob E) (de_mode E) (now_of E s 0) (session_of s) (Some name)
                     (Some server) (Some tool) in
           (record_decision s ''mcp:auto'' d name,
            if pd_allowed d then None
            else Some (''policy denied for MCP tool '' @ tick @ name @ tick @ '' (server='' @ tick @ server @ tick
                   @ '', tool='' @ tick @ tool @ tick @ ''): '' @ pd_reason d)))
      | None \<Rightarrow>
          (if name = ''mcp_tool''
           then
             (let d = evaluate_mcp_automatic (de_glob E) (de_mode E) (now_of E s 0) (session_of s) (Some name) None None in
              (record_decision s ''mcp:auto'' d name,
               if pd_allowed d then None
               else Some (''policy denied for MCP tool '' @ tick @ name @ tick @ '' due to malformed context: '' @ pd_reason d)))
           else (s, None)))"

section \<open>One call\<close>

record tool_call =
  tc_id :: string
  tc_name :: string
  tc_arguments :: json

record approved_slot =
  ap_index :: nat
  ap_id :: string
  ap_name :: string
  ap_arguments :: json
  ap_tool :: nat
  ap_mcp :: "(string \<times> string) option"

datatype admission = Refused tool_call_result | Approved approved_slot

definition refusal :: "tool_call \<Rightarrow> tool_error_code \<Rightarrow> string \<Rightarrow> tool_call_result" where
  "refusal call error_code msg =
     \<lparr>tr_call_id = tc_id call, tr_tool_name = tc_name call, tr_output = OutError error_code msg, tr_success = False,
      tr_arguments = tc_arguments call, tr_latency_ms = 0\<rparr>"

definition refuse ::
    "('c, 'p) dispatch_env \<Rightarrow> 'c dispatch_state \<Rightarrow> tool_call \<Rightarrow> tool_error_code \<Rightarrow> string
     \<Rightarrow> 'c dispatch_state \<times> (agent_error + admission)" where
  "refuse E s call error_code msg =
     st_bind (apply_ev E s (ToolCallCompleted (tc_id call) (tc_name call) False msg)) (\<lambda>s1 _.
     (s1, Inr (Refused (refusal call error_code msg))))"

definition matching_tools :: "('c, 'p) dispatch_env \<Rightarrow> string \<Rightarrow> nat list" where
  "matching_tools E name = filter (\<lambda>i. ti_name (de_tools E ! i) = name) [0..<length (de_tools E)]"

definition MAX_WRITE_FILE_CALLS_PER_ASSISTANT_MESSAGE :: u32 where
  "MAX_WRITE_FILE_CALLS_PER_ASSISTANT_MESSAGE = 2"

definition TOOL_REPEAT_LIMIT :: u32 where
  "TOOL_REPEAT_LIMIT = 5"

definition EN_DASH2 :: string where
  "EN_DASH2 = [CHR 0xE2, CHR 0x94, CHR 0x80]"

definition too_many_writes :: string where
  "too_many_writes = ''Only two write_file calls per assistant message, please. Complete and verify the current file(s), then continue in the next turn.''"

definition call_count :: "'c dispatch_state \<Rightarrow> string \<Rightarrow> u32" where
  "call_count s name = (case hm_get (ds_tool_counts s) name of Some n \<Rightarrow> n | None \<Rightarrow> 0)"

text \<open>The gates after the limits: MCP policy, then the concrete permissions.\<close>

definition admit_by_policy ::
    "('c, 'p) dispatch_env \<Rightarrow> 'c dispatch_state \<Rightarrow> nat \<Rightarrow> tool_call \<Rightarrow> nat
     \<Rightarrow> 'c dispatch_state \<times> (agent_error + admission)" where
  "admit_by_policy E s idx call tool_idx =
     (let tool = de_tools E ! tool_idx; name = tc_name call; args = tc_arguments call;
          perms = concrete_permissions (de_patch E) (de_canon E) tool name args (de_root E);
          diff_preview = de_diff_preview E name args in
      case gate_mcp E s name (ti_mcp_context tool) of
        (s1, Some msg) \<Rightarrow> refuse E (record_policy_denial s1) call PermissionDenied msg
      | (s1, None) \<Rightarrow>
          st_bind (gate_permissions E s1 name diff_preview perms) (\<lambda>s2 denial.
          case denial of
            Some msg \<Rightarrow> refuse E (record_policy_denial s2) call PermissionDenied msg
          | None \<Rightarrow>
              (s2, Inr (Approved
                 \<lparr>ap_index = idx, ap_id = tc_id call, ap_name = name, ap_arguments = args, ap_tool = tool_idx,
                  ap_mcp = ti_mcp_context tool\<rparr>))))"

definition admit_by_repeats ::
    "('c, 'p) dispatch_env \<Rightarrow> 'c dispatch_state \<Rightarrow> nat \<Rightarrow> tool_call \<Rightarrow> nat
     \<Rightarrow> 'c dispatch_state \<times> (agent_error + admission)" where
  "admit_by_repeats E s idx call tool_idx =
     (let name = tc_name call; n = call_count s name in
      if (name = ''list_directory'' \<or> name = ''read_file'') \<and> n \<ge> TOOL_REPEAT_LIMIT
      then
        st_bind (refuse E s call InvalidArgs (''You have called '' @ name @ '' '' @ show_nat (unat n)
            @ '' times already. Stop exploring and start building. Use write_file to create the files needed for this task. Make your best attempt now.''))
          (\<lambda>s1 r. st_bind (apply_ev E s1 (StatusInfo (EN_DASH2 @ '' '' @ name @ '' called '' @ show_nat (unat n)
              @ '' times, nudging agent to act '' @ EN_DASH2))) (\<lambda>s2 _. (s2, Inr r)))
      else admit_by_policy E s idx call tool_idx)"

text \<open>\<open>writes\<close> is the number of \<open>write_file\<close> calls of the message so far; the new number is returned.\<close>

definition admit_call ::
    "('c, 'p) dispatch_env \<Rightarrow> 'c dispatch_state \<Rightarrow> nat \<Rightarrow> u32 \<Rightarrow> tool_call
     \<Rightarrow> 'c dispatch_state \<times> (agent_error + u32 \<times> admission)" where
  "admit_call E s idx writes call =
     (let name = tc_name call; matching = matching_tools E name;
          keep = (\<lambda>w r. st_bind r (\<lambda>s1 a. (s1, Inr (w, a)))) in
      case matching of
        [] \<Rightarrow> keep writes (refuse E s call InvalidArgs (''tool not found: '' @ name))
      | tool_idx # _ \<Rightarrow>
          if 1 < length matching \<and> 1 < length (List.map_filter (\<lambda>i. ti_mcp_context (de_tools E ! i)) matching)
          then keep writes (refuse E (record_policy_denial s) call PermissionDenied
             (''policy denied for tool '' @ tick @ name @ tick
              @ '': ambiguous MCP context (multiple servers expose the same tool name)''))
          else
            case ti_validate_arguments (de_tools E ! tool_idx) (tc_arguments call) of
              Inl msg \<Rightarrow> keep writes (refuse E s call InvalidArgs msg)
            | Inr _ \<Rightarrow>
                let writes' = (if name = ''write_file'' then writes + 1 else writes) in
                if name = ''write_file'' \<and> writes' > MAX_WRITE_FILE_CALLS_PER_ASSISTANT_MESSAGE
                then keep writes' (refuse E s call InvalidArgs too_many_writes)
                else keep writes' (admit_by_repeats E s idx call tool_idx))"

fun admit_calls ::
    "('c, 'p) dispatch_env \<Rightarrow> 'c dispatch_state \<Rightarrow> nat \<Rightarrow> u32 \<Rightarrow> tool_call list
     \<Rightarrow> 'c dispatch_state \<times> (agent_error + admission list)" where
  "admit_calls E s idx writes [] = (s, Inr [])"
| "admit_calls E s idx writes (call # calls) =
     st_bind (admit_call E s idx writes call) (\<lambda>s1 (writes', a).
     st_bind (admit_calls E s1 (Suc idx) writes' calls) (\<lambda>s2 rest. (s2, Inr (a # rest))))"

section \<open>Running the approved calls\<close>

fun approved_slots :: "admission list \<Rightarrow> approved_slot list" where
  "approved_slots [] = []"
| "approved_slots (Approved a # as) = a # approved_slots as"
| "approved_slots (Refused _ # as) = approved_slots as"

fun dispatch_approved ::
    "('c, 'p) dispatch_env \<Rightarrow> 'c dispatch_state \<Rightarrow> approved_slot list \<Rightarrow> 'c dispatch_state \<times> (agent_error + unit)" where
  "dispatch_approved E s [] = (s, Inr ())"
| "dispatch_approved E s (a # as) =
     (let s1 = (case ap_mcp a of
          Some (server, tool) \<Rightarrow>
            s\<lparr>ds_agent := (ds_agent s)\<lparr>as_mcp_call_context :=
               hm_insert (ap_id a) \<lparr>mc_server = server, mc_tool = tool\<rparr> (as_mcp_call_context (ds_agent s))\<rparr>\<rparr>
        | None \<Rightarrow> s) in
      st_bind (apply_ev E s1 (ToolCallDispatched (ap_id a) (ap_name a) (ap_arguments a))) (\<lambda>s2 _.
      dispatch_approved E s2 as))"

text \<open>\<open>execute_single_tool_call\<close>: \<open>run\<close> gives the output and the latency of a call.\<close>

definition output_success :: "tool_output \<Rightarrow> bool" where
  "output_success out = (case out of OutSuccess _ \<Rightarrow> True | _ \<Rightarrow> False)"

definition execute_single_tool_call ::
    "(approved_slot \<Rightarrow> tool_output \<times> u64) \<Rightarrow> approved_slot \<Rightarrow> tool_call_result" where
  "execute_single_tool_call run a =
     (let (out, latency) = run a in
      \<lparr>tr_call_id = ap_id a, tr_tool_name = ap_name a, tr_output = out, tr_success = output_success out,
       tr_arguments = ap_arguments a, tr_latency_ms = latency\<rparr>)"

definition bump_count :: "string \<Rightarrow> 'c dispatch_state \<Rightarrow> 'c dispatch_state" where
  "bump_count name s = s\<lparr>ds_tool_counts := hm_insert name (call_count s name + 1) (ds_tool_counts s)\<rparr>"

text \<open>A question is answered over the channel when there is one.\<close>

definition resolve_question ::
    "('c, 'p) dispatch_env \<Rightarrow> 'c dispatch_state \<Rightarrow> tool_call_result
     \<Rightarrow> 'c dispatch_state \<times> (agent_error + tool_call_result)" where
  "resolve_question E s0 r =
     (case tr_output r of
        OutQuestion question suggestions \<Rightarrow>
          (case ds_answers s0 of
             None \<Rightarrow>
               (s0, Inr (r\<lparr>tr_output := OutError PermissionDenied
                  ''ask_followup requires an interactive session with a TUI answer channel'', tr_success := False\<rparr>))
           | Some _ \<Rightarrow>
               st_bind (apply_ev E s0 (QuestionRequired (tr_call_id r) question suggestions)) (\<lambda>s _.
               case ds_answers s of
                 Some (answer # rest) \<Rightarrow>
                   (s\<lparr>ds_answers := Some rest\<rparr>, Inr (r\<lparr>tr_output := OutSuccess answer, tr_success := True\<rparr>))
               | _ \<Rightarrow> fail_batch E s ''question answer channel closed''))
      | _ \<Rightarrow> (s0, Inr r))"

definition note_modified_path :: "tool_call_result \<Rightarrow> 'c dispatch_state \<Rightarrow> 'c dispatch_state" where
  "note_modified_path r s =
     (if \<not> tr_success r then s
      else
        let rel = (if tr_tool_name r = ''write_file'' \<or> tr_tool_name r = ''edit'' then json_str ''path'' (tr_arguments r)
                   else if tr_tool_name r = ''apply_patch'' then json_str ''file_path'' (tr_arguments r) else None) in
        case rel of
          Some p \<Rightarrow> if list_ex (path_eq p) (ds_modified_paths s) then s
                     else s\<lparr>ds_modified_paths := ds_modified_paths s @ [p]\<rparr>
        | None \<Rightarrow> s)"

text \<open>\<open>try_auto_commit_after_file_tool\<close> runs git; the audit event it yields, if any, is a parameter.\<close>

definition note_auto_commit ::
    "('c, 'p) dispatch_env \<Rightarrow> tool_call_result \<Rightarrow> 'c dispatch_state \<Rightarrow> 'c dispatch_state" where
  "note_auto_commit E r s =
     (if de_auto_commit E \<and> de_has_git_root E \<and> tr_success r
      then (case de_commit_event E r of Some ev \<Rightarrow> push_audit s ev | None \<Rightarrow> s)
      else s)"

fun record_results ::
    "('c, 'p) dispatch_env \<Rightarrow> 'c dispatch_state \<Rightarrow> (nat \<times> tool_call_result) list
     \<Rightarrow> 'c dispatch_state \<times> (agent_error + (nat \<times> tool_call_result) list)" where
  "record_results E s [] = (s, Inr [])"
| "record_results E s ((i, r) # rs) =
     st_bind (resolve_question E (bump_count (tr_tool_name r) s) r) (\<lambda>s1 r1.
     let s2 = note_modified_path r1 s1 in
     case tr_output r1 of
       OutQuestion _ _ \<Rightarrow> fail_batch E s2 ''internal: unresolved Question tool output''
     | out \<Rightarrow>
         st_bind (apply_ev E s2 (ToolCallCompleted (tr_call_id r1) (tr_tool_name r1) (tr_success r1)
             (case out of OutSuccess m \<Rightarrow> m | OutError _ m \<Rightarrow> m | OutQuestion m _ \<Rightarrow> m))) (\<lambda>s3 _.
         st_bind (record_results E (note_auto_commit E r1 s3) rs) (\<lambda>s4 rest. (s4, Inr ((i, r1) # rest)))))"

definition tool_output_is_timeout :: "tool_output \<Rightarrow> bool" where
  "tool_output_is_timeout out =
     (case out of
        OutError _ message \<Rightarrow>
          (let lower = to_ascii_lowercase message in
           str_contains ''timed out'' lower \<or> str_contains ''timeout'' lower)
      | _ \<Rightarrow> False)"

definition record_tool_completion_metrics :: "tool_call_result \<Rightarrow> 'c dispatch_state \<Rightarrow> 'c dispatch_state" where
  "record_tool_completion_metrics r s =
     (let m = ds_reliability s;
          total = saturating_add64 (rel_tool_calls_total m) 1;
          latency = saturating_add64 (rel_latency_total m) (tr_latency_ms r) in
      s\<lparr>ds_reliability := m\<lparr>rel_tool_calls_total := total,
          rel_tool_calls_success := (if tr_success r then saturating_add64 (rel_tool_calls_success m) 1 else rel_tool_calls_success m),
          rel_tool_calls_failure := (if tr_success r then rel_tool_calls_failure m else saturating_add64 (rel_tool_calls_failure m) 1),
          rel_latency_total := latency,
          rel_latency_avg := (if total = 0 then 0 else latency div total),
          rel_latency_p95 := None,
          rel_timeouts := (if tool_output_is_timeout (tr_output r) then saturating_add64 (rel_timeouts m) 1 else rel_timeouts m)\<rparr>,
        ds_latency_samples := ds_latency_samples s @ [tr_latency_ms r]\<rparr>)"

definition append_tool_message :: "tool_call_result \<Rightarrow> 'c dispatch_state \<Rightarrow> 'c dispatch_state" where
  "append_tool_message r s =
     s\<lparr>ds_context := ds_context s @ [(tr_call_id r, tr_tool_name r, tr_output r)]\<rparr>"

text \<open>The slots of the message, in call order: a refusal as decided, a result as recorded.\<close>

fun fill_slots :: "admission list \<Rightarrow> (nat \<times> tool_call_result) list \<Rightarrow> tool_call_result option list" where
  "fill_slots [] results = []"
| "fill_slots (Refused r # as) results = Some r # fill_slots as results"
| "fill_slots (Approved a # as) results = map_of results (ap_index a) # fill_slots as results"

fun append_results ::
    "('c, 'p) dispatch_env \<Rightarrow> 'c dispatch_state \<Rightarrow> tool_call_result option list
     \<Rightarrow> 'c dispatch_state \<times> (agent_error + unit)" where
  "append_results E s [] = (s, Inr ())"
| "append_results E s (None # rs) = fail_batch E s ''internal: missing tool result slot''"
| "append_results E s (Some r # rs) =
     append_results E (append_tool_message r (record_tool_completion_metrics r s)) rs"

text \<open>\<open>finish\<close> is the order in which the parallel calls complete.\<close>

definition dispatch_tool_calls_batch ::
    "('c, 'p) dispatch_env \<Rightarrow> (approved_slot \<Rightarrow> tool_output \<times> u64)
     \<Rightarrow> ((nat \<times> tool_call_result) list \<Rightarrow> (nat \<times> tool_call_result) list)
     \<Rightarrow> 'c dispatch_state \<Rightarrow> tool_call list \<Rightarrow> 'c dispatch_state \<times> (agent_error + unit)" where
  "dispatch_tool_calls_batch E run finish s0 calls =
     (let s = s0\<lparr>ds_agent := (ds_agent s0)\<lparr>as_batch_remaining := 0\<rparr>\<rparr> in
      st_bind (admit_calls E s 0 0 calls) (\<lambda>s1 admissions.
      let approved = approved_slots admissions in
      st_bind (dispatch_approved E s1 approved) (\<lambda>s2 _.
      let s3 = (if approved = [] then s2
                else s2\<lparr>ds_agent := (ds_agent s2)\<lparr>as_batch_remaining := of_nat (length approved)\<rparr>\<rparr>);
          completed = finish (map (\<lambda>a. (ap_index a, execute_single_tool_call run a)) approved) in
      st_bind (record_results E s3 (sort_key fst completed)) (\<lambda>s4 results.
      append_results E s4 (fill_slots admissions results)))))"

end
