(* ===== verification/Policy_Properties.thy ===== *)
theory Policy_Properties
  imports Policy
begin

text \<open>
  What the policy engine decides: the rule evaluation against a declarative reading of the rules, the
  choice of the reported rule, the lexical normalisation, the modes, and what a merge may change.
\<close>

section \<open>Matching\<close>

lemma max_rule_None [simp]: "max_rule ms = None \<longleftrightarrow> ms = []"
  by (cases ms) simp_all

lemma rule_le_refl [simp]: "rule_le m m"
  by (simp add: rule_le_def)

lemma rule_le_trans: "rule_le a b \<Longrightarrow> rule_le b c \<Longrightarrow> rule_le a c"
  by (auto simp: rule_le_def)

lemma rule_le_total: "rule_le a b \<or> rule_le b a"
  by (auto simp: rule_le_def)

lemma fold_max_rule:
  "fold (\<lambda>b a. if rule_le a b then b else a) ms m \<in> insert m (set ms) \<and>
   rule_le m (fold (\<lambda>b a. if rule_le a b then b else a) ms m) \<and>
   (\<forall>x \<in> set ms. rule_le x (fold (\<lambda>b a. if rule_le a b then b else a) ms m))"
proof (induction ms arbitrary: m)
  case (Cons x ms)
  let ?n = "if rule_le m x then x else m"
  have "rule_le m ?n" "rule_le x ?n" using rule_le_total [of m x] by auto
  with Cons.IH [of ?n] show ?case by (auto dest: rule_le_trans split: if_splits)
qed simp

lemma max_rule_Some:
  assumes "max_rule ms = Some m"
  shows "m \<in> set ms" "\<And>x. x \<in> set ms \<Longrightarrow> rule_le x m"
  using assms fold_max_rule by (cases ms; fastforce)+

definition pattern_hits :: "'x glob_ext_scheme \<Rightarrow> bool \<Rightarrow> string \<Rightarrow> string \<Rightarrow> bool" where
  "pattern_hits G cs subject p \<longleftrightarrow> gl_parses G p \<and> gl_matches G cs p subject"

definition prefix_hits :: "string \<Rightarrow> string \<Rightarrow> bool" where
  "prefix_hits subject p \<longleftrightarrow> trim_ws p \<noteq> [] \<and> starts_with (trim_ws p) subject"

lemma set_map_filter: "y \<in> set (List.map_filter f xs) \<longleftrightarrow> (\<exists>x \<in> set xs. f x = Some y)"
  by (induction xs) (auto split: option.splits)

lemma map_filter_enumerate:
  "m \<in> set (List.map_filter f (enumerate 0 ps)) \<longleftrightarrow> (\<exists>i < length ps. f (i, ps ! i) = Some m)"
  by (auto simp: set_map_filter in_set_enumerate_eq)

lemma map_filter_enumerate_Nil:
  "List.map_filter f (enumerate 0 ps) = [] \<longleftrightarrow> (\<forall>i < length ps. f (i, ps ! i) = None)"
  using map_filter_enumerate [of _ f ps] by (metis last_in_set not_None_eq empty_iff list.set(1))

lemma best_pattern_match_with_None:
  "best_pattern_match_with G cs ps s = None \<longleftrightarrow> (\<forall>p \<in> set ps. \<not> pattern_hits G cs s p)"
  by (simp add: best_pattern_match_with_def map_filter_enumerate_Nil pattern_hits_def all_set_conv_all_nth) blast

lemma best_prefix_match_None:
  "best_prefix_match ps s = None \<longleftrightarrow> (\<forall>p \<in> set ps. \<not> prefix_hits s p)"
  by (simp add: best_prefix_match_def map_filter_enumerate_Nil prefix_hits_def all_set_conv_all_nth Let_def) blast

lemma evaluate_matches_Allow:
  "fst (evaluate_matches scope kind s am dm) = Allow \<longleftrightarrow> dm = None \<and> am \<noteq> None"
  by (auto simp: evaluate_matches_def split: option.splits)

section \<open>Verdicts\<close>

text \<open>The declarative reading of a rule set: some allow rule matches and no deny rule does; deny rules
  of paths ignore case.\<close>

definition glob_allows :: "'x glob_ext_scheme \<Rightarrow> bool \<Rightarrow> pattern_rules \<Rightarrow> string \<Rightarrow> bool" where
  "glob_allows G deny_case rules s \<longleftrightarrow>
     list_ex (pattern_hits G True s) (pr_allow rules) \<and> \<not> list_ex (pattern_hits G deny_case s) (pr_deny rules)"

fun permission_allowed :: "'x glob_ext_scheme \<Rightarrow> policy_config \<Rightarrow> permission \<Rightarrow> bool" where
  "permission_allowed G cfg (ReadFile p) = (case normalize_path_for_policy p of None \<Rightarrow> False | Some s \<Rightarrow> glob_allows G False (pc_read cfg) s)"
| "permission_allowed G cfg (ListDirectory p) = (case normalize_path_for_policy p of None \<Rightarrow> False | Some s \<Rightarrow> glob_allows G False (pc_read cfg) s)"
| "permission_allowed G cfg (WriteFile p) = (case normalize_path_for_policy p of None \<Rightarrow> False | Some s \<Rightarrow> glob_allows G False (pc_write cfg) s)"
| "permission_allowed G cfg (ExecuteCommand c d) =
     (list_ex (prefix_hits c) (pr_allow (pc_shell cfg)) \<and> \<not> list_ex (prefix_hits c) (pr_deny (pc_shell cfg)))"
| "permission_allowed G cfg (NetworkFetch u) = (case extract_domain u of None \<Rightarrow> False | Some d \<Rightarrow> glob_allows G True (pc_network cfg) d)"

lemma evaluate_pattern_rules_Allow:
  "fst (evaluate_pattern_rules G scope kind s rules) = Allow \<longleftrightarrow> glob_allows G True rules s"
  by (auto simp: evaluate_pattern_rules_def evaluate_matches_Allow best_pattern_match_def
      best_pattern_match_with_None glob_allows_def list_ex_iff)

lemma evaluate_path_rules_Allow:
  "fst (evaluate_path_rules G scope kind s rules) = Allow \<longleftrightarrow> glob_allows G False rules s"
  by (auto simp: evaluate_path_rules_def evaluate_matches_Allow best_pattern_match_def
      best_pattern_match_with_None glob_allows_def list_ex_iff)

lemma evaluate_path_permission_Allow:
  "fst (evaluate_path_permission G scope p rules) = Allow \<longleftrightarrow>
     (case normalize_path_for_policy p of None \<Rightarrow> False | Some s \<Rightarrow> glob_allows G False rules s)"
  by (auto simp: evaluate_path_permission_def evaluate_path_rules_Allow deny_unnormalizable_path_def
      split: option.splits)

text \<open>C16: The rule evaluation allows a permission exactly when some allow rule of its rule set matches
  its subject and no deny rule does; a path that climbs out of the root and a URL without a host are
  denied.\<close>

theorem policy_verdict_is_declarative:
  "fst (evaluate_permission G cfg perm) = Allow \<longleftrightarrow> permission_allowed G cfg perm"
  by (cases perm)
     (auto simp: evaluate_path_permission_Allow evaluate_pattern_rules_Allow evaluate_prefix_rules_def
       evaluate_matches_Allow best_prefix_match_None list_ex_iff split: option.splits)

lemma evaluate_permission_cases:
  "fst (evaluate_permission G cfg perm) = (if permission_allowed G cfg perm then Allow else Deny)"
  using policy_verdict_is_declarative [of G cfg perm] by (cases "fst (evaluate_permission G cfg perm)") auto

section \<open>The reported rule\<close>

text \<open>The rule a decision names is one that matches, and the most specific of those; among equally
  specific ones it is the one declared first.\<close>

theorem best_match_is_most_specific:
  assumes "best_pattern_match_with G cs ps s = Some m"
  shows "rm_index m < length ps \<and> ps ! rm_index m = rm_pattern m \<and> pattern_hits G cs s (rm_pattern m) \<and>
    rm_specificity m = pattern_specificity (rm_pattern m) \<and>
    (\<forall>j < length ps. pattern_hits G cs s (ps ! j) \<longrightarrow>
       pattern_specificity (ps ! j) < rm_specificity m \<or>
       pattern_specificity (ps ! j) = rm_specificity m \<and> rm_index m \<le> j)"
proof -
  let ?f = "\<lambda>(idx, pattern).
         if \<not> gl_parses G pattern then None
         else if \<not> gl_matches G cs pattern s then None
         else Some \<lparr>rm_pattern = pattern, rm_specificity = pattern_specificity pattern, rm_index = idx\<rparr>"
  have m: "max_rule (List.map_filter ?f (enumerate 0 ps)) = Some m"
    using assms by (simp add: best_pattern_match_with_def)
  obtain i where i: "i < length ps" "?f (i, ps ! i) = Some m"
    using max_rule_Some(1) [OF m] unfolding map_filter_enumerate by blast
  have "rule_le \<lparr>rm_pattern = ps ! j, rm_specificity = pattern_specificity (ps ! j), rm_index = j\<rparr> m"
    if "j < length ps" "pattern_hits G cs s (ps ! j)" for j
    by (rule max_rule_Some(2) [OF m], unfold map_filter_enumerate)
       (use that in \<open>auto simp: pattern_hits_def\<close>)
  with i show ?thesis by (auto simp: pattern_hits_def rule_le_def split: if_splits)
qed

theorem best_match_is_most_specific_witness:
  "\<exists>m. best_pattern_match_with \<lparr>gl_parses = (\<lambda>p. True), gl_matches = (\<lambda>c p s. True)\<rparr> True [''*'', ''src/*''] ''src/a'' = Some m \<and>
     rm_pattern m = ''src/*''"
proof -
  let ?G = "\<lparr>gl_parses = (\<lambda>p. True), gl_matches = (\<lambda>c p s. True)\<rparr> :: glob_ext"
  obtain m where m: "best_pattern_match_with ?G True [''*'', ''src/*''] ''src/a'' = Some m"
    using best_pattern_match_with_None [of ?G True "[''*'', ''src/*'']" "''src/a''"] by (auto simp: pattern_hits_def)
  have "pattern_specificity ''*'' = 0" "pattern_specificity ''src/*'' = 4"
    by (simp_all add: pattern_specificity_def is_char_start_def)
  with best_match_is_most_specific [OF m] have "rm_index m = 1" "rm_pattern m = [''*'', ''src/*''] ! rm_index m"
    by (auto simp: pattern_hits_def less_Suc_eq dest: spec [of _ 1])
  with m show ?thesis by auto
qed

section \<open>Normalised subjects\<close>

definition plain_segment :: "string \<Rightarrow> bool" where
  "plain_segment seg \<longleftrightarrow> seg \<noteq> [] \<and> seg \<noteq> ''.'' \<and> seg \<noteq> ''..'' \<and> slash \<notin> set seg"

lemma normalize_segments_plain:
  "normalize_segments rooted parts segs = Some out \<Longrightarrow>
   list_all plain_segment parts \<Longrightarrow> \<forall>seg \<in> set segs. slash \<notin> set seg \<Longrightarrow> list_all plain_segment out"
proof (induction rooted parts segs rule: normalize_segments.induct)
  case (2 rooted parts seg segs)
  have "list_all plain_segment (butlast parts)"
    using 2(5) by (auto simp: list_all_iff dest: in_set_butlastD)
  moreover have "list_all plain_segment (parts @ [seg])" if "seg \<noteq> []" "seg \<noteq> ''.''" "seg \<noteq> ''..''"
    using that 2(5,6) by (auto simp: plain_segment_def list_all_iff)
  ultimately show ?case using 2 by (simp split: if_splits)
qed simp

lemma split_on_no_sep: "seg \<in> set (split_on c s) \<Longrightarrow> c \<notin> set seg"
proof (induction c s arbitrary: seg rule: split_on.induct)
  case (2 c x xs)
  then show ?case by (cases "split_on c xs") (auto split: if_splits)
qed simp

lemma split_on_plain_append:
  "c \<notin> set a \<Longrightarrow> split_on c (a @ c # b) = a # split_on c b"
  by (induction a) auto

lemma split_on_plain: "c \<notin> set a \<Longrightarrow> split_on c a = [a]"
  by (induction a) auto

lemma split_on_join:
  "parts \<noteq> [] \<Longrightarrow> \<forall>p \<in> set parts. c \<notin> set p \<Longrightarrow> split_on c (join [c] parts) = parts"
proof (induction parts rule: induct_list012)
  case (3 p q ps)
  then show ?case by (simp add: split_on_plain_append)
qed (simp_all add: split_on_plain)

text \<open>The subject of a relative path is free of empty, dot and dot-dot segments (the root itself is
  shown as a single dot), and so are the segments after the root of an absolute one: a rule never
  meets an unresolved \<open>..\<close>.\<close>

theorem policy_subject_is_resolved:
  assumes "normalize_path_for_policy path = Some subject"
  shows "subject = ''.'' \<or> list_all plain_segment (split_on slash subject) \<or>
    (\<exists>prefix rest tail. split_absolute_prefix (backslash_to_slash path) = Some (prefix, rest) \<and>
       subject = prefix @ tail \<and> (tail = [] \<or> list_all plain_segment (split_on slash tail)))"
proof -
  have step: "parts = [] \<or> list_all plain_segment (split_on slash (join [slash] parts))"
    if "normalize_segments rooted [] (split_on slash rest) = Some parts" for rooted rest parts
  proof -
    have "list_all plain_segment parts"
      by (rule normalize_segments_plain [OF that]) (simp_all add: split_on_no_sep)
    then show ?thesis
      by (cases "parts = []") (simp_all add: split_on_join list_all_iff plain_segment_def)
  qed
  show ?thesis
  proof (cases "split_absolute_prefix (backslash_to_slash path)")
    case None
    with assms step show ?thesis by (auto simp: normalize_path_for_policy_def Let_def split: if_splits)
  next
    case (Some pr)
    obtain prefix rest where pr: "pr = (prefix, rest)" by (cases pr)
    with Some assms obtain parts where parts: "normalize_segments True [] (split_on slash rest) = Some parts"
      "subject = prefix @ join [slash] parts"
      by (auto simp: normalize_path_for_policy_def Let_def)
    with step [OF parts(1)] Some pr show ?thesis by auto
  qed
qed

theorem policy_subject_is_resolved_witness:
  "normalize_path_for_policy ''src/../.github/./x'' = Some ''.github/x'' \<and>
   (''.github/x'' = ''.'' \<or> list_all plain_segment (split_on slash ''.github/x''))"
proof -
  have n: "normalize_path_for_policy ''src/../.github/./x'' = Some ''.github/x''"
    by (simp add: normalize_path_for_policy_def backslash_to_slash_def split_absolute_prefix_def slash_def)
  with policy_subject_is_resolved [OF n] show ?thesis
    by (simp add: backslash_to_slash_def split_absolute_prefix_def slash_def)
qed

section \<open>The engine\<close>

text \<open>The audit record of a decision says what was decided.\<close>

definition decision_consistent :: "policy_decision \<Rightarrow> bool" where
  "decision_consistent d \<longleftrightarrow>
     (\<exists>sid t perm verdict s tn r. pd_audit d = AuditPolicyEvaluation sid t perm verdict (pd_reason d) s tn r \<and>
        (pd_allowed d \<longleftrightarrow> verdict = Allow))"

text \<open>What an automatic decision may allow: reads and fetches in the auto-approving modes, and what the
  rules allow in the configured mode, tool rules included; never a shell command otherwise.\<close>

fun automatic_may_allow ::
    "'x glob_ext_scheme \<Rightarrow> policy_mode \<Rightarrow> permission \<Rightarrow> string option \<Rightarrow> bool" where
  "automatic_may_allow G DenyAll perm tool = False"
| "automatic_may_allow G Interactive perm tool = False"
| "automatic_may_allow G (AutoApproveReads c) perm tool = (case perm of ReadFile _ \<Rightarrow> True | ListDirectory _ \<Rightarrow> True | _ \<Rightarrow> False)"
| "automatic_may_allow G (AutoApproveReadsAndFetch c) perm tool =
     (case perm of ReadFile _ \<Rightarrow> True | ListDirectory _ \<Rightarrow> True | NetworkFetch _ \<Rightarrow> True | _ \<Rightarrow> False)"
| "automatic_may_allow G (Configured cfg) perm tool =
     (permission_allowed G cfg perm \<and>
      (\<forall>name. tool = Some name \<and> has_tool_rules cfg \<longrightarrow> glob_allows G True (pc_tools cfg) name))"

lemma not_Deny [simp]: "v \<noteq> Deny \<longleftrightarrow> v = Allow"
  by (cases v) simp_all

lemma fst_Deny_iff: "fst p = Deny \<longleftrightarrow> fst p \<noteq> Allow"
  by (cases "fst p") simp_all

lemma configured_parts_spec:
  assumes "configured_parts G cfg perm tool = (allowed, reason, verdict)"
  shows "(allowed \<longleftrightarrow> verdict = Allow) \<and> (allowed \<longleftrightarrow> automatic_may_allow G (Configured cfg) perm tool)"
proof -
  obtain v r where v: "evaluate_permission G cfg perm = (v, r)" by (cases "evaluate_permission G cfg perm")
  have va: "v = Allow \<longleftrightarrow> permission_allowed G cfg perm" using policy_verdict_is_declarative [of G cfg perm] v by simp
  show ?thesis
  proof (cases tool)
    case None
    with assms v va show ?thesis by (auto simp: configured_parts_def)
  next
    case (Some name)
    obtain tv tr where tv: "evaluate_tool_name G cfg name = (tv, tr)" by (cases "evaluate_tool_name G cfg name")
    then have "tv = Allow \<longleftrightarrow> glob_allows G True (pc_tools cfg) name"
      using evaluate_pattern_rules_Allow [of G "''tool''" "''name''" name "pc_tools cfg"]
      by (simp add: evaluate_tool_name_def)
    with assms v va tv Some show ?thesis by (auto simp: configured_parts_def split: if_splits)
  qed
qed

lemma automatic_decision_spec:
  assumes "evaluate_automatic_for_tool G mode t sid perm tool = Inr d"
  shows "(pd_allowed d \<longleftrightarrow> automatic_may_allow G mode perm tool) \<and> decision_consistent d"
proof (cases mode)
  case (Configured cfg)
  obtain allowed reason verdict where p: "configured_parts G cfg perm tool = (allowed, reason, verdict)"
    by (cases "configured_parts G cfg perm tool") auto
  with assms Configured have d: "d = decision_from_parts sid t perm verdict allowed reason"
    by (simp add: evaluate_automatic_for_tool_def)
  then have "pd_allowed d = allowed" "decision_consistent d"
    using configured_parts_spec [OF p] by (auto simp: decision_consistent_def decision_from_parts_def)
  with configured_parts_spec [OF p] Configured show ?thesis by blast
qed (use assms in \<open>auto simp: evaluate_automatic_for_tool_def auto_read_def write_confirmation_def
       decision_from_parts_def decision_consistent_def split: permission.splits if_splits\<close>)

text \<open>An automatic decision allows exactly what its mode may allow, and its audit record states the
  same verdict and reason: nothing in deny-all mode, never a write or a shell command outside the
  configured mode, and there only what the rules of the permission and of the tool allow.\<close>

theorem automatic_decision_sound:
  assumes "evaluate_automatic_for_tool G mode t sid perm tool = Inr d"
  shows "(pd_allowed d \<longleftrightarrow> automatic_may_allow G mode perm tool) \<and> decision_consistent d"
  using assms by (rule automatic_decision_spec)

theorem automatic_decision_sound_witness:
  "\<exists>d. evaluate_automatic_for_tool \<lparr>gl_parses = (\<lambda>p. True), gl_matches = (\<lambda>c p s. p = s)\<rparr>
      (AutoApproveReads False) 0 ''s'' (WriteFile ''a'') None = Inr d \<and> \<not> pd_allowed d"
proof -
  let ?G = "\<lparr>gl_parses = (\<lambda>p. True), gl_matches = (\<lambda>c p s. p = s)\<rparr> :: glob_ext"
  obtain d where d: "evaluate_automatic_for_tool ?G (AutoApproveReads False) 0 ''s'' (WriteFile ''a'') None = Inr d"
    by (simp add: evaluate_automatic_for_tool_def write_confirmation_def)
  from automatic_decision_sound [OF d] d show ?thesis by auto
qed

lemma evaluate_mcp_action_Allow:
  "fst (evaluate_mcp_action G cfg s tool) = Allow \<longleftrightarrow>
     trimmed_name s \<noteq> [] \<and> trimmed_name tool \<noteq> [] \<and>
     glob_allows G True (pc_mcp_servers cfg) (trimmed_name s) \<and> glob_allows G True (pc_mcp_tools cfg) (trimmed_name tool)"
proof -
  obtain sv sr where sv: "evaluate_pattern_rules G ''mcp.server'' ''server'' (trimmed_name s) (pc_mcp_servers cfg) = (sv, sr)"
    by (cases "evaluate_pattern_rules G ''mcp.server'' ''server'' (trimmed_name s) (pc_mcp_servers cfg)")
  obtain tv tr where tv: "evaluate_pattern_rules G ''mcp.tool'' ''tool'' (trimmed_name tool) (pc_mcp_tools cfg) = (tv, tr)"
    by (cases "evaluate_pattern_rules G ''mcp.tool'' ''tool'' (trimmed_name tool) (pc_mcp_tools cfg)")
  have "sv = Allow \<longleftrightarrow> glob_allows G True (pc_mcp_servers cfg) (trimmed_name s)"
    "tv = Allow \<longleftrightarrow> glob_allows G True (pc_mcp_tools cfg) (trimmed_name tool)"
    using evaluate_pattern_rules_Allow [of G] sv tv by (metis fst_conv)+
  then show ?thesis by (auto simp: evaluate_mcp_action_def Let_def sv tv)
qed

text \<open>A call of an external tool is allowed only in the configured mode, with a named server and a
  named tool that both have an allowing rule and no denying one.\<close>

theorem mcp_fails_closed:
  assumes "pd_allowed (evaluate_mcp_automatic G mode t sid dispatch server tool)"
  shows "\<exists>cfg. mode = Configured cfg \<and> trimmed_name server \<noteq> [] \<and> trimmed_name tool \<noteq> [] \<and>
    glob_allows G True (pc_mcp_servers cfg) (trim_ws (trimmed_name server)) \<and>
    glob_allows G True (pc_mcp_tools cfg) (trim_ws (trimmed_name tool))"
proof (cases mode)
  case (Configured cfg)
  have "fst (mcp_parts G cfg dispatch server tool)"
    using assms Configured by (simp add: evaluate_mcp_automatic_def Let_def split: prod.splits)
  then have "trimmed_name server \<noteq> []" "trimmed_name tool \<noteq> []"
    "fst (evaluate_mcp_action G cfg (Some (trimmed_name server)) (Some (trimmed_name tool))) = Allow"
    by (auto simp: mcp_parts_def Let_def split: prod.splits option.splits if_splits)
  with Configured show ?thesis by (auto simp: evaluate_mcp_action_Allow trimmed_name_def)
qed (use assms in \<open>simp_all add: evaluate_mcp_automatic_def\<close>)

theorem mcp_fails_closed_witness:
  "\<exists>cfg. pd_allowed (evaluate_mcp_automatic \<lparr>gl_parses = (\<lambda>p. True), gl_matches = (\<lambda>c p s. p = s)\<rparr>
       (Configured cfg) 0 ''s'' None (Some ''x'') (Some ''y'')) \<and> pr_allow (pc_mcp_tools cfg) = [''y'']"
proof -
  let ?G = "\<lparr>gl_parses = (\<lambda>p. True), gl_matches = (\<lambda>c p s. p = s)\<rparr> :: glob_ext"
  let ?cfg = "(built_in_policy_profile Prod)\<lparr>pc_mcp_servers := \<lparr>pr_allow = [''x''], pr_deny = []\<rparr>,
     pc_mcp_tools := \<lparr>pr_allow = [''y''], pr_deny = []\<rparr>\<rparr>"
  have trims: "trim_ws ''x'' = ''x''" "trim_ws ''y'' = ''y''"
    by (code_simp, code_simp)
  have a: "fst (evaluate_mcp_action ?G ?cfg (Some ''x'') (Some ''y'')) = Allow"
    by (simp add: evaluate_mcp_action_Allow trimmed_name_def trims glob_allows_def pattern_hits_def)
  have "pd_allowed (evaluate_mcp_automatic ?G (Configured ?cfg) 0 ''s'' None (Some ''x'') (Some ''y''))"
    using a by (auto simp: evaluate_mcp_automatic_def mcp_parts_def trimmed_name_def trims has_mcp_rules_def Let_def
        split: prod.splits)
  with mcp_fails_closed [OF this] show ?thesis by (intro exI [of _ ?cfg]) simp
qed

section \<open>Profiles and merging\<close>

lemma set_keep_unseen: "set (keep_unseen seen vs) = set vs - set seen"
  by (induction seen vs rule: keep_unseen.induct) auto

lemma set_merge_rule_list: "set (merge_rule_list base overlay) = set base \<union> set overlay"
  by (auto simp: merge_rule_list_def dedup_keep_last_def set_keep_unseen)

lemma list_ex_merge: "list_ex P (merge_rule_list a b) \<longleftrightarrow> list_ex P a \<or> list_ex P b"
  by (auto simp: list_ex_iff set_merge_rule_list)

lemma glob_allows_merge:
  "glob_allows G c (merge_rules a b) s \<longleftrightarrow>
     (list_ex (pattern_hits G True s) (pr_allow a) \<or> list_ex (pattern_hits G True s) (pr_allow b)) \<and>
     \<not> list_ex (pattern_hits G c s) (pr_deny a) \<and> \<not> list_ex (pattern_hits G c s) (pr_deny b)"
  by (auto simp: glob_allows_def merge_rules_def list_ex_merge)

fun denied_by_rule :: "'x glob_ext_scheme \<Rightarrow> policy_config \<Rightarrow> permission \<Rightarrow> bool" where
  "denied_by_rule G cfg (ReadFile p) = (case normalize_path_for_policy p of None \<Rightarrow> True | Some s \<Rightarrow> list_ex (pattern_hits G False s) (pr_deny (pc_read cfg)))"
| "denied_by_rule G cfg (ListDirectory p) = (case normalize_path_for_policy p of None \<Rightarrow> True | Some s \<Rightarrow> list_ex (pattern_hits G False s) (pr_deny (pc_read cfg)))"
| "denied_by_rule G cfg (WriteFile p) = (case normalize_path_for_policy p of None \<Rightarrow> True | Some s \<Rightarrow> list_ex (pattern_hits G False s) (pr_deny (pc_write cfg)))"
| "denied_by_rule G cfg (ExecuteCommand c d) = list_ex (prefix_hits c) (pr_deny (pc_shell cfg))"
| "denied_by_rule G cfg (NetworkFetch u) = (case extract_domain u of None \<Rightarrow> True | Some d \<Rightarrow> list_ex (pattern_hits G True d) (pr_deny (pc_network cfg)))"

text \<open>C17: Merging two configurations never loses a denial, in whichever of them its rule stands, and
  never allows what neither allows.\<close>

theorem merge_keeps_denials:
  "(denied_by_rule G base perm \<or> denied_by_rule G overlay perm \<longrightarrow>
      fst (evaluate_permission G (merge_policy_config base overlay) perm) = Deny) \<and>
   (fst (evaluate_permission G (merge_policy_config base overlay) perm) = Allow \<longrightarrow>
      fst (evaluate_permission G base perm) = Allow \<or> fst (evaluate_permission G overlay perm) = Allow)"
  unfolding evaluate_permission_cases
  by (cases perm)
     (auto simp: merge_policy_config_def glob_allows_merge merge_rules_def list_ex_merge glob_allows_def split: option.splits)

theorem merge_keeps_denials_witness:
  "fst (evaluate_permission \<lparr>gl_parses = (\<lambda>p. True), gl_matches = (\<lambda>c p s. p = ''**'')\<rparr>
     (merge_policy_config (built_in_policy_profile Prod) (built_in_policy_profile Dev)) (WriteFile ''src/a'')) = Deny"
proof -
  have "normalize_path_for_policy ''src/a'' = Some ''src/a''"
    by (simp add: normalize_path_for_policy_def backslash_to_slash_def split_absolute_prefix_def slash_def)
  then have "denied_by_rule \<lparr>gl_parses = (\<lambda>p. True), gl_matches = (\<lambda>c p s. p = ''**'')\<rparr> (built_in_policy_profile Prod) (WriteFile ''src/a'')"
    by (simp add: built_in_policy_profile_def pattern_hits_def)
  with merge_keeps_denials show ?thesis by blast
qed

end
