(* ===== verification/Dispatch_Properties.thy ===== *)
theory Dispatch_Properties
  imports Dispatch Policy_Properties "HOL-Library.Multiset"
begin

text \<open>
  What the dispatch of tool calls guarantees: a call that runs was allowed on every permission it asks
  for, by a decision that stands in the audit log; in the configured mode by the rules; each call of
  the message gets exactly one result, in order, whatever order the calls finish in.
\<close>

section \<open>The audit log only grows\<close>

lemma next_state_log:
  assumes "next_state_after g ev t = (g', r)"
  shows "as_audit_log g' = as_audit_log g \<and> as_config g' = as_config g"
  using assms
  by (cases "as_state g"; cases ev;
      auto simp: next_state_after_def Let_def split: if_splits agent_error.splits option.splits)

lemma record_usage_log [simp]:
  "as_audit_log (record_usage cost g ev) = as_audit_log g" "as_config (record_usage cost g ev) = as_config g"
  by (simp_all add: record_usage_def split: agent_event.splits)

lemma audit_step_log:
  "\<exists>rows. as_audit_log (note_tool_summary (audit_step t1 t2 g ev) ev) = as_audit_log g @ rows"
  "as_config (note_tool_summary (audit_step t1 t2 g ev) ev) = as_config g"
  by (simp_all add: note_tool_summary_def audit_step_def Let_def split: agent_event.splits option.splits)

lemma apply_event_log:
  assumes "apply_event cost t1 t2 task0 g ev = (g', r)"
  shows "(\<exists>rows. as_audit_log g' = as_audit_log g @ rows) \<and> as_config g' = as_config g"
proof -
  obtain g2 r2 where n: "next_state_after (record_usage cost g ev) ev task0 = (g2, r2)"
    by (cases "next_state_after (record_usage cost g ev) ev task0")
  have log: "as_audit_log g2 = as_audit_log g" "as_config g2 = as_config g"
    using next_state_log [OF n] by simp_all
  from assms n consider "g' = g" | "g' = g2"
    | s q where "g' = (note_tool_summary (audit_step t1 t2 (g2\<lparr>as_state := s\<rparr>) ev) ev)\<lparr>as_sent := q\<rparr>"
    | s where "g' = note_tool_summary (audit_step t1 t2 (g2\<lparr>as_state := s\<rparr>) ev) ev"
    by (auto simp: apply_event_def Let_def split: sum.splits if_splits)
  then show ?thesis
  proof cases
    case (3 s q)
    then show ?thesis using audit_step_log [of t1 t2 "g2\<lparr>as_state := s\<rparr>" ev] log by simp
  next
    case (4 s)
    then show ?thesis using audit_step_log [of t1 t2 "g2\<lparr>as_state := s\<rparr>" ev] log by simp
  qed (use log in simp_all)
qed

definition log_of :: "'c dispatch_state \<Rightarrow> audit_event list" where
  "log_of s = as_audit_log (ds_agent s)"

definition config_of :: "'c dispatch_state \<Rightarrow> agent_config" where
  "config_of s = as_config (ds_agent s)"

lemma session_of_config: "session_of s = ac_session_id (config_of s)"
  by (simp add: session_of_def config_of_def)

definition extends :: "'c dispatch_state \<Rightarrow> 'c dispatch_state \<Rightarrow> bool" where
  "extends s s' \<longleftrightarrow> (\<exists>rows. log_of s' = log_of s @ rows) \<and> session_of s' = session_of s \<and> config_of s' = config_of s
     \<and> ds_context s' = ds_context s"

lemma extends_refl [simp, intro]: "extends s s"
  by (simp add: extends_def)

lemma extends_trans: "extends s s' \<Longrightarrow> extends s' s'' \<Longrightarrow> extends s s''"
  unfolding extends_def by (metis append.assoc)

lemma extends_set: "extends s s' \<Longrightarrow> set (log_of s) \<subseteq> set (log_of s')"
  by (auto simp: extends_def)

lemma apply_ev_extends:
  assumes "apply_ev E s ev = (s', r)"
  shows "extends s s'"
proof -
  obtain g r' where g: "apply_event (de_cost E) (now_of E s 0) (now_of E s 1) (de_task E) (ds_agent s) ev = (g, r')"
    by (cases "apply_event (de_cost E) (now_of E s 0) (now_of E s 1) (de_task E) (ds_agent s) ev")
  with assms apply_event_log [OF g] show ?thesis
    by (auto simp: apply_ev_def extends_def log_of_def session_of_def config_of_def)
qed

lemma record_decision_extends: "extends s (record_decision s gate_id d name)"
  by (simp add: record_decision_def push_audit_def emit_gate_def extends_def log_of_def session_of_def config_of_def)

lemma record_decision_log: "pd_audit d \<in> set (log_of (record_decision s gate_id d name))"
  by (simp add: record_decision_def push_audit_def emit_gate_def log_of_def)

lemma remember_extends [simp]: "extends s (remember_reply s perm reply d)" "log_of (remember_reply s perm reply d) = log_of s"
  by (simp_all add: remember_reply_def extends_def log_of_def session_of_def config_of_def)

lemma replies_extends [simp]: "extends s (s\<lparr>ds_replies := q\<rparr>)" "log_of (s\<lparr>ds_replies := q\<rparr>) = log_of s"
  "session_of (s\<lparr>ds_replies := q\<rparr>) = session_of s"
  by (simp_all add: extends_def log_of_def session_of_def config_of_def)

lemma fail_batch_Inl: "fail_batch E s m \<noteq> (s', Inr x)"
  by (simp add: fail_batch_def split: prod.splits sum.splits)

section \<open>One permission\<close>

text \<open>A row of the log that records an allowing decision on a permission.\<close>

definition allowed_row :: "string \<Rightarrow> permission \<Rightarrow> audit_event \<Rightarrow> bool" where
  "allowed_row sid perm row \<longleftrightarrow> (\<exists>t reason. row = AuditPolicyEvaluation sid t perm Allow reason None None None)"

lemma resolve_interactive_row:
  assumes "resolve_interactive mode t sid perm v reason = Inr d" "pd_allowed d"
  shows "allowed_row sid perm (pd_audit d)" "\<not> (\<exists>cfg. mode = Configured cfg)" "mode \<noteq> DenyAll"
  using assms by (cases mode; auto simp: resolve_interactive_def decision_from_parts_def allowed_row_def)+

lemma evaluate_automatic_row:
  assumes "evaluate_automatic_for_tool G mode t sid perm tool = Inr d" "pd_allowed d"
  shows "allowed_row sid perm (pd_audit d)"
proof -
  from assms obtain verdict allowed reason where d: "d = decision_from_parts sid t perm verdict allowed reason"
    by (auto simp: evaluate_automatic_for_tool_def)
  with automatic_decision_spec [OF assms(1)] assms(2) show ?thesis
    by (auto simp: decision_consistent_def decision_from_parts_def allowed_row_def)
qed

text \<open>What a passed permission means: an allowing row, and in the modes without a user what the rules allow.\<close>

definition permission_passed ::
    "('c, 'p) dispatch_env \<Rightarrow> string \<Rightarrow> string \<Rightarrow> permission \<Rightarrow> 'c dispatch_state \<Rightarrow> bool" where
  "permission_passed E sid name perm s \<longleftrightarrow>
     (\<exists>row \<in> set (log_of s). allowed_row sid perm row) \<and>
     (case de_mode E of
        DenyAll \<Rightarrow> False
      | Configured cfg \<Rightarrow> automatic_may_allow (de_glob E) (Configured cfg) perm (Some name)
      | _ \<Rightarrow> True)"

lemma permission_passed_extends:
  "permission_passed E sid name perm s \<Longrightarrow> extends s s' \<Longrightarrow> permission_passed E sid name perm s'"
  using extends_set unfolding permission_passed_def by blast

lemma passed_by_row:
  assumes "allowed_row (session_of s) perm (pd_audit d)"
    and "\<not> (\<exists>cfg. de_mode E = Configured cfg)" "de_mode E \<noteq> DenyAll"
  shows "permission_passed E (session_of s) name perm (record_decision s gate_id d name)"
  using assms(2,3) bexI [of "allowed_row (session_of s) perm", OF assms(1) record_decision_log]
  by (cases "de_mode E") (simp_all add: permission_passed_def)

lemma gate_remembered_passed:
  assumes "gate_remembered E s name perm gate_id reason = (s', Inr d)"
  shows "extends s s' \<and> (pd_allowed d \<longrightarrow> permission_passed E (session_of s) name perm s')"
proof -
  from assms obtain r: "resolve_interactive (de_mode E) (now_of E s 0) (session_of s) perm Allow reason = Inr d"
    and s': "s' = record_decision s gate_id d name"
    by (auto simp: gate_remembered_def fail_batch_Inl split: sum.splits)
  have "permission_passed E (session_of s) name perm s'" if "pd_allowed d"
    unfolding s' using resolve_interactive_row [OF r that] by (intro passed_by_row) auto
  then show ?thesis using record_decision_extends by (simp add: s')
qed

lemma gate_confirm_passed:
  assumes g: "gate_confirm E s name diff perm = (s', Inr d)" and mode: "\<not> (\<exists>cfg. de_mode E = Configured cfg)" "de_mode E \<noteq> DenyAll"
  shows "extends s s' \<and> (pd_allowed d \<longrightarrow> permission_passed E (session_of s) name perm s')"
proof -
  from g obtain s1 where s1: "apply_ev E s (ConfirmationRequired (confirmation_text E perm) diff) = (s1, Inr ())"
    and g1: "(case ds_replies s1 of
       None \<Rightarrow> fail_batch E s1 ''interactive policy requires a verdict channel''
     | Some [] \<Rightarrow> fail_batch E s1 ''policy verdict channel closed''
     | Some (reply # rest) \<Rightarrow>
         let s2 = s1\<lparr>ds_replies := Some rest\<rparr> in
         (case resolve_interactive (de_mode E) (now_of E s2 0) (session_of s2) perm (ir_verdict reply) (reply_reason reply) of
            Inl e \<Rightarrow> fail_batch E s2 (policy_engine_error_to_string e)
          | Inr d \<Rightarrow>
              st_bind (apply_ev E (remember_reply (record_decision s2 ''interactive'' d name) perm reply d) (TextDelta []))
                (\<lambda>s3 _. (s3, Inr d)))) = (s', Inr d)"
    by (auto simp: gate_confirm_def st_bind_Inr_iff)
  from g1 obtain reply rest where q: "ds_replies s1 = Some (reply # rest)"
    by (auto simp: fail_batch_Inl split: option.splits list.splits)
  define s2 where "s2 = s1\<lparr>ds_replies := Some rest\<rparr>"
  from g1 q obtain t where r: "resolve_interactive (de_mode E) (now_of E s2 0) (session_of s2) perm (ir_verdict reply) (reply_reason reply) = Inr d"
    and t: "apply_ev E (remember_reply (record_decision s2 ''interactive'' d name) perm reply d) (TextDelta []) = (s', Inr t)"
    by (auto simp: fail_batch_Inl st_bind_Inr_iff Let_def s2_def split: sum.splits)
  let ?s3 = "record_decision s2 ''interactive'' d name"
  have e1: "extends s s2"
    unfolding s2_def by (rule extends_trans [OF apply_ev_extends [OF s1] replies_extends(1)])
  have e2: "extends ?s3 s'"
    using extends_trans [OF remember_extends(1) apply_ev_extends [OF t]] .
  have sid: "session_of s2 = session_of s" using e1 by (simp add: extends_def)
  have "permission_passed E (session_of s) name perm s'" if "pd_allowed d"
    using permission_passed_extends [OF passed_by_row [OF resolve_interactive_row(1) [OF r that] mode] e2] by (simp add: sid)
  then show ?thesis using extends_trans [OF e1 extends_trans [OF record_decision_extends e2]] by blast
qed

lemma gate_automatic_passed:
  assumes g: "gate_automatic E s name diff perm = (s', Inr d)"
  shows "extends s s' \<and> (pd_allowed d \<longrightarrow> permission_passed E (session_of s) name perm s')"
proof (cases "evaluate_automatic_for_tool (de_glob E) (de_mode E) (now_of E s 0) (session_of s) perm (Some name)")
  case (Inr d')
  with g have d: "d' = d" "s' = record_decision s ''tool:auto'' d name" by (auto simp: gate_automatic_def)
  have "permission_passed E (session_of s) name perm s'" if "pd_allowed d"
  proof -
    from evaluate_automatic_row Inr d that have row: "allowed_row (session_of s) perm (pd_audit d)" by blast
    from automatic_decision_spec [OF Inr] d that have "automatic_may_allow (de_glob E) (de_mode E) perm (Some name)" by simp
    with row record_decision_log [of d s "''tool:auto''" name] show ?thesis
      by (cases "de_mode E") (auto simp: permission_passed_def d(2) simp del: automatic_may_allow.simps(5))
  qed
  then show ?thesis using record_decision_extends by (simp add: d(2))
next
  case (Inl e)
  with g have "\<not> (\<exists>cfg. de_mode E = Configured cfg)" "de_mode E \<noteq> DenyAll" "gate_confirm E s name diff perm = (s', Inr d)"
    by (auto simp: gate_automatic_def fail_batch_Inl split: policy_mode.splits policy_engine_error.splits)
  then show ?thesis by (intro gate_confirm_passed)
qed

lemma gate_permission_passed:
  assumes "gate_permission E s name diff perm = (s', Inr d)"
  shows "extends s s' \<and> (pd_allowed d \<longrightarrow> permission_passed E (session_of s) name perm s')"
  using assms gate_remembered_passed gate_automatic_passed unfolding gate_permission_def by (metis (full_types))

lemma gate_permissions_passed:
  "gate_permissions E s name diff perms = (s', Inr out) \<Longrightarrow>
   extends s s' \<and> (out = None \<longrightarrow> list_all (\<lambda>perm. permission_passed E (session_of s) name perm s') perms)"
proof (induction perms arbitrary: s)
  case (Cons perm perms)
  from Cons.prems obtain s1 d where s1: "gate_permission E s name diff perm = (s1, Inr d)"
    and rest: "if \<not> pd_allowed d then s1 = s' \<and> out \<noteq> None
       else gate_permissions E s1 name diff perms = (s', Inr out)"
    by (auto simp: st_bind_Inr_iff split: if_splits)
  note p = gate_permission_passed [OF s1]
  show ?case
  proof (cases "pd_allowed d")
    case True
    with rest have g: "gate_permissions E s1 name diff perms = (s', Inr out)" by simp
    have sid: "session_of s1 = session_of s" using p by (simp add: extends_def)
    note ih = Cons.IH [OF g, unfolded sid]
    have "permission_passed E (session_of s) name perm s'"
      using p True ih permission_passed_extends by blast
    with ih p extends_trans show ?thesis by (simp, blast)
  qed (use rest p in auto)
qed simp

section \<open>One call\<close>

lemma gate_mcp_extends: "gate_mcp E s name ctx = (s', out) \<Longrightarrow> extends s s'"
  using record_decision_extends by (auto simp: gate_mcp_def Let_def split: option.splits if_splits)

lemma denial_extends [simp]: "extends s (record_policy_denial s)" "log_of (record_policy_denial s) = log_of s"
  by (simp_all add: record_policy_denial_def extends_def log_of_def session_of_def config_of_def)

lemma refuse_Inr:
  assumes "refuse E s call c msg = (s', Inr a)"
  shows "extends s s' \<and> a = Refused (refusal call c msg)"
proof -
  from assms obtain u where "apply_ev E s (ToolCallCompleted (tc_id call) (tc_name call) False msg) = (s', Inr u)"
    and "a = Refused (refusal call c msg)"
    by (auto simp: refuse_def st_bind_Inr_iff)
  with apply_ev_extends show ?thesis by blast
qed

text \<open>What an approval establishes: every concrete permission was passed, and an MCP call was allowed.\<close>

definition approval_ok :: "('c, 'p) dispatch_env \<Rightarrow> string \<Rightarrow> 'c dispatch_state \<Rightarrow> approved_slot \<Rightarrow> bool" where
  "approval_ok E sid s a \<longleftrightarrow>
     ap_tool a < length (de_tools E) \<and> ti_name (de_tools E ! ap_tool a) = ap_name a \<and>
     list_all (\<lambda>perm. permission_passed E sid (ap_name a) perm s)
       (concrete_permissions (de_patch E) (de_canon E) (de_tools E ! ap_tool a) (ap_name a) (ap_arguments a) (de_root E)) \<and>
     (\<forall>server tool. ti_mcp_context (de_tools E ! ap_tool a) = Some (server, tool) \<longrightarrow>
        (\<exists>t. pd_allowed (evaluate_mcp_automatic (de_glob E) (de_mode E) t sid (Some (ap_name a)) (Some server) (Some tool))))"

lemma approval_ok_extends: "approval_ok E sid s a \<Longrightarrow> extends s s' \<Longrightarrow> approval_ok E sid s' a"
  using permission_passed_extends unfolding approval_ok_def list_all_iff by blast

lemma admit_by_policy_Inr:
  assumes a: "admit_by_policy E s idx call ti = (s', Inr adm)"
    and ti: "ti < length (de_tools E)" "ti_name (de_tools E ! ti) = tc_name call"
  shows "extends s s' \<and> (\<forall>slot. adm = Approved slot \<longrightarrow>
    approval_ok E (session_of s) s' slot \<and> ap_index slot = idx \<and> ap_id slot = tc_id call \<and> ap_name slot = tc_name call)
    \<and> (\<forall>r. adm = Refused r \<longrightarrow> tr_call_id r = tc_id call)"
proof -
  obtain s1 m where m: "gate_mcp E s (tc_name call) (ti_mcp_context (de_tools E ! ti)) = (s1, m)"
    by (cases "gate_mcp E s (tc_name call) (ti_mcp_context (de_tools E ! ti))")
  note e1 = gate_mcp_extends [OF m]
  show ?thesis
  proof (cases m)
    case (Some msg)
    with a m have "refuse E (record_policy_denial s1) call PermissionDenied msg = (s', Inr adm)"
      by (simp add: admit_by_policy_def Let_def)
    from refuse_Inr [OF this] extends_trans [OF e1 extends_trans [OF denial_extends(1)]] show ?thesis
      by (auto simp: refusal_def)
  next
    case None
    let ?perms = "concrete_permissions (de_patch E) (de_canon E) (de_tools E ! ti) (tc_name call) (tc_arguments call) (de_root E)"
    from a m None obtain s2 out where g: "gate_permissions E s1 (tc_name call) (de_diff_preview E (tc_name call) (tc_arguments call)) ?perms = (s2, Inr out)"
      and rest: "(case out of Some msg \<Rightarrow> refuse E (record_policy_denial s2) call PermissionDenied msg
          | None \<Rightarrow> (s2, Inr (Approved
                 \<lparr>ap_index = idx, ap_id = tc_id call, ap_name = tc_name call, ap_arguments = tc_arguments call, ap_tool = ti,
                  ap_mcp = ti_mcp_context (de_tools E ! ti)\<rparr>))) = (s', Inr adm)"
      by (auto simp: admit_by_policy_def Let_def st_bind_Inr_iff)
    note p = gate_permissions_passed [OF g]
    have sid: "session_of s1 = session_of s" using e1 by (simp add: extends_def)
    show ?thesis
    proof (cases out)
      case None
      have mcp: "\<exists>t. pd_allowed (evaluate_mcp_automatic (de_glob E) (de_mode E) t (session_of s) (Some (tc_name call)) (Some server) (Some tool))"
        if "ti_mcp_context (de_tools E ! ti) = Some (server, tool)" for server tool
        using m \<open>m = None\<close> that by (auto simp: gate_mcp_def Let_def split: if_splits)
      from None rest p e1 ti mcp sid show ?thesis
        using extends_trans [OF e1] by (auto simp: approval_ok_def)
    next
      case (Some msg)
      with rest have "refuse E (record_policy_denial s2) call PermissionDenied msg = (s', Inr adm)" by simp
      note r = refuse_Inr [OF this]
      have "extends s s'"
        using extends_trans [OF e1 extends_trans [OF conjunct1 [OF p] extends_trans [OF denial_extends(1) conjunct1 [OF r]]]] .
      with r show ?thesis by (simp add: refusal_def)
    qed
  qed
qed

definition admission_ok ::
    "('c, 'p) dispatch_env \<Rightarrow> string \<Rightarrow> 'c dispatch_state \<Rightarrow> nat \<Rightarrow> tool_call \<Rightarrow> admission \<Rightarrow> bool" where
  "admission_ok E sid s idx call adm \<longleftrightarrow>
     (case adm of
        Approved slot \<Rightarrow> approval_ok E sid s slot \<and> ap_index slot = idx \<and> ap_id slot = tc_id call \<and> ap_name slot = tc_name call
      | Refused r \<Rightarrow> tr_call_id r = tc_id call)"

lemma admission_ok_extends: "admission_ok E sid s idx call adm \<Longrightarrow> extends s s' \<Longrightarrow> admission_ok E sid s' idx call adm"
  using approval_ok_extends by (cases adm) (auto simp: admission_ok_def)

lemma admission_ok_Refused [simp]: "admission_ok E sid s idx call (Refused (refusal call c m))"
  by (simp add: admission_ok_def refusal_def)

lemma admit_by_repeats_Inr:
  assumes a: "admit_by_repeats E s idx call ti = (s', Inr adm)"
    and ti: "ti < length (de_tools E)" "ti_name (de_tools E ! ti) = tc_name call"
  shows "extends s s' \<and> admission_ok E (session_of s) s' idx call adm"
proof (cases "(tc_name call = ''list_directory'' \<or> tc_name call = ''read_file'') \<and> call_count s (tc_name call) \<ge> TOOL_REPEAT_LIMIT")
  case True
  with a obtain msg s1 ev u where "refuse E s call InvalidArgs msg = (s1, Inr adm)" "apply_ev E s1 ev = (s', Inr u)"
    by (auto simp: admit_by_repeats_def Let_def st_bind_Inr_iff)
  from refuse_Inr [OF this(1)] extends_trans [OF _ apply_ev_extends [OF this(2)]] show ?thesis by simp
next
  case False
  with a have "admit_by_policy E s idx call ti = (s', Inr adm)"
    by (simp add: admit_by_repeats_def Let_def)
  from admit_by_policy_Inr [OF this ti] show ?thesis by (cases adm) (auto simp: admission_ok_def)
qed

lemma matching_tools_spec:
  "matching_tools E name = ti # rest \<Longrightarrow> ti < length (de_tools E) \<and> ti_name (de_tools E ! ti) = name"
proof -
  assume "matching_tools E name = ti # rest"
  then have "ti \<in> set (matching_tools E name)" by simp
  then show ?thesis by (simp add: matching_tools_def)
qed

lemma admit_call_Inr:
  assumes a: "admit_call E s idx w call = (s', Inr (w', adm))"
  shows "extends s s' \<and> admission_ok E (session_of s) s' idx call adm"
proof (cases "matching_tools E (tc_name call)")
  case Nil
  with a obtain msg where "refuse E s call InvalidArgs msg = (s', Inr adm)"
    by (auto simp: admit_call_def Let_def st_bind_Inr_iff)
  with refuse_Inr show ?thesis by fastforce
next
  case (Cons ti rest)
  note ti = matching_tools_spec [OF Cons]
  from a Cons consider msg where "refuse E (record_policy_denial s) call PermissionDenied msg = (s', Inr adm)"
    | msg where "refuse E s call InvalidArgs msg = (s', Inr adm)"
    | "admit_by_repeats E s idx call ti = (s', Inr adm)"
    by (auto simp: admit_call_def Let_def st_bind_Inr_iff split: if_splits sum.splits)
  then show ?thesis
  proof cases
    case 1
    from refuse_Inr [OF 1] extends_trans [OF denial_extends(1)] show ?thesis by auto
  next
    case 2
    from refuse_Inr [OF 2] show ?thesis by auto
  next
    case 3
    from admit_by_repeats_Inr [OF 3] ti show ?thesis by blast
  qed
qed

lemma admit_calls_Inr:
  "admit_calls E s idx w calls = (s', Inr adms) \<Longrightarrow>
   extends s s' \<and> length adms = length calls \<and>
   (\<forall>i < length calls. admission_ok E (session_of s) s' (idx + i) (calls ! i) (adms ! i))"
proof (induction calls arbitrary: s idx w adms)
  case (Cons call calls)
  then obtain s1 w' a rest where a: "admit_call E s idx w call = (s1, Inr (w', a))"
    and rest: "admit_calls E s1 (Suc idx) w' calls = (s', Inr rest)" and adms: "adms = a # rest"
    by (auto simp: st_bind_Inr_iff)
  note p = admit_call_Inr [OF a] and ih = Cons.IH [OF rest]
  have sid: "session_of s1 = session_of s" using p by (simp add: extends_def)
  have "admission_ok E (session_of s) s' (idx + i) ((call # calls) ! i) (adms ! i)" if "i < Suc (length calls)" for i
  proof (cases i)
    case 0
    with p ih admission_ok_extends show ?thesis by (auto simp: adms)
  next
    case (Suc j)
    with that ih show ?thesis by (auto simp: adms sid)
  qed
  with p ih extends_trans show ?case by (auto simp: adms)
qed simp

text \<open>C15: A tool call is approved only if every permission it asks for, on the path as written and on
  the path it resolves to, was allowed by a decision that stands in the audit log; in the configured
  mode each of them is allowed by the rules of the permission and of the tool, whatever the user
  allowed before; in deny-all mode there is none. A call of an external tool was allowed by the MCP
  rules.\<close>

theorem approved_calls_are_authorized:
  assumes "admit_calls E s 0 0 calls = (s', Inr adms)" "Approved slot \<in> set adms"
  shows "approval_ok E (session_of s) s' slot \<and> (\<exists>i < length calls. ap_id slot = tc_id (calls ! i) \<and> ap_index slot = i)"
proof -
  from assms(2) obtain i where i: "i < length adms" "adms ! i = Approved slot" by (auto simp: in_set_conv_nth)
  with admit_calls_Inr [OF assms(1)] have "i < length calls" "admission_ok E (session_of s) s' i (calls ! i) (Approved slot)"
    by auto
  then show ?thesis by (auto simp: admission_ok_def)
qed

text \<open>With configured rules, a file a tool call may touch is one the rules allow: a denied path is
  never reached by a call that runs, neither as written nor through the links on its way.\<close>

theorem configured_rules_govern_dispatch:
  assumes "de_mode E = Configured cfg" "admit_calls E s 0 0 calls = (s', Inr adms)" "Approved slot \<in> set adms"
    and "perm \<in> set (concrete_permissions (de_patch E) (de_canon E) (de_tools E ! ap_tool slot) (ap_name slot)
           (ap_arguments slot) (de_root E))"
  shows "permission_allowed (de_glob E) cfg perm \<and>
    (has_tool_rules cfg \<longrightarrow> glob_allows (de_glob E) True (pc_tools cfg) (ap_name slot))"
proof -
  obtain i where i: "i < length adms" "adms ! i = Approved slot" using assms(3) by (auto simp: in_set_conv_nth)
  with admit_calls_Inr [OF assms(2)] have "admission_ok E (session_of s) s' i (calls ! i) (Approved slot)" by auto
  with assms(1,4) show ?thesis by (auto simp: admission_ok_def approval_ok_def permission_passed_def list_all_iff)
qed

section \<open>Results\<close>

lemma resolve_question_Inr:
  assumes "resolve_question E s r = (s', Inr r')"
  shows "tr_call_id r' = tr_call_id r \<and> ds_context s' = ds_context s \<and> config_of s' = config_of s"
proof (cases "\<exists>q l. tr_output r = OutQuestion q l \<and> ds_answers s \<noteq> None")
  case False
  with assms show ?thesis by (auto simp: resolve_question_def split: tool_output.splits option.splits)
next
  case True
  then obtain q l where o: "tr_output r = OutQuestion q l" and "ds_answers s \<noteq> None" by blast
  with assms obtain s1 u where a: "apply_ev E s (QuestionRequired (tr_call_id r) q l) = (s1, Inr u)"
    and c: "(case ds_answers s1 of
         Some (answer # rest) \<Rightarrow>
           (s1\<lparr>ds_answers := Some rest\<rparr>, Inr (r\<lparr>tr_output := OutSuccess answer, tr_success := True\<rparr>))
       | _ \<Rightarrow> fail_batch E s1 ''question answer channel closed'') = (s', Inr r')"
    by (auto simp: resolve_question_def st_bind_Inr_iff)
  from c have "tr_call_id r' = tr_call_id r \<and> ds_context s' = ds_context s1 \<and> config_of s' = config_of s1"
    by (auto simp: config_of_def fail_batch_Inl split: option.splits list.splits)
  with apply_ev_extends [OF a] show ?thesis by (simp add: extends_def)
qed

lemma record_results_Inr:
  "record_results E s rs = (s', Inr out) \<Longrightarrow>
   map fst out = map fst rs \<and> map (tr_call_id \<circ> snd) out = map (tr_call_id \<circ> snd) rs \<and> ds_context s' = ds_context s \<and> config_of s' = config_of s"
proof (induction rs arbitrary: s out)
  case (Cons p rs)
  obtain i r where p: "p = (i, r)" by (cases p)
  from Cons.prems obtain s1 r1 where q: "resolve_question E (bump_count (tr_tool_name r) s) r = (s1, Inr r1)"
    and c: "(case tr_output r1 of
       OutQuestion _ _ \<Rightarrow> fail_batch E (note_modified_path r1 s1) ''internal: unresolved Question tool output''
     | out \<Rightarrow>
         st_bind (apply_ev E (note_modified_path r1 s1) (ToolCallCompleted (tr_call_id r1) (tr_tool_name r1) (tr_success r1)
             (case out of OutSuccess m \<Rightarrow> m | OutError _ m \<Rightarrow> m | OutQuestion m _ \<Rightarrow> m))) (\<lambda>s3 _.
         st_bind (record_results E (note_auto_commit E r1 s3) rs) (\<lambda>s4 rest. (s4, Inr ((i, r1) # rest))))) = (s', Inr out)"
    by (auto simp: p st_bind_Inr_iff Let_def)
  have q1: "tr_call_id r1 = tr_call_id r \<and> ds_context s1 = ds_context s \<and> config_of s1 = config_of s"
    using resolve_question_Inr [OF q] by (simp add: bump_count_def config_of_def)
  from c obtain s3 u rest m where a: "apply_ev E (note_modified_path r1 s1) (ToolCallCompleted (tr_call_id r1) (tr_tool_name r1) (tr_success r1) m) = (s3, Inr u)"
    and rest: "record_results E (note_auto_commit E r1 s3) rs = (s', Inr rest)" "out = (i, r1) # rest"
    by (auto simp: st_bind_Inr_iff fail_batch_Inl split: tool_output.splits)
  have "ds_context s3 = ds_context s1 \<and> config_of s3 = config_of s1"
    using apply_ev_extends [OF a] by (auto simp: extends_def config_of_def note_modified_path_def Let_def split: option.splits if_splits)
  moreover have "ds_context (note_auto_commit E r1 s3) = ds_context s3 \<and> config_of (note_auto_commit E r1 s3) = config_of s3"
    by (simp add: config_of_def note_auto_commit_def push_audit_def split: option.split)
  ultimately show ?case using Cons.IH [OF rest(1)] q1 by (simp add: p rest(2))
qed simp

lemma append_results_Inr:
  "append_results E s slots = (s', Inr u) \<Longrightarrow>
   None \<notin> set slots \<and>
   ds_context s' = ds_context s @ map (\<lambda>r. (tr_call_id r, tr_tool_name r, tr_output r)) (map the slots) \<and>
   config_of s' = config_of s"
proof (induction slots arbitrary: s)
  case (Cons slot slots)
  then obtain r where "slot = Some r" by (cases slot) (auto simp: fail_batch_Inl)
  with Cons show ?case
    by (fastforce simp: config_of_def append_tool_message_def record_tool_completion_metrics_def Let_def)
qed simp


text \<open>The slot of an approved call carries the call's position, so the slots of a message are told apart.\<close>

definition slot_for :: "nat \<Rightarrow> tool_call \<Rightarrow> admission \<Rightarrow> bool" where
  "slot_for idx call a \<longleftrightarrow>
     (case a of
        Approved slot \<Rightarrow> ap_index slot = idx \<and> ap_id slot = tc_id call
      | Refused r \<Rightarrow> tr_call_id r = tc_id call)"

fun admitted :: "tool_call list \<Rightarrow> nat \<Rightarrow> admission list \<Rightarrow> bool" where
  "admitted [] idx [] = True"
| "admitted (call # calls) idx (a # adms) = (slot_for idx call a \<and> admitted calls (Suc idx) adms)"
| "admitted _ _ _ = False"

lemma admit_calls_admitted: "admit_calls E s idx w calls = (s', Inr adms) \<Longrightarrow> admitted calls idx adms"
proof (induction calls arbitrary: s idx w adms)
  case (Cons call calls)
  then obtain s1 w' a rest where a: "admit_call E s idx w call = (s1, Inr (w', a))"
    and rest: "admit_calls E s1 (Suc idx) w' calls = (s', Inr rest)" and adms: "adms = a # rest"
    by (auto simp: st_bind_Inr_iff)
  from admit_call_Inr [OF a] have "slot_for idx call a"
    by (cases a) (auto simp: slot_for_def admission_ok_def)
  with Cons.IH [OF rest] show ?case by (simp add: adms)
qed simp

lemma approved_index_bounds: "admitted calls idx adms \<Longrightarrow> slot \<in> set (approved_slots adms) \<Longrightarrow> idx \<le> ap_index slot"
proof (induction calls idx adms rule: admitted.induct)
  case (2 call calls idx a adms)
  then show ?case by (cases a) (auto simp: slot_for_def)
qed auto

lemma approved_indices_distinct: "admitted calls idx adms \<Longrightarrow> distinct (map ap_index (approved_slots adms))"
proof (induction calls idx adms rule: admitted.induct)
  case (2 call calls idx a adms)
  then have "idx \<notin> ap_index ` set (approved_slots adms)"
    using approved_index_bounds [of calls "Suc idx" adms] by fastforce
  with 2 show ?case by (cases a) (auto simp: slot_for_def)
qed auto

lemma fill_slots_ids:
  assumes "admitted calls idx adms"
    and "\<And>slot r. slot \<in> set (approved_slots adms) \<Longrightarrow> map_of results (ap_index slot) = Some r \<Longrightarrow> tr_call_id r = ap_id slot"
    and "None \<notin> set (fill_slots adms results)"
  shows "map (\<lambda>r. tr_call_id (the r)) (fill_slots adms results) = map tc_id calls"
  using assms
proof (induction calls idx adms rule: admitted.induct)
  case (2 call calls idx a adms)
  show ?case
  proof (cases a)
    case (Refused x)
    with 2 show ?thesis by (simp add: slot_for_def)
  next
    case (Approved slot)
    with "2.prems"(3) obtain x where "map_of results (ap_index slot) = Some x"
      by (cases "map_of results (ap_index slot)") auto
    with Approved 2 "2.prems"(2) [of slot x] show ?thesis by (simp add: slot_for_def)
  qed
qed auto

lemma sort_completed_eq:
  assumes "mset xs = mset ys" "distinct (map fst ys)"
  shows "sort_key fst xs = sort_key fst (ys :: (nat \<times> 'b) list)"
proof (rule sort_key_inj_key_eq)
  from assms(2) have "inj_on fst (set ys)" by (simp add: distinct_map)
  with mset_eq_setD [OF assms(1)] show "inj_on fst (set xs)" by simp
qed (simp_all add: assms(1))

lemma sorted_results_agree:
  assumes "\<And>xs. mset (finish xs) = mset xs" "admitted calls idx adms"
  shows "sort_key fst (finish (map (\<lambda>a. (ap_index a, execute_single_tool_call run a)) (approved_slots adms)))
       = sort_key fst (map (\<lambda>a. (ap_index a, execute_single_tool_call run a)) (approved_slots adms))"
  using assms(1) approved_indices_distinct [OF assms(2)] by (intro sort_completed_eq) (auto simp: comp_def)

lemma results_belong:
  assumes ad: "admitted calls idx adms"
    and out: "map fst out = map fst (sort_key fst (map (\<lambda>a. (ap_index a, execute_single_tool_call run a)) (approved_slots adms)))"
      "map (tr_call_id \<circ> snd) out = map (tr_call_id \<circ> snd) (sort_key fst (map (\<lambda>a. (ap_index a, execute_single_tool_call run a)) (approved_slots adms)))"
    and slot: "slot \<in> set (approved_slots adms)" "map_of out (ap_index slot) = Some r"
  shows "tr_call_id r = ap_id slot"
proof -
  let ?rs = "sort_key fst (map (\<lambda>a. (ap_index a, execute_single_tool_call run a)) (approved_slots adms))"
  from slot(2) obtain k where k: "k < length out" "out ! k = (ap_index slot, r)"
    by (auto dest!: map_of_SomeD simp: in_set_conv_nth)
  have len: "length out = length ?rs" using arg_cong [OF out(1), of length] by simp
  have "?rs ! k \<in> set ?rs" using k len by (intro nth_mem) simp
  then obtain b where b: "b \<in> set (approved_slots adms)" "?rs ! k = (ap_index b, execute_single_tool_call run b)" by auto
  have "ap_index b = ap_index slot"
    using arg_cong [OF out(1), of "\<lambda>xs. xs ! k"] k len b(2) by simp
  with b(1) slot(1) approved_indices_distinct [OF ad] have "b = slot" by (auto simp: distinct_map inj_on_def)
  moreover have "tr_call_id r = tr_call_id (execute_single_tool_call run b)"
    using arg_cong [OF out(2), of "\<lambda>xs. xs ! k"] k len b(2) by simp
  ultimately show ?thesis by (simp add: execute_single_tool_call_def split_beta)
qed

lemma dispatch_approved_context:
  "dispatch_approved E s as = (s', Inr u) \<Longrightarrow> ds_context s' = ds_context s \<and> config_of s' = config_of s"
proof (induction as arbitrary: s)
  case (Cons a as)
  define s1 where "s1 = (case ap_mcp a of
          Some (server, tool) \<Rightarrow>
            s\<lparr>ds_agent := (ds_agent s)\<lparr>as_mcp_call_context :=
               hm_insert (ap_id a) \<lparr>mc_server = server, mc_tool = tool\<rparr> (as_mcp_call_context (ds_agent s))\<rparr>\<rparr>
        | None \<Rightarrow> s)"
  from Cons.prems obtain s2 v where d: "apply_ev E s1 (ToolCallDispatched (ap_id a) (ap_name a) (ap_arguments a)) = (s2, Inr v)"
    "dispatch_approved E s2 as = (s', Inr u)"
    by (auto simp: st_bind_Inr_iff s1_def Let_def)
  have "ds_context s1 = ds_context s \<and> config_of s1 = config_of s" by (simp add: s1_def config_of_def split: option.split prod.split)
  with apply_ev_extends [OF d(1)] Cons.IH [OF d(2)] show ?case by (simp add: extends_def)
qed simp

text \<open>The approved calls run in parallel; the order in which they finish does not show in the outcome.\<close>

text \<open>The order in which the parallel calls of a message complete does not matter: the audit log, the
  recorded gates, the counters and the tool messages are those of a run that completes them in call
  order.\<close>

theorem completion_order_is_irrelevant:
  assumes "\<And>xs. mset (finish xs) = mset xs"
  shows "dispatch_tool_calls_batch E run finish s calls = dispatch_tool_calls_batch E run (\<lambda>xs. xs) s calls"
proof -
  have *: "st_bind r f = st_bind r g" if "\<And>s1 adms. r = (s1, Inr adms) \<Longrightarrow> f s1 adms = g s1 adms"
    for r :: "'a dispatch_state \<times> (agent_error + admission list)" and f g :: "_ \<Rightarrow> _ \<Rightarrow> 'a dispatch_state \<times> (agent_error + unit)"
    using that by (cases r; cases "snd r") auto
  show ?thesis
    unfolding dispatch_tool_calls_batch_def Let_def
    by (rule *) (drule admit_calls_admitted, simp only: sorted_results_agree [where finish = finish, OF assms])
qed

lemma batch_answers:
  assumes "dispatch_tool_calls_batch E run finish s calls = (s', Inr u)"
    and fin: "\<And>xs. mset (finish xs) = mset xs"
  shows "\<exists>answers. ds_context s' = ds_context s @ answers \<and> map fst answers = map tc_id calls"
proof -
  define s0 where "s0 = s\<lparr>ds_agent := (ds_agent s)\<lparr>as_batch_remaining := 0\<rparr>\<rparr>"
  from assms(1) obtain s1 adms where adm: "admit_calls E s0 0 0 calls = (s1, Inr adms)"
    and c: "st_bind (dispatch_approved E s1 (approved_slots adms)) (\<lambda>s2 _.
      let s3 = (if approved_slots adms = [] then s2
                else s2\<lparr>ds_agent := (ds_agent s2)\<lparr>as_batch_remaining := of_nat (length (approved_slots adms))\<rparr>\<rparr>);
          completed = finish (map (\<lambda>a. (ap_index a, execute_single_tool_call run a)) (approved_slots adms)) in
      st_bind (record_results E s3 (sort_key fst completed)) (\<lambda>s4 results.
      append_results E s4 (fill_slots adms results))) = (s', Inr u)"
    unfolding dispatch_tool_calls_batch_def s0_def [symmetric] Let_def st_bind_Inr_iff by blast
  then obtain s2 v where d0: "dispatch_approved E s1 (approved_slots adms) = (s2, Inr v)"
    and c2: "(let s3 = (if approved_slots adms = [] then s2
                else s2\<lparr>ds_agent := (ds_agent s2)\<lparr>as_batch_remaining := of_nat (length (approved_slots adms))\<rparr>\<rparr>);
          completed = finish (map (\<lambda>a. (ap_index a, execute_single_tool_call run a)) (approved_slots adms)) in
      st_bind (record_results E s3 (sort_key fst completed)) (\<lambda>s4 results.
      append_results E s4 (fill_slots adms results))) = (s', Inr u)"
    unfolding st_bind_Inr_iff by blast
  define s3 where "s3 = (if approved_slots adms = [] then s2
                else s2\<lparr>ds_agent := (ds_agent s2)\<lparr>as_batch_remaining := of_nat (length (approved_slots adms))\<rparr>\<rparr>)"
  have c3: "ds_context s3 = ds_context s2" by (simp add: s3_def)
  note ad = admit_calls_admitted [OF adm]
  from c2 obtain s4 out where
      rr: "record_results E s3 (sort_key fst (map (\<lambda>a. (ap_index a, execute_single_tool_call run a)) (approved_slots adms))) = (s4, Inr out)"
    and ap: "append_results E s4 (fill_slots adms out) = (s', Inr u)"
    unfolding s3_def [symmetric] Let_def st_bind_Inr_iff sorted_results_agree [where finish = finish, OF fin ad] by blast
  note out = record_results_Inr [OF rr] and slots = append_results_Inr [OF ap]
  have ids: "tr_call_id r = ap_id slot" if "slot \<in> set (approved_slots adms)" "map_of out (ap_index slot) = Some r" for slot r
    using results_belong [OF ad] out that by blast
  have "ds_context s4 = ds_context s"
    using admit_calls_Inr [OF adm] dispatch_approved_context [OF d0] out c3 by (simp add: extends_def s0_def)
  with slots fill_slots_ids [OF ad ids] show ?thesis by (auto simp: comp_def)
qed

text \<open>When a batch of tool calls goes through, the conversation grows by exactly one tool message for
  each call, in the order of the calls and under their ids, whether the call was refused, failed or
  succeeded and however the parallel runs interleaved.\<close>

theorem every_call_is_answered_in_order:
  assumes "dispatch_tool_calls_batch E run finish s calls = (s', Inr u)"
    and "\<And>xs. mset (finish xs) = mset xs"
  shows "\<exists>answers. ds_context s' = ds_context s @ answers \<and> map fst answers = map tc_id calls"
  by (rule batch_answers [OF assms])

text \<open>The configuration of the session is the same after a batch.\<close>

lemma batch_config:
  assumes "dispatch_tool_calls_batch E run finish s calls = (s', Inr u)"
  shows "config_of s' = config_of s"
proof -
  define s0 where "s0 = s\<lparr>ds_agent := (ds_agent s)\<lparr>as_batch_remaining := 0\<rparr>\<rparr>"
  from assms obtain s1 adms where adm: "admit_calls E s0 0 0 calls = (s1, Inr adms)"
    and c: "st_bind (dispatch_approved E s1 (approved_slots adms)) (\<lambda>s2 _.
      let s3 = (if approved_slots adms = [] then s2
                else s2\<lparr>ds_agent := (ds_agent s2)\<lparr>as_batch_remaining := of_nat (length (approved_slots adms))\<rparr>\<rparr>);
          completed = finish (map (\<lambda>a. (ap_index a, execute_single_tool_call run a)) (approved_slots adms)) in
      st_bind (record_results E s3 (sort_key fst completed)) (\<lambda>s4 results.
      append_results E s4 (fill_slots adms results))) = (s', Inr u)"
    unfolding dispatch_tool_calls_batch_def s0_def [symmetric] Let_def st_bind_Inr_iff by blast
  then obtain s2 v s4 out where d0: "dispatch_approved E s1 (approved_slots adms) = (s2, Inr v)"
    and rr: "record_results E (if approved_slots adms = [] then s2
                else s2\<lparr>ds_agent := (ds_agent s2)\<lparr>as_batch_remaining := of_nat (length (approved_slots adms))\<rparr>\<rparr>)
          (sort_key fst (finish (map (\<lambda>a. (ap_index a, execute_single_tool_call run a)) (approved_slots adms)))) = (s4, Inr out)"
    and ap: "append_results E s4 (fill_slots adms out) = (s', Inr u)"
    unfolding st_bind_Inr_iff Let_def by blast
  have "config_of s' = config_of s4" using append_results_Inr [OF ap] by blast
  also have "\<dots> = config_of s2" using record_results_Inr [OF rr] by (simp add: config_of_def)
  also have "\<dots> = config_of s1" using dispatch_approved_context [OF d0] by blast
  also have "\<dots> = config_of s" using admit_calls_Inr [OF adm] by (simp add: extends_def s0_def config_of_def)
  finally show ?thesis .
qed

section \<open>Limits\<close>

lemma keep_Inr: "st_bind r (\<lambda>s1 a. (s1, Inr (w, a))) = (s', Inr (w', a')) \<Longrightarrow> w' = w \<and> r = (s', Inr a')"
  by (auto simp: st_bind_Inr_iff)

definition is_approved_write :: "admission \<Rightarrow> bool" where
  "is_approved_write a \<longleftrightarrow> (case a of Approved slot \<Rightarrow> ap_name slot = ''write_file'' | _ \<Rightarrow> False)"

lemma admit_call_writes:
  assumes a: "admit_call E s idx w call = (s', Inr (w', a))"
  shows "(w' = w \<and> \<not> is_approved_write a) \<or> (w' = w + 1 \<and> (is_approved_write a \<longrightarrow> w + 1 \<le> 2))"
proof (cases "is_approved_write a")
  case False
  with a show ?thesis
    by (auto simp: admit_call_def Let_def dest!: keep_Inr split: list.splits if_splits sum.splits)
next
  case True
  then obtain slot where slot: "a = Approved slot" "ap_name slot = ''write_file''"
    by (auto simp: is_approved_write_def split: admission.splits)
  with admit_call_Inr [OF a] have n: "tc_name call = ''write_file''" by (simp add: admission_ok_def)
  have r: "refuse E t call c m \<noteq> (t', Inr (Approved slot))" for t t' c m
    using refuse_Inr by fastforce
  from a n slot r show ?thesis
    by (auto simp: admit_call_def Let_def MAX_WRITE_FILE_CALLS_PER_ASSISTANT_MESSAGE_def not_less
        dest!: keep_Inr split: list.splits if_splits sum.splits)
qed

lemma admit_calls_writes:
  "admit_calls E s idx w calls = (s', Inr adms) \<Longrightarrow> unat w + length calls < 2 ^ 32 \<Longrightarrow>
   length (filter is_approved_write adms) \<le> 2 - unat w"
proof (induction calls arbitrary: s idx w adms)
  case (Cons call calls)
  from Cons.prems(1) obtain s1 w' a rest where a: "admit_call E s idx w call = (s1, Inr (w', a))"
    and rest: "admit_calls E s1 (Suc idx) w' calls = (s', Inr rest)" and adms: "adms = a # rest"
    by (auto simp: st_bind_Inr_iff)
  have inc: "unat (w + 1) = Suc (unat w)"
    using Cons.prems(2) by (simp add: unat_word_ariths)
  from admit_call_writes [OF a] show ?case
  proof
    assume *: "w' = w \<and> \<not> is_approved_write a"
    with Cons.IH [OF rest] Cons.prems(2) show ?thesis by (simp add: adms)
  next
    assume *: "w' = w + 1 \<and> (is_approved_write a \<longrightarrow> w + 1 \<le> 2)"
    have le: "is_approved_write a \<Longrightarrow> Suc (unat w) \<le> 2"
      using * inc word_le_nat_alt [of "w + 1" 2] by simp
    have "length (filter is_approved_write rest) \<le> 2 - Suc (unat w)"
      using Cons.IH [OF rest] * inc Cons.prems(2) by simp
    with le show ?thesis by (auto simp: adms)
  qed
qed simp

text \<open>At most two \<open>write_file\<close> calls of one assistant message are let through, whatever their number
  and whatever the policy says.\<close>

theorem at_most_two_writes_per_message:
  assumes "admit_calls E s 0 0 calls = (s', Inr adms)" "length calls < 2 ^ 32"
  shows "length (filter (\<lambda>slot. ap_name slot = ''write_file'') (approved_slots adms)) \<le> 2"
proof -
  have "length (filter (\<lambda>slot. ap_name slot = ''write_file'') (approved_slots as)) = length (filter is_approved_write as)"
    for as by (induction as rule: approved_slots.induct) (simp_all add: is_approved_write_def)
  with admit_calls_writes [OF assms(1)] assms(2) show ?thesis by simp
qed


section \<open>An example run\<close>

definition dx_patch :: "unit patch_api" where
  "dx_patch = \<lparr>px_parse = (\<lambda>s. Inl s), px_headers = (\<lambda>p. \<lparr>ph_original = None, ph_modified = None\<rparr>), px_apply = (\<lambda>b p. Inr b)\<rparr>"

definition dx_rules :: policy_config where
  "dx_rules = (let none = \<lparr>pr_allow = [], pr_deny = []\<rparr> in
     \<lparr>pc_read = \<lparr>pr_allow = [''a.txt''], pr_deny = []\<rparr>, pc_write = none, pc_shell = none, pc_network = none,
      pc_tools = none, pc_mcp_servers = none, pc_mcp_tools = none\<rparr>)"

definition dx_tool :: "string \<Rightarrow> tool_info" where
  "dx_tool name = \<lparr>ti_name = name, ti_required_permissions = [], ti_mcp_context = None, ti_validate_arguments = (\<lambda>v. Inr ())\<rparr>"

definition dx_env :: "(unit, unit) dispatch_env" where
  "dx_env = \<lparr>de_cost = (\<lambda>a b c u. ()), de_clock = int, de_task = ''task'',
     de_glob = \<lparr>gl_parses = (\<lambda>p. True), gl_matches = (\<lambda>c p s. p = s)\<rparr>, de_mode = Configured dx_rules,
     de_patch = dx_patch, de_canon = Inr, de_root = ''/w'', de_permission_text = (\<lambda>p. ''permission''),
     de_diff_preview = (\<lambda>n v. None), de_tools = [dx_tool ''read_file'', dx_tool ''write_file''],
     de_auto_commit = False, de_has_git_root = False, de_commit_event = (\<lambda>r. None)\<rparr>"

definition dx_state :: "unit dispatch_state" where
  "dx_state = \<lparr>ds_agent =
      \<lparr>as_config = \<lparr>ac_max_iterations = 10, ac_session_id = ''s''\<rparr>, as_state = Thinking 1,
       as_batch_remaining = 0, as_post_summary_resume = None, as_last_usage = None,
       as_total_input_tokens = 0, as_total_cache_read_tokens = 0, as_total_output_tokens = 0,
       as_cost = (), as_audit_log = [], as_tool_call_summaries = [], as_mcp_call_context = [],
       as_receiver_open = True, as_sent = []\<rparr>,
     ds_allow_all_writes = False, ds_shell_prefixes = [], ds_allowlist = [], ds_replies = None, ds_answers = None,
     ds_gates = [], ds_tool_counts = [], ds_modified_paths = [],
     ds_reliability = \<lparr>rel_tool_calls_total = 0, rel_tool_calls_success = 0, rel_tool_calls_failure = 0,
       rel_latency_total = 0, rel_latency_avg = 0, rel_latency_p95 = None, rel_timeouts = 0, rel_policy_denials = 0\<rparr>,
     ds_latency_samples = [], ds_context = []\<rparr>"

text \<open>A read the rules allow, a write they do not, and a read again.\<close>

definition dx_calls :: "tool_call list" where
  "dx_calls = [\<lparr>tc_id = ''c1'', tc_name = ''read_file'', tc_arguments = JObject [(''path'', JString ''a.txt'')]\<rparr>,
     \<lparr>tc_id = ''c2'', tc_name = ''write_file'', tc_arguments = JObject [(''path'', JString ''a.txt'')]\<rparr>,
     \<lparr>tc_id = ''c3'', tc_name = ''read_file'', tc_arguments = JObject [(''path'', JString ''a.txt'')]\<rparr>]"

definition dx_run :: "approved_slot \<Rightarrow> tool_output \<times> u64" where
  "dx_run a = (OutSuccess ''text'', 5)"

lemma dx_perms: "concrete_permissions dx_patch Inr (dx_tool ''read_file'') ''read_file'' (JObject [(''path'', JString ''a.txt'')]) ''/w'' = [ReadFile ''a.txt'']"
  by code_simp
lemma dx_matching: "matching_tools dx_env ''read_file'' = [0]" 
  by code_simp
lemma dx_auto: "\<exists>d. evaluate_automatic_for_tool (de_glob dx_env) (de_mode dx_env) (now_of dx_env dx_state 0) (session_of dx_state) (ReadFile ''a.txt'') (Some ''read_file'') = Inr d \<and> pd_allowed d"
proof -
  have "(case evaluate_automatic_for_tool (de_glob dx_env) (de_mode dx_env) (now_of dx_env dx_state 0) (session_of dx_state) (ReadFile ''a.txt'') (Some ''read_file'') of Inr d => pd_allowed d | _ => False)" by code_simp
  then show ?thesis by (simp split: sum.splits)
qed
lemma dx_fields: "de_tools dx_env ! 0 = dx_tool ''read_file''" "de_patch dx_env = dx_patch" "de_canon dx_env = Inr" "de_root dx_env = ''/w''" "de_diff_preview dx_env = (\<lambda>n v. None)"
   "ti_validate_arguments (dx_tool n) = (\<lambda>v. Inr ())" "ti_mcp_context (dx_tool n) = None"
   "ds_allow_all_writes dx_state = False" "ds_shell_prefixes dx_state = []" "ds_allowlist dx_state = []" "ds_tool_counts dx_state = []"
     by (simp_all add: dx_env_def dx_tool_def dx_state_def)
lemma dx_admit: "\<exists>d. admit_calls dx_env dx_state 0 0 [dx_calls ! 0] = (record_decision dx_state ''tool:auto'' d ''read_file'', 
   Inr [Approved \<lparr>ap_index = 0, ap_id = ''c1'', ap_name = ''read_file'', ap_arguments = JObject [(''path'', JString ''a.txt'')], ap_tool = 0, ap_mcp = None\<rparr>])"
proof -
  obtain d where d: "evaluate_automatic_for_tool (de_glob dx_env) (de_mode dx_env) (now_of dx_env dx_state 0) (session_of dx_state) (ReadFile ''a.txt'') (Some ''read_file'') = Inr d" "pd_allowed d"
    using dx_auto by blast
  have g: "gate_permission dx_env dx_state ''read_file'' None (ReadFile ''a.txt'') = (record_decision dx_state ''tool:auto'' d ''read_file'', Inr d)"
    by (simp add: gate_permission_def gate_automatic_def d dx_fields shell_prefix_hit_def)
  have m: "gate_mcp dx_env s n None = (s, None)" if "n = ''read_file''" for s n by (simp add: gate_mcp_def that)
  show ?thesis
    by (intro exI [of _ d]) (simp add: dx_calls_def admit_call_def dx_matching dx_fields admit_by_repeats_def admit_by_policy_def dx_perms Let_def g d(2) call_count_def m TOOL_REPEAT_LIMIT_def hm_get_def word_le_nat_alt)
qed

lemma dx_batch: "\<exists>s'. dispatch_tool_calls_batch dx_env dx_run rev dx_state [dx_calls ! 0] = (s', Inr ())"
proof -
  have "dx_state\<lparr>ds_agent := (ds_agent dx_state)\<lparr>as_batch_remaining := 0\<rparr>\<rparr> = dx_state" by (simp add: dx_state_def)
  moreover obtain d where "admit_calls dx_env dx_state 0 0 [dx_calls ! 0] = (record_decision dx_state ''tool:auto'' d ''read_file'', 
   Inr [Approved \<lparr>ap_index = 0, ap_id = ''c1'', ap_name = ''read_file'', ap_arguments = JObject [(''path'', JString ''a.txt'')], ap_tool = 0, ap_mcp = None\<rparr>])"
    using dx_admit by blast
  ultimately show ?thesis
    by (simp add: dispatch_tool_calls_batch_def dx_run_def execute_single_tool_call_def output_success_def Let_def
      apply_ev_def apply_event_def validate_transition_def next_state_after_def record_usage_def note_tool_summary_def audit_step_def
      record_decision_def emit_gate_def push_audit_def dx_state_def dx_env_def split_beta bump_count_def resolve_question_def note_modified_path_def note_auto_commit_def hm_get_def)
qed

theorem approved_calls_are_authorized_witness:
  "\<exists>s' slot. snd (admit_calls dx_env dx_state 0 0 [dx_calls ! 0]) = Inr [Approved slot] \<and> approval_ok dx_env ''s'' s' slot"
proof -
  obtain s' slot where a: "admit_calls dx_env dx_state 0 0 [dx_calls ! 0] = (s', Inr [Approved slot])"
    using dx_admit by blast
  have "approval_ok dx_env (session_of dx_state) s' slot"
    using approved_calls_are_authorized [OF a] by simp
  moreover have "session_of dx_state = ''s''" by (simp add: session_of_def dx_state_def)
  ultimately show ?thesis using a by auto
qed

theorem configured_rules_govern_dispatch_witness:
  "permission_allowed (de_glob dx_env) dx_rules (ReadFile ''a.txt'')"
proof -
  obtain s' slot where a: "admit_calls dx_env dx_state 0 0 [dx_calls ! 0] = (s', Inr [Approved slot])"
    and slot: "ap_tool slot = 0" "ap_name slot = ''read_file''" "ap_arguments slot = JObject [(''path'', JString ''a.txt'')]"
    using dx_admit by auto
  have "de_mode dx_env = Configured dx_rules" by (simp add: dx_env_def)
  from configured_rules_govern_dispatch [OF this a, of slot "ReadFile ''a.txt''"] show ?thesis
    by (simp add: slot dx_fields dx_perms)
qed

theorem completion_order_is_irrelevant_witness:
  "dispatch_tool_calls_batch dx_env dx_run rev dx_state dx_calls
     = dispatch_tool_calls_batch dx_env dx_run (\<lambda>xs. xs) dx_state dx_calls"
  by (rule completion_order_is_irrelevant) simp

theorem every_call_is_answered_in_order_witness:
  "map fst (ds_context (fst (dispatch_tool_calls_batch dx_env dx_run rev dx_state [dx_calls ! 0]))) = [''c1'']"
proof -
  obtain s' where b: "dispatch_tool_calls_batch dx_env dx_run rev dx_state [dx_calls ! 0] = (s', Inr ())"
    using dx_batch by blast
  have "\<exists>answers. ds_context s' = ds_context dx_state @ answers \<and> map fst answers = map tc_id [dx_calls ! 0]"
    by (rule every_call_is_answered_in_order [OF b]) simp
  moreover have "ds_context dx_state = []" "tc_id (dx_calls ! 0) = ''c1''" by (simp_all add: dx_state_def dx_calls_def)
  ultimately show ?thesis by (auto simp: b)
qed

theorem at_most_two_writes_per_message_witness:
  "\<exists>s' adms. admit_calls dx_env dx_state 0 0 [dx_calls ! 0] = (s', Inr adms) \<and>
     length (filter (\<lambda>slot. ap_name slot = ''write_file'') (approved_slots adms)) \<le> 2"
proof -
  obtain s' slot where a: "admit_calls dx_env dx_state 0 0 [dx_calls ! 0] = (s', Inr [Approved slot])"
    using dx_admit by blast
  with at_most_two_writes_per_message [OF a] show ?thesis by auto
qed

end
