(* ===== verification/Std_Text.thy ===== *)
theory Std_Text
  imports Sanitize
begin

text \<open>
  Text functions of the standard library on UTF-8 byte strings: \<open>str::from_utf8\<close>, \<open>str::lines\<close>, and
  what the proofs need of them. A Rust string is a \<open>char list\<close> all of whose characters are well
  formed (\<open>utf8_valid\<close>); the ASCII delimiters a program searches for never occur inside a character.
\<close>

section \<open>Well-formed UTF-8\<close>

definition cont :: "char \<Rightarrow> bool" where
  "cont c \<longleftrightarrow> 0x80 \<le> code c \<and> code c \<le> 0xBF"

text \<open>The byte sequences \<open>from_utf8\<close> accepts for one character: no overlong form, no surrogate, at
  most U+10FFFF.\<close>

fun valid_char :: "string \<Rightarrow> bool" where
  "valid_char [a] = (code a < 0x80)"
| "valid_char [a, b] = (0xC2 \<le> code a \<and> code a \<le> 0xDF \<and> cont b)"
| "valid_char [a, b, c] =
     (0xE0 \<le> code a \<and> code a \<le> 0xEF \<and> cont b \<and> cont c \<and>
      (code a = 0xE0 \<longrightarrow> 0xA0 \<le> code b) \<and> (code a = 0xED \<longrightarrow> code b \<le> 0x9F))"
| "valid_char [a, b, c, d] =
     (0xF0 \<le> code a \<and> code a \<le> 0xF4 \<and> cont b \<and> cont c \<and> cont d \<and>
      (code a = 0xF0 \<longrightarrow> 0x90 \<le> code b) \<and> (code a = 0xF4 \<longrightarrow> code b \<le> 0x8F))"
| "valid_char _ = False"

definition utf8_valid :: "string \<Rightarrow> bool" where
  "utf8_valid s \<longleftrightarrow> list_all valid_char (chars s)"

definition bytes_text :: "byte list \<Rightarrow> string" where
  "bytes_text bs = map (\<lambda>b. char_of (unat b)) bs"

definition from_utf8 :: "byte list \<Rightarrow> string option" where
  "from_utf8 bs = (let s = bytes_text bs in if utf8_valid s then Some s else None)"

lemma valid_char_complete: "valid_char p \<Longrightarrow> complete p"
  by (cases p rule: valid_char.cases) (auto simp: complete_def utf8_len_def)

lemma valid_char_chars [simp]: "valid_char p \<Longrightarrow> chars (p @ s) = p # chars s"
  by (simp add: chars_complete_append valid_char_complete)

lemma utf8_valid_Nil [simp]: "utf8_valid []"
  by (simp add: utf8_valid_def)

lemma utf8_valid_char_append [simp]: "valid_char p \<Longrightarrow> utf8_valid (p @ s) \<longleftrightarrow> utf8_valid s"
  by (simp add: utf8_valid_def)

lemma utf8_valid_concat: "list_all valid_char ps \<Longrightarrow> utf8_valid (concat ps @ s) \<longleftrightarrow> utf8_valid s"
  by (induction ps) simp_all

lemma utf8_validE:
  assumes "utf8_valid s"
  obtains ps where "s = concat ps" "list_all valid_char ps" "chars s = ps"
  using assms concat_chars [of s] by (metis utf8_valid_def)

lemma utf8_valid_append: "utf8_valid s \<Longrightarrow> utf8_valid (s @ t) \<longleftrightarrow> utf8_valid t"
  by (erule utf8_validE) (simp add: utf8_valid_concat)

lemma utf8_valid_appendI [intro]: "utf8_valid s \<Longrightarrow> utf8_valid t \<Longrightarrow> utf8_valid (s @ t)"
  by (simp add: utf8_valid_append)

lemma utf8_valid_ascii: "list_all (\<lambda>c. code c < 0x80) s \<Longrightarrow> utf8_valid s"
  by (induction s) (simp_all add: utf8_valid_append [where s = "[_]", simplified] utf8_valid_char_append [where p = "[_]", simplified])

lemma utf8_valid_Cons_ascii [simp]: "code c < 0x80 \<Longrightarrow> utf8_valid (c # s) \<longleftrightarrow> utf8_valid s"
  using utf8_valid_char_append [of "[c]" s] by simp

lemma utf8_valid_join:
  "list_all utf8_valid ls \<Longrightarrow> utf8_valid sep \<Longrightarrow> utf8_valid (join sep ls)"
  by (induction sep ls rule: join.induct) auto

lemma length_bytes_text [simp]: "length (bytes_text bs) = length bs"
  by (simp add: bytes_text_def)

lemma from_utf8_Some: "from_utf8 bs = Some s \<longleftrightarrow> s = bytes_text bs \<and> utf8_valid s"
  by (auto simp: from_utf8_def Let_def)

section \<open>ASCII delimiters\<close>

lemma valid_char_ascii_inner:
  "valid_char p \<Longrightarrow> d \<in> set p \<Longrightarrow> code d < 0x80 \<Longrightarrow> p = [d]"
  by (cases p rule: valid_char.cases) (auto simp: cont_def)

text \<open>Cutting valid text before an ASCII byte leaves valid text on both sides.\<close>

lemma utf8_valid_cut:
  assumes "utf8_valid (a @ d # b)" "code d < 0x80"
  shows "utf8_valid a \<and> utf8_valid b"
proof -
  have "list_all valid_char ps \<Longrightarrow> concat ps = a @ d # b \<Longrightarrow> utf8_valid a \<and> utf8_valid b" for ps
  proof (induction ps arbitrary: a)
    case (Cons p ps)
    show ?case
    proof (cases "length p \<le> length a")
      case True
      with Cons.prems(2) obtain a' where a: "a = p @ a'" "concat ps = a' @ d # b"
        by (auto simp: append_eq_append_conv2 append_eq_Cons_conv)
      with Cons show ?thesis by simp
    next
      case False
      have "a @ d # b = p @ concat ps" using Cons.prems(2) by simp
      then have "(a @ d # b) ! length a = (p @ concat ps) ! length a" by (rule arg_cong)
      with False have "d \<in> set p" by (simp add: nth_append)
      with Cons.prems(1) assms(2) have p: "p = [d]" by (intro valid_char_ascii_inner) auto
      with False Cons.prems have "a = []" "concat ps = b" by (cases a; simp)+
      with Cons.prems(1) utf8_valid_concat [of ps "[]"] show ?thesis by simp
    qed
  qed simp
  with assms(1) show ?thesis by (auto elim!: utf8_validE)
qed

lemma split_on_valid:
  assumes "code d < 0x80"
  shows "utf8_valid s \<Longrightarrow> list_all utf8_valid (split_on d s)"
proof (induction "length s" arbitrary: s rule: less_induct)
  case less
  show ?case
  proof (cases "d \<in> set s")
    case True
    then obtain a b where s: "s = a @ d # b" "d \<notin> set a" by (meson split_list_first)
    have "split_on d (a @ d # b) = a # split_on d b" if "d \<notin> set a" for a
      using that by (induction a) auto
    with s less(1) [of b] utf8_valid_cut [of a d b] less(2) assms show ?thesis by simp
  next
    case False
    then have "split_on d s = [s]" by (induction s) auto
    with less(2) show ?thesis by simp
  qed
qed

section \<open>Lines\<close>

definition CR :: char where
  "CR = CHR 0x0D"

definition strip_cr :: "string \<Rightarrow> string" where
  "strip_cr l = (if l \<noteq> [] \<and> last l = CR then butlast l else l)"

text \<open>\<open>str::lines\<close>: terminated lines lose the line feed and one carriage return before it; an
  unterminated last line is kept as it is, and none follows the last terminator.\<close>

definition str_lines :: "string \<Rightarrow> string list" where
  "str_lines s =
     (let parts = split_on LF s in
      map strip_cr (butlast parts) @ (if last parts = [] then [] else [last parts]))"

lemma split_on_nonempty [simp]: "split_on d s \<noteq> []"
  by (induction s) (auto split: list.split)

lemma strip_cr_valid [simp]: "utf8_valid l \<Longrightarrow> utf8_valid (strip_cr l)"
  using utf8_valid_cut [of "butlast l" CR "[]"]
  by (auto simp: strip_cr_def CR_def code_def dest: append_butlast_last_id)

lemma str_lines_valid: "utf8_valid s \<Longrightarrow> list_all utf8_valid (str_lines s)"
proof -
  assume "utf8_valid s"
  then have v: "list_all utf8_valid (split_on LF s)" by (intro split_on_valid) (simp_all add: LF_def code_def)
  then have "list_all utf8_valid (butlast (split_on LF s))" "utf8_valid (last (split_on LF s))"
    using in_set_butlastD [of _ "split_on LF s"] last_in_set [OF split_on_nonempty, of LF s]
    by (auto simp: list_all_iff)
  then show ?thesis by (auto simp: str_lines_def Let_def list_all_iff)
qed

text \<open>The prefix of a line's characters that fits into \<open>limit\<close> bytes: the end found so far is \<open>e\<close>.\<close>

fun fit_chars :: "nat \<Rightarrow> nat \<Rightarrow> string list \<Rightarrow> nat" where
  "fit_chars limit e [] = e"
| "fit_chars limit e (p # ps) = (if e + length p \<le> limit then fit_chars limit (e + length p) ps else e)"

lemma fit_chars_le: "e \<le> limit \<Longrightarrow> fit_chars limit e ps \<le> limit"
  by (induction limit e ps rule: fit_chars.induct) auto

lemma fit_chars_boundary:
  "\<exists>k \<le> length ps. fit_chars limit e ps = e + length (concat (take k ps))"
proof (induction limit e ps rule: fit_chars.induct)
  case (2 limit e p ps)
  show ?case
  proof (cases "e + length p \<le> limit")
    case True
    with 2 obtain k where "k \<le> length ps" "fit_chars limit (e + length p) ps = e + length p + length (concat (take k ps))" by blast
    with True show ?thesis by (intro exI [of _ "Suc k"]) simp
  qed (auto intro: exI [of _ 0])
qed simp

lemma take_fit_chars_valid:
  assumes "utf8_valid s"
  shows "utf8_valid (take (fit_chars limit 0 (chars s)) s)"
proof -
  from assms obtain ps where ps: "s = concat ps" "list_all valid_char ps" "chars s = ps" by (rule utf8_validE)
  obtain k where "fit_chars limit 0 ps = length (concat (take k ps))" using fit_chars_boundary [of ps limit 0] by auto
  moreover have "s = concat (take k ps) @ concat (drop k ps)" by (simp add: ps(1) flip: concat_append)
  ultimately have "take (fit_chars limit 0 (chars s)) s = concat (take k ps)"
    using ps(3) append_eq_conv_conj by metis
  moreover have "list_all valid_char (take k ps)" using ps(2) by (auto simp: list_all_iff dest: in_set_takeD)
  ultimately show ?thesis using utf8_valid_concat [of "take k ps" "[]"] by simp
qed

end
