(* ===== verification/Session_Diff.thy ===== *)
theory Session_Diff
  imports Cli_Journal Std_Text
begin

text \<open>
  The crate \<open>akmon-diff\<close>: two recorded sessions are walked in lockstep, the events of one position
  compared field by field (\<open>comparison.rs\<close>, \<open>engine.rs\<close>), optionally with previews of the objects
  behind differing hashes (\<open>resolve.rs\<close>), and the outcome is condensed into a report
  (\<open>report.rs\<close>). The object stores of the two sessions are the functions that read them.
\<close>

section \<open>Divergences\<close>

datatype diff_error =
    SourceSessionLoadFailed string string
  | SourceSessionMissing string
  | StoreAccessFailed string
  | InvalidSessionId string string
  | SourcePreconditionViolated string string
  | InternalError string string

record resolved_content =
  rc_a_size_bytes :: nat
  rc_b_size_bytes :: nat
  rc_a_preview :: "string option"
  rc_b_preview :: "string option"
  rc_bytes_match :: bool

datatype divergence_kind =
    EventCountMismatch | EventKindMismatchAtPosition | StructuralBreakAtPosition
  | AssistantContentDifference | ProviderCallResponseDifference | ProviderCallRequestDifference
  | ProviderCallAttemptCountDifference | ProviderCallAttemptStatusDifference
  | ProviderCallAttemptErrorDifference | ToolCallInputDifference | ToolCallOutputDifference
  | PermissionGateDecisionDifference | SessionStartCwdDifference | SessionEndDifference
  | ContentReferenceDifference

definition is_informational :: "divergence_kind \<Rightarrow> bool" where
  "is_informational k \<longleftrightarrow> k = ProviderCallRequestDifference"

record divergence =
  dv_position :: "u64 option"
  dv_kind :: divergence_kind
  dv_field :: "string option"
  dv_expected :: string
  dv_actual :: string
  dv_resolved :: "resolved_content option"
  dv_resolved_skip_reason :: "string option"

record structural_break =
  sb_position :: u64
  sb_expected :: string
  sb_actual :: string

section \<open>Object previews\<close>

definition RESOLVE_READ_CAP_BYTES :: nat where "RESOLVE_READ_CAP_BYTES = 10 * 1024 * 1024"
definition RESOLVE_TEXT_MAX_BYTES :: nat where "RESOLVE_TEXT_MAX_BYTES = 10 * 1024"
definition RESOLVE_TEXT_PREVIEW_MAX_LINES :: nat where "RESOLVE_TEXT_PREVIEW_MAX_LINES = 5"
definition RESOLVE_TEXT_PREVIEW_MAX_LINE_BYTES :: nat where "RESOLVE_TEXT_PREVIEW_MAX_LINE_BYTES = 1024"
definition RESOLVE_BINARY_HEX_MAX_BYTES :: nat where "RESOLVE_BINARY_HEX_MAX_BYTES = 64"
definition RESOLVE_SKIP_EXCEEDS_CAP :: string where "RESOLVE_SKIP_EXCEEDS_CAP = ''exceeds 10 MiB cap''"
definition RESOLVE_SKIP_OBJECT_MISSING :: string where "RESOLVE_SKIP_OBJECT_MISSING = ''object missing from store''"
definition RESOLVE_SKIP_NOT_DEREFERENCABLE :: string where
  "RESOLVE_SKIP_NOT_DEREFERENCABLE = ''field not dereferenceable''"

type_synonym object_reader = "hash \<Rightarrow> journal_error + byte list option"

record resolve_context =
  rx_get_a :: object_reader
  rx_get_b :: object_reader

datatype resolve_outcome = Loaded "byte list" | ExceedsCap | ObjectMissing

definition resolve_object_capped ::
    "'x command_ext_scheme \<Rightarrow> object_reader \<Rightarrow> hash \<Rightarrow> diff_error + resolve_outcome" where
  "resolve_object_capped X get h =
     (case get h of
        Inl err \<Rightarrow> Inl (StoreAccessFailed (jerr_text X err))
      | Inr None \<Rightarrow> Inr ObjectMissing
      | Inr (Some bytes) \<Rightarrow>
          if length bytes > RESOLVE_READ_CAP_BYTES then Inr ExceedsCap else Inr (Loaded bytes))"

definition truncate_line_to_max_bytes :: "string \<Rightarrow> nat \<Rightarrow> string \<times> nat" where
  "truncate_line_to_max_bytes line max_bytes =
     (if length line \<le> max_bytes then (line, 0)
      else let e = fit_chars max_bytes 0 (chars line) in (take e line, length line - e))"

definition format_line_maybe_truncated :: "string \<Rightarrow> string" where
  "format_line_maybe_truncated line =
     (if length line > RESOLVE_TEXT_PREVIEW_MAX_LINE_BYTES
      then let (prefix, omitted) = truncate_line_to_max_bytes line RESOLVE_TEXT_PREVIEW_MAX_LINE_BYTES in
           prefix @ ''... (truncated line, '' @ show_nat omitted @ '' more bytes)''
      else line)"

definition render_text_preview :: "string \<Rightarrow> string" where
  "render_text_preview text =
     (let lines = str_lines text in
      if lines = [] then ''<empty>''
      else if length text > RESOLVE_TEXT_MAX_BYTES \<or> length lines > RESOLVE_TEXT_PREVIEW_MAX_LINES
      then
        let shown = join [LF] (map format_line_maybe_truncated (take RESOLVE_TEXT_PREVIEW_MAX_LINES lines));
            more = length lines - RESOLVE_TEXT_PREVIEW_MAX_LINES in
        if more > 0 then shown @ [LF] @ ''... ('' @ show_nat more @ '' more lines)'' else shown
      else join [LF] (map format_line_maybe_truncated lines))"

definition byte_hex :: "byte \<Rightarrow> string" where
  "byte_hex b = pad_hex 2 (unat b)"

definition format_hex_preview :: "byte list \<Rightarrow> nat \<Rightarrow> string" where
  "format_hex_preview bytes max_bytes =
     (let preview = join '' '' (map byte_hex (take max_bytes bytes)) in
      if length bytes > max_bytes
      then preview @ ''... (truncated, '' @ show_nat (length bytes - max_bytes) @ '' more bytes)''
      else preview)"

definition render_preview :: "byte list \<Rightarrow> string option" where
  "render_preview bytes =
     (if bytes = [] then Some ''<empty>''
      else case from_utf8 bytes of
          Some text \<Rightarrow> Some (render_text_preview text)
        | None \<Rightarrow> Some (format_hex_preview bytes RESOLVE_BINARY_HEX_MAX_BYTES))"

definition mark_not_dereferenceable :: "divergence \<Rightarrow> divergence" where
  "mark_not_dereferenceable d =
     d\<lparr>dv_resolved := None, dv_resolved_skip_reason := Some RESOLVE_SKIP_NOT_DEREFERENCABLE\<rparr>"

definition attach_resolved_content_pair ::
    "'x command_ext_scheme \<Rightarrow> divergence \<Rightarrow> resolve_context \<Rightarrow> hash \<Rightarrow> hash \<Rightarrow> diff_error + divergence" where
  "attach_resolved_content_pair X d ctx ha hb =
     res_bind (resolve_object_capped X (rx_get_a ctx) ha) (\<lambda>oa.
     res_bind (resolve_object_capped X (rx_get_b ctx) hb) (\<lambda>ob.
     Inr (case (oa, ob) of
            (Loaded a, Loaded b) \<Rightarrow>
              d\<lparr>dv_resolved := Some \<lparr>rc_a_size_bytes = length a, rc_b_size_bytes = length b,
                   rc_a_preview = render_preview a, rc_b_preview = render_preview b, rc_bytes_match = (a = b)\<rparr>,
                dv_resolved_skip_reason := None\<rparr>
          | _ \<Rightarrow>
              d\<lparr>dv_resolved := None,
                dv_resolved_skip_reason :=
                  Some (if oa = ExceedsCap \<or> ob = ExceedsCap then RESOLVE_SKIP_EXCEEDS_CAP
                        else RESOLVE_SKIP_OBJECT_MISSING)\<rparr>)))"

section \<open>Field comparisons\<close>

definition opt_hash_hex :: "'x hash_ext_scheme \<Rightarrow> hash option \<Rightarrow> string" where
  "opt_hash_hex X h = (case h of None \<Rightarrow> ''none'' | Some v \<Rightarrow> to_hex X v)"

definition new_divergence :: "u64 \<Rightarrow> divergence_kind \<Rightarrow> string \<Rightarrow> string \<Rightarrow> string \<Rightarrow> divergence" where
  "new_divergence position kind name expected actual =
     \<lparr>dv_position = Some position, dv_kind = kind, dv_field = Some name, dv_expected = expected,
      dv_actual = actual, dv_resolved = None, dv_resolved_skip_reason = None\<rparr>"

text \<open>A comparison yields the divergences it pushes, or the first error.\<close>

definition push_hash_field ::
    "'x command_ext_scheme \<Rightarrow> divergence \<Rightarrow> resolve_context option \<Rightarrow> hash option \<Rightarrow> hash option
     \<Rightarrow> diff_error + divergence list" where
  "push_hash_field X d ctx a b =
     (case ctx of
        None \<Rightarrow> Inr [d]
      | Some c \<Rightarrow>
          (case (a, b) of
             (Some ha, Some hb) \<Rightarrow> res_bind (attach_resolved_content_pair X d c ha hb) (\<lambda>d'. Inr [d'])
           | _ \<Rightarrow> Inr [mark_not_dereferenceable d]))"

definition push_scalar_field :: "divergence \<Rightarrow> resolve_context option \<Rightarrow> divergence list" where
  "push_scalar_field d ctx = [if ctx = None then d else mark_not_dereferenceable d]"

text \<open>The three shapes of a compared field: a hash, an optional hash, a scalar.\<close>

definition hash_field ::
    "'x command_ext_scheme \<Rightarrow> resolve_context option \<Rightarrow> u64 \<Rightarrow> divergence_kind \<Rightarrow> string \<Rightarrow> hash \<Rightarrow> hash
     \<Rightarrow> diff_error + divergence list" where
  "hash_field X ctx position kind name a b =
     (if a \<noteq> b
      then push_hash_field X (new_divergence position kind name (to_hex X a) (to_hex X b)) ctx (Some a) (Some b)
      else Inr [])"

definition opt_hash_field ::
    "'x command_ext_scheme \<Rightarrow> resolve_context option \<Rightarrow> u64 \<Rightarrow> divergence_kind \<Rightarrow> string
     \<Rightarrow> hash option \<Rightarrow> hash option \<Rightarrow> diff_error + divergence list" where
  "opt_hash_field X ctx position kind name a b =
     (if a \<noteq> b
      then push_hash_field X (new_divergence position kind name (opt_hash_hex X a) (opt_hash_hex X b)) ctx a b
      else Inr [])"

definition scalar_field ::
    "resolve_context option \<Rightarrow> u64 \<Rightarrow> divergence_kind \<Rightarrow> string \<Rightarrow> bool \<Rightarrow> string \<Rightarrow> string
     \<Rightarrow> diff_error + divergence list" where
  "scalar_field ctx position kind name differs expected actual =
     Inr (if differs then push_scalar_field (new_divergence position kind name expected actual) ctx else [])"

fun res_concat :: "('e + 'a list) list \<Rightarrow> 'e + 'a list" where
  "res_concat [] = Inr []"
| "res_concat (r # rs) = res_bind r (\<lambda>x. res_bind (res_concat rs) (\<lambda>y. Inr (x @ y)))"

fun attempt_status_label :: "attempt_status \<Rightarrow> string" where
  "attempt_status_label Success = ''success''"
| "attempt_status_label RateLimited = ''rate_limited''"
| "attempt_status_label NetworkError = ''network_error''"
| "attempt_status_label ServerError = ''server_error''"
| "attempt_status_label ClientError = ''client_error''"
| "attempt_status_label Cancelled = ''cancelled''"
| "attempt_status_label (Other other) = ''other:'' @ other"

definition compare_session_start ::
    "'x command_ext_scheme \<Rightarrow> resolve_context option \<Rightarrow> u64 \<Rightarrow> hash \<times> hash \<Rightarrow> hash \<times> hash
     \<Rightarrow> diff_error + divergence list" where
  "compare_session_start X ctx position a b =
     res_concat
       [hash_field X ctx position SessionStartCwdDifference ''cwd_hash'' (fst a) (fst b),
        hash_field X ctx position ContentReferenceDifference ''config_hash'' (snd a) (snd b)]"

definition compare_user_turn ::
    "'x command_ext_scheme \<Rightarrow> resolve_context option \<Rightarrow> u64 \<Rightarrow> hash \<Rightarrow> hash \<Rightarrow> diff_error + divergence list" where
  "compare_user_turn X ctx position a b = hash_field X ctx position ContentReferenceDifference ''prompt_hash'' a b"

definition attempt_field :: "nat \<Rightarrow> string \<Rightarrow> string" where
  "attempt_field index name = ''attempts['' @ show_nat index @ ''].'' @ name"

definition compare_attempt_pair ::
    "'x command_ext_scheme \<Rightarrow> resolve_context option \<Rightarrow> u64 \<Rightarrow> nat \<Rightarrow> attempt_record \<Rightarrow> attempt_record
     \<Rightarrow> diff_error + divergence list" where
  "compare_attempt_pair X ctx position index a b =
     (let text = (\<lambda>m. case m of Some s \<Rightarrow> s | None \<Rightarrow> ''none'') in
      res_concat
       [hash_field X ctx position ProviderCallRequestDifference (attempt_field index ''request_hash'')
          (at_request_hash a) (at_request_hash b),
        scalar_field ctx position ProviderCallAttemptStatusDifference (attempt_field index ''status'')
          (at_status a \<noteq> at_status b) (attempt_status_label (at_status a)) (attempt_status_label (at_status b)),
        scalar_field ctx position ProviderCallAttemptErrorDifference (attempt_field index ''error_message'')
          (at_error_message a \<noteq> at_error_message b) (text (at_error_message a)) (text (at_error_message b))])"

fun compare_attempts ::
    "'x command_ext_scheme \<Rightarrow> resolve_context option \<Rightarrow> u64 \<Rightarrow> nat \<Rightarrow> attempt_record list \<Rightarrow> attempt_record list
     \<Rightarrow> diff_error + divergence list" where
  "compare_attempts X ctx position index (a # as) (b # bs) =
     res_concat [compare_attempt_pair X ctx position index a b, compare_attempts X ctx position (Suc index) as bs]"
| "compare_attempts X ctx position index _ _ = Inr []"

definition final_response :: "attempt_record list \<Rightarrow> hash option" where
  "final_response as = Option.bind (last_opt as) at_response_hash"

definition compare_provider_call ::
    "'x command_ext_scheme \<Rightarrow> resolve_context option \<Rightarrow> u64
     \<Rightarrow> string \<times> attempt_record list \<times> hash option \<Rightarrow> string \<times> attempt_record list \<times> hash option
     \<Rightarrow> diff_error + divergence list" where
  "compare_provider_call X ctx position a b =
     (let (a_id, a_attempts, a_stream) = a; (b_id, b_attempts, b_stream) = b in
      res_concat
       [scalar_field ctx position ContentReferenceDifference ''provider_id'' (a_id \<noteq> b_id) a_id b_id,
        scalar_field ctx position ProviderCallAttemptCountDifference ''attempts.len''
          (length a_attempts \<noteq> length b_attempts) (show_nat (length a_attempts)) (show_nat (length b_attempts)),
        compare_attempts X ctx position 0 a_attempts b_attempts,
        opt_hash_field X ctx position ProviderCallResponseDifference ''attempts[-1].response_hash''
          (final_response a_attempts) (final_response b_attempts),
        opt_hash_field X ctx position ContentReferenceDifference ''stream_hash'' a_stream b_stream])"

definition compare_assistant_turn ::
    "'x command_ext_scheme \<Rightarrow> resolve_context option \<Rightarrow> u64 \<Rightarrow> hash \<times> hash option \<Rightarrow> hash \<times> hash option
     \<Rightarrow> diff_error + divergence list" where
  "compare_assistant_turn X ctx position a b =
     res_concat
       [hash_field X ctx position AssistantContentDifference ''message_hash'' (fst a) (fst b),
        opt_hash_field X ctx position ContentReferenceDifference ''tool_calls_hash'' (snd a) (snd b)]"

definition compare_tool_call ::
    "'x command_ext_scheme \<Rightarrow> resolve_context option \<Rightarrow> u64
     \<Rightarrow> string \<times> hash \<times> hash \<times> hash option \<Rightarrow> string \<times> hash \<times> hash \<times> hash option
     \<Rightarrow> diff_error + divergence list" where
  "compare_tool_call X ctx position a b =
     (let (a_id, a_input, a_output, a_effects) = a; (b_id, b_input, b_output, b_effects) = b in
      res_concat
       [scalar_field ctx position ContentReferenceDifference ''tool_id'' (a_id \<noteq> b_id) a_id b_id,
        hash_field X ctx position ToolCallInputDifference ''input_hash'' a_input b_input,
        hash_field X ctx position ToolCallOutputDifference ''output_hash'' a_output b_output,
        opt_hash_field X ctx position ContentReferenceDifference ''side_effects_hash'' a_effects b_effects])"

definition compare_retrieval_call ::
    "'x command_ext_scheme \<Rightarrow> resolve_context option \<Rightarrow> u64 \<Rightarrow> string \<times> hash \<times> hash \<Rightarrow> string \<times> hash \<times> hash
     \<Rightarrow> diff_error + divergence list" where
  "compare_retrieval_call X ctx position a b =
     (let (a_index, a_query, a_results) = a; (b_index, b_query, b_results) = b in
      res_concat
       [scalar_field ctx position ContentReferenceDifference ''index_id'' (a_index \<noteq> b_index) a_index b_index,
        hash_field X ctx position ContentReferenceDifference ''query_hash'' a_query b_query,
        hash_field X ctx position ContentReferenceDifference ''results_hash'' a_results b_results])"

definition compare_permission_gate ::
    "'x command_ext_scheme \<Rightarrow> resolve_context option \<Rightarrow> u64 \<Rightarrow> string \<times> string \<times> hash \<Rightarrow> string \<times> string \<times> hash
     \<Rightarrow> diff_error + divergence list" where
  "compare_permission_gate X ctx position a b =
     (let (a_policy, a_decision, a_context) = a; (b_policy, b_decision, b_context) = b in
      res_concat
       [scalar_field ctx position ContentReferenceDifference ''policy_id'' (a_policy \<noteq> b_policy) a_policy b_policy,
        scalar_field ctx position PermissionGateDecisionDifference ''decision'' (a_decision \<noteq> b_decision)
          a_decision b_decision,
        hash_field X ctx position ContentReferenceDifference ''context_hash'' a_context b_context])"

definition compare_session_end ::
    "'x command_ext_scheme \<Rightarrow> resolve_context option \<Rightarrow> u64 \<Rightarrow> hash option \<Rightarrow> hash option
     \<Rightarrow> diff_error + divergence list" where
  "compare_session_end X ctx position a b =
     opt_hash_field X ctx position SessionEndDifference ''summary_hash'' a b"

section \<open>The lockstep walk\<close>

fun kind_label :: "event_kind \<Rightarrow> string" where
  "kind_label (SessionStart _ _) = ''SessionStart''"
| "kind_label (UserTurn _) = ''UserTurn''"
| "kind_label (ProviderCall _ _ _) = ''ProviderCall''"
| "kind_label (ToolCall _ _ _ _) = ''ToolCall''"
| "kind_label (RetrievalCall _ _ _) = ''RetrievalCall''"
| "kind_label (PermissionGate _ _ _) = ''PermissionGate''"
| "kind_label (AssistantTurn _ _) = ''AssistantTurn''"
| "kind_label (SessionEnd _) = ''SessionEnd''"

fun same_event_kind_variant :: "event_kind \<Rightarrow> event_kind \<Rightarrow> bool" where
  "same_event_kind_variant (SessionStart _ _) (SessionStart _ _) = True"
| "same_event_kind_variant (UserTurn _) (UserTurn _) = True"
| "same_event_kind_variant (ProviderCall _ _ _) (ProviderCall _ _ _) = True"
| "same_event_kind_variant (ToolCall _ _ _ _) (ToolCall _ _ _ _) = True"
| "same_event_kind_variant (RetrievalCall _ _ _) (RetrievalCall _ _ _) = True"
| "same_event_kind_variant (PermissionGate _ _ _) (PermissionGate _ _ _) = True"
| "same_event_kind_variant (AssistantTurn _ _) (AssistantTurn _ _) = True"
| "same_event_kind_variant (SessionEnd _) (SessionEnd _) = True"
| "same_event_kind_variant _ _ = False"

definition field_differences_at_position ::
    "'x command_ext_scheme \<Rightarrow> resolve_context option \<Rightarrow> event \<Rightarrow> event \<Rightarrow> diff_error + divergence list" where
  "field_differences_at_position X ctx a b =
     (let position = ev_sequence a in
      case (ev_kind a, ev_kind b) of
        (SessionStart c1 g1, SessionStart c2 g2) \<Rightarrow> compare_session_start X ctx position (c1, g1) (c2, g2)
      | (UserTurn p1, UserTurn p2) \<Rightarrow> compare_user_turn X ctx position p1 p2
      | (ProviderCall i1 t1 s1, ProviderCall i2 t2 s2) \<Rightarrow> compare_provider_call X ctx position (i1, t1, s1) (i2, t2, s2)
      | (ToolCall i1 n1 o1 e1, ToolCall i2 n2 o2 e2) \<Rightarrow> compare_tool_call X ctx position (i1, n1, o1, e1) (i2, n2, o2, e2)
      | (RetrievalCall i1 q1 r1, RetrievalCall i2 q2 r2) \<Rightarrow> compare_retrieval_call X ctx position (i1, q1, r1) (i2, q2, r2)
      | (PermissionGate p1 d1 c1, PermissionGate p2 d2 c2) \<Rightarrow> compare_permission_gate X ctx position (p1, d1, c1) (p2, d2, c2)
      | (AssistantTurn m1 t1, AssistantTurn m2 t2) \<Rightarrow> compare_assistant_turn X ctx position (m1, t1) (m2, t2)
      | (SessionEnd s1, SessionEnd s2) \<Rightarrow> compare_session_end X ctx position s1 s2
      | _ \<Rightarrow> Inr [])"

definition structural_divergence :: "nat \<Rightarrow> divergence_kind \<Rightarrow> string \<Rightarrow> string \<Rightarrow> divergence" where
  "structural_divergence position kind expected actual =
     \<lparr>dv_position = Some (of_nat position), dv_kind = kind, dv_field = None, dv_expected = expected,
      dv_actual = actual, dv_resolved = None, dv_resolved_skip_reason = None\<rparr>"

text \<open>The loop of \<open>run_inner\<close> from a position on: the divergences, the structural break, and the
  number of events compared. \<open>la\<close> and \<open>lb\<close> are the lengths of the whole histories.\<close>

fun walk ::
    "'x command_ext_scheme \<Rightarrow> resolve_context option \<Rightarrow> nat \<Rightarrow> nat \<Rightarrow> nat \<Rightarrow> (hash \<times> event) list \<Rightarrow> (hash \<times> event) list
     \<Rightarrow> diff_error + divergence list \<times> structural_break option \<times> nat" where
  "walk X ctx la lb position [] [] = Inr ([], None, position)"
| "walk X ctx la lb position ((_, a) # as) ((_, b) # bs) =
     (if \<not> same_event_kind_variant (ev_kind a) (ev_kind b)
      then let expected = kind_label (ev_kind a); actual = kind_label (ev_kind b) in
           Inr ([structural_divergence position EventKindMismatchAtPosition expected actual],
                Some \<lparr>sb_position = of_nat position, sb_expected = expected, sb_actual = actual\<rparr>, position)
      else
        res_bind (field_differences_at_position X ctx a b) (\<lambda>ds.
        res_bind (walk X ctx la lb (Suc position) as bs) (\<lambda>(rest, brk, n). Inr (ds @ rest, brk, n))))"
| "walk X ctx la lb position _ _ =
     Inr ([structural_divergence position EventCountMismatch (show_nat la) (show_nat lb)],
          Some \<lparr>sb_position = of_nat position, sb_expected = ''len='' @ show_nat la, sb_actual = ''len='' @ show_nat lb\<rparr>,
          position)"

section \<open>Engine and report\<close>

record source_session =
  ss_session_id :: "byte list"
  ss_get :: object_reader
  ss_contains :: "hash \<Rightarrow> journal_error + bool"
  ss_history :: "(hash \<times> event) list"

definition source_session_load_failed :: "'x command_ext_scheme \<Rightarrow> byte list \<Rightarrow> journal_error \<Rightarrow> diff_error" where
  "source_session_load_failed X sid e = SourceSessionLoadFailed (x_uuid_text X sid) (jerr_text X e)"

definition redb_source ::
    "('db, 'r) graph_api_scheme \<Rightarrow> 'db redb_store \<Rightarrow> byte list \<Rightarrow> (hash \<times> event) list \<Rightarrow> source_session" where
  "redb_source R s sid history =
     \<lparr>ss_session_id = sid, ss_get = redb_get R s, ss_contains = redb_contains R s, ss_history = history\<rparr>"

definition session_must_exist ::
    "'x command_ext_scheme \<Rightarrow> ('db, 'r) graph_api_scheme \<Rightarrow> bool \<Rightarrow> string + 'db \<Rightarrow> byte list
     \<Rightarrow> diff_error + unit" where
  "session_must_exist X R is_file opened sid =
     res_bind (map_err (\<lambda>e. StoreAccessFailed (jerr_text X e)) (journal_contains_session R is_file opened sid)) (\<lambda>present.
     if present then Inr () else Inl (SourceSessionMissing (x_uuid_text X sid)))"

definition load_source_session_from_journal ::
    "'x command_ext_scheme \<Rightarrow> ('db, 'r) graph_api_scheme \<Rightarrow> bool \<Rightarrow> string + 'db \<Rightarrow> byte list
     \<Rightarrow> diff_error + source_session" where
  "load_source_session_from_journal X R is_file opened sid =
     res_bind (session_must_exist X R is_file opened sid) (\<lambda>_.
     res_bind (map_err (source_session_load_failed X sid) (open_journal_read_only R opened sid)) (\<lambda>g.
     res_bind (map_err (source_session_load_failed X sid) (redb_history R g)) (\<lambda>history.
     Inr (redb_source R (rg_store g) sid history))))"

definition reopen_and_read ::
    "'x command_ext_scheme \<Rightarrow> ('db, 'r) graph_api_scheme \<Rightarrow> 'db redb_store \<Rightarrow> byte list
     \<Rightarrow> diff_error + 'db redb_store \<times> (hash \<times> event) list" where
  "reopen_and_read X R s sid =
     res_bind (map_err (source_session_load_failed X sid) (snd (redb_reopen R s sid))) (\<lambda>g.
     res_bind (map_err (source_session_load_failed X sid) (redb_history R g)) (\<lambda>history.
     Inr (rg_store g, history)))"

text \<open>Both sessions are read through one handle of the database.\<close>

definition load_two_source_sessions_from_journal ::
    "'x command_ext_scheme \<Rightarrow> ('db, 'r) graph_api_scheme \<Rightarrow> bool \<Rightarrow> string + 'db \<Rightarrow> byte list \<Rightarrow> byte list
     \<Rightarrow> diff_error + source_session \<times> source_session" where
  "load_two_source_sessions_from_journal X R is_file opened sid_a sid_b =
     res_bind (session_must_exist X R is_file opened sid_a) (\<lambda>_.
     res_bind (session_must_exist X R is_file opened sid_b) (\<lambda>_.
     res_bind (map_err (\<lambda>e. StoreAccessFailed (jerr_text X e)) (redb_open R opened)) (\<lambda>s.
     res_bind (reopen_and_read X R s sid_a) (\<lambda>(s1, history_a).
     res_bind (reopen_and_read X R s1 sid_b) (\<lambda>(s2, history_b).
     Inr (redb_source R s2 sid_a history_a, redb_source R s2 sid_b history_b))))))"

definition session_end_positions :: "(hash \<times> event) list \<Rightarrow> u64 list" where
  "session_end_positions history =
     map (\<lambda>(h, e). ev_sequence e) (filter (\<lambda>(h, e). is_session_end (ev_kind e)) history)"

fun check_contained ::
    "'x command_ext_scheme \<Rightarrow> string \<Rightarrow> (hash \<Rightarrow> journal_error + bool) \<Rightarrow> hash list \<Rightarrow> diff_error + unit" where
  "check_contained X label contains [] = Inr ()"
| "check_contained X label contains (h # hs) =
     (case contains h of
        Inr True \<Rightarrow> check_contained X label contains hs
      | Inr False \<Rightarrow>
          Inl (StoreAccessFailed (''source '' @ label @ '' missing referenced object '' @ to_hex X h))
      | Inl err \<Rightarrow>
          Inl (StoreAccessFailed (''source '' @ label @ '' store access for '' @ to_hex X h @ '': '' @ jerr_text X err)))"

definition validate_source_preconditions ::
    "'x command_ext_scheme \<Rightarrow> string \<Rightarrow> source_session \<Rightarrow> diff_error + unit" where
  "validate_source_preconditions X label S =
     (let history = ss_history S; ends = session_end_positions history in
      case history of
        [] \<Rightarrow> Inl (SourcePreconditionViolated label ''history is empty'')
      | (_, first) # _ \<Rightarrow>
          if \<not> is_session_start (ev_kind first)
          then Inl (SourcePreconditionViolated label
                 (''first event must be SessionStart (sequence='' @ show_nat (unat (ev_sequence first)) @ '')''))
          else if length ends \<noteq> 1
          then Inl (SourcePreconditionViolated label
                 (''must contain exactly one SessionEnd (found '' @ show_nat (length ends) @ '')''))
          else if hd ends \<noteq> ev_sequence (snd (last history))
          then Inl (SourcePreconditionViolated label
                 (''SessionEnd must be terminal (session_end_at='' @ show_nat (unat (hd ends)) @ '' terminal=''
                  @ show_nat (unat (ev_sequence (snd (last history)))) @ '')''))
          else check_contained X label (ss_contains S)
                 (concat (map (\<lambda>(h, e). referenced_object_hashes_for_kind (ev_kind e)) history)))"

record diff_engine =
  de_source_a :: source_session
  de_source_b :: source_session

definition diff_engine_new ::
    "'x command_ext_scheme \<Rightarrow> source_session \<Rightarrow> source_session \<Rightarrow> diff_error + diff_engine" where
  "diff_engine_new X a b =
     res_bind (validate_source_preconditions X ''A'' a) (\<lambda>_.
     res_bind (validate_source_preconditions X ''B'' b) (\<lambda>_.
     Inr \<lparr>de_source_a = a, de_source_b = b\<rparr>))"

record diff_comparison =
  dc_session_a_id :: string
  dc_session_b_id :: string
  dc_divergences :: "divergence list"
  dc_structural_break :: "structural_break option"
  dc_events_compared :: nat

definition run_inner ::
    "'x command_ext_scheme \<Rightarrow> diff_engine \<Rightarrow> resolve_context option \<Rightarrow> diff_error + diff_comparison" where
  "run_inner X E ctx =
     (let a = ss_history (de_source_a E); b = ss_history (de_source_b E) in
      res_bind (walk X ctx (length a) (length b) 0 a b) (\<lambda>(ds, brk, n).
      Inr \<lparr>dc_session_a_id = x_uuid_text X (ss_session_id (de_source_a E)),
           dc_session_b_id = x_uuid_text X (ss_session_id (de_source_b E)),
           dc_divergences = ds, dc_structural_break = brk, dc_events_compared = n\<rparr>))"

definition diff_run :: "'x command_ext_scheme \<Rightarrow> diff_engine \<Rightarrow> diff_error + diff_comparison" where
  "diff_run X E = run_inner X E None"

definition diff_run_with_resolve :: "'x command_ext_scheme \<Rightarrow> diff_engine \<Rightarrow> diff_error + diff_comparison" where
  "diff_run_with_resolve X E =
     run_inner X E (Some \<lparr>rx_get_a = ss_get (de_source_a E), rx_get_b = ss_get (de_source_b E)\<rparr>)"

record diff_report =
  dr_akmon_version :: string
  dr_agef_version :: string
  dr_session_a_id :: string
  dr_session_b_id :: string
  dr_events_compared :: nat
  dr_session_a_event_count :: nat
  dr_session_b_event_count :: nat
  dr_structural_break :: "structural_break option"
  dr_divergence_count :: nat
  dr_informational_divergence_count :: nat
  dr_divergences :: "divergence list"
  dr_matches :: bool

definition diff_report_from_comparison :: "diff_comparison \<Rightarrow> nat \<Rightarrow> nat \<Rightarrow> diff_report" where
  "diff_report_from_comparison c a_count b_count =
     (let divergence_count = length (dc_divergences c);
          informational = length (filter (\<lambda>d. is_informational (dv_kind d)) (dc_divergences c)) in
      \<lparr>dr_akmon_version = CARGO_PKG_VERSION, dr_agef_version = AGEF_SPEC_VERSION,
       dr_session_a_id = dc_session_a_id c, dr_session_b_id = dc_session_b_id c,
       dr_events_compared = dc_events_compared c,
       dr_session_a_event_count = a_count, dr_session_b_event_count = b_count,
       dr_structural_break = dc_structural_break c,
       dr_divergence_count = divergence_count, dr_informational_divergence_count = informational,
       dr_divergences = dc_divergences c,
       dr_matches = (divergence_count = informational \<and> dc_structural_break c = None)\<rparr>)"

definition run_to_report ::
    "diff_engine \<Rightarrow> diff_error + diff_comparison \<Rightarrow> diff_error + diff_report" where
  "run_to_report E r =
     res_bind r (\<lambda>c. Inr (diff_report_from_comparison c (length (ss_history (de_source_a E)))
                          (length (ss_history (de_source_b E)))))"

section \<open>Terminal output\<close>

definition is_terminal_unsafe :: "nat \<Rightarrow> bool" where
  "is_terminal_unsafe cp \<longleftrightarrow>
     cp < 0x20 \<or> (0x7f \<le> cp \<and> cp \<le> 0x9f) \<or> (0x202a \<le> cp \<and> cp \<le> 0x202e) \<or> (0x2066 \<le> cp \<and> cp \<le> 0x2069)"

definition terminal_char :: "bool \<Rightarrow> string \<Rightarrow> string" where
  "terminal_char keep_newlines p =
     (if p = [CHR 0x09] then p
      else if p = [LF] then (if keep_newlines then p else [BSL, CHR ''n''])
      else if is_terminal_unsafe (code_point p)
      then [BSL, CHR ''u'', CHR ''{''] @ show_hex (code_point p) @ [CHR ''}'']
      else p)"

definition sanitize_for_terminal :: "string \<Rightarrow> bool \<Rightarrow> string" where
  "sanitize_for_terminal input keep_newlines = concat (map (terminal_char keep_newlines) (chars input))"

end
