(* ===== verification/Diff_Properties.thy ===== *)
theory Diff_Properties
  imports Session_Diff Example_Env
begin

text \<open>
  Correctness of the session diff: a report says "matches" exactly when the two sessions record the
  same observable run, resolving objects changes nothing but the attached previews, previews are
  bounded valid text, and nothing printed to a terminal can control it.
\<close>

section \<open>What is compared\<close>

text \<open>The part of an event the comparison looks at; \<open>requests\<close> says whether request hashes count.\<close>

definition attempt_view :: "bool \<Rightarrow> attempt_record \<Rightarrow> hash option \<times> attempt_status \<times> string option" where
  "attempt_view requests a = (if requests then Some (at_request_hash a) else None, at_status a, at_error_message a)"

datatype kind_view =
    OtherView event_kind
  | ProviderView string "(hash option \<times> attempt_status \<times> string option) list" "hash option" "hash option"

fun kind_view_of :: "bool \<Rightarrow> event_kind \<Rightarrow> kind_view" where
  "kind_view_of requests (ProviderCall pid as stream) =
     ProviderView pid (map (attempt_view requests) as) (final_response as) stream"
| "kind_view_of requests k = OtherView k"

definition session_view :: "bool \<Rightarrow> (hash \<times> event) list \<Rightarrow> kind_view list" where
  "session_view requests = map (\<lambda>(h, e). kind_view_of requests (ev_kind e))"

section \<open>Field comparisons\<close>

text \<open>A comparison that did not fail found a difference that counts: any one if \<open>requests\<close>, one that is
  not informational otherwise.\<close>

definition counts :: "bool \<Rightarrow> divergence \<Rightarrow> bool" where
  "counts requests d \<longleftrightarrow> requests \<or> \<not> is_informational (dv_kind d)"

definition silent :: "bool \<Rightarrow> divergence list \<Rightarrow> bool" where
  "silent requests ds \<longleftrightarrow> list_all (\<lambda>d. \<not> counts requests d) ds"

lemma silent_simps [simp]:
  "silent q []" "silent q (xs @ ys) \<longleftrightarrow> silent q xs \<and> silent q ys"
  by (simp_all add: silent_def)

lemma silent_True [simp]: "silent True ds \<longleftrightarrow> ds = []"
  by (cases ds) (simp_all add: silent_def counts_def)

text \<open>\<open>judges r q P\<close>: if the comparison returns, it is silent exactly if the fields agree.\<close>

definition judges :: "'e + divergence list \<Rightarrow> bool \<Rightarrow> bool \<Rightarrow> bool" where
  "judges r q P \<longleftrightarrow> (\<forall>ds. r = Inr ds \<longrightarrow> (silent q ds \<longleftrightarrow> P))"

lemma judges_Nil: "judges (res_concat []) q True"
  by (simp add: judges_def)

lemma judges_Cons: "judges r q P \<Longrightarrow> judges (res_concat rs) q Q \<Longrightarrow> judges (res_concat (r # rs)) q (P \<and> Q)"
  by (auto simp: judges_def)

lemmas judges_intros = judges_Nil judges_Cons

lemma attach_kind: "attach_resolved_content_pair X d c a b = Inr d' \<Longrightarrow> dv_kind d' = dv_kind d"
  unfolding attach_resolved_content_pair_def res_bind_Inr_iff
  by (elim exE conjE) (auto split: resolve_outcome.splits)

lemma push_hash_field_kind:
  assumes "push_hash_field X d ctx a b = Inr ds"
  shows "\<exists>d'. ds = [d'] \<and> dv_kind d' = dv_kind d"
  using assms attach_kind
  by (auto simp: push_hash_field_def mark_not_dereferenceable_def split: option.splits)

lemma judges_push:
  assumes "judges (push_hash_field X (new_divergence pos kind name x y) ctx a b) q (\<not> (q \<or> \<not> is_informational kind)) \<Longrightarrow> P"
  shows P
proof (rule assms)
  show "judges (push_hash_field X (new_divergence pos kind name x y) ctx a b) q (\<not> (q \<or> \<not> is_informational kind))"
    using push_hash_field_kind [of X "new_divergence pos kind name x y" ctx a b]
    by (fastforce simp: judges_def silent_def counts_def new_divergence_def)
qed

lemma judges_hash_field:
  "judges (hash_field X ctx pos kind name a b) q (a = b \<or> \<not> (q \<or> \<not> is_informational kind))"
  using judges_push [of X pos kind name "to_hex X a" "to_hex X b" ctx "Some a" "Some b" q]
  by (auto simp: hash_field_def judges_def)

lemma judges_opt_hash_field:
  "judges (opt_hash_field X ctx pos kind name a b) q (a = b \<or> \<not> (q \<or> \<not> is_informational kind))"
  using judges_push [of X pos kind name "opt_hash_hex X a" "opt_hash_hex X b" ctx a b q]
  by (auto simp: opt_hash_field_def judges_def)

lemma judges_scalar_field:
  "judges (scalar_field ctx pos kind name differs x y) q (\<not> differs \<or> \<not> (q \<or> \<not> is_informational kind))"
  by (auto simp: scalar_field_def push_scalar_field_def judges_def silent_def counts_def new_divergence_def
      mark_not_dereferenceable_def)

lemmas judges_fields = judges_hash_field judges_opt_hash_field judges_scalar_field

lemma judges_cong: "judges r q P \<Longrightarrow> (P \<longleftrightarrow> Q) \<Longrightarrow> judges r q Q"
  by simp

lemma judges_attempt_pair:
  "judges (compare_attempt_pair X ctx pos i a b) q (attempt_view q a = attempt_view q b)"
  unfolding compare_attempt_pair_def Let_def
  by (rule judges_cong, (rule judges_intros judges_fields)+) (auto simp: attempt_view_def is_informational_def)

lemma judges_attempts:
  "length as = length bs \<Longrightarrow>
   judges (compare_attempts X ctx pos i as bs) q (map (attempt_view q) as = map (attempt_view q) bs)"
proof (induction as bs arbitrary: i rule: list_induct2)
  case (Cons a as b bs)
  show ?case unfolding compare_attempts.simps
    by (rule judges_cong, (rule judges_intros judges_attempt_pair Cons.IH)+) simp
qed (simp add: judges_def)

lemma judges_provider:
  "judges (compare_provider_call X ctx pos (i1, t1, s1) (i2, t2, s2)) q
     (i1 = i2 \<and> map (attempt_view q) t1 = map (attempt_view q) t2 \<and> final_response t1 = final_response t2 \<and> s1 = s2)"
proof (cases "length t1 = length t2")
  case True
  show ?thesis unfolding compare_provider_call_def Let_def prod.case
    by (rule judges_cong, (rule judges_intros judges_fields judges_attempts [OF True])+)
       (auto simp: True is_informational_def)
next
  case False
  then have "map (attempt_view q) t1 \<noteq> map (attempt_view q) t2" by (metis length_map)
  moreover have "\<not> silent q (push_scalar_field (new_divergence pos ProviderCallAttemptCountDifference n u v) ctx)"
    for n u v
    by (simp add: push_scalar_field_def silent_def counts_def new_divergence_def mark_not_dereferenceable_def is_informational_def)
  ultimately show ?thesis using False
    unfolding judges_def compare_provider_call_def scalar_field_def Let_def prod.case res_concat.simps
    by (auto simp del: silent_True)
qed

lemma judges_session_start: "judges (compare_session_start X ctx pos (c1, g1) (c2, g2)) q (c1 = c2 \<and> g1 = g2)"
  unfolding compare_session_start_def prod.sel
  by (rule judges_cong, (rule judges_intros judges_fields)+) (simp add: is_informational_def)

lemma judges_user_turn: "judges (compare_user_turn X ctx pos a b) q (a = b)"
  unfolding compare_user_turn_def
  by (rule judges_cong, rule judges_fields) (simp add: is_informational_def)

lemma judges_session_end: "judges (compare_session_end X ctx pos a b) q (a = b)"
  unfolding compare_session_end_def
  by (rule judges_cong, rule judges_fields) (simp add: is_informational_def)

lemma judges_assistant_turn: "judges (compare_assistant_turn X ctx pos (c1, g1) (c2, g2)) q (c1 = c2 \<and> g1 = g2)"
  unfolding compare_assistant_turn_def prod.sel
  by (rule judges_cong, (rule judges_intros judges_fields)+) (simp add: is_informational_def)

lemma judges_tool_call:
  "judges (compare_tool_call X ctx pos (a1, b1, c1, d1) (a2, b2, c2, d2)) q (a1 = a2 \<and> b1 = b2 \<and> c1 = c2 \<and> d1 = d2)"
  unfolding compare_tool_call_def Let_def prod.case
  by (rule judges_cong, (rule judges_intros judges_fields)+) (simp add: is_informational_def)

lemma judges_retrieval_call:
  "judges (compare_retrieval_call X ctx pos (a1, b1, c1) (a2, b2, c2)) q (a1 = a2 \<and> b1 = b2 \<and> c1 = c2)"
  unfolding compare_retrieval_call_def Let_def prod.case
  by (rule judges_cong, (rule judges_intros judges_fields)+) (simp add: is_informational_def)

lemma judges_permission_gate:
  "judges (compare_permission_gate X ctx pos (a1, b1, c1) (a2, b2, c2)) q (a1 = a2 \<and> b1 = b2 \<and> c1 = c2)"
  unfolding compare_permission_gate_def Let_def prod.case
  by (rule judges_cong, (rule judges_intros judges_fields)+) (simp add: is_informational_def)

lemmas judges_events = judges_session_start judges_user_turn judges_provider judges_tool_call judges_retrieval_call
  judges_permission_gate judges_assistant_turn judges_session_end

lemma judges_position:
  assumes "same_event_kind_variant (ev_kind a) (ev_kind b)"
  shows "judges (field_differences_at_position X ctx a b) q (kind_view_of q (ev_kind a) = kind_view_of q (ev_kind b))"
  using assms
  by (cases "ev_kind a"; cases "ev_kind b") (simp_all add: field_differences_at_position_def judges_events)

section \<open>The walk\<close>

lemma variant_view: "kind_view_of q k = kind_view_of q k' \<Longrightarrow> same_event_kind_variant k k'"
  by (cases k; cases k') simp_all

lemma walk_judges:
  "walk X ctx la lb pos as bs = Inr (ds, brk, n) \<Longrightarrow>
   (silent q ds \<and> brk = None \<longleftrightarrow> session_view q as = session_view q bs) \<and> pos \<le> n \<and> n \<le> pos + min (length as) (length bs)"
proof (induction X ctx la lb pos as bs arbitrary: ds brk n rule: walk.induct)
  case (2 X ctx la lb pos h a as h' b bs)
  show ?case
  proof (cases "same_event_kind_variant (ev_kind a) (ev_kind b)")
    case False
    with "2.prems" variant_view [of q "ev_kind a" "ev_kind b"] show ?thesis
      by (auto simp: Let_def session_view_def)
  next
    case True
    with "2.prems" obtain d rest where d: "field_differences_at_position X ctx a b = Inr d" "ds = d @ rest"
      and w: "walk X ctx la lb (Suc pos) as bs = Inr (rest, brk, n)"
      by (auto simp: split_beta)
    from judges_position [OF True, of X ctx q] d(1)
    have "silent q d \<longleftrightarrow> kind_view_of q (ev_kind a) = kind_view_of q (ev_kind b)" by (simp add: judges_def)
    with "2.IH" [OF _ w] True d(2) show ?thesis by (auto simp: session_view_def)
  qed
qed (auto simp: session_view_def)


section \<open>Resolving\<close>

definition without_preview :: "divergence \<Rightarrow> divergence" where
  "without_preview d = d\<lparr>dv_resolved := None, dv_resolved_skip_reason := None\<rparr>"

text \<open>The comparison without resolving succeeds and yields the same divergences without previews.\<close>

definition plain_of :: "'e + divergence list \<Rightarrow> 'e + divergence list \<Rightarrow> bool" where
  "plain_of r r' \<longleftrightarrow> (\<exists>ds'. r' = Inr ds' \<and> (\<forall>ds. r = Inr ds \<longrightarrow> ds' = map without_preview ds))"

lemma plain_of_Nil: "plain_of (res_concat []) (res_concat [])" "plain_of (Inr []) (Inr [])"
  by (simp_all add: plain_of_def)

lemma plain_of_Cons:
  "plain_of r r' \<Longrightarrow> plain_of (res_concat rs) (res_concat rs') \<Longrightarrow> plain_of (res_concat (r # rs)) (res_concat (r' # rs'))"
  by (auto simp: plain_of_def)

lemma without_preview_new [simp]: "without_preview (new_divergence pos kind name x y) = new_divergence pos kind name x y"
  by (simp add: without_preview_def new_divergence_def)

lemma without_preview_mark [simp]: "without_preview (mark_not_dereferenceable d) = without_preview d"
  by (simp add: without_preview_def mark_not_dereferenceable_def)

lemma attach_preview: "attach_resolved_content_pair X d c a b = Inr d' \<Longrightarrow> without_preview d' = without_preview d"
  unfolding attach_resolved_content_pair_def res_bind_Inr_iff
  by (elim exE conjE) (auto simp: without_preview_def split: resolve_outcome.splits)

lemma plain_push:
  "plain_of (push_hash_field X (new_divergence pos kind name x y) ctx a b) (push_hash_field X (new_divergence pos kind name x y) None a b)"
  using attach_preview [of X "new_divergence pos kind name x y"]
  by (auto simp: plain_of_def push_hash_field_def split: option.splits)

lemma plain_hash_field: "plain_of (hash_field X ctx pos kind name a b) (hash_field X None pos kind name a b)"
  by (simp add: hash_field_def plain_push plain_of_Nil)

lemma plain_opt_hash_field: "plain_of (opt_hash_field X ctx pos kind name a b) (opt_hash_field X None pos kind name a b)"
  by (simp add: opt_hash_field_def plain_push plain_of_Nil)

lemma plain_scalar_field: "plain_of (scalar_field ctx pos kind name d x y) (scalar_field None pos kind name d x y)"
  by (simp add: scalar_field_def push_scalar_field_def plain_of_def)

lemmas plain_intros = plain_of_Nil plain_of_Cons plain_hash_field plain_opt_hash_field plain_scalar_field

lemma plain_attempts: "plain_of (compare_attempts X ctx pos i as bs) (compare_attempts X None pos i as bs)"
proof (induction X ctx pos i as bs rule: compare_attempts.induct)
  case (1 X ctx pos i a as b bs)
  then show ?case unfolding compare_attempts.simps
    by (intro plain_intros) (simp_all add: compare_attempt_pair_def Let_def plain_intros del: res_concat.simps)
qed (simp_all add: plain_of_Nil)

lemma plain_position:
  "plain_of (field_differences_at_position X ctx a b) (field_differences_at_position X None a b)"
  by (cases "ev_kind a"; cases "ev_kind b")
     (simp_all add: field_differences_at_position_def compare_session_start_def compare_user_turn_def
       compare_provider_call_def compare_tool_call_def compare_retrieval_call_def compare_permission_gate_def
       compare_assistant_turn_def compare_session_end_def Let_def plain_intros plain_attempts del: res_concat.simps)

lemma walk_plain:
  "\<exists>ds' brk' n'. walk X None la lb pos as bs = Inr (ds', brk', n') \<and>
     (\<forall>ds brk n. walk X ctx la lb pos as bs = Inr (ds, brk, n) \<longrightarrow> ds' = map without_preview ds \<and> brk' = brk \<and> n' = n)"
proof (induction X ctx la lb pos as bs rule: walk.induct)
  case (2 X ctx la lb pos h a as h' b bs)
  from plain_position [of X ctx a b] obtain d' where d': "field_differences_at_position X None a b = Inr d'"
    "\<And>ds. field_differences_at_position X ctx a b = Inr ds \<Longrightarrow> d' = map without_preview ds"
    by (auto simp: plain_of_def)
  show ?case
  proof (cases "same_event_kind_variant (ev_kind a) (ev_kind b)")
    case True
    with "2.IH" obtain ds' brk' n' where w: "walk X None la lb (Suc pos) as bs = Inr (ds', brk', n')"
      "\<And>ds brk n. walk X ctx la lb (Suc pos) as bs = Inr (ds, brk, n) \<Longrightarrow> ds' = map without_preview ds \<and> brk' = brk \<and> n' = n"
      by auto
    show ?thesis using True d' w by (auto simp: split_beta)
  qed (simp add: Let_def structural_divergence_def without_preview_def)
qed (simp_all add: structural_divergence_def without_preview_def)


section \<open>The report\<close>

lemma walk_break: "walk X ctx la lb pos as bs = Inr (ds, Some brk, n) \<Longrightarrow> ds \<noteq> []"
  by (induction X ctx la lb pos as bs arbitrary: ds n rule: walk.induct)
     (auto simp: Let_def split_beta split: if_splits)

lemma diff_run_total: "\<exists>c. diff_run X E = Inr c"
proof -
  obtain ds brk n where "walk X None (length (ss_history (de_source_a E))) (length (ss_history (de_source_b E))) 0
      (ss_history (de_source_a E)) (ss_history (de_source_b E)) = Inr (ds, brk, n)"
    using walk_plain by blast
  then show ?thesis by (simp add: diff_run_def run_inner_def Let_def)
qed

lemma run_inner_judges:
  assumes "run_inner X E ctx = Inr c"
  shows "silent q (dc_divergences c) \<and> dc_structural_break c = None \<longleftrightarrow>
    session_view q (ss_history (de_source_a E)) = session_view q (ss_history (de_source_b E))"
proof -
  from assms obtain ds brk n where w: "walk X ctx (length (ss_history (de_source_a E))) (length (ss_history (de_source_b E))) 0
      (ss_history (de_source_a E)) (ss_history (de_source_b E)) = Inr (ds, brk, n)"
    and c: "dc_divergences c = ds" "dc_structural_break c = brk"
    by (auto simp: run_inner_def Let_def)
  from walk_judges [OF w] show ?thesis by (simp add: c)
qed

lemma report_matches_iff:
  "dr_matches (diff_report_from_comparison c m n) \<longleftrightarrow> silent False (dc_divergences c) \<and> dc_structural_break c = None"
proof -
  have "length ds = length (filter (\<lambda>d. is_informational (dv_kind d)) ds) \<longleftrightarrow> silent False ds" for ds
    using sum_length_filter_compl [of "\<lambda>d. is_informational (dv_kind d)" ds]
    by (auto simp: silent_def counts_def list_all_iff filter_empty_conv)
  then show ?thesis by (simp add: diff_report_from_comparison_def Let_def)
qed

text \<open>C18: The comparison of two sessions always produces a report, and the report says "matches" exactly
  if the sessions record the same run: the same events of the same kinds with the same contents, up to
  request hashes of provider attempts, intermediate responses and times. It lists no divergence at all
  exactly if the request hashes agree as well.\<close>

theorem diff_matches_iff_same_run:
  "\<exists>r. run_to_report E (diff_run X E) = Inr r \<and>
    (dr_matches r \<longleftrightarrow> session_view False (ss_history (de_source_a E)) = session_view False (ss_history (de_source_b E))) \<and>
    (dr_divergences r = [] \<longleftrightarrow> session_view True (ss_history (de_source_a E)) = session_view True (ss_history (de_source_b E)))"
proof -
  obtain c where c: "diff_run X E = Inr c" using diff_run_total by blast
  have "dc_structural_break c = None" if "dc_divergences c = []"
    using c that walk_break [of X None _ _ _ _ _ "[]"]
    by (cases "dc_structural_break c") (auto simp: diff_run_def run_inner_def Let_def)
  with run_inner_judges [of X E None c True] run_inner_judges [of X E None c False] c show ?thesis
    by (auto simp: run_to_report_def report_matches_iff diff_run_def)
       (simp_all add: diff_report_from_comparison_def Let_def)
qed

text \<open>Resolving objects only adds previews: when it succeeds, the report is that of the plain comparison
  with previews or skip reasons attached to its divergences, and the verdict is the same.\<close>

theorem resolving_only_adds_previews:
  assumes "diff_run_with_resolve X E = Inr c"
  shows "diff_run X E = Inr (c\<lparr>dc_divergences := map without_preview (dc_divergences c)\<rparr>) \<and>
    dr_matches (diff_report_from_comparison c m n)
      = dr_matches (diff_report_from_comparison (c\<lparr>dc_divergences := map without_preview (dc_divergences c)\<rparr>) m n)"
proof -
  let ?ctx = "Some \<lparr>rx_get_a = ss_get (de_source_a E), rx_get_b = ss_get (de_source_b E)\<rparr>"
  let ?a = "ss_history (de_source_a E)" and ?b = "ss_history (de_source_b E)"
  from assms obtain ds brk k where w: "walk X ?ctx (length ?a) (length ?b) 0 ?a ?b = Inr (ds, brk, k)"
    and c: "c = \<lparr>dc_session_a_id = x_uuid_text X (ss_session_id (de_source_a E)),
           dc_session_b_id = x_uuid_text X (ss_session_id (de_source_b E)),
           dc_divergences = ds, dc_structural_break = brk, dc_events_compared = k\<rparr>"
    by (auto simp: diff_run_with_resolve_def run_inner_def Let_def)
  from walk_plain [of X "length ?a" "length ?b" 0 ?a ?b ?ctx] w
  have "walk X None (length ?a) (length ?b) 0 ?a ?b = Inr (map without_preview ds, brk, k)" by auto
  then have "diff_run X E = Inr (c\<lparr>dc_divergences := map without_preview (dc_divergences c)\<rparr>)"
    by (simp add: diff_run_def run_inner_def Let_def c)
  moreover have "silent False (map without_preview ds) = silent False ds" for ds
    by (simp add: silent_def counts_def without_preview_def list_all_iff)
  ultimately show ?thesis by (simp add: report_matches_iff)
qed


definition dx_source :: "hash \<Rightarrow> source_session" where
  "dx_source cwd = \<lparr>ss_session_id = [], ss_get = (\<lambda>h. Inr None), ss_contains = (\<lambda>h. Inr True),
     ss_history = [(ex_hash 1, ex_start\<lparr>ev_kind := SessionStart cwd (ex_hash 66)\<rparr>)]\<rparr>"

theorem resolving_only_adds_previews_witness:
  "\<exists>c d. diff_run_with_resolve ex \<lparr>de_source_a = dx_source (ex_hash 65), de_source_b = dx_source (ex_hash 66)\<rparr> = Inr c \<and>
     dc_divergences c = [d] \<and> dv_resolved_skip_reason d = Some RESOLVE_SKIP_OBJECT_MISSING \<and>
     diff_run ex \<lparr>de_source_a = dx_source (ex_hash 65), de_source_b = dx_source (ex_hash 66)\<rparr>
       = Inr (c\<lparr>dc_divergences := [without_preview d]\<rparr>)"
proof -
  let ?E = "\<lparr>de_source_a = dx_source (ex_hash 65), de_source_b = dx_source (ex_hash 66)\<rparr>"
  have "ex_hash 65 \<noteq> ex_hash 66" by (simp add: ex_hash_def ex_digest_def)
  then obtain c d where c: "diff_run_with_resolve ex ?E = Inr c" "dc_divergences c = [d]"
    "dv_resolved_skip_reason d = Some RESOLVE_SKIP_OBJECT_MISSING"
    by (simp add: diff_run_with_resolve_def run_inner_def Let_def dx_source_def field_differences_at_position_def
        compare_session_start_def hash_field_def push_hash_field_def attach_resolved_content_pair_def
        resolve_object_capped_def)
  from resolving_only_adds_previews [OF c(1)] c show ?thesis by (intro exI [of _ c] exI [of _ d]) simp
qed

section \<open>Previews\<close>

lemma truncate_line:
  "length (fst (truncate_line_to_max_bytes line m)) \<le> m"
  "snd (truncate_line_to_max_bytes line m) = length line - length (fst (truncate_line_to_max_bytes line m))"
  "utf8_valid line \<Longrightarrow> utf8_valid (fst (truncate_line_to_max_bytes line m))"
proof -
  have "fit_chars m 0 (chars line) \<le> length line"
  proof -
    obtain k where "fit_chars m 0 (chars line) = length (concat (take k (chars line)))"
      using fit_chars_boundary [of "chars line" m 0] by auto
    moreover have "length (concat (take k (chars line))) \<le> length (concat (chars line))"
      by (metis append_take_drop_id concat_append length_append le_add1)
    ultimately show ?thesis by (simp add: concat_chars)
  qed
  with fit_chars_le [of 0 m "chars line"] take_fit_chars_valid [of line m]
  show "length (fst (truncate_line_to_max_bytes line m)) \<le> m"
    "snd (truncate_line_to_max_bytes line m) = length line - length (fst (truncate_line_to_max_bytes line m))"
    "utf8_valid line \<Longrightarrow> utf8_valid (fst (truncate_line_to_max_bytes line m))"
    by (auto simp: truncate_line_to_max_bytes_def Let_def)
qed

lemma show_nat_length: "n < 10 ^ k \<Longrightarrow> 0 < k \<Longrightarrow> length (show_nat n) \<le> k"
proof (induction n arbitrary: k rule: show_nat.induct)
  case (1 n)
  show ?case
  proof (cases "n < 10")
    case True
    with "1.prems" show ?thesis by (subst show_nat.simps) simp
  next
    case False
    with "1.prems" obtain j where k: "k = Suc j" "0 < j" by (cases k; cases "k - 1") auto
    then have "n div 10 < 10 ^ j" using "1.prems"(1) by (simp add: less_mult_imp_div_less mult.commute)
    with "1.IH" [OF False this k(2)] False show ?thesis by (subst show_nat.simps) (simp add: k)
  qed
qed

lemma show_nat_ascii: "list_all (\<lambda>c. code c < 0x80) (show_nat n)"
proof (induction n rule: show_nat.induct)
  case (1 n)
  have "code (digit_char d) < 0x80" if "d < 10" for d
    using that by (simp add: code_def digit_char_def of_char_of)
  with 1 show ?case by (subst show_nat.simps) simp
qed

lemma show_nat_valid [simp]: "utf8_valid (show_nat n)"
  by (rule utf8_valid_ascii [OF show_nat_ascii])

lemma format_line:
  assumes "length line \<le> RESOLVE_READ_CAP_BYTES"
  shows "length (format_line_maybe_truncated line) \<le> 1073" "utf8_valid line \<Longrightarrow> utf8_valid (format_line_maybe_truncated line)"
proof -
  obtain p k where t: "truncate_line_to_max_bytes line RESOLVE_TEXT_PREVIEW_MAX_LINE_BYTES = (p, k)" by fastforce
  note f = truncate_line [of line RESOLVE_TEXT_PREVIEW_MAX_LINE_BYTES, unfolded t fst_conv snd_conv]
  have "k < 10 ^ 8" using f(2) assms by (simp add: RESOLVE_READ_CAP_BYTES_def)
  with f(1) show_nat_length [of k 8] show "length (format_line_maybe_truncated line) \<le> 1073"
    unfolding format_line_maybe_truncated_def t prod.case Let_def by (simp add: RESOLVE_TEXT_PREVIEW_MAX_LINE_BYTES_def)
  show "utf8_valid line \<Longrightarrow> utf8_valid (format_line_maybe_truncated line)"
    using f(3) by (auto simp: format_line_maybe_truncated_def t utf8_valid_append code_def)
qed

lemma join_length:
  "list_all (\<lambda>l. length l \<le> b) ls \<Longrightarrow> length sep \<le> 1 \<Longrightarrow> length (join sep ls) \<le> length ls * (b + 1)"
  by (induction sep ls rule: join.induct) auto


lemma split_on_size: "sum_list (map length (split_on d s)) + length (split_on d s) = length s + 1"
proof (induction s)
  case (Cons c s)
  then show ?case using split_on_nonempty [of d s] by (auto split: list.split)
qed simp

lemma str_lines_size:
  "l \<in> set (str_lines s) \<Longrightarrow> length l \<le> length s" "length (str_lines s) \<le> length s + 1"
proof -
  have part: "length l \<le> length s" if "l \<in> set (split_on LF s)" for l
  proof -
    have "length l \<le> sum_list (map length (split_on LF s))" using that by (intro member_le_sum_list) simp_all
    moreover have "0 < length (split_on LF s)" by simp
    ultimately show ?thesis using split_on_size [of LF s] by linarith
  qed
  assume "l \<in> set (str_lines s)"
  then have "l \<in> strip_cr ` set (butlast (split_on LF s)) \<or> l = last (split_on LF s)"
    unfolding str_lines_def Let_def set_append set_map Un_iff by (rule disjE) (auto split: if_split_asm)
  then consider k where "k \<in> set (butlast (split_on LF s))" "l = strip_cr k" | "l = last (split_on LF s)"
    by blast
  then show "length l \<le> length s"
  proof cases
    case 1
    from part [OF in_set_butlastD [OF 1(1)]] have "length k \<le> length s" .
    moreover have "length l \<le> length k" unfolding 1(2) strip_cr_def by simp
    ultimately show ?thesis by (rule order_trans [rotated])
  next
    case 2
    show ?thesis unfolding 2 by (rule part [OF last_in_set [OF split_on_nonempty]])
  qed
next
  show "length (str_lines s) \<le> length s + 1"
    using split_on_size [of LF s] by (cases "last (split_on LF s) = []") (simp_all add: str_lines_def Let_def)
qed

lemma text_preview:
  assumes "length text \<le> RESOLVE_READ_CAP_BYTES" "utf8_valid text"
  shows "length (render_text_preview text) \<le> 5400 \<and> utf8_valid (render_text_preview text)"
proof -
  let ?shown = "\<lambda>ls. join [LF] (map format_line_maybe_truncated ls)"
  have part: "length (?shown ls) \<le> 5370 \<and> utf8_valid (?shown ls)"
    if "set ls \<subseteq> set (str_lines text)" "length ls \<le> 5" for ls
  proof
    have fits: "length l \<le> RESOLVE_READ_CAP_BYTES" "utf8_valid l" if "l \<in> set ls" for l
    proof -
      from that \<open>set ls \<subseteq> _\<close> have l: "l \<in> set (str_lines text)" by blast
      from str_lines_size(1) [OF l] assms(1) show "length l \<le> RESOLVE_READ_CAP_BYTES" by simp
      from str_lines_valid [OF assms(2)] l show "utf8_valid l" by (simp add: list_all_iff)
    qed
    have "list_all (\<lambda>l. length l \<le> 1073) (map format_line_maybe_truncated ls)"
      using fits by (auto simp: list_all_iff intro: format_line(1))
    from join_length [OF this, of "[LF]"] that(2) show "length (?shown ls) \<le> 5370" by simp
    have "list_all utf8_valid (map format_line_maybe_truncated ls)"
      using fits by (auto simp: list_all_iff intro: format_line(2))
    then show "utf8_valid (?shown ls)" by (intro utf8_valid_join) (simp_all add: LF_def code_def)
  qed
  have "length (str_lines text) - 5 < 10 ^ 8"
    using str_lines_size(2) [of "text"] assms(1) by (simp add: RESOLVE_READ_CAP_BYTES_def)
  then have more: "length (show_nat (length (str_lines text) - 5)) \<le> 8" by (rule show_nat_length) simp
  have v: "utf8_valid (LF # ''... ('' @ show_nat k @ '' more lines)'')" for k
    by (simp add: utf8_valid_append code_def LF_def)
  have t: "set (take 5 (str_lines text)) \<subseteq> set (str_lines text)" "length (take 5 (str_lines text)) \<le> 5"
    by (simp_all add: set_take_subset)
  have e: "utf8_valid ''<empty>''" by (rule utf8_valid_ascii) (simp add: code_def)
  show ?thesis
  proof (cases "length (str_lines text) > 5")
    case True
    then have "render_text_preview text = ?shown (take 5 (str_lines text)) @ LF # ''... ('' @
        show_nat (length (str_lines text) - 5) @ '' more lines)''"
      by (auto simp: render_text_preview_def Let_def RESOLVE_TEXT_PREVIEW_MAX_LINES_def)
    moreover have "utf8_valid (?shown (take 5 (str_lines text)))" "length (?shown (take 5 (str_lines text))) \<le> 5370"
      using part [OF t] by blast+
    ultimately show ?thesis using more utf8_valid_appendI [OF _ v] by simp
  next
    case False
    then have "render_text_preview text \<in> {''<empty>'', ?shown (take 5 (str_lines text)), ?shown (str_lines text)}"
      by (auto simp: render_text_preview_def Let_def RESOLVE_TEXT_PREVIEW_MAX_LINES_def)
    with part [OF t] part [OF order_refl] False e show ?thesis by auto
  qed
qed

lemma hex_char_ascii: "list_all (\<lambda>c. code c < 0x80) (byte_hex b)"
  unfolding byte_hex_def by (rule list.pred_mono_strong [OF pad_hex_chars]) simp

lemma show_hex_length: "n < 256 \<Longrightarrow> length (show_hex n) = (if n < 16 then 1 else 2)"
proof -
  assume "n < 256"
  then have "n div 16 < 16" by (simp add: less_mult_imp_div_less)
  then have "length (show_hex (n div 16)) = 1" by (subst show_hex.simps) (simp only: if_True list.size)
  then show ?thesis by (subst show_hex.simps) (cases "n < 16", simp_all only: if_True if_False length_append list.size)
qed

lemma byte_hex_length: "length (byte_hex b) = 2"
proof -
  have "unat b < 256" using unsigned_less [of b, where ?'a = nat] by simp
  from show_hex_length [OF this] show ?thesis
    unfolding byte_hex_def pad_hex_def length_append length_replicate by (simp split: if_splits)
qed

lemma hex_preview:
  assumes "length bytes \<le> RESOLVE_READ_CAP_BYTES"
  shows "length (format_hex_preview bytes RESOLVE_BINARY_HEX_MAX_BYTES) \<le> 5400 \<and>
    utf8_valid (format_hex_preview bytes RESOLVE_BINARY_HEX_MAX_BYTES)"
proof -
  let ?hex = "join '' '' (map byte_hex (take 64 bytes))"
  have "length ?hex \<le> length (map byte_hex (take 64 bytes)) * (2 + 1)"
    by (rule join_length) (simp_all add: list_all_iff byte_hex_length)
  then have len: "length ?hex \<le> 192" by simp
  have valid: "utf8_valid ?hex"
    by (rule utf8_valid_join) (auto simp: list_all_iff intro!: utf8_valid_ascii [OF hex_char_ascii] utf8_valid_ascii simp: code_def)
  have "length bytes - 64 < 10 ^ 8" using assms by (simp add: RESOLVE_READ_CAP_BYTES_def)
  then have more: "length (show_nat (length bytes - 64)) \<le> 8" by (rule show_nat_length) simp
  have v: "utf8_valid (''... (truncated, '' @ show_nat k @ '' more bytes)'')" for k
    by (simp add: utf8_valid_append code_def)
  have "format_hex_preview bytes RESOLVE_BINARY_HEX_MAX_BYTES = (if 64 < length bytes
      then ?hex @ ''... (truncated, '' @ show_nat (length bytes - 64) @ '' more bytes)'' else ?hex)"
    by (simp add: format_hex_preview_def Let_def RESOLVE_BINARY_HEX_MAX_BYTES_def)
  then show ?thesis
  proof (cases "64 < length bytes")
    case True
    with len more utf8_valid_appendI [OF valid v] \<open>format_hex_preview _ _ = _\<close> show ?thesis by simp
  next
    case False
    with len valid \<open>format_hex_preview _ _ = _\<close> show ?thesis by (simp only: if_False) simp
  qed
qed

text \<open>The preview of an object under the cap, whatever bytes it holds, is valid text of at most 5400
  bytes: no character is cut in two and no line of the object can blow up the report.\<close>

theorem preview_is_bounded_text:
  assumes "length bytes \<le> RESOLVE_READ_CAP_BYTES"
  shows "\<exists>p. render_preview bytes = Some p \<and> utf8_valid p \<and> length p \<le> 5400"
proof -
  have e: "utf8_valid ''<empty>''" by (rule utf8_valid_ascii) (simp add: code_def)
  show ?thesis
    using text_preview [of "bytes_text bytes"] hex_preview [OF assms] assms e
    by (auto simp: render_preview_def from_utf8_Some split: option.split)
qed

theorem preview_is_bounded_text_witness:
  "\<exists>p. render_preview [0x68, 0xC3, 0xA9, 0x0A] = Some p \<and> utf8_valid p \<and> length p \<le> 5400"
  by (rule preview_is_bounded_text) (simp add: RESOLVE_READ_CAP_BYTES_def)

section \<open>Terminal output\<close>

definition terminal_safe :: "bool \<Rightarrow> string \<Rightarrow> bool" where
  "terminal_safe keep_newlines p \<longleftrightarrow>
     \<not> is_terminal_unsafe (code_point p) \<or> p = [CHR 0x09] \<or> (keep_newlines \<and> p = [LF])"

lemma printable_terminal_safe:
  "list_all (\<lambda>c. 0x20 \<le> code c \<and> code c < 0x7f) s \<Longrightarrow> list_all (\<lambda>p. valid_char p \<and> terminal_safe k p) (map (\<lambda>c. [c]) s)"
  by (auto simp: list_all_iff terminal_safe_def is_terminal_unsafe_def)

lemma terminal_char_safe:
  assumes "valid_char p"
  obtains ps where "terminal_char k p = concat ps" "list_all (\<lambda>p. valid_char p \<and> terminal_safe k p) ps"
proof (cases "terminal_char k p = p")
  case True
  moreover have "terminal_safe k p"
  proof (rule ccontr)
    assume n: "\<not> terminal_safe k p"
    then have u: "is_terminal_unsafe (code_point p)" "p \<noteq> [CHR 0x09]" "p = [LF] \<longrightarrow> \<not> k"
      by (auto simp: terminal_safe_def)
    show False
    proof (cases "p = [LF]")
      case True
      with u \<open>terminal_char k p = p\<close> show False by (simp add: terminal_char_def LF_def BSL_def)
    next
      case False
      with u \<open>terminal_char k p = p\<close>
      have "p = [BSL, CHR ''u'', CHR ''{''] @ show_hex (code_point p) @ [CHR ''}'']" by (simp add: terminal_char_def)
      then obtain q where "p = BSL # CHR ''u'' # q" by simp
      with assms show False by (cases p rule: valid_char.cases) (auto simp: BSL_def code_def)
    qed
  qed
  ultimately show ?thesis using assms that [of "[p]"] by simp
next
  case False
  have "list_all (\<lambda>c. 0x20 \<le> code c \<and> code c < 0x7f) (terminal_char k p)"
  proof (cases "p = [LF]")
    case True
    with False show ?thesis by (auto simp: terminal_char_def code_def BSL_def LF_def)
  next
    case nl: False
    with False have "terminal_char k p = [BSL, CHR ''u'', CHR ''{''] @ show_hex (code_point p) @ [CHR ''}'']"
      by (auto simp: terminal_char_def split: if_splits)
    then show ?thesis using show_hex_chars [of "code_point p"] by (auto simp: code_def BSL_def list_all_iff)
  qed
  from that [OF _ printable_terminal_safe [OF this, of k]] show ?thesis by simp
qed

text \<open>C19: Text printed to the terminal holds no control or direction-override character other than tabs and,
  where previews of several lines are printed, line feeds: a recorded session cannot drive the terminal
  of whoever compares it.\<close>

theorem terminal_text_is_safe:
  assumes "utf8_valid input"
  shows "list_all (terminal_safe keep_newlines) (chars (sanitize_for_terminal input keep_newlines)) \<and>
    utf8_valid (sanitize_for_terminal input keep_newlines)"
proof -
  have "\<exists>ps. concat (map (terminal_char keep_newlines) qs) = concat ps \<and>
      list_all (\<lambda>p. valid_char p \<and> terminal_safe keep_newlines p) ps"
    if "list_all valid_char qs" for qs using that
  proof (induction qs)
    case (Cons q qs)
    from Cons obtain ps where ps: "concat (map (terminal_char keep_newlines) qs) = concat ps"
      "list_all (\<lambda>p. valid_char p \<and> terminal_safe keep_newlines p) ps" by auto
    from Cons.prems have "valid_char q" by simp
    then obtain rs where "terminal_char keep_newlines q = concat rs"
      "list_all (\<lambda>p. valid_char p \<and> terminal_safe keep_newlines p) rs" by (rule terminal_char_safe)
    with ps show ?case by (intro exI [of _ "rs @ ps"]) simp
  qed (intro exI [of _ "[]"], simp)
  with assms obtain ps where ps: "sanitize_for_terminal input keep_newlines = concat ps"
    "list_all (\<lambda>p. valid_char p \<and> terminal_safe keep_newlines p) ps"
    by (auto simp: sanitize_for_terminal_def utf8_valid_def)
  then have "chars (concat ps) = ps"
    by (intro chars_concat) (auto simp: list_all_iff intro: valid_char_complete)
  with ps show ?thesis by (auto simp: utf8_valid_def list_all_iff)
qed

theorem terminal_text_is_safe_witness:
  "utf8_valid (sanitize_for_terminal [CHR 0x1B, CHR ''['', CHR ''m''] False)"
proof -
  have "utf8_valid [CHR 0x1B, CHR ''['', CHR ''m'']" by (rule utf8_valid_ascii) (simp add: code_def)
  from terminal_text_is_safe [OF this, of False] show ?thesis by blast
qed

end
