(* ===== verification/Context_Window.thy ===== *)
theory Context_Window
  imports Dispatch Std_Text
begin

text \<open>
  What the model is shown and how it is kept short: the messages (\<open>akmon-models/src/message.rs\<close>), the
  token estimate (\<open>akmon-models/src/lib.rs\<close>), the composition of a prompt
  (\<open>akmon-query/src/context.rs\<close>), the clearing of old tool results (\<open>microcompact.rs\<close>), the split
  into messages to summarise and messages to keep (\<open>context_manager.rs\<close>), and the fold of a summary
  into the transcript, the trimming and the final cut of \<open>akmon-query/src/session.rs\<close>.

  The prompt texts taken from the project (system blocks, task lists, language rules), the JSON
  parser and printer and the Unicode lower-case table are parameters. The three floating-point
  comparisons of the code are written over the integers they compare; they agree with the code for
  every count below 2 to the 46.
\<close>

section \<open>Messages\<close>

datatype message_role = RoleSystem | RoleUser | RoleAssistant | RoleTool

record chat_message =
  ms_role :: message_role
  ms_content :: string

definition msg :: "message_role \<Rightarrow> string \<Rightarrow> chat_message" where
  "msg r c = \<lparr>ms_role = r, ms_content = c\<rparr>"

definition is_system :: "chat_message \<Rightarrow> bool" where
  "is_system m = (ms_role m = RoleSystem)"

text \<open>The JSON of a tool result; the maps are sorted by key.\<close>

fun tool_error_code_name :: "tool_error_code \<Rightarrow> string" where
  "tool_error_code_name PathEscape = ''path_escape''"
| "tool_error_code_name NotFound = ''not_found''"
| "tool_error_code_name NotAFile = ''not_a_file''"
| "tool_error_code_name BinaryContent = ''binary_content''"
| "tool_error_code_name TooLarge = ''too_large''"
| "tool_error_code_name PermissionDenied = ''permission_denied''"
| "tool_error_code_name InvalidArgs = ''invalid_args''"
| "tool_error_code_name AmbiguousMatch = ''ambiguous_match''"
| "tool_error_code_name PatchFailed = ''patch_failed''"
| "tool_error_code_name SubprocessFailed = ''subprocess_failed''"
| "tool_error_code_name SymlinkRefused = ''symlink_refused''"

fun tool_output_json :: "tool_output \<Rightarrow> json" where
  "tool_output_json (OutSuccess c) = JObject [(''content'', JString c), (''status'', JString ''success'')]"
| "tool_output_json (OutError k m) =
     JObject [(''code'', JString (tool_error_code_name k)), (''message'', JString m), (''status'', JString ''error'')]"
| "tool_output_json (OutQuestion q ss) =
     JObject [(''question'', JString q), (''status'', JString ''question''), (''suggestions'', JArray (map JString ss))]"

record json_text =
  jt_parse :: "string \<Rightarrow> json option"
  jt_print :: "json \<Rightarrow> string"

text \<open>\<open>append_tool_message\<close>: the payload of a tool result, as the message the model sees.\<close>

definition tool_message :: "json_text \<Rightarrow> string \<times> string \<times> tool_output \<Rightarrow> chat_message" where
  "tool_message J r =
     (case r of (call_id, name, out) \<Rightarrow>
        msg RoleTool (jt_print J (JObject [(''output'', tool_output_json out), (''tool_call_id'', JString call_id),
          (''tool_name'', JString name)])))"

section \<open>Token estimates\<close>

text \<open>\<open>split_whitespace().count()\<close>: \<open>inw\<close> tells that the previous character belongs to a word.\<close>

function count_words :: "bool \<Rightarrow> string \<Rightarrow> nat" where
  "count_words inw s =
     (case find (\<lambda>w. w \<noteq> [] \<and> starts_with w s) ws_codes of
        Some w \<Rightarrow> count_words False (drop (length w) s)
      | None \<Rightarrow>
          (case s of
             [] \<Rightarrow> 0
           | _ # rest \<Rightarrow> (if inw then 0 else 1) + count_words True rest))"
  by pat_completeness auto
termination
  by (relation "measure (\<lambda>(inw, s). length s)") (auto simp: find_Some_iff starts_with_iff)

declare count_words.simps [simp del]

definition ends_with_char :: "char \<Rightarrow> string \<Rightarrow> bool" where
  "ends_with_char c s = (s \<noteq> [] \<and> last s = c)"

definition is_code_line :: "string \<Rightarrow> bool" where
  "is_code_line l =
     (let t = trim_ws l in
      ends_with_char (CHR '';'') t \<or> ends_with_char (CHR 0x7B) t \<or> ends_with_char (CHR 0x7D) t
      \<or> str_contains ''fn '' t \<or> str_contains ''let '' t \<or> str_contains ''def '' t \<or> str_contains ''class '' t
      \<or> str_contains ''import '' t \<or> str_contains ''    '' t)"

text \<open>\<open>code_ratio > 0.4\<close> and \<open>(words * 1.3).ceil()\<close>.\<close>

definition estimate_tokens_for_content :: "string \<Rightarrow> nat" where
  "estimate_tokens_for_content content =
     (let ls = str_lines content in
      if ls = [] then 0
      else
        let coded = length (filter is_code_line ls);
            tokens = (if 2 * length ls < 5 * coded then 18 * length ls
                      else (13 * count_words False content + 9) div 10) in
        (tokens * 4) div 3)"

definition approximate_tokens :: "chat_message list \<Rightarrow> nat" where
  "approximate_tokens ms = sum_list (map (\<lambda>m. estimate_tokens_for_content (ms_content m)) ms)"

section \<open>The context manager\<close>

record context_manager =
  cm_max_tokens :: nat
  cm_keep_recent :: nat
  cm_fixed_system_messages :: nat

definition COMPACT_RESERVED_BUFFER :: nat where
  "COMPACT_RESERVED_BUFFER = 30000"

definition reserved_for_window :: "nat \<Rightarrow> nat" where
  "reserved_for_window max_tokens = min COMPACT_RESERVED_BUFFER (max_tokens * 3 div 4)"

text \<open>\<open>AgentSession::new\<close>: the window is clamped and the number of fixed rows depends on whether
  there is an \<open>AKMON.md\<close>.\<close>

definition new_context_manager :: "nat \<Rightarrow> bool \<Rightarrow> context_manager" where
  "new_context_manager window has_akmon_md =
     \<lparr>cm_max_tokens = max 1 (min window 100000), cm_keep_recent = 10,
      cm_fixed_system_messages = (if has_akmon_md then 2 else 1)\<rparr>"

text \<open>\<open>tokens / available > 0.85\<close>, where \<open>tokens\<close> is the provider's estimate or the heuristic.\<close>

definition needs_summarization ::
    "(chat_message list \<Rightarrow> nat option) \<Rightarrow> context_manager \<Rightarrow> chat_message list \<Rightarrow> bool" where
  "needs_summarization provider_estimate C ms =
     (let tokens = (case provider_estimate ms of Some n \<Rightarrow> n | None \<Rightarrow> approximate_tokens ms);
          available = max 1 (cm_max_tokens C - reserved_for_window (cm_max_tokens C)) in
      17 * available < 20 * tokens)"

definition messages_to_summarize :: "context_manager \<Rightarrow> chat_message list \<Rightarrow> chat_message list \<times> chat_message list" where
  "messages_to_summarize C ms =
     (let n_fixed = min (cm_fixed_system_messages C) (length ms);
          body = drop n_fixed ms;
          rest = dropWhile is_system body in
      if rest = [] then ([], [])
      else if length rest \<le> cm_keep_recent C then ([], rest)
      else
        let k = length rest - cm_keep_recent C in (take k rest, drop k rest))"

text \<open>The fold of a summary: the transcript must be the part of the prompt after the fixed rows.\<close>

definition apply_folded_summary ::
    "context_manager \<Rightarrow> chat_message list \<Rightarrow> chat_message list \<Rightarrow> chat_message list \<Rightarrow> chat_message \<Rightarrow> string + chat_message list" where
  "apply_folded_summary C context0 to_s head summary =
     (let n_fixed = min (cm_fixed_system_messages C) (length head);
          body = drop n_fixed head;
          j = length (takeWhile is_system body) in
      if length body \<noteq> length context0 then Inl ''summary fold: context length mismatch''
      else if length context0 < j + length to_s then Inl ''summary fold: context shorter than expected''
      else if take (length to_s) (drop j body) \<noteq> to_s then Inl ''summary fold: slice mismatch''
      else Inr (take j context0 @ [summary] @ drop (j + length to_s) context0))"

text \<open>The indices of the oldest fifth, rounded up, of the rows that are not system rows are dropped.\<close>

definition fifth_rounded_up :: "nat \<Rightarrow> nat" where
  "fifth_rounded_up n = (n + 4) div 5"

fun drop_non_system :: "nat \<Rightarrow> chat_message list \<Rightarrow> chat_message list" where
  "drop_non_system n [] = []"
| "drop_non_system n (m # ms) =
     (if is_system m then m # drop_non_system n ms
      else if n = 0 then m # drop_non_system 0 ms
      else drop_non_system (n - 1) ms)"

definition trim_oldest_non_system_fraction :: "chat_message list \<Rightarrow> chat_message list" where
  "trim_oldest_non_system_fraction ms =
     drop_non_system (fifth_rounded_up (length (filter (\<lambda>m. \<not> is_system m) ms))) ms"

section \<open>Which model it is\<close>

definition looks_like_claude_api_model :: "(string \<Rightarrow> string) \<Rightarrow> string \<Rightarrow> bool" where
  "looks_like_claude_api_model lc model =
     (let lower = lc (trim_ws model) in starts_with ''claude-'' lower \<or> lower = ''claude'')"

definition ollama_prefixes :: "string list" where
  "ollama_prefixes =
     [''llama'', ''qwen'', ''mistral'', ''deepseek'', ''codellama'', ''phi'', ''gemma'', ''vicuna'', ''orca'',
      ''neural'', ''wizardcoder'', ''starcoder'', ''tinyllama'', ''falcon'', ''dolphin'']"

definition looks_like_ollama_model :: "(string \<Rightarrow> string) \<Rightarrow> string \<Rightarrow> bool" where
  "looks_like_ollama_model lc model =
     (let lower = lc (trim_ws model) in
      if looks_like_claude_api_model lc model then False
      else if CHR '':'' \<in> set model then True
      else list_ex (\<lambda>p. starts_with p lower) ollama_prefixes)"

definition is_openai_native_chat_model :: "(string \<Rightarrow> string) \<Rightarrow> string \<Rightarrow> bool" where
  "is_openai_native_chat_model lc model =
     (let m = lc model in
      list_ex (\<lambda>p. starts_with p m)
        [''gpt-'', ''o1'', ''o3'', ''o4'', ''openai/gpt'', ''openai/o1'', ''openai/o3'', ''openai/o4''])"

text \<open>\<open>None\<close> stands for \<open>usize::MAX\<close>.\<close>

definition context_limit_for_model :: "(string \<Rightarrow> string) \<Rightarrow> string \<Rightarrow> nat option" where
  "context_limit_for_model lc model = (if looks_like_ollama_model lc model then Some 8 else None)"

definition take_last :: "nat \<Rightarrow> 'a list \<Rightarrow> 'a list" where
  "take_last n xs = drop (length xs - n) xs"

definition trim_messages_for_model :: "(string \<Rightarrow> string) \<Rightarrow> string \<Rightarrow> chat_message list \<Rightarrow> chat_message list" where
  "trim_messages_for_model lc model ms =
     (if looks_like_ollama_model lc model
      then opt_list (find is_system ms) @ take_last 6 (filter (\<lambda>m. \<not> is_system m) ms)
      else
        case context_limit_for_model lc model of
          None \<Rightarrow> ms
        | Some limit \<Rightarrow>
            (let n_system = length (takeWhile is_system ms); rest = drop n_system ms in
             if length ms \<le> n_system then ms
             else if length rest \<le> limit then ms
             else take n_system ms @ take_last limit rest))"

section \<open>Old tool results\<close>

definition never_clear_tool :: "string \<Rightarrow> bool" where
  "never_clear_tool name =
     (name \<in> set [''write_file'', ''edit'', ''patch'', ''apply_patch'', ''edit_file''])"

definition clearable_explore_tool :: "string \<Rightarrow> bool" where
  "clearable_explore_tool name =
     (name \<in> set [''read_file'', ''list_directory'', ''search'', ''semantic_search'', ''web_fetch'', ''WebFetch'',
        ''grep'', ''Grep'', ''glob'', ''Glob'', ''web_search'', ''WebSearch''])"

definition SHELL_OUTPUT_CLEAR_MIN_CHARS :: nat where
  "SHELL_OUTPUT_CLEAR_MIN_CHARS = 500"

definition cleared_output :: json where
  "cleared_output = tool_output_json (OutSuccess ''[Old tool result content cleared]'')"

text \<open>\<open>v.get_mut(k)\<close> replaced when it is there.\<close>

fun json_replace :: "string \<Rightarrow> json \<Rightarrow> json \<Rightarrow> json" where
  "json_replace k x (JObject m) = JObject (map (\<lambda>(n, v). (n, if n = k then x else v)) m)"
| "json_replace k x v = v"

definition clearable :: "json_text \<Rightarrow> string \<Rightarrow> json \<Rightarrow> bool" where
  "clearable J name v =
     (if never_clear_tool name then False
      else if name = ''shell''
      then (case json_get ''output'' v of
              Some out \<Rightarrow> SHELL_OUTPUT_CLEAR_MIN_CHARS < length (jt_print J out) | None \<Rightarrow> False)
      else clearable_explore_tool name)"

definition clear_message :: "json_text \<Rightarrow> chat_message \<Rightarrow> chat_message \<times> nat" where
  "clear_message J m =
     (if ms_role m \<noteq> RoleTool then (m, 0)
      else
        case jt_parse J (ms_content m) of
          None \<Rightarrow> (m, 0)
        | Some v \<Rightarrow>
            (case json_str ''tool_name'' v of
               None \<Rightarrow> (m, 0)
             | Some name \<Rightarrow>
                 if \<not> clearable J name v then (m, 0)
                 else
                   let s = jt_print J (json_replace ''output'' cleared_output v) in
                   (m\<lparr>ms_content := s\<rparr>,
                    estimate_tokens_for_content (ms_content m) - estimate_tokens_for_content s)))"

definition apply_microcompact_context :: "json_text \<Rightarrow> nat \<Rightarrow> chat_message list \<Rightarrow> chat_message list \<times> u32" where
  "apply_microcompact_context J keep ms =
     (let n_sys = length (takeWhile is_system ms); body = drop n_sys ms in
      if length body \<le> keep then (ms, 0)
      else
        let n = length body - keep;
            cleared = map (clear_message J) (take n body);
            saved = sum_list (map snd cleared) in
        (take n_sys ms @ map fst cleared @ drop n body,
         if saved < 2 ^ 32 then of_nat saved else - 1))"

definition microcompact_keep :: "(string \<Rightarrow> string) \<Rightarrow> string \<Rightarrow> nat" where
  "microcompact_keep lc provider = (if starts_with ''groq/'' (lc provider) then 12 else 20)"

section \<open>The prompt\<close>

text \<open>The texts a prompt is built from, read anew for every call.\<close>

record prompt_texts =
  pt_akmon_md :: "string option"
  pt_main_system :: string
  pt_subagent_system :: "bool \<Rightarrow> string"
  pt_specs :: "string option"
  pt_handoff :: "string option"
  pt_extras :: "string list"
  pt_language_rules :: "string option"
  pt_intel :: string
  pt_subagent :: bool

definition akmon_md_row :: "string \<Rightarrow> chat_message" where
  "akmon_md_row md =
     msg RoleSystem (''Project configuration (AKMON.md):'' @ [LF] @ ''<<<AKMON_MD_START>>>'' @ [LF] @ md
       @ [LF] @ ''<<<AKMON_MD_END>>>'')"

definition visible_block :: "string \<Rightarrow> bool" where
  "visible_block s = (trim_ws s \<noteq> [])"

text \<open>The system rows in front of the transcript, common to \<open>build_messages\<close> and
  \<open>build_followup_messages\<close>, and those of a subagent.\<close>

definition system_rows :: "(string \<Rightarrow> string) \<Rightarrow> string \<Rightarrow> prompt_texts \<Rightarrow> chat_message list" where
  "system_rows lc model P =
     map akmon_md_row (opt_list (pt_akmon_md P)) @ [msg RoleSystem (pt_main_system P)]
     @ map (msg RoleSystem)
         (filter visible_block (opt_list (pt_specs P) @ opt_list (pt_handoff P) @ pt_extras P))
     @ (if looks_like_ollama_model lc model then [] else map (msg RoleSystem) (opt_list (pt_language_rules P)))"

definition subagent_rows :: "(string \<Rightarrow> string) \<Rightarrow> string \<Rightarrow> bool \<Rightarrow> prompt_texts \<Rightarrow> chat_message list" where
  "subagent_rows lc model followup P =
     msg RoleSystem (pt_subagent_system P followup)
     # (if looks_like_ollama_model lc model then [] else map (msg RoleSystem) (opt_list (pt_language_rules P)))"

definition user_row :: "(string \<Rightarrow> string) \<Rightarrow> string \<Rightarrow> prompt_texts \<Rightarrow> string \<Rightarrow> chat_message" where
  "user_row lc model P task0 =
     msg RoleUser
       (if \<not> is_openai_native_chat_model lc model then task0
        else if trim_ws (pt_intel P) = [] then task0
        else ''[Context for this turn]'' @ [LF] @ pt_intel P @ [LF, LF] @ task0)"

definition compose_model_messages ::
    "(string \<Rightarrow> string) \<Rightarrow> string \<Rightarrow> prompt_texts \<Rightarrow> chat_message list \<Rightarrow> string \<Rightarrow> bool \<Rightarrow> chat_message list" where
  "compose_model_messages lc model P context0 task0 committed =
     (if pt_subagent P
      then (if committed then subagent_rows lc model True P @ context0
            else subagent_rows lc model False P @ [msg RoleUser task0])
      else if committed then system_rows lc model P @ context0
      else system_rows lc model P @ context0 @ [user_row lc model P task0])"

end
