(* ===== verification/Agent_Run.thy ===== *)
theory Agent_Run
  imports Context_Window
begin

text \<open>
  One user turn: \<open>AgentSession::run\<close> of \<open>akmon-query/src/session.rs\<close> with the summarisation pass, the
  handling of model errors and the bookkeeping around it. The loop asks the model, streams its answer,
  runs the requested tools through \<open>dispatch_tool_calls_batch\<close> and asks again, until the model ends
  its turn, a limit is reached or an error occurs.

  The model is an oracle: the n-th call gets the tool names and the messages and yields an error or a
  finite stream. What tools return, the order in which they finish, the interrupt flag after the n-th
  batch and the texts read from the project are parameters as well. Counters that only select the next
  oracle answer are not fields of the program.
\<close>

section \<open>The model's side\<close>

datatype model_error =
    BackendUnavailable string
  | FirstTokenTimeout
  | RateLimited "u64 option"
  | AuthError
  | ContextWindowExceeded
  | StreamInterrupted string
  | ModelNotFound string string

definition model_error_to_string :: "model_error \<Rightarrow> string" where
  "model_error_to_string e =
     (case e of
        BackendUnavailable m \<Rightarrow> ''backend unavailable: '' @ m
      | FirstTokenTimeout \<Rightarrow>
          ''first token deadline exceeded. For local/Ollama models: check '' @ tick @ ''ollama ps'' @ tick
          @ '', warm the model with '' @ tick @ ''ollama run <model>'' @ tick
          @ '', or retry with a smaller/faster model''
      | RateLimited _ \<Rightarrow> ''rate limited''
      | AuthError \<Rightarrow> ''authentication failed''
      | ContextWindowExceeded \<Rightarrow>
          ''context window exceeded. Reduce context with '' @ tick @ ''/clear'' @ tick
          @ '', or switch to a model with a larger context window''
      | StreamInterrupted m \<Rightarrow> ''stream interrupted: '' @ m
      | ModelNotFound m hint \<Rightarrow> ''model not found: '' @ m @ [LF] @ hint)"

datatype stop_reason = EndTurn | MaxTokens | ToolUse

datatype stream_event =
    SeProviderReady string string
  | SeStatusHint string
  | SeTextDelta string
  | SeDone stop_reason "tool_call list"
  | SeUsageReport u32 u32 u32 u32
  | SeError model_error

type_synonym completion_stream = "(model_error + stream_event) list"

definition map_model_error :: "model_error \<Rightarrow> agent_error" where
  "map_model_error e = ModelError (model_error_to_string e)"

definition model_error_is_timeout :: "model_error \<Rightarrow> bool" where
  "model_error_is_timeout e =
     (case e of
        FirstTokenTimeout \<Rightarrow> True
      | StreamInterrupted m \<Rightarrow>
          (let lower = to_ascii_lowercase m in str_contains ''timed out'' lower \<or> str_contains ''timeout'' lower)
      | _ \<Rightarrow> False)"

fun is_rate_limited :: "model_error \<Rightarrow> bool" where
  "is_rate_limited (RateLimited _) = True"
| "is_rate_limited _ = False"

section \<open>The session during a run\<close>

datatype run_exit = Completed | BudgetLimit

record 'c run_state =
  rs_dispatch :: "'c dispatch_state"
  rs_context :: "chat_message list"
  rs_result_text :: string
  rs_continuation_count :: u32
  rs_exit :: run_exit
  rs_turns_finished :: u32
  rs_snippet :: "string option"
  rs_retries :: u64
  rs_user_turns :: "string list"
  rs_assistant_turns :: "(string \<times> byte list option) list"
  rs_handoffs :: "string list"
  rs_calls :: nat
  rs_batches :: nat
  rs_reads :: nat

text \<open>\<open>ru_user_turn\<close> is the journal's answer to a user turn; \<open>ru_budget\<close> reads the budget flag that
  \<open>accumulate_usage_cost\<close> keeps in the cost state.\<close>

record ('c, 'p) run_env =
  ru_dispatch :: "('c, 'p) dispatch_env"
  ru_json :: json_text
  ru_lower :: "string \<Rightarrow> string"
  ru_provider :: string
  ru_model :: string
  ru_estimate :: "chat_message list \<Rightarrow> nat option"
  ru_manager :: context_manager
  ru_texts :: "nat \<Rightarrow> prompt_texts"
  ru_complete :: "nat \<Rightarrow> string list \<Rightarrow> chat_message list \<Rightarrow> model_error + completion_stream"
  ru_execute :: "nat \<Rightarrow> approved_slot \<Rightarrow> tool_output \<times> u64"
  ru_finish :: "nat \<Rightarrow> (nat \<times> tool_call_result) list \<Rightarrow> (nat \<times> tool_call_result) list"
  ru_interrupt :: "nat \<Rightarrow> bool"
  ru_calls_cbor :: "tool_call list \<Rightarrow> byte list option"
  ru_user_turn :: "string \<Rightarrow> agent_error + unit"
  ru_budget :: "'c \<Rightarrow> bool"
  ru_zero :: 'c
  ru_debug :: "agent_state \<Rightarrow> string"

definition agent_of :: "'c run_state \<Rightarrow> 'c agent_session" where
  "agent_of s = ds_agent (rs_dispatch s)"

definition state_of :: "'c run_state \<Rightarrow> agent_state" where
  "state_of s = as_state (agent_of s)"

definition budget_stop :: "('c, 'p) run_env \<Rightarrow> 'c run_state \<Rightarrow> bool" where
  "budget_stop R s = ru_budget R (as_cost (agent_of s))"

definition env_for :: "('c, 'p) run_env \<Rightarrow> string \<Rightarrow> ('c, 'p) dispatch_env" where
  "env_for R task0 = (ru_dispatch R)\<lparr>de_task := task0\<rparr>"

definition run_ev ::
    "('c, 'p) run_env \<Rightarrow> string \<Rightarrow> 'c run_state \<Rightarrow> agent_event \<Rightarrow> 'c run_state \<times> (agent_error + unit)" where
  "run_ev R task0 s ev =
     (let (d, r) = apply_ev (env_for R task0) (rs_dispatch s) ev in (s\<lparr>rs_dispatch := d\<rparr>, r))"

definition set_agent :: "'c agent_session \<Rightarrow> 'c run_state \<Rightarrow> 'c run_state" where
  "set_agent g s = s\<lparr>rs_dispatch := (rs_dispatch s)\<lparr>ds_agent := g\<rparr>\<rparr>"

definition new_reliability :: reliability where
  "new_reliability =
     \<lparr>rel_tool_calls_total = 0, rel_tool_calls_success = 0, rel_tool_calls_failure = 0, rel_latency_total = 0,
      rel_latency_avg = 0, rel_latency_p95 = None, rel_timeouts = 0, rel_policy_denials = 0\<rparr>"

text \<open>\<open>prepare_for_new_user_turn\<close> on the whole session.\<close>

definition prepare_turn :: "('c, 'p) run_env \<Rightarrow> 'c run_state \<Rightarrow> 'c run_state \<times> (agent_error + unit)" where
  "prepare_turn R s =
     (case prepare_for_new_user_turn (ru_zero R) (ru_debug R) (agent_of s) of
        (g, Inl e) \<Rightarrow> (set_agent g s, Inl e)
      | (g, Inr _) \<Rightarrow>
          (s\<lparr>rs_dispatch := (rs_dispatch s)\<lparr>ds_agent := g, ds_tool_counts := [], ds_reliability := new_reliability,
                ds_latency_samples := []\<rparr>,
             rs_result_text := [], rs_continuation_count := 0, rs_retries := 0, rs_exit := Completed\<rparr>, Inr ()))"

definition clear_transcript_soft :: "'c run_state \<Rightarrow> 'c run_state" where
  "clear_transcript_soft s =
     s\<lparr>rs_dispatch := (rs_dispatch s)\<lparr>ds_agent := (agent_of s)\<lparr>as_tool_call_summaries := []\<rparr>,
          ds_tool_counts := [], ds_modified_paths := []\<rparr>,
       rs_context := [], rs_result_text := [], rs_continuation_count := 0, rs_snippet := None,
       rs_turns_finished := 0\<rparr>"

definition record_run_finished_success :: "'c run_state \<Rightarrow> 'c run_state" where
  "record_run_finished_success s =
     (let t = rs_result_text s in
      s\<lparr>rs_turns_finished := saturating_add32 (rs_turns_finished s) 1,
        rs_snippet := (if t = [] then None
                       else if 2000 < length t then Some (truncate_at_char_boundary t 2000) else Some t)\<rparr>)"

definition record_retry_attempt :: "'c run_state \<Rightarrow> 'c run_state" where
  "record_retry_attempt s = s\<lparr>rs_retries := saturating_add64 (rs_retries s) 1\<rparr>"

definition record_timeout_if_model_error :: "model_error \<Rightarrow> 'c run_state \<Rightarrow> 'c run_state" where
  "record_timeout_if_model_error e s =
     (if model_error_is_timeout e
      then s\<lparr>rs_dispatch := (rs_dispatch s)\<lparr>ds_reliability := (ds_reliability (rs_dispatch s))
              \<lparr>rel_timeouts := saturating_add64 (rel_timeouts (ds_reliability (rs_dispatch s))) 1\<rparr>\<rparr>\<rparr>
      else s)"

definition percentile_95 :: "u64 list \<Rightarrow> u64 option" where
  "percentile_95 samples =
     (if samples = [] then None
      else
        let sorted0 = sort samples; n = length sorted0; rank = (n * 95 + 99) div 100;
            idx = min (rank - 1) (n - 1) in
        Some (sorted0 ! idx))"

definition reliability_metrics_snapshot :: "'c dispatch_state \<Rightarrow> reliability" where
  "reliability_metrics_snapshot d = (ds_reliability d)\<lparr>rel_latency_p95 := percentile_95 (ds_latency_samples d)\<rparr>"

definition push_message :: "chat_message \<Rightarrow> 'c run_state \<Rightarrow> 'c run_state" where
  "push_message m s = s\<lparr>rs_context := rs_context s @ [m]\<rparr>"

definition commit_user_line :: "bool \<Rightarrow> string \<Rightarrow> 'c run_state \<Rightarrow> 'c run_state" where
  "commit_user_line committed task0 s = (if committed then s else push_message (msg RoleUser task0) s)"

definition warn_emit_assistant_turn :: "string \<Rightarrow> byte list option \<Rightarrow> 'c run_state \<Rightarrow> 'c run_state" where
  "warn_emit_assistant_turn t calls s = s\<lparr>rs_assistant_turns := rs_assistant_turns s @ [(t, calls)]\<rparr>"

section \<open>Errors of the model\<close>

definition rate_limit_text :: string where
  "rate_limit_text = ''Rate limit exhausted after 5 retries.'' @ [LF] @ ''Wait a few minutes then continue with: akmon -c''"

definition context_hint_text :: string where
  "context_hint_text =
     ''Context too large for local model. Options:'' @ [LF]
     @ '' 1. Type /clear to reset and continue with less context'' @ [LF]
     @ '' 2. Switch to cloud: /model claude-haiku-4-5-20251001'' @ [LF]
     @ '' 3. Use a larger local model: /model qwen3.5:27b''"

definition wants_context_hint :: "model_error \<Rightarrow> bool" where
  "wants_context_hint e =
     (case e of
        ContextWindowExceeded \<Rightarrow> True
      | StreamInterrupted m \<Rightarrow> str_contains ''The context may be too large for this model.'' m
      | _ \<Rightarrow> False)"

definition handle_model_error_for_run ::
    "('c, 'p) run_env \<Rightarrow> string \<Rightarrow> 'c run_state \<Rightarrow> model_error \<Rightarrow> 'c run_state \<times> (agent_error + agent_error option)" where
  "handle_model_error_for_run R task0 s0 e =
     (let s = record_timeout_if_model_error e s0 in
      if is_rate_limited e
      then st_bind (run_ev R task0 s (StatusInfo rate_limit_text)) (\<lambda>s1 _.
        (s1\<lparr>rs_handoffs := rs_handoffs s1 @ [task0]\<rparr>, Inr (Some (ModelError rate_limit_text))))
      else
        st_bind (if wants_context_hint e then run_ev R task0 s (StatusInfo context_hint_text) else (s, Inr ())) (\<lambda>s1 _.
        st_bind (run_ev R task0 s1 (ErrorEvent (map_model_error e) True)) (\<lambda>s2 _.
        (s2, Inr (Some (map_model_error e))))))"

text \<open>What every caller does with the answer; \<open>done\<close> is its value for a quiet return.\<close>

definition give_up ::
    "('c, 'p) run_env \<Rightarrow> string \<Rightarrow> 'c run_state \<Rightarrow> model_error \<Rightarrow> 'a \<Rightarrow> 'c run_state \<times> (agent_error + 'a)" where
  "give_up R task0 s e quiet =
     st_bind (handle_model_error_for_run R task0 s e) (\<lambda>s1 o1.
       case o1 of Some ae \<Rightarrow> (s1, Inl ae) | None \<Rightarrow> (s1, Inr quiet))"

section \<open>Summarisation\<close>

datatype summary_result = SummaryText string | SummaryAborted | SummaryRateLimited model_error

definition failed_summary :: "model_error \<Rightarrow> summary_result" where
  "failed_summary e = (if is_rate_limited e then SummaryRateLimited e else SummaryAborted)"

fun read_summary :: "completion_stream \<Rightarrow> string \<Rightarrow> summary_result" where
  "read_summary [] acc = (if acc = [] then SummaryAborted else SummaryText acc)"
| "read_summary (Inl e # rest) acc = failed_summary e"
| "read_summary (Inr ev # rest) acc =
     (case ev of
        SeTextDelta t \<Rightarrow> read_summary rest (acc @ t)
      | SeUsageReport _ _ _ _ \<Rightarrow> read_summary rest acc
      | SeProviderReady _ _ \<Rightarrow> read_summary rest acc
      | SeStatusHint _ \<Rightarrow> read_summary rest acc
      | SeError e \<Rightarrow> failed_summary e
      | SeDone stop calls \<Rightarrow>
          (if stop = MaxTokens then SummaryAborted
           else if calls \<noteq> [] then SummaryAborted
           else SummaryText acc))"

definition abort_summary :: "'c run_state \<Rightarrow> 'c run_state" where
  "abort_summary s =
     (let s1 = set_agent (restore_state_after_summarization_abort (agent_of s)) s in
      s1\<lparr>rs_context := trim_oldest_non_system_fraction (rs_context s1)\<rparr>)"

definition summary_instruction :: chat_message where
  "summary_instruction =
     msg RoleSystem ''Summarize the following conversation history concisely. Preserve key decisions, file paths mentioned, and technical context. Output only the summary, no preamble.''"

definition summary_row :: "string \<Rightarrow> chat_message" where
  "summary_row t = msg RoleSystem (''<<<SUMMARY_START>>>'' @ [LF] @ t @ [LF] @ ''<<<SUMMARY_END>>>'')"

definition finish_summary ::
    "('c, 'p) run_env \<Rightarrow> string \<Rightarrow> 'c run_state \<Rightarrow> chat_message list \<Rightarrow> chat_message list \<Rightarrow> string
     \<Rightarrow> 'c run_state \<times> (agent_error + unit)" where
  "finish_summary R task0 s to_s head summary =
     (case apply_folded_summary (ru_manager R) (rs_context s) to_s head (summary_row summary) of
        Inl _ \<Rightarrow> (abort_summary s, Inr ())
      | Inr context1 \<Rightarrow>
          run_ev R task0 (s\<lparr>rs_context := context1\<rparr>)
            (ContextSummarized (length to_s) (approximate_tokens to_s - approximate_tokens [summary_row summary])))"

text \<open>\<open>begin_summarization\<close> is the entry of the pass: it records the state to return to.\<close>

definition run_context_summarization_pass ::
    "('c, 'p) run_env \<Rightarrow> string \<Rightarrow> 'c run_state \<Rightarrow> chat_message list \<Rightarrow> bool \<Rightarrow> 'c run_state \<times> (agent_error + unit)" where
  "run_context_summarization_pass R task0 s messages_full committed =
     (let head = (if committed then messages_full else butlast messages_full);
          to_s = fst (messages_to_summarize (ru_manager R) head) in
      if to_s = [] then (s\<lparr>rs_context := trim_oldest_non_system_fraction (rs_context s)\<rparr>, Inr ())
      else
        let E = env_for R task0; d = rs_dispatch s in
        st_bind (case begin_summarization (de_cost E) (now_of E d 0) (now_of E d 1) task0 (agent_of s) of
                   (g, r) \<Rightarrow> (set_agent g s, r)) (\<lambda>s1 _.
        let s2 = s1\<lparr>rs_calls := Suc (rs_calls s1)\<rparr> in
        case ru_complete R (rs_calls s1) [] (summary_instruction # to_s) of
          Inl e \<Rightarrow> if is_rate_limited e then give_up R task0 s2 e () else (abort_summary s2, Inr ())
        | Inr stream \<Rightarrow>
            (case read_summary stream [] of
               SummaryRateLimited e \<Rightarrow> give_up R task0 s2 e ()
             | SummaryAborted \<Rightarrow> (abort_summary s2, Inr ())
             | SummaryText summary \<Rightarrow> finish_summary R task0 s2 to_s head summary)))"

section \<open>The tools of a call\<close>

definition LOCAL_MODEL_CORE_TOOLS :: "string list" where
  "LOCAL_MODEL_CORE_TOOLS =
     [''read_file'', ''write_file'', ''edit'', ''shell'', ''search'', ''list_directory'']"

definition tools_for_model_id :: "(string \<Rightarrow> string) \<Rightarrow> string \<Rightarrow> tool_info list \<Rightarrow> tool_info list" where
  "tools_for_model_id lc model tools =
     (if \<not> looks_like_ollama_model lc model then tools
      else
        let filtered = filter (\<lambda>t. ti_name t \<in> set LOCAL_MODEL_CORE_TOOLS) tools in
        if filtered = [] then tools else filtered)"

text \<open>The assistant row that records the requested calls.\<close>

definition tool_call_json :: "tool_call \<Rightarrow> json" where
  "tool_call_json c =
     JObject [(''arguments'', tc_arguments c), (''id'', JString (tc_id c)), (''name'', JString (tc_name c))]"

definition assistant_record :: "json_text \<Rightarrow> string \<Rightarrow> tool_call list \<Rightarrow> chat_message" where
  "assistant_record J acc calls =
     msg RoleAssistant (jt_print J (JObject [(''text'', JString acc), (''tool_calls'', JArray (map tool_call_json calls))]))"

text \<open>The three places of \<open>run\<close> that execute tools: the user line and the assistant row are committed,
  the batch runs, and the turn is offered to the journal.\<close>

definition dispatch_batch ::
    "('c, 'p) run_env \<Rightarrow> string \<Rightarrow> 'c run_state \<Rightarrow> tool_call list \<Rightarrow> 'c run_state \<times> (agent_error + unit)" where
  "dispatch_batch R task0 s calls =
     (let d = rs_dispatch s; n = rs_batches s;
          (d1, r) = dispatch_tool_calls_batch (env_for R task0) (ru_execute R n) (ru_finish R n) d calls in
      (s\<lparr>rs_dispatch := d1, rs_batches := Suc n,
         rs_context := rs_context s
           @ map (tool_message (ru_json R)) (drop (length (ds_context d)) (ds_context d1))\<rparr>, r))"

definition run_tool_calls ::
    "('c, 'p) run_env \<Rightarrow> string \<Rightarrow> 'c run_state \<Rightarrow> bool \<Rightarrow> string \<Rightarrow> tool_call list
     \<Rightarrow> 'c run_state \<times> (agent_error + unit)" where
  "run_tool_calls R task0 s committed acc calls =
     (let s1 = push_message (assistant_record (ru_json R) acc calls) (commit_user_line committed task0 s) in
      st_bind (dispatch_batch R task0 s1 calls) (\<lambda>s2 _.
      (warn_emit_assistant_turn acc (ru_calls_cbor R calls) s2, Inr ())))"

section \<open>One completion\<close>

datatype run_next = Finished | Again u32 bool

definition finish_run :: "('c, 'p) run_env \<Rightarrow> 'c run_state \<Rightarrow> 'c run_state" where
  "finish_run R s =
     (let s1 = record_run_finished_success s in
      s1\<lparr>rs_exit := (if budget_stop R s1 then BudgetLimit else Completed)\<rparr>)"

definition EM_DASH :: string where
  "EM_DASH = [CHR 0xE2, CHR 0x80, CHR 0x94]"

definition ELLIPSIS :: string where
  "ELLIPSIS = [CHR 0xE2, CHR 0x80, CHR 0xA6]"

definition continue_text :: string where
  "continue_text =
     ''Continue from exactly where you stopped. Do not repeat anything already written. Resume from the mid-sentence or mid-block point where the response was cut.''"

text \<open>The stop reason \<open>MaxTokens\<close>.\<close>

definition on_max_tokens ::
    "('c, 'p) run_env \<Rightarrow> string \<Rightarrow> 'c run_state \<Rightarrow> u32 \<Rightarrow> bool \<Rightarrow> string \<Rightarrow> tool_call list
     \<Rightarrow> 'c run_state \<times> (agent_error + run_next)" where
  "on_max_tokens R task0 s iteration committed acc calls =
     (if calls \<noteq> [] then
        st_bind (run_tool_calls R task0 s committed acc calls) (\<lambda>s1 _.
        st_bind (run_ev R task0 s1 (StatusInfo (EN_DASH2 @ '' truncated mid-tool, resuming'' @ ELLIPSIS @ '' '' @ EN_DASH2)))
          (\<lambda>s2 _. (record_retry_attempt s2, Inr (Again (saturating_add32 iteration 1) True))))
      else if rs_continuation_count s < 3 then
        let s1 = record_retry_attempt
                   (s\<lparr>rs_continuation_count := saturating_add32 (rs_continuation_count s) 1\<rparr>) in
        st_bind (run_ev R task0 s1 (StatusInfo (EN_DASH2 @ '' response truncated, continuing (''
            @ show_nat (unat (rs_continuation_count s1)) @ ''/3)'' @ ELLIPSIS @ '' '' @ EN_DASH2))) (\<lambda>s2 _.
        (push_message (msg RoleUser continue_text)
           (warn_emit_assistant_turn acc None
             (push_message (msg RoleAssistant acc) (commit_user_line committed task0 s2))),
         Inr (Again iteration True)))
      else
        st_bind (run_ev R task0 s (StatusInfo (EN_DASH2 @ '' response could not complete '' @ EM_DASH
            @ '' try asking for a smaller piece at a time '' @ EN_DASH2))) (\<lambda>s1 _.
        st_bind (run_ev R task0 (s1\<lparr>rs_continuation_count := 0\<rparr>) (ErrorEvent ResponseTruncated False)) (\<lambda>s2 _.
        (s2, Inl ResponseTruncated))))"

text \<open>What follows the tools of an \<open>EndTurn\<close> or \<open>ToolUse\<close> answer.\<close>

definition after_tools ::
    "('c, 'p) run_env \<Rightarrow> string \<Rightarrow> 'c run_state \<Rightarrow> u32 \<Rightarrow> 'c run_state \<times> (agent_error + run_next)" where
  "after_tools R task0 s iteration =
     (if ru_interrupt R (rs_batches s)
      then st_bind (run_ev R task0 s Done) (\<lambda>s1 _. (finish_run R s1, Inr Finished))
      else (s, Inr (Again (saturating_add32 iteration 1) True)))"

definition on_end_turn ::
    "('c, 'p) run_env \<Rightarrow> string \<Rightarrow> 'c run_state \<Rightarrow> u32 \<Rightarrow> bool \<Rightarrow> string \<Rightarrow> tool_call list
     \<Rightarrow> 'c run_state \<times> (agent_error + run_next)" where
  "on_end_turn R task0 s0 iteration committed acc calls =
     (let s = s0\<lparr>rs_continuation_count := 0\<rparr> in
      if calls \<noteq> [] then
        st_bind (run_tool_calls R task0 s committed acc calls) (\<lambda>s1 _. after_tools R task0 s1 iteration)
      else
        st_bind (run_ev R task0 s Done) (\<lambda>s1 _.
        (finish_run R (warn_emit_assistant_turn acc None
           (push_message (msg RoleAssistant acc) (commit_user_line committed task0 s1))), Inr Finished)))"

definition on_tool_use ::
    "('c, 'p) run_env \<Rightarrow> string \<Rightarrow> 'c run_state \<Rightarrow> u32 \<Rightarrow> bool \<Rightarrow> string \<Rightarrow> tool_call list
     \<Rightarrow> 'c run_state \<times> (agent_error + run_next)" where
  "on_tool_use R task0 s0 iteration committed acc calls =
     (let s = s0\<lparr>rs_continuation_count := 0\<rparr> in
      if calls = [] then
        (let ae = ModelError ''model returned ToolUse with no tool_calls'' in
         st_bind (run_ev R task0 s (ErrorEvent ae False)) (\<lambda>s1 _. (s1, Inl ae)))
      else st_bind (run_tool_calls R task0 s committed acc calls) (\<lambda>s1 _. after_tools R task0 s1 iteration))"

definition on_done ::
    "('c, 'p) run_env \<Rightarrow> string \<Rightarrow> 'c run_state \<Rightarrow> u32 \<Rightarrow> bool \<Rightarrow> string \<Rightarrow> stop_reason \<Rightarrow> tool_call list
     \<Rightarrow> 'c run_state \<times> (agent_error + run_next)" where
  "on_done R task0 s iteration committed acc stop calls =
     st_bind (case state_of s of Planning _ _ \<Rightarrow> run_ev R task0 s (TextDelta []) | _ \<Rightarrow> (s, Inr ())) (\<lambda>s1 _.
     case stop of
       MaxTokens \<Rightarrow> on_max_tokens R task0 s1 iteration committed acc calls
     | EndTurn \<Rightarrow> on_end_turn R task0 s1 iteration committed acc calls
     | ToolUse \<Rightarrow> on_tool_use R task0 s1 iteration committed acc calls)"

text \<open>The stream of one completion; \<open>acc\<close> is the text accumulated so far.\<close>

fun consume_stream ::
    "('c, 'p) run_env \<Rightarrow> string \<Rightarrow> u32 \<Rightarrow> bool \<Rightarrow> 'c run_state \<Rightarrow> string \<Rightarrow> completion_stream
     \<Rightarrow> 'c run_state \<times> (agent_error + run_next)" where
  "consume_stream R task0 iteration committed s acc [] =
     (case state_of s of
        Complete \<Rightarrow> (s, Inr Finished)
      | Failed err _ \<Rightarrow> (s, Inl err)
      | _ \<Rightarrow>
          (let ae = ModelError ''completion stream ended before Done'' in
           st_bind (run_ev R task0 s (ErrorEvent ae False)) (\<lambda>s1 _. (s1, Inl ae))))"
| "consume_stream R task0 iteration committed s acc (Inl e # rest) = give_up R task0 s e Finished"
| "consume_stream R task0 iteration committed s acc (Inr ev # rest) =
     (case ev of
        SeProviderReady provider model \<Rightarrow>
          st_bind (run_ev R task0 s (ProviderConfirmed provider model)) (\<lambda>s1 _.
            consume_stream R task0 iteration committed s1 acc rest)
      | SeStatusHint m \<Rightarrow>
          st_bind (run_ev R task0 s (StatusInfo m)) (\<lambda>s1 _. consume_stream R task0 iteration committed s1 acc rest)
      | SeTextDelta t \<Rightarrow>
          st_bind (run_ev R task0 (s\<lparr>rs_result_text := rs_result_text s @ t\<rparr>) (TextDelta t)) (\<lambda>s1 _.
            consume_stream R task0 iteration committed s1 (acc @ t) rest)
      | SeUsageReport a b c d \<Rightarrow>
          st_bind (run_ev R task0 s (UsageReport a b c d)) (\<lambda>s1 _.
            consume_stream R task0 iteration committed s1 acc rest)
      | SeError e \<Rightarrow> give_up R task0 s e Finished
      | SeDone stop calls \<Rightarrow> on_done R task0 s iteration committed acc stop calls)"

section \<open>The loop\<close>

definition compose_now ::
    "('c, 'p) run_env \<Rightarrow> string \<Rightarrow> 'c run_state \<Rightarrow> bool \<Rightarrow> 'c run_state \<times> chat_message list" where
  "compose_now R task0 s committed =
     (s\<lparr>rs_reads := Suc (rs_reads s)\<rparr>,
      compose_model_messages (ru_lower R) (ru_model R) (ru_texts R (rs_reads s)) (rs_context s) task0 committed)"

text \<open>At most \<open>n\<close> more rounds of summarisation.\<close>

fun shorten ::
    "('c, 'p) run_env \<Rightarrow> string \<Rightarrow> bool \<Rightarrow> nat \<Rightarrow> 'c run_state \<Rightarrow> chat_message list
     \<Rightarrow> 'c run_state \<times> (agent_error + chat_message list)" where
  "shorten R task0 committed 0 s ms = (s, Inr ms)"
| "shorten R task0 committed (Suc n) s ms =
     (if \<not> needs_summarization (ru_estimate R) (ru_manager R) ms then (s, Inr ms)
      else
        st_bind (run_context_summarization_pass R task0 s ms committed) (\<lambda>s1 _.
        let (s2, ms2) = compose_now R task0 s1 committed in shorten R task0 committed n s2 ms2))"

definition compact_now :: "('c, 'p) run_env \<Rightarrow> string \<Rightarrow> 'c run_state \<Rightarrow> 'c run_state \<times> (agent_error + unit)" where
  "compact_now R task0 s =
     (let (context1, est) = apply_microcompact_context (ru_json R) (microcompact_keep (ru_lower R) (ru_provider R))
                              (rs_context s);
          s1 = s\<lparr>rs_context := context1\<rparr> in
      if 0 < est then run_ev R task0 s1 (MicrocompactEstimate est) else (s1, Inr ()))"

definition trim_now ::
    "('c, 'p) run_env \<Rightarrow> string \<Rightarrow> 'c run_state \<Rightarrow> chat_message list \<Rightarrow> 'c run_state \<times> (agent_error + chat_message list)" where
  "trim_now R task0 s ms =
     (let trimmed = trim_messages_for_model (ru_lower R) (ru_model R) ms in
      if looks_like_ollama_model (ru_lower R) (ru_model R) \<and> length trimmed < length ms
      then st_bind (run_ev R task0 s
             (StatusInfo ''Trimmed Ollama context to system + last 6 messages for faster first token.''))
             (\<lambda>s1 _. (s1, Inr trimmed))
      else (s, Inr trimmed))"

definition ask_model ::
    "('c, 'p) run_env \<Rightarrow> string \<Rightarrow> u32 \<Rightarrow> bool \<Rightarrow> 'c run_state \<Rightarrow> chat_message list
     \<Rightarrow> 'c run_state \<times> (agent_error + run_next)" where
  "ask_model R task0 iteration committed s ms =
     (let names = map ti_name (tools_for_model_id (ru_lower R) (ru_model R) (de_tools (ru_dispatch R)));
          s1 = s\<lparr>rs_calls := Suc (rs_calls s)\<rparr> in
      case ru_complete R (rs_calls s) names ms of
        Inl e \<Rightarrow> give_up R task0 s1 e Finished
      | Inr stream \<Rightarrow> consume_stream R task0 iteration committed s1 [] stream)"

definition run_iteration ::
    "('c, 'p) run_env \<Rightarrow> string \<Rightarrow> 'c run_state \<Rightarrow> u32 \<Rightarrow> bool \<Rightarrow> 'c run_state \<times> (agent_error + run_next)" where
  "run_iteration R task0 s0 iteration committed =
     st_bind (s0, check_iteration_limit iteration (as_config (agent_of s0))) (\<lambda>s _.
     if budget_stop R s then
       st_bind (run_ev R task0 s (StatusInfo (''Headless budget limit reached '' @ EM_DASH
           @ '' stopping before another model call.''))) (\<lambda>s1 _.
       st_bind (run_ev R task0 s1 Done) (\<lambda>s2 _.
       (record_run_finished_success (s2\<lparr>rs_exit := BudgetLimit\<rparr>), Inr Finished)))
     else
       st_bind (compact_now R task0 s) (\<lambda>s1 _.
       st_bind (if state_of s1 = Idle
                then run_ev R task0 s1 (IterationStarted (saturating_add32 iteration 1)
                       (ac_max_iterations (as_config (agent_of s1))))
                else (s1, Inr ())) (\<lambda>s2 _.
       let (s3, ms) = compose_now R task0 s2 committed in
       st_bind (shorten R task0 committed 8 s3 ms) (\<lambda>s4 ms4.
       st_bind (trim_now R task0 s4 ms4) (\<lambda>s5 ms5.
       ask_model R task0 iteration committed s5 ms5)))))"

text \<open>The loop with fuel: \<open>None\<close> means that the fuel ran out.\<close>

fun run_loop ::
    "nat \<Rightarrow> ('c, 'p) run_env \<Rightarrow> string \<Rightarrow> 'c run_state \<Rightarrow> u32 \<Rightarrow> bool \<Rightarrow> ('c run_state \<times> (agent_error + unit)) option" where
  "run_loop 0 R task0 s iteration committed = None"
| "run_loop (Suc fuel) R task0 s iteration committed =
     (case state_of s of
        Complete \<Rightarrow> Some (s, Inr ())
      | Failed err _ \<Rightarrow> Some (s, Inl err)
      | _ \<Rightarrow>
          (case run_iteration R task0 s iteration committed of
             (s1, Inl e) \<Rightarrow> Some (s1, Inl e)
           | (s1, Inr Finished) \<Rightarrow> Some (s1, Inr ())
           | (s1, Inr (Again iteration1 committed1)) \<Rightarrow> run_loop fuel R task0 s1 iteration1 committed1))"

text \<open>The fuel covers every run: an iteration is left at most three times by a continuation.\<close>

definition run_fuel :: "'c run_state \<Rightarrow> nat" where
  "run_fuel s = 4 * unat (ac_max_iterations (as_config (agent_of s))) + 1"

definition agent_run ::
    "('c, 'p) run_env \<Rightarrow> 'c run_state \<Rightarrow> string \<Rightarrow> ('c run_state \<times> (agent_error + unit)) option" where
  "agent_run R s0 task0 =
     (case prepare_turn R s0 of
        (s, Inl e) \<Rightarrow> Some (s, Inl e)
      | (s, Inr _) \<Rightarrow>
          if state_of s \<noteq> Idle then Some (s, Inl (SessionFailed ''AgentSession::run expected Idle state after prepare''))
          else
            (case ru_user_turn R task0 of
               Inl e \<Rightarrow> Some (s, Inl e)
             | Inr _ \<Rightarrow>
                 run_loop (run_fuel s) R task0 (s\<lparr>rs_user_turns := rs_user_turns s @ [task0]\<rparr>) 0 False))"

section \<open>The evidence of a run\<close>

record policy_summary =
  pq_allow :: u64
  pq_deny :: u64
  pq_prompted :: u64
  pq_samples :: "string list"

definition permission_kind :: "permission \<Rightarrow> string" where
  "permission_kind p =
     (case p of
        ReadFile _ \<Rightarrow> ''read_file''
      | ListDirectory _ \<Rightarrow> ''list_directory''
      | WriteFile _ \<Rightarrow> ''write_file''
      | ExecuteCommand _ _ \<Rightarrow> ''execute_command''
      | NetworkFetch _ \<Rightarrow> ''network_fetch'')"

definition was_prompted :: "string \<Rightarrow> bool" where
  "was_prompted reason =
     (let lowered = to_ascii_lowercase reason in
      str_contains ''interactive'' lowered \<or> str_contains ''user approved'' lowered
      \<or> str_contains ''user denied'' lowered)"

definition note_decision :: "policy_summary \<Rightarrow> audit_event \<Rightarrow> policy_summary" where
  "note_decision q ev =
     (case ev of
        AuditPolicyEvaluation _ _ permission verdict reason _ _ _ \<Rightarrow>
          q\<lparr>pq_allow := (if verdict = Allow then saturating_add64 (pq_allow q) 1 else pq_allow q),
            pq_deny := (if verdict = Deny then saturating_add64 (pq_deny q) 1 else pq_deny q),
            pq_prompted := (if was_prompted reason then saturating_add64 (pq_prompted q) 1 else pq_prompted q),
            pq_samples := (if length (pq_samples q) < 20
              then pq_samples q @ [(case verdict of Allow \<Rightarrow> ''allow'' | Deny \<Rightarrow> ''deny'') @ '':''
                     @ permission_kind permission @ '':'' @ reason]
              else pq_samples q)\<rparr>
      | _ \<Rightarrow> q)"

definition summarize_policy_decisions :: "audit_event list \<Rightarrow> policy_summary" where
  "summarize_policy_decisions audit =
     foldl note_decision \<lparr>pq_allow = 0, pq_deny = 0, pq_prompted = 0, pq_samples = []\<rparr> audit"

end
