(* ===== verification/Context_Properties.thy ===== *)
theory Context_Properties
  imports Context_Window "HOL-Library.Sublist"
begin

text \<open>What shortening the transcript keeps: the fold of a summary, the fraction dropped when no summary
  could be made, the rows an Ollama model is shown, and the clearing of old tool results.\<close>

section \<open>Splitting and folding\<close>

lemma takeWhile_length: "takeWhile p xs = take (length (takeWhile p xs)) xs"
  by (rule takeWhile_eq_take)

lemma dropWhile_drop: "dropWhile p xs = drop (length (takeWhile p xs)) xs"
  by (rule dropWhile_eq_drop)

lemma to_summarize_spec:
  assumes "messages_to_summarize C ms = (to_s, keep)" "to_s \<noteq> []"
  shows "drop (cm_fixed_system_messages C) ms
           = takeWhile is_system (drop (cm_fixed_system_messages C) ms) @ to_s @ keep"
    and "length keep = cm_keep_recent C"
proof -
  let ?b = "drop (cm_fixed_system_messages C) ms"
  have b: "drop (min (cm_fixed_system_messages C) (length ms)) ms = ?b" by (simp add: min_def)
  from assms have "to_s @ keep = dropWhile is_system ?b" "length keep = cm_keep_recent C"
    unfolding messages_to_summarize_def b Let_def by (auto split: if_splits)
  then show "?b = takeWhile is_system ?b @ to_s @ keep" "length keep = cm_keep_recent C"
    using takeWhile_dropWhile_id [of is_system ?b] by simp_all
qed

lemma fold_at_head:
  assumes "drop (cm_fixed_system_messages C) head = context0"
    and "messages_to_summarize C head = (to_s, keep)" "to_s \<noteq> []"
  shows "apply_folded_summary C context0 to_s head summary
           = Inr (takeWhile is_system context0 @ [summary] @ keep)"
proof -
  let ?j = "length (takeWhile is_system context0)"
  have m: "drop (min (cm_fixed_system_messages C) (length head)) head = context0"
    using assms(1) by (auto simp: min_def)
  have split: "context0 = takeWhile is_system context0 @ to_s @ keep"
    using to_summarize_spec(1) [OF assms(2,3)] assms(1) by simp
  have "take (length to_s) (drop ?j context0) = to_s"
    by (subst split) (simp add: takeWhile_tail)
  moreover have "drop (?j + length to_s) context0 = keep"
    by (subst split) simp
  moreover have "take ?j context0 = takeWhile is_system context0" by (rule takeWhile_eq_take [symmetric])
  moreover have "\<not> length context0 < ?j + length to_s" using arg_cong [OF split, of length] by simp
  ultimately show ?thesis unfolding apply_folded_summary_def m Let_def by simp
qed

lemma fold_needs_fixed_rows:
  assumes "length rows \<noteq> cm_fixed_system_messages C" "cm_fixed_system_messages C \<le> length rows + length context0"
  shows "apply_folded_summary C context0 to_s (rows @ context0) summary = Inl ''summary fold: context length mismatch''"
proof -
  have "length (drop (min (cm_fixed_system_messages C) (length (rows @ context0))) (rows @ context0)) \<noteq> length context0"
    using assms by simp
  then show ?thesis unfolding apply_folded_summary_def Let_def by simp
qed

text \<open>The prompt of a session that is not a subagent is its system rows, the transcript and, before the
  user line is committed, the user's row; the summarisation pass looks at the part without that row.\<close>

lemma compose_head:
  assumes "\<not> pt_subagent P"
  shows "(if committed then compose_model_messages lc model P context0 t committed
          else butlast (compose_model_messages lc model P context0 t committed))
         = system_rows lc model P @ context0"
  using assms by (simp add: compose_model_messages_def butlast_append)

definition prompt_head :: "(string \<Rightarrow> string) \<Rightarrow> string \<Rightarrow> prompt_texts \<Rightarrow> chat_message list \<Rightarrow> chat_message list" where
  "prompt_head lc model P context0 = butlast (compose_model_messages lc model P context0 [] False)"

text \<open>When the system rows of the prompt are exactly the fixed rows the context manager counts, the
  fold of a summary succeeds: the transcript becomes its leading system rows, the summary and the rows
  that were kept, which are its last ten.\<close>

theorem folded_summary_keeps_recent:
  assumes "\<not> pt_subagent P"
    and "length (system_rows lc model P) = cm_fixed_system_messages C"
    and "messages_to_summarize C (prompt_head lc model P context0) = (to_s, keep)" "to_s \<noteq> []"
  shows "apply_folded_summary C context0 to_s (prompt_head lc model P context0) summary
           = Inr (takeWhile is_system context0 @ [summary] @ keep)
         \<and> context0 = takeWhile is_system context0 @ to_s @ keep \<and> length keep = cm_keep_recent C"
proof -
  have h: "prompt_head lc model P context0 = system_rows lc model P @ context0"
    using compose_head [OF assms(1), where committed = False] by (simp add: prompt_head_def)
  then have d: "drop (cm_fixed_system_messages C) (prompt_head lc model P context0) = context0"
    using assms(2) by simp
  then show ?thesis using fold_at_head [OF d assms(3,4)] to_summarize_spec [OF assms(3,4)] by simp
qed

text \<open>The session counts two fixed rows when there is an \<open>AKMON.md\<close> and one otherwise, but a prompt
  has a system row more for every visible block of specifications, handoff notes, tasks or memories and
  for the language rules. With any of them the fold of every summary is rejected.\<close>

definition has_extra_rows :: "(string \<Rightarrow> string) \<Rightarrow> string \<Rightarrow> prompt_texts \<Rightarrow> bool" where
  "has_extra_rows lc model P =
     (list_ex visible_block (opt_list (pt_specs P) @ opt_list (pt_handoff P) @ pt_extras P)
      \<or> (\<not> looks_like_ollama_model lc model \<and> pt_language_rules P \<noteq> None))"

lemma fold_rejected_with_extra_rows:
  assumes "\<not> pt_subagent P"
    and "has_extra_rows lc model P"
    and "C = new_context_manager window (pt_akmon_md P \<noteq> None)"
  shows "apply_folded_summary C context0 to_s (prompt_head lc model P context0) summary
           = Inl ''summary fold: context length mismatch''"
proof -
  let ?bs = "filter visible_block (opt_list (pt_specs P) @ opt_list (pt_handoff P) @ pt_extras P)"
  let ?ls = "if looks_like_ollama_model lc model then [] else map (msg RoleSystem) (opt_list (pt_language_rules P))"
  have h: "prompt_head lc model P context0 = system_rows lc model P @ context0"
    using compose_head [OF assms(1), where committed = False] by (simp add: prompt_head_def)
  have "?bs \<noteq> [] \<or> ?ls \<noteq> []"
    using assms(2) by (auto simp: has_extra_rows_def list_ex_iff filter_empty_conv opt_list_def split: option.splits)
  then have "0 < length ?bs + length ?ls" by (metis add_gr_0 length_greater_0_conv)
  moreover have "length (system_rows lc model P) = cm_fixed_system_messages C + length ?bs + length ?ls"
    using assms(3) by (simp add: system_rows_def new_context_manager_def opt_list_def split: option.splits)
  ultimately show ?thesis unfolding h by (intro fold_needs_fixed_rows) simp_all
qed

section \<open>Dropping rows\<close>

lemma drop_non_system_system: "filter is_system (drop_non_system n ms) = filter is_system ms"
  by (induction n ms rule: drop_non_system.induct) auto

lemma drop_non_system_zero [simp]: "drop_non_system 0 ms = ms"
  by (induction ms) auto

lemma drop_non_system_rest:
  "filter (\<lambda>m. \<not> is_system m) (drop_non_system n ms) = drop n (filter (\<lambda>m. \<not> is_system m) ms)"
  by (induction n ms rule: drop_non_system.induct) (auto simp: drop_Cons')

lemma drop_non_system_subseq: "subseq (drop_non_system n ms) ms"
  by (induction n ms rule: drop_non_system.induct) auto

text \<open>When no summary can be made, a fifth of the rows that are not system rows, rounded up, is
  dropped, the oldest first; the other rows stay in their order.\<close>

theorem trimming_drops_oldest_fifth:
  shows "subseq (trim_oldest_non_system_fraction ms) ms"
    and "filter is_system (trim_oldest_non_system_fraction ms) = filter is_system ms"
    and "filter (\<lambda>m. \<not> is_system m) (trim_oldest_non_system_fraction ms)
           = drop ((length (filter (\<lambda>m. \<not> is_system m) ms) + 4) div 5) (filter (\<lambda>m. \<not> is_system m) ms)"
  by (simp_all add: trim_oldest_non_system_fraction_def fifth_rounded_up_def drop_non_system_subseq
      drop_non_system_system drop_non_system_rest)

section \<open>Old tool results\<close>

lemma clear_message_role [simp]: "ms_role (fst (clear_message J m)) = ms_role m"
  by (simp add: clear_message_def Let_def split: option.split)

lemma clear_message_cases:
  "fst (clear_message J m) = m \<or>
   (\<exists>v name. ms_role m = RoleTool \<and> jt_parse J (ms_content m) = Some v \<and> json_str ''tool_name'' v = Some name
      \<and> \<not> never_clear_tool name \<and> (name = ''shell'' \<or> clearable_explore_tool name)
      \<and> fst (clear_message J m) = m\<lparr>ms_content := jt_print J (json_replace ''output'' cleared_output v)\<rparr>)"
  by (auto simp: clear_message_def clearable_def Let_def split: option.split)

lemma never_clear_disjoint: "never_clear_tool name \<Longrightarrow> name \<noteq> ''shell'' \<and> \<not> clearable_explore_tool name"
  by (auto simp: never_clear_tool_def clearable_explore_tool_def)

lemma microcompact_nth:
  assumes "apply_microcompact_context J keep ms = (ms', est)"
  shows "length ms' = length ms"
    and "i < length ms \<Longrightarrow> ms' ! i = ms ! i \<or>
           (i < length ms - keep \<and> ms' ! i = fst (clear_message J (ms ! i)))"
proof -
  let ?k = "length (takeWhile is_system ms)"
  let ?n = "length ms - ?k - keep"
  have k: "?k \<le> length ms" by (rule length_takeWhile_le)
  consider "ms' = ms" | "keep < length ms - ?k"
      "ms' = take ?k ms @ map (\<lambda>m. fst (clear_message J m)) (take ?n (drop ?k ms)) @ drop ?n (drop ?k ms)"
    using assms unfolding apply_microcompact_context_def Let_def
    by (auto simp: o_def split: if_splits)
  then have "length ms' = length ms \<and> (i < length ms \<longrightarrow> ms' ! i = ms ! i \<or>
           (i < length ms - keep \<and> ms' ! i = fst (clear_message J (ms ! i))))"
  proof cases
    case 2
    have "ms' ! i = ms ! i \<or> (i < length ms - keep \<and> ms' ! i = fst (clear_message J (ms ! i)))"
      if i: "i < length ms"
    proof -
      consider "i < ?k" | "?k \<le> i" "i < ?k + ?n" | "?k + ?n \<le> i" by linarith
      then show ?thesis
      proof cases
        case 1 then show ?thesis using 2 k by (simp add: nth_append)
      next
        case 2
        then have "i - ?k < ?n" "?k + (i - ?k) = i" by simp_all
        then show ?thesis using \<open>ms' = _\<close> k 2 \<open>keep < _\<close> by (simp add: nth_append)
      next
        case 3
        have "?n + (i - (?k + ?n)) + ?k = i" using 3 by simp
        then show ?thesis using \<open>ms' = _\<close> k 3 i \<open>keep < _\<close> by (simp add: nth_append add.commute add.left_commute)
      qed
    qed
    then show ?thesis using 2 k by simp
  qed simp
  then show "length ms' = length ms"
    "i < length ms \<Longrightarrow> ms' ! i = ms ! i \<or> (i < length ms - keep \<and> ms' ! i = fst (clear_message J (ms ! i)))"
    by simp_all
qed

text \<open>C24: Clearing old tool results changes a row only if it is a tool result of an exploring tool or of
  the shell, lies before the last rows that are kept, and then only replaces the output of the result:
  rows are neither removed nor reordered, and no result of a file-changing tool is touched.\<close>

theorem microcompaction_is_confined:
  assumes "apply_microcompact_context J keep ms = (ms', est)" "i < length ms"
  shows "length ms' = length ms
         \<and> (ms' ! i = ms ! i
            \<or> i < length ms - keep \<and> ms_role (ms ! i) = RoleTool \<and>
              (\<exists>v name. jt_parse J (ms_content (ms ! i)) = Some v \<and> json_str ''tool_name'' v = Some name
                 \<and> (name = ''shell'' \<or> clearable_explore_tool name) \<and> \<not> never_clear_tool name
                 \<and> ms' ! i = (ms ! i)\<lparr>ms_content := jt_print J (json_replace ''output'' cleared_output v)\<rparr>))"
  using microcompact_nth(1) [OF assms(1)] microcompact_nth(2) [OF assms] clear_message_cases [of J "ms ! i"]
  by auto

section \<open>The last cut\<close>

text \<open>What an Ollama model is shown ends with the newest row and has at most seven rows.\<close>

lemma ollama_cut_length:
  "looks_like_ollama_model lc model \<Longrightarrow> length (trim_messages_for_model lc model ms) \<le> 7"
  by (simp add: trim_messages_for_model_def take_last_def opt_list_def split: option.split) linarith

lemma other_models_uncut: "\<not> looks_like_ollama_model lc model \<Longrightarrow> trim_messages_for_model lc model ms = ms"
  by (simp add: trim_messages_for_model_def context_limit_for_model_def)

end
