(* ===== verification/Run_Properties.thy ===== *)
theory Run_Properties
  imports Agent_Run Dispatch_Properties Context_Properties
begin

text \<open>What a run of the agent guarantees: it ends, it asks the model a bounded number of times, a
  successful run leaves a session that accepts the next turn, every requested call is answered in the
  transcript, and which errors leave the session blocked.\<close>

section \<open>Sequencing\<close>

lemma st_bind_keeps:
  assumes "P (fst r)" "\<And>s y. P s \<Longrightarrow> P (fst (k s y))"
  shows "P (fst (st_bind r k))"
  using assms by (cases r; cases "snd r") auto

lemma st_bind_split:
  assumes "P (fst r)" "\<And>s. P s \<Longrightarrow> Q s" "\<And>s y. P s \<Longrightarrow> Q (fst (k s y))"
  shows "Q (fst (st_bind r k))"
  using assms by (cases r; cases "snd r") auto

lemma run_ev_frame:
  assumes "run_ev R t s ev = (s', r)"
  shows "\<exists>d. s' = s\<lparr>rs_dispatch := d\<rparr> \<and> config_of d = config_of (rs_dispatch s)"
proof -
  obtain d r' where d: "apply_ev (env_for R t) (rs_dispatch s) ev = (d, r')"
    by (cases "apply_ev (env_for R t) (rs_dispatch s) ev")
  with assms apply_ev_extends [OF d] show ?thesis by (auto simp: run_ev_def extends_def)
qed

definition steady :: "'c run_state \<Rightarrow> 'c run_state \<Rightarrow> bool" where
  "steady s s' \<longleftrightarrow> config_of (rs_dispatch s') = config_of (rs_dispatch s)
     \<and> rs_continuation_count s' = rs_continuation_count s"

lemma steady_refl [simp, intro]: "steady s s"
  by (simp add: steady_def)

lemma steady_trans: "steady s s' \<Longrightarrow> steady s' s'' \<Longrightarrow> steady s s''"
  by (simp add: steady_def)

lemma run_ev_steady: "run_ev R t s ev = (s', r) \<Longrightarrow> steady s s'"
  using run_ev_frame [of R t s ev s' r] by (auto simp: steady_def)

lemma run_ev_calls [simp]: "rs_calls (fst (run_ev R t s ev)) = rs_calls s"
  by (simp add: run_ev_def split_beta)

lemma steady_simps [simp]:
  "steady s (push_message m s') = steady s s'"
  "steady s (commit_user_line c t s') = steady s s'"
  "steady s (warn_emit_assistant_turn a b s') = steady s s'"
  "steady s (record_retry_attempt s') = steady s s'"
  "steady s (s'\<lparr>rs_result_text := x\<rparr>) = steady s s'"
  "steady s (s'\<lparr>rs_context := y\<rparr>) = steady s s'"
  "steady s (s'\<lparr>rs_reads := z\<rparr>) = steady s s'"
  "steady s (s'\<lparr>rs_calls := n\<rparr>) = steady s s'"
  by (simp_all add: steady_def push_message_def commit_user_line_def warn_emit_assistant_turn_def
      record_retry_attempt_def)

lemma steady_left [simp]:
  "steady (push_message m s) s' = steady s s'"
  "steady (commit_user_line c t s) s' = steady s s'"
  "steady (record_retry_attempt s) s' = steady s s'"
  "steady (s\<lparr>rs_result_text := x\<rparr>) s' = steady s s'"
  "steady (s\<lparr>rs_context := y\<rparr>) s' = steady s s'"
  by (simp_all add: steady_def push_message_def commit_user_line_def record_retry_attempt_def)

lemma calls_simps [simp]:
  "rs_calls (push_message m s) = rs_calls s" "rs_calls (commit_user_line c t s) = rs_calls s"
  "rs_calls (warn_emit_assistant_turn a b s) = rs_calls s" "rs_calls (record_retry_attempt s) = rs_calls s"
  "rs_calls (record_run_finished_success s) = rs_calls s" "rs_calls (finish_run R s) = rs_calls s"
  "rs_calls (set_agent g s) = rs_calls s" "rs_calls (abort_summary s) = rs_calls s"
  "rs_calls (record_timeout_if_model_error e s) = rs_calls s"
  by (simp_all add: push_message_def commit_user_line_def warn_emit_assistant_turn_def record_retry_attempt_def
      record_run_finished_success_def finish_run_def set_agent_def abort_summary_def record_timeout_if_model_error_def Let_def)

section \<open>Calls of the model\<close>

lemma handle_error_calls [simp]: "rs_calls (fst (handle_model_error_for_run R t s e)) = rs_calls s"
  unfolding handle_model_error_for_run_def Let_def
  by (simp split: if_split) (intro conjI impI st_bind_keeps [where P = "\<lambda>x. rs_calls x = rs_calls s"]; simp)

lemma give_up_calls [simp]: "rs_calls (fst (give_up R t s e q)) = rs_calls s"
  unfolding give_up_def
  by (rule st_bind_keeps [where P = "\<lambda>x. rs_calls x = rs_calls s"]) (simp_all split: option.split)

lemma give_up_Inr: "give_up R t s e q \<noteq> (s', Inr x)"
  by (auto simp: give_up_def st_bind_Inr_iff handle_model_error_for_run_def Let_def split: if_splits)

lemma dispatch_batch_calls [simp]: "rs_calls (fst (dispatch_batch R t s calls)) = rs_calls s"
  by (simp add: dispatch_batch_def split_beta Let_def)

lemma run_tool_calls_calls [simp]: "rs_calls (fst (run_tool_calls R t s c acc calls)) = rs_calls s"
  unfolding run_tool_calls_def Let_def
  by (rule st_bind_keeps [where P = "\<lambda>x. rs_calls x = rs_calls s"]) simp_all

lemma after_tools_calls [simp]: "rs_calls (fst (after_tools R t s it)) = rs_calls s"
  by (simp add: after_tools_def st_bind_keeps [where P = "\<lambda>x. rs_calls x = rs_calls s"])

lemma on_max_tokens_calls [simp]: "rs_calls (fst (on_max_tokens R t s it c acc calls)) = rs_calls s"
  unfolding on_max_tokens_def Let_def
  by (simp split: if_split) (intro conjI impI st_bind_keeps [where P = "\<lambda>x. rs_calls x = rs_calls s"]; simp)

lemma on_end_turn_calls [simp]: "rs_calls (fst (on_end_turn R t s it c acc calls)) = rs_calls s"
  unfolding on_end_turn_def Let_def
  by (simp split: if_split) (intro conjI impI st_bind_keeps [where P = "\<lambda>x. rs_calls x = rs_calls s"]; simp)

lemma on_tool_use_calls [simp]: "rs_calls (fst (on_tool_use R t s it c acc calls)) = rs_calls s"
  unfolding on_tool_use_def Let_def
  by (simp split: if_split) (intro conjI impI st_bind_keeps [where P = "\<lambda>x. rs_calls x = rs_calls s"]; simp)

lemma on_done_calls [simp]: "rs_calls (fst (on_done R t s it c acc stop calls)) = rs_calls s"
  unfolding on_done_def
  by (rule st_bind_keeps [where P = "\<lambda>x. rs_calls x = rs_calls s"]) (simp_all split: agent_state.split stop_reason.split)

lemma consume_stream_calls [simp]: "rs_calls (fst (consume_stream R t it c s acc stream)) = rs_calls s"
proof (induction R t it c s acc stream rule: consume_stream.induct)
  case (1 R t it c s acc)
  show ?case
    by (simp add: Let_def split: agent_state.split)
      (auto intro!: st_bind_keeps [where P = "\<lambda>x. rs_calls x = rs_calls s"])
next
  case (3 R t it c s acc ev rest)
  show ?case
    by (cases ev)
      (auto intro!: st_bind_keeps [where P = "\<lambda>x. rs_calls x = rs_calls s"] simp: 3)
qed simp

lemma pass_calls: "rs_calls (fst (run_context_summarization_pass R t s ms c)) \<le> Suc (rs_calls s)"
proof -
  have f: "rs_calls (fst (finish_summary R t s2 to_s head sm)) = rs_calls s2" for s2 to_s head sm
    by (simp add: finish_summary_def split: sum.split)
  show ?thesis
    unfolding run_context_summarization_pass_def Let_def
    by (simp split: if_split)
      (auto intro!: st_bind_split [where P = "\<lambda>x. rs_calls x = rs_calls s" and Q = "\<lambda>x. rs_calls x \<le> Suc (rs_calls s)"]
        simp: f split_beta split: sum.split summary_result.split)
qed

lemma shorten_calls: "rs_calls (fst (shorten R t c n s ms)) \<le> rs_calls s + n"
proof (induction n arbitrary: s ms)
  case (Suc n)
  have k: "rs_calls (fst (let (s2, ms2) = compose_now R t s1 c in shorten R t c n s2 ms2)) \<le> rs_calls s + Suc n"
    if "rs_calls s1 \<le> Suc (rs_calls s)" for s1
    using that Suc.IH [of "fst (compose_now R t s1 c)" "snd (compose_now R t s1 c)"]
    by (simp add: split_beta Let_def) (simp add: compose_now_def)
  show ?case
    by (simp split: if_split)
      (rule impI, rule st_bind_split [where P = "\<lambda>x. rs_calls x \<le> Suc (rs_calls s)"], rule pass_calls, use k in auto)
qed simp

lemma compact_now_calls [simp]: "rs_calls (fst (compact_now R t s)) = rs_calls s"
  by (simp add: compact_now_def split_beta Let_def)

lemma trim_now_calls [simp]: "rs_calls (fst (trim_now R t s ms)) = rs_calls s"
  unfolding trim_now_def Let_def
  by (simp split: if_split) (intro impI st_bind_keeps [where P = "\<lambda>x. rs_calls x = rs_calls s"]; simp)

lemma ask_model_calls: "rs_calls (fst (ask_model R t it c s ms)) = Suc (rs_calls s)"
  by (simp add: ask_model_def Let_def split: sum.split)

lemma run_iteration_calls: "rs_calls (fst (run_iteration R t s it c)) \<le> rs_calls s + 9"
proof -
  let ?E = "\<lambda>x. rs_calls x = rs_calls s" and ?L = "\<lambda>n x. rs_calls x \<le> rs_calls s + n"
  have fin: "?L 9 (fst (st_bind (run_ev R t s1 Done) (\<lambda>s2 _.
       (record_run_finished_success (s2\<lparr>rs_exit := BudgetLimit\<rparr>), Inr Finished))))" if "?E s1" for s1
    by (rule st_bind_split [where P = ?E]) (use that in simp_all)
  have stop: "?L 9 (fst (st_bind (run_ev R t s1 e) (\<lambda>s1 _. st_bind (run_ev R t s1 Done) (\<lambda>s2 _.
       (record_run_finished_success (s2\<lparr>rs_exit := BudgetLimit\<rparr>), Inr Finished)))))"
    if "?E s1" for s1 e
    by (rule st_bind_split [where P = ?E]) (use that fin in simp_all)
  have "?L 9 (fst (ask_model R t it c s5 ms5))" if "?L 8 s5" for s5 ms5
    using that ask_model_calls [of R t it c s5 ms5] by simp
  then have "?L 9 (fst (st_bind (trim_now R t s4 ms4) (\<lambda>s5 ms5. ask_model R t it c s5 ms5)))" if "?L 8 s4" for s4 ms4
    by (rule st_bind_split [where P = "?L 8", rotated 2]) (use that in auto)
  then have "?L 9 (fst (st_bind (shorten R t c 8 s3 ms) (\<lambda>s4 ms4.
       st_bind (trim_now R t s4 ms4) (\<lambda>s5 ms5. ask_model R t it c s5 ms5))))" if "?E s3" for s3 ms
    by (rule st_bind_split [where P = "?L 8", rotated 2])
      (use that shorten_calls [of R t c 8 s3 ms] in auto)
  then have go: "?L 9 (fst (let (s3, ms) = compose_now R t s2 c in st_bind (shorten R t c 8 s3 ms) (\<lambda>s4 ms4.
       st_bind (trim_now R t s4 ms4) (\<lambda>s5 ms5. ask_model R t it c s5 ms5))))" if "?E s2" for s2
    using that by (simp add: compose_now_def)
  let ?go = "\<lambda>s2. let (s3, ms) = compose_now R t s2 c in st_bind (shorten R t c 8 s3 ms) (\<lambda>s4 ms4.
       st_bind (trim_now R t s4 ms4) (\<lambda>s5 ms5. ask_model R t it c s5 ms5))"
  have start: "?L 9 (fst (st_bind (if b then run_ev R t s1 e else (s1, Inr ())) (\<lambda>s2 _. ?go s2)))" if "?E s1" for s1 e b
    by (rule st_bind_split [where P = ?E]) (use that go in \<open>simp_all split: if_split\<close>)
  have ask: "?L 9 (fst (st_bind (compact_now R t s1) (\<lambda>s1 _.
       st_bind (if state_of s1 = Idle
                then run_ev R t s1 (IterationStarted (saturating_add32 it 1)
                       (ac_max_iterations (as_config (agent_of s1))))
                else (s1, Inr ())) (\<lambda>s2 _. ?go s2))))" if "?E s1" for s1
    by (rule st_bind_split [where P = ?E]) (use that start in simp_all)
  show ?thesis
    unfolding run_iteration_def
  proof (rule st_bind_split [where P = ?E])
    fix s1 :: "'a run_state" and y :: unit
    assume e: "rs_calls s1 = rs_calls s"
    show "?L 9 (fst (if budget_stop R s1
        then st_bind (run_ev R t s1 (StatusInfo (''Headless budget limit reached '' @ EM_DASH
               @ '' stopping before another model call.''))) (\<lambda>s1 _.
             st_bind (run_ev R t s1 Done) (\<lambda>s2 _.
             (record_run_finished_success (s2\<lparr>rs_exit := BudgetLimit\<rparr>), Inr Finished)))
        else st_bind (compact_now R t s1) (\<lambda>s1 _.
             st_bind (if state_of s1 = Idle
                then run_ev R t s1 (IterationStarted (saturating_add32 it 1)
                       (ac_max_iterations (as_config (agent_of s1))))
                else (s1, Inr ())) (\<lambda>s2 _. ?go s2))))"
    proof (cases "budget_stop R s1")
      case True
      show ?thesis by (subst if_P [OF True]) (rule stop [OF e])
    next
      case False
      show ?thesis by (subst if_not_P [OF False]) (rule ask [OF e])
    qed
  qed simp_all
qed

section \<open>Progress\<close>

definition max_of :: "'c run_state \<Rightarrow> u32" where
  "max_of s = ac_max_iterations (as_config (agent_of s))"

lemma steady_max: "steady s s' \<Longrightarrow> max_of s' = max_of s"
  by (simp add: steady_def max_of_def agent_of_def config_of_def)

lemma abort_steady [simp]: "steady s (abort_summary s') = steady s s'"
  by (simp add: steady_def abort_summary_def set_agent_def agent_of_def config_of_def
      restore_state_after_summarization_abort_def Let_def split: option.split)

lemma begin_config:
  "begin_summarization cost t1 t2 t g = (g', r) \<Longrightarrow> as_config g' = as_config g"
  using apply_event_log by (fastforce simp: begin_summarization_def split: agent_state.splits)

lemma finish_summary_steady: "finish_summary R t s to_s head sm = (s', Inr u) \<Longrightarrow> steady s s'"
proof (cases "apply_folded_summary (ru_manager R) (rs_context s) to_s head (summary_row sm)")
  case (Inr context1)
  assume "finish_summary R t s to_s head sm = (s', Inr u)"
  with Inr obtain m where "run_ev R t (s\<lparr>rs_context := context1\<rparr>) m = (s', Inr u)" by (auto simp: finish_summary_def)
  from run_ev_steady [OF this] show ?thesis by simp
qed (auto simp: finish_summary_def)

lemma pass_steady:
  assumes "run_context_summarization_pass R t s ms c = (s', Inr u)"
  shows "steady s s'"
proof (cases "fst (messages_to_summarize (ru_manager R) (if c then ms else butlast ms)) = []")
  case True
  with assms show ?thesis by (auto simp: run_context_summarization_pass_def Let_def)
next
  case False
  let ?h = "if c then ms else butlast ms"
  let ?to = "fst (messages_to_summarize (ru_manager R) ?h)"
  obtain g r where b: "begin_summarization (de_cost (env_for R t)) (now_of (env_for R t) (rs_dispatch s) 0)
      (now_of (env_for R t) (rs_dispatch s) 1) t (agent_of s) = (g, r)"
    by fastforce
  let ?s1 = "set_agent g s"
  let ?s2 = "?s1\<lparr>rs_calls := Suc (rs_calls ?s1)\<rparr>"
  have st: "steady s ?s1"
    using begin_config [OF b] by (simp add: steady_def set_agent_def config_of_def agent_of_def)
  have f: "steady s x" if "finish_summary R t ?s2 ?to ?h sm = (x, Inr v)" for x v sm
  proof -
    have "steady s ?s2" using st by simp
    then show ?thesis using finish_summary_steady [OF that] by (rule steady_trans)
  qed
  from assms False b have "(case ru_complete R (rs_calls ?s1) [] (summary_instruction # ?to) of
          Inl e \<Rightarrow> if is_rate_limited e then give_up R t ?s2 e () else (abort_summary ?s2, Inr ())
        | Inr stream \<Rightarrow>
            (case read_summary stream [] of
               SummaryRateLimited e \<Rightarrow> give_up R t ?s2 e ()
             | SummaryAborted \<Rightarrow> (abort_summary ?s2, Inr ())
             | SummaryText summary \<Rightarrow> finish_summary R t ?s2 ?to ?h summary)) = (s', Inr u)"
    by (auto simp: run_context_summarization_pass_def Let_def st_bind_Inr_iff)
  with st f show ?thesis
    by (auto simp: give_up_Inr split: sum.splits summary_result.splits if_splits)
qed

lemma shorten_steady: "shorten R t c n s ms = (s', Inr ms') \<Longrightarrow> steady s s'"
proof (induction n arbitrary: s ms)
  case (Suc n)
  show ?case
  proof (cases "needs_summarization (ru_estimate R) (ru_manager R) ms")
    case True
    with Suc.prems obtain s1 u where p: "run_context_summarization_pass R t s ms c = (s1, Inr u)"
      and r: "shorten R t c n (fst (compose_now R t s1 c)) (snd (compose_now R t s1 c)) = (s', Inr ms')"
      by (auto simp: st_bind_Inr_iff Let_def split_beta)
    have "steady s1 (fst (compose_now R t s1 c))" by (simp add: compose_now_def)
    from steady_trans [OF this Suc.IH [OF r]] show ?thesis
      by (rule steady_trans [OF pass_steady [OF p]])
  qed (use Suc.prems in simp)
qed simp

lemma dispatch_batch_steady: "dispatch_batch R t s calls = (s', Inr u) \<Longrightarrow> steady s s'"
  using batch_config by (fastforce simp: dispatch_batch_def steady_def Let_def split_beta prod_eq_iff)

lemma run_tool_calls_steady: "run_tool_calls R t s c acc calls = (s', Inr u) \<Longrightarrow> steady s s'"
  using dispatch_batch_steady by (fastforce simp: run_tool_calls_def Let_def st_bind_Inr_iff)

text \<open>What an iteration that asks for another one leaves: the same iteration with one continuation more,
  or the next iteration.\<close>

definition progress :: "u32 \<Rightarrow> 'c run_state \<Rightarrow> u32 \<Rightarrow> 'c run_state \<Rightarrow> bool" where
  "progress it s it' s' \<longleftrightarrow>
     config_of (rs_dispatch s') = config_of (rs_dispatch s) \<and>
     (it' = it \<and> rs_continuation_count s < 3 \<and> rs_continuation_count s' = saturating_add32 (rs_continuation_count s) 1 \<or>
      it' = saturating_add32 it 1 \<and> rs_continuation_count s' \<in> {0, rs_continuation_count s})"

lemma progress_left: "steady s0 s \<Longrightarrow> progress it s it' s' \<Longrightarrow> progress it s0 it' s'"
  by (auto simp: progress_def steady_def)

lemma after_tools_again:
  "after_tools R t s it = (s', Inr (Again it' c')) \<Longrightarrow> s' = s \<and> it' = saturating_add32 it 1"
  by (auto simp: after_tools_def st_bind_Inr_iff split: if_splits)

lemma on_max_tokens_again:
  assumes "on_max_tokens R t s it c acc calls = (s', Inr (Again it' c'))"
  shows "progress it s it' s'"
proof (cases "calls = []")
  case False
  with assms obtain s1 u s2 v m where "run_tool_calls R t s c acc calls = (s1, Inr u)"
    "run_ev R t s1 m = (s2, Inr v)" "s' = record_retry_attempt s2" "it' = saturating_add32 it 1"
    by (auto simp: on_max_tokens_def st_bind_Inr_iff)
  then have "steady s s1" "steady s1 s2" by (auto intro: run_tool_calls_steady run_ev_steady)
  then have "steady s s'" using steady_trans \<open>s' = _\<close> by simp blast
  then show ?thesis using \<open>it' = _\<close> by (simp add: progress_def steady_def)
next
  case True
  define s1 where "s1 = record_retry_attempt (s\<lparr>rs_continuation_count := saturating_add32 (rs_continuation_count s) 1\<rparr>)"
  from assms True obtain s2 v m where r: "run_ev R t s1 m = (s2, Inr v)" "it' = it" "rs_continuation_count s < 3"
    "s' = push_message (msg RoleUser continue_text) (warn_emit_assistant_turn acc None
             (push_message (msg RoleAssistant acc) (commit_user_line c t s2)))"
    unfolding on_max_tokens_def s1_def [symmetric] Let_def by (auto simp: st_bind_Inr_iff split: if_splits)
  then have "steady s1 s'" using run_ev_steady by fastforce
  then show ?thesis using r by (simp add: progress_def steady_def s1_def record_retry_attempt_def)
qed

lemma tools_then_again:
  assumes "run_tool_calls R t (s\<lparr>rs_continuation_count := 0\<rparr>) c acc calls = (s1, Inr u)"
    "after_tools R t s1 it = (s', Inr (Again it' c'))"
  shows "progress it s it' s'"
  using run_tool_calls_steady [OF assms(1)] after_tools_again [OF assms(2)]
  by (simp add: progress_def steady_def)

lemma on_done_again:
  assumes "on_done R t s it c acc stop calls = (s', Inr (Again it' c'))"
  shows "progress it s it' s'"
proof -
  from assms obtain s1 u where s1: "(case state_of s of Planning _ _ \<Rightarrow> run_ev R t s (TextDelta []) | _ \<Rightarrow> (s, Inr ())) = (s1, Inr u)"
    and k: "(case stop of
       MaxTokens \<Rightarrow> on_max_tokens R t s1 it c acc calls
     | EndTurn \<Rightarrow> on_end_turn R t s1 it c acc calls
     | ToolUse \<Rightarrow> on_tool_use R t s1 it c acc calls) = (s', Inr (Again it' c'))"
    by (auto simp: on_done_def st_bind_Inr_iff)
  have "steady s s1" using s1 run_ev_steady by (auto split: agent_state.splits)
  moreover have "progress it s1 it' s'"
  proof (cases stop)
    case EndTurn
    with k tools_then_again [of R t s1 c acc calls] show ?thesis
      by (fastforce simp: on_end_turn_def Let_def st_bind_Inr_iff split: if_splits)
  next
    case MaxTokens
    with k on_max_tokens_again show ?thesis by fastforce
  next
    case ToolUse
    with k tools_then_again [of R t s1 c acc calls] show ?thesis
      by (fastforce simp: on_tool_use_def Let_def st_bind_Inr_iff split: if_splits)
  qed
  ultimately show ?thesis by (rule progress_left)
qed

lemma consume_stream_again:
  "consume_stream R t it c s acc stream = (s', Inr (Again it' c')) \<Longrightarrow> progress it s it' s'"
proof (induction R t it c s acc stream rule: consume_stream.induct)
  case (1 R t it c s acc)
  then show ?case by (auto simp: Let_def st_bind_Inr_iff split: agent_state.splits)
next
  case (2 R t it c s acc e rest)
  then show ?case by (simp add: give_up_Inr)
next
  case (3 R t it c s acc ev rest)
  have step: "progress it s it' s'" if "run_ev R t s2 e = (s1, Inr u)" "steady s s2" "progress it s1 it' s'" for s1 s2 e u
    using that run_ev_steady progress_left steady_trans by blast
  show ?case
  proof (cases ev)
    case (SeDone stop calls)
    with 3 on_done_again show ?thesis by fastforce
  qed (use 3 step in \<open>auto simp: st_bind_Inr_iff give_up_Inr\<close>)
qed

lemma ask_model_again:
  assumes "ask_model R t it c s ms = (s', Inr (Again it' c'))"
  shows "progress it s it' s'"
proof -
  let ?s1 = "s\<lparr>rs_calls := Suc (rs_calls s)\<rparr>"
  from assms obtain stream where "consume_stream R t it c ?s1 [] stream = (s', Inr (Again it' c'))"
    by (auto simp: ask_model_def Let_def give_up_Inr split: sum.splits)
  from progress_left [OF _ consume_stream_again [OF this]] show ?thesis by simp
qed

lemma compact_now_steady:
  assumes "compact_now R t s = (s', Inr u)"
  shows "steady s s'"
proof -
  obtain context1 est where m: "apply_microcompact_context (ru_json R) (microcompact_keep (ru_lower R) (ru_provider R))
      (rs_context s) = (context1, est)" by fastforce
  show ?thesis
  proof (cases "0 < est")
    case True
    with assms m have "run_ev R t (s\<lparr>rs_context := context1\<rparr>) (MicrocompactEstimate est) = (s', Inr u)"
      by (simp add: compact_now_def)
    from run_ev_steady [OF this] show ?thesis by simp
  qed (use assms m in \<open>auto simp: compact_now_def\<close>)
qed

lemma trim_now_steady: "trim_now R t s ms = (s', Inr ms') \<Longrightarrow> steady s s'"
  unfolding trim_now_def Let_def by (auto simp: st_bind_Inr_iff dest: run_ev_steady split: if_splits)

lemma run_iteration_again:
  assumes "run_iteration R t s it c = (s', Inr (Again it' c'))"
  shows "it < max_of s \<and> progress it s it' s'"
proof -
  from assms have b: "check_iteration_limit it (as_config (agent_of s)) = Inr ()" "\<not> budget_stop R s"
    by (auto simp: run_iteration_def st_bind_Inr_iff split: if_splits)
  with assms obtain s1 u1 s2 u2 s4 ms4 s5 ms5 where st:
      "compact_now R t s = (s1, Inr u1)"
      "(if state_of s1 = Idle
                then run_ev R t s1 (IterationStarted (saturating_add32 it 1)
                       (ac_max_iterations (as_config (agent_of s1))))
                else (s1, Inr ())) = (s2, Inr u2)"
      "shorten R t c 8 (fst (compose_now R t s2 c)) (snd (compose_now R t s2 c)) = (s4, Inr ms4)"
      "trim_now R t s4 ms4 = (s5, Inr ms5)"
      "ask_model R t it c s5 ms5 = (s', Inr (Again it' c'))"
    unfolding run_iteration_def split_beta Let_def by (auto simp only: st_bind_Inr_iff if_False prod.inject sum.inject)
  have "steady s s1" using compact_now_steady [OF st(1)] .
  moreover have "steady s1 s2" using st(2) run_ev_steady by (auto split: if_splits)
  moreover have "steady s2 s4" using shorten_steady [OF st(3)] by (simp add: compose_now_def steady_def)
  moreover have "steady s4 s5" using trim_now_steady [OF st(4)] .
  ultimately have "steady s s5" by (blast intro: steady_trans)
  from progress_left [OF this ask_model_again [OF st(5)]] show ?thesis using b(1)
    by (auto simp: check_iteration_limit_def max_of_def split: if_splits)
qed

section \<open>Every run ends\<close>

text \<open>What is left: four units for every iteration, one less for every continuation spent.\<close>

definition budget_left :: "u32 \<Rightarrow> 'c run_state \<Rightarrow> nat" where
  "budget_left it s = 4 * (unat (max_of s) - unat it) - unat (rs_continuation_count s)"

lemma progress_budget:
  assumes "progress it s it' s'" "it < max_of s" "unat (rs_continuation_count s) \<le> 3"
  shows "budget_left it' s' < budget_left it s" and "unat (rs_continuation_count s') \<le> 3"
    and "max_of s' = max_of s"
proof -
  have m: "max_of s' = max_of s"
    using assms(1) by (simp add: progress_def max_of_def agent_of_def config_of_def)
  have i: "unat it < unat (max_of s)" using assms(2) by (simp add: word_less_nat_alt)
  have "unat (max_of s) < 2 ^ 32" by (rule order_less_le_trans [OF unsigned_less]) simp
  with i have "unat it + 1 < 2 ^ 32" by simp
  then have s1: "unat (saturating_add32 it 1) = unat it + 1"
    by (simp add: saturating_add32_def unat_word_ariths)
  have s2: "unat (saturating_add32 x 1) = unat x + 1" if "x < 3" for x :: u32
    using that by (simp add: saturating_add32_def unat_word_ariths word_less_nat_alt)
  from assms(1) consider
      "it' = it" "rs_continuation_count s < 3" "unat (rs_continuation_count s') = unat (rs_continuation_count s) + 1"
    | "unat it' = unat it + 1" "unat (rs_continuation_count s') \<le> unat (rs_continuation_count s)"
    by (auto simp: progress_def s1 s2)
  then have "budget_left it' s' < budget_left it s \<and> unat (rs_continuation_count s') \<le> 3"
  proof cases
    case 1 then show ?thesis using i by (simp add: budget_left_def m word_less_nat_alt)
  next
    case 2 then show ?thesis using i assms(3) by (simp add: budget_left_def m)
  qed
  then show "budget_left it' s' < budget_left it s" "unat (rs_continuation_count s') \<le> 3" "max_of s' = max_of s"
    using m by simp_all
qed

lemma limit_stops:
  "check_iteration_limit it (as_config (agent_of s)) = Inl e \<Longrightarrow> run_iteration R t s it c = (s, Inl e)"
  by (simp add: run_iteration_def)

lemma run_loop_ends:
  "\<lbrakk>unat (rs_continuation_count s) \<le> 3; budget_left it s < fuel\<rbrakk> \<Longrightarrow>
   \<exists>s' r. run_loop fuel R t s it c = Some (s', r) \<and> rs_calls s' \<le> rs_calls s + 9 * budget_left it s"
proof (induction fuel arbitrary: s it c)
  case (Suc fuel)
  show ?case
  proof (cases "run_iteration R t s it c")
    case (Pair s1 r1)
    have calls: "rs_calls s1 \<le> rs_calls s + 9" using run_iteration_calls [of R t s it c] Pair by simp
    show ?thesis
    proof (cases "it < max_of s")
      case False
      then have "run_iteration R t s it c = (s, Inl (IterationLimitReached (max_of s)))"
        by (intro limit_stops) (simp add: check_iteration_limit_def max_of_def linorder_not_less)
      then show ?thesis by (simp split: agent_state.split)
    next
      case True
      then have pos: "1 \<le> budget_left it s"
        using Suc.prems(1) by (simp add: budget_left_def word_less_nat_alt)
      show ?thesis
      proof (cases "\<exists>it' c'. r1 = Inr (Again it' c')")
        case False
        then have "\<exists>s' r. run_loop (Suc fuel) R t s it c = Some (s', r) \<and> (s' = s \<or> s' = s1)"
          using Pair by (auto split: agent_state.split sum.split run_next.split)
        then show ?thesis using calls pos by auto
      next
        case again: True
        then obtain it' c' where a: "r1 = Inr (Again it' c')" by blast
        with Pair have p: "progress it s it' s1" using run_iteration_again by blast
        note b = progress_budget [OF p True Suc.prems(1)]
        from Suc.IH [OF b(2)] b(1) Suc.prems(2) obtain s' r where
          "run_loop fuel R t s1 it' c' = Some (s', r)" "rs_calls s' \<le> rs_calls s1 + 9 * budget_left it' s1"
          by (meson less_trans_Suc not_less_eq order_less_le_trans less_Suc_eq_le order.strict_trans2)
        moreover have "9 * budget_left it' s1 + 9 \<le> 9 * budget_left it s" using b(1) by simp
        ultimately show ?thesis using Pair a calls by (auto split: agent_state.split)
      qed
    qed
  qed
qed simp

lemma prepare_turn_spec:
  assumes "prepare_turn R s = (s', r)"
  shows "max_of s' = max_of s" and "rs_calls s' = rs_calls s"
    and "r = Inr () \<Longrightarrow> state_of s' = Idle \<and> rs_continuation_count s' = 0"
  using assms
  by (auto simp: prepare_turn_def prepare_for_new_user_turn_def set_agent_def max_of_def state_of_def agent_of_def
      clear_turn_def split: agent_state.splits)

text \<open>C20: Every run ends: whatever the model answers, the loop stops within the fuel, and it has asked the
  model at most thirty-six times for every iteration the configuration allows (three continuations and
  eight summaries for each question included).\<close>

theorem every_run_ends:
  "\<exists>s' r. agent_run R s t = Some (s', r) \<and> rs_calls s' \<le> rs_calls s + 36 * unat (max_of s)"
proof -
  obtain s1 r1 where p: "prepare_turn R s = (s1, r1)" by fastforce
  note q = prepare_turn_spec [OF p]
  show ?thesis
  proof (cases "r1 = Inr () \<and> ru_user_turn R t = Inr ()")
    case False
    then show ?thesis using p q by (cases r1; cases "ru_user_turn R t") (auto simp: agent_run_def)
  next
    case True
    let ?s = "s1\<lparr>rs_user_turns := rs_user_turns s1 @ [t]\<rparr>"
    have m: "max_of ?s = max_of s" "rs_calls ?s = rs_calls s" "rs_continuation_count ?s = 0" "state_of s1 = Idle"
      using q True by (simp_all add: max_of_def agent_of_def)
    then have b: "budget_left 0 ?s = 4 * unat (max_of s)" by (simp add: budget_left_def)
    have f: "budget_left 0 ?s < run_fuel s1" using b q(1) by (simp add: run_fuel_def max_of_def)
    have "\<exists>s' r. run_loop (run_fuel s1) R t ?s 0 False = Some (s', r) \<and> rs_calls s' \<le> rs_calls ?s + 9 * budget_left 0 ?s"
      by (rule run_loop_ends [OF _ f]) (simp add: m)
    then show ?thesis using p True m b by (auto simp: agent_run_def)
  qed
qed

section \<open>A successful run\<close>

lemma run_ev_state:
  assumes "run_ev R t s ev = (s', r)"
  shows "r = Inr () \<Longrightarrow> validate_transition (state_of s) ev = Inr ()"
    and "\<lbrakk>r = Inr (); next_state_after (record_usage cost0 (agent_of s) ev) ev t = (g2, Inr q); cost0 = de_cost (ru_dispatch R)\<rbrakk>
         \<Longrightarrow> state_of s' = q"
proof -
  show "r = Inr () \<Longrightarrow> validate_transition (state_of s) ev = Inr ()"
    using assms by (auto simp: run_ev_def apply_ev_def apply_event_def state_of_def agent_of_def env_for_def
        split: prod.splits sum.splits)
  show "state_of s' = q" if "r = Inr ()"
    "next_state_after (record_usage cost0 (agent_of s) ev) ev t = (g2, Inr q)" "cost0 = de_cost (ru_dispatch R)"
    using assms that
    by (auto simp: run_ev_def apply_ev_def apply_event_def state_of_def agent_of_def env_for_def Let_def
        note_tool_summary_def audit_step_def split: prod.splits sum.splits if_splits agent_event.splits option.splits)
qed

lemma done_completes:
  assumes "run_ev R t s Done = (s', Inr u)"
  shows "state_of s' = Complete"
proof -
  have v: "validate_transition (state_of s) Done = Inr ()" using run_ev_state(1) [OF assms] by simp
  then obtain n where "state_of s = Thinking n"
    by (cases "state_of s") (auto simp: validate_transition_def)
  then have "next_state_after (record_usage (de_cost (ru_dispatch R)) (agent_of s) Done) Done t = (agent_of s, Inr Complete)"
    by (simp add: next_state_after_def record_usage_def state_of_def)
  from run_ev_state(2) [OF assms _ this] show ?thesis by simp
qed

lemma state_frame [simp]:
  "state_of (push_message m s) = state_of s" "state_of (commit_user_line c t s) = state_of s"
  "state_of (warn_emit_assistant_turn a b s) = state_of s" "state_of (record_run_finished_success s) = state_of s"
  "state_of (finish_run R s) = state_of s" "state_of (s\<lparr>rs_exit := x\<rparr>) = state_of s"
  "state_of (record_timeout_if_model_error e s) = state_of s" "state_of (s\<lparr>rs_handoffs := h\<rparr>) = state_of s"
  by (simp_all add: state_of_def agent_of_def push_message_def commit_user_line_def warn_emit_assistant_turn_def
      record_run_finished_success_def finish_run_def record_timeout_if_model_error_def Let_def)

lemma after_tools_finished: "after_tools R t s it = (s', Inr Finished) \<Longrightarrow> state_of s' = Complete"
  by (auto simp: after_tools_def st_bind_Inr_iff dest: done_completes split: if_splits)

lemma on_done_finished:
  assumes "on_done R t s it c acc stop calls = (s', Inr Finished)"
  shows "state_of s' = Complete"
proof -
  from assms obtain s1 where k: "(case stop of
       MaxTokens \<Rightarrow> on_max_tokens R t s1 it c acc calls
     | EndTurn \<Rightarrow> on_end_turn R t s1 it c acc calls
     | ToolUse \<Rightarrow> on_tool_use R t s1 it c acc calls) = (s', Inr Finished)"
    by (auto simp: on_done_def st_bind_Inr_iff)
  show ?thesis
  proof (cases stop)
    case EndTurn
    with k show ?thesis
      by (auto simp: on_end_turn_def Let_def st_bind_Inr_iff dest: after_tools_finished done_completes split: if_splits)
  next
    case MaxTokens
    with k show ?thesis by (auto simp: on_max_tokens_def Let_def st_bind_Inr_iff split: if_splits)
  next
    case ToolUse
    with k show ?thesis
      by (auto simp: on_tool_use_def Let_def st_bind_Inr_iff dest: after_tools_finished split: if_splits)
  qed
qed

lemma consume_stream_finished:
  "consume_stream R t it c s acc stream = (s', Inr Finished) \<Longrightarrow> state_of s' = Complete"
proof (induction R t it c s acc stream rule: consume_stream.induct)
  case (1 R t it c s acc)
  then show ?case by (auto simp: Let_def st_bind_Inr_iff split: agent_state.splits)
next
  case (3 R t it c s acc ev rest)
  show ?case
  proof (cases ev)
    case (SeDone stop calls)
    with 3 on_done_finished show ?thesis by fastforce
  qed (use 3 in \<open>auto simp: st_bind_Inr_iff give_up_Inr\<close>)
qed (simp add: give_up_Inr)

lemma run_iteration_finished:
  assumes "run_iteration R t s it c = (s', Inr Finished)"
  shows "state_of s' = Complete"
proof -
  have b: "check_iteration_limit it (as_config (agent_of s)) = Inr ()"
    using assms by (auto simp: run_iteration_def st_bind_Inr_iff)
  show ?thesis
  proof (cases "budget_stop R s")
    case True
    with assms obtain s1 s2 u where "run_ev R t s1 Done = (s2, Inr u)"
      "s' = record_run_finished_success (s2\<lparr>rs_exit := BudgetLimit\<rparr>)"
      unfolding run_iteration_def by (auto simp: st_bind_Inr_iff)
    then show ?thesis using done_completes by simp
  next
    case False
    with assms obtain s5 ms5 where "ask_model R t it c s5 ms5 = (s', Inr Finished)"
      unfolding run_iteration_def split_beta Let_def by (auto simp only: st_bind_Inr_iff if_False prod.inject sum.inject)
    then show ?thesis
      by (auto simp: ask_model_def Let_def give_up_Inr dest: consume_stream_finished split: sum.splits)
  qed
qed

lemma run_loop_complete:
  "run_loop fuel R t s it c = Some (s', Inr u) \<Longrightarrow> state_of s' = Complete"
proof (induction fuel arbitrary: s it c)
  case (Suc fuel)
  then show ?case
    by (auto dest: run_iteration_finished split: agent_state.splits prod.splits sum.splits run_next.splits)
qed simp

text \<open>A run that succeeds leaves the session complete, and the next turn can be started on it.\<close>

theorem successful_run_accepts_next_turn:
  assumes "agent_run R s t = Some (s', Inr ())"
  shows "state_of s' = Complete \<and> (\<exists>s2. prepare_turn R s' = (s2, Inr ()) \<and> state_of s2 = Idle)"
proof -
  from assms obtain s1 where "run_loop (run_fuel s1) R t (s1\<lparr>rs_user_turns := rs_user_turns s1 @ [t]\<rparr>) 0 False = Some (s', Inr ())"
    by (auto simp: agent_run_def split: prod.splits sum.splits if_splits)
  then have "state_of s' = Complete" by (rule run_loop_complete)
  then show ?thesis
    by (simp add: prepare_turn_def prepare_for_new_user_turn_def state_of_def agent_of_def clear_turn_def)
qed

section \<open>Errors that block the session\<close>

fun accepts_turn :: "agent_state \<Rightarrow> bool" where
  "accepts_turn Idle = True"
| "accepts_turn Complete = True"
| "accepts_turn (Failed _ _) = True"
| "accepts_turn _ = False"

lemma busy_session_refuses:
  assumes "\<not> accepts_turn (state_of s)"
  shows "\<exists>m. agent_run R s t = Some (s, Inl (SessionFailed m))"
proof -
  have "\<exists>m. prepare_for_new_user_turn (ru_zero R) (ru_debug R) (agent_of s) = (agent_of s, Inl (SessionFailed m))"
    using assms by (cases "state_of s") (simp_all add: prepare_for_new_user_turn_def state_of_def)
  then show ?thesis by (auto simp: agent_run_def prepare_turn_def set_agent_def agent_of_def)
qed

lemma status_keeps_state:
  assumes "run_ev R t s (StatusInfo m) = (s', r)"
  shows "state_of s' = state_of s"
proof -
  have "validate_transition (state_of s) (StatusInfo m) = Inr () \<Longrightarrow>
      next_state_after (agent_of s) (StatusInfo m) t = (agent_of s, Inr (state_of s))"
    by (cases "state_of s") (simp_all add: validate_transition_def next_state_after_def state_of_def)
  then show ?thesis
    using assms
    by (auto simp: run_ev_def apply_ev_def apply_event_def state_of_def agent_of_def env_for_def Let_def
        record_usage_def note_tool_summary_def audit_step_def split: prod.splits sum.splits if_splits)
qed

lemma error_event_fails:
  assumes "run_ev R t s (ErrorEvent e b) = (s', Inr u)"
  shows "state_of s' = Failed e b"
proof -
  have v: "validate_transition (state_of s) (ErrorEvent e b) = Inr ()" using run_ev_state(1) [OF assms] by simp
  have "next_state_after (agent_of s) (ErrorEvent e b) t = (agent_of s, Inr (Failed e b))"
    using v by (cases "state_of s"; cases e)
      (auto simp: validate_transition_def next_state_after_def state_of_def)
  then have "next_state_after (record_usage (de_cost (ru_dispatch R)) (agent_of s) (ErrorEvent e b)) (ErrorEvent e b) t
      = (agent_of s, Inr (Failed e b))" by (simp add: record_usage_def)
  from run_ev_state(2) [OF assms _ this] show ?thesis by simp
qed

text \<open>An exhausted rate limit, like the iteration limit, ends a run with an error but leaves the
  session in the middle of its turn: from then on every further run is refused. Any other model error
  that is reported leaves the session failed, which accepts the next turn.\<close>

theorem rate_limit_blocks_session:
  assumes "handle_model_error_for_run R t s e = (s', r)" "\<not> accepts_turn (state_of s)"
  shows "if is_rate_limited e
         then (\<exists>m. agent_run R s' t' = Some (s', Inl (SessionFailed m)))
         else (\<exists>err. r = Inl err) \<or> state_of s' = Failed (map_model_error e) True"
proof (cases "is_rate_limited e")
  case True
  obtain s1 r1 where r1: "run_ev R t (record_timeout_if_model_error e s) (StatusInfo rate_limit_text) = (s1, r1)"
    by fastforce
  with assms(1) True have "state_of s' = state_of s1"
    by (cases r1) (auto simp: handle_model_error_for_run_def)
  with status_keeps_state [OF r1] assms(2) have "\<not> accepts_turn (state_of s')" by simp
  with True busy_session_refuses show ?thesis by simp
next
  case False
  show ?thesis
  proof (cases r)
    case (Inr q)
    with assms(1) False obtain s1 s2 u where "run_ev R t s1 (ErrorEvent (map_model_error e) True) = (s2, Inr u)" "s' = s2"
      by (auto simp: handle_model_error_for_run_def Let_def st_bind_Inr_iff)
    with error_event_fails [OF this(1)] False show ?thesis by simp
  qed (use False in simp)
qed

text \<open>C22: The iteration limit is reported while the session is still in its turn, so the state it leaves
  accepts no further turn: every later run on the session is refused.\<close>

theorem iteration_limit_blocks_session:
  assumes "check_iteration_limit it (as_config (agent_of s)) = Inl e" "\<not> accepts_turn (state_of s)"
  shows "run_loop (Suc f) R t s it c = Some (s, Inl e) \<and> (\<exists>m. agent_run R s t' = Some (s, Inl (SessionFailed m)))"
proof -
  have "run_iteration R t s it c = (s, Inl e)" by (rule limit_stops [OF assms(1)])
  then have "run_loop (Suc f) R t s it c = Some (s, Inl e)"
    using assms(2) by (cases "state_of s") simp_all
  with busy_session_refuses [OF assms(2)] show ?thesis by blast
qed

section \<open>The transcript\<close>

text \<open>C21: When a batch of tool calls goes through, the transcript gains the user's line if it was not yet
  committed, the assistant's row with the requested calls and one tool row for every call, in the order
  of the calls and under their ids: no request is left unanswered when the model is asked again.\<close>

theorem every_request_is_answered_in_transcript:
  assumes "run_tool_calls R t s committed acc calls = (s', Inr u)"
    and "\<And>n xs. mset (ru_finish R n xs) = mset xs"
  shows "\<exists>answers. map fst answers = map tc_id calls \<and>
           rs_context s' = rs_context s @ (if committed then [] else [msg RoleUser t])
             @ [assistant_record (ru_json R) acc calls] @ map (tool_message (ru_json R)) answers"
proof -
  let ?s1 = "push_message (assistant_record (ru_json R) acc calls) (commit_user_line committed t s)"
  from assms(1) obtain s2 v where b: "dispatch_batch R t ?s1 calls = (s2, Inr v)"
    and s': "s' = warn_emit_assistant_turn acc (ru_calls_cbor R calls) s2"
    by (auto simp: run_tool_calls_def Let_def st_bind_Inr_iff)
  obtain d r where d: "dispatch_tool_calls_batch (env_for R t) (ru_execute R (rs_batches ?s1)) (ru_finish R (rs_batches ?s1))
      (rs_dispatch ?s1) calls = (d, r)" by fastforce
  with b have r: "r = Inr v" and s2: "s2 = ?s1\<lparr>rs_dispatch := d, rs_batches := Suc (rs_batches ?s1),
       rs_context := rs_context ?s1 @ map (tool_message (ru_json R)) (drop (length (ds_context (rs_dispatch ?s1))) (ds_context d))\<rparr>"
    by (auto simp: dispatch_batch_def Let_def)
  from batch_answers [OF d [unfolded r] assms(2)] obtain answers where
    "ds_context d = ds_context (rs_dispatch ?s1) @ answers" "map fst answers = map tc_id calls" by blast
  then show ?thesis
    by (intro exI [of _ answers]) (simp add: s' s2 warn_emit_assistant_turn_def push_message_def commit_user_line_def)
qed

section \<open>Summaries\<close>

text \<open>C23: The session counts two fixed system rows when there is an \<open>AKMON.md\<close> and one otherwise, but a
  prompt has one more for every visible block of specifications, handoff notes, tasks or memories and for
  the language rules of the project. With any of them, every summary the model makes is discarded: the
  pass ends as if it had failed, and a fifth of the transcript is dropped instead.\<close>

theorem summary_is_lost_with_extra_rows:
  assumes "\<not> pt_subagent P" "has_extra_rows (ru_lower R) (ru_model R) P"
    and "ru_manager R = new_context_manager window (pt_akmon_md P \<noteq> None)"
  shows "finish_summary R t s to_s (prompt_head (ru_lower R) (ru_model R) P (rs_context s)) summary
           = (abort_summary s, Inr ())
         \<and> rs_context (abort_summary s) = trim_oldest_non_system_fraction (rs_context s)"
  using fold_rejected_with_extra_rows [OF assms]
  by (simp add: finish_summary_def abort_summary_def set_agent_def Let_def)

end
