(* ===== verification/Run_Examples.thy ===== *)
theory Run_Examples
  imports Run_Properties
begin

text \<open>Concrete runs: the hypotheses of the properties of a run are met together.\<close>

definition rx_texts :: prompt_texts where
  "rx_texts = \<lparr>pt_akmon_md = None, pt_main_system = ''p'', pt_subagent_system = (\<lambda>_. ''s''), pt_specs = None,
     pt_handoff = None, pt_extras = [], pt_language_rules = None, pt_intel = [], pt_subagent = False\<rparr>"

definition rx_json :: json_text where
  "rx_json = \<lparr>jt_parse = (\<lambda>s. Some (JObject [(''output'', JString s), (''tool_name'', JString ''read_file'')])),
     jt_print = (\<lambda>v. ''j'')\<rparr>"

definition rx_env :: "(nat \<Rightarrow> model_error + completion_stream) \<Rightarrow> (unit, unit) run_env" where
  "rx_env model =
     \<lparr>ru_dispatch = dx_env, ru_json = rx_json, ru_lower = (\<lambda>s. s), ru_provider = ''anthropic'', ru_model = ''claude'',
      ru_estimate = (\<lambda>_. Some 10), ru_manager = new_context_manager 50000 False, ru_texts = (\<lambda>_. rx_texts),
      ru_complete = (\<lambda>n _ _. model n), ru_execute = (\<lambda>_ _. (OutSuccess ''ok'', 1)), ru_finish = (\<lambda>_ xs. xs),
      ru_interrupt = (\<lambda>_. False), ru_calls_cbor = (\<lambda>_. None), ru_user_turn = (\<lambda>_. Inr ()),
      ru_budget = (\<lambda>_. False), ru_zero = (), ru_debug = (\<lambda>_. ''Thinking'')\<rparr>"

definition rx_state :: "unit run_state" where
  "rx_state =
     \<lparr>rs_dispatch = dx_state\<lparr>ds_agent := (ds_agent dx_state)\<lparr>as_state := Idle,
          as_config := \<lparr>ac_max_iterations = 1, ac_session_id = ''s''\<rparr>\<rparr>\<rparr>,
      rs_context = [], rs_result_text = [], rs_continuation_count = 0, rs_exit = Completed, rs_turns_finished = 0,
      rs_snippet = None, rs_retries = 0, rs_user_turns = [], rs_assistant_turns = [], rs_handoffs = [],
      rs_calls = 0, rs_batches = 0, rs_reads = 0\<rparr>"

definition rx_answer :: "nat \<Rightarrow> model_error + completion_stream" where
  "rx_answer n = Inr [Inr (SeTextDelta ''hi''), Inr (SeDone EndTurn [])]"

definition rx_tools :: "nat \<Rightarrow> model_error + completion_stream" where
  "rx_tools n = Inr [Inr (SeDone ToolUse [\<lparr>tc_id = ''c'', tc_name = ''nope'', tc_arguments = JNull\<rparr>])]"

definition rx_limited :: "nat \<Rightarrow> model_error + completion_stream" where
  "rx_limited n = Inl (RateLimited None)"

lemma rx_model: "looks_like_ollama_model (\<lambda>s. s) ''claude'' = False" "is_openai_native_chat_model (\<lambda>s. s) ''claude'' = False"
  "microcompact_keep (\<lambda>s. s) ''anthropic'' = 20"
  by code_simp+

lemma rx_window: "needs_summarization (\<lambda>_. Some 10) (new_context_manager 50000 False) ms = False"
  by (simp add: needs_summarization_def new_context_manager_def reserved_for_window_def COMPACT_RESERVED_BUFFER_def)

lemma rx_shorten: "shorten (rx_env model) t c n s ms = (s, Inr ms)"
  by (cases n) (simp_all add: rx_env_def rx_window)

lemma rx_trim: "trim_now (rx_env model) t s ms = (s, Inr ms)"
  by (simp add: trim_now_def trim_messages_for_model_def context_limit_for_model_def rx_env_def rx_model)

lemma rx_compact: "rs_context s = [] \<Longrightarrow> compact_now (rx_env model) t s = (s, Inr ())"
  by (simp add: compact_now_def apply_microcompact_context_def)

lemmas rx_event = run_ev_def apply_ev_def apply_event_def validate_transition_def next_state_after_def record_usage_def
  note_tool_summary_def audit_step_def hm_get_def

definition rx_ready :: "nat \<Rightarrow> agent_state \<Rightarrow> unit run_state \<Rightarrow> bool" where
  "rx_ready n st s \<longleftrightarrow> state_of s = st \<and> rs_calls s = n \<and> as_receiver_open (agent_of s)
     \<and> as_config (agent_of s) = \<lparr>ac_max_iterations = 1, ac_session_id = ''s''\<rparr>"

lemma rx_run_ev:
  assumes "rx_ready n st s" "validate_transition st ev = Inr ()"
    and "\<And>g :: unit agent_session. as_state g = st \<Longrightarrow> next_state_after g ev t = (g, Inr st')"
  shows "\<exists>s'. run_ev R t s ev = (s', Inr ()) \<and> rx_ready n st' s'"
proof -
  obtain s' r where e: "run_ev R t s ev = (s', r)" by fastforce
  have n: "next_state_after (record_usage (de_cost (env_for R t)) (ds_agent (rs_dispatch s)) ev) ev t
      = (record_usage (de_cost (env_for R t)) (ds_agent (rs_dispatch s)) ev, Inr st')"
    using assms(1) by (intro assms(3)) (simp add: rx_ready_def state_of_def agent_of_def record_usage_def split: agent_event.split)
  have "r = Inr () \<and> rx_ready n st' s'"
    using e assms(1,2) n
    by (auto simp: run_ev_def apply_ev_def apply_event_def rx_ready_def state_of_def agent_of_def Let_def env_for_def
        record_usage_def note_tool_summary_def audit_step_def split: agent_event.splits option.splits)
  with e show ?thesis by simp
qed

lemma rx_budget: "budget_stop (rx_env model) s = False"
  by (simp add: budget_stop_def rx_env_def)

lemma rx_start:
  "\<exists>s. prepare_turn (rx_env model) rx_state = (s, Inr ()) \<and> rx_ready 0 Idle s \<and> rs_context s = []"
  by (simp add: prepare_turn_def prepare_for_new_user_turn_def rx_state_def dx_state_def agent_of_def clear_turn_def
      rx_ready_def state_of_def)

lemma rx_iteration:
  assumes "rx_ready 0 Idle s" "rs_context s = []"
  shows "\<exists>s1 ms. rx_ready 0 (Planning t 0) s1 \<and> run_iteration (rx_env model) t s 0 False = ask_model (rx_env model) t 0 False s1 ms"
proof -
  have "check_iteration_limit 0 (as_config (agent_of s)) = Inr ()"
    using assms(1) by (simp add: rx_ready_def check_iteration_limit_def)
  moreover have "state_of s = Idle" using assms(1) by (simp add: rx_ready_def)
  moreover obtain s1 where s1: "run_ev (rx_env model) t s (IterationStarted (saturating_add32 0 1)
        (ac_max_iterations (as_config (agent_of s)))) = (s1, Inr ())" "rx_ready 0 (Planning t 0) s1"
    using rx_run_ev [OF assms(1), of "IterationStarted (saturating_add32 0 1) (ac_max_iterations (as_config (agent_of s)))"
        t "Planning t 0" "rx_env model"]
    by (auto simp: validate_transition_def next_state_after_def saturating_add32_def)
  ultimately have "run_iteration (rx_env model) t s 0 False
      = ask_model (rx_env model) t 0 False (fst (compose_now (rx_env model) t s1 False)) (snd (compose_now (rx_env model) t s1 False))"
    unfolding run_iteration_def
    by (simp only: st_bind.simps rx_budget if_False rx_compact [OF assms(2)] if_True simp_thms split_beta Let_def rx_shorten rx_trim)
  moreover have "rx_ready 0 (Planning t 0) (fst (compose_now (rx_env model) t s1 False))"
    using s1(2) by (simp add: compose_now_def rx_ready_def state_of_def agent_of_def)
  ultimately show ?thesis by blast
qed

lemma rx_run:
  "\<exists>s1 ms. rx_ready 0 (Planning t 0) s1 \<and>
     agent_run (rx_env model) rx_state t =
       (case ask_model (rx_env model) t 0 False s1 ms of
          (s2, Inl e) \<Rightarrow> Some (s2, Inl e)
        | (s2, Inr Finished) \<Rightarrow> Some (s2, Inr ())
        | (s2, Inr (Again it c)) \<Rightarrow> run_loop 4 (rx_env model) t s2 it c)"
proof -
  obtain s where s: "prepare_turn (rx_env model) rx_state = (s, Inr ())" "rx_ready 0 Idle s" "rs_context s = []"
    using rx_start by blast
  let ?s = "s\<lparr>rs_user_turns := rs_user_turns s @ [t]\<rparr>"
  have f: "run_fuel s = Suc 4" using s(2) by (simp add: run_fuel_def rx_ready_def)
  have "rx_ready 0 Idle ?s" "rs_context ?s = []"
    using s by (simp_all add: rx_ready_def state_of_def agent_of_def)
  then obtain s1 ms where i: "rx_ready 0 (Planning t 0) s1"
    "run_iteration (rx_env model) t ?s 0 False = ask_model (rx_env model) t 0 False s1 ms"
    using rx_iteration by blast
  have "state_of s = Idle" "state_of ?s = Idle" using s(2) by (simp_all add: rx_ready_def state_of_def agent_of_def)
  moreover have ut: "ru_user_turn (rx_env model) t = Inr ()" by (simp add: rx_env_def)
  ultimately have "agent_run (rx_env model) rx_state t = run_loop (Suc 4) (rx_env model) t ?s 0 False"
    using s(1) ut by (simp add: agent_run_def f del: run_loop.simps)
  also have "\<dots> = (case ask_model (rx_env model) t 0 False s1 ms of
          (s2, Inl e) \<Rightarrow> Some (s2, Inl e)
        | (s2, Inr Finished) \<Rightarrow> Some (s2, Inr ())
        | (s2, Inr (Again it c)) \<Rightarrow> run_loop 4 (rx_env model) t s2 it c)"
    by (simp only: run_loop.simps i(2) \<open>state_of ?s = Idle\<close> agent_state.case)
  finally show ?thesis using i(1) by blast
qed

theorem successful_run_accepts_next_turn_witness:
  "\<exists>s. agent_run (rx_env rx_answer) rx_state ''t'' = Some (s, Inr ()) \<and> state_of s = Complete"
proof -
  let ?R = "rx_env rx_answer"
  obtain s1 ms where s1: "rx_ready 0 (Planning ''t'' 0) s1"
    "agent_run ?R rx_state ''t'' = (case ask_model ?R ''t'' 0 False s1 ms of
          (s2, Inl e) \<Rightarrow> Some (s2, Inl e)
        | (s2, Inr Finished) \<Rightarrow> Some (s2, Inr ())
        | (s2, Inr (Again it c)) \<Rightarrow> run_loop 4 ?R ''t'' s2 it c)"
    using rx_run by blast
  let ?s2 = "s1\<lparr>rs_calls := Suc (rs_calls s1), rs_result_text := rs_result_text s1 @ ''hi''\<rparr>"
  have "rx_ready 1 (Planning ''t'' 0) ?s2" using s1(1) by (simp add: rx_ready_def state_of_def agent_of_def)
  then obtain s3 where s3: "run_ev ?R ''t'' ?s2 (TextDelta ''hi'') = (s3, Inr ())" "rx_ready 1 (Thinking 0) s3"
    using rx_run_ev [of 1 "Planning ''t'' 0" ?s2 "TextDelta ''hi''" "''t''" "Thinking 0" ?R]
    by (auto simp: validate_transition_def next_state_after_def)
  let ?s4 = "s3\<lparr>rs_continuation_count := 0\<rparr>"
  have "rx_ready 1 (Thinking 0) ?s4" using s3(2) by (simp add: rx_ready_def state_of_def agent_of_def)
  then obtain s5 where s5: "run_ev ?R ''t'' ?s4 Done = (s5, Inr ())"
    using rx_run_ev [of 1 "Thinking 0" ?s4 Done "''t''" Complete ?R]
    by (auto simp: validate_transition_def next_state_after_def)
  have c: "ru_complete ?R n ns ms = Inr [Inr (SeTextDelta ''hi''), Inr (SeDone EndTurn [])]" for n ns ms
    by (simp add: rx_env_def rx_answer_def)
  have "state_of s3 = Thinking 0" using s3(2) by (simp add: rx_ready_def)
  then have "\<exists>s6. ask_model ?R ''t'' 0 False s1 ms = (s6, Inr Finished)"
    using s3(1) s5 by (simp add: ask_model_def c on_done_def on_end_turn_def)
  then obtain s6 where "agent_run ?R rx_state ''t'' = Some (s6, Inr ())" using s1(2) by auto
  with successful_run_accepts_next_turn [OF this] show ?thesis by blast
qed

theorem rate_limit_blocks_session_witness:
  "\<exists>s e m. agent_run (rx_env rx_limited) rx_state ''t'' = Some (s, Inl e)
     \<and> agent_run (rx_env rx_limited) s ''again'' = Some (s, Inl (SessionFailed m))"
proof -
  let ?R = "rx_env rx_limited"
  obtain s1 ms where s1: "rx_ready 0 (Planning ''t'' 0) s1"
    "agent_run ?R rx_state ''t'' = (case ask_model ?R ''t'' 0 False s1 ms of
          (s2, Inl e) \<Rightarrow> Some (s2, Inl e)
        | (s2, Inr Finished) \<Rightarrow> Some (s2, Inr ())
        | (s2, Inr (Again it c)) \<Rightarrow> run_loop 4 ?R ''t'' s2 it c)"
    using rx_run by blast
  let ?s2 = "s1\<lparr>rs_calls := Suc (rs_calls s1)\<rparr>"
  obtain s3 r where h: "handle_model_error_for_run ?R ''t'' ?s2 (RateLimited None) = (s3, r)" by fastforce
  have "\<not> accepts_turn (state_of ?s2)" using s1(1) by (simp add: rx_ready_def state_of_def agent_of_def)
  from rate_limit_blocks_session [OF h this, of "''again''"] obtain m where
    "agent_run ?R s3 ''again'' = Some (s3, Inl (SessionFailed m))" by auto
  moreover have "\<exists>e. ask_model ?R ''t'' 0 False s1 ms = (s3, Inl e)"
  proof -
    have c: "ru_complete ?R n ns ms = Inl (RateLimited None)" for n ns ms by (simp add: rx_env_def rx_limited_def)
    have "ask_model ?R ''t'' 0 False s1 ms = give_up ?R ''t'' ?s2 (RateLimited None) Finished"
      by (simp add: ask_model_def c)
    moreover have "\<exists>s' e. give_up ?R ''t'' ?s2 (RateLimited None) Finished = (s', Inl e)"
      using give_up_Inr [of ?R "''t''" ?s2 "RateLimited None" Finished] by (metis sum.exhaust surj_pair)
    moreover have "fst (give_up ?R ''t'' ?s2 (RateLimited None) Finished) = s3"
      using h by (cases r) (auto simp: give_up_def split: option.split)
    ultimately show ?thesis by auto
  qed
  ultimately show ?thesis using s1(2) by auto
qed

theorem iteration_limit_blocks_session_witness:
  "\<exists>s e m. run_loop 5 (rx_env rx_tools) ''t'' s 1 True = Some (s, Inl (IterationLimitReached 1))
     \<and> agent_run (rx_env rx_tools) s ''again'' = Some (s, Inl (SessionFailed m))"
proof -
  obtain s :: "unit run_state" where s: "rx_ready 0 (Planning ''t'' 0) s" using rx_run by blast
  then have "check_iteration_limit 1 (as_config (agent_of s)) = Inl (IterationLimitReached 1)" "\<not> accepts_turn (state_of s)"
    by (simp_all add: rx_ready_def check_iteration_limit_def)
  from iteration_limit_blocks_session [OF this, of 4 "rx_env rx_tools" "''t''" True "''again''"]
  show ?thesis by (simp add: numeral_eq_Suc del: run_loop.simps) blast
qed

section \<open>Transcript\<close>

definition rx_call :: tool_call where
  "rx_call = \<lparr>tc_id = ''c'', tc_name = ''nope'', tc_arguments = JNull\<rparr>"

lemma rx_unknown: "matching_tools (env_for (rx_env model) t) (tc_name rx_call) = []"
  by (simp add: rx_call_def matching_tools_def env_for_def rx_env_def dx_env_def dx_tool_def)

lemma refused_batch:
  assumes "matching_tools E (tc_name rx_call) = []" "as_state (ds_agent d) = Thinking n" "as_receiver_open (ds_agent d)"
    and fin: "fin [] = []"
  shows "\<exists>d'. dispatch_tool_calls_batch E run fin d [rx_call] = (d', Inr ())"
proof -
  let ?d = "d\<lparr>ds_agent := (ds_agent d)\<lparr>as_batch_remaining := 0\<rparr>\<rparr>"
  have "\<exists>d1. apply_ev E ?d (ToolCallCompleted (tc_id rx_call) (tc_name rx_call) False (''tool not found: '' @ tc_name rx_call)) = (d1, Inr ())"
    using assms(2,3) by (simp add: apply_ev_def apply_event_def validate_transition_def next_state_after_def record_usage_def
      note_tool_summary_def audit_step_def split_beta Let_def split: option.split)
  then obtain d1 where "apply_ev E ?d (ToolCallCompleted (tc_id rx_call) (tc_name rx_call) False (''tool not found: '' @ tc_name rx_call)) = (d1, Inr ())" by blast
  then have "admit_calls E ?d 0 0 [rx_call]
      = (d1, Inr [Refused (refusal rx_call InvalidArgs (''tool not found: '' @ tc_name rx_call))])"
    using assms(1) by (simp add: admit_call_def refuse_def Let_def)
  then show ?thesis by (simp add: dispatch_tool_calls_batch_def Let_def fin)
qed

lemma rx_tool_call:
  "\<exists>s. run_tool_calls (rx_env rx_tools) ''t'' (rx_state\<lparr>rs_dispatch := dx_state\<rparr>) False [] [rx_call] = (s, Inr ())"
proof -
  have "\<exists>d'. dispatch_tool_calls_batch (env_for (rx_env rx_tools) ''t'') run (\<lambda>xs. xs) dx_state [rx_call] = (d', Inr ())" for run
    by (rule refused_batch [OF rx_unknown]) (simp_all add: dx_state_def)
  then obtain d' where "dispatch_tool_calls_batch (env_for (rx_env rx_tools) ''t'') (ru_execute (rx_env rx_tools) 0) (\<lambda>xs. xs)
      dx_state [rx_call] = (d', Inr ())" by blast
  moreover have "ru_finish (rx_env rx_tools) n = (\<lambda>xs. xs)" for n by (simp add: rx_env_def)
  moreover have "rs_batches rx_state = 0" by (simp add: rx_state_def)
  ultimately show ?thesis
    by (simp add: run_tool_calls_def dispatch_batch_def push_message_def commit_user_line_def Let_def)
qed

theorem every_request_is_answered_in_transcript_witness:
  "\<exists>s out. run_tool_calls (rx_env rx_tools) ''t'' (rx_state\<lparr>rs_dispatch := dx_state\<rparr>) False [] [rx_call] = (s, Inr ())
     \<and> rs_context s = [msg RoleUser ''t'', assistant_record rx_json [] [rx_call], tool_message rx_json (''c'', out)]"
proof -
  obtain s where s: "run_tool_calls (rx_env rx_tools) ''t'' (rx_state\<lparr>rs_dispatch := dx_state\<rparr>) False [] [rx_call] = (s, Inr ())"
    using rx_tool_call by blast
  have f: "mset (ru_finish (rx_env rx_tools) n xs) = mset xs" for n xs by (simp add: rx_env_def)
  have j: "ru_json (rx_env rx_tools) = rx_json" by (simp add: rx_env_def)
  from every_request_is_answered_in_transcript [OF s f] obtain answers where
    a: "map fst answers = map tc_id [rx_call]"
    and "rs_context s = rs_context (rx_state\<lparr>rs_dispatch := dx_state\<rparr>) @ (if False then [] else [msg RoleUser ''t''])
       @ [assistant_record (ru_json (rx_env rx_tools)) [] [rx_call]] @ map (tool_message (ru_json (rx_env rx_tools))) answers"
    by blast
  then have c: "rs_context s = [msg RoleUser ''t'', assistant_record rx_json [] [rx_call]] @ map (tool_message rx_json) answers"
    by (simp add: j) (simp add: rx_state_def)
  from a obtain out where "answers = [(''c'', out)]" by (cases answers) (auto simp: rx_call_def)
  with c s show ?thesis by (intro exI [of _ s] exI [of _ out]) simp
qed

text \<open>A project with language rules: the summary is thrown away.\<close>

theorem summary_is_lost_with_extra_rows_witness:
  "finish_summary (rx_env rx_answer) ''t'' rx_state []
     (prompt_head (\<lambda>s. s) ''claude'' (rx_texts\<lparr>pt_language_rules := Some ''rules''\<rparr>) (rs_context rx_state)) ''s''
   = (abort_summary rx_state, Inr ())"
proof -
  let ?P = "rx_texts\<lparr>pt_language_rules := Some ''rules''\<rparr>"
  have R: "ru_lower (rx_env rx_answer) = (\<lambda>s. s)" "ru_model (rx_env rx_answer) = ''claude''"
    "ru_manager (rx_env rx_answer) = new_context_manager 50000 (pt_akmon_md ?P \<noteq> None)"
    by (simp_all add: rx_env_def rx_texts_def)
  have "\<not> pt_subagent ?P" by (simp add: rx_texts_def)
  moreover have "has_extra_rows (ru_lower (rx_env rx_answer)) (ru_model (rx_env rx_answer)) ?P"
    by (simp add: R has_extra_rows_def rx_model)
  ultimately show ?thesis using summary_is_lost_with_extra_rows [OF _ _ R(3)] by (simp add: R)
qed

definition rx_context :: "chat_message list" where
  "rx_context = [msg RoleUser ''a'', msg RoleAssistant ''b'']"

definition rx_manager :: context_manager where
  "rx_manager = \<lparr>cm_max_tokens = 100, cm_keep_recent = 1, cm_fixed_system_messages = 1\<rparr>"

theorem folded_summary_keeps_recent_witness:
  "apply_folded_summary rx_manager rx_context [msg RoleUser ''a''] (prompt_head (\<lambda>s. s) ''claude'' rx_texts rx_context)
     (summary_row ''s'') = Inr [summary_row ''s'', msg RoleAssistant ''b'']"
proof -
  have a: "\<not> pt_subagent rx_texts" "length (system_rows (\<lambda>s. s) ''claude'' rx_texts) = cm_fixed_system_messages rx_manager"
    by (simp_all add: rx_texts_def system_rows_def rx_manager_def opt_list_def)
  have sys: "\<not> is_system (msg RoleUser x)" "\<not> is_system (msg RoleAssistant x)" for x
    by (simp_all add: is_system_def msg_def)
  have h: "prompt_head (\<lambda>s. s) ''claude'' rx_texts rx_context = msg RoleSystem ''p'' # rx_context"
    by (simp add: prompt_head_def compose_model_messages_def rx_texts_def system_rows_def opt_list_def butlast_append)
  have m: "messages_to_summarize rx_manager (prompt_head (\<lambda>s. s) ''claude'' rx_texts rx_context)
      = ([msg RoleUser ''a''], [msg RoleAssistant ''b''])"
    unfolding h by (simp add: messages_to_summarize_def rx_manager_def rx_context_def sys)
  from folded_summary_keeps_recent [OF a m] show ?thesis by (simp add: rx_context_def sys)
qed

theorem microcompaction_is_confined_witness:
  "fst (apply_microcompact_context rx_json 1 [msg RoleTool ''old'', msg RoleTool ''new'']) ! 0 = msg RoleTool ''j''
   \<and> ms_role (msg RoleTool ''old'') = RoleTool"
proof -
  let ?ms = "[msg RoleTool ''old'', msg RoleTool ''new'']"
  obtain ms' est where m: "apply_microcompact_context rx_json 1 ?ms = (ms', est)" by fastforce
  have "ms' ! 0 = msg RoleTool ''j''"
    using m by (auto simp: apply_microcompact_context_def msg_def is_system_def clear_message_def rx_json_def json_str_def
        clearable_def never_clear_tool_def clearable_explore_tool_def Let_def)
  then have "ms' ! 0 \<noteq> ?ms ! 0" by (simp add: msg_def)
  from microcompaction_is_confined [OF m, of 0] this have "ms_role (?ms ! 0) = RoleTool" by auto
  then show ?thesis unfolding m fst_conv using \<open>ms' ! 0 = msg RoleTool ''j''\<close> by simp
qed

end
