(* ===== verification/Replay.thy ===== *)
theory Replay
  imports Agent_Run Cli_Journal
begin

text \<open>
  The crate \<open>akmon-replay\<close>: a recorded session is replayed against its own recorded answers. The source
  is validated (\<open>engine.rs\<close>), every provider and tool of the source becomes a playback that returns the
  recorded calls in order (\<open>provider.rs\<close>, \<open>tool.rs\<close>), the recorded prompts are run again through the
  agent, and the two histories are compared in a default or a strict mode; the divergences of both
  phases make the report (\<open>report.rs\<close>).

  The object store of the source is the pair of functions that read it. The CBOR decoders and encoders,
  the derived debug texts and the decoding errors are parameters. The journal of the replayed session
  and the calls that write it are not modelled: the comparison takes both histories as its input.
\<close>

section \<open>Divergences and errors\<close>

datatype replay_divergence_kind =
    RdProviderCallUnexpected | RdProviderRequestMismatch | RdAttemptCountDivergence
  | RdAttemptStatusDivergence | RdToolCallUnexpected | RdToolInputMismatch | RdUnexpectedSessionEnd
  | RdMissingExpectedEvent | RdEventKindMismatch | RdMissingReplayEvent | RdUnexpectedReplayEvent
  | RdEventCountMismatch | RdAssistantContentMismatch | RdToolOutputMismatch
  | RdPermissionGateDecisionMismatch | RdContentReferenceMismatch

record replay_divergence =
  rd_event_seq :: "u64 option"
  rd_kind :: replay_divergence_kind
  rd_expected :: string
  rd_actual :: string

definition rdiv :: "u64 option \<Rightarrow> replay_divergence_kind \<Rightarrow> string \<Rightarrow> string \<Rightarrow> replay_divergence" where
  "rdiv seq k e a = \<lparr>rd_event_seq = seq, rd_kind = k, rd_expected = e, rd_actual = a\<rparr>"

datatype replay_mode = ModeDefault | ModeStrict

datatype replay_error =
    EmptySource
  | NoMatchingCalls string
  | MissingProviderForReplay string
  | MissingToolForReplay string
  | MissingSourceObject hash
  | MalformedSourceEvent u64 string
  | MalformedSourceConfig hash string
  | StoreReadFailed hash string
  | UnsupportedProviderMultiplicity nat
  | SessionRunFailed string
  | ReplaySessionMalformed string
  | PersistConfigInvalid string
  | PersistJournalNotWritable string string

section \<open>Parameters\<close>

record recorded_response =
  rr_text :: string
  rr_tool_calls :: "tool_call list"
  rr_stop_reason :: "string option"

record recorded_chunk =
  rk_kind :: string
  rk_provider :: "string option"
  rk_model :: "string option"
  rk_message :: "string option"
  rk_text :: "string option"
  rk_stop_reason :: "string option"
  rk_tool_calls :: "tool_call list option"
  rk_usage :: "(u32 \<times> u32 \<times> u32 \<times> u32) option"

text \<open>What strict comparison hashes: the kind without timestamps and without the configuration hash.\<close>

record attempt_projection =
  ap_attempt_number :: u32
  ap_started_at_unix_s :: int
  ap_ended_at_unix_s :: int
  ap_status :: attempt_status
  ap_request_hash :: hash
  ap_response_hash :: "hash option"
  ap_stream_hash :: "hash option"
  ap_error_message :: "string option"

datatype event_projection =
    PSessionStart hash
  | PUserTurn hash
  | PProviderCall string "attempt_projection list" "hash option"
  | PToolCall string hash hash "hash option"
  | PRetrievalCall string hash hash
  | PPermissionGate string string hash
  | PAssistantTurn hash "hash option"
  | PSessionEnd "hash option"

record replay_ext = command_ext +
  x_cbor_projection :: "event_projection \<Rightarrow> byte list"
  x_debug_opt_hash :: "hash option \<Rightarrow> string"
  x_debug_status :: "attempt_status \<Rightarrow> string"
  x_cbor_hashes :: "byte list \<Rightarrow> string + hash list"
  x_cbor_chunk :: "byte list \<Rightarrow> string + recorded_chunk"
  x_cbor_response :: "byte list \<Rightarrow> string + recorded_response"
  x_cbor_args :: "json \<Rightarrow> string + byte list"
  x_cbor_output :: "byte list \<Rightarrow> tool_output option"
  x_cbor_config :: "byte list \<Rightarrow> string + agent_config"
  x_utf8_error :: "byte list \<Rightarrow> string"
  x_epoch :: datetime

record replay_store =
  st_get :: "hash \<Rightarrow> journal_error + byte list option"
  st_contains :: "hash \<Rightarrow> journal_error + bool"
  st_algorithm :: hash_algorithm

section \<open>Comparison of two histories\<close>

fun kind_name :: "event_kind \<Rightarrow> string" where
  "kind_name (SessionStart _ _) = ''SessionStart''"
| "kind_name (UserTurn _) = ''UserTurn''"
| "kind_name (ProviderCall _ _ _) = ''ProviderCall''"
| "kind_name (ToolCall _ _ _ _) = ''ToolCall''"
| "kind_name (RetrievalCall _ _ _) = ''RetrievalCall''"
| "kind_name (PermissionGate _ _ _) = ''PermissionGate''"
| "kind_name (AssistantTurn _ _) = ''AssistantTurn''"
| "kind_name (SessionEnd _) = ''SessionEnd''"

text \<open>A divergence of the given kind when the values differ.\<close>

definition differ ::
    "u64 \<Rightarrow> replay_divergence_kind \<Rightarrow> string \<Rightarrow> ('a \<Rightarrow> string) \<Rightarrow> 'a \<Rightarrow> 'a \<Rightarrow> replay_divergence list" where
  "differ seq k field show0 a b =
     (if a = b then [] else [rdiv (Some seq) k (field @ ''='' @ show0 a) (field @ ''='' @ show0 b)])"

definition compare_hash_field ::
    "'x replay_ext_scheme \<Rightarrow> u64 \<Rightarrow> string \<Rightarrow> hash \<Rightarrow> hash \<Rightarrow> replay_divergence list" where
  "compare_hash_field X seq field a b = differ seq RdContentReferenceMismatch field (to_hex X) a b"

definition final_response_hash :: "attempt_record list \<Rightarrow> hash option" where
  "final_response_hash atts = (if atts = [] then None else at_response_hash (last atts))"

definition compare_event_pair :: "'x replay_ext_scheme \<Rightarrow> event \<Rightarrow> event \<Rightarrow> replay_divergence list" where
  "compare_event_pair X source replay =
     (let seq = ev_sequence source; C = RdContentReferenceMismatch; opt = x_debug_opt_hash X in
      if kind_name (ev_kind source) \<noteq> kind_name (ev_kind replay)
      then [rdiv (Some seq) RdEventKindMismatch (kind_name (ev_kind source)) (kind_name (ev_kind replay))]
      else
        case (ev_kind source, ev_kind replay) of
          (SessionStart c1 _, SessionStart c2 _) \<Rightarrow> compare_hash_field X seq ''SessionStart.cwd_hash'' c1 c2
        | (UserTurn p1, UserTurn p2) \<Rightarrow> compare_hash_field X seq ''UserTurn.prompt_hash'' p1 p2
        | (ProviderCall i1 t1 s1, ProviderCall i2 t2 s2) \<Rightarrow>
            differ seq C ''ProviderCall.provider_id'' (\<lambda>s. s) i1 i2
            @ differ seq RdAssistantContentMismatch ''ProviderCall.final_response_hash'' opt
                (final_response_hash t1) (final_response_hash t2)
            @ differ seq RdAssistantContentMismatch ''ProviderCall.stream_hash'' opt s1 s2
        | (ToolCall i1 n1 o1 e1, ToolCall i2 n2 o2 e2) \<Rightarrow>
            differ seq C ''ToolCall.tool_id'' (\<lambda>s. s) i1 i2
            @ compare_hash_field X seq ''ToolCall.input_hash'' n1 n2
            @ differ seq RdToolOutputMismatch ''ToolCall.output_hash'' (to_hex X) o1 o2
            @ differ seq C ''ToolCall.side_effects_hash'' opt e1 e2
        | (RetrievalCall i1 q1 r1, RetrievalCall i2 q2 r2) \<Rightarrow>
            differ seq C ''RetrievalCall.index_id'' (\<lambda>s. s) i1 i2
            @ compare_hash_field X seq ''RetrievalCall.query_hash'' q1 q2
            @ compare_hash_field X seq ''RetrievalCall.results_hash'' r1 r2
        | (PermissionGate p1 d1 c1, PermissionGate p2 d2 c2) \<Rightarrow>
            differ seq RdPermissionGateDecisionMismatch ''PermissionGate.decision'' (\<lambda>s. s) d1 d2
            @ differ seq C ''PermissionGate.policy_id'' (\<lambda>s. s) p1 p2
            @ compare_hash_field X seq ''PermissionGate.context_hash'' c1 c2
        | (AssistantTurn m1 t1, AssistantTurn m2 t2) \<Rightarrow>
            differ seq RdAssistantContentMismatch ''AssistantTurn.message_hash'' (to_hex X) m1 m2
            @ differ seq C ''AssistantTurn.tool_calls_hash'' opt t1 t2
        | (SessionEnd s1, SessionEnd s2) \<Rightarrow> differ seq C ''SessionEnd.summary_hash'' opt s1 s2
        | _ \<Rightarrow> [])"

definition attempt_label :: "nat \<Rightarrow> string \<Rightarrow> string" where
  "attempt_label idx field = ''attempt['' @ show_nat idx @ ''].'' @ field"

definition compare_attempt_fields ::
    "'x replay_ext_scheme \<Rightarrow> u64 \<Rightarrow> nat \<Rightarrow> attempt_record \<Rightarrow> attempt_record \<Rightarrow> replay_divergence list" where
  "compare_attempt_fields X seq idx source replay =
     differ seq RdAttemptStatusDivergence (attempt_label idx ''status'') (x_debug_status X) (at_status source) (at_status replay)
     @ differ seq RdAssistantContentMismatch (attempt_label idx ''response_hash'') (x_debug_opt_hash X)
         (at_response_hash source) (at_response_hash replay)
     @ differ seq RdAssistantContentMismatch (attempt_label idx ''stream_hash'') (x_debug_opt_hash X)
         (at_stream_hash source) (at_stream_hash replay)"

fun compare_all_attempts ::
    "'x replay_ext_scheme \<Rightarrow> u64 \<Rightarrow> nat \<Rightarrow> attempt_record list \<Rightarrow> attempt_record list \<Rightarrow> replay_divergence list" where
  "compare_all_attempts X seq idx (a # as) (b # bs) =
     compare_attempt_fields X seq idx a b @ compare_all_attempts X seq (Suc idx) as bs"
| "compare_all_attempts X seq idx _ _ = []"

definition compare_event_pair_strict :: "'x replay_ext_scheme \<Rightarrow> event \<Rightarrow> event \<Rightarrow> replay_divergence list" where
  "compare_event_pair_strict X source replay =
     (let seq = ev_sequence source in
      if kind_name (ev_kind source) \<noteq> kind_name (ev_kind replay)
      then [rdiv (Some seq) RdEventKindMismatch (kind_name (ev_kind source)) (kind_name (ev_kind replay))]
      else
        case (ev_kind source, ev_kind replay) of
          (ProviderCall i1 t1 s1, ProviderCall i2 t2 s2) \<Rightarrow>
            differ seq RdContentReferenceMismatch ''ProviderCall.provider_id'' (\<lambda>s. s) i1 i2
            @ differ seq RdAttemptCountDivergence ''ProviderCall.attempt_count'' show_nat (length t1) (length t2)
            @ compare_all_attempts X seq 0 t1 t2
            @ differ seq RdAssistantContentMismatch ''ProviderCall.stream_hash'' (x_debug_opt_hash X) s1 s2
        | _ \<Rightarrow> compare_event_pair X source replay)"

text \<open>The projection of an event.\<close>

definition project_attempt :: "'x replay_ext_scheme \<Rightarrow> attempt_record \<Rightarrow> attempt_projection" where
  "project_attempt X a =
     \<lparr>ap_attempt_number = at_attempt_number a, ap_started_at_unix_s = x_unix_timestamp X (at_started_at a),
      ap_ended_at_unix_s = x_unix_timestamp X (at_ended_at a), ap_status = at_status a,
      ap_request_hash = at_request_hash a, ap_response_hash = at_response_hash a,
      ap_stream_hash = at_stream_hash a, ap_error_message = at_error_message a\<rparr>"

fun project_kind :: "'x replay_ext_scheme \<Rightarrow> event_kind \<Rightarrow> event_projection" where
  "project_kind X (SessionStart cwd _) = PSessionStart cwd"
| "project_kind X (UserTurn p) = PUserTurn p"
| "project_kind X (ProviderCall i t s) = PProviderCall i (map (project_attempt X) t) s"
| "project_kind X (ToolCall i n q e) = PToolCall i n q e"
| "project_kind X (RetrievalCall i q r) = PRetrievalCall i q r"
| "project_kind X (PermissionGate p d c) = PPermissionGate p d c"
| "project_kind X (AssistantTurn m t) = PAssistantTurn m t"
| "project_kind X (SessionEnd s) = PSessionEnd s"

definition normalize_event_timestamps :: "'x replay_ext_scheme \<Rightarrow> event \<Rightarrow> event" where
  "normalize_event_timestamps X e =
     e\<lparr>ev_emitted_at := x_epoch X,
       ev_kind := (case ev_kind e of
           ProviderCall i t s \<Rightarrow>
             ProviderCall i (map (\<lambda>a. a\<lparr>at_started_at := x_epoch X, at_ended_at := x_epoch X\<rparr>) t) s
         | k \<Rightarrow> k)\<rparr>"

definition projection_hash :: "'x replay_ext_scheme \<Rightarrow> event \<Rightarrow> hash_algorithm \<Rightarrow> hash" where
  "projection_hash X e a =
     digest_bytes X a (x_cbor_projection X (project_kind X (ev_kind (normalize_event_timestamps X e))))"

definition projection_algorithm :: "event \<Rightarrow> event \<Rightarrow> hash_algorithm" where
  "projection_algorithm source replay =
     (case referenced_object_hashes_for_kind (ev_kind source) @ referenced_object_hashes_for_kind (ev_kind replay) of
        h # _ \<Rightarrow> h_algorithm h | [] \<Rightarrow> Sha256)"

text \<open>The events of the longer history, and the counts.\<close>

definition compare_lengths ::
    "(hash \<times> event) list \<Rightarrow> (hash \<times> event) list \<Rightarrow> replay_divergence list" where
  "compare_lengths src rep =
     (let n = min (length src) (length rep) in
      map (\<lambda>(h, e). rdiv (Some (ev_sequence e)) RdMissingReplayEvent
             (''event at source seq '' @ show_nat (unat (ev_sequence e))) ''replay history ended before this event'')
        (drop n src)
      @ map (\<lambda>(h, e). rdiv (Some (ev_sequence e)) RdUnexpectedReplayEvent ''no additional replay events''
             (''unexpected replay event at seq '' @ show_nat (unat (ev_sequence e)))) (drop n rep)
      @ (if length src \<noteq> length rep
         then [rdiv None RdEventCountMismatch (''source event_count='' @ show_nat (length src))
                 (''replay event_count='' @ show_nat (length rep))]
         else []))"

fun compare_pairs ::
    "(event \<Rightarrow> event \<Rightarrow> replay_divergence list) \<Rightarrow> (hash \<times> event) list \<Rightarrow> (hash \<times> event) list
     \<Rightarrow> replay_divergence list" where
  "compare_pairs cmp ((_, a) # as) ((_, b) # bs) = cmp a b @ compare_pairs cmp as bs"
| "compare_pairs cmp _ _ = []"

definition compare_default_mode ::
    "'x replay_ext_scheme \<Rightarrow> (hash \<times> event) list \<Rightarrow> (hash \<times> event) list \<Rightarrow> replay_divergence list" where
  "compare_default_mode X src rep = compare_pairs (compare_event_pair X) src rep @ compare_lengths src rep"

definition compare_projected :: "'x replay_ext_scheme \<Rightarrow> event \<Rightarrow> event \<Rightarrow> replay_divergence list" where
  "compare_projected X a b =
     (let alg = projection_algorithm a b in
      if projection_hash X a alg \<noteq> projection_hash X b alg then compare_event_pair_strict X a b else [])"

definition compare_strict_mode ::
    "'x replay_ext_scheme \<Rightarrow> (hash \<times> event) list \<Rightarrow> (hash \<times> event) list \<Rightarrow> replay_divergence list" where
  "compare_strict_mode X src rep = compare_pairs (compare_projected X) src rep @ compare_lengths src rep"

end
