(* ===== verification/Replay_Engine.thy ===== *)
theory Replay_Engine
  imports Replay "HOL-Library.List_Lexorder" "HOL-Library.Char_ord"
begin

text \<open>
  Setting up and driving a replay (\<open>akmon-replay/src/engine.rs\<close>, \<open>provider.rs\<close>, \<open>tool.rs\<close>,
  \<open>report.rs\<close>): the preconditions of the source, the playback of providers and tools, the recorded
  prompts, the run of the prompts through the agent and the report.
\<close>

section \<open>The source\<close>

record replay_source =
  sr_session_id :: "byte list"
  sr_store :: replay_store
  sr_history :: "(hash \<times> event) list"
  sr_journal_dir :: "string option"

record replay_config =
  rf_mode :: replay_mode
  rf_persist :: bool
  rf_persist_dir :: "string option"

text \<open>\<open>load_source_session_from_journal\<close>.\<close>

definition load_replay_source ::
    "'x replay_ext_scheme \<Rightarrow> ('db, 'r) graph_api_scheme \<Rightarrow> string + 'db \<Rightarrow> string \<Rightarrow> byte list
     \<Rightarrow> replay_error + replay_source" where
  "load_replay_source X R opened dir sid =
     res_bind (map_err (\<lambda>e. MalformedSourceEvent 0 (jerr_text X e)) (open_journal_read_only R opened sid)) (\<lambda>g.
     res_bind (map_err (\<lambda>e. MalformedSourceEvent 0 (jerr_text X e)) (redb_history R g)) (\<lambda>history.
     Inr \<lparr>sr_session_id = sid,
          sr_store = \<lparr>st_get = redb_get R (rg_store g), st_contains = redb_contains R (rg_store g),
                      st_algorithm = rs_algorithm (rg_store g)\<rparr>,
          sr_history = history, sr_journal_dir = Some dir\<rparr>))"

text \<open>\<open>same\<close> is \<open>same_journal_dir\<close> of the journal crate.\<close>

definition validate_persist_target ::
    "(string \<Rightarrow> string \<Rightarrow> bool) \<Rightarrow> replay_source \<Rightarrow> replay_config \<Rightarrow> replay_error + unit" where
  "validate_persist_target same S C =
     (if \<not> rf_persist C then Inr ()
      else
        case (rf_persist_dir C, sr_journal_dir S) of
          (Some p, Some d) \<Rightarrow>
            if same p d
            then Inl (PersistConfigInvalid (''persist target '' @ p
                   @ '' is the source journal; choose a different --persist-to directory''))
            else Inr ()
        | _ \<Rightarrow> Inr ())"

definition ensure_present :: "'x replay_ext_scheme \<Rightarrow> replay_store \<Rightarrow> hash \<Rightarrow> replay_error + unit" where
  "ensure_present X st h =
     (case st_contains st h of
        Inr True \<Rightarrow> Inr ()
      | Inr False \<Rightarrow> Inl (MissingSourceObject h)
      | Inl e \<Rightarrow> Inl (StoreReadFailed h (jerr_text X e)))"

fun ensure_all_present :: "'x replay_ext_scheme \<Rightarrow> replay_store \<Rightarrow> hash list \<Rightarrow> replay_error + unit" where
  "ensure_all_present X st [] = Inr ()"
| "ensure_all_present X st (h # hs) = res_bind (ensure_present X st h) (\<lambda>_. ensure_all_present X st hs)"

definition end_sequences :: "(hash \<times> event) list \<Rightarrow> u64 list" where
  "end_sequences history = map (\<lambda>(h, e). ev_sequence e) (filter (\<lambda>(h, e). is_session_end (ev_kind e)) history)"

definition referenced_objects :: "(hash \<times> event) list \<Rightarrow> hash list" where
  "referenced_objects history = concat (map (\<lambda>(h, e). referenced_object_hashes_for_kind (ev_kind e)) history)"

definition validate_replay_source ::
    "'x replay_ext_scheme \<Rightarrow> replay_store \<Rightarrow> (hash \<times> event) list \<Rightarrow> replay_error + unit" where
  "validate_replay_source X st history =
     (case history of
        [] \<Rightarrow> Inl EmptySource
      | (_, first) # _ \<Rightarrow>
          (let ends = end_sequences history in
           if \<not> is_session_start (ev_kind first)
           then Inl (MalformedSourceEvent (ev_sequence first) ''first event must be SessionStart'')
           else if length ends \<noteq> 1
           then Inl (MalformedSourceEvent 0
                  (''source must contain exactly one SessionEnd (found '' @ show_nat (length ends) @ '')''))
           else if hd ends \<noteq> ev_sequence (snd (last history))
           then Inl (MalformedSourceEvent (hd ends) ''SessionEnd must be terminal'')
           else ensure_all_present X st (referenced_objects history)))"

section \<open>Playback of a provider\<close>

record recorded_call =
  rl_event_seq :: u64
  rl_attempts :: "attempt_record list"

record playback_provider =
  pv_calls :: "recorded_call list"
  pv_mode :: replay_mode
  pv_id :: string
  pv_cursor :: nat

fun provider_calls ::
    "'x replay_ext_scheme \<Rightarrow> replay_store \<Rightarrow> string \<Rightarrow> (hash \<times> event) list \<Rightarrow> replay_error + recorded_call list" where
  "provider_calls X st pid [] = Inr []"
| "provider_calls X st pid ((_, e) # es) =
     (case ev_kind e of
        ProviderCall i atts _ \<Rightarrow>
          if i \<noteq> pid then provider_calls X st pid es
          else if atts = [] then Inl (MalformedSourceEvent (ev_sequence e) ''ProviderCall has empty attempts'')
          else
            res_bind (ensure_all_present X st (concat (map attempt_object_hashes atts))) (\<lambda>_.
            res_bind (provider_calls X st pid es) (\<lambda>cs.
            Inr (\<lparr>rl_event_seq = ev_sequence e, rl_attempts = atts\<rparr> # cs)))
      | _ \<Rightarrow> provider_calls X st pid es)"

definition provider_from_history ::
    "'x replay_ext_scheme \<Rightarrow> replay_store \<Rightarrow> replay_mode \<Rightarrow> string \<Rightarrow> (hash \<times> event) list
     \<Rightarrow> replay_error + playback_provider" where
  "provider_from_history X st mode pid events =
     (if events = [] then Inl EmptySource
      else
        res_bind (provider_calls X st pid events) (\<lambda>cs.
        if cs = [] then Inl (NoMatchingCalls pid)
        else Inr \<lparr>pv_calls = cs, pv_mode = mode, pv_id = pid, pv_cursor = 0\<rparr>))"

definition provider_remaining :: "playback_provider \<Rightarrow> nat" where
  "provider_remaining p = length (pv_calls p) - pv_cursor p"

definition parse_stop_reason :: "string option \<Rightarrow> stop_reason" where
  "parse_stop_reason v =
     (if v = Some ''max_tokens'' then MaxTokens else if v = Some ''tool_use'' then ToolUse else EndTurn)"

definition stream_event_from_chunk :: "recorded_chunk \<Rightarrow> stream_event" where
  "stream_event_from_chunk c =
     (let text_or = (\<lambda>m. case m of Some s \<Rightarrow> s | None \<Rightarrow> []) in
      if rk_kind c = ''provider_ready'' then SeProviderReady (text_or (rk_provider c)) (text_or (rk_model c))
      else if rk_kind c = ''status_hint'' then SeStatusHint (text_or (rk_message c))
      else if rk_kind c = ''text_delta'' then SeTextDelta (text_or (rk_text c))
      else if rk_kind c = ''done''
      then SeDone (parse_stop_reason (rk_stop_reason c)) (case rk_tool_calls c of Some cs \<Rightarrow> cs | None \<Rightarrow> [])
      else if rk_kind c = ''usage_report''
      then (case rk_usage c of Some (a, b, x, y) \<Rightarrow> SeUsageReport a b x y | None \<Rightarrow> SeUsageReport 0 0 0 0)
      else if rk_kind c = ''error''
      then SeError (StreamInterrupted (case rk_message c of Some m \<Rightarrow> m | None \<Rightarrow> ''replayed stream error''))
      else SeError (StreamInterrupted (''unknown replay stream chunk kind: '' @ rk_kind c)))"

definition unavailable :: "string \<Rightarrow> model_error + 'a" where
  "unavailable m = Inl (BackendUnavailable m)"

text \<open>Reading an object of the source for the model's stream.\<close>

definition read_for_stream ::
    "'x replay_ext_scheme \<Rightarrow> replay_store \<Rightarrow> string \<Rightarrow> string \<Rightarrow> hash \<Rightarrow> model_error + byte list" where
  "read_for_stream X st failed missing h =
     (case st_get st h of
        Inl e \<Rightarrow> unavailable (failed @ jerr_text X e)
      | Inr None \<Rightarrow> unavailable (missing @ to_hex X h)
      | Inr (Some bytes) \<Rightarrow> Inr bytes)"

definition decode_or :: "string \<Rightarrow> string + 'a \<Rightarrow> model_error + 'a" where
  "decode_or failed r = (case r of Inl e \<Rightarrow> unavailable (failed @ e) | Inr v \<Rightarrow> Inr v)"

fun read_chunks :: "'x replay_ext_scheme \<Rightarrow> replay_store \<Rightarrow> hash list \<Rightarrow> model_error + stream_event list" where
  "read_chunks X st [] = Inr []"
| "read_chunks X st (h # hs) =
     res_bind (read_for_stream X st ''replay stream chunk read failed: '' ''replay stream chunk missing: '' h) (\<lambda>bytes.
     res_bind (decode_or ''replay stream chunk decode failed: '' (x_cbor_chunk X bytes)) (\<lambda>c.
     res_bind (read_chunks X st hs) (\<lambda>rest.
     Inr (stream_event_from_chunk c # rest))))"

definition read_response :: "'x replay_ext_scheme \<Rightarrow> replay_store \<Rightarrow> attempt_record \<Rightarrow> model_error + recorded_response" where
  "read_response X st a =
     (case at_response_hash a of
        None \<Rightarrow> Inr \<lparr>rr_text = [], rr_tool_calls = [], rr_stop_reason = Some ''end_turn''\<rparr>
      | Some h \<Rightarrow>
          res_bind (read_for_stream X st ''replay response read failed: '' ''replay response object missing: '' h) (\<lambda>bytes.
          decode_or ''replay response decode failed: '' (x_cbor_response X bytes)))"

definition replay_stream_for_attempt ::
    "'x replay_ext_scheme \<Rightarrow> replay_store \<Rightarrow> attempt_record \<Rightarrow> model_error + stream_event list" where
  "replay_stream_for_attempt X st a =
     (case at_stream_hash a of
        Some h \<Rightarrow>
          res_bind (read_for_stream X st ''replay stream read failed: '' ''replay stream object missing: '' h) (\<lambda>bytes.
          res_bind (decode_or ''replay stream chunk list decode failed: '' (x_cbor_hashes X bytes)) (\<lambda>hs.
          read_chunks X st hs))
      | None \<Rightarrow>
          if at_response_hash a = None then Inr []
          else
            res_bind (read_response X st a) (\<lambda>r.
            Inr ((if rr_text r = [] then [] else [SeTextDelta (rr_text r)])
                 @ [SeDone (parse_stop_reason (rr_stop_reason r)) (rr_tool_calls r)])))"

fun replay_streams ::
    "'x replay_ext_scheme \<Rightarrow> replay_store \<Rightarrow> attempt_record list \<Rightarrow> model_error + stream_event list" where
  "replay_streams X st [] = Inr []"
| "replay_streams X st (a # as) =
     res_bind (replay_stream_for_attempt X st a) (\<lambda>es.
     res_bind (replay_streams X st as) (\<lambda>rest. Inr (es @ rest)))"

text \<open>The length of the attempts is compared with itself, as in the code.\<close>

definition check_attempt_count :: "replay_mode \<Rightarrow> recorded_call \<Rightarrow> replay_divergence list" where
  "check_attempt_count mode call =
     (let expected_len = length (rl_attempts call); actual_len = length (rl_attempts call) in
      if mode = ModeStrict \<and> expected_len \<noteq> actual_len
      then [rdiv (Some (rl_event_seq call)) RdAttemptCountDivergence (show_nat expected_len) (show_nat actual_len)]
      else [])"

definition no_call_left :: replay_divergence where
  "no_call_left = rdiv None RdProviderCallUnexpected ''recorded provider call available''
     ''provider called after recorded sequence exhausted''"

definition answer_call ::
    "'x replay_ext_scheme \<Rightarrow> replay_store \<Rightarrow> replay_mode \<Rightarrow> recorded_call
     \<Rightarrow> replay_divergence list \<times> (model_error + completion_stream)" where
  "answer_call X st mode call =
     (let counted = check_attempt_count mode call in
      case find (\<lambda>a. at_status a = Success) (rl_attempts call) of
        None \<Rightarrow>
          (counted @ [rdiv (Some (rl_event_seq call)) RdAttemptStatusDivergence ''at least one Success attempt''
             ''no Success attempt found''],
           unavailable ''recorded provider call has no successful attempt'')
      | Some success \<Rightarrow>
          (counted,
           res_bind (replay_streams X st (if mode = ModeStrict then rl_attempts call else [success])) (\<lambda>es.
           Inr (map Inr es))))"

definition playback_complete ::
    "'x replay_ext_scheme \<Rightarrow> replay_store \<Rightarrow> playback_provider
     \<Rightarrow> playback_provider \<times> replay_divergence list \<times> (model_error + completion_stream)" where
  "playback_complete X st p =
     (if pv_cursor p < length (pv_calls p)
      then
        let (ds, r) = answer_call X st (pv_mode p) (pv_calls p ! pv_cursor p) in
        (p\<lparr>pv_cursor := Suc (pv_cursor p)\<rparr>, ds, r)
      else (p, [no_call_left], Inr [Inr (SeDone EndTurn [])]))"

section \<open>Playback of a tool\<close>

record recorded_tool_call =
  tl_event_seq :: u64
  tl_input_hash :: hash
  tl_output_hash :: hash
  tl_side_effects :: "hash option"

record playback_tool =
  pt_calls :: "recorded_tool_call list"
  pt_mode :: replay_mode
  pt_id :: string
  pt_cursor :: nat

fun tool_calls_of ::
    "'x replay_ext_scheme \<Rightarrow> replay_store \<Rightarrow> string \<Rightarrow> (hash \<times> event) list \<Rightarrow> replay_error + recorded_tool_call list" where
  "tool_calls_of X st tid [] = Inr []"
| "tool_calls_of X st tid ((_, e) # es) =
     (case ev_kind e of
        ToolCall i inp out eff \<Rightarrow>
          if i \<noteq> tid then tool_calls_of X st tid es
          else
            res_bind (ensure_all_present X st (inp # out # opt_list eff)) (\<lambda>_.
            res_bind (tool_calls_of X st tid es) (\<lambda>cs.
            Inr (\<lparr>tl_event_seq = ev_sequence e, tl_input_hash = inp, tl_output_hash = out, tl_side_effects = eff\<rparr> # cs)))
      | _ \<Rightarrow> tool_calls_of X st tid es)"

definition tool_from_history ::
    "'x replay_ext_scheme \<Rightarrow> replay_store \<Rightarrow> replay_mode \<Rightarrow> string \<Rightarrow> (hash \<times> event) list
     \<Rightarrow> replay_error + playback_tool" where
  "tool_from_history X st mode tid events =
     (if events = [] then Inl EmptySource
      else
        res_bind (tool_calls_of X st tid events) (\<lambda>cs.
        if cs = [] then Inl (NoMatchingCalls tid)
        else Inr \<lparr>pt_calls = cs, pt_mode = mode, pt_id = tid, pt_cursor = 0\<rparr>))"

definition replay_input_hash :: "'x replay_ext_scheme \<Rightarrow> replay_store \<Rightarrow> json \<Rightarrow> string + hash" where
  "replay_input_hash X st args =
     (case x_cbor_args X args of
        Inl e \<Rightarrow> Inl (''replay tool input encode failed: '' @ e)
      | Inr bytes \<Rightarrow> Inr (digest_bytes X (st_algorithm st) bytes))"

definition read_output :: "'x replay_ext_scheme \<Rightarrow> replay_store \<Rightarrow> hash \<Rightarrow> tool_output option" where
  "read_output X st h =
     (case st_get st h of Inr (Some bytes) \<Rightarrow> x_cbor_output X bytes | _ \<Rightarrow> None)"

definition answer_tool ::
    "'x replay_ext_scheme \<Rightarrow> replay_store \<Rightarrow> replay_mode \<Rightarrow> recorded_tool_call \<Rightarrow> json
     \<Rightarrow> replay_divergence list \<times> tool_output" where
  "answer_tool X st mode call args =
     (let recorded = (case read_output X st (tl_output_hash call) of
            Some out \<Rightarrow> out | None \<Rightarrow> OutError NotFound ''recorded tool output missing'') in
      case replay_input_hash X st args of
        Inl m \<Rightarrow> ([], OutError InvalidArgs m)
      | Inr h \<Rightarrow>
          if h = tl_input_hash call then ([], recorded)
          else
            ([rdiv (Some (tl_event_seq call)) RdToolInputMismatch (to_hex X (tl_input_hash call)) (to_hex X h)],
             if mode = ModeStrict then OutError InvalidArgs ''strict replay: tool input mismatch'' else recorded))"

definition playback_execute ::
    "'x replay_ext_scheme \<Rightarrow> replay_store \<Rightarrow> playback_tool \<Rightarrow> json
     \<Rightarrow> playback_tool \<times> replay_divergence list \<times> tool_output" where
  "playback_execute X st p args =
     (if pt_cursor p < length (pt_calls p)
      then
        let (ds, out) = answer_tool X st (pt_mode p) (pt_calls p ! pt_cursor p) args in
        (p\<lparr>pt_cursor := Suc (pt_cursor p)\<rparr>, ds, out)
      else
        (p, [rdiv None RdToolCallUnexpected ''recorded tool call available''
               ''tool called after recorded sequence exhausted''],
         OutError InvalidArgs ''replay tool cursor exhausted''))"

text \<open>What the agent sees of a playback tool: its name, no required permission, no MCP context, and the
  default validation, which accepts every argument.\<close>

definition playback_tool_info :: "playback_tool \<Rightarrow> tool_info" where
  "playback_tool_info p =
     \<lparr>ti_name = pt_id p, ti_required_permissions = [], ti_mcp_context = None,
      ti_validate_arguments = (\<lambda>_. Inr ())\<rparr>"

section \<open>The engine\<close>

record source_index =
  si_user_prompts :: "string list"
  si_config_hash :: hash
  si_cwd :: string

text \<open>Reading the text of a source object for the event with the given sequence.\<close>

definition read_source_text ::
    "'x replay_ext_scheme \<Rightarrow> replay_store \<Rightarrow> u64 \<Rightarrow> string \<Rightarrow> hash \<Rightarrow> replay_error + string" where
  "read_source_text X st seq what h =
     (case st_get st h of
        Inl e \<Rightarrow> Inl (StoreReadFailed h (jerr_text X e))
      | Inr None \<Rightarrow> Inl (MissingSourceObject h)
      | Inr (Some bytes) \<Rightarrow>
          (case from_utf8 bytes of
             Some s \<Rightarrow> Inr s
           | None \<Rightarrow> Inl (MalformedSourceEvent seq (what @ '' bytes are not UTF-8: '' @ x_utf8_error X bytes))))"

text \<open>The scan of the history: the first configuration hash and working directory, and the prompts.\<close>

record scan_state =
  sn_config :: "hash option"
  sn_cwd :: "string option"
  sn_prompts :: "string list"

fun scan_source ::
    "'x replay_ext_scheme \<Rightarrow> replay_store \<Rightarrow> scan_state \<Rightarrow> (hash \<times> event) list \<Rightarrow> replay_error + scan_state" where
  "scan_source X st n [] = Inr n"
| "scan_source X st n ((_, e) # es) =
     (case ev_kind e of
        SessionStart cwd cfg \<Rightarrow>
          (let n1 = (if sn_config n = None then n\<lparr>sn_config := Some cfg\<rparr> else n) in
           if sn_cwd n1 = None
           then res_bind (read_source_text X st (ev_sequence e) ''SessionStart cwd'' cwd) (\<lambda>s.
                scan_source X st (n1\<lparr>sn_cwd := Some s\<rparr>) es)
           else scan_source X st n1 es)
      | UserTurn prompt \<Rightarrow>
          res_bind (read_source_text X st (ev_sequence e) ''UserTurn prompt'' prompt) (\<lambda>s.
          scan_source X st (n\<lparr>sn_prompts := sn_prompts n @ [s]\<rparr>) es)
      | _ \<Rightarrow> scan_source X st n es)"

fun provider_id_of :: "event_kind \<Rightarrow> string option" where
  "provider_id_of (ProviderCall i _ _) = Some i"
| "provider_id_of _ = None"

fun tool_id_of :: "event_kind \<Rightarrow> string option" where
  "tool_id_of (ToolCall i _ _ _) = Some i"
| "tool_id_of _ = None"

text \<open>A \<open>BTreeSet\<close> of the identifiers.\<close>

definition ids_of :: "(event_kind \<Rightarrow> string option) \<Rightarrow> (hash \<times> event) list \<Rightarrow> string list" where
  "ids_of f history = sort (remdups (List.map_filter (\<lambda>(h, e). f (ev_kind e)) history))"

text \<open>Building one playback for every identifier; an error other than \<open>NoMatchingCalls\<close> is kept.\<close>

fun build_all ::
    "(string \<Rightarrow> replay_error) \<Rightarrow> (string \<Rightarrow> replay_error + 'p) \<Rightarrow> string list \<Rightarrow> replay_error + (string \<times> 'p) list" where
  "build_all miss mk [] = Inr []"
| "build_all miss mk (i # is) =
     res_bind (map_err (\<lambda>e. case e of NoMatchingCalls _ \<Rightarrow> miss i | other \<Rightarrow> other) (mk i)) (\<lambda>p.
     res_bind (build_all miss mk is) (\<lambda>ps. Inr ((i, p) # ps)))"

definition build_playback_maps ::
    "'x replay_ext_scheme \<Rightarrow> replay_store \<Rightarrow> replay_mode \<Rightarrow> (hash \<times> event) list
     \<Rightarrow> replay_error + (string \<times> playback_provider) list \<times> (string \<times> playback_tool) list \<times> source_index" where
  "build_playback_maps X st mode history =
     res_bind (scan_source X st \<lparr>sn_config = None, sn_cwd = None, sn_prompts = []\<rparr> history) (\<lambda>n.
     case sn_config n of
       None \<Rightarrow> Inl (MalformedSourceEvent 0 ''SessionStart with config_hash is required'')
     | Some cfg \<Rightarrow>
         (case sn_cwd n of
            None \<Rightarrow> Inl (MalformedSourceEvent 0 ''SessionStart with cwd_hash is required'')
          | Some cwd \<Rightarrow>
              res_bind (build_all MissingProviderForReplay (\<lambda>i. provider_from_history X st mode i history)
                          (ids_of provider_id_of history)) (\<lambda>ps.
              res_bind (build_all MissingToolForReplay (\<lambda>i. tool_from_history X st mode i history)
                          (ids_of tool_id_of history)) (\<lambda>ts.
              Inr (ps, ts, \<lparr>si_user_prompts = sn_prompts n, si_config_hash = cfg, si_cwd = cwd\<rparr>)))))"

definition reconstruct_agent_config ::
    "'x replay_ext_scheme \<Rightarrow> replay_store \<Rightarrow> hash \<Rightarrow> replay_error + agent_config" where
  "reconstruct_agent_config X st h =
     (case st_get st h of
        Inl e \<Rightarrow> Inl (StoreReadFailed h (jerr_text X e))
      | Inr None \<Rightarrow> Inl (MissingSourceObject h)
      | Inr (Some bytes) \<Rightarrow> map_err (MalformedSourceConfig h) (x_cbor_config X bytes))"

record replay_engine =
  re_source :: replay_source
  re_config :: replay_config
  re_providers :: "(string \<times> playback_provider) list"
  re_tools :: "(string \<times> playback_tool) list"
  re_agent_config :: agent_config
  re_index :: source_index

definition replay_engine_new ::
    "'x replay_ext_scheme \<Rightarrow> (string \<Rightarrow> string \<Rightarrow> bool) \<Rightarrow> replay_source \<Rightarrow> replay_config
     \<Rightarrow> replay_error + replay_engine" where
  "replay_engine_new X same S C =
     res_bind (validate_persist_target same S C) (\<lambda>_.
     res_bind (validate_replay_source X (sr_store S) (sr_history S)) (\<lambda>_.
     res_bind (build_playback_maps X (sr_store S) (rf_mode C) (sr_history S)) (\<lambda>(ps, ts, index).
     res_bind (reconstruct_agent_config X (sr_store S) (si_config_hash index)) (\<lambda>cfg.
     Inr \<lparr>re_source = S, re_config = C, re_providers = ps, re_tools = ts, re_agent_config = cfg,
          re_index = index\<rparr>))))"

definition select_single_provider :: "replay_engine \<Rightarrow> replay_error + playback_provider" where
  "select_single_provider E =
     (case re_providers E of
        [(_, p)] \<Rightarrow> Inr p
      | ps \<Rightarrow> Inl (UnsupportedProviderMultiplicity (length ps)))"

section \<open>Driving the agent\<close>

text \<open>The n-th completion of a playback that starts at the first recorded call.\<close>

definition playback_nth ::
    "'x replay_ext_scheme \<Rightarrow> replay_store \<Rightarrow> playback_provider \<Rightarrow> nat \<Rightarrow> model_error + completion_stream" where
  "playback_nth X st p n = snd (snd (playback_complete X st (p\<lparr>pv_cursor := n\<rparr>)))"

text \<open>The session of a replay: the policy denies everything, the tools are the playbacks and the model is
  the provider's playback; \<open>base\<close> holds the other parameters of a run.\<close>

definition replay_env ::
    "'x replay_ext_scheme \<Rightarrow> replay_engine \<Rightarrow> playback_provider \<Rightarrow> ('c, 'p) run_env \<Rightarrow> ('c, 'p) run_env" where
  "replay_env X E p base =
     base\<lparr>ru_dispatch := (ru_dispatch base)\<lparr>de_mode := DenyAll, de_tools := map (playback_tool_info \<circ> snd) (re_tools E)\<rparr>,
          ru_provider := pv_id p, ru_model := pv_id p,
          ru_complete := (\<lambda>n _ _. playback_nth X (sr_store (re_source E)) p n),
          ru_interrupt := (\<lambda>_. False)\<rparr>"

text \<open>The loop over the recorded prompts; \<open>None\<close> is a run that does not end.\<close>

fun drive_prompts ::
    "('c, 'p) run_env \<Rightarrow> 'c run_state \<Rightarrow> string list \<Rightarrow> ('c run_state \<times> (replay_error + unit)) option" where
  "drive_prompts R s [] = Some (s, Inr ())"
| "drive_prompts R s (prompt # prompts) =
     (case agent_run R s prompt of
        None \<Rightarrow> None
      | Some (s1, Inl e) \<Rightarrow> Some (s1, Inl (SessionRunFailed (''run replay user turn: '' @ agent_error_to_string e)))
      | Some (s1, Inr _) \<Rightarrow> drive_prompts R s1 prompts)"

section \<open>The report\<close>

record replay_output =
  ro_source_session_id :: "byte list"
  ro_replay_session_id :: "byte list"
  ro_mode :: replay_mode
  ro_source_history :: "(hash \<times> event) list"
  ro_replay_history :: "(hash \<times> event) list"
  ro_divergences :: "replay_divergence list"
  ro_replay_persisted :: bool

definition replay_compare :: "'x replay_ext_scheme \<Rightarrow> replay_output \<Rightarrow> replay_divergence list" where
  "replay_compare X w =
     (case ro_mode w of
        ModeDefault \<Rightarrow> compare_default_mode X (ro_source_history w) (ro_replay_history w)
      | ModeStrict \<Rightarrow> compare_strict_mode X (ro_source_history w) (ro_replay_history w))"

record replay_report =
  rp_source_session_id :: string
  rp_source_head :: string
  rp_replay_session_id :: "string option"
  rp_mode :: string
  rp_events_compared :: nat
  rp_source_event_count :: nat
  rp_replay_event_count :: nat
  rp_primitive_divergence_count :: nat
  rp_engine_divergence_count :: nat
  rp_divergences :: "replay_divergence list"
  rp_passed :: bool

definition divergence_key :: "replay_divergence \<Rightarrow> u64" where
  "divergence_key d = (case rd_event_seq d of Some n \<Rightarrow> n | None \<Rightarrow> - 1)"

definition assemble_report :: "'x replay_ext_scheme \<Rightarrow> replay_output \<Rightarrow> replay_divergence list \<Rightarrow> replay_report" where
  "assemble_report X w engine =
     (let ds = sort_key divergence_key (ro_divergences w @ engine);
          ns = length (ro_source_history w); nr = length (ro_replay_history w) in
      \<lparr>rp_source_session_id = x_uuid_text X (ro_source_session_id w),
       rp_source_head = (if ro_source_history w = [] then [] else to_hex X (fst (last (ro_source_history w)))),
       rp_replay_session_id = (if ro_replay_persisted w then Some (x_uuid_text X (ro_replay_session_id w)) else None),
       rp_mode = (case ro_mode w of ModeDefault \<Rightarrow> ''default'' | ModeStrict \<Rightarrow> ''strict''),
       rp_events_compared = min ns nr, rp_source_event_count = ns, rp_replay_event_count = nr,
       rp_primitive_divergence_count = length (ro_divergences w),
       rp_engine_divergence_count = length engine,
       rp_divergences = ds, rp_passed = (ds = [])\<rparr>)"

definition replay_run_to_report :: "'x replay_ext_scheme \<Rightarrow> replay_output \<Rightarrow> replay_report" where
  "replay_run_to_report X w = assemble_report X w (replay_compare X w)"

text \<open>\<open>ReplayInfraError::from_replay_error\<close>: the category and the identifiers it names.\<close>

definition infra_error ::
    "'x replay_ext_scheme \<Rightarrow> replay_error \<Rightarrow> string \<times> string option \<times> string option \<times> string option" where
  "infra_error X e =
     (case e of
        EmptySource \<Rightarrow> (''empty_source'', None, None, None)
      | NoMatchingCalls _ \<Rightarrow> (''no_matching_calls'', None, None, None)
      | MissingSourceObject h \<Rightarrow> (''missing_source_object'', None, None, Some (to_hex X h))
      | MissingToolForReplay t \<Rightarrow> (''missing_tool_for_replay'', None, Some t, None)
      | MissingProviderForReplay p \<Rightarrow> (''missing_provider_for_replay'', Some p, None, None)
      | MalformedSourceEvent _ _ \<Rightarrow> (''malformed_source_event'', None, None, None)
      | MalformedSourceConfig _ _ \<Rightarrow> (''malformed_source_config'', None, None, None)
      | StoreReadFailed _ _ \<Rightarrow> (''store_read_failed'', None, None, None)
      | UnsupportedProviderMultiplicity _ \<Rightarrow> (''unsupported_provider_multiplicity'', None, None, None)
      | SessionRunFailed _ \<Rightarrow> (''session_run_failed'', None, None, None)
      | ReplaySessionMalformed _ \<Rightarrow> (''replay_session_malformed'', None, None, None)
      | PersistConfigInvalid _ \<Rightarrow> (''persist_config_invalid'', None, None, None)
      | PersistJournalNotWritable _ _ \<Rightarrow> (''persist_journal_not_writable'', None, None, None))"

definition replay_error_to_string :: "'x replay_ext_scheme \<Rightarrow> replay_error \<Rightarrow> string" where
  "replay_error_to_string X e =
     (case e of
        EmptySource \<Rightarrow> ''source event history is empty''
      | NoMatchingCalls i \<Rightarrow> ''source history contains no matching calls for '' @ tick @ i @ tick
      | MissingProviderForReplay p \<Rightarrow> ''missing provider for replay: '' @ p
      | MissingToolForReplay t \<Rightarrow> ''missing tool for replay: '' @ t
      | MissingSourceObject h \<Rightarrow> ''source object missing from store: '' @ to_hex X h
      | MalformedSourceEvent n r \<Rightarrow> ''malformed source event at sequence '' @ show_nat (unat n) @ '': '' @ r
      | MalformedSourceConfig h r \<Rightarrow> ''malformed source config at '' @ to_hex X h @ '': '' @ r
      | StoreReadFailed h r \<Rightarrow> ''object-store read failed for '' @ to_hex X h @ '': '' @ r
      | UnsupportedProviderMultiplicity n \<Rightarrow>
          ''replay provider multiplicity unsupported (count='' @ show_nat n @ '')''
      | SessionRunFailed r \<Rightarrow> ''replay session run failed: '' @ r
      | ReplaySessionMalformed r \<Rightarrow> ''replay session malformed: '' @ r
      | PersistConfigInvalid r \<Rightarrow> ''invalid replay persist configuration: '' @ r
      | PersistJournalNotWritable p r \<Rightarrow> ''persist journal not writable at '' @ p @ '': '' @ r)"

end
