(* ===== verification/Replay_Properties.thy ===== *)
theory Replay_Properties
  imports Replay_Engine Run_Examples Example_Env
begin

text \<open>What a replay verdict means: when the two comparison modes report nothing, what a playback returns,
  when the report passes, which sources are accepted, and what the replay's policy does to the tools.\<close>

section \<open>Comparison\<close>

lemma differ_Nil [simp]: "differ seq k f sh a b = [] \<longleftrightarrow> a = b"
  by (simp add: differ_def)

lemma compare_hash_Nil [simp]: "compare_hash_field X seq f a b = [] \<longleftrightarrow> a = b"
  by (simp add: compare_hash_field_def)

text \<open>Two events record the same outcome: the same kind with the same contents, except for the
  configuration of a start and, of a provider call, everything but the provider, the response of the
  last attempt and the stream.\<close>

fun same_outcome :: "event_kind \<Rightarrow> event_kind \<Rightarrow> bool" where
  "same_outcome (SessionStart c1 _) (SessionStart c2 _) = (c1 = c2)"
| "same_outcome (ProviderCall i1 t1 s1) (ProviderCall i2 t2 s2)
     = (i1 = i2 \<and> final_response_hash t1 = final_response_hash t2 \<and> s1 = s2)"
| "same_outcome a b = (a = b)"

text \<open>For the strict mode the attempts have to agree in number, status, response and stream.\<close>

definition same_attempt :: "attempt_record \<Rightarrow> attempt_record \<Rightarrow> bool" where
  "same_attempt a b \<longleftrightarrow> at_status a = at_status b \<and> at_response_hash a = at_response_hash b
     \<and> at_stream_hash a = at_stream_hash b"

fun same_attempts :: "event_kind \<Rightarrow> event_kind \<Rightarrow> bool" where
  "same_attempts (ProviderCall i1 t1 s1) (ProviderCall i2 t2 s2)
     = (i1 = i2 \<and> list_all2 same_attempt t1 t2 \<and> s1 = s2)"
| "same_attempts a b = same_outcome a b"

definition pairwise :: "(event_kind \<Rightarrow> event_kind \<Rightarrow> bool) \<Rightarrow> (hash \<times> event) list \<Rightarrow> (hash \<times> event) list \<Rightarrow> bool" where
  "pairwise P = list_all2 (\<lambda>(_, a) (_, b). P (ev_kind a) (ev_kind b))"

lemma compare_event_pair_Nil:
  "compare_event_pair X a b = [] \<longleftrightarrow> same_outcome (ev_kind a) (ev_kind b)"
  by (cases "ev_kind a"; cases "ev_kind b") (auto simp: compare_event_pair_def Let_def)

lemma compare_all_attempts_Nil:
  "length as = length bs \<Longrightarrow> compare_all_attempts X seq i as bs = [] \<longleftrightarrow> list_all2 same_attempt as bs"
  by (induction X seq i as bs rule: compare_all_attempts.induct)
    (auto simp: compare_attempt_fields_def same_attempt_def)

lemma compare_pair_strict_Nil:
  "compare_event_pair_strict X a b = [] \<longleftrightarrow> same_attempts (ev_kind a) (ev_kind b)"
proof (cases "\<exists>i1 t1 s1 i2 t2 s2. ev_kind a = ProviderCall i1 t1 s1 \<and> ev_kind b = ProviderCall i2 t2 s2")
  case True
  then obtain i1 t1 s1 i2 t2 s2 where k: "ev_kind a = ProviderCall i1 t1 s1" "ev_kind b = ProviderCall i2 t2 s2" by blast
  show ?thesis
  proof (cases "length t1 = length t2")
    case True
    then show ?thesis by (simp add: compare_event_pair_strict_def Let_def k compare_all_attempts_Nil)
  next
    case False
    then have "\<not> list_all2 same_attempt t1 t2" by (auto dest: list_all2_lengthD)
    with False show ?thesis by (simp add: compare_event_pair_strict_def Let_def k)
  qed
next
  case False
  then show ?thesis
    by (cases "ev_kind a"; cases "ev_kind b")
      (auto simp: compare_event_pair_strict_def Let_def compare_event_pair_Nil)
qed

lemma compare_lengths_Nil: "compare_lengths src rep = [] \<longleftrightarrow> length src = length rep"
  by (auto simp: compare_lengths_def Let_def)

lemma compare_pairs_Nil:
  "length src = length rep \<Longrightarrow>
   compare_pairs cmp src rep = [] \<longleftrightarrow> list_all2 (\<lambda>(_, a) (_, b). cmp a b = []) src rep"
  by (induction cmp src rep rule: compare_pairs.induct) auto

lemma compare_both_Nil:
  "compare_pairs cmp src rep @ compare_lengths src rep = []
     \<longleftrightarrow> list_all2 (\<lambda>(_, a) (_, b). cmp a b = []) src rep"
  using compare_pairs_Nil [of src rep cmp] compare_lengths_Nil [of src rep]
  by (auto dest: list_all2_lengthD)

text \<open>C25: In the default mode a replay is found equal exactly if the two histories have the same length
  and record, position by position, the same outcome.\<close>

theorem default_replay_matches_iff:
  "compare_default_mode X src rep = [] \<longleftrightarrow> pairwise same_outcome src rep"
  unfolding compare_default_mode_def compare_both_Nil pairwise_def by (simp add: compare_event_pair_Nil)

lemma projected_Nil:
  "compare_projected X a b = [] \<longleftrightarrow>
     projection_hash X a (projection_algorithm a b) = projection_hash X b (projection_algorithm a b)
     \<or> same_attempts (ev_kind a) (ev_kind b)"
  by (simp add: compare_projected_def Let_def compare_pair_strict_Nil)

text \<open>Equal projections agree in everything the strict comparison reports.\<close>

lemma same_projection_attempts:
  assumes "project_kind X (ev_kind (normalize_event_timestamps X a)) = project_kind X (ev_kind (normalize_event_timestamps X b))"
  shows "same_attempts (ev_kind a) (ev_kind b)"
proof (cases "\<exists>i1 t1 s1 i2 t2 s2. ev_kind a = ProviderCall i1 t1 s1 \<and> ev_kind b = ProviderCall i2 t2 s2")
  case True
  then obtain i1 t1 s1 i2 t2 s2 where k: "ev_kind a = ProviderCall i1 t1 s1" "ev_kind b = ProviderCall i2 t2 s2" by blast
  let ?n = "\<lambda>r. project_attempt X (r\<lparr>at_started_at := x_epoch X, at_ended_at := x_epoch X\<rparr>)"
  have "map ?n t1 = map ?n t2" "i1 = i2" "s1 = s2"
    using assms k by (simp_all add: normalize_event_timestamps_def comp_def)
  moreover have "list_all2 same_attempt t1 t2" if "map ?n t1 = map ?n t2"
    using that
    by (induction t1 arbitrary: t2) (auto simp: Cons_eq_map_conv same_attempt_def project_attempt_def)
  ultimately show ?thesis using k by simp
next
  case False
  then show ?thesis using assms
    by (cases "ev_kind a"; cases "ev_kind b") (auto simp: normalize_event_timestamps_def)
qed

text \<open>Two different projections at the same position with the same digest.\<close>

definition projections_collide ::
    "'x replay_ext_scheme \<Rightarrow> (hash \<times> event) list \<Rightarrow> (hash \<times> event) list \<Rightarrow> bool" where
  "projections_collide X src rep = list_ex (\<lambda>((_, a), (_, b)).
       project_kind X (ev_kind (normalize_event_timestamps X a)) \<noteq> project_kind X (ev_kind (normalize_event_timestamps X b))
       \<and> projection_hash X a (projection_algorithm a b) = projection_hash X b (projection_algorithm a b))
     (zip src rep)"

lemma compare_strict_Nil:
  "compare_strict_mode X src rep = [] \<longleftrightarrow> list_all2 (\<lambda>(_, a) (_, b). compare_projected X a b = []) src rep"
  unfolding compare_strict_mode_def by (rule compare_both_Nil)

lemma projected_without_collision:
  "\<not> projections_collide X src rep \<Longrightarrow>
   list_all2 (\<lambda>(_, a) (_, b). compare_projected X a b = []) src rep \<longleftrightarrow> pairwise same_attempts src rep"
proof (induction src arbitrary: rep)
  case (Cons p src)
  show ?case
  proof (cases rep)
    case (Cons q rep')
    obtain x a where p: "p = (x, a)" by fastforce
    obtain y b where q: "q = (y, b)" by fastforce
    have "compare_projected X a b = [] \<longleftrightarrow> same_attempts (ev_kind a) (ev_kind b)"
      using Cons.prems same_projection_attempts [of X a b] by (auto simp: projections_collide_def Cons p q projected_Nil)
    moreover have "\<not> projections_collide X src rep'"
      using Cons.prems by (auto simp: projections_collide_def Cons)
    ultimately show ?thesis using Cons.IH [of rep'] by (simp add: Cons p q pairwise_def)
  qed (simp add: pairwise_def)
qed (simp add: pairwise_def)

text \<open>In the strict mode a replay is found equal exactly if the histories agree, position by position,
  in everything but the timestamps, the configuration and the numbers, requests and error messages of the
  attempts, provided that no position has two different projections with the same digest.\<close>

theorem strict_replay_matches_iff:
  assumes "\<not> projections_collide X src rep"
  shows "compare_strict_mode X src rep = [] \<longleftrightarrow> pairwise same_attempts src rep"
  unfolding compare_strict_Nil by (rule projected_without_collision [OF assms])

text \<open>The recorded session with the error messages of its attempts erased and the attempts renumbered.\<close>

definition forget_errors :: "event \<Rightarrow> event" where
  "forget_errors e =
     e\<lparr>ev_kind := (case ev_kind e of
         ProviderCall i t s \<Rightarrow> ProviderCall i (map (\<lambda>a. a\<lparr>at_attempt_number := 0, at_error_message := None\<rparr>) t) s
       | k \<Rightarrow> k)\<rparr>"

lemma forget_same: "same_attempts (ev_kind e) (ev_kind (forget_errors e))"
proof -
  have "list_all2 same_attempt t (map (\<lambda>a. a\<lparr>at_attempt_number := 0, at_error_message := None\<rparr>) t)" for t
    by (induction t) (simp_all add: same_attempt_def)
  then show ?thesis by (cases "ev_kind e") (simp_all add: forget_errors_def)
qed

lemma forget_projection:
  "project_kind X (ev_kind (normalize_event_timestamps X (forget_errors e))) = project_kind X (ev_kind (normalize_event_timestamps X e))
     \<longleftrightarrow> forget_errors e = e"
proof (cases "ev_kind e")
  case (ProviderCall i t s)
  have "map (\<lambda>a. project_attempt X (a\<lparr>at_attempt_number := 0, at_error_message := None, at_started_at := x_epoch X, at_ended_at := x_epoch X\<rparr>)) t
        = map (\<lambda>a. project_attempt X (a\<lparr>at_started_at := x_epoch X, at_ended_at := x_epoch X\<rparr>)) t
      \<longleftrightarrow> map (\<lambda>a. a\<lparr>at_attempt_number := 0, at_error_message := None\<rparr>) t = t"
  proof (induction t)
    case (Cons a t)
    then show ?case by (cases a) (simp add: project_attempt_def)
  qed simp
  then show ?thesis
    by (cases e) (use ProviderCall in \<open>simp add: forget_errors_def normalize_event_timestamps_def comp_def\<close>)
qed (cases e; simp add: forget_errors_def normalize_event_timestamps_def)+

text \<open>The strict mode overlooks the error messages and the numbers of the attempts: a history whose
  attempts have lost both is reported as equal, although the projection that the mode hashes differs for
  every event that had any of them.\<close>

theorem strict_mode_overlooks_errors:
  "compare_strict_mode X h (map (\<lambda>(x, e). (x, forget_errors e)) h) = []
   \<and> (project_kind X (ev_kind (normalize_event_timestamps X (forget_errors e)))
        = project_kind X (ev_kind (normalize_event_timestamps X e))
      \<longleftrightarrow> forget_errors e = e)"
proof -
  have "list_all2 (\<lambda>(_, a) (_, b). compare_projected X a b = []) h (map (\<lambda>(x, e). (x, forget_errors e)) h)"
    by (induction h) (auto simp: projected_Nil forget_same)
  then show ?thesis by (simp add: compare_strict_Nil forget_projection)
qed

section \<open>Sources\<close>

lemma ensure_all_present_Inr:
  "ensure_all_present X st hs = Inr () \<longleftrightarrow> list_all (\<lambda>h. st_contains st h = Inr True) hs"
  by (induction hs) (auto simp: ensure_present_def split: sum.splits bool.splits)

text \<open>A source is accepted exactly if it starts with a session start, has a single session end whose
  sequence is that of the last event, and the store has every object its events refer to.\<close>

theorem replay_source_accepted_iff:
  "validate_replay_source X st history = Inr () \<longleftrightarrow>
     (\<exists>h e rest. history = (h, e) # rest \<and> is_session_start (ev_kind e))
     \<and> end_sequences history = [ev_sequence (snd (last history))]
     \<and> list_all (\<lambda>h. st_contains st h = Inr True) (referenced_objects history)"
proof (cases history)
  case (Cons p rest)
  obtain h e where p: "p = (h, e)" by fastforce
  have "(length (end_sequences history) = 1 \<and> hd (end_sequences history) = ev_sequence (snd (last history)))
      \<longleftrightarrow> end_sequences history = [ev_sequence (snd (last history))]"
    by (cases "end_sequences history") auto
  then show ?thesis
    unfolding validate_replay_source_def Cons p
    by (auto simp: Let_def ensure_all_present_Inr split: if_splits)
qed (simp add: validate_replay_source_def)

section \<open>Playback\<close>

text \<open>The recorded calls of a provider, in the order of the history.\<close>

fun calls_in :: "string \<Rightarrow> (hash \<times> event) list \<Rightarrow> recorded_call list" where
  "calls_in pid [] = []"
| "calls_in pid ((_, e) # es) =
     (case ev_kind e of
        ProviderCall i atts _ \<Rightarrow>
          if i = pid then \<lparr>rl_event_seq = ev_sequence e, rl_attempts = atts\<rparr> # calls_in pid es else calls_in pid es
      | _ \<Rightarrow> calls_in pid es)"

lemma provider_calls_Inr: "provider_calls X st pid h = Inr cs \<Longrightarrow> cs = calls_in pid h"
proof (induction h arbitrary: cs)
  case (Cons p h)
  obtain x e where p: "p = (x, e)" by fastforce
  show ?case using Cons by (cases "ev_kind e") (auto simp: p res_bind_Inr_iff split: if_splits)
qed simp

fun completes :: "'x replay_ext_scheme \<Rightarrow> replay_store \<Rightarrow> nat \<Rightarrow> playback_provider
    \<Rightarrow> playback_provider \<times> (replay_divergence list \<times> (model_error + completion_stream)) list" where
  "completes X st 0 p = (p, [])"
| "completes X st (Suc n) p =
     (let (p1, a) = playback_complete X st p; (p2, as) = completes X st n p1 in (p2, a # as))"

definition answer_nth ::
    "'x replay_ext_scheme \<Rightarrow> replay_store \<Rightarrow> replay_mode \<Rightarrow> recorded_call list \<Rightarrow> nat
     \<Rightarrow> replay_divergence list \<times> (model_error + completion_stream)" where
  "answer_nth X st mode cs i =
     (if i < length cs then answer_call X st mode (cs ! i) else ([no_call_left], Inr [Inr (SeDone EndTurn [])]))"

lemma completes_spec:
  "pv_cursor p \<le> length (pv_calls p) \<Longrightarrow>
   snd (completes X st n p) = map (answer_nth X st (pv_mode p) (pv_calls p)) [pv_cursor p..<pv_cursor p + n]"
proof (induction n arbitrary: p)
  case (Suc n)
  show ?case
  proof (cases "pv_cursor p < length (pv_calls p)")
    case True
    let ?p1 = "p\<lparr>pv_cursor := Suc (pv_cursor p)\<rparr>"
    have "snd (completes X st n ?p1) = map (answer_nth X st (pv_mode p) (pv_calls p)) [Suc (pv_cursor p)..<Suc (pv_cursor p) + n]"
      using Suc.IH [of ?p1] True by simp
    moreover have "playback_complete X st p = (?p1, answer_nth X st (pv_mode p) (pv_calls p) (pv_cursor p))"
      using True by (simp add: playback_complete_def answer_nth_def split_beta)
    ultimately show ?thesis by (simp add: split_beta Let_def upt_conv_Cons del: upt_Suc)
  next
    case False
    then have e: "pv_cursor p = length (pv_calls p)" using Suc.prems by simp
    have c: "playback_complete X st p = (p, answer_nth X st (pv_mode p) (pv_calls p) (pv_cursor p))"
      using False by (simp add: playback_complete_def answer_nth_def)
    have ih: "snd (completes X st n p) = map (answer_nth X st (pv_mode p) (pv_calls p)) [pv_cursor p..<pv_cursor p + n]"
      by (rule Suc.IH [OF Suc.prems])
    have const: "map (answer_nth X st (pv_mode p) (pv_calls p)) [pv_cursor p..<pv_cursor p + m]
        = replicate m (answer_nth X st (pv_mode p) (pv_calls p) (pv_cursor p))" for m
      by (rule nth_equalityI) (auto simp: answer_nth_def e simp del: upt_Suc)
    show ?thesis unfolding const using ih unfolding const by (simp add: c split_beta Let_def)
  qed
qed simp

text \<open>The playback of a provider answers the n-th completion with the n-th recorded call of that
  provider in the order of the history, whatever it is asked; past the last recorded call it reports an
  unexpected call and ends the turn.\<close>

theorem playback_follows_history:
  assumes "provider_from_history X st mode pid history = Inr p"
  shows "snd (completes X st n p) = map (answer_nth X st mode (calls_in pid history)) [0..<n]"
proof -
  from assms have "pv_calls p = calls_in pid history" "pv_mode p = mode" "pv_cursor p = 0"
    by (auto simp: provider_from_history_def res_bind_Inr_iff dest: provider_calls_Inr split: if_splits)
  then show ?thesis using completes_spec [of p X st n] by simp
qed

section \<open>The report\<close>

text \<open>The report of a replay passes exactly if neither the playbacks nor the comparison of the
  histories found a divergence; it lists all of them, ordered by the position they concern.\<close>

theorem replay_passes_iff:
  "rp_passed (replay_run_to_report X w) = (ro_divergences w = [] \<and> replay_compare X w = [])
   \<and> mset (rp_divergences (replay_run_to_report X w)) = mset (ro_divergences w) + mset (replay_compare X w)
   \<and> sorted (map divergence_key (rp_divergences (replay_run_to_report X w)))"
  by (simp add: replay_run_to_report_def assemble_report_def Let_def) (metis append_is_Nil_conv length_0_conv length_sort)

section \<open>The policy of a replay\<close>

lemma deny_all_denies:
  "evaluate_automatic_for_tool G DenyAll t sid perm n
     = Inr (decision_from_parts sid t perm Deny False ''denied: PolicyEngineMode::DenyAll'')"
  by (simp add: evaluate_automatic_for_tool_def)

definition no_standing_approval :: "'c dispatch_state \<Rightarrow> bool" where
  "no_standing_approval s \<longleftrightarrow> \<not> ds_allow_all_writes s \<and> ds_shell_prefixes s = [] \<and> ds_allowlist s = []"

lemma gate_permissions_denied:
  assumes "de_mode E = DenyAll" "no_standing_approval s" "perms \<noteq> []"
    and "gate_permissions E s name diff perms = (s', Inr out)"
  shows "out \<noteq> None"
proof -
  from assms(3) obtain perm rest where p: "perms = perm # rest" by (cases perms) auto
  have "shell_prefix_hit s perm = False" "\<not> list_ex (permission_eq perm) (ds_allowlist s)" "\<not> ds_allow_all_writes s"
    using assms(2) by (auto simp: no_standing_approval_def shell_prefix_hit_def split: permission.split)
  then show ?thesis
    using assms(4) by (auto simp: p gate_permission_def gate_automatic_def assms(1) deny_all_denies
      decision_from_parts_def st_bind_Inr_iff)
qed

lemma raw_permissions_playback:
  "raw_concrete_permissions P (playback_tool_info p) name args root
     = raw_concrete_permissions P (playback_tool_info q) name args root"
proof -
  have "str_permission (playback_tool_info p) = str_permission (playback_tool_info q)"
    by (intro ext) (simp add: str_permission_def playback_tool_info_def split: option.split)
  moreover have "ti_required_permissions (playback_tool_info p) = ti_required_permissions (playback_tool_info q)"
    by (simp add: playback_tool_info_def)
  ultimately show ?thesis by (simp only: raw_concrete_permissions_def)
qed

lemma concrete_permissions_nonempty:
  assumes "raw_concrete_permissions P tool name args root \<noteq> []"
  shows "concrete_permissions P canon tool name args root \<noteq> []"
proof -
  have "both_subjects canon root perm \<noteq> []" for perm
    by (simp add: both_subjects_def Let_def split: option.split prod.split)
  with assms show ?thesis by (cases "raw_concrete_permissions P tool name args root") (simp_all add: concrete_permissions_def)
qed

lemma gate_mcp_standing:
  "gate_mcp E s name ctx = (s1, x) \<Longrightarrow> no_standing_approval s \<Longrightarrow> no_standing_approval s1"
  by (auto simp: gate_mcp_def Let_def no_standing_approval_def record_decision_def emit_gate_def push_audit_def
      split: option.splits if_splits)

lemma admit_by_policy_denied:
  assumes "de_mode E = DenyAll" "no_standing_approval s"
    and "concrete_permissions (de_patch E) (de_canon E) (de_tools E ! ti) (tc_name call) (tc_arguments call) (de_root E) \<noteq> []"
    and "admit_by_policy E s idx call ti = (s', Inr a)"
  shows "\<exists>r. a = Refused r"
proof -
  obtain s1 x where m: "gate_mcp E s (tc_name call) (ti_mcp_context (de_tools E ! ti)) = (s1, x)" by fastforce
  show ?thesis
  proof (cases x)
    case (Some why)
    with assms(4) m refuse_Inr show ?thesis by (fastforce simp: admit_by_policy_def)
  next
    case None
    with assms(4) m obtain s2 out where g: "gate_permissions E s1 (tc_name call)
        (de_diff_preview E (tc_name call) (tc_arguments call))
        (concrete_permissions (de_patch E) (de_canon E) (de_tools E ! ti) (tc_name call) (tc_arguments call) (de_root E))
          = (s2, Inr out)"
      and k: "(case out of Some why \<Rightarrow> refuse E (record_policy_denial s2) call PermissionDenied why
        | None \<Rightarrow> (s2, Inr (Approved
                 \<lparr>ap_index = idx, ap_id = tc_id call, ap_name = tc_name call, ap_arguments = tc_arguments call,
                  ap_tool = ti, ap_mcp = ti_mcp_context (de_tools E ! ti)\<rparr>))) = (s', Inr a)"
      by (auto simp: admit_by_policy_def Let_def st_bind_Inr_iff)
    from gate_permissions_denied [OF assms(1) gate_mcp_standing [OF m assms(2)] assms(3) g]
    obtain why where "out = Some why" by blast
    with k refuse_Inr show ?thesis by fastforce
  qed
qed

text \<open>C26: A replay runs the agent under the policy that denies everything, but the agent derives the
  permissions of its built-in tools from their names. A recorded call that asks for any permission, such
  as reading a file, is therefore refused in the replay: its playback is never executed.\<close>

theorem replay_refuses_recorded_tools:
  assumes "D = env_for (replay_env X E pr base) t" "no_standing_approval s"
    and asks: "raw_concrete_permissions (de_patch D) (playback_tool_info p) (tc_name call) (tc_arguments call) (de_root D) \<noteq> []"
  shows "snd (admit_call D s idx w call) \<noteq> Inr (w', Approved slot)"
proof
  assume "snd (admit_call D s idx w call) = Inr (w', Approved slot)"
  then obtain s' where adm: "admit_call D s idx w call = (s', Inr (w', Approved slot))"
    by (cases "admit_call D s idx w call") simp
  have D: "de_mode D = DenyAll" "de_tools D = map (playback_tool_info \<circ> snd) (re_tools E)"
    by (simp_all add: assms(1) env_for_def replay_env_def)
  have refused: "refuse D s0 call c m \<noteq> (s1, Inr (Approved slot))" for s0 c m s1
    using refuse_Inr [of D s0 call c m s1 "Approved slot"] by auto
  have policy: "admit_by_policy D s idx call ti \<noteq> (s1, Inr (Approved slot))" if "ti < length (de_tools D)" for ti s1
  proof
    assume a: "admit_by_policy D s idx call ti = (s1, Inr (Approved slot))"
    have "de_tools D ! ti = playback_tool_info (snd (re_tools E ! ti))" using that by (simp add: D(2))
    then have "concrete_permissions (de_patch D) (de_canon D) (de_tools D ! ti) (tc_name call) (tc_arguments call) (de_root D) \<noteq> []"
      using asks raw_permissions_playback [of "de_patch D" "snd (re_tools E ! ti)" "tc_name call" "tc_arguments call" "de_root D" p]
      by (intro concrete_permissions_nonempty) simp
    from admit_by_policy_denied [OF D(1) assms(2) this a] show False by simp
  qed
  have repeats: "admit_by_repeats D s idx call ti \<noteq> (s1, Inr (Approved slot))" if "ti < length (de_tools D)" for ti s1
    using policy [OF that] refused by (auto simp: admit_by_repeats_def Let_def st_bind_Inr_iff)
  show False
  proof (cases "matching_tools D (tc_name call)")
    case Nil
    with adm refused show ?thesis by (auto simp: admit_call_def Let_def st_bind_Inr_iff)
  next
    case (Cons ti rest)
    then have "ti \<in> set (matching_tools D (tc_name call))" by simp
    then have "ti < length (de_tools D)" by (auto simp: matching_tools_def)
    with adm Cons refused repeats show ?thesis
      by (auto simp: admit_call_def Let_def st_bind_Inr_iff split: if_splits sum.splits)
  qed
qed

section \<open>A recorded session\<close>

definition px_projection :: "event_projection \<Rightarrow> byte list" where
  "px_projection k = (case k of PUserTurn h \<Rightarrow> h_bytes h | _ \<Rightarrow> [])"

definition px :: replay_ext where
  "px = command_ext.extend ex
     \<lparr>x_cbor_projection = px_projection, x_debug_opt_hash = (\<lambda>h. ''hash''), x_debug_status = (\<lambda>s. ''status''),
      x_cbor_hashes = (\<lambda>b. Inr []), x_cbor_chunk = (\<lambda>b. Inl ''chunk''),
      x_cbor_response = (\<lambda>b. Inr \<lparr>rr_text = map (char_of \<circ> unat) b, rr_tool_calls = [], rr_stop_reason = None\<rparr>),
      x_cbor_args = (\<lambda>v. Inr []), x_cbor_output = (\<lambda>b. None), x_cbor_config = (\<lambda>b. Inl ''config''),
      x_utf8_error = (\<lambda>b. ''utf8''), x_epoch = 0\<rparr>"

definition px_event :: "u64 \<Rightarrow> event_kind \<Rightarrow> hash \<times> event" where
  "px_event n k = (ex_hash 1, \<lparr>ev_parents = [], ev_kind = k, ev_emitted_at = 0, ev_sequence = n\<rparr>)"

definition px_attempt :: attempt_record where
  "px_attempt = \<lparr>at_attempt_number = 1, at_started_at = 0, at_ended_at = 0, at_status = Success,
     at_request_hash = ex_hash 65, at_response_hash = Some (ex_hash 66), at_stream_hash = None, at_error_message = None\<rparr>"

definition px_history :: "(hash \<times> event) list" where
  "px_history = [px_event 0 (SessionStart (ex_hash 65) (ex_hash 65)), px_event 1 (UserTurn (ex_hash 65)),
     px_event 2 (ProviderCall ''anthropic'' [px_attempt] None), px_event 3 (SessionEnd None)]"

definition px_store :: replay_store where
  "px_store = \<lparr>st_get = (\<lambda>h. Inr (map_of (ms_objects ex_store) (h_bytes h))),
     st_contains = (\<lambda>h. Inr (map_of (ms_objects ex_store) (h_bytes h) \<noteq> None)), st_algorithm = Sha256\<rparr>"

theorem strict_replay_matches_iff_witness:
  "compare_strict_mode px px_history (px_history[1 := px_event 1 (UserTurn (ex_hash 66))]) \<noteq> []"
proof -
  have "\<not> projections_collide px px_history (px_history[1 := px_event 1 (UserTurn (ex_hash 66))])" by code_simp
  moreover have "\<not> pairwise same_attempts px_history (px_history[1 := px_event 1 (UserTurn (ex_hash 66))])"
    by (simp add: pairwise_def px_history_def px_event_def ex_hash_def ex_digest_def)
  ultimately show ?thesis using strict_replay_matches_iff by blast
qed

theorem playback_follows_history_witness:
  "\<exists>p. provider_from_history px px_store ModeDefault ''anthropic'' px_history = Inr p
     \<and> map snd (snd (completes px px_store 2 p)) = [Inr [Inr (SeTextDelta ''B''), Inr (SeDone EndTurn [])], Inr [Inr (SeDone EndTurn [])]]"
proof -
  have p: "provider_from_history px px_store ModeDefault ''anthropic'' px_history
      = Inr \<lparr>pv_calls = [\<lparr>rl_event_seq = 2, rl_attempts = [px_attempt]\<rparr>], pv_mode = ModeDefault, pv_id = ''anthropic'', pv_cursor = 0\<rparr>"
    (is "_ = Inr ?p") by code_simp
  have "map snd (map (answer_nth px px_store ModeDefault (calls_in ''anthropic'' px_history)) [0..<2])
      = [Inr [Inr (SeTextDelta ''B''), Inr (SeDone EndTurn [])], Inr [Inr (SeDone EndTurn [])]]"
    by code_simp
  then show ?thesis using p playback_follows_history [OF p, of 2] by simp
qed

definition px_tool :: playback_tool where
  "px_tool = \<lparr>pt_calls = [], pt_mode = ModeDefault, pt_id = ''read_file'', pt_cursor = 0\<rparr>"

definition px_engine :: replay_engine where
  "px_engine = \<lparr>re_source = \<lparr>sr_session_id = [], sr_store = px_store, sr_history = px_history, sr_journal_dir = None\<rparr>,
     re_config = \<lparr>rf_mode = ModeDefault, rf_persist = False, rf_persist_dir = None\<rparr>,
     re_providers = [], re_tools = [(''read_file'', px_tool)],
     re_agent_config = \<lparr>ac_max_iterations = 1, ac_session_id = ''s''\<rparr>,
     re_index = \<lparr>si_user_prompts = [], si_config_hash = ex_hash 65, si_cwd = ''/w''\<rparr>\<rparr>"
definition px_provider :: playback_provider where
  "px_provider = \<lparr>pv_calls = [], pv_mode = ModeDefault, pv_id = ''anthropic'', pv_cursor = 0\<rparr>"

definition px_slot :: approved_slot where
  "px_slot = \<lparr>ap_index = 0, ap_id = ''c1'', ap_name = ''read_file'', ap_arguments = JNull, ap_tool = 0, ap_mcp = None\<rparr>"

theorem replay_refuses_recorded_tools_witness:
  "snd (admit_call (env_for (replay_env px px_engine px_provider (rx_env rx_answer)) ''task'') dx_state 0 0 (dx_calls ! 0)) \<noteq> Inr (0, Approved px_slot)"
  by (rule replay_refuses_recorded_tools [OF refl])
    (simp_all add: no_standing_approval_def dx_fields env_for_def replay_env_def rx_env_def dx_calls_def
      raw_concrete_permissions_def str_permission_def json_str_def)
end
