(* ===== verification/File_Tools.thy ===== *)
theory File_Tools
  imports Dispatch Std_Text
begin

text \<open>
  The tools of \<open>akmon-tools\<close> that read and change files: \<open>read_file\<close>, \<open>write_file\<close>, \<open>edit\<close>, \<open>patch\<close> and
  \<open>apply_patch\<close>, with the sandbox-checked atomic replacement they share (\<open>atomic_write.rs\<close>), the diff
  payload (\<open>file_change_set.rs\<close>, \<open>diff_render.rs\<close>) and the edits on texts. The state of the file system is
  abstract; its system calls are parameters, each a function of the state. A text is the list of its UTF-8
  bytes. The diff algorithm (crate \<open>diffy\<close>) and the JSON printer are parameters.
\<close>

section \<open>The system calls\<close>

datatype file_kind = KindFile | KindDirectory | KindSymlink | KindOther

record file_meta =
  fm_kind :: file_kind
  fm_len :: nat
  fm_permissions :: nat

datatype create_error = CreateExists string | CreateFailed fs_error

record 'f fs_api =
  fs_canonicalize :: "'f \<Rightarrow> canonicalizer"
  fs_symlink_metadata :: "'f \<Rightarrow> string \<Rightarrow> fs_error + file_meta"
  fs_metadata :: "'f \<Rightarrow> string \<Rightarrow> fs_error + file_meta"
  fs_read :: "'f \<Rightarrow> string \<Rightarrow> fs_error + byte list"
  fs_open :: "'f \<Rightarrow> string \<Rightarrow> fs_error + unit"
  fs_read_up_to :: "'f \<Rightarrow> string \<Rightarrow> nat \<Rightarrow> fs_error + byte list"
  fs_uuid :: "'f \<Rightarrow> 'f \<times> string"
  fs_create_new :: "'f \<Rightarrow> string \<Rightarrow> 'f \<times> (create_error + unit)"
  fs_write_sync :: "'f \<Rightarrow> string \<Rightarrow> byte list \<Rightarrow> 'f \<times> (fs_error + unit)"
  fs_set_permissions :: "'f \<Rightarrow> string \<Rightarrow> nat \<Rightarrow> 'f \<times> (fs_error + unit)"
  fs_rename :: "'f \<Rightarrow> string \<Rightarrow> string \<Rightarrow> 'f \<times> (fs_error + unit)"
  fs_remove_file :: "'f \<Rightarrow> string \<Rightarrow> 'f \<times> (fs_error + unit)"

text \<open>A call of a tool: the file system, the sandbox of the context, the diff algorithm and the printer.\<close>

record ('f, 'p) tool_env =
  te_fs :: "'f fs_api"
  te_sandbox :: sandbox
  te_patch :: "'p patch_api"
  te_create_patch :: "string \<Rightarrow> string \<Rightarrow> string"
  te_print_json :: "json \<Rightarrow> string + string"

definition resolve_path :: "('f, 'p, 'x) tool_env_scheme \<Rightarrow> 'f \<Rightarrow> string \<Rightarrow> sandbox_error + string" where
  "resolve_path T f p = sandbox_resolve (fs_canonicalize (te_fs T) f) (te_sandbox T) p"

section \<open>Atomic replacement\<close>

definition TEMP_PREFIX :: string where
  "TEMP_PREFIX = ''.akmon-w-''"

definition TEMP_NAME_STEM_MAX :: nat where
  "TEMP_NAME_STEM_MAX = 64"

definition CREATE_ATTEMPTS :: nat where
  "CREATE_ATTEMPTS = 8"

definition canonical_parent_in_sandbox ::
    "('f, 'p, 'x) tool_env_scheme \<Rightarrow> 'f \<Rightarrow> string \<Rightarrow> fs_error + string" where
  "canonical_parent_in_sandbox T f parent =
     (case resolve_path T f parent of
        Inr p \<Rightarrow> Inr p
      | Inl (SxPathEscape attempted _) \<Rightarrow> Inl (FsError (''target directory escapes sandbox: '' @ attempted))
      | Inl (SxCanonicalize e) \<Rightarrow> Inl e)"

text \<open>\<open>taken\<close> is the error of the last attempt whose name was taken.\<close>

fun create_temp_file ::
    "'f fs_api \<Rightarrow> string \<Rightarrow> string \<Rightarrow> nat \<Rightarrow> string option \<Rightarrow> 'f \<Rightarrow> 'f \<times> (fs_error + string)" where
  "create_temp_file F dir stem 0 taken f =
     (f, Inl (FsError (case taken of Some e \<Rightarrow> e | None \<Rightarrow> ''could not create temp file'')))"
| "create_temp_file F dir stem (Suc n) taken f =
     (let (f1, u) = fs_uuid F f; tmp_path = path_join dir (TEMP_PREFIX @ u @ ''-'' @ stem) in
      case fs_create_new F f1 tmp_path of
        (f2, Inr _) \<Rightarrow> (f2, Inr tmp_path)
      | (f2, Inl (CreateExists e)) \<Rightarrow> create_temp_file F dir stem n (Some e) f2
      | (f2, Inl (CreateFailed e)) \<Rightarrow> (f2, Inl e))"

text \<open>Writing the temporary file and moving it over the target.\<close>

definition fill_and_rename ::
    "'f fs_api \<Rightarrow> string \<Rightarrow> string \<Rightarrow> nat option \<Rightarrow> byte list \<Rightarrow> 'f \<Rightarrow> 'f \<times> (fs_error + unit)" where
  "fill_and_rename F tmp_path target perms content f =
     st_bind (fs_write_sync F f tmp_path content) (\<lambda>f1 _.
     st_bind (case perms of Some m \<Rightarrow> fs_set_permissions F f1 tmp_path m | None \<Rightarrow> (f1, Inr ())) (\<lambda>f2 _.
     fs_rename F f2 tmp_path target))"

definition replace_in_dir ::
    "'f fs_api \<Rightarrow> string \<Rightarrow> string \<Rightarrow> byte list \<Rightarrow> 'f \<Rightarrow> 'f \<times> (fs_error + nat)" where
  "replace_in_dir F dir file_name content f =
     (let target = path_join dir file_name;
          perms = (case fs_symlink_metadata F f target of
              Inr m \<Rightarrow> if fm_kind m = KindFile then Some (fm_permissions m) else None
            | Inl _ \<Rightarrow> None);
          stem = truncate_at_char_boundary file_name TEMP_NAME_STEM_MAX in
      st_bind (create_temp_file F dir stem CREATE_ATTEMPTS None f) (\<lambda>f1 tmp_path.
      case fill_and_rename F tmp_path target perms content f1 of
        (f2, Inl e) \<Rightarrow> (fst (fs_remove_file F f2 tmp_path), Inl e)
      | (f2, Inr _) \<Rightarrow> (f2, Inr (length content))))"

definition atomic_write_in_sandbox ::
    "('f, 'p, 'x) tool_env_scheme \<Rightarrow> 'f \<Rightarrow> string \<Rightarrow> byte list \<Rightarrow> 'f \<times> (fs_error + nat)" where
  "atomic_write_in_sandbox T f path content =
     (case path_parent path of
        None \<Rightarrow> (f, Inl (FsError ''path has no parent directory''))
      | Some parent \<Rightarrow>
          (case path_file_name path of
             None \<Rightarrow> (f, Inl (FsError ''path has no file name''))
           | Some file_name \<Rightarrow>
               (case canonical_parent_in_sandbox T f parent of
                  Inl e \<Rightarrow> (f, Inl e)
                | Inr dir \<Rightarrow> replace_in_dir (te_fs T) dir file_name content f)))"

section \<open>The change set\<close>

record file_change =
  fc_path :: string
  fc_diff :: string
  fc_lines_added :: nat
  fc_lines_removed :: nat
  fc_lines_changed :: nat

record change_summary =
  cs_files_changed :: nat
  cs_lines_added :: nat
  cs_lines_removed :: nat
  cs_lines_changed :: nat

datatype change_risk = RiskLow | RiskMedium | RiskHigh

datatype change_mode = Applied | DryRun

record change_set =
  ct_mode :: change_mode
  ct_changes :: "file_change list"
  ct_summary :: change_summary
  ct_risk :: change_risk

definition classify_risk :: "change_summary \<Rightarrow> change_risk" where
  "classify_risk s =
     (if cs_lines_changed s \<le> 25 \<and> cs_files_changed s \<le> 1 then RiskLow
      else if cs_lines_changed s \<le> 200 \<and> cs_files_changed s \<le> 5 then RiskMedium
      else RiskHigh)"

definition change_set_from_files :: "change_mode \<Rightarrow> file_change list \<Rightarrow> change_set" where
  "change_set_from_files mode changes =
     (let summary = \<lparr>cs_files_changed = length changes,
            cs_lines_added = sum_list (map fc_lines_added changes),
            cs_lines_removed = sum_list (map fc_lines_removed changes),
            cs_lines_changed = sum_list (map fc_lines_changed changes)\<rparr> in
      \<lparr>ct_mode = mode, ct_changes = changes, ct_summary = summary, ct_risk = classify_risk summary\<rparr>)"

definition is_added_line :: "string \<Rightarrow> bool" where
  "is_added_line l \<longleftrightarrow> starts_with ''+'' l \<and> \<not> starts_with ''+++'' l"

definition is_removed_line :: "string \<Rightarrow> bool" where
  "is_removed_line l \<longleftrightarrow> starts_with ''-'' l \<and> \<not> starts_with ''---'' l"

definition diff_stats_from_unified :: "string \<Rightarrow> nat \<times> nat \<times> nat" where
  "diff_stats_from_unified diff =
     (let added = length (filter is_added_line (str_lines diff));
          removed = length (filter is_removed_line (str_lines diff)) in
      (added, removed, max added removed))"

definition unified_diff_text :: "('f, 'p, 'x) tool_env_scheme \<Rightarrow> string \<Rightarrow> string \<Rightarrow> string \<Rightarrow> string" where
  "unified_diff_text T original new_content path =
     ''--- a/'' @ path @ [LF] @ ''+++ b/'' @ path @ [LF] @ te_create_patch T original new_content"

definition ansi :: "string \<Rightarrow> string \<Rightarrow> string" where
  "ansi sgr line = CHR 0x1B # ''['' @ sgr @ ''m'' @ line @ CHR 0x1B # ''[0m''"

definition colorize_line :: "string \<Rightarrow> string" where
  "colorize_line line =
     (if is_added_line line then ansi ''32'' line
      else if is_removed_line line then ansi ''31'' line
      else if starts_with ''@@'' line then ansi ''2;36'' line
      else line)"

definition colorize_unified_diff :: "string \<Rightarrow> string" where
  "colorize_unified_diff raw = concat (map (\<lambda>l. colorize_line l @ [LF]) (str_lines raw))"

definition render_diff :: "('f, 'p, 'x) tool_env_scheme \<Rightarrow> string \<Rightarrow> string \<Rightarrow> string \<Rightarrow> string" where
  "render_diff T original new_content path = colorize_unified_diff (unified_diff_text T original new_content path)"

text \<open>The payload as JSON.\<close>

definition json_nat :: "nat \<Rightarrow> json" where
  "json_nat n = JNumber (show_nat n)"

definition change_json :: "file_change \<Rightarrow> json" where
  "change_json c = JObject [(''path'', JString (fc_path c)), (''diff'', JString (fc_diff c)),
     (''lines_added'', json_nat (fc_lines_added c)), (''lines_removed'', json_nat (fc_lines_removed c)),
     (''lines_changed'', json_nat (fc_lines_changed c))]"

definition change_set_json :: "change_set \<Rightarrow> json" where
  "change_set_json s =
     (let files = JArray (map change_json (ct_changes s)); m = ct_summary s in
      JObject [(''type'', JString ''file_change_set''),
        (''mode'', JString (case ct_mode s of Applied \<Rightarrow> ''applied'' | DryRun \<Rightarrow> ''dry_run'')),
        (''changes'', files), (''files'', files),
        (''summary'', JObject [(''files_changed'', json_nat (cs_files_changed m)),
           (''lines_added'', json_nat (cs_lines_added m)), (''lines_removed'', json_nat (cs_lines_removed m)),
           (''lines_changed'', json_nat (cs_lines_changed m))]),
        (''risk'', JString (case ct_risk s of RiskLow \<Rightarrow> ''low'' | RiskMedium \<Rightarrow> ''medium'' | RiskHigh \<Rightarrow> ''high''))])"

definition report_changes ::
    "('f, 'p, 'x) tool_env_scheme \<Rightarrow> string \<Rightarrow> bool \<Rightarrow> file_change list \<Rightarrow> tool_output" where
  "report_changes T what dry_run changes =
     (case te_print_json T (change_set_json (change_set_from_files (if dry_run then DryRun else Applied) changes)) of
        Inr content \<Rightarrow> OutSuccess content
      | Inl e \<Rightarrow> OutError PermissionDenied (''serialize '' @ what @ '' result: '' @ e))"

definition change_of :: "('f, 'p, 'x) tool_env_scheme \<Rightarrow> string \<Rightarrow> string \<Rightarrow> string \<Rightarrow> file_change" where
  "change_of T before after path =
     (let unified = unified_diff_text T before after path;
          (added, removed, changed) = diff_stats_from_unified unified in
      \<lparr>fc_path = path, fc_diff = unified, fc_lines_added = added, fc_lines_removed = removed,
       fc_lines_changed = changed\<rparr>)"

section \<open>Paths\<close>

text \<open>The path of a file below the root, with forward slashes. A parent or a rest of a path is given by the
  text of its components, which is equal to the slice the code takes as a \<open>Path\<close>.\<close>

definition relative_path_display :: "('f, 'p, 'x) tool_env_scheme \<Rightarrow> 'f \<Rightarrow> string \<Rightarrow> string option" where
  "relative_path_display T f file =
     (case (fs_canonicalize (te_fs T) f file, fs_canonicalize (te_fs T) f (sx_primary_root (te_sandbox T))) of
        (Inr c, Inr root) \<Rightarrow>
          if path_starts_with c root
          then Some (backslash_to_slash (components_path (drop (length (path_components root)) (path_components c))))
          else None
      | _ \<Rightarrow> None)"

definition split_write_path :: "string \<Rightarrow> tool_output + string \<times> string" where
  "split_write_path path =
     (case path_file_name path of
        Some file_name \<Rightarrow>
          Inr (case path_parent path of
              Some p \<Rightarrow> if p = [] then ''.'' else p
            | None \<Rightarrow> ''.'', file_name)
      | None \<Rightarrow>
          Inl (OutError InvalidArgs
            (''path must end with a single file name (not '' @ [CHR 0x22, CHR ''.'', CHR 0x22] @ '', ''
             @ [CHR 0x22] @ ''..'' @ [CHR 0x22] @ '', or a root)'')))"

definition symlink_refused :: "string \<Rightarrow> tool_output" where
  "symlink_refused path =
     OutError SymlinkRefused (''refusing to modify a file through a symbolic link: '' @ path
       @ '' (edit the link target by its own path instead)'')"

definition refuse_final_component_symlink ::
    "('f, 'p, 'x) tool_env_scheme \<Rightarrow> 'f \<Rightarrow> string \<Rightarrow> tool_output + unit" where
  "refuse_final_component_symlink T f path =
     (case split_write_path path of
        Inl _ \<Rightarrow> Inr ()
      | Inr (parent_str, file_name) \<Rightarrow>
          (case resolve_path T f parent_str of
             Inl _ \<Rightarrow> Inr ()
           | Inr parent \<Rightarrow>
               (case fs_symlink_metadata (te_fs T) f (path_join parent file_name) of
                  Inr m \<Rightarrow> if fm_kind m = KindSymlink then Inl (symlink_refused path) else Inr ()
                | Inl _ \<Rightarrow> Inr ())))"

definition resolve_final_component ::
    "('f, 'p, 'x) tool_env_scheme \<Rightarrow> 'f \<Rightarrow> string \<Rightarrow> string \<Rightarrow> string \<Rightarrow> tool_output + string" where
  "resolve_final_component T f resolved_parent file_name path =
     (let candidate = path_join resolved_parent file_name in
      case fs_symlink_metadata (te_fs T) f candidate of
        Inl e \<Rightarrow>
          if fs_is_not_found e then Inr candidate
          else Inl (OutError PermissionDenied (''could not stat path: '' @ fs_error_to_string e))
      | Inr m \<Rightarrow>
          if fm_kind m = KindSymlink then Inl (symlink_refused path)
          else if fm_kind m \<noteq> KindFile then Inl (OutError NotAFile (''not a regular file: '' @ path))
          else Inr candidate)"

section \<open>Arguments\<close>

definition quoted :: "string \<Rightarrow> string" where
  "quoted s = [CHR 0x22] @ s @ [CHR 0x22]"

definition require_path :: "string \<Rightarrow> json \<Rightarrow> tool_output + string" where
  "require_path k args =
     (case json_str k args of
        Some s \<Rightarrow> if s \<noteq> [] then Inr s else Inl (OutError InvalidArgs (''missing or empty '' @ quoted k @ '' string''))
      | None \<Rightarrow> Inl (OutError InvalidArgs (''missing or empty '' @ quoted k @ '' string'')))"

definition dry_run_of :: "json \<Rightarrow> bool" where
  "dry_run_of args = (case json_bool ''dry_run'' args of Some b \<Rightarrow> b | None \<Rightarrow> False)"

section \<open>\<open>write_file\<close>\<close>

definition write_file_at ::
    "('f, 'p, 'x) tool_env_scheme \<Rightarrow> 'f \<Rightarrow> string \<Rightarrow> string \<Rightarrow> string \<Rightarrow> bool \<Rightarrow> 'f \<times> tool_output" where
  "write_file_at T f path resolved content dry_run =
     (let old_content = (case fs_read (te_fs T) f resolved of Inr b \<Rightarrow> from_utf8 b | Inl _ \<Rightarrow> None);
          (f1, written) = (if dry_run then (f, Inr 0) else atomic_write_in_sandbox T f resolved (as_bytes content)) in
      case written of
        Inl e \<Rightarrow> (f1, OutError PermissionDenied (''write failed: '' @ fs_error_to_string e))
      | Inr _ \<Rightarrow>
          let rel = (case relative_path_display T f1 resolved of Some r \<Rightarrow> r | None \<Rightarrow> backslash_to_slash path);
              before = (case old_content of Some s \<Rightarrow> s | None \<Rightarrow> []) in
          (f1, report_changes T ''write'' dry_run [change_of T before content rel]))"

definition write_file_execute ::
    "('f, 'p, 'x) tool_env_scheme \<Rightarrow> 'f \<Rightarrow> json \<Rightarrow> 'f \<times> tool_output" where
  "write_file_execute T f args =
     (case require_path ''path'' args of
        Inl err \<Rightarrow> (f, err)
      | Inr path \<Rightarrow>
          (case json_str ''content'' args of
             None \<Rightarrow> (f, OutError InvalidArgs (''missing '' @ quoted ''content'' @ '' string''))
           | Some content \<Rightarrow>
               (case split_write_path path of
                  Inl err \<Rightarrow> (f, err)
                | Inr (parent_str, file_name) \<Rightarrow>
                    (case resolve_path T f parent_str of
                       Inl (SxPathEscape _ _) \<Rightarrow> (f, OutError PathEscape (''path escapes sandbox: '' @ path))
                     | Inl (SxCanonicalize e) \<Rightarrow>
                         (f, if fs_is_not_found e
                             then OutError NotFound (''parent path does not exist: '' @ parent_str)
                             else OutError PermissionDenied (''could not resolve parent path: '' @ fs_error_to_string e))
                     | Inr resolved_parent \<Rightarrow>
                         (case resolve_final_component T f resolved_parent file_name path of
                            Inl err \<Rightarrow> (f, err)
                          | Inr resolved \<Rightarrow> write_file_at T f path resolved content (dry_run_of args))))))"

section \<open>Opening an existing text file\<close>

text \<open>The checks that \<open>edit\<close> and \<open>patch\<close> make before they change a file: no final symlink, inside the
  sandbox, a regular file, readable, UTF-8. The result is the resolved path and the text.\<close>

definition open_text_file ::
    "('f, 'p, 'x) tool_env_scheme \<Rightarrow> 'f \<Rightarrow> string \<Rightarrow> tool_output + string \<times> string" where
  "open_text_file T f path =
     (case refuse_final_component_symlink T f path of
        Inl err \<Rightarrow> Inl err
      | Inr _ \<Rightarrow>
          (case resolve_path T f path of
             Inl (SxPathEscape _ _) \<Rightarrow> Inl (OutError PathEscape (''path escapes sandbox: '' @ path))
           | Inl (SxCanonicalize e) \<Rightarrow>
               Inl (if fs_is_not_found e then OutError NotFound (''path not found: '' @ path)
                    else OutError PermissionDenied (''could not resolve path: '' @ fs_error_to_string e))
           | Inr resolved \<Rightarrow>
               (case fs_metadata (te_fs T) f resolved of
                  Inl e \<Rightarrow>
                    Inl (if fs_is_not_found e then OutError NotFound (''path not found: '' @ path)
                         else OutError PermissionDenied (''could not stat path: '' @ fs_error_to_string e))
                | Inr m \<Rightarrow>
                    if fm_kind m \<noteq> KindFile then Inl (OutError NotAFile (''not a regular file: '' @ path))
                    else
                      (case fs_read (te_fs T) f resolved of
                         Inl e \<Rightarrow>
                           Inl (if fs_is_not_found e then OutError NotFound (''path not found: '' @ path)
                                else OutError PermissionDenied (''could not read file: '' @ fs_error_to_string e))
                       | Inr bytes \<Rightarrow>
                           (case from_utf8 bytes of
                              None \<Rightarrow> Inl (OutError BinaryContent (''file is not valid UTF-8: '' @ path))
                            | Some content \<Rightarrow> Inr (resolved, content))))))"

section \<open>\<open>edit\<close>\<close>

text \<open>Non-overlapping occurrences of a non-empty needle; \<open>skip\<close> counts the characters of a match that
  are still to be passed over.\<close>

fun count_from :: "string \<Rightarrow> nat \<Rightarrow> string \<Rightarrow> nat" where
  "count_from needle skip [] = 0"
| "count_from needle (Suc skip) (c # s) = count_from needle skip s"
| "count_from needle 0 (c # s) =
     (if starts_with needle (c # s) then Suc (count_from needle (length needle - 1) s)
      else count_from needle 0 s)"

definition count_occurrences :: "string \<Rightarrow> string \<Rightarrow> nat" where
  "count_occurrences haystack needle = count_from needle 0 haystack"

text \<open>\<open>replacen(from, to, 1)\<close>.\<close>

fun replace_first :: "string \<Rightarrow> string \<Rightarrow> string \<Rightarrow> string" where
  "replace_first needle new [] = []"
| "replace_first needle new (c # s) =
     (if starts_with needle (c # s) then new @ drop (length needle) (c # s)
      else c # replace_first needle new s)"

fun closest_line :: "string \<Rightarrow> nat \<Rightarrow> string list \<Rightarrow> string option" where
  "closest_line first_line i [] = None"
| "closest_line first_line i (line # lines) =
     (let t = trim_ws line in
      if str_contains first_line t \<or> str_contains t first_line
      then Some (''Closest match found at line '' @ show_nat (i + 1) @ '':'' @ [LF] @ line)
      else closest_line first_line (Suc i) lines)"

definition find_closest_line_hint :: "string \<Rightarrow> string \<Rightarrow> string" where
  "find_closest_line_hint content search =
     (let first_line = trim_ws (case str_lines search of l # _ \<Rightarrow> l | [] \<Rightarrow> []) in
      if first_line = [] then ''Tip: use read_file to see current content.''
      else
        (case closest_line first_line 0 (str_lines content) of
           Some hint \<Rightarrow> hint
         | None \<Rightarrow> ''The first line of old_str was not found. The file may have changed; use read_file first.''))"

definition not_found_message :: "string \<Rightarrow> string \<Rightarrow> string \<Rightarrow> string" where
  "not_found_message path searched hint =
     join [LF] [''The text to replace was not found in '' @ path @ ''.'', [], ''You searched for:'', searched, [], hint, [],
       ''Common causes:'', ''- The file was already modified by a previous edit'',
       ''- Whitespace or indentation differs from the file'', ''- The function or variable was renamed'', [],
       ''Use read_file to see the current content, then retry with the exact text as it appears now.'']"

text \<open>The dash of the ambiguity and patch messages is the em dash.\<close>

definition EM_DASH :: string where
  "EM_DASH = [CHR 0xE2, CHR 0x80, CHR 0x94]"

definition edit_text :: "string \<Rightarrow> string \<Rightarrow> string \<Rightarrow> string \<Rightarrow> tool_output + string" where
  "edit_text path old_str new_str content =
     (let n = count_occurrences content old_str in
      if n = 0
      then Inl (OutError NotFound
        (not_found_message path (truncate_at_char_boundary old_str 200) (find_closest_line_hint content old_str)))
      else if n \<ge> 2
      then Inl (OutError AmbiguousMatch (''old_str matches '' @ show_nat n @ '' times in '' @ path @ '' '' @ EM_DASH
                  @ '' add more context to make it unique''))
      else Inr (replace_first old_str new_str content))"

definition edit_file ::
    "('f, 'p, 'x) tool_env_scheme \<Rightarrow> 'f \<Rightarrow> string \<Rightarrow> string \<Rightarrow> string \<Rightarrow> bool \<Rightarrow> 'f \<times> tool_output" where
  "edit_file T f path old_str new_str dry_run =
     (case open_text_file T f path of
        Inl err \<Rightarrow> (f, err)
      | Inr (resolved, content) \<Rightarrow>
          (case edit_text path old_str new_str content of
             Inl err \<Rightarrow> (f, err)
           | Inr updated \<Rightarrow>
               let rel = (case relative_path_display T f resolved of Some r \<Rightarrow> r | None \<Rightarrow> path);
                   change = change_of T content updated rel;
                   (f1, written) = (if dry_run then (f, Inr 0) else atomic_write_in_sandbox T f resolved (as_bytes updated)) in
               (case written of
                  Inl e \<Rightarrow> (f1, OutError PermissionDenied (''write failed: '' @ fs_error_to_string e))
                | Inr _ \<Rightarrow> (f1, report_changes T ''edit'' dry_run [change]))))"

definition edit_execute :: "('f, 'p, 'x) tool_env_scheme \<Rightarrow> 'f \<Rightarrow> json \<Rightarrow> 'f \<times> tool_output" where
  "edit_execute T f args =
     (case require_path ''path'' args of
        Inl err \<Rightarrow> (f, err)
      | Inr path \<Rightarrow>
          (case json_str ''old_str'' args of
             None \<Rightarrow> (f, OutError InvalidArgs (''missing '' @ quoted ''old_str'' @ '' string''))
           | Some old_str \<Rightarrow>
               if old_str = []
               then (f, OutError InvalidArgs (''edit: '' @ quoted ''old_str''
                  @ '' must be a non-empty exact snippet from the file (read it first, copy the text to change verbatim). Empty old_str is invalid ''
                  @ EM_DASH @ '' use write_file for full rewrites.''))
               else
                 (case json_str ''new_str'' args of
                    None \<Rightarrow>
                      (f, OutError InvalidArgs (''missing '' @ quoted ''new_str'' @ '' string (use empty string to delete old_str)''))
                  | Some new_str \<Rightarrow> edit_file T f path old_str new_str (dry_run_of args))))"

section \<open>\<open>patch\<close>\<close>

definition patch_target :: "('f, 'p, 'x) tool_env_scheme \<Rightarrow> nat \<Rightarrow> 'p \<Rightarrow> tool_output + string" where
  "patch_target T seg_ix patch =
     (if (case ph_original (px_headers (te_patch T) patch) of Some h \<Rightarrow> is_dev_null (strip_ab_prefix h) | None \<Rightarrow> False)
      then Inl (OutError InvalidArgs
        ''creating new files via patch is not supported; only existing files can be patched'')
      else
        (case target_relative_path (te_patch T) patch of
           Some s \<Rightarrow>
             if s \<noteq> [] then Inr s
             else Inl (OutError InvalidArgs (''patch segment '' @ show_nat (seg_ix + 1)
                    @ '' is missing a usable file path in ---/+++ headers''))
         | None \<Rightarrow>
             Inl (OutError InvalidArgs (''patch segment '' @ show_nat (seg_ix + 1)
                    @ '' is missing a usable file path in ---/+++ headers''))))"

text \<open>One segment: the changed file, or the error that ends the call.\<close>

definition patch_segment ::
    "('f, 'p, 'x) tool_env_scheme \<Rightarrow> bool \<Rightarrow> nat \<Rightarrow> string \<Rightarrow> 'f \<Rightarrow> 'f \<times> (tool_output + file_change)" where
  "patch_segment T dry_run seg_ix chunk f =
     (case px_parse (te_patch T) chunk of
        Inl e \<Rightarrow>
          (f, Inl (OutError InvalidArgs (''invalid unified diff (segment '' @ show_nat (seg_ix + 1) @ ''): '' @ e)))
      | Inr patch \<Rightarrow>
          (case patch_target T seg_ix patch of
             Inl err \<Rightarrow> (f, Inl err)
           | Inr rel_str \<Rightarrow>
               (case open_text_file T f rel_str of
                  Inl err \<Rightarrow> (f, Inl err)
                | Inr (resolved, content) \<Rightarrow>
                    (case px_apply (te_patch T) content patch of
                       Inl e \<Rightarrow>
                         (f, Inl (OutError PatchFailed (''could not apply patch to '' @ rel_str @ '': '' @ e @ '' ''
                            @ EM_DASH @ '' file content may have changed since the patch was generated'')))
                     | Inr new_content \<Rightarrow>
                         let (f1, written) =
                             (if dry_run then (f, Inr 0) else atomic_write_in_sandbox T f resolved (as_bytes new_content)) in
                         (case written of
                            Inl e \<Rightarrow>
                              (f1, Inl (OutError PermissionDenied (''write failed for '' @ rel_str @ '': '' @ fs_error_to_string e)))
                          | Inr _ \<Rightarrow>
                              let display_path = (case relative_path_display T f1 resolved of Some r \<Rightarrow> r | None \<Rightarrow> rel_str) in
                              (f1, Inr (change_of T content new_content display_path)))))))"

fun patch_segments ::
    "('f, 'p, 'x) tool_env_scheme \<Rightarrow> bool \<Rightarrow> nat \<Rightarrow> string list \<Rightarrow> 'f \<Rightarrow> 'f \<times> (tool_output + file_change list)" where
  "patch_segments T dry_run seg_ix [] f = (f, Inr [])"
| "patch_segments T dry_run seg_ix (chunk # chunks) f =
     st_bind (patch_segment T dry_run seg_ix chunk f) (\<lambda>f1 change.
     st_bind (patch_segments T dry_run (Suc seg_ix) chunks f1) (\<lambda>f2 changes.
     (f2, Inr (change # changes))))"

definition patch_execute :: "('f, 'p, 'x) tool_env_scheme \<Rightarrow> 'f \<Rightarrow> json \<Rightarrow> 'f \<times> tool_output" where
  "patch_execute T f args =
     (case json_str ''patch'' args of
        None \<Rightarrow> (f, OutError InvalidArgs (''missing or empty '' @ quoted ''patch'' @ '' string''))
      | Some patch_text \<Rightarrow>
          if trim_ws patch_text = [] then (f, OutError InvalidArgs (''missing or empty '' @ quoted ''patch'' @ '' string''))
          else
            (let chunks = split_unified_patches patch_text in
             if chunks = []
             then (f, OutError InvalidArgs ''patch must contain at least one unified diff file header (--- )'')
             else
               (case patch_segments T (dry_run_of args) 0 chunks f of
                  (f1, Inl err) \<Rightarrow> (f1, err)
                | (f1, Inr changes) \<Rightarrow> (f1, report_changes T ''patch'' (dry_run_of args) changes))))"

section \<open>\<open>apply_patch\<close>\<close>

definition comparable_path :: "string \<Rightarrow> string" where
  "comparable_path p = join [slash] (filter (\<lambda>c. c \<noteq> [] \<and> c \<noteq> ''.'') (split_on slash (backslash_to_slash p)))"

definition normalize_single_file_patch ::
    "('f, 'p, 'x) tool_env_scheme \<Rightarrow> string \<Rightarrow> string \<Rightarrow> tool_output + string" where
  "normalize_single_file_patch T file_path patch_body =
     (let rel = dropWhile (\<lambda>c. c = slash) (backslash_to_slash file_path) in
      if rel = [] then Inl (OutError InvalidArgs (quoted ''file_path'' @ '' must not be empty''))
      else
        (let body = remove_cr patch_body; trimmed = trim_start_ws body;
             full = (if starts_with ''--- '' trimmed then body
                     else ''--- a/'' @ rel @ [LF] @ ''+++ b/'' @ rel @ [LF] @ trimmed) in
         case split_unified_patches full of
           [] \<Rightarrow> Inl (OutError InvalidArgs
                ''patch must contain at least one hunk (or a full unified diff with --- headers)'')
         | [chunk] \<Rightarrow>
             (case header_relative_paths (te_patch T) chunk of
                None \<Rightarrow> Inl (OutError InvalidArgs ''patch ---/+++ headers could not be parsed'')
              | Some headers \<Rightarrow>
                  (case find (\<lambda>h. comparable_path h \<noteq> comparable_path rel) headers of
                     Some other \<Rightarrow>
                       Inl (OutError InvalidArgs (''patch header names '' @ tick @ other @ tick @ '' but file_path is ''
                         @ tick @ rel @ tick @ ''; apply_patch only patches the file named by file_path (use the ''
                         @ tick @ ''patch'' @ tick @ '' tool for header-addressed diffs)''))
                   | None \<Rightarrow> Inr full))
         | _ \<Rightarrow> Inl (OutError InvalidArgs (''apply_patch applies to one file only; use the '' @ tick @ ''patch'' @ tick
                  @ '' tool for multi-file diffs''))))"

definition apply_patch_execute :: "('f, 'p, 'x) tool_env_scheme \<Rightarrow> 'f \<Rightarrow> json \<Rightarrow> 'f \<times> tool_output" where
  "apply_patch_execute T f args =
     (case require_path ''file_path'' args of
        Inl err \<Rightarrow> (f, err)
      | Inr path \<Rightarrow>
          (case json_str ''patch'' args of
             None \<Rightarrow> (f, OutError InvalidArgs (''missing or empty '' @ quoted ''patch'' @ '' string''))
           | Some patch_text \<Rightarrow>
               if trim_ws patch_text = [] then (f, OutError InvalidArgs (''missing or empty '' @ quoted ''patch'' @ '' string''))
               else
                 (case normalize_single_file_patch T path patch_text of
                    Inl err \<Rightarrow> (f, err)
                  | Inr full \<Rightarrow>
                      patch_execute T f (JObject [(''patch'', JString full), (''dry_run'', JBool (dry_run_of args))]))))"

section \<open>\<open>read_file\<close>\<close>

definition DEFAULT_MAX_READ_BYTES :: nat where
  "DEFAULT_MAX_READ_BYTES = 1024 * 1024"

definition read_file_execute ::
    "('f, 'p, 'x) tool_env_scheme \<Rightarrow> nat \<Rightarrow> 'f \<Rightarrow> json \<Rightarrow> tool_output" where
  "read_file_execute T max_bytes f args =
     (case require_path ''path'' args of
        Inl err \<Rightarrow> err
      | Inr path \<Rightarrow>
          (case resolve_path T f path of
             Inl (SxPathEscape _ _) \<Rightarrow> OutError PathEscape (''path escapes sandbox: '' @ path)
           | Inl (SxCanonicalize e) \<Rightarrow>
               (if fs_is_not_found e then OutError NotFound (''path not found: '' @ path)
                else OutError PermissionDenied (''could not resolve path: '' @ fs_error_to_string e))
           | Inr resolved \<Rightarrow>
               (case fs_metadata (te_fs T) f resolved of
                  Inl e \<Rightarrow>
                    (if fs_is_not_found e then OutError NotFound (''file not found: '' @ resolved)
                     else OutError PermissionDenied (''metadata: '' @ fs_error_to_string e))
                | Inr m \<Rightarrow>
                    if fm_kind m = KindDirectory then OutError NotAFile (''not a regular file: '' @ resolved)
                    else if fm_kind m \<noteq> KindFile then OutError NotAFile (''path is not a regular file: '' @ resolved)
                    else if fm_len m > max_bytes
                    then OutError TooLarge (''file size '' @ show_nat (fm_len m) @ '' exceeds limit '' @ show_nat max_bytes)
                    else
                      (case fs_open (te_fs T) f resolved of
                         Inl e \<Rightarrow>
                           (if fs_is_not_found e then OutError NotFound (''file not found: '' @ resolved)
                            else OutError PermissionDenied (''open failed: '' @ fs_error_to_string e))
                       | Inr _ \<Rightarrow>
                           (case fs_read_up_to (te_fs T) f resolved (max_bytes + 1) of
                              Inl e \<Rightarrow> OutError PermissionDenied (''read failed: '' @ fs_error_to_string e)
                            | Inr buf \<Rightarrow>
                                if length buf > max_bytes
                                then OutError TooLarge (''read exceeded limit '' @ show_nat max_bytes)
                                else
                                  (case from_utf8 buf of
                                     None \<Rightarrow> OutError BinaryContent ''file is not valid UTF-8''
                                   | Some content \<Rightarrow> OutSuccess content))))))"

end
