(* ===== verification/File_Properties.thy ===== *)
theory File_Properties
  imports File_Tools Policy_Properties
begin

text \<open>What the file tools do to the file system: atomicity and containment of every change, dry runs, the
  exact effect of an edit, the bound of a read, and where the patch tools depart from their description.\<close>

section \<open>Paths\<close>

definition plain_name :: "string \<Rightarrow> bool" where
  "plain_name n \<longleftrightarrow> n \<noteq> [] \<and> n \<noteq> ''.'' \<and> n \<noteq> ''..'' \<and> slash \<notin> set n"

lemma split_on_append: "split_on d (a @ d # b) = split_on d a @ split_on d b"
  by (induction a) (auto split: list.split)

lemma map_filter_append: "List.map_filter f (xs @ ys) = List.map_filter f xs @ List.map_filter f ys"
  by (induction xs) (auto simp: List.map_filter_simps split: option.split)

lemma component_of_plain: "plain_name n \<Longrightarrow> component_of n = Some (Normal n)"
  by (simp add: component_of_def plain_name_def)

lemma plain_relative: "plain_name n \<Longrightarrow> \<not> path_is_absolute n"
  by (cases n) (auto simp: plain_name_def path_is_absolute_def)

lemma path_components_join:
  assumes "plain_name n"
  shows "path_components (path_join d n) = path_components d @ [Normal n]"
proof -
  have n: "split_on slash n = [n]" using assms by (simp add: plain_name_def split_on_plain)
  have f: "List.map_filter component_of [n] = [Normal n]" by (simp add: List.map_filter_simps component_of_plain [OF assms])
  consider "d = []" | a where "d = a @ [slash]" | "d \<noteq> []" "\<not> ends_with_slash d"
    by (metis append_butlast_last_id ends_with_slash_def)
  then show ?thesis
  proof cases
    case 1
    have "n \<noteq> ''.''" using assms by (simp add: plain_name_def)
    with 1 show ?thesis using plain_relative [OF assms]
      by (simp add: path_join_def path_components_def n f path_is_absolute_def)
        (use assms in \<open>simp add: List.map_filter_simps component_of_def plain_name_def\<close>)
  next
    case 2
    have s: "split_on slash (a @ slash # n) = split_on slash a @ [n]" "split_on slash (a @ [slash]) = split_on slash a @ [[]]"
      by (simp_all add: split_on_append n)
    have "component_of [] = None" by (simp add: component_of_def)
    moreover have "hd (split_on slash a @ [n]) = hd (split_on slash a @ [[]])" by (cases "split_on slash a") (auto dest: arg_cong)
    moreover have "path_is_absolute (a @ slash # n) = path_is_absolute (a @ [slash])" by (cases a) (simp_all add: path_is_absolute_def)
    ultimately show ?thesis using plain_relative [OF assms] 2
      by (simp add: path_join_def path_components_def ends_with_slash_def s map_filter_append f List.map_filter_simps
          component_of_plain [OF assms])
  next
    case 3
    have s: "split_on slash (d @ slash # n) = split_on slash d @ [n]" by (simp add: split_on_append n)
    moreover have "hd (split_on slash d @ [n]) = hd (split_on slash d)" by simp
    moreover have "path_is_absolute (d @ slash # n) = path_is_absolute d" using 3 by (cases d) (simp_all add: path_is_absolute_def)
    ultimately show ?thesis using plain_relative [OF assms] 3
      by (simp add: path_join_def path_components_def map_filter_append f List.map_filter_simps component_of_plain [OF assms])
  qed
qed

lemma path_file_name_components:
  assumes "path_file_name p = Some n"
  shows "plain_name n \<and> (\<exists>cs. path_components p = cs @ [Normal n])"
proof -
  from assms obtain rest where r: "rev (path_components p) = Normal n # rest"
    by (auto simp: path_file_name_def split: list.splits path_component.splits)
  then have e: "path_components p = rev rest @ [Normal n]" by (metis rev.simps(2) rev_rev_ident)
  then have "Normal n \<in> set (path_components p)" by simp
  then have "Normal n \<in> set (List.map_filter component_of (split_on slash p))"
    by (auto simp: path_components_def split: if_splits)
  then obtain seg where "seg \<in> set (split_on slash p)" "component_of seg = Some (Normal n)"
    by (auto simp: set_map_filter)
  then have "plain_name n"
    using split_on_no_sep [of seg slash p] by (auto simp: component_of_def plain_name_def split: if_splits)
  with e show ?thesis by blast
qed

lemma walk_back_le: "walk_back s n \<le> n"
  by (induction s n rule: walk_back.induct) auto

lemma stem_no_slash: "slash \<notin> set n \<Longrightarrow> slash \<notin> set (truncate_at_char_boundary n k)"
  by (auto simp: truncate_at_char_boundary_def dest: in_set_takeD)

section \<open>Laws of the file system\<close>

text \<open>What the tools rely on, as POSIX states it. An entry is named by its components; the view of a state
  gives the entries of canonical names. Nothing else changes the state during a call.\<close>

datatype fs_entry = RegularFile "byte list" | Directory | Special

type_synonym 'f fs_view = "'f \<Rightarrow> path_component list \<Rightarrow> fs_entry option"

text \<open>Paths that lead to a directory lead there in the later state as well.\<close>

definition same_dirs :: "'f fs_api \<Rightarrow> 'f fs_view \<Rightarrow> 'f \<Rightarrow> 'f \<Rightarrow> bool" where
  "same_dirs F view f f' \<longleftrightarrow>
     (\<forall>x r. fs_canonicalize F f x = Inr r \<and> view f (path_components r) = Some Directory
        \<longrightarrow> fs_canonicalize F f' x = Inr r \<and> view f' (path_components r) = Some Directory)"

definition unchanged :: "'f fs_api \<Rightarrow> 'f fs_view \<Rightarrow> 'f \<Rightarrow> 'f \<Rightarrow> bool" where
  "unchanged F view f f' \<longleftrightarrow> view f' = view f \<and> fs_canonicalize F f' = fs_canonicalize F f"

definition entry_at :: "string \<Rightarrow> string \<Rightarrow> path_component list" where
  "entry_at d n = path_components d @ [Normal n]"

definition canonical_name :: "'f fs_api \<Rightarrow> 'f \<Rightarrow> string \<Rightarrow> string \<Rightarrow> bool" where
  "canonical_name F f d n \<longleftrightarrow> fs_canonicalize F f d = Inr d \<and> plain_name n"

definition canonical_laws :: "'f fs_api \<Rightarrow> 'f fs_view \<Rightarrow> bool" where
  "canonical_laws F view \<longleftrightarrow>
     (\<forall>f p r. fs_canonicalize F f p = Inr r \<longrightarrow> fs_canonicalize F f r = Inr r \<and> path_is_absolute r)
     \<and> (\<forall>f p r d. fs_canonicalize F f p = Inr p \<and> path_parent p = Some d \<and> fs_canonicalize F f d = Inr r
          \<longrightarrow> path_components r = butlast (path_components p))"

definition look_laws :: "'f fs_api \<Rightarrow> 'f fs_view \<Rightarrow> bool" where
  "look_laws F view \<longleftrightarrow>
     (\<forall>f d n m. canonical_name F f d n \<and> fs_symlink_metadata F f (path_join d n) = Inr m \<and> fm_kind m = KindFile
        \<longrightarrow> (\<exists>c. view f (entry_at d n) = Some (RegularFile c)))
     \<and> (\<forall>f d n e. canonical_name F f d n \<and> fs_symlink_metadata F f (path_join d n) = Inl (FsNotFound e)
        \<longrightarrow> view f (entry_at d n) = None)
     \<and> (\<forall>f p m. fs_canonicalize F f p = Inr p \<and> fs_metadata F f p = Inr m \<and> fm_kind m = KindFile
        \<longrightarrow> (\<exists>c. view f (path_components p) = Some (RegularFile c)))
     \<and> (\<forall>f p b c. fs_canonicalize F f p = Inr p \<and> fs_read F f p = Inr b
        \<and> view f (path_components p) = Some (RegularFile c) \<longrightarrow> b = c)"

definition create_laws :: "'f fs_api \<Rightarrow> 'f fs_view \<Rightarrow> bool" where
  "create_laws F view \<longleftrightarrow>
     (\<forall>f f' u. fs_uuid F f = (f', u) \<longrightarrow> unchanged F view f f' \<and> slash \<notin> set u)
     \<and> (\<forall>f d n f' e. canonical_name F f d n \<and> fs_create_new F f (path_join d n) = (f', Inl e) \<longrightarrow> unchanged F view f f')
     \<and> (\<forall>f d n f'. canonical_name F f d n \<and> fs_create_new F f (path_join d n) = (f', Inr ())
        \<longrightarrow> view f (path_components d) = Some Directory \<and> view f (entry_at d n) = None
          \<and> view f' = (view f)(entry_at d n \<mapsto> RegularFile []) \<and> same_dirs F view f f')"

text \<open>Writing, changing the mode and removing a regular file.\<close>

definition file_laws :: "'f fs_api \<Rightarrow> 'f fs_view \<Rightarrow> bool" where
  "file_laws F view \<longleftrightarrow>
     (\<forall>f d n c b f' r. canonical_name F f d n \<and> view f (entry_at d n) = Some (RegularFile c)
        \<and> fs_write_sync F f (path_join d n) b = (f', r)
        \<longrightarrow> same_dirs F view f f' \<and> (\<exists>c'. view f' = (view f)(entry_at d n \<mapsto> RegularFile c') \<and> (r = Inr () \<longrightarrow> c' = b)))
     \<and> (\<forall>f d n c m f' r. canonical_name F f d n \<and> view f (entry_at d n) = Some (RegularFile c)
        \<and> fs_set_permissions F f (path_join d n) m = (f', r) \<longrightarrow> unchanged F view f f')
     \<and> (\<forall>f d n c f' r. canonical_name F f d n \<and> view f (entry_at d n) = Some (RegularFile c)
        \<and> fs_remove_file F f (path_join d n) = (f', r)
        \<longrightarrow> same_dirs F view f f' \<and> (view f' = view f \<or> view f' = (view f)(entry_at d n := None)))"

definition rename_laws :: "'f fs_api \<Rightarrow> 'f fs_view \<Rightarrow> bool" where
  "rename_laws F view \<longleftrightarrow>
     (\<forall>f d n m c f'. canonical_name F f d n \<and> plain_name m \<and> view f (entry_at d n) = Some (RegularFile c)
        \<and> fs_rename F f (path_join d n) (path_join d m) = (f', Inr ())
        \<longrightarrow> view f' = (view f)(entry_at d n := None, entry_at d m \<mapsto> RegularFile c)
          \<and> (view f (entry_at d m) \<noteq> Some Special \<longrightarrow> same_dirs F view f f'))
     \<and> (\<forall>f d n m c f' e. canonical_name F f d n \<and> plain_name m \<and> view f (entry_at d n) = Some (RegularFile c)
        \<and> fs_rename F f (path_join d n) (path_join d m) = (f', Inl e) \<longrightarrow> unchanged F view f f')"

definition fs_laws :: "'f fs_api \<Rightarrow> 'f fs_view \<Rightarrow> bool" where
  "fs_laws F view \<longleftrightarrow> canonical_laws F view \<and> look_laws F view \<and> create_laws F view \<and> file_laws F view \<and> rename_laws F view"

lemma same_dirs_refl [simp]: "same_dirs F view f f"
  by (simp add: same_dirs_def)

lemma same_dirs_trans: "same_dirs F view f f1 \<Longrightarrow> same_dirs F view f1 f2 \<Longrightarrow> same_dirs F view f f2"
  unfolding same_dirs_def by blast

lemma unchanged_same: "unchanged F view f f' \<Longrightarrow> same_dirs F view f f'"
  by (simp add: unchanged_def same_dirs_def)

lemma create_lawD:
  assumes "create_laws F view"
  shows "fs_uuid F f = (f', u) \<Longrightarrow> unchanged F view f f' \<and> slash \<notin> set u"
    and "canonical_name F f d n \<Longrightarrow> fs_create_new F f (path_join d n) = (f', Inl e) \<Longrightarrow> unchanged F view f f'"
    and "canonical_name F f d n \<Longrightarrow> fs_create_new F f (path_join d n) = (f', Inr unit) \<Longrightarrow>
      view f (path_components d) = Some Directory \<and> view f (entry_at d n) = None
      \<and> view f' = (view f)(entry_at d n \<mapsto> RegularFile []) \<and> same_dirs F view f f'"
proof -
  note a = assms [unfolded create_laws_def]
  show "fs_uuid F f = (f', u) \<Longrightarrow> unchanged F view f f' \<and> slash \<notin> set u" using a by blast
  show "canonical_name F f d n \<Longrightarrow> fs_create_new F f (path_join d n) = (f', Inl e) \<Longrightarrow> unchanged F view f f'"
    using a by blast
  show "canonical_name F f d n \<Longrightarrow> fs_create_new F f (path_join d n) = (f', Inr unit) \<Longrightarrow>
      view f (path_components d) = Some Directory \<and> view f (entry_at d n) = None
      \<and> view f' = (view f)(entry_at d n \<mapsto> RegularFile []) \<and> same_dirs F view f f'"
    using a by simp
qed

section \<open>Atomic replacement\<close>

definition is_temp_name :: "string \<Rightarrow> bool" where
  "is_temp_name n \<longleftrightarrow> plain_name n \<and> starts_with TEMP_PREFIX n"

text \<open>The temporary file is a new regular file of the directory.\<close>

definition temp_outcome :: "'f fs_api \<Rightarrow> 'f fs_view \<Rightarrow> string \<Rightarrow> 'f \<Rightarrow> 'f \<Rightarrow> fs_error + string \<Rightarrow> bool" where
  "temp_outcome F view d f f' r \<longleftrightarrow> (case r of
      Inl _ \<Rightarrow> unchanged F view f f'
    | Inr tmp \<Rightarrow> \<exists>n. tmp = path_join d n \<and> is_temp_name n \<and> view f (entry_at d n) = None
        \<and> view f (path_components d) = Some Directory
        \<and> view f' = (view f)(entry_at d n \<mapsto> RegularFile []) \<and> same_dirs F view f f')"

lemma temp_outcome_from:
  "unchanged F view f f1 \<Longrightarrow> temp_outcome F view d f1 f' r \<longleftrightarrow> temp_outcome F view d f f' r"
proof -
  assume u: "unchanged F view f f1"
  then have a: "view f1 = view f" "unchanged F view f1 f' = unchanged F view f f'" "same_dirs F view f1 f' = same_dirs F view f f'"
    by (simp_all add: unchanged_def same_dirs_def)
  show ?thesis by (simp only: temp_outcome_def a)
qed

lemma create_temp_file_spec:
  assumes "create_laws F view" "fs_canonicalize F f d = Inr d" "slash \<notin> set stem"
    and "create_temp_file F d stem k taken f = (f', r)"
  shows "temp_outcome F view d f f' r"
  using assms(2,4)
proof (induction k arbitrary: taken f)
  case 0
  then show ?case by (auto simp: unchanged_def temp_outcome_def)
next
  case (Suc k)
  obtain f1 u where u: "fs_uuid F f = (f1, u)" by fastforce
  with create_lawD(1) [OF assms(1)] have f1: "unchanged F view f f1" "slash \<notin> set u" by simp_all
  let ?n = "TEMP_PREFIX @ u @ ''-'' @ stem"
  have n: "is_temp_name ?n"
    using f1(2) assms(3) by (simp add: is_temp_name_def plain_name_def TEMP_PREFIX_def starts_with_iff slash_def)
  have c: "canonical_name F f1 d ?n" using f1(1) Suc.prems(1) n by (simp add: canonical_name_def unchanged_def is_temp_name_def)
  obtain f2 r2 where k: "fs_create_new F f1 (path_join d ?n) = (f2, r2)" by fastforce
  show ?case
  proof (cases r2)
    case (Inr unit)
    with k create_lawD(3) [OF assms(1) c, of f2] have "view f1 (path_components d) = Some Directory"
      "view f1 (entry_at d ?n) = None" "view f2 = (view f1)(entry_at d ?n \<mapsto> RegularFile [])" "same_dirs F view f1 f2"
      by simp_all
    moreover have "r = Inr (path_join d ?n)" "f' = f2" using Suc.prems(2) u k Inr by auto
    ultimately have "temp_outcome F view d f1 f' r" using n by (auto simp: temp_outcome_def)
    then show ?thesis using temp_outcome_from [OF f1(1)] by blast
  next
    case (Inl e)
    with k create_lawD(2) [OF assms(1) c, of f2 e] have "unchanged F view f1 f2" by simp
    with f1(1) have f2: "unchanged F view f f2" by (simp add: unchanged_def)
    show ?thesis
    proof (cases e)
      case (CreateExists t)
      with Suc.prems(2) u k Inl have "create_temp_file F d stem k (Some t) f2 = (f', r)" by simp
      moreover have "fs_canonicalize F f2 d = Inr d" using f2 Suc.prems(1) by (simp add: unchanged_def)
      ultimately have "temp_outcome F view d f2 f' r" by (rule Suc.IH [rotated])
      then show ?thesis using temp_outcome_from [OF f2] by blast
    next
      case (CreateFailed t)
      with Suc.prems(2) u k Inl have "r = Inl t" "f' = f2" by auto
      with f2 show ?thesis by (simp add: temp_outcome_def)
    qed
  qed
qed

lemma same_dirs_canonical:
  "same_dirs F view f f' \<Longrightarrow> fs_canonicalize F f d = Inr d \<Longrightarrow> view f (path_components d) = Some Directory
    \<Longrightarrow> fs_canonicalize F f' d = Inr d \<and> view f' (path_components d) = Some Directory"
  by (auto simp: same_dirs_def)

lemma file_lawD:
  assumes "file_laws F view" "canonical_name F f d n" "view f (entry_at d n) = Some (RegularFile c)"
  shows "fs_write_sync F f (path_join d n) b = (f', r) \<Longrightarrow>
      same_dirs F view f f' \<and> (\<exists>c'. view f' = (view f)(entry_at d n \<mapsto> RegularFile c') \<and> (r = Inr () \<longrightarrow> c' = b))"
    and "fs_set_permissions F f (path_join d n) m = (f', r) \<Longrightarrow> unchanged F view f f'"
    and "fs_remove_file F f (path_join d n) = (f', r) \<Longrightarrow>
      same_dirs F view f f' \<and> (view f' = view f \<or> view f' = (view f)(entry_at d n := None))"
  using assms unfolding file_laws_def by blast+

lemma rename_lawD:
  assumes "rename_laws F view" "canonical_name F f d n" "plain_name m" "view f (entry_at d n) = Some (RegularFile c)"
  shows "fs_rename F f (path_join d n) (path_join d m) = (f', Inr unit) \<Longrightarrow>
      view f' = (view f)(entry_at d n := None, entry_at d m \<mapsto> RegularFile c)
      \<and> (view f (entry_at d m) \<noteq> Some Special \<longrightarrow> same_dirs F view f f')"
    and "fs_rename F f (path_join d n) (path_join d m) = (f', Inl e) \<Longrightarrow> unchanged F view f f'"
proof -
  note a = assms(1) [unfolded rename_laws_def]
  show "fs_rename F f (path_join d n) (path_join d m) = (f', Inr unit) \<Longrightarrow>
      view f' = (view f)(entry_at d n := None, entry_at d m \<mapsto> RegularFile c)
      \<and> (view f (entry_at d m) \<noteq> Some Special \<longrightarrow> same_dirs F view f f')"
    using conjunct1 [OF a] assms(2-4) by simp
  show "fs_rename F f (path_join d n) (path_join d m) = (f', Inl e) \<Longrightarrow> unchanged F view f f'"
    using conjunct2 [OF a] assms(2-4) by blast
qed

lemma fill_and_rename_spec:
  assumes laws: "file_laws F view" "rename_laws F view"
    and c: "canonical_name F f d n" "view f (path_components d) = Some Directory" "plain_name m"
    and v: "view f (entry_at d n) = Some (RegularFile c)"
    and run: "fill_and_rename F (path_join d n) (path_join d m) perms content f = (f', r)"
  shows "(r = Inr () \<longrightarrow> view f' = (view f)(entry_at d n := None, entry_at d m \<mapsto> RegularFile content)
        \<and> (view f (entry_at d m) \<noteq> Some Special \<longrightarrow> same_dirs F view f f'))
     \<and> (r \<noteq> Inr () \<longrightarrow> same_dirs F view f f' \<and> (\<exists>c'. view f' = (view f)(entry_at d n \<mapsto> RegularFile c')))"
proof -
  obtain f1 r1 where w: "fs_write_sync F f (path_join d n) content = (f1, r1)" by fastforce
  from file_lawD(1) [OF laws(1) c(1) v w] obtain c1 where f1: "same_dirs F view f f1"
    "view f1 = (view f)(entry_at d n \<mapsto> RegularFile c1)" "r1 = Inr () \<longrightarrow> c1 = content" by blast
  show ?thesis
  proof (cases r1)
    case (Inl e)
    with run w have "r = Inl e" "f' = f1" by (simp_all add: fill_and_rename_def)
    with f1 show ?thesis by auto
  next
    case (Inr unit)
    then have c1: "c1 = content" using f1(3) by simp
    have can1: "canonical_name F f1 d n"
      using same_dirs_canonical [OF f1(1)] c by (auto simp: canonical_name_def)
    have v1: "view f1 (entry_at d n) = Some (RegularFile content)" using f1(2) c1 by simp
    obtain f2 r2 where p: "(case perms of Some m \<Rightarrow> fs_set_permissions F f1 (path_join d n) m | None \<Rightarrow> (f1, Inr ())) = (f2, r2)"
      by fastforce
    have u2: "unchanged F view f1 f2"
    proof (cases perms)
      case None
      with p show ?thesis by (simp add: unchanged_def)
    next
      case (Some k)
      with p file_lawD(2) [OF laws(1) can1 v1, of k f2 r2] show ?thesis by simp
    qed
    then have v2: "view f2 = (view f)(entry_at d n \<mapsto> RegularFile content)" and d2: "same_dirs F view f f2"
      using f1 c1 same_dirs_trans [OF f1(1) unchanged_same [OF u2]] by (simp_all add: unchanged_def)
    show ?thesis
    proof (cases r2)
      case (Inl e)
      with run w Inr p have "r = Inl e" "f' = f2" by (simp_all add: fill_and_rename_def)
      with v2 d2 show ?thesis by auto
    next
      case (Inr unit2)
      have can2: "canonical_name F f2 d n" using can1 u2 by (simp add: canonical_name_def unchanged_def)
      have ren: "fs_rename F f2 (path_join d n) (path_join d m) = (f', r)"
        using run w \<open>r1 = Inr unit\<close> p Inr by (simp add: fill_and_rename_def)
      have v2': "view f2 (entry_at d n) = Some (RegularFile content)" using v2 by simp
      show ?thesis
      proof (cases r)
        case (Inl e)
        with ren rename_lawD(2) [OF laws(2) can2 c(3) v2', of f' e] have "unchanged F view f2 f'" by simp
        with Inl v2 same_dirs_trans [OF d2 unchanged_same [of F view f2 f']] show ?thesis
          by (auto simp: unchanged_def)
      next
        case (Inr unit3)
        with ren rename_lawD(1) [OF laws(2) can2 c(3) v2', of f'] have
          r: "view f' = (view f2)(entry_at d n := None, entry_at d m \<mapsto> RegularFile content)"
          "view f2 (entry_at d m) \<noteq> Some Special \<longrightarrow> same_dirs F view f2 f'" by simp_all
        have "view f' = (view f)(entry_at d n := None, entry_at d m \<mapsto> RegularFile content)"
          unfolding r(1) v2 by (auto simp: fun_eq_iff)
        moreover have "view f2 (entry_at d m) \<noteq> Some Special" if "view f (entry_at d m) \<noteq> Some Special"
          using that v2 by simp
        ultimately show ?thesis using Inr r(2) same_dirs_trans [OF d2, of f'] by simp
      qed
    qed
  qed
qed

text \<open>Replacing a file of a canonical directory: all or nothing, up to a temporary file of that directory.\<close>

definition replaced :: "'f fs_api \<Rightarrow> 'f fs_view \<Rightarrow> string \<Rightarrow> string \<Rightarrow> byte list \<Rightarrow> 'f \<Rightarrow> 'f \<Rightarrow> fs_error + nat \<Rightarrow> bool" where
  "replaced F view d n content f f' r \<longleftrightarrow> (case r of
      Inr k \<Rightarrow> k = length content \<and> view f' = (view f)(entry_at d n \<mapsto> RegularFile content)
        \<and> (view f (entry_at d n) \<noteq> Some Special \<longrightarrow> same_dirs F view f f')
    | Inl _ \<Rightarrow> same_dirs F view f f' \<and> (view f' = view f
        \<or> (\<exists>t x. is_temp_name t \<and> view f (entry_at d t) = None \<and> view f' = (view f)(entry_at d t := x))))"

lemma replace_in_dir_spec:
  assumes laws: "fs_laws F view" and c: "canonical_name F f d n"
    and run: "replace_in_dir F d n content f = (f', r)"
  shows "replaced F view d n content f f' r"
proof -
  have l: "create_laws F view" "file_laws F view" "rename_laws F view" using laws by (simp_all add: fs_laws_def)
  let ?stem = "truncate_at_char_boundary n TEMP_NAME_STEM_MAX"
  obtain f1 r1 where t: "create_temp_file F d ?stem CREATE_ATTEMPTS None f = (f1, r1)" by fastforce
  have "slash \<notin> set ?stem" using c by (intro stem_no_slash) (simp add: canonical_name_def plain_name_def)
  with t create_temp_file_spec [OF l(1)] c have out: "temp_outcome F view d f f1 r1" by (auto simp: canonical_name_def)
  show ?thesis
  proof (cases r1)
    case (Inl e)
    with run t have "r = Inl e" "f' = f1" by (auto simp: replace_in_dir_def Let_def)
    with out Inl show ?thesis by (auto simp: temp_outcome_def replaced_def unchanged_def unchanged_same)
  next
    case (Inr tmp)
    with out obtain m where m: "tmp = path_join d m" "is_temp_name m" "view f (entry_at d m) = None"
      "view f (path_components d) = Some Directory" "view f1 = (view f)(entry_at d m \<mapsto> RegularFile [])" "same_dirs F view f f1"
      by (auto simp: temp_outcome_def)
    have can1: "canonical_name F f1 d m" "view f1 (path_components d) = Some Directory"
      using same_dirs_canonical [OF m(6)] c m(2,4) by (auto simp: canonical_name_def is_temp_name_def)
    have v1: "view f1 (entry_at d m) = Some (RegularFile [])" using m(5) by simp
    define perms where "perms = (case fs_symlink_metadata F f (path_join d n) of
              Inr m \<Rightarrow> if fm_kind m = KindFile then Some (fm_permissions m) else None | Inl _ \<Rightarrow> None)"
    obtain f2 r2 where fr: "fill_and_rename F (path_join d m) (path_join d n) perms content f1 = (f2, r2)" by fastforce
    note spec = fill_and_rename_spec [OF l(2,3) can1 _ v1 fr]
    have n: "plain_name n" using c by (simp add: canonical_name_def)
    show ?thesis
    proof (cases r2)
      case (Inl e)
      with spec [OF n] obtain c' where s: "same_dirs F view f1 f2" "view f2 = (view f1)(entry_at d m \<mapsto> RegularFile c')" by auto
      have can2: "canonical_name F f2 d m" using same_dirs_canonical [OF s(1)] can1 by (auto simp: canonical_name_def)
      obtain f3 r3 where rm: "fs_remove_file F f2 (path_join d m) = (f3, r3)" by fastforce
      have v2: "view f2 (entry_at d m) = Some (RegularFile c')" using s(2) by simp
      from file_lawD(3) [OF l(2) can2 v2 rm] have s3: "same_dirs F view f2 f3"
        "view f3 = view f2 \<or> view f3 = (view f2)(entry_at d m := None)" by simp_all
      have "r = Inl e" "f' = f3" using run t Inr m(1) fr Inl rm unfolding replace_in_dir_def perms_def by (simp_all add: Let_def)
      moreover have "\<exists>x. view f3 = (view f)(entry_at d m := x)" using s3(2) s(2) m(5) by auto
      moreover have "same_dirs F view f f3" using same_dirs_trans [OF same_dirs_trans [OF m(6) s(1)] s3(1)] .
      ultimately show ?thesis using m(2,3) by (auto simp: replaced_def)
    next
      case (Inr unit)
      with spec [OF n] have s: "view f2 = (view f1)(entry_at d m := None, entry_at d n \<mapsto> RegularFile content)"
        "view f1 (entry_at d n) \<noteq> Some Special \<longrightarrow> same_dirs F view f1 f2" by auto
      have "r = Inr (length content)" "f' = f2"
        using run t \<open>r1 = Inr tmp\<close> m(1) fr Inr unfolding replace_in_dir_def perms_def by (simp_all add: Let_def)
      moreover have "view f2 = (view f)(entry_at d n \<mapsto> RegularFile content)"
        using s(1) m(3,5) by (auto simp: fun_eq_iff)
      moreover have "same_dirs F view f f2" if "view f (entry_at d n) \<noteq> Some Special"
        using that s(2) m(5) same_dirs_trans [OF m(6)] by simp
      ultimately show ?thesis by (simp add: replaced_def)
    qed
  qed
qed

section \<open>The sandbox\<close>

text \<open>The entries below the directories the roots lead to.\<close>

definition in_sandbox :: "('f, 'p, 'x) tool_env_scheme \<Rightarrow> 'f \<Rightarrow> path_component list \<Rightarrow> bool" where
  "in_sandbox T f q \<longleftrightarrow>
     (\<exists>root r. root \<in> set (sx_primary_root (te_sandbox T) # sx_additional_roots (te_sandbox T))
        \<and> fs_canonicalize (te_fs T) f root = Inr r \<and> list_prefix (path_components r) q)"

definition roots_are_directories :: "('f, 'p, 'x) tool_env_scheme \<Rightarrow> 'f fs_view \<Rightarrow> 'f \<Rightarrow> bool" where
  "roots_are_directories T view f \<longleftrightarrow>
     list_all (\<lambda>root. \<exists>r. fs_canonicalize (te_fs T) f root = Inr r \<and> view f (path_components r) = Some Directory)
       (sx_primary_root (te_sandbox T) # sx_additional_roots (te_sandbox T))"

lemma list_prefix_append: "list_prefix xs ys \<Longrightarrow> list_prefix xs (ys @ zs)"
  by (auto simp: list_prefix_iff)

lemma sandbox_resolve_canon: "sandbox_resolve canon S p = Inr q \<Longrightarrow>
  canon (if path_is_absolute p then p else path_join (sx_primary_root S) p) = Inr q"
  by (auto simp: sandbox_resolve_def Let_def split: if_splits)

lemma resolve_path_InrD:
  assumes "resolve_path T f p = Inr q"
  shows "in_sandbox T f (path_components q)"
    and "canonical_laws (te_fs T) view \<Longrightarrow> fs_canonicalize (te_fs T) f q = Inr q \<and> path_is_absolute q"
proof -
  from assms have s: "sandbox_resolve (fs_canonicalize (te_fs T) f) (te_sandbox T) p = Inr q" by (simp add: resolve_path_def)
  show "in_sandbox T f (path_components q)"
    by (rule sandbox_resolve_InrD [OF s]) (auto simp: in_sandbox_def path_starts_with_def)
  show "fs_canonicalize (te_fs T) f q = Inr q \<and> path_is_absolute q" if "canonical_laws (te_fs T) view"
    using sandbox_resolve_canon [OF s] that by (auto simp: canonical_laws_def)
qed

text \<open>A replacement in the sandbox: every entry that changes is in it, and all of them or none.\<close>

definition written :: "('f, 'p, 'x) tool_env_scheme \<Rightarrow> 'f fs_view \<Rightarrow> string \<Rightarrow> byte list \<Rightarrow> 'f \<Rightarrow> 'f \<Rightarrow> fs_error + nat \<Rightarrow> bool" where
  "written T view n content f f' r \<longleftrightarrow>
     (\<exists>d. in_sandbox T f (path_components d) \<and> canonical_name (te_fs T) f d n \<and> replaced (te_fs T) view d n content f f' r)
     \<or> (f' = f \<and> (\<exists>e. r = Inl e))"

lemma atomic_write_written:
  assumes "fs_laws (te_fs T) view" "path_file_name p = Some n"
    and "atomic_write_in_sandbox T f p content = (f', r)"
  shows "written T view n content f f' r"
proof (cases "path_parent p")
  case None
  with assms show ?thesis by (auto simp: atomic_write_in_sandbox_def written_def)
next
  case (Some parent)
  show ?thesis
  proof (cases "canonical_parent_in_sandbox T f parent")
    case (Inl e)
    with assms Some show ?thesis by (auto simp: atomic_write_in_sandbox_def written_def)
  next
    case (Inr d)
    then have d: "resolve_path T f parent = Inr d"
      by (auto simp: canonical_parent_in_sandbox_def split: sum.splits sandbox_error.splits)
    have "canonical_name (te_fs T) f d n"
      using resolve_path_InrD(2) [OF d] assms(1) path_file_name_components [OF assms(2)]
      by (auto simp: canonical_name_def fs_laws_def)
    moreover have "replace_in_dir (te_fs T) d n content f = (f', r)"
      using assms(2,3) Some Inr by (simp add: atomic_write_in_sandbox_def)
    ultimately show ?thesis using replace_in_dir_spec [OF assms(1)] resolve_path_InrD(1) [OF d]
      by (auto simp: written_def)
  qed
qed

lemma written_frame:
  assumes "written T view n content f f' r" "\<not> in_sandbox T f q"
  shows "view f' q = view f q"
proof (cases "f' = f")
  case False
  with assms(1) obtain d where d: "in_sandbox T f (path_components d)" "replaced (te_fs T) view d n content f f' r"
    by (auto simp: written_def)
  have "q \<noteq> entry_at d m" for m
    using assms(2) d(1) list_prefix_append by (fastforce simp: entry_at_def in_sandbox_def)
  with d(2) show ?thesis by (auto simp: replaced_def split: sum.splits)
qed simp

text \<open>C28: An atomic replacement is all or nothing: if it succeeds the named entry of a directory inside the
  sandbox holds exactly the new bytes and no other entry has changed; if it fails, the only entry that may
  have changed is a temporary file of that directory which did not exist before.\<close>

theorem atomic_write_is_atomic:
  assumes "fs_laws (te_fs T) view" "path_file_name p = Some n"
    and "atomic_write_in_sandbox T f p content = (f', r)"
  shows "view f' = view f \<and> (\<exists>e. r = Inl e)
    \<or> (\<exists>d. in_sandbox T f (path_components d) \<and> fs_canonicalize (te_fs T) f d = Inr d
        \<and> (case r of
             Inr k \<Rightarrow> k = length content \<and> view f' = (view f)(path_components d @ [Normal n] \<mapsto> RegularFile content)
           | Inl _ \<Rightarrow> \<exists>t x. starts_with TEMP_PREFIX t \<and> view f (path_components d @ [Normal t]) = None
               \<and> view f' = (view f)(path_components d @ [Normal t] := x)))"
proof -
  from atomic_write_written [OF assms] consider "f' = f" "\<exists>e. r = Inl e"
    | d where "in_sandbox T f (path_components d)" "canonical_name (te_fs T) f d n" "replaced (te_fs T) view d n content f f' r"
    by (auto simp: written_def)
  then show ?thesis
  proof cases
    case 2
    then show ?thesis
      by (cases r) (auto simp: replaced_def canonical_name_def is_temp_name_def entry_at_def)
  qed simp
qed

section \<open>The tools\<close>

lemma same_sandbox:
  assumes "same_dirs (te_fs T) view f f'" "roots_are_directories T view f"
  shows "roots_are_directories T view f' \<and> (in_sandbox T f' q \<longleftrightarrow> in_sandbox T f q)"
proof -
  have r: "\<exists>r. fs_canonicalize (te_fs T) f root = Inr r \<and> view f (path_components r) = Some Directory
      \<and> fs_canonicalize (te_fs T) f' root = Inr r \<and> view f' (path_components r) = Some Directory"
    if "root \<in> set (sx_primary_root (te_sandbox T) # sx_additional_roots (te_sandbox T))" for root
    using assms that unfolding roots_are_directories_def same_dirs_def list_all_iff by blast
  then have "roots_are_directories T view f'" unfolding roots_are_directories_def list_all_iff by blast
  moreover have "in_sandbox T f' q \<longleftrightarrow> in_sandbox T f q"
    unfolding in_sandbox_def using r by (metis sum.inject(2))
  ultimately show ?thesis by blast
qed

lemma as_bytes_bytes_text: "as_bytes (bytes_text b) = b"
proof (induction b)
  case (Cons x b)
  have "unat x < 2 ^ 8" by (rule order_less_le_trans [OF unsigned_less]) simp
  then have "(of_nat (of_char (char_of (unat x) :: char)) :: byte) = x" by simp
  with Cons show ?case by (simp add: as_bytes_def bytes_text_def)
qed (simp add: as_bytes_def bytes_text_def)

lemma as_bytes_of_text: "from_utf8 b = Some s \<Longrightarrow> as_bytes s = b"
  by (auto simp: from_utf8_def Let_def as_bytes_bytes_text split: if_splits)

lemma absolute_parent:
  assumes "path_is_absolute p" "path_parent p = Some d"
  shows "path_is_absolute d"
proof -
  from assms(1) obtain xs where p: "path_components p = RootDir # xs" by (simp add: path_components_def)
  with assms(2) have "xs \<noteq> []" by (auto simp: path_parent_def)
  then obtain ys y where "xs = ys @ [y]" by (metis append_butlast_last_id)
  with assms(2) p have "d = components_path (RootDir # ys) \<or> y = RootDir"
    by (auto simp: path_parent_def split: path_component.splits)
  moreover have "y \<noteq> RootDir"
  proof
    assume "y = RootDir"
    then have "RootDir \<in> set (List.map_filter component_of (split_on slash p))"
      using p \<open>xs = ys @ [y]\<close> assms(1) by (simp add: path_components_def)
    then show False by (auto simp: set_map_filter component_of_def split: if_splits)
  qed
  ultimately show ?thesis by (cases ys) (auto simp: components_path_def path_is_absolute_def)
qed

text \<open>A text file that was opened is a regular file of the sandbox; replacing it changes that entry.\<close>

lemma open_text_file_InrD:
  assumes "fs_laws (te_fs T) view" "open_text_file T f path = Inr (p, content)"
  shows "resolve_path T f path = Inr p \<and> fs_canonicalize (te_fs T) f p = Inr p \<and> path_is_absolute p
    \<and> in_sandbox T f (path_components p) \<and> view f (path_components p) = Some (RegularFile (as_bytes content))"
proof -
  from assms(2) obtain m b where o: "resolve_path T f path = Inr p" "fs_metadata (te_fs T) f p = Inr m"
    "fm_kind m = KindFile" "fs_read (te_fs T) f p = Inr b" "from_utf8 b = Some content"
    by (auto simp: open_text_file_def split: sum.splits sandbox_error.splits if_splits option.splits)
  have c: "fs_canonicalize (te_fs T) f p = Inr p \<and> path_is_absolute p"
    using resolve_path_InrD(2) [OF o(1)] assms(1) by (auto simp: fs_laws_def)
  have look: "look_laws (te_fs T) view" using assms(1) by (simp add: fs_laws_def)
  then obtain x where x: "view f (path_components p) = Some (RegularFile x)" using c o(2,3) unfolding look_laws_def by blast
  then have "b = x" using look c o(4) unfolding look_laws_def by blast
  with x o c resolve_path_InrD(1) [OF o(1)] as_bytes_of_text [OF o(5)] show ?thesis by simp
qed

lemma replace_opened:
  assumes laws: "fs_laws (te_fs T) view" and op: "open_text_file T f path = Inr (p, content)"
    and w: "atomic_write_in_sandbox T f p bytes = (f', r)"
  shows "same_dirs (te_fs T) view f f'
    \<and> (\<forall>q. \<not> in_sandbox T f q \<longrightarrow> view f' q = view f q)
    \<and> (\<forall>k. r = Inr k \<longrightarrow> view f' = (view f)(path_components p \<mapsto> RegularFile bytes))"
proof (cases "\<exists>e. r = Inl e \<and> f' = f")
  case False
  note o = open_text_file_InrD [OF laws op]
  from w False obtain parent n d where pn: "path_parent p = Some parent" "path_file_name p = Some n"
    "canonical_parent_in_sandbox T f parent = Inr d"
    and rep: "replace_in_dir (te_fs T) d n bytes f = (f', r)"
    by (auto simp: atomic_write_in_sandbox_def split: option.splits sum.splits)
  then have d: "resolve_path T f parent = Inr d"
    by (auto simp: canonical_parent_in_sandbox_def split: sum.splits sandbox_error.splits)
  have "path_is_absolute parent" using absolute_parent o pn(1) by blast
  then have "fs_canonicalize (te_fs T) f parent = Inr d"
    using sandbox_resolve_canon d by (fastforce simp: resolve_path_def)
  then have "path_components d = butlast (path_components p)"
    using laws o pn(1) unfolding fs_laws_def canonical_laws_def by blast
  moreover obtain cs where "plain_name n" "path_components p = cs @ [Normal n]"
    using path_file_name_components [OF pn(2)] by blast
  ultimately have e: "entry_at d n = path_components p" and n: "plain_name n" by (simp_all add: entry_at_def)
  have "canonical_name (te_fs T) f d n"
    using resolve_path_InrD(2) [OF d] laws n by (auto simp: canonical_name_def fs_laws_def)
  from replace_in_dir_spec [OF laws this rep] have R: "replaced (te_fs T) view d n bytes f f' r" .
  have "written T view n bytes f f' r"
    using R resolve_path_InrD(1) [OF d] \<open>canonical_name (te_fs T) f d n\<close> unfolding written_def by blast
  then have "\<forall>q. \<not> in_sandbox T f q \<longrightarrow> view f' q = view f q"
    using written_frame [of T view n bytes f f' r] by simp
  moreover have "view f (entry_at d n) \<noteq> Some Special" using o e by simp
  then have "same_dirs (te_fs T) view f f'" using R by (auto simp: replaced_def split: sum.splits)
  moreover have "\<forall>k. r = Inr k \<longrightarrow> view f' = (view f)(path_components p \<mapsto> RegularFile bytes)"
    using R e by (simp add: replaced_def split: sum.splits)
  ultimately show ?thesis by blast
qed auto

text \<open>\<open>write_file\<close> replaces a regular file or creates one.\<close>

lemma path_file_name_join: "plain_name n \<Longrightarrow> path_file_name (path_join d n) = Some n"
  by (simp add: path_file_name_def path_components_join)

lemma resolve_final_component_Inr:
  "resolve_final_component T f d n path = Inr p \<Longrightarrow> p = path_join d n
    \<and> (case fs_symlink_metadata (te_fs T) f p of Inr m \<Rightarrow> fm_kind m = KindFile | Inl e \<Rightarrow> fs_is_not_found e)"
  by (auto simp: resolve_final_component_def Let_def split: sum.splits if_splits)

lemma write_file_at_cases:
  assumes "write_file_at T f path p content dry = (f', out)"
  shows "f' = f \<or> (\<not> dry \<and> (\<exists>r. atomic_write_in_sandbox T f p (as_bytes content) = (f', r)))"
proof (cases dry)
  case True
  with assms show ?thesis by (simp add: write_file_at_def Let_def)
next
  case False
  obtain f1 r1 where "atomic_write_in_sandbox T f p (as_bytes content) = (f1, r1)" by fastforce
  with assms False show ?thesis by (cases r1) (auto simp: write_file_at_def Let_def)
qed

lemma write_file_cases:
  assumes run: "write_file_execute T f args = (f', out)"
  shows "f' = f \<or> (\<not> dry_run_of args \<and> (\<exists>p n content r. path_file_name p = Some n
    \<and> atomic_write_in_sandbox T f p (as_bytes content) = (f', r)))"
proof (cases "f' = f")
  case False
  from run False obtain path where p0: "require_path ''path'' args = Inr path"
    by (auto simp: write_file_execute_def split: sum.splits)
  with run False obtain content where c0: "json_str ''content'' args = Some content"
    by (auto simp: write_file_execute_def split: option.splits)
  with run False p0 obtain d n where s0: "split_write_path path = Inr (d, n)"
    by (auto simp: write_file_execute_def split: sum.splits)
  with run False p0 c0 obtain rp where r0: "resolve_path T f d = Inr rp"
    by (auto simp: write_file_execute_def split: sum.splits sandbox_error.splits)
  with run False p0 c0 s0 obtain p where f0: "resolve_final_component T f rp n path = Inr p"
    by (auto simp: write_file_execute_def split: sum.splits)
  with run p0 c0 s0 r0 have w: "write_file_at T f path p content (dry_run_of args) = (f', out)"
    by (simp add: write_file_execute_def)
  have "path_file_name path = Some n" using s0 by (auto simp: split_write_path_def split: option.splits)
  then have "plain_name n" using path_file_name_components by blast
  moreover have "p = path_join rp n" using resolve_final_component_Inr [OF f0] by simp
  ultimately have "path_file_name p = Some n" by (simp add: path_file_name_join)
  moreover from write_file_at_cases [OF w] False obtain r where
    "\<not> dry_run_of args" "atomic_write_in_sandbox T f p (as_bytes content) = (f', r)" by blast
  ultimately show ?thesis by blast
qed simp

lemma edit_file_cases:
  assumes "edit_file T f path old new dry = (f', out)"
  shows "f' = f \<or> (\<not> dry \<and> (\<exists>p content updated r. open_text_file T f path = Inr (p, content)
    \<and> edit_text path old new content = Inr updated \<and> atomic_write_in_sandbox T f p (as_bytes updated) = (f', r)))"
proof (cases "open_text_file T f path")
  case (Inr pc)
  obtain p content where pc: "pc = (p, content)" by fastforce
  show ?thesis
  proof (cases "edit_text path old new content")
    case (Inr updated)
    obtain f1 r1 where a: "atomic_write_in_sandbox T f p (as_bytes updated) = (f1, r1)" by fastforce
    show ?thesis
    proof (cases dry)
      case True
      with assms Inr \<open>open_text_file T f path = Inr pc\<close> pc show ?thesis by (simp add: edit_file_def Let_def)
    next
      case False
      with assms Inr \<open>open_text_file T f path = Inr pc\<close> pc a have "f' = f1"
        by (cases r1) (simp_all add: edit_file_def Let_def)
      with a False Inr \<open>open_text_file T f path = Inr pc\<close> pc show ?thesis by blast
    qed
  qed (use assms Inr pc in \<open>simp add: edit_file_def\<close>)
qed (use assms in \<open>simp add: edit_file_def\<close>)

lemma edit_execute_cases:
  assumes "edit_execute T f args = (f', out)"
  shows "(f' = f \<and> (\<exists>c m. out = OutError c m))
    \<or> (\<exists>path old new. json_str ''path'' args = Some path \<and> json_str ''old_str'' args = Some old \<and> old \<noteq> []
        \<and> json_str ''new_str'' args = Some new \<and> edit_file T f path old new (dry_run_of args) = (f', out))"
  using assms by (auto simp: edit_execute_def require_path_def split: option.splits if_splits)

lemma patch_segment_cases:
  assumes "patch_segment T dry k chunk f = (f', out)"
  shows "f' = f \<or> (\<not> dry \<and> (\<exists>path p content updated r. open_text_file T f path = Inr (p, content)
    \<and> atomic_write_in_sandbox T f p (as_bytes updated) = (f', r)))"
proof (cases "f' = f")
  case False
  with assms obtain path p content updated where o: "open_text_file T f path = Inr (p, content)"
    and w: "(let (f1, written) = (if dry then (f, Inr 0) else atomic_write_in_sandbox T f p (as_bytes updated)) in
              (case written of
                Inl e \<Rightarrow> (f1, Inl (OutError PermissionDenied (''write failed for '' @ path @ '': '' @ fs_error_to_string e)))
              | Inr _ \<Rightarrow> let display_path = (case relative_path_display T f1 p of Some r \<Rightarrow> r | None \<Rightarrow> path) in
                  (f1, Inr (change_of T content updated display_path)))) = (f', out)"
    unfolding patch_segment_def by (auto split: sum.splits prod.splits) 
  obtain f1 r1 where a: "atomic_write_in_sandbox T f p (as_bytes updated) = (f1, r1)" by fastforce
  have "\<not> dry" using w False by (auto simp: Let_def)
  moreover from this w a have "f' = f1" by (cases r1) (auto simp: Let_def)
  ultimately show ?thesis using o a by blast
qed simp

lemma patch_segments_dry: "patch_segments T True k chunks f = (f', out) \<Longrightarrow> f' = f"
proof (induction chunks arbitrary: k f f' out)
  case (Cons chunk chunks)
  obtain f1 r1 where s: "patch_segment T True k chunk f = (f1, r1)" by fastforce
  then have f1: "f1 = f" using patch_segment_cases [OF s] by simp
  show ?case
  proof (cases r1)
    case (Inr c)
    obtain f2 r2 where "patch_segments T True (Suc k) chunks f1 = (f2, r2)" by fastforce
    with Cons s Inr f1 show ?thesis by (cases r2) auto
  qed (use Cons.prems s f1 in simp)
qed simp

lemma patch_segments_frame:
  assumes "fs_laws (te_fs T) view" "patch_segments T dry k chunks f = (f', out)"
    and "roots_are_directories T view f" "\<not> in_sandbox T f q"
  shows "view f' q = view f q"
  using assms(2-4)
proof (induction chunks arbitrary: k f f' out)
  case (Cons chunk chunks)
  obtain f1 r1 where s: "patch_segment T dry k chunk f = (f1, r1)" by fastforce
  have f1: "same_dirs (te_fs T) view f f1 \<and> view f1 q = view f q"
  proof (cases "f1 = f")
    case False
    with patch_segment_cases [OF s] obtain path p content updated r where
      "open_text_file T f path = Inr (p, content)" "atomic_write_in_sandbox T f p (as_bytes updated) = (f1, r)" by blast
    from replace_opened [OF assms(1) this] Cons.prems(3) show ?thesis by simp
  qed simp
  show ?case
  proof (cases r1)
    case (Inr c)
    obtain f2 r2 where g: "patch_segments T dry (Suc k) chunks f1 = (f2, r2)" by fastforce
    have "view f2 q = view f1 q"
      using Cons.IH [OF g] same_sandbox [OF conjunct1 [OF f1] Cons.prems(2)] Cons.prems(3) by blast
    moreover have "f' = f2" using Cons.prems(1) s Inr g by (cases r2) simp_all
    ultimately show ?thesis using f1 by simp
  qed (use Cons.prems s f1 in simp)
qed simp

lemma patch_execute_cases:
  assumes "patch_execute T f args = (f', out)"
  shows "f' = f \<or> (\<exists>chunks r. patch_segments T (dry_run_of args) 0 chunks f = (f', r))"
  using assms by (auto simp: patch_execute_def Let_def split: option.splits if_splits prod.splits sum.splits)

lemma apply_patch_cases:
  assumes "apply_patch_execute T f args = (f', out)"
  shows "f' = f \<or> (\<exists>full. patch_execute T f (JObject [(''patch'', JString full), (''dry_run'', JBool (dry_run_of args))]) = (f', out))"
  using assms by (auto simp: apply_patch_execute_def split: sum.splits option.splits if_splits)

lemma dry_run_of_json: "dry_run_of (JObject [(''patch'', JString full), (''dry_run'', JBool b)]) = b"
  by (simp add: dry_run_of_def json_bool_def)

text \<open>The file system after a call of any of the tools that change files.\<close>

definition after_file_tools :: "('f, 'p, 'x) tool_env_scheme \<Rightarrow> 'f \<Rightarrow> json \<Rightarrow> 'f set" where
  "after_file_tools T f args =
     {fst (write_file_execute T f args), fst (edit_execute T f args), fst (patch_execute T f args),
      fst (apply_patch_execute T f args)}"

text \<open>C27: Whatever its arguments and its outcome, a call of \<open>write_file\<close>, \<open>edit\<close>, \<open>patch\<close> or \<open>apply_patch\<close>
  changes no entry outside the directories of the sandbox.\<close>

theorem file_tools_stay_in_sandbox:
  assumes laws: "fs_laws (te_fs T) view" and roots: "roots_are_directories T view f"
    and "f' \<in> after_file_tools T f args" "\<not> in_sandbox T f q"
  shows "view f' q = view f q"
proof -
  have p: "view (fst (patch_execute T f a)) q = view f q" for a
  proof -
    obtain f1 out where r: "patch_execute T f a = (f1, out)" by fastforce
    have "view f1 q = view f q" using patch_execute_cases [OF r] patch_segments_frame [OF laws _ roots assms(4)] by fastforce
    with r show ?thesis by simp
  qed
  moreover have "view (fst (apply_patch_execute T f args)) q = view f q"
  proof -
    obtain f1 out where r: "apply_patch_execute T f args = (f1, out)" by fastforce
    from apply_patch_cases [OF r] p have "view f1 q = view f q" by (metis fst_conv)
    with r show ?thesis by simp
  qed
  moreover have "view (fst (write_file_execute T f args)) q = view f q"
  proof -
    obtain f1 out where r: "write_file_execute T f args = (f1, out)" by fastforce
    have "view f1 q = view f q"
    proof (cases "f1 = f")
      case False
      with write_file_cases [OF r] obtain p n content w where "path_file_name p = Some n"
        "atomic_write_in_sandbox T f p (as_bytes content) = (f1, w)" by blast
      from written_frame [OF atomic_write_written [OF laws this] assms(4)] show ?thesis .
    qed simp
    with r show ?thesis by simp
  qed
  moreover have "view (fst (edit_execute T f args)) q = view f q"
  proof -
    obtain f1 out where r: "edit_execute T f args = (f1, out)" by fastforce
    have "view f1 q = view f q"
    proof (cases "f1 = f")
      case False
      with edit_execute_cases [OF r] obtain path old new where e: "edit_file T f path old new (dry_run_of args) = (f1, out)"
        by blast
      from edit_file_cases [OF e] False obtain p content updated w where "open_text_file T f path = Inr (p, content)"
        "atomic_write_in_sandbox T f p (as_bytes updated) = (f1, w)" by blast
      from replace_opened [OF laws this] assms(4) show ?thesis by simp
    qed simp
    with r show ?thesis by simp
  qed
  ultimately show ?thesis using assms(3) by (auto simp: after_file_tools_def)
qed

text \<open>A dry run leaves the file system as it is.\<close>

theorem dry_run_changes_nothing:
  assumes dry: "dry_run_of args" and "f' \<in> after_file_tools T f args"
  shows "f' = f"
proof -
  have p: "fst (patch_execute T f a) = f" if "dry_run_of a" for a
  proof -
    obtain f1 out where r: "patch_execute T f a = (f1, out)" by fastforce
    from patch_execute_cases [OF r] patch_segments_dry that have "f1 = f" by (metis (full_types))
    with r show ?thesis by simp
  qed
  moreover have "fst (apply_patch_execute T f args) = f"
  proof -
    obtain f1 out where r: "apply_patch_execute T f args = (f1, out)" by fastforce
    from apply_patch_cases [OF r] p dry_run_of_json dry have "f1 = f" by (metis fst_conv)
    with r show ?thesis by simp
  qed
  moreover have "fst (write_file_execute T f args) = f"
  proof -
    obtain f1 out where r: "write_file_execute T f args = (f1, out)" by fastforce
    from write_file_cases [OF r] dry r show ?thesis by simp
  qed
  moreover have "fst (edit_execute T f args) = f"
  proof -
    obtain f1 out where r: "edit_execute T f args = (f1, out)" by fastforce
    from edit_execute_cases [OF r] edit_file_cases dry have "f1 = f" by (metis (full_types))
    with r show ?thesis by simp
  qed
  ultimately show ?thesis using dry assms(2) by (auto simp: after_file_tools_def)
qed

end
