(* ===== verification/Tool_Properties.thy ===== *)
theory Tool_Properties
  imports File_Properties Replay_Properties
begin

text \<open>The effect of an edit and of a read, the places where the file tools depart from their descriptions,
  and a small file system on which the laws of \<open>File_Properties\<close> are shown to hold.\<close>

section \<open>Occurrences\<close>

lemma starts_with_drop: "starts_with p s \<Longrightarrow> s = p @ drop (length p) s"
  by (auto simp: starts_with_iff)

lemma count_skip: "count_from needle k s = count_from needle 0 (drop k s)"
  by (induction needle k s rule: count_from.induct) (simp_all add: drop_Cons')

lemma count_zero: "needle \<noteq> [] \<Longrightarrow> count_from needle 0 s = 0 \<longleftrightarrow> \<not> str_contains needle s"
  by (induction s) auto

text \<open>The occurrence that is counted first and replaced.\<close>

lemma first_occurrence:
  assumes "needle \<noteq> []" "count_from needle 0 s \<noteq> 0"
  shows "\<exists>a b. s = a @ needle @ b \<and> \<not> str_contains needle (a @ butlast needle)
    \<and> replace_first needle new s = a @ new @ b \<and> count_from needle 0 s = Suc (count_from needle 0 b)"
  using assms(2)
proof (induction s)
  case (Cons c s)
  show ?case
  proof (cases "starts_with needle (c # s)")
    case True
    let ?b = "drop (length needle) (c # s)"
    have "c # s = [] @ needle @ ?b" using starts_with_drop [OF True] by simp
    moreover have "\<not> str_contains needle ([] @ butlast needle)"
    proof
      assume "str_contains needle ([] @ butlast needle)"
      then obtain x y where "butlast needle = x @ needle @ y" by (auto simp: str_contains_iff)
      then have "length needle - 1 \<ge> length needle" by (metis length_butlast length_append le_add1 le_add2 le_trans)
      with assms(1) show False by (cases needle) simp_all
    qed
    moreover have "replace_first needle new (c # s) = [] @ new @ ?b" using True by simp
    moreover have "count_from needle 0 (c # s) = Suc (count_from needle 0 ?b)"
      using True assms(1) count_skip [of needle "length needle - 1" s] by (cases needle) simp_all
    ultimately show ?thesis by blast
  next
    case False
    with Cons obtain a b where ih: "s = a @ needle @ b" "\<not> str_contains needle (a @ butlast needle)"
      "replace_first needle new s = a @ new @ b" "count_from needle 0 s = Suc (count_from needle 0 b)" by auto
    have n: "needle = butlast needle @ [last needle]" using assms(1) by simp
    have "\<not> starts_with needle (c # a @ butlast needle)"
    proof
      assume "starts_with needle (c # a @ butlast needle)"
      then obtain t where t: "c # a @ butlast needle = needle @ t" by (auto simp: starts_with_iff)
      have "c # s = (c # a @ butlast needle) @ [last needle] @ b" using ih(1) n by (metis append.assoc append_Cons)
      also have "\<dots> = needle @ t @ [last needle] @ b" using t by (metis append.assoc)
      finally show False using False by (auto simp: starts_with_iff)
    qed
    with ih False show ?thesis by (intro exI [of _ "c # a"] exI [of _ b]) simp
  qed
qed simp

lemma edit_text_Inr:
  assumes "old \<noteq> []" "edit_text path old new content = Inr updated"
  shows "\<exists>a b. content = a @ old @ b \<and> updated = a @ new @ b
    \<and> \<not> str_contains old (a @ butlast old) \<and> \<not> str_contains old b"
proof -
  from assms(2) have c: "count_from old 0 content = 1" and u: "updated = replace_first old new content"
    by (auto simp: edit_text_def count_occurrences_def Let_def split: if_splits)
  with first_occurrence [OF assms(1), of content new] count_zero [OF assms(1)] show ?thesis by auto
qed

lemma failures:
  "edit_text path old new content = Inl err \<Longrightarrow> \<exists>c m. err = OutError c m"
  "require_path k args = Inl err \<Longrightarrow> \<exists>c m. err = OutError c m"
  "open_text_file T f path = Inl err \<Longrightarrow> \<exists>c m. err = OutError c m"
  by (auto simp: edit_text_def require_path_def open_text_file_def refuse_final_component_symlink_def symlink_refused_def Let_def
      split: if_splits option.splits sum.splits sandbox_error.splits)

text \<open>C29: A successful \<open>edit\<close> changes exactly one entry, a regular file of the sandbox: the first occurrence
  of the old text, after which there is no other, is replaced by the new one, and the rest of the file is
  kept byte for byte.\<close>

theorem edit_replaces_one_occurrence:
  assumes laws: "fs_laws (te_fs T) view" and run: "edit_execute T f args = (f', OutSuccess out)"
    and dry: "\<not> dry_run_of args"
  shows "\<exists>path old new p a b. json_str ''path'' args = Some path \<and> json_str ''old_str'' args = Some old
    \<and> json_str ''new_str'' args = Some new \<and> resolve_path T f path = Inr p \<and> in_sandbox T f (path_components p)
    \<and> view f (path_components p) = Some (RegularFile (as_bytes (a @ old @ b)))
    \<and> view f' = (view f)(path_components p \<mapsto> RegularFile (as_bytes (a @ new @ b)))
    \<and> \<not> str_contains old (a @ butlast old) \<and> \<not> str_contains old b"
proof -
  from edit_execute_cases [OF run] obtain path old new where args: "json_str ''path'' args = Some path"
    "json_str ''old_str'' args = Some old" "old \<noteq> []" "json_str ''new_str'' args = Some new"
    and e: "edit_file T f path old new (dry_run_of args) = (f', OutSuccess out)" by auto
  then obtain pc where "open_text_file T f path = Inr pc"
    using failures(3) by (cases "open_text_file T f path") (fastforce simp: edit_file_def)+
  then obtain p content where op: "open_text_file T f path = Inr (p, content)" by (cases pc) auto
  obtain updated where up: "edit_text path old new content = Inr updated"
    using e op failures(1) by (cases "edit_text path old new content") (fastforce simp: edit_file_def)+
  obtain f1 r1 where w: "atomic_write_in_sandbox T f p (as_bytes updated) = (f1, r1)" by fastforce
  have "f' = f1 \<and> (\<exists>k. r1 = Inr k)" using e op up w dry by (cases r1) (auto simp: edit_file_def Let_def)
  then obtain k where k: "f' = f1" "r1 = Inr k" by blast
  from replace_opened [OF laws op w] k have "view f' = (view f)(path_components p \<mapsto> RegularFile (as_bytes updated))" by simp
  with edit_text_Inr [OF args(3) up] open_text_file_InrD [OF laws op] args show ?thesis by blast
qed

text \<open>Overlapping occurrences are counted once, so \<open>edit\<close> accepts a snippet that occurs twice.\<close>

theorem overlapping_matches_are_accepted:
  "edit_text path ''aa'' new ''aaa'' = Inr (new @ ''a'')"
  by (simp add: edit_text_def count_occurrences_def Let_def)

section \<open>Reading\<close>

text \<open>C30: \<open>read_file\<close> returns only valid UTF-8 text of at most the configured number of bytes.\<close>

theorem read_is_bounded_text:
  assumes "read_file_execute T max_bytes f args = OutSuccess content"
  shows "length content \<le> max_bytes \<and> utf8_valid content"
proof -
  note r = assms [unfolded read_file_execute_def]
  from r failures(2) [of _ args] obtain path where p: "require_path ''path'' args = Inr path"
    by (cases "require_path ''path'' args") fastforce+
  with r obtain q where q: "resolve_path T f path = Inr q" by (auto split: sum.splits sandbox_error.splits if_splits)
  with r p obtain m where m: "fs_metadata (te_fs T) f q = Inr m" by (auto split: sum.splits if_splits)
  with r p q obtain buf where "fs_read_up_to (te_fs T) f q (max_bytes + 1) = Inr buf" "\<not> length buf > max_bytes"
    by (auto split: sum.splits if_splits)
  with r p q m have "length buf \<le> max_bytes \<and> from_utf8 buf = Some content"
    by (auto split: sum.splits if_splits option.splits)
  then show ?thesis by (auto simp: from_utf8_def bytes_text_def Let_def split: if_splits)
qed

section \<open>Patches\<close>

definition patch_args :: "string \<Rightarrow> string \<Rightarrow> json" where
  "patch_args path body = JObject [(''file_path'', JString path), (''patch'', JString body)]"

lemma normalize_leading_slash: "normalize_single_file_patch T (slash # p) body = normalize_single_file_patch T p body"
proof -
  have "dropWhile (\<lambda>c. c = slash) (backslash_to_slash (slash # p)) = dropWhile (\<lambda>c. c = slash) (backslash_to_slash p)"
    by (simp add: backslash_to_slash_def slash_def)
  then show ?thesis unfolding normalize_single_file_patch_def by simp
qed

lemma patch_args_dry: "dry_run_of (JObject [(''file_path'', a), (''patch'', b)]) = False"
  by (simp add: dry_run_of_def json_bool_def)

text \<open>\<open>apply_patch\<close> ignores a leading slash of its path, so it changes the file of the workspace with
  that relative name, while the permission the call asks for names the absolute path.\<close>

theorem apply_patch_ignores_leading_slash:
  assumes "path \<noteq> []"
  shows "apply_patch_execute T f (patch_args (slash # path) body) = apply_patch_execute T f (patch_args path body)
    \<and> raw_concrete_permissions P tool ''apply_patch'' (patch_args (slash # path) body) root = [WriteFile (slash # path)]"
  using assms
  by (cases "normalize_single_file_patch T path body") (simp_all add: apply_patch_execute_def patch_args_def require_path_def json_str_def normalize_leading_slash
      patch_args_dry raw_concrete_permissions_def str_permission_def)

lemma length_segments: "length (segments ls) = length (filter is_header_line ls)"
  by (induction ls) simp_all

lemma split_on_join_lines: "ls \<noteq> [] \<Longrightarrow> list_all (\<lambda>l. LF \<notin> set l) ls \<Longrightarrow> split_on LF (join [LF] ls) = ls"
  by (rule split_on_join) (auto simp: list_all_iff)

text \<open>A unified diff is cut at every line that starts like a header. The line that removes a comment
  starting with two dashes and a space is such a line, so a patch that removes it has one segment more.\<close>

theorem removed_dashes_split_a_patch:
  assumes "list_all (\<lambda>l. LF \<notin> set l \<and> CHR 0x0D \<notin> set l) (before @ (CHR 0x2D # ''-- '' @ comment) # after)"
  shows "length (split_unified_patches (join [LF] (before @ (CHR 0x2D # ''-- '' @ comment) # after)))
    = Suc (length (filter is_header_line (before @ after)))"
proof -
  let ?ls = "before @ (CHR 0x2D # ''-- '' @ comment) # after"
  have no_cr: "CHR 0x0D \<notin> set (join [LF] ls)" if "list_all (\<lambda>l. CHR 0x0D \<notin> set l) ls" for ls
    using that by (induction "[LF]" ls rule: join.induct) (auto simp: LF_def)
  have "list_all (\<lambda>l. CHR 0x0D \<notin> set l) ?ls" using assms by (auto simp: list_all_iff)
  from no_cr [OF this] have "remove_cr (join [LF] ?ls) = join [LF] ?ls"
    unfolding remove_cr_def by (intro filter_True) auto
  moreover have "split_on LF (join [LF] ?ls) = ?ls" using assms by (intro split_on_join_lines) (auto simp: list_all_iff)
  ultimately show ?thesis by (simp add: split_unified_patches_def length_segments is_header_line_def)
qed

section \<open>Statistics\<close>

lemma str_lines_concat:
  "list_all (\<lambda>l. LF \<notin> set l) ls \<Longrightarrow> str_lines (concat (map (\<lambda>l. l @ [LF]) ls)) = map strip_cr ls"
proof -
  assume a: "list_all (\<lambda>l. LF \<notin> set l) ls"
  then have "split_on LF (concat (map (\<lambda>l. l @ [LF]) ls)) = ls @ [[]]"
    by (induction ls) (simp_all add: split_on_plain_append)
  then show ?thesis by (simp add: str_lines_def)
qed

text \<open>The removed lines of a diff that start with two more dashes are not counted: a change that only
  removes such lines counts no removed line.\<close>

theorem removed_dashes_are_not_counted:
  assumes "list_all (\<lambda>s. LF \<notin> set s) ls"
  shows "diff_stats_from_unified (concat (map (\<lambda>s. ''---'' @ s @ [LF]) ls)) = (0, 0, 0)"
proof -
  let ?ls = "map (\<lambda>s. ''---'' @ s) ls"
  have "concat (map (\<lambda>s. ''---'' @ s @ [LF]) ls) = concat (map (\<lambda>l. l @ [LF]) ?ls)" by (induction ls) simp_all
  moreover have "str_lines (concat (map (\<lambda>l. l @ [LF]) ?ls)) = map strip_cr ?ls"
    using assms by (intro str_lines_concat) (auto simp: list_all_iff LF_def)
  moreover have strip_dashes: "\<exists>t. strip_cr (''---'' @ s) = ''---'' @ t" for s
    by (cases s rule: rev_cases) (auto simp: strip_cr_def CR_def butlast_append)
  have "\<not> is_added_line (strip_cr (''---'' @ s)) \<and> \<not> is_removed_line (strip_cr (''---'' @ s))" for s
  proof -
    obtain t where "strip_cr (''---'' @ s) = ''---'' @ t" using strip_dashes by blast
    then show ?thesis unfolding is_added_line_def is_removed_line_def by simp
  qed
  ultimately show ?thesis by (simp add: diff_stats_from_unified_def Let_def filter_empty_conv)
qed

section \<open>A file system\<close>

text \<open>The files of one directory, as an association list; the first row of a name counts.\<close>

type_synonym small_fs = "(string \<times> byte list) list"

definition xf_root :: "path_component list" where
  "xf_root = [RootDir, Normal ''w'']"

fun xf_file :: "path_component list \<Rightarrow> string option" where
  "xf_file [RootDir, Normal w, Normal n] = (if w = ''w'' then Some n else None)"
| "xf_file _ = None"

definition xf_view :: "small_fs fs_view" where
  "xf_view fs q =
     (if q = xf_root then Some Directory
      else case xf_file q of Some n \<Rightarrow> map_option RegularFile (map_of fs n) | None \<Rightarrow> None)"

definition xf_canon :: "small_fs \<Rightarrow> canonicalizer" where
  "xf_canon fs p =
     (case xf_view fs (path_components p) of
        Some Directory \<Rightarrow> Inr ''/w''
      | Some _ \<Rightarrow> Inr (path_join ''/w'' (the (xf_file (path_components p))))
      | None \<Rightarrow> Inl (FsNotFound ''no such file''))"

definition xf_meta :: "small_fs \<Rightarrow> string \<Rightarrow> fs_error + file_meta" where
  "xf_meta fs p =
     (case xf_view fs (path_components p) of
        Some (RegularFile c) \<Rightarrow> Inr \<lparr>fm_kind = KindFile, fm_len = length c, fm_permissions = 420\<rparr>
      | Some _ \<Rightarrow> Inr \<lparr>fm_kind = KindDirectory, fm_len = 0, fm_permissions = 493\<rparr>
      | None \<Rightarrow> Inl (FsNotFound ''no such file''))"

definition xf_read :: "small_fs \<Rightarrow> string \<Rightarrow> fs_error + byte list" where
  "xf_read fs p = (case xf_view fs (path_components p) of Some (RegularFile c) \<Rightarrow> Inr c | _ \<Rightarrow> Inl (FsError ''not a file''))"

definition xf_on :: "small_fs \<Rightarrow> string \<Rightarrow> (string \<Rightarrow> small_fs \<times> ('e + unit)) \<Rightarrow> 'e \<Rightarrow> small_fs \<times> ('e + unit)" where
  "xf_on fs p act err = (case xf_file (path_components p) of Some n \<Rightarrow> act n | None \<Rightarrow> (fs, Inl err))"

definition xf_without :: "string \<Rightarrow> small_fs \<Rightarrow> small_fs" where
  "xf_without n fs = filter (\<lambda>(k, _). k \<noteq> n) fs"

definition xf :: "small_fs fs_api" where
  "xf = \<lparr>fs_canonicalize = xf_canon, fs_symlink_metadata = xf_meta, fs_metadata = xf_meta, fs_read = xf_read,
     fs_open = (\<lambda>fs p. Inr ()), fs_read_up_to = (\<lambda>fs p k. map_sum id (take k) (xf_read fs p)),
     fs_uuid = (\<lambda>fs. (fs, ''0'')),
     fs_create_new = (\<lambda>fs p. xf_on fs p (\<lambda>n. if map_of fs n = None then ((n, []) # fs, Inr ())
         else (fs, Inl (CreateExists ''exists''))) (CreateFailed (FsError ''not a directory''))),
     fs_write_sync = (\<lambda>fs p b. xf_on fs p (\<lambda>n. ((n, b) # fs, Inr ())) (FsError ''not a directory'')),
     fs_set_permissions = (\<lambda>fs p m. (fs, Inr ())),
     fs_rename = (\<lambda>fs p q. xf_on fs p (\<lambda>n. xf_on fs q (\<lambda>m. case map_of fs n of
           Some c \<Rightarrow> ((m, c) # xf_without n fs, Inr ())
         | None \<Rightarrow> (fs, Inl (FsNotFound ''no such file''))) (FsError ''not a directory'')) (FsError ''not a directory'')),
     fs_remove_file = (\<lambda>fs p. xf_on fs p (\<lambda>n. (xf_without n fs, Inr ())) (FsNotFound ''no such file''))\<rparr>"

lemma xf_root_path: "path_components ''/w'' = xf_root"
  by code_simp

lemma xf_file_root: "xf_file (xf_root @ [Normal n]) = Some n"
  by (simp add: xf_root_def)

lemma xf_file_Some: "xf_file q = Some n \<longleftrightarrow> q = xf_root @ [Normal n]"
  by (cases q rule: xf_file.cases) (auto simp: xf_root_def)

lemma xf_without_get: "map_of (xf_without n fs) = (map_of fs)(n := None)"
  by (induction fs) (auto simp: xf_without_def fun_eq_iff)

lemma xf_plain: "path_components p = cs @ [Normal n] \<Longrightarrow> plain_name n"
  using path_file_name_components [of p n] by (simp add: path_file_name_def)

lemma xf_canon_Inr:
  "xf_canon fs p = Inr r \<longleftrightarrow>
     (path_components p = xf_root \<and> r = ''/w'')
     \<or> (\<exists>n c. path_components p = xf_root @ [Normal n] \<and> plain_name n \<and> r = path_join ''/w'' n \<and> map_of fs n = Some c)"
  by (auto simp: xf_canon_def xf_view_def xf_file_Some xf_file_root xf_plain
      split: option.splits fs_entry.splits if_splits dest: xf_plain)

lemma xf_entry: "plain_name n \<Longrightarrow> path_components (path_join ''/w'' n) = xf_root @ [Normal n]"
  by (simp add: path_components_join xf_root_path)

lemma xf_at: "xf_view fs (xf_root @ [Normal n]) = map_option RegularFile (map_of fs n)"
  by (simp add: xf_view_def xf_file_root)

lemma xf_Directory: "xf_view fs q = Some Directory \<longleftrightarrow> q = xf_root"
  by (auto simp: xf_view_def split: option.splits)

lemma xf_canonical_name:
  assumes "canonical_name xf fs d n" "xf_file (path_components (path_join d n)) = Some m"
  shows "d = ''/w'' \<and> m = n \<and> plain_name n"
proof -
  have "plain_name n" "xf_canon fs d = Inr d" using assms(1) by (simp_all add: canonical_name_def xf_def)
  moreover from this(2) have "length (path_components d) \<ge> 2" by (auto simp: xf_canon_Inr xf_root_def)
  ultimately show ?thesis using assms(2) by (auto simp: xf_file_Some path_components_join xf_canon_Inr)
qed

lemma xf_laws: "fs_laws xf xf_view"
proof -
  have sd: "same_dirs xf xf_view fs fs'" for fs fs'
    by (auto simp: same_dirs_def xf_def xf_Directory xf_canon_Inr xf_entry)
  have ins: "xf_view ((n, c) # fs) = (xf_view fs)(xf_root @ [Normal n] \<mapsto> RegularFile c)" for n c fs
    by (rule ext) (auto simp: xf_view_def xf_file_Some xf_file_root split: option.split)
  have rm: "xf_view (xf_without n fs) = (xf_view fs)(xf_root @ [Normal n] := None)" for n fs
    by (rule ext) (auto simp: xf_view_def xf_file_Some xf_file_root xf_without_get split: option.split)
  have d: "xf_view fs (path_components d) = Some Directory" "entry_at d n = xf_root @ [Normal n]" "plain_name n"
    "path_components (path_join d n) = xf_root @ [Normal n]"
    if "canonical_name xf fs d n" "xf_file (path_components (path_join d n)) = Some m" for fs d n m
    using xf_canonical_name [OF that] by (simp_all add: xf_root_path xf_Directory entry_at_def xf_entry)
  have entry: "path_components (path_join d n) = entry_at d n" if "canonical_name xf fs d n" for fs d n
    using that by (simp add: canonical_name_def path_components_join entry_at_def)
  have reg: "xf_file (path_components (path_join d n)) = Some n \<and> map_of fs n = Some c"
    if "canonical_name xf fs d n" "xf_view fs (entry_at d n) = Some (RegularFile c)" for fs d n c
  proof -
    from that(2) obtain m where m: "xf_file (entry_at d n) = Some m" "map_of fs m = Some c"
      by (auto simp: xf_view_def split: if_splits option.splits)
    then show ?thesis using entry [OF that(1)] by (auto simp: xf_file_Some entry_at_def)
  qed
  have "canonical_laws xf xf_view" unfolding canonical_laws_def
  proof (intro conjI allI impI)
    fix fs p r
    assume "fs_canonicalize xf fs p = Inr r"
    then have r: "xf_canon fs p = Inr r" by (simp add: xf_def)
    show "fs_canonicalize xf fs r = Inr r"
      using r unfolding xf_canon_Inr by (auto simp: xf_def xf_canon_Inr xf_root_path xf_entry)
    show "path_is_absolute r"
      using r unfolding xf_canon_Inr by (auto simp: path_join_def path_is_absolute_def slash_def ends_with_slash_def)
  next
    fix fs p r d
    assume a: "fs_canonicalize xf fs p = Inr p \<and> path_parent p = Some d \<and> fs_canonicalize xf fs d = Inr r"
    have "d = components_path (butlast (path_components p))" if "path_components p = xs @ [Normal n]" for xs n
      using a that by (simp add: path_parent_def)
    moreover have "components_path [RootDir] = ''/''" "path_components ''/'' = [RootDir]" "components_path xf_root = ''/w''"
      by code_simp+
    ultimately show "path_components r = butlast (path_components p)"
      using a by (auto simp: xf_def xf_canon_Inr xf_root_path xf_entry) (auto simp: xf_root_def)
  qed
  moreover have "look_laws xf xf_view" unfolding look_laws_def
  proof (intro conjI allI impI)
    fix fs d n m
    assume "canonical_name xf fs d n \<and> fs_symlink_metadata xf fs (path_join d n) = Inr m \<and> fm_kind m = KindFile"
    then show "\<exists>c. xf_view fs (entry_at d n) = Some (RegularFile c)"
      using entry [of fs d n] by (auto simp: xf_def xf_meta_def split: option.splits fs_entry.splits)
  next
    fix fs d n e
    assume "canonical_name xf fs d n \<and> fs_symlink_metadata xf fs (path_join d n) = Inl (FsNotFound e)"
    then show "xf_view fs (entry_at d n) = None"
      using entry [of fs d n] by (auto simp: xf_def xf_meta_def split: option.splits fs_entry.splits)
  qed (auto simp: xf_def xf_meta_def xf_read_def split: option.splits fs_entry.splits)
  moreover have "create_laws xf xf_view" unfolding create_laws_def
  proof (intro conjI allI impI)
    fix fs d n fs'
    assume a: "canonical_name xf fs d n \<and> fs_create_new xf fs (path_join d n) = (fs', Inr ())"
    then obtain m where m: "xf_file (path_components (path_join d n)) = Some m"
      by (auto simp: xf_def xf_on_def split: option.splits)
    with a have k: "m = n" "map_of fs n = None" "fs' = (n, []) # fs"
      using xf_canonical_name by (auto simp: xf_def xf_on_def split: if_splits)
    note e = d [OF conjunct1 [OF a] m]
    show "xf_view fs (path_components d) = Some Directory" by (rule e(1))
    show "xf_view fs (entry_at d n) = None" using e(2) k(2) by (simp add: xf_at)
    show "xf_view fs' = (xf_view fs)(entry_at d n \<mapsto> RegularFile [])" using e(2) k(3) by (simp add: ins)
    show "same_dirs xf xf_view fs fs'" by (rule sd)
  qed (auto simp: xf_def unchanged_def xf_on_def slash_def split: option.splits if_splits)
  moreover have "file_laws xf xf_view" unfolding file_laws_def
  proof (intro conjI allI impI)
    fix fs d n c b fs' r
    assume a: "canonical_name xf fs d n \<and> xf_view fs (entry_at d n) = Some (RegularFile c)
      \<and> fs_write_sync xf fs (path_join d n) b = (fs', r)"
    then have m: "xf_file (path_components (path_join d n)) = Some n" using reg by blast
    show "same_dirs xf xf_view fs fs'" by (rule sd)
    have "fs' = (n, b) # fs" using a m by (simp add: xf_def xf_on_def)
    then show "\<exists>c'. xf_view fs' = (xf_view fs)(entry_at d n \<mapsto> RegularFile c') \<and> (r = Inr () \<longrightarrow> c' = b)"
      using d(2) [OF conjunct1 [OF a] m] by (auto simp: ins)
  next
    fix fs d n c fs' r
    assume a: "canonical_name xf fs d n \<and> xf_view fs (entry_at d n) = Some (RegularFile c)
      \<and> fs_remove_file xf fs (path_join d n) = (fs', r)"
    then have m: "xf_file (path_components (path_join d n)) = Some n" using reg by blast
    show "same_dirs xf xf_view fs fs'" by (rule sd)
    have "fs' = xf_without n fs" using a m by (simp add: xf_def xf_on_def)
    then show "xf_view fs' = xf_view fs \<or> xf_view fs' = (xf_view fs)(entry_at d n := None)"
      using d(2) [OF conjunct1 [OF a] m] by (simp add: rm)
  qed (auto simp: xf_def unchanged_def)
  moreover have "rename_laws xf xf_view" unfolding rename_laws_def
  proof (intro conjI allI impI)
    fix fs d n m c fs'
    assume a: "canonical_name xf fs d n \<and> plain_name m \<and> xf_view fs (entry_at d n) = Some (RegularFile c)
      \<and> fs_rename xf fs (path_join d n) (path_join d m) = (fs', Inr ())"
    then have f: "xf_file (path_components (path_join d n)) = Some n" "map_of fs n = Some c" using reg by blast+
    then have "d = ''/w''" using xf_canonical_name a by blast
    then have "fs' = (m, c) # xf_without n fs" using a f xf_entry [of m] xf_entry [of n]
      by (auto simp: xf_def xf_on_def xf_file_root)
    then show "xf_view fs' = (xf_view fs)(entry_at d n := None, entry_at d m \<mapsto> RegularFile c)"
      using \<open>d = ''/w''\<close> by (simp add: ins rm entry_at_def xf_root_path)
    show "same_dirs xf xf_view fs fs'" by (rule sd)
  next
    fix fs d n m c fs' e
    assume a: "canonical_name xf fs d n \<and> plain_name m \<and> xf_view fs (entry_at d n) = Some (RegularFile c)
      \<and> fs_rename xf fs (path_join d n) (path_join d m) = (fs', Inl e)"
    then show "unchanged xf xf_view fs fs'"
      by (auto simp: xf_def xf_on_def unchanged_def split: option.splits)
  qed
  ultimately show ?thesis by (simp add: fs_laws_def)
qed

definition xt :: "(small_fs, unit) tool_env" where
  "xt = \<lparr>te_fs = xf, te_sandbox = \<lparr>sx_primary_root = ''/w'', sx_additional_roots = [], sx_has_git_root = False\<rparr>,
     te_patch = dx_patch, te_create_patch = (\<lambda>a b. []), te_print_json = (\<lambda>v. Inr ''ok'')\<rparr>"

definition xt_args :: json where
  "xt_args = JObject [(''path'', JString ''a.txt''), (''content'', JString ''new''), (''old_str'', JString ''b''),
     (''new_str'', JString ''B'')]"

definition xt_files :: small_fs where
  "xt_files = [(''a.txt'', as_bytes ''abc'')]"

lemma xt_laws: "fs_laws (te_fs xt) xf_view"
  by (simp add: xt_def xf_laws)

theorem atomic_write_is_atomic_witness:
  "\<exists>f' r. atomic_write_in_sandbox xt xt_files ''/w/b.txt'' [65] = (f', r)
    \<and> (xf_view f' = xf_view xt_files \<and> (\<exists>e. r = Inl e)
    \<or> (\<exists>d. in_sandbox xt xt_files (path_components d) \<and> fs_canonicalize (te_fs xt) xt_files d = Inr d
        \<and> (case r of
             Inr k \<Rightarrow> k = length [65 :: byte] \<and> xf_view f' = (xf_view xt_files)(path_components d @ [Normal ''b.txt''] \<mapsto> RegularFile [65])
           | Inl _ \<Rightarrow> \<exists>t x. starts_with TEMP_PREFIX t \<and> xf_view xt_files (path_components d @ [Normal t]) = None
               \<and> xf_view f' = (xf_view xt_files)(path_components d @ [Normal t] := x))))"
proof -
  obtain f' r where w: "atomic_write_in_sandbox xt xt_files ''/w/b.txt'' [65] = (f', r)" by fastforce
  have n: "path_file_name ''/w/b.txt'' = Some ''b.txt''" by code_simp
  show ?thesis by (intro exI conjI, rule w, rule atomic_write_is_atomic [OF xt_laws n w])
qed

theorem file_tools_stay_in_sandbox_witness:
  "xf_view (fst (write_file_execute xt xt_files xt_args)) [RootDir, Normal ''etc''] = xf_view xt_files [RootDir, Normal ''etc'']"
proof (rule file_tools_stay_in_sandbox [OF xt_laws])
  have c: "xf_canon xt_files ''/w'' = Inr ''/w''" "path_components ''/w'' = xf_root" by code_simp+
  show "roots_are_directories xt xf_view xt_files"
    by (simp add: roots_are_directories_def xt_def xf_def c xf_Directory)
  show "\<not> in_sandbox xt xt_files [RootDir, Normal ''etc'']"
    by (simp add: in_sandbox_def xt_def xf_def c) (simp add: xf_root_def)
  show "fst (write_file_execute xt xt_files xt_args) \<in> after_file_tools xt xt_files xt_args"
    by (simp add: after_file_tools_def)
qed

theorem dry_run_changes_nothing_witness:
  "fst (edit_execute xt xt_files (JObject [(''path'', JString ''a.txt''), (''dry_run'', JBool True)])) = xt_files"
  by (rule dry_run_changes_nothing [where T = xt and args = "JObject [(''path'', JString ''a.txt''), (''dry_run'', JBool True)]"])
    (simp_all add: after_file_tools_def dry_run_of_def json_bool_def)

theorem edit_replaces_one_occurrence_witness:
  "\<exists>f' p a b. edit_execute xt xt_files xt_args = (f', OutSuccess ''ok'')
    \<and> xf_view xt_files (path_components p) = Some (RegularFile (as_bytes (a @ ''b'' @ b)))
    \<and> xf_view f' = (xf_view xt_files)(path_components p \<mapsto> RegularFile (as_bytes (a @ ''B'' @ b)))"
proof -
  have "snd (edit_execute xt xt_files xt_args) = OutSuccess ''ok''" by code_simp
  then obtain f' where e: "edit_execute xt xt_files xt_args = (f', OutSuccess ''ok'')"
    by (cases "edit_execute xt xt_files xt_args") simp
  have d: "\<not> dry_run_of xt_args" by code_simp
  have "json_str ''old_str'' xt_args = Some ''b''" "json_str ''new_str'' xt_args = Some ''B''" by code_simp+
  with edit_replaces_one_occurrence [OF xt_laws e d] e show ?thesis by auto
qed

theorem read_is_bounded_text_witness: "length ''abc'' \<le> (8 :: nat) \<and> utf8_valid ''abc''"
proof (rule read_is_bounded_text [of xt _ xt_files xt_args])
  show "read_file_execute xt 8 xt_files xt_args = OutSuccess ''abc''" by code_simp
qed

theorem apply_patch_ignores_leading_slash_witness:
  "apply_patch_execute xt xt_files (patch_args ''/a.txt'' ''@@'') = apply_patch_execute xt xt_files (patch_args ''a.txt'' ''@@'')"
  using apply_patch_ignores_leading_slash [of "''a.txt''" xt xt_files "''@@''" dx_patch "dx_tool ''apply_patch''" "''/w''"] by (simp add: slash_def)

theorem removed_dashes_split_a_patch_witness:
  "length (split_unified_patches (join [LF] ([''--- a/q.sql'', ''+++ b/q.sql'', ''@@ -1 +0,0 @@''] @ [''--- note'']))) = 2"
proof -
  have "length (split_unified_patches (join [LF] ([''--- a/q.sql'', ''+++ b/q.sql'', ''@@ -1 +0,0 @@'']
      @ (CHR 0x2D # ''-- '' @ ''note'') # [])))
    = Suc (length (filter is_header_line ([''--- a/q.sql'', ''+++ b/q.sql'', ''@@ -1 +0,0 @@''] @ [])))"
    by (rule removed_dashes_split_a_patch) code_simp
  then show ?thesis by (simp add: is_header_line_def)
qed

theorem removed_dashes_are_not_counted_witness:
  "diff_stats_from_unified (concat (map (\<lambda>s. ''---'' @ s @ [LF]) ['' drop table'', '' old note''])) = (0, 0, 0)"
  by (rule removed_dashes_are_not_counted) code_simp

end
