(* ===== verification/Audit_Chain.thy ===== *)
theory Audit_Chain
  imports Policy Bundle_Manifest Std_Text "HOL-Library.List_Lexorder" "HOL-Library.Char_ord"
begin

text \<open>
  The hash-chained audit log (\<open>akmon-core/src/audit.rs\<close>), the replay metadata (\<open>akmon-core/src/replay.rs\<close>)
  and the evidence artifact that refers to both (\<open>akmon-core/src/evidence.rs\<close>). SHA-256, the JSON printer and
  parser, the derived JSON forms of an event and of a record, and the reading of a file are parameters.
\<close>

section \<open>Parameters\<close>

record chain_record =
  cr_schema_version :: string
  cr_event_index :: u64
  cr_prev_hash :: "string option"
  cr_event_hash :: string
  cr_session_final_hash :: "string option"
  cr_event :: audit_event

record audit_ext =
  au_event_value :: "audit_event \<Rightarrow> string + json"
  au_to_vec :: "json \<Rightarrow> string + byte list"
  au_sha256_hex :: "byte list \<Rightarrow> string"
  au_print_record :: "chain_record \<Rightarrow> string + string"
  au_parse_record :: "string \<Rightarrow> string + chain_record"
  au_read_to_string :: "string \<Rightarrow> string + string"

section \<open>Canonical JSON\<close>

fun canonicalize_json :: "json \<Rightarrow> json" where
  "canonicalize_json (JObject m) = JObject (sort_key fst (map (\<lambda>(k, v). (k, canonicalize_json v)) m))"
| "canonicalize_json (JArray xs) = JArray (map canonicalize_json xs)"
| "canonicalize_json v = v"

section \<open>The chain\<close>

definition AUDIT_CHAIN_SCHEMA_VERSION :: string where
  "AUDIT_CHAIN_SCHEMA_VERSION = ''audit_chain.v1''"

datatype audit_chain_error =
    AuditIo string
  | AuditSerde string
  | EventIndexMismatch nat u64 u64
  | PrevHashMismatch nat
  | EventHashMismatch nat
  | SessionFinalHashMismatch nat
  | NonTerminalSessionFinalHash nat
  | UnsupportedSchemaVersion nat string

record audit_chain_summary =
  ac_event_count :: u64
  ac_session_final_hash :: "string option"

definition or_empty :: "string option \<Rightarrow> string" where
  "or_empty h = (case h of Some s \<Rightarrow> s | None \<Rightarrow> [])"

definition compute_event_hash :: "'x audit_ext_scheme \<Rightarrow> audit_event \<Rightarrow> string \<Rightarrow> audit_chain_error + string" where
  "compute_event_hash X event prev_hash =
     map_err AuditSerde
       (res_bind (au_event_value X event) (\<lambda>v.
        res_bind (au_to_vec X (canonicalize_json (JObject [(''prev_hash'', JString prev_hash), (''event'', v)]))) (\<lambda>bytes.
        Inr (au_sha256_hex X bytes))))"

text \<open>The records of the events from index \<open>idx\<close> on; the mark of the last one is set afterwards.\<close>

fun chain_from ::
    "'x audit_ext_scheme \<Rightarrow> nat \<Rightarrow> string option \<Rightarrow> audit_event list \<Rightarrow> audit_chain_error + chain_record list" where
  "chain_from X idx prev [] = Inr []"
| "chain_from X idx prev (event # events) =
     res_bind (compute_event_hash X event (or_empty prev)) (\<lambda>h.
     res_bind (chain_from X (Suc idx) (Some h) events) (\<lambda>rs.
     Inr (\<lparr>cr_schema_version = AUDIT_CHAIN_SCHEMA_VERSION, cr_event_index = of_nat idx, cr_prev_hash = prev,
           cr_event_hash = h, cr_session_final_hash = None, cr_event = event\<rparr> # rs)))"

definition mark_last :: "chain_record list \<Rightarrow> chain_record list" where
  "mark_last rs =
     (if rs = [] then [] else butlast rs @ [(last rs)\<lparr>cr_session_final_hash := Some (cr_event_hash (last rs))\<rparr>])"

definition build_audit_chain ::
    "'x audit_ext_scheme \<Rightarrow> audit_event list \<Rightarrow> audit_chain_error + chain_record list" where
  "build_audit_chain X events = res_bind (chain_from X 0 None events) (\<lambda>rs. Inr (mark_last rs))"

fun verify_records ::
    "'x audit_ext_scheme \<Rightarrow> nat \<Rightarrow> string option \<Rightarrow> chain_record list \<Rightarrow> audit_chain_error + unit" where
  "verify_records X idx prev [] = Inr ()"
| "verify_records X idx prev (r # rs) =
     (let line = idx + 1 in
      if cr_event_index r \<noteq> of_nat idx then Inl (EventIndexMismatch line (of_nat idx) (cr_event_index r))
      else if cr_schema_version r \<noteq> AUDIT_CHAIN_SCHEMA_VERSION
      then Inl (UnsupportedSchemaVersion line (cr_schema_version r))
      else if cr_prev_hash r \<noteq> prev then Inl (PrevHashMismatch line)
      else if rs \<noteq> [] \<and> cr_session_final_hash r \<noteq> None then Inl (NonTerminalSessionFinalHash line)
      else
        res_bind (compute_event_hash X (cr_event r) (or_empty prev)) (\<lambda>h.
        if cr_event_hash r \<noteq> h then Inl (EventHashMismatch line)
        else verify_records X (Suc idx) (Some (cr_event_hash r)) rs))"

definition check_final_hash :: "chain_record list \<Rightarrow> audit_chain_error + unit" where
  "check_final_hash rs =
     (if rs = [] then Inr ()
      else case cr_session_final_hash (last rs) of
        Some h \<Rightarrow> if h \<noteq> cr_event_hash (last rs) then Inl (SessionFinalHashMismatch (length rs)) else Inr ()
      | None \<Rightarrow> Inr ())"

definition verify_audit_chain ::
    "'x audit_ext_scheme \<Rightarrow> chain_record list \<Rightarrow> audit_chain_error + audit_chain_summary" where
  "verify_audit_chain X rs =
     res_bind (verify_records X 0 None rs) (\<lambda>_.
     res_bind (check_final_hash rs) (\<lambda>_.
     Inr \<lparr>ac_event_count = of_nat (length rs), ac_session_final_hash = map_option cr_event_hash (last_opt rs)\<rparr>))"

definition verify_audit_text ::
    "'x audit_ext_scheme \<Rightarrow> string \<Rightarrow> audit_chain_error + audit_chain_summary" where
  "verify_audit_text X raw =
     res_bind (map_err AuditSerde (res_map (au_parse_record X) (filter (\<lambda>l. trim_ws l \<noteq> []) (str_lines raw)))) (\<lambda>rs.
     verify_audit_chain X rs)"

definition verify_audit_jsonl ::
    "'x audit_ext_scheme \<Rightarrow> string \<Rightarrow> audit_chain_error + audit_chain_summary" where
  "verify_audit_jsonl X path = res_bind (map_err AuditIo (au_read_to_string X path)) (verify_audit_text X)"

text \<open>The text written to the truncated file, up to the record that fails to print.\<close>

fun print_records :: "'x audit_ext_scheme \<Rightarrow> chain_record list \<Rightarrow> string \<times> (string + unit)" where
  "print_records X [] = ([], Inr ())"
| "print_records X (r # rs) =
     (case au_print_record X r of
        Inl e \<Rightarrow> ([], Inl e)
      | Inr line \<Rightarrow> (let (rest, res) = print_records X rs in (line @ [LF] @ rest, res)))"

fun audit_chain_error_to_string :: "audit_chain_error \<Rightarrow> string" where
  "audit_chain_error_to_string (AuditIo e) = ''audit I/O failure: '' @ e"
| "audit_chain_error_to_string (AuditSerde e) = ''audit serialization failure: '' @ e"
| "audit_chain_error_to_string (EventIndexMismatch line expected actual) =
     ''chain verification failed at line '' @ show_nat line @ '': expected event_index '' @ show_nat (unat expected)
       @ '', got '' @ show_nat (unat actual)"
| "audit_chain_error_to_string (PrevHashMismatch line) =
     ''chain verification failed at line '' @ show_nat line @ '': prev_hash mismatch''"
| "audit_chain_error_to_string (EventHashMismatch line) =
     ''chain verification failed at line '' @ show_nat line @ '': event_hash mismatch''"
| "audit_chain_error_to_string (SessionFinalHashMismatch line) =
     ''chain verification failed at line '' @ show_nat line @ '': session_final_hash mismatch''"
| "audit_chain_error_to_string (NonTerminalSessionFinalHash line) =
     ''chain verification failed at line '' @ show_nat line @ '': non-terminal record has session_final_hash''"
| "audit_chain_error_to_string (UnsupportedSchemaVersion line found) =
     ''chain verification failed at line '' @ show_nat line @ '': unsupported schema_version '' @ tick @ found @ tick
       @ '', expected '' @ tick @ AUDIT_CHAIN_SCHEMA_VERSION @ tick"

definition write_audit_jsonl ::
    "'x audit_ext_scheme \<Rightarrow> audit_event list \<Rightarrow> string \<times> (string + unit)" where
  "write_audit_jsonl X events =
     (case build_audit_chain X events of
        Inl e \<Rightarrow> ([], Inl (audit_chain_error_to_string e))
      | Inr rs \<Rightarrow> print_records X rs)"

section \<open>Replay metadata\<close>

definition REPLAY_HASH_ALGORITHM :: string where
  "REPLAY_HASH_ALGORITHM = ''sha256''"

record replay_metadata =
  rm_hash_algorithm :: string
  rm_provider_name :: string
  rm_model_id :: string
  rm_session_id :: string
  rm_policy_hash :: string
  rm_config_hash :: string
  rm_tool_registry_hash :: string
  rm_prompt_assembly_hash :: "string option"

record replay_hash_inputs =
  ri_policy :: json
  ri_config :: json
  ri_tool_registry :: json
  ri_prompt_assembly :: "json option"

datatype replay_metadata_error =
    RmUnsupportedHashAlgorithm string | RmMissingField string | RmInvalidHashFormat string | RmHashMismatch string
  | RmSerialization string

definition canonical_json_sha256 :: "'x audit_ext_scheme \<Rightarrow> json \<Rightarrow> replay_metadata_error + string" where
  "canonical_json_sha256 X value =
     res_bind (map_err RmSerialization (au_to_vec X (canonicalize_json value))) (\<lambda>bytes. Inr (au_sha256_hex X bytes))"

definition build_replay_metadata ::
    "'x audit_ext_scheme \<Rightarrow> string \<Rightarrow> string \<Rightarrow> string \<Rightarrow> replay_hash_inputs
     \<Rightarrow> replay_metadata_error + replay_metadata" where
  "build_replay_metadata X provider_name model_id session_id inputs =
     res_bind (canonical_json_sha256 X (ri_policy inputs)) (\<lambda>p.
     res_bind (canonical_json_sha256 X (ri_config inputs)) (\<lambda>c.
     res_bind (canonical_json_sha256 X (ri_tool_registry inputs)) (\<lambda>t.
     res_bind (case ri_prompt_assembly inputs of
         Some v \<Rightarrow> res_bind (canonical_json_sha256 X v) (\<lambda>h. Inr (Some h))
       | None \<Rightarrow> Inr None) (\<lambda>a.
     Inr \<lparr>rm_hash_algorithm = REPLAY_HASH_ALGORITHM, rm_provider_name = provider_name, rm_model_id = model_id,
          rm_session_id = session_id, rm_policy_hash = p, rm_config_hash = c, rm_tool_registry_hash = t,
          rm_prompt_assembly_hash = a\<rparr>))))"

definition is_ascii_hexdigit :: "char \<Rightarrow> bool" where
  "is_ascii_hexdigit c \<longleftrightarrow> c \<in> set ''0123456789abcdefABCDEF''"

definition validate_sha256_hex :: "string \<Rightarrow> string \<Rightarrow> replay_metadata_error + unit" where
  "validate_sha256_hex field value =
     (if length value \<noteq> 64 \<or> \<not> list_all is_ascii_hexdigit value then Inl (RmInvalidHashFormat field) else Inr ())"

definition validate_replay_metadata :: "replay_metadata \<Rightarrow> replay_metadata_error + unit" where
  "validate_replay_metadata m =
     (if rm_hash_algorithm m \<noteq> REPLAY_HASH_ALGORITHM then Inl (RmUnsupportedHashAlgorithm (rm_hash_algorithm m))
      else if trim_ws (rm_provider_name m) = [] then Inl (RmMissingField ''provider_name'')
      else if trim_ws (rm_model_id m) = [] then Inl (RmMissingField ''model_id'')
      else if trim_ws (rm_session_id m) = [] then Inl (RmMissingField ''session_id'')
      else
        res_bind (validate_sha256_hex ''policy_hash'' (rm_policy_hash m)) (\<lambda>_.
        res_bind (validate_sha256_hex ''config_hash'' (rm_config_hash m)) (\<lambda>_.
        res_bind (validate_sha256_hex ''tool_registry_hash'' (rm_tool_registry_hash m)) (\<lambda>_.
        case rm_prompt_assembly_hash m of
          Some v \<Rightarrow> validate_sha256_hex ''prompt_assembly_hash'' v
        | None \<Rightarrow> Inr ()))))"

definition validate_replay_metadata_integrity ::
    "'x audit_ext_scheme \<Rightarrow> replay_metadata \<Rightarrow> replay_hash_inputs \<Rightarrow> replay_metadata_error + unit" where
  "validate_replay_metadata_integrity X m inputs =
     res_bind (validate_replay_metadata m) (\<lambda>_.
     res_bind (build_replay_metadata X (rm_provider_name m) (rm_model_id m) (rm_session_id m) inputs) (\<lambda>e.
     if rm_policy_hash m \<noteq> rm_policy_hash e then Inl (RmHashMismatch ''policy_hash'')
     else if rm_config_hash m \<noteq> rm_config_hash e then Inl (RmHashMismatch ''config_hash'')
     else if rm_tool_registry_hash m \<noteq> rm_tool_registry_hash e then Inl (RmHashMismatch ''tool_registry_hash'')
     else if rm_prompt_assembly_hash m \<noteq> rm_prompt_assembly_hash e then Inl (RmHashMismatch ''prompt_assembly_hash'')
     else Inr ()))"

section \<open>Evidence\<close>

definition EVIDENCE_SCHEMA_VERSION :: string where
  "EVIDENCE_SCHEMA_VERSION = ''evidence.v1''"

record evidence_audit =
  ea_audit_log_path :: string
  ea_audit_chain_valid :: bool
  ea_session_final_hash :: "string option"

record evidence_policy =
  ep_allow :: u64
  ep_deny :: u64
  ep_prompted :: u64
  ep_decision_samples :: "string list"

record evidence_tool_call =
  et_name :: string
  et_success :: bool
  et_message :: string

record evidence_tools =
  ets_timeline :: "evidence_tool_call list"
  ets_total :: u64
  ets_success :: u64
  ets_failure :: u64

record verification_outcome =
  vo_name :: string
  vo_status :: string
  vo_exit_code :: "int option"
  vo_summary :: string

record evidence_verification =
  ev_outcomes :: "verification_outcome list"
  ev_unavailable_reason :: "string option"

record 'm evidence_artifact =
  ef_schema_version :: string
  ef_session_id :: string
  ef_generated_at :: datetime
  ef_replay_metadata :: replay_metadata
  ef_audit :: evidence_audit
  ef_policy :: evidence_policy
  ef_tools :: evidence_tools
  ef_files_touched :: "string list"
  ef_verification :: evidence_verification
  ef_reliability :: 'm
  ef_notes :: "string list"

datatype evidence_error =
    EvIo string
  | EvSerde string
  | EvUnsupportedSchemaVersion string
  | EvMissingField string
  | EvReplay replay_metadata_error
  | EvAudit string
  | EvSessionFinalHashMismatch

text \<open>\<open>Vec::sort\<close> and \<open>Vec::dedup\<close>.\<close>

definition sort_dedup :: "string list \<Rightarrow> string list" where
  "sort_dedup xs = remdups_adj (sort xs)"

definition normalize_deterministic :: "'m evidence_artifact \<Rightarrow> 'm evidence_artifact" where
  "normalize_deterministic a =
     a\<lparr>ef_files_touched := sort_dedup (ef_files_touched a),
       ef_policy := (ef_policy a)\<lparr>ep_decision_samples := sort_dedup (ep_decision_samples (ef_policy a))\<rparr>\<rparr>"

definition evidence_artifact_new ::
    "'m \<Rightarrow> string \<Rightarrow> datetime \<Rightarrow> replay_metadata \<Rightarrow> evidence_audit \<Rightarrow> evidence_policy \<Rightarrow> evidence_tools
     \<Rightarrow> string list \<Rightarrow> evidence_verification \<Rightarrow> 'm evidence_artifact" where
  "evidence_artifact_new none sid t m audit policy tools files verification =
     normalize_deterministic
       \<lparr>ef_schema_version = EVIDENCE_SCHEMA_VERSION, ef_session_id = sid, ef_generated_at = t, ef_replay_metadata = m,
        ef_audit = audit, ef_policy = policy, ef_tools = tools, ef_files_touched = files,
        ef_verification = verification, ef_reliability = none, ef_notes = []\<rparr>"

definition validate_evidence_artifact ::
    "'x audit_ext_scheme \<Rightarrow> 'm evidence_artifact \<Rightarrow> evidence_error + unit" where
  "validate_evidence_artifact X a =
     (if ef_schema_version a \<noteq> EVIDENCE_SCHEMA_VERSION then Inl (EvUnsupportedSchemaVersion (ef_schema_version a))
      else if trim_ws (ef_session_id a) = [] then Inl (EvMissingField ''session_id'')
      else if trim_ws (ea_audit_log_path (ef_audit a)) = [] then Inl (EvMissingField ''audit.audit_log_path'')
      else
        res_bind (map_err EvReplay (validate_replay_metadata (ef_replay_metadata a))) (\<lambda>_.
        if rm_session_id (ef_replay_metadata a) \<noteq> ef_session_id a
        then Inl (EvMissingField ''replay_metadata.session_id (must match session_id)'')
        else
          res_bind (map_err (\<lambda>e. EvAudit (audit_chain_error_to_string e @ '' ('' @ ea_audit_log_path (ef_audit a) @ '')''))
              (verify_audit_jsonl X (ea_audit_log_path (ef_audit a)))) (\<lambda>summary.
          if \<not> ea_audit_chain_valid (ef_audit a) then Inl (EvAudit ''audit_chain_valid is false'')
          else if ea_session_final_hash (ef_audit a) \<noteq> ac_session_final_hash summary
          then Inl EvSessionFinalHashMismatch
          else Inr ())))"

text \<open>\<open>parse\<close> is the derived parser of the artifact.\<close>

definition validate_evidence_json ::
    "'x audit_ext_scheme \<Rightarrow> (string \<Rightarrow> string + 'm evidence_artifact) \<Rightarrow> string \<Rightarrow> evidence_error + 'm evidence_artifact" where
  "validate_evidence_json X parse path =
     res_bind (map_err EvIo (au_read_to_string X path)) (\<lambda>raw.
     res_bind (map_err EvSerde (parse raw)) (\<lambda>a.
     res_bind (validate_evidence_artifact X a) (\<lambda>_. Inr a)))"

end
