(* ===== verification/Audit_Properties.thy ===== *)
theory Audit_Properties
  imports Audit_Chain Example_Env "HOL-Library.Countable"
begin

text \<open>The audit chain: what is written verifies, equal final hashes mean equal events, a log cut off at any
  record still verifies, and an accepted evidence artifact pins the events of its log.\<close>

text \<open>The bytes that are hashed for an event and the hash before it.\<close>

definition event_payload :: "'x audit_ext_scheme \<Rightarrow> audit_event \<Rightarrow> string \<Rightarrow> string + byte list" where
  "event_payload X e p =
     res_bind (au_event_value X e) (\<lambda>v.
     au_to_vec X (canonicalize_json (JObject [(''prev_hash'', JString p), (''event'', v)])))"

lemma compute_hash_payload:
  "compute_event_hash X e p = Inr h \<longleftrightarrow> (\<exists>b. event_payload X e p = Inr b \<and> h = au_sha256_hex X b)"
  by (auto simp: compute_event_hash_def event_payload_def res_bind_Inr_iff map_err_Inr_iff)

lemma compute_hash_digest: "compute_event_hash X e p = Inr h \<Longrightarrow> \<exists>b. au_sha256_hex X b = h"
  by (auto simp: compute_hash_payload)

section \<open>Building and verifying\<close>

text \<open>What the verifier asks of one record; \<open>final\<close> marks the last one.\<close>

definition record_ok :: "'x audit_ext_scheme \<Rightarrow> nat \<Rightarrow> string option \<Rightarrow> bool \<Rightarrow> chain_record \<Rightarrow> bool" where
  "record_ok X idx prev final r \<longleftrightarrow>
     cr_event_index r = of_nat idx \<and> cr_schema_version r = AUDIT_CHAIN_SCHEMA_VERSION \<and> cr_prev_hash r = prev
     \<and> (final \<or> cr_session_final_hash r = None)
     \<and> compute_event_hash X (cr_event r) (or_empty prev) = Inr (cr_event_hash r)"

lemma verify_records_Cons:
  "verify_records X i prev (r # rs) = Inr () \<longleftrightarrow>
     record_ok X i prev (rs = []) r \<and> verify_records X (Suc i) (Some (cr_event_hash r)) rs = Inr ()"
  by (auto simp: record_ok_def Let_def res_bind_Inr_iff)

lemmas verify_records_simps [simp] = verify_records.simps(1) verify_records_Cons
declare verify_records.simps(2) [simp del]

lemma chain_from_length: "chain_from X i prev events = Inr rs \<Longrightarrow> length rs = length events"
  by (induction X i prev events arbitrary: rs rule: chain_from.induct) (auto simp: res_bind_Inr_iff)

lemma chain_from_verifies:
  "chain_from X i prev events = Inr rs \<Longrightarrow> verify_records X i prev (mark_last rs) = Inr ()
     \<and> map cr_event (mark_last rs) = events"
proof (induction X i prev events arbitrary: rs rule: chain_from.induct)
  case (2 X i prev event events)
  from 2(2) obtain h rs' where h: "compute_event_hash X event (or_empty prev) = Inr h"
    "chain_from X (Suc i) (Some h) events = Inr rs'"
    and rs: "rs = \<lparr>cr_schema_version = AUDIT_CHAIN_SCHEMA_VERSION, cr_event_index = of_nat i, cr_prev_hash = prev,
           cr_event_hash = h, cr_session_final_hash = None, cr_event = event\<rparr> # rs'"
    by (auto simp: res_bind_Inr_iff)
  show ?case
  proof (cases "rs' = []")
    case True
    then have "events = []" using chain_from_length [OF h(2)] by simp
    with True rs h show ?thesis by (simp add: mark_last_def record_ok_def)
  next
    case False
    then have "mark_last rs = \<lparr>cr_schema_version = AUDIT_CHAIN_SCHEMA_VERSION, cr_event_index = of_nat i, cr_prev_hash = prev,
           cr_event_hash = h, cr_session_final_hash = None, cr_event = event\<rparr> # mark_last rs'"
      by (simp add: rs mark_last_def)
    with "2.IH" [OF h(2)] h(1) show ?thesis by (simp add: record_ok_def)
  qed
qed (simp add: mark_last_def)

text \<open>The chain built from any events verifies, with their number and the hash of the last one.\<close>

theorem built_chain_verifies:
  assumes "build_audit_chain X events = Inr rs"
  shows "verify_audit_chain X rs =
      Inr \<lparr>ac_event_count = of_nat (length events), ac_session_final_hash = map_option cr_event_hash (last_opt rs)\<rparr>
    \<and> map cr_event rs = events"
proof -
  from assms obtain rs0 where c: "chain_from X 0 None events = Inr rs0" and rs: "rs = mark_last rs0"
    by (auto simp: build_audit_chain_def res_bind_Inr_iff)
  have "check_final_hash rs = Inr ()" by (simp add: rs check_final_hash_def mark_last_def)
  moreover have "length rs = length events"
    using chain_from_length [OF c] by (cases rs0 rule: rev_cases) (simp_all add: rs mark_last_def)
  ultimately show ?thesis using chain_from_verifies [OF c] by (simp add: verify_audit_chain_def rs)
qed

section \<open>What a final hash says\<close>

lemma verify_records_append:
  "verify_records X i prev (rs @ [r]) = Inr () \<longleftrightarrow>
     verify_records X i prev rs = Inr () \<and> list_all (\<lambda>r. cr_session_final_hash r = None) rs
     \<and> record_ok X (i + length rs) (if rs = [] then prev else Some (cr_event_hash (last rs))) True r"
proof (induction rs arbitrary: i prev)
  case (Cons a rs)
  have a: "record_ok X i prev False a \<longleftrightarrow> record_ok X i prev (rs = []) a \<and> cr_session_final_hash a = None"
    by (auto simp: record_ok_def)
  have idx: "Suc i + length rs = i + length (a # rs)" by simp
  have prev: "(if rs = [] then Some (cr_event_hash a) else Some (cr_event_hash (last rs)))
      = (if a # rs = [] then prev else Some (cr_event_hash (last (a # rs))))" by simp
  have e: "(rs @ [r] = []) = False" "(a # rs = []) = False" by simp_all
  show ?case
    unfolding append_Cons verify_records_Cons Cons.IH [of "Suc i" "Some (cr_event_hash a)"] idx prev e a list.pred_inject
    by (simp only: conj_assoc conj_comms conj_left_commute)
qed simp

lemma verified_last:
  assumes "verify_records X 0 None (rs @ [r]) = Inr ()"
  shows "compute_event_hash X (cr_event r) (or_empty (cr_prev_hash r)) = Inr (cr_event_hash r)"
    and "cr_prev_hash r = (if rs = [] then None else Some (cr_event_hash (last rs)))"
    and "verify_records X 0 None rs = Inr ()"
  using assms by (simp_all add: verify_records_append record_ok_def)

text \<open>The JSON printer: the printed text of a value determines the value, if its numbers are printed numbers, and
  the value of an event determines the event, also after its members are sorted.\<close>

fun numbers_ok :: "json \<Rightarrow> bool" where
  "numbers_ok (JNumber n) \<longleftrightarrow> n \<noteq> [] \<and> set n \<subseteq> set ''0123456789+-.eE''"
| "numbers_ok (JArray js) \<longleftrightarrow> (\<forall>j \<in> set js. numbers_ok j)"
| "numbers_ok (JObject m) \<longleftrightarrow> (\<forall>kv \<in> set m. numbers_ok (snd kv))"
| "numbers_ok _ \<longleftrightarrow> True"

definition audit_printer_ok :: "'x audit_ext_scheme \<Rightarrow> bool" where
  "audit_printer_ok X \<longleftrightarrow>
     (\<forall>j1 j2 b. numbers_ok j1 \<and> numbers_ok j2 \<and> au_to_vec X j1 = Inr b \<and> au_to_vec X j2 = Inr b \<longrightarrow> j1 = j2)
     \<and> (\<forall>e v. au_event_value X e = Inr v \<longrightarrow> numbers_ok v)
     \<and> (\<forall>e1 e2 v1 v2. au_event_value X e1 = Inr v1 \<and> au_event_value X e2 = Inr v2
          \<and> canonicalize_json v1 = canonicalize_json v2 \<longrightarrow> e1 = e2)"

lemma numbers_ok_canonicalize: "numbers_ok j \<Longrightarrow> numbers_ok (canonicalize_json j)"
  by (induction j rule: canonicalize_json.induct) fastforce+

lemma canonical_payload:
  "canonicalize_json (JObject [(''prev_hash'', JString p), (''event'', v)]) =
     JObject [(''event'', canonicalize_json v), (''prev_hash'', JString p)]"
  by (simp add: sort_key_def)

text \<open>The hashed bytes determine the event and the hash before it.\<close>

lemma printer_ok_dests:
  assumes "audit_printer_ok X"
  shows printed_once: "\<And>j1 j2 b. numbers_ok j1 \<Longrightarrow> numbers_ok j2 \<Longrightarrow> au_to_vec X j1 = Inr b \<Longrightarrow> au_to_vec X j2 = Inr b \<Longrightarrow> j1 = j2"
    and event_numbers_ok: "\<And>e v. au_event_value X e = Inr v \<Longrightarrow> numbers_ok v"
    and event_of_value: "\<And>e1 e2 v1 v2. au_event_value X e1 = Inr v1 \<Longrightarrow> au_event_value X e2 = Inr v2
      \<Longrightarrow> canonicalize_json v1 = canonicalize_json v2 \<Longrightarrow> e1 = e2"
  using assms unfolding audit_printer_ok_def by blast+

lemma event_payload_eq:
  "event_payload X e p = Inr b \<longleftrightarrow> (\<exists>v. au_event_value X e = Inr v
     \<and> au_to_vec X (JObject [(''event'', canonicalize_json v), (''prev_hash'', JString p)]) = Inr b)"
  unfolding event_payload_def canonical_payload res_bind_Inr_iff ..

lemma payload_injective:
  assumes "audit_printer_ok X" "event_payload X e1 p1 = Inr b" "event_payload X e2 p2 = Inr b"
  shows "e1 = e2 \<and> p1 = p2"
proof -
  let ?j = "\<lambda>v p. JObject [(''event'', canonicalize_json v), (''prev_hash'', JString p)]"
  from assms(2) obtain v1 where 1: "au_event_value X e1 = Inr v1" "au_to_vec X (?j v1 p1) = Inr b"
    unfolding event_payload_eq by (elim exE conjE)
  from assms(3) obtain v2 where 2: "au_event_value X e2 = Inr v2" "au_to_vec X (?j v2 p2) = Inr b"
    unfolding event_payload_eq by (elim exE conjE)
  have n: "numbers_ok (?j v1 p1)" "numbers_ok (?j v2 p2)"
    using event_numbers_ok [OF assms(1) 1(1)] event_numbers_ok [OF assms(1) 2(1)]
    by (simp_all add: numbers_ok_canonicalize)
  from printed_once [OF assms(1) n 1(2) 2(2)] have "canonicalize_json v1 = canonicalize_json v2" "p1 = p2"
    by (simp_all del: canonicalize_json.simps)
  with event_of_value [OF assms(1) 1(1) 2(1)] show ?thesis by simp
qed

text \<open>Two different byte sequences, hashed for a record of each log, with the same digest.\<close>

definition payload_collision :: "'x audit_ext_scheme \<Rightarrow> chain_record list \<Rightarrow> chain_record list \<Rightarrow> bool" where
  "payload_collision X rs qs \<longleftrightarrow>
     (\<exists>r \<in> set rs. \<exists>q \<in> set qs. \<exists>b1 b2. event_payload X (cr_event r) (or_empty (cr_prev_hash r)) = Inr b1
        \<and> event_payload X (cr_event q) (or_empty (cr_prev_hash q)) = Inr b2
        \<and> b1 \<noteq> b2 \<and> au_sha256_hex X b1 = au_sha256_hex X b2)"

lemma payload_collision_mono:
  "payload_collision X rs qs \<Longrightarrow> set rs \<subseteq> set rs' \<Longrightarrow> set qs \<subseteq> set qs' \<Longrightarrow> payload_collision X rs' qs'"
  unfolding payload_collision_def by blast

lemma same_hash:
  assumes "audit_printer_ok X" "\<not> payload_collision X rs qs" "r \<in> set rs" "q \<in> set qs"
    and "compute_event_hash X (cr_event r) (or_empty (cr_prev_hash r)) = Inr h"
    and "compute_event_hash X (cr_event q) (or_empty (cr_prev_hash q)) = Inr h"
  shows "cr_event r = cr_event q \<and> or_empty (cr_prev_hash r) = or_empty (cr_prev_hash q)"
proof -
  from assms(5,6) obtain b1 b2 where b: "event_payload X (cr_event r) (or_empty (cr_prev_hash r)) = Inr b1"
    "event_payload X (cr_event q) (or_empty (cr_prev_hash q)) = Inr b2" "au_sha256_hex X b1 = au_sha256_hex X b2"
    by (auto simp: compute_hash_payload)
  with assms(2-4) have "b1 = b2" unfolding payload_collision_def by blast
  with payload_injective [OF assms(1)] b(1,2) show ?thesis by blast
qed

lemma chain_bound_by_last:
  assumes "audit_printer_ok X" "\<And>b. au_sha256_hex X b \<noteq> []"
  shows "verify_records X 0 None (rs @ [r]) = Inr () \<Longrightarrow> verify_records X 0 None (qs @ [q]) = Inr ()
    \<Longrightarrow> cr_event_hash r = cr_event_hash q \<Longrightarrow> \<not> payload_collision X (rs @ [r]) (qs @ [q])
    \<Longrightarrow> map cr_event (rs @ [r]) = map cr_event (qs @ [q])"
proof (induction rs arbitrary: r qs q rule: rev_induct)
  case Nil
  note v = verified_last [OF Nil(1)] verified_last [OF Nil(2)]
  have same: "cr_event r = cr_event q" "or_empty (cr_prev_hash r) = or_empty (cr_prev_hash q)"
    using same_hash [OF assms(1) Nil(4), of r q] v(1,4) Nil(3) by auto
  have "qs = []"
  proof (rule ccontr)
    assume "qs \<noteq> []"
    then obtain qs' q' where qs: "qs = qs' @ [q']" by (metis append_butlast_last_id)
    have "cr_event_hash q' \<noteq> []" using compute_hash_digest [OF verified_last(1) [OF v(6) [unfolded qs]]] assms(2) by auto
    then show False using same(2) v(2,5) by (simp add: qs or_empty_def)
  qed
  with same show ?case by simp
next
  case (snoc r' rs)
  note v = verified_last [OF snoc.prems(1)] verified_last [OF snoc.prems(2)]
  have same: "cr_event r = cr_event q" "or_empty (cr_prev_hash r) = or_empty (cr_prev_hash q)"
    using same_hash [OF assms(1) snoc.prems(4), of r q] v(1,4) snoc.prems(3) by auto
  have "cr_event_hash r' \<noteq> []" using compute_hash_digest [OF verified_last(1) [OF v(3)]] assms(2) by auto
  then have "qs \<noteq> []" using same(2) v(2,5) by (auto simp: or_empty_def)
  then obtain qs' q' where qs: "qs = qs' @ [q']" by (metis append_butlast_last_id)
  have "cr_event_hash r' = cr_event_hash q'" using same(2) v(2,5) by (simp add: qs or_empty_def)
  moreover have "\<not> payload_collision X (rs @ [r']) (qs' @ [q'])"
  proof
    assume "payload_collision X (rs @ [r']) (qs' @ [q'])"
    then have "payload_collision X ((rs @ [r']) @ [r]) (qs @ [q])" by (rule payload_collision_mono) (auto simp: qs)
    with snoc.prems(4) show False ..
  qed
  ultimately show ?case using snoc.IH [OF v(3) v(6) [unfolded qs]] same(1) by (simp add: qs)
qed

lemma equal_final_hashes:
  assumes "audit_printer_ok X" "\<forall>b. au_sha256_hex X b \<noteq> []"
    and "verify_audit_chain X rs = Inr s" "verify_audit_chain X qs = Inr s'"
    and "ac_session_final_hash s = ac_session_final_hash s'"
  shows "map cr_event rs = map cr_event qs \<or> payload_collision X rs qs"
proof -
  from assms(3-5) have v: "verify_records X 0 None rs = Inr ()" "verify_records X 0 None qs = Inr ()"
    and h: "map_option cr_event_hash (last_opt rs) = map_option cr_event_hash (last_opt qs)"
    by (auto simp: verify_audit_chain_def res_bind_Inr_iff)
  show ?thesis
  proof (cases rs rule: rev_cases)
    case Nil
    with h show ?thesis by (cases qs rule: rev_cases) (simp_all add: last_opt_def)
  next
    case (snoc rs' r)
    with h obtain qs' q where "qs = qs' @ [q]" by (cases qs rule: rev_cases) (simp_all add: last_opt_def)
    with snoc v h show ?thesis
      using chain_bound_by_last [OF assms(1), of rs' r qs' q] assms(2) by (auto simp: last_opt_def)
  qed
qed

text \<open>C31: Two audit chains that verify with the same final hash record the same events, or the logs exhibit a
  collision: two different byte sequences, each hashed for a record of one of the logs, with the same digest.\<close>

theorem final_hash_pins_events:
  assumes "audit_printer_ok X" "\<forall>b. au_sha256_hex X b \<noteq> []"
    and "verify_audit_chain X rs = Inr s" "verify_audit_chain X qs = Inr s'"
    and "ac_session_final_hash s = ac_session_final_hash s'"
  shows "map cr_event rs = map cr_event qs
     \<or> (\<exists>r \<in> set rs. \<exists>q \<in> set qs. \<exists>b1 b2. event_payload X (cr_event r) (or_empty (cr_prev_hash r)) = Inr b1
          \<and> event_payload X (cr_event q) (or_empty (cr_prev_hash q)) = Inr b2
          \<and> b1 \<noteq> b2 \<and> au_sha256_hex X b1 = au_sha256_hex X b2)"
  using equal_final_hashes [OF assms] unfolding payload_collision_def .

section \<open>Truncation\<close>

lemma verify_take: "verify_records X i prev rs = Inr () \<Longrightarrow> verify_records X i prev (take n rs) = Inr ()"
proof (induction rs arbitrary: i prev n)
  case (Cons r rs)
  show ?case
  proof (cases n)
    case (Suc m)
    have "record_ok X i prev (take m rs = []) r" using Cons.prems by (auto simp: record_ok_def)
    with Cons Suc show ?thesis by simp
  qed simp
qed simp

lemma verified_inner_final:
  "verify_records X i prev rs = Inr () \<Longrightarrow> Suc n < length rs \<Longrightarrow> cr_session_final_hash (rs ! n) = None"
proof (induction rs arbitrary: i prev n)
  case (Cons r rs)
  then show ?case by (cases n) (auto simp: record_ok_def)
qed simp

text \<open>C32: Removing records from the end of a log leaves a log that verifies: the mark of the last record is
  checked only if it is there.\<close>

theorem truncated_log_verifies:
  assumes "verify_audit_chain X rs = Inr s"
  shows "\<exists>s'. verify_audit_chain X (take n rs) = Inr s'"
proof (cases "n < length rs")
  case True
  from assms have v: "verify_records X 0 None rs = Inr ()" by (auto simp: verify_audit_chain_def res_bind_Inr_iff)
  have "check_final_hash (take n rs) = Inr ()"
  proof (cases n)
    case (Suc m)
    then have "last (take n rs) = rs ! m" using True by (simp add: last_conv_nth take_Suc_conv_app_nth)
    then show ?thesis using verified_inner_final [OF v, of m] True Suc by (simp add: check_final_hash_def)
  qed (simp add: check_final_hash_def)
  then show ?thesis using verify_take [OF v] by (simp add: verify_audit_chain_def)
next
  case False
  with assms show ?thesis by simp
qed

section \<open>Evidence\<close>

text \<open>The records of an audit file.\<close>

definition audit_file_records :: "'x audit_ext_scheme \<Rightarrow> string \<Rightarrow> string + chain_record list" where
  "audit_file_records X raw = res_map (au_parse_record X) (filter (\<lambda>l. trim_ws l \<noteq> []) (str_lines raw))"

lemma evidence_accepts:
  assumes "validate_evidence_artifact X a = Inr ()"
  shows "\<exists>raw rs s. au_read_to_string X (ea_audit_log_path (ef_audit a)) = Inr raw \<and> audit_file_records X raw = Inr rs
    \<and> verify_audit_chain X rs = Inr s \<and> ac_session_final_hash s = ea_session_final_hash (ef_audit a)"
  using assms
  by (auto simp: validate_evidence_artifact_def verify_audit_jsonl_def verify_audit_text_def audit_file_records_def
      res_bind_Inr_iff map_err_Inr_iff split: if_splits)

lemma audit_file_moved [simp]:
  "audit_file_records (X\<lparr>au_read_to_string := f\<rparr>) raw = audit_file_records X raw"
  "compute_event_hash (X\<lparr>au_read_to_string := f\<rparr>) e p = compute_event_hash X e p"
  by (simp_all add: audit_file_records_def compute_event_hash_def)

lemma verify_moved [simp]: "verify_audit_chain (X\<lparr>au_read_to_string := f\<rparr>) rs = verify_audit_chain X rs"
proof -
  have "verify_records (X\<lparr>au_read_to_string := f\<rparr>) i prev rs = verify_records X i prev rs" for i prev
  proof (induction rs arbitrary: i prev)
    case (Cons r rs)
    have "(\<lambda>h. if cr_event_hash r \<noteq> h then Inl (EventHashMismatch (i + 1))
          else verify_records (X\<lparr>au_read_to_string := f\<rparr>) (Suc i) (Some (cr_event_hash r)) rs)
        = (\<lambda>h. if cr_event_hash r \<noteq> h then Inl (EventHashMismatch (i + 1))
          else verify_records X (Suc i) (Some (cr_event_hash r)) rs)"
      by (rule ext) (simp only: Cons.IH)
    then show ?case by (simp only: verify_records.simps(2) audit_file_moved Let_def)
  qed (simp only: verify_records.simps(1))
  then show ?thesis by (simp add: verify_audit_chain_def)
qed

text \<open>An accepted evidence artifact pins its audit log: if the artifact is accepted while its path reads
  as one text and again while it reads as another, both texts record the same events, or the two logs exhibit a
  collision.\<close>

theorem evidence_pins_audit_log:
  assumes "audit_printer_ok X" "\<forall>b. au_sha256_hex X b \<noteq> []"
    and "validate_evidence_artifact (X\<lparr>au_read_to_string := \<lambda>_. Inr raw1\<rparr>) a = Inr ()"
    and "validate_evidence_artifact (X\<lparr>au_read_to_string := \<lambda>_. Inr raw2\<rparr>) a = Inr ()"
  shows "\<exists>rs qs. audit_file_records X raw1 = Inr rs \<and> audit_file_records X raw2 = Inr qs
    \<and> (map cr_event rs = map cr_event qs \<or> payload_collision X rs qs)"
proof -
  from evidence_accepts [OF assms(3)] obtain rs s where 1: "audit_file_records X raw1 = Inr rs"
    "verify_audit_chain X rs = Inr s" "ac_session_final_hash s = ea_session_final_hash (ef_audit a)" by auto
  from evidence_accepts [OF assms(4)] obtain qs s' where 2: "audit_file_records X raw2 = Inr qs"
    "verify_audit_chain X qs = Inr s'" "ac_session_final_hash s' = ea_session_final_hash (ef_audit a)" by auto
  from equal_final_hashes [OF assms(1,2) 1(2) 2(2)] 1 2 show ?thesis by simp
qed

lemma sort_dedup_strict: "sorted_wrt (<) (remdups_adj xs)" if "sorted xs" for xs :: "string list"
  using that
  by (induction xs rule: remdups_adj.induct) (auto simp: order.strict_iff_order)

lemma sort_dedup_sorted: "sorted (sort_dedup xs)"
  using sort_dedup_strict [OF sorted_sort] by (simp add: sort_dedup_def strict_sorted_iff)

lemma sort_dedup_distinct: "distinct (sort_dedup xs)"
  using sort_dedup_strict [OF sorted_sort] by (simp add: sort_dedup_def strict_sorted_iff)

text \<open>Normalising an artifact is idempotent, so writing it again gives the same file.\<close>

theorem normalize_is_idempotent:
  "normalize_deterministic (normalize_deterministic a) = normalize_deterministic a
   \<and> sorted (ef_files_touched (normalize_deterministic a)) \<and> distinct (ef_files_touched (normalize_deterministic a))
   \<and> set (ef_files_touched (normalize_deterministic a)) = set (ef_files_touched a)"
proof -
  have "sort_dedup (sort_dedup xs) = sort_dedup xs" for xs :: "string list"
    by (simp add: sort_dedup_def [of "sort_dedup xs"] sort_dedup_sorted sort_dedup_distinct sorted_sort_id
        remdups_adj_distinct)
  with sort_dedup_sorted sort_dedup_distinct show ?thesis by (simp add: normalize_deterministic_def sort_dedup_def)
qed

section \<open>A concrete log\<close>

definition a_time :: datetime where
  "a_time = 0"

definition a_first :: audit_event where
  "a_first = AuditAgentStep ''s'' a_time ''start''"

definition a_second :: audit_event where
  "a_second = AuditAgentStep ''s'' a_time ''stop''"

text \<open>A serialiser and a digest for the two payloads of this log; every other payload is refused.\<close>

definition a_payload1 :: json where
  "a_payload1 = canonicalize_json (JObject [(''prev_hash'', JString []), (''event'', JString ''1'')])"

definition a_payload2 :: json where
  "a_payload2 = canonicalize_json (JObject [(''prev_hash'', JString ''a''), (''event'', JString ''2'')])"

definition a_record1 :: chain_record where
  "a_record1 = \<lparr>cr_schema_version = AUDIT_CHAIN_SCHEMA_VERSION, cr_event_index = 0, cr_prev_hash = None,
     cr_event_hash = ''a'', cr_session_final_hash = None, cr_event = a_first\<rparr>"

definition a_record2 :: chain_record where
  "a_record2 = \<lparr>cr_schema_version = AUDIT_CHAIN_SCHEMA_VERSION, cr_event_index = 1, cr_prev_hash = Some ''a'',
     cr_event_hash = ''b'', cr_session_final_hash = Some ''b'', cr_event = a_second\<rparr>"

definition a_ext :: audit_ext where
  "a_ext = \<lparr>au_event_value = (\<lambda>e. if e = a_first then Inr (JString ''1'') else if e = a_second then Inr (JString ''2'') else Inl ''event''),
     au_to_vec = (\<lambda>j. if j = a_payload1 then Inr [1] else if j = a_payload2 then Inr [2] else Inl ''json''),
     au_sha256_hex = (\<lambda>b. if b = [1] then ''a'' else ''b''),
     au_print_record = (\<lambda>r. Inl ''print''),
     au_parse_record = (\<lambda>l. if l = ''1'' then Inr a_record1 else if l = ''2'' then Inr a_record2 else Inl ''parse''),
     au_read_to_string = (\<lambda>p. Inl ''read'')\<rparr>"

lemmas a_defs = a_ext_def a_record1_def a_record2_def

lemma a_values [simp]:
  "a_first \<noteq> a_second" "a_second \<noteq> a_first" "a_payload1 \<noteq> a_payload2" "a_payload2 \<noteq> a_payload1"
  by (simp_all add: a_first_def a_second_def a_payload1_def a_payload2_def sort_key_def)

lemma a_hash:
  "compute_event_hash a_ext e p = Inr h \<longleftrightarrow>
     (e = a_first \<and> p = [] \<and> h = ''a'') \<or> (e = a_second \<and> p = ''a'' \<and> h = ''b'')"
proof -
  have 1: "JObject [(''event'', JString q), (''prev_hash'', JString p)] = a_payload1
      \<longleftrightarrow> p = [] \<and> q = ''1''" for p q
    by (auto simp: a_payload1_def sort_key_def)
  have 2: "JObject [(''event'', JString q), (''prev_hash'', JString p)] = a_payload2
      \<longleftrightarrow> p = ''a'' \<and> q = ''2''" for p q
    by (auto simp: a_payload2_def sort_key_def)
  show ?thesis
    by (auto simp: compute_event_hash_def a_ext_def res_bind_Inr_iff map_err_Inr_iff sort_key_def 1 2 split: if_splits)
qed

lemma a_printer_ok: "audit_printer_ok a_ext"
  by (auto simp: audit_printer_ok_def a_ext_def split: if_splits)

lemma a_no_collision: "\<not> payload_collision a_ext rs qs"
proof -
  have bytes: "b = [1] \<or> b = [2]" if "event_payload a_ext e p = Inr b" for e p b
    using that by (auto simp: event_payload_def res_bind_Inr_iff a_ext_def split: if_splits)
  have "b1 = b2" if "event_payload a_ext e1 p1 = Inr b1" "event_payload a_ext e2 p2 = Inr b2"
      "au_sha256_hex a_ext b1 = au_sha256_hex a_ext b2" for e1 p1 e2 p2 b1 b2
    using bytes [OF that(1)] bytes [OF that(2)] that(3) by (elim disjE) (simp_all add: a_ext_def)
  then show ?thesis unfolding payload_collision_def by blast
qed

lemma a_digest: "\<forall>b. au_sha256_hex a_ext b \<noteq> []"
  by (simp add: a_ext_def)

lemma a_build: "build_audit_chain a_ext [a_first, a_second] = Inr [a_record1, a_record2]"
proof -
  have "compute_event_hash a_ext a_first [] = Inr ''a''" "compute_event_hash a_ext a_second ''a'' = Inr ''b''"
    by (simp_all add: a_hash)
  then show ?thesis by (simp add: build_audit_chain_def or_empty_def mark_last_def a_record1_def a_record2_def)
qed

lemma a_verify:
  "verify_audit_chain a_ext [a_record1, a_record2] = Inr \<lparr>ac_event_count = 2, ac_session_final_hash = Some ''b''\<rparr>"
proof -
  have "verify_records a_ext 0 None [a_record1, a_record2] = Inr ()"
    by (simp add: record_ok_def a_hash or_empty_def a_record1_def a_record2_def)
  then show ?thesis by (simp add: verify_audit_chain_def check_final_hash_def last_opt_def a_record2_def)
qed

theorem built_chain_verifies_witness:
  "verify_audit_chain a_ext [a_record1, a_record2] =
      Inr \<lparr>ac_event_count = of_nat (length [a_first, a_second]),
           ac_session_final_hash = map_option cr_event_hash (last_opt [a_record1, a_record2])\<rparr>
    \<and> map cr_event [a_record1, a_record2] = [a_first, a_second]"
  by (rule built_chain_verifies [OF a_build])

text \<open>Serialisers that accept every event and every value, on a log with and without the mark of its last record.\<close>

instance permission :: countable by countable_datatype
instance policy_verdict :: countable by countable_datatype
instance tool_outcome_kind :: countable by countable_datatype
instance audit_event :: countable by countable_datatype
instance json :: countable by countable_datatype

definition b_ext :: audit_ext where
  "b_ext = a_ext\<lparr>au_event_value := (\<lambda>e. Inr (JString (replicate (to_nat e) CHR ''a''))),
     au_to_vec := (\<lambda>j. Inr (replicate (to_nat j) 0)), au_sha256_hex := (\<lambda>b. replicate (Suc (length b)) CHR ''0'')\<rparr>"

lemma b_printer_ok: "audit_printer_ok b_ext" "\<forall>b. au_sha256_hex b_ext b \<noteq> []"
  by (simp_all add: audit_printer_ok_def b_ext_def)

theorem final_hash_pins_events_witness:
  "\<exists>rs qs s. build_audit_chain b_ext [a_first, a_second] = Inr rs \<and> verify_audit_chain b_ext qs = Inr s
     \<and> rs \<noteq> qs \<and> map cr_event qs = [a_first, a_second]"
proof -
  have h: "\<exists>h. compute_event_hash b_ext e p = Inr h" for e p
    by (simp add: compute_event_hash_def b_ext_def)
  obtain h1 where h1: "compute_event_hash b_ext a_first [] = Inr h1" using h by blast
  obtain h2 where h2: "compute_event_hash b_ext a_second h1 = Inr h2" using h by blast
  define r1 where "r1 = a_record1\<lparr>cr_event_hash := h1\<rparr>"
  define r2 where "r2 = a_record2\<lparr>cr_prev_hash := Some h1, cr_event_hash := h2, cr_session_final_hash := Some h2\<rparr>"
  let ?q2 = "r2\<lparr>cr_session_final_hash := None\<rparr>"
  have b: "build_audit_chain b_ext [a_first, a_second] = Inr [r1, r2]"
    using h1 h2 by (simp add: build_audit_chain_def or_empty_def mark_last_def r1_def r2_def a_record1_def a_record2_def)
  have ok: "record_ok b_ext 0 None False r1" "record_ok b_ext 1 (Some h1) True r2" "record_ok b_ext 1 (Some h1) True ?q2"
    "cr_event_hash r1 = h1" "cr_event_hash r2 = h2"
    using h1 h2 by (simp_all add: record_ok_def or_empty_def r1_def r2_def a_record1_def a_record2_def)
  then have v: "verify_audit_chain b_ext [r1, r2] = Inr \<lparr>ac_event_count = 2, ac_session_final_hash = Some h2\<rparr>"
    "verify_audit_chain b_ext [r1, ?q2] = Inr \<lparr>ac_event_count = 2, ac_session_final_hash = Some h2\<rparr>"
    by (simp_all add: verify_audit_chain_def check_final_hash_def last_opt_def r2_def)
  from final_hash_pins_events [OF b_printer_ok v refl] have "map cr_event [r1, r2] = map cr_event [r1, ?q2]"
    by (auto simp: b_ext_def event_payload_def)
  moreover have "map cr_event [r1, r2] = [a_first, a_second]" by (simp add: r1_def r2_def a_record1_def a_record2_def)
  moreover have "cr_session_final_hash r2 \<noteq> cr_session_final_hash ?q2" by (simp add: r2_def)
  then have "[r1, r2] \<noteq> [r1, ?q2]" by (metis list.inject)
  ultimately show ?thesis using b v(2) by (intro exI conjI) auto
qed

theorem truncated_log_verifies_witness: "\<exists>s'. verify_audit_chain a_ext (take 1 [a_record1, a_record2]) = Inr s'"
  by (rule truncated_log_verifies [OF a_verify])

definition a_hex :: string where
  "a_hex = replicate 64 CHR ''0''"

definition a_artifact :: "unit evidence_artifact" where
  "a_artifact = evidence_artifact_new () ''s'' a_time
     \<lparr>rm_hash_algorithm = REPLAY_HASH_ALGORITHM, rm_provider_name = ''p'', rm_model_id = ''m'', rm_session_id = ''s'',
      rm_policy_hash = a_hex, rm_config_hash = a_hex, rm_tool_registry_hash = a_hex, rm_prompt_assembly_hash = None\<rparr>
     \<lparr>ea_audit_log_path = ''log'', ea_audit_chain_valid = True, ea_session_final_hash = Some ''b''\<rparr>
     \<lparr>ep_allow = 0, ep_deny = 0, ep_prompted = 0, ep_decision_samples = []\<rparr>
     \<lparr>ets_timeline = [], ets_total = 0, ets_success = 0, ets_failure = 0\<rparr>
     [] \<lparr>ev_outcomes = [], ev_unavailable_reason = None\<rparr>"

text \<open>The log with and without a blank line between its two records.\<close>

definition a_raw1 :: string where
  "a_raw1 = ''1'' @ [LF] @ ''2'' @ [LF]"

definition a_raw2 :: string where
  "a_raw2 = ''1'' @ [LF, LF] @ ''2''"

lemma a_files:
  "audit_file_records a_ext a_raw1 = Inr [a_record1, a_record2]" "audit_file_records a_ext a_raw2 = Inr [a_record1, a_record2]"
proof -
  have "filter (\<lambda>l. trim_ws l \<noteq> []) (str_lines a_raw1) = [''1'', ''2'']"
    "filter (\<lambda>l. trim_ws l \<noteq> []) (str_lines a_raw2) = [''1'', ''2'']" by code_simp+
  then show "audit_file_records a_ext a_raw1 = Inr [a_record1, a_record2]"
    "audit_file_records a_ext a_raw2 = Inr [a_record1, a_record2]"
    by (simp_all add: audit_file_records_def a_ext_def)
qed

lemma a_accepted:
  assumes "audit_file_records a_ext raw = Inr [a_record1, a_record2]"
  shows "validate_evidence_artifact (a_ext\<lparr>au_read_to_string := \<lambda>_. Inr raw\<rparr>) a_artifact = Inr ()"
proof -
  let ?X = "a_ext\<lparr>au_read_to_string := \<lambda>_. Inr raw\<rparr>"
  have v: "verify_audit_jsonl ?X p = Inr \<lparr>ac_event_count = 2, ac_session_final_hash = Some ''b''\<rparr>" for p
    using assms a_verify by (simp add: verify_audit_jsonl_def verify_audit_text_def audit_file_records_def)
  have r: "validate_replay_metadata (ef_replay_metadata a_artifact) = Inr ()" by code_simp
  have "ef_schema_version a_artifact = EVIDENCE_SCHEMA_VERSION" "ef_session_id a_artifact = ''s''"
    "ef_audit a_artifact = \<lparr>ea_audit_log_path = ''log'', ea_audit_chain_valid = True, ea_session_final_hash = Some ''b''\<rparr>"
    "rm_session_id (ef_replay_metadata a_artifact) = ''s''" by code_simp+
  moreover have "trim_ws ''s'' \<noteq> []" "trim_ws ''log'' \<noteq> []" by code_simp+
  ultimately show ?thesis using r by (simp add: validate_evidence_artifact_def v)
qed

theorem evidence_pins_audit_log_witness:
  "\<exists>rs qs. audit_file_records a_ext a_raw1 = Inr rs \<and> audit_file_records a_ext a_raw2 = Inr qs
    \<and> map cr_event rs = map cr_event qs"
  using evidence_pins_audit_log [OF a_printer_ok a_digest a_accepted [OF a_files(1)] a_accepted [OF a_files(2)]]
    a_no_collision by blast

end
