(* ===== verification/Otlp_Trace.thy ===== *)
theory Otlp_Trace
  imports Policy Sentinel Std_Text
begin

text \<open>
  OTLP/JSON traces (\<open>akmon-otel/src/otlp.rs\<close>): the lenient deserialisers of integers, doubles, status codes
  and attribute values, the derived ones of the request structures, and the normalised spans. A document is the
  tree of its tokens, members in source order and possibly repeated; numbers carry their text. The parser of the
  text, the conversions of numbers to doubles and the wording of a shape error are parameters.
\<close>

section \<open>Doubles and integers\<close>

text \<open>A finite double is the text it is printed as; \<open>FInf True\<close> is negative.\<close>

datatype f64_value = FNan | FInf bool | FFin string

record otlp_ext =
  ot_parse_tree :: "byte list \<Rightarrow> string + json"
  ot_shape_error :: "byte list \<Rightarrow> string"
  ot_number_f64 :: "string \<Rightarrow> f64_value"
  ot_int_f64 :: "int \<Rightarrow> f64_value"
  ot_parse_f64 :: "string \<Rightarrow> f64_value option"

datatype int_like = IMissing | IValid int | IInvalid

text \<open>\<open>str::parse\<close> for a signed integer type of the given bound.\<close>

definition parse_signed :: "int \<Rightarrow> string \<Rightarrow> int option" where
  "parse_signed bound s =
     (let neg = (s \<noteq> [] \<and> hd s = CHR ''-'');
          d = (case s of [] \<Rightarrow> [] | c # cs \<Rightarrow> if c = CHR ''+'' \<or> c = CHR ''-'' then cs else s);
          v = (if neg then - int (digits_value d) else int (digits_value d)) in
      if d = [] \<or> \<not> list_all is_ascii_digit d \<or> v < - bound \<or> v \<ge> bound then None else Some v)"

abbreviation parse_i128 :: "string \<Rightarrow> int option" where
  "parse_i128 \<equiv> parse_signed (2 ^ 127)"

abbreviation parse_i64 :: "string \<Rightarrow> int option" where
  "parse_i64 \<equiv> parse_signed (2 ^ 63)"

text \<open>The visitor a number of the document reaches: an unsigned or a signed 64-bit integer, or a double
  (a fraction, an exponent, \<open>-0\<close> or an integer out of range).\<close>

definition number_int :: "string \<Rightarrow> int option" where
  "number_int n =
     (case n of
        [] \<Rightarrow> None
      | c # cs \<Rightarrow>
          if c = CHR ''-'' then
            (if cs = [] \<or> \<not> list_all is_ascii_digit cs \<or> digits_value cs = 0 \<or> digits_value cs > 2 ^ 63 then None
             else Some (- int (digits_value cs)))
          else if \<not> list_all is_ascii_digit n \<or> digits_value n \<ge> 2 ^ 64 then None
          else Some (int (digits_value n)))"

fun decode_int_like :: "json \<Rightarrow> int_like option" where
  "decode_int_like (JNumber n) = Some (case number_int n of Some v \<Rightarrow> IValid v | None \<Rightarrow> IInvalid)"
| "decode_int_like (JString s) = Some (case parse_i128 (trim_ws s) of Some v \<Rightarrow> IValid v | None \<Rightarrow> IInvalid)"
| "decode_int_like (JBool b) = Some IInvalid"
| "decode_int_like JNull = Some IMissing"
| "decode_int_like _ = None"

fun decode_status_code :: "json \<Rightarrow> int option" where
  "decode_status_code (JNumber n) = map_option (\<lambda>v. if v \<ge> 2 ^ 63 then -1 else v) (number_int n)"
| "decode_status_code (JString s) =
     Some (if s = ''STATUS_CODE_UNSET'' then 0 else if s = ''STATUS_CODE_OK'' then 1
           else if s = ''STATUS_CODE_ERROR'' then 2 else (case parse_i64 s of Some v \<Rightarrow> v | None \<Rightarrow> -1))"
| "decode_status_code JNull = Some 0"
| "decode_status_code _ = None"

fun decode_double_like :: "'x otlp_ext_scheme \<Rightarrow> json \<Rightarrow> f64_value option option" where
  "decode_double_like X (JNumber n) =
     Some (Some (case number_int n of Some v \<Rightarrow> ot_int_f64 X v | None \<Rightarrow> ot_number_f64 X n))"
| "decode_double_like X (JString s) =
     Some (if s = ''NaN'' then Some FNan else if s = ''Infinity'' then Some (FInf False)
           else if s = ''-Infinity'' then Some (FInf True) else ot_parse_f64 X (trim_ws s))"
| "decode_double_like X JNull = Some None"
| "decode_double_like X _ = None"

section \<open>Derived deserialisers\<close>

text \<open>The members of a structure with the given fields: by name, a known one at most once, or by position.\<close>

fun struct_fields :: "string list \<Rightarrow> json \<Rightarrow> (string \<Rightarrow> json option) option" where
  "struct_fields names (JObject m) =
     (if list_all (\<lambda>n. length (filter (\<lambda>kv. fst kv = n) m) \<le> 1) names then Some (map_of m) else None)"
| "struct_fields names (JArray xs) = (if length xs \<le> length names then Some (map_of (zip names xs)) else None)"
| "struct_fields names _ = None"

text \<open>A field with \<open>#[serde(default)]\<close>.\<close>

definition field_or :: "'a \<Rightarrow> (json \<Rightarrow> 'a option) \<Rightarrow> json option \<Rightarrow> 'a option" where
  "field_or d dec v = (case v of None \<Rightarrow> Some d | Some j \<Rightarrow> dec j)"

fun opt_map :: "('a \<Rightarrow> 'b option) \<Rightarrow> 'a list \<Rightarrow> 'b list option" where
  "opt_map f [] = Some []"
| "opt_map f (x # xs) = Option.bind (f x) (\<lambda>y. Option.bind (opt_map f xs) (\<lambda>ys. Some (y # ys)))"

fun decode_list :: "(json \<Rightarrow> 'a option) \<Rightarrow> json \<Rightarrow> 'a list option" where
  "decode_list dec (JArray xs) = opt_map dec xs"
| "decode_list dec _ = None"

fun decode_string :: "json \<Rightarrow> string option" where
  "decode_string (JString s) = Some s"
| "decode_string _ = None"

fun decode_option :: "(json \<Rightarrow> 'a option) \<Rightarrow> json \<Rightarrow> 'a option option" where
  "decode_option dec JNull = Some None"
| "decode_option dec j = map_option Some (dec j)"

section \<open>Attribute values\<close>

datatype any_value =
    VString string
  | VBool bool
  | VInt int
  | VDouble f64_value
  | VBytes string
  | VArray "any_value list"
  | VKvlist "(string \<times> any_value) list"
  | VEmpty
  | VInvalid

definition or_empty_value :: "('a \<Rightarrow> any_value) \<Rightarrow> 'a option \<Rightarrow> any_value" where
  "or_empty_value c v = (case v of Some x \<Rightarrow> c x | None \<Rightarrow> VEmpty)"

fun int_value :: "int_like \<Rightarrow> any_value" where
  "int_value IMissing = VEmpty"
| "int_value IInvalid = VInvalid"
| "int_value (IValid v) = (if - (2 ^ 63) \<le> v \<and> v < 2 ^ 63 then VInt v else VInvalid)"

definition double_value :: "f64_value option \<Rightarrow> any_value" where
  "double_value d = (case d of Some v \<Rightarrow> VDouble v | None \<Rightarrow> VInvalid)"

definition decode_key_value :: "(json \<Rightarrow> any_value option) \<Rightarrow> json \<Rightarrow> (string \<times> any_value) option" where
  "decode_key_value dec j =
     Option.bind (struct_fields [''key'', ''value''] j) (\<lambda>f.
     Option.bind (field_or [] decode_string (f ''key'')) (\<lambda>k.
     Option.bind (field_or VEmpty dec (f ''value'')) (\<lambda>v. Some (k, v))))"

definition decode_array_value :: "(json \<Rightarrow> any_value option) \<Rightarrow> json \<Rightarrow> any_value list option" where
  "decode_array_value dec j =
     Option.bind (struct_fields [''values''] j) (\<lambda>f. field_or [] (decode_list dec) (f ''values''))"

definition decode_kv_list :: "(json \<Rightarrow> any_value option) \<Rightarrow> json \<Rightarrow> (string \<times> any_value) list option" where
  "decode_kv_list dec j =
     Option.bind (struct_fields [''values''] j) (\<lambda>f. field_or [] (decode_list (decode_key_value dec)) (f ''values''))"

fun decode_bool :: "json \<Rightarrow> bool option" where
  "decode_bool (JBool b) = Some b"
| "decode_bool _ = None"

text \<open>The value of one member; \<open>Some None\<close> for a key that is ignored.\<close>

definition decode_member ::
    "'x otlp_ext_scheme \<Rightarrow> (json \<Rightarrow> any_value option) \<Rightarrow> string \<Rightarrow> json \<Rightarrow> any_value option option" where
  "decode_member X dec k v =
     (if k = ''stringValue'' then map_option (Some \<circ> or_empty_value VString) (decode_option decode_string v)
      else if k = ''boolValue'' then map_option (Some \<circ> or_empty_value VBool) (decode_option decode_bool v)
      else if k = ''intValue'' then map_option (Some \<circ> int_value) (decode_int_like v)
      else if k = ''doubleValue'' then map_option (Some \<circ> double_value) (decode_double_like X v)
      else if k = ''bytesValue'' then map_option (Some \<circ> or_empty_value VBytes) (decode_option decode_string v)
      else if k = ''arrayValue''
      then map_option (\<lambda>a. Some (VArray (case a of Some xs \<Rightarrow> xs | None \<Rightarrow> []))) (decode_option (decode_array_value dec) v)
      else if k = ''kvlistValue''
      then map_option (\<lambda>a. Some (VKvlist (case a of Some xs \<Rightarrow> xs | None \<Rightarrow> []))) (decode_option (decode_kv_list dec) v)
      else Some None)"

fun decode_members ::
    "'x otlp_ext_scheme \<Rightarrow> (json \<Rightarrow> any_value option) \<Rightarrow> any_value \<Rightarrow> (string \<times> json) list \<Rightarrow> any_value option" where
  "decode_members X dec acc [] = Some acc"
| "decode_members X dec acc ((k, v) # m) =
     (case decode_member X dec k v of
        None \<Rightarrow> None
      | Some None \<Rightarrow> decode_members X dec acc m
      | Some (Some x) \<Rightarrow> decode_members X dec (if x = VEmpty then acc else x) m)"

text \<open>The parser refuses documents nested deeper than 128, and every value is nested at least one level below
  the one that holds it.\<close>

definition json_depth_limit :: nat where
  "json_depth_limit = 128"

fun decode_any_fuel :: "'x otlp_ext_scheme \<Rightarrow> nat \<Rightarrow> json \<Rightarrow> any_value option" where
  "decode_any_fuel X 0 j = None"
| "decode_any_fuel X (Suc n) j =
     (case j of
        JNull \<Rightarrow> Some VEmpty
      | JObject m \<Rightarrow> decode_members X (decode_any_fuel X n) VEmpty m
      | _ \<Rightarrow> None)"

definition decode_any :: "'x otlp_ext_scheme \<Rightarrow> json \<Rightarrow> any_value option" where
  "decode_any X = decode_any_fuel X json_depth_limit"

fun any_as_str :: "any_value \<Rightarrow> string option" where
  "any_as_str (VString s) = Some s"
| "any_as_str _ = None"

fun any_as_i64 :: "any_value \<Rightarrow> int option" where
  "any_as_i64 (VInt v) = Some v"
| "any_as_i64 _ = None"

fun any_as_f64 :: "'x otlp_ext_scheme \<Rightarrow> any_value \<Rightarrow> f64_value option" where
  "any_as_f64 X (VDouble d) = Some d"
| "any_as_f64 X (VInt v) = Some (ot_int_f64 X v)"
| "any_as_f64 X _ = None"

fun any_as_array :: "any_value \<Rightarrow> any_value list option" where
  "any_as_array (VArray xs) = Some xs"
| "any_as_array _ = None"

fun json_double :: "f64_value \<Rightarrow> json" where
  "json_double FNan = JString ''NaN''"
| "json_double (FInf neg) = JString (if neg then ''-Infinity'' else ''Infinity'')"
| "json_double (FFin d) = JNumber d"

text \<open>Insertion into a \<open>BTreeMap\<close>, kept as the list of its entries in key order.\<close>

fun bt_insert :: "'k::linorder \<Rightarrow> 'v \<Rightarrow> ('k \<times> 'v) list \<Rightarrow> ('k \<times> 'v) list" where
  "bt_insert k v [] = [(k, v)]"
| "bt_insert k v ((k', v') # m) =
     (if k < k' then (k, v) # (k', v') # m else if k = k' then (k, v) # m else (k', v') # bt_insert k v m)"

definition bt_collect :: "(string \<times> 'v) list \<Rightarrow> (string \<times> 'v) list" where
  "bt_collect kvs = foldl (\<lambda>m (k, v). bt_insert k v m) [] kvs"

fun any_to_json :: "any_value \<Rightarrow> json" where
  "any_to_json (VString s) = JString s"
| "any_to_json (VBool b) = JBool b"
| "any_to_json (VInt v) = JNumber (show_int v)"
| "any_to_json (VDouble d) = json_double d"
| "any_to_json (VBytes b) = JObject [(''bytes_base64'', JString b)]"
| "any_to_json (VArray xs) = JArray (map any_to_json xs)"
| "any_to_json (VKvlist es) = JObject (bt_collect (map (\<lambda>(k, v). (k, any_to_json v)) es))"
| "any_to_json VEmpty = JNull"
| "any_to_json VInvalid = JNull"

text \<open>The equality of \<open>f64\<close>: NaN differs from itself, the two zeros are equal.\<close>

fun has_nan :: "any_value \<Rightarrow> bool" where
  "has_nan (VDouble d) \<longleftrightarrow> d = FNan"
| "has_nan (VArray xs) \<longleftrightarrow> list_ex has_nan xs"
| "has_nan (VKvlist es) \<longleftrightarrow> list_ex (\<lambda>(k, v). has_nan v) es"
| "has_nan _ \<longleftrightarrow> False"

fun zero_unsigned :: "any_value \<Rightarrow> any_value" where
  "zero_unsigned (VDouble (FFin d)) = VDouble (FFin (if d = ''-0.0'' then ''0.0'' else d))"
| "zero_unsigned (VArray xs) = VArray (map zero_unsigned xs)"
| "zero_unsigned (VKvlist es) = VKvlist (map (\<lambda>(k, v). (k, zero_unsigned v)) es)"
| "zero_unsigned v = v"

definition any_eq :: "any_value \<Rightarrow> any_value \<Rightarrow> bool" where
  "any_eq a b \<longleftrightarrow> \<not> has_nan a \<and> \<not> has_nan b \<and> zero_unsigned a = zero_unsigned b"

section \<open>Spans\<close>

type_synonym attributes = "(string \<times> any_value) list"

record span_status =
  ss_is_error :: bool
  ss_message :: "string option"

record normalized_event =
  ne_name :: string
  ne_attributes :: attributes

record normalized_span =
  ns_span_id :: string
  ns_parent_span_id :: string
  ns_trace_id :: string
  ns_start :: int_like
  ns_end :: int_like
  ns_status :: span_status
  ns_attributes :: attributes
  ns_events :: "normalized_event list"

definition event_attr_str :: "normalized_event \<Rightarrow> string \<Rightarrow> string option" where
  "event_attr_str e key = Option.bind (map_of (ne_attributes e) key) any_as_str"

definition event_attr_i64 :: "normalized_event \<Rightarrow> string \<Rightarrow> int option" where
  "event_attr_i64 e key = Option.bind (map_of (ne_attributes e) key) any_as_i64"

definition attributes_json :: "normalized_event \<Rightarrow> (string \<times> json) list" where
  "attributes_json e = map (\<lambda>(k, v). (k, any_to_json v)) (ne_attributes e)"

definition attr_str :: "normalized_span \<Rightarrow> string \<Rightarrow> string option" where
  "attr_str s key = Option.bind (map_of (ns_attributes s) key) any_as_str"

definition attr_i64 :: "normalized_span \<Rightarrow> string \<Rightarrow> int option" where
  "attr_i64 s key = Option.bind (map_of (ns_attributes s) key) any_as_i64"

definition attr_f64 :: "'x otlp_ext_scheme \<Rightarrow> normalized_span \<Rightarrow> string \<Rightarrow> f64_value option" where
  "attr_f64 X s key = Option.bind (map_of (ns_attributes s) key) (any_as_f64 X)"

definition attr_array :: "normalized_span \<Rightarrow> string \<Rightarrow> any_value list option" where
  "attr_array s key = Option.bind (map_of (ns_attributes s) key) any_as_array"

definition events_named :: "normalized_span \<Rightarrow> string \<Rightarrow> normalized_event list" where
  "events_named s name = filter (\<lambda>e. ne_name e = name) (ns_events s)"

definition attributes_eq :: "attributes \<Rightarrow> attributes \<Rightarrow> bool" where
  "attributes_eq a b \<longleftrightarrow> list_all2 (\<lambda>(k, v) (k', v'). k = k' \<and> any_eq v v') a b"

definition span_eq :: "normalized_span \<Rightarrow> normalized_span \<Rightarrow> bool" where
  "span_eq s t \<longleftrightarrow>
     ns_span_id s = ns_span_id t \<and> ns_parent_span_id s = ns_parent_span_id t \<and> ns_trace_id s = ns_trace_id t
     \<and> ns_start s = ns_start t \<and> ns_end s = ns_end t \<and> ns_status s = ns_status t
     \<and> attributes_eq (ns_attributes s) (ns_attributes t)
     \<and> list_all2 (\<lambda>e f. ne_name e = ne_name f \<and> attributes_eq (ne_attributes e) (ne_attributes f))
         (ns_events s) (ns_events t)"

section \<open>Decoding a request\<close>

definition decode_attributes :: "'x otlp_ext_scheme \<Rightarrow> json option \<Rightarrow> (string \<times> any_value) list option" where
  "decode_attributes X = field_or [] (decode_list (decode_key_value (decode_any X)))"

definition decode_status :: "json \<Rightarrow> (int \<times> string option) option" where
  "decode_status j =
     Option.bind (struct_fields [''code'', ''message''] j) (\<lambda>f.
     Option.bind (field_or 0 decode_status_code (f ''code'')) (\<lambda>c.
     Option.bind (field_or None (decode_option decode_string) (f ''message'')) (\<lambda>m. Some (c, m))))"

definition normalize_status :: "(int \<times> string option) option \<Rightarrow> span_status" where
  "normalize_status st =
     (case st of
        None \<Rightarrow> \<lparr>ss_is_error = False, ss_message = None\<rparr>
      | Some (c, text') \<Rightarrow>
          \<lparr>ss_is_error = (c = 2),
           ss_message = (case text' of Some m \<Rightarrow> if trim_ws m = [] then None else Some m | None \<Rightarrow> None)\<rparr>)"

definition decode_span_event :: "'x otlp_ext_scheme \<Rightarrow> json \<Rightarrow> normalized_event option" where
  "decode_span_event X j =
     Option.bind (struct_fields [''name'', ''attributes''] j) (\<lambda>f.
     Option.bind (field_or [] decode_string (f ''name'')) (\<lambda>n.
     Option.bind (decode_attributes X (f ''attributes'')) (\<lambda>as.
     Some \<lparr>ne_name = n, ne_attributes = bt_collect as\<rparr>)))"

definition decode_span :: "'x otlp_ext_scheme \<Rightarrow> json \<Rightarrow> normalized_span option" where
  "decode_span X j =
     Option.bind (struct_fields [''traceId'', ''spanId'', ''parentSpanId'', ''startTimeUnixNano'', ''endTimeUnixNano'',
         ''attributes'', ''events'', ''status''] j) (\<lambda>f.
     Option.bind (field_or [] decode_string (f ''traceId'')) (\<lambda>tid.
     Option.bind (field_or [] decode_string (f ''spanId'')) (\<lambda>sid.
     Option.bind (field_or [] decode_string (f ''parentSpanId'')) (\<lambda>pid.
     Option.bind (field_or IMissing decode_int_like (f ''startTimeUnixNano'')) (\<lambda>start.
     Option.bind (field_or IMissing decode_int_like (f ''endTimeUnixNano'')) (\<lambda>end'.
     Option.bind (decode_attributes X (f ''attributes'')) (\<lambda>as.
     Option.bind (field_or [] (decode_list (decode_span_event X)) (f ''events'')) (\<lambda>es.
     Option.bind (field_or None (decode_option decode_status) (f ''status'')) (\<lambda>st.
     Some \<lparr>ns_span_id = sid, ns_parent_span_id = pid, ns_trace_id = tid, ns_start = start, ns_end = end',
           ns_status = normalize_status st, ns_attributes = bt_collect as, ns_events = es\<rparr>)))))))))"

text \<open>A batch of spans with the schema URL it declares.\<close>

type_synonym scope_spans = "normalized_span list \<times> string option"

definition decode_scope_spans :: "'x otlp_ext_scheme \<Rightarrow> json \<Rightarrow> scope_spans option" where
  "decode_scope_spans X j =
     Option.bind (struct_fields [''spans'', ''schemaUrl''] j) (\<lambda>f.
     Option.bind (field_or [] (decode_list (decode_span X)) (f ''spans'')) (\<lambda>ss.
     Option.bind (field_or None (decode_option decode_string) (f ''schemaUrl'')) (\<lambda>u. Some (ss, u))))"

definition decode_resource_spans :: "'x otlp_ext_scheme \<Rightarrow> json \<Rightarrow> (scope_spans list \<times> string option) option" where
  "decode_resource_spans X j =
     Option.bind (struct_fields [''scopeSpans'', ''schemaUrl''] j) (\<lambda>f.
     Option.bind (field_or [] (decode_list (decode_scope_spans X)) (f ''scopeSpans'')) (\<lambda>ss.
     Option.bind (field_or None (decode_option decode_string) (f ''schemaUrl'')) (\<lambda>u. Some (ss, u))))"

definition decode_request :: "'x otlp_ext_scheme \<Rightarrow> json \<Rightarrow> (scope_spans list \<times> string option) list option" where
  "decode_request X j =
     Option.bind (struct_fields [''resourceSpans''] j) (\<lambda>f.
     field_or [] (decode_list (decode_resource_spans X)) (f ''resourceSpans''))"

record parsed_trace =
  pt_spans :: "normalized_span list"
  pt_schema_urls :: "string list"

definition declared_url :: "string option \<Rightarrow> string list" where
  "declared_url u = (case u of Some s \<Rightarrow> if trim_ws s = [] then [] else [s] | None \<Rightarrow> [])"

text \<open>The URLs form a \<open>BTreeSet\<close>.\<close>

definition parse_and_normalize :: "'x otlp_ext_scheme \<Rightarrow> byte list \<Rightarrow> string + parsed_trace" where
  "parse_and_normalize X bytes =
     res_bind (ot_parse_tree X bytes) (\<lambda>j.
     res_bind (ok_or (ot_shape_error X bytes) (decode_request X j)) (\<lambda>request.
     Inr \<lparr>pt_spans = concat (map (\<lambda>(scopes, u). concat (map fst scopes)) request),
          pt_schema_urls = sort (remdups (concat (map (\<lambda>(scopes, u). declared_url u @ concat (map (declared_url \<circ> snd) scopes))
            request)))\<rparr>))"

end
