(* ===== verification/Otel_Content.thy ===== *)
theory Otel_Content
  imports Otlp_Trace "HOL-Library.Product_Lexorder"
begin

text \<open>
  The GenAI conventions (\<open>akmon-otel/src/semconv.rs\<close>), the objects an import writes (\<open>objects.rs\<close>,
  \<open>canonical.rs\<close>) and the content of a span with the reduction of the older message events
  (\<open>content.rs\<close>). Objects of JSON are lists of members in key order. The JSON printer, the parser of JSON
  text and the \<open>Debug\<close> form of an error message are parameters.
\<close>

section \<open>Conventions\<close>

definition SEMCONV_VERSION :: string where
  "SEMCONV_VERSION = ''1.42.0''"

definition EVENT_INFERENCE_DETAILS :: string where
  "EVENT_INFERENCE_DETAILS = ''gen_ai.client.inference.operation.details''"

definition SUPPORTED_LEGACY_EVENTS :: "string list" where
  "SUPPORTED_LEGACY_EVENTS =
     [''gen_ai.system.message'', ''gen_ai.user.message'', ''gen_ai.assistant.message'', ''gen_ai.tool.message'',
      ''gen_ai.choice'']"

datatype event_class = SupportedLegacy | UnknownLegacy | InferenceDetails | ExceptionEvent | StructuralMetadata | NotGenAi

definition strip_suffix :: "string \<Rightarrow> string \<Rightarrow> string option" where
  "strip_suffix p s = map_option rev (strip_prefix (rev p) (rev s))"

definition classify_event :: "string \<Rightarrow> event_class" where
  "classify_event name =
     (if name = ''exception'' \<or> name = ''gen_ai.client.operation.exception'' then ExceptionEvent
      else
        (case strip_prefix ''gen_ai.'' name of
           None \<Rightarrow> NotGenAi
         | Some rest \<Rightarrow>
             if name \<in> set SUPPORTED_LEGACY_EVENTS then SupportedLegacy
             else if name = EVENT_INFERENCE_DETAILS then InferenceDetails
             else if (case strip_suffix ''.message'' rest of Some role \<Rightarrow> role \<noteq> [] \<and> CHR ''.'' \<notin> set role | None \<Rightarrow> False)
             then UnknownLegacy
             else StructuralMetadata))"

datatype operation =
    OpProviderCall | OpEmbeddings | OpExecuteTool | OpCreateAgent | OpInvokeAgent | OpInvokeWorkflow | OpRetrieval

definition operation_from_name :: "string \<Rightarrow> operation option" where
  "operation_from_name name =
     (if name = ''chat'' \<or> name = ''generate_content'' \<or> name = ''text_completion'' then Some OpProviderCall
      else if name = ''embeddings'' then Some OpEmbeddings
      else if name = ''execute_tool'' then Some OpExecuteTool
      else if name = ''create_agent'' then Some OpCreateAgent
      else if name = ''invoke_agent'' then Some OpInvokeAgent
      else if name = ''invoke_workflow'' then Some OpInvokeWorkflow
      else if name = ''retrieval'' then Some OpRetrieval
      else None)"

definition is_session_root :: "operation \<Rightarrow> bool" where
  "is_session_root op \<longleftrightarrow> op = OpInvokeAgent \<or> op = OpInvokeWorkflow"

definition emits_event :: "operation \<Rightarrow> bool" where
  "emits_event op \<longleftrightarrow> op = OpProviderCall \<or> op = OpEmbeddings \<or> op = OpExecuteTool"

datatype capture_level = CaptureFull | CapturePartial | CaptureStructural

definition capture_level_str :: "capture_level \<Rightarrow> string" where
  "capture_level_str l =
     (case l of CaptureFull \<Rightarrow> ''full'' | CapturePartial \<Rightarrow> ''partial'' | CaptureStructural \<Rightarrow> ''structural'')"

definition capture_from_slots :: "nat \<Rightarrow> nat \<Rightarrow> capture_level" where
  "capture_from_slots real_slots all_slots =
     (if real_slots = 0 then CaptureStructural else if real_slots \<ge> all_slots then CaptureFull else CapturePartial)"

section \<open>Objects\<close>

record otel_ext = otlp_ext +
  ot_to_vec :: "json \<Rightarrow> string + byte list"
  ot_debug_str :: "string \<Rightarrow> string"
  ot_parse_value :: "string \<Rightarrow> json option"

text \<open>An object with the given members (\<open>json!\<close> or a series of \<open>Map::insert\<close>).\<close>

definition json_object :: "(string \<times> json) list \<Rightarrow> json" where
  "json_object kvs = JObject (bt_collect kvs)"

fun canonicalize :: "json \<Rightarrow> json" where
  "canonicalize (JObject m) = JObject (sort_key fst (map (\<lambda>(k, v). (k, canonicalize v)) m))"
| "canonicalize (JArray xs) = JArray (map canonicalize xs)"
| "canonicalize v = v"

definition canonical_json_bytes :: "'x otel_ext_scheme \<Rightarrow> json \<Rightarrow> string + byte list" where
  "canonical_json_bytes X value = ot_to_vec X (canonicalize value)"

definition encode_object :: "'x otel_ext_scheme \<Rightarrow> json \<Rightarrow> byte list" where
  "encode_object X value =
     (case canonical_json_bytes X value of
        Inr b \<Rightarrow> b
      | Inl err \<Rightarrow> as_bytes (''{'' @ [CHR 0x22] @ ''akmon_otel_encode_error'' @ [CHR 0x22] @ '':'' @ ot_debug_str X err @ ''}''))"

definition real_content_bytes :: "'x otel_ext_scheme \<Rightarrow> json \<Rightarrow> byte list" where
  "real_content_bytes X content = encode_object X content"

definition metadata_envelope_bytes :: "'x otel_ext_scheme \<Rightarrow> string \<Rightarrow> (string \<times> json) list \<Rightarrow> byte list" where
  "metadata_envelope_bytes X field attributes =
     encode_object X (json_object
       [(''akmon_otel_metadata'', JBool True), (''schema'', JString ''akmon-otel-meta-v1''), (''field'', JString field),
        (''capture_level'', JString ''structural''), (''importer_semconv'', JString SEMCONV_VERSION),
        (''attributes'', JObject attributes)])"

definition or_null :: "json option \<Rightarrow> json" where
  "or_null v = (case v of Some j \<Rightarrow> j | None \<Rightarrow> JNull)"

definition tool_error_bytes :: "'x otel_ext_scheme \<Rightarrow> (string \<times> json) list \<Rightarrow> json option \<Rightarrow> byte list" where
  "tool_error_bytes X error result =
     encode_object X (json_object
       [(''akmon_otel_tool_error'', JBool True), (''schema'', JString ''akmon-otel-tool-error-v1''),
        (''field'', JString ''tool_output''),
        (''capture_level'', JString (if result \<noteq> None then ''full'' else ''structural'')),
        (''error'', JObject error), (''result'', or_null result)])"

definition not_captured_bytes :: "'x otel_ext_scheme \<Rightarrow> string \<Rightarrow> string \<Rightarrow> byte list" where
  "not_captured_bytes X field reason =
     encode_object X (json_object
       [(''akmon_not_captured'', JBool True), (''schema'', JString ''akmon-otel-notcaptured-v1''),
        (''field'', JString field), (''reason'', JString reason)])"

record config_facts =
  fa_provider :: "string option"
  fa_model :: "string option"
  fa_conversation_id :: "string option"
  fa_agent :: "string option"
  fa_agent_identity :: "(string \<times> json) list"
  fa_trace_id :: "string option"
  fa_source_semconv :: string
  fa_source_form :: string
  fa_structural_events :: "json list"

definition opt_json :: "string option \<Rightarrow> json" where
  "opt_json v = (case v of Some s \<Rightarrow> JString s | None \<Rightarrow> JNull)"

definition config_object :: "capture_level \<Rightarrow> config_facts \<Rightarrow> json" where
  "config_object level facts = json_object
     ([(''akmon_otel_config'', JBool True), (''schema'', JString ''akmon-otel-config-v1''),
       (''capture_level'', JString (capture_level_str level)), (''source_semconv'', JString (fa_source_semconv facts)),
       (''source_form'', JString (fa_source_form facts)), (''importer_semconv'', JString SEMCONV_VERSION),
       (''provider'', opt_json (fa_provider facts)), (''model'', opt_json (fa_model facts)),
       (''conversation_id'', opt_json (fa_conversation_id facts)), (''agent'', opt_json (fa_agent facts)),
       (''trace_id'', opt_json (fa_trace_id facts))]
      @ (if fa_agent_identity facts = [] then [] else [(''agent_identity'', JObject (fa_agent_identity facts))])
      @ (if fa_structural_events facts = [] then [] else [(''structural_events'', JArray (fa_structural_events facts))]))"

definition config_object_bytes :: "'x otel_ext_scheme \<Rightarrow> capture_level \<Rightarrow> config_facts \<Rightarrow> byte list" where
  "config_object_bytes X level facts = encode_object X (config_object level facts)"

section \<open>Content of a span\<close>

record content_sources =
  src_attributes :: bool
  src_details_event :: bool
  src_legacy_events :: bool

record content_slots =
  sc_system_instructions :: "json option"
  sc_input_messages :: "json option"
  sc_output_messages :: "json option"
  sc_sources :: content_sources

fun as_array :: "json \<Rightarrow> json list option" where
  "as_array (JArray xs) = Some xs"
| "as_array _ = None"

definition content_request :: "content_slots \<Rightarrow> json option" where
  "content_request c =
     (if sc_system_instructions c = None \<and> sc_input_messages c = None then None
      else Some (json_object
        ((case sc_system_instructions c of Some v \<Rightarrow> [(''system_instructions'', v)] | None \<Rightarrow> [])
         @ (case sc_input_messages c of Some v \<Rightarrow> [(''input_messages'', v)] | None \<Rightarrow> []))))"

definition input_slice :: "content_slots \<Rightarrow> json list" where
  "input_slice c = (case Option.bind (sc_input_messages c) as_array of Some xs \<Rightarrow> xs | None \<Rightarrow> [])"

fun is_empty_json :: "json \<Rightarrow> bool" where
  "is_empty_json JNull \<longleftrightarrow> True"
| "is_empty_json (JString s) \<longleftrightarrow> trim_ws s = []"
| "is_empty_json (JArray a) \<longleftrightarrow> a = []"
| "is_empty_json (JObject m) \<longleftrightarrow> m = []"
| "is_empty_json _ \<longleftrightarrow> False"

definition parse_json_or_string :: "'x otel_ext_scheme \<Rightarrow> string \<Rightarrow> json" where
  "parse_json_or_string X raw = (case ot_parse_value X raw of Some v \<Rightarrow> v | None \<Rightarrow> JString raw)"

definition content_value :: "'x otel_ext_scheme \<Rightarrow> any_value option \<Rightarrow> json option" where
  "content_value X value =
     Option.bind value (\<lambda>v.
     Option.bind
       (case v of
          VString raw \<Rightarrow> if trim_ws raw = [] then None else Some (parse_json_or_string X raw)
        | VEmpty \<Rightarrow> None
        | VInvalid \<Rightarrow> None
        | _ \<Rightarrow> Some (any_to_json v)) (\<lambda>j.
     if is_empty_json j then None else Some j))"

subsection \<open>Older message events\<close>

definition text_part :: "string \<Rightarrow> json" where
  "text_part content = json_object [(''type'', JString ''text''), (''content'', JString content)]"

definition has_type :: "json \<Rightarrow> bool" where
  "has_type item \<longleftrightarrow> Option.bind (json_get item ''type'') json_as_str \<noteq> None"

definition content_to_parts :: "'x otel_ext_scheme \<Rightarrow> string \<Rightarrow> json list" where
  "content_to_parts X content =
     (case ot_parse_value X content of
        Some (JArray items) \<Rightarrow> if items \<noteq> [] \<and> list_all has_type items then items else [text_part content]
      | _ \<Rightarrow> [text_part content])"

definition legacy_message_object :: "string \<Rightarrow> json list \<Rightarrow> json" where
  "legacy_message_object role parts = json_object [(''role'', JString role), (''parts'', JArray parts)]"

definition body :: "normalized_event \<Rightarrow> string \<Rightarrow> string option" where
  "body e key = Option.bind (event_attr_str e key) (\<lambda>c. if trim_ws c = [] then None else Some c)"

definition legacy_user_message :: "'x otel_ext_scheme \<Rightarrow> normalized_event \<Rightarrow> json option" where
  "legacy_user_message X e =
     map_option (\<lambda>content.
       legacy_message_object (case event_attr_str e ''role'' of Some r \<Rightarrow> r | None \<Rightarrow> ''user'') (content_to_parts X content))
       (body e ''content'')"

definition legacy_tool_message :: "'x otel_ext_scheme \<Rightarrow> normalized_event \<Rightarrow> json option" where
  "legacy_tool_message X e =
     map_option (\<lambda>content.
       legacy_message_object ''tool''
         [json_object ([(''type'', JString ''tool_call_response'')]
            @ (case event_attr_str e ''id'' of Some i \<Rightarrow> [(''id'', JString i)] | None \<Rightarrow> [])
            @ [(''response'', parse_json_or_string X content)])])
       (body e ''content'')"

definition tool_call_part :: "'x otel_ext_scheme \<Rightarrow> json \<Rightarrow> json" where
  "tool_call_part X call =
     (let f = json_get call ''function'' in
      json_object ([(''type'', JString ''tool_call'')]
        @ (case Option.bind (json_get call ''id'') json_as_str of Some i \<Rightarrow> [(''id'', JString i)] | None \<Rightarrow> [])
        @ (case Option.bind (Option.bind f (\<lambda>v. json_get v ''name'')) json_as_str of
             Some n \<Rightarrow> [(''name'', JString n)] | None \<Rightarrow> [])
        @ (case Option.bind f (\<lambda>v. json_get v ''arguments'') of
             Some (JString s) \<Rightarrow> [(''arguments'', parse_json_or_string X s)]
           | Some v \<Rightarrow> [(''arguments'', v)]
           | None \<Rightarrow> [])))"

definition tool_calls_value_to_parts :: "'x otel_ext_scheme \<Rightarrow> json \<Rightarrow> json list" where
  "tool_calls_value_to_parts X value =
     (case as_array value of Some calls \<Rightarrow> map (tool_call_part X) calls | None \<Rightarrow> [])"

definition tool_calls_to_parts :: "'x otel_ext_scheme \<Rightarrow> string \<Rightarrow> json list" where
  "tool_calls_to_parts X raw =
     (case ot_parse_value X raw of Some v \<Rightarrow> tool_calls_value_to_parts X v | None \<Rightarrow> [])"

definition legacy_assistant_message :: "'x otel_ext_scheme \<Rightarrow> normalized_event \<Rightarrow> json option" where
  "legacy_assistant_message X e =
     (let parts = (case body e ''content'' of Some c \<Rightarrow> content_to_parts X c | None \<Rightarrow> [])
        @ (case body e ''tool_calls'' of Some c \<Rightarrow> tool_calls_to_parts X c | None \<Rightarrow> []) in
      if parts = [] then None else Some (legacy_message_object ''assistant'' parts))"

definition or_else :: "'a option \<Rightarrow> 'a option \<Rightarrow> 'a option" where
  "or_else a b = (case a of Some x \<Rightarrow> Some x | None \<Rightarrow> b)"

definition legacy_choice_message :: "'x otel_ext_scheme \<Rightarrow> normalized_event \<Rightarrow> json option" where
  "legacy_choice_message X e =
     (let mv = Option.bind (event_attr_str e ''message'') (ot_parse_value X);
          content_str = or_else (Option.bind (Option.bind mv (\<lambda>m. json_get m ''content'')) json_as_str)
            (event_attr_str e ''content'');
          tool_calls_value = or_else (Option.bind mv (\<lambda>m. json_get m ''tool_calls''))
            (Option.bind (event_attr_str e ''tool_calls'') (ot_parse_value X));
          parts = (case content_str of Some c \<Rightarrow> if trim_ws c = [] then [] else content_to_parts X c | None \<Rightarrow> [])
            @ (case tool_calls_value of Some v \<Rightarrow> tool_calls_value_to_parts X v | None \<Rightarrow> []) in
      if parts = [] then None
      else Some (json_object ([(''role'', JString ''assistant''), (''parts'', JArray parts)]
        @ (case event_attr_str e ''finish_reason'' of Some r \<Rightarrow> [(''finish_reason'', JString r)] | None \<Rightarrow> []))))"

definition opt_to_list :: "'a option \<Rightarrow> 'a list" where
  "opt_to_list v = (case v of Some x \<Rightarrow> [x] | None \<Rightarrow> [])"

text \<open>The messages of the events from position \<open>pos\<close> on: input, output, and the choices with index and
  position.\<close>

fun legacy_events ::
    "'x otel_ext_scheme \<Rightarrow> bool \<Rightarrow> nat \<Rightarrow> normalized_event list \<Rightarrow> json list \<times> json list \<times> (int \<times> nat \<times> json) list" where
  "legacy_events X has_choice pos [] = ([], [], [])"
| "legacy_events X has_choice pos (e # es) =
     (let (ins, outs, choices) = legacy_events X has_choice (Suc pos) es in
      if ne_name e = ''gen_ai.user.message'' then (opt_to_list (legacy_user_message X e) @ ins, outs, choices)
      else if ne_name e = ''gen_ai.tool.message'' then (opt_to_list (legacy_tool_message X e) @ ins, outs, choices)
      else if ne_name e = ''gen_ai.assistant.message''
      then (if has_choice then (opt_to_list (legacy_assistant_message X e) @ ins, outs, choices)
            else (ins, opt_to_list (legacy_assistant_message X e) @ outs, choices))
      else if ne_name e = ''gen_ai.choice''
      then (ins, outs,
        map (\<lambda>m. (case event_attr_i64 e ''index'' of Some i \<Rightarrow> i | None \<Rightarrow> 0, pos, m))
          (opt_to_list (legacy_choice_message X e)) @ choices)
      else (ins, outs, choices))"

definition legacy_system_parts :: "'x otel_ext_scheme \<Rightarrow> normalized_span \<Rightarrow> json list" where
  "legacy_system_parts X span =
     concat (map (\<lambda>e. case body e ''content'' of Some c \<Rightarrow> content_to_parts X c | None \<Rightarrow> [])
       (events_named span ''gen_ai.system.message''))"

definition non_empty :: "json list \<Rightarrow> json option" where
  "non_empty v = (if v = [] then None else Some (JArray v))"

text \<open>System instructions, input messages and output messages.\<close>

definition synthesize_structured_from_legacy ::
    "'x otel_ext_scheme \<Rightarrow> normalized_span \<Rightarrow> json option \<times> json option \<times> json option" where
  "synthesize_structured_from_legacy X span =
     (let has_choice = (events_named span ''gen_ai.choice'' \<noteq> []);
          (ins, outs, choices) = legacy_events X has_choice 0 (ns_events span);
          sorted_choices = sort_key (\<lambda>(i, p, m). (i, p)) choices in
      (non_empty (legacy_system_parts X span), non_empty ins,
       non_empty (outs @ map (\<lambda>(i, p, m). m) sorted_choices)))"

subsection \<open>Resolution\<close>

definition resolve_slot ::
    "'x otel_ext_scheme \<Rightarrow> normalized_span \<Rightarrow> string \<Rightarrow> content_sources \<Rightarrow> content_sources \<times> json option" where
  "resolve_slot X span key sources =
     (case content_value X (map_of (ns_attributes span) key) of
        Some v \<Rightarrow> (sources\<lparr>src_attributes := True\<rparr>, Some v)
      | None \<Rightarrow>
          (case content_value X (Option.bind (head_opt (events_named span EVENT_INFERENCE_DETAILS))
                  (\<lambda>d. map_of (ne_attributes d) key)) of
             Some v \<Rightarrow> (sources\<lparr>src_details_event := True\<rparr>, Some v)
           | None \<Rightarrow> (sources, None)))"

text \<open>The slot and whether the older events filled it.\<close>

definition fill_slot :: "json option \<Rightarrow> json option \<Rightarrow> json option \<times> bool" where
  "fill_slot slot value = (if slot = None \<and> value \<noteq> None then (value, True) else (slot, False))"

definition span_content :: "'x otel_ext_scheme \<Rightarrow> normalized_span \<Rightarrow> content_slots" where
  "span_content X span =
     (let (s1, sys) = resolve_slot X span ''gen_ai.system_instructions''
            \<lparr>src_attributes = False, src_details_event = False, src_legacy_events = False\<rparr>;
          (s2, inp) = resolve_slot X span ''gen_ai.input.messages'' s1;
          (s3, outp) = resolve_slot X span ''gen_ai.output.messages'' s2 in
      if (sys = None \<or> inp = None \<or> outp = None)
         \<and> list_ex (\<lambda>e. ne_name e \<in> set SUPPORTED_LEGACY_EVENTS) (ns_events span)
      then
        (let (lsys, linp, loutp) = synthesize_structured_from_legacy X span;
             (sys', f1) = fill_slot sys lsys; (inp', f2) = fill_slot inp linp; (outp', f3) = fill_slot outp loutp in
         \<lparr>sc_system_instructions = sys', sc_input_messages = inp', sc_output_messages = outp',
          sc_sources = s3\<lparr>src_legacy_events := src_legacy_events s3 \<or> f1 \<or> f2 \<or> f3\<rparr>\<rparr>)
      else
        \<lparr>sc_system_instructions = sys, sc_input_messages = inp, sc_output_messages = outp, sc_sources = s3\<rparr>)"

subsection \<open>Turns\<close>

record assistant_content =
  asc_message :: "json list"
  asc_tool_calls :: "json option"
  asc_parts_not_in_turn :: nat

definition part_has_content :: "json \<Rightarrow> bool" where
  "part_has_content p =
     (case json_get p ''content'' of
        Some (JString s) \<Rightarrow> trim_ws s \<noteq> []
      | Some JNull \<Rightarrow> False
      | None \<Rightarrow> False
      | Some _ \<Rightarrow> True)"

definition has_real_content :: "assistant_content \<Rightarrow> bool" where
  "has_real_content a \<longleftrightarrow> asc_tool_calls a \<noteq> None \<or> list_ex part_has_content (asc_message a)"

definition part_type :: "json \<Rightarrow> string option" where
  "part_type p = Option.bind (json_get p ''type'') json_as_str"

definition message_role :: "json \<Rightarrow> string option" where
  "message_role m = Option.bind (json_get m ''role'') json_as_str"

definition assistant_content_of :: "json \<Rightarrow> assistant_content" where
  "assistant_content_of assistant =
     (let parts = (case Option.bind (json_get assistant ''parts'') as_array of Some ps \<Rightarrow> ps | None \<Rightarrow> []) in
      \<lparr>asc_message = filter (\<lambda>p. part_type p = Some ''text'' \<or> part_type p = None) parts,
       asc_tool_calls = non_empty (filter (\<lambda>p. part_type p = Some ''tool_call'') parts),
       asc_parts_not_in_turn =
         length (filter (\<lambda>p. part_type p \<notin> {None, Some ''text'', Some ''tool_call''}) parts)\<rparr>)"

definition assistant_contents :: "json option \<Rightarrow> assistant_content list" where
  "assistant_contents output =
     (case Option.bind output as_array of
        None \<Rightarrow> []
      | Some messages \<Rightarrow>
          map assistant_content_of (filter (\<lambda>m. message_role m = Some ''assistant'') messages))"

definition is_user :: "json \<Rightarrow> bool" where
  "is_user m \<longleftrightarrow> message_role m = Some ''user''"

end
