(* ===== verification/Journal_Ops.thy ===== *)
theory Journal_Ops
  imports Session_Graph
begin

text \<open>
  The journal as its writers see it: the traits \<open>ObjectStore\<close> and \<open>SessionGraph\<close> of \<open>akmon-journal\<close> by
  the two operations that change them, on one state (the store and the graph of a session are shared), and the
  in-memory journal as an instance.
\<close>

record 's journal_ops =
  jo_put :: "'s \<Rightarrow> byte list \<Rightarrow> 's \<times> (journal_error + hash)"
  jo_append :: "datetime \<Rightarrow> 's \<Rightarrow> event_kind \<Rightarrow> 's \<times> (journal_error + hash)"

definition with_put :: "'s journal_ops \<Rightarrow> 's \<Rightarrow> byte list \<Rightarrow> ('s \<Rightarrow> hash \<Rightarrow> 's \<times> (journal_error + 'a)) \<Rightarrow> 's \<times> (journal_error + 'a)" where
  "with_put J s b f = (case jo_put J s b of (s', Inl e) \<Rightarrow> (s', Inl e) | (s', Inr h) \<Rightarrow> f s' h)"

definition mem_journal :: "'x event_ext_scheme \<Rightarrow> mem_graph journal_ops" where
  "mem_journal X =
     \<lparr>jo_put = (\<lambda>g b. case mem_put X (mg_store g) b of (m, r) \<Rightarrow> (g\<lparr>mg_store := m\<rparr>, r)), jo_append = mem_append X\<rparr>"

abbreviation stored :: "'x event_ext_scheme \<Rightarrow> mem_graph \<Rightarrow> hash \<Rightarrow> bool" where
  "stored X g \<equiv> object_ok X (mem_view (mg_store g))"

abbreviation graph_digest :: "'x event_ext_scheme \<Rightarrow> mem_graph \<Rightarrow> byte list \<Rightarrow> hash" where
  "graph_digest X g \<equiv> digest_bytes X (ms_algorithm (mg_store g))"

text \<open>What a series of puts keeps.\<close>

definition extends_store :: "'x event_ext_scheme \<Rightarrow> mem_graph \<Rightarrow> mem_graph \<Rightarrow> bool" where
  "extends_store X g g' \<longleftrightarrow>
     graph_inv X g' \<and> mg_events g' = mg_events g \<and> ms_algorithm (mg_store g') = ms_algorithm (mg_store g)
     \<and> (\<forall>h. stored X g h \<longrightarrow> stored X g' h)"

lemma extends_store_refl: "graph_inv X g \<Longrightarrow> extends_store X g g"
  by (simp add: extends_store_def)

lemma extends_store_trans: "extends_store X g g' \<Longrightarrow> extends_store X g' g'' \<Longrightarrow> extends_store X g g''"
  by (simp add: extends_store_def)

lemma mem_put_total:
  assumes "graph_inv X g"
  obtains g' where "jo_put (mem_journal X) g b = (g', Inr (graph_digest X g b))" "extends_store X g g'"
    "stored X g' (graph_digest X g b)"
proof -
  let ?h = "graph_digest X g b" and ?m = "mg_store g"
  let ?m' = "?m\<lparr>ms_objects := hm_insert_vacant (h_bytes ?h) b (ms_objects ?m)\<rparr>"
  let ?g' = "g\<lparr>mg_store := ?m'\<rparr>"
  have alive: "\<not> ms_poisoned ?m" using assms by (simp add: graph_inv_def)
  then have put: "mem_put X ?m b = (?m', Inr ?h)" by (simp add: mem_put_def Let_def)
  then have j: "jo_put (mem_journal X) g b = (?g', Inr ?h)" by (simp add: mem_journal_def)
  have inv: "graph_inv X ?g'" using graph_inv_put [OF assms put] .
  have keep: "stored X ?g' h" if h: "stored X g h" for h
  proof -
    have a: "h_algorithm h = ms_algorithm ?m" using object_ok_algorithm [OF h] by (simp add: mem_view_def)
    then show ?thesis using h graph_inv_object_ok [OF assms a] graph_inv_object_ok [OF inv, of h]
      by (auto split: option.splits)
  qed
  have "stored X ?g' ?h"
    using graph_inv_object_ok [OF inv, of ?h] by (auto simp: digest_bytes_def split: option.splits)
  with j inv keep that show thesis by (simp add: extends_store_def)
qed

lemma with_put_mem:
  assumes "graph_inv X g"
  obtains g1 where "with_put (mem_journal X) g b f = f g1 (graph_digest X g b)" "extends_store X g g1"
    "stored X g1 (graph_digest X g b)"
  using mem_put_total [OF assms] unfolding with_put_def by (metis (no_types, lifting) case_prod_conv sum.case(2))

end
