(* ===== verification/Otel_Import.thy ===== *)
theory Otel_Import
  imports Otel_Content Journal_Ops
begin

text \<open>
  Planning an import (\<open>akmon-otel/src/plan.rs\<close>) and writing the plan into a journal (\<open>lib.rs\<close>,
  \<open>error.rs\<close>). The conversion of nanoseconds to an instant is a parameter, the journal is given by its two
  operations. The counters of a plan are natural numbers: each counts elements of lists held in memory.
\<close>

section \<open>Errors\<close>

datatype otel_error =
    OtParse string
  | OtLegacyUnsupported string
  | OtMultipleSessions string
  | OtMultipleTraces nat string
  | OtTraceIdNotFound string string
  | OtDuplicateSpanId string string
  | OtNoGenAiSpans nat
  | OtInvalidTimestamp string string
  | OtTooLarge nat nat
  | OtIo string
  | OtJournal journal_error
  | OtEmptyTrace

definition otel_error_category :: "otel_error \<Rightarrow> string" where
  "otel_error_category e =
     (case e of
        OtParse _ \<Rightarrow> ''parse_error''
      | OtLegacyUnsupported _ \<Rightarrow> ''legacy_semconv_unsupported''
      | OtMultipleSessions _ \<Rightarrow> ''multiple_sessions''
      | OtMultipleTraces _ _ \<Rightarrow> ''multiple_traces''
      | OtTraceIdNotFound _ _ \<Rightarrow> ''trace_id_not_found''
      | OtDuplicateSpanId _ _ \<Rightarrow> ''duplicate_span_id''
      | OtNoGenAiSpans _ \<Rightarrow> ''no_genai_spans''
      | OtInvalidTimestamp _ _ \<Rightarrow> ''invalid_timestamp''
      | OtTooLarge _ _ \<Rightarrow> ''trace_too_large''
      | OtIo _ \<Rightarrow> ''io_error''
      | OtJournal _ \<Rightarrow> ''journal_error''
      | OtEmptyTrace \<Rightarrow> ''empty_trace'')"

definition is_input_error :: "otel_error \<Rightarrow> bool" where
  "is_input_error e \<longleftrightarrow> (case e of OtIo _ \<Rightarrow> False | OtJournal _ \<Rightarrow> False | _ \<Rightarrow> True)"

section \<open>Plans\<close>

definition DEFAULT_MAX_TRACE_BYTES :: u64 where
  "DEFAULT_MAX_TRACE_BYTES = 268435456"

record import_options =
  io_trace_id :: "string option"
  io_max_bytes :: u64

definition default_import_options :: import_options where
  "default_import_options = \<lparr>io_trace_id = None, io_max_bytes = DEFAULT_MAX_TRACE_BYTES\<rparr>"

datatype planned_event =
    PSessionStart "byte list" "byte list"
  | PUserTurn "byte list"
  | PProviderCall string datetime datetime attempt_status "string option" "byte list" "byte list"
  | PAssistantTurn "byte list" "byte list option"
  | PToolCall string "byte list" "byte list"
  | PSessionEnd

record plan_stats =
  ps_provider_calls :: nat
  ps_tool_calls :: nat
  ps_failed_calls :: nat
  ps_turns_emitted :: nat
  ps_turns_suppressed :: nat
  ps_user_messages_omitted :: nat
  ps_non_text_parts_omitted :: nat
  ps_duplicate_spans_dropped :: nat
  ps_spans_skipped :: nat
  ps_structural_events :: nat
  ps_slots_real :: nat
  ps_slots_total :: nat

definition no_stats :: plan_stats where
  "no_stats = \<lparr>ps_provider_calls = 0, ps_tool_calls = 0, ps_failed_calls = 0, ps_turns_emitted = 0,
     ps_turns_suppressed = 0, ps_user_messages_omitted = 0, ps_non_text_parts_omitted = 0,
     ps_duplicate_spans_dropped = 0, ps_spans_skipped = 0, ps_structural_events = 0, ps_slots_real = 0,
     ps_slots_total = 0\<rparr>"

record import_plan =
  ip_events :: "planned_event list"
  ip_capture_level :: capture_level
  ip_stats :: plan_stats
  ip_source_semconv :: string
  ip_source_form :: string
  ip_trace_id :: "string option"

record plan_ext = otel_ext +
  ot_from_nanos :: "int \<Rightarrow> datetime option"

section \<open>Selecting the spans\<close>

definition span_operation :: "normalized_span \<Rightarrow> operation option" where
  "span_operation s = Option.bind (attr_str s ''gen_ai.operation.name'') operation_from_name"

definition string_set :: "string list \<Rightarrow> string list" where
  "string_set xs = sort (remdups xs)"

definition select_trace ::
    "normalized_span list \<Rightarrow> string option \<Rightarrow> otel_error + (normalized_span list \<times> string option)" where
  "select_trace spans requested =
     (let ids = string_set (map (to_ascii_lowercase \<circ> ns_trace_id) (filter (\<lambda>s. ns_trace_id s \<noteq> []) spans)) in
      case requested of
        Some w \<Rightarrow>
          (let wanted = to_ascii_lowercase (trim_ws w) in
           if wanted \<notin> set ids then Inl (OtTraceIdNotFound wanted (join '', '' ids))
           else Inr (filter (\<lambda>s. to_ascii_lowercase (ns_trace_id s) = wanted) spans, Some wanted))
      | None \<Rightarrow>
          if length ids > 1 then Inl (OtMultipleTraces (length ids) (join '', '' ids))
          else Inr (spans, head_opt ids))"

definition span_key :: "normalized_span \<Rightarrow> string \<times> string" where
  "span_key s = (to_ascii_lowercase (ns_trace_id s), to_ascii_lowercase (ns_span_id s))"

text \<open>\<open>seen\<close> maps a key to the span kept for it.\<close>

fun dedupe_from ::
    "((string \<times> string) \<times> normalized_span) list \<Rightarrow> normalized_span list \<Rightarrow> otel_error + (normalized_span list \<times> nat)" where
  "dedupe_from seen [] = Inr ([], 0)"
| "dedupe_from seen (s # spans) =
     (if ns_span_id s = [] then res_bind (dedupe_from seen spans) (\<lambda>(kept, n). Inr (s # kept, n))
      else
        (case map_of seen (span_key s) of
           Some t \<Rightarrow>
             if span_eq t s then res_bind (dedupe_from seen spans) (\<lambda>(kept, n). Inr (kept, Suc n))
             else Inl (OtDuplicateSpanId (ns_trace_id s) (ns_span_id s))
         | None \<Rightarrow> res_bind (dedupe_from ((span_key s, s) # seen) spans) (\<lambda>(kept, n). Inr (s # kept, n))))"

definition dedupe_spans :: "normalized_span list \<Rightarrow> otel_error + (normalized_span list \<times> nat)" where
  "dedupe_spans = dedupe_from []"

definition refuse_unknown_legacy :: "normalized_span list \<Rightarrow> otel_error + unit" where
  "refuse_unknown_legacy spans =
     (case find (\<lambda>e. classify_event (ne_name e) = UnknownLegacy) (concat (map ns_events spans)) of
        Some e \<Rightarrow> Inl (OtLegacyUnsupported (ne_name e))
      | None \<Rightarrow> Inr ())"

definition attr_values :: "normalized_span list \<Rightarrow> string \<Rightarrow> string list" where
  "attr_values spans key = List.map_filter (\<lambda>s. attr_str s key) spans"

definition resolve_conversation :: "normalized_span list \<Rightarrow> otel_error + string option" where
  "resolve_conversation spans =
     (let ids = string_set (attr_values spans ''gen_ai.conversation.id'') in
      if length ids > 1 then Inl (OtMultipleSessions (join '', '' ids)) else Inr (head_opt ids))"

record span_times_result =
  st_start :: datetime
  st_end :: datetime
  st_start_nanos :: int

definition check_time :: "'x plan_ext_scheme \<Rightarrow> string \<Rightarrow> string \<Rightarrow> int_like \<Rightarrow> otel_error + (int \<times> datetime)" where
  "check_time X sid field value =
     (let bad = (\<lambda>reason. Inl (OtInvalidTimestamp sid reason)) in
      case value of
        IMissing \<Rightarrow> bad (field @ '' is missing'')
      | IInvalid \<Rightarrow> bad (field @ '' is not an integer'')
      | IValid n \<Rightarrow>
          if n = 0 then bad (field @ '' is 0 (unset)'')
          else if n < 0 then bad (field @ '' is negative ('' @ show_int n @ '')'')
          else
            (case ot_from_nanos X n of
               Some t \<Rightarrow> Inr (n, t)
             | None \<Rightarrow> bad (field @ '' is out of range ('' @ show_int n @ '')'')))"

definition span_times :: "'x plan_ext_scheme \<Rightarrow> normalized_span \<Rightarrow> otel_error + span_times_result" where
  "span_times X s =
     res_bind (check_time X (ns_span_id s) ''startTimeUnixNano'' (ns_start s)) (\<lambda>(start_nanos, start).
     res_bind (check_time X (ns_span_id s) ''endTimeUnixNano'' (ns_end s)) (\<lambda>(end_nanos, end').
     if end_nanos < start_nanos
     then Inl (OtInvalidTimestamp (ns_span_id s)
       (''endTimeUnixNano ('' @ show_int end_nanos @ '') is before startTimeUnixNano ('' @ show_int start_nanos @ '')''))
     else Inr \<lparr>st_start = start, st_end = end', st_start_nanos = start_nanos\<rparr>))"

text \<open>The parents of the span ids; of two spans with one id the later counts.\<close>

definition parent_map :: "normalized_span list \<Rightarrow> (string \<times> string) list" where
  "parent_map spans = rev (map (\<lambda>s. (ns_span_id s, ns_parent_span_id s)) spans)"

function depth_from :: "(string \<times> string) list \<Rightarrow> nat \<Rightarrow> nat \<Rightarrow> string \<Rightarrow> nat" where
  "depth_from parents n d current =
     (if current = [] \<or> d > n then d
      else depth_from parents n (Suc d) (case map_of parents current of Some p \<Rightarrow> p | None \<Rightarrow> []))"
  by pat_completeness auto
termination by (relation "measure (\<lambda>(_, n, d, _). Suc n - d)") auto

declare depth_from.simps [simp del]

definition depth :: "normalized_span \<Rightarrow> (string \<times> string) list \<Rightarrow> nat" where
  "depth s parents = depth_from parents (length (remdups (map fst parents))) 0 (ns_parent_span_id s)"

section \<open>Failures and envelopes\<close>

record failure_info =
  fi_label :: string
  fi_message :: "string option"

definition failure :: "normalized_span \<Rightarrow> failure_info option" where
  "failure s =
     (let ex = find (\<lambda>e. classify_event (ne_name e) = ExceptionEvent) (ns_events s);
          error_type = attr_str s ''error.type'';
          exc_type = Option.bind ex (\<lambda>e. event_attr_str e ''exception.type'');
          exc_message = Option.bind ex (\<lambda>e. event_attr_str e ''exception.message'') in
      if \<not> ss_is_error (ns_status s) \<and> error_type = None \<and> ex = None then None
      else Some
        \<lparr>fi_label = (case or_else error_type exc_type of
             Some l \<Rightarrow> l
           | None \<Rightarrow> if ss_is_error (ns_status s) then ''span_status_error'' else ''exception''),
         fi_message = or_else (ss_message (ns_status s)) (or_else exc_message error_type)\<rparr>)"

definition str_member :: "string \<Rightarrow> string option \<Rightarrow> (string \<times> json) list" where
  "str_member key v = (case v of Some s \<Rightarrow> [(key, JString s)] | None \<Rightarrow> [])"

definition int_member :: "string \<Rightarrow> int option \<Rightarrow> (string \<times> json) list" where
  "int_member key v = (case v of Some i \<Rightarrow> [(key, JNumber (show_int i))] | None \<Rightarrow> [])"

definition request_envelope :: "'x plan_ext_scheme \<Rightarrow> normalized_span \<Rightarrow> byte list" where
  "request_envelope X s =
     metadata_envelope_bytes X ''request'' (bt_collect
       (str_member ''model'' (attr_str s ''gen_ai.request.model'')
        @ (case attr_f64 X s ''gen_ai.request.temperature'' of Some t \<Rightarrow> [(''temperature'', json_double t)] | None \<Rightarrow> [])
        @ int_member ''max_tokens'' (attr_i64 s ''gen_ai.request.max_tokens'')
        @ int_member ''input_tokens'' (attr_i64 s ''gen_ai.usage.input_tokens'')
        @ int_member ''cache_read_input_tokens'' (attr_i64 s ''gen_ai.usage.cache_read.input_tokens'')
        @ int_member ''cache_creation_input_tokens'' (attr_i64 s ''gen_ai.usage.cache_creation.input_tokens'')
        @ (case map_of (ns_attributes s) ''gen_ai.request.stream'' of
             Some (VBool b) \<Rightarrow> [(''stream'', JBool b)] | _ \<Rightarrow> [])
        @ (case content_value X (map_of (ns_attributes s) ''gen_ai.tool.definitions'') of
             Some defs \<Rightarrow> [(''tool_definitions'', defs)] | None \<Rightarrow> [])))"

definition response_envelope :: "'x plan_ext_scheme \<Rightarrow> normalized_span \<Rightarrow> byte list" where
  "response_envelope X s =
     metadata_envelope_bytes X ''response'' (bt_collect
       (str_member ''model'' (attr_str s ''gen_ai.response.model'')
        @ int_member ''output_tokens'' (attr_i64 s ''gen_ai.usage.output_tokens'')
        @ int_member ''reasoning_output_tokens'' (attr_i64 s ''gen_ai.usage.reasoning.output_tokens'')
        @ (case attr_array s ''gen_ai.response.finish_reasons'' of
             Some rs \<Rightarrow> [(''finish_reasons'', JArray (map JString (List.map_filter any_as_str rs)))] | None \<Rightarrow> [])
        @ str_member ''response_id'' (attr_str s ''gen_ai.response.id'')
        @ str_member ''output_type'' (attr_str s ''gen_ai.output.type'')))"

section \<open>The builder\<close>

record plan_builder =
  pb_events :: "planned_event list"
  pb_stats :: plan_stats
  pb_sources :: content_sources
  pb_prev_input :: "json list"
  pb_emitted_users :: "byte list list"
  pb_last_user :: "byte list option"

definition count_slot :: "bool \<Rightarrow> plan_builder \<Rightarrow> plan_builder" where
  "count_slot r b =
     b\<lparr>pb_stats := (pb_stats b)\<lparr>ps_slots_total := Suc (ps_slots_total (pb_stats b)),
         ps_slots_real := (if r then Suc (ps_slots_real (pb_stats b)) else ps_slots_real (pb_stats b))\<rparr>\<rparr>"

definition merge_sources :: "content_sources \<Rightarrow> content_sources \<Rightarrow> content_sources" where
  "merge_sources a b =
     \<lparr>src_attributes = (src_attributes a \<or> src_attributes b),
      src_details_event = (src_details_event a \<or> src_details_event b),
      src_legacy_events = (src_legacy_events a \<or> src_legacy_events b)\<rparr>"

definition push_event :: "planned_event \<Rightarrow> plan_builder \<Rightarrow> plan_builder" where
  "push_event e b = b\<lparr>pb_events := pb_events b @ [e]\<rparr>"

definition push_user :: "'x plan_ext_scheme \<Rightarrow> json \<Rightarrow> plan_builder \<Rightarrow> plan_builder" where
  "push_user X user b =
     (let prompt = real_content_bytes X user in
      push_event (PUserTurn prompt)
        (b\<lparr>pb_emitted_users := prompt # pb_emitted_users b, pb_last_user := Some prompt,
           pb_stats := (pb_stats b)\<lparr>ps_turns_emitted := Suc (ps_turns_emitted (pb_stats b))\<rparr>\<rparr>))"

definition user_turns :: "'x plan_ext_scheme \<Rightarrow> json list \<Rightarrow> plan_builder \<Rightarrow> plan_builder" where
  "user_turns X input b =
     (if input = [] then b
      else if take (length (pb_prev_input b)) input = pb_prev_input b
      then (fold (push_user X) (filter is_user (drop (length (pb_prev_input b)) input)) b)\<lparr>pb_prev_input := input\<rparr>
      else
        (let users = filter is_user input in
         if users = [] then b\<lparr>pb_prev_input := input\<rparr>
         else
           (let omitted = length (filter (\<lambda>m. real_content_bytes X m \<notin> set (pb_emitted_users b)) (butlast users));
                b = b\<lparr>pb_stats := (pb_stats b)\<lparr>ps_user_messages_omitted :=
                      ps_user_messages_omitted (pb_stats b) + omitted\<rparr>\<rparr>;
                new_users = (if pb_last_user b = Some (real_content_bytes X (last users)) then [] else [last users]) in
            (fold (push_user X) new_users b)\<lparr>pb_prev_input := input\<rparr>)))"

definition omit_parts :: "nat \<Rightarrow> plan_builder \<Rightarrow> plan_builder" where
  "omit_parts n b =
     b\<lparr>pb_stats := (pb_stats b)\<lparr>ps_non_text_parts_omitted := ps_non_text_parts_omitted (pb_stats b) + n\<rparr>\<rparr>"

definition push_turn :: "'x plan_ext_scheme \<Rightarrow> assistant_content \<Rightarrow> plan_builder \<Rightarrow> plan_builder" where
  "push_turn X turn b =
     (let b = push_event (PAssistantTurn (real_content_bytes X (JArray (asc_message turn)))
                (map_option (real_content_bytes X) (asc_tool_calls turn)))
                (omit_parts (asc_parts_not_in_turn turn) b) in
      b\<lparr>pb_stats := (pb_stats b)\<lparr>ps_turns_emitted := Suc (ps_turns_emitted (pb_stats b))\<rparr>\<rparr>)"

definition assistant_turns :: "'x plan_ext_scheme \<Rightarrow> json option \<Rightarrow> plan_builder \<Rightarrow> plan_builder" where
  "assistant_turns X output b =
     (let contents = assistant_contents output;
          turns = filter has_real_content contents;
          empties = filter (\<lambda>c. \<not> has_real_content c) contents;
          b = fold (\<lambda>c. omit_parts (asc_parts_not_in_turn c)) empties b;
          b = (if turns = []
               then b\<lparr>pb_stats := (pb_stats b)\<lparr>ps_turns_suppressed := Suc (ps_turns_suppressed (pb_stats b))\<rparr>\<rparr>
               else b) in
      fold (push_turn X) turns b)"

definition count_failure :: "failure_info option \<Rightarrow> plan_builder \<Rightarrow> plan_builder" where
  "count_failure f b =
     (case f of None \<Rightarrow> b
      | Some _ \<Rightarrow> b\<lparr>pb_stats := (pb_stats b)\<lparr>ps_failed_calls := Suc (ps_failed_calls (pb_stats b))\<rparr>\<rparr>)"

definition provider_label_of :: "normalized_span \<Rightarrow> string" where
  "provider_label_of s =
     (case or_else (attr_str s ''gen_ai.provider.name'') (attr_str s ''gen_ai.system'') of Some p \<Rightarrow> p | None \<Rightarrow> ''unknown'')"

definition provider_event ::
    "'x plan_ext_scheme \<Rightarrow> normalized_span \<Rightarrow> content_slots \<Rightarrow> datetime \<Rightarrow> datetime \<Rightarrow> planned_event" where
  "provider_event X s content started_at ended_at =
     PProviderCall (provider_label_of s) started_at ended_at
       (case failure s of None \<Rightarrow> Success | Some f \<Rightarrow> Other (fi_label f))
       (Option.bind (failure s) fi_message)
       (case content_request content of Some v \<Rightarrow> real_content_bytes X v | None \<Rightarrow> request_envelope X s)
       (case sc_output_messages content of Some v \<Rightarrow> real_content_bytes X v | None \<Rightarrow> response_envelope X s)"

definition provider_span ::
    "'x plan_ext_scheme \<Rightarrow> normalized_span \<Rightarrow> operation \<Rightarrow> datetime \<Rightarrow> datetime \<Rightarrow> plan_builder \<Rightarrow> plan_builder" where
  "provider_span X s op started_at ended_at b =
     (let is_embeddings = (op = OpEmbeddings);
          content = span_content X s;
          b = b\<lparr>pb_sources := merge_sources (pb_sources b) (sc_sources content)\<rparr>;
          b = user_turns X (input_slice content) b;
          b = (if is_embeddings then b
               else count_slot (sc_output_messages content \<noteq> None) (count_slot (sc_input_messages content \<noteq> None) b));
          b = push_event (provider_event X s content started_at ended_at) (count_failure (failure s) b);
          b = b\<lparr>pb_stats := (pb_stats b)\<lparr>ps_provider_calls := Suc (ps_provider_calls (pb_stats b))\<rparr>\<rparr> in
      if is_embeddings then b else assistant_turns X (sc_output_messages content) b)"

definition tool_output_of :: "'x plan_ext_scheme \<Rightarrow> normalized_span \<Rightarrow> string \<Rightarrow> json option \<Rightarrow> byte list" where
  "tool_output_of X s tool_name result =
     (case failure s of
        Some f \<Rightarrow>
          tool_error_bytes X (bt_collect
            [(''tool_name'', JString tool_name), (''error_type'', JString (fi_label f)),
             (''message'', opt_json (fi_message f)), (''status_error'', JBool (ss_is_error (ns_status s)))]) result
      | None \<Rightarrow>
          (case result of
             Some v \<Rightarrow> real_content_bytes X v
           | None \<Rightarrow> metadata_envelope_bytes X ''tool_output'' [(''tool_name'', JString tool_name)]))"

definition tool_input_of :: "'x plan_ext_scheme \<Rightarrow> normalized_span \<Rightarrow> string \<Rightarrow> json option \<Rightarrow> byte list" where
  "tool_input_of X s tool_name args =
     (case args of
        Some v \<Rightarrow> real_content_bytes X v
      | None \<Rightarrow>
          metadata_envelope_bytes X ''tool_input'' (bt_collect
            ([(''tool_name'', JString tool_name)] @ str_member ''tool_call_id'' (attr_str s ''gen_ai.tool.call.id''))))"

definition tool_span :: "'x plan_ext_scheme \<Rightarrow> normalized_span \<Rightarrow> plan_builder \<Rightarrow> plan_builder" where
  "tool_span X s b =
     (let tool_name = (case attr_str s ''gen_ai.tool.name'' of Some n \<Rightarrow> n | None \<Rightarrow> ''unknown'');
          args = content_value X (map_of (ns_attributes s) ''gen_ai.tool.call.arguments'');
          result = content_value X (map_of (ns_attributes s) ''gen_ai.tool.call.result'');
          b = count_slot (result \<noteq> None) (count_slot (args \<noteq> None) b);
          b = (if args \<noteq> None \<or> result \<noteq> None then b\<lparr>pb_sources := (pb_sources b)\<lparr>src_attributes := True\<rparr>\<rparr> else b);
          b = push_event (PToolCall tool_name (tool_input_of X s tool_name args) (tool_output_of X s tool_name result))
                (count_failure (failure s) b) in
      b\<lparr>pb_stats := (pb_stats b)\<lparr>ps_tool_calls := Suc (ps_tool_calls (pb_stats b))\<rparr>\<rparr>)"

section \<open>Session facts\<close>

definition agent_identity :: "normalized_span list \<Rightarrow> (string \<times> json) list" where
  "agent_identity spans = bt_collect
     (str_member ''name'' (head_opt (attr_values spans ''gen_ai.agent.name''))
      @ str_member ''id'' (head_opt (attr_values spans ''gen_ai.agent.id''))
      @ str_member ''version'' (head_opt (attr_values spans ''gen_ai.agent.version'')))"

definition structural_events :: "normalized_span list \<Rightarrow> json list" where
  "structural_events spans =
     concat (map (\<lambda>s. map (\<lambda>e. json_object
         [(''span_id'', JString (ns_span_id s)), (''name'', JString (ne_name e)), (''attributes'', JObject (attributes_json e))])
       (filter (\<lambda>e. classify_event (ne_name e) = StructuralMetadata) (ns_events s))) spans)"

definition source_semconv_of :: "string list \<Rightarrow> string" where
  "source_semconv_of urls =
     (let versions = string_set (filter (\<lambda>v. v \<noteq> [])
            (map (\<lambda>u. last (split_on CHR ''/'' (rev (dropWhile (\<lambda>c. c = CHR ''/'') (rev u))))) urls)) in
      if versions = [] then ''undeclared'' else join '','' versions)"

definition source_form_of :: "content_sources \<Rightarrow> string" where
  "source_form_of s =
     (let forms = (if src_attributes s then [''structured_attributes''] else [])
          @ (if src_details_event s then [''inference_details_event''] else [])
          @ (if src_legacy_events s then [''legacy_events''] else []) in
      if forms = [] then ''none'' else join ''+'' forms)"

definition session_root :: "normalized_span list \<Rightarrow> string option" where
  "session_root spans =
     map_option ns_span_id (find (\<lambda>s. ns_parent_span_id s = []
       \<and> (case span_operation s of Some op \<Rightarrow> is_session_root op | None \<Rightarrow> False)) spans)"

section \<open>Building the plan\<close>

type_synonym emitting_span = "normalized_span \<times> operation \<times> span_times_result"

definition emitting_operation :: "normalized_span \<Rightarrow> operation option" where
  "emitting_operation s =
     (case span_operation s of Some op \<Rightarrow> if emits_event op then Some op else None | None \<Rightarrow> None)"

definition emitting_spans :: "'x plan_ext_scheme \<Rightarrow> normalized_span list \<Rightarrow> otel_error + emitting_span list" where
  "emitting_spans X spans =
     res_map (\<lambda>(s, op). res_bind (span_times X s) (\<lambda>t. Inr (s, op, t)))
       (List.map_filter (\<lambda>s. map_option (\<lambda>op. (s, op)) (emitting_operation s)) spans)"

definition emission_key :: "(string \<times> string) list \<Rightarrow> emitting_span \<Rightarrow> int \<times> nat \<times> string" where
  "emission_key parents e = (case e of (s, op, t) \<Rightarrow> (st_start_nanos t, depth s parents, ns_span_id s))"

definition emit_span :: "'x plan_ext_scheme \<Rightarrow> emitting_span \<Rightarrow> plan_builder \<Rightarrow> plan_builder" where
  "emit_span X e b =
     (case e of (s, op, t) \<Rightarrow>
        if op = OpExecuteTool then tool_span X s b else provider_span X s op (st_start t) (st_end t) b)"

definition initial_builder :: "nat \<Rightarrow> nat \<Rightarrow> plan_builder" where
  "initial_builder duplicates skipped =
     \<lparr>pb_events = [], pb_stats = no_stats\<lparr>ps_duplicate_spans_dropped := duplicates, ps_spans_skipped := skipped\<rparr>,
      pb_sources = \<lparr>src_attributes = False, src_details_event = False, src_legacy_events = False\<rparr>,
      pb_prev_input = [], pb_emitted_users = [], pb_last_user = None\<rparr>"

definition plan_of_builder ::
    "'x plan_ext_scheme \<Rightarrow> normalized_span list \<Rightarrow> string list \<Rightarrow> string option \<Rightarrow> string option \<Rightarrow> plan_builder \<Rightarrow> import_plan" where
  "plan_of_builder X spans urls trace_id conversation_id b =
     (let level = capture_from_slots (ps_slots_real (pb_stats b)) (ps_slots_total (pb_stats b));
          structural = structural_events spans;
          facts =
            \<lparr>fa_provider = or_else (head_opt (attr_values spans ''gen_ai.provider.name''))
               (or_else (head_opt (attr_values spans ''gen_ai.system'')) (Some ''unknown'')),
             fa_model = or_else (head_opt (attr_values spans ''gen_ai.request.model''))
               (head_opt (attr_values spans ''gen_ai.response.model'')),
             fa_conversation_id = conversation_id, fa_agent = session_root spans,
             fa_agent_identity = agent_identity spans, fa_trace_id = trace_id,
             fa_source_semconv = source_semconv_of urls, fa_source_form = source_form_of (pb_sources b),
             fa_structural_events = structural\<rparr> in
      \<lparr>ip_events = [PSessionStart (not_captured_bytes X ''cwd'' ''otel traces carry no working directory'')
           (config_object_bytes X level facts)] @ pb_events b @ [PSessionEnd],
       ip_capture_level = level, ip_stats = (pb_stats b)\<lparr>ps_structural_events := length structural\<rparr>,
       ip_source_semconv = fa_source_semconv facts, ip_source_form = fa_source_form facts, ip_trace_id = trace_id\<rparr>)"

definition build_plan :: "'x plan_ext_scheme \<Rightarrow> byte list \<Rightarrow> import_options \<Rightarrow> otel_error + import_plan" where
  "build_plan X trace_json options =
     (if length trace_json > unat (io_max_bytes options)
      then Inl (OtTooLarge (length trace_json) (unat (io_max_bytes options)))
      else
        res_bind (map_err OtParse (parse_and_normalize X trace_json)) (\<lambda>parsed.
        if pt_spans parsed = [] then Inl OtEmptyTrace
        else
          res_bind (select_trace (pt_spans parsed) (io_trace_id options)) (\<lambda>(selected, trace_id).
          res_bind (dedupe_spans selected) (\<lambda>(spans, duplicates).
          res_bind (refuse_unknown_legacy spans) (\<lambda>_.
          res_bind (resolve_conversation spans) (\<lambda>conversation_id.
          if list_all (\<lambda>s. emitting_operation s = None) spans then Inl (OtNoGenAiSpans (length spans))
          else
            res_bind (emitting_spans X spans) (\<lambda>emitting.
            let ordered = sort_key (emission_key (parent_map spans)) emitting;
                b = fold (emit_span X) ordered (initial_builder duplicates (length spans - length emitting)) in
            Inr (plan_of_builder X spans (pt_schema_urls parsed) trace_id conversation_id b))))))))"

section \<open>Writing the plan\<close>

fun kind_of_planned :: "'s journal_ops \<Rightarrow> 's \<Rightarrow> planned_event \<Rightarrow> 's \<times> (journal_error + event_kind)" where
  "kind_of_planned J s (PSessionStart cwd config) =
     with_put J s cwd (\<lambda>s h1. with_put J s config (\<lambda>s h2. (s, Inr (SessionStart h1 h2))))"
| "kind_of_planned J s (PUserTurn prompt) = with_put J s prompt (\<lambda>s h. (s, Inr (UserTurn h)))"
| "kind_of_planned J s (PProviderCall pid started ended status err request response) =
     with_put J s request (\<lambda>s h1. with_put J s response (\<lambda>s h2.
       (s, Inr (ProviderCall pid
          [\<lparr>at_attempt_number = 1, at_started_at = started, at_ended_at = ended, at_status = status,
            at_request_hash = h1, at_response_hash = Some h2, at_stream_hash = None, at_error_message = err\<rparr>] None))))"
| "kind_of_planned J s (PAssistantTurn m calls) =
     with_put J s m (\<lambda>s h.
       (case calls of
          None \<Rightarrow> (s, Inr (AssistantTurn h None))
        | Some tc \<Rightarrow> with_put J s tc (\<lambda>s h'. (s, Inr (AssistantTurn h (Some h'))))))"
| "kind_of_planned J s (PToolCall tid inp outp) =
     with_put J s inp (\<lambda>s h1. with_put J s outp (\<lambda>s h2. (s, Inr (ToolCall tid h1 h2 None))))"
| "kind_of_planned J s PSessionEnd = (s, Inr (SessionEnd None))"

definition emit_event :: "'s journal_ops \<Rightarrow> datetime \<Rightarrow> 's \<Rightarrow> planned_event \<Rightarrow> 's \<times> (journal_error + hash)" where
  "emit_event J t s e =
     (case kind_of_planned J s e of
        (s', Inl err) \<Rightarrow> (s', Inl err)
      | (s', Inr k) \<Rightarrow> jo_append J t s' k)"

text \<open>\<open>clock i\<close> is the time read by the append of the \<open>i\<close>-th event.\<close>

fun emit_events ::
    "'s journal_ops \<Rightarrow> (nat \<Rightarrow> datetime) \<Rightarrow> nat \<Rightarrow> 's \<Rightarrow> planned_event list \<Rightarrow> 's \<times> (journal_error + unit)" where
  "emit_events J clock i s [] = (s, Inr ())"
| "emit_events J clock i s (e # es) =
     (case emit_event J (clock i) s e of
        (s', Inl err) \<Rightarrow> (s', Inl err)
      | (s', Inr h) \<Rightarrow> emit_events J clock (Suc i) s' es)"

record otel_import_report =
  ir_session_id :: "byte list"
  ir_capture_level :: capture_level
  ir_stats :: plan_stats
  ir_semconv_version :: string
  ir_source_semconv :: string
  ir_source_form :: string
  ir_trace_id :: "string option"

definition emit_plan ::
    "'s journal_ops \<Rightarrow> (nat \<Rightarrow> datetime) \<Rightarrow> byte list \<Rightarrow> 's \<Rightarrow> import_plan \<Rightarrow> 's \<times> (otel_error + otel_import_report)" where
  "emit_plan J clock sid s p =
     (case emit_events J clock 0 s (ip_events p) of
        (s', Inl e) \<Rightarrow> (s', Inl (OtJournal e))
      | (s', Inr _) \<Rightarrow>
          (s', Inr \<lparr>ir_session_id = sid, ir_capture_level = ip_capture_level p, ir_stats = ip_stats p,
             ir_semconv_version = SEMCONV_VERSION, ir_source_semconv = ip_source_semconv p,
             ir_source_form = ip_source_form p, ir_trace_id = ip_trace_id p\<rparr>))"

definition import_otel_genai ::
    "'x plan_ext_scheme \<Rightarrow> 's journal_ops \<Rightarrow> (nat \<Rightarrow> datetime) \<Rightarrow> byte list \<Rightarrow> byte list \<Rightarrow> 's
     \<Rightarrow> 's \<times> (otel_error + otel_import_report)" where
  "import_otel_genai X J clock sid trace_json s =
     (case build_plan X trace_json default_import_options of
        Inl e \<Rightarrow> (s, Inl e)
      | Inr p \<Rightarrow> emit_plan J clock sid s p)"

text \<open>\<open>size\<close> is the length in the metadata, \<open>contents\<close> what reading the whole file gives.\<close>

definition read_trace_file ::
    "string \<Rightarrow> string + nat \<Rightarrow> string + byte list \<Rightarrow> u64 \<Rightarrow> otel_error + byte list" where
  "read_trace_file path file_size contents max_bytes =
     (let io_err = (\<lambda>err. OtIo (path @ '': '' @ err)) in
      res_bind (map_err io_err file_size) (\<lambda>n.
      if n > unat max_bytes then Inl (OtTooLarge n (unat max_bytes))
      else
        res_bind (map_err io_err contents) (\<lambda>c.
        let bytes = take (min (unat max_bytes + 1) (2 ^ 64 - 1)) c in
        if length bytes > unat max_bytes then Inl (OtTooLarge (length bytes) (unat max_bytes)) else Inr bytes)))"

text \<open>\<open>open_new\<close> opens a fresh session of the store.\<close>

definition import_trace_file_into_store ::
    "'x plan_ext_scheme \<Rightarrow> 's journal_ops \<Rightarrow> ('s \<Rightarrow> 's \<times> (journal_error + unit)) \<Rightarrow> (nat \<Rightarrow> datetime) \<Rightarrow> byte list
     \<Rightarrow> otel_error + byte list \<Rightarrow> import_options \<Rightarrow> 's \<Rightarrow> 's \<times> (otel_error + otel_import_report)" where
  "import_trace_file_into_store X J open_new clock sid file_bytes options s =
     (case res_bind file_bytes (\<lambda>bytes. build_plan X bytes options) of
        Inl e \<Rightarrow> (s, Inl e)
      | Inr p \<Rightarrow>
          (case open_new s of
             (s', Inl e) \<Rightarrow> (s', Inl (OtJournal e))
           | (s', Inr _) \<Rightarrow> emit_plan J clock sid s' p))"

end
