(* ===== verification/Otel_Properties.thy ===== *)
theory Otel_Properties
  imports Otel_Import
begin

text \<open>The import of traces: what an emission writes and that it verifies, that no user message of the input is
  lost silently, what the capture level says, and the duplicates.\<close>

section \<open>Emitting into the in-memory journal\<close>

text \<open>The event a planned one becomes when every object has its digest as address.\<close>

fun planned_kind :: "(byte list \<Rightarrow> hash) \<Rightarrow> planned_event \<Rightarrow> event_kind" where
  "planned_kind d (PSessionStart cwd config) = SessionStart (d cwd) (d config)"
| "planned_kind d (PUserTurn prompt) = UserTurn (d prompt)"
| "planned_kind d (PProviderCall pid started ended status err request response) =
     ProviderCall pid
       [\<lparr>at_attempt_number = 1, at_started_at = started, at_ended_at = ended, at_status = status,
         at_request_hash = d request, at_response_hash = Some (d response), at_stream_hash = None,
         at_error_message = err\<rparr>] None"
| "planned_kind d (PAssistantTurn m calls) = AssistantTurn (d m) (map_option d calls)"
| "planned_kind d (PToolCall tid inp outp) = ToolCall tid (d inp) (d outp) None"
| "planned_kind d PSessionEnd = SessionEnd None"

lemma kind_of_planned_mem:
  assumes "graph_inv X g"
  obtains g' where "kind_of_planned (mem_journal X) g e = (g', Inr (planned_kind (graph_digest X g) e))"
    "extends_store X g g'"
    "list_all (stored X g') (referenced_object_hashes_for_kind (planned_kind (graph_digest X g) e))"
proof -
  note goal = that
  have one: thesis if "kind_of_planned (mem_journal X) g e = with_put (mem_journal X) g b (\<lambda>s h. (s, Inr (k h)))"
    "planned_kind (graph_digest X g) e = k (graph_digest X g b)"
    "referenced_object_hashes_for_kind (k (graph_digest X g b)) = [graph_digest X g b]" for b k
  proof -
    obtain g1 where g1: "with_put (mem_journal X) g b (\<lambda>s h. (s, Inr (k h))) = (g1, Inr (k (graph_digest X g b)))"
      "extends_store X g g1" "stored X g1 (graph_digest X g b)"
      using with_put_mem [OF assms, of b "\<lambda>s h. (s, Inr (k h))"] by metis
    show ?thesis by (rule goal [of g1]) (use that g1 in simp_all)
  qed
  have two: thesis if "kind_of_planned (mem_journal X) g e =
      with_put (mem_journal X) g b (\<lambda>s h. with_put (mem_journal X) s c (\<lambda>s h'. (s, Inr (k h h'))))"
    "planned_kind (graph_digest X g) e = k (graph_digest X g b) (graph_digest X g c)"
    "referenced_object_hashes_for_kind (k (graph_digest X g b) (graph_digest X g c))
       = [graph_digest X g b, graph_digest X g c]" for b c k
  proof -
    let ?f = "\<lambda>h s h'. (s, Inr (k h h'))"
    obtain g1 where g1: "with_put (mem_journal X) g b (\<lambda>s h. with_put (mem_journal X) s c (?f h))
        = with_put (mem_journal X) g1 c (?f (graph_digest X g b))"
      "extends_store X g g1" "stored X g1 (graph_digest X g b)"
      using with_put_mem [OF assms, of b "\<lambda>s h. with_put (mem_journal X) s c (?f h)"] by metis
    have a: "ms_algorithm (mg_store g1) = ms_algorithm (mg_store g)" "graph_inv X g1"
      using g1(2) by (simp_all add: extends_store_def)
    obtain g2 where g2: "with_put (mem_journal X) g1 c (?f (graph_digest X g b))
        = (g2, Inr (k (graph_digest X g b) (graph_digest X g c)))"
      "extends_store X g1 g2" "stored X g2 (graph_digest X g c)"
      using with_put_mem [OF a(2), of c "?f (graph_digest X g b)"] unfolding a(1) by metis
    have "stored X g2 (graph_digest X g b)" using g1(3) g2(2) by (simp add: extends_store_def)
    then show ?thesis by (intro goal [of g2] extends_store_trans [OF g1(2) g2(2)]) (use that g1 g2 in simp_all)
  qed
  show thesis
  proof (cases e)
    case (PSessionStart cwd config)
    then show ?thesis by (intro two [of cwd config SessionStart]) simp_all
  next
    case (PUserTurn prompt)
    then show ?thesis by (intro one [of prompt UserTurn]) simp_all
  next
    case (PProviderCall pid started ended status err request response)
    then show ?thesis
      by (intro two [of request response "\<lambda>h1 h2. ProviderCall pid
          [\<lparr>at_attempt_number = 1, at_started_at = started, at_ended_at = ended, at_status = status,
            at_request_hash = h1, at_response_hash = Some h2, at_stream_hash = None, at_error_message = err\<rparr>] None"])
        (simp_all add: attempt_object_hashes_def opt_list_def)
  next
    case (PAssistantTurn m calls)
    show ?thesis
    proof (cases calls)
      case None
      with PAssistantTurn show ?thesis by (intro one [of m "\<lambda>h. AssistantTurn h None"]) (simp_all add: opt_list_def)
    next
      case (Some tc)
      with PAssistantTurn show ?thesis
        by (intro two [of m tc "\<lambda>h h'. AssistantTurn h (Some h')"]) (simp_all add: opt_list_def)
    qed
  next
    case (PToolCall tid inp outp)
    then show ?thesis by (intro two [of inp outp "\<lambda>h h'. ToolCall tid h h' None"]) (simp_all add: opt_list_def)
  next
    case PSessionEnd
    then show ?thesis by (intro goal [of g] extends_store_refl [OF assms]) (simp_all add: opt_list_def)
  qed
qed

text \<open>The planned event may be appended: the first is the start, and no other is.\<close>

lemma kind_ok_planned: "kind_ok (planned_kind d e)"
  by (cases e) (simp_all add: kind_ok_def attempts_ok_def)

lemma planned_start: "is_session_start (planned_kind d e) \<longleftrightarrow> (\<exists>cwd config. e = PSessionStart cwd config)"
  by (cases e) (simp_all add: is_session_start_def)

lemma planned_end: "is_session_end (planned_kind d e) \<longleftrightarrow> e = PSessionEnd"
  by (cases e) (simp_all add: is_session_end_def)

lemma not_end_start: "\<not> is_session_end (SessionStart a b)"
  by (simp add: is_session_end_def)

definition session_ok :: "'x event_ext_scheme \<Rightarrow> mem_graph \<Rightarrow> bool" where
  "session_ok X g \<longleftrightarrow> graph_inv X g \<and> list_all (stored X g) (session_objects (map snd (mg_events g)))"

lemma emit_event_mem:
  assumes "session_ok X g" "\<forall>w. \<exists>b. x_cbor_event X w = Inr b"
    and "(\<exists>cwd config. e = PSessionStart cwd config) \<longleftrightarrow> mg_events g = []"
  obtains g' h v where "emit_event (mem_journal X) t g e = (g', Inr h)" "session_ok X g'"
    "mg_events g' = mg_events g @ [(h, v)]" "ev_kind v = planned_kind (graph_digest X g) e"
    "ms_algorithm (mg_store g') = ms_algorithm (mg_store g)"
proof -
  have inv: "graph_inv X g" using assms(1) by (simp add: session_ok_def)
  let ?k = "planned_kind (graph_digest X g) e"
  obtain g1 where g1: "kind_of_planned (mem_journal X) g e = (g1, Inr ?k)" "extends_store X g g1"
    "list_all (stored X g1) (referenced_object_hashes_for_kind ?k)"
    by (rule kind_of_planned_mem [OF inv])
  have ev: "mg_events g1 = mg_events g" and inv1: "graph_inv X g1"
    and alg: "ms_algorithm (mg_store g1) = ms_algorithm (mg_store g)" using g1(2) by (simp_all add: extends_store_def)
  let ?v = "\<lparr>ev_parents = opt_list (map_option fst (last_opt (mg_events g1))), ev_kind = ?k, ev_emitted_at = t,
      ev_sequence = of_nat (length (mg_events g1))\<rparr>"
  obtain h where h: "content_hash X (ms_algorithm (mg_store g1)) ?v = Inr h"
    using assms(2) [rule_format, of "wire_of_event X ?v"] by (auto simp: content_hash_def)
  let ?g' = "g1\<lparr>mg_events := mg_events g1 @ [(h, ?v)]\<rparr>"
  have app: "mem_append X t g1 ?k = (?g', Inr h)"
    unfolding mem_append_Inr_iff
    by (intro exI [of _ ?v] conjI kind_ok_planned refl h) (simp only: planned_start assms(3) ev)
  then have "jo_append (mem_journal X) t g1 ?k = (?g', Inr h)" by (simp add: mem_journal_def)
  then have "emit_event (mem_journal X) t g e = (?g', Inr h)" by (simp add: emit_event_def g1(1))
  moreover have "session_ok X ?g'"
  proof -
    have "list_all (stored X g1) (session_objects (map snd (mg_events g)))"
      using assms(1) g1(2) by (auto simp: session_ok_def extends_store_def list_all_iff)
    then show ?thesis
      using graph_inv_append [OF inv1 app] g1(3) by (simp add: session_ok_def session_objects_def ev)
  qed
  ultimately show thesis using that [of ?g' h ?v] ev alg by simp
qed

lemma emit_events_mem:
  assumes "\<forall>w. \<exists>b. x_cbor_event X w = Inr b" "list_all (\<lambda>e. \<forall>cwd config. e \<noteq> PSessionStart cwd config) es"
  shows "session_ok X g \<Longrightarrow> mg_events g \<noteq> [] \<Longrightarrow>
    \<exists>g'. emit_events (mem_journal X) clock i g es = (g', Inr ()) \<and> session_ok X g'
      \<and> map (ev_kind \<circ> snd) (mg_events g') = map (ev_kind \<circ> snd) (mg_events g) @ map (planned_kind (graph_digest X g)) es"
  using assms(2)
proof (induction es arbitrary: g i)
  case (Cons e es)
  have "(\<exists>cwd config. e = PSessionStart cwd config) \<longleftrightarrow> mg_events g = []" using Cons.prems by auto
  from emit_event_mem [OF Cons.prems(1) assms(1) this, of "clock i"] obtain g1 h v where
    g1: "emit_event (mem_journal X) (clock i) g e = (g1, Inr h)" "session_ok X g1"
      "mg_events g1 = mg_events g @ [(h, v)]" "ev_kind v = planned_kind (graph_digest X g) e"
      "ms_algorithm (mg_store g1) = ms_algorithm (mg_store g)" by metis
  from Cons.IH [OF g1(2), of "Suc i"] Cons.prems(3) g1 show ?case by auto
qed simp

lemma emit_session:
  assumes cbor: "\<forall>w. \<exists>b. x_cbor_event X w = Inr b"
    and mid: "list_all (\<lambda>e. e \<noteq> PSessionEnd \<and> (\<forall>cwd config. e \<noteq> PSessionStart cwd config)) es"
    and g: "graph_inv X g" "mg_events g = []"
  shows "\<exists>g' r. emit_events (mem_journal X) clock 0 g (PSessionStart cwd config # es @ [PSessionEnd]) = (g', Inr ())
    \<and> mem_verify X g' = Inr r \<and> report_is_clean r
    \<and> map (ev_kind \<circ> snd) (mg_events g')
        = map (planned_kind (graph_digest X g)) (PSessionStart cwd config # es @ [PSessionEnd])"
proof -
  let ?d = "graph_digest X g"
  have ok: "session_ok X g" using g by (simp add: session_ok_def session_objects_def)
  obtain g1 h v where g1: "emit_event (mem_journal X) (clock 0) g (PSessionStart cwd config) = (g1, Inr h)"
    "session_ok X g1" "mg_events g1 = [(h, v)]" "ev_kind v = planned_kind ?d (PSessionStart cwd config)"
    "ms_algorithm (mg_store g1) = ms_algorithm (mg_store g)"
    using emit_event_mem [OF ok cbor, of "PSessionStart cwd config" "clock 0"] g(2) by auto
  have rest: "list_all (\<lambda>e. \<forall>cwd config. e \<noteq> PSessionStart cwd config) (es @ [PSessionEnd])"
    using mid by (auto simp: list_all_iff)
  obtain g' where g': "emit_events (mem_journal X) clock (Suc 0) g1 (es @ [PSessionEnd]) = (g', Inr ())"
    "session_ok X g'"
    and kinds: "map (ev_kind \<circ> snd) (mg_events g') = map (planned_kind ?d) (PSessionStart cwd config # es @ [PSessionEnd])"
    using emit_events_mem [OF cbor rest g1(2), of clock "Suc 0"] g1 by auto
  have all: "map ev_kind (map snd (mg_events g')) = map (planned_kind ?d) (PSessionStart cwd config # es) @ [SessionEnd None]"
    using kinds by simp
  obtain vs v' where v: "map snd (mg_events g') = vs @ [v']"
    using all by (cases "map snd (mg_events g')" rule: rev_cases) auto
  have vs: "ev_kind v' = SessionEnd None" "map ev_kind vs = map (planned_kind ?d) (PSessionStart cwd config # es)"
    using all unfolding v map_append by (simp_all del: list.map(2) add: list.map(2) [of _ v'])
  have "list_all (\<lambda>k. \<not> is_session_end k) (map ev_kind vs)"
    unfolding vs(2) using mid by (auto simp: list_all_iff planned_end not_end_start)
  then have "ends_once (map snd (mg_events g'))"
    unfolding v by (simp add: ends_once_def vs(1) list_all_iff is_session_end_def)
  then have "linear_session X (mem_view (mg_store g')) (mg_events g') None"
    using g'(2) by (simp add: linear_session_def session_ok_def graph_inv_def objects_ok_session mem_view_def)
  then obtain r where "mem_verify X g' = Inr r" "report_is_clean r" using mem_verify_clean_iff by blast
  with g' g1(1) kinds show ?thesis by auto
qed


text \<open>The events of a plan, between the start and the end.\<close>

definition inner_event :: "planned_event \<Rightarrow> bool" where
  "inner_event e \<longleftrightarrow> e \<noteq> PSessionEnd \<and> (\<forall>cwd config. e \<noteq> PSessionStart cwd config)"

lemma inner_event_simps [simp]:
  "inner_event (PUserTurn p)" "inner_event (PProviderCall a b c d e f g)" "inner_event (PAssistantTurn m t)"
  "inner_event (PToolCall i j k)"
  by (simp_all add: inner_event_def)

named_theorems builder_simps "what the builder's operations do to each field"

lemma builder_simps_basic [builder_simps]:
  "pb_events (count_slot r b) = pb_events b" "pb_events (push_event e b) = pb_events b @ [e]"
  "pb_events (omit_parts n b) = pb_events b" "pb_events (count_failure f b) = pb_events b"
  "pb_stats (push_event e b) = pb_stats b"
  "pb_prev_input (count_slot r b) = pb_prev_input b" "pb_prev_input (push_event e b) = pb_prev_input b"
  "pb_prev_input (omit_parts n b) = pb_prev_input b" "pb_prev_input (count_failure f b) = pb_prev_input b"
  "pb_emitted_users (count_slot r b) = pb_emitted_users b" "pb_emitted_users (push_event e b) = pb_emitted_users b"
  "pb_emitted_users (omit_parts n b) = pb_emitted_users b" "pb_emitted_users (count_failure f b) = pb_emitted_users b"
  "pb_last_user (count_slot r b) = pb_last_user b" "pb_last_user (push_event e b) = pb_last_user b"
  "pb_last_user (omit_parts n b) = pb_last_user b" "pb_last_user (count_failure f b) = pb_last_user b"
  "ps_user_messages_omitted (pb_stats (count_slot r b)) = ps_user_messages_omitted (pb_stats b)"
  "ps_user_messages_omitted (pb_stats (omit_parts n b)) = ps_user_messages_omitted (pb_stats b)"
  "ps_user_messages_omitted (pb_stats (count_failure f b)) = ps_user_messages_omitted (pb_stats b)"
  "ps_slots_total (pb_stats (count_slot r b)) = Suc (ps_slots_total (pb_stats b))"
  "ps_slots_real (pb_stats (count_slot r b)) = (if r then Suc (ps_slots_real (pb_stats b)) else ps_slots_real (pb_stats b))"
  "ps_slots_total (pb_stats (omit_parts n b)) = ps_slots_total (pb_stats b)"
  "ps_slots_real (pb_stats (omit_parts n b)) = ps_slots_real (pb_stats b)"
  "ps_slots_total (pb_stats (count_failure f b)) = ps_slots_total (pb_stats b)"
  "ps_slots_real (pb_stats (count_failure f b)) = ps_slots_real (pb_stats b)"
  by (simp_all add: count_slot_def push_event_def omit_parts_def count_failure_def split: option.splits)

text \<open>What the assistant turns leave alone: they only append assistant turns.\<close>

definition same_users :: "plan_builder \<Rightarrow> plan_builder \<Rightarrow> bool" where
  "same_users b b' \<longleftrightarrow>
     pb_prev_input b' = pb_prev_input b \<and> pb_emitted_users b' = pb_emitted_users b \<and> pb_last_user b' = pb_last_user b
     \<and> ps_user_messages_omitted (pb_stats b') = ps_user_messages_omitted (pb_stats b)
     \<and> (\<exists>es. pb_events b' = pb_events b @ es \<and> list_all inner_event es)"

definition same_slots :: "plan_builder \<Rightarrow> plan_builder \<Rightarrow> bool" where
  "same_slots b b' \<longleftrightarrow>
     ps_slots_total (pb_stats b') = ps_slots_total (pb_stats b) \<and> ps_slots_real (pb_stats b') = ps_slots_real (pb_stats b)"

lemma same_users_refl: "same_users b b" by (simp add: same_users_def)

lemma same_users_trans: "same_users a b \<Longrightarrow> same_users b c \<Longrightarrow> same_users a c"
  by (auto simp: same_users_def)

lemma same_slots_trans: "same_slots a b \<Longrightarrow> same_slots b c \<Longrightarrow> same_slots a c"
  by (simp add: same_slots_def)

lemma same_slots_refl: "same_slots b b" by (simp add: same_slots_def)

lemma fold_same_users: "(\<And>x b. same_users b (f x b)) \<Longrightarrow> same_users b (fold f xs b)"
proof (induction xs arbitrary: b)
  case (Cons x xs)
  show ?case using same_users_trans [OF Cons.prems Cons.IH [OF Cons.prems]] by simp
qed (simp add: same_users_refl)

lemma fold_same_slots: "(\<And>x b. same_slots b (f x b)) \<Longrightarrow> same_slots b (fold f xs b)"
proof (induction xs arbitrary: b)
  case (Cons x xs)
  show ?case using same_slots_trans [OF Cons.prems Cons.IH [OF Cons.prems]] by simp
qed (simp add: same_slots_refl)

lemma omit_parts_same: "same_users b (omit_parts n b)" "same_slots b (omit_parts n b)"
  by (simp_all add: same_users_def same_slots_def builder_simps)

lemma push_turn_same: "same_users b (push_turn X turn b)" "same_slots b (push_turn X turn b)"
  by (simp_all add: same_users_def same_slots_def push_turn_def Let_def builder_simps)

lemma suppressed_same:
  fixes b :: plan_builder and n :: nat
  defines "b' \<equiv> b\<lparr>pb_stats := (pb_stats b)\<lparr>ps_turns_suppressed := n\<rparr>\<rparr>"
  shows "same_users b b'" "same_slots b b'"
  by (simp_all add: b'_def same_users_def same_slots_def)

lemma assistant_turns_same: "same_users b (assistant_turns X outp b)" "same_slots b (assistant_turns X outp b)"
proof -
  let ?o = "fold (\<lambda>c. omit_parts (asc_parts_not_in_turn c)) (filter (\<lambda>c. \<not> has_real_content c) (assistant_contents outp)) b"
  let ?s = "if filter has_real_content (assistant_contents outp) = []
    then ?o\<lparr>pb_stats := (pb_stats ?o)\<lparr>ps_turns_suppressed := Suc (ps_turns_suppressed (pb_stats ?o))\<rparr>\<rparr> else ?o"
  have o: "same_users b ?o" "same_slots b ?o"
    by (rule fold_same_users omit_parts_same)+ (rule fold_same_slots omit_parts_same)+
  have s: "same_users ?o ?s" "same_slots ?o ?s"
    using suppressed_same same_users_refl same_slots_refl by simp_all
  have t: "same_users ?s (fold (push_turn X) ts ?s)" "same_slots ?s (fold (push_turn X) ts ?s)" for ts
    by (rule fold_same_users push_turn_same)+ (rule fold_same_slots push_turn_same)+
  show "same_users b (assistant_turns X outp b)"
    unfolding assistant_turns_def Let_def by (rule same_users_trans [OF same_users_trans [OF o(1) s(1)] t(1)])
  show "same_slots b (assistant_turns X outp b)"
    unfolding assistant_turns_def Let_def by (rule same_slots_trans [OF same_slots_trans [OF o(2) s(2)] t(2)])
qed

lemma push_users:
  "pb_events (fold (push_user X) us b) = pb_events b @ map (PUserTurn \<circ> real_content_bytes X) us"
  "set (pb_emitted_users (fold (push_user X) us b)) = set (pb_emitted_users b) \<union> real_content_bytes X ` set us"
  "pb_last_user (fold (push_user X) us b) =
     (if us = [] then pb_last_user b else Some (real_content_bytes X (last us)))"
  "ps_user_messages_omitted (pb_stats (fold (push_user X) us b)) = ps_user_messages_omitted (pb_stats b)"
  "same_slots b (fold (push_user X) us b)"
  by (induction us arbitrary: b) (auto simp: push_user_def Let_def builder_simps same_slots_def)

section \<open>User messages\<close>

text \<open>The bookkeeping of a builder: the emitted messages are events, the last one is among them, and as long as
  nothing was counted as omitted, the user messages of the given history are emitted.\<close>

definition users_kept :: "'x plan_ext_scheme \<Rightarrow> json list \<Rightarrow> plan_builder \<Rightarrow> bool" where
  "users_kept X seen b \<longleftrightarrow>
     PUserTurn ` set (pb_emitted_users b) \<subseteq> set (pb_events b)
     \<and> (\<forall>u. pb_last_user b = Some u \<longrightarrow> u \<in> set (pb_emitted_users b))
     \<and> (ps_user_messages_omitted (pb_stats b) = 0 \<longrightarrow>
          (\<forall>m \<in> set seen \<union> set (pb_prev_input b). is_user m \<longrightarrow> real_content_bytes X m \<in> set (pb_emitted_users b)))"

lemma users_kept_same: "users_kept X seen b \<Longrightarrow> same_users b b' \<Longrightarrow> users_kept X seen b'"
  by (auto simp: users_kept_def same_users_def)

lemma user_turns_kept:
  assumes "users_kept X seen b"
  shows "users_kept X (seen @ input) (user_turns X input b)"
proof (cases "input = []")
  case True
  with assms show ?thesis by (simp add: user_turns_def)
next
  case ne: False
  show ?thesis
  proof (cases "take (length (pb_prev_input b)) input = pb_prev_input b")
    case True
    let ?new = "drop (length (pb_prev_input b)) input"
    have "set input = set (pb_prev_input b) \<union> set ?new" by (metis True append_take_drop_id set_append)
    with assms ne True show ?thesis
      by (auto simp: user_turns_def users_kept_def push_users dest: last_in_set)
  next
    case other: False
    define users where "users = filter is_user input"
    show ?thesis
    proof (cases "users = []")
      case True
      then have "\<forall>m \<in> set input. \<not> is_user m" by (simp add: users_def filter_empty_conv)
      with assms ne other True show ?thesis
        by (auto simp: user_turns_def users_kept_def users_def [symmetric])
    next
      case False
      let ?l = "real_content_bytes X (last users)"
      let ?omitted = "filter (\<lambda>m. real_content_bytes X m \<notin> set (pb_emitted_users b)) (butlast users)"
      let ?new = "if pb_last_user b = Some ?l then [] else [last users]"
      let ?b = "b\<lparr>pb_stats := (pb_stats b)\<lparr>ps_user_messages_omitted := ps_user_messages_omitted (pb_stats b) + length ?omitted\<rparr>\<rparr>"
      have eq: "user_turns X input b = (fold (push_user X) ?new ?b)\<lparr>pb_prev_input := input\<rparr>"
        using ne other False by (simp add: user_turns_def users_def [symmetric] Let_def)
      have split: "m \<in> set (butlast users) \<or> m = last users" if "m \<in> set input" "is_user m" for m
      proof -
        have "m \<in> set users" using that by (simp add: users_def)
        then show ?thesis using False by (metis append_butlast_last_id rotate1.simps(2) set_ConsD set_rotate1)
      qed
      have none: "real_content_bytes X m \<in> set (pb_emitted_users b)"
        if "length ?omitted = 0" "m \<in> set (butlast users)" for m
        using that by (auto simp: filter_empty_conv)
      have l: "?l \<in> set (pb_emitted_users (fold (push_user X) ?new ?b))"
        using assms by (auto simp: push_users users_kept_def)
      have ev: "PUserTurn ` set (pb_emitted_users (fold (push_user X) ?new ?b)) \<subseteq> set (pb_events (fold (push_user X) ?new ?b))"
        using assms by (auto simp: push_users users_kept_def)
      have last: "u \<in> set (pb_emitted_users (fold (push_user X) ?new ?b))"
        if "pb_last_user (fold (push_user X) ?new ?b) = Some u" for u
        using that assms by (auto simp: push_users users_kept_def split: if_splits)
      have grow: "set (pb_emitted_users b) \<subseteq> set (pb_emitted_users (fold (push_user X) ?new ?b))"
        by (auto simp: push_users)
      have all: "real_content_bytes X m \<in> set (pb_emitted_users (fold (push_user X) ?new ?b))"
        if "ps_user_messages_omitted (pb_stats (fold (push_user X) ?new ?b)) = 0" "m \<in> set (seen @ input)" "is_user m" for m
      proof -
        have z: "ps_user_messages_omitted (pb_stats b) = 0" "length ?omitted = 0"
          using that(1) by (simp_all add: push_users)
        show ?thesis
        proof (cases "m \<in> set seen")
          case True
          then show ?thesis using assms z(1) that(3) grow by (auto simp: users_kept_def)
        next
          case False
          with that(2) have "m \<in> set input" by simp
          from split [OF this that(3)] show ?thesis using none [OF z(2)] grow l by blast
        qed
      qed
      show ?thesis unfolding eq users_kept_def using ev last all by (auto simp del: push_users)
    qed
  qed
qed

lemma user_turns_form:
  obtains vs b1 inp where "user_turns X input b = (fold (push_user X) vs b1)\<lparr>pb_prev_input := inp\<rparr>"
    "pb_events b1 = pb_events b" "same_slots b b1"
proof -
  consider "input = []" | "input \<noteq> []" "take (length (pb_prev_input b)) input = pb_prev_input b"
    | "input \<noteq> []" "take (length (pb_prev_input b)) input \<noteq> pb_prev_input b" "filter is_user input = []"
    | "input \<noteq> []" "take (length (pb_prev_input b)) input \<noteq> pb_prev_input b" "filter is_user input \<noteq> []" by blast
  then show thesis
  proof cases
    case 1
    then show thesis using that [where vs = "[]" and ?b1.0 = b and inp = "pb_prev_input b"] by (simp add: user_turns_def same_slots_refl)
  next
    case 2
    then show thesis using that [OF _ refl same_slots_refl] by (simp add: user_turns_def)
  next
    case 3
    then show thesis using that [where vs = "[]" and ?b1.0 = b and inp = input] by (simp add: user_turns_def same_slots_refl)
  next
    case 4
    let ?l = "last (filter is_user input)" and ?stats = "pb_stats b"
    let ?n = "ps_user_messages_omitted ?stats
      + length (filter (\<lambda>m. real_content_bytes X m \<notin> set (pb_emitted_users b)) (butlast (filter is_user input)))"
    from 4 show thesis
      by (intro that [where vs = "if pb_last_user b = Some (real_content_bytes X ?l) then [] else [?l]"
            and ?b1.0 = "b\<lparr>pb_stats := ?stats\<lparr>ps_user_messages_omitted := ?n\<rparr>\<rparr>" and inp = input])
        (simp_all add: user_turns_def Let_def same_slots_def)
  qed
qed

text \<open>The state a provider span leaves before its assistant turns.\<close>

lemma provider_span_form:
  defines "c \<equiv> \<lambda>X s. span_content X s"
  obtains b1 b5 where "provider_span X s op st en b =
      (if op = OpEmbeddings then b5 else assistant_turns X (sc_output_messages (c X s)) b5)"
    "same_users b b1" "same_slots b b1" "same_users (user_turns X (input_slice (c X s)) b1) b5"
    "ps_slots_total (pb_stats b5) = ps_slots_total (pb_stats (user_turns X (input_slice (c X s)) b1))
       + (if op = OpEmbeddings then 0 else 2)"
    "ps_slots_real (pb_stats b5) = ps_slots_real (pb_stats (user_turns X (input_slice (c X s)) b1))
       + (if op = OpEmbeddings then 0 else of_bool (sc_input_messages (c X s) \<noteq> None) + of_bool (sc_output_messages (c X s) \<noteq> None))"
proof -
  let ?b1 = "b\<lparr>pb_sources := merge_sources (pb_sources b) (sc_sources (c X s))\<rparr>"
  let ?b2 = "user_turns X (input_slice (c X s)) ?b1"
  let ?b3 = "if op = OpEmbeddings then ?b2
    else count_slot (sc_output_messages (c X s) \<noteq> None) (count_slot (sc_input_messages (c X s) \<noteq> None) ?b2)"
  let ?b4 = "push_event (provider_event X s (c X s) st en) (count_failure (failure s) ?b3)"
  let ?b5 = "?b4\<lparr>pb_stats := (pb_stats ?b4)\<lparr>ps_provider_calls := Suc (ps_provider_calls (pb_stats ?b4))\<rparr>\<rparr>"
  have "provider_span X s op st en b = (if op = OpEmbeddings then ?b5 else assistant_turns X (sc_output_messages (c X s)) ?b5)"
    by (simp add: provider_span_def Let_def c_def)
  moreover have "same_users b ?b1" "same_slots b ?b1" by (simp_all add: same_users_def same_slots_def)
  moreover have "same_users ?b2 ?b5" by (simp add: same_users_def builder_simps provider_event_def)
  moreover have "ps_slots_total (pb_stats ?b5) = ps_slots_total (pb_stats ?b2) + (if op = OpEmbeddings then 0 else 2)"
    by (simp add: builder_simps)
  moreover have "ps_slots_real (pb_stats ?b5) = ps_slots_real (pb_stats ?b2)
      + (if op = OpEmbeddings then 0 else of_bool (sc_input_messages (c X s) \<noteq> None) + of_bool (sc_output_messages (c X s) \<noteq> None))"
    by (simp add: builder_simps)
  ultimately show thesis by (rule that)
qed

lemma tool_span_same: "same_users b (tool_span X s b)"
  by (simp add: tool_span_def same_users_def Let_def builder_simps)

text \<open>The input of a span, which only a provider span has.\<close>

definition span_inputs :: "'x plan_ext_scheme \<Rightarrow> emitting_span \<Rightarrow> json list" where
  "span_inputs X e = (case e of (s, op, t) \<Rightarrow> if op = OpExecuteTool then [] else input_slice (span_content X s))"

lemma emit_span_events:
  obtains es where "pb_events (emit_span X e b) = pb_events b @ es" "list_all inner_event es"
proof -
  obtain s op t where e: "e = (s, op, t)" by (cases e)
  show thesis
  proof (cases "op = OpExecuteTool")
    case True
    then show thesis using that tool_span_same [of b X s] by (auto simp: e emit_span_def same_users_def)
  next
    case False
    obtain b1 b5 where p: "provider_span X s op (st_start t) (st_end t) b =
        (if op = OpEmbeddings then b5 else assistant_turns X (sc_output_messages (span_content X s)) b5)"
      "same_users b b1" "same_users (user_turns X (input_slice (span_content X s)) b1) b5"
      by (rule provider_span_form)
    obtain es1 where 1: "pb_events b1 = pb_events b @ es1" "list_all inner_event es1" using p(2) by (auto simp: same_users_def)
    obtain vs b2 inp where "user_turns X (input_slice (span_content X s)) b1 = (fold (push_user X) vs b2)\<lparr>pb_prev_input := inp\<rparr>"
      "pb_events b2 = pb_events b1" by (rule user_turns_form)
    then have 2: "pb_events (user_turns X (input_slice (span_content X s)) b1)
        = pb_events b1 @ map (PUserTurn \<circ> real_content_bytes X) vs" by (simp add: push_users(1))
    have "list_all inner_event (map (PUserTurn \<circ> real_content_bytes X) vs)" by (simp add: list_all_iff)
    moreover have "same_users b5 (emit_span X e b)"
      by (simp add: e emit_span_def False p(1) assistant_turns_same(1) same_users_refl)
    then have "same_users (user_turns X (input_slice (span_content X s)) b1) (emit_span X e b)"
      using same_users_trans [OF p(3)] by blast
    then obtain es3 where "pb_events (emit_span X e b) = pb_events (user_turns X (input_slice (span_content X s)) b1) @ es3"
      "list_all inner_event es3" by (auto simp: same_users_def)
    ultimately show thesis using that [of "es1 @ map (PUserTurn \<circ> real_content_bytes X) vs @ es3"] 1 2 by simp
  qed
qed

lemma emit_span_kept:
  assumes "users_kept X seen b"
  shows "users_kept X (seen @ span_inputs X e) (emit_span X e b)"
proof -
  obtain s op t where e: "e = (s, op, t)" by (cases e)
  show ?thesis
  proof (cases "op = OpExecuteTool")
    case True
    then show ?thesis using users_kept_same [OF assms tool_span_same] by (simp add: e emit_span_def span_inputs_def)
  next
    case False
    obtain b1 b5 where p: "provider_span X s op (st_start t) (st_end t) b =
        (if op = OpEmbeddings then b5 else assistant_turns X (sc_output_messages (span_content X s)) b5)"
      "same_users b b1" "same_users (user_turns X (input_slice (span_content X s)) b1) b5"
      by (rule provider_span_form)
    from users_kept_same [OF user_turns_kept [OF users_kept_same [OF assms p(2)]] p(3)]
    have k: "users_kept X (seen @ input_slice (span_content X s)) b5" .
    have "users_kept X (seen @ input_slice (span_content X s)) (emit_span X e b)"
      by (simp add: e emit_span_def False p(1) k users_kept_same [OF k assistant_turns_same(1)])
    then show ?thesis by (simp add: e span_inputs_def False)
  qed
qed

lemma fold_kept:
  "users_kept X seen b \<Longrightarrow> users_kept X (seen @ concat (map (span_inputs X) es)) (fold (emit_span X) es b)"
proof (induction es arbitrary: seen b)
  case (Cons e es)
  from Cons.IH [OF emit_span_kept [OF Cons.prems]] show ?case by simp
qed simp

lemma fold_inner: "list_all inner_event (pb_events b) \<Longrightarrow> list_all inner_event (pb_events (fold (emit_span X) es b))"
proof (induction es arbitrary: b)
  case (Cons e es)
  obtain es' where "pb_events (emit_span X e b) = pb_events b @ es'" "list_all inner_event es'" by (rule emit_span_events)
  with Cons show ?case by simp
qed simp

text \<open>C34: If a plan counts no user message as omitted, every user message in the input of every model call is
  recorded as a user turn.\<close>

theorem no_user_message_is_lost:
  assumes "fold (emit_span X) es (initial_builder d k) = b" "ps_user_messages_omitted (pb_stats b) = 0"
    and "e \<in> set es" "m \<in> set (span_inputs X e)" "is_user m"
  shows "PUserTurn (real_content_bytes X m) \<in> set (pb_events b)"
proof -
  have "users_kept X [] (initial_builder d k)" by (simp add: users_kept_def initial_builder_def)
  note k = fold_kept [OF this, of es, unfolded assms(1)]
  have "m \<in> set ([] @ concat (map (span_inputs X) es))" using assms(3,4) by auto
  then have "real_content_bytes X m \<in> set (pb_emitted_users b)" using k assms(2,5) unfolding users_kept_def by blast
  then show ?thesis using k unfolding users_kept_def by blast
qed

section \<open>Capture level\<close>

text \<open>The content slots of a span, \<open>True\<close> where content was captured.\<close>

definition span_slots :: "'x plan_ext_scheme \<Rightarrow> emitting_span \<Rightarrow> bool list" where
  "span_slots X e =
     (case e of (s, op, t) \<Rightarrow>
        if op = OpExecuteTool
        then [content_value X (map_of (ns_attributes s) ''gen_ai.tool.call.arguments'') \<noteq> None,
              content_value X (map_of (ns_attributes s) ''gen_ai.tool.call.result'') \<noteq> None]
        else if op = OpEmbeddings then []
        else [sc_input_messages (span_content X s) \<noteq> None, sc_output_messages (span_content X s) \<noteq> None])"

lemma user_turns_slots: "same_slots b (user_turns X input b)"
proof -
  obtain vs b1 inp where f: "user_turns X input b = (fold (push_user X) vs b1)\<lparr>pb_prev_input := inp\<rparr>" "same_slots b b1"
    by (rule user_turns_form)
  with push_users(5) [of b1 X vs] show ?thesis by (simp add: same_slots_def)
qed

lemma emit_span_slots:
  "ps_slots_total (pb_stats (emit_span X e b)) = ps_slots_total (pb_stats b) + length (span_slots X e)
   \<and> ps_slots_real (pb_stats (emit_span X e b)) = ps_slots_real (pb_stats b) + length (filter (\<lambda>x. x) (span_slots X e))"
proof -
  obtain s op t where e: "e = (s, op, t)" by (cases e)
  show ?thesis
  proof (cases "op = OpExecuteTool")
    case True
    then show ?thesis by (simp add: e emit_span_def tool_span_def span_slots_def Let_def builder_simps)
  next
    case False
    obtain b1 b5 where p: "provider_span X s op (st_start t) (st_end t) b =
        (if op = OpEmbeddings then b5 else assistant_turns X (sc_output_messages (span_content X s)) b5)"
      "same_slots b b1"
      "ps_slots_total (pb_stats b5) = ps_slots_total (pb_stats (user_turns X (input_slice (span_content X s)) b1))
         + (if op = OpEmbeddings then 0 else 2)"
      "ps_slots_real (pb_stats b5) = ps_slots_real (pb_stats (user_turns X (input_slice (span_content X s)) b1))
         + (if op = OpEmbeddings then 0
            else of_bool (sc_input_messages (span_content X s) \<noteq> None) + of_bool (sc_output_messages (span_content X s) \<noteq> None))"
      by (rule provider_span_form)
    have "same_slots b5 (emit_span X e b)"
      by (simp add: e emit_span_def False p(1) assistant_turns_same(2) same_slots_refl)
    with p(2-4) user_turns_slots [of b1 X "input_slice (span_content X s)"] show ?thesis
      by (simp add: same_slots_def e span_slots_def False)
  qed
qed

lemma fold_slots:
  "ps_slots_total (pb_stats (fold (emit_span X) es b)) = ps_slots_total (pb_stats b) + length (concat (map (span_slots X) es))
   \<and> ps_slots_real (pb_stats (fold (emit_span X) es b))
       = ps_slots_real (pb_stats b) + length (filter (\<lambda>x. x) (concat (map (span_slots X) es)))"
proof (induction es arbitrary: b)
  case (Cons e es)
  from Cons.IH [of "emit_span X e b"] emit_span_slots [of X e b] show ?case by simp
qed simp

lemma filter_all_iff: "length (filter (\<lambda>x. x) xs) = length xs \<longleftrightarrow> False \<notin> set xs" "filter (\<lambda>x. x) xs = [] \<longleftrightarrow> True \<notin> set xs"
proof -
  show "length (filter (\<lambda>x. x) xs) = length xs \<longleftrightarrow> False \<notin> set xs"
  proof (induction xs)
    case (Cons x xs)
    have "length (filter (\<lambda>x. x) xs) \<noteq> Suc (length xs)" using length_filter_le [of "\<lambda>x. x" xs] by linarith
    with Cons show ?case by (cases x) simp_all
  qed simp
  show "filter (\<lambda>x. x) xs = [] \<longleftrightarrow> True \<notin> set xs" by (induction xs) auto
qed

lemma capture_from_slots_iff:
  "capture_from_slots (length (filter (\<lambda>x. x) xs)) (length xs) = CaptureFull \<longleftrightarrow> xs \<noteq> [] \<and> False \<notin> set xs"
  "capture_from_slots (length (filter (\<lambda>x. x) xs)) (length xs) = CaptureStructural \<longleftrightarrow> True \<notin> set xs"
proof -
  have le: "length xs \<le> length (filter (\<lambda>x. x) xs) \<longleftrightarrow> False \<notin> set xs"
    using filter_all_iff(1) [of xs] length_filter_le [of "\<lambda>x. x" xs] by linarith
  have z: "length (filter (\<lambda>x. x) xs) = 0 \<longleftrightarrow> True \<notin> set xs" using filter_all_iff(2) [of xs] by simp
  have ne: "xs \<noteq> [] \<Longrightarrow> False \<notin> set xs \<Longrightarrow> True \<in> set xs" by (cases xs) auto
  show "capture_from_slots (length (filter (\<lambda>x. x) xs)) (length xs) = CaptureFull \<longleftrightarrow> xs \<noteq> [] \<and> False \<notin> set xs"
    using ne unfolding capture_from_slots_def z le by (cases "True \<in> set xs") auto
  show "capture_from_slots (length (filter (\<lambda>x. x) xs)) (length xs) = CaptureStructural \<longleftrightarrow> True \<notin> set xs"
    unfolding capture_from_slots_def z le by simp
qed

text \<open>The capture level of a plan is \<open>full\<close> exactly if there are content slots and all of them were captured,
  \<open>structural\<close> exactly if none was, whatever the spans.\<close>

theorem capture_level_reflects_slots:
  "let b = fold (emit_span X) es (initial_builder d k); slots = concat (map (span_slots X) es);
       level = ip_capture_level (plan_of_builder X spans urls tid cid b) in
   (level = CaptureFull \<longleftrightarrow> slots \<noteq> [] \<and> False \<notin> set slots) \<and> (level = CaptureStructural \<longleftrightarrow> True \<notin> set slots)"
proof -
  let ?slots = "concat (map (span_slots X) es)" and ?b = "fold (emit_span X) es (initial_builder d k)"
  have n: "ps_slots_total (pb_stats ?b) = length ?slots" "ps_slots_real (pb_stats ?b) = length (filter (\<lambda>x. x) ?slots)"
    using fold_slots [of X es "initial_builder d k"] by (simp_all add: initial_builder_def no_stats_def)
  have "ip_capture_level (plan_of_builder X spans urls tid cid ?b)
      = capture_from_slots (length (filter (\<lambda>x. x) ?slots)) (length ?slots)"
    by (simp add: plan_of_builder_def Let_def n)
  then show ?thesis unfolding Let_def by (simp only: capture_from_slots_iff simp_thms)
qed


section \<open>Importing into a fresh session\<close>

lemma build_plan_form:
  assumes "build_plan X bytes options = Inr p"
  obtains es d k spans urls tid cid where
    "p = plan_of_builder X spans urls tid cid (fold (emit_span X) es (initial_builder d k))"
  using assms
  by (auto simp: build_plan_def Let_def res_bind_Inr_iff split: if_splits prod.splits)

text \<open>C33: Importing any accepted trace into a fresh session of the in-memory journal succeeds if every event can be
  encoded, writes exactly the planned events in their order, and the session it leaves verifies clean.\<close>

theorem imported_session_verifies:
  assumes "build_plan Y bytes options = Inr p" "\<forall>w. \<exists>b. x_cbor_event X w = Inr b"
    and "graph_reachable X g" "mg_events g = []"
  shows "\<exists>g' rep r. emit_plan (mem_journal X) clock sid g p = (g', Inr rep)
    \<and> mem_verify X g' = Inr r \<and> report_is_clean r
    \<and> map (ev_kind \<circ> snd) (mg_events g') = map (planned_kind (graph_digest X g)) (ip_events p)"
proof -
  obtain es d k spans urls tid cid where
    p: "p = plan_of_builder Y spans urls tid cid (fold (emit_span Y) es (initial_builder d k))"
    by (rule build_plan_form [OF assms(1)])
  let ?es = "pb_events (fold (emit_span Y) es (initial_builder d k))"
  obtain cwd config where ev: "ip_events p = PSessionStart cwd config # ?es @ [PSessionEnd]"
    by (simp add: p plan_of_builder_def Let_def)
  have "list_all inner_event (pb_events (initial_builder d k))" by (simp add: initial_builder_def)
  then have "list_all inner_event ?es" by (rule fold_inner)
  then have mid: "list_all (\<lambda>e. e \<noteq> PSessionEnd \<and> (\<forall>cwd config. e \<noteq> PSessionStart cwd config)) ?es"
    by (simp add: inner_event_def [abs_def])
  from emit_session [OF assms(2) mid graph_reachable_inv [OF assms(3)] assms(4), of clock cwd config]
  show ?thesis by (auto simp: emit_plan_def ev)
qed

section \<open>Duplicates\<close>

lemma dedupe_from_facts:
  "dedupe_from seen spans = Inr (kept, n) \<Longrightarrow>
     length spans = length kept + n
     \<and> distinct (map span_key (filter (\<lambda>s. ns_span_id s \<noteq> []) kept))
     \<and> fst ` set seen \<inter> span_key ` set (filter (\<lambda>s. ns_span_id s \<noteq> []) kept) = {}
     \<and> (\<forall>s \<in> set spans. s \<in> set kept \<or> (\<exists>t \<in> snd ` set seen \<union> set kept. span_eq t s))
     \<and> set kept \<subseteq> set spans"
proof (induction seen spans arbitrary: kept n rule: dedupe_from.induct)
  case (2 seen s spans)
  show ?case
  proof (cases "ns_span_id s = []")
    case True
    with "2.prems" obtain kept' where k: "dedupe_from seen spans = Inr (kept', n)" "kept = s # kept'"
      by (auto simp: res_bind_Inr_iff)
    from "2.IH"(1) [OF True k(1)] True k(2) show ?thesis by auto
  next
    case id: False
    show ?thesis
    proof (cases "map_of seen (span_key s)")
      case (Some t)
      with "2.prems" id have eq: "span_eq t s" by (auto split: if_splits)
      with "2.prems" id Some obtain n' where k: "dedupe_from seen spans = Inr (kept, n')" "n = Suc n'"
        by (auto simp: res_bind_Inr_iff)
      have "t \<in> snd ` set seen" using map_of_SomeD [OF Some] by force
      with "2.IH"(3) [OF id Some eq k(1)] k(2) eq show ?thesis by auto
    next
      case None
      with "2.prems" id obtain kept' where k: "dedupe_from ((span_key s, s) # seen) spans = Inr (kept', n)" "kept = s # kept'"
        by (auto simp: res_bind_Inr_iff)
      have "span_key s \<notin> fst ` set seen" using None by (simp add: map_of_eq_None_iff)
      with "2.IH"(2) [OF id None k(1)] k(2) id show ?thesis by auto
    qed
  qed
qed simp

text \<open>Dropping duplicates keeps one span of every pair of ids, drops only spans equal to a kept one and counts
  them; spans without an id are all kept.\<close>

theorem dedupe_keeps_one:
  assumes "dedupe_spans spans = Inr (kept, n)"
  shows "distinct (map span_key (filter (\<lambda>s. ns_span_id s \<noteq> []) kept)) \<and> set kept \<subseteq> set spans
    \<and> list_all (\<lambda>s. s \<in> set kept \<or> list_ex (\<lambda>t. span_eq t s) kept) spans \<and> n = length spans - length kept"
  using dedupe_from_facts [OF assms [unfolded dedupe_spans_def]] by (auto simp: list_all_iff list_ex_iff)

section \<open>Malformed values\<close>

text \<open>A double given as a boolean makes the whole request undecodable, wherever it stands, while an integer
  given as a boolean only makes that value invalid.\<close>

theorem boolean_double_fails_decoding:
  "decode_any X (JObject [(''doubleValue'', JBool b)]) = None
   \<and> decode_any X (JObject [(''intValue'', JBool b)]) = Some VInvalid"
  by (simp add: decode_any_def json_depth_limit_def numeral_eq_Suc decode_member_def)


section \<open>Reading the level back\<close>

lemma map_of_bt_insert: "map_of (bt_insert k v m) = (map_of m)(k \<mapsto> v)"
  by (induction k v m rule: bt_insert.induct) auto

lemma map_of_bt_collect: "map_of (bt_collect kvs) = map_of (rev kvs)"
proof -
  have "map_of (foldl (\<lambda>m (k, v). bt_insert k v m) m kvs) = map_of m ++ map_of (rev kvs)" for m :: "(string \<times> 'a) list"
    by (induction kvs arbitrary: m) (auto simp: map_of_bt_insert split: prod.splits)
  from this [of "[]"] show ?thesis by (simp add: bt_collect_def)
qed

lemma bt_insert_keys: "fst ` set (bt_insert k v m) = insert k (fst ` set m)"
  by (induction k v m rule: bt_insert.induct) auto

lemma bt_insert_sorted: "sorted_wrt (<) (map fst m) \<Longrightarrow> sorted_wrt (<) (map fst (bt_insert k v m))"
proof (induction k v m rule: bt_insert.induct)
  case (2 k v k' v' m)
  have keys: "set (map fst (bt_insert k v m)) = insert k (set (map fst m))" using bt_insert_keys [of k v m] by simp
  consider "k < k'" | "k = k'" | "k' < k" by fastforce
  then show ?case
  proof cases
    case 1
    with 2(2) show ?thesis by auto
  next
    case 2
    with \<open>sorted_wrt (<) (map fst ((k', v') # m))\<close> show ?thesis by simp
  next
    case 3
    then have "sorted_wrt (<) (map fst (bt_insert k v m))" using 2 by simp
    then show ?thesis using 3 2(2) keys by (auto simp del: set_map)
  qed
qed simp

lemma bt_collect_sorted: "sorted_wrt (<) (map fst (bt_collect kvs))"
proof -
  have "sorted_wrt (<) (map fst m) \<Longrightarrow> sorted_wrt (<) (map fst (foldl (\<lambda>m (k, v). bt_insert k v m) m kvs))"
    for m :: "(string \<times> 'a) list"
    by (induction kvs arbitrary: m) (auto simp: bt_insert_sorted split: prod.splits)
  then show ?thesis by (simp add: bt_collect_def)
qed

lemma canonical_get:
  "json_get (canonicalize (json_object kvs)) k = map_option canonicalize (map_of (rev kvs) k)"
proof -
  let ?m = "map (\<lambda>(k, v). (k, canonicalize v)) (bt_collect kvs)"
  have f: "map fst ?m = map fst (bt_collect kvs)" by (simp add: case_prod_beta)
  have "sorted (map fst ?m)" using bt_collect_sorted [of kvs] unfolding f strict_sorted_iff by simp
  then have "sort_key fst ?m = ?m" by (rule sort_key_id_if_sorted)
  then show ?thesis by (simp add: json_object_def map_of_map [of canonicalize] map_of_bt_collect flip: map_of_bt_collect)
qed

text \<open>The capture level an import records is the one the bundle tools read back from the exported session, with
  the declared version of the conventions.\<close>

theorem recorded_level_is_read_back:
  assumes "\<forall>v b. ot_to_vec X v = Inr b \<longrightarrow> x_json_decode S b = Inr v"
    and "ot_to_vec X (canonicalize (config_object level facts)) = Inr b"
    and "session_config_hash (bc_events c) = Some h"
    and "hm_get (bc_objects c) h = Some (config_object_bytes X level facts)"
  shows "otel_capture_info S c
    = Some \<lparr>oc_capture_level = capture_level_str level, oc_source_semconv = fa_source_semconv facts\<rparr>"
proof -
  let ?v = "canonicalize (config_object level facts)"
  have b: "config_object_bytes X level facts = b" using assms(2) by (simp add: config_object_bytes_def encode_object_def canonical_json_bytes_def)
  have d: "x_json_decode S b = Inr ?v" using assms(1,2) by blast
  have "json_get ?v ''akmon_otel_config'' = Some (JBool True)"
    "json_get ?v ''capture_level'' = Some (JString (capture_level_str level))"
    "json_get ?v ''source_semconv'' = Some (JString (fa_source_semconv facts))"
    unfolding config_object_def canonical_get by simp_all
  then show ?thesis using assms(3,4) by (simp add: otel_capture_info_def b d json_str_or_def)
qed

end
