(* ===== verification/Otel_Examples.thy ===== *)
theory Otel_Examples
  imports Otel_Properties Example_Env
begin

text \<open>A trace of one model call with one user message, and the witnesses of the import's theorems on it.\<close>

section \<open>The trace\<close>

definition ox_attr :: "string \<Rightarrow> string \<Rightarrow> json \<Rightarrow> json" where
  "ox_attr k kind v = JObject [(''key'', JString k), (''value'', JObject [(kind, v)])]"

definition ox_tree :: json where
  "ox_tree = JObject [(''resourceSpans'', JArray [JObject [(''scopeSpans'', JArray [JObject [(''spans'', JArray [JObject
     [(''traceId'', JString ''t''), (''spanId'', JString ''a''), (''startTimeUnixNano'', JString ''1''),
      (''endTimeUnixNano'', JNumber ''2''),
      (''attributes'', JArray [ox_attr ''gen_ai.operation.name'' ''stringValue'' (JString ''chat'')])]])]])]])]"

definition ox :: plan_ext where
  "ox = \<lparr>ot_parse_tree = (\<lambda>_. Inr ox_tree), ot_shape_error = (\<lambda>_. ''shape''), ot_number_f64 = FFin,
     ot_int_f64 = (\<lambda>i. FFin (show_int i)), ot_parse_f64 = (\<lambda>_. None), ot_to_vec = (\<lambda>_. Inr [1]), ot_debug_str = (\<lambda>s. s),
     ot_parse_value = (\<lambda>_. None), ot_from_nanos = Some\<rparr>"

definition ox_message :: json where
  "ox_message = JObject [(''content'', JString ''hi''), (''role'', JString ''user'')]"

definition ox_span :: normalized_span where
  "ox_span = \<lparr>ns_span_id = ''a'', ns_parent_span_id = [], ns_trace_id = ''t'', ns_start = IValid 1, ns_end = IValid 2,
     ns_status = \<lparr>ss_is_error = False, ss_message = None\<rparr>,
     ns_attributes = [(''gen_ai.input.messages'',
         VArray [VKvlist [(''role'', VString ''user''), (''content'', VString ''hi'')]]),
       (''gen_ai.operation.name'', VString ''chat'')],
     ns_events = []\<rparr>"

lemma ox_key_value:
  "decode_key_value (decode_any ox) (ox_attr k ''stringValue'' (JString v)) = Some (k, VString v)"
  by (simp add: decode_any_def json_depth_limit_def numeral_eq_Suc ox_attr_def decode_key_value_def field_or_def
      decode_member_def or_empty_value_def)

text \<open>The span of the trace without its messages.\<close>

definition ox_bare :: normalized_span where
  "ox_bare = ox_span\<lparr>ns_attributes := [(''gen_ai.operation.name'', VString ''chat'')]\<rparr>"

lemma ox_numbers: "decode_int_like (JString ''1'') = Some (IValid 1)" "decode_int_like (JNumber ''2'') = Some (IValid 2)"
proof -
  have t: "trim_ws ''1'' = ''1''" by code_simp
  show "decode_int_like (JString ''1'') = Some (IValid 1)" "decode_int_like (JNumber ''2'') = Some (IValid 2)"
    by (simp_all add: t parse_signed_def number_int_def digits_value_def is_ascii_digit_def)
qed

lemma ox_span_decoded:
  "decode_span ox (JObject [(''traceId'', JString ''t''), (''spanId'', JString ''a''), (''startTimeUnixNano'', JString ''1''),
      (''endTimeUnixNano'', JNumber ''2''),
      (''attributes'', JArray [ox_attr ''gen_ai.operation.name'' ''stringValue'' (JString ''chat'')])]) = Some ox_bare"
  unfolding decode_span_def decode_attributes_def
  by (simp add: field_or_def ox_numbers ox_key_value bt_collect_def normalize_status_def ox_bare_def ox_span_def
      del: decode_int_like.simps)

lemma ox_parsed: "parse_and_normalize ox [] = Inr \<lparr>pt_spans = [ox_bare], pt_schema_urls = []\<rparr>"
proof -
  have "ot_parse_tree ox [] = Inr ox_tree" by (simp add: ox_def)
  then show ?thesis
    by (simp add: parse_and_normalize_def ox_tree_def decode_request_def decode_resource_spans_def decode_scope_spans_def
        field_or_def ox_span_decoded declared_url_def)
qed

definition ox_emitting :: "emitting_span list" where
  "ox_emitting = [(ox_span, OpProviderCall, \<lparr>st_start = 1, st_end = 2, st_start_nanos = 1\<rparr>)]"

lemma ox_bare_simps:
  "ns_trace_id ox_bare = ''t''" "ns_span_id ox_bare = ''a''" "ns_events ox_bare = []" "ns_start ox_bare = IValid 1"
  "ns_end ox_bare = IValid 2" "attr_str ox_bare ''gen_ai.conversation.id'' = None" "span_operation ox_bare = Some OpProviderCall"
  by (simp_all add: ox_bare_def ox_span_def attr_str_def span_operation_def operation_from_name_def)

lemma ox_planned: "\<exists>p. build_plan ox [] default_import_options = Inr p"
proof -
  have sel: "select_trace [ox_bare] None = Inr ([ox_bare], Some ''t'')"
    by (simp add: select_trace_def ox_bare_simps string_set_def to_ascii_lowercase_def ascii_lower_def)
  have dup: "dedupe_spans [ox_bare] = Inr ([ox_bare], 0)" by (simp add: dedupe_spans_def ox_bare_simps)
  have op: "emitting_operation ox_bare = Some OpProviderCall"
    by (simp add: emitting_operation_def ox_bare_simps emits_event_def)
  have "ot_from_nanos ox n = Some n" for n by (simp add: ox_def)
  then have "span_times ox ox_bare = Inr \<lparr>st_start = 1, st_end = 2, st_start_nanos = 1\<rparr>"
    by (simp add: span_times_def check_time_def ox_bare_simps)
  then have em: "emitting_spans ox [ox_bare] = Inr [(ox_bare, OpProviderCall, \<lparr>st_start = 1, st_end = 2, st_start_nanos = 1\<rparr>)]"
    by (simp add: emitting_spans_def List.map_filter_simps op)
  show ?thesis
    by (simp add: build_plan_def default_import_options_def ox_parsed sel dup refuse_unknown_legacy_def ox_bare_simps
        resolve_conversation_def attr_values_def List.map_filter_simps string_set_def op em Let_def)
qed

section \<open>Witnesses\<close>

text \<open>An encoder that encodes everything, though not injectively.\<close>

definition ox_journal :: command_ext where
  "ox_journal = ex\<lparr>x_cbor_event := \<lambda>w. Inr [1]\<rparr>"

theorem imported_session_verifies_witness:
  "\<exists>p g' rep r. emit_plan (mem_journal ox_journal) (\<lambda>_. 0) [] (mem_open_new (mem_new Sha256) []) p = (g', Inr rep)
    \<and> mem_verify ox_journal g' = Inr r \<and> report_is_clean r"
proof -
  obtain p where p: "build_plan ox [] default_import_options = Inr p" using ox_planned by blast
  have "\<forall>w. \<exists>b. x_cbor_event ox_journal w = Inr b" by (simp add: ox_journal_def)
  from imported_session_verifies [OF p this reach_new] show ?thesis by (force simp: mem_open_new_def)
qed

theorem no_user_message_is_lost_witness:
  "PUserTurn (real_content_bytes ox ox_message)
     \<in> set (pb_events (fold (emit_span ox) ox_emitting (initial_builder 0 0)))"
proof -
  have m: "ox_message \<in> set (span_inputs ox (ox_span, OpProviderCall, \<lparr>st_start = 1, st_end = 2, st_start_nanos = 1\<rparr>))"
    by code_simp
  have u: "is_user ox_message" by code_simp
  have z: "ps_user_messages_omitted (pb_stats (fold (emit_span ox) ox_emitting (initial_builder 0 0))) = 0" by code_simp
  show ?thesis by (rule no_user_message_is_lost [OF refl z _ m u]) (simp add: ox_emitting_def)
qed

theorem dedupe_keeps_one_witness: "length [ox_bare, ox_bare] - length [ox_bare] = 1 \<and> list_ex (\<lambda>t. span_eq t ox_bare) [ox_bare]"
proof -
  have "span_eq ox_bare ox_bare" by (simp add: span_eq_def attributes_eq_def any_eq_def ox_bare_def ox_span_def)
  then have "dedupe_spans [ox_bare, ox_bare] = Inr ([ox_bare], 1)" by (simp add: dedupe_spans_def ox_bare_simps)
  from dedupe_keeps_one [OF this] \<open>span_eq ox_bare ox_bare\<close> show ?thesis by simp
qed

text \<open>A printer and a parser that know one configuration.\<close>

definition ox_facts :: config_facts where
  "ox_facts = \<lparr>fa_provider = None, fa_model = None, fa_conversation_id = None, fa_agent = None, fa_agent_identity = [],
     fa_trace_id = None, fa_source_semconv = ''1.38.0'', fa_source_form = ''none'', fa_structural_events = []\<rparr>"

definition ox_config :: json where
  "ox_config = canonicalize (config_object CapturePartial ox_facts)"

definition ox_printer :: plan_ext where
  "ox_printer = ox\<lparr>ot_to_vec := \<lambda>v. if v = ox_config then Inr [65] else Inl ''unsupported''\<rparr>"

definition ox_reader :: command_ext where
  "ox_reader = ex\<lparr>x_json_decode := \<lambda>b. Inr ox_config\<rparr>"

theorem recorded_level_is_read_back_witness:
  "otel_capture_info ox_reader (ex_bundle\<lparr>bc_objects :=
       [(ex_hash 66, config_object_bytes ox_printer CapturePartial ox_facts)]\<rparr>)
    = Some \<lparr>oc_capture_level = ''partial'', oc_source_semconv = ''1.38.0''\<rparr>"
proof -
  have 1: "\<forall>v b. ot_to_vec ox_printer v = Inr b \<longrightarrow> x_json_decode ox_reader b = Inr v"
    by (simp add: ox_printer_def ox_reader_def)
  have 2: "ot_to_vec ox_printer (canonicalize (config_object CapturePartial ox_facts)) = Inr [65]"
    by (simp add: ox_printer_def ox_config_def)
  let ?c = "ex_bundle\<lparr>bc_objects := [(ex_hash 66, config_object_bytes ox_printer CapturePartial ox_facts)]\<rparr>"
  have 3: "session_config_hash (bc_events ?c) = Some (ex_hash 66)"
    by (simp add: session_config_hash_def ex_bundle_def ex_start_def is_session_start_def)
  have 4: "hm_get (bc_objects ?c) (ex_hash 66) = Some (config_object_bytes ox_printer CapturePartial ox_facts)"
    by (simp add: hm_get_def)
  from recorded_level_is_read_back [OF 1 2 3 4] show ?thesis by (simp add: capture_level_str_def ox_facts_def)
qed

end
