(* ===== verification/Recorder.thy ===== *)
theory Recorder
  imports Journal_Ops Agent_Run
begin

text \<open>
  The recorders of a session: the provider wrapper with its stream (\<open>akmon-models/src/journaling.rs\<close>), the tool
  wrapper (\<open>akmon-tools/src/journaling.rs\<close>) and the events the agent loop writes
  (\<open>akmon-query/src/journal.rs\<close>). The CBOR encoders and the texts of journal errors are parameters; every
  reading of the clock is an argument.
\<close>

section \<open>Parameters\<close>

record synthesized_response =
  sy_text :: string
  sy_tool_calls :: "tool_call list"
  sy_stop_reason :: "string option"

record stream_event_chunk =
  ck_kind :: string
  ck_provider :: "string option"
  ck_model :: "string option"
  ck_message :: "string option"
  ck_text :: "string option"
  ck_stop_reason :: "string option"
  ck_tool_calls :: "tool_call list option"
  ck_usage :: "(u32 \<times> u32 \<times> u32 \<times> u32) option"

text \<open>\<open>'c\<close> stands for \<open>CompletionConfig\<close>.\<close>

record 'c recorder_env =
  rc_request :: "string \<Rightarrow> chat_message list \<Rightarrow> 'c \<Rightarrow> string + byte list"
  rc_response :: "synthesized_response \<Rightarrow> string + byte list"
  rc_chunk :: "stream_event_chunk \<Rightarrow> string + byte list"
  rc_hashes :: "hash list \<Rightarrow> string + byte list"
  rc_journal_text :: "journal_error \<Rightarrow> string"

section \<open>Attempts\<close>

definition map_model_error_to_attempt_status :: "model_error \<Rightarrow> attempt_status" where
  "map_model_error_to_attempt_status e =
     (case e of
        RateLimited _ \<Rightarrow> Events.RateLimited
      | FirstTokenTimeout \<Rightarrow> NetworkError
      | BackendUnavailable _ \<Rightarrow> ServerError
      | AuthError \<Rightarrow> ClientError
      | ContextWindowExceeded \<Rightarrow> ClientError
      | ModelNotFound _ _ \<Rightarrow> ClientError
      | StreamInterrupted _ \<Rightarrow> NetworkError)"

definition stop_reason_label :: "stop_reason \<Rightarrow> string" where
  "stop_reason_label r = (case r of EndTurn \<Rightarrow> ''end_turn'' | MaxTokens \<Rightarrow> ''max_tokens'' | ToolUse \<Rightarrow> ''tool_use'')"

definition empty_chunk :: "string \<Rightarrow> stream_event_chunk" where
  "empty_chunk k = \<lparr>ck_kind = k, ck_provider = None, ck_model = None, ck_message = None, ck_text = None,
     ck_stop_reason = None, ck_tool_calls = None, ck_usage = None\<rparr>"

definition stream_event_chunk_of :: "stream_event \<Rightarrow> stream_event_chunk" where
  "stream_event_chunk_of e =
     (case e of
        SeProviderReady p m \<Rightarrow> (empty_chunk ''provider_ready'')\<lparr>ck_provider := Some p, ck_model := Some m\<rparr>
      | SeStatusHint m \<Rightarrow> (empty_chunk ''status_hint'')\<lparr>ck_message := Some m\<rparr>
      | SeTextDelta t \<Rightarrow> (empty_chunk ''text_delta'')\<lparr>ck_text := Some t\<rparr>
      | SeDone r cs \<Rightarrow> (empty_chunk ''done'')\<lparr>ck_stop_reason := Some (stop_reason_label r), ck_tool_calls := Some cs\<rparr>
      | SeUsageReport a b c d \<Rightarrow> (empty_chunk ''usage_report'')\<lparr>ck_usage := Some (a, b, c, d)\<rparr>
      | SeError err \<Rightarrow> (empty_chunk ''error'')\<lparr>ck_message := Some (model_error_to_string err)\<rparr>)"

definition accumulate_response :: "stream_event \<Rightarrow> synthesized_response \<Rightarrow> synthesized_response" where
  "accumulate_response e r =
     (case e of
        SeTextDelta t \<Rightarrow> r\<lparr>sy_text := sy_text r @ t\<rparr>
      | SeDone reason calls \<Rightarrow> r\<lparr>sy_stop_reason := Some (stop_reason_label reason), sy_tool_calls := calls\<rparr>
      | _ \<Rightarrow> r)"

definition cbor_error :: "string + 'a \<Rightarrow> model_error + 'a" where
  "cbor_error r = map_err (\<lambda>err. StreamInterrupted (''canonical cbor encode failed: '' @ err)) r"

section \<open>The journaling stream\<close>

record 's journaling_stream =
  js_journal :: 's
  js_provider_id :: string
  js_request_hash :: hash
  js_started_at :: datetime
  js_collector :: "attempt_record list"
  js_chunk_hashes :: "hash list"
  js_response :: synthesized_response
  js_last_error :: "model_error option"
  js_done_seen :: bool
  js_finalized :: bool

definition journaling_stream_new ::
    "'s \<Rightarrow> string \<Rightarrow> hash \<Rightarrow> datetime \<Rightarrow> attempt_record list \<Rightarrow> 's journaling_stream" where
  "journaling_stream_new s pid request_hash started_at collected =
     \<lparr>js_journal = s, js_provider_id = pid, js_request_hash = request_hash, js_started_at = started_at,
      js_collector = collected, js_chunk_hashes = [],
      js_response = \<lparr>sy_text = [], sy_tool_calls = [], sy_stop_reason = None\<rparr>, js_last_error = None,
      js_done_seen = False, js_finalized = False\<rparr>"

text \<open>\<open>put_bytes\<close> on the journal of the stream.\<close>

definition put_bytes ::
    "'s journal_ops \<Rightarrow> 'c recorder_env \<Rightarrow> 's \<Rightarrow> byte list \<Rightarrow> 's \<times> (model_error + hash)" where
  "put_bytes J R s b =
     (case jo_put J s b of
        (s', Inl e) \<Rightarrow> (s', Inl (BackendUnavailable (''journal object store put failed: '' @ rc_journal_text R e)))
      | (s', Inr h) \<Rightarrow> (s', Inr h))"

definition put_encoded ::
    "'s journal_ops \<Rightarrow> 'c recorder_env \<Rightarrow> 's \<Rightarrow> string + byte list \<Rightarrow> 's \<times> (model_error + hash)" where
  "put_encoded J R s enc = (case cbor_error enc of Inl e \<Rightarrow> (s, Inl e) | Inr b \<Rightarrow> put_bytes J R s b)"

definition store_stream_event_chunk ::
    "'s journal_ops \<Rightarrow> 'c recorder_env \<Rightarrow> 's \<Rightarrow> stream_event \<Rightarrow> 's \<times> (model_error + hash)" where
  "store_stream_event_chunk J R s e = put_encoded J R s (rc_chunk R (stream_event_chunk_of e))"

definition put_some ::
    "'s journal_ops \<Rightarrow> 'c recorder_env \<Rightarrow> 's \<Rightarrow> string + byte list \<Rightarrow> 's \<times> (model_error + hash option)" where
  "put_some J R s enc = (case put_encoded J R s enc of (s', Inl e) \<Rightarrow> (s', Inl e) | (s', Inr h) \<Rightarrow> (s', Inr (Some h)))"

definition response_hash_for_final ::
    "'s journal_ops \<Rightarrow> 'c recorder_env \<Rightarrow> 's \<Rightarrow> synthesized_response \<Rightarrow> 's \<times> (model_error + hash option)" where
  "response_hash_for_final J R s r =
     (if sy_text r = [] \<and> sy_tool_calls r = [] \<and> sy_stop_reason r = None then (s, Inr None)
      else put_some J R s (rc_response R r))"

definition stream_hash_for_chunks ::
    "'s journal_ops \<Rightarrow> 'c recorder_env \<Rightarrow> 's \<Rightarrow> hash list \<Rightarrow> 's \<times> (model_error + hash option)" where
  "stream_hash_for_chunks J R s hs = (if hs = [] then (s, Inr None) else put_some J R s (rc_hashes R hs))"

definition synthesized_attempts_if_empty ::
    "attempt_record list \<Rightarrow> hash \<Rightarrow> hash option \<Rightarrow> hash option \<Rightarrow> datetime \<Rightarrow> datetime \<Rightarrow> model_error option
     \<Rightarrow> attempt_record list" where
  "synthesized_attempts_if_empty atts request_hash response_hash sh started_at ended_at last_error =
     (if atts \<noteq> [] then atts
      else [\<lparr>at_attempt_number = 1, at_started_at = started_at, at_ended_at = ended_at,
             at_status = (case last_error of Some e \<Rightarrow> map_model_error_to_attempt_status e | None \<Rightarrow> Success),
             at_request_hash = request_hash, at_response_hash = response_hash, at_stream_hash = sh,
             at_error_message = map_option model_error_to_string last_error\<rparr>])"

definition append_provider_call ::
    "'s journal_ops \<Rightarrow> 'c recorder_env \<Rightarrow> datetime \<Rightarrow> 's \<Rightarrow> string \<Rightarrow> attempt_record list \<Rightarrow> hash option
     \<Rightarrow> 's \<times> (model_error + unit)" where
  "append_provider_call J R t s pid atts sh =
     (case jo_append J t s (ProviderCall pid atts sh) of
        (s', Inl e) \<Rightarrow> (s', Inl (BackendUnavailable (''journal graph append failed: '' @ rc_journal_text R e)))
      | (s', Inr _) \<Rightarrow> (s', Inr ()))"

text \<open>The stream hash of the last successful attempt.\<close>

definition last_success_stream :: "attempt_record list \<Rightarrow> hash option" where
  "last_success_stream atts = Option.bind (find (\<lambda>a. at_status a = Success) (rev atts)) at_stream_hash"

text \<open>The attempts the event gets and its stream hash.\<close>

definition final_attempts ::
    "'s journal_ops \<Rightarrow> 'c recorder_env \<Rightarrow> datetime \<Rightarrow> 's journaling_stream
     \<Rightarrow> 's \<times> (model_error + attempt_record list \<times> hash option)" where
  "final_attempts J R ended_at js =
     (let drained = js_collector js in
      if drained = [] then
        (case response_hash_for_final J R (js_journal js) (js_response js) of
           (s1, Inl e) \<Rightarrow> (s1, Inl e)
         | (s1, Inr response_hash) \<Rightarrow>
             (case stream_hash_for_chunks J R s1 (js_chunk_hashes js) of
                (s2, Inl e) \<Rightarrow> (s2, Inl e)
              | (s2, Inr sh) \<Rightarrow>
                  (s2, Inr (synthesized_attempts_if_empty drained (js_request_hash js) response_hash sh
                              (js_started_at js) ended_at (js_last_error js), sh))))
      else (js_journal js, Inr (drained, last_success_stream drained)))"

text \<open>\<open>ended_at\<close> is the clock read here, \<open>t\<close> the one read by the append.\<close>

definition stream_finalize ::
    "'s journal_ops \<Rightarrow> 'c recorder_env \<Rightarrow> datetime \<Rightarrow> datetime \<Rightarrow> 's journaling_stream
     \<Rightarrow> 's journaling_stream \<times> (model_error + unit)" where
  "stream_finalize J R ended_at t js =
     (if js_finalized js then (js, Inr ())
      else
        (case final_attempts J R ended_at js of
           (s1, Inl e) \<Rightarrow> (js\<lparr>js_journal := s1, js_collector := [], js_finalized := True\<rparr>, Inl e)
         | (s1, Inr (atts, sh)) \<Rightarrow>
             (case append_provider_call J R t s1 (js_provider_id js) atts sh of
                (s2, r) \<Rightarrow> (js\<lparr>js_journal := s2, js_collector := [], js_finalized := True\<rparr>, r))))"

text \<open>What \<open>Poll::Ready\<close> carries; an item that is \<open>Pending\<close> is no step.\<close>

definition finalize_then ::
    "'s journal_ops \<Rightarrow> 'c recorder_env \<Rightarrow> datetime \<Rightarrow> datetime \<Rightarrow> 's journaling_stream
     \<Rightarrow> (model_error + stream_event) option \<Rightarrow> 's journaling_stream \<times> (model_error + stream_event) option" where
  "finalize_then J R ended_at t js item =
     (case stream_finalize J R ended_at t js of
        (js', Inl fe) \<Rightarrow> (js', Some (Inl fe))
      | (js', Inr _) \<Rightarrow> (js', item))"

definition stream_poll_next ::
    "'s journal_ops \<Rightarrow> 'c recorder_env \<Rightarrow> datetime \<Rightarrow> datetime \<Rightarrow> 's journaling_stream
     \<Rightarrow> (model_error + stream_event) option \<Rightarrow> 's journaling_stream \<times> (model_error + stream_event) option" where
  "stream_poll_next J R ended_at t js polled =
     (if js_done_seen js then finalize_then J R ended_at t js None
      else
        (case polled of
           None \<Rightarrow> finalize_then J R ended_at t (js\<lparr>js_done_seen := True\<rparr>) None
         | Some (Inr event) \<Rightarrow>
             (case store_stream_event_chunk J R (js_journal js) event of
                (s1, Inl err) \<Rightarrow>
                  finalize_then J R ended_at t
                    (js\<lparr>js_journal := s1, js_last_error := Some err, js_done_seen := True\<rparr>) (Some (Inl err))
              | (s1, Inr h) \<Rightarrow>
                  (let js' = js\<lparr>js_journal := s1, js_chunk_hashes := js_chunk_hashes js @ [h],
                                js_response := accumulate_response event (js_response js)\<rparr> in
                   case event of
                     SeDone _ _ \<Rightarrow> finalize_then J R ended_at t (js'\<lparr>js_done_seen := True\<rparr>) (Some (Inr event))
                   | _ \<Rightarrow> (js', Some (Inr event))))
         | Some (Inl err) \<Rightarrow>
             finalize_then J R ended_at t (js\<lparr>js_last_error := Some err, js_done_seen := True\<rparr>) (Some (Inl err))))"

section \<open>The provider wrapper\<close>

text \<open>\<open>digest\<close> is \<open>digest_bytes\<close> with the algorithm of the store, \<open>inner\<close> the outcome of the inner provider
  with the attempts it has published by then; the clock readings follow their order.\<close>

definition journaling_complete ::
    "'s journal_ops \<Rightarrow> 'c recorder_env \<Rightarrow> (byte list \<Rightarrow> hash) \<Rightarrow> string \<Rightarrow> datetime \<Rightarrow> datetime \<Rightarrow> datetime
     \<Rightarrow> attempt_record list \<times> (model_error + unit) \<Rightarrow> chat_message list \<Rightarrow> 'c \<Rightarrow> 's
     \<Rightarrow> 's \<times> (model_error + 's journaling_stream)" where
  "journaling_complete J R digest pid started_at ended_at t inner messages config s =
     (case cbor_error (rc_request R pid messages config) of
        Inl e \<Rightarrow> (s, Inl e)
      | Inr request_bytes \<Rightarrow>
          (case put_bytes J R s request_bytes of
             (s1, Inl e) \<Rightarrow> (s1, Inl e)
           | (s1, Inr _) \<Rightarrow>
               (case inner of
                  (collected, Inr _) \<Rightarrow>
                    (s1, Inr (journaling_stream_new s1 pid (digest request_bytes) started_at collected))
                | (collected, Inl err) \<Rightarrow>
                    (let attempt = \<lparr>at_attempt_number = 1, at_started_at = started_at, at_ended_at = ended_at,
                           at_status = map_model_error_to_attempt_status err, at_request_hash = digest request_bytes,
                           at_response_hash = None, at_stream_hash = None,
                           at_error_message = Some (model_error_to_string err)\<rparr> in
                     case append_provider_call J R t s1 pid [attempt] None of
                       (s2, Inl e) \<Rightarrow> (s2, Inl e)
                     | (s2, Inr _) \<Rightarrow> (s2, Inl err)))))"

section \<open>The tool wrapper\<close>

definition store_canonical_or_zero :: "'s journal_ops \<Rightarrow> hash \<Rightarrow> 's \<Rightarrow> string + byte list \<Rightarrow> 's \<times> hash" where
  "store_canonical_or_zero J zero s enc =
     (case enc of
        Inl _ \<Rightarrow> (s, zero)
      | Inr b \<Rightarrow> (case jo_put J s b of (s', Inl _) \<Rightarrow> (s', zero) | (s', Inr h) \<Rightarrow> (s', h)))"

text \<open>\<open>zero\<close> is \<open>zero_hash\<close> of the store; \<open>input\<close> and \<open>enc\<close> are the encodings of the arguments and of an output, \<open>run\<close> the inner tool, which works on
  the rest of the world \<open>'w\<close>, and \<open>side_effects\<close> its manifest.\<close>

definition journaling_tool_execute ::
    "'s journal_ops \<Rightarrow> hash \<Rightarrow> string \<Rightarrow> datetime \<Rightarrow> string + byte list \<Rightarrow> ('o \<Rightarrow> string + byte list)
     \<Rightarrow> ('w \<Rightarrow> 'w \<times> 'o) \<Rightarrow> ('o \<Rightarrow> byte list option) \<Rightarrow> 's \<times> 'w \<Rightarrow> ('s \<times> 'w) \<times> 'o" where
  "journaling_tool_execute J zero tid t input enc run side_effects st =
     (case st of (s, w) \<Rightarrow>
        (let (s1, ih) = store_canonical_or_zero J zero s input;
             (w', output) = run w;
             (s2, oh) = store_canonical_or_zero J zero s1 (enc output);
             (s3, eh) =
               (case side_effects output of
                  None \<Rightarrow> (s2, None)
                | Some b \<Rightarrow> (case store_canonical_or_zero J zero s2 (Inr b) of (s', h) \<Rightarrow> (s', Some h)));
             (s4, _) = jo_append J t s3 (ToolCall tid ih oh eh) in
         ((s4, w'), output)))"

section \<open>Events of the agent loop\<close>

text \<open>The session fails with the text of the journal error.\<close>

definition loop_error :: "'c recorder_env \<Rightarrow> 's \<times> (journal_error + 'a) \<Rightarrow> 's \<times> (agent_error + unit)" where
  "loop_error R r =
     (case r of (s, Inl e) \<Rightarrow> (s, Inl (SessionFailed (rc_journal_text R e))) | (s, Inr _) \<Rightarrow> (s, Inr ()))"

text \<open>\<open>cwd\<close> is the current directory or the text of the error, \<open>config\<close> its encoding or the error of
  \<open>canonical_cbor_bytes\<close>.\<close>

definition emit_session_start ::
    "'s journal_ops \<Rightarrow> 'c recorder_env \<Rightarrow> datetime \<Rightarrow> string + string \<Rightarrow> agent_error + byte list \<Rightarrow> 's
     \<Rightarrow> 's \<times> (agent_error + unit)" where
  "emit_session_start J R t cwd config s =
     (case cwd of
        Inl e \<Rightarrow> (s, Inl (SessionFailed (''current_dir: '' @ e)))
      | Inr d \<Rightarrow>
          (case jo_put J s (as_bytes d) of
             (s1, Inl e) \<Rightarrow> (s1, Inl (SessionFailed (rc_journal_text R e)))
           | (s1, Inr wh) \<Rightarrow>
               (case config of
                  Inl e \<Rightarrow> (s1, Inl e)
                | Inr b \<Rightarrow>
                    loop_error R (with_put J s1 b (\<lambda>s2 ch. jo_append J t s2 (SessionStart wh ch))))))"

definition emit_user_turn ::
    "'s journal_ops \<Rightarrow> 'c recorder_env \<Rightarrow> datetime \<Rightarrow> string \<Rightarrow> 's \<Rightarrow> 's \<times> (agent_error + unit)" where
  "emit_user_turn J R t prompt s =
     loop_error R (with_put J s (as_bytes prompt) (\<lambda>s1 h. jo_append J t s1 (UserTurn h)))"

definition emit_permission_gate ::
    "'s journal_ops \<Rightarrow> 'c recorder_env \<Rightarrow> datetime \<Rightarrow> string \<Rightarrow> string \<Rightarrow> byte list \<Rightarrow> 's \<Rightarrow> 's \<times> (agent_error + unit)" where
  "emit_permission_gate J R t pid d context_bytes s =
     loop_error R (with_put J s context_bytes (\<lambda>s1 h. jo_append J t s1 (PermissionGate pid d h)))"

definition emit_assistant_turn ::
    "'s journal_ops \<Rightarrow> 'c recorder_env \<Rightarrow> datetime \<Rightarrow> byte list \<Rightarrow> byte list option \<Rightarrow> 's \<Rightarrow> 's \<times> (agent_error + unit)" where
  "emit_assistant_turn J R t message_bytes tool_calls_bytes s =
     loop_error R
       (with_put J s message_bytes (\<lambda>s1 h.
          case tool_calls_bytes of
            None \<Rightarrow> jo_append J t s1 (AssistantTurn h None)
          | Some b \<Rightarrow> with_put J s1 b (\<lambda>s2 h'. jo_append J t s2 (AssistantTurn h (Some h')))))"

definition append_session_end ::
    "'s journal_ops \<Rightarrow> 'c recorder_env \<Rightarrow> datetime \<Rightarrow> hash option \<Rightarrow> 's \<Rightarrow> 's \<times> (agent_error + unit)" where
  "append_session_end J R t summary s = loop_error R (jo_append J t s (SessionEnd summary))"

end
