(* ===== verification/Provider_Task.thy ===== *)
theory Provider_Task
  imports Recorder Otel_Content
begin

text \<open>
  What the model clients of \<open>akmon-models\<close> have in common. \<open>complete\<close> spawns a task that posts the request,
  reads the answer as server-sent events, sends stream events into a channel and publishes its attempts; the
  recorder of \<open>Recorder\<close> reads the channel concurrently. A task is the tree of its effects: each node is one
  effect, its subtrees what follows for each outcome. The interleaving of task and recorder is a step relation.
  The body of an answer is the finite list of chunks the connection delivers.
\<close>

section \<open>Tasks\<close>

text \<open>The outcome of a request: the error of \<open>send\<close> (\<open>is_connect\<close>, \<open>is_timeout\<close>, its text), or a response with
  its status, the \<open>Retry-After\<close> header, what \<open>text()\<close> gives, whether the deadline of the first event passes, and the chunks
  of the body (an error by its text).\<close>

datatype http_reply =
    HrFailed bool bool string
  | HrResponse nat "string option" "string + string" bool "(string + byte list) list"

datatype task =
    TkEnd
  | TkNow "datetime \<Rightarrow> task"
  | TkPut "byte list" "journal_error + hash \<Rightarrow> task"
  | TkRecord attempt_record task
  | TkSend "model_error + stream_event" "bool \<Rightarrow> task"
  | TkPost json "http_reply \<Rightarrow> task"

text \<open>The executions of a task, as the list of its effects.\<close>

datatype task_act =
    ActPut "byte list" "journal_error + hash"
  | ActRecord attempt_record
  | ActSend "model_error + stream_event" bool
  | ActPost json http_reply

inductive task_exec :: "task \<Rightarrow> task_act list \<Rightarrow> bool" where
  exec_end: "task_exec TkEnd []"
| exec_now: "task_exec (k t) as \<Longrightarrow> task_exec (TkNow k) as"
| exec_put: "task_exec (k r) as \<Longrightarrow> task_exec (TkPut b k) (ActPut b r # as)"
| exec_record: "task_exec t as \<Longrightarrow> task_exec (TkRecord a t) (ActRecord a # as)"
| exec_send: "task_exec (k ok) as \<Longrightarrow> task_exec (TkSend x k) (ActSend x ok # as)"
| exec_post: "task_exec (k r) as \<Longrightarrow> task_exec (TkPost b k) (ActPost b r # as)"

text \<open>\<open>task_wp t Q\<close>: the effects of every execution of \<open>t\<close> satisfy \<open>Q\<close>.\<close>

primrec task_wp :: "task \<Rightarrow> (task_act list \<Rightarrow> bool) \<Rightarrow> bool" where
  "task_wp TkEnd = (\<lambda>Q. Q [])"
| "task_wp (TkNow k) = (\<lambda>Q. \<forall>t. task_wp (k t) Q)"
| "task_wp (TkPut b k) = (\<lambda>Q. \<forall>r. task_wp (k r) (\<lambda>as. Q (ActPut b r # as)))"
| "task_wp (TkRecord a t) = (\<lambda>Q. task_wp t (\<lambda>as. Q (ActRecord a # as)))"
| "task_wp (TkSend x k) = (\<lambda>Q. \<forall>ok. task_wp (k ok) (\<lambda>as. Q (ActSend x ok # as)))"
| "task_wp (TkPost b k) = (\<lambda>Q. \<forall>r. task_wp (k r) (\<lambda>as. Q (ActPost b r # as)))"

lemma task_wp_sound: "task_exec t as \<Longrightarrow> task_wp t Q \<Longrightarrow> Q as"
proof (induction arbitrary: Q rule: task_exec.induct)
  case (exec_now k t as)
  then show ?case using exec_now.IH [of Q] by simp
next
  case (exec_put k r as b)
  then show ?case using exec_put.IH [of "\<lambda>as. Q (ActPut b r # as)"] by simp
next
  case (exec_record t as a)
  then show ?case using exec_record.IH [of "\<lambda>as. Q (ActRecord a # as)"] by simp
next
  case (exec_send k ok as x)
  then show ?case using exec_send.IH [of "\<lambda>as. Q (ActSend x ok # as)"] by simp
next
  case (exec_post k r as b)
  then show ?case using exec_post.IH [of "\<lambda>as. Q (ActPost b r # as)"] by simp
qed simp_all

lemma task_wp_complete: "(\<And>as. task_exec t as \<Longrightarrow> Q as) \<Longrightarrow> task_wp t Q"
proof (induction t arbitrary: Q)
  case (TkRecord a t)
  have "Q (ActRecord a # as)" if "task_exec t as" for as using TkRecord.prems exec_record [OF that] .
  then show ?case by (auto intro: TkRecord.IH)
next
  case (TkPut b k)
  have "Q (ActPut b r # as)" if "task_exec (k r) as" for r as using TkPut.prems exec_put [of k r, OF that] .
  then show ?case by (auto intro: TkPut.IH)
next
  case (TkSend x k)
  have "Q (ActSend x r # as)" if "task_exec (k r) as" for r as using TkSend.prems exec_send [of k r, OF that] .
  then show ?case by (auto intro: TkSend.IH)
next
  case (TkPost b k)
  have "Q (ActPost b r # as)" if "task_exec (k r) as" for r as using TkPost.prems exec_post [of k r, OF that] .
  then show ?case by (auto intro: TkPost.IH)
qed (auto intro: task_exec.intros)

lemma task_wp_mono: "task_wp t P \<Longrightarrow> (\<And>as. P as \<Longrightarrow> Q as) \<Longrightarrow> task_wp t Q"
  by (rule task_wp_complete) (blast dest: task_wp_sound)

fun records_of :: "task_act list \<Rightarrow> attempt_record list" where
  "records_of [] = []"
| "records_of (ActRecord a # as) = a # records_of as"
| "records_of (_ # as) = records_of as"

fun posts_of :: "task_act list \<Rightarrow> json list" where
  "posts_of [] = []"
| "posts_of (ActPost b _ # as) = b # posts_of as"
| "posts_of (_ # as) = posts_of as"

fun sent_of :: "task_act list \<Rightarrow> (model_error + stream_event) list" where
  "sent_of [] = []"
| "sent_of (ActSend x True # as) = x # sent_of as"
| "sent_of (_ # as) = sent_of as"

lemma records_of_append [simp]: "records_of (as @ bs) = records_of as @ records_of bs"
  by (induction as rule: records_of.induct) simp_all

lemma posts_of_append [simp]: "posts_of (as @ bs) = posts_of as @ posts_of bs"
  by (induction as rule: posts_of.induct) simp_all

lemma sent_of_append [simp]: "sent_of (as @ bs) = sent_of as @ sent_of bs"
  by (induction as rule: sent_of.induct) simp_all

section \<open>Parameters of a client\<close>

text \<open>\<open>cl_parse\<close>, \<open>cl_print\<close>: \<open>serde_json::from_str\<close> and \<open>to_string\<close>; the \<open>cl_*\<close> encoders: \<open>canonical_cbor_bytes\<close>;
  \<open>cl_status\<close>: the printed form of a status code; \<open>cl_journal_text\<close>: that of a journal error.\<close>

record client_env =
  cl_parse :: "string \<Rightarrow> string + json"
  cl_print :: "json \<Rightarrow> string"
  cl_body :: "json \<Rightarrow> string + byte list"
  cl_response :: "synthesized_response \<Rightarrow> string + byte list"
  cl_chunk :: "stream_event_chunk \<Rightarrow> string + byte list"
  cl_hashes :: "hash list \<Rightarrow> string + byte list"
  cl_journal_text :: "journal_error \<Rightarrow> string"
  cl_status :: "nat \<Rightarrow> string"
  cl_lower :: "string \<Rightarrow> string"

record tool_definition =
  td_name :: string
  td_description :: string
  td_parameters :: json

text \<open>\<open>cc_temperature\<close> is the JSON value of the number.\<close>

record completion_config =
  cc_max_tokens :: u32
  cc_session_id :: "string option"
  cc_temperature :: json
  cc_first_token_deadline_ms :: u64
  cc_stream :: bool
  cc_tools :: "tool_definition list"
  cc_fallback_model :: "string option"

definition is_success :: "nat \<Rightarrow> bool" where
  "is_success st \<longleftrightarrow> 200 \<le> st \<and> st < 300"

definition sentinel_hash :: hash where
  "sentinel_hash = \<lparr>h_algorithm = Sha256, h_bytes = replicate 32 0\<rparr>"

definition HINT_MARK :: string where
  "HINT_MARK = [CHR 0xE2, CHR 0x9F, CHR 0xB3]"

definition ELLIPSIS :: string where
  "ELLIPSIS = [CHR 0xE2, CHR 0x80, CHR 0xA6]"

section \<open>Pieces of a task\<close>

definition send_end :: "model_error + stream_event \<Rightarrow> task" where
  "send_end x = TkSend x (\<lambda>_. TkEnd)"

text \<open>An attempt is published when there is an observer, which the hash of the request stands for.\<close>

definition record_attempt ::
    "nat \<Rightarrow> datetime \<Rightarrow> hash option \<Rightarrow> attempt_status \<Rightarrow> hash option \<Rightarrow> hash option \<Rightarrow> string option \<Rightarrow> task \<Rightarrow> task" where
  "record_attempt n started_at request_hash st response_hash sh err k =
     (case request_hash of
        None \<Rightarrow> k
      | Some rh \<Rightarrow>
          TkNow (\<lambda>ended_at. TkRecord
            \<lparr>at_attempt_number = of_nat n, at_started_at = started_at, at_ended_at = ended_at, at_status = st,
             at_request_hash = rh, at_response_hash = response_hash, at_stream_hash = sh, at_error_message = err\<rparr> k))"

definition attempt_failure :: "nat \<Rightarrow> datetime \<Rightarrow> hash option \<Rightarrow> attempt_status \<Rightarrow> model_error \<Rightarrow> task" where
  "attempt_failure n t0 rh st err =
     record_attempt n t0 rh st None None (Some (model_error_to_string err)) (send_end (Inl err))"

text \<open>\<open>canonical_cbor_bytes(..).ok().and_then(|bytes| obs.put_object(&bytes).ok())\<close>.\<close>

definition put_opt :: "string + byte list \<Rightarrow> (hash option \<Rightarrow> task) \<Rightarrow> task" where
  "put_opt enc k =
     (case enc of
        Inl _ \<Rightarrow> k None
      | Inr b \<Rightarrow> TkPut b (\<lambda>r. k (case r of Inl _ \<Rightarrow> None | Inr h \<Rightarrow> Some h)))"

text \<open>What an answer has produced so far.\<close>

record answer_state =
  an_hashes :: "hash list"
  an_response :: synthesized_response
  an_done :: bool

definition answer_start :: answer_state where
  "answer_start = \<lparr>an_hashes = [], an_response = \<lparr>sy_text = [], sy_tool_calls = [], sy_stop_reason = None\<rparr>, an_done = False\<rparr>"

text \<open>The chunks of the clients have no usage.\<close>

definition client_chunk :: "stream_event \<Rightarrow> stream_event_chunk" where
  "client_chunk e = (stream_event_chunk_of e)\<lparr>ck_usage := None\<rparr>"

definition observe_event :: "client_env \<Rightarrow> bool \<Rightarrow> stream_event \<Rightarrow> answer_state \<Rightarrow> (answer_state \<Rightarrow> task) \<Rightarrow> task" where
  "observe_event E obs ev st k =
     (if \<not> obs then k st
      else put_opt (cl_chunk E (client_chunk ev)) (\<lambda>r.
        case r of None \<Rightarrow> k st | Some h \<Rightarrow> k (st\<lparr>an_hashes := an_hashes st @ [h]\<rparr>)))"

definition is_done :: "stream_event \<Rightarrow> bool" where
  "is_done e = (case e of SeDone _ _ \<Rightarrow> True | _ \<Rightarrow> False)"

text \<open>The events of one block; the task ends when the receiver is gone.\<close>

fun emit_block :: "client_env \<Rightarrow> bool \<Rightarrow> stream_event list \<Rightarrow> answer_state \<Rightarrow> (answer_state \<Rightarrow> task) \<Rightarrow> task" where
  "emit_block E obs [] st k = k st"
| "emit_block E obs (ev # evs) st k =
     observe_event E obs ev st (\<lambda>st1.
       let st2 = st1\<lparr>an_response := accumulate_response ev (an_response st1), an_done := an_done st1 \<or> is_done ev\<rparr> in
       TkSend (Inr ev) (\<lambda>ok. if ok then emit_block E obs evs st2 k else TkEnd))"

text \<open>An answer that fails after its first event.\<close>

definition answer_failure ::
    "client_env \<Rightarrow> nat \<Rightarrow> datetime \<Rightarrow> hash option \<Rightarrow> answer_state \<Rightarrow> model_error \<Rightarrow> task" where
  "answer_failure E n t0 rh st e =
     (case rh of
        None \<Rightarrow> send_end (Inl e)
      | Some h \<Rightarrow>
          TkNow (\<lambda>ended_at.
            put_opt (cl_response E (an_response st)) (\<lambda>response_hash.
            put_opt (cl_hashes E (an_hashes st)) (\<lambda>sh.
            TkRecord
              \<lparr>at_attempt_number = of_nat n, at_started_at = t0, at_ended_at = ended_at,
               at_status = map_model_error_to_attempt_status e, at_request_hash = h,
               at_response_hash = response_hash, at_stream_hash = sh,
               at_error_message = Some (model_error_to_string e)\<rparr>
              (send_end (Inl e))))))"

text \<open>The end of a stream that sent no \<open>Done\<close>: the usage seen so far, and \<open>Done\<close>.\<close>

definition close_answer ::
    "client_env \<Rightarrow> bool \<Rightarrow> (u32 \<times> u32 \<times> u32 \<times> u32) option \<Rightarrow> answer_state \<Rightarrow> (answer_state \<Rightarrow> task) \<Rightarrow> task" where
  "close_answer E obs usage st k =
     (let finish = (\<lambda>st1.
            observe_event E obs (SeDone EndTurn []) st1 (\<lambda>st2.
              let st3 = st2\<lparr>an_response := accumulate_response (SeDone EndTurn []) (an_response st2), an_done := True\<rparr> in
              TkSend (Inr (SeDone EndTurn [])) (\<lambda>_. k st3))) in
      case usage of
        None \<Rightarrow> finish st
      | Some (a, b, c, d) \<Rightarrow>
          observe_event E obs (SeUsageReport a b c d) st (\<lambda>st1.
            TkSend (Inr (SeUsageReport a b c d)) (\<lambda>_. finish st1)))"

text \<open>The attempt that succeeded.\<close>

definition answer_success :: "client_env \<Rightarrow> nat \<Rightarrow> datetime \<Rightarrow> hash option \<Rightarrow> answer_state \<Rightarrow> task" where
  "answer_success E n t0 rh st =
     (case rh of
        None \<Rightarrow> TkEnd
      | Some h \<Rightarrow>
          (let r = an_response st;
               put_if = (\<lambda>c enc k. if c then k None else put_opt enc k) in
           TkNow (\<lambda>ended_at.
             put_if (sy_text r = [] \<and> sy_tool_calls r = [] \<and> sy_stop_reason r = None) (cl_response E r) (\<lambda>response_hash.
             put_if (an_hashes st = []) (cl_hashes E (an_hashes st)) (\<lambda>sh.
             TkRecord
               \<lparr>at_attempt_number = of_nat n, at_started_at = t0, at_ended_at = ended_at, at_status = Success,
                at_request_hash = h, at_response_hash = response_hash, at_stream_hash = sh, at_error_message = None\<rparr>
               TkEnd)))))"

text \<open>The request is stored before it is sent.\<close>

definition request_stored ::
    "client_env \<Rightarrow> nat \<Rightarrow> datetime \<Rightarrow> (datetime \<Rightarrow> hash option \<Rightarrow> task) \<Rightarrow> journal_error + hash \<Rightarrow> task" where
  "request_stored E n t0 k r =
     (case r of
        Inr h \<Rightarrow> k t0 (Some h)
      | Inl err \<Rightarrow>
          (let m = ''journal write failed: '' @ cl_journal_text E err in
           record_attempt n t0 (Some sentinel_hash) (Other m) None None (Some m)
             (send_end (Inl (BackendUnavailable m)))))"

definition begin_attempt ::
    "client_env \<Rightarrow> bool \<Rightarrow> nat \<Rightarrow> json \<Rightarrow> (datetime \<Rightarrow> hash option \<Rightarrow> task) \<Rightarrow> task" where
  "begin_attempt E obs n request k =
     TkNow (\<lambda>t0.
       if \<not> obs then k t0 None
       else
         (case cl_body E request of
            Inl err \<Rightarrow>
              (let e = BackendUnavailable (''canonical cbor encode failed: '' @ err) in
               record_attempt n t0 (Some sentinel_hash) (Other (model_error_to_string e)) None None
                 (Some (model_error_to_string e)) (send_end (Inl e)))
          | Inr b \<Rightarrow> TkPut b (request_stored E n t0 k)))"

text \<open>One hint for every second of the wait.\<close>

fun wait_hints :: "nat \<Rightarrow> nat \<Rightarrow> task \<Rightarrow> task" where
  "wait_hints n 0 k = k"
| "wait_hints n (Suc remaining) k =
     TkSend (Inr (SeStatusHint (HINT_MARK @ '' rate limited '' @ EM_DASH @ '' retrying in '' @ show_nat (Suc remaining)
       @ ''s ('' @ show_nat n @ ''/5)''))) (\<lambda>_. wait_hints n remaining k)"

section \<open>What the pieces do\<close>

text \<open>Everything a task offers to the channel, accepted or not.\<close>

fun sends_of :: "task_act list \<Rightarrow> (model_error + stream_event) list" where
  "sends_of [] = []"
| "sends_of (ActSend x _ # as) = x # sends_of as"
| "sends_of (_ # as) = sends_of as"

text \<open>Stored objects do not count for what follows.\<close>

lemma wp_put_opt:
  assumes "\<And>r. task_wp (k r) Q" "\<And>b r as. Q as \<Longrightarrow> Q (ActPut b r # as)"
  shows "task_wp (put_opt enc k) Q"
  by (auto simp: put_opt_def assms(1) intro!: task_wp_mono [OF assms(1)] assms(2) split: sum.split)

lemma wp_observe_event:
  assumes "\<And>st. task_wp (k st) Q" "\<And>b r as. Q as \<Longrightarrow> Q (ActPut b r # as)"
  shows "task_wp (observe_event E obs ev st k) Q"
  using assms by (auto simp: observe_event_def intro!: wp_put_opt split: option.split)

text \<open>Nothing but the publication of a success.\<close>

definition succeeds :: "hash option \<Rightarrow> task_act list \<Rightarrow> bool" where
  "succeeds rh as \<longleftrightarrow> sends_of as = [] \<and> posts_of as = []
     \<and> (case rh of
          None \<Rightarrow> records_of as = []
        | Some h \<Rightarrow> \<exists>a. records_of as = [a] \<and> at_status a = Success \<and> at_request_hash a = h \<and> at_error_message a = None)"

lemma wp_answer_succeeds: "task_wp (answer_success E n t0 rh st) (succeeds rh)"
  by (auto simp: answer_success_def put_opt_def succeeds_def Let_def split: option.split sum.split)

text \<open>The end of a stream without \<open>Done\<close>: the usage, \<open>Done\<close> without calls, and a success.\<close>

definition closes :: "(u32 \<times> u32 \<times> u32 \<times> u32) option \<Rightarrow> hash option \<Rightarrow> task_act list \<Rightarrow> bool" where
  "closes usage rh as \<longleftrightarrow>
     sends_of as = map Inr ((case usage of None \<Rightarrow> [] | Some (a, b, c, d) \<Rightarrow> [SeUsageReport a b c d]) @ [SeDone EndTurn []])
     \<and> posts_of as = []
     \<and> (case rh of
          None \<Rightarrow> records_of as = []
        | Some h \<Rightarrow> \<exists>a. records_of as = [a] \<and> at_status a = Success \<and> at_request_hash a = h \<and> at_error_message a = None)"

lemma closes_put: "closes usage rh as \<Longrightarrow> closes usage rh (ActPut b r # as)"
  by (simp add: closes_def split: option.splits)

lemma wp_close_done:
  "task_wp (close_answer E obs None st (answer_success E n t0 rh)) (closes None rh)"
proof -
  have "task_wp (answer_success E n t0 rh st') (\<lambda>as. closes None rh (ActSend (Inr (SeDone EndTurn [])) ok # as))" for st' ok
    by (rule task_wp_mono [OF wp_answer_succeeds]) (simp add: closes_def succeeds_def split: option.splits)
  then show ?thesis by (auto simp: close_answer_def Let_def intro!: wp_observe_event closes_put)
qed

lemma wp_close_answer_closes:
  "task_wp (close_answer E obs usage st (answer_success E n t0 rh)) (closes usage rh)"
proof (cases usage)
  case (Some u)
  obtain a b c d where u: "u = (a, b, c, d)" by (cases u) auto
  have "task_wp (close_answer E obs None st' (answer_success E n t0 rh))
      (\<lambda>as. closes usage rh (ActSend (Inr (SeUsageReport a b c d)) ok # as))" for st' ok
    by (rule task_wp_mono [OF wp_close_done]) (simp add: closes_def Some u split: option.splits)
  then have "task_wp (TkSend (Inr (SeUsageReport a b c d)) (\<lambda>_. close_answer E obs None st' (answer_success E n t0 rh)))
      (closes usage rh)" for st' by simp
  then have "task_wp (observe_event E obs (SeUsageReport a b c d) st (\<lambda>st'. TkSend (Inr (SeUsageReport a b c d))
      (\<lambda>_. close_answer E obs None st' (answer_success E n t0 rh)))) (closes usage rh)"
    by (rule wp_observe_event) (rule closes_put)
  then show ?thesis by (simp add: close_answer_def Let_def Some u)
qed (simp add: wp_close_done)

end
