(* ===== verification/Sse_Reader.thy ===== *)
theory Sse_Reader
  imports Provider_Task
begin

text \<open>
  Reading an answer: \<open>String::from_utf8_lossy\<close> on each chunk of the body, and the cut of the text into the blocks
  of a server-sent event stream (\<open>read_next_sse_event\<close>, \<open>sse_block_to_json\<close> of the clients).
\<close>

section \<open>Lossy decoding\<close>

text \<open>The bytes that may follow the first byte of an encoding of three or four bytes.\<close>

definition second_ok :: "char \<Rightarrow> char \<Rightarrow> bool" where
  "second_ok a b \<longleftrightarrow>
     (if code a = 0xE0 then 0xA0 \<le> code b \<and> code b \<le> 0xBF
      else if code a = 0xED then 0x80 \<le> code b \<and> code b \<le> 0x9F
      else if code a = 0xF0 then 0x90 \<le> code b \<and> code b \<le> 0xBF
      else if code a = 0xF4 then 0x80 \<le> code b \<and> code b \<le> 0x8F
      else cont b)"

definition nth_is :: "(char \<Rightarrow> bool) \<Rightarrow> string \<Rightarrow> nat \<Rightarrow> bool" where
  "nth_is P s i \<longleftrightarrow> i < length s \<and> P (s ! i)"

text \<open>What is taken from a non-empty text: the number of bytes, and whether they are a character. Of an encoding
  that breaks off, the part that was well formed is taken.\<close>

definition lossy_step :: "string \<Rightarrow> nat \<times> bool" where
  "lossy_step s =
     (let a = hd s in
      if code a < 0x80 then (1, True)
      else if 0xC2 \<le> code a \<and> code a \<le> 0xDF then
        (if nth_is cont s 1 then (2, True) else (1, False))
      else if 0xE0 \<le> code a \<and> code a \<le> 0xEF then
        (if \<not> nth_is (second_ok a) s 1 then (1, False)
         else if \<not> nth_is cont s 2 then (2, False) else (3, True))
      else if 0xF0 \<le> code a \<and> code a \<le> 0xF4 then
        (if \<not> nth_is (second_ok a) s 1 then (1, False)
         else if \<not> nth_is cont s 2 then (2, False)
         else if \<not> nth_is cont s 3 then (3, False) else (4, True))
      else (1, False))"

definition REPLACEMENT :: string where
  "REPLACEMENT = [CHR 0xEF, CHR 0xBF, CHR 0xBD]"

lemma lossy_step_pos: "0 < fst (lossy_step s)"
  by (simp add: lossy_step_def Let_def)

function lossy_text :: "string \<Rightarrow> string" where
  "lossy_text s =
     (if s = [] then []
      else case lossy_step s of (n, ok) \<Rightarrow> (if ok then take n s else REPLACEMENT) @ lossy_text (drop n s))"
  by pat_completeness auto
termination
proof (relation "measure length", goal_cases)
  case (2 s n ok)
  with lossy_step_pos [of s] have "0 < n" by (metis fst_conv)
  with 2 show ?case by simp
qed simp

declare lossy_text.simps [simp del]

definition from_utf8_lossy :: "byte list \<Rightarrow> string" where
  "from_utf8_lossy bs = lossy_text (bytes_text bs)"

lemma lossy_text_Nil [simp]: "lossy_text [] = []"
  by (simp add: lossy_text.simps)

lemma lossy_step_valid: "valid_char p \<Longrightarrow> lossy_step (p @ s) = (length p, True)"
  by (cases p rule: valid_char.cases)
    (auto simp: lossy_step_def nth_is_def second_ok_def cont_def nth_Cons' Let_def)

lemma lossy_text_char [simp]: "valid_char p \<Longrightarrow> lossy_text (p @ s) = p @ lossy_text s"
  by (subst lossy_text.simps) (auto simp: lossy_step_valid)

lemma lossy_text_valid_append: "utf8_valid s \<Longrightarrow> lossy_text (s @ t) = s @ lossy_text t"
proof -
  have "list_all valid_char ps \<Longrightarrow> lossy_text (concat ps @ t) = concat ps @ lossy_text t" for ps
    by (induction ps) simp_all
  then show "utf8_valid s \<Longrightarrow> lossy_text (s @ t) = s @ lossy_text t" by (auto elim!: utf8_validE)
qed

lemma from_utf8_lossy_valid: "utf8_valid (bytes_text bs) \<Longrightarrow> from_utf8_lossy bs = bytes_text bs"
  using lossy_text_valid_append [of "bytes_text bs" "[]"] by (simp add: from_utf8_lossy_def)

section \<open>Blocks\<close>

text \<open>\<open>buf.find("\n\n")\<close>: the text before and after the first blank line.\<close>

fun split_blank :: "string \<Rightarrow> (string \<times> string) option" where
  "split_blank (a # b # s) =
     (if a = LF \<and> b = LF then Some ([], s)
      else map_option (\<lambda>(x, y). (a # x, y)) (split_blank (b # s)))"
| "split_blank _ = None"

lemma split_blank_Some: "split_blank s = Some (x, y) \<Longrightarrow> s = x @ [LF, LF] @ y"
  by (induction s arbitrary: x y rule: split_blank.induct) (auto split: if_splits)

lemma split_blank_append: "split_blank s = Some (x, y) \<Longrightarrow> split_blank (s @ t) = Some (x, y @ t)"
  by (induction s arbitrary: x y rule: split_blank.induct) (auto split: if_splits)

definition is_blank :: "string \<Rightarrow> bool" where
  "is_blank s \<longleftrightarrow> trim_ws s = []"

text \<open>\<open>read_next_sse_event\<close> with the rest of the buffer and of the body; the error of a chunk ends the stream.
  \<open>cap\<close> is the most the buffer may hold after a chunk, where the client bounds it, with its error.\<close>

definition read_measure :: "string \<times> (string + byte list) list \<Rightarrow> nat" where
  "read_measure x =
     (case x of (buf, chunks) \<Rightarrow>
        length buf + length chunks
        + sum_list (map (\<lambda>c. case c of Inl _ \<Rightarrow> 0 | Inr bs \<Rightarrow> length (from_utf8_lossy bs)) chunks))"

function read_next_sse_event ::
    "(nat \<times> model_error) option \<Rightarrow> string \<Rightarrow> (string + byte list) list
     \<Rightarrow> (model_error + string option) \<times> string \<times> (string + byte list) list" where
  "read_next_sse_event cap buf chunks =
     (case split_blank buf of
        Some (block, rest) \<Rightarrow>
          if is_blank block then read_next_sse_event cap rest chunks else (Inr (Some block), rest, chunks)
      | None \<Rightarrow>
          (case chunks of
             [] \<Rightarrow> (if is_blank buf then (Inr None, [], []) else (Inr (Some (trim_ws buf)), [], []))
           | Inl e # later \<Rightarrow> (Inl (StreamInterrupted e), buf, later)
           | Inr bytes # later \<Rightarrow>
               (let buf1 = buf @ from_utf8_lossy bytes in
                case cap of
                  Some (mx, err) \<Rightarrow>
                    if length buf1 > mx then (Inl err, buf1, later) else read_next_sse_event cap buf1 later
                | None \<Rightarrow> read_next_sse_event cap buf1 later)))"
  by pat_completeness auto
termination
  by (relation "measure (\<lambda>(cap, x). read_measure x)")
    (auto simp: read_measure_def dest!: split_blank_Some)

declare read_next_sse_event.simps [simp del]

lemma read_block:
  "split_blank buf = Some (block, rest) \<Longrightarrow> read_next_sse_event cap buf chunks =
     (if is_blank block then read_next_sse_event cap rest chunks else (Inr (Some block), rest, chunks))"
  by (subst read_next_sse_event.simps) simp

lemma read_end:
  "split_blank buf = None \<Longrightarrow> read_next_sse_event cap buf [] =
     (if is_blank buf then (Inr None, [], []) else (Inr (Some (trim_ws buf)), [], []))"
  by (subst read_next_sse_event.simps) simp

lemma read_error:
  "split_blank buf = None \<Longrightarrow> read_next_sse_event cap buf (Inl e # later) = (Inl (StreamInterrupted e), buf, later)"
  by (subst read_next_sse_event.simps) simp

lemma read_chunk:
  "split_blank buf = None \<Longrightarrow> read_next_sse_event cap buf (Inr bytes # later) =
     (let buf1 = buf @ from_utf8_lossy bytes in
      case cap of
        Some (mx, err) \<Rightarrow> if length buf1 > mx then (Inl err, buf1, later) else read_next_sse_event cap buf1 later
      | None \<Rightarrow> read_next_sse_event cap buf1 later)"
  by (subst read_next_sse_event.simps) simp

lemmas read_steps = read_block read_end read_error read_chunk

lemma trim_ws_Nil [simp]: "trim_ws [] = []"
  by code_simp

lemma read_next_measure:
  "read_next_sse_event cap buf chunks = (Inr (Some b), buf', chunks')
   \<Longrightarrow> read_measure (buf', chunks') < read_measure (buf, chunks)"
proof (induction cap buf chunks rule: read_next_sse_event.induct)
  case (1 cap buf chunks)
  show ?case
  proof (cases "split_blank buf")
    case (Some br)
    then obtain blk rest where s: "split_blank buf = Some (blk, rest)" by (cases br) auto
    then have "read_measure (rest, chunks) < read_measure (buf, chunks)"
      by (auto dest!: split_blank_Some simp: read_measure_def)
    moreover have "read_measure (buf', chunks') < read_measure (rest, chunks)" if "is_blank blk"
      using 1 s that by (simp add: read_block)
    ultimately show ?thesis using 1(4) s by (cases "is_blank blk") (auto simp: read_block)
  next
    case None
    show ?thesis
    proof (cases chunks)
      case Nil
      with None 1(4) show ?thesis by (auto simp: read_end read_measure_def is_blank_def split: if_splits)
    next
      case (Cons c later)
      show ?thesis
      proof (cases c)
        case (Inr bytes)
        have r: "read_next_sse_event cap (buf @ from_utf8_lossy bytes) later = (Inr (Some b), buf', chunks')"
          and cap: "\<And>mx err. cap = Some (mx, err) \<Longrightarrow> \<not> mx < length (buf @ from_utf8_lossy bytes)"
          using 1(4) None Cons Inr by (auto simp: read_chunk Let_def split: option.splits if_splits)
        have "read_measure (buf', chunks') < read_measure (buf @ from_utf8_lossy bytes, later)"
        proof (cases cap)
          case (Some me)
          with cap show ?thesis using 1 r None Cons Inr by (cases me) simp
        qed (use 1 r None Cons Inr in simp)
        also have "\<dots> < read_measure (buf, chunks)" by (simp add: read_measure_def Cons Inr)
        finally show ?thesis .
      qed (use None Cons 1(4) in \<open>simp add: read_error\<close>)
    qed
  qed
qed

text \<open>All blocks of a stream, with the error that ends it.\<close>

function sse_events ::
    "(nat \<times> model_error) option \<Rightarrow> string \<Rightarrow> (string + byte list) list \<Rightarrow> string list \<times> model_error option" where
  "sse_events cap buf chunks =
     (case read_next_sse_event cap buf chunks of
        (Inl e, _) \<Rightarrow> ([], Some e)
      | (Inr None, _) \<Rightarrow> ([], None)
      | (Inr (Some b), buf1, later) \<Rightarrow>
          (case sse_events cap buf1 later of (bs, end) \<Rightarrow> (b # bs, end)))"
  by pat_completeness auto
termination
  by (relation "measure (\<lambda>(cap, x). read_measure x)") (auto dest!: sym [of "(_, _)"] read_next_measure)

declare sse_events.simps [simp del]

lemma events_block:
  "split_blank buf = Some (block, rest) \<Longrightarrow> sse_events cap buf chunks =
     (if is_blank block then sse_events cap rest chunks
      else case sse_events cap rest chunks of (bs, end) \<Rightarrow> (block # bs, end))"
  by (simp add: sse_events.simps [of cap buf] read_block sse_events.simps [of cap rest] split: prod.split)

lemma events_chunk:
  "split_blank buf = None \<Longrightarrow>
   sse_events None buf (Inr bytes # later) = sse_events None (buf @ from_utf8_lossy bytes) later"
  by (simp add: sse_events.simps [of None buf] read_chunk sse_events.simps [of None "buf @ _"])

text \<open>Where the body is cut into chunks decides nothing but what the decoder of each chunk sees.\<close>

lemma events_of_chunks:
  "sse_events None buf (map Inr cs) = sse_events None (buf @ concat (map from_utf8_lossy cs)) []"
proof (induction "read_measure (buf, map Inr cs)" arbitrary: buf cs rule: less_induct)
  case less
  show ?case
  proof (cases "split_blank buf")
    case (Some br)
    then obtain blk rest where s: "split_blank buf = Some (blk, rest)" by (cases br) auto
    then have "read_measure (rest, map Inr cs) < read_measure (buf, map Inr cs)"
      by (auto dest!: split_blank_Some simp: read_measure_def)
    from less [OF this] show ?thesis by (simp add: events_block [OF s] events_block [OF split_blank_append [OF s]])
  next
    case None
    show ?thesis
    proof (cases cs)
      case (Cons c cs')
      then have "read_measure (buf @ from_utf8_lossy c, map Inr cs') < read_measure (buf, map Inr cs)"
        by (simp add: read_measure_def)
      from less [OF this] show ?thesis by (simp add: Cons events_chunk [OF None])
    qed simp
  qed
qed

lemma concat_lossy_valid:
  "list_all (\<lambda>c. utf8_valid (bytes_text c)) cs \<Longrightarrow> concat (map from_utf8_lossy cs) = bytes_text (concat cs)"
  by (induction cs) (simp_all add: from_utf8_lossy_valid bytes_text_def)

text \<open>The payload of a block: its \<open>data:\<close> lines, joined.\<close>

definition data_line :: "string \<Rightarrow> string option" where
  "data_line line =
     (case strip_prefix ''data:'' (trim_end_ws line) of
        None \<Rightarrow> None
      | Some rest \<Rightarrow> (let payload = trim_ws rest in if payload = [] then None else Some payload))"

definition sse_block_to_json :: "client_env \<Rightarrow> string \<Rightarrow> model_error + json option" where
  "sse_block_to_json E block =
     (case List.map_filter data_line (str_lines block) of
        [] \<Rightarrow> Inr None
      | payloads \<Rightarrow>
          (let s = join [LF] payloads in
           if s = ''[DONE]'' then Inr None
           else
             (case cl_parse E s of
                Inl e \<Rightarrow> Inl (StreamInterrupted (''invalid SSE JSON: '' @ e))
              | Inr v \<Rightarrow> Inr (Some v))))"

section \<open>Members of JSON values\<close>

fun json_as_u64 :: "json \<Rightarrow> u64 option" where
  "json_as_u64 (JNumber n) = parse_u64 n"
| "json_as_u64 _ = None"

definition member_str :: "json \<Rightarrow> string \<Rightarrow> string option" where
  "member_str v k = Option.bind (Sentinel.json_get v k) Sentinel.json_as_str"

definition member_array :: "json \<Rightarrow> string \<Rightarrow> json list option" where
  "member_array v k = Option.bind (Sentinel.json_get v k) json_as_array"

definition or_default :: "'a \<Rightarrow> 'a option \<Rightarrow> 'a" where
  "or_default d r = (case r of Some x \<Rightarrow> x | None \<Rightarrow> d)"

definition u32_from_json_token_field :: "json option \<Rightarrow> u32" where
  "u32_from_json_token_field v =
     (case Option.bind v json_as_u64 of Some n \<Rightarrow> of_nat (min (unat n) (2 ^ 32 - 1)) | None \<Rightarrow> 0)"

text \<open>\<open>Map::insert\<close>, on the object a request is.\<close>

fun set_member :: "string \<Rightarrow> json \<Rightarrow> json \<Rightarrow> json" where
  "set_member k v (JObject m) = JObject (bt_insert k v m)"
| "set_member k v j = j"

definition json_true :: json where
  "json_true = JBool True"

end
