(* ===== verification/Anthropic.thy ===== *)
theory Anthropic
  imports Sse_Reader
begin

text \<open>
  The client of the Messages API, \<open>akmon-models/src/anthropic.rs\<close>: the request built from the messages, the
  meaning of the events of the answer, and the task with its retries. Strings of the configuration are arguments;
  the number of rate-limited attempts is a natural number, at most 6.
\<close>

section \<open>Requests\<close>

definition anthropic_system_and_rest :: "chat_message list \<Rightarrow> string \<times> chat_message list" where
  "anthropic_system_and_rest ms =
     (join [LF, LF] (map ms_content (filter is_system ms)), filter (\<lambda>m. \<not> is_system m) ms)"

definition anthropic_leading_system_blocks :: "chat_message list \<Rightarrow> string list \<times> chat_message list" where
  "anthropic_leading_system_blocks ms =
     (map ms_content (takeWhile is_system ms), dropWhile is_system ms)"

definition ok_value :: "string + json \<Rightarrow> json option" where
  "ok_value r = (case r of Inl _ \<Rightarrow> None | Inr v \<Rightarrow> Some v)"

definition tool_message_to_result_block :: "client_env \<Rightarrow> chat_message \<Rightarrow> json option" where
  "tool_message_to_result_block E m =
     Option.bind (ok_value (cl_parse E (ms_content m))) (\<lambda>v.
     Option.bind (member_str v ''tool_call_id'') (\<lambda>tid.
     (let output = or_default (JObject []) (Sentinel.json_get v ''output'') in
      Some (json_object [(''type'', JString ''tool_result''), (''tool_use_id'', JString tid),
                         (''content'', JString (cl_print E output))]))))"

definition tool_use_block :: "json \<Rightarrow> json" where
  "tool_use_block tc =
     json_object [(''type'', JString ''tool_use''), (''id'', JString (json_str_or tc ''id'' [])),
       (''name'', JString (json_str_or tc ''name'' [])),
       (''input'', or_default (JObject []) (Sentinel.json_get tc ''arguments''))]"

text \<open>The tool calls of an assistant row, when its content is a record with some.\<close>

definition recorded_calls :: "client_env \<Rightarrow> chat_message \<Rightarrow> (json \<times> json list) option" where
  "recorded_calls E m =
     Option.bind (ok_value (cl_parse E (ms_content m))) (\<lambda>v.
     Option.bind (member_array v ''tool_calls'') (\<lambda>arr. if arr = [] then None else Some (v, arr)))"

definition role_message :: "string \<Rightarrow> json \<Rightarrow> json" where
  "role_message r c = json_object [(''role'', JString r), (''content'', c)]"

definition non_tool_message_to_anthropic :: "client_env \<Rightarrow> chat_message \<Rightarrow> json option" where
  "non_tool_message_to_anthropic E m =
     (case ms_role m of
        RoleUser \<Rightarrow> Some (role_message ''user'' (JString (ms_content m)))
      | RoleAssistant \<Rightarrow>
          (case recorded_calls E m of
             Some (v, arr) \<Rightarrow>
               (let texts = (case member_str v ''text'' of
                      Some t \<Rightarrow> if is_blank t then []
                        else [json_object [(''type'', JString ''text''), (''text'', JString t)]]
                    | None \<Rightarrow> []) in
                Some (role_message ''assistant'' (JArray (texts @ map tool_use_block arr))))
           | None \<Rightarrow> Some (role_message ''assistant'' (JString (ms_content m))))
      | _ \<Rightarrow> None)"

definition is_tool :: "chat_message \<Rightarrow> bool" where
  "is_tool m \<longleftrightarrow> ms_role m = RoleTool"

text \<open>A run of tool rows becomes one user row of their results.\<close>

function build_anthropic_api_messages :: "client_env \<Rightarrow> chat_message list \<Rightarrow> json list" where
  "build_anthropic_api_messages E [] = []"
| "build_anthropic_api_messages E (m # ms) =
     (if is_tool m then
        (let blocks = List.map_filter (tool_message_to_result_block E) (m # takeWhile is_tool ms) in
         (if blocks = [] then [] else [role_message ''user'' (JArray blocks)])
         @ build_anthropic_api_messages E (dropWhile is_tool ms))
      else
        (case non_tool_message_to_anthropic E m of Some v \<Rightarrow> [v] | None \<Rightarrow> [])
        @ build_anthropic_api_messages E ms)"
  by pat_completeness auto
termination
  by (relation "measure (\<lambda>(E, ms). length ms)") (auto simp: less_Suc_eq_le length_dropWhile_le)

definition anthropic_tools_from_config :: "completion_config \<Rightarrow> json list" where
  "anthropic_tools_from_config c =
     map (\<lambda>t. json_object [(''name'', JString (td_name t)), (''description'', JString (td_description t)),
       (''input_schema'', td_parameters t)]) (cc_tools c)"

definition json_u32 :: "u32 \<Rightarrow> json" where
  "json_u32 n = JNumber (show_nat (unat n))"

definition text_block :: "string \<Rightarrow> json" where
  "text_block t = json_object [(''type'', JString ''text''), (''text'', JString t)]"

definition build_request_json :: "string \<Rightarrow> string list \<Rightarrow> json list \<Rightarrow> json list \<Rightarrow> completion_config \<Rightarrow> json" where
  "build_request_json mdl system_blocks ms tools c =
     json_object
       ([(''model'', JString mdl), (''max_tokens'', json_u32 (cc_max_tokens c)), (''stream'', json_true),
         (''temperature'', cc_temperature c), (''cache_control'', json_object [(''type'', JString ''ephemeral'')])]
        @ (if system_blocks = [] then [] else [(''system'', JArray (map text_block system_blocks))])
        @ [(''messages'', JArray ms)]
        @ (if tools = [] then [] else [(''tools'', JArray tools)]))"

definition build_bedrock_anthropic_invoke_json :: "client_env \<Rightarrow> chat_message list \<Rightarrow> completion_config \<Rightarrow> json" where
  "build_bedrock_anthropic_invoke_json E ms c =
     (let (sys, rest) = anthropic_system_and_rest ms;
          api_messages = build_anthropic_api_messages E rest;
          tools = anthropic_tools_from_config c in
      json_object
        ([(''anthropic_version'', JString ''bedrock-2023-05-31''), (''max_tokens'', json_u32 (cc_max_tokens c)),
          (''temperature'', cc_temperature c)]
         @ (if sys = [] then [] else [(''system'', JArray [text_block sys])])
         @ [(''messages'', JArray api_messages)]
         @ (if tools = [] then [] else [(''tools'', JArray tools)])))"

section \<open>Errors\<close>

definition truncate_body :: "string \<Rightarrow> string" where
  "truncate_body s = (if length s \<le> 512 then s else truncate_at_char_boundary s 512 @ ELLIPSIS)"

definition map_anthropic_http_status :: "client_env \<Rightarrow> nat \<Rightarrow> string \<Rightarrow> string option \<Rightarrow> model_error" where
  "map_anthropic_http_status E st txt retry_after =
     (if st = 401 then AuthError
      else if st = 429 then RateLimited (Option.bind retry_after parse_u64)
      else if st = 503 then BackendUnavailable (''HTTP '' @ cl_status E st)
      else BackendUnavailable (''HTTP '' @ cl_status E st @ '': '' @ truncate_body txt))"

definition map_reqwest_send_error :: "bool \<Rightarrow> bool \<Rightarrow> string \<Rightarrow> model_error" where
  "map_reqwest_send_error is_connect is_timeout e =
     (if is_connect then BackendUnavailable e else if is_timeout then FirstTokenTimeout else BackendUnavailable e)"

definition map_http_status_to_attempt_status :: "client_env \<Rightarrow> nat \<Rightarrow> attempt_status" where
  "map_http_status_to_attempt_status E st =
     (if st = 429 then Events.RateLimited
      else if 500 \<le> st \<and> st \<le> 599 then ServerError
      else if 400 \<le> st \<and> st \<le> 499 then ClientError
      else Other (''unexpected HTTP status '' @ cl_status E st))"

section \<open>Events of the answer\<close>

record tool_accum =
  ta_id :: string
  ta_name :: string
  ta_partial_json :: string

record sse_state =
  ss_builds :: "(u64 \<times> tool_accum) list"
  ss_finished :: "(u64 \<times> tool_call) list"
  ss_usage :: "(u32 \<times> u32 \<times> u32 \<times> u32) option"

definition sse_start :: sse_state where
  "sse_start = \<lparr>ss_builds = [], ss_finished = [], ss_usage = None\<rparr>"

definition block_index :: "json \<Rightarrow> u64" where
  "block_index v = or_default 0 (Option.bind (Sentinel.json_get v ''index'') json_as_u64)"

definition message_start :: "json \<Rightarrow> sse_state \<Rightarrow> sse_state" where
  "message_start v s =
     (case Option.bind (Sentinel.json_get v ''message'') (\<lambda>m. Sentinel.json_get m ''usage'') of
        None \<Rightarrow> s
      | Some u \<Rightarrow>
          (let n = (\<lambda>k. u32_from_json_token_field (Sentinel.json_get u k)) in
           s\<lparr>ss_usage := Some (n ''input_tokens'', n ''output_tokens'', n ''cache_creation_input_tokens'',
                                n ''cache_read_input_tokens'')\<rparr>))"

definition content_block_delta :: "json \<Rightarrow> sse_state \<Rightarrow> sse_state \<times> stream_event list" where
  "content_block_delta v s =
     (case Sentinel.json_get v ''delta'' of
        None \<Rightarrow> (s, [])
      | Some delta \<Rightarrow>
          (let dt = json_str_or delta ''type'' [] in
           if dt = ''text_delta'' then
             (s, case member_str delta ''text'' of Some t \<Rightarrow> if t = [] then [] else [SeTextDelta t] | None \<Rightarrow> [])
           else if dt = ''input_json_delta'' then
             (case (member_str delta ''partial_json'', map_of (ss_builds s) (block_index v)) of
                (Some p, Some acc) \<Rightarrow>
                  (s\<lparr>ss_builds := bt_insert (block_index v)
                       (acc\<lparr>ta_partial_json := ta_partial_json acc @ p\<rparr>) (ss_builds s)\<rparr>, [])
              | _ \<Rightarrow> (s, []))
           else (s, [])))"

definition content_block_start :: "json \<Rightarrow> sse_state \<Rightarrow> sse_state" where
  "content_block_start v s =
     (case Sentinel.json_get v ''content_block'' of
        None \<Rightarrow> s
      | Some cb \<Rightarrow>
          if json_str_or cb ''type'' [] = ''tool_use'' then
            s\<lparr>ss_builds := bt_insert (block_index v)
               \<lparr>ta_id = json_str_or cb ''id'' [], ta_name = json_str_or cb ''name'' [], ta_partial_json = []\<rparr> (ss_builds s)\<rparr>
          else s)"

definition tool_arguments :: "client_env \<Rightarrow> string \<Rightarrow> json" where
  "tool_arguments E p =
     (if is_blank p then JObject [] else case cl_parse E p of Inr v \<Rightarrow> v | Inl _ \<Rightarrow> JObject [])"

definition content_block_stop :: "client_env \<Rightarrow> json \<Rightarrow> sse_state \<Rightarrow> sse_state" where
  "content_block_stop E v s =
     (case map_of (ss_builds s) (block_index v) of
        None \<Rightarrow> s
      | Some acc \<Rightarrow>
          s\<lparr>ss_builds := filter (\<lambda>(i, _). i \<noteq> block_index v) (ss_builds s),
            ss_finished := bt_insert (block_index v)
              \<lparr>tc_id = ta_id acc, tc_name = ta_name acc, tc_arguments = tool_arguments E (ta_partial_json acc)\<rparr>
              (ss_finished s)\<rparr>)"

text \<open>A count is replaced when the member is there.\<close>

definition usage_member :: "json \<Rightarrow> string \<Rightarrow> u32 \<Rightarrow> u32" where
  "usage_member u k old =
     (case Sentinel.json_get u k of None \<Rightarrow> old | Some v \<Rightarrow> u32_from_json_token_field (Some v))"

definition update_usage :: "json \<Rightarrow> sse_state \<Rightarrow> sse_state" where
  "update_usage v s =
     (case (Sentinel.json_get v ''usage'', ss_usage s) of
        (Some u, Some (a, b, c, d)) \<Rightarrow>
          s\<lparr>ss_usage := Some (usage_member u ''input_tokens'' a, usage_member u ''output_tokens'' b,
              usage_member u ''cache_creation_input_tokens'' c, usage_member u ''cache_read_input_tokens'' d)\<rparr>
      | _ \<Rightarrow> s)"

definition anthropic_stop_reason :: "string \<Rightarrow> stop_reason" where
  "anthropic_stop_reason sr =
     (if sr = ''end_turn'' then EndTurn else if sr = ''tool_use'' then ToolUse
      else if sr = ''max_tokens'' then MaxTokens else EndTurn)"

definition usage_event :: "(u32 \<times> u32 \<times> u32 \<times> u32) option \<Rightarrow> stream_event list" where
  "usage_event u = (case u of Some (a, b, c, d) \<Rightarrow> [SeUsageReport a b c d] | None \<Rightarrow> [])"

definition message_delta :: "json \<Rightarrow> sse_state \<Rightarrow> sse_state \<times> stream_event list" where
  "message_delta v s =
     (let s1 = update_usage v s in
      case Option.bind (Sentinel.json_get v ''delta'') (\<lambda>d. member_str d ''stop_reason'') of
        None \<Rightarrow> (s1, [])
      | Some sr \<Rightarrow>
          (s1, usage_event (ss_usage s1) @ [SeDone (anthropic_stop_reason sr) (map snd (ss_finished s1))]))"

definition apply_anthropic_sse_json :: "client_env \<Rightarrow> json \<Rightarrow> sse_state \<Rightarrow> model_error + sse_state \<times> stream_event list" where
  "apply_anthropic_sse_json E v s =
     (let ty = json_str_or v ''type'' [] in
      if ty = ''message_start'' then Inr (message_start v s, [])
      else if ty = ''error'' then
        Inl (BackendUnavailable (or_default ''anthropic error''
          (Option.bind (Sentinel.json_get v ''error'') (\<lambda>e. member_str e ''message''))))
      else if ty = ''content_block_delta'' then Inr (content_block_delta v s)
      else if ty = ''content_block_start'' then Inr (content_block_start v s, [])
      else if ty = ''content_block_stop'' then Inr (content_block_stop E v s, [])
      else if ty = ''message_delta'' then Inr (message_delta v s)
      else Inr (s, []))"

section \<open>The task\<close>

record anthropic_inner =
  ai_model :: string
  ai_base_url :: string

text \<open>The blocks of the answer after the first event has been read.\<close>

fun anthropic_blocks ::
    "client_env \<Rightarrow> bool \<Rightarrow> nat \<Rightarrow> datetime \<Rightarrow> hash option \<Rightarrow> string list \<Rightarrow> model_error option \<Rightarrow> answer_state \<Rightarrow> sse_state
     \<Rightarrow> task" where
  "anthropic_blocks E obs n t0 rh [] stop an s =
     (case stop of
        Some e \<Rightarrow> answer_failure E n t0 rh an e
      | None \<Rightarrow> close_answer E obs (ss_usage s) an (answer_success E n t0 rh))"
| "anthropic_blocks E obs n t0 rh (b # bs) stop an s =
     (case sse_block_to_json E b of
        Inl e \<Rightarrow> answer_failure E n t0 rh an e
      | Inr None \<Rightarrow> anthropic_blocks E obs n t0 rh bs stop an s
      | Inr (Some v) \<Rightarrow>
          (case apply_anthropic_sse_json E v s of
             Inl e \<Rightarrow> answer_failure E n t0 rh an e
           | Inr (s1, evs) \<Rightarrow>
               emit_block E obs evs an (\<lambda>an1.
                 if an_done an1 then answer_success E n t0 rh an1
                 else anthropic_blocks E obs n t0 rh bs stop an1 s1)))"

definition anthropic_answer ::
    "client_env \<Rightarrow> anthropic_inner \<Rightarrow> bool \<Rightarrow> nat \<Rightarrow> datetime \<Rightarrow> hash option \<Rightarrow> bool \<Rightarrow> (string + byte list) list \<Rightarrow> task" where
  "anthropic_answer E A obs n t0 rh late chunks =
     (let ready_ev = SeProviderReady ''Anthropic'' (ai_model A);
          start = TkSend (Inr ready_ev) (\<lambda>_.
            let fail = (\<lambda>e. attempt_failure n t0 rh (map_model_error_to_attempt_status e) e) in
            if late then fail FirstTokenTimeout
            else
              (case sse_events None [] chunks of
                 ([], Some e) \<Rightarrow> fail e
               | ([], None) \<Rightarrow> fail (StreamInterrupted ''empty SSE stream'')
               | (blocks, stop) \<Rightarrow> anthropic_blocks E obs n t0 rh blocks stop answer_start sse_start)) in
      if obs then put_opt (cl_chunk E (client_chunk ready_ev)) (\<lambda>_. start) else start)"

definition RETRY_MAX :: nat where
  "RETRY_MAX = 5"

text \<open>The wait after the \<open>n\<close>-th rate-limited attempt: the header, or the power of two, between 1 and 60 seconds.\<close>

definition anthropic_wait_secs :: "nat \<Rightarrow> string option \<Rightarrow> nat" where
  "anthropic_wait_secs n retry_after =
     (let w = (case Option.bind retry_after parse_u64 of Some h \<Rightarrow> unat h | None \<Rightarrow> 2 ^ (n - 1)) in
      max 1 (min 60 w))"

fun is_object :: "json \<Rightarrow> bool" where
  "is_object (JObject _) = True"
| "is_object _ = False"

text \<open>The fourth attempt and the later ones use the fallback model.\<close>

definition with_fallback ::
    "completion_config \<Rightarrow> nat \<Rightarrow> bool \<Rightarrow> json \<Rightarrow> (bool \<Rightarrow> json \<Rightarrow> task) \<Rightarrow> task" where
  "with_fallback c n applied request k =
     (case cc_fallback_model c of
        Some fb \<Rightarrow>
          if \<not> applied \<and> n = 3 \<and> is_object request then
            TkSend (Inr (SeStatusHint (HINT_MARK @ '' rate limited '' @ EM_DASH @ '' retrying with fallback model '' @ tick @ fb
              @ tick @ '' ('' @ show_nat (n + 1) @ ''/5)'')))
              (\<lambda>_. k True (set_member ''model'' (JString fb) request))
          else k applied request
      | None \<Rightarrow> k applied request)"

text \<open>A response that is not a success and not a rate limit.\<close>

definition anthropic_refusal ::
    "client_env \<Rightarrow> nat \<Rightarrow> datetime \<Rightarrow> hash option \<Rightarrow> nat \<Rightarrow> string option \<Rightarrow> string + string \<Rightarrow> task" where
  "anthropic_refusal E n t0 rh st retry_after txt =
     (case txt of
        Inl e \<Rightarrow>
          (let err = StreamInterrupted e in attempt_failure n t0 rh (map_model_error_to_attempt_status err) err)
      | Inr t \<Rightarrow>
          attempt_failure n t0 rh (map_http_status_to_attempt_status E st) (map_anthropic_http_status E st t retry_after))"

text \<open>What follows the reply to attempt \<open>n\<close>; \<open>again\<close> is the next attempt.\<close>

definition anthropic_reply ::
    "client_env \<Rightarrow> anthropic_inner \<Rightarrow> bool \<Rightarrow> nat \<Rightarrow> datetime \<Rightarrow> hash option \<Rightarrow> task \<Rightarrow> http_reply \<Rightarrow> task" where
  "anthropic_reply E A obs n t0 rh again reply =
     (case reply of
        HrFailed is_connect is_timeout e \<Rightarrow>
          (let err = map_reqwest_send_error is_connect is_timeout e in
           attempt_failure n t0 rh (map_model_error_to_attempt_status err) err)
      | HrResponse st retry_after txt late chunks \<Rightarrow>
          if is_success st then anthropic_answer E A obs n t0 rh late chunks
          else if st = 429 \<or> st = 529 then
            (let t = (case txt of Inl _ \<Rightarrow> [] | Inr t \<Rightarrow> t) in
             record_attempt n t0 rh (map_http_status_to_attempt_status E st) None None
               (Some (''HTTP '' @ cl_status E st @ '': '' @ truncate_body t))
               (if n > RETRY_MAX then send_end (Inl (map_anthropic_http_status E st t retry_after))
                else wait_hints n (anthropic_wait_secs n retry_after) again))
          else anthropic_refusal E n t0 rh st retry_after txt)"

lemma anthropic_reply_cong [fundef_cong]:
  "E = E' \<Longrightarrow> A = A' \<Longrightarrow> obs = obs' \<Longrightarrow> n = n' \<Longrightarrow> t0 = t0' \<Longrightarrow> rh = rh' \<Longrightarrow>
   (n' \<le> RETRY_MAX \<Longrightarrow> again = again') \<Longrightarrow>
   anthropic_reply E A obs n t0 rh again = anthropic_reply E' A' obs' n' t0' rh' again'"
  by (rule ext, case_tac x) (auto simp: anthropic_reply_def Let_def)

text \<open>\<open>n\<close> attempts have been rate limited.\<close>

function run_anthropic_stream ::
    "client_env \<Rightarrow> anthropic_inner \<Rightarrow> completion_config \<Rightarrow> bool \<Rightarrow> nat \<Rightarrow> bool \<Rightarrow> json \<Rightarrow> task" where
  "run_anthropic_stream E A c obs n applied request =
     with_fallback c n applied request (\<lambda>applied1 request1.
     begin_attempt E obs (n + 1) request1 (\<lambda>t0 rh.
     TkPost request1 (anthropic_reply E A obs (n + 1) t0 rh (run_anthropic_stream E A c obs (n + 1) applied1 request1))))"
  by pat_completeness auto
termination
  by (relation "measure (\<lambda>(E, A, c, obs, n, applied, request). 6 - n)") (auto simp: RETRY_MAX_def)

declare run_anthropic_stream.simps [simp del]

definition anthropic_complete ::
    "client_env \<Rightarrow> anthropic_inner \<Rightarrow> bool \<Rightarrow> chat_message list \<Rightarrow> completion_config \<Rightarrow> task" where
  "anthropic_complete E A obs ms c =
     (let (system_blocks, rest) = anthropic_leading_system_blocks ms;
          api_messages = build_anthropic_api_messages E rest;
          tools = anthropic_tools_from_config c;
          request = build_request_json (ai_model A) system_blocks api_messages tools c in
      run_anthropic_stream E A c obs 0 False request)"

text \<open>\<open>with_base_url\<close>: trailing slashes go, and an empty model is the default one.\<close>

definition DEFAULT_ANTHROPIC_MODEL :: string where
  "DEFAULT_ANTHROPIC_MODEL = ''claude-haiku-4-5-20251001''"

definition anthropic_with_base_url :: "string \<Rightarrow> string \<Rightarrow> anthropic_inner" where
  "anthropic_with_base_url mdl base =
     \<lparr>ai_model = (if mdl = [] then DEFAULT_ANTHROPIC_MODEL else mdl),
      ai_base_url = rev (dropWhile (\<lambda>ch. ch = CHR ''/'') (rev base))\<rparr>"

end
