(* ===== verification/Openai_Compat.thy ===== *)
theory Openai_Compat
  imports Anthropic
begin

text \<open>
  The client of APIs in the style of OpenAI, \<open>akmon-models/src/openai_compat.rs\<close> with \<open>max_tokens.rs\<close>: the
  backends and their URLs, the request, the meaning of a chunk of the answer, and the task. \<open>cl_lower\<close> is
  \<open>str::to_lowercase\<close>; the Unicode upper case of a character and the jitter of a wait are arguments.
\<close>

section \<open>Models\<close>

definition any_contains :: "string list \<Rightarrow> string \<Rightarrow> bool" where
  "any_contains ps m = list_ex (\<lambda>p. str_contains p m) ps"

definition any_starts :: "string list \<Rightarrow> string \<Rightarrow> bool" where
  "any_starts ps m = list_ex (\<lambda>p. starts_with p m) ps"

definition infer_context_window_tokens :: "client_env \<Rightarrow> string \<Rightarrow> nat" where
  "infer_context_window_tokens E model_id =
     (let m = cl_lower E model_id in
      if str_contains ''gpt-4'' m then 128000
      else if str_contains ''gpt-3.5'' m then 16384
      else if str_contains ''claude'' m then 200000
      else if any_contains [''llama-3'', ''llama3''] m then 128000
      else if any_contains [''llama-2'', ''llama2''] m then 4096
      else if str_contains ''deepseek'' m then 64000
      else if str_contains ''mistral'' m then 32000
      else if str_contains ''gemma'' m then 128000
      else if str_contains ''qwen'' m then 128000
      else 32000)"

definition max_tokens_for_openai_style_model :: "client_env \<Rightarrow> string \<Rightarrow> u32" where
  "max_tokens_for_openai_style_model E mdl =
     (let m = cl_lower E mdl in
      if any_contains [''gpt-4.1'', ''gpt-5''] m then 32768
      else if str_contains ''gpt-4o'' m \<or> any_starts [''o1'', ''o3'', ''o4''] m \<or> any_contains [''/o1'', ''/o3'', ''/o4''] m
      then 16384
      else if any_contains [''gpt-4'', ''gpt-3.5''] m then 4096
      else 8192)"

definition max_tokens_for_model :: "client_env \<Rightarrow> string \<Rightarrow> u32" where
  "max_tokens_for_model E mdl =
     (let m = cl_lower E mdl in
      if str_contains ''haiku'' m then 8192
      else if any_contains [''sonnet'', ''opus''] m then 32000
      else if any_starts [''gpt-'', ''o1'', ''o3'', ''o4''] m \<or> any_contains [''/gpt-'', ''/o1'', ''/o3'', ''/o4''] m
      then max_tokens_for_openai_style_model E mdl
      else 8192)"

section \<open>Backends\<close>

datatype auth_style = Bearer | ApiKey string

definition trim_slash :: "string \<Rightarrow> string" where
  "trim_slash s = rev (dropWhile (\<lambda>ch. ch = CHR ''/'') (rev s))"

definition first_part :: "char \<Rightarrow> string \<Rightarrow> string" where
  "first_part d s = takeWhile (\<lambda>ch. ch \<noteq> d) s"

definition host_only :: "string \<Rightarrow> string" where
  "host_only base_url =
     (let base = trim_start_matches ''http://'' (trim_start_matches ''https://'' base_url) in
      first_part CHR '':'' (first_part CHR ''/'' base))"

text \<open>\<open>upper\<close> is the upper case of the first character.\<close>

definition openai_stream_footer_label :: "(string \<Rightarrow> string) \<Rightarrow> string \<Rightarrow> string" where
  "openai_stream_footer_label upper display_name =
     (let slug = first_part CHR ''/'' display_name in
      if slug = ''openrouter'' then ''OpenRouter''
      else if slug = ''openai'' then ''OpenAI''
      else if slug = ''groq'' then ''Groq''
      else if slug = ''azure'' then ''Azure OpenAI''
      else
        (case chars slug of
           [] \<Rightarrow> ''OpenAI-compatible''
         | f # cs \<Rightarrow> upper f @ concat cs))"

definition provider_slug_for_host :: "string \<Rightarrow> string" where
  "provider_slug_for_host host =
     (if host \<in> {''openrouter.ai'', ''www.openrouter.ai''} then ''openrouter''
      else if host = ''api.openai.com'' then ''openai''
      else if host = ''api.groq.com'' then ''groq''
      else if host = ''api.together.xyz'' then ''together''
      else if host = ''api.deepseek.com'' then ''deepseek''
      else if host \<noteq> [] then
        first_part CHR ''.'' (case strip_prefix ''api.'' host of Some h \<Rightarrow> h | None \<Rightarrow> host)
      else ''openai-compat'')"

text \<open>The text after the first occurrence of a pattern.\<close>

fun after_first :: "string \<Rightarrow> string \<Rightarrow> string option" where
  "after_first p [] = (if p = [] then Some [] else None)"
| "after_first p (c # s) = (if starts_with p (c # s) then Some (drop (length p) (c # s)) else after_first p s)"

definition extract_azure_deployment_from_endpoint :: "string \<Rightarrow> string option" where
  "extract_azure_deployment_from_endpoint endpoint =
     Option.bind (after_first ''/deployments/'' endpoint) (\<lambda>rest.
       let seg = first_part CHR ''/'' rest in if seg = [] then None else Some seg)"

record openai_inner =
  oi_display_name :: string
  oi_post_url :: string
  oi_model :: string
  oi_auth :: auth_style
  oi_extra_headers :: "(string \<times> string) list"
  oi_context_window :: nat

definition openai_new_with_parts ::
    "client_env \<Rightarrow> string \<Rightarrow> string \<Rightarrow> string \<Rightarrow> auth_style \<Rightarrow> (string \<times> string) list \<Rightarrow> openai_inner" where
  "openai_new_with_parts E slug url mdl auth headers =
     \<lparr>oi_display_name = slug @ ''/'' @ mdl, oi_post_url = url, oi_model = mdl, oi_auth = auth,
      oi_extra_headers = headers, oi_context_window = infer_context_window_tokens E mdl\<rparr>"

definition openai_custom :: "client_env \<Rightarrow> string \<Rightarrow> string \<Rightarrow> openai_inner" where
  "openai_custom E base_url mdl =
     (let base = trim_slash base_url;
          slug = provider_slug_for_host (host_only base) in
      openai_new_with_parts E slug (base @ ''/chat/completions'') mdl Bearer [])"

definition openai_openrouter :: "client_env \<Rightarrow> string \<Rightarrow> openai_inner" where
  "openai_openrouter E mdl =
     openai_new_with_parts E ''openrouter'' ''https://openrouter.ai/api/v1/chat/completions'' mdl Bearer
       [(''HTTP-Referer'', ''https://akmon.dev''), (''X-Title'', ''Akmon'')]"

definition openai_azure :: "client_env \<Rightarrow> string \<Rightarrow> string \<Rightarrow> openai_inner" where
  "openai_azure E endpoint0 api_version =
     (let endpoint = trim_slash endpoint0;
          deployment = or_default ''gpt-4'' (extract_azure_deployment_from_endpoint endpoint);
          url = (if str_contains ''api-version='' endpoint then endpoint
                 else endpoint @ ''?api-version='' @ api_version) in
      openai_new_with_parts E ''azure'' url deployment (ApiKey ''api-key'') [])"

section \<open>Requests\<close>

definition tool_message_to_openai :: "client_env \<Rightarrow> chat_message \<Rightarrow> json option" where
  "tool_message_to_openai E m =
     Option.bind (ok_value (cl_parse E (ms_content m))) (\<lambda>v.
     Option.bind (member_str v ''tool_call_id'') (\<lambda>tid.
     (let output = or_default (JObject []) (Sentinel.json_get v ''output'') in
      Some (json_object [(''role'', JString ''tool''), (''tool_call_id'', JString tid),
                         (''content'', JString (cl_print E output))]))))"

definition openai_call :: "client_env \<Rightarrow> json \<Rightarrow> json" where
  "openai_call E tc =
     (let args = or_default (JObject []) (Sentinel.json_get tc ''arguments'');
          arg_str = (case args of JString s \<Rightarrow> s | v \<Rightarrow> cl_print E v) in
      json_object [(''id'', JString (json_str_or tc ''id'' [])), (''type'', JString ''function''),
        (''function'', json_object [(''name'', JString (json_str_or tc ''name'' [])), (''arguments'', JString arg_str)])])"

definition assistant_to_openai :: "client_env \<Rightarrow> chat_message \<Rightarrow> json" where
  "assistant_to_openai E m =
     (case recorded_calls E m of
        Some (v, arr) \<Rightarrow>
          (let t = (case member_str v ''text'' of Some t \<Rightarrow> if is_blank t then [] else t | None \<Rightarrow> []) in
           json_object [(''role'', JString ''assistant''), (''content'', JString t),
             (''tool_calls'', JArray (map (openai_call E) arr))])
      | None \<Rightarrow> role_message ''assistant'' (JString (ms_content m)))"

definition openai_row :: "client_env \<Rightarrow> chat_message \<Rightarrow> json option" where
  "openai_row E m =
     (case ms_role m of
        RoleSystem \<Rightarrow> None
      | RoleTool \<Rightarrow> tool_message_to_openai E m
      | RoleAssistant \<Rightarrow> Some (assistant_to_openai E m)
      | RoleUser \<Rightarrow> Some (role_message ''user'' (JString (ms_content m))))"

definition build_openai_messages :: "client_env \<Rightarrow> chat_message list \<Rightarrow> json list" where
  "build_openai_messages E ms =
     (let sys = map ms_content (filter is_system ms) in
      (if sys = [] then [] else [role_message ''system'' (JString (join [LF, LF] sys))])
      @ List.map_filter (openai_row E) ms)"

definition openai_tools :: "completion_config \<Rightarrow> json list" where
  "openai_tools c =
     map (\<lambda>t. json_object [(''type'', JString ''function''),
       (''function'', json_object [(''name'', JString (td_name t)), (''description'', JString (td_description t)),
          (''parameters'', td_parameters t)])]) (cc_tools c)"

definition openai_request :: "client_env \<Rightarrow> openai_inner \<Rightarrow> chat_message list \<Rightarrow> completion_config \<Rightarrow> json" where
  "openai_request E A ms c =
     (let tools = openai_tools c;
          max_out = (if cc_max_tokens c = 0 then max_tokens_for_openai_style_model E (oi_model A) else cc_max_tokens c) in
      json_object
        ([(''model'', JString (oi_model A)), (''messages'', JArray (build_openai_messages E ms)), (''stream'', json_true),
          (''temperature'', cc_temperature c), (''max_tokens'', json_u32 max_out),
          (''stream_options'', json_object [(''include_usage'', json_true)])]
         @ (if str_contains ''api.openai.com'' (oi_post_url A) then [(''store'', JBool False)] else [])
         @ (case cc_session_id c of
              Some sid \<Rightarrow>
                if str_contains ''openrouter.ai'' (oi_post_url A) \<and> sid \<noteq> []
                then [(''prompt_cache_key'', JString (concat (take 16 (chars sid))))] else []
            | None \<Rightarrow> [])
         @ (if tools = [] then [] else [(''tools'', JArray tools)])))"

section \<open>Errors\<close>

definition map_openai_http_status :: "client_env \<Rightarrow> nat \<Rightarrow> string \<Rightarrow> model_error" where
  "map_openai_http_status E st txt =
     (if st = 401 then AuthError
      else if st = 429 then RateLimited None
      else BackendUnavailable (''HTTP '' @ cl_status E st @ '': '' @ truncate_body txt))"

definition map_openai_send_err :: "bool \<Rightarrow> string \<Rightarrow> model_error" where
  "map_openai_send_err is_timeout e = (if is_timeout then FirstTokenTimeout else BackendUnavailable e)"

text \<open>The bound of the buffer and its error.\<close>

definition MAX_SSE_BUFFER_BYTES :: nat where
  "MAX_SSE_BUFFER_BYTES = 64 * 1024 * 1024"

definition sse_cap :: "nat \<Rightarrow> nat \<times> model_error" where
  "sse_cap mx =
     (mx, StreamInterrupted (''SSE buffer exceeded '' @ show_nat (mx div (1024 * 1024))
        @ ''MiB without a complete event (malformed or hostile stream)''))"

section \<open>Chunks of the answer\<close>

record tool_part =
  tp_id :: string
  tp_name :: string
  tp_args :: string

record openai_state =
  os_tools :: "(u32 \<times> tool_part) list"
  os_usage :: "(u32 \<times> u32 \<times> u32 \<times> u32) option"

definition openai_start :: openai_state where
  "openai_start = \<lparr>os_tools = [], os_usage = None\<rparr>"

definition usage_report_from_openai_json :: "json \<Rightarrow> u32 \<times> u32 \<times> u32 \<times> u32" where
  "usage_report_from_openai_json u =
     (let cached = Option.bind (Sentinel.json_get u ''prompt_tokens_details'') (\<lambda>d. Sentinel.json_get d ''cached_tokens'') in
      (u32_from_json_token_field (Sentinel.json_get u ''prompt_tokens''),
       u32_from_json_token_field (Sentinel.json_get u ''completion_tokens''), 0, u32_from_json_token_field cached))"

text \<open>\<open>if let Some(s) = .. && !s.is_empty()\<close>.\<close>

definition nonempty_str :: "json \<Rightarrow> string \<Rightarrow> string option" where
  "nonempty_str v k = (case member_str v k of Some s \<Rightarrow> if s = [] then None else Some s | None \<Rightarrow> None)"

text \<open>One entry of \<open>delta.tool_calls\<close>; an index beyond 32 bits is cut.\<close>

definition openai_tool_part :: "json \<Rightarrow> (u32 \<times> tool_part) list \<Rightarrow> (u32 \<times> tool_part) list" where
  "openai_tool_part tc tools =
     (let i = ucast (or_default 0 (Option.bind (Sentinel.json_get tc ''index'') json_as_u64));
          entry = or_default \<lparr>tp_id = [], tp_name = [], tp_args = []\<rparr> (map_of tools i);
          e1 = (case nonempty_str tc ''id'' of Some s \<Rightarrow> entry\<lparr>tp_id := s\<rparr> | None \<Rightarrow> entry);
          e2 = (case Sentinel.json_get tc ''function'' of
                  None \<Rightarrow> e1
                | Some f \<Rightarrow>
                    (let e2 = (case nonempty_str f ''name'' of Some s \<Rightarrow> e1\<lparr>tp_name := s\<rparr> | None \<Rightarrow> e1) in
                     case member_str f ''arguments'' of Some a \<Rightarrow> e2\<lparr>tp_args := tp_args e2 @ a\<rparr> | None \<Rightarrow> e2)) in
      bt_insert i e2 tools)"

definition openai_stop_reason :: "string \<Rightarrow> stop_reason" where
  "openai_stop_reason fr =
     (if fr = ''tool_calls'' then ToolUse else if fr = ''length'' then MaxTokens else EndTurn)"

definition openai_model_calls :: "client_env \<Rightarrow> (u32 \<times> tool_part) list \<Rightarrow> tool_call list" where
  "openai_model_calls E tools =
     map (\<lambda>p. \<lparr>tc_id = (if tp_id p = [] then ''call_'' @ tp_name p else tp_id p), tc_name = tp_name p,
                tc_arguments = tool_arguments E (tp_args p)\<rparr>)
       (filter (\<lambda>p. tp_name p \<noteq> []) (map snd tools))"

definition first_choice :: "json \<Rightarrow> json option" where
  "first_choice v = Option.bind (member_array v ''choices'') head_opt"

definition openai_delta :: "json option \<Rightarrow> (u32 \<times> tool_part) list \<Rightarrow> (u32 \<times> tool_part) list \<times> stream_event list" where
  "openai_delta delta tools =
     (case delta of
        None \<Rightarrow> (tools, [])
      | Some d \<Rightarrow>
          (fold openai_tool_part (or_default [] (member_array d ''tool_calls'')) tools,
           case nonempty_str d ''content'' of Some t \<Rightarrow> [SeTextDelta t] | None \<Rightarrow> []))"

definition apply_openai_sse_line :: "client_env \<Rightarrow> json \<Rightarrow> openai_state \<Rightarrow> openai_state \<times> stream_event list" where
  "apply_openai_sse_line E v s =
     (let usage = (case Sentinel.json_get v ''usage'' of
                     Some u \<Rightarrow> Some (usage_report_from_openai_json u) | None \<Rightarrow> os_usage s);
          choice = first_choice v;
          (tools, evs) = openai_delta (Option.bind choice (\<lambda>c. Sentinel.json_get c ''delta'')) (os_tools s);
          finish = Option.bind choice (\<lambda>c. nonempty_str c ''finish_reason'') in
      case finish of
        None \<Rightarrow> (\<lparr>os_tools = tools, os_usage = usage\<rparr>, evs)
      | Some fr \<Rightarrow>
          if fr = ''null'' then (\<lparr>os_tools = tools, os_usage = usage\<rparr>, evs)
          else
            (let stop = openai_stop_reason fr;
                 calls = (if stop = ToolUse then openai_model_calls E tools else []) in
             (\<lparr>os_tools = (if stop = ToolUse then [] else tools), os_usage = usage\<rparr>,
              evs @ usage_event usage @ [SeDone stop calls])))"

section \<open>The task\<close>

text \<open>A block without a payload ends the answer.\<close>

fun openai_blocks ::
    "client_env \<Rightarrow> bool \<Rightarrow> nat \<Rightarrow> datetime \<Rightarrow> hash option \<Rightarrow> string list \<Rightarrow> model_error option \<Rightarrow> answer_state \<Rightarrow> openai_state
     \<Rightarrow> task" where
  "openai_blocks E obs n t0 rh [] stop an s =
     (case stop of
        Some e \<Rightarrow> answer_failure E n t0 rh an e
      | None \<Rightarrow> close_answer E obs (os_usage s) an (answer_success E n t0 rh))"
| "openai_blocks E obs n t0 rh (b # bs) stop an s =
     (case sse_block_to_json E b of
        Inl e \<Rightarrow> answer_failure E n t0 rh an e
      | Inr None \<Rightarrow> close_answer E obs (os_usage s) an (answer_success E n t0 rh)
      | Inr (Some v) \<Rightarrow>
          (case apply_openai_sse_line E v s of
             (s1, evs) \<Rightarrow>
               emit_block E obs evs an (\<lambda>an1.
                 if an_done an1 then answer_success E n t0 rh an1
                 else openai_blocks E obs n t0 rh bs stop an1 s1)))"

definition openai_answer ::
    "client_env \<Rightarrow> openai_inner \<Rightarrow> string \<Rightarrow> bool \<Rightarrow> nat \<Rightarrow> datetime \<Rightarrow> hash option \<Rightarrow> bool \<Rightarrow> (string + byte list) list
     \<Rightarrow> task" where
  "openai_answer E A label obs n t0 rh late chunks =
     (let ready_ev = SeProviderReady label (oi_model A);
          start = TkSend (Inr ready_ev) (\<lambda>_.
            let fail = (\<lambda>e. attempt_failure n t0 rh (map_model_error_to_attempt_status e) e) in
            if late then fail FirstTokenTimeout
            else
              (case sse_events (Some (sse_cap MAX_SSE_BUFFER_BYTES)) [] chunks of
                 ([], Some e) \<Rightarrow> fail e
               | ([], None) \<Rightarrow> fail (StreamInterrupted ''empty SSE stream'')
               | (blocks, stop) \<Rightarrow> openai_blocks E obs n t0 rh blocks stop answer_start openai_start)) in
      if obs then put_opt (cl_chunk E (client_chunk ready_ev)) (\<lambda>_. start) else start)"

text \<open>\<open>jitter\<close> is \<open>jittered_wait_secs\<close>, which reads the clock.\<close>

definition openai_wait_secs :: "(nat \<Rightarrow> nat) \<Rightarrow> nat \<Rightarrow> string option \<Rightarrow> nat" where
  "openai_wait_secs jitter n retry_after =
     (let w = (case Option.bind retry_after parse_u64 of Some h \<Rightarrow> unat h | None \<Rightarrow> 2 ^ (n - 1)) in
      min (jitter (max w 1)) 60)"

definition openai_refusal :: "client_env \<Rightarrow> nat \<Rightarrow> datetime \<Rightarrow> hash option \<Rightarrow> nat \<Rightarrow> string + string \<Rightarrow> task" where
  "openai_refusal E n t0 rh st txt =
     (case txt of
        Inl e \<Rightarrow>
          (let err = StreamInterrupted e in attempt_failure n t0 rh (map_model_error_to_attempt_status err) err)
      | Inr t \<Rightarrow>
          attempt_failure n t0 rh (map_http_status_to_attempt_status E st) (map_openai_http_status E st t))"

definition openai_reply ::
    "client_env \<Rightarrow> openai_inner \<Rightarrow> string \<Rightarrow> (nat \<Rightarrow> nat) \<Rightarrow> bool \<Rightarrow> nat \<Rightarrow> datetime \<Rightarrow> hash option \<Rightarrow> task \<Rightarrow> http_reply
     \<Rightarrow> task" where
  "openai_reply E A label jitter obs n t0 rh again reply =
     (case reply of
        HrFailed _ is_timeout e \<Rightarrow>
          (let err = map_openai_send_err is_timeout e in
           attempt_failure n t0 rh (map_model_error_to_attempt_status err) err)
      | HrResponse st retry_after txt late chunks \<Rightarrow>
          if is_success st then openai_answer E A label obs n t0 rh late chunks
          else if st = 429 \<or> st = 529 then
            (let t = (case txt of Inl _ \<Rightarrow> [] | Inr t \<Rightarrow> t) in
             record_attempt n t0 rh (map_http_status_to_attempt_status E st) None None
               (Some (''HTTP '' @ cl_status E st @ '': '' @ truncate_body t))
               (if n > RETRY_MAX then send_end (Inl (map_openai_http_status E st t))
                else wait_hints n (openai_wait_secs jitter n retry_after) again))
          else openai_refusal E n t0 rh st txt)"

lemma openai_reply_cong [fundef_cong]:
  "E = E' \<Longrightarrow> A = A' \<Longrightarrow> label = label' \<Longrightarrow> jitter = jitter' \<Longrightarrow> obs = obs' \<Longrightarrow> n = n' \<Longrightarrow> t0 = t0' \<Longrightarrow> rh = rh' \<Longrightarrow>
   (n' \<le> RETRY_MAX \<Longrightarrow> again = again') \<Longrightarrow>
   openai_reply E A label jitter obs n t0 rh again = openai_reply E' A' label' jitter' obs' n' t0' rh' again'"
  by (rule ext, case_tac x) (auto simp: openai_reply_def Let_def)

function run_openai_stream ::
    "client_env \<Rightarrow> openai_inner \<Rightarrow> string \<Rightarrow> (nat \<Rightarrow> nat) \<Rightarrow> completion_config \<Rightarrow> bool \<Rightarrow> nat \<Rightarrow> bool \<Rightarrow> json \<Rightarrow> task" where
  "run_openai_stream E A label jitter c obs n applied request =
     with_fallback c n applied request (\<lambda>applied1 request1.
     begin_attempt E obs (n + 1) request1 (\<lambda>t0 rh.
     TkPost request1 (openai_reply E A label jitter obs (n + 1) t0 rh
       (run_openai_stream E A label jitter c obs (n + 1) applied1 request1))))"
  by pat_completeness auto
termination
  by (relation "measure (\<lambda>(E, A, label, jitter, c, obs, n, applied, request). 6 - n)") (auto simp: RETRY_MAX_def)

declare run_openai_stream.simps [simp del]

definition openai_complete ::
    "client_env \<Rightarrow> openai_inner \<Rightarrow> (string \<Rightarrow> string) \<Rightarrow> (nat \<Rightarrow> nat) \<Rightarrow> bool \<Rightarrow> chat_message list \<Rightarrow> completion_config \<Rightarrow> task" where
  "openai_complete E A upper jitter obs ms c =
     run_openai_stream E A (openai_stream_footer_label upper (oi_display_name A)) jitter c obs 0 False
       (openai_request E A ms c)"

end
