(* ===== verification/Provider_Channel.thy ===== *)
theory Provider_Channel
  imports Anthropic Openai_Compat
begin

text \<open>
  A client's task and the recorder side by side: the bounded channel between them, every interleaving of their
  steps as a step relation, and what holds of the journal in every reachable state. The consumer may drop the
  stream at any time.
\<close>

section \<open>Steps\<close>

text \<open>\<open>cs_recorded\<close> and \<open>cs_out\<close> are no state of the program: the attempts published so far and what the consumer
  has been given.\<close>

record 's channel_state =
  cs_task :: task
  cs_channel :: "(model_error + stream_event) list"
  cs_open :: bool
  cs_stream :: "'s journaling_stream"
  cs_recorded :: "attempt_record list"
  cs_out :: "(model_error + stream_event) option list"

definition CHANNEL_CAPACITY :: nat where
  "CHANNEL_CAPACITY = 64"

definition channel_start :: "task \<Rightarrow> 's \<Rightarrow> string \<Rightarrow> hash \<Rightarrow> datetime \<Rightarrow> 's channel_state" where
  "channel_start t s pid rh t0 =
     \<lparr>cs_task = t, cs_channel = [], cs_open = True, cs_stream = journaling_stream_new s pid rh t0 [],
      cs_recorded = [], cs_out = []\<rparr>"

definition publish :: "attempt_record \<Rightarrow> task \<Rightarrow> 's channel_state \<Rightarrow> 's channel_state" where
  "publish a t c = c\<lparr>cs_task := t, cs_recorded := cs_recorded c @ [a],
     cs_stream := (cs_stream c)\<lparr>js_collector := js_collector (cs_stream c) @ [a]\<rparr>\<rparr>"

definition store_object :: "task \<Rightarrow> 's \<Rightarrow> 's channel_state \<Rightarrow> 's channel_state" where
  "store_object t s c = c\<lparr>cs_task := t, cs_stream := (cs_stream c)\<lparr>js_journal := s\<rparr>\<rparr>"

text \<open>One poll of the consumer with the item the channel gives; a finished stream does not look at the channel.\<close>

definition consume ::
    "'s journal_ops \<Rightarrow> 'c recorder_env \<Rightarrow> datetime \<Rightarrow> datetime \<Rightarrow> (model_error + stream_event) option
     \<Rightarrow> 's channel_state \<Rightarrow> 's channel_state" where
  "consume J R t1 t2 item c =
     (case stream_poll_next J R t1 t2 (cs_stream c) item of
        (js, r) \<Rightarrow> c\<lparr>cs_stream := js, cs_out := cs_out c @ [r]\<rparr>)"

inductive channel_step :: "'s journal_ops \<Rightarrow> 'c recorder_env \<Rightarrow> 's channel_state \<Rightarrow> 's channel_state \<Rightarrow> bool"
  for J :: "'s journal_ops" and R :: "'c recorder_env" where
  step_now: "cs_task c = TkNow k \<Longrightarrow> channel_step J R c (c\<lparr>cs_task := k t\<rparr>)"
| step_put: "cs_task c = TkPut b k \<Longrightarrow> jo_put J (js_journal (cs_stream c)) b = (s, r) \<Longrightarrow>
    channel_step J R c (store_object (k r) s c)"
| step_record: "cs_task c = TkRecord a t \<Longrightarrow> channel_step J R c (publish a t c)"
| step_send: "cs_task c = TkSend x k \<Longrightarrow> cs_open c \<Longrightarrow> length (cs_channel c) < CHANNEL_CAPACITY \<Longrightarrow>
    channel_step J R c (c\<lparr>cs_task := k True, cs_channel := cs_channel c @ [x]\<rparr>)"
| step_refused: "cs_task c = TkSend x k \<Longrightarrow> \<not> cs_open c \<Longrightarrow> channel_step J R c (c\<lparr>cs_task := k False\<rparr>)"
| step_post: "cs_task c = TkPost b k \<Longrightarrow> channel_step J R c (c\<lparr>cs_task := k r\<rparr>)"
| step_item: "cs_open c \<Longrightarrow> \<not> js_done_seen (cs_stream c) \<Longrightarrow> cs_channel c = x # xs \<Longrightarrow>
    channel_step J R c (consume J R t1 t2 (Some x) (c\<lparr>cs_channel := xs\<rparr>))"
| step_none: "cs_open c \<Longrightarrow> \<not> js_done_seen (cs_stream c) \<Longrightarrow> cs_channel c = [] \<Longrightarrow> cs_task c = TkEnd \<Longrightarrow>
    channel_step J R c (consume J R t1 t2 None c)"
| step_again: "cs_open c \<Longrightarrow> js_done_seen (cs_stream c) \<Longrightarrow> channel_step J R c (consume J R t1 t2 None c)"
| step_drop: "cs_open c \<Longrightarrow> channel_step J R c (c\<lparr>cs_open := False, cs_channel := []\<rparr>)"

inductive channel_reach :: "'s journal_ops \<Rightarrow> 'c recorder_env \<Rightarrow> 's channel_state \<Rightarrow> 's channel_state \<Rightarrow> bool"
  for J :: "'s journal_ops" and R :: "'c recorder_env" where
  reach_refl: "channel_reach J R c c"
| reach_step: "channel_reach J R c c1 \<Longrightarrow> channel_step J R c1 c2 \<Longrightarrow> channel_reach J R c c2"

section \<open>The journal of a call\<close>

abbreviation events_of :: "mem_graph channel_state \<Rightarrow> (hash \<times> event) list" where
  "events_of c \<equiv> mg_events (js_journal (cs_stream c))"

definition done_delivered :: "'s channel_state \<Rightarrow> bool" where
  "done_delivered c \<longleftrightarrow> (\<exists>r calls. Some (Inr (SeDone r calls)) \<in> set (cs_out c))"

lemma mem_journal_put_events:
  "jo_put (mem_journal X) g b = (g', r) \<Longrightarrow> mg_events g' = mg_events g"
  by (auto simp: mem_journal_def split: prod.splits)

lemma put_encoded_events: "put_encoded (mem_journal X) R g enc = (g', r) \<Longrightarrow> mg_events g' = mg_events g"
  by (auto simp: put_encoded_def put_bytes_def dest: mem_journal_put_events split: sum.splits prod.splits)

lemma put_some_events: "put_some (mem_journal X) R g enc = (g', r) \<Longrightarrow> mg_events g' = mg_events g"
  by (auto simp: put_some_def dest: put_encoded_events split: sum.splits prod.splits)

text \<open>The attempts of the event: those collected, with the stream hash of the last success among them, or one
  made up for the call when there is none.\<close>

definition made_up :: "hash \<Rightarrow> datetime \<Rightarrow> attempt_record list \<Rightarrow> bool" where
  "made_up rh t0 atts \<longleftrightarrow>
     (\<exists>a. atts = [a] \<and> at_attempt_number a = 1 \<and> at_request_hash a = rh \<and> at_started_at a = t0)"

definition attempts_of_call ::
    "hash \<Rightarrow> datetime \<Rightarrow> attempt_record list \<Rightarrow> attempt_record list \<Rightarrow> hash option \<Rightarrow> bool" where
  "attempts_of_call rh t0 collected atts sh \<longleftrightarrow>
     (if collected = [] then made_up rh t0 atts else atts = collected \<and> sh = last_success_stream collected)"

lemma final_attempts_mem:
  assumes "final_attempts (mem_journal X) R t js = (g, r)"
  shows "mg_events g = mg_events (js_journal js)"
    and "r = Inr (atts, sh) \<Longrightarrow> attempts_of_call (js_request_hash js) (js_started_at js) (js_collector js) atts sh"
  using assms
  by (auto simp: final_attempts_def response_hash_for_final_def stream_hash_for_chunks_def synthesized_attempts_if_empty_def
      attempts_of_call_def made_up_def Let_def dest!: put_some_events split: if_splits prod.splits sum.splits)

text \<open>What finalising appends.\<close>

definition call_event :: "string \<Rightarrow> hash \<Rightarrow> datetime \<Rightarrow> attempt_record list \<Rightarrow> hash \<times> event \<Rightarrow> bool" where
  "call_event pid rh t0 collected he \<longleftrightarrow>
     (\<exists>atts sh. ev_kind (snd he) = ProviderCall pid atts sh \<and> attempts_of_call rh t0 collected atts sh)"

text \<open>What no poll changes.\<close>

definition same_call :: "'s journaling_stream \<Rightarrow> 's journaling_stream \<Rightarrow> bool" where
  "same_call js js' \<longleftrightarrow> js_provider_id js' = js_provider_id js \<and> js_request_hash js' = js_request_hash js
     \<and> js_started_at js' = js_started_at js"

definition call_recorded :: "mem_graph journaling_stream \<Rightarrow> mem_graph journaling_stream \<Rightarrow> bool" where
  "call_recorded js js' \<longleftrightarrow>
     (\<exists>he. mg_events (js_journal js') = mg_events (js_journal js) @ [he]
        \<and> call_event (js_provider_id js) (js_request_hash js) (js_started_at js) (js_collector js) he)"

lemma append_call_mem:
  assumes "append_provider_call (mem_journal X) R t g pid atts sh = (g', r)"
  shows "case r of Inl _ \<Rightarrow> g' = g
     | Inr _ \<Rightarrow> \<exists>h e. mg_events g' = mg_events g @ [(h, e)] \<and> ev_kind e = ProviderCall pid atts sh"
  using assms
  by (auto simp: append_provider_call_def mem_journal_def mem_append_Inr_iff dest: mem_append_Inl
      split: prod.splits sum.splits)

lemma finalize_mem:
  assumes "stream_finalize (mem_journal X) R t1 t2 js = (js', r)" "\<not> js_finalized js"
  shows "js_finalized js' \<and> js_done_seen js' = js_done_seen js \<and> same_call js js'
     \<and> (case r of Inl _ \<Rightarrow> mg_events (js_journal js') = mg_events (js_journal js) | Inr _ \<Rightarrow> call_recorded js js')"
proof -
  obtain s1 fr where f: "final_attempts (mem_journal X) R t1 js = (s1, fr)" by fastforce
  show ?thesis
  proof (cases fr)
    case (Inl e)
    with assms f final_attempts_mem(1) [OF f] show ?thesis by (auto simp: stream_finalize_def same_call_def)
  next
    case (Inr as)
    then obtain atts sh where fr: "fr = Inr (atts, sh)" by (cases as) auto
    obtain s2 r2 where a: "append_provider_call (mem_journal X) R t2 s1 (js_provider_id js) atts sh = (s2, r2)"
      by fastforce
    from assms f fr a have j: "js' = js\<lparr>js_journal := s2, js_collector := [], js_finalized := True\<rparr>" "r = r2"
      by (auto simp: stream_finalize_def)
    with append_call_mem [OF a] final_attempts_mem [OF f] fr show ?thesis
      by (fastforce simp: call_event_def call_recorded_def same_call_def split: sum.splits)
  qed
qed

lemma store_chunk_events:
  "store_stream_event_chunk (mem_journal X) R g e = (g', r) \<Longrightarrow> mg_events g' = mg_events g"
  by (auto simp: store_stream_event_chunk_def dest: put_encoded_events)

text \<open>A poll that ends the stream either reports an error or has appended the event of the call.\<close>

definition ended :: "mem_graph journaling_stream \<Rightarrow> mem_graph journaling_stream \<times> (model_error + stream_event) option \<Rightarrow> bool" where
  "ended js res \<longleftrightarrow>
     js_finalized (fst res) \<and> js_done_seen (fst res) \<and> same_call js (fst res) \<and>
     (mg_events (js_journal (fst res)) = mg_events (js_journal js) \<and> (\<exists>e. snd res = Some (Inl e))
      \<or> call_recorded js (fst res))"

lemma finalize_then_mem:
  assumes "\<not> js_finalized js" "js_done_seen js"
  shows "ended js (finalize_then (mem_journal X) R t1 t2 js item)"
proof -
  obtain js' r where f: "stream_finalize (mem_journal X) R t1 t2 js = (js', r)" by fastforce
  from finalize_mem [OF f assms(1)] assms(2) show ?thesis
    by (cases r) (auto simp: ended_def finalize_then_def f)
qed

lemma ended_cong:
  "ended js' res \<Longrightarrow> same_call js' js \<Longrightarrow> js_collector js' = js_collector js \<Longrightarrow>
   mg_events (js_journal js') = mg_events (js_journal js) \<Longrightarrow> ended js res"
  by (simp add: ended_def same_call_def call_recorded_def)

definition still_open :: "mem_graph journaling_stream \<Rightarrow> mem_graph journaling_stream \<times> (model_error + stream_event) option \<Rightarrow> bool" where
  "still_open js res \<longleftrightarrow>
     \<not> js_finalized (fst res) \<and> \<not> js_done_seen (fst res) \<and> same_call js (fst res) \<and>
     mg_events (js_journal (fst res)) = mg_events (js_journal js) \<and> js_collector (fst res) = js_collector js \<and>
     (\<exists>ev. snd res = Some (Inr ev) \<and> \<not> is_done ev)"

lemma poll_mem:
  assumes "\<not> js_finalized js" "\<not> js_done_seen js"
  shows "ended js (stream_poll_next (mem_journal X) R t1 t2 js item)
     \<or> still_open js (stream_poll_next (mem_journal X) R t1 t2 js item)"
proof (cases item)
  case None
  have "ended js (finalize_then (mem_journal X) R t1 t2 (js\<lparr>js_done_seen := True\<rparr>) None)"
    by (rule ended_cong [OF finalize_then_mem]) (simp_all add: assms same_call_def)
  with None assms show ?thesis by (simp add: stream_poll_next_def)
next
  case (Some x)
  show ?thesis
  proof (cases x)
    case (Inl err)
    have "ended js (finalize_then (mem_journal X) R t1 t2
        (js\<lparr>js_last_error := Some err, js_done_seen := True\<rparr>) (Some (Inl err)))"
      by (rule ended_cong [OF finalize_then_mem]) (simp_all add: assms same_call_def)
    with Some Inl assms show ?thesis by (simp add: stream_poll_next_def)
  next
    case (Inr ev)
    obtain s1 r where st: "store_stream_event_chunk (mem_journal X) R (js_journal js) ev = (s1, r)" by fastforce
    note ev = store_chunk_events [OF st]
    show ?thesis
    proof (cases r)
      case err: (Inl e)
      have "ended js (finalize_then (mem_journal X) R t1 t2
          (js\<lparr>js_journal := s1, js_last_error := Some e, js_done_seen := True\<rparr>) (Some (Inl e)))"
        by (rule ended_cong [OF finalize_then_mem]) (simp_all add: assms ev same_call_def)
      with Some Inr err st assms show ?thesis by (simp add: stream_poll_next_def)
    next
      case ok: (Inr h)
      let ?js = "js\<lparr>js_journal := s1, js_chunk_hashes := js_chunk_hashes js @ [h],
        js_response := accumulate_response ev (js_response js)\<rparr>"
      have poll: "stream_poll_next (mem_journal X) R t1 t2 js item =
          (case ev of SeDone _ _ \<Rightarrow> finalize_then (mem_journal X) R t1 t2 (?js\<lparr>js_done_seen := True\<rparr>) (Some (Inr ev))
            | _ \<Rightarrow> (?js, Some (Inr ev)))"
        using Some Inr ok st assms by (simp add: stream_poll_next_def Let_def)
      show ?thesis
      proof (cases "is_done ev")
        case True
        have "ended js (finalize_then (mem_journal X) R t1 t2 (?js\<lparr>js_done_seen := True\<rparr>) (Some (Inr ev)))"
          by (rule ended_cong [OF finalize_then_mem]) (simp_all add: assms ev same_call_def)
        with True show ?thesis by (simp add: poll is_done_def split: stream_event.splits)
      next
        case False
        then have "stream_poll_next (mem_journal X) R t1 t2 js item = (?js, Some (Inr ev))"
          by (simp add: poll is_done_def split: stream_event.splits)
        with assms False ev show ?thesis by (simp add: still_open_def same_call_def)
      qed
    qed
  qed
qed

section \<open>Every interleaving\<close>

definition channel_inv :: "mem_graph \<Rightarrow> string \<Rightarrow> hash \<Rightarrow> datetime \<Rightarrow> mem_graph channel_state \<Rightarrow> bool" where
  "channel_inv g0 pid rh t0 c \<longleftrightarrow>
     js_provider_id (cs_stream c) = pid \<and> js_request_hash (cs_stream c) = rh \<and> js_started_at (cs_stream c) = t0 \<and>
     js_finalized (cs_stream c) = js_done_seen (cs_stream c) \<and>
     (\<not> js_finalized (cs_stream c) \<longrightarrow> events_of c = mg_events g0 \<and> js_collector (cs_stream c) = cs_recorded c)"

text \<open>What a step does to the journal and to what the consumer has: nothing of note, or the event of the call.\<close>

definition quiet :: "mem_graph channel_state \<Rightarrow> mem_graph channel_state \<Rightarrow> bool" where
  "quiet c c' \<longleftrightarrow> events_of c' = events_of c \<and> (done_delivered c' \<longrightarrow> done_delivered c)"

definition records_call :: "string \<Rightarrow> hash \<Rightarrow> datetime \<Rightarrow> mem_graph channel_state \<Rightarrow> mem_graph channel_state \<Rightarrow> bool" where
  "records_call pid rh t0 c c' \<longleftrightarrow>
     \<not> js_finalized (cs_stream c) \<and> (\<exists>he. events_of c' = events_of c @ [he] \<and> call_event pid rh t0 (cs_recorded c) he)"

lemma channel_inv_start: "channel_inv g pid rh t0 (channel_start t g pid rh t0)"
  by (simp add: channel_inv_def channel_start_def journaling_stream_new_def)

lemma consume_effect:
  assumes "channel_inv g0 pid rh t0 c" "\<not> js_done_seen (cs_stream c)"
  shows "channel_inv g0 pid rh t0 (consume (mem_journal X) R t1 t2 item c)
    \<and> (quiet c (consume (mem_journal X) R t1 t2 item c)
       \<or> records_call pid rh t0 c (consume (mem_journal X) R t1 t2 item c))"
proof -
  let ?js = "cs_stream c" and ?res = "stream_poll_next (mem_journal X) R t1 t2 (cs_stream c) item"
  from assms have i: "\<not> js_finalized ?js" "js_collector ?js = cs_recorded c" "js_provider_id ?js = pid"
      "js_request_hash ?js = rh" "js_started_at ?js = t0" "events_of c = mg_events g0"
    by (auto simp: channel_inv_def)
  have c': "consume (mem_journal X) R t1 t2 item c = c\<lparr>cs_stream := fst ?res, cs_out := cs_out c @ [snd ?res]\<rparr>"
    by (simp add: consume_def split: prod.split)
  from poll_mem [OF i(1) assms(2), of X R t1 t2 item] show ?thesis
  proof
    assume e: "ended ?js ?res"
    then have "channel_inv g0 pid rh t0 (consume (mem_journal X) R t1 t2 item c)"
      using i by (simp add: c' ended_def channel_inv_def same_call_def)
    moreover consider err where "mg_events (js_journal (fst ?res)) = mg_events (js_journal ?js)" "snd ?res = Some (Inl err)"
      | "call_recorded ?js (fst ?res)"
      using e by (auto simp: ended_def)
    then have "quiet c (consume (mem_journal X) R t1 t2 item c)
       \<or> records_call pid rh t0 c (consume (mem_journal X) R t1 t2 item c)"
      by cases (use i in \<open>auto simp: c' quiet_def done_delivered_def records_call_def call_recorded_def\<close>)
    ultimately show ?thesis by blast
  next
    assume "still_open ?js ?res"
    with i show ?thesis
      by (auto simp: c' channel_inv_def still_open_def same_call_def quiet_def done_delivered_def is_done_def)
  qed
qed

lemma consume_finished:
  assumes "js_done_seen (cs_stream c)" "js_finalized (cs_stream c)"
  shows "consume J R t1 t2 item c = c\<lparr>cs_out := cs_out c @ [None]\<rparr>"
  using assms by (simp add: consume_def stream_poll_next_def finalize_then_def stream_finalize_def)

lemma channel_step_effect:
  assumes "channel_inv g0 pid rh t0 c" "channel_step (mem_journal X) R c c'"
  shows "channel_inv g0 pid rh t0 c' \<and> (quiet c c' \<or> records_call pid rh t0 c c')"
  using assms(2)
proof cases
  case (step_put b k s r)
  with assms(1) mem_journal_put_events [OF step_put(3)] show ?thesis
    by (auto simp: channel_inv_def store_object_def quiet_def done_delivered_def)
next
  case (step_item x xs t1 t2)
  let ?c = "c\<lparr>cs_channel := xs\<rparr>"
  have "channel_inv g0 pid rh t0 ?c" using assms(1) by (simp add: channel_inv_def)
  from consume_effect [OF this, of X R t1 t2 "Some x"] step_item show ?thesis
    by (simp add: quiet_def records_call_def done_delivered_def)
next
  case (step_none t1 t2)
  with assms(1) show ?thesis by (simp add: consume_effect)
next
  case (step_again t1 t2)
  moreover from this assms(1) have "js_finalized (cs_stream c)" by (simp add: channel_inv_def)
  ultimately show ?thesis using assms(1)
    by (simp add: consume_finished channel_inv_def quiet_def done_delivered_def)
qed (use assms(1) in \<open>auto simp: channel_inv_def publish_def quiet_def done_delivered_def\<close>)

lemma channel_inv_reach:
  "channel_reach (mem_journal X) R c c' \<Longrightarrow> channel_inv g0 pid rh t0 c \<Longrightarrow> channel_inv g0 pid rh t0 c'"
  by (induction rule: channel_reach.induct) (auto dest: channel_step_effect)

text \<open>The one step that records the call, in a run that has recorded it.\<close>

lemma recording_step:
  assumes "channel_reach (mem_journal X) R c0 c" "channel_inv g0 pid rh t0 c0" "events_of c0 = mg_events g0"
    "\<not> done_delivered c0"
  shows "events_of c = mg_events g0 \<and> \<not> done_delivered c
     \<or> (\<exists>c1 c2 he. channel_reach (mem_journal X) R c0 c1 \<and> channel_step (mem_journal X) R c1 c2
          \<and> channel_reach (mem_journal X) R c2 c \<and> events_of c1 = mg_events g0 \<and> events_of c2 = mg_events g0 @ [he]
          \<and> events_of c = mg_events g0 @ [he] \<and> call_event pid rh t0 (cs_recorded c1) he)"
  using assms
proof (induction rule: channel_reach.induct)
  case (reach_step c0 c1 c2)
  have inv: "channel_inv g0 pid rh t0 c1" using channel_inv_reach reach_step.hyps(1) reach_step.prems(1) by blast
  from channel_step_effect [OF inv reach_step.hyps(2)] consider "quiet c1 c2" | "records_call pid rh t0 c1 c2" by blast
  then show ?case
  proof cases
    case 1
    then have q: "events_of c2 = events_of c1" "\<not> done_delivered c1 \<Longrightarrow> \<not> done_delivered c2"
      by (auto simp: quiet_def)
    from reach_step.IH [OF reach_step.prems] show ?thesis
    proof (elim disjE exE conjE)
      fix d1 d2 he
      assume d: "channel_reach (mem_journal X) R c0 d1" "channel_step (mem_journal X) R d1 d2"
        "channel_reach (mem_journal X) R d2 c1" "events_of d1 = mg_events g0" "events_of d2 = mg_events g0 @ [he]"
        "events_of c1 = mg_events g0 @ [he]" "call_event pid rh t0 (cs_recorded d1) he"
      have "channel_reach (mem_journal X) R d2 c2"
        using d(3) reach_step.hyps(2) by (rule channel_reach.reach_step)
      moreover have "events_of c2 = mg_events g0 @ [he]" using q(1) d(6) by simp
      ultimately show ?thesis using d(1,2,4,5,7) by blast
    qed (use q in simp)
  next
    case 2
    then obtain he where he: "events_of c2 = events_of c1 @ [he]" "call_event pid rh t0 (cs_recorded c1) he"
      by (auto simp: records_call_def)
    from 2 inv have "events_of c1 = mg_events g0" by (simp add: records_call_def channel_inv_def)
    with he have "events_of c1 = mg_events g0" "events_of c2 = mg_events g0 @ [he]" by simp_all
    with reach_step.hyps he(2) channel_reach.reach_refl [of "mem_journal X" R c2] show ?thesis by blast
  qed
qed simp

end
