(* ===== verification/Recorder_Properties.thy ===== *)
theory Recorder_Properties
  imports Provider_Channel Example_Env
begin

text \<open>
  What is recorded of a model call: one event at most, with attempts the task published, in every interleaving;
  the attempts a client publishes are numbered as the journal demands and bounded; the text of an answer does not
  depend on how the network cuts it, except inside a character; and a run in which the recorder overtakes the client.
\<close>

section \<open>One event for one call\<close>

text \<open>C35: Whatever the client does and however its task and the consumer interleave, a call adds at most one
  event to the journal, exactly one if the consumer has been given \<open>Done\<close>. The event is a provider call, appended by
  one step of the run: its attempts are all those the task has published before that step, in order, with the stream
  hash of the last success among them; only if none has been published it is a single one made up for the request.\<close>

theorem one_call_one_event:
  assumes "channel_reach (mem_journal X) R (channel_start t g pid rh t0) c"
  shows "mg_events (js_journal (cs_stream c)) = mg_events g \<and> \<not> done_delivered c
     \<or> (\<exists>c1 c2 h e atts sh. channel_reach (mem_journal X) R (channel_start t g pid rh t0) c1
          \<and> channel_step (mem_journal X) R c1 c2 \<and> channel_reach (mem_journal X) R c2 c
          \<and> mg_events (js_journal (cs_stream c1)) = mg_events g
          \<and> mg_events (js_journal (cs_stream c2)) = mg_events g @ [(h, e)]
          \<and> mg_events (js_journal (cs_stream c)) = mg_events g @ [(h, e)]
          \<and> ev_kind e = ProviderCall pid atts sh
          \<and> (if cs_recorded c1 = []
             then \<exists>a. atts = [a] \<and> at_attempt_number a = 1 \<and> at_request_hash a = rh \<and> at_started_at a = t0
             else atts = cs_recorded c1 \<and> sh = last_success_stream (cs_recorded c1)))"
proof -
  have "events_of (channel_start t g pid rh t0) = mg_events g" "\<not> done_delivered (channel_start t g pid rh t0)"
    by (simp_all add: channel_start_def journaling_stream_new_def done_delivered_def)
  from recording_step [OF assms channel_inv_start this] show ?thesis
    unfolding call_event_def attempts_of_call_def made_up_def by fastforce
qed

section \<open>The attempts of a client\<close>

text \<open>The replies to the requests, and what a client may answer with another request.\<close>

fun replies_of :: "task_act list \<Rightarrow> http_reply list" where
  "replies_of [] = []"
| "replies_of (ActPost _ r # as) = r # replies_of as"
| "replies_of (_ # as) = replies_of as"

lemma length_replies_of: "length (replies_of as) = length (posts_of as)"
  by (induction as rule: posts_of.induct) simp_all

fun reply_status :: "http_reply \<Rightarrow> nat option" where
  "reply_status (HrFailed _ _ _) = None"
| "reply_status (HrResponse st _ _ _ _) = Some st"

text \<open>The status an attempt is published with when its request was answered by a rate limit.\<close>

definition limited :: "client_env \<Rightarrow> http_reply \<Rightarrow> attempt_record \<Rightarrow> bool" where
  "limited E r a \<longleftrightarrow>
     (\<exists>st \<in> {429, 529}. reply_status r = Some st \<and> at_status a = map_http_status_to_attempt_status E st)"

definition attempts_from :: "client_env \<Rightarrow> nat \<Rightarrow> task_act list \<Rightarrow> bool" where
  "attempts_from E n as \<longleftrightarrow>
     length (posts_of as) \<le> 6 - n \<and> length (records_of as) \<le> 6 - n
     \<and> (\<forall>i < length (records_of as). at_attempt_number (records_of as ! i) = of_nat (n + Suc i))
     \<and> list_all (\<lambda>r. reply_status r \<in> {Some 429, Some 529}) (butlast (replies_of as))
     \<and> (\<forall>i. Suc i < length (records_of as) \<longrightarrow>
          i < length (replies_of as) \<and> limited E (replies_of as ! i) (records_of as ! i))"

text \<open>What follows the request of the last attempt.\<close>

definition last_attempt :: "nat \<Rightarrow> task_act list \<Rightarrow> bool" where
  "last_attempt n as \<longleftrightarrow>
     posts_of as = [] \<and> (records_of as = [] \<or> (\<exists>a. records_of as = [a] \<and> at_attempt_number a = of_nat n))"

lemma last_attempt_replies: "last_attempt n as \<Longrightarrow> replies_of as = []"
  using length_replies_of [of as] by (simp add: last_attempt_def)

lemma last_attempt_simps [simp]:
  "last_attempt n []"
  "last_attempt n (ActPut b r # as) = last_attempt n as"
  "last_attempt n (ActSend x ok # as) = last_attempt n as"
  by (cases ok; simp add: last_attempt_def)+

lemma attempts_from_simps [simp]:
  "attempts_from E n []"
  "attempts_from E n (ActPut b r # as) = attempts_from E n as"
  "attempts_from E n (ActSend x ok # as) = attempts_from E n as"
  by (cases ok; simp add: attempts_from_def)+

lemma wp_send_end [simp]: "task_wp (send_end x) Q = (\<forall>ok. Q [ActSend x ok])"
  by (simp add: send_end_def)

lemma wp_record_attempt [simp]:
  "task_wp (record_attempt n t0 rh st resp sh err k) Q =
     (case rh of None \<Rightarrow> task_wp k Q
      | Some h \<Rightarrow> \<forall>t1. task_wp k (\<lambda>as. Q (ActRecord \<lparr>at_attempt_number = of_nat n, at_started_at = t0, at_ended_at = t1,
          at_status = st, at_request_hash = h, at_response_hash = resp, at_stream_hash = sh, at_error_message = err\<rparr> # as)))"
  by (simp add: record_attempt_def split: option.split)

lemma wp_attempt_failure: "task_wp (attempt_failure n t0 rh st e) (last_attempt n)"
  by (simp add: attempt_failure_def last_attempt_def split: option.split)

lemma wp_emit_block:
  assumes "\<And>st. task_wp (k st) (last_attempt n)"
  shows "task_wp (emit_block E obs evs st k) (last_attempt n)"
  by (induction evs arbitrary: st) (auto simp: Let_def intro!: assms wp_observe_event)

lemma wp_answer_failure: "task_wp (answer_failure E n t0 rh st e) (last_attempt n)"
  by (auto simp: answer_failure_def last_attempt_def put_opt_def split: option.split sum.split)

lemma wp_answer_success: "task_wp (answer_success E n t0 rh st) (last_attempt n)"
  by (auto simp: answer_success_def last_attempt_def put_opt_def Let_def split: option.split sum.split)

lemma wp_close_answer:
  assumes "\<And>st. task_wp (k st) (last_attempt n)"
  shows "task_wp (close_answer E obs usage st k) (last_attempt n)"
  by (cases usage) (auto simp: close_answer_def Let_def intro!: assms wp_observe_event)

lemma wp_anthropic_blocks: "task_wp (anthropic_blocks E obs n t0 rh bs stop an s) (last_attempt n)"
  by (induction E obs n t0 rh bs stop an s rule: anthropic_blocks.induct)
    (auto intro!: wp_answer_failure wp_close_answer wp_answer_success wp_emit_block
      split: option.split sum.split)

lemma wp_anthropic_answer: "task_wp (anthropic_answer E A obs n t0 rh late chunks) (last_attempt n)"
  by (auto simp: anthropic_answer_def Let_def simp del: anthropic_blocks.simps intro!: wp_put_opt wp_attempt_failure wp_anthropic_blocks
      split: prod.split list.split option.split)

lemma last_attempt_from:
  "last_attempt (n + 1) as \<Longrightarrow> n \<le> 5 \<Longrightarrow> attempts_from E n (ActPost b r # as)"
  by (frule last_attempt_replies) (auto simp: last_attempt_def attempts_from_def)

lemma last_attempt_begun: "last_attempt (n + 1) as \<Longrightarrow> n \<le> 5 \<Longrightarrow> attempts_from E n as"
  by (frule last_attempt_replies) (auto simp: last_attempt_def attempts_from_def)

lemma attempts_from_retry:
  assumes "attempts_from E (n + 1) as" "n + 1 \<le> 5" "at_attempt_number a = of_nat (n + 1)" "limited E r a"
  shows "attempts_from E n (ActPost b r # ActRecord a # as)"
proof -
  have 1: "at_attempt_number ((a # records_of as) ! i) = of_nat (n + Suc i)" if "i < Suc (length (records_of as))" for i
    using assms that by (cases i) (auto simp: attempts_from_def)
  have 2: "i < Suc (length (replies_of as)) \<and> limited E ((r # replies_of as) ! i) ((a # records_of as) ! i)"
    if "i < length (records_of as)" for i
    using assms(1,4) that by (cases i) (auto simp: attempts_from_def)
  have "reply_status r \<in> {Some 429, Some 529}" using assms(4) by (auto simp: limited_def)
  with assms(1) have 3: "list_all (\<lambda>r. reply_status r \<in> {Some 429, Some 529}) (butlast (r # replies_of as))"
    by (simp add: attempts_from_def)
  show ?thesis using assms(1,2) 1 2 3 by (auto simp: attempts_from_def)
qed

lemma wp_wait_hints:
  assumes "task_wp k (\<lambda>as. Q as)" "\<And>x ok as. Q as \<Longrightarrow> Q (ActSend x ok # as)"
  shows "task_wp (wait_hints n w k) Q"
  using assms(1) by (induction w) (auto intro: task_wp_mono assms(2))

lemma last_attempt_recorded: "at_attempt_number a = of_nat n \<Longrightarrow> last_attempt n [ActRecord a, ActSend x ok]"
  by (cases ok) (simp_all add: last_attempt_def)

lemma wp_begin_attempt:
  assumes "\<And>t0 h. task_wp (k t0 (Some h)) (attempts_from E n)" "n \<le> 5"
  shows "task_wp (begin_attempt E True (n + 1) request k) (attempts_from E n)"
proof -
  have failed: "attempts_from E n [ActRecord a, ActSend x ok]" if "at_attempt_number a = of_nat (n + 1)" for a x ok
    using that assms(2) by (intro last_attempt_begun last_attempt_recorded)
  show ?thesis
    using assms(1) by (auto simp: begin_attempt_def request_stored_def Let_def failed split: sum.split)
qed

lemma wp_with_fallback:
  assumes "\<And>ap rq. task_wp (k ap rq) (attempts_from E n)"
  shows "task_wp (with_fallback c m applied request k) (attempts_from E n)"
  using assms by (simp add: with_fallback_def split: option.split)

lemma wp_rate_limited:
  assumes "n \<le> 5" "n + 1 \<le> 5 \<Longrightarrow> task_wp later (attempts_from E (n + 1))" "st = 429 \<or> st = 529"
    and "reply_status r = Some st"
  shows "task_wp
    (record_attempt (n + 1) t0 (Some h) (map_http_status_to_attempt_status E st) None None err
      (if n + 1 > RETRY_MAX then send_end x else wait_hints m w later)) (\<lambda>as. attempts_from E n (ActPost b r # as))"
proof (cases "n + 1 > RETRY_MAX")
  case True
  with assms(1) show ?thesis by (auto intro!: last_attempt_from last_attempt_recorded)
next
  case False
  then have n: "n + 1 \<le> 5" by (simp add: RETRY_MAX_def)
  have "task_wp (wait_hints m w later) (attempts_from E (n + 1))"
    by (rule wp_wait_hints) (use assms(2) n in auto)
  moreover have "limited E r a" if "at_status a = map_http_status_to_attempt_status E st" for a
    using assms(3,4) that by (auto simp: limited_def)
  ultimately show ?thesis using False n by (auto intro!: attempts_from_retry elim!: task_wp_mono)
qed

lemma wp_refusal: "task_wp (anthropic_refusal E n t0 rh st ra txt) (last_attempt n)"
  by (auto simp: anthropic_refusal_def Let_def intro: wp_attempt_failure split: sum.split)

lemma wp_run_anthropic_stream:
  "n \<le> 5 \<Longrightarrow> obs \<Longrightarrow> task_wp (run_anthropic_stream E A c obs n applied request) (attempts_from E n)"
proof (induction E A c obs n applied request rule: run_anthropic_stream.induct)
  case (1 E A c obs n applied request)
  have ended: "task_wp t (\<lambda>as. attempts_from E n (ActPost b r # as))" if "task_wp t (last_attempt (n + 1))" for t b r
    using that 1(2) by (auto elim!: task_wp_mono intro: last_attempt_from)
  have obs: "obs = True" using 1(3) by simp
  note ih = 1(1) and n = 1(2)
  show ?case
    unfolding obs run_anthropic_stream.simps [of E A c True n applied request]
  proof (rule wp_with_fallback, rule wp_begin_attempt, simp only: task_wp.simps, rule allI, goal_cases)
    case (1 ap rq t0 h reply)
    have retry: "task_wp (run_anthropic_stream E A c True (n + 1) ap rq) (attempts_from E (n + 1))" if "n + 1 \<le> 5"
      using ih that by (simp add: obs RETRY_MAX_def)
    show ?case
    proof (cases reply)
      case (HrFailed x y e)
      then show ?thesis by (auto simp: anthropic_reply_def Let_def intro!: ended wp_attempt_failure)
    next
      case (HrResponse st ra tx late chunks)
      consider "is_success st" | "\<not> is_success st" "st = 429 \<or> st = 529" | "\<not> is_success st" "\<not> (st = 429 \<or> st = 529)"
        by blast
      then show ?thesis
      proof cases
        case 1
        with HrResponse show ?thesis by (simp add: anthropic_reply_def ended wp_anthropic_answer)
      next
        case 2
        show ?thesis
          unfolding HrResponse anthropic_reply_def http_reply.case if_not_P [OF 2(1)] if_P [OF 2(2)] Let_def
          by (rule wp_rate_limited [OF n retry 2(2) reply_status.simps(2)])
      next
        case 3
        then show ?thesis unfolding HrResponse by (simp add: anthropic_reply_def ended wp_refusal)
      qed
    qed
  qed (rule 1(2))
qed

subsection \<open>The client in the style of OpenAI\<close>

lemma wp_openai_blocks: "task_wp (openai_blocks E obs n t0 rh bs stop an s) (last_attempt n)"
  by (induction E obs n t0 rh bs stop an s rule: openai_blocks.induct)
    (auto intro!: wp_answer_failure wp_close_answer wp_answer_success wp_emit_block
      split: option.split sum.split prod.split)

lemma wp_openai_answer: "task_wp (openai_answer E A label obs n t0 rh late chunks) (last_attempt n)"
  by (auto simp: openai_answer_def Let_def simp del: openai_blocks.simps intro!: wp_put_opt wp_attempt_failure wp_openai_blocks
      split: prod.split list.split option.split)

lemma wp_openai_refusal: "task_wp (openai_refusal E n t0 rh st txt) (last_attempt n)"
  by (auto simp: openai_refusal_def Let_def intro: wp_attempt_failure split: sum.split)

lemma wp_run_openai_stream:
  "n \<le> 5 \<Longrightarrow> obs \<Longrightarrow> task_wp (run_openai_stream E A label jitter c obs n applied request) (attempts_from E n)"
proof (induction E A label jitter c obs n applied request rule: run_openai_stream.induct)
  case (1 E A label jitter c obs n applied request)
  have ended: "task_wp t (\<lambda>as. attempts_from E n (ActPost b r # as))" if "task_wp t (last_attempt (n + 1))" for t b r
    using that 1(2) by (auto elim!: task_wp_mono intro: last_attempt_from)
  have obs: "obs = True" using 1(3) by simp
  note ih = 1(1) and n = 1(2)
  show ?case
    unfolding obs run_openai_stream.simps [of E A label jitter c True n applied request]
  proof (rule wp_with_fallback, rule wp_begin_attempt, simp only: task_wp.simps, rule allI, goal_cases)
    case (1 ap rq t0 h reply)
    have retry: "task_wp (run_openai_stream E A label jitter c True (n + 1) ap rq) (attempts_from E (n + 1))" if "n + 1 \<le> 5"
      using ih that by (simp add: obs RETRY_MAX_def)
    show ?case
    proof (cases reply)
      case (HrFailed x y e)
      then show ?thesis by (auto simp: openai_reply_def Let_def intro!: ended wp_attempt_failure)
    next
      case (HrResponse st ra tx late chunks)
      consider "is_success st" | "\<not> is_success st" "st = 429 \<or> st = 529" | "\<not> is_success st" "\<not> (st = 429 \<or> st = 529)"
        by blast
      then show ?thesis
      proof cases
        case 1
        with HrResponse show ?thesis by (simp add: openai_reply_def ended wp_openai_answer)
      next
        case 2
        show ?thesis
          unfolding HrResponse openai_reply_def http_reply.case if_not_P [OF 2(1)] if_P [OF 2(2)] Let_def
          by (rule wp_rate_limited [OF n retry 2(2) reply_status.simps(2)])
      next
        case 3
        then show ?thesis unfolding HrResponse by (simp add: openai_reply_def ended wp_openai_refusal)
      qed
    qed
  qed (rule 1(2))
qed

text \<open>C36: In every execution of a client's task, at most six requests are posted and six attempts published. Every
  request but the last was answered with the status 429 or 529, and every attempt but the last is that of such a
  request, published with the status this answer stands for. The attempts are numbered as the journal demands, so
  no provider call is refused by the journal for its attempts, as long as the clock does not run backwards.\<close>

theorem published_attempts_fit_the_journal:
  assumes "task_exec (anthropic_complete E A True ms c) as \<or> task_exec (openai_complete E B upper jitter True ms c) as"
    and "sorted (map at_started_at (records_of as))"
  shows "length (posts_of as) \<le> 6 \<and> length (records_of as) \<le> 6 \<and> attempts_ok (records_of as)
     \<and> list_all (\<lambda>r. reply_status r \<in> {Some 429, Some 529}) (butlast (replies_of as))
     \<and> (\<forall>i. Suc i < length (records_of as) \<longrightarrow>
          i < length (replies_of as) \<and> limited E (replies_of as ! i) (records_of as ! i))"
proof -
  have "task_wp (anthropic_complete E A True ms c) (attempts_from E 0)"
    by (auto simp: anthropic_complete_def Let_def intro: wp_run_anthropic_stream split: prod.split)
  moreover have "task_wp (openai_complete E B upper jitter True ms c) (attempts_from E 0)"
    by (simp add: openai_complete_def wp_run_openai_stream)
  ultimately have "attempts_from E 0 as" using assms(1) task_wp_sound by blast
  with assms(2) show ?thesis by (simp add: attempts_from_def attempts_ok_def)
qed

section \<open>The text of an answer\<close>

text \<open>The blocks read from an answer depend only on its bytes, not on how the network cuts them into chunks,
  if every chunk is text on its own.\<close>

theorem chunking_is_irrelevant:
  assumes "list_all (\<lambda>c. utf8_valid (bytes_text c)) cs" "list_all (\<lambda>c. utf8_valid (bytes_text c)) ds"
    and "concat cs = concat ds"
  shows "sse_events None [] (map Inr cs) = sse_events None [] (map Inr ds)"
  using assms by (simp add: events_of_chunks concat_lossy_valid)

text \<open>A chunk that ends inside a character changes the text: each half becomes a replacement character.\<close>

theorem split_character_is_corrupted:
  "concat [[0x64, 0x3A, 0xC3], [0xA9]] = concat [[0x64, 0x3A, 0xC3, 0xA9 :: byte]]
   \<and> fst (sse_events None [] [Inr [0x64, 0x3A, 0xC3, 0xA9]]) = [[CHR ''d'', CHR '':'', CHR 0xC3, CHR 0xA9]]
   \<and> fst (sse_events None [] [Inr [0x64, 0x3A, 0xC3], Inr [0xA9]])
       = [[CHR ''d'', CHR '':''] @ REPLACEMENT @ REPLACEMENT]"
  by code_simp

section \<open>A recorder that overtakes the client\<close>

text \<open>The parts of a channel state a run is steered by, with a journal that stores every object.\<close>

definition can_be ::
    "'x event_ext_scheme \<Rightarrow> 'c recorder_env \<Rightarrow> mem_graph channel_state \<Rightarrow> task \<Rightarrow> (model_error + stream_event) list
     \<Rightarrow> attempt_record list \<Rightarrow> bool" where
  "can_be X R c0 t q rs \<longleftrightarrow>
     (\<exists>c. channel_reach (mem_journal X) R c0 c \<and> cs_task c = t \<and> cs_channel c = q \<and> cs_open c
        \<and> js_collector (cs_stream c) = rs \<and> \<not> js_done_seen (cs_stream c) \<and> \<not> js_finalized (cs_stream c)
        \<and> events_of c = events_of c0 \<and> \<not> ms_poisoned (mg_store (js_journal (cs_stream c)))
        \<and> js_provider_id (cs_stream c) = js_provider_id (cs_stream c0))"

lemma can_beE:
  assumes "can_be X R c0 t q rs"
  obtains c where "channel_reach (mem_journal X) R c0 c" "cs_task c = t" "cs_channel c = q" "cs_open c"
    "js_collector (cs_stream c) = rs" "\<not> js_done_seen (cs_stream c)" "\<not> js_finalized (cs_stream c)"
    "events_of c = events_of c0" "\<not> ms_poisoned (mg_store (js_journal (cs_stream c)))"
    "js_provider_id (cs_stream c) = js_provider_id (cs_stream c0)"
  using assms by (auto simp: can_be_def)

lemma can_now: "can_be X R c0 (TkNow k) q rs \<Longrightarrow> can_be X R c0 (k t) q rs"
  by (erule can_beE) (unfold can_be_def, intro exI conjI, erule reach_step, erule step_now, simp_all)

lemma can_post: "can_be X R c0 (TkPost b k) q rs \<Longrightarrow> can_be X R c0 (k r) q rs"
  by (erule can_beE) (unfold can_be_def, intro exI conjI, erule reach_step, erule step_post, simp_all)

lemma can_record: "can_be X R c0 (TkRecord a t) q rs \<Longrightarrow> can_be X R c0 t q (rs @ [a])"
  by (erule can_beE) (unfold can_be_def, intro exI conjI, erule reach_step, erule step_record, simp_all add: publish_def)

lemma can_send: "can_be X R c0 (TkSend x k) q rs \<Longrightarrow> length q < CHANNEL_CAPACITY \<Longrightarrow> can_be X R c0 (k True) (q @ [x]) rs"
  by (erule can_beE) (unfold can_be_def, intro exI conjI, erule reach_step, erule step_send, simp_all)

lemma put_alive:
  assumes "\<not> ms_poisoned (mg_store g)"
  obtains g' h where "jo_put (mem_journal X) g b = (g', Inr h)" "mg_events g' = mg_events g"
    "\<not> ms_poisoned (mg_store g')"
  using assms by (simp add: mem_journal_def mem_put_def Let_def)

lemma can_put: "can_be X R c0 (TkPut b k) q rs \<Longrightarrow> \<exists>h. can_be X R c0 (k (Inr h)) q rs"
proof (erule can_beE)
  fix c
  assume c: "channel_reach (mem_journal X) R c0 c" "cs_task c = TkPut b k" "cs_channel c = q" "cs_open c"
    "js_collector (cs_stream c) = rs" "\<not> js_done_seen (cs_stream c)" "\<not> js_finalized (cs_stream c)"
    "events_of c = events_of c0" "\<not> ms_poisoned (mg_store (js_journal (cs_stream c)))"
    "js_provider_id (cs_stream c) = js_provider_id (cs_stream c0)"
  from put_alive [OF c(9)] obtain g' h where p: "jo_put (mem_journal X) (js_journal (cs_stream c)) b = (g', Inr h)"
    "mg_events g' = mg_events (js_journal (cs_stream c))" "\<not> ms_poisoned (mg_store g')" by blast
  have "channel_reach (mem_journal X) R c0 (store_object (k (Inr h)) g' c)"
    using reach_step [OF c(1) step_put [OF c(2) p(1)]] .
  with c p show ?thesis unfolding can_be_def by (intro exI [of _ h] exI [of _ "store_object (k (Inr h)) g' c"])
    (simp add: store_object_def)
qed

lemma can_poll:
  assumes "can_be X R c0 t (Inr ev # q) rs" "\<not> is_done ev" "\<And>ch. \<exists>b. rc_chunk R ch = Inr b"
  shows "can_be X R c0 t q rs"
  using assms(1)
proof (rule can_beE)
  fix c
  assume c: "channel_reach (mem_journal X) R c0 c" "cs_task c = t" "cs_channel c = Inr ev # q" "cs_open c"
    "js_collector (cs_stream c) = rs" "\<not> js_done_seen (cs_stream c)" "\<not> js_finalized (cs_stream c)"
    "events_of c = events_of c0" "\<not> ms_poisoned (mg_store (js_journal (cs_stream c)))"
    "js_provider_id (cs_stream c) = js_provider_id (cs_stream c0)"
  from assms(3) obtain b where b: "rc_chunk R (stream_event_chunk_of ev) = Inr b" by blast
  from put_alive [OF c(9)] obtain g' h where p: "jo_put (mem_journal X) (js_journal (cs_stream c)) b = (g', Inr h)"
    "mg_events g' = mg_events (js_journal (cs_stream c))" "\<not> ms_poisoned (mg_store g')" by blast
  have st: "store_stream_event_chunk (mem_journal X) R (js_journal (cs_stream c)) ev = (g', Inr h)"
    by (simp add: store_stream_event_chunk_def put_encoded_def cbor_error_def b put_bytes_def p)
  have "channel_reach (mem_journal X) R c0 (consume (mem_journal X) R 0 0 (Some (Inr ev)) (c\<lparr>cs_channel := q\<rparr>))"
    using reach_step [OF c(1) step_item [OF c(4,6,3)]] .
  with c p assms(2) show ?thesis unfolding can_be_def
    by (intro exI [of _ "consume (mem_journal X) R 0 0 (Some (Inr ev)) (c\<lparr>cs_channel := q\<rparr>)"])
      (simp add: consume_def stream_poll_next_def st Let_def is_done_def split: stream_event.splits)
qed

lemma append_total:
  assumes "\<And>w. \<exists>b. x_cbor_event X w = Inr b" "kind_ok k" "\<not> is_session_start k" "mg_events g \<noteq> []"
  obtains g' h e where "mem_append X t g k = (g', Inr h)" "mg_events g' = mg_events g @ [(h, e)]" "ev_kind e = k"
proof -
  let ?e = "\<lparr>ev_parents = opt_list (map_option fst (last_opt (mg_events g))), ev_kind = k,
           ev_emitted_at = t, ev_sequence = of_nat (length (mg_events g))\<rparr>"
  from assms(1) obtain b where "x_cbor_event X (wire_of_event X ?e) = Inr b" by blast
  then have "content_hash X (ms_algorithm (mg_store g)) ?e = Inr (digest_bytes X (ms_algorithm (mg_store g)) b)"
    by (simp add: content_hash_def)
  with assms that [of _ _ ?e] show thesis by (simp add: mem_append_Inr_iff)
qed

lemma can_finish:
  assumes "can_be X R c0 t (Inr (SeDone sr calls) # q) rs" "\<And>ch. \<exists>b. rc_chunk R ch = Inr b"
    and "\<And>w. \<exists>b. x_cbor_event X w = Inr b" "rs \<noteq> []" "attempts_ok rs" "events_of c0 \<noteq> []"
  shows "\<exists>c h e. channel_reach (mem_journal X) R c0 c \<and> done_delivered c \<and> events_of c = events_of c0 @ [(h, e)]
     \<and> ev_kind e = ProviderCall (js_provider_id (cs_stream c0)) rs (last_success_stream rs)"
  using assms(1)
proof (rule can_beE)
  fix c
  assume c: "channel_reach (mem_journal X) R c0 c" "cs_task c = t" "cs_channel c = Inr (SeDone sr calls) # q" "cs_open c"
    "js_collector (cs_stream c) = rs" "\<not> js_done_seen (cs_stream c)" "\<not> js_finalized (cs_stream c)"
    "events_of c = events_of c0" "\<not> ms_poisoned (mg_store (js_journal (cs_stream c)))"
    "js_provider_id (cs_stream c) = js_provider_id (cs_stream c0)"
  let ?ev = "SeDone sr calls" and ?k = "ProviderCall (js_provider_id (cs_stream c0)) rs (last_success_stream rs)"
  from assms(2) obtain b where b: "rc_chunk R (stream_event_chunk_of ?ev) = Inr b" by blast
  from put_alive [OF c(9)] obtain g1 h1 where p: "jo_put (mem_journal X) (js_journal (cs_stream c)) b = (g1, Inr h1)"
    "mg_events g1 = mg_events (js_journal (cs_stream c))" by blast
  have st: "store_stream_event_chunk (mem_journal X) R (js_journal (cs_stream c)) ?ev = (g1, Inr h1)"
    by (simp add: store_stream_event_chunk_def put_encoded_def cbor_error_def b put_bytes_def p)
  have "kind_ok ?k" using assms(4,5) by (simp add: kind_ok_def)
  moreover have "\<not> is_session_start ?k" by (simp add: is_session_start_def)
  moreover have "mg_events g1 \<noteq> []" using p(2) c(8) assms(6) by simp
  ultimately obtain g2 h e where
    a: "mem_append X 0 g1 ?k = (g2, Inr h)" "mg_events g2 = mg_events g1 @ [(h, e)]" "ev_kind e = ?k"
    using append_total [OF assms(3)] by metis
  have jo: "jo_append (mem_journal X) = mem_append X" by (simp add: mem_journal_def)
  let ?c = "consume (mem_journal X) R 0 0 (Some (Inr ?ev)) (c\<lparr>cs_channel := q\<rparr>)"
  have "channel_reach (mem_journal X) R c0 ?c" using reach_step [OF c(1) step_item [OF c(4,6,3)]] .
  moreover have "done_delivered ?c \<and> events_of ?c = events_of c0 @ [(h, e)]"
    using c p a assms(4)
    by (auto simp: consume_def stream_poll_next_def st Let_def finalize_then_def stream_finalize_def final_attempts_def
        append_provider_call_def jo done_delivered_def)
  ultimately show ?thesis using a(3) by blast
qed

text \<open>A client all of whose encoders succeed.\<close>

definition encodes :: "client_env \<Rightarrow> bool" where
  "encodes E \<longleftrightarrow> (\<forall>v. \<exists>b. cl_body E v = Inr b) \<and> (\<forall>ch. \<exists>b. cl_chunk E ch = Inr b)"

lemma can_begin:
  assumes "can_be X R c0 (begin_attempt E True n request k) q rs" "encodes E"
  shows "\<exists>h. can_be X R c0 (k t0 (Some h)) q rs"
proof -
  from assms(2) obtain b where "cl_body E request = Inr b" by (auto simp: encodes_def)
  with can_now [of X R c0 _ q rs t0] assms(1) have "can_be X R c0 (TkPut b (request_stored E n t0 k)) q rs"
    by (fastforce simp: begin_attempt_def)
  from can_put [OF this] show ?thesis by (simp add: request_stored_def)
qed

lemma can_put_opt:
  "can_be X R c0 (put_opt (Inr b) k) q rs \<Longrightarrow> \<exists>h. can_be X R c0 (k (Some h)) q rs"
  by (auto simp: put_opt_def dest!: can_put)

lemma can_emit:
  assumes "can_be X R c0 (emit_block E True [ev] st k) q rs" "encodes E" "length q < CHANNEL_CAPACITY"
  shows "\<exists>st'. can_be X R c0 (k st') (q @ [Inr ev]) rs"
proof -
  from assms(2) obtain b where "cl_chunk E (client_chunk ev) = Inr b" by (auto simp: encodes_def)
  with assms(1) have "can_be X R c0 (put_opt (Inr b) (\<lambda>r. case r of
        None \<Rightarrow> TkSend (Inr ev) (\<lambda>ok. if ok then k (sent st) else TkEnd)
      | Some h \<Rightarrow> TkSend (Inr ev) (\<lambda>ok. if ok then k (sent (st\<lparr>an_hashes := an_hashes st @ [h]\<rparr>)) else TkEnd))) q rs"
    if "sent = (\<lambda>st1. st1\<lparr>an_response := accumulate_response ev (an_response st1), an_done := an_done st1 \<or> is_done ev\<rparr>)" for sent
    using that by (simp add: observe_event_def Let_def cong: if_cong option.case_cong)
  from can_put_opt [OF this [OF refl]] show ?thesis using can_send [OF _ assms(3)] by fastforce
qed

lemma no_fallback_yet: "with_fallback c n False request k = k False request" if "n \<noteq> 3"
  using that by (simp add: with_fallback_def split: option.split)

lemma can_be_start:
  assumes "\<not> ms_poisoned (mg_store g)"
  shows "can_be X R (channel_start t g pid rh t0) t [] []"
  unfolding can_be_def using assms
  by (intro exI [of _ "channel_start t g pid rh t0"]) (simp add: reach_refl channel_start_def journaling_stream_new_def)

text \<open>A first attempt that is answered 429 without a header, up to the second attempt.\<close>

lemma can_retry:
  assumes "can_be X R c0 (run_anthropic_stream E A c True 0 False request) [] []" "encodes E"
  shows "\<exists>a hint. at_status a = Events.RateLimited \<and> at_attempt_number a = 1 \<and>
    can_be X R c0 (run_anthropic_stream E A c True 1 False request) [Inr (SeStatusHint hint)] [a]"
proof -
  let ?reply = "HrResponse 429 None (Inr []) False []"
  from can_begin [OF assms(1) [unfolded run_anthropic_stream.simps [of E A c True 0] no_fallback_yet [of 0, simplified]] assms(2)]
  obtain h where "can_be X R c0 (TkPost request (anthropic_reply E A True (0 + 1) 0 (Some h)
      (run_anthropic_stream E A c True (0 + 1) False request))) [] []" by blast
  from can_post [OF this, of ?reply] obtain a where a: "at_status a = Events.RateLimited" "at_attempt_number a = 1"
    and "can_be X R c0 (wait_hints 1 1 (run_anthropic_stream E A c True 1 False request)) [] [a]"
    by (force simp: anthropic_reply_def is_success_def record_attempt_def RETRY_MAX_def anthropic_wait_secs_def
        map_http_status_to_attempt_status_def dest!: can_now [where t = 0] can_record)
  then show ?thesis by (force simp: CHANNEL_CAPACITY_def dest!: can_send)
qed

text \<open>The second attempt, answered by a stream whose first block ends the answer.\<close>

lemma can_answer:
  assumes "can_be X R c0 (run_anthropic_stream E A c True 1 False request) q [a]" "encodes E" "length q < 10"
    and "sse_events None [] chunks = (b # bs, stop)" "sse_block_to_json E b = Inr (Some v)"
    and "apply_anthropic_sse_json E v sse_start = Inr (s1, [SeDone r calls])"
  shows "\<exists>t p m. can_be X R c0 t (q @ [Inr (SeProviderReady p m), Inr (SeDone r calls)]) [a]"
proof -
  have one: "(1 :: nat) \<noteq> 3" by simp
  let ?reply = "HrResponse 200 None (Inr []) False chunks" and ?ev = "SeProviderReady ''Anthropic'' (ai_model A)"
  from can_begin [OF assms(1) [unfolded run_anthropic_stream.simps [of E A c True 1] no_fallback_yet [OF one]] assms(2)]
  obtain h where "can_be X R c0 (TkPost request (anthropic_reply E A True (1 + 1) 0 (Some h)
      (run_anthropic_stream E A c True (1 + 1) False request))) q [a]" by blast
  from can_post [OF this, of ?reply] have "can_be X R c0 (anthropic_answer E A True 2 0 (Some h) False chunks) q [a]"
    by (simp add: anthropic_reply_def is_success_def numeral_2_eq_2)
  moreover from assms(2) obtain rb where "cl_chunk E (client_chunk ?ev) = Inr rb" by (auto simp: encodes_def)
  ultimately obtain k where "can_be X R c0 (TkSend (Inr ?ev) k) q [a]"
      "k True = anthropic_blocks E True 2 0 (Some h) (b # bs) stop answer_start sse_start"
    using assms(4) by (auto simp: anthropic_answer_def Let_def simp del: anthropic_blocks.simps dest!: can_put_opt)
  with can_send [of X R c0 "Inr ?ev" k q "[a]"] assms(3,5,6)
  have "can_be X R c0 (emit_block E True [SeDone r calls] answer_start (\<lambda>an1.
      if an_done an1 then answer_success E 2 0 (Some h) an1
      else anthropic_blocks E True 2 0 (Some h) bs stop an1 s1)) (q @ [Inr ?ev]) [a]"
    by (simp add: CHANNEL_CAPACITY_def del: emit_block.simps)
  from can_emit [OF this assms(2)] assms(3) show ?thesis by (auto simp: CHANNEL_CAPACITY_def)
qed

text \<open>C38: The client sends \<open>Done\<close> before it publishes its last attempt. When a first attempt was answered 429, the
  recorder can take the attempts in between: the consumer is given the answer, and the journal keeps a provider call
  whose only attempt is the rate-limited one, without the hash of the stream.\<close>

theorem recorder_can_overtake_the_client:
  assumes "encodes E" "\<And>ch. \<exists>b. rc_chunk R ch = Inr b" "\<And>w. \<exists>b. x_cbor_event X w = Inr b"
    and "\<not> ms_poisoned (mg_store g)" "mg_events g \<noteq> []"
    and "sse_events None [] chunks = (b # bs, stop)" "sse_block_to_json E b = Inr (Some v)"
    and "apply_anthropic_sse_json E v sse_start = Inr (s1, [SeDone r calls])"
  shows "\<exists>c h e a. channel_reach (mem_journal X) R (channel_start (anthropic_complete E A True ms cf) g pid rh t0) c
     \<and> done_delivered c \<and> mg_events (js_journal (cs_stream c)) = mg_events g @ [(h, e)]
     \<and> ev_kind e = ProviderCall pid [a] None \<and> at_status a = Events.RateLimited"
proof -
  let ?c0 = "channel_start (anthropic_complete E A True ms cf) g pid rh t0"
  have c0: "events_of ?c0 = mg_events g" "js_provider_id (cs_stream ?c0) = pid"
    by (simp_all add: channel_start_def journaling_stream_new_def)
  obtain blocks rest where "anthropic_leading_system_blocks ms = (blocks, rest)" by fastforce
  then obtain rq where rq: "anthropic_complete E A True ms cf = run_anthropic_stream E A cf True 0 False rq"
    unfolding anthropic_complete_def Let_def by simp
  from can_be_start [OF assms(4), of X R "anthropic_complete E A True ms cf" pid rh t0]
  have "can_be X R ?c0 (run_anthropic_stream E A cf True 0 False rq) [] []" by (simp only: rq)
  from can_retry [OF this assms(1)] obtain a hint where a: "at_status a = Events.RateLimited" "at_attempt_number a = 1"
    and "can_be X R ?c0 (run_anthropic_stream E A cf True 1 False rq) [Inr (SeStatusHint hint)] [a]" by blast
  from can_answer [OF this(3) assms(1) _ assms(6-8)] obtain t p m where
    "can_be X R ?c0 t [Inr (SeStatusHint hint), Inr (SeProviderReady p m), Inr (SeDone r calls)] [a]" by auto
  from can_poll [OF can_poll [OF this _ assms(2)] _ assms(2)]
  have "can_be X R ?c0 t [Inr (SeDone r calls)] [a]" by (simp add: is_done_def)
  from can_finish [OF this assms(2,3)] a c0 assms(5) show ?thesis
    by (auto simp: attempts_ok_def last_success_stream_def)
qed

end
