(* ===== verification/Stream_Properties.thy ===== *)
theory Stream_Properties
  imports Openai_Compat
begin

text \<open>The meaning of an answer of the Messages API: which tool calls the blocks of a well-formed stream amount to.\<close>

section \<open>Well-formed streams\<close>

text \<open>A tool call as it is streamed: its index, id and name, and the fragments of its arguments.\<close>

type_synonym streamed_call = "u64 \<times> string \<times> string \<times> string list"

definition index_json :: "u64 \<Rightarrow> json" where
  "index_json i = JNumber (show_nat (unat i))"

definition start_event :: "u64 \<Rightarrow> string \<Rightarrow> string \<Rightarrow> json" where
  "start_event i cid nm =
     JObject [(''content_block'', JObject [(''id'', JString cid), (''name'', JString nm), (''type'', JString ''tool_use'')]),
       (''index'', index_json i), (''type'', JString ''content_block_start'')]"

definition fragment_event :: "u64 \<Rightarrow> string \<Rightarrow> json" where
  "fragment_event i p =
     JObject [(''delta'', JObject [(''partial_json'', JString p), (''type'', JString ''input_json_delta'')]),
       (''index'', index_json i), (''type'', JString ''content_block_delta'')]"

definition stop_event :: "u64 \<Rightarrow> json" where
  "stop_event i = JObject [(''index'', index_json i), (''type'', JString ''content_block_stop'')]"

definition end_event :: "string \<Rightarrow> json" where
  "end_event sr = JObject [(''delta'', JObject [(''stop_reason'', JString sr)]), (''type'', JString ''message_delta'')]"

definition call_events :: "streamed_call \<Rightarrow> json list" where
  "call_events x =
     (case x of (i, cid, nm, ps) \<Rightarrow> start_event i cid nm # map (fragment_event i) ps @ [stop_event i])"

definition assembled :: "client_env \<Rightarrow> streamed_call \<Rightarrow> tool_call" where
  "assembled E x = (case x of (i, cid, nm, ps) \<Rightarrow> \<lparr>tc_id = cid, tc_name = nm, tc_arguments = tool_arguments E (concat ps)\<rparr>)"

text \<open>The events of an answer, as the loop of the client applies them.\<close>

fun apply_events :: "client_env \<Rightarrow> json list \<Rightarrow> sse_state \<Rightarrow> model_error + sse_state \<times> stream_event list" where
  "apply_events E [] s = Inr (s, [])"
| "apply_events E (v # vs) s =
     (case apply_anthropic_sse_json E v s of
        Inl e \<Rightarrow> Inl e
      | Inr (s1, evs) \<Rightarrow>
          (case apply_events E vs s1 of Inl e \<Rightarrow> Inl e | Inr (s2, evs2) \<Rightarrow> Inr (s2, evs @ evs2)))"

lemma apply_events_append:
  "apply_events E vs s = Inr (s1, evs) \<Longrightarrow> apply_events E (vs @ ws) s =
     (case apply_events E ws s1 of Inl e \<Rightarrow> Inl e | Inr (s2, evs2) \<Rightarrow> Inr (s2, evs @ evs2))"
  by (induction vs arbitrary: s evs) (auto split: sum.splits prod.splits)

section \<open>One call\<close>

lemma digit_char_cases: "d < 10 \<Longrightarrow> of_char (digit_char d) = 48 + d \<and> is_ascii_digit (digit_char d)"
proof -
  have "list_all (\<lambda>d. of_char (digit_char d) = 48 + d \<and> is_ascii_digit (digit_char d)) [0..<10]" by code_simp
  then show "d < 10 \<Longrightarrow> of_char (digit_char d) = 48 + d \<and> is_ascii_digit (digit_char d)" by (simp add: list_all_iff)
qed

lemma digits_value_show_nat: "digits_value (show_nat n) = n \<and> list_all is_ascii_digit (show_nat n) \<and> show_nat n \<noteq> []"
proof (induction n rule: less_induct)
  case (less n)
  show ?case
  proof (cases "n < 10")
    case True
    with digit_char_cases [of n] show ?thesis by (simp add: show_nat.simps [of n] digits_value_def)
  next
    case False
    with digit_char_cases [of "n mod 10"] less [of "n div 10"] show ?thesis
      by (simp add: show_nat.simps [of n] digits_value_def)
  qed
qed

lemma plus_is_no_digit: "\<not> is_ascii_digit (CHR ''+'')"
  by code_simp

lemma parse_u64_show: "parse_u64 (show_nat (unat (i :: u64))) = Some i"
proof -
  have d: "digits_value (show_nat (unat i)) = unat i" "list_all is_ascii_digit (show_nat (unat i))" "show_nat (unat i) \<noteq> []"
    using digits_value_show_nat by blast+
  from d(2,3) plus_is_no_digit have "(case show_nat (unat i) of [] \<Rightarrow> []
      | c # cs \<Rightarrow> if c = CHR ''+'' \<and> cs \<noteq> [] then cs else show_nat (unat i)) = show_nat (unat i)"
    by (cases "show_nat (unat i)") auto
  moreover have "unat i < 2 ^ 64" by (rule order_less_le_trans [OF unsigned_less]) simp
  ultimately show ?thesis using d by (simp add: parse_u64_def Let_def)
qed

lemma index_json_u64 [simp]: "json_as_u64 (index_json i) = Some i"
  by (simp add: index_json_def parse_u64_show)

lemma block_index_member: "Sentinel.json_get v ''index'' = Some (index_json i) \<Longrightarrow> block_index v = i"
  by (simp add: block_index_def or_default_def)

lemma apply_start:
  "apply_anthropic_sse_json E (start_event i cid nm) s =
     Inr (s\<lparr>ss_builds := bt_insert i \<lparr>ta_id = cid, ta_name = nm, ta_partial_json = []\<rparr> (ss_builds s)\<rparr>, [])"
proof -
  have "block_index (start_event i cid nm) = i" by (rule block_index_member) (simp add: start_event_def)
  then show ?thesis
    by (simp add: apply_anthropic_sse_json_def Let_def content_block_start_def json_str_or_def) (simp add: start_event_def json_str_or_def)
qed

lemma apply_fragment:
  "ss_builds s = [(i, acc)] \<Longrightarrow> apply_anthropic_sse_json E (fragment_event i p) s =
     Inr (s\<lparr>ss_builds := [(i, acc\<lparr>ta_partial_json := ta_partial_json acc @ p\<rparr>)]\<rparr>, [])"
proof -
  assume b: "ss_builds s = [(i, acc)]"
  have "block_index (fragment_event i p) = i" by (rule block_index_member) (simp add: fragment_event_def)
  with b show ?thesis
    by (simp add: apply_anthropic_sse_json_def Let_def content_block_delta_def json_str_or_def)
      (simp add: fragment_event_def json_str_or_def member_str_def)
qed

lemma apply_stop:
  "ss_builds s = [(i, acc)] \<Longrightarrow> apply_anthropic_sse_json E (stop_event i) s =
     Inr (s\<lparr>ss_builds := [], ss_finished := bt_insert i
       \<lparr>tc_id = ta_id acc, tc_name = ta_name acc, tc_arguments = tool_arguments E (ta_partial_json acc)\<rparr> (ss_finished s)\<rparr>, [])"
proof -
  assume b: "ss_builds s = [(i, acc)]"
  have "block_index (stop_event i) = i" by (rule block_index_member) (simp add: stop_event_def)
  with b show ?thesis
    by (simp add: apply_anthropic_sse_json_def Let_def content_block_stop_def json_str_or_def)
      (simp add: stop_event_def)
qed

lemma apply_end_event:
  "apply_anthropic_sse_json E (end_event sr) s =
     Inr (s, usage_event (ss_usage s) @ [SeDone (anthropic_stop_reason sr) (map snd (ss_finished s))])"
  by (simp add: apply_anthropic_sse_json_def Let_def message_delta_def update_usage_def json_str_or_def end_event_def member_str_def)

lemma apply_fragments:
  "ss_builds s = [(i, acc)] \<Longrightarrow> apply_events E (map (fragment_event i) ps) s =
     Inr (s\<lparr>ss_builds := [(i, acc\<lparr>ta_partial_json := ta_partial_json acc @ concat ps\<rparr>)]\<rparr>, [])"
  by (induction ps arbitrary: s acc) (simp_all add: apply_fragment)

lemma apply_call:
  assumes "ss_builds s = []"
  shows "apply_events E (call_events x) s =
    Inr (s\<lparr>ss_finished := bt_insert (fst x) (assembled E x) (ss_finished s)\<rparr>, [])"
proof -
  obtain i cid nm ps where x: "x = (i, cid, nm, ps)" by (cases x) auto
  let ?s = "s\<lparr>ss_builds := [(i, \<lparr>ta_id = cid, ta_name = nm, ta_partial_json = []\<rparr>)]\<rparr>"
  have "apply_events E (map (fragment_event i) ps) ?s =
      Inr (s\<lparr>ss_builds := [(i, \<lparr>ta_id = cid, ta_name = nm, ta_partial_json = concat ps\<rparr>)]\<rparr>, [])"
    by (simp add: apply_fragments)
  from apply_events_append [OF this, of "[stop_event i]"] assms show ?thesis
    by (simp add: x call_events_def apply_start apply_stop assembled_def)
qed

section \<open>The calls of an answer\<close>

lemma bt_insert_last: "list_all (\<lambda>e. fst e < k) m \<Longrightarrow> bt_insert k v m = m @ [(k, v)]"
  by (induction m) auto

lemma apply_calls:
  "ss_builds s = [] \<Longrightarrow> list_all (\<lambda>e. list_all (\<lambda>x. fst e < fst x) calls) (ss_finished s) \<Longrightarrow> sorted_wrt (<) (map fst calls) \<Longrightarrow>
   apply_events E (concat (map call_events calls)) s =
     Inr (s\<lparr>ss_finished := ss_finished s @ map (\<lambda>x. (fst x, assembled E x)) calls\<rparr>, [])"
proof (induction calls arbitrary: s)
  case (Cons x calls)
  have "bt_insert (fst x) (assembled E x) (ss_finished s) = ss_finished s @ [(fst x, assembled E x)]"
    by (rule bt_insert_last) (use Cons.prems(2) in \<open>auto simp: list_all_iff\<close>)
  then have 1: "apply_events E (call_events x) s =
      Inr (s\<lparr>ss_finished := ss_finished s @ [(fst x, assembled E x)]\<rparr>, [])"
    using apply_call [OF Cons.prems(1)] by simp
  have "apply_events E (concat (map call_events calls)) (s\<lparr>ss_finished := ss_finished s @ [(fst x, assembled E x)]\<rparr>) =
      Inr (s\<lparr>ss_finished := ss_finished s @ (fst x, assembled E x) # map (\<lambda>x. (fst x, assembled E x)) calls\<rparr>, [])"
    by (subst Cons.IH) (use Cons.prems in \<open>auto simp: list_all_iff\<close>)
  with apply_events_append [OF 1] show ?case by simp
qed simp

text \<open>C37: When an answer streams its tool calls one after the other with ascending indexes, each in any number of
  fragments, \<open>Done\<close> carries exactly these calls in this order, each with the value its joined fragments parse to
  (the empty object for blank or invalid text), after a report of the usage seen.\<close>

theorem streamed_calls_are_assembled:
  assumes "ss_builds s = []" "ss_finished s = []" "sorted_wrt (<) (map fst calls)"
  shows "\<exists>s1. apply_events E (concat (map call_events calls) @ [end_event sr]) s =
     Inr (s1, usage_event (ss_usage s) @ [SeDone (anthropic_stop_reason sr) (map (assembled E) calls)])"
  using apply_events_append [OF apply_calls [OF assms(1) _ assms(3)], of E "[end_event sr]"] assms(2)
  by (simp add: apply_end_event comp_def)

theorem streamed_calls_are_assembled_witness:
  "\<exists>E s1. apply_events E (concat (map call_events [(0, ''a'', ''read_file'', [''{'', ''}'']), (1, ''b'', ''edit'', [])])
       @ [end_event ''tool_use'']) sse_start =
     Inr (s1, [SeDone ToolUse [\<lparr>tc_id = ''a'', tc_name = ''read_file'', tc_arguments = JArray []\<rparr>,
                              \<lparr>tc_id = ''b'', tc_name = ''edit'', tc_arguments = JObject []\<rparr>]])"
proof -
  define E where "E = \<lparr>cl_parse = (\<lambda>s. Inr (JArray [])), cl_print = (\<lambda>_. []), cl_body = (\<lambda>_. Inr [1]),
     cl_response = (\<lambda>_. Inr [2]), cl_chunk = (\<lambda>_. Inr [3]), cl_hashes = (\<lambda>_. Inr [4]), cl_journal_text = (\<lambda>_. []),
     cl_status = show_nat, cl_lower = (\<lambda>s. s)\<rparr>"
  have b: "is_blank []" "\<not> is_blank ''{}''" by code_simp+
  have "tool_arguments E ''{}'' = JArray []" "tool_arguments E [] = JObject []"
    by (simp_all add: tool_arguments_def b E_def)
  with streamed_calls_are_assembled [of sse_start "[(0, ''a'', ''read_file'', [''{'', ''}'']), (1, ''b'', ''edit'', [])]" E "''tool_use''"]
  show ?thesis
    by (auto simp: sse_start_def usage_event_def anthropic_stop_reason_def assembled_def)
qed

section \<open>The client in the style of OpenAI\<close>

definition has_data :: "string \<Rightarrow> bool" where
  "has_data b \<longleftrightarrow> list_ex (\<lambda>l. starts_with ''data:'' (trim_end_ws l)) (str_lines b)"

lemma no_data_no_payload: "\<not> has_data b \<Longrightarrow> sse_block_to_json E b = Inr None"
proof -
  assume "\<not> has_data b"
  then have "data_line l = None" if "l \<in> set (str_lines b)" for l
    using that by (auto simp: has_data_def list_ex_iff data_line_def strip_prefix_def)
  then have "List.map_filter data_line (str_lines b) = []"
    by (induction "str_lines b" arbitrary: b) (auto simp: List.map_filter_def filter_empty_conv)
  then show ?thesis by (simp add: sse_block_to_json_def)
qed

text \<open>C39: A block without data, such as the comment a server sends to keep the connection alive, ends the answer of
  the client in the style of OpenAI: whatever blocks follow, every execution offers the usage seen so far and \<open>Done\<close>
  with the reason \<open>EndTurn\<close> and no tool calls, posts nothing further and publishes the attempt as a success. The client
  of the Messages API skips such a block and goes on with those that follow.\<close>

theorem comment_block_ends_the_answer:
  assumes "\<not> has_data b" "task_exec (openai_blocks E obs n t0 rh (b # bs) stop an s) as"
  shows "sends_of as = map Inr (usage_event (os_usage s) @ [SeDone EndTurn []]) \<and> posts_of as = []
     \<and> (case rh of
          None \<Rightarrow> records_of as = []
        | Some h \<Rightarrow> \<exists>a. records_of as = [a] \<and> at_status a = Success \<and> at_request_hash a = h \<and> at_error_message a = None)
     \<and> anthropic_blocks E obs n t0 rh (b # bs) stop an s' = anthropic_blocks E obs n t0 rh bs stop an s'"
proof -
  note none = no_data_no_payload [OF assms(1), of E]
  from assms(2) have "task_exec (close_answer E obs (os_usage s) an (answer_success E n t0 rh)) as" by (simp add: none)
  then have "closes (os_usage s) rh as" by (rule task_wp_sound [OF _ wp_close_answer_closes])
  then show ?thesis by (auto simp: closes_def usage_event_def none split: option.split)
qed

text \<open>A chunk that ends the answer.\<close>

definition finishes :: "json \<Rightarrow> string \<Rightarrow> bool" where
  "finishes v fr \<longleftrightarrow> Option.bind (first_choice v) (\<lambda>c. nonempty_str c ''finish_reason'') = Some fr \<and> fr \<noteq> ''null''"

lemma finish_events:
  assumes "finishes v fr" "Sentinel.json_get v ''usage'' = Some JNull"
  shows "\<exists>s1 evs calls. apply_openai_sse_line E v s =
     (s1, evs @ [SeUsageReport 0 0 0 0, SeDone (openai_stop_reason fr) calls])"
  using assms by (auto simp: finishes_def apply_openai_sse_line_def Let_def usage_event_def usage_report_from_openai_json_def
      u32_from_json_token_field_def split: prod.split)

text \<open>After a block with \<open>Done\<close> the task is over.\<close>

lemma emit_block_cong:
  assumes "\<And>st. an_done st \<Longrightarrow> k st = k' st" "an_done st \<or> list_ex is_done evs"
  shows "emit_block E obs evs st k = emit_block E obs evs st k'"
  using assms(2)
proof (induction evs arbitrary: st)
  case (Cons ev evs)
  have "(if ok then emit_block E obs evs (st1\<lparr>an_response := r, an_done := an_done st1 \<or> is_done ev\<rparr>) k else TkEnd) =
      (if ok then emit_block E obs evs (st1\<lparr>an_response := r, an_done := an_done st1 \<or> is_done ev\<rparr>) k' else TkEnd)"
    if "an_done st1 = an_done st" for st1 r ok
    using Cons that by auto
  then show ?case
    by (auto simp: observe_event_def put_opt_def Let_def split: sum.split option.split)
qed (use assms(1) in simp)

text \<open>C40: The chunk that ends an answer with \<open>usage: null\<close>, as a server sends it that reports the usage in a chunk
  of its own afterwards, makes the client report a usage of zero, and the chunks after it are never read; the
  request asks for that report (\<open>include_usage\<close>).\<close>

theorem usage_of_the_last_chunk_is_lost:
  assumes "sse_block_to_json E b = Inr (Some v)" "finishes v fr" "Sentinel.json_get v ''usage'' = Some JNull"
  shows "(\<exists>s1 evs calls. apply_openai_sse_line E v s = (s1, evs @ [SeUsageReport 0 0 0 0, SeDone (openai_stop_reason fr) calls]))
     \<and> openai_blocks E obs n t0 rh (b # bs) stop an s = openai_blocks E obs n t0 rh [b] None an s"
proof -
  from finish_events [OF assms(2,3)] obtain s1 evs calls where
    f: "apply_openai_sse_line E v s = (s1, evs @ [SeUsageReport 0 0 0 0, SeDone (openai_stop_reason fr) calls])" by blast
  have "emit_block E obs (evs @ [SeUsageReport 0 0 0 0, SeDone (openai_stop_reason fr) calls]) an
          (\<lambda>an1. if an_done an1 then answer_success E n t0 rh an1 else openai_blocks E obs n t0 rh bs stop an1 s1) =
        emit_block E obs (evs @ [SeUsageReport 0 0 0 0, SeDone (openai_stop_reason fr) calls]) an
          (\<lambda>an1. if an_done an1 then answer_success E n t0 rh an1 else openai_blocks E obs n t0 rh [] None an1 s1)"
    by (rule emit_block_cong) (simp_all add: is_done_def)
  then have "openai_blocks E obs n t0 rh (b # bs) stop an s = openai_blocks E obs n t0 rh [b] None an s"
    by (simp only: openai_blocks.simps(2) [of E obs n t0 rh b] assms(1) sum.case option.case f prod.case)
  with f show ?thesis by blast
qed

end
