(* ===== verification/Recorder_Examples.thy ===== *)
theory Recorder_Examples
  imports Recorder_Properties Stream_Properties
begin

text \<open>A concrete client, journal and answer, and the witnesses of \<open>Recorder_Properties\<close> on them.\<close>

definition ax_done :: json where
  "ax_done = JObject [(''delta'', JObject [(''stop_reason'', JString ''end_turn'')]), (''type'', JString ''message_delta'')]"

definition ax_env :: client_env where
  "ax_env = \<lparr>cl_parse = (\<lambda>s. if s = ''D'' then Inr ax_done else Inl ''no''), cl_print = (\<lambda>_. []), cl_body = (\<lambda>_. Inr [1]),
     cl_response = (\<lambda>_. Inr [2]), cl_chunk = (\<lambda>_. Inr [3]), cl_hashes = (\<lambda>_. Inr [4]), cl_journal_text = (\<lambda>_. []),
     cl_status = show_nat, cl_lower = (\<lambda>s. s)\<rparr>"

definition ax_recorder :: "unit recorder_env" where
  "ax_recorder = \<lparr>rc_request = (\<lambda>_ _ _. Inr [5]), rc_response = (\<lambda>_. Inr [2]), rc_chunk = (\<lambda>_. Inr [6]),
     rc_hashes = (\<lambda>_. Inr [4]), rc_journal_text = (\<lambda>_. [])\<rparr>"

definition ax_ext :: command_ext where
  "ax_ext = ex\<lparr>x_cbor_event := (\<lambda>_. Inr [7])\<rparr>"

definition ax_graph :: mem_graph where
  "ax_graph = \<lparr>mg_store = mem_new Sha256, mg_session_id = [], mg_events = [(ex_hash 1, ex_start)]\<rparr>"

definition ax_config :: completion_config where
  "ax_config = \<lparr>cc_max_tokens = 1, cc_session_id = None, cc_temperature = JNull, cc_first_token_deadline_ms = 5000,
     cc_stream = True, cc_tools = [], cc_fallback_model = None\<rparr>"

definition ax_inner :: anthropic_inner where
  "ax_inner = \<lparr>ai_model = ''m'', ai_base_url = []\<rparr>"

lemma ax_total: "encodes ax_env" "\<exists>b. rc_chunk ax_recorder ch = Inr b" "\<exists>b. x_cbor_event ax_ext w = Inr b"
  "\<not> ms_poisoned (mg_store ax_graph)" "mg_events ax_graph \<noteq> []"
  by (simp_all add: encodes_def ax_env_def ax_recorder_def ax_ext_def ax_graph_def mem_new_def)

lemma ax_answer:
  "sse_events None [] [Inr (as_bytes (''data:D'' @ [LF, LF]))] = ([''data:D''], None)"
  "sse_block_to_json ax_env ''data:D'' = Inr (Some ax_done)"
  "apply_anthropic_sse_json ax_env ax_done sse_start = Inr (sse_start, [SeDone EndTurn []])"
  by code_simp+

theorem recorder_can_overtake_the_client_witness:
  "\<exists>c h e a. channel_reach (mem_journal ax_ext) ax_recorder
       (channel_start (anthropic_complete ax_env ax_inner True [] ax_config) ax_graph ''p'' (ex_hash 5) 0) c
     \<and> done_delivered c \<and> mg_events (js_journal (cs_stream c)) = mg_events ax_graph @ [(h, e)]
     \<and> ev_kind e = ProviderCall ''p'' [a] None \<and> at_status a = Events.RateLimited"
  using recorder_can_overtake_the_client [OF ax_total ax_answer] .

definition ax_attempt :: attempt_record where
  "ax_attempt = \<lparr>at_attempt_number = 1, at_started_at = 0, at_ended_at = 1, at_status = Success, at_request_hash = ex_hash 5,
     at_response_hash = None, at_stream_hash = None, at_error_message = None\<rparr>"

theorem one_call_one_event_witness:
  "\<exists>c h e sh. channel_reach (mem_journal ax_ext) ax_recorder
       (channel_start (TkRecord ax_attempt (send_end (Inr (SeDone EndTurn [])))) ax_graph ''p'' (ex_hash 5) 0) c
     \<and> mg_events (js_journal (cs_stream c)) = mg_events ax_graph @ [(h, e)] \<and> ev_kind e = ProviderCall ''p'' [ax_attempt] sh"
proof -
  let ?c0 = "channel_start (TkRecord ax_attempt (send_end (Inr (SeDone EndTurn [])))) ax_graph ''p'' (ex_hash 5) 0"
  from can_record [OF can_be_start [OF ax_total(4), of ax_ext ax_recorder _ "''p''" "ex_hash 5" 0]]
  have "can_be ax_ext ax_recorder ?c0 (TkSend (Inr (SeDone EndTurn [])) (\<lambda>_. TkEnd)) [] [ax_attempt]"
    by (simp add: send_end_def)
  from can_send [OF this] have "can_be ax_ext ax_recorder ?c0 TkEnd [Inr (SeDone EndTurn [])] [ax_attempt]"
    by (simp add: CHANNEL_CAPACITY_def)
  from can_finish [OF this ax_total(2,3)] obtain c where
    c: "channel_reach (mem_journal ax_ext) ax_recorder ?c0 c" "done_delivered c"
      "\<exists>h e. events_of c = events_of ?c0 @ [(h, e)] \<and> ev_kind e = ProviderCall ''p'' [ax_attempt] (last_success_stream [ax_attempt])"
    by (auto simp: attempts_ok_def ax_attempt_def channel_start_def journaling_stream_new_def ax_graph_def)
  from one_call_one_event [OF c(1)] c(2) obtain c1 h e atts sh where
    e: "mg_events (js_journal (cs_stream c)) = mg_events ax_graph @ [(h, e)]" "ev_kind e = ProviderCall ''p'' atts sh"
    by blast
  from c(3) e have "atts = [ax_attempt]" by (auto simp: channel_start_def journaling_stream_new_def)
  with c(1) e show ?thesis by blast
qed

theorem published_attempts_fit_the_journal_witness:
  "\<exists>as. task_exec (anthropic_complete ax_env ax_inner True [] ax_config) as \<and> length (posts_of as) = 2
     \<and> attempts_ok (records_of as) \<and> length (records_of as) = 2 \<and> reply_status (hd (replies_of as)) \<in> {Some 429, Some 529}
     \<and> limited ax_env (replies_of as ! 0) (records_of as ! 0)"
proof -
  let ?busy = "HrResponse 429 None (Inr []) False []" and ?down = "HrFailed True False []"
  let ?put = "ActPut [1] (Inr (ex_hash 5))" and ?gone = "Inl (BackendUnavailable [])"
  obtain rq where rq: "anthropic_complete ax_env ax_inner True [] ax_config = run_anthropic_stream ax_env ax_inner ax_config True 0 False rq"
    by (simp add: anthropic_complete_def anthropic_leading_system_blocks_def)
  define again where "again n = run_anthropic_stream ax_env ax_inner ax_config True n False rq" for n
  have run: "again n = TkNow (\<lambda>t0. TkPut [1] (request_stored ax_env (n + 1) t0 (\<lambda>t0 rh.
      TkPost rq (anthropic_reply ax_env ax_inner True (n + 1) t0 rh (again (n + 1))))))" for n
    unfolding again_def run_anthropic_stream.simps [of ax_env ax_inner ax_config True n]
    by (simp add: with_fallback_def begin_attempt_def ax_config_def, simp add: ax_env_def)
  have attempt: "task_exec (again n) (?put # ActPost rq r # as)"
    if "task_exec (anthropic_reply ax_env ax_inner True (n + 1) 0 (Some (ex_hash 5)) (again (n + 1)) r) as" for n r as
    unfolding run [of n] request_stored_def
    by (rule exec_now [where t = 0], rule exec_put) (simp only: sum.case, rule exec_post, rule that)
  define rec where "rec n st msg = \<lparr>at_attempt_number = of_nat n, at_started_at = 0, at_ended_at = 0, at_status = st,
     at_request_hash = ex_hash 5, at_response_hash = None, at_stream_hash = None, at_error_message = Some msg\<rparr>"
    for n :: nat and st msg
  have fail: "task_exec (anthropic_reply ax_env ax_inner True n 0 (Some (ex_hash 5)) k ?down)
      [ActRecord (rec n ServerError (model_error_to_string (BackendUnavailable []))), ActSend ?gone True]" for n k
    unfolding anthropic_reply_def http_reply.case attempt_failure_def record_attempt_def send_end_def Let_def option.case
      map_reqwest_send_error_def if_True map_model_error_to_attempt_status_def model_error.case rec_def
    by (intro exec_now [where t = 0] exec_record exec_send exec_end)
  obtain hint msg where reply: "anthropic_reply ax_env ax_inner True 1 0 (Some (ex_hash 5)) k ?busy =
      TkNow (\<lambda>t1. TkRecord ((rec 1 (map_http_status_to_attempt_status ax_env 429) msg)\<lparr>at_ended_at := t1\<rparr>)
        (TkSend hint (\<lambda>_. k)))" for k
    by (simp add: anthropic_reply_def is_success_def record_attempt_def RETRY_MAX_def anthropic_wait_secs_def rec_def Let_def
        eval_nat_numeral)
  let ?first = "rec 1 (map_http_status_to_attempt_status ax_env 429) msg"
  let ?second = "rec 2 ServerError (model_error_to_string (BackendUnavailable []))"
  let ?rest = "[?put, ActPost rq ?down, ActRecord ?second, ActSend ?gone True]"
  have "task_exec (again 1) ?rest" using attempt [of 1, OF fail] by (simp add: numeral_2_eq_2)
  then have "task_exec (anthropic_reply ax_env ax_inner True (0 + 1) 0 (Some (ex_hash 5)) (again (0 + 1)) ?busy)
      (ActRecord ?first # ActSend hint True # ?rest)"
    unfolding add_0 reply by (intro exec_now [where t = 0]) (simp add: rec_def exec_record exec_send)
  then have x: "task_exec (anthropic_complete ax_env ax_inner True [] ax_config)
      (?put # ActPost rq ?busy # ActRecord ?first # ActSend hint True # ?rest)" (is "task_exec _ ?as")
    unfolding rq again_def [symmetric] by (rule attempt)
  have "sorted (map at_started_at (records_of ?as))" by (simp add: rec_def)
  from published_attempts_fit_the_journal [OF disjI1 [OF x] this] x show ?thesis
    by (intro exI [of _ ?as]) simp
qed

theorem chunking_is_irrelevant_witness:
  "sse_events None [] (map Inr [as_bytes ''da'', as_bytes ''ta:D'']) = sse_events None [] (map Inr [as_bytes ''data:D''])"
proof -
  have "utf8_valid (bytes_text (as_bytes ''da''))" "utf8_valid (bytes_text (as_bytes ''ta:D''))" "utf8_valid (bytes_text (as_bytes ''data:D''))"
    by code_simp+
  then show ?thesis
    by (intro chunking_is_irrelevant) (simp_all add: as_bytes_def)
qed

theorem comment_block_ends_the_answer_witness:
  "\<exists>as a. task_exec (openai_blocks ax_env True 1 0 (Some (ex_hash 5)) ['': OPENROUTER PROCESSING'', ''data:D''] None
       answer_start openai_start) as
     \<and> sends_of as = [Inr (SeDone EndTurn [])] \<and> records_of as = [a] \<and> at_status a = Success"
proof -
  have n: "\<not> has_data '': OPENROUTER PROCESSING''" by code_simp
  let ?r = "\<lparr>sy_text = [], sy_tool_calls = [], sy_stop_reason = Some ''end_turn''\<rparr>"
  let ?h = "Inr (ex_hash 6) :: journal_error + hash"
  let ?a = "\<lparr>at_attempt_number = 1, at_started_at = 0, at_ended_at = 0, at_status = Success, at_request_hash = ex_hash 5,
     at_response_hash = Some (ex_hash 6), at_stream_hash = Some (ex_hash 6), at_error_message = None\<rparr>"
  let ?as = "[ActPut [3] ?h, ActSend (Inr (SeDone EndTurn [])) True, ActPut [2] ?h, ActPut [4] ?h, ActRecord ?a]"
  let ?done = "\<lparr>an_hashes = [ex_hash 6], an_response = ?r, an_done = True\<rparr>"
  have e: "cl_chunk ax_env c = Inr [3]" "cl_response ax_env r = Inr [2]" "cl_hashes ax_env hs = Inr [4]" for c r hs
    by (simp_all add: ax_env_def)
  have "task_exec (answer_success ax_env 1 0 (Some (ex_hash 5)) ?done) [ActPut [2] ?h, ActPut [4] ?h, ActRecord ?a]"
    unfolding answer_success_def
    by (simp add: e put_opt_def, rule exec_now [where t = 0], rule exec_put, simp, rule exec_put, simp)
      (intro exec_record exec_end)
  then have "task_exec (close_answer ax_env True None answer_start (answer_success ax_env 1 0 (Some (ex_hash 5)))) ?as"
    unfolding close_answer_def
    by (simp add: e observe_event_def put_opt_def, intro exec_put)
      (simp add: answer_start_def accumulate_response_def stop_reason_label_def exec_send)
  then have x: "task_exec (openai_blocks ax_env True 1 0 (Some (ex_hash 5)) ['': OPENROUTER PROCESSING'', ''data:D''] None
       answer_start openai_start) ?as"
    by (simp add: no_data_no_payload [OF n] openai_start_def)
  from comment_block_ends_the_answer [OF n x] x show ?thesis
    by (intro exI [of _ ?as] exI [of _ ?a]) (simp add: openai_start_def usage_event_def)
qed

definition ax_finish :: json where
  "ax_finish = JObject [(''choices'', JArray [JObject [(''delta'', JObject []), (''finish_reason'', JString ''stop'')]]),
     (''usage'', JNull)]"

theorem usage_of_the_last_chunk_is_lost_witness:
  "\<exists>E. openai_blocks E True 1 0 None [''data:F'', ''data:U''] None answer_start openai_start
     = openai_blocks E True 1 0 None [''data:F''] None answer_start openai_start
     \<and> (\<exists>s1 evs. apply_openai_sse_line E ax_finish openai_start = (s1, evs @ [SeUsageReport 0 0 0 0, SeDone EndTurn []]))"
proof -
  let ?E = "ax_env\<lparr>cl_parse := (\<lambda>s. Inr ax_finish)\<rparr>"
  have p: "List.map_filter data_line (str_lines ''data:F'') = [''F'']" by code_simp
  have b: "sse_block_to_json ?E ''data:F'' = Inr (Some ax_finish)" by (simp add: sse_block_to_json_def p)
  have f: "finishes ax_finish ''stop''" "Sentinel.json_get ax_finish ''usage'' = Some JNull" by code_simp+
  have "snd (apply_openai_sse_line ?E ax_finish openai_start) = [SeUsageReport 0 0 0 0, SeDone EndTurn []]"
    by code_simp
  then obtain s1 where "apply_openai_sse_line ?E ax_finish openai_start = (s1, [] @ [SeUsageReport 0 0 0 0, SeDone EndTurn []])"
    by (metis append_Nil prod.collapse)
  with usage_of_the_last_chunk_is_lost [OF b f] show ?thesis by blast
qed

end
