(* ===== verification/Spec2Isabelle.thy ===== *)
theory Spec2Isabelle
  imports Journal_Properties Bundle_Properties Archive_Properties Report_Properties Redb_Properties
    Agent_Properties Redact Bundle_Import Dispatch_Properties Diff_Properties Run_Examples Replay_Properties Tool_Properties Audit_Properties
    Otel_Examples Recorder_Examples
begin

text \<open>
  A verification development of \<open>akmon\<close>, an agent that writes code and keeps evidence of what it did. The
  program has four parts, each in crates of \<open>src/crates\<close>:

  (1) The evidence core. An agent session is a chain of events, each with the digest of its parent and of the
  objects it refers to, kept in a content-addressed store (\<open>akmon-journal\<close>). A session is exported as a bundle,
  an archive with a manifest, the event stream, the objects and signatures (\<open>akmon-bundle\<close>); bundles are verified
  without the journal, imported, redacted (\<open>akmon-cli\<close>), compared (\<open>akmon-diff\<close>) and replayed (\<open>akmon-replay\<close>).
  A trace of another agent is turned into a session by \<open>akmon-otel\<close>.

  (2) The agent (\<open>akmon-query\<close> on the state machine of \<open>akmon-core/src/fsm\<close>): a turn asks the model, runs the
  tools it calls, answers each call in the transcript and shortens the transcript when it no longer fits.

  (3) Authorisation: the policy engine and the path sandbox of \<open>akmon-core\<close>, which every tool call passes, and the
  hash-chained audit log of its decisions. The tools that change files are in \<open>akmon-tools\<close>.

  (4) The model clients of \<open>akmon-models\<close> and the wrappers that record what they and the tools did.

  \<^bold>\<open>Layout.\<close> A theory of definitions holds one component, in the order of the source, and carries the names of the
  source; a theory \<open>*_Properties\<close> holds its theorems, and \<open>*_Examples\<close> or \<open>Example_Env\<close> the concrete inputs of the
  witnesses.

  \<^item> \<open>Akmon_Prelude\<close>, \<open>Std_Text\<close>: the result type (\<open>'e + 'a\<close>, the error left), machine integers as words, maps with
    the order of insertion, text as lists of characters that stand for bytes, the functions of the standard library
    used. A Rust string is the list of its UTF-8 bytes.
  \<^item> \<open>Hashing\<close>, \<open>Events\<close>, \<open>Object_Store\<close>, \<open>Session_Graph\<close>, \<open>Session_Verify\<close>: \<open>hash.rs\<close>, \<open>event.rs\<close>,
    \<open>object_store.rs\<close>, \<open>session_graph.rs\<close> of \<open>akmon-journal\<close> with the in-memory store and graph; \<open>Redb_Store\<close>,
    \<open>Redb_Graph\<close>, \<open>Redb_Import\<close> the persistent ones (and \<open>journal_meta.rs\<close>, \<open>open.rs\<close>); \<open>Journal_Ops\<close> the two traits as
    the record of operations that the writers of a journal use. Theorems: \<open>Journal_Properties\<close>, \<open>Redb_Properties\<close>.
  \<^item> \<open>Bundle_Manifest\<close>, \<open>Bundle_Events\<close>, \<open>Bundle_Archive\<close>, \<open>Bundle_Verify\<close>, \<open>Signing\<close>, \<open>Sentinel\<close>, \<open>Sanitize\<close>,
    \<open>Verify_Report\<close>, \<open>Render\<close>: the files of \<open>akmon-bundle\<close>. Theorems: \<open>Bundle_Properties\<close>, \<open>Archive_Properties\<close>,
    \<open>Report_Properties\<close>.
  \<^item> \<open>Cli_Journal\<close>, \<open>Bundle_Export\<close>, \<open>Bundle_Import\<close>, \<open>Redact\<close>: \<open>journal_errors.rs\<close>, \<open>bundle_cmd.rs\<close>,
    \<open>bundle_attest.rs\<close>, \<open>redact_cmd.rs\<close> of \<open>akmon-cli\<close>, their lemmas beside the definitions.
  \<^item> \<open>Session_Diff\<close> (theorems in \<open>Diff_Properties\<close>): \<open>akmon-diff\<close>. \<open>Replay\<close>, \<open>Replay_Engine\<close> (\<open>Replay_Properties\<close>):
    \<open>akmon-replay\<close>, which runs the agent of \<open>Agent_Run\<close> on recorded answers.
  \<^item> \<open>Otlp_Trace\<close>, \<open>Otel_Content\<close>, \<open>Otel_Import\<close> (\<open>Otel_Properties\<close>, \<open>Otel_Examples\<close>): \<open>akmon-otel\<close>.
  \<^item> \<open>Policy\<close> (\<open>Policy_Properties\<close>): \<open>policy.rs\<close>, \<open>policy_profiles.rs\<close>, \<open>permission.rs\<close>. \<open>Workspace\<close>: paths,
    \<open>sandbox.rs\<close> and the permissions of a call. \<open>Dispatch\<close> (\<open>Dispatch_Properties\<close>): \<open>dispatch_tool_calls_batch\<close> of
    \<open>akmon-query/src/session.rs\<close>. \<open>File_Tools\<close> (\<open>File_Properties\<close>, \<open>Tool_Properties\<close>): the tools that read and change
    files. \<open>Audit_Chain\<close> (\<open>Audit_Properties\<close>): \<open>audit.rs\<close>, \<open>replay.rs\<close>, \<open>evidence.rs\<close> of \<open>akmon-core\<close>.
  \<^item> \<open>Agent_Fsm\<close> (\<open>Agent_Properties\<close>): the transition table and the executor. \<open>Context_Window\<close> (\<open>Context_Properties\<close>):
    the prompt and what shortens it. \<open>Agent_Run\<close> (\<open>Run_Properties\<close>, \<open>Run_Examples\<close>): \<open>AgentSession::run\<close>.
  \<^item> \<open>Recorder\<close>: \<open>journaling.rs\<close> of \<open>akmon-models\<close> and \<open>akmon-tools\<close> and the events \<open>akmon-query/src/journal.rs\<close> writes.
    \<open>Provider_Task\<close>: the task a model client runs, as the tree of its effects, and the pieces the clients share.
    \<open>Sse_Reader\<close>: the text of an answer and its blocks. \<open>Anthropic\<close>, \<open>Openai_Compat\<close>: \<open>anthropic.rs\<close> and
    \<open>openai_compat.rs\<close>, the requests, the event streams and the tasks. \<open>Provider_Channel\<close>: a task and the recorder that
    reads its channel, side by side. Theorems: \<open>Stream_Properties\<close>, \<open>Recorder_Properties\<close>, \<open>Recorder_Examples\<close>.

  \<^bold>\<open>Interfaces.\<close> The traits of the source that have laws are locales: \<open>object_store\<close> (what a get returns after a put,
  interpreted on the in-memory store) and \<open>session_graph\<close> (what an append does to the history, interpreted on the
  in-memory graph). Code that is not in the repository is a field of a record that grows along the imports:
  \<open>hash_ext\<close> (SHA-256, BLAKE3, the hexadecimal codec), \<open>event_ext\<close> (the CBOR encoder), \<open>manifest_ext\<close>, \<open>bundle_ext\<close>
  (\<open>serde_json\<close>, uuid, time), \<open>frame_ext\<close> (the CBOR decoder), \<open>archive_ext\<close> (tar, zstd), \<open>ed_ext\<close> (Ed25519),
  \<open>sentinel_ext\<close>, \<open>report_ext\<close>, \<open>command_ext\<close>, \<open>replay_ext\<close>; beside them the redb database, the file system, \<open>glob_ext\<close>
  (the glob matcher), \<open>otlp_ext\<close>, \<open>otel_ext\<close>, \<open>plan_ext\<close>, \<open>audit_ext\<close> and the environments of the agent
  (\<open>dispatch_env\<close>, \<open>run_env\<close>, \<open>tool_env\<close>, \<open>recorder_env\<close>, \<open>client_env\<close>). What the code relies on
  is a named predicate (such as \<open>hash_ext_ok\<close>, \<open>frame_codec_ok\<close>, \<open>redb_ok\<close>, \<open>fs_laws\<close>, \<open>audit_printer_ok\<close>) over such a record:
  the length of a digest, a decoder that reads back what the encoder wrote, a printer that prints two values differently,
  a database that returns what was inserted. Collision freedom is never assumed: theorems that need it give the collision.
  \<open>Example_Env\<close> and the example theories instantiate every parameter and prove the hypotheses there.

  \<^bold>\<open>What the theorems show.\<close> Of the journal: the verifier accepts exactly the linear sessions, the head commits to
  every event and object, what is written through the operations verifies, tampering is reported, and the database
  refines the in-memory graph. Of a bundle: the verifier accepts exactly the complete sessions and agrees with the
  journal's, accepted streams and archives have one reading, the verdict under a policy has an exact condition. Of
  the agent: every run ends, every requested call is answered once and in order, calls run only if every permission
  they name was allowed, and clearing old results touches nothing else. Of the tools: all changes stay in the
  sandbox and are atomic, an edit replaces the only occurrence. Of a model call: it adds at most one event to
  the journal in every interleaving, its attempts are bounded and numbered, streamed tool calls arrive complete. Of the
  audit log, the diff, the replay and the import: what their verdicts mean and what they keep. Several theorems state behaviour that departs from the documentation;
  they are the lemmas of kind error and the witnesses beside them.

  \<^bold>\<open>Bounds and fuel.\<close> Recursion is structural or has a proved measure, with these exceptions. A run of the agent has
  the fuel \<open>run_fuel\<close>, four steps for each allowed iteration and one: a step of the loop is counted as an iteration,
  or it continues an answer that was cut off, at most three times; the shortening of a transcript inside a step is
  bounded by a constant of the source. \<open>every_run_ends\<close> proves that this fuel always suffices. A JSON value of a trace is decoded with depth
  \<open>json_depth_limit\<close> = 128, the nesting at which \<open>serde_json\<close> refuses a text, so no decoded value reaches it.
  \<open>CREATE_ATTEMPTS\<close> = 8 and \<open>RETRY_MAX\<close> = 5 are constants of the source; the number of attempts is a natural
  number of at most 6. Integers are words of their width where the code adds, casts or saturates; lengths and counters of plans that only count list elements are natural numbers. Floating-point
  thresholds of the context window are integer comparisons, other doubles are kept as the text that denotes them.
  JSON values have their members in order, as the printed form has; equality of parsed values is equality of that form.

  \<^bold>\<open>Effects.\<close> A mutex that the source recovers from poisoning is plain state passing; tasks that run in parallel are
  an order of completion that theorems quantify over, or a step relation (\<open>channel_step\<close> of
  \<open>Provider_Channel\<close>). The clock, fresh identifiers, the network and the model are arguments: a completion is a finite list of stream items, the body of
  an answer the finite list of chunks the connection delivers. Log lines (\<open>tracing\<close>) are left out.

  \<^bold>\<open>Not modelled.\<close> The terminal interface (\<open>akmon-tui\<close>), argument parsing and printing (\<open>main.rs\<close> of \<open>akmon-cli\<close> and of
  \<open>agef-verify\<close>), configuration files (\<open>akmon-config\<close>, deserialised by \<open>toml\<close>), project and language detection and cost
  estimates, the tools that start processes, walk directories or use the network (shell, git, search, web fetch, tool
  servers), the Ollama and Bedrock clients, the Markdown report, and derived serialisers, which are parameters with the laws
  above. Their effect on the modelled parts is only through the arguments named here.
\<close>

end
